(* ===== verification/Geo_Prelude.thy ===== *)
theory Geo_Prelude
  imports Main "HOL-Library.Word" "HOL-Library.Char_ord" "HOL-Library.List_Lexorder"
begin

text \<open>
  The vocabulary every component of the development shares: machine integers, instants and
  durations, \<open>Result\<close> as a sum type, the parts of Rust's standard library the source uses
  (\<open>HashMap\<close>, \<open>BTreeMap\<close>, \<open>str\<close>), the interface of a table as a locale, and the
  collections of rules the component proofs use.

  Naming. The field \<open>f\<close> of a Rust struct \<open>S\<close> is the record field \<open>S_f\<close>, the variant
  \<open>V\<close> of a Rust enum \<open>E\<close> is the constructor \<open>E_V\<close>, and a method \<open>m\<close> of \<open>S\<close>
  is \<open>S_m\<close> where \<open>m\<close> alone is taken.
\<close>

section \<open>Rule collections\<close>

named_theorems store_defs \<open>definitions of the storage operations\<close>
named_theorems flow_defs \<open>definitions of the flow engine\<close>
named_theorems hm_simps \<open>lookup laws of tables\<close>

section \<open>Machine integers, time, results\<close>

type_synonym u8 = "8 word"
type_synonym u32 = "32 word"
type_synonym u64 = "64 word"
type_synonym i32 = int
type_synonym i64 = int

text \<open>
  An instant (\<open>chrono::DateTime<Utc>\<close>) and a signed duration (\<open>chrono::Duration\<close>) are whole
  nanoseconds; a \<open>std::time::Duration\<close> is a non-negative number of nanoseconds.
\<close>

type_synonym DateTime = int
type_synonym ChronoDuration = int
type_synonym Duration = nat

definition secs :: "nat \<Rightarrow> nat" where
  "secs n = n * 1000000000"

text \<open>
  \<open>chrono::Duration::from_std\<close> fails on a duration of more than \<open>i64::MAX\<close> milliseconds.
\<close>

definition chrono_from_std :: "Duration \<Rightarrow> ChronoDuration option" where
  "chrono_from_std d = (if d \<le> (2 ^ 63 - 1) * 1000000 then Some (int d) else None)"

definition unwrap_or :: "'a option \<Rightarrow> 'a \<Rightarrow> 'a" where
  "unwrap_or m d = (case m of None \<Rightarrow> d | Some x \<Rightarrow> x)"

lemma unwrap_or_simps [simp]: "unwrap_or None d = d" "unwrap_or (Some x) d = x"
  by (simp_all add: unwrap_or_def)

text \<open>\<open>Result<T, E>\<close> is \<open>'e + 'a\<close>, with \<open>Inl\<close> the error.\<close>

definition ok_or :: "'a option \<Rightarrow> 'e \<Rightarrow> 'e + 'a" where
  "ok_or m e = (case m of None \<Rightarrow> Inl e | Some x \<Rightarrow> Inr x)"

lemma ok_or_simps [simp]: "ok_or None e = Inl e" "ok_or (Some x) e = Inr x"
  by (simp_all add: ok_or_def)

lemma ok_or_eq_Inr [simp]: "ok_or m e = Inr x \<longleftrightarrow> m = Some x"
  by (cases m) simp_all

lemma ok_or_eq_Inl [simp]: "ok_or m e = Inl e' \<longleftrightarrow> m = None \<and> e' = e"
  by (cases m) auto

section \<open>Saturating arithmetic\<close>

definition saturating_add :: "'a::len word \<Rightarrow> 'a word \<Rightarrow> 'a word" where
  "saturating_add x y = (if unat x + unat y < 2 ^ LENGTH('a) then x + y else - 1)"

definition saturating_sub :: "'a::len word \<Rightarrow> 'a word \<Rightarrow> 'a word" where
  "saturating_sub x y = (if x < y then 0 else x - y)"

lemma unat_saturating_add:
  "unat (saturating_add (x :: 'a::len word) y) = min (unat x + unat y) (2 ^ LENGTH('a) - 1)"
proof (cases "unat x + unat y < 2 ^ LENGTH('a)")
  case True
  then have "unat (x + y) = unat x + unat y"
    by (simp add: unat_word_ariths)
  with True show ?thesis by (simp add: saturating_add_def)
next
  case False
  then show ?thesis by (simp add: saturating_add_def unsigned_minus_1_eq_mask mask_eq_exp_minus_1)
qed

lemma unat_saturating_sub:
  "unat (saturating_sub (x :: 'a::len word) y) = unat x - unat y"
  by (simp add: saturating_sub_def unat_sub_if' word_less_nat_alt word_le_nat_alt)

section \<open>Tables\<close>

text \<open>
  A \<open>std::collections::HashMap\<close> is the list of its entries in the order in which the map
  iterates them. Rust leaves that order open; an insertion here puts the entry first, and no
  theorem of the development depends on the order beyond what it says of the whole list.
\<close>

type_synonym ('k, 'v) hash_map = "('k \<times> 'v) list"

definition hm_insert :: "'k \<Rightarrow> 'v \<Rightarrow> ('k, 'v) hash_map \<Rightarrow> ('k, 'v) hash_map" where
  "hm_insert k v m = (k, v) # filter (\<lambda>e. fst e \<noteq> k) m"

definition hm_remove :: "'k \<Rightarrow> ('k, 'v) hash_map \<Rightarrow> ('k, 'v) hash_map" where
  "hm_remove k m = filter (\<lambda>e. fst e \<noteq> k) m"

definition hm_contains_key :: "('k, 'v) hash_map \<Rightarrow> 'k \<Rightarrow> bool" where
  "hm_contains_key m k = (map_of m k \<noteq> None)"

definition hm_values :: "('k, 'v) hash_map \<Rightarrow> 'v list" where
  "hm_values m = map snd m"

definition hm_retain :: "('k \<Rightarrow> 'v \<Rightarrow> bool) \<Rightarrow> ('k, 'v) hash_map \<Rightarrow> ('k, 'v) hash_map" where
  "hm_retain P m = filter (\<lambda>e. P (fst e) (snd e)) m"

definition hm_map_values :: "('v \<Rightarrow> 'w) \<Rightarrow> ('k, 'v) hash_map \<Rightarrow> ('k, 'w) hash_map" where
  "hm_map_values f m = map (\<lambda>e. (fst e, f (snd e))) m"

text \<open>A table built by the operations has one entry per key.\<close>

definition hm_wf :: "('k, 'v) hash_map \<Rightarrow> bool" where
  "hm_wf m = distinct (map fst m)"

lemma map_of_filter_fst: "map_of (filter (\<lambda>e. P (fst e)) m) k = (if P k then map_of m k else None)"
  by (induction m) auto

lemma map_of_filter_neq:
  "map_of (filter (\<lambda>e. fst e \<noteq> k') m) k = (if k = k' then None else map_of m k)"
  by (induction m) auto

lemma get_hm_insert [hm_simps, simp]: "map_of (hm_insert k v m) = (map_of m)(k \<mapsto> v)"
  by (rule ext) (simp add: hm_insert_def map_of_filter_neq)

lemma get_hm_remove [hm_simps, simp]: "map_of (hm_remove k m) = (map_of m)(k := None)"
  by (rule ext) (simp add: hm_remove_def map_of_filter_neq)

lemma get_hm_retain_key [hm_simps]:
  "map_of (hm_retain (\<lambda>k v. P k) m) k = (if P k then map_of m k else None)"
  unfolding hm_retain_def by (rule map_of_filter_fst)

lemma get_hm_map_values [hm_simps]: "map_of (hm_map_values f m) k = map_option f (map_of m k)"
  by (induction m) (auto simp: hm_map_values_def)

lemma hm_contains_key_iff [hm_simps]: "hm_contains_key m k \<longleftrightarrow> k \<in> dom (map_of m)"
  by (auto simp: hm_contains_key_def dom_def)

lemma distinct_filter_keys: "distinct (map fst m) \<Longrightarrow> distinct (map fst (filter P m))"
  by (induction m) auto

lemma hm_wf_ops:
  "hm_wf []"
  "hm_wf m \<Longrightarrow> hm_wf (hm_insert k v m)"
  "hm_wf m \<Longrightarrow> hm_wf (hm_remove k m)"
  "hm_wf m \<Longrightarrow> hm_wf (hm_retain P m)"
  "hm_wf m \<Longrightarrow> hm_wf (hm_map_values f m)"
  by (auto simp: hm_wf_def hm_insert_def hm_remove_def hm_retain_def hm_map_values_def
      distinct_filter_keys comp_def)

lemma set_hm_values: "hm_wf m \<Longrightarrow> set (hm_values m) = ran (map_of m)"
  by (force simp: hm_values_def hm_wf_def ran_def dest: map_of_SomeD)

lemma hm_entry_iff: "hm_wf m \<Longrightarrow> (k, v) \<in> set m \<longleftrightarrow> map_of m k = Some v"
  by (auto simp: hm_wf_def)

text \<open>
  What a client of a table relies on, whatever the representation: the laws of lookup after
  each operation, and that the operations keep the representation invariant.
\<close>

locale table =
  fixes empty :: "'m"
    and get :: "'m \<Rightarrow> 'k \<Rightarrow> 'v option"
    and ins :: "'k \<Rightarrow> 'v \<Rightarrow> 'm \<Rightarrow> 'm"
    and del :: "'k \<Rightarrow> 'm \<Rightarrow> 'm"
    and invar :: "'m \<Rightarrow> bool"
  assumes get_empty: "get empty k = None"
    and get_ins: "invar m \<Longrightarrow> get (ins k v m) = (get m)(k \<mapsto> v)"
    and get_del: "invar m \<Longrightarrow> get (del k m) = (get m)(k := None)"
    and invar_empty: "invar empty"
    and invar_ins: "invar m \<Longrightarrow> invar (ins k v m)"
    and invar_del: "invar m \<Longrightarrow> invar (del k m)"
begin

lemma get_ins_same: "invar m \<Longrightarrow> get (ins k v m) k = Some v"
  by (simp add: get_ins)

lemma get_ins_other: "invar m \<Longrightarrow> k' \<noteq> k \<Longrightarrow> get (ins k v m) k' = get m k'"
  by (simp add: get_ins)

lemma take_once: "invar m \<Longrightarrow> get (del k m) k = None"
  by (simp add: get_del)

lemma del_keeps_absent: "invar m \<Longrightarrow> get m k' = None \<Longrightarrow> get (del k m) k' = None"
  by (simp add: get_del)

lemma ins_keeps_absent: "invar m \<Longrightarrow> get m k' = None \<Longrightarrow> k \<noteq> k' \<Longrightarrow> get (ins k v m) k' = None"
  by (simp add: get_ins)

end

interpretation hm: table "[]" map_of hm_insert hm_remove hm_wf
  by unfold_locales (simp_all add: hm_wf_ops)

text \<open>
  A \<open>BTreeMap\<close> is the list of its entries sorted by key, without repetition.
\<close>

type_synonym ('k, 'v) btree_map = "('k \<times> 'v) list"

fun bt_insert :: "'k::linorder \<Rightarrow> 'v \<Rightarrow> ('k, 'v) btree_map \<Rightarrow> ('k, 'v) btree_map" where
  "bt_insert k v [] = [(k, v)]"
| "bt_insert k v ((k', v') # m) =
     (if k < k' then (k, v) # (k', v') # m
      else if k = k' then (k, v) # m
      else (k', v') # bt_insert k v m)"

definition bt_remove :: "'k::linorder \<Rightarrow> ('k, 'v) btree_map \<Rightarrow> ('k, 'v) btree_map" where
  "bt_remove k m = filter (\<lambda>e. fst e \<noteq> k) m"

definition bt_extend :: "('k::linorder, 'v) btree_map \<Rightarrow> ('k, 'v) btree_map \<Rightarrow> ('k, 'v) btree_map" where
  "bt_extend m n = fold (\<lambda>e acc. bt_insert (fst e) (snd e) acc) n m"

definition bt_wf :: "('k::linorder, 'v) btree_map \<Rightarrow> bool" where
  "bt_wf m = sorted_wrt (<) (map fst m)"

lemma fst_bt_insert: "fst ` set (bt_insert k v m) = insert k (fst ` set m)"
  by (induction k v m rule: bt_insert.induct) auto

lemma bt_wf_insert: "bt_wf m \<Longrightarrow> bt_wf (bt_insert k v m)"
proof (induction k v m rule: bt_insert.induct)
  case (1 k v)
  then show ?case by (simp add: bt_wf_def)
next
  case (2 k v k' v' m)
  have s: "set (map fst (bt_insert k v m)) = insert k (set (map fst m))"
    using fst_bt_insert by simp
  show ?case
  proof (cases "k < k'")
    case True
    then show ?thesis using "2.prems" by (auto simp: bt_wf_def)
  next
    case False
    then show ?thesis using "2.prems" "2.IH" s by (auto simp: bt_wf_def simp del: set_map)
  qed
qed

lemma get_bt_insert: "bt_wf m \<Longrightarrow> map_of (bt_insert k v m) = (map_of m)(k \<mapsto> v)"
proof (induction k v m rule: bt_insert.induct)
  case (2 k v k' v' m)
  then show ?case by (auto simp: bt_wf_def fun_upd_twist)
qed simp

lemma bt_wf_remove: "bt_wf m \<Longrightarrow> bt_wf (bt_remove k m)"
  by (induction m) (auto simp: bt_wf_def bt_remove_def)

lemma get_bt_remove: "map_of (bt_remove k m) = (map_of m)(k := None)"
  by (rule ext) (simp add: bt_remove_def map_of_filter_neq)

interpretation bt: table "[]" map_of bt_insert bt_remove bt_wf
  by unfold_locales
    (simp_all add: get_bt_insert get_bt_remove bt_wf_insert bt_wf_remove, simp add: bt_wf_def)

lemma bt_wf_extend: "bt_wf m \<Longrightarrow> bt_wf (bt_extend m n)"
  unfolding bt_extend_def by (induction n arbitrary: m) (simp_all add: bt_wf_insert)

section \<open>Strings\<close>

text \<open>
  A Rust \<open>String\<close> is its UTF-8 bytes, a \<open>string\<close> here; \<open>len()\<close> is the number of bytes.
\<close>

definition to_ascii_lowercase :: "char \<Rightarrow> char" where
  "to_ascii_lowercase c =
     (let n = of_char c :: nat in if 65 \<le> n \<and> n \<le> 90 then char_of (n + 32) else c)"

definition eq_ignore_ascii_case :: "string \<Rightarrow> string \<Rightarrow> bool" where
  "eq_ignore_ascii_case s t = (map to_ascii_lowercase s = map to_ascii_lowercase t)"

definition is_ascii_alphanumeric :: "char \<Rightarrow> bool" where
  "is_ascii_alphanumeric c =
     (let n = of_char c :: nat
      in (48 \<le> n \<and> n \<le> 57) \<or> (65 \<le> n \<and> n \<le> 90) \<or> (97 \<le> n \<and> n \<le> 122))"

definition starts_with :: "string \<Rightarrow> string \<Rightarrow> bool" where
  "starts_with s p = (take (length p) s = p)"

definition strip_suffix :: "string \<Rightarrow> string \<Rightarrow> string option" where
  "strip_suffix s x =
     (if length x \<le> length s \<and> drop (length s - length x) s = x
      then Some (take (length s - length x) s) else None)"

definition trim_end_char :: "char \<Rightarrow> string \<Rightarrow> string" where
  "trim_end_char c s = rev (dropWhile (\<lambda>x. x = c) (rev s))"

text \<open>\<open>split(c)\<close>: the pieces between separators; never empty.\<close>

fun split_char :: "char \<Rightarrow> string \<Rightarrow> string list" where
  "split_char c [] = [[]]"
| "split_char c (x # xs) =
     (if x = c then [] # split_char c xs
      else (case split_char c xs of [] \<Rightarrow> [[x]] | p # ps \<Rightarrow> (x # p) # ps))"

text \<open>\<open>split_ascii_whitespace\<close>: the non-empty pieces between runs of ASCII whitespace.\<close>

definition is_ascii_whitespace :: "char \<Rightarrow> bool" where
  "is_ascii_whitespace c = ((of_char c :: nat) \<in> {9, 10, 12, 13, 32})"

fun split_ws_aux :: "string \<Rightarrow> string \<Rightarrow> string list" where
  "split_ws_aux acc [] = (if acc = [] then [] else [rev acc])"
| "split_ws_aux acc (x # xs) =
     (if is_ascii_whitespace x
      then (if acc = [] then split_ws_aux [] xs else rev acc # split_ws_aux [] xs)
      else split_ws_aux (x # acc) xs)"

definition split_ascii_whitespace :: "string \<Rightarrow> string list" where
  "split_ascii_whitespace s = split_ws_aux [] s"

text \<open>\<open>trim_end_matches(pat)\<close> for a non-empty pattern: drop the suffix as often as it occurs.\<close>

function trim_end_matches :: "string \<Rightarrow> string \<Rightarrow> string" where
  "trim_end_matches pat s =
     (if pat = [] then s
      else (case strip_suffix s pat of None \<Rightarrow> s | Some p \<Rightarrow> trim_end_matches pat p))"
  by pat_completeness auto
termination
  by (relation "measure (\<lambda>(pat, s). length s)") 
    (auto simp: strip_suffix_def diff_less_mono2 split: if_splits intro!: diff_less)

declare trim_end_matches.simps [simp del]

text \<open>Decimal text of a natural number (\<open>{n}\<close> in a format string).\<close>

fun show_nat :: "nat \<Rightarrow> string" where
  "show_nat n =
     (if n < 10 then [char_of (48 + n)] else show_nat (n div 10) @ [char_of (48 + n mod 10)])"

declare show_nat.simps [simp del]

definition show_int :: "int \<Rightarrow> string" where
  "show_int i = (if i < 0 then ''-'' @ show_nat (nat (- i)) else show_nat (nat i))"

text \<open>A lower-case hexadecimal digit.\<close>

definition hex_digit :: "nat \<Rightarrow> char" where
  "hex_digit n = char_of (if n < 10 then 48 + n else 87 + n)"

text \<open>
  \<open>chars()\<close>: the characters of a UTF-8 string, each as its bytes. A character starts at every
  byte that is not a continuation byte (\<open>10xxxxxx\<close>).
\<close>

definition is_utf8_continuation :: "char \<Rightarrow> bool" where
  "is_utf8_continuation c = (let n = of_char c :: nat in 128 \<le> n \<and> n < 192)"

fun utf8_chars :: "string \<Rightarrow> string list" where
  "utf8_chars [] = []"
| "utf8_chars (c # cs) =
     (case utf8_chars cs of
        [] \<Rightarrow> [[c]]
      | u # us \<Rightarrow> if is_utf8_continuation (hd u) then (c # u) # us else [c] # u # us)"

text \<open>\<open>join(" ")\<close>.\<close>

fun join_space :: "string list \<Rightarrow> string" where
  "join_space [] = []"
| "join_space [s] = s"
| "join_space (s # t # r) = s @ '' '' @ join_space (t # r)"

lemma starts_with_iff: "starts_with s p \<longleftrightarrow> (\<exists>r. s = p @ r)"
  by (auto simp: starts_with_def) (metis append_take_drop_id)

lemma strip_suffix_eq_Some: "strip_suffix s x = Some p \<longleftrightarrow> s = p @ x"
  by (auto simp: strip_suffix_def) (metis append_take_drop_id)

lemma utf8_chars_ne: "u \<in> set (utf8_chars s) \<Longrightarrow> u \<noteq> []"
  by (induction s arbitrary: u) (auto split: list.splits if_splits)

lemma length_utf8_chars_ascii:
  "\<forall>c\<in>set s. (of_char c :: nat) < 128 \<Longrightarrow> utf8_chars s = map (\<lambda>c. [c]) s"
  by (induction s) (auto simp: is_utf8_continuation_def split: list.splits)

lemma split_char_nonempty [simp]: "split_char c s \<noteq> []"
  by (induction s) (auto split: list.splits)

lemma split_ws_aux_word:
  "\<lbrakk>\<forall>c\<in>set w. \<not> is_ascii_whitespace c; acc \<noteq> [] \<or> w \<noteq> []\<rbrakk>
   \<Longrightarrow> split_ws_aux acc w = [rev acc @ w]"
  by (induction w arbitrary: acc) auto

lemma split_ws_aux_word_space:
  "\<lbrakk>\<forall>c\<in>set w. \<not> is_ascii_whitespace c; acc \<noteq> [] \<or> w \<noteq> []\<rbrakk>
   \<Longrightarrow> split_ws_aux acc (w @ '' '' @ s) = (rev acc @ w) # split_ws_aux [] s"
  by (induction w arbitrary: acc) (auto simp: is_ascii_whitespace_def)

lemma split_join_space:
  assumes "\<forall>w\<in>set ws. w \<noteq> [] \<and> (\<forall>c\<in>set w. \<not> is_ascii_whitespace c)"
  shows "split_ascii_whitespace (join_space ws) = ws"
  using assms
proof (induction ws rule: join_space.induct)
  case 1
  then show ?case by (simp add: split_ascii_whitespace_def)
next
  case (2 s)
  then show ?case by (simp add: split_ascii_whitespace_def split_ws_aux_word)
next
  case (3 s t r)
  then have "split_ascii_whitespace (join_space (t # r)) = t # r" by simp
  moreover have "split_ascii_whitespace (s @ '' '' @ join_space (t # r)) =
      s # split_ascii_whitespace (join_space (t # r))"
    using 3 split_ws_aux_word_space [of s "[]"] by (simp add: split_ascii_whitespace_def)
  ultimately show ?case by simp
qed

lemma split_ws_aux_pieces:
  assumes "w \<in> set (split_ws_aux acc s)" and "\<forall>c\<in>set acc. \<not> is_ascii_whitespace c"
  shows "w \<noteq> [] \<and> (\<forall>c\<in>set w. \<not> is_ascii_whitespace c)"
  using assms
proof (induction acc s rule: split_ws_aux.induct)
  case (1 acc)
  then show ?case by (simp split: if_splits)
next
  case (2 acc x xs)
  show ?case
  proof (cases "is_ascii_whitespace x")
    case True
    with "2.prems" have "w \<in> set (split_ws_aux [] xs) \<or> acc \<noteq> [] \<and> w = rev acc"
      by (auto split: if_splits)
    moreover have "w \<noteq> [] \<and> (\<forall>c\<in>set w. \<not> is_ascii_whitespace c)"
      if "w \<in> set (split_ws_aux [] xs)"
    proof -
      have e: "\<forall>c\<in>set []. \<not> is_ascii_whitespace c" by simp
      show ?thesis
        using "2.IH"(1) [OF True _ that e] "2.IH"(2) [OF True _ that e] by blast
    qed
    ultimately show ?thesis using "2.prems"(2) by fastforce
  next
    case False
    then show ?thesis using "2.IH"(3) "2.prems" by simp
  qed
qed

lemma split_ascii_whitespace_pieces:
  "w \<in> set (split_ascii_whitespace s) \<Longrightarrow> w \<noteq> [] \<and> (\<forall>c\<in>set w. \<not> is_ascii_whitespace c)"
  by (auto simp: split_ascii_whitespace_def dest: split_ws_aux_pieces)

section \<open>Lists\<close>

text \<open>\<open>if !v.contains(&x) { v.push(x) }\<close>.\<close>

definition push_new :: "'a \<Rightarrow> 'a list \<Rightarrow> 'a list" where
  "push_new x xs = (if x \<in> set xs then xs else xs @ [x])"

lemma set_push_new [simp]: "set (push_new x xs) = insert x (set xs)"
  by (auto simp: push_new_def)

lemma distinct_push_new [simp]: "distinct (push_new x xs) = distinct xs"
  by (auto simp: push_new_def)

lemma find_Some_memD: "find P xs = Some x \<Longrightarrow> x \<in> set xs \<and> P x"
  by (auto simp: find_Some_iff)

lemma find_by_key: "\<lbrakk>distinct (map f xs); x \<in> set xs\<rbrakk> \<Longrightarrow> find (\<lambda>y. f y = f x) xs = Some x"
  by (induction xs) force+

lemma find_first:
  "find P xs = Some x \<Longrightarrow> \<exists>before after. xs = before @ x # after \<and> P x \<and> (\<forall>y\<in>set before. \<not> P y)"
proof (induction xs)
  case (Cons y ys)
  show ?case
  proof (cases "P y")
    case True
    with Cons.prems have "y # ys = [] @ x # ys" "P x" by simp_all
    then show ?thesis by fastforce
  next
    case False
    with Cons.prems have "find P ys = Some x" by simp
    from Cons.IH [OF this] obtain before after
      where "ys = before @ x # after" "P x" "\<forall>z\<in>set before. \<not> P z" by blast
    with False have "y # ys = (y # before) @ x # after" "P x" "\<forall>z\<in>set (y # before). \<not> P z" by simp_all
    then show ?thesis by blast
  qed
qed simp

end
