(* ===== verification/Core_Ids.thy ===== *)
theory Core_Ids
  imports Geo_Prelude
begin

text \<open>
  Identifiers, JSON values, attribute values, secrets and the cross-cutting enumerations of
  \<^verbatim>\<open>crates/geonosis-core/src\<close> (\<open>id.rs\<close>, \<open>attribute.rs\<close>, \<open>secret.rs\<close>, \<open>common.rs\<close>,
  \<open>credential.rs\<close>, \<open>subject.rs\<close>). An identifier is a newtype around a ULID (a 128-bit
  number of which the code uses equality only) or around an opaque string; generating a fresh
  one is an argument of the operation that does it.
\<close>

section \<open>Identifiers (\<open>id.rs\<close>)\<close>

type_synonym Ulid = nat

datatype RealmId = RealmId Ulid
datatype UserId = UserId Ulid
datatype ClientId = ClientId Ulid
datatype RoleId = RoleId Ulid
datatype GroupId = GroupId Ulid
datatype FlowId = FlowId Ulid
datatype NodeId = NodeId Ulid
datatype KeyId = KeyId Ulid
datatype CredentialId = CredentialId Ulid
datatype IdpId = IdpId Ulid
datatype SpiBindingId = SpiBindingId Ulid
datatype WasmModuleId = WasmModuleId Ulid
datatype AgentId = AgentId Ulid
datatype BrokerLinkId = BrokerLinkId Ulid
datatype BrokerAuthnStateId = BrokerAuthnStateId Ulid
datatype FlowStateId = FlowStateId Ulid
datatype ConsentGrantId = ConsentGrantId Ulid
datatype OrganizationId = OrganizationId Ulid
datatype OrgDomainId = OrgDomainId Ulid
datatype OrgInvitationId = OrgInvitationId Ulid
datatype OrgRoleId = OrgRoleId Ulid
datatype FederationId = FederationId Ulid
datatype TokenFamilyId = TokenFamilyId Ulid
datatype SessionId = SessionId string
datatype CodeId = CodeId string
datatype RefreshTokenId = RefreshTokenId string

section \<open>JSON and attribute values (\<open>attribute.rs\<close>)\<close>

text \<open>
  A floating-point number is named by its shortest decimal text. A JSON object is a \<open>BTreeMap\<close>
  from keys to values.
\<close>

type_synonym f64 = string

datatype Number = Number_PosInt nat | Number_NegInt int | Number_Float f64

datatype Value =
    Value_Null
  | Value_Bool bool
  | Value_Number Number
  | Value_String string
  | Value_Array "Value list"
  | Value_Object "(string \<times> Value) list"

datatype AttributeValue =
    AttributeValue_String string
  | AttributeValue_Strings "string list"
  | AttributeValue_Integer i64
  | AttributeValue_Bool bool
  | AttributeValue_Float f64
  | AttributeValue_Null

fun AttributeValue_as_str :: "AttributeValue \<Rightarrow> string option" where
  "AttributeValue_as_str (AttributeValue_String s) = Some s"
| "AttributeValue_as_str _ = None"

datatype RequiredAction =
    RequiredAction_UpdatePassword
  | RequiredAction_ConfigureOtp
  | RequiredAction_ConfigureWebauthn
  | RequiredAction_VerifyEmail
  | RequiredAction_UpdateProfile
  | RequiredAction_AcceptTerms
  | RequiredAction_DeleteAccount
  | RequiredAction_Custom string

section \<open>Secrets (\<open>secret.rs\<close>)\<close>

datatype 'a Secret = Secret (expose: 'a)

section \<open>Cross-cutting enumerations (\<open>common.rs\<close>)\<close>

datatype SslRequirement =
  SslRequirement_None | SslRequirement_ExternalRequests | SslRequirement_All

datatype JwsAlgorithm =
  RS256 | RS384 | RS512 | PS256 | PS384 | PS512 | ES256 | ES384 | ES512 | EdDSA | HS256 | HS384 | HS512

fun JwsAlgorithm_as_str :: "JwsAlgorithm \<Rightarrow> string" where
  "JwsAlgorithm_as_str RS256 = ''RS256''"
| "JwsAlgorithm_as_str RS384 = ''RS384''"
| "JwsAlgorithm_as_str RS512 = ''RS512''"
| "JwsAlgorithm_as_str PS256 = ''PS256''"
| "JwsAlgorithm_as_str PS384 = ''PS384''"
| "JwsAlgorithm_as_str PS512 = ''PS512''"
| "JwsAlgorithm_as_str ES256 = ''ES256''"
| "JwsAlgorithm_as_str ES384 = ''ES384''"
| "JwsAlgorithm_as_str ES512 = ''ES512''"
| "JwsAlgorithm_as_str EdDSA = ''EdDSA''"
| "JwsAlgorithm_as_str HS256 = ''HS256''"
| "JwsAlgorithm_as_str HS384 = ''HS384''"
| "JwsAlgorithm_as_str HS512 = ''HS512''"

definition JwsAlgorithm_is_asymmetric :: "JwsAlgorithm \<Rightarrow> bool" where
  "JwsAlgorithm_is_asymmetric a = (a \<notin> {HS256, HS384, HS512})"

datatype SenderConstraint = SenderConstraint_None | SenderConstraint_Dpop | SenderConstraint_Mtls

datatype AuthnLevel =
  AuthnLevel_Anonymous | AuthnLevel_Single | AuthnLevel_Mfa | AuthnLevel_HardwareBound

text \<open>\<open>AuthnLevel\<close> derives \<open>Ord\<close> from its discriminants.\<close>

fun AuthnLevel_rank :: "AuthnLevel \<Rightarrow> nat" where
  "AuthnLevel_rank AuthnLevel_Anonymous = 0"
| "AuthnLevel_rank AuthnLevel_Single = 1"
| "AuthnLevel_rank AuthnLevel_Mfa = 2"
| "AuthnLevel_rank AuthnLevel_HardwareBound = 3"

lemma AuthnLevel_rank_inj: "AuthnLevel_rank a = AuthnLevel_rank b \<longleftrightarrow> a = b"
  by (cases a; cases b) simp_all

instantiation AuthnLevel :: linorder
begin

definition less_eq_AuthnLevel :: "AuthnLevel \<Rightarrow> AuthnLevel \<Rightarrow> bool" where
  "less_eq_AuthnLevel a b = (AuthnLevel_rank a \<le> AuthnLevel_rank b)"

definition less_AuthnLevel :: "AuthnLevel \<Rightarrow> AuthnLevel \<Rightarrow> bool" where
  "less_AuthnLevel a b = (AuthnLevel_rank a < AuthnLevel_rank b)"

instance
  by standard (auto simp: less_eq_AuthnLevel_def less_AuthnLevel_def AuthnLevel_rank_inj)

end

datatype Amr =
    Amr_Pwd | Amr_Otp | Amr_Wbn | Amr_Sms | Amr_Email | Amr_Mfa | Amr_Pop
  | Amr_Custom string

fun Amr_as_token_value :: "Amr \<Rightarrow> string" where
  "Amr_as_token_value Amr_Pwd = ''pwd''"
| "Amr_as_token_value Amr_Otp = ''otp''"
| "Amr_as_token_value Amr_Wbn = ''wbn''"
| "Amr_as_token_value Amr_Sms = ''sms''"
| "Amr_as_token_value Amr_Email = ''email''"
| "Amr_as_token_value Amr_Mfa = ''mfa''"
| "Amr_as_token_value Amr_Pop = ''pop''"
| "Amr_as_token_value (Amr_Custom s) = s"

section \<open>Credentials (\<open>credential.rs\<close>)\<close>

datatype CredentialKind =
    CredentialKind_Password | CredentialKind_Otp | CredentialKind_WebauthnPasswordless
  | CredentialKind_Webauthn | CredentialKind_RecoveryCode | CredentialKind_MagicLink

record CredentialRef =
  CredentialRef_id :: CredentialId
  CredentialRef_kind :: CredentialKind
  CredentialRef_label :: "string option"
  CredentialRef_created_at :: DateTime
  CredentialRef_last_used_at :: "DateTime option"

section \<open>Scope names (\<open>scope.rs\<close>)\<close>

datatype ScopeName = ScopeName (ScopeName_as_str: string)

section \<open>Subjects (\<open>subject.rs\<close>)\<close>

datatype Subject =
    Subject_Local UserId
  | Subject_External string string "UserId option"
  | Subject_ServiceAccount ClientId
  | Subject_Agent AgentId Subject "ScopeName list"

datatype ParentSubject =
    ParentSubject_User UserId
  | ParentSubject_ServiceAccount ClientId
  | ParentSubject_Organization OrganizationId

text \<open>
  \<open>token_sub\<close> prints a ULID (\<open>Display\<close> of the third-party \<open>ulid\<close> crate), the argument
  \<open>show_ulid\<close>.
\<close>

fun Subject_token_sub :: "(Ulid \<Rightarrow> string) \<Rightarrow> Subject \<Rightarrow> string" where
  "Subject_token_sub show_ulid (Subject_Local (UserId u)) = show_ulid u"
| "Subject_token_sub show_ulid (Subject_External idp ext cand) = ext"
| "Subject_token_sub show_ulid (Subject_ServiceAccount (ClientId c)) = ''service-account:'' @ show_ulid c"
| "Subject_token_sub show_ulid (Subject_Agent (AgentId a) parent scopes) = ''agent:'' @ show_ulid a"

text \<open>\<open>user_id_from_subject\<close> of \<^verbatim>\<open>geonosis-protocol-oauth/src/grants.rs\<close>.\<close>

fun user_id_from_subject :: "Subject \<Rightarrow> UserId option" where
  "user_id_from_subject (Subject_Local u) = Some u"
| "user_id_from_subject (Subject_Agent a parent scopes) = user_id_from_subject parent"
| "user_id_from_subject _ = None"

end
