(* ===== verification/Core_Entities.thy ===== *)
theory Core_Entities
  imports Core_Ids
begin

text \<open>
  The persisted entities of \<^verbatim>\<open>crates/geonosis-core/src\<close> as records: realms and their policies,
  users, clients, sessions, code grants and refresh tokens, roles and groups, the user-profile
  schema, agents and organizations. A parsed \<open>url::Url\<close> is its serialization.
\<close>

type_synonym Url = string

section \<open>Realm (\<open>realm.rs\<close>)\<close>

record LoginSettings =
  LoginSettings_remember_me_enabled :: bool
  LoginSettings_login_with_email_allowed :: bool
  LoginSettings_registration_allowed :: bool
  LoginSettings_reset_password_allowed :: bool
  LoginSettings_edit_username_allowed :: bool
  LoginSettings_verify_email_required :: bool
  LoginSettings_duplicate_emails_allowed :: bool

definition LoginSettings_default :: LoginSettings where
  "LoginSettings_default = \<lparr>
     LoginSettings_remember_me_enabled = True,
     LoginSettings_login_with_email_allowed = True,
     LoginSettings_registration_allowed = False,
     LoginSettings_reset_password_allowed = True,
     LoginSettings_edit_username_allowed = False,
     LoginSettings_verify_email_required = False,
     LoginSettings_duplicate_emails_allowed = False\<rparr>"

record RegistrationPolicy =
  RegistrationPolicy_enabled :: bool
  RegistrationPolicy_email_as_username :: bool
  RegistrationPolicy_require_terms_acceptance :: bool

record SessionPolicy =
  SessionPolicy_sso_session_idle :: Duration
  SessionPolicy_sso_session_max :: Duration
  SessionPolicy_remember_me_idle :: Duration
  SessionPolicy_remember_me_max :: Duration

definition SessionPolicy_default :: SessionPolicy where
  "SessionPolicy_default = \<lparr>
     SessionPolicy_sso_session_idle = secs (30 * 60),
     SessionPolicy_sso_session_max = secs (10 * 3600),
     SessionPolicy_remember_me_idle = secs (60 * 24 * 3600),
     SessionPolicy_remember_me_max = secs (180 * 24 * 3600)\<rparr>"

record TokenPolicy =
  TokenPolicy_access_token_lifespan :: Duration
  TokenPolicy_access_token_lifespan_implicit :: Duration
  TokenPolicy_refresh_token_lifespan :: Duration
  TokenPolicy_auth_code_lifespan :: Duration
  TokenPolicy_revoke_refresh_token_on_use :: bool
  TokenPolicy_refresh_token_max_reuse :: u32
  TokenPolicy_default_signing_alg :: JwsAlgorithm
  TokenPolicy_allowed_signing_algs :: "JwsAlgorithm list"
  TokenPolicy_signing_key_alias :: "string option"

definition TokenPolicy_default :: TokenPolicy where
  "TokenPolicy_default = \<lparr>
     TokenPolicy_access_token_lifespan = secs (5 * 60),
     TokenPolicy_access_token_lifespan_implicit = secs (15 * 60),
     TokenPolicy_refresh_token_lifespan = secs (30 * 24 * 3600),
     TokenPolicy_auth_code_lifespan = secs 60,
     TokenPolicy_revoke_refresh_token_on_use = True,
     TokenPolicy_refresh_token_max_reuse = 0,
     TokenPolicy_default_signing_alg = RS256,
     TokenPolicy_allowed_signing_algs = [RS256, ES256, EdDSA],
     TokenPolicy_signing_key_alias = None\<rparr>"

record BruteForcePolicy =
  BruteForcePolicy_enabled :: bool
  BruteForcePolicy_max_login_failures :: u32
  BruteForcePolicy_wait_increment :: Duration
  BruteForcePolicy_max_wait :: Duration
  BruteForcePolicy_failure_reset :: Duration
  BruteForcePolicy_permanent_lockout :: bool

definition BruteForcePolicy_default :: BruteForcePolicy where
  "BruteForcePolicy_default = \<lparr>
     BruteForcePolicy_enabled = True,
     BruteForcePolicy_max_login_failures = 30,
     BruteForcePolicy_wait_increment = secs 60,
     BruteForcePolicy_max_wait = secs (15 * 60),
     BruteForcePolicy_failure_reset = secs (12 * 3600),
     BruteForcePolicy_permanent_lockout = False\<rparr>"

datatype PasswordRule =
    PasswordRule_Length u32
  | PasswordRule_SpecialChars u32
  | PasswordRule_UpperCase u32
  | PasswordRule_LowerCase u32
  | PasswordRule_Digits u32
  | PasswordRule_HashIterations u32
  | PasswordRule_HashAlgorithm string
  | PasswordRule_NotUsername
  | PasswordRule_NotEmail
  | PasswordRule_PasswordHistory u32
  | PasswordRule_Pwned
  | PasswordRule_Expire u32
  | PasswordRule_BlacklistRegex string

record PasswordPolicy =
  PasswordPolicy_rules :: "PasswordRule list"

definition PasswordPolicy_default :: PasswordPolicy where
  "PasswordPolicy_default = \<lparr>PasswordPolicy_rules =
     [PasswordRule_Length 8, PasswordRule_HashIterations 3, PasswordRule_HashAlgorithm ''argon2id'']\<rparr>"

datatype OtpKind = OtpKind_Totp | OtpKind_Hotp
datatype OtpAlgorithm = OtpAlgorithm_Sha1 | OtpAlgorithm_Sha256 | OtpAlgorithm_Sha512

record OtpPolicy =
  OtpPolicy_kind :: OtpKind
  OtpPolicy_algorithm :: OtpAlgorithm
  OtpPolicy_digits :: u32
  OtpPolicy_look_ahead_window :: u32
  OtpPolicy_period_seconds :: u32
  OtpPolicy_initial_counter :: u64

record WebauthnPolicy =
  WebauthnPolicy_relying_party_id :: "string option"
  WebauthnPolicy_relying_party_name :: string
  WebauthnPolicy_signature_algorithms :: "string list"
  WebauthnPolicy_attestation_conveyance_preference :: string
  WebauthnPolicy_authenticator_attachment :: "string option"
  WebauthnPolicy_require_resident_key :: bool
  WebauthnPolicy_user_verification :: string
  WebauthnPolicy_assertion_as_step :: bool

datatype AcrRequirement =
    AcrRequirement_Any
  | AcrRequirement_AmrContains "Amr list"
  | AcrRequirement_AllOf "AcrRequirement list"
  | AcrRequirement_AnyOf "AcrRequirement list"
  | AcrRequirement_SenderConstrained SenderConstraint

record AcrLevel =
  AcrLevel_value :: string
  AcrLevel_display_name :: string
  AcrLevel_require :: AcrRequirement

record AcrPolicy =
  AcrPolicy_levels :: "AcrLevel list"

record ThemeBinding =
  ThemeBinding_login :: "string option"
  ThemeBinding_admin :: "string option"
  ThemeBinding_email :: "string option"
  ThemeBinding_account :: "string option"

record LocalizationPolicy =
  LocalizationPolicy_default_locale :: string
  LocalizationPolicy_supported_locales :: "string list"

record EventConfig =
  EventConfig_enabled :: bool
  EventConfig_admin_enabled :: bool
  EventConfig_login_enabled :: bool
  EventConfig_events_listeners :: "string list"
  EventConfig_enabled_events :: "string list"
  EventConfig_retention_days :: u32

record DefaultRoles =
  DefaultRoles_realm_roles :: "RoleId list"
  DefaultRoles_client_roles :: "(string, RoleId list) btree_map"

record OrganizationPolicy =
  OrganizationPolicy_default_invitation_ttl_days :: u32
  OrganizationPolicy_default_role_for_self_signup :: "string option"
  OrganizationPolicy_require_domain_verification :: bool
  OrganizationPolicy_auto_join_on_domain_match :: bool

record Realm =
  Realm_id :: RealmId
  Realm_slug :: string
  Realm_display_name :: string
  Realm_frontend_url :: "Url option"
  Realm_admin_frontend_url :: "Url option"
  Realm_enabled :: bool
  Realm_ssl_required :: SslRequirement
  Realm_login :: LoginSettings
  Realm_registration :: RegistrationPolicy
  Realm_session_policy :: SessionPolicy
  Realm_token_policy :: TokenPolicy
  Realm_brute_force :: BruteForcePolicy
  Realm_password_policy :: PasswordPolicy
  Realm_otp_policy :: OtpPolicy
  Realm_webauthn_policy :: WebauthnPolicy
  Realm_acr_policy :: AcrPolicy
  Realm_sender_constraint_default :: SenderConstraint
  Realm_theme_binding :: ThemeBinding
  Realm_localization :: LocalizationPolicy
  Realm_events :: EventConfig
  Realm_default_groups :: "GroupId list"
  Realm_default_roles :: DefaultRoles
  Realm_organizations_enabled :: bool
  Realm_organization_policy :: OrganizationPolicy
  Realm_created_at :: DateTime
  Realm_updated_at :: DateTime

section \<open>User (\<open>user.rs\<close>)\<close>

record PersonName =
  PersonName_given :: "string option"
  PersonName_family :: "string option"
  PersonName_middle :: "string option"
  PersonName_display :: "string option"

definition PersonName_display_or_concat :: "PersonName \<Rightarrow> string option" where
  "PersonName_display_or_concat n =
     (case PersonName_display n of
        Some d \<Rightarrow> Some d
      | None \<Rightarrow>
          (case (PersonName_given n, PersonName_family n) of
             (Some g, Some f) \<Rightarrow> Some (g @ '' '' @ f)
           | (Some g, None) \<Rightarrow> Some g
           | (None, Some f) \<Rightarrow> Some f
           | (None, None) \<Rightarrow> None))"

record FederationLink =
  FederationLink_source_urn :: string
  FederationLink_external_id :: string
  FederationLink_external_dn :: "string option"
  FederationLink_last_synced_at :: "DateTime option"

record User =
  User_id :: UserId
  User_realm_id :: RealmId
  User_username :: string
  User_email :: "string option"
  User_email_verified :: bool
  User_name :: "PersonName option"
  User_credentials :: "CredentialRef list"
  User_federation :: "FederationLink option"
  User_attributes :: "(string, AttributeValue) btree_map"
  User_required_actions :: "RequiredAction list"
  User_required_flow :: "string option"
  User_organizations :: "OrganizationId list"
  User_enabled :: bool
  User_failed_attempts :: u32
  User_locked_until :: "DateTime option"
  User_last_failed_at :: "DateTime option"
  User_created_at :: DateTime
  User_updated_at :: DateTime

definition User_default :: "UserId \<Rightarrow> RealmId \<Rightarrow> DateTime \<Rightarrow> User" where
  "User_default new_id new_realm now = \<lparr>
     User_id = new_id, User_realm_id = new_realm, User_username = [], User_email = None,
     User_email_verified = False, User_name = None, User_credentials = [], User_federation = None,
     User_attributes = [], User_required_actions = [], User_required_flow = None,
     User_organizations = [], User_enabled = True, User_failed_attempts = 0,
     User_locked_until = None, User_last_failed_at = None,
     User_created_at = now, User_updated_at = now\<rparr>"

section \<open>Client (\<open>client.rs\<close>)\<close>

datatype ClientKind =
    ClientKind_Confidential | ClientKind_Public | ClientKind_BearerOnly
  | ClientKind_ServiceAccount | ClientKind_SamlServiceProvider | ClientKind_ScimClient

record GrantPolicy =
  GrantPolicy_authorization_code :: bool
  GrantPolicy_refresh_token :: bool
  GrantPolicy_client_credentials :: bool
  GrantPolicy_password :: bool
  GrantPolicy_device_code :: bool
  GrantPolicy_token_exchange :: bool

datatype ClientAuthMethod =
    ClientAuthMethod_ClientSecretBasic | ClientAuthMethod_ClientSecretPost
  | ClientAuthMethod_ClientSecretJwt | ClientAuthMethod_PrivateKeyJwt
  | ClientAuthMethod_None | ClientAuthMethod_TlsClientAuth

record FlowBinding =
  FlowBinding_browser :: "FlowId option"
  FlowBinding_direct_grant :: "FlowId option"
  FlowBinding_registration :: "FlowId option"
  FlowBinding_reset_credentials :: "FlowId option"
  FlowBinding_client_authentication :: "FlowId option"

datatype AccessTokenType = AccessTokenType_Jwt | AccessTokenType_Opaque

record ConsentPolicy =
  ConsentPolicy_required :: bool
  ConsentPolicy_display_on_consent_screen :: bool
  ConsentPolicy_consent_screen_text :: "string option"

record RedirectUri =
  RedirectUri_uri :: string
  RedirectUri_wildcard_path :: bool

record Client =
  Client_id :: ClientId
  Client_realm_id :: RealmId
  Client_client_id :: string
  Client_display_name :: "string option"
  Client_kind :: ClientKind
  Client_grants :: GrantPolicy
  Client_auth_method :: ClientAuthMethod
  Client_flow_binding :: FlowBinding
  Client_default_scopes :: "ScopeName list"
  Client_optional_scopes :: "ScopeName list"
  Client_redirect_uris :: "RedirectUri list"
  Client_post_logout_redirect_uris :: "RedirectUri list"
  Client_web_origins :: "string list"
  Client_access_token_type :: AccessTokenType
  Client_consent :: ConsentPolicy
  Client_access_token_lifespan :: "Duration option"
  Client_refresh_token_lifespan :: "Duration option"
  Client_access_token_signing_alg :: "JwsAlgorithm option"
  Client_front_channel_logout_enabled :: bool
  Client_backchannel_logout_url :: "Url option"
  Client_client_authentication_keys :: "string list"
  Client_pairwise_sub_algorithm :: "string option"
  Client_saml_sp_config :: "Value option"
  Client_enabled :: bool
  Client_created_at :: DateTime
  Client_updated_at :: DateTime

section \<open>Session, code grant, refresh token (\<open>session.rs\<close>, \<open>token.rs\<close>)\<close>

record ClientSessionRef =
  ClientSessionRef_client_id :: ClientId
  ClientSessionRef_last_seen_at :: DateTime
  ClientSessionRef_frontchannel_logout :: bool
  ClientSessionRef_backchannel_logout :: bool

record Session =
  Session_id :: SessionId
  Session_realm_id :: RealmId
  Session_user_id :: UserId
  Session_authn_level :: AuthnLevel
  Session_idp_alias :: "string option"
  Session_started_at :: DateTime
  Session_last_seen_at :: DateTime
  Session_expires_at :: DateTime
  Session_clients :: "ClientSessionRef list"

datatype CodeChallengeMethod = CodeChallengeMethod_S256

fun CodeChallengeMethod_as_str :: "CodeChallengeMethod \<Rightarrow> string" where
  "CodeChallengeMethod_as_str CodeChallengeMethod_S256 = ''S256''"

record CodeChallenge =
  CodeChallenge_method :: CodeChallengeMethod
  CodeChallenge_challenge :: string

record CodeGrant =
  CodeGrant_code :: CodeId
  CodeGrant_realm_id :: RealmId
  CodeGrant_client_id :: ClientId
  CodeGrant_user_id :: UserId
  CodeGrant_session_id :: SessionId
  CodeGrant_scope :: "ScopeName list"
  CodeGrant_redirect_uri :: Url
  CodeGrant_code_challenge :: "CodeChallenge option"
  CodeGrant_nonce :: "string option"
  CodeGrant_state :: "string option"
  CodeGrant_amr :: "Amr list"
  CodeGrant_acr :: "string option"
  CodeGrant_auth_time :: DateTime
  CodeGrant_created_at :: DateTime
  CodeGrant_expires_at :: DateTime

record RefreshToken =
  RefreshToken_id :: RefreshTokenId
  RefreshToken_family_id :: TokenFamilyId
  RefreshToken_realm_id :: RealmId
  RefreshToken_client_id :: ClientId
  RefreshToken_user_id :: UserId
  RefreshToken_session_id :: SessionId
  RefreshToken_scope :: "ScopeName list"
  RefreshToken_issued_at :: DateTime
  RefreshToken_expires_at :: DateTime
  RefreshToken_used :: bool

section \<open>Roles and groups (\<open>role.rs\<close>, \<open>group.rs\<close>)\<close>

record CompositeRoles =
  CompositeRoles_realm_roles :: "RoleId list"
  CompositeRoles_client_roles :: "(string, RoleId list) btree_map"

record Role =
  Role_id :: RoleId
  Role_realm_id :: RealmId
  Role_client_id :: "ClientId option"
  Role_name :: string
  Role_description :: "string option"
  Role_composites :: CompositeRoles
  Role_attributes :: "(string, AttributeValue) btree_map"
  Role_created_at :: DateTime
  Role_updated_at :: DateTime

record Group =
  Group_id :: GroupId
  Group_realm_id :: RealmId
  Group_parent_id :: "GroupId option"
  Group_name :: string
  Group_path :: string
  Group_attributes :: "(string, AttributeValue) btree_map"
  Group_realm_role_ids :: "RoleId list"
  Group_client_role_ids :: "(string, RoleId list) btree_map"
  Group_created_at :: DateTime
  Group_updated_at :: DateTime

section \<open>User profile schema (\<open>user_profile.rs\<close>)\<close>

datatype AttributeValidator =
    AttributeValidator_Length "u32 option" "u32 option"
  | AttributeValidator_Pattern string "string option"
  | AttributeValidator_Email
  | AttributeValidator_Uri
  | AttributeValidator_Integer "i64 option" "i64 option"
  | AttributeValidator_DoubleNotNan
  | AttributeValidator_Options "string list"
  | AttributeValidator_Custom string

record AttributeActorSet =
  AttributeActorSet_admin :: bool
  AttributeActorSet_user :: bool

record AttributePermissions =
  AttributePermissions_view :: AttributeActorSet
  AttributePermissions_edit :: AttributeActorSet

definition AttributePermissions_default :: AttributePermissions where
  "AttributePermissions_default = \<lparr>
     AttributePermissions_view = \<lparr>AttributeActorSet_admin = True, AttributeActorSet_user = True\<rparr>,
     AttributePermissions_edit = \<lparr>AttributeActorSet_admin = True, AttributeActorSet_user = True\<rparr>\<rparr>"

record UserAttributeDecl =
  UserAttributeDecl_name :: string
  UserAttributeDecl_display_name :: string
  UserAttributeDecl_required :: bool
  UserAttributeDecl_multivalued :: bool
  UserAttributeDecl_validators :: "AttributeValidator list"
  UserAttributeDecl_permissions :: AttributePermissions
  UserAttributeDecl_group :: "string option"
  UserAttributeDecl_annotations :: "(string, string) btree_map"

definition UserAttributeDecl_builtin :: "string \<Rightarrow> string \<Rightarrow> bool \<Rightarrow> bool \<Rightarrow> UserAttributeDecl" where
  "UserAttributeDecl_builtin name display required multivalued = \<lparr>
     UserAttributeDecl_name = name, UserAttributeDecl_display_name = display,
     UserAttributeDecl_required = required, UserAttributeDecl_multivalued = multivalued,
     UserAttributeDecl_validators = [],
     UserAttributeDecl_permissions = AttributePermissions_default,
     UserAttributeDecl_group = None, UserAttributeDecl_annotations = []\<rparr>"

datatype UnmanagedAttributePolicy =
  UnmanagedAttributePolicy_Reject | UnmanagedAttributePolicy_Allow | UnmanagedAttributePolicy_Hidden

record UserAttributeGroup =
  UserAttributeGroup_name :: string
  UserAttributeGroup_display_name :: string
  UserAttributeGroup_description :: "string option"

record UserProfile =
  UserProfile_realm_id :: RealmId
  UserProfile_attributes :: "UserAttributeDecl list"
  UserProfile_groups :: "UserAttributeGroup list"
  UserProfile_unmanaged_policy :: UnmanagedAttributePolicy
  UserProfile_updated_at :: DateTime

definition UserProfile_default_for :: "DateTime \<Rightarrow> RealmId \<Rightarrow> UserProfile" where
  "UserProfile_default_for now realm_id = \<lparr>
     UserProfile_realm_id = realm_id,
     UserProfile_attributes =
       [UserAttributeDecl_builtin ''username'' ''Username'' True False,
        UserAttributeDecl_builtin ''email'' ''Email'' True False,
        UserAttributeDecl_builtin ''firstName'' ''First name'' False False,
        UserAttributeDecl_builtin ''lastName'' ''Last name'' False False],
     UserProfile_groups = [],
     UserProfile_unmanaged_policy = UnmanagedAttributePolicy_Reject,
     UserProfile_updated_at = now\<rparr>"

definition UserProfile_find :: "UserProfile \<Rightarrow> string \<Rightarrow> UserAttributeDecl option" where
  "UserProfile_find p name = find (\<lambda>a. UserAttributeDecl_name a = name) (UserProfile_attributes p)"

section \<open>Agents (\<open>agent.rs\<close>)\<close>

datatype AgentKind =
    AgentKind_Assistant | AgentKind_Scraper | AgentKind_Webhook | AgentKind_Batch
  | AgentKind_Custom string

record AgentCapability =
  AgentCapability_urn :: string
  AgentCapability_config :: Value

record AgentRateLimit =
  AgentRateLimit_requests_per_minute :: u32
  AgentRateLimit_tokens_per_day :: "u64 option"

datatype AgentAuthMethod =
  AgentAuthMethod_PrivateKeyJwt | AgentAuthMethod_DpopBoundKey | AgentAuthMethod_TokenExchangeOnly

record Agent =
  Agent_id :: AgentId
  Agent_realm_id :: RealmId
  Agent_alias :: string
  Agent_display_name :: string
  Agent_kind :: AgentKind
  Agent_model_hint :: "string option"
  Agent_vendor :: "string option"
  Agent_version :: "string option"
  Agent_parent_subject :: ParentSubject
  Agent_capabilities :: "AgentCapability list"
  Agent_allowed_scopes :: "ScopeName list"
  Agent_allowed_audiences :: "string list"
  Agent_rate_limit :: AgentRateLimit
  Agent_auth_method :: AgentAuthMethod
  Agent_public_jwk :: "Value option"
  Agent_created_at :: DateTime
  Agent_expires_at :: "DateTime option"
  Agent_revoked_at :: "DateTime option"
  Agent_enabled :: bool

section \<open>Organizations (\<open>organization.rs\<close>)\<close>

record OrganizationBranding =
  OrganizationBranding_logo_url :: "Url option"
  OrganizationBranding_primary_color :: "string option"
  OrganizationBranding_theme :: "string option"

record Organization =
  Organization_id :: OrganizationId
  Organization_realm_id :: RealmId
  Organization_alias :: string
  Organization_display_name :: string
  Organization_description :: "string option"
  Organization_attributes :: "(string, AttributeValue) btree_map"
  Organization_branding :: OrganizationBranding
  Organization_default_idp_alias :: "string option"
  Organization_redirect_url :: "Url option"
  Organization_enabled :: bool
  Organization_created_at :: DateTime
  Organization_updated_at :: DateTime

record OrgDomain =
  OrgDomain_id :: OrgDomainId
  OrgDomain_organization_id :: OrganizationId
  OrgDomain_realm_id :: RealmId
  OrgDomain_domain :: string
  OrgDomain_verified :: bool
  OrgDomain_verification_token :: "string option"
  OrgDomain_verified_at :: "DateTime option"

datatype MembershipState =
  MembershipState_Active | MembershipState_Invited | MembershipState_Suspended

record OrgMembership =
  OrgMembership_organization_id :: OrganizationId
  OrgMembership_realm_id :: RealmId
  OrgMembership_user_id :: UserId
  OrgMembership_roles :: "OrgRoleId list"
  OrgMembership_joined_at :: DateTime
  OrgMembership_invited_by :: "UserId option"
  OrgMembership_state :: MembershipState

record OrgInvitation =
  OrgInvitation_id :: OrgInvitationId
  OrgInvitation_organization_id :: OrganizationId
  OrgInvitation_realm_id :: RealmId
  OrgInvitation_email :: string
  OrgInvitation_roles :: "OrgRoleId list"
  OrgInvitation_invited_by :: UserId
  OrgInvitation_token :: "string Secret"
  OrgInvitation_expires_at :: DateTime
  OrgInvitation_accepted_at :: "DateTime option"

datatype OrgPermission =
    OrgPermission_Admin | OrgPermission_InviteMembers | OrgPermission_ManageDomains
  | OrgPermission_ManageIdps | OrgPermission_ManageRoles | OrgPermission_ManageConsent
  | OrgPermission_ViewMembers | OrgPermission_Custom string

record OrgRole =
  OrgRole_id :: OrgRoleId
  OrgRole_organization_id :: OrganizationId
  OrgRole_realm_id :: RealmId
  OrgRole_name :: string
  OrgRole_description :: "string option"
  OrgRole_permissions :: "OrgPermission list"
  OrgRole_built_in :: bool

datatype OrgConsentMode =
  OrgConsentMode_UserDecides | OrgConsentMode_OrgPreApproved | OrgConsentMode_OrgManaged

record OrgConsentPolicy =
  OrgConsentPolicy_id :: ConsentGrantId
  OrgConsentPolicy_organization_id :: OrganizationId
  OrgConsentPolicy_realm_id :: RealmId
  OrgConsentPolicy_client_id :: ClientId
  OrgConsentPolicy_mode :: OrgConsentMode
  OrgConsentPolicy_pre_approved_scopes :: "ScopeName list"
  OrgConsentPolicy_blocked_scopes :: "ScopeName list"
  OrgConsentPolicy_require_admin_approval :: bool
  OrgConsentPolicy_created_by :: UserId
  OrgConsentPolicy_created_at :: DateTime
  OrgConsentPolicy_updated_at :: DateTime

end
