(* ===== verification/Flow_DSL.thy ===== *)
theory Flow_DSL
  imports Core_Ids
begin

text \<open>
  The data of the flow engine, \<^verbatim>\<open>crates/geonosis-flow/src\<close>: flow definitions (\<open>dsl.rs\<close>), the
  state of a running flow (\<open>state.rs\<close>), what the executor receives and answers
  (\<open>executor.rs\<close>) and the outcome of an authenticator (\<open>authenticator.rs\<close>).
\<close>

section \<open>Flow definitions (\<open>dsl.rs\<close>)\<close>

record StartNode =
  StartNode_require_session :: bool

record SuccessNode =
  SuccessNode_acr :: "string option"
  SuccessNode_step_up_required :: bool

datatype NodeKind =
    NodeKind_Start StartNode
  | NodeKind_Render string
  | NodeKind_Authenticator string
  | NodeKind_Broker string
  | NodeKind_Switch string
  | NodeKind_SubFlow string
  | NodeKind_Action string
  | NodeKind_Success SuccessNode
  | NodeKind_Failure string

fun is_Success_kind :: "NodeKind \<Rightarrow> bool" where
  "is_Success_kind (NodeKind_Success s) = True"
| "is_Success_kind _ = False"

fun is_terminal_kind :: "NodeKind \<Rightarrow> bool" where
  "is_terminal_kind (NodeKind_Success s) = True"
| "is_terminal_kind (NodeKind_Failure r) = True"
| "is_terminal_kind _ = False"

datatype Requirement =
  Requirement_Required | Requirement_Optional | Requirement_Alternative | Requirement_Disabled

text \<open>The canvas coordinates are \<open>f32\<close> numbers that no code of the engine reads.\<close>

record NodeLayout =
  NodeLayout_x :: f64
  NodeLayout_y :: f64

record FlowNode =
  FlowNode_id :: NodeId
  FlowNode_display_name :: string
  FlowNode_kind :: NodeKind
  FlowNode_requirement :: Requirement
  FlowNode_config :: Value
  FlowNode_layout :: "NodeLayout option"

datatype EdgeCondition =
    EdgeCondition_Otherwise
  | EdgeCondition_Success
  | EdgeCondition_Failure
  | EdgeCondition_Status string

record Edge =
  Edge_from :: NodeId
  Edge_to :: NodeId
  Edge_on :: EdgeCondition
  Edge_guard :: "(string, Value) btree_map"

record FlowDefinition =
  FlowDefinition_id :: FlowId
  FlowDefinition_realm_id :: RealmId
  FlowDefinition_alias :: string
  FlowDefinition_display_name :: string
  FlowDefinition_version :: i32
  FlowDefinition_start :: NodeId
  FlowDefinition_nodes :: "FlowNode list"
  FlowDefinition_edges :: "Edge list"

section \<open>The state of a running flow (\<open>state.rs\<close>)\<close>

record FlowHistoryEntry =
  FlowHistoryEntry_node :: NodeId
  FlowHistoryEntry_at :: DateTime
  FlowHistoryEntry_outcome :: string

datatype CsrfToken = CsrfToken string

record FlowContext =
  FlowContext_username :: "string option"
  FlowContext_user_id :: "string option"
  FlowContext_client_id :: "string option"
  FlowContext_amr :: "string list"
  FlowContext_authn_level :: i32
  FlowContext_requested_acr :: "string option"
  FlowContext_session_id :: "string option"
  FlowContext_locals :: "(string, Value) btree_map"

definition FlowContext_default :: FlowContext where
  "FlowContext_default = \<lparr>
     FlowContext_username = None, FlowContext_user_id = None, FlowContext_client_id = None,
     FlowContext_amr = [], FlowContext_authn_level = 0, FlowContext_requested_acr = None,
     FlowContext_session_id = None, FlowContext_locals = []\<rparr>"

record FlowState =
  FlowState_id :: FlowStateId
  FlowState_realm_id :: RealmId
  FlowState_flow_id :: FlowId
  FlowState_flow_version :: i32
  FlowState_current_node :: NodeId
  FlowState_history :: "FlowHistoryEntry list"
  FlowState_context :: FlowContext
  FlowState_started_at :: DateTime
  FlowState_last_activity_at :: DateTime
  FlowState_expires_at :: DateTime
  FlowState_csrf_token :: CsrfToken

text \<open>
  The identifier, the CSRF token and the clock reading of \<open>FlowState::fresh\<close> are arguments. A
  \<open>ttl\<close> that \<open>chrono\<close> cannot represent counts as zero.
\<close>

definition FlowState_fresh ::
  "FlowStateId \<Rightarrow> CsrfToken \<Rightarrow> DateTime \<Rightarrow> RealmId \<Rightarrow> FlowId \<Rightarrow> i32 \<Rightarrow> NodeId \<Rightarrow> Duration \<Rightarrow> FlowState" where
  "FlowState_fresh new_id csrf now realm flow_id flow_version start ttl = \<lparr>
     FlowState_id = new_id, FlowState_realm_id = realm, FlowState_flow_id = flow_id,
     FlowState_flow_version = flow_version, FlowState_current_node = start,
     FlowState_history = [], FlowState_context = FlowContext_default,
     FlowState_started_at = now, FlowState_last_activity_at = now,
     FlowState_expires_at = now + unwrap_or (chrono_from_std ttl) 0,
     FlowState_csrf_token = csrf\<rparr>"

section \<open>Inputs and outputs of the executor (\<open>executor.rs\<close>, \<open>authenticator.rs\<close>)\<close>

datatype FlowError =
    FlowError_Invalid string
  | FlowError_DeadEnd string
  | FlowError_Expired
  | FlowError_Internal string

type_synonym FormBody = "(string, string) btree_map"

datatype StepInput =
    StepInput_Start
  | StepInput_Submit FormBody
  | StepInput_IdpCallback "(string, string) btree_map" "(string, string) btree_map"
  | StepInput_Resume

record RenderInstruction =
  RenderInstruction_template :: string
  RenderInstruction_locals :: "(string, Value) btree_map"

datatype FlowFailure =
    FlowFailure_InvalidCredential
  | FlowFailure_UserDisabled
  | FlowFailure_UserNotFound
  | FlowFailure_ConsentDenied
  | FlowFailure_BrokerError string
  | FlowFailure_SpiError string
  | FlowFailure_Other string

datatype StepOutput =
    StepOutput_Render RenderInstruction
  | StepOutput_Redirect string
  | StepOutput_Done Subject
  | StepOutput_Failed FlowFailure

datatype AuthnStepOutcome =
    AuthnStepOutcome_Render RenderInstruction
  | AuthnStepOutcome_Success "string list" i32 "string option" "(string, Value) btree_map"
  | AuthnStepOutcome_Skip
  | AuthnStepOutcome_Failure FlowFailure

definition NoopAuthnDispatcher_dispatch ::
  "string \<Rightarrow> FlowState \<Rightarrow> StepInput \<Rightarrow> FlowError + AuthnStepOutcome" where
  "NoopAuthnDispatcher_dispatch provider_urn state input =
     Inr (AuthnStepOutcome_Render
       \<lparr>RenderInstruction_template = ''authenticate::'' @ provider_urn, RenderInstruction_locals = []\<rparr>)"

end
