(* ===== verification/Flow_Guard.thy ===== *)
theory Flow_Guard
  imports Flow_DSL
begin

text \<open>
  Edge guards, \<^verbatim>\<open>crates/geonosis-flow/src/guard.rs\<close>: a guard is a map from dot paths into the
  JSON projection of the flow context to the values expected there.
\<close>

fun Value_get :: "Value \<Rightarrow> string \<Rightarrow> Value option" where
  "Value_get (Value_Object kvs) k = map_of kvs k"
| "Value_get _ k = None"

definition json_opt_string :: "string option \<Rightarrow> Value" where
  "json_opt_string s = (case s of None \<Rightarrow> Value_Null | Some t \<Rightarrow> Value_String t)"

definition json_int :: "int \<Rightarrow> Value" where
  "json_int i = Value_Number (if i < 0 then Number_NegInt i else Number_PosInt (nat i))"

definition context_as_json :: "FlowContext \<Rightarrow> Value" where
  "context_as_json ctx = Value_Object [(''context'', Value_Object
     [(''amr'', Value_Array (map Value_String (FlowContext_amr ctx))),
      (''authn_level'', json_int (FlowContext_authn_level ctx)),
      (''locals'', Value_Object (FlowContext_locals ctx)),
      (''requested_acr'', json_opt_string (FlowContext_requested_acr ctx)),
      (''session_id'', json_opt_string (FlowContext_session_id ctx)),
      (''user_id'', json_opt_string (FlowContext_user_id ctx)),
      (''username'', json_opt_string (FlowContext_username ctx))])]"

fun resolve_segments :: "Value \<Rightarrow> string list \<Rightarrow> Value option" where
  "resolve_segments cursor [] = Some cursor"
| "resolve_segments cursor (segment # rest) =
     (case Value_get cursor segment of None \<Rightarrow> None | Some v \<Rightarrow> resolve_segments v rest)"

definition resolve_path :: "Value \<Rightarrow> string \<Rightarrow> Value option" where
  "resolve_path value path = resolve_segments value (split_char (CHR ''.'') path)"

fun Number_to_string :: "Number \<Rightarrow> string" where
  "Number_to_string (Number_PosInt n) = show_nat n"
| "Number_to_string (Number_NegInt i) = show_int i"
| "Number_to_string (Number_Float f) = f"

fun json_coerce :: "Value \<Rightarrow> Value \<Rightarrow> bool" where
  "json_coerce (Value_Number a) (Value_String b) = (Number_to_string a = b)"
| "json_coerce (Value_String b) (Value_Number a) = (Number_to_string a = b)"
| "json_coerce (Value_Bool a) (Value_String b) = (a \<and> b = ''true'' \<or> \<not> a \<and> b = ''false'')"
| "json_coerce (Value_String b) (Value_Bool a) = (a \<and> b = ''true'' \<or> \<not> a \<and> b = ''false'')"
| "json_coerce _ _ = False"

definition json_equals :: "Value \<Rightarrow> Value \<Rightarrow> bool" where
  "json_equals actual expected = (actual = expected \<or> json_coerce actual expected)"

definition eval_guard :: "(string, Value) btree_map \<Rightarrow> FlowContext \<Rightarrow> bool" where
  "eval_guard guard ctx =
     (if guard = [] then True
      else let ctx_value = context_as_json ctx in
        list_all (\<lambda>(path, expected).
          case resolve_path ctx_value path of
            Some actual \<Rightarrow> json_equals actual expected
          | None \<Rightarrow> False) guard)"

lemma eval_guard_Nil [simp]: "eval_guard [] ctx"
  by (simp add: eval_guard_def)

lemma eval_guard_iff:
  "eval_guard guard ctx \<longleftrightarrow>
     (\<forall>(path, expected)\<in>set guard. \<exists>actual.
        resolve_path (context_as_json ctx) path = Some actual \<and> json_equals actual expected)"
  by (auto simp: eval_guard_def list_all_iff Let_def split: option.splits)

lemma json_coerce_sym: "json_coerce a b = json_coerce b a"
  by (cases a; cases b) auto

lemma json_equals_sym: "json_equals a b = json_equals b a"
  by (auto simp: json_equals_def json_coerce_sym)

lemma json_equals_refl: "json_equals a a"
  by (simp add: json_equals_def)

lemma eval_guard_append: "eval_guard (g @ h) ctx \<longleftrightarrow> eval_guard g ctx \<and> eval_guard h ctx"
  by (simp add: eval_guard_iff ball_Un)

end
