(* ===== verification/Flow_Compile.thy ===== *)
theory Flow_Compile
  imports Flow_Guard
begin

text \<open>
  The flow validator and compiler, \<^verbatim>\<open>crates/geonosis-flow/src/compile.rs\<close>: the index of nodes,
  the grouping of edges by source, the checks in the order of the code, the walk that looks for a
  reachable success terminal, and the edge lookups \<open>next\<close> and \<open>next_with_guard\<close>.
\<close>

datatype CompileError =
    CompileError_StartMissing NodeId
  | CompileError_DuplicateNode NodeId
  | CompileError_EdgeFromUnknown NodeId
  | CompileError_EdgeToUnknown NodeId
  | CompileError_TerminalWithOutbound NodeId
  | CompileError_NoSuccessReachable
  | CompileError_BadSubflow string

record CompiledFlow =
  CompiledFlow_definition :: FlowDefinition
  CompiledFlow_by_id :: "(NodeId, nat) hash_map"
  CompiledFlow_outbound :: "(NodeId, Edge list) hash_map"

section \<open>Lookups\<close>

text \<open>\<open>node\<close> indexes twice; \<open>None\<close> is the panic of either index.\<close>

definition CompiledFlow_node :: "CompiledFlow \<Rightarrow> NodeId \<Rightarrow> FlowNode option" where
  "CompiledFlow_node flow i =
     (case map_of (CompiledFlow_by_id flow) i of
        None \<Rightarrow> None
      | Some ix \<Rightarrow>
          (let nodes = FlowDefinition_nodes (CompiledFlow_definition flow) in
           if ix < length nodes then Some (nodes ! ix) else None))"

definition CompiledFlow_next :: "CompiledFlow \<Rightarrow> NodeId \<Rightarrow> EdgeCondition \<Rightarrow> NodeId option" where
  "CompiledFlow_next flow from on =
     (case map_of (CompiledFlow_outbound flow) from of
        None \<Rightarrow> None
      | Some edges \<Rightarrow>
          (case find (\<lambda>e. Edge_on e = on) edges of
             Some e \<Rightarrow> Some (Edge_to e)
           | None \<Rightarrow> map_option Edge_to (find (\<lambda>e. Edge_on e = EdgeCondition_Otherwise) edges)))"

definition next_with_guard ::
  "CompiledFlow \<Rightarrow> NodeId \<Rightarrow> EdgeCondition \<Rightarrow> FlowContext \<Rightarrow> NodeId option" where
  "next_with_guard flow from on ctx =
     (case map_of (CompiledFlow_outbound flow) from of
        None \<Rightarrow> None
      | Some edges \<Rightarrow>
          (case find (\<lambda>e. Edge_on e = on \<and> eval_guard (Edge_guard e) ctx) edges of
             Some e \<Rightarrow> Some (Edge_to e)
           | None \<Rightarrow>
               map_option Edge_to
                 (find (\<lambda>e. Edge_on e = EdgeCondition_Otherwise \<and> eval_guard (Edge_guard e) ctx) edges)))"

section \<open>The compiler\<close>

text \<open>The first loop: \<open>ix\<close> counts the nodes seen so far.\<close>

fun index_nodes ::
  "nat \<Rightarrow> (NodeId, nat) hash_map \<Rightarrow> FlowNode list \<Rightarrow> CompileError + (NodeId, nat) hash_map" where
  "index_nodes ix by_id [] = Inr by_id"
| "index_nodes ix by_id (n # ns) =
     (if hm_contains_key by_id (FlowNode_id n)
      then Inl (CompileError_DuplicateNode (FlowNode_id n))
      else index_nodes (Suc ix) (hm_insert (FlowNode_id n) ix by_id) ns)"

fun group_edges ::
  "(NodeId, nat) hash_map \<Rightarrow> (NodeId, Edge list) hash_map \<Rightarrow> Edge list
    \<Rightarrow> CompileError + (NodeId, Edge list) hash_map" where
  "group_edges by_id outbound [] = Inr outbound"
| "group_edges by_id outbound (e # es) =
     (if \<not> hm_contains_key by_id (Edge_from e) then Inl (CompileError_EdgeFromUnknown (Edge_from e))
      else if \<not> hm_contains_key by_id (Edge_to e) then Inl (CompileError_EdgeToUnknown (Edge_to e))
      else group_edges by_id
        (hm_insert (Edge_from e) (unwrap_or (map_of outbound (Edge_from e)) [] @ [e]) outbound) es)"

definition terminal_with_outbound ::
  "(NodeId, Edge list) hash_map \<Rightarrow> FlowNode list \<Rightarrow> FlowNode option" where
  "terminal_with_outbound outbound nodes =
     find (\<lambda>n. is_terminal_kind (FlowNode_kind n) \<and> hm_contains_key outbound (FlowNode_id n)) nodes"

text \<open>
  The walk from the start node. The queue is a stack: \<open>pop\<close> takes the last element and the
  targets are pushed in the order of the edges. It returns the visited nodes and whether one of
  them is a success terminal.
\<close>

function walk ::
  "(NodeId, Edge list) hash_map \<Rightarrow> (NodeId \<Rightarrow> bool) \<Rightarrow> NodeId list \<Rightarrow> bool \<Rightarrow> NodeId list
    \<Rightarrow> NodeId list \<times> bool" where
  "walk outbound success visited saw [] = (visited, saw)"
| "walk outbound success visited saw (n # stack) =
     (if n \<in> set visited then walk outbound success visited saw stack
      else walk outbound success (n # visited) (saw \<or> success n)
        (rev (map Edge_to (unwrap_or (map_of outbound n) [])) @ stack))"
  by pat_completeness auto
termination
proof (relation "measures [\<lambda>(ob, s, v, w, q). card (dom (map_of ob) - set v),
    \<lambda>(ob, s, v, w, q). length q]", goal_cases)
  case (3 ob s v w n q)
  show ?case
  proof (cases "map_of ob n")
    case None
    then have "dom (map_of ob) - set (n # v) = dom (map_of ob) - set v" by auto
    with None show ?thesis by simp
  next
    case (Some es)
    with 3 have "card (dom (map_of ob) - set (n # v)) < card (dom (map_of ob) - set v)"
      by (intro psubset_card_mono) (auto simp: finite_dom_map_of)
    then show ?thesis by simp
  qed
qed auto

definition compile :: "FlowDefinition \<Rightarrow> CompileError + CompiledFlow" where
  "compile def =
     (case index_nodes 0 [] (FlowDefinition_nodes def) of
        Inl err \<Rightarrow> Inl err
      | Inr by_id \<Rightarrow>
     if \<not> hm_contains_key by_id (FlowDefinition_start def)
     then Inl (CompileError_StartMissing (FlowDefinition_start def))
     else
     (case group_edges by_id [] (FlowDefinition_edges def) of
        Inl err \<Rightarrow> Inl err
      | Inr outbound \<Rightarrow>
     (case terminal_with_outbound outbound (FlowDefinition_nodes def) of
        Some n \<Rightarrow> Inl (CompileError_TerminalWithOutbound (FlowNode_id n))
      | None \<Rightarrow>
     (let flow = \<lparr>CompiledFlow_definition = def, CompiledFlow_by_id = by_id,
            CompiledFlow_outbound = outbound\<rparr>;
          success = (\<lambda>n. case CompiledFlow_node flow n of
              Some node \<Rightarrow> is_Success_kind (FlowNode_kind node) | None \<Rightarrow> False);
          (visited, saw_success) = walk outbound success [] False [FlowDefinition_start def]
      in if \<not> saw_success then Inl CompileError_NoSuccessReachable else Inr flow))))"

section \<open>What a valid definition is\<close>

definition node_ids :: "FlowDefinition \<Rightarrow> NodeId list" where
  "node_ids def = map FlowNode_id (FlowDefinition_nodes def)"

definition edges_from :: "FlowDefinition \<Rightarrow> NodeId \<Rightarrow> Edge list" where
  "edges_from def n = filter (\<lambda>e. Edge_from e = n) (FlowDefinition_edges def)"

inductive flow_reachable :: "FlowDefinition \<Rightarrow> NodeId \<Rightarrow> bool" for def where
  start: "flow_reachable def (FlowDefinition_start def)"
| edge: "\<lbrakk>flow_reachable def (Edge_from e); e \<in> set (FlowDefinition_edges def)\<rbrakk>
     \<Longrightarrow> flow_reachable def (Edge_to e)"

definition graph_ok :: "FlowDefinition \<Rightarrow> bool" where
  "graph_ok def \<longleftrightarrow>
     distinct (node_ids def) \<and> FlowDefinition_start def \<in> set (node_ids def) \<and>
     (\<forall>e\<in>set (FlowDefinition_edges def).
        Edge_from e \<in> set (node_ids def) \<and> Edge_to e \<in> set (node_ids def)) \<and>
     (\<forall>n\<in>set (FlowDefinition_nodes def). is_terminal_kind (FlowNode_kind n) \<longrightarrow>
        edges_from def (FlowNode_id n) = [])"

definition flow_valid :: "FlowDefinition \<Rightarrow> bool" where
  "flow_valid def \<longleftrightarrow> graph_ok def \<and>
     (\<exists>n\<in>set (FlowDefinition_nodes def).
        is_Success_kind (FlowNode_kind n) \<and> flow_reachable def (FlowNode_id n))"

section \<open>Lemmas on the loops\<close>

lemma index_nodes_sound:
  assumes "index_nodes ix m ns = Inr r"
  shows "distinct (map FlowNode_id ns) \<and> FlowNode_id ` set ns \<inter> dom (map_of m) = {} \<and>
    dom (map_of r) = dom (map_of m) \<union> FlowNode_id ` set ns \<and>
    (\<forall>i. i \<notin> FlowNode_id ` set ns \<longrightarrow> map_of r i = map_of m i) \<and>
    (\<forall>j<length ns. map_of r (FlowNode_id (ns ! j)) = Some (ix + j))"
  using assms
proof (induction ix m ns rule: index_nodes.induct)
  case (2 ix by_id n ns)
  from "2.prems" have fresh: "FlowNode_id n \<notin> dom (map_of by_id)"
    and rest: "index_nodes (Suc ix) (hm_insert (FlowNode_id n) ix by_id) ns = Inr r"
    by (auto simp: hm_contains_key_iff split: if_splits)
  note ih = "2.IH" [unfolded hm_contains_key_iff, OF fresh rest]
  have "map_of r (FlowNode_id ((n # ns) ! j)) = Some (ix + j)" if "j < length (n # ns)" for j
  proof (cases j)
    case 0
    have "FlowNode_id n \<notin> FlowNode_id ` set ns" using ih by (auto simp: dom_def)
    with ih have "map_of r (FlowNode_id n) = map_of (hm_insert (FlowNode_id n) ix by_id) (FlowNode_id n)"
      by blast
    with 0 show ?thesis by simp
  next
    case (Suc k)
    with ih that show ?thesis by simp
  qed
  with ih fresh show ?case by auto
qed auto

lemma index_nodes_complete:
  assumes "distinct (map FlowNode_id ns)" and "FlowNode_id ` set ns \<inter> dom (map_of m) = {}"
  shows "\<exists>r. index_nodes ix m ns = Inr r"
  using assms
proof (induction ns arbitrary: ix m)
  case (Cons n ns)
  from Cons.prems have "FlowNode_id ` set ns \<inter> dom (map_of (hm_insert (FlowNode_id n) ix m)) = {}"
    by auto
  with Cons show ?case by (auto simp: hm_contains_key_iff)
qed simp

lemma index_nodes_Inl:
  assumes "index_nodes ix m ns = Inl e"
  shows "\<exists>i. e = CompileError_DuplicateNode i \<and> i \<in> FlowNode_id ` set ns \<and>
    (i \<in> dom (map_of m) \<or> 2 \<le> count_list (map FlowNode_id ns) i)"
  using assms
proof (induction ix m ns rule: index_nodes.induct)
  case (2 ix by_id n ns)
  show ?case
  proof (cases "hm_contains_key by_id (FlowNode_id n)")
    case True
    with "2.prems" show ?thesis by (auto simp: hm_contains_key_iff)
  next
    case False
    with "2.prems" have "index_nodes (Suc ix) (hm_insert (FlowNode_id n) ix by_id) ns = Inl e" by simp
    from "2.IH" [OF False this] obtain i where i: "e = CompileError_DuplicateNode i"
      "i \<in> FlowNode_id ` set ns"
      "i \<in> dom (map_of (hm_insert (FlowNode_id n) ix by_id)) \<or> 2 \<le> count_list (map FlowNode_id ns) i"
      by blast
    have "1 \<le> count_list (map FlowNode_id ns) i"
      using i(2) count_list_0_iff [of "map FlowNode_id ns" i] by (simp add: Suc_le_eq)
    with i show ?thesis by (auto split: if_splits)
  qed
qed simp

lemma group_edges_sound:
  assumes "group_edges by_id ob es = Inr r"
  shows "(\<forall>e\<in>set es. Edge_from e \<in> dom (map_of by_id) \<and> Edge_to e \<in> dom (map_of by_id)) \<and>
    (\<forall>n. map_of r n =
       (let new = filter (\<lambda>e. Edge_from e = n) es in
        if new = [] then map_of ob n else Some (unwrap_or (map_of ob n) [] @ new)))"
  using assms
proof (induction by_id ob es rule: group_edges.induct)
  case (2 by_id ob e es)
  then show ?case by (auto simp: hm_contains_key_iff Let_def split: if_splits)
qed simp

lemma group_edges_complete:
  assumes "\<forall>e\<in>set es. Edge_from e \<in> dom (map_of by_id) \<and> Edge_to e \<in> dom (map_of by_id)"
  shows "\<exists>r. group_edges by_id ob es = Inr r"
  using assms
  by (induction by_id ob es rule: group_edges.induct) (auto simp: hm_contains_key_iff)

lemma group_edges_Inl:
  assumes "group_edges by_id ob es = Inl err"
  shows "\<exists>e\<in>set es. err = CompileError_EdgeFromUnknown (Edge_from e) \<and> Edge_from e \<notin> dom (map_of by_id)
    \<or> err = CompileError_EdgeToUnknown (Edge_to e) \<and> Edge_to e \<notin> dom (map_of by_id)"
  using assms
  by (induction by_id ob es rule: group_edges.induct) (auto simp: hm_contains_key_iff split: if_splits)

section \<open>The walk visits exactly the reachable nodes\<close>

definition succs :: "(NodeId, Edge list) hash_map \<Rightarrow> NodeId \<Rightarrow> NodeId set" where
  "succs ob n = Edge_to ` set (unwrap_or (map_of ob n) [])"

lemma walk_closed:
  assumes "walk ob P vis saw q = (vis', saw')"
    and "\<forall>v\<in>set vis. succs ob v \<subseteq> set vis \<union> set q"
  shows "set vis \<union> set q \<subseteq> set vis' \<and> (\<forall>v\<in>set vis'. succs ob v \<subseteq> set vis')"
  using assms
proof (induction ob P vis saw q rule: walk.induct)
  case (2 ob P vis saw n q)
  show ?case
  proof (cases "n \<in> set vis")
    case True
    with "2.IH"(1) "2.prems" show ?thesis by (auto simp: insert_absorb)
  next
    case False
    have "\<forall>v\<in>set (n # vis). succs ob v \<subseteq> set (n # vis) \<union>
        set (rev (map Edge_to (unwrap_or (map_of ob n) [])) @ q)"
      using "2.prems"(2) by (auto simp: succs_def)
    with False "2.IH"(2) "2.prems"(1) show ?thesis by (auto simp: succs_def)
  qed
qed simp

lemma walk_sound:
  assumes "walk ob P vis saw q = (vis', saw')" and "\<forall>v\<in>set q. R v"
    and "\<And>v w. R v \<Longrightarrow> w \<in> succs ob v \<Longrightarrow> R w"
  shows "\<forall>v\<in>set vis' - set vis. R v"
  using assms
proof (induction ob P vis saw q rule: walk.induct)
  case (2 ob P vis saw n q)
  show ?case
  proof (cases "n \<in> set vis")
    case True
    with 2 show ?thesis by auto
  next
    case False
    have "\<forall>v\<in>set (rev (map Edge_to (unwrap_or (map_of ob n) [])) @ q). R v"
      using "2.prems"(2,3) by (auto simp: succs_def)
    with False "2.IH"(2) "2.prems" show ?thesis by fastforce
  qed
qed simp

lemma walk_saw:
  assumes "walk ob P vis saw q = (vis', saw')" and "saw \<longleftrightarrow> (\<exists>v\<in>set vis. P v)"
  shows "saw' \<longleftrightarrow> (\<exists>v\<in>set vis'. P v)"
  using assms
proof (induction ob P vis saw q rule: walk.induct)
  case (2 ob P vis saw n q)
  have "(saw \<or> P n) \<longleftrightarrow> (\<exists>v\<in>set (n # vis). P v)" using "2.prems"(2) by auto
  then show ?case using 2 by (cases "n \<in> set vis") simp_all
qed simp

lemma flow_reachable_iff:
  assumes ob: "\<And>n. unwrap_or (map_of ob n) [] = edges_from def n"
    and w: "walk ob P [] False [FlowDefinition_start def] = (vis, saw)"
  shows "set vis = {n. flow_reachable def n}"
proof -
  have succ: "w \<in> succs ob v \<longleftrightarrow> (\<exists>e\<in>set (FlowDefinition_edges def). Edge_from e = v \<and> Edge_to e = w)"
    for v w by (auto simp: succs_def ob edges_from_def)
  have "\<forall>v\<in>set vis - set []. flow_reachable def v"
    by (rule walk_sound [OF w]) (auto simp: succ intro: flow_reachable.intros)
  moreover have "n \<in> set vis" if "flow_reachable def n" for n
    using that
  proof induction
    case start
    then show ?case using walk_closed [OF w] by simp
  next
    case (edge e)
    then show ?case using walk_closed [OF w] succ by auto
  qed
  ultimately show ?thesis by auto
qed

section \<open>What the compiler accepts\<close>

text \<open>
  The pieces of a run of the compiler that got past the checks: the indices it built agree with the
  definition, whatever the rest of the run answers.
\<close>

lemma node_lookup:
  assumes "index_nodes 0 [] (FlowDefinition_nodes def) = Inr by_id"
    and "CompiledFlow_definition flow = def" "CompiledFlow_by_id flow = by_id"
  shows "CompiledFlow_node flow i = find (\<lambda>n. FlowNode_id n = i) (FlowDefinition_nodes def)"
proof (cases "i \<in> set (node_ids def)")
  case True
  then obtain j where j: "j < length (FlowDefinition_nodes def)"
    "FlowNode_id (FlowDefinition_nodes def ! j) = i"
    by (auto simp: node_ids_def in_set_conv_nth)
  note ix = index_nodes_sound [OF assms(1)]
  have "FlowNode_id (FlowDefinition_nodes def ! k) \<noteq> i" if "k < j" for k
    using ix j that nth_eq_iff_index_eq [of "map FlowNode_id (FlowDefinition_nodes def)" k j] by auto
  with j have "find (\<lambda>n. FlowNode_id n = i) (FlowDefinition_nodes def) = Some (FlowDefinition_nodes def ! j)"
    by (auto simp: find_Some_iff)
  with ix j assms show ?thesis by (auto simp: CompiledFlow_node_def)
next
  case False
  then have "map_of by_id i = None" using index_nodes_sound [OF assms(1)] by (auto simp: node_ids_def)
  moreover have "find (\<lambda>n. FlowNode_id n = i) (FlowDefinition_nodes def) = None"
    using False by (auto simp: find_None_iff node_ids_def)
  ultimately show ?thesis using assms by (simp add: CompiledFlow_node_def)
qed

lemma outbound_lookup:
  assumes "group_edges by_id [] (FlowDefinition_edges def) = Inr ob"
  shows "map_of ob n = (if edges_from def n = [] then None else Some (edges_from def n))"
  using group_edges_sound [OF assms] by (auto simp: edges_from_def Let_def)

lemma outbound_edges:
  assumes "group_edges by_id [] (FlowDefinition_edges def) = Inr ob"
  shows "unwrap_or (map_of ob n) [] = edges_from def n"
  by (simp add: outbound_lookup [OF assms])

lemma walk_success:
  assumes ix: "index_nodes 0 [] (FlowDefinition_nodes def) = Inr by_id"
    and ob: "group_edges by_id [] (FlowDefinition_edges def) = Inr ob"
    and fl: "CompiledFlow_definition flow = def" "CompiledFlow_by_id flow = by_id"
    and P: "P = (\<lambda>n. case CompiledFlow_node flow n of
        Some node \<Rightarrow> is_Success_kind (FlowNode_kind node) | None \<Rightarrow> False)"
    and w: "walk ob P [] False [FlowDefinition_start def] = (vis, saw)"
  shows "saw \<longleftrightarrow> (\<exists>n\<in>set (FlowDefinition_nodes def).
    is_Success_kind (FlowNode_kind n) \<and> flow_reachable def (FlowNode_id n))"
proof -
  have vis: "set vis = {n. flow_reachable def n}"
    by (rule flow_reachable_iff [OF outbound_edges [OF ob] w])
  have dist: "distinct (map FlowNode_id (FlowDefinition_nodes def))"
    using index_nodes_sound [OF ix] by blast
  have "P i \<longleftrightarrow> (\<exists>n\<in>set (FlowDefinition_nodes def). FlowNode_id n = i \<and> is_Success_kind (FlowNode_kind n))"
    (is "_ \<longleftrightarrow> ?R") for i
  proof
    assume "P i"
    then show ?R by (auto simp: P node_lookup [OF ix fl] split: option.splits dest!: find_Some_memD)
  next
    assume ?R
    then show "P i" using find_by_key [OF dist] by (auto simp: P node_lookup [OF ix fl])
  qed
  moreover have "saw \<longleftrightarrow> (\<exists>v\<in>set vis. P v)"
    by (rule walk_saw [OF w]) simp
  ultimately show ?thesis using vis by auto
qed

lemma terminal_check:
  assumes "group_edges by_id [] (FlowDefinition_edges def) = Inr ob"
  shows "terminal_with_outbound ob (FlowDefinition_nodes def) = None \<longleftrightarrow>
    (\<forall>n\<in>set (FlowDefinition_nodes def). is_terminal_kind (FlowNode_kind n) \<longrightarrow>
       edges_from def (FlowNode_id n) = [])"
  by (auto simp: terminal_with_outbound_def find_None_iff hm_contains_key_def outbound_lookup [OF assms])

lemma compile_cases:
  obtains (dup) i where "compile def = Inl (CompileError_DuplicateNode i)"
      "2 \<le> count_list (node_ids def) i"
  | (start) "compile def = Inl (CompileError_StartMissing (FlowDefinition_start def))"
      "FlowDefinition_start def \<notin> set (node_ids def)"
  | (from_unknown) e where "compile def = Inl (CompileError_EdgeFromUnknown (Edge_from e))"
      "e \<in> set (FlowDefinition_edges def)" "Edge_from e \<notin> set (node_ids def)"
  | (to_unknown) e where "compile def = Inl (CompileError_EdgeToUnknown (Edge_to e))"
      "e \<in> set (FlowDefinition_edges def)" "Edge_to e \<notin> set (node_ids def)"
  | (terminal) n where "compile def = Inl (CompileError_TerminalWithOutbound (FlowNode_id n))"
      "n \<in> set (FlowDefinition_nodes def)" "is_terminal_kind (FlowNode_kind n)"
      "edges_from def (FlowNode_id n) \<noteq> []"
  | (no_success) "compile def = Inl CompileError_NoSuccessReachable" "graph_ok def"
      "\<not> flow_valid def"
  | (ok) flow where "compile def = Inr flow" "flow_valid def"
      "CompiledFlow_definition flow = def"
      "\<And>i. CompiledFlow_node flow i = find (\<lambda>n. FlowNode_id n = i) (FlowDefinition_nodes def)"
      "\<And>i. map_of (CompiledFlow_outbound flow) i =
         (if edges_from def i = [] then None else Some (edges_from def i))"
proof (cases "index_nodes 0 [] (FlowDefinition_nodes def)")
  case (Inl err)
  then obtain i where "err = CompileError_DuplicateNode i" "2 \<le> count_list (node_ids def) i"
    using index_nodes_Inl by (fastforce simp: node_ids_def)
  with Inl dup show ?thesis by (simp add: compile_def)
next
  case ix: (Inr by_id)
  then have dom: "dom (map_of by_id) = set (node_ids def)" and dist: "distinct (node_ids def)"
    using index_nodes_sound by (auto simp: node_ids_def)
  show ?thesis
  proof (cases "FlowDefinition_start def \<in> set (node_ids def)")
    case False
    with ix dom start show ?thesis by (simp add: compile_def hm_contains_key_iff)
  next
    case st: True
    show ?thesis
    proof (cases "group_edges by_id [] (FlowDefinition_edges def)")
      case (Inl err)
      then have c: "compile def = Inl err" using ix st dom by (simp add: compile_def hm_contains_key_iff)
      from group_edges_Inl [OF Inl] show ?thesis
        using c dom from_unknown to_unknown by auto
    next
      case ob: (Inr ob)
      note known = conjunct1 [OF group_edges_sound [OF ob], unfolded dom]
      define flow where "flow = \<lparr>CompiledFlow_definition = def, CompiledFlow_by_id = by_id,
        CompiledFlow_outbound = ob\<rparr>"
      define P where "P = (\<lambda>n. case CompiledFlow_node flow n of
        Some node \<Rightarrow> is_Success_kind (FlowNode_kind node) | None \<Rightarrow> False)"
      show ?thesis
      proof (cases "terminal_with_outbound ob (FlowDefinition_nodes def)")
        case (Some n)
        then have "compile def = Inl (CompileError_TerminalWithOutbound (FlowNode_id n))"
          using ix st dom ob by (simp add: compile_def hm_contains_key_iff)
        with Some terminal show ?thesis
          by (auto simp: terminal_with_outbound_def hm_contains_key_def outbound_lookup [OF ob]
              dest!: find_Some_memD split: if_splits)
      next
        case None
        then have g: "graph_ok def"
          using dist st known terminal_check [OF ob] by (simp add: graph_ok_def)
        obtain vis saw where w: "walk ob P [] False [FlowDefinition_start def] = (vis, saw)"
          by fastforce
        have c: "compile def = (if \<not> saw then Inl CompileError_NoSuccessReachable else Inr flow)"
          using ix st dom ob None w
          by (simp add: compile_def hm_contains_key_iff flow_def [symmetric] P_def [symmetric]
              del: walk.simps)
        have s: "saw \<longleftrightarrow> flow_valid def"
          using walk_success [OF ix ob _ _ P_def w] g by (simp add: flow_def flow_valid_def)
        show ?thesis
        proof (cases saw)
          case False
          with c s g no_success show ?thesis by simp
        next
          case True
          then show ?thesis
            using ok [of flow] c s node_lookup [OF ix] outbound_lookup [OF ob] by (simp add: flow_def)
        qed
      qed
    qed
  qed
qed

lemma compile_Inr:
  assumes "compile def = Inr flow"
  shows "flow_valid def" and "CompiledFlow_definition flow = def"
    and "CompiledFlow_node flow i = find (\<lambda>n. FlowNode_id n = i) (FlowDefinition_nodes def)"
    and "map_of (CompiledFlow_outbound flow) i =
      (if edges_from def i = [] then None else Some (edges_from def i))"
  using assms by (cases def rule: compile_cases; simp)+

lemma distinct_count_list_le: "distinct xs \<Longrightarrow> count_list xs x \<le> 1"
  by (induction xs) (auto simp: count_list_0_iff)

lemma graph_ok_not_dup: "graph_ok def \<Longrightarrow> \<not> 2 \<le> count_list (node_ids def) i"
  using distinct_count_list_le [of "node_ids def" i] by (simp add: graph_ok_def)

lemma compile_iff_valid: "(\<exists>flow. compile def = Inr flow) \<longleftrightarrow> flow_valid def"
proof (cases def rule: compile_cases)
  case (dup i)
  then show ?thesis using graph_ok_not_dup by (auto simp: flow_valid_def)
qed (auto simp: flow_valid_def graph_ok_def)

section \<open>Edge selection\<close>

lemma next_with_guard_compiled:
  assumes "compile def = Inr flow"
  shows "next_with_guard flow n on ctx =
    (case find (\<lambda>e. Edge_on e = on \<and> eval_guard (Edge_guard e) ctx) (edges_from def n) of
       Some e \<Rightarrow> Some (Edge_to e)
     | None \<Rightarrow> map_option Edge_to
         (find (\<lambda>e. Edge_on e = EdgeCondition_Otherwise \<and> eval_guard (Edge_guard e) ctx) (edges_from def n)))"
  by (simp add: next_with_guard_def compile_Inr(4) [OF assms])

lemma next_with_guard_edge:
  assumes "compile def = Inr flow" and "next_with_guard flow n on ctx = Some m"
  obtains e where "e \<in> set (FlowDefinition_edges def)" "Edge_from e = n" "Edge_to e = m"
    "Edge_on e = on \<or> Edge_on e = EdgeCondition_Otherwise" "eval_guard (Edge_guard e) ctx"
  using assms
  by (auto simp: next_with_guard_compiled edges_from_def split: option.splits dest!: find_Some_memD)

lemma next_with_guard_None:
  assumes "compile def = Inr flow"
  shows "next_with_guard flow n on ctx = None \<longleftrightarrow>
    (\<forall>e\<in>set (edges_from def n). Edge_on e = on \<or> Edge_on e = EdgeCondition_Otherwise \<longrightarrow>
       \<not> eval_guard (Edge_guard e) ctx)"
proof (cases "find (\<lambda>e. Edge_on e = on \<and> eval_guard (Edge_guard e) ctx) (edges_from def n)")
  case None
  show ?thesis using None [unfolded find_None_iff]
    by (auto simp: next_with_guard_compiled [OF assms] None find_None_iff)
next
  case (Some e)
  with find_Some_memD [OF Some] show ?thesis by (auto simp: next_with_guard_compiled [OF assms])
qed

section \<open>Properties\<close>

text \<open>
  C26: The compiler accepts a flow definition exactly when its node ids are distinct, the start
  node and the ends of every edge are nodes of the graph, no terminal has an outgoing edge, and some
  success terminal is reachable from the start node along the edges.
\<close>

theorem compile_accepts_iff: "(\<exists>flow. compile def = Inr flow) \<longleftrightarrow> flow_valid def"
  by (rule compile_iff_valid)

text \<open>
  Every error the compiler reports names a defect the definition really has: a node id that
  occurs twice, a start node outside the graph, an edge whose source or target is no node, a
  terminal with an outgoing edge, or (on an otherwise well-formed graph) no reachable success
  terminal. The variant \<open>BadSubflow\<close> is never produced.
\<close>

theorem compile_error_sound:
  assumes "compile def = Inl err"
  shows "case err of
      CompileError_DuplicateNode i \<Rightarrow> 2 \<le> count_list (node_ids def) i
    | CompileError_StartMissing i \<Rightarrow> i = FlowDefinition_start def \<and> i \<notin> set (node_ids def)
    | CompileError_EdgeFromUnknown i \<Rightarrow>
        i \<in> Edge_from ` set (FlowDefinition_edges def) \<and> i \<notin> set (node_ids def)
    | CompileError_EdgeToUnknown i \<Rightarrow>
        i \<in> Edge_to ` set (FlowDefinition_edges def) \<and> i \<notin> set (node_ids def)
    | CompileError_TerminalWithOutbound i \<Rightarrow>
        (\<exists>n\<in>set (FlowDefinition_nodes def). FlowNode_id n = i \<and> is_terminal_kind (FlowNode_kind n))
        \<and> edges_from def i \<noteq> []
    | CompileError_NoSuccessReachable \<Rightarrow> graph_ok def \<and>
        \<not> (\<exists>n\<in>set (FlowDefinition_nodes def).
             is_Success_kind (FlowNode_kind n) \<and> flow_reachable def (FlowNode_id n))
    | CompileError_BadSubflow s \<Rightarrow> False"
  using assms by (cases def rule: compile_cases) (auto simp: flow_valid_def)

definition sample_terminal_edge :: FlowDefinition where
  "sample_terminal_edge =
     (let nd = (\<lambda>i k. \<lparr>FlowNode_id = NodeId i, FlowNode_display_name = [], FlowNode_kind = k,
                 FlowNode_requirement = Requirement_Required, FlowNode_config = Value_Null,
                 FlowNode_layout = None\<rparr>);
          ed = (\<lambda>a b. \<lparr>Edge_from = NodeId a, Edge_to = NodeId b,
                 Edge_on = EdgeCondition_Otherwise, Edge_guard = []\<rparr>)
      in \<lparr>FlowDefinition_id = FlowId 0, FlowDefinition_realm_id = RealmId 0,
          FlowDefinition_alias = ''x'', FlowDefinition_display_name = ''X'',
          FlowDefinition_version = 1, FlowDefinition_start = NodeId 0,
          FlowDefinition_nodes =
            [nd 0 (NodeKind_Start \<lparr>StartNode_require_session = False\<rparr>),
             nd 1 (NodeKind_Success \<lparr>SuccessNode_acr = None, SuccessNode_step_up_required = False\<rparr>),
             nd 2 (NodeKind_Render ''x'')],
          FlowDefinition_edges = [ed 0 1, ed 1 2]\<rparr>)"

theorem compile_error_sound_witness:
  "compile sample_terminal_edge = Inl (CompileError_TerminalWithOutbound (NodeId 1)) \<and>
   edges_from sample_terminal_edge (NodeId 1) \<noteq> []"
proof -
  have "compile sample_terminal_edge = Inl (CompileError_TerminalWithOutbound (NodeId 1))"
    by code_simp
  then show ?thesis using compile_error_sound [of sample_terminal_edge] by simp
qed

text \<open>
  Edge selection of a compiled flow. \<open>next_with_guard\<close> finds no edge exactly when no edge of
  the node that is labelled with the condition or with \<open>Otherwise\<close> has a guard the context
  satisfies. When it finds one, the edge leaves the node, its guard holds, an \<open>Otherwise\<close> edge is
  used only when no edge with the exact condition is eligible, and among the edges with its label
  it is the first eligible one in declaration order.
\<close>

theorem next_with_guard_spec:
  assumes "compile def = Inr flow"
  shows "case next_with_guard flow n on ctx of
      None \<Rightarrow> \<forall>e\<in>set (FlowDefinition_edges def). Edge_from e = n \<longrightarrow>
        Edge_on e = on \<or> Edge_on e = EdgeCondition_Otherwise \<longrightarrow> \<not> eval_guard (Edge_guard e) ctx
    | Some m \<Rightarrow> \<exists>before e after. edges_from def n = before @ e # after \<and> Edge_to e = m \<and>
        eval_guard (Edge_guard e) ctx \<and>
        (Edge_on e = on \<or> Edge_on e = EdgeCondition_Otherwise \<and>
           (\<forall>x\<in>set (edges_from def n). Edge_on x = on \<longrightarrow> \<not> eval_guard (Edge_guard x) ctx)) \<and>
        (\<forall>x\<in>set before. Edge_on x = Edge_on e \<longrightarrow> \<not> eval_guard (Edge_guard x) ctx)"
proof (cases "next_with_guard flow n on ctx")
  case None
  then have "\<forall>e\<in>set (edges_from def n). Edge_on e = on \<or> Edge_on e = EdgeCondition_Otherwise \<longrightarrow>
      \<not> eval_guard (Edge_guard e) ctx"
    using next_with_guard_None [OF assms] by blast
  then show ?thesis by (simp add: None edges_from_def)
next
  case (Some m)
  show ?thesis
  proof (cases "find (\<lambda>e. Edge_on e = on \<and> eval_guard (Edge_guard e) ctx) (edges_from def n)")
    case F: (Some e)
    then have m: "m = Edge_to e" using Some by (simp add: next_with_guard_compiled [OF assms])
    from find_first [OF F] obtain before after where "edges_from def n = before @ e # after"
      "Edge_on e = on" "eval_guard (Edge_guard e) ctx"
      "\<forall>x\<in>set before. Edge_on x = Edge_on e \<longrightarrow> \<not> eval_guard (Edge_guard x) ctx" by blast
    with m show ?thesis unfolding Some option.case by blast
  next
    case F: None
    then obtain e where
      e: "find (\<lambda>e. Edge_on e = EdgeCondition_Otherwise \<and> eval_guard (Edge_guard e) ctx)
            (edges_from def n) = Some e" "m = Edge_to e"
      using Some by (auto simp: next_with_guard_compiled [OF assms])
    from F have "\<forall>x\<in>set (edges_from def n). Edge_on x = on \<longrightarrow> \<not> eval_guard (Edge_guard x) ctx"
      by (auto simp: find_None_iff)
    moreover from find_first [OF e(1)] obtain before after where
      "edges_from def n = before @ e # after" "Edge_on e = EdgeCondition_Otherwise"
      "eval_guard (Edge_guard e) ctx"
      "\<forall>x\<in>set before. Edge_on x = Edge_on e \<longrightarrow> \<not> eval_guard (Edge_guard x) ctx"
      by auto
    ultimately show ?thesis unfolding Some option.case e(2) by blast
  qed
qed

text \<open>The witness: in a start node with two outgoing edges the guard decides.\<close>

definition sample_guarded :: FlowDefinition where
  "sample_guarded =
     (let nd = (\<lambda>i k. \<lparr>FlowNode_id = NodeId i, FlowNode_display_name = [], FlowNode_kind = k,
                 FlowNode_requirement = Requirement_Required, FlowNode_config = Value_Null,
                 FlowNode_layout = None\<rparr>);
          ed = (\<lambda>a b g. \<lparr>Edge_from = NodeId a, Edge_to = NodeId b,
                 Edge_on = EdgeCondition_Otherwise, Edge_guard = g\<rparr>)
      in sample_terminal_edge\<lparr>
          FlowDefinition_nodes :=
            [nd 0 (NodeKind_Start \<lparr>StartNode_require_session = False\<rparr>),
             nd 1 (NodeKind_Success \<lparr>SuccessNode_acr = None, SuccessNode_step_up_required = False\<rparr>),
             nd 2 (NodeKind_Failure ''blocked'')],
          FlowDefinition_edges :=
            [ed 0 1 [(''context.authn_level'', Value_String ''2'')], ed 0 2 []]\<rparr>)"

theorem next_with_guard_spec_witness:
  "\<exists>flow. compile sample_guarded = Inr flow \<and>
     (\<exists>before e after. edges_from sample_guarded (NodeId 0) = before @ e # after \<and>
        Edge_to e = NodeId 2 \<and> eval_guard (Edge_guard e) FlowContext_default)"
proof -
  have ok: "(case compile sample_guarded of Inr flow \<Rightarrow>
      next_with_guard flow (NodeId 0) EdgeCondition_Otherwise FlowContext_default = Some (NodeId 2)
    | Inl e \<Rightarrow> False)"
    by code_simp
  then obtain flow where flow: "compile sample_guarded = Inr flow"
    "next_with_guard flow (NodeId 0) EdgeCondition_Otherwise FlowContext_default = Some (NodeId 2)"
    by (auto split: sum.splits)
  then show ?thesis
    using next_with_guard_spec [OF flow(1), of "NodeId 0" EdgeCondition_Otherwise FlowContext_default]
    by auto
qed

end
