(* ===== verification/Flow_Exec.thy ===== *)
theory Flow_Exec
  imports Flow_Compile
begin

text \<open>
  The flow executor, \<^verbatim>\<open>crates/geonosis-flow/src/executor.rs\<close>. One turn of the loop of
  \<open>DefaultExecutor::step\<close> is \<open>exec_node\<close>; the loop itself is a partial function whose value
  \<open>None\<close> means that it does not return. The clock, the authenticator dispatcher, the
  \<open>Display\<close> of node ids, the parser of user ids and the generator behind \<open>UserId::default\<close>
  are the fields of an environment over a state \<open>'w\<close> of the rest of the world.
\<close>

record 'w FlowEnv =
  utc_now :: "'w \<Rightarrow> DateTime \<times> 'w"
  dispatch :: "string \<Rightarrow> FlowState \<Rightarrow> StepInput \<Rightarrow> 'w \<Rightarrow> (FlowError + AuthnStepOutcome) \<times> 'w"
  show_node_id :: "NodeId \<Rightarrow> string"
  parse_user_id :: "string \<Rightarrow> UserId option"
  fresh_user_id :: "'w \<Rightarrow> UserId \<times> 'w"

text \<open>What a call of \<open>step\<close> answers; \<open>Panic\<close> is an index out of range in \<open>flow.node\<close>.\<close>

datatype StepResult =
    StepResult_Panic
  | StepResult_Err FlowError
  | StepResult_Ok StepOutput

datatype 'w Control =
    Control_Continue FlowState 'w
  | Control_Return StepResult FlowState 'w

text \<open>Addition of \<open>i32\<close> values in the release profile: it wraps.\<close>

definition i32_add :: "i32 \<Rightarrow> i32 \<Rightarrow> i32" where
  "i32_add a b = (a + b + 2 ^ 31) mod 2 ^ 32 - 2 ^ 31"

definition push_history ::
  "'w FlowEnv \<Rightarrow> NodeId \<Rightarrow> string \<Rightarrow> FlowState \<Rightarrow> 'w \<Rightarrow> FlowState \<times> 'w" where
  "push_history env node outcome state w =
     (let (t, w') = utc_now env w in
      (state\<lparr>FlowState_history := FlowState_history state @
         [\<lparr>FlowHistoryEntry_node = node, FlowHistoryEntry_at = t, FlowHistoryEntry_outcome = outcome\<rparr>]\<rparr>,
       w'))"

text \<open>\<open>.ok_or_else(DeadEnd)?; state.current_node = next; continue\<close>.\<close>

definition goto ::
  "'w FlowEnv \<Rightarrow> NodeId \<Rightarrow> NodeId option \<Rightarrow> FlowState \<Rightarrow> 'w \<Rightarrow> 'w Control" where
  "goto env node nxt state w =
     (case nxt of
        Some n \<Rightarrow> Control_Continue (state\<lparr>FlowState_current_node := n\<rparr>) w
      | None \<Rightarrow> Control_Return (StepResult_Err (FlowError_DeadEnd (show_node_id env node))) state w)"

definition next_or_otherwise ::
  "CompiledFlow \<Rightarrow> NodeId \<Rightarrow> EdgeCondition \<Rightarrow> FlowContext \<Rightarrow> NodeId option" where
  "next_or_otherwise flow node on ctx =
     (case next_with_guard flow node on ctx of
        Some n \<Rightarrow> Some n
      | None \<Rightarrow> next_with_guard flow node EdgeCondition_Otherwise ctx)"

definition merge_success ::
  "string list \<Rightarrow> i32 \<Rightarrow> string option \<Rightarrow> (string, Value) btree_map \<Rightarrow> FlowContext \<Rightarrow> FlowContext" where
  "merge_success amr delta user_id locals ctx =
     (let ctx1 = ctx\<lparr>FlowContext_amr := fold push_new amr (FlowContext_amr ctx)\<rparr>;
          ctx2 = ctx1\<lparr>FlowContext_authn_level := i32_add (FlowContext_authn_level ctx1) delta\<rparr>;
          ctx3 = (case user_id of
                    Some uid \<Rightarrow> ctx2\<lparr>FlowContext_user_id := Some uid\<rparr>
                  | None \<Rightarrow> ctx2)
      in ctx3\<lparr>FlowContext_locals := bt_extend (FlowContext_locals ctx3) locals\<rparr>)"

definition exec_authenticator ::
  "'w FlowEnv \<Rightarrow> CompiledFlow \<Rightarrow> StepInput \<Rightarrow> NodeId \<Rightarrow> string \<Rightarrow> FlowState \<Rightarrow> 'w \<Rightarrow> 'w Control" where
  "exec_authenticator env flow input node urn state w =
     (case dispatch env urn state input w of
        (Inl err, w1) \<Rightarrow> Control_Return (StepResult_Err err) state w1
      | (Inr (AuthnStepOutcome_Render r), w1) \<Rightarrow>
          Control_Return (StepResult_Ok (StepOutput_Render r)) state w1
      | (Inr (AuthnStepOutcome_Success amr delta user_id locals), w1) \<Rightarrow>
          (let state1 = state\<lparr>FlowState_context :=
                 merge_success amr delta user_id locals (FlowState_context state)\<rparr>;
               (state2, w2) = push_history env node ''success'' state1 w1
           in goto env node
                (next_or_otherwise flow node EdgeCondition_Success (FlowState_context state2)) state2 w2)
      | (Inr AuthnStepOutcome_Skip, w1) \<Rightarrow>
          (let (state1, w2) = push_history env node ''skip'' state w1
           in goto env node
                (next_with_guard flow node EdgeCondition_Otherwise (FlowState_context state1)) state1 w2)
      | (Inr (AuthnStepOutcome_Failure reason), w1) \<Rightarrow>
          (let (state1, w2) = push_history env node ''failure'' state w1
           in (case next_with_guard flow node EdgeCondition_Failure (FlowState_context state1) of
                 Some n \<Rightarrow> Control_Continue (state1\<lparr>FlowState_current_node := n\<rparr>) w2
               | None \<Rightarrow> Control_Return (StepResult_Ok (StepOutput_Failed reason)) state1 w2)))"

definition is_posted :: "StepInput \<Rightarrow> bool" where
  "is_posted input = (case input of
     StepInput_Submit f \<Rightarrow> True | StepInput_IdpCallback q b \<Rightarrow> True
   | StepInput_Start \<Rightarrow> False | StepInput_Resume \<Rightarrow> False)"

definition exec_node ::
  "'w FlowEnv \<Rightarrow> CompiledFlow \<Rightarrow> StepInput \<Rightarrow> FlowState \<Rightarrow> 'w \<Rightarrow> 'w Control" where
  "exec_node env flow input state w =
     (case CompiledFlow_node flow (FlowState_current_node state) of
        None \<Rightarrow> Control_Return StepResult_Panic state w
      | Some node \<Rightarrow>
     (let i = FlowNode_id node in
      case FlowNode_kind node of
        NodeKind_Start s \<Rightarrow>
          (let (state1, w1) = push_history env i ''advance'' state w
           in goto env i
                (next_with_guard flow i EdgeCondition_Otherwise (FlowState_context state1)) state1 w1)
      | NodeKind_Render template \<Rightarrow>
          (if \<not> is_posted input
           then Control_Return (StepResult_Ok (StepOutput_Render
                  \<lparr>RenderInstruction_template = template,
                   RenderInstruction_locals = FlowContext_locals (FlowState_context state)\<rparr>)) state w
           else (let (state1, w1) = push_history env i ''submit'' state w
                 in goto env i
                      (next_or_otherwise flow i EdgeCondition_Success (FlowState_context state1)) state1 w1))
      | NodeKind_Authenticator urn \<Rightarrow> exec_authenticator env flow input i urn state w
      | NodeKind_Broker idp_alias \<Rightarrow>
          Control_Return (StepResult_Ok (StepOutput_Render
            \<lparr>RenderInstruction_template = ''broker::'' @ idp_alias,
             RenderInstruction_locals = FlowContext_locals (FlowState_context state)\<rparr>)) state w
      | NodeKind_Switch condition \<Rightarrow>
          goto env i
            (next_or_otherwise flow i (EdgeCondition_Status condition) (FlowState_context state)) state w
      | NodeKind_Action a \<Rightarrow>
          goto env i (next_with_guard flow i EdgeCondition_Otherwise (FlowState_context state)) state w
      | NodeKind_SubFlow a \<Rightarrow>
          goto env i (next_with_guard flow i EdgeCondition_Otherwise (FlowState_context state)) state w
      | NodeKind_Success s \<Rightarrow>
          (let (state1, w1) = push_history env i ''success'' state w;
               (user_id, w2) =
                 (case Option.bind (FlowContext_user_id (FlowState_context state1)) (parse_user_id env) of
                    Some u \<Rightarrow> (u, w1)
                  | None \<Rightarrow> fresh_user_id env w1)
           in Control_Return (StepResult_Ok (StepOutput_Done (Subject_Local user_id))) state1 w2)
      | NodeKind_Failure reason \<Rightarrow>
          (let (state1, w1) = push_history env i ''failure'' state w
           in Control_Return (StepResult_Ok (StepOutput_Failed (FlowFailure_Other reason))) state1 w1)))"

partial_function (option) step_loop ::
  "'w FlowEnv \<Rightarrow> CompiledFlow \<Rightarrow> StepInput \<Rightarrow> FlowState \<Rightarrow> 'w \<Rightarrow> (StepResult \<times> FlowState \<times> 'w) option"
where
  "step_loop env flow input state w =
     (case exec_node env flow input state w of
        Control_Return r state' w' \<Rightarrow> Some (r, state', w')
      | Control_Continue state' w' \<Rightarrow> step_loop env flow input state' w')"

definition step ::
  "'w FlowEnv \<Rightarrow> CompiledFlow \<Rightarrow> FlowState \<Rightarrow> StepInput \<Rightarrow> 'w \<Rightarrow> (StepResult \<times> FlowState \<times> 'w) option"
where
  "step env flow state input w =
     (let (t0, w0) = utc_now env w in
      if FlowState_expires_at state < t0
      then Some (StepResult_Err FlowError_Expired, state, w0)
      else let (t1, w1) = utc_now env w0
           in step_loop env flow input (state\<lparr>FlowState_last_activity_at := t1\<rparr>) w1)"

text \<open>The first \<open>n\<close> turns of the loop, for evaluation on concrete inputs.\<close>

primrec step_fuel ::
  "nat \<Rightarrow> 'w FlowEnv \<Rightarrow> CompiledFlow \<Rightarrow> StepInput \<Rightarrow> FlowState \<Rightarrow> 'w
    \<Rightarrow> (StepResult \<times> FlowState \<times> 'w) option" where
  "step_fuel 0 env flow input state w = None"
| "step_fuel (Suc n) env flow input state w =
     (case exec_node env flow input state w of
        Control_Return r state' w' \<Rightarrow> Some (r, state', w')
      | Control_Continue state' w' \<Rightarrow> step_fuel n env flow input state' w')"

lemma step_fuel_sound:
  "step_fuel n env flow input s w = Some x \<Longrightarrow> step_loop env flow input s w = Some x"
  by (induction n arbitrary: s w) (simp, subst step_loop.simps, simp split: Control.splits)

section \<open>The loop as a relation\<close>

inductive exec_steps ::
  "'w FlowEnv \<Rightarrow> CompiledFlow \<Rightarrow> StepInput \<Rightarrow> FlowState \<Rightarrow> 'w \<Rightarrow> FlowState \<Rightarrow> 'w \<Rightarrow> bool"
  for env flow input where
  stay: "exec_steps env flow input s w s w"
| move: "\<lbrakk>exec_node env flow input s w = Control_Continue s1 w1; exec_steps env flow input s1 w1 s2 w2\<rbrakk>
     \<Longrightarrow> exec_steps env flow input s w s2 w2"

lemma step_loop_returns:
  assumes "exec_steps env flow input s w s1 w1"
    and "exec_node env flow input s1 w1 = Control_Return r s2 w2"
  shows "step_loop env flow input s w = Some (r, s2, w2)"
  using assms by induction (simp_all add: step_loop.simps)

lemma step_loop_relation:
  assumes "step_loop env flow input s w = Some (r, s2, w2)"
  obtains s1 w1 where "exec_steps env flow input s w s1 w1"
    "exec_node env flow input s1 w1 = Control_Return r s2 w2"
proof -
  have "\<exists>s1 w1. exec_steps env flow input s w s1 w1 \<and>
      exec_node env flow input s1 w1 = Control_Return (fst x) (fst (snd x)) (snd (snd x))"
    if "step_loop env flow input s w = Some x" for s w x
  proof (rule step_loop.raw_induct [OF _ that], goal_cases)
    case (1 f env flow input state w y)
    show ?case
    proof (cases "exec_node env flow input state w")
      case (Control_Continue s1 w1)
      with 1(2) have "f env flow input s1 w1 = Some y" by simp
      from 1(1) [OF this] Control_Continue show ?thesis by (meson exec_steps.move)
    next
      case (Control_Return r s1 w1)
      with 1(2) show ?thesis by (intro exI [of _ state] exI [of _ w]) (auto intro: exec_steps.stay)
    qed
  qed
  from this [OF assms] that show ?thesis by auto
qed

text \<open>
  What one turn of the loop that continues does: it follows an edge of the definition that leaves
  the current node, and extends the history by at most one entry. The label of the edge and the
  outcome of an authenticator agree.
\<close>

definition blocking :: "StepInput \<Rightarrow> NodeKind \<Rightarrow> bool" where
  "blocking input k = (case k of
     NodeKind_Render t \<Rightarrow> \<not> is_posted input | NodeKind_Broker i \<Rightarrow> True
   | NodeKind_Success s \<Rightarrow> True | NodeKind_Failure f \<Rightarrow> True | _ \<Rightarrow> False)"

lemma goto_Continue:
  "goto env i nxt s w = Control_Continue s' w' \<longleftrightarrow>
     (\<exists>n. nxt = Some n \<and> s' = s\<lparr>FlowState_current_node := n\<rparr> \<and> w' = w)"
  by (auto simp: goto_def split: option.splits)

lemma goto_Return:
  "goto env i nxt s w = Control_Return r s' w' \<longleftrightarrow>
     nxt = None \<and> r = StepResult_Err (FlowError_DeadEnd (show_node_id env i)) \<and> s' = s \<and> w' = w"
  by (auto simp: goto_def split: option.splits)

lemma push_history_eq:
  "push_history env i out s w = (s', w') \<longleftrightarrow>
     s' = s\<lparr>FlowState_history := FlowState_history s @
       [\<lparr>FlowHistoryEntry_node = i, FlowHistoryEntry_at = fst (utc_now env w),
         FlowHistoryEntry_outcome = out\<rparr>]\<rparr> \<and> w' = snd (utc_now env w)"
  by (auto simp: push_history_def split: prod.splits)

lemma next_or_otherwise_edge:
  assumes "compile def = Inr flow" and "next_or_otherwise flow n on ctx = Some m"
  obtains e where "e \<in> set (FlowDefinition_edges def)" "Edge_from e = n" "Edge_to e = m"
    "Edge_on e = on \<or> Edge_on e = EdgeCondition_Otherwise" "eval_guard (Edge_guard e) ctx"
  using assms by (auto simp: next_or_otherwise_def split: option.splits elim!: next_with_guard_edge)

lemma node_SomeD:
  assumes "compile def = Inr flow" and "CompiledFlow_node flow i = Some node"
  shows "node \<in> set (FlowDefinition_nodes def)" "FlowNode_id node = i"
  using assms by (auto simp: compile_Inr dest: find_Some_memD)

lemma node_exists:
  assumes "compile def = Inr flow" and "i \<in> set (node_ids def)"
  shows "\<exists>node. CompiledFlow_node flow i = Some node"
  using assms by (auto simp: compile_Inr node_ids_def find_None_iff not_None_eq [symmetric]
      simp del: not_None_eq)

definition takes_edge :: "FlowDefinition \<Rightarrow> NodeId \<Rightarrow> EdgeCondition \<Rightarrow> NodeId \<Rightarrow> bool" where
  "takes_edge def i on m = (\<exists>e\<in>set (FlowDefinition_edges def).
     Edge_from e = i \<and> Edge_to e = m \<and> (Edge_on e = on \<or> Edge_on e = EdgeCondition_Otherwise))"

definition turn :: "FlowDefinition \<Rightarrow> StepInput \<Rightarrow> FlowState \<Rightarrow> FlowState \<Rightarrow> bool" where
  "turn def input s s' =
     (\<exists>node\<in>set (FlowDefinition_nodes def). \<exists>e\<in>set (FlowDefinition_edges def). \<exists>hs.
        FlowNode_id node = FlowState_current_node s \<and> \<not> blocking input (FlowNode_kind node) \<and>
        Edge_from e = FlowState_current_node s \<and> Edge_to e = FlowState_current_node s' \<and>
        FlowState_history s' = FlowState_history s @ hs \<and> length hs \<le> 1 \<and>
        FlowState_expires_at s' = FlowState_expires_at s \<and>
        (\<forall>urn. FlowNode_kind node = NodeKind_Authenticator urn \<and> Edge_on e = EdgeCondition_Success \<longrightarrow>
           (\<exists>h\<in>set hs. FlowHistoryEntry_node h = FlowState_current_node s \<and>
              FlowHistoryEntry_outcome h = ''success'')))"

lemma next_takes_edge:
  assumes "compile def = Inr flow"
  shows "next_with_guard flow i on ctx = Some m \<Longrightarrow> takes_edge def i on m"
    and "next_or_otherwise flow i on ctx = Some m \<Longrightarrow> takes_edge def i on m"
  by (auto simp: takes_edge_def elim!: next_with_guard_edge [OF assms] next_or_otherwise_edge [OF assms])

lemma turn_silent:
  assumes "node \<in> set (FlowDefinition_nodes def)" "FlowNode_id node = FlowState_current_node s"
    and "\<not> blocking input (FlowNode_kind node)" "\<forall>urn. FlowNode_kind node \<noteq> NodeKind_Authenticator urn"
    and "takes_edge def (FlowState_current_node s) on m"
  shows "turn def input s (s\<lparr>FlowState_current_node := m\<rparr>)"
  using assms unfolding turn_def takes_edge_def
  by (elim bexE, intro bexI exI [of _ "[]"]) auto

lemma turn_recorded:
  assumes "node \<in> set (FlowDefinition_nodes def)" "FlowNode_id node = FlowState_current_node s"
    and "\<not> blocking input (FlowNode_kind node)"
    and "(\<exists>urn. FlowNode_kind node = NodeKind_Authenticator urn) \<longrightarrow> on = EdgeCondition_Success \<longrightarrow>
      out = ''success''"
    and "takes_edge def (FlowState_current_node s) on m"
    and "push_history env (FlowState_current_node s) out (s\<lparr>FlowState_context := ctx\<rparr>) w = (s1, w1)"
  shows "turn def input s (s1\<lparr>FlowState_current_node := m\<rparr>)"
proof -
  from assms(5) obtain e where "e \<in> set (FlowDefinition_edges def)"
    "Edge_from e = FlowState_current_node s" "Edge_to e = m"
    "Edge_on e = on \<or> Edge_on e = EdgeCondition_Otherwise"
    by (auto simp: takes_edge_def)
  with assms show ?thesis unfolding turn_def push_history_eq
    by (intro bexI [of _ node] bexI [of _ e] exI) auto
qed

lemmas turn_recorded_same = turn_recorded [where ctx = "FlowState_context s" and s = s for s, simplified]

lemma exec_authenticator_Continue:
  assumes comp: "compile def = Inr flow"
    and node: "node \<in> set (FlowDefinition_nodes def)" "FlowNode_id node = FlowState_current_node s"
      "FlowNode_kind node = NodeKind_Authenticator urn"
    and ex: "exec_authenticator env flow input (FlowState_current_node s) urn s w = Control_Continue s' w'"
  shows "turn def input s s'"
proof -
  let ?i = "FlowState_current_node s"
  obtain d w1 where d: "dispatch env urn s input w = (d, w1)" by fastforce
  have nb: "\<not> blocking input (FlowNode_kind node)" using node(3) by (simp add: blocking_def)
  from ex d obtain outcome where dd: "d = Inr outcome"
    by (cases d) (simp_all add: exec_authenticator_def)
  show ?thesis
  proof (cases outcome)
    case (AuthnStepOutcome_Render r)
    with ex d dd show ?thesis by (simp add: exec_authenticator_def)
  next
    case (AuthnStepOutcome_Success amr delta user_id locals)
    define ctx where "ctx = merge_success amr delta user_id locals (FlowState_context s)"
    obtain s2 w2 where p: "push_history env ?i ''success'' (s\<lparr>FlowState_context := ctx\<rparr>) w1 = (s2, w2)"
      by fastforce
    from ex d dd AuthnStepOutcome_Success p obtain n where
      nx: "next_or_otherwise flow ?i EdgeCondition_Success (FlowState_context s2) = Some n"
      "s' = s2\<lparr>FlowState_current_node := n\<rparr>"
      by (auto simp: exec_authenticator_def ctx_def [symmetric] goto_Continue)
    show ?thesis
      using nx turn_recorded [OF node(1,2) nb _ next_takes_edge(2) [OF comp nx(1)] p] by simp
  next
    case AuthnStepOutcome_Skip
    obtain s2 w2 where p: "push_history env ?i ''skip'' s w1 = (s2, w2)" by fastforce
    from ex d dd AuthnStepOutcome_Skip p obtain n where
      nx: "next_with_guard flow ?i EdgeCondition_Otherwise (FlowState_context s2) = Some n"
      "s' = s2\<lparr>FlowState_current_node := n\<rparr>"
      by (auto simp: exec_authenticator_def goto_Continue)
    show ?thesis
      using nx turn_recorded_same [OF node(1,2) nb _ next_takes_edge(1) [OF comp nx(1)] p] by simp
  next
    case (AuthnStepOutcome_Failure reason)
    obtain s2 w2 where p: "push_history env ?i ''failure'' s w1 = (s2, w2)" by fastforce
    from ex d dd AuthnStepOutcome_Failure p obtain n where
      nx: "next_with_guard flow ?i EdgeCondition_Failure (FlowState_context s2) = Some n"
      "s' = s2\<lparr>FlowState_current_node := n\<rparr>"
      by (auto simp: exec_authenticator_def split: option.splits)
    show ?thesis
      using nx turn_recorded_same [OF node(1,2) nb _ next_takes_edge(1) [OF comp nx(1)] p] by simp
  qed
qed

lemma exec_node_Continue:
  assumes comp: "compile def = Inr flow"
    and ex: "exec_node env flow input s w = Control_Continue s' w'"
  shows "turn def input s s'"
proof -
  let ?i = "FlowState_current_node s"
  from ex obtain node where n: "CompiledFlow_node flow ?i = Some node"
    by (auto simp: exec_node_def split: option.splits)
  note node = node_SomeD [OF comp n]
  note unfold = exec_node_def n node(2) Let_def goto_Continue
  show ?thesis
  proof (cases "FlowNode_kind node")
    case (NodeKind_Authenticator urn)
    with ex have "exec_authenticator env flow input ?i urn s w = Control_Continue s' w'"
      by (simp add: unfold)
    from exec_authenticator_Continue [OF comp node NodeKind_Authenticator this] show ?thesis .
  next
    case (NodeKind_Start st)
    obtain s1 w1 where p: "push_history env ?i ''advance'' s w = (s1, w1)" by fastforce
    with NodeKind_Start ex obtain m where
      nx: "next_with_guard flow ?i EdgeCondition_Otherwise (FlowState_context s1) = Some m"
      "s' = s1\<lparr>FlowState_current_node := m\<rparr>"
      by (auto simp: unfold)
    show ?thesis
      using nx NodeKind_Start turn_recorded_same [OF node _ _ next_takes_edge(1) [OF comp nx(1)] p] by (simp add: blocking_def)
  next
    case (NodeKind_Render t)
    obtain s1 w1 where p: "push_history env ?i ''submit'' s w = (s1, w1)" by fastforce
    with NodeKind_Render ex obtain m where
      nx: "next_or_otherwise flow ?i EdgeCondition_Success (FlowState_context s1) = Some m"
      "s' = s1\<lparr>FlowState_current_node := m\<rparr>" "is_posted input"
      by (auto simp: unfold split: if_splits)
    show ?thesis
      using nx NodeKind_Render turn_recorded_same [OF node _ _ next_takes_edge(2) [OF comp nx(1)] p] by (simp add: blocking_def)
  next
    case (NodeKind_Switch c)
    with ex obtain m where
      nx: "next_or_otherwise flow ?i (EdgeCondition_Status c) (FlowState_context s) = Some m"
      "s' = s\<lparr>FlowState_current_node := m\<rparr>"
      by (auto simp: unfold)
    show ?thesis
      using nx NodeKind_Switch turn_silent [OF node _ _ next_takes_edge(2) [OF comp nx(1)]] by (simp add: blocking_def)
  next
    case (NodeKind_SubFlow a)
    with ex obtain m where
      nx: "next_with_guard flow ?i EdgeCondition_Otherwise (FlowState_context s) = Some m"
      "s' = s\<lparr>FlowState_current_node := m\<rparr>"
      by (auto simp: unfold)
    show ?thesis
      using nx NodeKind_SubFlow turn_silent [OF node _ _ next_takes_edge(1) [OF comp nx(1)]] by (simp add: blocking_def)
  next
    case (NodeKind_Action a)
    with ex obtain m where
      nx: "next_with_guard flow ?i EdgeCondition_Otherwise (FlowState_context s) = Some m"
      "s' = s\<lparr>FlowState_current_node := m\<rparr>"
      by (auto simp: unfold)
    show ?thesis
      using nx NodeKind_Action turn_silent [OF node _ _ next_takes_edge(1) [OF comp nx(1)]] by (simp add: blocking_def)
  qed (use ex in \<open>simp_all add: unfold split: prod.splits option.splits\<close>)
qed

lemma exec_authenticator_Return:
  assumes "exec_authenticator env flow input i urn s w = Control_Return r s' w'"
  shows "FlowState_current_node s' = FlowState_current_node s"
    and "\<exists>hs. FlowState_history s' = FlowState_history s @ hs"
    and "r \<noteq> StepResult_Panic" and "r \<noteq> StepResult_Ok (StepOutput_Done u)"
  using assms
  by (auto simp: exec_authenticator_def goto_Return push_history_eq
      split: prod.splits sum.splits AuthnStepOutcome.splits option.splits)

lemma exec_node_Return:
  assumes "exec_node env flow input s w = Control_Return r s' w'"
  shows "FlowState_current_node s' = FlowState_current_node s"
    and "\<exists>hs. FlowState_history s' = FlowState_history s @ hs"
    and "r = StepResult_Panic \<Longrightarrow> CompiledFlow_node flow (FlowState_current_node s) = None"
    and "r = StepResult_Ok (StepOutput_Done u) \<Longrightarrow>
      \<exists>node. CompiledFlow_node flow (FlowState_current_node s) = Some node \<and>
        is_Success_kind (FlowNode_kind node)"
  using assms
  by (auto simp: exec_node_def Let_def goto_Return push_history_eq
      dest: exec_authenticator_Return
      split: prod.splits option.splits NodeKind.splits if_splits)

lemma turn_in_graph:
  "\<lbrakk>turn def input s s'; graph_ok def\<rbrakk> \<Longrightarrow> FlowState_current_node s' \<in> set (node_ids def)"
  by (auto simp: turn_def graph_ok_def)

lemma exec_steps_turns:
  assumes "exec_steps env flow input s w s' w'" and "compile def = Inr flow"
    and "I s" and "\<And>s s'. I s \<Longrightarrow> turn def input s s' \<Longrightarrow> I s'"
  shows "I s'"
  using assms by induction (auto dest: exec_node_Continue)

lemma flow_valid_graph: "compile def = Inr flow \<Longrightarrow> graph_ok def"
  using compile_Inr(1) by (auto simp: flow_valid_def)

text \<open>
  One call of \<open>step\<close> as its effect on the loop state, for invariants that do not read the time
  stamps: either the flow had expired, or the loop ran from a state that differs in the time of the
  last activity only.
\<close>

lemma step_cases:
  assumes "step env flow s input w = Some (r, s', w')"
  obtains (expired) "r = StepResult_Err FlowError_Expired" "s' = s"
  | (ran) t w0 s1 w1 where
      "exec_steps env flow input (s\<lparr>FlowState_last_activity_at := t\<rparr>) w0 s1 w1"
      "exec_node env flow input s1 w1 = Control_Return r s' w'"
  using assms
  by (auto simp: step_def Let_def split: prod.splits if_splits elim!: step_loop_relation)

lemma step_stays_in_graph:
  assumes comp: "compile def = Inr flow" and cur: "FlowState_current_node s \<in> set (node_ids def)"
    and st: "step env flow s input w = Some (r, s', w')"
  shows "r \<noteq> StepResult_Panic" and "FlowState_current_node s' \<in> set (node_ids def)"
proof -
  have "r \<noteq> StepResult_Panic \<and> FlowState_current_node s' \<in> set (node_ids def)"
    using st
  proof (cases rule: step_cases)
    case expired
    with cur show ?thesis by simp
  next
    case (ran t w0 s1 w1)
    have s1: "FlowState_current_node s1 \<in> set (node_ids def)"
      by (rule exec_steps_turns [OF ran(1) comp, where I = "\<lambda>s. FlowState_current_node s \<in> set (node_ids def)"])
        (use cur flow_valid_graph [OF comp] in \<open>auto dest: turn_in_graph\<close>)
    then show ?thesis
      using node_exists [OF comp s1] exec_node_Return(1,3) [OF ran(2)] by auto
  qed
  then show "r \<noteq> StepResult_Panic" and "FlowState_current_node s' \<in> set (node_ids def)" by auto
qed

section \<open>Termination\<close>

text \<open>The edges that one call of \<open>step\<close> may follow without stopping at their source.\<close>

definition auto_edges :: "FlowDefinition \<Rightarrow> StepInput \<Rightarrow> (NodeId \<times> NodeId) set" where
  "auto_edges def input =
     {(Edge_from e, Edge_to e) | e. e \<in> set (FlowDefinition_edges def) \<and>
        (\<exists>n\<in>set (FlowDefinition_nodes def). FlowNode_id n = Edge_from e \<and>
           \<not> blocking input (FlowNode_kind n))}"

lemma finite_auto_edges: "finite (auto_edges def input)"
proof -
  have "auto_edges def input \<subseteq> (\<lambda>e. (Edge_from e, Edge_to e)) ` set (FlowDefinition_edges def)"
    by (auto simp: auto_edges_def)
  then show ?thesis by (rule finite_subset) simp
qed

lemma turn_auto_edge:
  "turn def input s s' \<Longrightarrow> (FlowState_current_node s, FlowState_current_node s') \<in> auto_edges def input"
  unfolding turn_def auto_edges_def mem_Collect_eq by (elim bexE exE conjE) metis

lemma step_loop_total:
  assumes comp: "compile def = Inr flow" and acyc: "acyclic (auto_edges def input)"
  shows "\<exists>r s' w'. step_loop env flow input s w = Some (r, s', w')"
proof -
  have wf: "wf ((auto_edges def input)\<inverse>)"
    using finite_auto_edges acyc by (intro finite_acyclic_wf_converse)
  have "\<forall>s w. FlowState_current_node s = i \<longrightarrow>
      (\<exists>r s' w'. step_loop env flow input s w = Some (r, s', w'))" for i
    using wf
  proof (induction i rule: wf_induct_rule)
    case (less i)
    show ?case
    proof (intro allI impI)
      fix s :: FlowState and w :: 'a
      assume cur: "FlowState_current_node s = i"
      show "\<exists>r s' w'. step_loop env flow input s w = Some (r, s', w')"
      proof (cases "exec_node env flow input s w")
        case (Control_Continue s1 w1)
        have "(i, FlowState_current_node s1) \<in> auto_edges def input"
          using turn_auto_edge [OF exec_node_Continue [OF comp Control_Continue]] cur by simp
        then have "\<exists>r s' w'. step_loop env flow input s1 w1 = Some (r, s', w')"
          using less by blast
        with Control_Continue show ?thesis by (subst step_loop.simps) simp
      next
        case (Control_Return r s1 w1)
        then show ?thesis by (subst step_loop.simps) simp
      qed
    qed
  qed
  then show ?thesis by blast
qed

lemma step_total:
  assumes "compile def = Inr flow" and "acyclic (auto_edges def input)"
  shows "\<exists>r s' w'. step env flow s input w = Some (r, s', w')"
  by (auto simp: step_def Let_def split: prod.splits intro: step_loop_total [OF assms])

section \<open>Runs over several requests\<close>

text \<open>
  The states a flow can be in between two requests: the fresh state, any state \<open>step\<close> leaves
  behind on any input and in any world, and any state that a handler obtains from such a state by
  changing other fields than the current node and the history.
\<close>

inductive flow_run :: "'w FlowEnv \<Rightarrow> CompiledFlow \<Rightarrow> FlowState \<Rightarrow> bool" for env flow where
  fresh: "\<lbrakk>FlowState_current_node s = FlowDefinition_start (CompiledFlow_definition flow);
     FlowState_history s = []\<rbrakk> \<Longrightarrow> flow_run env flow s"
| request: "\<lbrakk>flow_run env flow s; step env flow s input w = Some (r, s', w')\<rbrakk> \<Longrightarrow> flow_run env flow s'"
| edit: "\<lbrakk>flow_run env flow s; FlowState_current_node s' = FlowState_current_node s;
     FlowState_history s' = FlowState_history s\<rbrakk> \<Longrightarrow> flow_run env flow s'"

text \<open>
  The nodes reachable without a success edge of an authenticator in \<open>A\<close>. A success terminal among
  them could be reached although no authenticator of \<open>A\<close> ever succeeded.
\<close>

definition success_edge_of :: "FlowDefinition \<Rightarrow> NodeId set \<Rightarrow> Edge \<Rightarrow> bool" where
  "success_edge_of def A e \<longleftrightarrow> Edge_on e = EdgeCondition_Success \<and> Edge_from e \<in> A \<and>
     (\<forall>n\<in>set (FlowDefinition_nodes def). FlowNode_id n = Edge_from e \<longrightarrow>
        (\<exists>urn. FlowNode_kind n = NodeKind_Authenticator urn))"

definition without_success_of :: "NodeId set \<Rightarrow> FlowDefinition \<Rightarrow> FlowDefinition" where
  "without_success_of A def =
     def\<lparr>FlowDefinition_edges := filter (\<lambda>e. \<not> success_edge_of def A e) (FlowDefinition_edges def)\<rparr>"

definition succeeded_in :: "NodeId set \<Rightarrow> FlowState \<Rightarrow> bool" where
  "succeeded_in A s \<longleftrightarrow> (\<exists>h\<in>set (FlowState_history s).
     FlowHistoryEntry_node h \<in> A \<and> FlowHistoryEntry_outcome h = ''success'')"

definition guarded_by :: "NodeId set \<Rightarrow> FlowDefinition \<Rightarrow> bool" where
  "guarded_by A def \<longleftrightarrow> (\<forall>n\<in>set (FlowDefinition_nodes def). is_Success_kind (FlowNode_kind n) \<longrightarrow>
     \<not> flow_reachable (without_success_of A def) (FlowNode_id n))"

definition run_inv :: "NodeId set \<Rightarrow> FlowDefinition \<Rightarrow> FlowState \<Rightarrow> bool" where
  "run_inv A def s \<longleftrightarrow>
     flow_reachable (without_success_of A def) (FlowState_current_node s) \<or> succeeded_in A s"

lemma turn_run_inv:
  assumes "turn def input s s'" and "run_inv A def s"
  shows "run_inv A def s'"
proof -
  from assms(1) obtain node e hs where t: "node \<in> set (FlowDefinition_nodes def)"
    "e \<in> set (FlowDefinition_edges def)" "FlowNode_id node = FlowState_current_node s"
    "Edge_from e = FlowState_current_node s" "Edge_to e = FlowState_current_node s'"
    "FlowState_history s' = FlowState_history s @ hs"
    "\<And>urn. FlowNode_kind node = NodeKind_Authenticator urn \<Longrightarrow> Edge_on e = EdgeCondition_Success \<Longrightarrow>
       (\<exists>h\<in>set hs. FlowHistoryEntry_node h = FlowState_current_node s \<and>
          FlowHistoryEntry_outcome h = ''success'')"
    unfolding turn_def by blast
  show ?thesis
  proof (cases "succeeded_in A s")
    case True
    with t show ?thesis by (auto simp: run_inv_def succeeded_in_def)
  next
    case False
    with assms(2) have reach: "flow_reachable (without_success_of A def) (Edge_from e)"
      by (simp add: run_inv_def t)
    show ?thesis
    proof (cases "success_edge_of def A e")
      case True
      with t obtain h where "h \<in> set hs" "FlowHistoryEntry_node h \<in> A"
        "FlowHistoryEntry_outcome h = ''success''"
        by (force simp: success_edge_of_def)
      with t(6) show ?thesis by (auto simp: run_inv_def succeeded_in_def)
    next
      case False
      with t(2) have "e \<in> set (FlowDefinition_edges (without_success_of A def))"
        by (simp add: without_success_of_def)
      from flow_reachable.edge [OF reach this] show ?thesis by (simp add: run_inv_def t)
    qed
  qed
qed

lemma step_run_inv:
  assumes comp: "compile def = Inr flow" and st: "step env flow s input w = Some (r, s', w')"
    and inv: "run_inv A def s"
  shows "run_inv A def s'"
    and "r = StepResult_Ok (StepOutput_Done u) \<Longrightarrow> guarded_by A def \<Longrightarrow> succeeded_in A s'"
proof -
  have "run_inv A def s' \<and>
    (r = StepResult_Ok (StepOutput_Done u) \<longrightarrow> guarded_by A def \<longrightarrow> succeeded_in A s')"
    using st
  proof (cases rule: step_cases)
    case expired
    with inv show ?thesis by simp
  next
    case (ran t w0 s1 w1)
    have inv0: "run_inv A def (s\<lparr>FlowState_last_activity_at := t\<rparr>)"
      using inv by (simp add: run_inv_def succeeded_in_def)
    have s1: "run_inv A def s1"
      by (rule exec_steps_turns [where I = "run_inv A def", OF ran(1) comp inv0]) (rule turn_run_inv)
    from exec_node_Return(2) [OF ran(2)] have mono: "succeeded_in A s1 \<Longrightarrow> succeeded_in A s'"
      by (auto simp: succeeded_in_def)
    have "succeeded_in A s1" if "r = StepResult_Ok (StepOutput_Done u)" "guarded_by A def"
      using exec_node_Return(4) [OF ran(2) that(1)] s1 that(2) node_SomeD [OF comp]
      by (auto simp: run_inv_def guarded_by_def)
    with s1 mono exec_node_Return(1) [OF ran(2)] show ?thesis by (auto simp: run_inv_def)
  qed
  then show "run_inv A def s'"
    and "r = StepResult_Ok (StepOutput_Done u) \<Longrightarrow> guarded_by A def \<Longrightarrow> succeeded_in A s'" by auto
qed

lemma flow_run_inv:
  assumes "flow_run env flow s" and "compile def = Inr flow"
  shows "run_inv A def s"
  using assms
proof induction
  case (fresh s)
  then have "FlowState_current_node s = FlowDefinition_start (without_success_of A def)"
    using compile_Inr(2) by (simp add: without_success_of_def)
  then show ?case by (simp add: run_inv_def flow_reachable.start)
next
  case (request s input w r s' w')
  then show ?case by (blast intro: step_run_inv(1))
next
  case (edit s s')
  then show ?case by (simp add: run_inv_def succeeded_in_def)
qed

lemma flow_run_in_graph:
  assumes "flow_run env flow s" and "compile def = Inr flow"
  shows "FlowState_current_node s \<in> set (node_ids def)"
  using assms
proof induction
  case (fresh s)
  then show ?case using flow_valid_graph compile_Inr(2) by (auto simp: graph_ok_def)
next
  case (request s input w r s' w')
  then show ?case by (blast intro: step_stays_in_graph(2))
qed simp

section \<open>Properties\<close>

text \<open>
  C6: A flow run never panics and never leaves its graph: from a fresh state of a compiled flow,
  whatever the dispatcher, the clock, the inputs and the edits of the handlers between requests,
  every call of \<open>step\<close> that returns answers an output or an error (never an index out of range)
  and leaves the current node inside the graph.
\<close>

theorem flow_run_no_panic:
  assumes "compile def = Inr flow" and "flow_run env flow s"
    and "step env flow s input w = Some (r, s', w')"
  shows "r \<noteq> StepResult_Panic \<and> FlowState_current_node s' \<in> set (node_ids def)"
  using step_stays_in_graph [OF assms(1) flow_run_in_graph [OF assms(2,1)] assms(3)] by simp

text \<open>
  C27: \<open>step\<close> returns on every compiled flow in which the edges it may follow without waiting
  for the user (those that leave no broker, no terminal and, unless a form was posted, no render
  node) form no cycle. No hypothesis on the dispatcher or the clock is needed.
\<close>

theorem step_returns_if_acyclic:
  assumes "compile def = Inr flow" and "acyclic (auto_edges def input)"
  shows "\<exists>r s' w'. step env flow s input w = Some (r, s', w')"
  using assms by (rule step_total)

text \<open>
  C25: Authentication cannot be bypassed. If, in the definition of a compiled flow, every path from
  the start to a success terminal crosses the success edge of one of the authenticator nodes in
  \<open>A\<close>, then every run that ends with \<open>Done\<close> has recorded a success of a node of \<open>A\<close> in its
  history, for every dispatcher, every input sequence and every edit of the context in between.
\<close>

theorem done_requires_success:
  assumes "compile def = Inr flow" and "guarded_by A def" and "flow_run env flow s"
    and "step env flow s input w = Some (StepResult_Ok (StepOutput_Done u), s', w')"
  shows "\<exists>h\<in>set (FlowState_history s'). FlowHistoryEntry_node h \<in> A \<and>
    FlowHistoryEntry_outcome h = ''success''"
  using step_run_inv(2) [OF assms(1,4) flow_run_inv [OF assms(3,1)] refl assms(2)]
  by (simp add: succeeded_in_def)

end
