(* ===== verification/Flow_Builtin.thy ===== *)
theory Flow_Builtin
  imports Flow_Exec
begin

text \<open>
  The seven flows every realm gets, \<^verbatim>\<open>crates/geonosis-flow/src/builtin.rs\<close>. The ids the code
  draws with \<open>NodeId::new\<close> and \<open>FlowId::new\<close> are arguments: \<open>ids k\<close> is the id of the node
  created \<open>k\<close>-th.
\<close>

definition urn_PASSWORD :: string where "urn_PASSWORD = ''builtin:authn:password''"
definition urn_OTP :: string where "urn_OTP = ''builtin:authn:otp''"
definition urn_COOKIE :: string where "urn_COOKIE = ''builtin:authn:cookie''"
definition urn_MAGIC_LINK :: string where "urn_MAGIC_LINK = ''builtin:authn:magic-link''"
definition urn_IDP_REDIRECT :: string where "urn_IDP_REDIRECT = ''builtin:authn:idp-redirect''"
definition urn_CLIENT_AUTH :: string where "urn_CLIENT_AUTH = ''builtin:authn:client-authentication''"
definition urn_REQUIRE_ACTION :: string where "urn_REQUIRE_ACTION = ''builtin:authn:require-action''"

definition alias_BROWSER :: string where "alias_BROWSER = ''browser''"
definition alias_DIRECT_GRANT :: string where "alias_DIRECT_GRANT = ''direct-grant''"
definition alias_REGISTRATION :: string where "alias_REGISTRATION = ''registration''"
definition alias_RESET_CREDENTIALS :: string where "alias_RESET_CREDENTIALS = ''reset-credentials''"
definition alias_FIRST_BROKER_LOGIN :: string where "alias_FIRST_BROKER_LOGIN = ''first-broker-login''"
definition alias_CLIENT_AUTHENTICATION :: string where
  "alias_CLIENT_AUTHENTICATION = ''client-authentication''"
definition alias_STEP_UP :: string where "alias_STEP_UP = ''step-up''"

lemmas builtin_names [flow_defs] =
  urn_PASSWORD_def urn_OTP_def urn_COOKIE_def urn_MAGIC_LINK_def urn_IDP_REDIRECT_def
  urn_CLIENT_AUTH_def urn_REQUIRE_ACTION_def alias_BROWSER_def alias_DIRECT_GRANT_def
  alias_REGISTRATION_def alias_RESET_CREDENTIALS_def alias_FIRST_BROKER_LOGIN_def
  alias_CLIENT_AUTHENTICATION_def alias_STEP_UP_def

section \<open>Helpers\<close>

definition node_start :: "NodeId \<Rightarrow> FlowNode" where [flow_defs]:
  "node_start i = \<lparr>FlowNode_id = i, FlowNode_display_name = ''Start'',
     FlowNode_kind = NodeKind_Start \<lparr>StartNode_require_session = False\<rparr>,
     FlowNode_requirement = Requirement_Required, FlowNode_config = Value_Null, FlowNode_layout = None\<rparr>"

definition node_success :: "NodeId \<Rightarrow> FlowNode" where [flow_defs]:
  "node_success i = \<lparr>FlowNode_id = i, FlowNode_display_name = ''Success'',
     FlowNode_kind = NodeKind_Success \<lparr>SuccessNode_acr = None, SuccessNode_step_up_required = False\<rparr>,
     FlowNode_requirement = Requirement_Required, FlowNode_config = Value_Null, FlowNode_layout = None\<rparr>"

definition node_failure :: "NodeId \<Rightarrow> string \<Rightarrow> FlowNode" where [flow_defs]:
  "node_failure i reason = \<lparr>FlowNode_id = i, FlowNode_display_name = ''Failure'',
     FlowNode_kind = NodeKind_Failure reason,
     FlowNode_requirement = Requirement_Required, FlowNode_config = Value_Null, FlowNode_layout = None\<rparr>"

definition node_render :: "NodeId \<Rightarrow> string \<Rightarrow> string \<Rightarrow> FlowNode" where [flow_defs]:
  "node_render i display template = \<lparr>FlowNode_id = i, FlowNode_display_name = display,
     FlowNode_kind = NodeKind_Render template,
     FlowNode_requirement = Requirement_Required, FlowNode_config = Value_Null, FlowNode_layout = None\<rparr>"

definition node_authn :: "NodeId \<Rightarrow> string \<Rightarrow> string \<Rightarrow> Requirement \<Rightarrow> FlowNode" where [flow_defs]:
  "node_authn i display urn req = \<lparr>FlowNode_id = i, FlowNode_display_name = display,
     FlowNode_kind = NodeKind_Authenticator urn,
     FlowNode_requirement = req, FlowNode_config = Value_Null, FlowNode_layout = None\<rparr>"

definition edge :: "NodeId \<Rightarrow> NodeId \<Rightarrow> EdgeCondition \<Rightarrow> Edge" where [flow_defs]:
  "edge from to on = \<lparr>Edge_from = from, Edge_to = to, Edge_on = on, Edge_guard = []\<rparr>"

definition mk_flow ::
  "FlowId \<Rightarrow> RealmId \<Rightarrow> string \<Rightarrow> string \<Rightarrow> NodeId \<Rightarrow> Edge list \<Rightarrow> FlowNode list \<Rightarrow> FlowDefinition" where
  [flow_defs]:
  "mk_flow fid realm alias display_name start_id edges nodes = \<lparr>
     FlowDefinition_id = fid, FlowDefinition_realm_id = realm, FlowDefinition_alias = alias,
     FlowDefinition_display_name = display_name, FlowDefinition_version = 1,
     FlowDefinition_start = start_id, FlowDefinition_nodes = nodes, FlowDefinition_edges = edges\<rparr>"

section \<open>The flows\<close>

definition browser :: "FlowId \<Rightarrow> (nat \<Rightarrow> NodeId) \<Rightarrow> RealmId \<Rightarrow> FlowDefinition" where
  "browser fid ids realm =
     (let start = node_start (ids 0);
          cookie = node_authn (ids 1) ''cookie SSO'' urn_COOKIE Requirement_Optional;
          render_form = node_render (ids 2) ''login form'' ''login'';
          password = node_authn (ids 3) ''password'' urn_PASSWORD Requirement_Required;
          require_action = node_authn (ids 4) ''required actions'' urn_REQUIRE_ACTION Requirement_Optional;
          success = node_success (ids 5);
          failure = node_failure (ids 6) ''authentication failed''
      in mk_flow fid realm alias_BROWSER ''Browser flow'' (FlowNode_id start)
        [edge (FlowNode_id start) (FlowNode_id cookie) EdgeCondition_Otherwise,
         edge (FlowNode_id cookie) (FlowNode_id success) EdgeCondition_Success,
         edge (FlowNode_id cookie) (FlowNode_id render_form) EdgeCondition_Otherwise,
         edge (FlowNode_id render_form) (FlowNode_id password) EdgeCondition_Success,
         edge (FlowNode_id password) (FlowNode_id require_action) EdgeCondition_Success,
         edge (FlowNode_id password) (FlowNode_id failure) EdgeCondition_Failure,
         edge (FlowNode_id require_action) (FlowNode_id success) EdgeCondition_Otherwise]
        [start, cookie, render_form, password, require_action, success, failure])"

definition direct_grant :: "FlowId \<Rightarrow> (nat \<Rightarrow> NodeId) \<Rightarrow> RealmId \<Rightarrow> FlowDefinition" where
  "direct_grant fid ids realm =
     (let start = node_start (ids 0);
          password = node_authn (ids 1) ''password'' urn_PASSWORD Requirement_Required;
          success = node_success (ids 2);
          failure = node_failure (ids 3) ''invalid credentials''
      in mk_flow fid realm alias_DIRECT_GRANT ''Direct grant'' (FlowNode_id start)
        [edge (FlowNode_id start) (FlowNode_id password) EdgeCondition_Otherwise,
         edge (FlowNode_id password) (FlowNode_id success) EdgeCondition_Success,
         edge (FlowNode_id password) (FlowNode_id failure) EdgeCondition_Failure]
        [start, password, success, failure])"

definition registration :: "FlowId \<Rightarrow> (nat \<Rightarrow> NodeId) \<Rightarrow> RealmId \<Rightarrow> FlowDefinition" where
  "registration fid ids realm =
     (let start = node_start (ids 0);
          render_form = node_render (ids 1) ''registration form'' ''register'';
          password = node_authn (ids 2) ''set password'' urn_PASSWORD Requirement_Required;
          success = node_success (ids 3);
          failure = node_failure (ids 4) ''registration failed''
      in mk_flow fid realm alias_REGISTRATION ''Registration'' (FlowNode_id start)
        [edge (FlowNode_id start) (FlowNode_id render_form) EdgeCondition_Otherwise,
         edge (FlowNode_id render_form) (FlowNode_id password) EdgeCondition_Success,
         edge (FlowNode_id password) (FlowNode_id success) EdgeCondition_Success,
         edge (FlowNode_id password) (FlowNode_id failure) EdgeCondition_Failure]
        [start, render_form, password, success, failure])"

definition reset_credentials :: "FlowId \<Rightarrow> (nat \<Rightarrow> NodeId) \<Rightarrow> RealmId \<Rightarrow> FlowDefinition" where
  "reset_credentials fid ids realm =
     (let start = node_start (ids 0);
          render_form = node_render (ids 1) ''email entry'' ''reset-credentials/email'';
          magic = node_authn (ids 2) ''magic-link verify'' urn_MAGIC_LINK Requirement_Required;
          render_new = node_render (ids 3) ''new password'' ''reset-credentials/new-password'';
          password = node_authn (ids 4) ''set new password'' urn_PASSWORD Requirement_Required;
          success = node_success (ids 5);
          failure = node_failure (ids 6) ''reset failed''
      in mk_flow fid realm alias_RESET_CREDENTIALS ''Reset credentials'' (FlowNode_id start)
        [edge (FlowNode_id start) (FlowNode_id render_form) EdgeCondition_Otherwise,
         edge (FlowNode_id render_form) (FlowNode_id magic) EdgeCondition_Success,
         edge (FlowNode_id magic) (FlowNode_id render_new) EdgeCondition_Success,
         edge (FlowNode_id magic) (FlowNode_id failure) EdgeCondition_Failure,
         edge (FlowNode_id render_new) (FlowNode_id password) EdgeCondition_Success,
         edge (FlowNode_id password) (FlowNode_id success) EdgeCondition_Success,
         edge (FlowNode_id password) (FlowNode_id failure) EdgeCondition_Failure]
        [start, render_form, magic, render_new, password, success, failure])"

definition first_broker_login :: "FlowId \<Rightarrow> (nat \<Rightarrow> NodeId) \<Rightarrow> RealmId \<Rightarrow> FlowDefinition" where
  "first_broker_login fid ids realm =
     (let start = node_start (ids 0);
          idp = node_authn (ids 1) ''idp redirect'' urn_IDP_REDIRECT Requirement_Required;
          success = node_success (ids 2);
          failure = node_failure (ids 3) ''broker login failed''
      in mk_flow fid realm alias_FIRST_BROKER_LOGIN ''First broker login'' (FlowNode_id start)
        [edge (FlowNode_id start) (FlowNode_id idp) EdgeCondition_Otherwise,
         edge (FlowNode_id idp) (FlowNode_id success) EdgeCondition_Success,
         edge (FlowNode_id idp) (FlowNode_id failure) EdgeCondition_Failure]
        [start, idp, success, failure])"

definition client_authentication :: "FlowId \<Rightarrow> (nat \<Rightarrow> NodeId) \<Rightarrow> RealmId \<Rightarrow> FlowDefinition" where
  "client_authentication fid ids realm =
     (let start = node_start (ids 0);
          auth = node_authn (ids 1) ''client authentication'' urn_CLIENT_AUTH Requirement_Required;
          success = node_success (ids 2);
          failure = node_failure (ids 3) ''client authentication failed''
      in mk_flow fid realm alias_CLIENT_AUTHENTICATION ''Client authentication'' (FlowNode_id start)
        [edge (FlowNode_id start) (FlowNode_id auth) EdgeCondition_Otherwise,
         edge (FlowNode_id auth) (FlowNode_id success) EdgeCondition_Success,
         edge (FlowNode_id auth) (FlowNode_id failure) EdgeCondition_Failure]
        [start, auth, success, failure])"

definition step_up :: "FlowId \<Rightarrow> (nat \<Rightarrow> NodeId) \<Rightarrow> RealmId \<Rightarrow> FlowDefinition" where
  "step_up fid ids realm =
     (let start = node_start (ids 0);
          otp = node_authn (ids 1) ''otp'' urn_OTP Requirement_Required;
          success = node_success (ids 2);
          failure = node_failure (ids 3) ''step-up failed''
      in mk_flow fid realm alias_STEP_UP ''Step-up'' (FlowNode_id start)
        [edge (FlowNode_id start) (FlowNode_id otp) EdgeCondition_Otherwise,
         edge (FlowNode_id otp) (FlowNode_id success) EdgeCondition_Success,
         edge (FlowNode_id otp) (FlowNode_id failure) EdgeCondition_Failure]
        [start, otp, success, failure])"

text \<open>\<open>fids k\<close> and \<open>ids k\<close> are the ids drawn while the \<open>k\<close>-th flow is built.\<close>

definition v0_1_flows ::
  "(nat \<Rightarrow> FlowId) \<Rightarrow> (nat \<Rightarrow> nat \<Rightarrow> NodeId) \<Rightarrow> RealmId \<Rightarrow> FlowDefinition list" where
  "v0_1_flows fids ids realm =
     [browser (fids 0) (ids 0) realm, direct_grant (fids 1) (ids 1) realm,
      registration (fids 2) (ids 2) realm, reset_credentials (fids 3) (ids 3) realm,
      first_broker_login (fids 4) (ids 4) realm, client_authentication (fids 5) (ids 5) realm,
      step_up (fids 6) (ids 6) realm]"

lemmas builtin_flow_defs =
  browser_def direct_grant_def registration_def reset_credentials_def first_broker_login_def
  client_authentication_def step_up_def

section \<open>Graph lemmas on concrete flows\<close>

lemma reach_edge:
  "\<lbrakk>flow_reachable def a; e \<in> set (FlowDefinition_edges def); Edge_from e = a; Edge_to e = b\<rbrakk>
   \<Longrightarrow> flow_reachable def b"
  using flow_reachable.edge by blast

lemma reach_closed:
  assumes "flow_reachable def n" and "FlowDefinition_start def \<in> S"
    and "\<forall>e\<in>set (FlowDefinition_edges def). Edge_from e \<in> S \<longrightarrow> Edge_to e \<in> S"
  shows "n \<in> S"
  using assms by induction auto

lemma acyclic_auto_edges:
  assumes "\<forall>e\<in>set (FlowDefinition_edges def). rank (Edge_from e) < (rank (Edge_to e) :: nat)"
  shows "acyclic (auto_edges def input)"
proof (rule acyclic_subset)
  show "acyclic (inv_image less_than rank)" by (intro wf_acyclic wf_inv_image wf_less_than)
next
  show "auto_edges def input \<subseteq> inv_image less_than rank"
    using assms by (auto simp: auto_edges_def)
qed

text \<open>The authenticator nodes of a flow that run one of the given providers.\<close>

definition runs_one_of :: "string list \<Rightarrow> FlowNode \<Rightarrow> bool" where
  "runs_one_of urns n = (case FlowNode_kind n of NodeKind_Authenticator urn \<Rightarrow> urn \<in> set urns | _ \<Rightarrow> False)"

lemma runs_one_of_iff:
  "runs_one_of urns n \<longleftrightarrow> (\<exists>urn\<in>set urns. FlowNode_kind n = NodeKind_Authenticator urn)"
  by (cases "FlowNode_kind n") (auto simp: runs_one_of_def)

definition authn_nodes :: "FlowDefinition \<Rightarrow> string list \<Rightarrow> NodeId set" where
  "authn_nodes def urns = FlowNode_id ` set (filter (runs_one_of urns) (FlowDefinition_nodes def))"

definition succeeded_with :: "FlowDefinition \<Rightarrow> string list \<Rightarrow> FlowState \<Rightarrow> bool" where
  "succeeded_with def urns s \<longleftrightarrow> (\<exists>h\<in>set (FlowState_history s). \<exists>n\<in>set (FlowDefinition_nodes def).
     \<exists>urn\<in>set urns. FlowHistoryEntry_outcome h = ''success'' \<and> FlowNode_id n = FlowHistoryEntry_node h \<and>
       FlowNode_kind n = NodeKind_Authenticator urn)"

lemma succeeded_in_authn_nodes:
  "succeeded_in (authn_nodes def urns) s \<Longrightarrow> succeeded_with def urns s"
  by (auto simp: succeeded_in_def succeeded_with_def authn_nodes_def runs_one_of_iff) force

lemma guarded_byI:
  assumes "FlowDefinition_start def \<in> S"
    and "\<forall>e\<in>set (FlowDefinition_edges def). \<not> success_edge_of def A e \<longrightarrow> Edge_from e \<in> S \<longrightarrow> Edge_to e \<in> S"
    and "\<forall>n\<in>set (FlowDefinition_nodes def). is_Success_kind (FlowNode_kind n) \<longrightarrow> FlowNode_id n \<notin> S"
  shows "guarded_by A def"
  using assms reach_closed [where def = "without_success_of A def" and S = S]
  by (auto simp: guarded_by_def without_success_of_def)

lemma flow_validI:
  assumes "graph_ok def" and "n \<in> set (FlowDefinition_nodes def)" "is_Success_kind (FlowNode_kind n)"
    and "flow_reachable def (FlowNode_id n)"
  shows "flow_valid def"
  using assms by (auto simp: flow_valid_def)

text \<open>The edges of a built-in flow go from an earlier to a later node.\<close>

definition forward :: "(nat \<Rightarrow> NodeId) \<Rightarrow> FlowDefinition \<Rightarrow> bool" where
  "forward ids def \<longleftrightarrow> (\<forall>e\<in>set (FlowDefinition_edges def).
     \<exists>a b. Edge_from e = ids a \<and> Edge_to e = ids b \<and> a < b)"

lemma forward_acyclic:
  assumes "inj ids" and "forward ids def"
  shows "acyclic (auto_edges def input)"
  using assms by (intro acyclic_auto_edges [where rank = "inv ids"]) (force simp: forward_def inv_f_f)

section \<open>The built-in flows are valid\<close>

lemma builtin_graph_ok:
  assumes "inj ids"
  shows "graph_ok (browser fid ids realm)" "graph_ok (direct_grant fid ids realm)"
    "graph_ok (registration fid ids realm)" "graph_ok (reset_credentials fid ids realm)"
    "graph_ok (first_broker_login fid ids realm)" "graph_ok (client_authentication fid ids realm)"
    "graph_ok (step_up fid ids realm)"
  using assms
  by (simp_all add: graph_ok_def node_ids_def edges_from_def builtin_flow_defs flow_defs inj_eq)

lemma builtin_forward:
  assumes "inj ids"
  shows "forward ids (browser fid ids realm)" "forward ids (direct_grant fid ids realm)"
    "forward ids (registration fid ids realm)" "forward ids (reset_credentials fid ids realm)"
    "forward ids (first_broker_login fid ids realm)" "forward ids (client_authentication fid ids realm)"
    "forward ids (step_up fid ids realm)"
  using assms by (simp_all add: forward_def builtin_flow_defs flow_defs inj_eq)

fun path_in :: "FlowDefinition \<Rightarrow> NodeId \<Rightarrow> NodeId list \<Rightarrow> bool" where
  "path_in def a [] = True"
| "path_in def a (b # bs) =
     ((\<exists>e\<in>set (FlowDefinition_edges def). Edge_from e = a \<and> Edge_to e = b) \<and> path_in def b bs)"

lemma path_in_reachable: "\<lbrakk>path_in def a p; flow_reachable def a\<rbrakk> \<Longrightarrow> flow_reachable def (last (a # p))"
  by (induction def a p rule: path_in.induct) (auto dest: reach_edge)

lemma flow_valid_path:
  assumes "graph_ok def" and "path_in def (FlowDefinition_start def) p"
    and "\<exists>n\<in>set (FlowDefinition_nodes def). is_Success_kind (FlowNode_kind n) \<and>
      FlowNode_id n = last (FlowDefinition_start def # p)"
  shows "flow_valid def"
  using assms path_in_reachable [OF assms(2) flow_reachable.start] by (auto simp: flow_valid_def)

lemma builtin_valid:
  assumes "inj ids"
  shows "flow_valid (browser fid ids realm)" "flow_valid (direct_grant fid ids realm)"
    "flow_valid (registration fid ids realm)" "flow_valid (reset_credentials fid ids realm)"
    "flow_valid (first_broker_login fid ids realm)" "flow_valid (client_authentication fid ids realm)"
    "flow_valid (step_up fid ids realm)"
proof -
  show "flow_valid (browser fid ids realm)"
    by (rule flow_valid_path [OF builtin_graph_ok(1) [OF assms], where p = "[ids 1, ids 5]"])
      (simp_all add: browser_def flow_defs)
  show "flow_valid (direct_grant fid ids realm)"
    by (rule flow_valid_path [OF builtin_graph_ok(2) [OF assms], where p = "[ids 1, ids 2]"])
      (simp_all add: direct_grant_def flow_defs)
  show "flow_valid (registration fid ids realm)"
    by (rule flow_valid_path [OF builtin_graph_ok(3) [OF assms], where p = "[ids 1, ids 2, ids 3]"])
      (simp_all add: registration_def flow_defs)
  show "flow_valid (reset_credentials fid ids realm)"
    by (rule flow_valid_path [OF builtin_graph_ok(4) [OF assms], where p = "[ids 1, ids 2, ids 3, ids 4, ids 5]"])
      (simp_all add: reset_credentials_def flow_defs)
  show "flow_valid (first_broker_login fid ids realm)"
    by (rule flow_valid_path [OF builtin_graph_ok(5) [OF assms], where p = "[ids 1, ids 2]"])
      (simp_all add: first_broker_login_def flow_defs)
  show "flow_valid (client_authentication fid ids realm)"
    by (rule flow_valid_path [OF builtin_graph_ok(6) [OF assms], where p = "[ids 1, ids 2]"])
      (simp_all add: client_authentication_def flow_defs)
  show "flow_valid (step_up fid ids realm)"
    by (rule flow_valid_path [OF builtin_graph_ok(7) [OF assms], where p = "[ids 1, ids 2]"])
      (simp_all add: step_up_def flow_defs)
qed

text \<open>
  The factors each built-in flow demands: one success among each of the lists of providers.
\<close>

definition required_factors :: "string \<Rightarrow> string list list" where
  "required_factors alias =
     (if alias = alias_BROWSER then [[urn_COOKIE, urn_PASSWORD]]
      else if alias = alias_DIRECT_GRANT then [[urn_PASSWORD]]
      else if alias = alias_REGISTRATION then [[urn_PASSWORD]]
      else if alias = alias_RESET_CREDENTIALS then [[urn_MAGIC_LINK], [urn_PASSWORD]]
      else if alias = alias_FIRST_BROKER_LOGIN then [[urn_IDP_REDIRECT]]
      else if alias = alias_CLIENT_AUTHENTICATION then [[urn_CLIENT_AUTH]]
      else if alias = alias_STEP_UP then [[urn_OTP]]
      else [])"

lemma builtin_guarded:
  assumes "inj ids"
  shows "guarded_by (authn_nodes (browser fid ids realm) [urn_COOKIE, urn_PASSWORD]) (browser fid ids realm)"
    "guarded_by (authn_nodes (direct_grant fid ids realm) [urn_PASSWORD]) (direct_grant fid ids realm)"
    "guarded_by (authn_nodes (registration fid ids realm) [urn_PASSWORD]) (registration fid ids realm)"
    "guarded_by (authn_nodes (reset_credentials fid ids realm) [urn_MAGIC_LINK]) (reset_credentials fid ids realm)"
    "guarded_by (authn_nodes (reset_credentials fid ids realm) [urn_PASSWORD]) (reset_credentials fid ids realm)"
    "guarded_by (authn_nodes (first_broker_login fid ids realm) [urn_IDP_REDIRECT]) (first_broker_login fid ids realm)"
    "guarded_by (authn_nodes (client_authentication fid ids realm) [urn_CLIENT_AUTH]) (client_authentication fid ids realm)"
    "guarded_by (authn_nodes (step_up fid ids realm) [urn_OTP]) (step_up fid ids realm)"
proof -
  note defs = success_edge_of_def authn_nodes_def runs_one_of_def flow_defs inj_eq [OF assms]
  show "guarded_by (authn_nodes (browser fid ids realm) [urn_COOKIE, urn_PASSWORD]) (browser fid ids realm)"
    by (rule guarded_byI [where S = "ids ` {0, 1, 2, 3, 6}"]) (simp_all add: browser_def defs)
  show "guarded_by (authn_nodes (direct_grant fid ids realm) [urn_PASSWORD]) (direct_grant fid ids realm)"
    by (rule guarded_byI [where S = "ids ` {0, 1, 3}"]) (simp_all add: direct_grant_def defs)
  show "guarded_by (authn_nodes (registration fid ids realm) [urn_PASSWORD]) (registration fid ids realm)"
    by (rule guarded_byI [where S = "ids ` {0, 1, 2, 4}"]) (simp_all add: registration_def defs)
  show "guarded_by (authn_nodes (reset_credentials fid ids realm) [urn_MAGIC_LINK]) (reset_credentials fid ids realm)"
    by (rule guarded_byI [where S = "ids ` {0, 1, 2, 6}"]) (simp_all add: reset_credentials_def defs)
  show "guarded_by (authn_nodes (reset_credentials fid ids realm) [urn_PASSWORD]) (reset_credentials fid ids realm)"
    by (rule guarded_byI [where S = "ids ` {0, 1, 2, 3, 4, 6}"]) (simp_all add: reset_credentials_def defs)
  show "guarded_by (authn_nodes (first_broker_login fid ids realm) [urn_IDP_REDIRECT]) (first_broker_login fid ids realm)"
    by (rule guarded_byI [where S = "ids ` {0, 1, 3}"]) (simp_all add: first_broker_login_def defs)
  show "guarded_by (authn_nodes (client_authentication fid ids realm) [urn_CLIENT_AUTH]) (client_authentication fid ids realm)"
    by (rule guarded_byI [where S = "ids ` {0, 1, 3}"]) (simp_all add: client_authentication_def defs)
  show "guarded_by (authn_nodes (step_up fid ids realm) [urn_OTP]) (step_up fid ids realm)"
    by (rule guarded_byI [where S = "ids ` {0, 1, 3}"]) (simp_all add: step_up_def defs)
qed

lemma builtin_factors:
  "required_factors (FlowDefinition_alias (browser fid ids realm)) = [[urn_COOKIE, urn_PASSWORD]]"
  "required_factors (FlowDefinition_alias (direct_grant fid ids realm)) = [[urn_PASSWORD]]"
  "required_factors (FlowDefinition_alias (registration fid ids realm)) = [[urn_PASSWORD]]"
  "required_factors (FlowDefinition_alias (reset_credentials fid ids realm)) = [[urn_MAGIC_LINK], [urn_PASSWORD]]"
  "required_factors (FlowDefinition_alias (first_broker_login fid ids realm)) = [[urn_IDP_REDIRECT]]"
  "required_factors (FlowDefinition_alias (client_authentication fid ids realm)) = [[urn_CLIENT_AUTH]]"
  "required_factors (FlowDefinition_alias (step_up fid ids realm)) = [[urn_OTP]]"
  by (simp_all add: required_factors_def builtin_flow_defs flow_defs)

lemma builtin_required_guarded:
  assumes "\<forall>k. inj (ids k)" and "def \<in> set (v0_1_flows fids ids realm)"
    and "urns \<in> set (required_factors (FlowDefinition_alias def))"
  shows "guarded_by (authn_nodes def urns) def"
proof -
  have "\<forall>d\<in>set (v0_1_flows fids ids realm).
      \<forall>urns\<in>set (required_factors (FlowDefinition_alias d)). guarded_by (authn_nodes d urns) d"
    using assms(1) by (simp add: v0_1_flows_def builtin_guarded builtin_factors)
  with assms(2,3) show ?thesis by blast
qed

lemma builtin_valid_forward:
  assumes "\<forall>k. inj (ids k)" and "def \<in> set (v0_1_flows fids ids realm)"
  shows "flow_valid def \<and> acyclic (auto_edges def input)"
proof -
  have "\<forall>d\<in>set (v0_1_flows fids ids realm). flow_valid d \<and> (\<exists>k. forward (ids k) d)"
    using assms(1) unfolding v0_1_flows_def by (simp add: builtin_valid) (blast intro: builtin_forward)
  with assms show ?thesis by (blast intro: forward_acyclic)
qed

section \<open>Properties\<close>

text \<open>
  Every one of the seven built-in flows compiles, and on the compiled flow every call of
  \<open>step\<close> returns: with any dispatcher, any clock, any state and any input.
\<close>

theorem builtin_flows_run:
  fixes env :: "'w FlowEnv"
  assumes "\<forall>k. inj (ids k)" and "def \<in> set (v0_1_flows fids ids realm)"
  shows "\<exists>flow. compile def = Inr flow \<and>
    (\<forall>s input w. \<exists>r s' w'. step env flow s input w = Some (r, s', w'))"
proof -
  from builtin_valid_forward [OF assms] obtain flow where flow: "compile def = Inr flow"
    using compile_iff_valid by blast
  with builtin_valid_forward [OF assms] show ?thesis by (blast intro: step_total)
qed

text \<open>
  C24: The built-in flows demand their factors. A run of a built-in flow that ends with \<open>Done\<close> has
  recorded a success of the cookie or the password authenticator (browser flow), of the password
  authenticator (direct grant, registration), of the magic link and of the password authenticator
  (credential reset), of the identity-provider redirect (first broker login), of the client
  authentication, of the one-time password (step-up).
\<close>

theorem builtin_flows_demand_factors:
  assumes "\<forall>k. inj (ids k)" and "def \<in> set (v0_1_flows fids ids realm)"
    and "compile def = Inr flow" and "flow_run env flow s"
    and "step env flow s input w = Some (StepResult_Ok (StepOutput_Done u), s', w')"
    and "urns \<in> set (required_factors (FlowDefinition_alias def))"
  shows "succeeded_with def urns s'"
  using step_run_inv(2) [OF assms(3,5) flow_run_inv [OF assms(4,3)] refl
      builtin_required_guarded [OF assms(1,2,6)]]
  by (rule succeeded_in_authn_nodes)

section \<open>Concrete runs\<close>

text \<open>A dispatcher that always answers the same, a clock that stands still.\<close>

definition sample_env :: "AuthnStepOutcome \<Rightarrow> unit FlowEnv" where
  "sample_env outcome = \<lparr>utc_now = (\<lambda>w. (0, w)), dispatch = (\<lambda>urn s i w. (Inr outcome, w)),
     show_node_id = (\<lambda>i. []), parse_user_id = (\<lambda>s. if s = ''7'' then Some (UserId 7) else None),
     fresh_user_id = (\<lambda>w. (UserId 0, w))\<rparr>"

definition sample_state :: "nat \<Rightarrow> FlowState" where
  "sample_state k = \<lparr>FlowState_id = FlowStateId 0, FlowState_realm_id = RealmId 0,
     FlowState_flow_id = FlowId 0, FlowState_flow_version = 1, FlowState_current_node = NodeId k,
     FlowState_history = [], FlowState_context = FlowContext_default, FlowState_started_at = 0,
     FlowState_last_activity_at = 0, FlowState_expires_at = 600, FlowState_csrf_token = CsrfToken []\<rparr>"

definition sample_success :: "unit FlowEnv" where
  "sample_success = sample_env (AuthnStepOutcome_Success [''pwd''] 1 (Some ''7'') [])"

definition sample_direct_grant :: FlowDefinition where
  "sample_direct_grant = direct_grant (FlowId 1) NodeId (RealmId 0)"

lemma sample_direct_grant_run:
  obtains flow s' where "compile sample_direct_grant = Inr flow" "flow_run sample_success flow (sample_state 0)"
    "step sample_success flow (sample_state 0) StepInput_Start () =
       Some (StepResult_Ok (StepOutput_Done (Subject_Local (UserId 7))), s', ())"
proof -
  have eval: "case compile sample_direct_grant of
      Inl e \<Rightarrow> False
    | Inr flow \<Rightarrow>
       FlowDefinition_start (CompiledFlow_definition flow) = NodeId 0 \<and>
       map_option fst (step_fuel 5 sample_success flow StepInput_Start
           ((sample_state 0)\<lparr>FlowState_last_activity_at := 0\<rparr>) ()) =
         Some (StepResult_Ok (StepOutput_Done (Subject_Local (UserId 7))))"
    by code_simp
  then obtain flow s' where flow: "compile sample_direct_grant = Inr flow"
      "FlowDefinition_start (CompiledFlow_definition flow) = NodeId 0"
    and "step_fuel 5 sample_success flow StepInput_Start
      ((sample_state 0)\<lparr>FlowState_last_activity_at := 0\<rparr>) () =
        Some (StepResult_Ok (StepOutput_Done (Subject_Local (UserId 7))), s', ())"
    by (auto split: sum.splits)
  from step_fuel_sound [OF this(3)]
  have "step sample_success flow (sample_state 0) StepInput_Start () =
      Some (StepResult_Ok (StepOutput_Done (Subject_Local (UserId 7))), s', ())"
    by (simp add: step_def sample_success_def sample_env_def sample_state_def)
  moreover have "flow_run sample_success flow (sample_state 0)"
    by (rule flow_run.fresh) (simp_all add: flow sample_state_def)
  ultimately show ?thesis using that flow by blast
qed

theorem flow_run_no_panic_witness:
  "\<exists>flow r s'. compile sample_direct_grant = Inr flow \<and>
     step sample_success flow (sample_state 0) StepInput_Start () = Some (r, s', ()) \<and>
     r \<noteq> StepResult_Panic \<and> FlowState_current_node s' \<in> set (node_ids sample_direct_grant)"
proof (rule sample_direct_grant_run)
  fix flow s' assume "compile sample_direct_grant = Inr flow" "flow_run sample_success flow (sample_state 0)"
    "step sample_success flow (sample_state 0) StepInput_Start () =
       Some (StepResult_Ok (StepOutput_Done (Subject_Local (UserId 7))), s', ())"
  then show ?thesis using flow_run_no_panic [of sample_direct_grant flow sample_success "sample_state 0"]
    by fast
qed

theorem done_requires_success_witness:
  "\<exists>flow s'. compile sample_direct_grant = Inr flow \<and>
     step sample_success flow (sample_state 0) StepInput_Start () =
       Some (StepResult_Ok (StepOutput_Done (Subject_Local (UserId 7))), s', ()) \<and>
     (\<exists>h\<in>set (FlowState_history s'). FlowHistoryEntry_node h \<in> {NodeId 1} \<and>
        FlowHistoryEntry_outcome h = ''success'')"
proof (rule sample_direct_grant_run)
  fix flow s' assume run: "compile sample_direct_grant = Inr flow"
    "flow_run sample_success flow (sample_state 0)"
    "step sample_success flow (sample_state 0) StepInput_Start () =
       Some (StepResult_Ok (StepOutput_Done (Subject_Local (UserId 7))), s', ())"
  have "authn_nodes sample_direct_grant [urn_PASSWORD] = {NodeId 1}"
    by (simp add: authn_nodes_def runs_one_of_def sample_direct_grant_def direct_grant_def flow_defs)
  moreover have "inj NodeId" by (simp add: inj_def)
  ultimately have "guarded_by {NodeId 1} sample_direct_grant"
    using builtin_guarded(2) [of NodeId] by (metis sample_direct_grant_def)
  from done_requires_success [OF run(1) this run(2,3)] run show ?thesis by blast
qed

theorem step_returns_if_acyclic_witness:
  "\<exists>flow r s' w'. compile sample_direct_grant = Inr flow \<and>
     step sample_success flow (sample_state 1) StepInput_Resume () = Some (r, s', w')"
proof (rule sample_direct_grant_run)
  fix flow s' assume run: "compile sample_direct_grant = Inr flow"
  have "inj NodeId" by (simp add: inj_def)
  then have "acyclic (auto_edges sample_direct_grant StepInput_Resume)"
    using forward_acyclic builtin_forward(2) by (simp add: sample_direct_grant_def)
  from step_returns_if_acyclic [OF run this, of sample_success "sample_state 1" "()"] run
  show ?thesis by blast
qed

definition sample_ids :: "nat \<Rightarrow> nat \<Rightarrow> NodeId" where
  "sample_ids k = NodeId"

lemma sample_ids_inj: "\<forall>k. inj (sample_ids k)"
  by (simp add: sample_ids_def inj_def)

lemma sample_direct_grant_builtin:
  "sample_direct_grant \<in> set (v0_1_flows FlowId sample_ids (RealmId 0))"
  by (simp add: v0_1_flows_def sample_direct_grant_def sample_ids_def)

theorem builtin_flows_run_witness:
  "\<exists>flow. compile sample_direct_grant = Inr flow \<and>
     (\<forall>s input w. \<exists>r s' w'. step sample_success flow s input w = Some (r, s', w'))"
  by (rule builtin_flows_run [OF sample_ids_inj sample_direct_grant_builtin])

theorem builtin_flows_demand_factors_witness:
  "\<exists>flow s'. step sample_success flow (sample_state 0) StepInput_Start () =
       Some (StepResult_Ok (StepOutput_Done (Subject_Local (UserId 7))), s', ()) \<and>
     succeeded_with sample_direct_grant [urn_PASSWORD] s'"
proof (rule sample_direct_grant_run)
  fix flow s' assume run: "compile sample_direct_grant = Inr flow"
    "flow_run sample_success flow (sample_state 0)"
    "step sample_success flow (sample_state 0) StepInput_Start () =
       Some (StepResult_Ok (StepOutput_Done (Subject_Local (UserId 7))), s', ())"
  have "[urn_PASSWORD] \<in> set (required_factors (FlowDefinition_alias sample_direct_grant))"
    by (simp add: sample_direct_grant_def builtin_factors)
  from builtin_flows_demand_factors [OF sample_ids_inj sample_direct_grant_builtin run this] run(3)
  show ?thesis by blast
qed

section \<open>A flow on which the executor does not return\<close>

text \<open>A login form whose failed password goes back to the form.\<close>

definition retry_flow :: FlowDefinition where
  "retry_flow = mk_flow (FlowId 0) (RealmId 0) ''retry'' ''Retry'' (NodeId 0)
     [edge (NodeId 0) (NodeId 1) EdgeCondition_Otherwise,
      edge (NodeId 1) (NodeId 2) EdgeCondition_Success,
      edge (NodeId 2) (NodeId 3) EdgeCondition_Success,
      edge (NodeId 2) (NodeId 1) EdgeCondition_Failure]
     [node_start (NodeId 0), node_render (NodeId 1) ''login form'' ''login'',
      node_authn (NodeId 2) ''password'' urn_PASSWORD Requirement_Required,
      node_success (NodeId 3)]"

definition sample_failure :: "unit FlowEnv" where
  "sample_failure = sample_env (AuthnStepOutcome_Failure FlowFailure_InvalidCredential)"

lemma retry_flow_compiles: "\<exists>flow. compile retry_flow = Inr flow"
proof -
  have "case compile retry_flow of Inr flow \<Rightarrow> True | Inl e \<Rightarrow> False" by code_simp
  then show ?thesis by (auto split: sum.splits)
qed

lemma retry_turn:
  assumes "compile retry_flow = Inr flow" and "FlowState_current_node s \<in> {NodeId 1, NodeId 2}"
  shows "\<exists>s' w'. exec_node sample_failure flow (StepInput_Submit form) s w = Control_Continue s' w' \<and>
    FlowState_current_node s' \<in> {NodeId 1, NodeId 2}"
proof -
  note defs = exec_node_def exec_authenticator_def goto_def next_or_otherwise_def is_posted_def
    compile_Inr(3) [OF assms(1)] next_with_guard_compiled [OF assms(1)] push_history_def
    sample_failure_def sample_env_def edges_from_def retry_flow_def flow_defs
  from assms(2) show ?thesis by (auto simp: defs)
qed

lemma retry_stays:
  assumes "exec_steps sample_failure flow (StepInput_Submit form) s w s1 w1"
    and "compile retry_flow = Inr flow" and "FlowState_current_node s \<in> {NodeId 1, NodeId 2}"
  shows "FlowState_current_node s1 \<in> {NodeId 1, NodeId 2}"
  using assms
proof induction
  case (move s w s1 w1 s2 w2)
  from retry_turn [OF move.prems, of form w] move.hyps(1)
  have "FlowState_current_node s1 \<in> {NodeId 1, NodeId 2}" by auto
  with move.IH move.prems(1) show ?case by blast
qed

text \<open>
  C34: The compiler accepts a login flow whose failed password leads back to the login form, and
  on it the executor never returns from a posted form whose password is wrong: it treats the form
  as posted again and dispatches the authenticator again, without end.
\<close>

theorem retry_flow_diverges:
  "\<exists>flow. compile retry_flow = Inr flow \<and>
     step sample_failure flow (sample_state 1) (StepInput_Submit form) () = None"
proof -
  obtain flow where flow: "compile retry_flow = Inr flow" using retry_flow_compiles by blast
  have "step_loop sample_failure flow (StepInput_Submit form) (sample_state 1) () = None"
  proof (rule ccontr)
    assume "step_loop sample_failure flow (StepInput_Submit form) (sample_state 1) () \<noteq> None"
    then obtain r s2 w2 where "step_loop sample_failure flow (StepInput_Submit form) (sample_state 1) () =
      Some (r, s2, w2)" by auto
    then obtain s1 w1 where steps: "exec_steps sample_failure flow (StepInput_Submit form) (sample_state 1) () s1 w1"
      and ret: "exec_node sample_failure flow (StepInput_Submit form) s1 w1 = Control_Return r s2 w2"
      by (rule step_loop_relation)
    have "FlowState_current_node s1 \<in> {NodeId 1, NodeId 2}"
      by (rule retry_stays [OF steps flow]) (simp add: sample_state_def)
    from retry_turn [OF flow this, of form w1] ret show False by auto
  qed
  with flow show ?thesis
    by (auto simp: step_def sample_failure_def sample_env_def sample_state_def)
qed

end
