(* ===== verification/Flow_DryRun.thy ===== *)
theory Flow_DryRun
  imports Flow_Builtin
begin

text \<open>
  The admin dry run, \<^verbatim>\<open>crates/geonosis-flow/src/dry_run.rs\<close>: a walk over a compiled flow against
  a fixed context, with assumed or pinned outcomes and a budget of \<open>MAX_STEPS\<close> nodes. The
  \<open>Display\<close> of node ids and the \<open>Debug\<close> form of non-ASCII characters are arguments.
\<close>

definition MAX_STEPS :: nat where "MAX_STEPS = 256"

datatype ExpectedOutcome = ExpectedOutcome_Success | ExpectedOutcome_Failure | ExpectedOutcome_Skip

fun as_edge_condition :: "ExpectedOutcome \<Rightarrow> EdgeCondition" where
  "as_edge_condition ExpectedOutcome_Success = EdgeCondition_Success"
| "as_edge_condition ExpectedOutcome_Failure = EdgeCondition_Failure"
| "as_edge_condition ExpectedOutcome_Skip = EdgeCondition_Otherwise"

datatype Decision = Decision_Taken | Decision_Skipped

record DryRunStep =
  DryRunStep_node_id :: NodeId
  DryRunStep_kind :: string
  DryRunStep_decision :: Decision
  DryRunStep_reason :: string

datatype TerminalState = TerminalState_Success | TerminalState_Failure | TerminalState_Incomplete

record DryRunReport =
  DryRunReport_steps :: "DryRunStep list"
  DryRunReport_terminal :: TerminalState
  DryRunReport_reason :: "string option"

datatype DryRunError = DryRunError_Compile CompileError

section \<open>Texts\<close>

fun node_kind_label :: "NodeKind \<Rightarrow> string" where
  "node_kind_label (NodeKind_Start s) = ''start''"
| "node_kind_label (NodeKind_Render t) = ''render''"
| "node_kind_label (NodeKind_Authenticator u) = ''authenticator''"
| "node_kind_label (NodeKind_Broker i) = ''broker''"
| "node_kind_label (NodeKind_Switch c) = ''switch''"
| "node_kind_label (NodeKind_SubFlow a) = ''sub-flow''"
| "node_kind_label (NodeKind_Action a) = ''action''"
| "node_kind_label (NodeKind_Success s) = ''success''"
| "node_kind_label (NodeKind_Failure r) = ''failure''"

fun ExpectedOutcome_debug :: "ExpectedOutcome \<Rightarrow> string" where
  "ExpectedOutcome_debug ExpectedOutcome_Success = ''Success''"
| "ExpectedOutcome_debug ExpectedOutcome_Failure = ''Failure''"
| "ExpectedOutcome_debug ExpectedOutcome_Skip = ''Skip''"

text \<open>
  The \<open>Debug\<close> form of a string: quotes, backslashes and control characters are escaped; a
  character outside ASCII goes through the Unicode tables, the argument \<open>debug_char\<close>.
\<close>

definition debug_ascii :: "char \<Rightarrow> string" where
  "debug_ascii c = (let n = of_char c :: nat in
     if n = 0 then [CHR 0x5C, CHR ''0'']
     else if n = 9 then [CHR 0x5C, CHR ''t'']
     else if n = 10 then [CHR 0x5C, CHR ''n'']
     else if n = 13 then [CHR 0x5C, CHR ''r'']
     else if n = 34 then [CHR 0x5C, CHR 0x22]
     else if n = 92 then [CHR 0x5C, CHR 0x5C]
     else if n < 16 then [CHR 0x5C, CHR ''u'', CHR 0x7B, hex_digit n, CHR 0x7D]
     else if n < 32 \<or> n = 127 then
       [CHR 0x5C, CHR ''u'', CHR 0x7B, hex_digit (n div 16), hex_digit (n mod 16), CHR 0x7D]
     else [c])"

definition debug_str :: "(string \<Rightarrow> string) \<Rightarrow> string \<Rightarrow> string" where
  "debug_str debug_char s =
     [CHR 0x22] @ concat (map (\<lambda>u. case u of
         [c] \<Rightarrow> if (of_char c :: nat) < 128 then debug_ascii c else debug_char u
       | _ \<Rightarrow> debug_char u) (utf8_chars s)) @ [CHR 0x22]"

fun EdgeCondition_debug :: "(string \<Rightarrow> string) \<Rightarrow> EdgeCondition \<Rightarrow> string" where
  "EdgeCondition_debug dc EdgeCondition_Otherwise = ''Otherwise''"
| "EdgeCondition_debug dc EdgeCondition_Success = ''Success''"
| "EdgeCondition_debug dc EdgeCondition_Failure = ''Failure''"
| "EdgeCondition_debug dc (EdgeCondition_Status s) = ''Status('' @ debug_str dc s @ '')''"

definition quoted :: "string \<Rightarrow> string" where
  "quoted s = [CHR 0x60] @ s @ [CHR 0x60]"

text \<open>The em dash of the messages, in UTF-8 between spaces.\<close>

definition em_dash :: string where
  "em_dash = [CHR '' '', CHR 0xE2, CHR 0x80, CHR 0x94, CHR '' '']"

section \<open>The walk\<close>

text \<open>The edge condition a node emits, and the label of the step; \<open>None\<close> is \<open>unreachable!\<close>.\<close>

fun preferred_condition :: "NodeKind \<Rightarrow> ExpectedOutcome option \<Rightarrow> (EdgeCondition \<times> string) option" where
  "preferred_condition (NodeKind_Switch c) p =
     Some (EdgeCondition_Status c, ''switch on '' @ quoted c)"
| "preferred_condition (NodeKind_Authenticator u) (Some p) =
     Some (as_edge_condition p,
       ''authenticator '' @ quoted u @ em_dash @ ''pinned '' @ ExpectedOutcome_debug p)"
| "preferred_condition (NodeKind_Authenticator u) None =
     Some (EdgeCondition_Success, ''authenticator '' @ quoted u @ em_dash @ ''assumed Success'')"
| "preferred_condition (NodeKind_Broker i) (Some p) =
     Some (as_edge_condition p, ''broker '' @ quoted i @ em_dash @ ''pinned '' @ ExpectedOutcome_debug p)"
| "preferred_condition (NodeKind_Broker i) None =
     Some (EdgeCondition_Success, ''broker '' @ quoted i @ em_dash @ ''assumed Success'')"
| "preferred_condition (NodeKind_Render t) p =
     Some (EdgeCondition_Success, ''render '' @ quoted t @ em_dash @ ''synthetic submit'')"
| "preferred_condition (NodeKind_Start s) p = Some (EdgeCondition_Otherwise, ''start node'')"
| "preferred_condition (NodeKind_Action a) p = Some (EdgeCondition_Otherwise, ''action '' @ quoted a)"
| "preferred_condition (NodeKind_SubFlow a) p = Some (EdgeCondition_Otherwise, ''sub-flow '' @ quoted a)"
| "preferred_condition (NodeKind_Success s) p = None"
| "preferred_condition (NodeKind_Failure r) p = None"

definition mk_step :: "NodeId \<Rightarrow> NodeKind \<Rightarrow> Decision \<Rightarrow> string \<Rightarrow> DryRunStep" where
  "mk_step i k d reason = \<lparr>DryRunStep_node_id = i, DryRunStep_kind = node_kind_label k,
     DryRunStep_decision = d, DryRunStep_reason = reason\<rparr>"

definition mk_report :: "DryRunStep list \<Rightarrow> TerminalState \<Rightarrow> string option \<Rightarrow> DryRunReport" where
  "mk_report steps terminal reason = \<lparr>DryRunReport_steps = steps,
     DryRunReport_terminal = terminal, DryRunReport_reason = reason\<rparr>"

text \<open>
  The loop; the first argument counts the turns left. The result \<open>None\<close> is a panic: a node that
  is not in the graph, or the arm marked unreachable.
\<close>

fun dry_run_loop ::
  "nat \<Rightarrow> (NodeId \<Rightarrow> string) \<Rightarrow> (string \<Rightarrow> string) \<Rightarrow> CompiledFlow \<Rightarrow> FlowContext
    \<Rightarrow> (NodeId, ExpectedOutcome) hash_map \<Rightarrow> DryRunStep list \<Rightarrow> NodeId \<Rightarrow> DryRunReport option" where
  "dry_run_loop 0 show_id dc flow ctx expected steps current =
     Some (mk_report steps TerminalState_Incomplete
       (Some (''walker exceeded '' @ show_nat MAX_STEPS @ '' steps without reaching a terminal'')))"
| "dry_run_loop (Suc n) show_id dc flow ctx expected steps current =
     (case CompiledFlow_node flow current of
        None \<Rightarrow> None
      | Some node \<Rightarrow>
     (let i = FlowNode_id node; k = FlowNode_kind node in
      case k of
        NodeKind_Success s \<Rightarrow>
          Some (mk_report (steps @ [mk_step i k Decision_Taken ''reached success terminal''])
            TerminalState_Success None)
      | NodeKind_Failure reason \<Rightarrow>
          Some (mk_report (steps @ [mk_step i k Decision_Taken (''reached failure terminal: '' @ reason)])
            TerminalState_Failure None)
      | _ \<Rightarrow>
     (case preferred_condition k (map_of expected i) of
        None \<Rightarrow> None
      | Some (preferred, outcome_label) \<Rightarrow>
     (case next_or_otherwise flow i preferred ctx of
        Some target \<Rightarrow>
          dry_run_loop n show_id dc flow ctx expected
            (steps @ [mk_step i k Decision_Taken outcome_label]) target
      | None \<Rightarrow>
          (let reason = ''no outbound edge from '' @ quoted (show_id i) @ '' matches condition '' @
                 quoted (EdgeCondition_debug dc preferred) @ '' with current context''
           in Some (mk_report (steps @ [mk_step i k Decision_Skipped reason])
                TerminalState_Incomplete (Some reason)))))))"

definition dry_run_compiled ::
  "(NodeId \<Rightarrow> string) \<Rightarrow> (string \<Rightarrow> string) \<Rightarrow> CompiledFlow \<Rightarrow> FlowContext
    \<Rightarrow> (NodeId, ExpectedOutcome) hash_map \<Rightarrow> DryRunReport option" where
  "dry_run_compiled show_id dc flow ctx expected =
     dry_run_loop MAX_STEPS show_id dc flow ctx expected []
       (FlowDefinition_start (CompiledFlow_definition flow))"

definition dry_run ::
  "(NodeId \<Rightarrow> string) \<Rightarrow> (string \<Rightarrow> string) \<Rightarrow> FlowDefinition \<Rightarrow> FlowContext
    \<Rightarrow> (NodeId, ExpectedOutcome) hash_map \<Rightarrow> (DryRunError + DryRunReport) option" where
  "dry_run show_id dc flow ctx expected =
     (case compile flow of
        Inl e \<Rightarrow> Some (Inl (DryRunError_Compile e))
      | Inr compiled \<Rightarrow> map_option Inr (dry_run_compiled show_id dc compiled ctx expected))"

section \<open>Lemmas\<close>

text \<open>The nodes of a trace, and that consecutive nodes are joined by edges of the definition.\<close>

definition trace :: "DryRunStep list \<Rightarrow> NodeId list" where
  "trace steps = map DryRunStep_node_id steps"

fun edge_path :: "FlowDefinition \<Rightarrow> NodeId list \<Rightarrow> bool" where
  "edge_path def (a # b # r) =
     ((\<exists>e\<in>set (FlowDefinition_edges def). Edge_from e = a \<and> Edge_to e = b) \<and> edge_path def (b # r))"
| "edge_path def _ = True"

lemma edge_path_snoc:
  "edge_path def (xs @ [a, b]) \<longleftrightarrow>
     edge_path def (xs @ [a]) \<and> (\<exists>e\<in>set (FlowDefinition_edges def). Edge_from e = a \<and> Edge_to e = b)"
  by (induction def xs rule: edge_path.induct) auto

lemma trace_simps [simp]:
  "trace [] = []" "trace (xs @ [mk_step i k d r]) = trace xs @ [i]"
  by (simp_all add: trace_def mk_step_def)

lemma preferred_condition_Some:
  "preferred_condition k p = None \<longleftrightarrow> is_terminal_kind k"
  by (cases "(k, p)" rule: preferred_condition.cases) simp_all

definition terminal_matches :: "TerminalState \<Rightarrow> NodeKind \<Rightarrow> bool" where
  "terminal_matches t k = (case t of
     TerminalState_Success \<Rightarrow> is_Success_kind k
   | TerminalState_Failure \<Rightarrow> is_terminal_kind k \<and> \<not> is_Success_kind k
   | TerminalState_Incomplete \<Rightarrow> True)"

definition ends_at :: "FlowDefinition \<Rightarrow> DryRunReport \<Rightarrow> bool" where
  "ends_at def r \<longleftrightarrow> (\<exists>x\<in>set (FlowDefinition_nodes def).
     FlowNode_id x = last (trace (DryRunReport_steps r)) \<and>
     terminal_matches (DryRunReport_terminal r) (FlowNode_kind x))"

lemma dry_run_loop_ok:
  assumes comp: "compile def = Inr flow"
  shows "\<lbrakk>current \<in> set (node_ids def); edge_path def (trace steps @ [current]);
     n = 0 \<longrightarrow> steps \<noteq> [] \<and> last (trace steps) \<in> set (node_ids def)\<rbrakk>
    \<Longrightarrow> \<exists>r. dry_run_loop n show_id dc flow ctx expected steps current = Some r \<and>
       (\<exists>more. trace (DryRunReport_steps r) = trace steps @ more \<and> (n > 0 \<longrightarrow> more \<noteq> [] \<and> hd more = current)) \<and>
       edge_path def (trace (DryRunReport_steps r)) \<and>
       length (DryRunReport_steps r) \<le> length steps + n \<and> ends_at def r"
proof (induction n arbitrary: steps current)
  case 0
  then have "edge_path def (trace steps)"
    by (cases "trace steps" rule: rev_cases) (auto simp: edge_path_snoc [simplified])
  moreover from 0 have "\<exists>x\<in>set (FlowDefinition_nodes def). FlowNode_id x = last (trace steps)"
    by (auto simp: node_ids_def)
  ultimately show ?case by (simp add: mk_report_def ends_at_def terminal_matches_def)
next
  case (Suc n)
  obtain node where n: "CompiledFlow_node flow current = Some node"
    using node_exists [OF comp Suc.prems(1)] by blast
  note node = node_SomeD [OF comp n]
  have here: "\<exists>x\<in>set (FlowDefinition_nodes def). FlowNode_id x = current \<and> FlowNode_kind x = FlowNode_kind node"
    using node by blast
  show ?case
  proof (cases "is_terminal_kind (FlowNode_kind node)")
    case True
    then show ?thesis using n node Suc.prems(2)
      by (cases "FlowNode_kind node")
        (auto simp: mk_report_def ends_at_def terminal_matches_def intro!: bexI [of _ node])
  next
    case False
    then obtain pc lab where pc: "preferred_condition (FlowNode_kind node) (map_of expected current) = Some (pc, lab)"
      using preferred_condition_Some by (metis not_None_eq surj_pair)
    show ?thesis
    proof (cases "next_or_otherwise flow current pc ctx")
      case None
      with False n node pc Suc.prems(2) show ?thesis
        by (cases "FlowNode_kind node")
          (auto simp: Let_def mk_report_def ends_at_def terminal_matches_def intro!: bexI [of _ node])
    next
      case (Some target)
      let ?steps = "steps @ [mk_step current (FlowNode_kind node) Decision_Taken lab]"
      have run: "dry_run_loop (Suc n) show_id dc flow ctx expected steps current =
          dry_run_loop n show_id dc flow ctx expected ?steps target"
        using False n node pc Some by (cases "FlowNode_kind node") (simp_all add: Let_def)
      from next_or_otherwise_edge [OF comp Some] obtain e where
        e: "e \<in> set (FlowDefinition_edges def)" "Edge_from e = current" "Edge_to e = target" by blast
      then have "target \<in> set (node_ids def)"
        using flow_valid_graph [OF comp] by (auto simp: graph_ok_def)
      moreover have "edge_path def (trace ?steps @ [target])"
        using Suc.prems(2) e by (auto simp: edge_path_snoc)
      ultimately have "\<exists>r. dry_run_loop n show_id dc flow ctx expected ?steps target = Some r \<and>
         (\<exists>more. trace (DryRunReport_steps r) = trace ?steps @ more \<and> (n > 0 \<longrightarrow> more \<noteq> [] \<and> hd more = target)) \<and>
         edge_path def (trace (DryRunReport_steps r)) \<and>
         length (DryRunReport_steps r) \<le> length ?steps + n \<and> ends_at def r"
        using Suc.IH [of target ?steps] Suc.prems(1) by simp
      then show ?thesis unfolding run by fastforce
    qed
  qed
qed

section \<open>Properties\<close>

text \<open>
  A dry run of a definition that compiles always ends with a report (it cannot panic), the
  report lists between one and 256 nodes, they form a path along edges of the definition that
  begins at the start node, and the reported terminal is the kind of the last node: a success
  terminal for \<open>Success\<close>, a failure terminal for \<open>Failure\<close>.
\<close>

theorem dry_run_report:
  assumes "compile def = Inr flow"
  shows "\<exists>r. dry_run show_id dc def ctx expected = Some (Inr r) \<and>
    DryRunReport_steps r \<noteq> [] \<and> length (DryRunReport_steps r) \<le> 256 \<and>
    DryRunStep_node_id (hd (DryRunReport_steps r)) = FlowDefinition_start def \<and>
    edge_path def (map DryRunStep_node_id (DryRunReport_steps r)) \<and>
    (\<exists>x\<in>set (FlowDefinition_nodes def).
       FlowNode_id x = DryRunStep_node_id (last (DryRunReport_steps r)) \<and>
       (DryRunReport_terminal r = TerminalState_Success \<longrightarrow> is_Success_kind (FlowNode_kind x)) \<and>
       (DryRunReport_terminal r = TerminalState_Failure \<longrightarrow> (\<exists>why. FlowNode_kind x = NodeKind_Failure why)))"
proof -
  have start: "FlowDefinition_start def \<in> set (node_ids def)"
    using flow_valid_graph [OF assms] by (simp add: graph_ok_def)
  have "\<exists>r. dry_run_loop MAX_STEPS show_id dc flow ctx expected [] (FlowDefinition_start def) = Some r \<and>
      (\<exists>more. trace (DryRunReport_steps r) = trace [] @ more \<and>
         (MAX_STEPS > 0 \<longrightarrow> more \<noteq> [] \<and> hd more = FlowDefinition_start def)) \<and>
      edge_path def (trace (DryRunReport_steps r)) \<and>
      length (DryRunReport_steps r) \<le> length ([] :: DryRunStep list) + MAX_STEPS \<and> ends_at def r"
    by (rule dry_run_loop_ok [OF assms start]) (simp_all add: MAX_STEPS_def)
  then obtain r where r: "dry_run_loop MAX_STEPS show_id dc flow ctx expected [] (FlowDefinition_start def) = Some r"
    "trace (DryRunReport_steps r) \<noteq> []" "hd (trace (DryRunReport_steps r)) = FlowDefinition_start def"
    "edge_path def (trace (DryRunReport_steps r))" "length (DryRunReport_steps r) \<le> 256" "ends_at def r"
    by (auto simp: MAX_STEPS_def)
  have fail: "terminal_matches TerminalState_Failure k \<Longrightarrow> \<exists>why. k = NodeKind_Failure why" for k
    by (cases k) (simp_all add: terminal_matches_def)
  have "dry_run show_id dc def ctx expected = Some (Inr r)"
    using r(1) by (simp add: dry_run_def dry_run_compiled_def assms compile_Inr(2) [OF assms])
  moreover have "DryRunReport_steps r \<noteq> []" using r(2) by (auto simp: trace_def)
  moreover from r(6) this obtain x where "x \<in> set (FlowDefinition_nodes def)"
    "FlowNode_id x = DryRunStep_node_id (last (DryRunReport_steps r))"
    "terminal_matches (DryRunReport_terminal r) (FlowNode_kind x)"
    by (auto simp: ends_at_def trace_def last_map)
  ultimately show ?thesis using r(3-5) fail
    by (intro exI [of _ r]) (auto simp: trace_def hd_map terminal_matches_def intro!: bexI [of _ x])
qed

text \<open>How an outcome of the dispatcher is pinned in a dry run.\<close>

fun pinned :: "AuthnStepOutcome \<Rightarrow> ExpectedOutcome option" where
  "pinned (AuthnStepOutcome_Render r) = None"
| "pinned (AuthnStepOutcome_Success amr d u l) = Some ExpectedOutcome_Success"
| "pinned AuthnStepOutcome_Skip = Some ExpectedOutcome_Skip"
| "pinned (AuthnStepOutcome_Failure f) = Some ExpectedOutcome_Failure"

lemma next_or_otherwise_otherwise:
  "next_or_otherwise flow i EdgeCondition_Otherwise ctx = next_with_guard flow i EdgeCondition_Otherwise ctx"
  by (auto simp: next_or_otherwise_def split: option.splits)

lemma next_or_otherwise_next: "next_with_guard flow i on ctx = Some m \<Longrightarrow> next_or_otherwise flow i on ctx = Some m"
  by (simp add: next_or_otherwise_def)

text \<open>
  The turns one call of \<open>step\<close> makes from a state, as the list of the states it advances from.
\<close>

inductive exec_path ::
  "'w FlowEnv \<Rightarrow> CompiledFlow \<Rightarrow> StepInput \<Rightarrow> FlowState \<Rightarrow> 'w \<Rightarrow> (FlowState \<times> 'w) list \<Rightarrow> FlowState \<Rightarrow> 'w \<Rightarrow> bool"
  for env flow input where
  path_stay: "exec_path env flow input s w [] s w"
| path_move: "\<lbrakk>exec_node env flow input s w = Control_Continue s1 w1; exec_path env flow input s1 w1 visited s2 w2\<rbrakk>
     \<Longrightarrow> exec_path env flow input s w ((s, w) # visited) s2 w2"

lemma exec_path_steps: "exec_path env flow input s w visited s' w' \<Longrightarrow> exec_steps env flow input s w s' w'"
  by (induction rule: exec_path.induct) (auto intro: exec_steps.intros)

text \<open>
  What a dry run has to be told to foresee a turn: the kind of outcome of the authenticator (success
  where nothing is pinned), and a context in which the guards of the flow have the values they have in
  the state.
\<close>

definition foreseen ::
  "'w FlowEnv \<Rightarrow> CompiledFlow \<Rightarrow> StepInput \<Rightarrow> (NodeId, ExpectedOutcome) hash_map \<Rightarrow> FlowState \<times> 'w \<Rightarrow> bool" where
  "foreseen env flow input expected x \<longleftrightarrow>
     (\<forall>node urn. CompiledFlow_node flow (FlowState_current_node (fst x)) = Some node \<and>
        FlowNode_kind node = NodeKind_Authenticator urn \<longrightarrow>
        (\<exists>outcome. fst (dispatch env urn (fst x) input (snd x)) = Inr outcome \<and>
           pinned outcome = Some (unwrap_or (map_of expected (FlowState_current_node (fst x))) ExpectedOutcome_Success)))"

definition guards_agree :: "FlowDefinition \<Rightarrow> FlowContext \<Rightarrow> FlowState \<Rightarrow> bool" where
  "guards_agree def ctx s \<longleftrightarrow> (\<forall>e\<in>set (FlowDefinition_edges def).
     eval_guard (Edge_guard e) (FlowState_context s) = eval_guard (Edge_guard e) ctx)"

lemma next_agree:
  assumes "compile def = Inr flow" "guards_agree def ctx s"
  shows "next_or_otherwise flow i on (FlowState_context s) = next_or_otherwise flow i on ctx"
proof -
  have g: "eval_guard (Edge_guard e) (FlowState_context s) = eval_guard (Edge_guard e) ctx" if "e \<in> set (edges_from def i)" for e
    using assms(2) that by (auto simp: guards_agree_def edges_from_def)
  have eq: "find (\<lambda>e. Edge_on e = c \<and> eval_guard (Edge_guard e) (FlowState_context s)) (edges_from def i) =
      find (\<lambda>e. Edge_on e = c \<and> eval_guard (Edge_guard e) ctx) (edges_from def i)" for c
    by (rule find_cong) (simp_all add: g)
  show ?thesis unfolding next_or_otherwise_def next_with_guard_compiled [OF assms(1)] eq ..
qed

text \<open>One turn: the edge condition the dry run emits leads to the node the executor goes to.\<close>

lemma dry_run_turn:
  assumes ex: "exec_node env flow input s w = Control_Continue s' w'"
    and node: "CompiledFlow_node flow (FlowState_current_node s) = Some node"
    and id: "FlowNode_id node = FlowState_current_node s"
    and pin: "foreseen env flow input expected (s, w)"
  shows "\<exists>preferred label. preferred_condition (FlowNode_kind node) (map_of expected (FlowState_current_node s)) =
      Some (preferred, label) \<and>
    next_or_otherwise flow (FlowState_current_node s) preferred (FlowState_context s') =
      Some (FlowState_current_node s')"
proof (cases "FlowNode_kind node")
  case (NodeKind_Authenticator urn)
  then obtain outcome w1 where d: "dispatch env urn s input w = (Inr outcome, w1)"
    and p: "pinned outcome = Some (unwrap_or (map_of expected (FlowState_current_node s)) ExpectedOutcome_Success)"
    using pin node unfolding foreseen_def by (metis fst_conv snd_conv surj_pair)
  have "exec_authenticator env flow input (FlowState_current_node s) urn s w = Control_Continue s' w'"
    using ex node id NodeKind_Authenticator by (simp add: exec_node_def)
  then show ?thesis using NodeKind_Authenticator d p
    by (cases outcome; cases "map_of expected (FlowState_current_node s)")
      (auto simp: exec_authenticator_def goto_Continue next_or_otherwise_otherwise
        intro: next_or_otherwise_next split: prod.splits option.splits)
qed (use ex node id in \<open>auto simp: exec_node_def Let_def goto_Continue next_or_otherwise_otherwise
      split: prod.splits if_splits option.splits\<close>)

lemma dry_run_loop_follows:
  assumes comp: "compile def = Inr flow"
    and path: "exec_path env flow input s w visited s' w'"
    and "\<forall>x \<in> set visited. foreseen env flow input expected x"
    and "guards_agree def ctx s'" "\<forall>x \<in> set visited. guards_agree def ctx (fst x)"
  shows "\<exists>steps'. trace steps' = map (FlowState_current_node \<circ> fst) visited \<and>
    dry_run_loop (length visited + n) show_id dc flow ctx expected steps (FlowState_current_node s) =
    dry_run_loop n show_id dc flow ctx expected (steps @ steps') (FlowState_current_node s')"
  using path assms(3-5)
proof (induction arbitrary: steps rule: exec_path.induct)
  case (path_stay s w)
  then show ?case by (intro exI [of _ "[]"]) simp
next
  case (path_move s w s1 w1 visited s2 w2)
  obtain node where n: "CompiledFlow_node flow (FlowState_current_node s) = Some node"
    using path_move.hyps(1) by (auto simp: exec_node_def split: option.splits)
  note node = node_SomeD [OF comp n]
  have agree: "guards_agree def ctx s1"
    using path_move.hyps(2) path_move.prems by (cases rule: exec_path.cases) auto
  have pin: "foreseen env flow input expected (s, w)" using path_move.prems(1) by simp
  obtain pc lab where pc: "preferred_condition (FlowNode_kind node) (map_of expected (FlowState_current_node s)) = Some (pc, lab)"
    and nxt: "next_or_otherwise flow (FlowState_current_node s) pc ctx = Some (FlowState_current_node s1)"
    using dry_run_turn [OF path_move.hyps(1) n node(2) pin] unfolding next_agree [OF comp agree] by blast
  let ?step = "mk_step (FlowState_current_node s) (FlowNode_kind node) Decision_Taken lab"
  have nt: "\<not> is_terminal_kind (FlowNode_kind node)" using pc preferred_condition_Some by (metis option.distinct(1))
  have "dry_run_loop (length ((s, w) # visited) + n) show_id dc flow ctx expected steps (FlowState_current_node s) =
      dry_run_loop (length visited + n) show_id dc flow ctx expected (steps @ [?step]) (FlowState_current_node s1)"
    using nt n node pc nxt by (cases "FlowNode_kind node") (simp_all add: Let_def)
  moreover have "\<exists>steps'. trace steps' = map (FlowState_current_node \<circ> fst) visited \<and>
    dry_run_loop (length visited + n) show_id dc flow ctx expected (steps @ [?step]) (FlowState_current_node s1) =
    dry_run_loop n show_id dc flow ctx expected ((steps @ [?step]) @ steps') (FlowState_current_node s2)"
    by (rule path_move.IH) (use path_move.prems in simp_all)
  then obtain steps' where "trace steps' = map (FlowState_current_node \<circ> fst) visited"
    "dry_run_loop (length visited + n) show_id dc flow ctx expected (steps @ [?step]) (FlowState_current_node s1) =
     dry_run_loop n show_id dc flow ctx expected ((steps @ [?step]) @ steps') (FlowState_current_node s2)"
    by blast
  ultimately show ?case
    by (intro exI [of _ "?step # steps'"]) (simp add: trace_def mk_step_def)
qed

lemma terminal_turn:
  assumes "CompiledFlow_node flow (FlowState_current_node s) = Some node" "is_terminal_kind (FlowNode_kind node)"
  shows "\<exists>s' w'. if is_Success_kind (FlowNode_kind node)
    then \<exists>u. exec_node env flow input s w = Control_Return (StepResult_Ok (StepOutput_Done u)) s' w'
    else \<exists>why. exec_node env flow input s w = Control_Return (StepResult_Ok (StepOutput_Failed why)) s' w'"
  using assms by (cases "FlowNode_kind node") (auto simp: exec_node_def Let_def split: prod.split)

lemma terminal_dry_run:
  assumes "CompiledFlow_node flow i = Some node" "FlowNode_id node = i" "is_terminal_kind (FlowNode_kind node)" "0 < n"
  shows "\<exists>r. dry_run_loop n show_id dc flow ctx expected steps i = Some r \<and> trace (DryRunReport_steps r) = trace steps @ [i] \<and>
    DryRunReport_terminal r = (if is_Success_kind (FlowNode_kind node) then TerminalState_Success else TerminalState_Failure)"
  using assms by (cases n; cases "FlowNode_kind node") (auto simp: mk_report_def Let_def)

text \<open>
  C35: A dry run foretells what a call of \<open>step\<close> does. Take a call from the start node that advances over
  fewer than 256 nodes and comes to a terminal node. If the dry run is told, for every authenticator on
  the way, the kind of outcome the dispatcher gave there (or nothing, for a success), and its fixed
  context gives every guard of the flow the value it has in the states of the call, then the report lists
  exactly the nodes the call went through, in their order, and ends in success exactly if the call is done
  and in failure exactly if it failed.
\<close>

theorem dry_run_agrees:
  assumes "compile def = Inr flow" and "FlowState_current_node s = FlowDefinition_start def"
    and "exec_path env flow input s w visited s' w'" "length visited < 256"
    and "CompiledFlow_node flow (FlowState_current_node s') = Some node" "is_terminal_kind (FlowNode_kind node)"
    and "\<forall>x \<in> set visited. foreseen env flow input expected x"
    and "guards_agree def ctx s'" "\<forall>x \<in> set visited. guards_agree def ctx (fst x)"
  shows "\<exists>r. dry_run show_id dc def ctx expected = Some (Inr r) \<and>
    map DryRunStep_node_id (DryRunReport_steps r) =
      map (FlowState_current_node \<circ> fst) visited @ [FlowState_current_node s'] \<and>
    (DryRunReport_terminal r = TerminalState_Success \<longleftrightarrow>
       (\<exists>u s2 w2. step_loop env flow input s w = Some (StepResult_Ok (StepOutput_Done u), s2, w2))) \<and>
    (DryRunReport_terminal r = TerminalState_Failure \<longleftrightarrow>
       (\<exists>why s2 w2. step_loop env flow input s w = Some (StepResult_Ok (StepOutput_Failed why), s2, w2)))"
proof -
  let ?n = "256 - length visited" and ?ok = "is_Success_kind (FlowNode_kind node)"
  have n: "MAX_STEPS = length visited + ?n" "0 < ?n" using assms(4) by (simp_all add: MAX_STEPS_def)
  obtain steps' where steps': "trace steps' = map (FlowState_current_node \<circ> fst) visited"
    "dry_run_loop MAX_STEPS show_id dc flow ctx expected [] (FlowDefinition_start def) =
     dry_run_loop ?n show_id dc flow ctx expected steps' (FlowState_current_node s')"
    using dry_run_loop_follows [OF assms(1,3,7-9), of ?n show_id dc "[]"] unfolding n(1) [symmetric] assms(2) by auto
  obtain r where r: "dry_run_loop ?n show_id dc flow ctx expected steps' (FlowState_current_node s') = Some r"
    "trace (DryRunReport_steps r) = trace steps' @ [FlowState_current_node s']"
    "DryRunReport_terminal r = (if ?ok then TerminalState_Success else TerminalState_Failure)"
    using terminal_dry_run [OF assms(5) node_SomeD(2) [OF assms(1,5)] assms(6) n(2)] by blast
  have "dry_run show_id dc def ctx expected = Some (Inr r)"
    using r(1) steps'(2) by (simp add: dry_run_def dry_run_compiled_def assms(1) compile_Inr(2) [OF assms(1)])
  moreover have "\<exists>s2 w2. if ?ok then \<exists>u. step_loop env flow input s w = Some (StepResult_Ok (StepOutput_Done u), s2, w2)
      else \<exists>why. step_loop env flow input s w = Some (StepResult_Ok (StepOutput_Failed why), s2, w2)"
    using terminal_turn [OF assms(5,6), of env input w'] step_loop_returns [OF exec_path_steps [OF assms(3)]]
    by (cases ?ok) (simp, blast)+
  ultimately show ?thesis
    using r(2,3) steps'(1) by (intro exI [of _ r]) (auto simp: trace_def split: if_splits)
qed

theorem dry_run_report_witness:
  "\<exists>flow r. compile sample_guarded = Inr flow \<and>
     dry_run (\<lambda>i. []) (\<lambda>s. s) sample_guarded FlowContext_default [] = Some (Inr r) \<and>
     DryRunReport_steps r \<noteq> [] \<and> length (DryRunReport_steps r) \<le> 256"
proof -
  have "case compile sample_guarded of Inr flow \<Rightarrow> True | Inl e \<Rightarrow> False" by code_simp
  then obtain flow where flow: "compile sample_guarded = Inr flow" by (auto split: sum.splits)
  from dry_run_report [OF this, of "\<lambda>i. []" "\<lambda>s. s" FlowContext_default "[]"] flow
  show ?thesis by blast
qed

text \<open>The sample run of the direct grant, with the password assumed to be right.\<close>

lemma sample_direct_grant_path:
  assumes "compile sample_direct_grant = Inr flow"
  obtains s1 s2 where "exec_path sample_success flow StepInput_Start (sample_state 0) () [(sample_state 0, ()), (s1, ())] s2 ()"
    "FlowState_current_node s1 = NodeId 1" "FlowState_current_node s2 = NodeId 2"
proof -
  note flow = compile_Inr(3) [OF assms] next_with_guard_compiled [OF assms] edges_from_def
    sample_direct_grant_def direct_grant_def flow_defs sample_success_def sample_env_def exec_node_def
  obtain s1 where s1: "exec_node sample_success flow StepInput_Start (sample_state 0) () = Control_Continue s1 ()"
    "FlowState_current_node s1 = NodeId 1"
    by (auto simp: flow goto_def push_history_def sample_state_def)
  obtain s2 where "exec_node sample_success flow StepInput_Start s1 () = Control_Continue s2 ()"
    "FlowState_current_node s2 = NodeId 2"
    using s1(2) by (auto simp: flow exec_authenticator_def goto_def push_history_def next_or_otherwise_def)
  with s1 that show ?thesis by (blast intro: exec_path.intros)
qed

theorem dry_run_agrees_witness:
  "\<exists>r flow. compile sample_direct_grant = Inr flow \<and>
     dry_run (\<lambda>i. []) (\<lambda>s. s) sample_direct_grant FlowContext_default [] = Some (Inr r) \<and>
     map DryRunStep_node_id (DryRunReport_steps r) = [NodeId 0, NodeId 1, NodeId 2] \<and>
     (DryRunReport_terminal r = TerminalState_Success \<longleftrightarrow> (\<exists>u s2 w2.
        step_loop sample_success flow StepInput_Start (sample_state 0) () = Some (StepResult_Ok (StepOutput_Done u), s2, w2)))"
proof (rule sample_direct_grant_run)
  fix flow assume flow: "compile sample_direct_grant = Inr flow"
  obtain s1 s2 where path: "exec_path sample_success flow StepInput_Start (sample_state 0) () [(sample_state 0, ()), (s1, ())] s2 ()"
    "FlowState_current_node s1 = NodeId 1" "FlowState_current_node s2 = NodeId 2"
    using sample_direct_grant_path [OF flow] by blast
  have start: "FlowState_current_node (sample_state 0) = FlowDefinition_start sample_direct_grant"
    "FlowState_current_node (sample_state 0) = NodeId 0"
    by (simp_all add: sample_state_def sample_direct_grant_def direct_grant_def flow_defs)
  have node: "CompiledFlow_node flow (FlowState_current_node s2) = Some (node_success (NodeId 2))"
    by (simp add: path(3) compile_Inr(3) [OF flow] sample_direct_grant_def direct_grant_def flow_defs)
  have foreseen: "foreseen sample_success flow StepInput_Start [] x" for x
    by (simp add: foreseen_def sample_success_def sample_env_def)
  have guards: "guards_agree sample_direct_grant FlowContext_default x" for x
    by (auto simp: guards_agree_def sample_direct_grant_def direct_grant_def flow_defs)
  have "is_terminal_kind (FlowNode_kind (node_success (NodeId 2)))" by (simp add: node_success_def)
  from dry_run_agrees [OF flow start(1) path(1) _ node this _ guards, of "[]" "\<lambda>i. []" "\<lambda>s. s"] foreseen guards flow
  show ?thesis by (auto simp: path(2,3) start(2))
qed

end
