(* ===== verification/Store_Identity.thy ===== *)
theory Store_Identity
  imports Core_Entities
begin

text \<open>
  The identity tables of the in-memory store, \<^verbatim>\<open>crates/geonosis-storage/src/memory.rs\<close>: realms,
  users, clients and sessions with their secondary indexes. The struct \<open>Tables\<close> is built up by
  record extension, one group of tables per theory, so that the operations of a group are typed on
  the tables they touch and cannot touch later ones. A method that takes the write lock returns the
  result and the new tables, a method that takes the read lock the result only.
\<close>

datatype StorageError =
    StorageError_NotFound
  | StorageError_Conflict string
  | StorageError_Backend string
  | StorageError_Invalid string

type_synonym ('a, 't) store_op = "'t \<Rightarrow> (StorageError + 'a) \<times> 't"
type_synonym ('a, 't) store_read = "'t \<Rightarrow> StorageError + 'a"

definition NotFound :: StorageError where [simp]: "NotFound = StorageError_NotFound"

record IdentityTables =
  realms :: "(RealmId, Realm) hash_map"
  realm_by_slug :: "(string, RealmId) hash_map"
  users :: "(RealmId \<times> UserId, User) hash_map"
  users_by_username :: "(RealmId \<times> string, UserId) hash_map"
  users_by_email :: "(RealmId \<times> string, UserId) hash_map"
  password_hashes :: "(RealmId \<times> UserId, string) hash_map"
  clients :: "(RealmId \<times> ClientId, Client) hash_map"
  clients_by_client_id :: "(RealmId \<times> string, ClientId) hash_map"
  client_secret_hashes :: "(RealmId \<times> ClientId, string) hash_map"
  sessions :: "(SessionId, Session) hash_map"

section \<open>Contracts shared by the tables\<close>

text \<open>
  A table with a secondary index from a name to the primary key, created and deleted together. The
  laws say what each operation does to both; the lemmas derive what a client relies on: on a
  consistent store, a successful create with a fresh key can be looked up by its name and keeps the
  store consistent, a taken name is refused, a delete frees the name, and a name identifies at most
  one row.
\<close>

locale indexed_table =
  fixes main :: "'t \<Rightarrow> 'k \<Rightarrow> 'v option"
    and index :: "'t \<Rightarrow> 'i \<Rightarrow> 'k option"
    and key_of :: "'v \<Rightarrow> 'k"
    and name_of :: "'v \<Rightarrow> 'i"
    and create :: "'v \<Rightarrow> 't \<Rightarrow> (StorageError + unit) \<times> 't"
    and delete :: "'k \<Rightarrow> 't \<Rightarrow> (StorageError + unit) \<times> 't"
    and rename_key :: "'k \<Rightarrow> 'v \<Rightarrow> 'i"
  assumes create_taken: "index t (name_of v) = Some k \<Longrightarrow> \<exists>msg. create v t = (Inl (StorageError_Conflict msg), t)"
    and create_free: "index t (name_of v) = None \<Longrightarrow> \<exists>t'. create v t = (Inr (), t') \<and>
      main t' = (main t)(key_of v \<mapsto> v) \<and> index t' = (index t)(name_of v \<mapsto> key_of v)"
    and delete_absent: "main t k = None \<Longrightarrow> delete k t = (Inl StorageError_NotFound, t)"
    and delete_present: "main t k = Some v \<Longrightarrow> \<exists>t'. delete k t = (Inr (), t') \<and>
      main t' = (main t)(k := None) \<and> index t' = (index t)(rename_key k v := None)"
    and rename_key: "rename_key (key_of v) v = name_of v"
begin

definition consistent :: "'t \<Rightarrow> bool" where
  "consistent t \<longleftrightarrow>
     (\<forall>k v. main t k = Some v \<longrightarrow> key_of v = k \<and> index t (name_of v) = Some k) \<and>
     (\<forall>i k. index t i = Some k \<longrightarrow> (\<exists>v. main t k = Some v \<and> name_of v = i))"

definition by_name :: "'t \<Rightarrow> 'i \<Rightarrow> 'v option" where
  "by_name t i = Option.bind (index t i) (main t)"

lemma create_cases:
  obtains (taken) k msg where "index t (name_of v) = Some k" "create v t = (Inl (StorageError_Conflict msg), t)"
  | (created) t' where "index t (name_of v) = None" "create v t = (Inr (), t')"
      "main t' = (main t)(key_of v \<mapsto> v)" "index t' = (index t)(name_of v \<mapsto> key_of v)"
  using create_taken create_free by (cases "index t (name_of v)") blast+

lemma create_keeps_consistent:
  assumes "consistent t" and "main t (key_of v) = None"
  shows "consistent (snd (create v t))"
proof (cases rule: create_cases [where t = t and v = v])
  case (taken k msg)
  with assms show ?thesis by simp
next
  case (created t')
  then have "consistent t'"
    using assms unfolding consistent_def
    by (auto split: if_splits) (metis option.distinct(1) option.inject)+
  with created show ?thesis by simp
qed

lemma create_then_lookup:
  assumes "create v t = (Inr (), t')"
  shows "by_name t' (name_of v) = Some v" and "main t' (key_of v) = Some v"
  using assms by (cases rule: create_cases [where t = t and v = v]; simp add: by_name_def)+

lemma create_refused_iff:
  assumes "consistent t"
  shows "(\<exists>msg. create v t = (Inl (StorageError_Conflict msg), t)) \<longleftrightarrow>
    (\<exists>k v'. main t k = Some v' \<and> name_of v' = name_of v)"
proof (cases rule: create_cases [where t = t and v = v])
  case (taken k msg)
  with assms have "\<exists>v'. main t k = Some v' \<and> name_of v' = name_of v"
    unfolding consistent_def by blast
  with taken show ?thesis by blast
next
  case (created t')
  with assms show ?thesis by (auto simp: consistent_def) (metis option.distinct(1))
qed

lemma delete_keeps_consistent:
  assumes "consistent t"
  shows "consistent (snd (delete k t))"
proof (cases "main t k")
  case None
  with delete_absent assms show ?thesis by simp
next
  case (Some v)
  then obtain t' where t': "delete k t = (Inr (), t')" "main t' = (main t)(k := None)"
    "index t' = (index t)(rename_key k v := None)"
    using delete_present by blast
  from Some assms have k: "key_of v = k" "index t (name_of v) = Some k"
    by (auto simp: consistent_def)
  with rename_key have "rename_key k v = name_of v" by blast
  with t' k Some assms have "consistent t'"
    unfolding consistent_def by (auto split: if_splits) (metis option.inject)+
  with t' show ?thesis by simp
qed

lemma delete_frees_name:
  assumes "consistent t" and "main t k = Some v"
  shows "fst (delete k t) = Inr ()" and "by_name (snd (delete k t)) (name_of v) = None"
    and "main (snd (delete k t)) k = None"
proof -
  obtain t' where t': "delete k t = (Inr (), t')" "main t' = (main t)(k := None)"
    "index t' = (index t)(rename_key k v := None)"
    using delete_present assms(2) by blast
  from assms have "key_of v = k" by (auto simp: consistent_def)
  with rename_key have "rename_key k v = name_of v" by blast
  with t' show "fst (delete k t) = Inr ()" and "by_name (snd (delete k t)) (name_of v) = None"
    and "main (snd (delete k t)) k = None"
    by (simp_all add: by_name_def)
qed

lemma by_name_iff:
  assumes "consistent t"
  shows "by_name t i = Some v \<longleftrightarrow> (\<exists>k. main t k = Some v \<and> name_of v = i)"
  using assms unfolding consistent_def by_name_def
  by (auto split: bind_splits) (metis option.inject)+

lemma name_unique:
  assumes "consistent t" and "main t k = Some v" "main t k' = Some v'" "name_of v = name_of v'"
  shows "k = k' \<and> v = v'"
  using assms unfolding consistent_def by (metis option.inject)

end

section \<open>Realms\<close>

definition create_realm :: "Realm \<Rightarrow> (unit, 'a IdentityTables_scheme) store_op" where [store_defs]:
  "create_realm realm t =
     (if hm_contains_key (realm_by_slug t) (Realm_slug realm)
      then (Inl (StorageError_Conflict (''realm slug '' @ Realm_slug realm @ '' taken'')), t)
      else (Inr (), t\<lparr>realm_by_slug := hm_insert (Realm_slug realm) (Realm_id realm) (realm_by_slug t),
                      realms := hm_insert (Realm_id realm) realm (realms t)\<rparr>))"

definition get_realm :: "RealmId \<Rightarrow> (Realm, 'a IdentityTables_scheme) store_read" where [store_defs]:
  "get_realm i t = ok_or (map_of (realms t) i) NotFound"

definition get_realm_by_slug :: "string \<Rightarrow> (Realm, 'a IdentityTables_scheme) store_read" where [store_defs]:
  "get_realm_by_slug slug t =
     (case map_of (realm_by_slug t) slug of
        None \<Rightarrow> Inl NotFound
      | Some i \<Rightarrow> ok_or (map_of (realms t) i) NotFound)"

definition update_realm :: "Realm \<Rightarrow> (unit, 'a IdentityTables_scheme) store_op" where [store_defs]:
  "update_realm realm t =
     (if \<not> hm_contains_key (realms t) (Realm_id realm) then (Inl NotFound, t)
      else (Inr (), t\<lparr>realms := hm_insert (Realm_id realm) realm (realms t)\<rparr>))"

definition delete_realm :: "RealmId \<Rightarrow> (unit, 'a IdentityTables_scheme) store_op" where [store_defs]:
  "delete_realm i t =
     (case map_of (realms t) i of
        None \<Rightarrow> (Inl NotFound, t)
      | Some r \<Rightarrow> (Inr (), t\<lparr>realms := hm_remove i (realms t),
                              realm_by_slug := hm_remove (Realm_slug r) (realm_by_slug t)\<rparr>))"

definition list_realms :: "(Realm list, 'a IdentityTables_scheme) store_read" where [store_defs]:
  "list_realms t = Inr (hm_values (realms t))"

section \<open>Users\<close>

definition create_user :: "User \<Rightarrow> (unit, 'a IdentityTables_scheme) store_op" where [store_defs]:
  "create_user user t =
     (let key = (User_realm_id user, User_username user) in
      if hm_contains_key (users_by_username t) key
      then (Inl (StorageError_Conflict (''username '' @ User_username user @ '' taken'')), t)
      else
        (let t1 = (case User_email user of
               Some email \<Rightarrow> t\<lparr>users_by_email :=
                 hm_insert (User_realm_id user, email) (User_id user) (users_by_email t)\<rparr>
             | None \<Rightarrow> t)
         in (Inr (), t1\<lparr>users_by_username := hm_insert key (User_id user) (users_by_username t1),
                        users := hm_insert (User_realm_id user, User_id user) user (users t1)\<rparr>)))"

definition get_user :: "RealmId \<Rightarrow> UserId \<Rightarrow> (User, 'a IdentityTables_scheme) store_read" where [store_defs]:
  "get_user realm i t = ok_or (map_of (users t) (realm, i)) NotFound"

definition get_user_by_username ::
  "RealmId \<Rightarrow> string \<Rightarrow> (User, 'a IdentityTables_scheme) store_read" where [store_defs]:
  "get_user_by_username realm username t =
     (case map_of (users_by_username t) (realm, username) of
        None \<Rightarrow> Inl NotFound
      | Some i \<Rightarrow> ok_or (map_of (users t) (realm, i)) NotFound)"

definition get_user_by_email ::
  "RealmId \<Rightarrow> string \<Rightarrow> (User, 'a IdentityTables_scheme) store_read" where [store_defs]:
  "get_user_by_email realm email t =
     (case map_of (users_by_email t) (realm, email) of
        None \<Rightarrow> Inl NotFound
      | Some i \<Rightarrow> ok_or (map_of (users t) (realm, i)) NotFound)"

definition update_user :: "User \<Rightarrow> (unit, 'a IdentityTables_scheme) store_op" where [store_defs]:
  "update_user user t =
     (if \<not> hm_contains_key (users t) (User_realm_id user, User_id user) then (Inl NotFound, t)
      else (Inr (), t\<lparr>users := hm_insert (User_realm_id user, User_id user) user (users t)\<rparr>))"

definition list_users :: "RealmId \<Rightarrow> nat \<Rightarrow> (User list, 'a IdentityTables_scheme) store_read" where [store_defs]:
  "list_users realm limit t =
     Inr (map snd (take limit (filter (\<lambda>((r, _), _). r = realm) (users t))))"

definition delete_user :: "RealmId \<Rightarrow> UserId \<Rightarrow> (unit, 'a IdentityTables_scheme) store_op" where [store_defs]:
  "delete_user realm i t =
     (case map_of (users t) (realm, i) of
        None \<Rightarrow> (Inl NotFound, t)
      | Some u \<Rightarrow>
          (let t1 = t\<lparr>users := hm_remove (realm, i) (users t),
                      users_by_username := hm_remove (realm, User_username u) (users_by_username t)\<rparr>
           in (Inr (), (case User_email u of
                 Some email \<Rightarrow> t1\<lparr>users_by_email := hm_remove (realm, email) (users_by_email t1)\<rparr>
               | None \<Rightarrow> t1))))"

definition store_password_hash ::
  "RealmId \<Rightarrow> UserId \<Rightarrow> string \<Rightarrow> (unit, 'a IdentityTables_scheme) store_op" where [store_defs]:
  "store_password_hash realm user_id phc_hash t =
     (Inr (), t\<lparr>password_hashes := hm_insert (realm, user_id) phc_hash (password_hashes t)\<rparr>)"

definition get_password_hash ::
  "RealmId \<Rightarrow> UserId \<Rightarrow> (string, 'a IdentityTables_scheme) store_read" where [store_defs]:
  "get_password_hash realm user_id t = ok_or (map_of (password_hashes t) (realm, user_id)) NotFound"

section \<open>Clients\<close>

definition create_client :: "Client \<Rightarrow> (unit, 'a IdentityTables_scheme) store_op" where [store_defs]:
  "create_client client t =
     (let key = (Client_realm_id client, Client_client_id client) in
      if hm_contains_key (clients_by_client_id t) key
      then (Inl (StorageError_Conflict (''client_id '' @ Client_client_id client @ '' taken'')), t)
      else (Inr (), t\<lparr>clients_by_client_id := hm_insert key (Client_id client) (clients_by_client_id t),
                      clients := hm_insert (Client_realm_id client, Client_id client) client (clients t)\<rparr>))"

definition get_client :: "RealmId \<Rightarrow> ClientId \<Rightarrow> (Client, 'a IdentityTables_scheme) store_read" where [store_defs]:
  "get_client realm i t = ok_or (map_of (clients t) (realm, i)) NotFound"

definition get_client_by_client_id ::
  "RealmId \<Rightarrow> string \<Rightarrow> (Client, 'a IdentityTables_scheme) store_read" where [store_defs]:
  "get_client_by_client_id realm client_id t =
     (case map_of (clients_by_client_id t) (realm, client_id) of
        None \<Rightarrow> Inl NotFound
      | Some i \<Rightarrow> ok_or (map_of (clients t) (realm, i)) NotFound)"

definition update_client :: "Client \<Rightarrow> (unit, 'a IdentityTables_scheme) store_op" where [store_defs]:
  "update_client client t =
     (if \<not> hm_contains_key (clients t) (Client_realm_id client, Client_id client) then (Inl NotFound, t)
      else (Inr (), t\<lparr>clients := hm_insert (Client_realm_id client, Client_id client) client (clients t)\<rparr>))"

definition delete_client :: "RealmId \<Rightarrow> ClientId \<Rightarrow> (unit, 'a IdentityTables_scheme) store_op" where [store_defs]:
  "delete_client realm i t =
     (case map_of (clients t) (realm, i) of
        None \<Rightarrow> (Inl NotFound, t)
      | Some c \<Rightarrow> (Inr (), t\<lparr>clients := hm_remove (realm, i) (clients t),
          clients_by_client_id := hm_remove (realm, Client_client_id c) (clients_by_client_id t)\<rparr>))"

definition list_clients :: "RealmId \<Rightarrow> (Client list, 'a IdentityTables_scheme) store_read" where [store_defs]:
  "list_clients realm t = Inr (map snd (filter (\<lambda>((r, _), _). r = realm) (clients t)))"

definition store_client_secret_hash ::
  "RealmId \<Rightarrow> ClientId \<Rightarrow> string \<Rightarrow> (unit, 'a IdentityTables_scheme) store_op" where [store_defs]:
  "store_client_secret_hash realm client_id secret_hash t =
     (Inr (), t\<lparr>client_secret_hashes := hm_insert (realm, client_id) secret_hash (client_secret_hashes t)\<rparr>)"

definition get_client_secret_hash ::
  "RealmId \<Rightarrow> ClientId \<Rightarrow> (string, 'a IdentityTables_scheme) store_read" where [store_defs]:
  "get_client_secret_hash realm client_id t =
     ok_or (map_of (client_secret_hashes t) (realm, client_id)) NotFound"

section \<open>Sessions\<close>

definition create_session :: "Session \<Rightarrow> (unit, 'a IdentityTables_scheme) store_op" where [store_defs]:
  "create_session session t = (Inr (), t\<lparr>sessions := hm_insert (Session_id session) session (sessions t)\<rparr>)"

definition get_session :: "SessionId \<Rightarrow> (Session, 'a IdentityTables_scheme) store_read" where [store_defs]:
  "get_session i t = ok_or (map_of (sessions t) i) NotFound"

definition update_session :: "Session \<Rightarrow> (unit, 'a IdentityTables_scheme) store_op" where [store_defs]:
  "update_session session t =
     (if \<not> hm_contains_key (sessions t) (Session_id session) then (Inl NotFound, t)
      else (Inr (), t\<lparr>sessions := hm_insert (Session_id session) session (sessions t)\<rparr>))"

definition delete_session :: "SessionId \<Rightarrow> (unit, 'a IdentityTables_scheme) store_op" where [store_defs]:
  "delete_session i t =
     (case map_of (sessions t) i of
        None \<Rightarrow> (Inl NotFound, t)
      | Some _ \<Rightarrow> (Inr (), t\<lparr>sessions := hm_remove i (sessions t)\<rparr>))"

definition list_sessions :: "RealmId \<Rightarrow> nat \<Rightarrow> (Session list, 'a IdentityTables_scheme) store_read" where [store_defs]:
  "list_sessions realm limit t =
     Inr (take limit (sort_key (\<lambda>s. - Session_last_seen_at s)
            (filter (\<lambda>s. Session_realm_id s = realm) (hm_values (sessions t)))))"

section \<open>The indexed tables of this group\<close>

interpretation realm_index: indexed_table
  "\<lambda>t. map_of (realms t)" "\<lambda>t. map_of (realm_by_slug t)" Realm_id Realm_slug create_realm delete_realm
  "\<lambda>k. Realm_slug"
  by unfold_locales (auto simp: store_defs hm_contains_key_def)

interpretation user_index: indexed_table
  "\<lambda>t. map_of (users t)"
  "\<lambda>t i. map_option (Pair (fst i)) (map_of (users_by_username t) i)"
  "\<lambda>u. (User_realm_id u, User_id u)" "\<lambda>u. (User_realm_id u, User_username u)"
  create_user "\<lambda>(realm, i). delete_user realm i" "\<lambda>k u. (fst k, User_username u)"
  by unfold_locales
    (auto simp: store_defs hm_contains_key_def fun_eq_iff Let_def split: option.splits)

interpretation client_index: indexed_table
  "\<lambda>t. map_of (clients t)"
  "\<lambda>t i. map_option (Pair (fst i)) (map_of (clients_by_client_id t) i)"
  "\<lambda>c. (Client_realm_id c, Client_id c)" "\<lambda>c. (Client_realm_id c, Client_client_id c)"
  create_client "\<lambda>(realm, i). delete_client realm i" "\<lambda>k c. (fst k, Client_client_id c)"
  by unfold_locales
    (auto simp: store_defs hm_contains_key_def fun_eq_iff Let_def split: option.splits)

section \<open>The directory of users\<close>

text \<open>
  The username index and the user table agree: every user is filed under its own realm and id and
  under its own name, and every index entry points to a user of that name.
\<close>

definition users_consistent :: "'a IdentityTables_scheme \<Rightarrow> bool" where
  "users_consistent t \<longleftrightarrow>
     (\<forall>realm i u. map_of (users t) (realm, i) = Some u \<longrightarrow>
        User_realm_id u = realm \<and> User_id u = i \<and>
        map_of (users_by_username t) (realm, User_username u) = Some i) \<and>
     (\<forall>realm name i. map_of (users_by_username t) (realm, name) = Some i \<longrightarrow>
        (\<exists>u. map_of (users t) (realm, i) = Some u \<and> User_username u = name))"

lemma users_consistent_iff: "user_index.consistent t = users_consistent t"
  unfolding user_index.consistent_def users_consistent_def by auto metis+

definition clients_consistent :: "'a IdentityTables_scheme \<Rightarrow> bool" where
  "clients_consistent t \<longleftrightarrow>
     (\<forall>realm i c. map_of (clients t) (realm, i) = Some c \<longrightarrow>
        Client_realm_id c = realm \<and> Client_id c = i \<and>
        map_of (clients_by_client_id t) (realm, Client_client_id c) = Some i) \<and>
     (\<forall>realm name i. map_of (clients_by_client_id t) (realm, name) = Some i \<longrightarrow>
        (\<exists>c. map_of (clients t) (realm, i) = Some c \<and> Client_client_id c = name))"

lemma clients_consistent_iff: "client_index.consistent t = clients_consistent t"
  unfolding client_index.consistent_def clients_consistent_def by auto metis+

lemma update_user_keeps_consistent:
  assumes "users_consistent t"
    and "\<And>old. map_of (users t) (User_realm_id user, User_id user) = Some old \<Longrightarrow>
      User_username old = User_username user"
  shows "users_consistent (snd (update_user user t))"
  using assms unfolding update_user_def users_consistent_def
  by (auto simp: hm_contains_key_def split: if_splits) (metis option.inject)+

lemma user_by_name_eq: "get_user_by_username realm name t = ok_or (user_index.by_name t (realm, name)) NotFound"
  by (auto simp: user_index.by_name_def get_user_by_username_def split: option.splits bind_splits)

definition IdentityTables_default :: IdentityTables where
  "IdentityTables_default = \<lparr>realms = [], realm_by_slug = [], users = [], users_by_username = [],
     users_by_email = [], password_hashes = [], clients = [], clients_by_client_id = [],
     client_secret_hashes = [], sessions = []\<rparr>"

lemma user_directory_laws:
  assumes "users_consistent t"
  shows "get_user_by_username realm name t = Inr u \<longleftrightarrow>
      (\<exists>i. map_of (users t) (realm, i) = Some u \<and> User_username u = name)"
    and "(\<exists>msg. create_user v t = (Inl (StorageError_Conflict msg), t)) \<longleftrightarrow>
      (\<exists>i u. map_of (users t) (User_realm_id v, i) = Some u \<and> User_username u = User_username v)"
    and "map_of (users t) (User_realm_id v, User_id v) = None \<Longrightarrow> users_consistent (snd (create_user v t))"
    and "users_consistent (snd (delete_user realm j t))"
    and "(\<And>old. map_of (users t) (User_realm_id v, User_id v) = Some old \<Longrightarrow>
      User_username old = User_username v) \<Longrightarrow> users_consistent (snd (update_user v t))"
proof -
  note c = assms [folded users_consistent_iff]
  show "get_user_by_username realm name t = Inr u \<longleftrightarrow>
      (\<exists>i. map_of (users t) (realm, i) = Some u \<and> User_username u = name)"
    using user_index.by_name_iff [OF c, of "(realm, name)" u] assms
    by (auto simp: user_by_name_eq users_consistent_def)
  show "(\<exists>msg. create_user v t = (Inl (StorageError_Conflict msg), t)) \<longleftrightarrow>
      (\<exists>i u. map_of (users t) (User_realm_id v, i) = Some u \<and> User_username u = User_username v)"
    using user_index.create_refused_iff [OF c, of v] assms by (auto simp: users_consistent_def) metis+
  show "users_consistent (snd (create_user v t))"
    if "map_of (users t) (User_realm_id v, User_id v) = None"
    using user_index.create_keeps_consistent [OF c, of v] that by (simp add: users_consistent_iff)
  show "users_consistent (snd (delete_user realm j t))"
    using user_index.delete_keeps_consistent [OF c, of "(realm, j)"] by (simp add: users_consistent_iff)
qed (rule update_user_keeps_consistent [OF assms])

section \<open>Properties\<close>

text \<open>
  The username index is a faithful directory. On a consistent store,
  \<open>get_user_by_username\<close> returns exactly the user of the realm that bears the name; creating a
  user is refused exactly when the name is taken in the realm; creating a user with a fresh id,
  deleting any user, and updating a user without renaming it keep the store consistent.
\<close>

theorem user_directory:
  assumes "users_consistent t"
  shows "(get_user_by_username realm name t = Inr u \<longleftrightarrow>
      (\<exists>i. map_of (users t) (realm, i) = Some u \<and> User_username u = name)) \<and>
    ((\<exists>msg. create_user v t = (Inl (StorageError_Conflict msg), t)) \<longleftrightarrow>
      (\<exists>i u. map_of (users t) (User_realm_id v, i) = Some u \<and> User_username u = User_username v)) \<and>
    (map_of (users t) (User_realm_id v, User_id v) = None \<longrightarrow> users_consistent (snd (create_user v t))) \<and>
    users_consistent (snd (delete_user realm j t)) \<and>
    ((\<forall>old. map_of (users t) (User_realm_id v, User_id v) = Some old \<longrightarrow>
      User_username old = User_username v) \<longrightarrow> users_consistent (snd (update_user v t)))"
  using user_directory_laws [OF assms] by blast

text \<open>
  Renaming a user through \<open>update_user\<close> leaves the username index behind: afterwards the old
  name still resolves to the user and the new name to nothing; when that user is then deleted, the
  old name stays taken although no user bears it, so creating a user of that name is refused.
\<close>

theorem renamed_user_blocks_name:
  assumes "new \<noteq> User_username u"
    and "t1 = snd (create_user u IdentityTables_default)"
    and "t2 = snd (update_user (u\<lparr>User_username := new\<rparr>) t1)"
    and "t3 = snd (delete_user (User_realm_id u) (User_id u) t2)"
  shows "get_user_by_username (User_realm_id u) (User_username u) t2 = Inr (u\<lparr>User_username := new\<rparr>) \<and>
    get_user_by_username (User_realm_id u) new t2 = Inl StorageError_NotFound \<and>
    users t3 = [] \<and>
    create_user u t3 =
      (Inl (StorageError_Conflict (''username '' @ User_username u @ '' taken'')), t3)"
  using assms
  by (simp_all add: create_user_def update_user_def delete_user_def get_user_by_username_def
      IdentityTables_default_def hm_contains_key_def hm_insert_def hm_remove_def Let_def
      split: option.splits)

text \<open>The witnesses run both on a store with one user.\<close>

definition sample_user :: User where
  "sample_user = (User_default (UserId 1) (RealmId 1) 0)\<lparr>User_username := ''padme''\<rparr>"

definition sample_store :: IdentityTables where
  "sample_store = snd (create_user sample_user IdentityTables_default)"

theorem user_directory_witness:
  "get_user_by_username (RealmId 1) ''padme'' sample_store = Inr sample_user \<and>
   users_consistent sample_store \<and> users_consistent (snd (delete_user (RealmId 1) (UserId 1) sample_store))"
proof -
  have c0: "users_consistent IdentityTables_default"
    by (simp add: users_consistent_def IdentityTables_default_def)
  have c: "users_consistent sample_store"
    unfolding sample_store_def
    using user_directory [OF c0, of _ _ _ sample_user] by (simp add: IdentityTables_default_def)
  have "map_of (users sample_store) (RealmId 1, UserId 1) = Some sample_user"
    by (simp add: sample_store_def sample_user_def User_default_def create_user_def
        IdentityTables_default_def hm_contains_key_def)
  then have "get_user_by_username (RealmId 1) ''padme'' sample_store = Inr sample_user"
    using user_directory [OF c, of "RealmId 1" "''padme''" sample_user] by (auto simp: sample_user_def)
  with c user_directory [OF c] show ?thesis by blast
qed

theorem renamed_user_blocks_name_witness:
  "let t2 = snd (update_user (sample_user\<lparr>User_username := ''amidala''\<rparr>) sample_store);
       t3 = snd (delete_user (RealmId 1) (UserId 1) t2)
   in get_user_by_username (RealmId 1) ''amidala'' t2 = Inl StorageError_NotFound \<and>
      create_user sample_user t3 = (Inl (StorageError_Conflict ''username padme taken''), t3)"
proof -
  have u: "User_realm_id sample_user = RealmId 1" "User_id sample_user = UserId 1"
    "User_username sample_user = ''padme''"
    by (simp_all add: sample_user_def User_default_def)
  show ?thesis
    using renamed_user_blocks_name [of "''amidala''" sample_user, OF _ refl refl refl]
    unfolding Let_def sample_store_def by (simp add: u)
qed

end
