(* ===== verification/Store_Grants.thy ===== *)
theory Store_Grants
  imports Store_Identity Flow_Builtin
begin

text \<open>
  The protocol tables of the in-memory store (\<^verbatim>\<open>crates/geonosis-storage/src/memory.rs\<close>, rows of
  \<open>traits.rs\<close>): authorization codes, refresh tokens and their families, pushed authorization
  requests, device grants, flow states, authentication flows and consent grants, and the seeding of
  the built-in flows (\<open>seed.rs\<close>).
\<close>

section \<open>Rows (\<open>traits.rs\<close>)\<close>

record ParRequest =
  ParRequest_request_uri :: string
  ParRequest_realm_id :: RealmId
  ParRequest_client_id :: ClientId
  ParRequest_params :: "(string, string) btree_map"
  ParRequest_created_at :: DateTime
  ParRequest_expires_at :: DateTime

datatype DeviceGrantStatus =
  DeviceGrantStatus_Pending | DeviceGrantStatus_Approved | DeviceGrantStatus_Denied | DeviceGrantStatus_Expired

record DeviceGrant =
  DeviceGrant_device_code :: string
  DeviceGrant_user_code :: string
  DeviceGrant_realm_id :: RealmId
  DeviceGrant_client_id :: ClientId
  DeviceGrant_scope :: "ScopeName list"
  DeviceGrant_interval_seconds :: u32
  DeviceGrant_status :: DeviceGrantStatus
  DeviceGrant_user_id :: "UserId option"
  DeviceGrant_session_id :: "SessionId option"
  DeviceGrant_created_at :: DateTime
  DeviceGrant_expires_at :: DateTime
  DeviceGrant_last_polled_at :: "DateTime option"

record FlowStateRow =
  FlowStateRow_state :: FlowState
  FlowStateRow_authorize_params :: "(string, string) btree_map"

record ConsentGrant =
  ConsentGrant_id :: ConsentGrantId
  ConsentGrant_realm_id :: RealmId
  ConsentGrant_user_id :: UserId
  ConsentGrant_client_id :: ClientId
  ConsentGrant_scopes :: "ScopeName list"
  ConsentGrant_granted_at :: DateTime
  ConsentGrant_updated_at :: DateTime

record GrantTables = IdentityTables +
  codes :: "(CodeId, CodeGrant) hash_map"
  refresh_tokens :: "(RefreshTokenId, RefreshToken) hash_map"
  families :: "(TokenFamilyId, RefreshTokenId list) hash_map"
  par_requests :: "(string, ParRequest) hash_map"
  device_by_device_code :: "(string, DeviceGrant) hash_map"
  device_by_user_code :: "(string, string) hash_map"
  flow_states :: "(FlowStateId, FlowStateRow) hash_map"
  consent_grants :: "(RealmId \<times> UserId \<times> ClientId, ConsentGrant) hash_map"
  auth_flows :: "(RealmId \<times> FlowId, FlowDefinition) hash_map"

section \<open>One-shot rows\<close>

text \<open>
  The contract of a row that is saved once and consumed once. Over any sequence of saves,
  consumptions and other operations that leave the table alone, a key is consumed successfully at
  most as often as it was saved (plus once if it was there before).
\<close>

datatype ('k, 'v, 't) shot = Shot_Save 'v | Shot_Consume 'k | Shot_Other "'t \<Rightarrow> 't"

locale single_use =
  fixes get :: "'t \<Rightarrow> 'k \<Rightarrow> 'v option"
    and key_of :: "'v \<Rightarrow> 'k"
    and save :: "'v \<Rightarrow> 't \<Rightarrow> (StorageError + unit) \<times> 't"
    and consume :: "'k \<Rightarrow> 't \<Rightarrow> (StorageError + 'v) \<times> 't"
  assumes save_get: "get (snd (save v t)) = (get t)(key_of v \<mapsto> v)"
    and consume_result: "fst (consume k t) = (case get t k of None \<Rightarrow> Inl StorageError_NotFound | Some v \<Rightarrow> Inr v)"
    and consume_get: "get (snd (consume k t)) = (get t)(k := None)"
begin

text \<open>How often the sequence consumes \<open>k\<close> with success, and how often it saves it.\<close>

fun consumed :: "'k \<Rightarrow> ('k, 'v, 't) shot list \<Rightarrow> 't \<Rightarrow> nat" where
  "consumed k [] t = 0"
| "consumed k (Shot_Save v # xs) t = consumed k xs (snd (save v t))"
| "consumed k (Shot_Consume j # xs) t =
     (if j = k \<and> \<not> isl (fst (consume j t)) then 1 else 0) + consumed k xs (snd (consume j t))"
| "consumed k (Shot_Other f # xs) t = consumed k xs (f t)"

fun saved :: "'k \<Rightarrow> ('k, 'v, 't) shot list \<Rightarrow> nat" where
  "saved k [] = 0"
| "saved k (Shot_Save v # xs) = (if key_of v = k then 1 else 0) + saved k xs"
| "saved k (Shot_Consume j # xs) = saved k xs"
| "saved k (Shot_Other f # xs) = saved k xs"

definition foreign :: "('t \<Rightarrow> 't) \<Rightarrow> bool" where
  "foreign f \<longleftrightarrow> (\<forall>t. get (f t) = get t)"

lemma consumed_le_saved:
  assumes "\<forall>f. Shot_Other f \<in> set xs \<longrightarrow> foreign f"
  shows "consumed k xs t \<le> saved k xs + (if get t k = None then 0 else 1)"
  using assms
proof (induction k xs t rule: consumed.induct)
  case (2 k v xs t)
  then show ?case by (auto simp: save_get split: if_splits)
next
  case (3 k j xs t)
  then show ?case by (auto simp: consume_get consume_result split: if_splits option.splits)
next
  case (4 k f xs t)
  then have "get (f t) = get t" by (simp add: foreign_def)
  with 4 show ?case by simp
qed simp

lemma consume_after_save: "fst (consume (key_of v) (snd (save v t))) = Inr v"
  by (simp add: consume_result save_get)

lemma consume_twice: "fst (consume k (snd (consume k t))) = Inl StorageError_NotFound"
  by (simp add: consume_result consume_get)

lemma consume_other: "k \<noteq> j \<Longrightarrow> fst (consume k (snd (consume j t))) = fst (consume k t)"
  by (simp add: consume_result consume_get)

end

section \<open>Authorization codes\<close>

definition save_code_grant :: "CodeGrant \<Rightarrow> (unit, 'a GrantTables_scheme) store_op" where [store_defs]:
  "save_code_grant grant t = (Inr (), t\<lparr>codes := hm_insert (CodeGrant_code grant) grant (codes t)\<rparr>)"

definition consume_code :: "CodeId \<Rightarrow> (CodeGrant, 'a GrantTables_scheme) store_op" where [store_defs]:
  "consume_code code t =
     (ok_or (map_of (codes t) code) NotFound, t\<lparr>codes := hm_remove code (codes t)\<rparr>)"

section \<open>Refresh tokens\<close>

definition save_refresh_token :: "RefreshToken \<Rightarrow> (unit, 'a GrantTables_scheme) store_op" where [store_defs]:
  "save_refresh_token token t =
     (let f = RefreshToken_family_id token in
      (Inr (), t\<lparr>families := hm_insert f (unwrap_or (map_of (families t) f) [] @ [RefreshToken_id token]) (families t),
                 refresh_tokens := hm_insert (RefreshToken_id token) token (refresh_tokens t)\<rparr>))"

definition get_refresh_token :: "RefreshTokenId \<Rightarrow> (RefreshToken, 'a GrantTables_scheme) store_read" where [store_defs]:
  "get_refresh_token i t = ok_or (map_of (refresh_tokens t) i) NotFound"

definition mark_refresh_used :: "RefreshTokenId \<Rightarrow> (unit, 'a GrantTables_scheme) store_op" where [store_defs]:
  "mark_refresh_used i t =
     (case map_of (refresh_tokens t) i of
        None \<Rightarrow> (Inl NotFound, t)
      | Some tok \<Rightarrow> (Inr (), t\<lparr>refresh_tokens :=
          hm_insert i (tok\<lparr>RefreshToken_used := True\<rparr>) (refresh_tokens t)\<rparr>))"

definition revoke_token_family :: "TokenFamilyId \<Rightarrow> (unit, 'a GrantTables_scheme) store_op" where [store_defs]:
  "revoke_token_family family t =
     (case map_of (families t) family of
        Some ids \<Rightarrow> (Inr (), t\<lparr>families := hm_remove family (families t),
                               refresh_tokens := fold hm_remove ids (refresh_tokens t)\<rparr>)
      | None \<Rightarrow> (Inr (), t))"

section \<open>Pushed authorization requests\<close>

definition save_par_request :: "ParRequest \<Rightarrow> (unit, 'a GrantTables_scheme) store_op" where [store_defs]:
  "save_par_request par t =
     (Inr (), t\<lparr>par_requests := hm_insert (ParRequest_request_uri par) par (par_requests t)\<rparr>)"

definition consume_par_request :: "string \<Rightarrow> (ParRequest, 'a GrantTables_scheme) store_op" where [store_defs]:
  "consume_par_request request_uri t =
     (ok_or (map_of (par_requests t) request_uri) NotFound,
      t\<lparr>par_requests := hm_remove request_uri (par_requests t)\<rparr>)"

section \<open>Device grants\<close>

definition save_device_grant :: "DeviceGrant \<Rightarrow> (unit, 'a GrantTables_scheme) store_op" where [store_defs]:
  "save_device_grant grant t =
     (Inr (), t\<lparr>device_by_user_code :=
                 hm_insert (DeviceGrant_user_code grant) (DeviceGrant_device_code grant) (device_by_user_code t),
               device_by_device_code :=
                 hm_insert (DeviceGrant_device_code grant) grant (device_by_device_code t)\<rparr>)"

definition get_device_grant_by_device_code ::
  "string \<Rightarrow> (DeviceGrant, 'a GrantTables_scheme) store_read" where [store_defs]:
  "get_device_grant_by_device_code device_code t = ok_or (map_of (device_by_device_code t) device_code) NotFound"

definition get_device_grant_by_user_code ::
  "string \<Rightarrow> (DeviceGrant, 'a GrantTables_scheme) store_read" where [store_defs]:
  "get_device_grant_by_user_code user_code t =
     (case map_of (device_by_user_code t) user_code of
        None \<Rightarrow> Inl NotFound
      | Some dc \<Rightarrow> ok_or (map_of (device_by_device_code t) dc) NotFound)"

definition update_device_grant :: "DeviceGrant \<Rightarrow> (unit, 'a GrantTables_scheme) store_op" where [store_defs]:
  "update_device_grant grant t =
     (if \<not> hm_contains_key (device_by_device_code t) (DeviceGrant_device_code grant) then (Inl NotFound, t)
      else (Inr (), t\<lparr>device_by_device_code :=
             hm_insert (DeviceGrant_device_code grant) grant (device_by_device_code t)\<rparr>))"

definition delete_device_grant :: "string \<Rightarrow> (unit, 'a GrantTables_scheme) store_op" where [store_defs]:
  "delete_device_grant device_code t =
     (case map_of (device_by_device_code t) device_code of
        None \<Rightarrow> (Inl NotFound, t)
      | Some g \<Rightarrow> (Inr (), t\<lparr>device_by_device_code := hm_remove device_code (device_by_device_code t),
          device_by_user_code := hm_remove (DeviceGrant_user_code g) (device_by_user_code t)\<rparr>))"

section \<open>Flow states\<close>

definition save_flow_state :: "FlowStateRow \<Rightarrow> (unit, 'a GrantTables_scheme) store_op" where [store_defs]:
  "save_flow_state state t =
     (Inr (), t\<lparr>flow_states := hm_insert (FlowState_id (FlowStateRow_state state)) state (flow_states t)\<rparr>)"

definition get_flow_state :: "FlowStateId \<Rightarrow> (FlowStateRow, 'a GrantTables_scheme) store_read" where [store_defs]:
  "get_flow_state i t = ok_or (map_of (flow_states t) i) NotFound"

definition delete_flow_state :: "FlowStateId \<Rightarrow> (unit, 'a GrantTables_scheme) store_op" where [store_defs]:
  "delete_flow_state i t =
     (case map_of (flow_states t) i of
        None \<Rightarrow> (Inl NotFound, t)
      | Some _ \<Rightarrow> (Inr (), t\<lparr>flow_states := hm_remove i (flow_states t)\<rparr>))"

section \<open>Authentication flows\<close>

text \<open>The \<open>Display\<close> of a realm id in the message is the argument \<open>show_realm\<close>.\<close>

definition save_auth_flow ::
  "(RealmId \<Rightarrow> string) \<Rightarrow> FlowDefinition \<Rightarrow> (unit, 'a GrantTables_scheme) store_op" where [store_defs]:
  "save_auth_flow show_realm flow t =
     (if list_ex (\<lambda>f. FlowDefinition_realm_id f = FlowDefinition_realm_id flow \<and>
                      FlowDefinition_alias f = FlowDefinition_alias flow \<and>
                      FlowDefinition_version f = FlowDefinition_version flow) (hm_values (auth_flows t)) \<and>
         \<not> hm_contains_key (auth_flows t) (FlowDefinition_realm_id flow, FlowDefinition_id flow)
      then (Inl (StorageError_Conflict (''auth_flow ('' @ show_realm (FlowDefinition_realm_id flow) @ '', '' @
              FlowDefinition_alias flow @ '', v'' @ show_int (FlowDefinition_version flow) @ '') already exists'')), t)
      else (Inr (), t\<lparr>auth_flows :=
             hm_insert (FlowDefinition_realm_id flow, FlowDefinition_id flow) flow (auth_flows t)\<rparr>))"

text \<open>\<open>Iterator::max_by_key\<close>: the last of the greatest elements.\<close>

fun max_by_key :: "('a \<Rightarrow> int) \<Rightarrow> 'a list \<Rightarrow> 'a option" where
  "max_by_key f [] = None"
| "max_by_key f (x # xs) =
     (case max_by_key f xs of
        None \<Rightarrow> Some x
      | Some y \<Rightarrow> if f x > f y then Some x else Some y)"

definition get_auth_flow_by_alias ::
  "RealmId \<Rightarrow> string \<Rightarrow> (FlowDefinition, 'a GrantTables_scheme) store_read" where [store_defs]:
  "get_auth_flow_by_alias realm alias t =
     ok_or (max_by_key FlowDefinition_version
       (filter (\<lambda>f. FlowDefinition_realm_id f = realm \<and> FlowDefinition_alias f = alias)
         (hm_values (auth_flows t)))) NotFound"

definition get_auth_flow_by_alias_and_version ::
  "RealmId \<Rightarrow> string \<Rightarrow> i32 \<Rightarrow> (FlowDefinition, 'a GrantTables_scheme) store_read" where [store_defs]:
  "get_auth_flow_by_alias_and_version realm alias version t =
     ok_or (find (\<lambda>f. FlowDefinition_realm_id f = realm \<and> FlowDefinition_alias f = alias \<and>
                       FlowDefinition_version f = version) (hm_values (auth_flows t))) NotFound"

definition latest_step ::
  "FlowDefinition \<Rightarrow> (string, FlowDefinition) btree_map \<Rightarrow> (string, FlowDefinition) btree_map" where
  "latest_step f latest =
     (case map_of latest (FlowDefinition_alias f) of
        Some prev \<Rightarrow> if FlowDefinition_version prev \<ge> FlowDefinition_version f then latest
                     else bt_insert (FlowDefinition_alias f) f latest
      | None \<Rightarrow> bt_insert (FlowDefinition_alias f) f latest)"

definition list_auth_flows :: "RealmId \<Rightarrow> (FlowDefinition list, 'a GrantTables_scheme) store_read" where [store_defs]:
  "list_auth_flows realm t =
     Inr (map snd (fold latest_step
       (filter (\<lambda>f. FlowDefinition_realm_id f = realm) (hm_values (auth_flows t))) []))"

definition delete_auth_flow :: "RealmId \<Rightarrow> FlowId \<Rightarrow> (unit, 'a GrantTables_scheme) store_op" where [store_defs]:
  "delete_auth_flow realm i t =
     (case map_of (auth_flows t) (realm, i) of
        None \<Rightarrow> (Inl NotFound, t)
      | Some _ \<Rightarrow> (Inr (), t\<lparr>auth_flows := hm_remove (realm, i) (auth_flows t)\<rparr>))"

section \<open>Consent grants\<close>

definition save_consent_grant :: "ConsentGrant \<Rightarrow> (unit, 'a GrantTables_scheme) store_op" where [store_defs]:
  "save_consent_grant grant t =
     (Inr (), t\<lparr>consent_grants :=
        hm_insert (ConsentGrant_realm_id grant, ConsentGrant_user_id grant, ConsentGrant_client_id grant)
          grant (consent_grants t)\<rparr>)"

definition get_consent_grant ::
  "RealmId \<Rightarrow> UserId \<Rightarrow> ClientId \<Rightarrow> (ConsentGrant, 'a GrantTables_scheme) store_read" where [store_defs]:
  "get_consent_grant realm user_id client_id t =
     ok_or (map_of (consent_grants t) (realm, user_id, client_id)) NotFound"

definition delete_consent_grant ::
  "RealmId \<Rightarrow> UserId \<Rightarrow> ClientId \<Rightarrow> (unit, 'a GrantTables_scheme) store_op" where [store_defs]:
  "delete_consent_grant realm user_id client_id t =
     (case map_of (consent_grants t) (realm, user_id, client_id) of
        None \<Rightarrow> (Inl NotFound, t)
      | Some _ \<Rightarrow> (Inr (), t\<lparr>consent_grants := hm_remove (realm, user_id, client_id) (consent_grants t)\<rparr>))"

section \<open>Seeding (\<open>seed.rs\<close>)\<close>

text \<open>The loop over the built-in flows; an error of the store ends it, keeping what was inserted.\<close>

fun seed_loop ::
  "(RealmId \<Rightarrow> string) \<Rightarrow> RealmId \<Rightarrow> nat \<Rightarrow> FlowDefinition list \<Rightarrow> (nat, 'a GrantTables_scheme) store_op" where
  "seed_loop show_realm realm inserted [] t = (Inr inserted, t)"
| "seed_loop show_realm realm inserted (flow # fs) t =
     (case get_auth_flow_by_alias realm (FlowDefinition_alias flow) t of
        Inr _ \<Rightarrow> seed_loop show_realm realm inserted fs t
      | Inl StorageError_NotFound \<Rightarrow>
          (case save_auth_flow show_realm flow t of
             (Inl e, t') \<Rightarrow> (Inl e, t')
           | (Inr _, t') \<Rightarrow> seed_loop show_realm realm (Suc inserted) fs t')
      | Inl other \<Rightarrow> (Inl other, t))"

definition seed_default_flows ::
  "(RealmId \<Rightarrow> string) \<Rightarrow> (nat \<Rightarrow> FlowId) \<Rightarrow> (nat \<Rightarrow> nat \<Rightarrow> NodeId) \<Rightarrow> RealmId
    \<Rightarrow> (nat, 'a GrantTables_scheme) store_op" where
  "seed_default_flows show_realm fids ids realm t =
     seed_loop show_realm realm 0 (v0_1_flows fids ids realm) t"

section \<open>The one-shot rows of this group\<close>

interpretation code_store: single_use
  "\<lambda>t. map_of (codes t)" CodeGrant_code save_code_grant consume_code
  by unfold_locales (auto simp: store_defs split: option.splits)

interpretation par_store: single_use
  "\<lambda>t. map_of (par_requests t)" ParRequest_request_uri save_par_request consume_par_request
  by unfold_locales (auto simp: store_defs split: option.splits)

section \<open>Token families\<close>

text \<open>Every stored refresh token is listed in its family.\<close>

definition families_ok :: "'a GrantTables_scheme \<Rightarrow> bool" where
  "families_ok t \<longleftrightarrow> (\<forall>i tok. map_of (refresh_tokens t) i = Some tok \<longrightarrow>
     RefreshToken_id tok = i \<and>
     (\<exists>ids. map_of (families t) (RefreshToken_family_id tok) = Some ids \<and> i \<in> set ids))"

lemma get_fold_hm_remove: "map_of (fold hm_remove ids m) i = (if i \<in> set ids then None else map_of m i)"
  by (induction ids arbitrary: m) auto

lemma families_ok_save:
  assumes "families_ok t"
  shows "families_ok (snd (save_refresh_token tok t))"
  unfolding families_ok_def
proof (intro allI impI)
  fix i tk assume "map_of (refresh_tokens (snd (save_refresh_token tok t))) i = Some tk"
  then consider "i = RefreshToken_id tok" "tk = tok" | "map_of (refresh_tokens t) i = Some tk"
    by (cases "i = RefreshToken_id tok") (simp_all add: save_refresh_token_def Let_def)
  then show "RefreshToken_id tk = i \<and> (\<exists>ids. map_of (families (snd (save_refresh_token tok t)))
      (RefreshToken_family_id tk) = Some ids \<and> i \<in> set ids)"
  proof cases
    case 2
    with assms obtain ids where "RefreshToken_id tk = i"
      "map_of (families t) (RefreshToken_family_id tk) = Some ids" "i \<in> set ids"
      unfolding families_ok_def by blast
    then show ?thesis by (auto simp: save_refresh_token_def Let_def)
  qed (simp add: save_refresh_token_def Let_def)
qed

lemma families_ok_mark:
  assumes "families_ok t"
  shows "families_ok (snd (mark_refresh_used i t))"
proof (cases "map_of (refresh_tokens t) i")
  case None
  with assms show ?thesis by (simp add: mark_refresh_used_def)
next
  case (Some old)
  have "RefreshToken_id tk = j \<and> (\<exists>ids. map_of (families t) (RefreshToken_family_id tk) = Some ids \<and> j \<in> set ids)"
    if "((map_of (refresh_tokens t))(i \<mapsto> old\<lparr>RefreshToken_used := True\<rparr>)) j = Some tk" for j tk
  proof (cases "j = i")
    case True
    with that have "tk = old\<lparr>RefreshToken_used := True\<rparr>" by simp
    with True Some assms show ?thesis by (simp add: families_ok_def)
  next
    case False
    with that assms show ?thesis by (simp add: families_ok_def)
  qed
  with Some show ?thesis unfolding families_ok_def mark_refresh_used_def by simp
qed

lemma families_ok_revoke:
  assumes "families_ok t"
  shows "families_ok (snd (revoke_token_family f t))"
    and "map_of (refresh_tokens (snd (revoke_token_family f t))) i = Some tok \<Longrightarrow>
      RefreshToken_family_id tok \<noteq> f"
proof -
  have before: "map_of (refresh_tokens t) i = Some tok"
    if "map_of (refresh_tokens (snd (revoke_token_family f t))) i = Some tok" for i tok
    using that by (auto simp: revoke_token_family_def get_fold_hm_remove split: option.splits if_splits)
  have gone: "RefreshToken_family_id tok \<noteq> f"
    if r: "map_of (refresh_tokens (snd (revoke_token_family f t))) i = Some tok" for i tok
  proof
    assume "RefreshToken_family_id tok = f"
    with before [OF r] assms obtain ids where "map_of (families t) f = Some ids" "i \<in> set ids"
      unfolding families_ok_def by blast
    with r show False by (simp add: revoke_token_family_def get_fold_hm_remove)
  qed
  show "families_ok (snd (revoke_token_family f t))"
    unfolding families_ok_def
  proof (intro allI impI)
    fix i tok assume r: "map_of (refresh_tokens (snd (revoke_token_family f t))) i = Some tok"
    from before [OF r] assms gone [OF r] show "RefreshToken_id tok = i \<and>
        (\<exists>ids. map_of (families (snd (revoke_token_family f t))) (RefreshToken_family_id tok) = Some ids \<and> i \<in> set ids)"
      by (auto simp: families_ok_def revoke_token_family_def split: option.splits)
  qed
  show "map_of (refresh_tokens (snd (revoke_token_family f t))) i = Some tok \<Longrightarrow>
      RefreshToken_family_id tok \<noteq> f"
    by (rule gone)
qed

section \<open>Seeding\<close>

lemma max_by_key_None: "max_by_key f xs = None \<longleftrightarrow> xs = []"
  by (cases xs) (auto split: option.splits)

lemma max_by_key_Some: "max_by_key f xs = Some x \<Longrightarrow> x \<in> set xs \<and> (\<forall>y\<in>set xs. f y \<le> f x)"
  by (induction xs arbitrary: x) (force split: option.splits if_splits simp: max_by_key_None)+

definition has_alias :: "'a GrantTables_scheme \<Rightarrow> RealmId \<Rightarrow> string \<Rightarrow> bool" where
  "has_alias t realm alias \<longleftrightarrow> (\<exists>f\<in>set (hm_values (auth_flows t)).
     FlowDefinition_realm_id f = realm \<and> FlowDefinition_alias f = alias)"

lemma get_auth_flow_by_alias_cases:
  "(\<exists>f. get_auth_flow_by_alias realm alias t = Inr f) \<longleftrightarrow> has_alias t realm alias"
  "\<not> has_alias t realm alias \<Longrightarrow> get_auth_flow_by_alias realm alias t = Inl StorageError_NotFound"
proof -
  let ?xs = "filter (\<lambda>f. FlowDefinition_realm_id f = realm \<and> FlowDefinition_alias f = alias)
    (hm_values (auth_flows t))"
  have e: "has_alias t realm alias \<longleftrightarrow> ?xs \<noteq> []"
    by (auto simp: has_alias_def filter_empty_conv)
  show "(\<exists>f. get_auth_flow_by_alias realm alias t = Inr f) \<longleftrightarrow> has_alias t realm alias"
    unfolding e using max_by_key_None [of FlowDefinition_version ?xs]
    by (auto simp: get_auth_flow_by_alias_def)
  show "get_auth_flow_by_alias realm alias t = Inl StorageError_NotFound" if "\<not> has_alias t realm alias"
  proof -
    from that have "?xs = []" unfolding e by simp
    then show ?thesis by (simp add: get_auth_flow_by_alias_def)
  qed
qed

lemma hm_insert_fresh: "map_of m k = None \<Longrightarrow> hm_insert k v m = (k, v) # m"
  by (auto simp: hm_insert_def map_of_eq_None_iff filter_id_conv)

text \<open>What saving a flow under an unused alias and a fresh id does.\<close>

lemma save_fresh_flow:
  assumes "\<not> has_alias t (FlowDefinition_realm_id flow) (FlowDefinition_alias flow)"
    and "map_of (auth_flows t) (FlowDefinition_realm_id flow, FlowDefinition_id flow) = None"
  shows "save_auth_flow show_realm flow t = (Inr (), t\<lparr>auth_flows :=
    ((FlowDefinition_realm_id flow, FlowDefinition_id flow), flow) # auth_flows t\<rparr>)"
  using assms by (auto simp: save_auth_flow_def has_alias_def list_ex_iff hm_insert_fresh)

definition keeps_flows :: "RealmId \<Rightarrow> 'a GrantTables_scheme \<Rightarrow> 'a GrantTables_scheme \<Rightarrow> bool" where
  "keeps_flows realm t t' \<longleftrightarrow>
     (\<forall>k f. map_of (auth_flows t) k = Some f \<longrightarrow> map_of (auth_flows t') k = Some f) \<and>
     (\<forall>a. has_alias t realm a \<longrightarrow> has_alias t' realm a \<and>
        get_auth_flow_by_alias realm a t' = get_auth_flow_by_alias realm a t)"

lemma keeps_flows_refl: "keeps_flows realm t t"
  by (simp add: keeps_flows_def)

lemma keeps_flows_trans: "keeps_flows realm t t1 \<Longrightarrow> keeps_flows realm t1 t2 \<Longrightarrow> keeps_flows realm t t2"
  by (simp add: keeps_flows_def)

lemma keeps_flows_cons:
  assumes "\<not> has_alias t realm (FlowDefinition_alias flow)" and "map_of (auth_flows t) k = None"
    and "FlowDefinition_realm_id flow = realm"
  shows "keeps_flows realm t (t\<lparr>auth_flows := (k, flow) # auth_flows t\<rparr>)"
  using assms by (auto simp: keeps_flows_def has_alias_def get_auth_flow_by_alias_def hm_values_def)

lemma seed_loop_ok:
  assumes "\<forall>f\<in>set fs. FlowDefinition_realm_id f = realm" and "distinct (map FlowDefinition_id fs)"
    and "\<forall>f\<in>set fs. map_of (auth_flows t) (realm, FlowDefinition_id f) = None"
  shows "\<exists>n t'. seed_loop show_realm realm m fs t = (Inr n, t') \<and> n \<le> m + length fs \<and>
    keeps_flows realm t t' \<and> (\<forall>f\<in>set fs. has_alias t' realm (FlowDefinition_alias f))"
  using assms
proof (induction fs arbitrary: m t)
  case Nil
  then show ?case by (simp add: keeps_flows_refl)
next
  case (Cons f fs)
  show ?case
  proof (cases "has_alias t realm (FlowDefinition_alias f)")
    case True
    then obtain g where "get_auth_flow_by_alias realm (FlowDefinition_alias f) t = Inr g"
      using get_auth_flow_by_alias_cases(1) by blast
    moreover obtain n t' where "seed_loop show_realm realm m fs t = (Inr n, t')" "n \<le> m + length fs"
      "keeps_flows realm t t'" "\<forall>f\<in>set fs. has_alias t' realm (FlowDefinition_alias f)"
      using Cons.IH [of t m] Cons.prems by auto
    ultimately show ?thesis using True by (auto simp: keeps_flows_def)
  next
    case False
    let ?t = "t\<lparr>auth_flows := ((realm, FlowDefinition_id f), f) # auth_flows t\<rparr>"
    have realm: "FlowDefinition_realm_id f = realm"
      and free: "map_of (auth_flows t) (realm, FlowDefinition_id f) = None"
      using Cons.prems by auto
    have k: "keeps_flows realm t ?t" by (rule keeps_flows_cons [OF False free realm])
    have "\<forall>g\<in>set fs. map_of (auth_flows ?t) (realm, FlowDefinition_id g) = None"
      using Cons.prems by (auto simp: image_iff)
    then obtain n t' where r: "seed_loop show_realm realm (Suc m) fs ?t = (Inr n, t')"
      "n \<le> Suc m + length fs" "keeps_flows realm ?t t'"
      "\<forall>f\<in>set fs. has_alias t' realm (FlowDefinition_alias f)"
      using Cons.IH [of ?t "Suc m"] Cons.prems by auto
    have "has_alias ?t realm (FlowDefinition_alias f)"
      using realm by (simp add: has_alias_def hm_values_def)
    with r(3) have "has_alias t' realm (FlowDefinition_alias f)" by (simp add: keeps_flows_def)
    moreover have "seed_loop show_realm realm m (f # fs) t = (Inr n, t')"
      using r(1) get_auth_flow_by_alias_cases(2) [OF False]
        save_fresh_flow [of t f show_realm] False free realm by simp
    ultimately show ?thesis using r keeps_flows_trans [OF k r(3)] by auto
  qed
qed

lemma seed_loop_skips:
  "\<forall>f\<in>set fs. has_alias t realm (FlowDefinition_alias f) \<Longrightarrow> seed_loop show_realm realm m fs t = (Inr m, t)"
proof (induction fs)
  case (Cons f fs)
  then obtain g where "get_auth_flow_by_alias realm (FlowDefinition_alias f) t = Inr g"
    using get_auth_flow_by_alias_cases(1) [of realm "FlowDefinition_alias f" t] by auto
  with Cons show ?case by simp
qed simp

lemma v0_1_flows_facts:
  "map FlowDefinition_alias (v0_1_flows fids ids realm) =
     [alias_BROWSER, alias_DIRECT_GRANT, alias_REGISTRATION, alias_RESET_CREDENTIALS,
      alias_FIRST_BROKER_LOGIN, alias_CLIENT_AUTHENTICATION, alias_STEP_UP]"
  "map FlowDefinition_id (v0_1_flows fids ids realm) = map fids [0, 1, 2, 3, 4, 5, 6]"
  "\<forall>f\<in>set (v0_1_flows fids ids realm). FlowDefinition_realm_id f = realm"
  "\<forall>f\<in>set (v0_1_flows fids ids realm). FlowDefinition_id f \<in> range fids"
  by (simp_all add: v0_1_flows_def builtin_flow_defs mk_flow_def Let_def)

definition builtin_aliases :: "string list" where
  "builtin_aliases = [alias_BROWSER, alias_DIRECT_GRANT, alias_REGISTRATION, alias_RESET_CREDENTIALS,
     alias_FIRST_BROKER_LOGIN, alias_CLIENT_AUTHENTICATION, alias_STEP_UP]"

lemma v0_1_flows_aliases:
  "FlowDefinition_alias ` set (v0_1_flows fids ids realm) = set builtin_aliases"
  using v0_1_flows_facts(1) [of fids ids realm] unfolding builtin_aliases_def
  by (metis list.set_map)

lemma seed_ok:
  assumes "inj fids" and "\<forall>k. map_of (auth_flows t) (realm, fids k) = None"
  obtains n t' where "seed_default_flows show_realm fids ids realm t = (Inr n, t')" "n \<le> 7"
    "keeps_flows realm t t'" "\<forall>a\<in>set builtin_aliases. has_alias t' realm a"
    "seed_default_flows show_realm fids' ids' realm t' = (Inr 0, t')"
proof -
  let ?fs = "v0_1_flows fids ids realm"
  have "\<forall>f\<in>set ?fs. map_of (auth_flows t) (realm, FlowDefinition_id f) = None"
    using assms(2) v0_1_flows_facts(4) [of fids ids realm] by fastforce
  moreover have "distinct (map FlowDefinition_id ?fs)"
    unfolding v0_1_flows_facts(2) using assms(1) by (simp add: inj_eq)
  ultimately obtain n t' where r: "seed_loop show_realm realm 0 ?fs t = (Inr n, t')" "n \<le> 0 + length ?fs"
    "keeps_flows realm t t'" "\<forall>f\<in>set ?fs. has_alias t' realm (FlowDefinition_alias f)"
    using seed_loop_ok [OF v0_1_flows_facts(3), of fids ids realm t show_realm 0] by blast
  from r(4) have al: "\<forall>a\<in>set builtin_aliases. has_alias t' realm a"
    unfolding v0_1_flows_aliases [of fids ids realm, symmetric] by simp
  then have "\<forall>f\<in>set (v0_1_flows fids' ids' realm). has_alias t' realm (FlowDefinition_alias f)"
    unfolding v0_1_flows_aliases [of fids' ids' realm, symmetric] by simp
  from seed_loop_skips [OF this] have "seed_default_flows show_realm fids' ids' realm t' = (Inr 0, t')"
    by (simp add: seed_default_flows_def)
  moreover have "n \<le> 7" using r(2) by (simp add: v0_1_flows_def)
  ultimately show ?thesis using that r al by (simp add: seed_default_flows_def)
qed

section \<open>The latest version of each flow\<close>

definition is_latest :: "FlowDefinition list \<Rightarrow> string \<Rightarrow> FlowDefinition \<Rightarrow> bool" where
  "is_latest fs a f \<longleftrightarrow> f \<in> set fs \<and> FlowDefinition_alias f = a \<and>
     (\<forall>g\<in>set fs. FlowDefinition_alias g = a \<longrightarrow> FlowDefinition_version g \<le> FlowDefinition_version f)"

lemma bt_wf_latest: "bt_wf m \<Longrightarrow> bt_wf (fold latest_step fs m)"
  by (induction fs arbitrary: m) (auto simp: latest_step_def bt_wf_insert split: option.splits)

lemma latest_step_get:
  assumes "bt_wf m"
  shows "map_of (latest_step f m) a =
    (if a = FlowDefinition_alias f \<and> (\<forall>prev. map_of m a = Some prev \<longrightarrow>
        FlowDefinition_version prev < FlowDefinition_version f)
     then Some f else map_of m a)"
  using assms by (auto simp: latest_step_def get_bt_insert split: option.splits)

lemma fold_latest:
  "case map_of (fold latest_step fs []) a of
     Some f \<Rightarrow> is_latest fs a f
   | None \<Rightarrow> \<forall>f\<in>set fs. FlowDefinition_alias f \<noteq> a"
proof (induction fs rule: rev_induct)
  case (snoc f fs)
  let ?m = "fold latest_step fs []"
  have wf: "bt_wf ?m" by (rule bt_wf_latest) (simp add: bt_wf_def)
  show ?case
  proof (cases "map_of ?m a")
    case None
    with snoc show ?thesis
      by (auto simp: latest_step_get [OF wf] is_latest_def split: option.splits)
  next
    case (Some g)
    with snoc have "is_latest fs a g" by simp
    with Some show ?thesis
      by (auto simp: latest_step_get [OF wf] is_latest_def split: option.splits)
  qed
qed simp

definition versions_unique :: "'a GrantTables_scheme \<Rightarrow> bool" where
  "versions_unique t \<longleftrightarrow> (\<forall>f\<in>set (hm_values (auth_flows t)). \<forall>g\<in>set (hm_values (auth_flows t)).
     FlowDefinition_realm_id f = FlowDefinition_realm_id g \<and> FlowDefinition_alias f = FlowDefinition_alias g \<and>
     FlowDefinition_version f = FlowDefinition_version g \<longrightarrow> f = g)"

lemma list_auth_flows_mem:
  assumes "list_auth_flows realm t = Inr fs"
  shows "f \<in> set fs \<longleftrightarrow> map_of (fold latest_step
      (filter (\<lambda>f. FlowDefinition_realm_id f = realm) (hm_values (auth_flows t))) []) (FlowDefinition_alias f) = Some f"
    and "sorted_wrt (<) (map FlowDefinition_alias fs)"
proof -
  let ?rs = "filter (\<lambda>f. FlowDefinition_realm_id f = realm) (hm_values (auth_flows t))"
  let ?m = "fold latest_step ?rs []"
  have wf: "bt_wf ?m" by (rule bt_wf_latest) (simp add: bt_wf_def)
  then have dist: "distinct (map fst ?m)"
    by (simp add: bt_wf_def strict_sorted_iff)
  have keys: "k = FlowDefinition_alias g" if "(k, g) \<in> set ?m" for k g
  proof -
    have "map_of ?m k = Some g" using dist that by simp
    with fold_latest [of ?rs k] show ?thesis by (simp add: is_latest_def)
  qed
  have fs: "fs = map snd ?m" using assms by (simp add: list_auth_flows_def)
  then show "f \<in> set fs \<longleftrightarrow> map_of ?m (FlowDefinition_alias f) = Some f"
    using dist keys by (force dest: map_of_SomeD)
  have "map FlowDefinition_alias fs = map fst ?m"
    unfolding fs using keys by (auto simp: list.map_comp intro!: map_cong)
  with wf show "sorted_wrt (<) (map FlowDefinition_alias fs)" by (simp add: bt_wf_def)
qed

lemma get_auth_flow_by_alias_latest:
  "get_auth_flow_by_alias realm a t = Inr f \<Longrightarrow>
     is_latest (filter (\<lambda>f. FlowDefinition_realm_id f = realm) (hm_values (auth_flows t))) a f"
  by (auto simp: get_auth_flow_by_alias_def is_latest_def dest!: max_by_key_Some)

section \<open>Properties\<close>

text \<open>
  An authorization code is redeemed at most once. In any sequence of saves and
  consumptions of codes, interleaved with any operations that leave the code table alone, a code is
  consumed successfully at most as often as it was saved in that sequence, plus once if it was
  already stored; and a saved code can be consumed once, a consumed one not again.
\<close>

theorem authorization_code_single_use:
  fixes t :: "'a GrantTables_scheme"
  assumes "\<forall>f. Shot_Other f \<in> set ops \<longrightarrow> (\<forall>t. map_of (codes (f t)) = map_of (codes t))"
  shows "code_store.consumed c ops t \<le> code_store.saved c ops + (if map_of (codes t) c = None then 0 else 1) \<and>
    fst (consume_code (CodeGrant_code g) (snd (save_code_grant g t))) = Inr g \<and>
    fst (consume_code c (snd (consume_code c t))) = Inl StorageError_NotFound"
  using assms code_store.consumed_le_saved [of ops c t] code_store.consume_after_save code_store.consume_twice
  by (auto simp: code_store.foreign_def)

text \<open>
  Every stored refresh token is listed in its family, and every operation on refresh tokens
  keeps it so; therefore revoking a family leaves no token of that family in the store, while tokens
  of other families that the family does not list stay.
\<close>

theorem token_family_revocation:
  assumes "families_ok t"
  shows "families_ok (snd (save_refresh_token tok t)) \<and> families_ok (snd (mark_refresh_used i t)) \<and>
    families_ok (snd (revoke_token_family f t)) \<and>
    (\<forall>j tk. map_of (refresh_tokens (snd (revoke_token_family f t))) j = Some tk \<longrightarrow>
       RefreshToken_family_id tk \<noteq> f) \<and>
    (\<forall>j tk. map_of (refresh_tokens t) j = Some tk \<and> j \<notin> set (unwrap_or (map_of (families t) f) []) \<longrightarrow>
       map_of (refresh_tokens (snd (revoke_token_family f t))) j = Some tk)"
  using families_ok_save [OF assms] families_ok_mark [OF assms] families_ok_revoke [OF assms]
  by (auto simp: revoke_token_family_def get_fold_hm_remove split: option.splits)

text \<open>
  Seeding a realm with fresh flow ids always succeeds, inserts at most seven flows, leaves every
  stored flow and the lookup of every alias that already existed unchanged, makes all seven
  built-in aliases resolve, and is idempotent: a second run inserts nothing and changes nothing,
  whatever ids it draws.
\<close>

theorem seed_default_flows_correct:
  assumes "inj fids" and "\<forall>k. map_of (auth_flows t) (realm, fids k) = None"
  shows "\<exists>n t'. seed_default_flows show_realm fids ids realm t = (Inr n, t') \<and> n \<le> 7 \<and>
    (\<forall>k f. map_of (auth_flows t) k = Some f \<longrightarrow> map_of (auth_flows t') k = Some f) \<and>
    (\<forall>a f. get_auth_flow_by_alias realm a t = Inr f \<longrightarrow> get_auth_flow_by_alias realm a t' = Inr f) \<and>
    (\<forall>a\<in>set builtin_aliases. \<exists>f. get_auth_flow_by_alias realm a t' = Inr f) \<and>
    seed_default_flows show_realm fids' ids' realm t' = (Inr 0, t')"
proof (rule seed_ok [OF assms, of show_realm ids fids' ids'])
  fix n t' assume r: "seed_default_flows show_realm fids ids realm t = (Inr n, t')" "n \<le> 7"
    "keeps_flows realm t t'" "\<forall>a\<in>set builtin_aliases. has_alias t' realm a"
    "seed_default_flows show_realm fids' ids' realm t' = (Inr 0, t')"
  have "get_auth_flow_by_alias realm a t' = Inr f" if "get_auth_flow_by_alias realm a t = Inr f" for a f
    using that r(3) get_auth_flow_by_alias_cases(1) [of realm a t] by (auto simp: keeps_flows_def)
  with r show ?thesis
    using get_auth_flow_by_alias_cases(1) [of realm _ t'] by (auto simp: keeps_flows_def)
qed

text \<open>
  The listing of flows is the set of current versions: when no two stored flows of a realm share
  alias and version, \<open>list_auth_flows\<close> returns, in the order of the aliases and without
  repetition, exactly the flows that \<open>get_auth_flow_by_alias\<close> returns.
\<close>

theorem list_auth_flows_latest:
  assumes "versions_unique t" and "list_auth_flows realm t = Inr fs"
  shows "sorted_wrt (<) (map FlowDefinition_alias fs) \<and>
    (f \<in> set fs \<and> FlowDefinition_alias f = a \<longleftrightarrow> get_auth_flow_by_alias realm a t = Inr f)"
proof -
  let ?rs = "filter (\<lambda>f. FlowDefinition_realm_id f = realm) (hm_values (auth_flows t))"
  have uniq: "g = h" if "is_latest ?rs a g" "is_latest ?rs a h" for g h
    using that assms(1) by (simp add: is_latest_def versions_unique_def) (metis order_antisym)
  have get: "get_auth_flow_by_alias realm a t = Inr f" if "is_latest ?rs a f"
  proof -
    from that have "has_alias t realm a" by (auto simp: has_alias_def is_latest_def)
    then obtain g where g: "get_auth_flow_by_alias realm a t = Inr g"
      using get_auth_flow_by_alias_cases(1) by blast
    with uniq [OF that get_auth_flow_by_alias_latest [OF g]] show ?thesis by simp
  qed
  have "f \<in> set fs \<and> FlowDefinition_alias f = a \<longleftrightarrow> is_latest ?rs a f"
  proof
    assume "f \<in> set fs \<and> FlowDefinition_alias f = a"
    then have "map_of (fold latest_step ?rs []) a = Some f"
      using list_auth_flows_mem(1) [OF assms(2), of f] by auto
    with fold_latest [of ?rs a] show "is_latest ?rs a f" by simp
  next
    assume l: "is_latest ?rs a f"
    with fold_latest [of ?rs a] obtain g where g: "map_of (fold latest_step ?rs []) a = Some g"
      "is_latest ?rs a g"
      by (auto simp: is_latest_def split: option.splits)
    with uniq [OF l] have "map_of (fold latest_step ?rs []) a = Some f" by simp
    moreover from l have "FlowDefinition_alias f = a" by (simp add: is_latest_def)
    ultimately show "f \<in> set fs \<and> FlowDefinition_alias f = a"
      using list_auth_flows_mem(1) [OF assms(2), of f] by simp
  qed
  moreover have "is_latest ?rs a f \<longleftrightarrow> get_auth_flow_by_alias realm a t = Inr f"
    using get get_auth_flow_by_alias_latest by (rule iffI)
  ultimately show ?thesis using list_auth_flows_mem(2) [OF assms(2)] by simp
qed

section \<open>Witnesses\<close>

definition GrantTables_default :: GrantTables where
  "GrantTables_default = \<lparr>realms = [], realm_by_slug = [], users = [], users_by_username = [],
     users_by_email = [], password_hashes = [], clients = [], clients_by_client_id = [],
     client_secret_hashes = [], sessions = [], codes = [], refresh_tokens = [], families = [],
     par_requests = [], device_by_device_code = [], device_by_user_code = [], flow_states = [],
     consent_grants = [], auth_flows = []\<rparr>"

definition sample_code :: CodeGrant where
  "sample_code = \<lparr>CodeGrant_code = CodeId ''c'', CodeGrant_realm_id = RealmId 1,
     CodeGrant_client_id = ClientId 1, CodeGrant_user_id = UserId 1, CodeGrant_session_id = SessionId ''s'',
     CodeGrant_scope = [], CodeGrant_redirect_uri = ''https://app.example/cb'',
     CodeGrant_code_challenge = None, CodeGrant_nonce = None, CodeGrant_state = None, CodeGrant_amr = [],
     CodeGrant_acr = None, CodeGrant_auth_time = 0, CodeGrant_created_at = 0,
     CodeGrant_expires_at = 60000000000\<rparr>"

definition sample_refresh :: RefreshToken where
  "sample_refresh = \<lparr>RefreshToken_id = RefreshTokenId ''r'', RefreshToken_family_id = TokenFamilyId 1,
     RefreshToken_realm_id = RealmId 1, RefreshToken_client_id = ClientId 1, RefreshToken_user_id = UserId 1,
     RefreshToken_session_id = SessionId ''s'', RefreshToken_scope = [], RefreshToken_issued_at = 0,
     RefreshToken_expires_at = 100, RefreshToken_used = False\<rparr>"

theorem authorization_code_single_use_witness:
  "code_store.consumed (CodeId ''c'')
     [Shot_Save sample_code, Shot_Consume (CodeId ''c''),
      Shot_Other (\<lambda>t. snd (save_refresh_token sample_refresh t)), Shot_Consume (CodeId ''c'')] GrantTables_default \<le> 1"
proof -
  let ?ops = "[Shot_Save sample_code, Shot_Consume (CodeId ''c''),
      Shot_Other (\<lambda>t. snd (save_refresh_token sample_refresh t)), Shot_Consume (CodeId ''c'')]
      :: (CodeId, CodeGrant, GrantTables) shot list"
  have "\<forall>f. Shot_Other f \<in> set ?ops \<longrightarrow> (\<forall>t. map_of (codes (f t)) = map_of (codes t))"
    by (simp add: save_refresh_token_def Let_def)
  note single = conjunct1 [OF authorization_code_single_use [OF this, of "CodeId ''c''" GrantTables_default]]
  have "code_store.saved (CodeId ''c'') ?ops = 1" by (simp add: sample_code_def)
  moreover have "map_of (codes GrantTables_default) (CodeId ''c'') = None"
    by (simp add: GrantTables_default_def)
  ultimately show ?thesis using single by simp
qed

theorem token_family_revocation_witness:
  "families_ok (snd (save_refresh_token sample_refresh GrantTables_default)) \<and>
   map_of (refresh_tokens (snd (revoke_token_family (TokenFamilyId 1)
     (snd (save_refresh_token sample_refresh GrantTables_default))))) (RefreshTokenId ''r'') = None"
proof -
  have "families_ok GrantTables_default" by (simp add: families_ok_def GrantTables_default_def)
  from token_family_revocation [OF this]
  have ok: "families_ok (snd (save_refresh_token sample_refresh GrantTables_default))" by blast
  have fam: "RefreshToken_family_id tk = TokenFamilyId 1"
    if "map_of (refresh_tokens (snd (revoke_token_family (TokenFamilyId 1)
     (snd (save_refresh_token sample_refresh GrantTables_default))))) (RefreshTokenId ''r'') = Some tk" for tk
    using that by (simp add: revoke_token_family_def save_refresh_token_def Let_def sample_refresh_def
        GrantTables_default_def get_fold_hm_remove)
  with token_family_revocation [OF ok] ok show ?thesis by (metis option.exhaust)
qed

theorem seed_default_flows_correct_witness:
  "\<exists>n t'. seed_default_flows (\<lambda>r. []) FlowId sample_ids (RealmId 1) GrantTables_default = (Inr n, t') \<and>
     (\<exists>f. get_auth_flow_by_alias (RealmId 1) ''browser'' t' = Inr f) \<and>
     seed_default_flows (\<lambda>r. []) FlowId sample_ids (RealmId 1) t' = (Inr 0, t')"
proof -
  have i: "inj FlowId" by (simp add: inj_def)
  have f: "\<forall>k. map_of (auth_flows GrantTables_default) (RealmId 1, FlowId k) = None"
    by (simp add: GrantTables_default_def)
  have br: "''browser'' \<in> set builtin_aliases" by (simp add: builtin_aliases_def alias_BROWSER_def)
  obtain n t' where "seed_default_flows (\<lambda>r. []) FlowId sample_ids (RealmId 1) GrantTables_default = (Inr n, t')"
    "\<forall>a\<in>set builtin_aliases. \<exists>f. get_auth_flow_by_alias (RealmId 1) a t' = Inr f"
    "seed_default_flows (\<lambda>r. []) FlowId sample_ids (RealmId 1) t' = (Inr 0, t')"
    using seed_default_flows_correct [OF i f, of "\<lambda>r. []" sample_ids FlowId sample_ids]
    by (elim exE conjE)
  with br show ?thesis by fast
qed

definition sample_flow_store :: GrantTables where
  "sample_flow_store = snd (save_auth_flow (\<lambda>r. []) sample_direct_grant GrantTables_default)"

theorem list_auth_flows_latest_witness:
  "list_auth_flows (RealmId 0) sample_flow_store = Inr [sample_direct_grant] \<and>
   get_auth_flow_by_alias (RealmId 0) alias_DIRECT_GRANT sample_flow_store = Inr sample_direct_grant"
proof -
  have store: "hm_values (auth_flows sample_flow_store) = [sample_direct_grant]"
    by (simp add: sample_flow_store_def save_auth_flow_def GrantTables_default_def hm_values_def hm_insert_def)
  have d: "FlowDefinition_realm_id sample_direct_grant = RealmId 0"
    "FlowDefinition_alias sample_direct_grant = alias_DIRECT_GRANT"
    by (simp_all add: sample_direct_grant_def direct_grant_def mk_flow_def Let_def)
  have l: "list_auth_flows (RealmId 0) sample_flow_store = Inr [sample_direct_grant]"
    by (simp add: list_auth_flows_def store d latest_step_def)
  have "versions_unique sample_flow_store" by (simp add: versions_unique_def store)
  from list_auth_flows_latest [OF this l, of sample_direct_grant alias_DIRECT_GRANT] l d
  show ?thesis by simp
qed

end
