(* ===== verification/Store_Access.thy ===== *)
theory Store_Access
  imports Store_Grants
begin

text \<open>
  Roles, groups, their assignments, the user-profile schemas and agents of the in-memory store
  (\<^verbatim>\<open>crates/geonosis-storage/src/memory.rs\<close>). The main invariant is referential integrity: an
  assignment names only roles and groups that exist in its realm, each once, through every
  operation of the group, the cascading deletions included.
\<close>

record AccessTables = GrantTables +
  roles :: "(RealmId \<times> RoleId, Role) hash_map"
  user_roles :: "(RealmId \<times> UserId, RoleId list) hash_map"
  groups :: "(RealmId \<times> GroupId, Group) hash_map"
  user_groups :: "(RealmId \<times> UserId, GroupId list) hash_map"
  group_roles :: "(RealmId \<times> GroupId, RoleId list) hash_map"
  user_profile_schemas :: "(RealmId, UserProfile) hash_map"
  agents :: "(RealmId \<times> AgentId, Agent) hash_map"

section \<open>Roles\<close>

definition create_role :: "Role \<Rightarrow> (unit, 'a AccessTables_scheme) store_op" where [store_defs]:
  "create_role role t =
     (let key = (Role_realm_id role, Role_id role) in
      if hm_contains_key (roles t) key then (Inl (StorageError_Conflict ''role exists''), t)
      else if list_ex (\<lambda>r. Role_realm_id r = Role_realm_id role \<and> Role_client_id r = Role_client_id role \<and>
                           Role_name r = Role_name role) (hm_values (roles t))
      then (Inl (StorageError_Conflict ''role name taken''), t)
      else (Inr (), t\<lparr>roles := hm_insert key role (roles t)\<rparr>))"

definition get_role :: "RealmId \<Rightarrow> RoleId \<Rightarrow> (Role, 'a AccessTables_scheme) store_read" where [store_defs]:
  "get_role realm i t = ok_or (map_of (roles t) (realm, i)) NotFound"

definition get_role_by_name ::
  "RealmId \<Rightarrow> ClientId option \<Rightarrow> string \<Rightarrow> (Role, 'a AccessTables_scheme) store_read" where [store_defs]:
  "get_role_by_name realm client_id name t =
     ok_or (find (\<lambda>r. Role_realm_id r = realm \<and> Role_client_id r = client_id \<and> Role_name r = name)
              (hm_values (roles t))) NotFound"

definition list_roles ::
  "RealmId \<Rightarrow> ClientId option \<Rightarrow> (Role list, 'a AccessTables_scheme) store_read" where [store_defs]:
  "list_roles realm client_id t =
     Inr (filter (\<lambda>r. Role_realm_id r = realm \<and> Role_client_id r = client_id) (hm_values (roles t)))"

definition update_role :: "Role \<Rightarrow> (unit, 'a AccessTables_scheme) store_op" where [store_defs]:
  "update_role role t =
     (let key = (Role_realm_id role, Role_id role) in
      if \<not> hm_contains_key (roles t) key then (Inl NotFound, t)
      else (Inr (), t\<lparr>roles := hm_insert key role (roles t)\<rparr>))"

definition delete_role :: "RealmId \<Rightarrow> RoleId \<Rightarrow> (unit, 'a AccessTables_scheme) store_op" where [store_defs]:
  "delete_role realm i t =
     (case map_of (roles t) (realm, i) of
        None \<Rightarrow> (Inl NotFound, t)
      | Some _ \<Rightarrow> (Inr (), t\<lparr>roles := hm_remove (realm, i) (roles t),
                              user_roles := hm_map_values (filter (\<lambda>r. r \<noteq> i)) (user_roles t),
                              group_roles := hm_map_values (filter (\<lambda>r. r \<noteq> i)) (group_roles t)\<rparr>))"

definition assign_user_role ::
  "RealmId \<Rightarrow> UserId \<Rightarrow> RoleId \<Rightarrow> (unit, 'a AccessTables_scheme) store_op" where [store_defs]:
  "assign_user_role realm user_id role_id t =
     (if \<not> hm_contains_key (roles t) (realm, role_id) then (Inl NotFound, t)
      else (Inr (), t\<lparr>user_roles := hm_insert (realm, user_id)
             (push_new role_id (unwrap_or (map_of (user_roles t) (realm, user_id)) [])) (user_roles t)\<rparr>))"

definition unassign_user_role ::
  "RealmId \<Rightarrow> UserId \<Rightarrow> RoleId \<Rightarrow> (unit, 'a AccessTables_scheme) store_op" where [store_defs]:
  "unassign_user_role realm user_id role_id t =
     (case map_of (user_roles t) (realm, user_id) of
        Some v \<Rightarrow> (Inr (), t\<lparr>user_roles :=
           hm_insert (realm, user_id) (filter (\<lambda>r. r \<noteq> role_id) v) (user_roles t)\<rparr>)
      | None \<Rightarrow> (Inr (), t))"

definition list_user_roles :: "RealmId \<Rightarrow> UserId \<Rightarrow> (Role list, 'a AccessTables_scheme) store_read" where [store_defs]:
  "list_user_roles realm user_id t =
     Inr (List.map_filter (\<lambda>i. map_of (roles t) (realm, i))
            (unwrap_or (map_of (user_roles t) (realm, user_id)) []))"

section \<open>Groups\<close>

definition create_group :: "Group \<Rightarrow> (unit, 'a AccessTables_scheme) store_op" where [store_defs]:
  "create_group grp t =
     (let key = (Group_realm_id grp, Group_id grp) in
      if hm_contains_key (groups t) key then (Inl (StorageError_Conflict ''group exists''), t)
      else if list_ex (\<lambda>g. Group_realm_id g = Group_realm_id grp \<and> Group_path g = Group_path grp)
                (hm_values (groups t))
      then (Inl (StorageError_Conflict ''group path taken''), t)
      else (Inr (), t\<lparr>groups := hm_insert key grp (groups t)\<rparr>))"

definition get_group :: "RealmId \<Rightarrow> GroupId \<Rightarrow> (Group, 'a AccessTables_scheme) store_read" where [store_defs]:
  "get_group realm i t = ok_or (map_of (groups t) (realm, i)) NotFound"

definition get_group_by_path :: "RealmId \<Rightarrow> string \<Rightarrow> (Group, 'a AccessTables_scheme) store_read" where [store_defs]:
  "get_group_by_path realm path t =
     ok_or (find (\<lambda>g. Group_realm_id g = realm \<and> Group_path g = path) (hm_values (groups t))) NotFound"

definition list_groups :: "RealmId \<Rightarrow> (Group list, 'a AccessTables_scheme) store_read" where [store_defs]:
  "list_groups realm t = Inr (filter (\<lambda>g. Group_realm_id g = realm) (hm_values (groups t)))"

definition update_group :: "Group \<Rightarrow> (unit, 'a AccessTables_scheme) store_op" where [store_defs]:
  "update_group grp t =
     (let key = (Group_realm_id grp, Group_id grp) in
      if \<not> hm_contains_key (groups t) key then (Inl NotFound, t)
      else (Inr (), t\<lparr>groups := hm_insert key grp (groups t)\<rparr>))"

definition delete_group :: "RealmId \<Rightarrow> GroupId \<Rightarrow> (unit, 'a AccessTables_scheme) store_op" where [store_defs]:
  "delete_group realm i t =
     (case map_of (groups t) (realm, i) of
        None \<Rightarrow> (Inl NotFound, t)
      | Some _ \<Rightarrow> (Inr (), t\<lparr>groups := hm_remove (realm, i) (groups t),
                              user_groups := hm_map_values (filter (\<lambda>g. g \<noteq> i)) (user_groups t),
                              group_roles := hm_remove (realm, i) (group_roles t)\<rparr>))"

definition assign_user_group ::
  "RealmId \<Rightarrow> UserId \<Rightarrow> GroupId \<Rightarrow> (unit, 'a AccessTables_scheme) store_op" where [store_defs]:
  "assign_user_group realm user_id group_id t =
     (if \<not> hm_contains_key (groups t) (realm, group_id) then (Inl NotFound, t)
      else (Inr (), t\<lparr>user_groups := hm_insert (realm, user_id)
             (push_new group_id (unwrap_or (map_of (user_groups t) (realm, user_id)) [])) (user_groups t)\<rparr>))"

definition unassign_user_group ::
  "RealmId \<Rightarrow> UserId \<Rightarrow> GroupId \<Rightarrow> (unit, 'a AccessTables_scheme) store_op" where [store_defs]:
  "unassign_user_group realm user_id group_id t =
     (case map_of (user_groups t) (realm, user_id) of
        Some v \<Rightarrow> (Inr (), t\<lparr>user_groups :=
           hm_insert (realm, user_id) (filter (\<lambda>g. g \<noteq> group_id) v) (user_groups t)\<rparr>)
      | None \<Rightarrow> (Inr (), t))"

definition list_user_groups :: "RealmId \<Rightarrow> UserId \<Rightarrow> (Group list, 'a AccessTables_scheme) store_read" where [store_defs]:
  "list_user_groups realm user_id t =
     Inr (List.map_filter (\<lambda>i. map_of (groups t) (realm, i))
            (unwrap_or (map_of (user_groups t) (realm, user_id)) []))"

definition assign_group_role ::
  "RealmId \<Rightarrow> GroupId \<Rightarrow> RoleId \<Rightarrow> (unit, 'a AccessTables_scheme) store_op" where [store_defs]:
  "assign_group_role realm group_id role_id t =
     (if \<not> hm_contains_key (groups t) (realm, group_id) then (Inl NotFound, t)
      else if \<not> hm_contains_key (roles t) (realm, role_id) then (Inl NotFound, t)
      else (Inr (), t\<lparr>group_roles := hm_insert (realm, group_id)
             (push_new role_id (unwrap_or (map_of (group_roles t) (realm, group_id)) [])) (group_roles t)\<rparr>))"

definition unassign_group_role ::
  "RealmId \<Rightarrow> GroupId \<Rightarrow> RoleId \<Rightarrow> (unit, 'a AccessTables_scheme) store_op" where [store_defs]:
  "unassign_group_role realm group_id role_id t =
     (case map_of (group_roles t) (realm, group_id) of
        Some v \<Rightarrow> (Inr (), t\<lparr>group_roles :=
           hm_insert (realm, group_id) (filter (\<lambda>r. r \<noteq> role_id) v) (group_roles t)\<rparr>)
      | None \<Rightarrow> (Inr (), t))"

definition list_group_roles :: "RealmId \<Rightarrow> GroupId \<Rightarrow> (Role list, 'a AccessTables_scheme) store_read" where [store_defs]:
  "list_group_roles realm group_id t =
     Inr (List.map_filter (\<lambda>i. map_of (roles t) (realm, i))
            (unwrap_or (map_of (group_roles t) (realm, group_id)) []))"

section \<open>User-profile schemas and agents\<close>

definition get_user_profile_schema ::
  "DateTime \<Rightarrow> RealmId \<Rightarrow> (UserProfile, 'a AccessTables_scheme) store_read" where [store_defs]:
  "get_user_profile_schema now realm t =
     Inr (unwrap_or (map_of (user_profile_schemas t) realm) (UserProfile_default_for now realm))"

definition save_user_profile_schema :: "UserProfile \<Rightarrow> (unit, 'a AccessTables_scheme) store_op" where [store_defs]:
  "save_user_profile_schema profile t =
     (Inr (), t\<lparr>user_profile_schemas :=
        hm_insert (UserProfile_realm_id profile) profile (user_profile_schemas t)\<rparr>)"

definition create_agent :: "Agent \<Rightarrow> (unit, 'a AccessTables_scheme) store_op" where [store_defs]:
  "create_agent agent t =
     (let key = (Agent_realm_id agent, Agent_id agent) in
      if hm_contains_key (agents t) key then (Inl (StorageError_Conflict ''agent exists''), t)
      else if list_ex (\<lambda>a. Agent_realm_id a = Agent_realm_id agent \<and> Agent_alias a = Agent_alias agent)
                (hm_values (agents t))
      then (Inl (StorageError_Conflict ''agent alias taken''), t)
      else (Inr (), t\<lparr>agents := hm_insert key agent (agents t)\<rparr>))"

definition get_agent :: "RealmId \<Rightarrow> AgentId \<Rightarrow> (Agent, 'a AccessTables_scheme) store_read" where [store_defs]:
  "get_agent realm i t = ok_or (map_of (agents t) (realm, i)) NotFound"

definition get_agent_by_alias :: "RealmId \<Rightarrow> string \<Rightarrow> (Agent, 'a AccessTables_scheme) store_read" where [store_defs]:
  "get_agent_by_alias realm alias t =
     ok_or (find (\<lambda>a. Agent_realm_id a = realm \<and> Agent_alias a = alias) (hm_values (agents t))) NotFound"

definition list_agents :: "RealmId \<Rightarrow> (Agent list, 'a AccessTables_scheme) store_read" where [store_defs]:
  "list_agents realm t = Inr (filter (\<lambda>a. Agent_realm_id a = realm) (hm_values (agents t)))"

definition update_agent :: "Agent \<Rightarrow> (unit, 'a AccessTables_scheme) store_op" where [store_defs]:
  "update_agent agent t =
     (let key = (Agent_realm_id agent, Agent_id agent) in
      if \<not> hm_contains_key (agents t) key then (Inl NotFound, t)
      else (Inr (), t\<lparr>agents := hm_insert key agent (agents t)\<rparr>))"

definition revoke_agent :: "DateTime \<Rightarrow> RealmId \<Rightarrow> AgentId \<Rightarrow> (unit, 'a AccessTables_scheme) store_op" where [store_defs]:
  "revoke_agent now realm i t =
     (case map_of (agents t) (realm, i) of
        None \<Rightarrow> (Inl NotFound, t)
      | Some agent \<Rightarrow> (Inr (), t\<lparr>agents := hm_insert (realm, i)
          (agent\<lparr>Agent_revoked_at := Some now, Agent_enabled := False\<rparr>) (agents t)\<rparr>))"

section \<open>The contract of an assignment table\<close>

text \<open>
  A table from subjects to lists of targets with guarded assignment. The lemmas give what every
  such table keeps: only valid targets, each once.
\<close>

locale assignment =
  fixes get :: "'t \<Rightarrow> 's \<Rightarrow> 'i list option"
    and valid :: "'t \<Rightarrow> 's \<Rightarrow> 'i \<Rightarrow> bool"
    and assign :: "'s \<Rightarrow> 'i \<Rightarrow> 't \<Rightarrow> (StorageError + unit) \<times> 't"
    and unassign :: "'s \<Rightarrow> 'i \<Rightarrow> 't \<Rightarrow> (StorageError + unit) \<times> 't"
  assumes assign_invalid: "\<not> valid t s i \<Longrightarrow> assign s i t = (Inl StorageError_NotFound, t)"
    and assign_valid: "valid t s i \<Longrightarrow> fst (assign s i t) = Inr () \<and>
      get (snd (assign s i t)) = (get t)(s \<mapsto> push_new i (unwrap_or (get t s) []))"
    and assign_keeps_valid: "valid (snd (assign s i t)) = valid t"
    and unassign_ok: "fst (unassign s i t) = Inr ()"
    and unassign_get: "get (snd (unassign s i t)) =
      (case get t s of None \<Rightarrow> get t | Some v \<Rightarrow> (get t)(s \<mapsto> filter (\<lambda>x. x \<noteq> i) v))"
    and unassign_keeps_valid: "valid (snd (unassign s i t)) = valid t"
begin

definition targets :: "'t \<Rightarrow> 's \<Rightarrow> 'i set" where
  "targets t s = set (unwrap_or (get t s) [])"

definition sound :: "'t \<Rightarrow> bool" where
  "sound t \<longleftrightarrow> (\<forall>s ids. get t s = Some ids \<longrightarrow> distinct ids \<and> (\<forall>i\<in>set ids. valid t s i))"

lemma sound_assign: "sound t \<Longrightarrow> sound (snd (assign s i t))"
proof (cases "valid t s i")
  case True
  assume s: "sound t"
  then have "distinct (unwrap_or (get t s) []) \<and> (\<forall>j\<in>set (unwrap_or (get t s) []). valid t s j)"
    by (cases "get t s") (auto simp: sound_def)
  with s True assign_valid [OF True] show ?thesis
    by (auto simp: sound_def assign_keeps_valid)
qed (simp add: assign_invalid)

lemma sound_unassign: "sound t \<Longrightarrow> sound (snd (unassign s i t))"
  by (cases "get t s") (auto simp: sound_def unassign_get unassign_keeps_valid)

lemma targets_assign:
  "targets (snd (assign s i t)) s' =
     (if valid t s i \<and> s' = s then insert i (targets t s) else targets t s')"
  by (cases "valid t s i") (simp_all add: targets_def assign_valid assign_invalid)

lemma targets_unassign:
  "targets (snd (unassign s i t)) s' = (if s' = s then targets t s - {i} else targets t s')"
  by (cases "get t s") (auto simp: targets_def unassign_get)

end

interpretation user_role: assignment
  "\<lambda>t. map_of (user_roles t)" "\<lambda>t s i. (fst s, i) \<in> dom (map_of (roles t))"
  "\<lambda>s i. assign_user_role (fst s) (snd s) i" "\<lambda>s i. unassign_user_role (fst s) (snd s) i"
  by unfold_locales
    (auto simp: assign_user_role_def unassign_user_role_def hm_contains_key_iff fun_eq_iff split: option.splits)

interpretation user_group: assignment
  "\<lambda>t. map_of (user_groups t)" "\<lambda>t s i. (fst s, i) \<in> dom (map_of (groups t))"
  "\<lambda>s i. assign_user_group (fst s) (snd s) i" "\<lambda>s i. unassign_user_group (fst s) (snd s) i"
  by unfold_locales
    (auto simp: assign_user_group_def unassign_user_group_def hm_contains_key_iff fun_eq_iff split: option.splits)

interpretation group_role: assignment
  "\<lambda>t. map_of (group_roles t)"
  "\<lambda>t s i. s \<in> dom (map_of (groups t)) \<and> (fst s, i) \<in> dom (map_of (roles t))"
  "\<lambda>s i. assign_group_role (fst s) (snd s) i" "\<lambda>s i. unassign_group_role (fst s) (snd s) i"
  by unfold_locales
    (auto simp: assign_group_role_def unassign_group_role_def hm_contains_key_iff fun_eq_iff split: option.splits)

section \<open>Referential integrity\<close>

definition access_ok :: "'a AccessTables_scheme \<Rightarrow> bool" where
  "access_ok t \<longleftrightarrow>
     (\<forall>realm u ids. map_of (user_roles t) (realm, u) = Some ids \<longrightarrow>
        distinct ids \<and> (\<forall>i\<in>set ids. map_of (roles t) (realm, i) \<noteq> None)) \<and>
     (\<forall>realm u ids. map_of (user_groups t) (realm, u) = Some ids \<longrightarrow>
        distinct ids \<and> (\<forall>i\<in>set ids. map_of (groups t) (realm, i) \<noteq> None)) \<and>
     (\<forall>realm g ids. map_of (group_roles t) (realm, g) = Some ids \<longrightarrow>
        distinct ids \<and> (\<forall>i\<in>set ids. map_of (groups t) (realm, g) \<noteq> None \<and>
          map_of (roles t) (realm, i) \<noteq> None))"

lemma access_ok_iff:
  "access_ok t \<longleftrightarrow> user_role.sound t \<and> user_group.sound t \<and> group_role.sound t"
  unfolding access_ok_def user_role.sound_def user_group.sound_def group_role.sound_def
  by (simp add: domIff)

text \<open>The operations that change roles, groups or assignments.\<close>

datatype AccessOp =
    Op_create_role Role | Op_update_role Role | Op_delete_role RealmId RoleId
  | Op_assign_user_role RealmId UserId RoleId | Op_unassign_user_role RealmId UserId RoleId
  | Op_create_group Group | Op_update_group Group | Op_delete_group RealmId GroupId
  | Op_assign_user_group RealmId UserId GroupId | Op_unassign_user_group RealmId UserId GroupId
  | Op_assign_group_role RealmId GroupId RoleId | Op_unassign_group_role RealmId GroupId RoleId

fun access_op :: "AccessOp \<Rightarrow> 'a AccessTables_scheme \<Rightarrow> 'a AccessTables_scheme" where
  "access_op (Op_create_role r) t = snd (create_role r t)"
| "access_op (Op_update_role r) t = snd (update_role r t)"
| "access_op (Op_delete_role realm i) t = snd (delete_role realm i t)"
| "access_op (Op_assign_user_role realm u i) t = snd (assign_user_role realm u i t)"
| "access_op (Op_unassign_user_role realm u i) t = snd (unassign_user_role realm u i t)"
| "access_op (Op_create_group g) t = snd (create_group g t)"
| "access_op (Op_update_group g) t = snd (update_group g t)"
| "access_op (Op_delete_group realm i) t = snd (delete_group realm i t)"
| "access_op (Op_assign_user_group realm u i) t = snd (assign_user_group realm u i t)"
| "access_op (Op_unassign_user_group realm u i) t = snd (unassign_user_group realm u i t)"
| "access_op (Op_assign_group_role realm g i) t = snd (assign_group_role realm g i t)"
| "access_op (Op_unassign_group_role realm g i) t = snd (unassign_group_role realm g i t)"

lemma access_ok_more_roles:
  "access_ok t \<Longrightarrow> access_ok (t\<lparr>roles := hm_insert k r (roles t)\<rparr>)"
  by (auto simp: access_ok_def)

lemma access_ok_more_groups:
  "access_ok t \<Longrightarrow> access_ok (t\<lparr>groups := hm_insert k g (groups t)\<rparr>)"
  by (auto simp: access_ok_def)

lemma access_ok_delete_role:
  assumes "access_ok t"
  shows "access_ok (snd (delete_role realm i t))"
proof (cases "map_of (roles t) (realm, i)")
  case (Some r)
  with assms show ?thesis
    by (auto simp: access_ok_def delete_role_def get_hm_map_values)
qed (use assms in \<open>simp add: delete_role_def\<close>)

lemma access_ok_delete_group:
  assumes "access_ok t"
  shows "access_ok (snd (delete_group realm i t))"
proof (cases "map_of (groups t) (realm, i)")
  case (Some g)
  with assms show ?thesis
    by (auto simp: access_ok_def delete_group_def get_hm_map_values)
qed (use assms in \<open>simp add: delete_group_def\<close>)

lemma access_ok_user_role:
  assumes "access_ok t"
  shows "access_ok (snd (assign_user_role realm u i t))" "access_ok (snd (unassign_user_role realm u i t))"
proof -
  have "groups (snd (assign_user_role realm u i t)) = groups t"
    "roles (snd (assign_user_role realm u i t)) = roles t"
    "user_groups (snd (assign_user_role realm u i t)) = user_groups t"
    "group_roles (snd (assign_user_role realm u i t)) = group_roles t"
    by (simp_all add: assign_user_role_def)
  then show "access_ok (snd (assign_user_role realm u i t))"
    using assms user_role.sound_assign [of t "(realm, u)" i]
    by (simp add: access_ok_iff user_group.sound_def group_role.sound_def)
  have "groups (snd (unassign_user_role realm u i t)) = groups t"
    "roles (snd (unassign_user_role realm u i t)) = roles t"
    "user_groups (snd (unassign_user_role realm u i t)) = user_groups t"
    "group_roles (snd (unassign_user_role realm u i t)) = group_roles t"
    by (simp_all add: unassign_user_role_def split: option.splits)
  then show "access_ok (snd (unassign_user_role realm u i t))"
    using assms user_role.sound_unassign [of t "(realm, u)" i]
    by (simp add: access_ok_iff user_group.sound_def group_role.sound_def)
qed

lemma access_ok_user_group:
  assumes "access_ok t"
  shows "access_ok (snd (assign_user_group realm u i t))" "access_ok (snd (unassign_user_group realm u i t))"
proof -
  have "groups (snd (assign_user_group realm u i t)) = groups t"
    "roles (snd (assign_user_group realm u i t)) = roles t"
    "user_roles (snd (assign_user_group realm u i t)) = user_roles t"
    "group_roles (snd (assign_user_group realm u i t)) = group_roles t"
    by (simp_all add: assign_user_group_def)
  then show "access_ok (snd (assign_user_group realm u i t))"
    using assms user_group.sound_assign [of t "(realm, u)" i]
    by (simp add: access_ok_iff user_role.sound_def group_role.sound_def)
  have "groups (snd (unassign_user_group realm u i t)) = groups t"
    "roles (snd (unassign_user_group realm u i t)) = roles t"
    "user_roles (snd (unassign_user_group realm u i t)) = user_roles t"
    "group_roles (snd (unassign_user_group realm u i t)) = group_roles t"
    by (simp_all add: unassign_user_group_def split: option.splits)
  then show "access_ok (snd (unassign_user_group realm u i t))"
    using assms user_group.sound_unassign [of t "(realm, u)" i]
    by (simp add: access_ok_iff user_role.sound_def group_role.sound_def)
qed

lemma access_ok_group_role:
  assumes "access_ok t"
  shows "access_ok (snd (assign_group_role realm g i t))" "access_ok (snd (unassign_group_role realm g i t))"
proof -
  have "groups (snd (assign_group_role realm g i t)) = groups t"
    "roles (snd (assign_group_role realm g i t)) = roles t"
    "user_roles (snd (assign_group_role realm g i t)) = user_roles t"
    "user_groups (snd (assign_group_role realm g i t)) = user_groups t"
    by (simp_all add: assign_group_role_def)
  then show "access_ok (snd (assign_group_role realm g i t))"
    using assms group_role.sound_assign [of t "(realm, g)" i]
    by (simp add: access_ok_iff user_role.sound_def user_group.sound_def)
  have "groups (snd (unassign_group_role realm g i t)) = groups t"
    "roles (snd (unassign_group_role realm g i t)) = roles t"
    "user_roles (snd (unassign_group_role realm g i t)) = user_roles t"
    "user_groups (snd (unassign_group_role realm g i t)) = user_groups t"
    by (simp_all add: unassign_group_role_def split: option.splits)
  then show "access_ok (snd (unassign_group_role realm g i t))"
    using assms group_role.sound_unassign [of t "(realm, g)" i]
    by (simp add: access_ok_iff user_role.sound_def user_group.sound_def)
qed

lemma access_ok_op: "access_ok t \<Longrightarrow> access_ok (access_op a t)"
  by (cases a)
    (simp_all add: access_ok_delete_role access_ok_delete_group access_ok_user_role access_ok_user_group
      access_ok_group_role create_role_def update_role_def create_group_def update_group_def Let_def
      access_ok_more_roles access_ok_more_groups)

lemma map_filter_all_Some:
  "\<forall>i\<in>set ids. f i \<noteq> None \<Longrightarrow> List.map_filter f ids = map (the \<circ> f) ids"
  by (simp add: List.map_filter_def filter_id_conv)

section \<open>Properties\<close>

text \<open>
  C28: Referential integrity of roles and groups. Starting from a store in which every assignment
  names existing roles and groups of its realm, each once, any sequence of the twelve operations
  that create, update, delete, assign and unassign them ends in such a store; in it the listing of
  a user's roles has one row per assigned role, so no assignment dangles.
\<close>

theorem access_integrity:
  assumes "access_ok t" and "t' = fold access_op ops t"
  shows "access_ok t' \<and>
    (\<forall>realm u. \<exists>rs. list_user_roles realm u t' = Inr rs \<and>
       map Some rs = map (\<lambda>i. map_of (roles t') (realm, i)) (unwrap_or (map_of (user_roles t') (realm, u)) []))"
proof -
  have ok: "access_ok (fold access_op ops t)"
    using assms(1) by (induction ops arbitrary: t) (simp_all add: access_ok_op)
  have "\<exists>rs. list_user_roles realm u t' = Inr rs \<and>
       map Some rs = map (\<lambda>i. map_of (roles t') (realm, i)) (unwrap_or (map_of (user_roles t') (realm, u)) [])"
    for realm u
  proof -
    have "\<forall>i\<in>set (unwrap_or (map_of (user_roles t') (realm, u)) []). map_of (roles t') (realm, i) \<noteq> None"
      using ok unfolding assms(2) access_ok_def
      by (cases "map_of (user_roles (fold access_op ops t)) (realm, u)") auto
    then show ?thesis by (auto simp: list_user_roles_def map_filter_all_Some comp_def)
  qed
  with ok assms(2) show ?thesis by blast
qed

text \<open>The witness creates a role, assigns it to a user, and deletes it again.\<close>

definition AccessTables_default :: AccessTables where
  "AccessTables_default = GrantTables.extend GrantTables_default (AccessTables.fields [] [] [] [] [] [] [])"

definition sample_role :: Role where
  "sample_role = \<lparr>Role_id = RoleId 1, Role_realm_id = RealmId 1, Role_client_id = None,
     Role_name = ''admin'', Role_description = None,
     Role_composites = \<lparr>CompositeRoles_realm_roles = [], CompositeRoles_client_roles = []\<rparr>,
     Role_attributes = [], Role_created_at = 0, Role_updated_at = 0\<rparr>"

theorem access_integrity_witness:
  "let t' = fold access_op [Op_create_role sample_role, Op_assign_user_role (RealmId 1) (UserId 1) (RoleId 1),
              Op_delete_role (RealmId 1) (RoleId 1)] AccessTables_default
   in access_ok t' \<and> list_user_roles (RealmId 1) (UserId 1) t' = Inr []"
proof -
  define t' where "t' = fold access_op [Op_create_role sample_role,
    Op_assign_user_role (RealmId 1) (UserId 1) (RoleId 1), Op_delete_role (RealmId 1) (RoleId 1)] AccessTables_default"
  have "access_ok AccessTables_default"
    by (simp add: access_ok_def AccessTables_default_def GrantTables.defs AccessTables.defs)
  note ok = access_integrity [OF this t'_def]
  have "map_of (user_roles t') (RealmId 1, UserId 1) = Some []"
    by (simp add: t'_def create_role_def assign_user_role_def delete_role_def sample_role_def push_new_def
        AccessTables_default_def GrantTables.defs AccessTables.defs hm_contains_key_def hm_values_def
        get_hm_map_values)
  moreover obtain rs where "list_user_roles (RealmId 1) (UserId 1) t' = Inr rs"
    "map Some rs = map (\<lambda>i. map_of (roles t') (RealmId 1, i)) (unwrap_or (map_of (user_roles t') (RealmId 1, UserId 1)) [])"
    using ok by blast
  ultimately show ?thesis using ok unfolding Let_def t'_def [symmetric] by simp
qed

end
