(* ===== verification/Store_Integration.thy ===== *)
theory Store_Integration
  imports Store_Access
begin

text \<open>
  External identity: identity providers, broker states and links
  (\<^verbatim>\<open>crates/geonosis-broker/src/types.rs\<close>), LDAP sources
  (\<^verbatim>\<open>crates/geonosis-federation-ldap/src/config.rs\<close>), WASM modules, SPI bindings and persistent
  SAML name ids, and their tables in the in-memory store (\<^verbatim>\<open>crates/geonosis-storage/src/memory.rs\<close>).
\<close>

section \<open>Rows\<close>

datatype SamlBinding = SamlBinding_HttpRedirect | SamlBinding_HttpPost | SamlBinding_Artifact

datatype NameIdFormat =
    NameIdFormat_Unspecified | NameIdFormat_EmailAddress | NameIdFormat_Persistent
  | NameIdFormat_Transient | NameIdFormat_X509SubjectName

datatype BrokerError =
    BrokerError_UnknownIdp string
  | BrokerError_StateMismatch
  | BrokerError_ExpiredState
  | BrokerError_NonceMismatch
  | BrokerError_InvalidAssertion string
  | BrokerError_Discovery string
  | BrokerError_TokenExchange string
  | BrokerError_Signature string
  | BrokerError_ClockSkew i64
  | BrokerError_Transport string

datatype IdpKind = IdpKind_Oidc | IdpKind_Saml

text \<open>The broker's own \<open>ClientAuthMethod\<close>, distinct from the one of \<open>client.rs\<close>.\<close>

datatype BrokerClientAuthMethod =
  BrokerClientAuthMethod_Basic | BrokerClientAuthMethod_Jwt | BrokerClientAuthMethod_None

record OidcIdpConfig =
  OidcIdpConfig_issuer :: string
  OidcIdpConfig_discovery_url :: "string option"
  OidcIdpConfig_authorization_endpoint :: "string option"
  OidcIdpConfig_token_endpoint :: "string option"
  OidcIdpConfig_userinfo_endpoint :: "string option"
  OidcIdpConfig_jwks_uri :: "string option"
  OidcIdpConfig_client_id :: string
  OidcIdpConfig_client_auth :: BrokerClientAuthMethod
  OidcIdpConfig_client_secret :: "string Secret option"
  OidcIdpConfig_client_assertion_key :: "KeyId option"
  OidcIdpConfig_scopes :: "string list"
  OidcIdpConfig_pkce :: bool
  OidcIdpConfig_accept_unsigned_userinfo :: bool
  OidcIdpConfig_prompt :: "string option"
  OidcIdpConfig_response_mode :: "string option"

record SamlIdpConfig =
  SamlIdpConfig_entity_id :: string
  SamlIdpConfig_sso_url :: string
  SamlIdpConfig_slo_url :: "string option"
  SamlIdpConfig_signing_cert_pems :: "string list"
  SamlIdpConfig_binding_outbound :: SamlBinding
  SamlIdpConfig_binding_inbound :: SamlBinding
  SamlIdpConfig_name_id_format :: NameIdFormat
  SamlIdpConfig_want_assertions_signed :: bool
  SamlIdpConfig_want_responses_signed :: bool

datatype IdpConfig = IdpConfig_Oidc OidcIdpConfig | IdpConfig_Saml SamlIdpConfig

record IdentityProvider =
  IdentityProvider_id :: IdpId
  IdentityProvider_realm_id :: RealmId
  IdentityProvider_alias :: string
  IdentityProvider_display_name :: string
  IdentityProvider_kind :: IdpKind
  IdentityProvider_config :: IdpConfig
  IdentityProvider_first_login_flow_alias :: string
  IdentityProvider_post_login_flow_alias :: "string option"
  IdentityProvider_link_only :: bool
  IdentityProvider_adapter_urn :: "string option"
  IdentityProvider_enabled :: bool

record BrokerAuthnState =
  BrokerAuthnState_id :: BrokerAuthnStateId
  BrokerAuthnState_realm_id :: RealmId
  BrokerAuthnState_idp_alias :: string
  BrokerAuthnState_state :: string
  BrokerAuthnState_nonce :: "string option"
  BrokerAuthnState_pkce_verifier :: "string Secret option"
  BrokerAuthnState_return_to_flow_state :: FlowStateId
  BrokerAuthnState_created_at :: DateTime
  BrokerAuthnState_expires_at :: DateTime

text \<open>The id, the clock reading and the two random tokens of \<open>new\<close> are arguments.\<close>

definition BrokerAuthnState_new ::
  "BrokerAuthnStateId \<Rightarrow> DateTime \<Rightarrow> string \<Rightarrow> string \<Rightarrow> RealmId \<Rightarrow> string \<Rightarrow> FlowStateId \<Rightarrow> BrokerAuthnState" where
  "BrokerAuthnState_new new_id now state_token nonce_token realm idp_alias flow = \<lparr>
     BrokerAuthnState_id = new_id, BrokerAuthnState_realm_id = realm,
     BrokerAuthnState_idp_alias = idp_alias, BrokerAuthnState_state = state_token,
     BrokerAuthnState_nonce = Some nonce_token, BrokerAuthnState_pkce_verifier = None,
     BrokerAuthnState_return_to_flow_state = flow, BrokerAuthnState_created_at = now,
     BrokerAuthnState_expires_at = now + int (secs (10 * 60))\<rparr>"

definition BrokerAuthnState_with_pkce :: "string \<Rightarrow> BrokerAuthnState \<Rightarrow> BrokerAuthnState" where
  "BrokerAuthnState_with_pkce verifier s = s\<lparr>BrokerAuthnState_pkce_verifier := Some (Secret verifier)\<rparr>"

definition BrokerAuthnState_assert_state :: "BrokerAuthnState \<Rightarrow> string \<Rightarrow> BrokerError + unit" where
  "BrokerAuthnState_assert_state s presented =
     (if presented = BrokerAuthnState_state s then Inr () else Inl BrokerError_StateMismatch)"

definition BrokerAuthnState_is_expired :: "BrokerAuthnState \<Rightarrow> DateTime \<Rightarrow> bool" where
  "BrokerAuthnState_is_expired s now = (now > BrokerAuthnState_expires_at s)"

record BrokerLink =
  BrokerLink_id :: BrokerLinkId
  BrokerLink_realm_id :: RealmId
  BrokerLink_user_id :: UserId
  BrokerLink_idp_alias :: string
  BrokerLink_external_id :: string
  BrokerLink_external_username :: "string option"
  BrokerLink_created_at :: DateTime
  BrokerLink_last_login_at :: "DateTime option"

datatype ReferralPolicy = ReferralPolicy_Follow | ReferralPolicy_Ignore | ReferralPolicy_Throw
datatype TlsPolicy = TlsPolicy_None | TlsPolicy_StartTls | TlsPolicy_Ldaps
datatype WritePolicy = WritePolicy_ReadOnly | WritePolicy_Writable
datatype SyncPolicy = SyncPolicy_OnDemand | SyncPolicy_Periodic u32 u32 string

record AttributeMap =
  AttributeMap_username :: string
  AttributeMap_email :: "string option"
  AttributeMap_first_name :: "string option"
  AttributeMap_last_name :: "string option"
  AttributeMap_uid :: string
  AttributeMap_user_account_control :: "string option"
  AttributeMap_extras :: "(string, string) btree_map"

record GroupSyncConfig =
  GroupSyncConfig_group_object_classes :: "string list"
  GroupSyncConfig_group_filter :: string
  GroupSyncConfig_membership_attribute :: string
  GroupSyncConfig_group_name_attribute :: string
  GroupSyncConfig_create_missing_groups :: bool

record LdapFederationConfig =
  LdapFederationConfig_id :: FederationId
  LdapFederationConfig_realm_id :: RealmId
  LdapFederationConfig_alias :: string
  LdapFederationConfig_urls :: "string list"
  LdapFederationConfig_bind_dn :: "string option"
  LdapFederationConfig_bind_password :: "string Secret option"
  LdapFederationConfig_base_dn :: string
  LdapFederationConfig_user_object_classes :: "string list"
  LdapFederationConfig_user_filter :: string
  LdapFederationConfig_page_size :: nat
  LdapFederationConfig_referrals :: ReferralPolicy
  LdapFederationConfig_tls :: TlsPolicy
  LdapFederationConfig_attribute_map :: AttributeMap
  LdapFederationConfig_write_policy :: WritePolicy
  LdapFederationConfig_sync_policy :: SyncPolicy
  LdapFederationConfig_group_sync :: "GroupSyncConfig option"
  LdapFederationConfig_priority :: i32
  LdapFederationConfig_bind_timeout_ms :: u64
  LdapFederationConfig_search_timeout_ms :: u64
  LdapFederationConfig_pool_size :: u32
  LdapFederationConfig_enabled :: bool

record WasmModule =
  WasmModule_id :: WasmModuleId
  WasmModule_realm_id :: RealmId
  WasmModule_alias :: string
  WasmModule_interface :: string
  WasmModule_sha256_hex :: string
  WasmModule_size_bytes :: i64
  WasmModule_bytecode :: "u8 list"
  WasmModule_uploaded_by :: "UserId option"
  WasmModule_created_at :: DateTime

record WasmModuleHeader =
  WasmModuleHeader_id :: WasmModuleId
  WasmModuleHeader_realm_id :: RealmId
  WasmModuleHeader_alias :: string
  WasmModuleHeader_interface :: string
  WasmModuleHeader_sha256_hex :: string
  WasmModuleHeader_size_bytes :: i64
  WasmModuleHeader_created_at :: DateTime

record SpiBindingRow =
  SpiBindingRow_id :: SpiBindingId
  SpiBindingRow_realm_id :: RealmId
  SpiBindingRow_interface :: string
  SpiBindingRow_provider_urn :: string
  SpiBindingRow_priority :: i32
  SpiBindingRow_enabled :: bool
  SpiBindingRow_config :: Value
  SpiBindingRow_replaces :: "string option"
  SpiBindingRow_created_at :: DateTime
  SpiBindingRow_updated_at :: DateTime

record SamlPersistentIdRow =
  SamlPersistentIdRow_realm_id :: RealmId
  SamlPersistentIdRow_user_id :: UserId
  SamlPersistentIdRow_sp_entity_id :: string
  SamlPersistentIdRow_name_id :: string
  SamlPersistentIdRow_created_at :: DateTime

record IntegrationTables = AccessTables +
  idps :: "(RealmId \<times> string, IdentityProvider) hash_map"
  broker_states :: "(RealmId \<times> string, BrokerAuthnState) hash_map"
  broker_links :: "(RealmId \<times> string \<times> string, BrokerLink) hash_map"
  ldap_sources :: "(RealmId \<times> string, LdapFederationConfig) hash_map"
  wasm_modules :: "(RealmId \<times> string, WasmModule) hash_map"
  spi_bindings :: "(RealmId \<times> SpiBindingId, SpiBindingRow) hash_map"
  saml_persistent_ids :: "(RealmId \<times> UserId \<times> string, SamlPersistentIdRow) hash_map"

definition IntegrationTables_default :: IntegrationTables where
  "IntegrationTables_default = AccessTables.extend AccessTables_default
     (IntegrationTables.fields [] [] [] [] [] [] [])"

section \<open>Identity providers and the broker\<close>

definition create_idp :: "IdentityProvider \<Rightarrow> (unit, 'a IntegrationTables_scheme) store_op" where [store_defs]:
  "create_idp idp t =
     (let key = (IdentityProvider_realm_id idp, IdentityProvider_alias idp) in
      if hm_contains_key (idps t) key
      then (Inl (StorageError_Conflict (''idp alias '' @ IdentityProvider_alias idp @ '' taken'')), t)
      else (Inr (), t\<lparr>idps := hm_insert key idp (idps t)\<rparr>))"

definition get_idp_by_alias ::
  "RealmId \<Rightarrow> string \<Rightarrow> (IdentityProvider, 'a IntegrationTables_scheme) store_read" where [store_defs]:
  "get_idp_by_alias realm alias t = ok_or (map_of (idps t) (realm, alias)) NotFound"

definition list_idps :: "RealmId \<Rightarrow> (IdentityProvider list, 'a IntegrationTables_scheme) store_read" where [store_defs]:
  "list_idps realm t = Inr (map snd (filter (\<lambda>((r, _), _). r = realm) (idps t)))"

definition delete_idp :: "RealmId \<Rightarrow> string \<Rightarrow> (unit, 'a IntegrationTables_scheme) store_op" where [store_defs]:
  "delete_idp realm alias t =
     (case map_of (idps t) (realm, alias) of
        None \<Rightarrow> (Inl NotFound, t)
      | Some _ \<Rightarrow> (Inr (), t\<lparr>idps := hm_remove (realm, alias) (idps t)\<rparr>))"

definition save_broker_state :: "BrokerAuthnState \<Rightarrow> (unit, 'a IntegrationTables_scheme) store_op" where [store_defs]:
  "save_broker_state state t =
     (Inr (), t\<lparr>broker_states := hm_insert (BrokerAuthnState_realm_id state, BrokerAuthnState_state state)
                  state (broker_states t)\<rparr>)"

definition consume_broker_state ::
  "RealmId \<Rightarrow> string \<Rightarrow> (BrokerAuthnState, 'a IntegrationTables_scheme) store_op" where [store_defs]:
  "consume_broker_state realm state t =
     (ok_or (map_of (broker_states t) (realm, state)) NotFound,
      t\<lparr>broker_states := hm_remove (realm, state) (broker_states t)\<rparr>)"

definition upsert_broker_link :: "BrokerLink \<Rightarrow> (unit, 'a IntegrationTables_scheme) store_op" where [store_defs]:
  "upsert_broker_link link t =
     (Inr (), t\<lparr>broker_links := hm_insert
        (BrokerLink_realm_id link, BrokerLink_idp_alias link, BrokerLink_external_id link) link (broker_links t)\<rparr>)"

definition find_broker_link ::
  "RealmId \<Rightarrow> string \<Rightarrow> string \<Rightarrow> (BrokerLink option, 'a IntegrationTables_scheme) store_read" where [store_defs]:
  "find_broker_link realm idp_alias external_id t = Inr (map_of (broker_links t) (realm, idp_alias, external_id))"

definition list_broker_links ::
  "RealmId \<Rightarrow> UserId \<Rightarrow> (BrokerLink list, 'a IntegrationTables_scheme) store_read" where [store_defs]:
  "list_broker_links realm user_id t =
     Inr (map snd (filter (\<lambda>((r, _, _), v). r = realm \<and> BrokerLink_user_id v = user_id) (broker_links t)))"

section \<open>LDAP sources, WASM modules, SPI bindings\<close>

definition upsert_ldap_source :: "LdapFederationConfig \<Rightarrow> (unit, 'a IntegrationTables_scheme) store_op" where [store_defs]:
  "upsert_ldap_source source t =
     (Inr (), t\<lparr>ldap_sources := hm_insert (LdapFederationConfig_realm_id source, LdapFederationConfig_alias source)
                  source (ldap_sources t)\<rparr>)"

definition get_ldap_source ::
  "RealmId \<Rightarrow> string \<Rightarrow> (LdapFederationConfig, 'a IntegrationTables_scheme) store_read" where [store_defs]:
  "get_ldap_source realm alias t = ok_or (map_of (ldap_sources t) (realm, alias)) NotFound"

definition list_ldap_sources ::
  "RealmId \<Rightarrow> (LdapFederationConfig list, 'a IntegrationTables_scheme) store_read" where [store_defs]:
  "list_ldap_sources realm t = Inr (map snd (filter (\<lambda>((r, _), _). r = realm) (ldap_sources t)))"

definition delete_ldap_source :: "RealmId \<Rightarrow> string \<Rightarrow> (unit, 'a IntegrationTables_scheme) store_op" where [store_defs]:
  "delete_ldap_source realm alias t =
     (case map_of (ldap_sources t) (realm, alias) of
        None \<Rightarrow> (Inl NotFound, t)
      | Some _ \<Rightarrow> (Inr (), t\<lparr>ldap_sources := hm_remove (realm, alias) (ldap_sources t)\<rparr>))"

definition upload_wasm_module :: "WasmModule \<Rightarrow> (unit, 'a IntegrationTables_scheme) store_op" where [store_defs]:
  "upload_wasm_module m t =
     (Inr (), t\<lparr>wasm_modules := hm_insert (WasmModule_realm_id m, WasmModule_alias m) m (wasm_modules t)\<rparr>)"

definition get_wasm_module ::
  "RealmId \<Rightarrow> string \<Rightarrow> (WasmModule, 'a IntegrationTables_scheme) store_read" where [store_defs]:
  "get_wasm_module realm alias t = ok_or (map_of (wasm_modules t) (realm, alias)) NotFound"

definition wasm_header :: "WasmModule \<Rightarrow> WasmModuleHeader" where
  "wasm_header m = \<lparr>WasmModuleHeader_id = WasmModule_id m, WasmModuleHeader_realm_id = WasmModule_realm_id m,
     WasmModuleHeader_alias = WasmModule_alias m, WasmModuleHeader_interface = WasmModule_interface m,
     WasmModuleHeader_sha256_hex = WasmModule_sha256_hex m, WasmModuleHeader_size_bytes = WasmModule_size_bytes m,
     WasmModuleHeader_created_at = WasmModule_created_at m\<rparr>"

definition list_wasm_modules ::
  "RealmId \<Rightarrow> (WasmModuleHeader list, 'a IntegrationTables_scheme) store_read" where [store_defs]:
  "list_wasm_modules realm t =
     Inr (map (wasm_header \<circ> snd) (filter (\<lambda>((r, _), _). r = realm) (wasm_modules t)))"

definition delete_wasm_module :: "RealmId \<Rightarrow> string \<Rightarrow> (unit, 'a IntegrationTables_scheme) store_op" where [store_defs]:
  "delete_wasm_module realm alias t =
     (case map_of (wasm_modules t) (realm, alias) of
        None \<Rightarrow> (Inl NotFound, t)
      | Some _ \<Rightarrow> (Inr (), t\<lparr>wasm_modules := hm_remove (realm, alias) (wasm_modules t)\<rparr>))"

definition create_spi_binding :: "SpiBindingRow \<Rightarrow> (unit, 'a IntegrationTables_scheme) store_op" where [store_defs]:
  "create_spi_binding b t =
     (Inr (), t\<lparr>spi_bindings := hm_insert (SpiBindingRow_realm_id b, SpiBindingRow_id b) b (spi_bindings t)\<rparr>)"

definition list_spi_bindings ::
  "RealmId \<Rightarrow> string \<Rightarrow> (SpiBindingRow list, 'a IntegrationTables_scheme) store_read" where [store_defs]:
  "list_spi_bindings realm interface t =
     Inr (map snd (filter (\<lambda>((r, _), v). r = realm \<and> SpiBindingRow_interface v = interface) (spi_bindings t)))"

definition update_spi_binding :: "SpiBindingRow \<Rightarrow> (unit, 'a IntegrationTables_scheme) store_op" where [store_defs]:
  "update_spi_binding b t =
     (if \<not> hm_contains_key (spi_bindings t) (SpiBindingRow_realm_id b, SpiBindingRow_id b) then (Inl NotFound, t)
      else (Inr (), t\<lparr>spi_bindings := hm_insert (SpiBindingRow_realm_id b, SpiBindingRow_id b) b (spi_bindings t)\<rparr>))"

definition delete_spi_binding ::
  "RealmId \<Rightarrow> SpiBindingId \<Rightarrow> (unit, 'a IntegrationTables_scheme) store_op" where [store_defs]:
  "delete_spi_binding realm binding_id t =
     (case map_of (spi_bindings t) (realm, binding_id) of
        None \<Rightarrow> (Inl NotFound, t)
      | Some _ \<Rightarrow> (Inr (), t\<lparr>spi_bindings := hm_remove (realm, binding_id) (spi_bindings t)\<rparr>))"

section \<open>Persistent SAML name ids\<close>

definition get_saml_persistent_id ::
  "RealmId \<Rightarrow> UserId \<Rightarrow> string \<Rightarrow> (SamlPersistentIdRow option, 'a IntegrationTables_scheme) store_read" where [store_defs]:
  "get_saml_persistent_id realm user_id sp_entity_id t =
     Inr (map_of (saml_persistent_ids t) (realm, user_id, sp_entity_id))"

definition save_saml_persistent_id :: "SamlPersistentIdRow \<Rightarrow> (unit, 'a IntegrationTables_scheme) store_op" where [store_defs]:
  "save_saml_persistent_id row t =
     (let key = (SamlPersistentIdRow_realm_id row, SamlPersistentIdRow_user_id row, SamlPersistentIdRow_sp_entity_id row) in
      (Inr (), if hm_contains_key (saml_persistent_ids t) key then t
               else t\<lparr>saml_persistent_ids := hm_insert key row (saml_persistent_ids t)\<rparr>))"

interpretation broker_store: single_use
  "\<lambda>t. map_of (broker_states t)" "\<lambda>s. (BrokerAuthnState_realm_id s, BrokerAuthnState_state s)"
  save_broker_state "\<lambda>(realm, state). consume_broker_state realm state"
  by unfold_locales (auto simp: save_broker_state_def consume_broker_state_def split: option.splits)

section \<open>LDAP filters\<close>

definition hex2 :: "char \<Rightarrow> string" where
  "hex2 c = (let n = of_char c :: nat in [CHR 0x5C, hex_digit (n div 16), hex_digit (n mod 16)])"

text \<open>
  One byte of \<open>escape_filter\<close>: \<open>*\<close>, the parentheses, the backslash, NUL and every byte outside
  ASCII become a backslash and two hexadecimal digits.
\<close>

definition escape_byte :: "char \<Rightarrow> string" where
  "escape_byte c =
     (if c = CHR ''*'' then [CHR 0x5C, CHR ''2'', CHR ''a'']
      else if c = CHR ''('' then [CHR 0x5C, CHR ''2'', CHR ''8'']
      else if c = CHR '')'' then [CHR 0x5C, CHR ''2'', CHR ''9'']
      else if c = CHR 0x5C then [CHR 0x5C, CHR ''5'', CHR ''c'']
      else if c = CHR 0x00 then [CHR 0x5C, CHR ''0'', CHR ''0'']
      else if (of_char c :: nat) < 128 then [c]
      else hex2 c)"

definition escape_filter :: "string \<Rightarrow> string" where
  "escape_filter input = concat (map escape_byte input)"

text \<open>\<open>str::replace\<close> for a non-empty pattern: every non-overlapping occurrence, left to right.\<close>

function str_replace :: "string \<Rightarrow> string \<Rightarrow> string \<Rightarrow> string" where
  "str_replace pat new s =
     (if pat = [] \<or> s = [] then s
      else if starts_with s pat then new @ str_replace pat new (drop (length pat) s)
      else hd s # str_replace pat new (tl s))"
  by pat_completeness auto
termination
  by (relation "measure (\<lambda>(pat, new, s). length s)") auto

declare str_replace.simps [simp del]

definition render_user_filter :: "LdapFederationConfig \<Rightarrow> string \<Rightarrow> string" where
  "render_user_filter cfg username =
     str_replace ''{username}'' (escape_filter username) (LdapFederationConfig_user_filter cfg)"

definition AttributeMap_request_attrs :: "AttributeMap \<Rightarrow> string list" where
  "AttributeMap_request_attrs m =
     remdups_adj (sort ([AttributeMap_uid m, AttributeMap_username m] @
       List.map_filter id [AttributeMap_email m, AttributeMap_first_name m, AttributeMap_last_name m] @
       List.map_filter id [AttributeMap_user_account_control m] @
       map snd (AttributeMap_extras m)))"

definition provider_urn :: "string \<Rightarrow> string" where
  "provider_urn alias = ''builtin:user-storage:ldap:'' @ alias"

section \<open>What an LDAP server reads back\<close>

text \<open>
  The assertion value of RFC 4515: \<open>value_decode\<close> reads a backslash and two hexadecimal digits as
  one byte and refuses the characters that have a meaning in a filter.
\<close>

definition hex_value :: "char \<Rightarrow> nat option" where
  "hex_value c = (let n = of_char c :: nat in
     if 48 \<le> n \<and> n \<le> 57 then Some (n - 48)
     else if 97 \<le> n \<and> n \<le> 102 then Some (n - 87)
     else None)"

fun value_decode :: "string \<Rightarrow> string option" where
  "value_decode [] = Some []"
| "value_decode (c # s) =
     (if c = CHR 0x5C then
        (case s of
           a # b # r \<Rightarrow>
             (case (hex_value a, hex_value b) of
                (Some x, Some y) \<Rightarrow> map_option ((#) (char_of (16 * x + y))) (value_decode r)
              | _ \<Rightarrow> None)
         | _ \<Rightarrow> None)
      else if c \<in> {CHR ''('', CHR '')'', CHR ''*'', CHR 0x00} then None
      else map_option ((#) c) (value_decode s))"

lemma hex_value_digit: "n < 16 \<Longrightarrow> hex_value (hex_digit n) = Some n"
  by (auto simp: hex_value_def hex_digit_def Let_def)

lemma decode_hex2: "value_decode (hex2 c @ r) = map_option ((#) c) (value_decode r)"
proof -
  have n: "(of_char c :: nat) < 256" by (cases c) (simp add: of_char_def)
  then have "hex_value (hex_digit (of_char c div 16)) = Some (of_char c div 16)"
    by (intro hex_value_digit) linarith
  moreover have "hex_value (hex_digit (of_char c mod 16)) = Some (of_char c mod 16)"
    by (intro hex_value_digit) simp
  ultimately show ?thesis by (simp add: hex2_def Let_def)
qed

lemma decode_escape_byte: "value_decode (escape_byte c @ r) = map_option ((#) c) (value_decode r)"
proof -
  have "hex_value CHR ''2'' = Some 2" "hex_value CHR ''8'' = Some 8" "hex_value CHR ''9'' = Some 9"
    "hex_value CHR ''a'' = Some 10" "hex_value CHR ''5'' = Some 5" "hex_value CHR ''c'' = Some 12"
    "hex_value CHR ''0'' = Some 0"
    by (simp_all add: hex_value_def)
  moreover have "char_of (42 :: nat) = CHR ''*''" "char_of (40 :: nat) = CHR ''(''"
    "char_of (41 :: nat) = CHR '')''" "char_of (92 :: nat) = CHR 0x5C"
    "char_of (0 :: nat) = CHR 0x00"
    by code_simp+
  ultimately show ?thesis
    by (auto simp: escape_byte_def decode_hex2)
qed

lemma decode_escape_filter: "value_decode (escape_filter s @ r) = map_option ((@) s) (value_decode r)"
proof (induction s)
  case Nil
  then show ?case by (cases "value_decode r") (simp_all add: escape_filter_def)
next
  case (Cons c s)
  then show ?case
    by (cases "value_decode r") (simp_all add: escape_filter_def decode_escape_byte)
qed

lemma hex_digit_plain: "n < 16 \<Longrightarrow> hex_digit n \<notin> {CHR ''('', CHR '')'', CHR ''*'', CHR 0x00}"
  using hex_value_digit [of n] by (auto simp: hex_value_def)

lemma escape_byte_plain: "set (escape_byte c) \<inter> {CHR ''('', CHR '')'', CHR ''*'', CHR 0x00} = {}"
proof -
  have "(of_char c :: nat) < 256" by (cases c) (simp add: of_char_def)
  then have "(of_char c :: nat) div 16 < 16" "(of_char c :: nat) mod 16 < 16"
    by linarith simp
  note hex_digit_plain [OF this(1)] hex_digit_plain [OF this(2)]
  then show ?thesis by (auto simp: escape_byte_def hex2_def Let_def)
qed

lemma saml_key_kept:
  "map_of (saml_persistent_ids t) k = Some r \<Longrightarrow>
     map_of (saml_persistent_ids (snd (save_saml_persistent_id row t))) k = Some r"
  by (auto simp: save_saml_persistent_id_def Let_def hm_contains_key_def)

lemma saml_key_saved:
  "map_of (saml_persistent_ids t) (realm, u, sp) = None \<Longrightarrow>
     map_of (saml_persistent_ids (snd (save_saml_persistent_id row t))) (realm, u, sp) =
     (if SamlPersistentIdRow_realm_id row = realm \<and> SamlPersistentIdRow_user_id row = u \<and>
         SamlPersistentIdRow_sp_entity_id row = sp then Some row else None)"
  by (auto simp: save_saml_persistent_id_def Let_def hm_contains_key_def)

section \<open>Properties\<close>

text \<open>
  LDAP filters cannot be injected into. Whatever bytes a username has, its escaped form holds
  none of the characters with a meaning in a filter (parentheses, the star, NUL), every backslash
  in it starts a two-digit escape, and a server that decodes the assertion value reads back exactly
  the username, also when more text follows.
\<close>

theorem escape_filter_safe:
  "set (escape_filter s) \<inter> {CHR ''('', CHR '')'', CHR ''*'', CHR 0x00} = {} \<and>
   value_decode (escape_filter s) = Some s \<and>
   value_decode (escape_filter s @ r) = map_option ((@) s) (value_decode r)"
proof -
  have "set (escape_filter s) \<inter> {CHR ''('', CHR '')'', CHR ''*'', CHR 0x00} = {}"
    using escape_byte_plain by (auto simp: escape_filter_def)
  then show ?thesis using decode_escape_filter [of s "[]"] decode_escape_filter [of s r] by simp
qed

text \<open>
  The persistent SAML name id of a user at a service provider never changes: after any sequence
  of saves, the stored row is the one that was there before the sequence, or else the first row of
  the sequence saved for that realm, user and provider.
\<close>

theorem saml_first_writer_wins:
  "get_saml_persistent_id realm u sp (fold (\<lambda>row t. snd (save_saml_persistent_id row t)) rows t) =
   Inr (case map_of (saml_persistent_ids t) (realm, u, sp) of
          Some row \<Rightarrow> Some row
        | None \<Rightarrow> find (\<lambda>row. (SamlPersistentIdRow_realm_id row, SamlPersistentIdRow_user_id row,
            SamlPersistentIdRow_sp_entity_id row) = (realm, u, sp)) rows)"
proof (induction rows arbitrary: t)
  case Nil
  then show ?case by (simp add: get_saml_persistent_id_def split: option.splits)
next
  case (Cons row rows)
  show ?case
  proof (cases "map_of (saml_persistent_ids t) (realm, u, sp)")
    case None
    then show ?thesis by (simp add: Cons.IH saml_key_saved)
  next
    case (Some r)
    then show ?thesis using saml_key_kept [OF Some, of row] by (simp add: Cons.IH)
  qed
qed

end
