(* ===== verification/Store_Orgs.thy ===== *)
theory Store_Orgs
  imports Store_Integration
begin

text \<open>
  Organizations with their domains, memberships, roles, invitations, consent policies and identity
  provider bindings in the in-memory store, \<^verbatim>\<open>crates/geonosis-storage/src/memory.rs\<close>. The record
  \<open>Tables\<close> completes the struct of that name: with the fields it inherits it has every table of the
  store, so every method of the storage trait runs on it.
\<close>

record OrgIdpBinding =
  OrgIdpBinding_organization_id :: OrganizationId
  OrgIdpBinding_realm_id :: RealmId
  OrgIdpBinding_idp_alias :: string
  OrgIdpBinding_priority :: i32
  OrgIdpBinding_enabled :: bool

record AuditEventFilter =
  AuditEventFilter_action :: "string option"
  AuditEventFilter_actor :: "string option"
  AuditEventFilter_from :: "DateTime option"
  AuditEventFilter_until :: "DateTime option"

record AuditEventRow =
  AuditEventRow_id :: string
  AuditEventRow_realm_id :: string
  AuditEventRow_occurred_at :: DateTime
  AuditEventRow_actor :: Value
  AuditEventRow_action :: string
  AuditEventRow_target :: "Value option"
  AuditEventRow_detail :: Value

record Tables = IntegrationTables +
  organizations :: "(RealmId \<times> OrganizationId, Organization) hash_map"
  org_by_alias :: "(RealmId \<times> string, OrganizationId) hash_map"
  org_domains :: "(OrganizationId \<times> string, OrgDomain) hash_map"
  org_memberships :: "(OrganizationId \<times> UserId, OrgMembership) hash_map"
  org_roles :: "(RealmId \<times> OrgRoleId, OrgRole) hash_map"
  org_invitations :: "(OrgInvitationId, OrgInvitation) hash_map"
  org_invitations_by_token :: "(string, OrgInvitationId) hash_map"
  org_consent_policies :: "(OrganizationId \<times> ClientId, OrgConsentPolicy) hash_map"
  org_idp_bindings :: "(OrganizationId \<times> string, OrgIdpBinding) hash_map"

definition ping :: "(unit, 'a Tables_scheme) store_read" where
  "ping t = Inr ()"

section \<open>Organizations\<close>

definition create_organization :: "Organization \<Rightarrow> (unit, 'a Tables_scheme) store_op" where [store_defs]:
  "create_organization org t =
     (if hm_contains_key (org_by_alias t) (Organization_realm_id org, Organization_alias org)
      then (Inl (StorageError_Conflict ''org alias taken''), t)
      else (Inr (), t\<lparr>org_by_alias :=
               hm_insert (Organization_realm_id org, Organization_alias org) (Organization_id org) (org_by_alias t),
             organizations :=
               hm_insert (Organization_realm_id org, Organization_id org) org (organizations t)\<rparr>))"

definition get_organization ::
  "RealmId \<Rightarrow> OrganizationId \<Rightarrow> (Organization, 'a Tables_scheme) store_read" where [store_defs]:
  "get_organization realm i t = ok_or (map_of (organizations t) (realm, i)) NotFound"

definition get_organization_by_alias ::
  "RealmId \<Rightarrow> string \<Rightarrow> (Organization, 'a Tables_scheme) store_read" where [store_defs]:
  "get_organization_by_alias realm alias t =
     (case map_of (org_by_alias t) (realm, alias) of
        None \<Rightarrow> Inl NotFound
      | Some i \<Rightarrow> ok_or (map_of (organizations t) (realm, i)) NotFound)"

definition list_organizations :: "RealmId \<Rightarrow> (Organization list, 'a Tables_scheme) store_read" where [store_defs]:
  "list_organizations realm t =
     Inr (filter (\<lambda>org. Organization_realm_id org = realm) (hm_values (organizations t)))"

definition update_organization :: "Organization \<Rightarrow> (unit, 'a Tables_scheme) store_op" where [store_defs]:
  "update_organization org t =
     (let realm = Organization_realm_id org; key = (realm, Organization_id org) in
      if \<not> hm_contains_key (organizations t) key then (Inl NotFound, t)
      else
        (let t1 = (case map_option Organization_alias (map_of (organizations t) key) of
                     Some a \<Rightarrow>
                       if a \<noteq> Organization_alias org then
                         t\<lparr>org_by_alias := hm_insert (realm, Organization_alias org) (Organization_id org)
                              (hm_remove (realm, a) (org_by_alias t))\<rparr>
                       else t
                   | None \<Rightarrow> t)
         in (Inr (), t1\<lparr>organizations := hm_insert key org (organizations t1)\<rparr>)))"

definition delete_organization ::
  "RealmId \<Rightarrow> OrganizationId \<Rightarrow> (unit, 'a Tables_scheme) store_op" where [store_defs]:
  "delete_organization realm i t =
     (case map_of (organizations t) (realm, i) of
        None \<Rightarrow> (Inl NotFound, t)
      | Some org \<Rightarrow> (Inr (), t\<lparr>
          organizations := hm_remove (realm, i) (organizations t),
          org_by_alias := hm_remove (realm, Organization_alias org) (org_by_alias t),
          org_domains := hm_retain (\<lambda>k _. fst k \<noteq> i) (org_domains t),
          org_memberships := hm_retain (\<lambda>k _. fst k \<noteq> i) (org_memberships t),
          org_consent_policies := hm_retain (\<lambda>k _. fst k \<noteq> i) (org_consent_policies t),
          org_idp_bindings := hm_retain (\<lambda>k _. fst k \<noteq> i) (org_idp_bindings t)\<rparr>))"

section \<open>Domains\<close>

definition upsert_org_domain :: "OrgDomain \<Rightarrow> (unit, 'a Tables_scheme) store_op" where [store_defs]:
  "upsert_org_domain d t =
     (Inr (), t\<lparr>org_domains := hm_insert (OrgDomain_organization_id d, OrgDomain_domain d) d (org_domains t)\<rparr>)"

definition list_org_domains ::
  "RealmId \<Rightarrow> OrganizationId \<Rightarrow> (OrgDomain list, 'a Tables_scheme) store_read" where [store_defs]:
  "list_org_domains realm organization_id t =
     Inr (filter (\<lambda>d. OrgDomain_organization_id d = organization_id \<and> OrgDomain_realm_id d = realm)
            (hm_values (org_domains t)))"

definition delete_org_domain ::
  "RealmId \<Rightarrow> OrganizationId \<Rightarrow> string \<Rightarrow> (unit, 'a Tables_scheme) store_op" where [store_defs]:
  "delete_org_domain realm organization_id domain t =
     (case map_of (org_domains t) (organization_id, domain) of
        None \<Rightarrow> (Inl NotFound, t)
      | Some _ \<Rightarrow> (Inr (), t\<lparr>org_domains := hm_remove (organization_id, domain) (org_domains t)\<rparr>))"

definition find_org_by_verified_domain ::
  "RealmId \<Rightarrow> string \<Rightarrow> (Organization option, 'a Tables_scheme) store_read" where [store_defs]:
  "find_org_by_verified_domain realm domain t =
     (case find (\<lambda>d. OrgDomain_realm_id d = realm \<and> OrgDomain_domain d = domain \<and> OrgDomain_verified d)
             (hm_values (org_domains t)) of
        None \<Rightarrow> Inr None
      | Some d \<Rightarrow> Inr (map_of (organizations t) (realm, OrgDomain_organization_id d)))"

section \<open>Memberships and roles\<close>

definition upsert_org_membership :: "OrgMembership \<Rightarrow> (unit, 'a Tables_scheme) store_op" where [store_defs]:
  "upsert_org_membership m t =
     (Inr (), t\<lparr>org_memberships :=
        hm_insert (OrgMembership_organization_id m, OrgMembership_user_id m) m (org_memberships t)\<rparr>)"

definition get_org_membership ::
  "RealmId \<Rightarrow> OrganizationId \<Rightarrow> UserId \<Rightarrow> (OrgMembership, 'a Tables_scheme) store_read" where [store_defs]:
  "get_org_membership realm organization_id user_id t =
     ok_or (map_of (org_memberships t) (organization_id, user_id)) NotFound"

definition list_org_memberships ::
  "RealmId \<Rightarrow> OrganizationId \<Rightarrow> (OrgMembership list, 'a Tables_scheme) store_read" where [store_defs]:
  "list_org_memberships realm organization_id t =
     Inr (filter (\<lambda>m. OrgMembership_organization_id m = organization_id) (hm_values (org_memberships t)))"

definition list_user_orgs ::
  "RealmId \<Rightarrow> UserId \<Rightarrow> (OrgMembership list, 'a Tables_scheme) store_read" where [store_defs]:
  "list_user_orgs realm user_id t =
     Inr (filter (\<lambda>m. OrgMembership_user_id m = user_id \<and> OrgMembership_realm_id m = realm)
            (hm_values (org_memberships t)))"

definition delete_org_membership ::
  "RealmId \<Rightarrow> OrganizationId \<Rightarrow> UserId \<Rightarrow> (unit, 'a Tables_scheme) store_op" where [store_defs]:
  "delete_org_membership realm organization_id user_id t =
     (case map_of (org_memberships t) (organization_id, user_id) of
        None \<Rightarrow> (Inl NotFound, t)
      | Some _ \<Rightarrow> (Inr (), t\<lparr>org_memberships := hm_remove (organization_id, user_id) (org_memberships t)\<rparr>))"

definition create_org_role :: "OrgRole \<Rightarrow> (unit, 'a Tables_scheme) store_op" where [store_defs]:
  "create_org_role role t =
     (let key = (OrgRole_realm_id role, OrgRole_id role) in
      if hm_contains_key (org_roles t) key then (Inl (StorageError_Conflict ''org role exists''), t)
      else (Inr (), t\<lparr>org_roles := hm_insert key role (org_roles t)\<rparr>))"

definition get_org_role :: "RealmId \<Rightarrow> OrgRoleId \<Rightarrow> (OrgRole, 'a Tables_scheme) store_read" where [store_defs]:
  "get_org_role realm i t = ok_or (map_of (org_roles t) (realm, i)) NotFound"

definition list_org_roles ::
  "RealmId \<Rightarrow> OrganizationId \<Rightarrow> (OrgRole list, 'a Tables_scheme) store_read" where [store_defs]:
  "list_org_roles realm organization_id t =
     Inr (filter (\<lambda>r. OrgRole_realm_id r = realm \<and> OrgRole_organization_id r = organization_id)
            (hm_values (org_roles t)))"

definition update_org_role :: "OrgRole \<Rightarrow> (unit, 'a Tables_scheme) store_op" where [store_defs]:
  "update_org_role role t =
     (let key = (OrgRole_realm_id role, OrgRole_id role) in
      if \<not> hm_contains_key (org_roles t) key then (Inl NotFound, t)
      else (Inr (), t\<lparr>org_roles := hm_insert key role (org_roles t)\<rparr>))"

definition delete_org_role :: "RealmId \<Rightarrow> OrgRoleId \<Rightarrow> (unit, 'a Tables_scheme) store_op" where [store_defs]:
  "delete_org_role realm i t =
     (case map_of (org_roles t) (realm, i) of
        None \<Rightarrow> (Inl NotFound, t)
      | Some _ \<Rightarrow> (Inr (), t\<lparr>org_roles := hm_remove (realm, i) (org_roles t)\<rparr>))"

section \<open>Invitations\<close>

definition create_org_invitation :: "OrgInvitation \<Rightarrow> (unit, 'a Tables_scheme) store_op" where [store_defs]:
  "create_org_invitation invitation t =
     (let token = expose (OrgInvitation_token invitation) in
      if hm_contains_key (org_invitations_by_token t) token
      then (Inl (StorageError_Conflict ''invitation token reuse''), t)
      else (Inr (), t\<lparr>
        org_invitations_by_token := hm_insert token (OrgInvitation_id invitation) (org_invitations_by_token t),
        org_invitations := hm_insert (OrgInvitation_id invitation) invitation (org_invitations t)\<rparr>))"

definition get_org_invitation_by_token ::
  "string \<Rightarrow> (OrgInvitation, 'a Tables_scheme) store_read" where [store_defs]:
  "get_org_invitation_by_token token t =
     (case map_of (org_invitations_by_token t) token of
        None \<Rightarrow> Inl NotFound
      | Some i \<Rightarrow> ok_or (map_of (org_invitations t) i) NotFound)"

definition list_org_invitations ::
  "RealmId \<Rightarrow> OrganizationId \<Rightarrow> (OrgInvitation list, 'a Tables_scheme) store_read" where [store_defs]:
  "list_org_invitations realm organization_id t =
     Inr (filter (\<lambda>i. OrgInvitation_realm_id i = realm \<and> OrgInvitation_organization_id i = organization_id)
            (hm_values (org_invitations t)))"

definition mark_org_invitation_accepted ::
  "DateTime \<Rightarrow> OrgInvitationId \<Rightarrow> (unit, 'a Tables_scheme) store_op" where [store_defs]:
  "mark_org_invitation_accepted now i t =
     (case map_of (org_invitations t) i of
        None \<Rightarrow> (Inl NotFound, t)
      | Some v \<Rightarrow> (Inr (), t\<lparr>org_invitations :=
          hm_insert i (v\<lparr>OrgInvitation_accepted_at := Some now\<rparr>) (org_invitations t)\<rparr>))"

definition delete_org_invitation :: "OrgInvitationId \<Rightarrow> (unit, 'a Tables_scheme) store_op" where [store_defs]:
  "delete_org_invitation i t =
     (case map_of (org_invitations t) i of
        None \<Rightarrow> (Inl NotFound, t)
      | Some v \<Rightarrow> (Inr (), t\<lparr>
          org_invitations := hm_remove i (org_invitations t),
          org_invitations_by_token := hm_remove (expose (OrgInvitation_token v)) (org_invitations_by_token t)\<rparr>))"

section \<open>Consent policies, identity provider bindings, audit events\<close>

definition upsert_org_consent_policy :: "OrgConsentPolicy \<Rightarrow> (unit, 'a Tables_scheme) store_op" where [store_defs]:
  "upsert_org_consent_policy p t =
     (Inr (), t\<lparr>org_consent_policies :=
        hm_insert (OrgConsentPolicy_organization_id p, OrgConsentPolicy_client_id p) p (org_consent_policies t)\<rparr>)"

definition get_org_consent_policy ::
  "RealmId \<Rightarrow> OrganizationId \<Rightarrow> ClientId \<Rightarrow> (OrgConsentPolicy option, 'a Tables_scheme) store_read" where [store_defs]:
  "get_org_consent_policy realm organization_id client_id t =
     Inr (map_of (org_consent_policies t) (organization_id, client_id))"

definition list_org_consent_policies ::
  "RealmId \<Rightarrow> OrganizationId \<Rightarrow> (OrgConsentPolicy list, 'a Tables_scheme) store_read" where [store_defs]:
  "list_org_consent_policies realm organization_id t =
     Inr (filter (\<lambda>p. OrgConsentPolicy_organization_id p = organization_id) (hm_values (org_consent_policies t)))"

definition delete_org_consent_policy ::
  "RealmId \<Rightarrow> OrganizationId \<Rightarrow> ClientId \<Rightarrow> (unit, 'a Tables_scheme) store_op" where [store_defs]:
  "delete_org_consent_policy realm organization_id client_id t =
     (case map_of (org_consent_policies t) (organization_id, client_id) of
        None \<Rightarrow> (Inl NotFound, t)
      | Some _ \<Rightarrow> (Inr (), t\<lparr>org_consent_policies :=
          hm_remove (organization_id, client_id) (org_consent_policies t)\<rparr>))"

definition upsert_org_idp_binding :: "OrgIdpBinding \<Rightarrow> (unit, 'a Tables_scheme) store_op" where [store_defs]:
  "upsert_org_idp_binding b t =
     (Inr (), t\<lparr>org_idp_bindings :=
        hm_insert (OrgIdpBinding_organization_id b, OrgIdpBinding_idp_alias b) b (org_idp_bindings t)\<rparr>)"

definition list_org_idp_bindings ::
  "RealmId \<Rightarrow> OrganizationId \<Rightarrow> (OrgIdpBinding list, 'a Tables_scheme) store_read" where [store_defs]:
  "list_org_idp_bindings realm organization_id t =
     Inr (filter (\<lambda>b. OrgIdpBinding_organization_id b = organization_id) (hm_values (org_idp_bindings t)))"

definition delete_org_idp_binding ::
  "RealmId \<Rightarrow> OrganizationId \<Rightarrow> string \<Rightarrow> (unit, 'a Tables_scheme) store_op" where [store_defs]:
  "delete_org_idp_binding realm organization_id idp_alias t =
     (case map_of (org_idp_bindings t) (organization_id, idp_alias) of
        None \<Rightarrow> (Inl NotFound, t)
      | Some _ \<Rightarrow> (Inr (), t\<lparr>org_idp_bindings := hm_remove (organization_id, idp_alias) (org_idp_bindings t)\<rparr>))"

definition list_audit_events ::
  "RealmId \<Rightarrow> AuditEventFilter \<Rightarrow> nat \<Rightarrow> (AuditEventRow list, 'a Tables_scheme) store_read" where
  "list_audit_events realm filt limit t = Inr []"

section \<open>The indexed tables of this group\<close>

interpretation org_index: indexed_table
  "\<lambda>t. map_of (organizations t)"
  "\<lambda>t i. map_option (Pair (fst i)) (map_of (org_by_alias t) i)"
  "\<lambda>org. (Organization_realm_id org, Organization_id org)"
  "\<lambda>org. (Organization_realm_id org, Organization_alias org)"
  create_organization "\<lambda>(realm, i). delete_organization realm i" "\<lambda>k org. (fst k, Organization_alias org)"
  by unfold_locales
    (auto simp: store_defs hm_contains_key_def fun_eq_iff Let_def split: option.splits)

interpretation invitation_index: indexed_table
  "\<lambda>t. map_of (org_invitations t)" "\<lambda>t. map_of (org_invitations_by_token t)"
  OrgInvitation_id "\<lambda>i. expose (OrgInvitation_token i)"
  create_org_invitation delete_org_invitation "\<lambda>k i. expose (OrgInvitation_token i)"
  by unfold_locales (auto simp: store_defs hm_contains_key_def Let_def)


section \<open>Rows are keyed by their own fields\<close>

definition keyed :: "('v \<Rightarrow> 'k) \<Rightarrow> ('k, 'v) hash_map \<Rightarrow> bool" where
  "keyed f m = list_all (\<lambda>e. fst e = f (snd e)) m"

lemma keyed_ops [simp]:
  "keyed f []"
  "keyed f m \<Longrightarrow> k = f v \<Longrightarrow> keyed f (hm_insert k v m)"
  "keyed f m \<Longrightarrow> keyed f (hm_remove k' m)"
  "keyed f m \<Longrightarrow> keyed f (hm_retain P m)"
  by (auto simp: keyed_def list_all_iff hm_insert_def hm_remove_def hm_retain_def)

lemma filter_hm_retain_org:
  assumes "keyed f m" and "\<And>v. fst (f v) = org v"
  shows "filter (\<lambda>v. org v = j \<and> P v) (hm_values (hm_retain (\<lambda>k _. fst k \<noteq> i) m)) =
    (if j = i then [] else filter (\<lambda>v. org v = j \<and> P v) (hm_values m))"
  using assms(1) by (induction m) (auto simp: keyed_def hm_values_def hm_retain_def simp flip: assms(2))

lemmas filter_hm_retain_only = filter_hm_retain_org [where P = "\<lambda>_. True", simplified]

definition org_rows_ok :: "'a Tables_scheme \<Rightarrow> bool" where
  "org_rows_ok t \<longleftrightarrow>
     keyed (\<lambda>d. (OrgDomain_organization_id d, OrgDomain_domain d)) (org_domains t) \<and>
     keyed (\<lambda>m. (OrgMembership_organization_id m, OrgMembership_user_id m)) (org_memberships t) \<and>
     keyed (\<lambda>p. (OrgConsentPolicy_organization_id p, OrgConsentPolicy_client_id p)) (org_consent_policies t) \<and>
     keyed (\<lambda>b. (OrgIdpBinding_organization_id b, OrgIdpBinding_idp_alias b)) (org_idp_bindings t)"

text \<open>The operations that change the tables of this group.\<close>

datatype OrgOp =
    Op_create_organization Organization | Op_update_organization Organization
  | Op_delete_organization RealmId OrganizationId
  | Op_upsert_org_domain OrgDomain | Op_delete_org_domain RealmId OrganizationId string
  | Op_upsert_org_membership OrgMembership | Op_delete_org_membership RealmId OrganizationId UserId
  | Op_create_org_role OrgRole | Op_update_org_role OrgRole | Op_delete_org_role RealmId OrgRoleId
  | Op_create_org_invitation OrgInvitation | Op_mark_org_invitation_accepted DateTime OrgInvitationId
  | Op_delete_org_invitation OrgInvitationId
  | Op_upsert_org_consent_policy OrgConsentPolicy | Op_delete_org_consent_policy RealmId OrganizationId ClientId
  | Op_upsert_org_idp_binding OrgIdpBinding | Op_delete_org_idp_binding RealmId OrganizationId string

fun org_op :: "OrgOp \<Rightarrow> 'a Tables_scheme \<Rightarrow> 'a Tables_scheme" where
  "org_op (Op_create_organization v) t = snd (create_organization v t)"
| "org_op (Op_update_organization v) t = snd (update_organization v t)"
| "org_op (Op_delete_organization realm i) t = snd (delete_organization realm i t)"
| "org_op (Op_upsert_org_domain v) t = snd (upsert_org_domain v t)"
| "org_op (Op_delete_org_domain realm i d) t = snd (delete_org_domain realm i d t)"
| "org_op (Op_upsert_org_membership v) t = snd (upsert_org_membership v t)"
| "org_op (Op_delete_org_membership realm i u) t = snd (delete_org_membership realm i u t)"
| "org_op (Op_create_org_role v) t = snd (create_org_role v t)"
| "org_op (Op_update_org_role v) t = snd (update_org_role v t)"
| "org_op (Op_delete_org_role realm i) t = snd (delete_org_role realm i t)"
| "org_op (Op_create_org_invitation v) t = snd (create_org_invitation v t)"
| "org_op (Op_mark_org_invitation_accepted now i) t = snd (mark_org_invitation_accepted now i t)"
| "org_op (Op_delete_org_invitation i) t = snd (delete_org_invitation i t)"
| "org_op (Op_upsert_org_consent_policy v) t = snd (upsert_org_consent_policy v t)"
| "org_op (Op_delete_org_consent_policy realm i c) t = snd (delete_org_consent_policy realm i c t)"
| "org_op (Op_upsert_org_idp_binding v) t = snd (upsert_org_idp_binding v t)"
| "org_op (Op_delete_org_idp_binding realm i a) t = snd (delete_org_idp_binding realm i a t)"

lemma org_rows_ok_op: "org_rows_ok t \<Longrightarrow> org_rows_ok (org_op a t)"
  by (cases a) (auto simp: org_rows_ok_def store_defs Let_def split: option.splits)

lemma org_rows_ok_ops: "org_rows_ok t \<Longrightarrow> org_rows_ok (fold org_op ops t)"
  by (induction ops arbitrary: t) (simp_all add: org_rows_ok_op)

definition Tables_default :: Tables where
  "Tables_default = IntegrationTables.extend IntegrationTables_default
     (Tables.fields [] [] [] [] [] [] [] [] [])"

lemma org_rows_ok_default: "org_rows_ok Tables_default"
  by (simp add: org_rows_ok_def Tables_default_def IntegrationTables.defs Tables.defs)

section \<open>Properties\<close>

text \<open>
  Deleting an organization takes its rows with it and touches no other organization. After any
  sequence of organization operations on an empty store and then a successful
  \<open>delete_organization\<close>, the organization is not found, the listings of its domains, memberships,
  consent policies and identity provider bindings are empty, and the listings of every other
  organization are what they were; its roles and invitations stay, as the code does not remove them.
\<close>

theorem organization_deletion:
  assumes "t = fold org_op ops Tables_default" and "delete_organization realm i t = (Inr (), t')"
  shows "get_organization realm i t' = Inl StorageError_NotFound \<and>
    list_org_domains r i t' = Inr [] \<and> list_org_memberships r i t' = Inr [] \<and>
    list_org_consent_policies r i t' = Inr [] \<and> list_org_idp_bindings r i t' = Inr [] \<and>
    (j \<noteq> i \<longrightarrow>
      get_organization r j t' = get_organization r j t \<and>
      list_org_domains r j t' = list_org_domains r j t \<and>
      list_org_memberships r j t' = list_org_memberships r j t \<and>
      list_org_consent_policies r j t' = list_org_consent_policies r j t \<and>
      list_org_idp_bindings r j t' = list_org_idp_bindings r j t) \<and>
    list_org_roles r j t' = list_org_roles r j t \<and>
    list_org_invitations r j t' = list_org_invitations r j t"
proof -
  have "org_rows_ok t" using org_rows_ok_ops [OF org_rows_ok_default] assms(1) by blast
  with assms(2) show ?thesis
    by (auto simp: org_rows_ok_def store_defs filter_hm_retain_org filter_hm_retain_only split: option.splits)
qed

text \<open>
  Home-realm discovery by e-mail domain. \<open>find_org_by_verified_domain\<close> returns an organization
  only if a verified row of exactly that domain and realm points to it, so an unverified domain
  claim routes nobody; and if the realm has a verified row for the domain and every domain row
  points to an existing organization of its realm, an organization is found.
\<close>

theorem verified_domain_discovery:
  "\<exists>found. find_org_by_verified_domain realm domain t = Inr found \<and>
     (\<forall>org. found = Some org \<longrightarrow>
        (\<exists>d \<in> set (hm_values (org_domains t)). OrgDomain_verified d \<and> OrgDomain_domain d = domain \<and>
           OrgDomain_realm_id d = realm \<and>
           get_organization realm (OrgDomain_organization_id d) t = Inr org)) \<and>
     ((\<forall>d \<in> set (hm_values (org_domains t)).
         map_of (organizations t) (OrgDomain_realm_id d, OrgDomain_organization_id d) \<noteq> None) \<longrightarrow>
      (found = None \<longleftrightarrow> (\<forall>d \<in> set (hm_values (org_domains t)). OrgDomain_realm_id d = realm \<longrightarrow>
         OrgDomain_domain d = domain \<longrightarrow> \<not> OrgDomain_verified d)))"
proof (cases "find (\<lambda>d. OrgDomain_realm_id d = realm \<and> OrgDomain_domain d = domain \<and> OrgDomain_verified d)
    (hm_values (org_domains t))")
  case None
  then have "find_org_by_verified_domain realm domain t = Inr None"
    by (simp add: find_org_by_verified_domain_def)
  moreover from None have "\<forall>d \<in> set (hm_values (org_domains t)). OrgDomain_realm_id d = realm \<longrightarrow>
      OrgDomain_domain d = domain \<longrightarrow> \<not> OrgDomain_verified d"
    by (auto simp: find_None_iff)
  ultimately show ?thesis by simp
next
  case (Some d)
  from Some have "d \<in> set (hm_values (org_domains t))" "OrgDomain_realm_id d = realm"
    "OrgDomain_domain d = domain" "OrgDomain_verified d"
    by (auto simp: find_Some_iff)
  with Some show ?thesis
    by (auto simp: find_org_by_verified_domain_def get_organization_def)
qed

definition invitations_consistent :: "'a Tables_scheme \<Rightarrow> bool" where
  "invitations_consistent t \<longleftrightarrow>
     (\<forall>i v. map_of (org_invitations t) i = Some v \<longrightarrow>
        OrgInvitation_id v = i \<and> map_of (org_invitations_by_token t) (expose (OrgInvitation_token v)) = Some i) \<and>
     (\<forall>token i. map_of (org_invitations_by_token t) token = Some i \<longrightarrow>
        (\<exists>v. map_of (org_invitations t) i = Some v \<and> expose (OrgInvitation_token v) = token))"

lemma invitations_consistent_iff: "invitation_index.consistent t = invitations_consistent t"
  unfolding invitation_index.consistent_def invitations_consistent_def by simp

lemma invitation_by_token_eq:
  "get_org_invitation_by_token token t = ok_or (invitation_index.by_name t token) NotFound"
  by (auto simp: invitation_index.by_name_def get_org_invitation_by_token_def split: option.splits bind_splits)

lemma mark_accepted_consistent:
  "invitations_consistent t \<Longrightarrow> invitations_consistent (snd (mark_org_invitation_accepted now i t))"
  unfolding mark_org_invitation_accepted_def
  by (cases "map_of (org_invitations t) i") (simp, auto simp: invitations_consistent_def, fastforce)

text \<open>
  An invitation token names one invitation. On a consistent store: a stored invitation is found
  by its token and no other; a token in use is refused and changes nothing; creating an invitation
  with a fresh id, accepting and deleting one keep the store consistent; after acceptance the token
  resolves to the same invitation with its acceptance time set; after deletion it resolves to
  nothing.
\<close>

theorem invitation_tokens:
  assumes "invitations_consistent t"
  shows "(get_org_invitation_by_token token t = Inr v \<longleftrightarrow>
      (\<exists>i. map_of (org_invitations t) i = Some v \<and> expose (OrgInvitation_token v) = token)) \<and>
    ((\<exists>i. map_of (org_invitations_by_token t) (expose (OrgInvitation_token w)) = Some i) \<longrightarrow>
      (\<exists>msg. create_org_invitation w t = (Inl (StorageError_Conflict msg), t))) \<and>
    (map_of (org_invitations t) (OrgInvitation_id w) = None \<longrightarrow>
      invitations_consistent (snd (create_org_invitation w t))) \<and>
    invitations_consistent (snd (mark_org_invitation_accepted now i t)) \<and>
    invitations_consistent (snd (delete_org_invitation i t)) \<and>
    (map_of (org_invitations t) i = Some v \<longrightarrow>
      get_org_invitation_by_token (expose (OrgInvitation_token v)) (snd (mark_org_invitation_accepted now i t)) =
        Inr (v\<lparr>OrgInvitation_accepted_at := Some now\<rparr>) \<and>
      get_org_invitation_by_token (expose (OrgInvitation_token v)) (snd (delete_org_invitation i t)) =
        Inl StorageError_NotFound)"
proof -
  note c = assms [folded invitations_consistent_iff]
  have "get_org_invitation_by_token (expose (OrgInvitation_token v)) (snd (mark_org_invitation_accepted now i t)) =
      Inr (v\<lparr>OrgInvitation_accepted_at := Some now\<rparr>)" if "map_of (org_invitations t) i = Some v"
    using that assms
    by (simp add: mark_org_invitation_accepted_def get_org_invitation_by_token_def invitations_consistent_def)
  moreover have "get_org_invitation_by_token (expose (OrgInvitation_token v)) (snd (delete_org_invitation i t)) =
      Inl StorageError_NotFound" if "map_of (org_invitations t) i = Some v"
    using invitation_index.delete_frees_name(2) [OF c that] by (simp add: invitation_by_token_eq)
  moreover have "get_org_invitation_by_token token t = Inr v \<longleftrightarrow>
      (\<exists>i. map_of (org_invitations t) i = Some v \<and> expose (OrgInvitation_token v) = token)"
    using invitation_index.by_name_iff [OF c, of token v] by (simp add: invitation_by_token_eq)
  ultimately show ?thesis
    using mark_accepted_consistent [OF assms] invitation_index.create_taken [of t w]
      invitation_index.create_keeps_consistent [OF c, of w] invitation_index.delete_keeps_consistent [OF c, of i]
    by (auto simp: invitations_consistent_iff)
qed

text \<open>
  Renaming an organization to an alias another one bears takes the alias over: the update
  succeeds, the alias then resolves to the renamed organization, and the one that had it is no
  longer found by alias although it is still stored.
\<close>

theorem organization_alias_takeover:
  assumes "map_of (organizations t) (realm, i) = Some org" "map_of (organizations t) (realm, j) = Some other"
    and "i \<noteq> j" "Organization_realm_id org = realm" "Organization_id org = i"
    and "Organization_alias org \<noteq> Organization_alias other"
    and "new = org\<lparr>Organization_alias := Organization_alias other\<rparr>"
  shows "\<exists>t'. update_organization new t = (Inr (), t') \<and>
    get_organization_by_alias realm (Organization_alias other) t' = Inr new \<and>
    get_organization realm j t' = Inr other"
  using assms by (auto simp: update_organization_def get_organization_by_alias_def get_organization_def
      hm_contains_key_def Let_def)

text \<open>The witnesses work with one organization, or two, in one realm.\<close>

definition sample_org :: "nat \<Rightarrow> string \<Rightarrow> Organization" where
  "sample_org n alias = \<lparr>Organization_id = OrganizationId n, Organization_realm_id = RealmId 1,
     Organization_alias = alias, Organization_display_name = alias, Organization_description = None,
     Organization_attributes = [],
     Organization_branding = \<lparr>OrganizationBranding_logo_url = None,
       OrganizationBranding_primary_color = None, OrganizationBranding_theme = None\<rparr>,
     Organization_default_idp_alias = None, Organization_redirect_url = None,
     Organization_enabled = True, Organization_created_at = 0, Organization_updated_at = 0\<rparr>"

definition sample_invitation :: OrgInvitation where
  "sample_invitation = \<lparr>OrgInvitation_id = OrgInvitationId 1, OrgInvitation_organization_id = OrganizationId 1,
     OrgInvitation_realm_id = RealmId 1, OrgInvitation_email = ''a@b'', OrgInvitation_roles = [],
     OrgInvitation_invited_by = UserId 1, OrgInvitation_token = Secret ''tok'',
     OrgInvitation_expires_at = 10, OrgInvitation_accepted_at = None\<rparr>"

definition sample_domain :: OrgDomain where
  "sample_domain = \<lparr>OrgDomain_id = OrgDomainId 1, OrgDomain_organization_id = OrganizationId 1,
     OrgDomain_realm_id = RealmId 1, OrgDomain_domain = ''b'', OrgDomain_verified = True,
     OrgDomain_verification_token = None, OrgDomain_verified_at = None\<rparr>"

definition sample_orgs :: "Tables \<Rightarrow> Tables" where
  "sample_orgs = fold org_op [Op_create_organization (sample_org 1 ''a''),
     Op_create_organization (sample_org 2 ''b''), Op_upsert_org_domain sample_domain]"

lemmas sample_org_simps = sample_orgs_def sample_org_def sample_domain_def sample_invitation_def
  Tables_default_def IntegrationTables_default_def IntegrationTables.defs Tables.defs
  hm_contains_key_def hm_values_def

lemma sample_orgs_rows:
  "map_of (organizations (sample_orgs Tables_default)) (RealmId 1, OrganizationId 1) = Some (sample_org 1 ''a'')"
  "map_of (organizations (sample_orgs Tables_default)) (RealmId 1, OrganizationId 2) = Some (sample_org 2 ''b'')"
  "org_domains (sample_orgs Tables_default) = [((OrganizationId 1, ''b''), sample_domain)]"
  by (simp_all add: sample_org_simps create_organization_def upsert_org_domain_def hm_insert_def)

theorem organization_deletion_witness:
  "\<exists>t'. delete_organization (RealmId 1) (OrganizationId 1) (sample_orgs Tables_default) = (Inr (), t') \<and>
    list_org_domains (RealmId 1) (OrganizationId 1) t' = Inr [] \<and>
    get_organization (RealmId 1) (OrganizationId 2) t' = Inr (sample_org 2 ''b'')"
proof -
  obtain t' where t': "delete_organization (RealmId 1) (OrganizationId 1) (sample_orgs Tables_default) = (Inr (), t')"
    using sample_orgs_rows(1) by (simp add: delete_organization_def)
  have "get_organization (RealmId 1) (OrganizationId 2) (sample_orgs Tables_default) = Inr (sample_org 2 ''b'')"
    using sample_orgs_rows(2) by (simp add: get_organization_def)
  with t' organization_deletion [OF sample_orgs_def [THEN fun_cong] t', of "RealmId 1" "OrganizationId 2"]
  show ?thesis by auto
qed

theorem verified_domain_discovery_witness:
  "\<exists>org. find_org_by_verified_domain (RealmId 1) ''b'' (sample_orgs Tables_default) = Inr (Some org)"
proof -
  have "find_org_by_verified_domain (RealmId 1) ''b'' (sample_orgs Tables_default) \<noteq> Inr None"
    using verified_domain_discovery [of "RealmId 1" "''b''" "sample_orgs Tables_default"] sample_orgs_rows
    by (auto simp: sample_domain_def hm_values_def)
  moreover obtain found where "find_org_by_verified_domain (RealmId 1) ''b'' (sample_orgs Tables_default) = Inr found"
    using verified_domain_discovery by blast
  ultimately show ?thesis by (cases found) simp_all
qed

theorem invitation_tokens_witness:
  "get_org_invitation_by_token ''tok'' (snd (create_org_invitation sample_invitation Tables_default)) =
     Inr sample_invitation"
proof -
  have "invitations_consistent Tables_default"
    by (simp add: invitations_consistent_def sample_org_simps)
  then have "invitations_consistent (snd (create_org_invitation sample_invitation Tables_default))"
    using invitation_tokens [of Tables_default _ _ sample_invitation] by (simp add: sample_org_simps)
  then show ?thesis
    using invitation_tokens [of "snd (create_org_invitation sample_invitation Tables_default)" "''tok''" sample_invitation]
    by (auto simp: create_org_invitation_def sample_org_simps)
qed

theorem organization_alias_takeover_witness:
  "let org = sample_org 1 ''a''\<lparr>Organization_alias := ''b''\<rparr>;
       t' = snd (update_organization org (sample_orgs Tables_default))
   in get_organization_by_alias (RealmId 1) ''b'' t' = Inr org \<and>
      get_organization (RealmId 1) (OrganizationId 2) t' = Inr (sample_org 2 ''b'')"
  using organization_alias_takeover [OF sample_orgs_rows(1,2) _ _ _ _ refl] by (auto simp: sample_org_def)

end
