(* ===== verification/Access_Refine.thy ===== *)
theory Access_Refine
  imports Store_Access
begin

text \<open>
  What the role and group tables of the store promise, as an abstract specification: two partial
  maps of entities and three relations, with no lists, no insertion order and no per-subject rows.
  The operations of the in-memory store implement it: every call answers what the specification
  answers, and the listings read the relations.
\<close>

record AccessSpec =
  spec_roles :: "RealmId \<times> RoleId \<rightharpoonup> Role"
  spec_groups :: "RealmId \<times> GroupId \<rightharpoonup> Group"
  has_role :: "((RealmId \<times> UserId) \<times> RoleId) set"
  in_group :: "((RealmId \<times> UserId) \<times> GroupId) set"
  group_has :: "((RealmId \<times> GroupId) \<times> RoleId) set"

type_synonym spec_answer = "(StorageError + unit) \<times> AccessSpec"

definition guarded :: "bool \<Rightarrow> StorageError \<Rightarrow> AccessSpec \<Rightarrow> AccessSpec \<Rightarrow> spec_answer" where
  "guarded ok err s s' = (if ok then (Inr (), s') else (Inl err, s))"

fun spec_call :: "AccessOp \<Rightarrow> AccessSpec \<Rightarrow> spec_answer" where
  "spec_call (Op_create_role r) s =
     (let key = (Role_realm_id r, Role_id r) in
      if key \<in> dom (spec_roles s) then (Inl (StorageError_Conflict ''role exists''), s)
      else guarded (\<forall>q\<in>ran (spec_roles s). (Role_realm_id q, Role_client_id q, Role_name q) \<noteq>
                      (Role_realm_id r, Role_client_id r, Role_name r))
             (StorageError_Conflict ''role name taken'') s (s\<lparr>spec_roles := (spec_roles s)(key \<mapsto> r)\<rparr>))"
| "spec_call (Op_update_role r) s =
     guarded ((Role_realm_id r, Role_id r) \<in> dom (spec_roles s)) NotFound s
       (s\<lparr>spec_roles := (spec_roles s)((Role_realm_id r, Role_id r) \<mapsto> r)\<rparr>)"
| "spec_call (Op_delete_role realm i) s =
     guarded ((realm, i) \<in> dom (spec_roles s)) NotFound s
       (s\<lparr>spec_roles := (spec_roles s)((realm, i) := None),
          has_role := {p \<in> has_role s. snd p \<noteq> i}, group_has := {p \<in> group_has s. snd p \<noteq> i}\<rparr>)"
| "spec_call (Op_assign_user_role realm u i) s =
     guarded ((realm, i) \<in> dom (spec_roles s)) NotFound s
       (s\<lparr>has_role := insert ((realm, u), i) (has_role s)\<rparr>)"
| "spec_call (Op_unassign_user_role realm u i) s = (Inr (), s\<lparr>has_role := has_role s - {((realm, u), i)}\<rparr>)"
| "spec_call (Op_create_group g) s =
     (let key = (Group_realm_id g, Group_id g) in
      if key \<in> dom (spec_groups s) then (Inl (StorageError_Conflict ''group exists''), s)
      else guarded (\<forall>q\<in>ran (spec_groups s). (Group_realm_id q, Group_path q) \<noteq> (Group_realm_id g, Group_path g))
             (StorageError_Conflict ''group path taken'') s (s\<lparr>spec_groups := (spec_groups s)(key \<mapsto> g)\<rparr>))"
| "spec_call (Op_update_group g) s =
     guarded ((Group_realm_id g, Group_id g) \<in> dom (spec_groups s)) NotFound s
       (s\<lparr>spec_groups := (spec_groups s)((Group_realm_id g, Group_id g) \<mapsto> g)\<rparr>)"
| "spec_call (Op_delete_group realm i) s =
     guarded ((realm, i) \<in> dom (spec_groups s)) NotFound s
       (s\<lparr>spec_groups := (spec_groups s)((realm, i) := None),
          in_group := {p \<in> in_group s. snd p \<noteq> i}, group_has := {p \<in> group_has s. fst p \<noteq> (realm, i)}\<rparr>)"
| "spec_call (Op_assign_user_group realm u i) s =
     guarded ((realm, i) \<in> dom (spec_groups s)) NotFound s
       (s\<lparr>in_group := insert ((realm, u), i) (in_group s)\<rparr>)"
| "spec_call (Op_unassign_user_group realm u i) s = (Inr (), s\<lparr>in_group := in_group s - {((realm, u), i)}\<rparr>)"
| "spec_call (Op_assign_group_role realm g i) s =
     guarded ((realm, g) \<in> dom (spec_groups s) \<and> (realm, i) \<in> dom (spec_roles s)) NotFound s
       (s\<lparr>group_has := insert ((realm, g), i) (group_has s)\<rparr>)"
| "spec_call (Op_unassign_group_role realm g i) s = (Inr (), s\<lparr>group_has := group_has s - {((realm, g), i)}\<rparr>)"

section \<open>The calls of the store with their answers\<close>

fun access_call :: "AccessOp \<Rightarrow> 'a AccessTables_scheme \<Rightarrow> (StorageError + unit) \<times> 'a AccessTables_scheme" where
  "access_call (Op_create_role r) t = create_role r t"
| "access_call (Op_update_role r) t = update_role r t"
| "access_call (Op_delete_role realm i) t = delete_role realm i t"
| "access_call (Op_assign_user_role realm u i) t = assign_user_role realm u i t"
| "access_call (Op_unassign_user_role realm u i) t = unassign_user_role realm u i t"
| "access_call (Op_create_group g) t = create_group g t"
| "access_call (Op_update_group g) t = update_group g t"
| "access_call (Op_delete_group realm i) t = delete_group realm i t"
| "access_call (Op_assign_user_group realm u i) t = assign_user_group realm u i t"
| "access_call (Op_unassign_user_group realm u i) t = unassign_user_group realm u i t"
| "access_call (Op_assign_group_role realm g i) t = assign_group_role realm g i t"
| "access_call (Op_unassign_group_role realm g i) t = unassign_group_role realm g i t"

text \<open>A history of calls: its answers in order, and the state after it.\<close>

fun run_calls :: "('c \<Rightarrow> 's \<Rightarrow> 'r \<times> 's) \<Rightarrow> 'c list \<Rightarrow> 's \<Rightarrow> 'r list \<times> 's" where
  "run_calls call [] s = ([], s)"
| "run_calls call (c # cs) s =
     (let (r, s1) = call c s; (rs, s2) = run_calls call cs s1 in (r # rs, s2))"

definition rel_of :: "('k, 'i list) hash_map \<Rightarrow> ('k \<times> 'i) set" where
  "rel_of m = {(k, i). i \<in> set (unwrap_or (map_of m k) [])}"

definition abs_access :: "'a AccessTables_scheme \<Rightarrow> AccessSpec" where
  "abs_access t = \<lparr>spec_roles = map_of (roles t), spec_groups = map_of (groups t),
     has_role = rel_of (user_roles t), in_group = rel_of (user_groups t), group_has = rel_of (group_roles t)\<rparr>"

definition tables_wf :: "'a AccessTables_scheme \<Rightarrow> bool" where
  "tables_wf t \<longleftrightarrow> hm_wf (roles t) \<and> hm_wf (groups t)"

text \<open>How the list operations of an assignment table act on its relation.\<close>

lemma rel_of_insert: "rel_of (hm_insert k v m) = {p \<in> rel_of m. fst p \<noteq> k} \<union> {k} \<times> set v"
  by (auto simp: rel_of_def split: if_splits)

lemma rel_of_push: "rel_of (hm_insert k (push_new i (unwrap_or (map_of m k) [])) m) = insert (k, i) (rel_of m)"
  by (auto simp: rel_of_insert) (auto simp: rel_of_def)

lemma rel_of_drop: "map_of m k = Some v \<Longrightarrow> rel_of (hm_insert k (filter (\<lambda>x. x \<noteq> i) v) m) = rel_of m - {(k, i)}"
  by (auto simp: rel_of_insert) (auto simp: rel_of_def)

lemma rel_of_absent: "map_of m k = None \<Longrightarrow> rel_of m - {(k, i)} = rel_of m"
  by (auto simp: rel_of_def)

lemma rel_of_filter: "rel_of (hm_map_values (filter (\<lambda>x. x \<noteq> i)) m) = {p \<in> rel_of m. snd p \<noteq> i}"
  by (auto simp: rel_of_def get_hm_map_values unwrap_or_def split: option.splits)

lemma rel_of_remove: "rel_of (hm_remove k m) = {p \<in> rel_of m. fst p \<noteq> k}"
  by (auto simp: rel_of_def split: if_splits)

lemmas rel_of_simps = rel_of_push rel_of_drop rel_of_absent rel_of_filter rel_of_remove

lemma values_ran: "hm_wf m \<Longrightarrow> list_ex P (hm_values m) \<longleftrightarrow> (\<exists>v\<in>ran (map_of m). P v)"
  by (simp add: list_ex_iff set_hm_values)

section \<open>The simulation\<close>

lemma access_call_wf: "tables_wf t \<Longrightarrow> tables_wf (snd (access_call a t))"
  by (cases a)
    (auto simp: tables_wf_def store_defs Let_def hm_wf_ops split: option.splits)

lemma access_call_refines:
  assumes "tables_wf t"
  shows "spec_call a (abs_access t) = (fst (access_call a t), abs_access (snd (access_call a t)))"
proof -
  have wf: "hm_wf (roles t)" "hm_wf (groups t)" using assms by (simp_all add: tables_wf_def)
  show ?thesis
  proof (cases a)
    case (Op_create_role r)
    then show ?thesis
      by (auto simp: create_role_def abs_access_def guarded_def Let_def hm_contains_key_iff values_ran [OF wf(1)])
  next
    case (Op_create_group g)
    then show ?thesis
      by (auto simp: create_group_def abs_access_def guarded_def Let_def hm_contains_key_iff values_ran [OF wf(2)])
  qed (auto simp: store_defs abs_access_def guarded_def Let_def hm_contains_key_iff rel_of_simps split: option.splits)
qed

lemma run_calls_refines:
  assumes "tables_wf t"
  shows "run_calls spec_call ops (abs_access t) =
    (fst (run_calls access_call ops t), abs_access (snd (run_calls access_call ops t))) \<and>
    tables_wf (snd (run_calls access_call ops t))"
  using assms
proof (induction ops arbitrary: t)
  case (Cons a ops)
  obtain r t1 where c: "access_call a t = (r, t1)" by fastforce
  obtain rs t2 where cs: "run_calls access_call ops t1 = (rs, t2)" by fastforce
  have "tables_wf t1" and "spec_call a (abs_access t) = (r, abs_access t1)"
    using access_call_wf [OF Cons.prems, of a] access_call_refines [OF Cons.prems, of a] c by simp_all
  with Cons.IH [of t1] c cs show ?case by simp
qed simp

lemma listed: "set (List.map_filter f (unwrap_or (map_of m k) [])) = {v. \<exists>i. (k, i) \<in> rel_of m \<and> f i = Some v}"
  by (auto simp: rel_of_def List.map_filter_def) force

section \<open>Properties\<close>

text \<open>
  C29: The role and group store refines its specification. From any store whose role and group tables
  have one row per key, every history of the twelve operations gets, call by call, the answers that the
  abstract relations give, and leads to tables that represent the relations the specification reaches;
  there the listings of a user's roles, a user's groups and a group's roles show exactly the related
  entities.
\<close>

theorem access_refines_relations:
  assumes "tables_wf t" and "run_calls access_call ops t = (answers, t')"
    and "s' = snd (run_calls spec_call ops (abs_access t))"
  shows "fst (run_calls spec_call ops (abs_access t)) = answers \<and> abs_access t' = s' \<and>
    (\<forall>realm u. \<exists>rs. list_user_roles realm u t' = Inr rs \<and>
       set rs = {r. \<exists>i. ((realm, u), i) \<in> has_role s' \<and> spec_roles s' (realm, i) = Some r}) \<and>
    (\<forall>realm u. \<exists>gs. list_user_groups realm u t' = Inr gs \<and>
       set gs = {g. \<exists>i. ((realm, u), i) \<in> in_group s' \<and> spec_groups s' (realm, i) = Some g}) \<and>
    (\<forall>realm g. \<exists>rs. list_group_roles realm g t' = Inr rs \<and>
       set rs = {r. \<exists>i. ((realm, g), i) \<in> group_has s' \<and> spec_roles s' (realm, i) = Some r})"
proof -
  have s': "s' = abs_access t'" and answers: "fst (run_calls spec_call ops (abs_access t)) = answers"
    using run_calls_refines [OF assms(1), of ops] assms(2,3) by auto
  show ?thesis
    unfolding s' answers list_user_roles_def list_user_groups_def list_group_roles_def
    by (simp add: abs_access_def listed)
qed

text \<open>The witness assigns a role through the store and reads it off the relation.\<close>

theorem access_refines_relations_witness:
  "fst (run_calls access_call [Op_create_role sample_role,
       Op_assign_user_role (RealmId 1) (UserId 1) (RoleId 1), Op_delete_role (RealmId 2) (RoleId 1)]
     AccessTables_default) = [Inr (), Inr (), Inl NotFound] \<and>
   has_role (abs_access (snd (run_calls access_call [Op_create_role sample_role,
       Op_assign_user_role (RealmId 1) (UserId 1) (RoleId 1), Op_delete_role (RealmId 2) (RoleId 1)]
     AccessTables_default))) = {((RealmId 1, UserId 1), RoleId 1)}"
proof -
  let ?ops = "[Op_create_role sample_role, Op_assign_user_role (RealmId 1) (UserId 1) (RoleId 1),
    Op_delete_role (RealmId 2) (RoleId 1)]"
  have wf: "tables_wf AccessTables_default"
    by (simp add: tables_wf_def AccessTables_default_def GrantTables.defs AccessTables.defs hm_wf_def)
  have start: "abs_access AccessTables_default = \<lparr>spec_roles = Map.empty, spec_groups = Map.empty,
      has_role = {}, in_group = {}, group_has = {}\<rparr>"
    by (simp add: abs_access_def rel_of_def AccessTables_default_def GrantTables.defs AccessTables.defs unwrap_or_def)
  have run: "run_calls spec_call ?ops (abs_access AccessTables_default) =
      ([Inr (), Inr (), Inl NotFound], \<lparr>spec_roles = [(RealmId 1, RoleId 1) \<mapsto> sample_role],
        spec_groups = Map.empty, has_role = {((RealmId 1, UserId 1), RoleId 1)}, in_group = {}, group_has = {}\<rparr>)"
    by (simp add: start guarded_def Let_def sample_role_def)
  from access_refines_relations [OF wf prod.collapse [symmetric] refl, of ?ops] run show ?thesis
    by simp
qed

end
