(* ===== verification/OAuth_Pkce.thy ===== *)
theory OAuth_Pkce
  imports Core_Rules
begin

text \<open>
  Proof keys and OAuth errors: \<^verbatim>\<open>crates/geonosis-protocol-oauth/src/pkce.rs\<close> and \<open>error.rs\<close>. The
  hash functions and encodings of third-party crates are the fields of a record of functions, an
  argument of the definitions that call them. A Rust string is its bytes.
\<close>

record CryptoLib =
  sha256_digest :: "string \<Rightarrow> string"
  base64_url_no_pad :: "string \<Rightarrow> string"
  blake3_keyed :: "string \<Rightarrow> string \<Rightarrow> string"
  hex_encode :: "string \<Rightarrow> string"

section \<open>OAuth errors (\<open>error.rs\<close>)\<close>

datatype OAuthErrorCode =
    OAuthErrorCode_InvalidRequest | OAuthErrorCode_UnauthorizedClient | OAuthErrorCode_AccessDenied
  | OAuthErrorCode_UnsupportedResponseType | OAuthErrorCode_InvalidScope | OAuthErrorCode_ServerError
  | OAuthErrorCode_TemporarilyUnavailable | OAuthErrorCode_InteractionRequired
  | OAuthErrorCode_LoginRequired | OAuthErrorCode_AccountSelectionRequired
  | OAuthErrorCode_ConsentRequired | OAuthErrorCode_InvalidRequestUri
  | OAuthErrorCode_InvalidRequestObject | OAuthErrorCode_RequestNotSupported
  | OAuthErrorCode_RequestUriNotSupported | OAuthErrorCode_RegistrationNotSupported
  | OAuthErrorCode_InvalidClient | OAuthErrorCode_InvalidGrant | OAuthErrorCode_UnsupportedGrantType
  | OAuthErrorCode_AuthorizationPending | OAuthErrorCode_SlowDown | OAuthErrorCode_ExpiredToken

fun OAuthErrorCode_as_str :: "OAuthErrorCode \<Rightarrow> string" where
  "OAuthErrorCode_as_str OAuthErrorCode_InvalidRequest = ''invalid_request''"
| "OAuthErrorCode_as_str OAuthErrorCode_UnauthorizedClient = ''unauthorized_client''"
| "OAuthErrorCode_as_str OAuthErrorCode_AccessDenied = ''access_denied''"
| "OAuthErrorCode_as_str OAuthErrorCode_UnsupportedResponseType = ''unsupported_response_type''"
| "OAuthErrorCode_as_str OAuthErrorCode_InvalidScope = ''invalid_scope''"
| "OAuthErrorCode_as_str OAuthErrorCode_ServerError = ''server_error''"
| "OAuthErrorCode_as_str OAuthErrorCode_TemporarilyUnavailable = ''temporarily_unavailable''"
| "OAuthErrorCode_as_str OAuthErrorCode_InteractionRequired = ''interaction_required''"
| "OAuthErrorCode_as_str OAuthErrorCode_LoginRequired = ''login_required''"
| "OAuthErrorCode_as_str OAuthErrorCode_AccountSelectionRequired = ''account_selection_required''"
| "OAuthErrorCode_as_str OAuthErrorCode_ConsentRequired = ''consent_required''"
| "OAuthErrorCode_as_str OAuthErrorCode_InvalidRequestUri = ''invalid_request_uri''"
| "OAuthErrorCode_as_str OAuthErrorCode_InvalidRequestObject = ''invalid_request_object''"
| "OAuthErrorCode_as_str OAuthErrorCode_RequestNotSupported = ''request_not_supported''"
| "OAuthErrorCode_as_str OAuthErrorCode_RequestUriNotSupported = ''request_uri_not_supported''"
| "OAuthErrorCode_as_str OAuthErrorCode_RegistrationNotSupported = ''registration_not_supported''"
| "OAuthErrorCode_as_str OAuthErrorCode_InvalidClient = ''invalid_client''"
| "OAuthErrorCode_as_str OAuthErrorCode_InvalidGrant = ''invalid_grant''"
| "OAuthErrorCode_as_str OAuthErrorCode_UnsupportedGrantType = ''unsupported_grant_type''"
| "OAuthErrorCode_as_str OAuthErrorCode_AuthorizationPending = ''authorization_pending''"
| "OAuthErrorCode_as_str OAuthErrorCode_SlowDown = ''slow_down''"
| "OAuthErrorCode_as_str OAuthErrorCode_ExpiredToken = ''expired_token''"

record OAuthError =
  OAuthError_code :: OAuthErrorCode
  OAuthError_description :: string
  OAuthError_uri :: "string option"

definition OAuthError_new :: "OAuthErrorCode \<Rightarrow> string \<Rightarrow> OAuthError" where
  "OAuthError_new code description =
     \<lparr>OAuthError_code = code, OAuthError_description = description, OAuthError_uri = None\<rparr>"

definition invalid_request :: "string \<Rightarrow> OAuthError" where
  "invalid_request d = OAuthError_new OAuthErrorCode_InvalidRequest d"

definition invalid_grant :: "string \<Rightarrow> OAuthError" where
  "invalid_grant d = OAuthError_new OAuthErrorCode_InvalidGrant d"

definition invalid_client :: "string \<Rightarrow> OAuthError" where
  "invalid_client d = OAuthError_new OAuthErrorCode_InvalidClient d"

definition unauthorized_client :: "string \<Rightarrow> OAuthError" where
  "unauthorized_client d = OAuthError_new OAuthErrorCode_UnauthorizedClient d"

definition unsupported_grant_type :: "string \<Rightarrow> OAuthError" where
  "unsupported_grant_type d = OAuthError_new OAuthErrorCode_UnsupportedGrantType d"

section \<open>PKCE (\<open>pkce.rs\<close>)\<close>

datatype PkceError =
    PkceError_PlainRejected | PkceError_UnsupportedMethod string
  | PkceError_InvalidVerifier | PkceError_VerifierMismatch

fun PkceError_to_string :: "PkceError \<Rightarrow> string" where
  "PkceError_to_string PkceError_PlainRejected = ''plain code_challenge_method is forbidden''"
| "PkceError_to_string (PkceError_UnsupportedMethod m) = ''unsupported code_challenge_method: '' @ m"
| "PkceError_to_string PkceError_InvalidVerifier = ''invalid code_verifier (length or charset)''"
| "PkceError_to_string PkceError_VerifierMismatch = ''code_verifier does not match code_challenge''"

definition UNRESERVED :: string where
  "UNRESERVED = ''ABCDEFGHIJKLMNOPQRSTUVWXYZabcdefghijklmnopqrstuvwxyz0123456789-._~''"

definition validate_code_verifier :: "string \<Rightarrow> PkceError + unit" where
  "validate_code_verifier verifier =
     (if \<not> (43 \<le> length verifier \<and> length verifier \<le> 128) then Inl PkceError_InvalidVerifier
      else if \<not> list_all (\<lambda>b. b \<in> set UNRESERVED) verifier then Inl PkceError_InvalidVerifier
      else Inr ())"

definition derive_challenge_s256 :: "'l CryptoLib_scheme \<Rightarrow> string \<Rightarrow> PkceError + string" where
  "derive_challenge_s256 lib code_verifier =
     (case validate_code_verifier code_verifier of
        Inl e \<Rightarrow> Inl e
      | Inr _ \<Rightarrow> Inr (base64_url_no_pad lib (sha256_digest lib code_verifier)))"

definition byte_of :: "char \<Rightarrow> u8" where
  "byte_of c = of_nat (of_char c)"

text \<open>The comparison accumulates the differences of all bytes, as the code does.\<close>

definition constant_time_eq_str :: "string \<Rightarrow> string \<Rightarrow> bool" where
  "constant_time_eq_str a b =
     (if length a \<noteq> length b then False
      else fold (\<lambda>(x, y) diff. or diff (xor x y)) (zip (map byte_of a) (map byte_of b)) 0 = 0)"

definition verify_code_verifier_against_challenge ::
  "'l CryptoLib_scheme \<Rightarrow> string \<Rightarrow> string \<Rightarrow> string \<Rightarrow> PkceError + unit" where
  "verify_code_verifier_against_challenge lib method verifier challenge =
     (if eq_ignore_ascii_case method ''plain'' then Inl PkceError_PlainRejected
      else if \<not> eq_ignore_ascii_case method ''S256'' then Inl (PkceError_UnsupportedMethod method)
      else (case derive_challenge_s256 lib verifier of
              Inl e \<Rightarrow> Inl e
            | Inr derived \<Rightarrow>
                if \<not> constant_time_eq_str derived challenge then Inl PkceError_VerifierMismatch
                else Inr ()))"

section \<open>The constant-time comparison\<close>

lemma of_char_less_256: "(of_char c :: nat) < 256"
  by (cases c) (simp add: of_char_def)

lemma byte_of_eq [simp]: "byte_of c = byte_of d \<longleftrightarrow> c = d"
proof
  assume "byte_of c = byte_of d"
  then have "unat (byte_of c) = unat (byte_of d)" by simp
  then have "(of_char c :: nat) = of_char d"
    using of_char_less_256 [of c] of_char_less_256 [of d] by (simp add: byte_of_def unat_of_nat)
  then show "c = d" by simp
qed simp

lemma or_eq_0_word: "or (x :: 'a::len word) y = 0 \<longleftrightarrow> x = 0 \<and> y = 0"
  by (auto simp: bit_eq_iff bit_or_iff)

lemma xor_eq_0_word: "xor (x :: 'a::len word) y = 0 \<longleftrightarrow> x = y"
  by (auto simp: bit_eq_iff bit_xor_iff)

lemma fold_diff_eq_0:
  "fold (\<lambda>(x, y) diff. or diff (xor x y)) ps (d :: u8) = 0 \<longleftrightarrow> d = 0 \<and> (\<forall>(x, y) \<in> set ps. x = y)"
  by (induction ps arbitrary: d) (auto simp: or_eq_0_word xor_eq_0_word)

lemma constant_time_eq_str_iff: "constant_time_eq_str a b \<longleftrightarrow> a = b"
proof (cases "length a = length b")
  case True
  then have "(\<forall>(x, y) \<in> set (zip (map byte_of a) (map byte_of b)). x = y) \<longleftrightarrow> a = b"
    by (induction a b rule: list_induct2) auto
  with True show ?thesis by (simp add: constant_time_eq_str_def fold_diff_eq_0)
qed (auto simp: constant_time_eq_str_def)

section \<open>Properties\<close>

text \<open>
  PKCE verification accepts exactly when the method is S256 (in any case), the verifier has 43
  to 128 characters, all unreserved, and its S256 challenge is the stored one; the method
  \<open>plain\<close> is always refused as such, another method as unsupported, a malformed verifier before
  it is hashed, and only a well-formed verifier with another challenge as a mismatch. In
  particular the constant-time comparison decides equality.
\<close>

theorem pkce_verify_spec:
  "verify_code_verifier_against_challenge lib method verifier challenge =
     (if eq_ignore_ascii_case method ''plain'' then Inl PkceError_PlainRejected
      else if \<not> eq_ignore_ascii_case method ''S256'' then Inl (PkceError_UnsupportedMethod method)
      else if 43 \<le> length verifier \<and> length verifier \<le> 128 \<and> set verifier \<subseteq> set UNRESERVED
      then (if base64_url_no_pad lib (sha256_digest lib verifier) = challenge then Inr ()
            else Inl PkceError_VerifierMismatch)
      else Inl PkceError_InvalidVerifier)"
  by (auto simp: verify_code_verifier_against_challenge_def derive_challenge_s256_def
      validate_code_verifier_def constant_time_eq_str_iff list_all_iff split: sum.splits)

end
