(* ===== verification/Crypto_Jwt.thy ===== *)
theory Crypto_Jwt
  imports OAuth_Pkce
begin

text \<open>
  Compact JSON Web Signatures, \<^verbatim>\<open>crates/geonosis-crypto/src/jwt.rs\<close>: the encoder, the verifier with
  its order of checks, and the round trip. The signature primitives, the JSON printer and parser
  and the base64 decoder are third-party code: fields of the record \<open>JwtLib\<close>, whose documented
  laws are collected in \<open>jwt_lib_laws\<close>. A key of such a crate is an opaque text, and what a
  signer draws at random is an argument.
\<close>

datatype JwtError =
    JwtError_Unsupported JwsAlgorithm | JwtError_Serialize string
  | JwtError_Sign string | JwtError_Key string

datatype JwtVerifyError =
    JwtVerifyError_Malformed string | JwtVerifyError_Base64 string
  | JwtVerifyError_AlgMismatch string string | JwtVerifyError_KidMismatch string string
  | JwtVerifyError_InvalidSignature | JwtVerifyError_Key string

record JwsHeader =
  JwsHeader_alg :: string
  JwsHeader_kid :: string
  JwsHeader_typ :: string

definition JwsHeader_new :: "JwsAlgorithm \<Rightarrow> string \<Rightarrow> string \<Rightarrow> JwsHeader" where
  "JwsHeader_new alg kid typ =
     \<lparr>JwsHeader_alg = JwsAlgorithm_as_str alg, JwsHeader_kid = kid, JwsHeader_typ = typ\<rparr>"

datatype PrivateMaterial =
  PrivateMaterial_Rs256 string | PrivateMaterial_Es256 string | PrivateMaterial_EdDsa string

datatype PublicMaterial =
  PublicMaterial_Rs256 string | PublicMaterial_Es256 string | PublicMaterial_EdDsa string

text \<open>
  A verification primitive fails when the bytes are not a signature of its kind, and otherwise says
  whether the signature is valid.
\<close>

record JwtLib = CryptoLib +
  base64_url_decode :: "string \<Rightarrow> string + string"
  header_to_json :: "JwsHeader \<Rightarrow> string + string"
  header_from_json :: "string \<Rightarrow> string + JwsHeader"
  rsa_sign :: "string \<Rightarrow> string \<Rightarrow> string \<Rightarrow> string"
  p256_sign :: "string \<Rightarrow> string \<Rightarrow> string"
  ed25519_sign :: "string \<Rightarrow> string \<Rightarrow> string"
  rsa_verify :: "string \<Rightarrow> string \<Rightarrow> string \<Rightarrow> string + bool"
  p256_verify :: "string \<Rightarrow> string \<Rightarrow> string \<Rightarrow> string + bool"
  ed25519_verify :: "string \<Rightarrow> string \<Rightarrow> string \<Rightarrow> string + bool"
  rsa_public :: "string \<Rightarrow> string"
  p256_public :: "string \<Rightarrow> string"
  ed25519_public :: "string \<Rightarrow> string"

text \<open>The \<open>match\<close> on the header algorithm and the key, and the algorithm an error names.\<close>

definition unsupported_alg :: "string \<Rightarrow> JwsAlgorithm" where
  "unsupported_alg alg =
     (if alg = ''RS256'' then RS256 else if alg = ''ES256'' then ES256
      else if alg = ''EdDSA'' then EdDSA else HS256)"

definition sign_input ::
  "'l JwtLib_scheme \<Rightarrow> string \<Rightarrow> string \<Rightarrow> PrivateMaterial \<Rightarrow> string \<Rightarrow> JwtError + string" where
  "sign_input lib rng alg key signing_input =
     (case key of
        PrivateMaterial_Rs256 sk \<Rightarrow>
          if alg = ''RS256'' then Inr (rsa_sign lib sk rng signing_input)
          else Inl (JwtError_Unsupported (unsupported_alg alg))
      | PrivateMaterial_Es256 sk \<Rightarrow>
          if alg = ''ES256'' then Inr (p256_sign lib sk signing_input)
          else Inl (JwtError_Unsupported (unsupported_alg alg))
      | PrivateMaterial_EdDsa sk \<Rightarrow>
          if alg = ''EdDSA'' then Inr (ed25519_sign lib sk signing_input)
          else Inl (JwtError_Unsupported (unsupported_alg alg)))"

definition sign_jwt ::
  "'l JwtLib_scheme \<Rightarrow> ('c \<Rightarrow> string + string) \<Rightarrow> string \<Rightarrow> JwsHeader \<Rightarrow> 'c \<Rightarrow> PrivateMaterial \<Rightarrow> JwtError + string" where
  "sign_jwt lib claims_to_json rng header claims key =
     (case header_to_json lib header of
        Inl e \<Rightarrow> Inl (JwtError_Serialize e)
      | Inr h \<Rightarrow>
          (case claims_to_json claims of
             Inl e \<Rightarrow> Inl (JwtError_Serialize e)
           | Inr p \<Rightarrow>
               (let signing_input = base64_url_no_pad lib h @ ''.'' @ base64_url_no_pad lib p in
                case sign_input lib rng (JwsHeader_alg header) key signing_input of
                  Inl e \<Rightarrow> Inl e
                | Inr sig \<Rightarrow> Inr (signing_input @ ''.'' @ base64_url_no_pad lib sig))))"

definition verify_signature ::
  "'l JwtLib_scheme \<Rightarrow> JwsAlgorithm \<Rightarrow> PublicMaterial \<Rightarrow> string \<Rightarrow> string \<Rightarrow> JwtVerifyError + bool" where
  "verify_signature lib expected_alg key signing_input sig_bytes =
     (case (expected_alg, key) of
        (RS256, PublicMaterial_Rs256 pk) \<Rightarrow> map_sum JwtVerifyError_Key id (rsa_verify lib pk signing_input sig_bytes)
      | (ES256, PublicMaterial_Es256 vk) \<Rightarrow> map_sum JwtVerifyError_Key id (p256_verify lib vk signing_input sig_bytes)
      | (EdDSA, PublicMaterial_EdDsa vk) \<Rightarrow> map_sum JwtVerifyError_Key id (ed25519_verify lib vk signing_input sig_bytes)
      | _ \<Rightarrow> Inl (JwtVerifyError_Key ''alg / key mismatch''))"

definition verify_segments ::
  "'l JwtLib_scheme \<Rightarrow> (string \<Rightarrow> string + 'c) \<Rightarrow> JwsAlgorithm \<Rightarrow> string \<Rightarrow> PublicMaterial \<Rightarrow>
   string \<Rightarrow> string \<Rightarrow> string \<Rightarrow> JwtVerifyError + 'c" where
  "verify_segments lib claims_from_json expected_alg expected_kid key h_b64 p_b64 s_b64 =
     (case base64_url_decode lib h_b64 of
        Inl e \<Rightarrow> Inl (JwtVerifyError_Base64 e)
      | Inr h_bytes \<Rightarrow>
     (case header_from_json lib h_bytes of
        Inl e \<Rightarrow> Inl (JwtVerifyError_Malformed e)
      | Inr header \<Rightarrow>
          if JwsHeader_alg header \<noteq> JwsAlgorithm_as_str expected_alg
          then Inl (JwtVerifyError_AlgMismatch (JwsHeader_alg header) (JwsAlgorithm_as_str expected_alg))
          else if JwsHeader_kid header \<noteq> expected_kid
          then Inl (JwtVerifyError_KidMismatch (JwsHeader_kid header) expected_kid)
          else
     (case base64_url_decode lib s_b64 of
        Inl e \<Rightarrow> Inl (JwtVerifyError_Base64 e)
      | Inr sig_bytes \<Rightarrow>
     (case verify_signature lib expected_alg key (h_b64 @ ''.'' @ p_b64) sig_bytes of
        Inl e \<Rightarrow> Inl e
      | Inr ok \<Rightarrow>
          if \<not> ok then Inl JwtVerifyError_InvalidSignature
          else
     (case base64_url_decode lib p_b64 of
        Inl e \<Rightarrow> Inl (JwtVerifyError_Base64 e)
      | Inr p_bytes \<Rightarrow>
     (case claims_from_json p_bytes of
        Inl e \<Rightarrow> Inl (JwtVerifyError_Malformed e)
      | Inr claims \<Rightarrow> Inr claims))))))"

definition verify_jwt ::
  "'l JwtLib_scheme \<Rightarrow> (string \<Rightarrow> string + 'c) \<Rightarrow> string \<Rightarrow> JwsAlgorithm \<Rightarrow> string \<Rightarrow> PublicMaterial \<Rightarrow>
   JwtVerifyError + 'c" where
  "verify_jwt lib claims_from_json token expected_alg expected_kid key =
     (case split_char CHR ''.'' token of
        [] \<Rightarrow> Inl (JwtVerifyError_Malformed ''no header'')
      | [_] \<Rightarrow> Inl (JwtVerifyError_Malformed ''no payload'')
      | [_, _] \<Rightarrow> Inl (JwtVerifyError_Malformed ''no sig'')
      | [h_b64, p_b64, s_b64] \<Rightarrow>
          verify_segments lib claims_from_json expected_alg expected_kid key h_b64 p_b64 s_b64
      | _ \<Rightarrow> Inl (JwtVerifyError_Malformed ''extra segment''))"

section \<open>The laws of the libraries\<close>

text \<open>
  Documented behaviour of the crates: base64url text decodes to what was encoded and has no full
  stop; the JSON of a header parses back; a signature made with a private key verifies with the
  public half.
\<close>

definition jwt_lib_laws :: "'l JwtLib_scheme \<Rightarrow> bool" where
  "jwt_lib_laws lib \<longleftrightarrow>
     (\<forall>x. base64_url_decode lib (base64_url_no_pad lib x) = Inr x) \<and>
     (\<forall>x. CHR ''.'' \<notin> set (base64_url_no_pad lib x)) \<and>
     (\<forall>h s. header_to_json lib h = Inr s \<longrightarrow> header_from_json lib s = Inr h) \<and>
     (\<forall>sk rng m. rsa_verify lib (rsa_public lib sk) m (rsa_sign lib sk rng m) = Inr True) \<and>
     (\<forall>sk m. p256_verify lib (p256_public lib sk) m (p256_sign lib sk m) = Inr True) \<and>
     (\<forall>sk m. ed25519_verify lib (ed25519_public lib sk) m (ed25519_sign lib sk m) = Inr True)"

fun public_of :: "'l JwtLib_scheme \<Rightarrow> PrivateMaterial \<Rightarrow> PublicMaterial" where
  "public_of lib (PrivateMaterial_Rs256 sk) = PublicMaterial_Rs256 (rsa_public lib sk)"
| "public_of lib (PrivateMaterial_Es256 sk) = PublicMaterial_Es256 (p256_public lib sk)"
| "public_of lib (PrivateMaterial_EdDsa sk) = PublicMaterial_EdDsa (ed25519_public lib sk)"

fun key_alg :: "PrivateMaterial \<Rightarrow> JwsAlgorithm" where
  "key_alg (PrivateMaterial_Rs256 _) = RS256"
| "key_alg (PrivateMaterial_Es256 _) = ES256"
| "key_alg (PrivateMaterial_EdDsa _) = EdDSA"

lemma JwsAlgorithm_as_str_inj: "JwsAlgorithm_as_str a = JwsAlgorithm_as_str b \<Longrightarrow> a = b"
  by (cases a; cases b; simp)

lemma sign_input_Inr:
  "sign_input lib rng (JwsAlgorithm_as_str alg) key m = Inr sig \<Longrightarrow> alg = key_alg key"
  by (cases key; cases alg) (simp_all add: sign_input_def)

lemma verify_signed:
  assumes "jwt_lib_laws lib" and "sign_input lib rng (JwsAlgorithm_as_str (key_alg key)) key m = Inr sig"
  shows "verify_signature lib (key_alg key) (public_of lib key) m sig = Inr True"
  using assms by (cases key) (auto simp: sign_input_def verify_signature_def jwt_lib_laws_def)

lemma split_char_no_sep: "c \<notin> set s \<Longrightarrow> split_char c s = [s]"
  by (induction s) auto

lemma split_char_append: "c \<notin> set s \<Longrightarrow> split_char c (s @ c # r) = s # split_char c r"
  by (induction s) auto

lemma split_char_pieces: "p \<in> set (split_char c s) \<Longrightarrow> c \<notin> set p"
  by (induction s arbitrary: p) (auto split: list.splits if_splits)

lemma map_sum_InrE:
  assumes "map_sum f id x = Inr y"
  obtains "x = Inr y"
  using assms by (cases x) simp_all

lemma split_char_concat: "c # s = concat (map ((#) c) (split_char c s))"
  by (induction s) (auto split: list.splits)

lemma split_three: "split_char c s = [a, b, d] \<Longrightarrow> s = a @ c # b @ c # d"
  using split_char_concat [of c s] by simp

lemma jwt_roundtrip:
  assumes laws: "jwt_lib_laws lib" and json: "\<And>c s. to_json c = Inr s \<Longrightarrow> from_json s = Inr c"
    and sign: "sign_jwt lib to_json rng (JwsHeader_new alg kid typ) claims key = Inr token"
  shows "alg = key_alg key" and "verify_jwt lib from_json token alg kid (public_of lib key) = Inr claims"
    and "\<exists>h p s. split_char CHR ''.'' token = [h, p, s] \<and>
      (\<exists>hb. base64_url_decode lib h = Inr hb \<and> header_from_json lib hb = Inr (JwsHeader_new alg kid typ))"
proof -
  obtain h p sig where parts: "header_to_json lib (JwsHeader_new alg kid typ) = Inr h" "to_json claims = Inr p"
    "sign_input lib rng (JwsAlgorithm_as_str alg) key (base64_url_no_pad lib h @ ''.'' @ base64_url_no_pad lib p) = Inr sig"
    "token = base64_url_no_pad lib h @ ''.'' @ base64_url_no_pad lib p @ ''.'' @ base64_url_no_pad lib sig"
    using sign by (auto simp: sign_jwt_def Let_def JwsHeader_new_def split: sum.splits)
  show alg: "alg = key_alg key" using sign_input_Inr [OF parts(3)] .
  have enc: "base64_url_decode lib (base64_url_no_pad lib x) = Inr x" "CHR ''.'' \<notin> set (base64_url_no_pad lib x)" for x
    using laws by (simp_all add: jwt_lib_laws_def)
  have split: "split_char CHR ''.'' token =
      [base64_url_no_pad lib h, base64_url_no_pad lib p, base64_url_no_pad lib sig]"
    using enc(2) unfolding parts(4) by (simp add: split_char_append split_char_no_sep)
  have head: "header_from_json lib h = Inr (JwsHeader_new alg kid typ)"
    using laws parts(1) by (simp add: jwt_lib_laws_def)
  with split enc(1) show "\<exists>h p s. split_char CHR ''.'' token = [h, p, s] \<and>
      (\<exists>hb. base64_url_decode lib h = Inr hb \<and> header_from_json lib hb = Inr (JwsHeader_new alg kid typ))"
    by blast
  have "verify_signature lib alg (public_of lib key) (base64_url_no_pad lib h @ ''.'' @ base64_url_no_pad lib p) sig = Inr True"
    using verify_signed [OF laws] parts(3) alg by blast
  then show "verify_jwt lib from_json token alg kid (public_of lib key) = Inr claims"
    using split head json [OF parts(2)]
    by (simp add: verify_jwt_def verify_segments_def enc(1) JwsHeader_new_def)
qed

section \<open>Properties\<close>

text \<open>
  C39: What a verified token guarantees. If verification returns claims, the token has exactly three
  segments, its header names exactly the expected algorithm and key id (so a token cannot choose
  another algorithm), the key is of the kind of that algorithm, the signature bytes verify under it
  over exactly the first two segments as received, and the claims are the parsed second segment.
\<close>

theorem jwt_verify_sound:
  assumes "verify_jwt lib from_json token alg kid key = Inr claims"
  shows "\<exists>h p s hb header sig pb. token = h @ ''.'' @ p @ ''.'' @ s \<and>
    CHR ''.'' \<notin> set h \<union> set p \<union> set s \<and>
    base64_url_decode lib h = Inr hb \<and> header_from_json lib hb = Inr header \<and>
    JwsHeader_alg header = JwsAlgorithm_as_str alg \<and> JwsHeader_kid header = kid \<and>
    base64_url_decode lib s = Inr sig \<and>
    ((\<exists>pk. alg = RS256 \<and> key = PublicMaterial_Rs256 pk \<and> rsa_verify lib pk (h @ ''.'' @ p) sig = Inr True) \<or>
     (\<exists>vk. alg = ES256 \<and> key = PublicMaterial_Es256 vk \<and> p256_verify lib vk (h @ ''.'' @ p) sig = Inr True) \<or>
     (\<exists>vk. alg = EdDSA \<and> key = PublicMaterial_EdDsa vk \<and> ed25519_verify lib vk (h @ ''.'' @ p) sig = Inr True)) \<and>
    base64_url_decode lib p = Inr pb \<and> from_json pb = Inr claims"
proof -
  obtain h p s where split: "split_char CHR ''.'' token = [h, p, s]"
    and v: "verify_segments lib from_json alg kid key h p s = Inr claims"
    using assms by (auto simp: verify_jwt_def split: list.splits)
  obtain hb header sig pb where d: "base64_url_decode lib h = Inr hb" "header_from_json lib hb = Inr header"
    "JwsHeader_alg header = JwsAlgorithm_as_str alg" "JwsHeader_kid header = kid"
    "base64_url_decode lib s = Inr sig" "verify_signature lib alg key (h @ ''.'' @ p) sig = Inr True"
    "base64_url_decode lib p = Inr pb" "from_json pb = Inr claims"
    using v by (auto simp: verify_segments_def split: sum.splits if_splits)
  have "(\<exists>pk. alg = RS256 \<and> key = PublicMaterial_Rs256 pk \<and> rsa_verify lib pk (h @ ''.'' @ p) sig = Inr True) \<or>
     (\<exists>vk. alg = ES256 \<and> key = PublicMaterial_Es256 vk \<and> p256_verify lib vk (h @ ''.'' @ p) sig = Inr True) \<or>
     (\<exists>vk. alg = EdDSA \<and> key = PublicMaterial_EdDsa vk \<and> ed25519_verify lib vk (h @ ''.'' @ p) sig = Inr True)"
    using d(6) by (cases alg; cases key) (auto simp: verify_signature_def elim: map_sum_InrE)
  moreover have "CHR ''.'' \<notin> set h \<union> set p \<union> set s"
    using split_char_pieces [of _ "CHR ''.''" token] unfolding split by auto
  moreover have "token = h @ ''.'' @ p @ ''.'' @ s" using split_three [OF split] by simp
  ultimately show ?thesis using d by blast
qed

text \<open>
  A library that satisfies the laws: texts are escaped so that they have no full stop, and a
  signature is the signed text.
\<close>

fun esc :: "string \<Rightarrow> string" where
  "esc [] = []"
| "esc (c # s) =
     (if c = CHR ''.'' then ''ab'' @ esc s else if c = CHR ''a'' then ''aa'' @ esc s else c # esc s)"

fun unesc :: "string \<Rightarrow> string" where
  "unesc (c # d # s) =
     (if c = CHR ''a'' then (if d = CHR ''b'' then CHR ''.'' else CHR ''a'') # unesc s
      else c # unesc (d # s))"
| "unesc s = s"

lemma unesc_Cons: "c \<noteq> CHR ''a'' \<Longrightarrow> unesc (c # s) = c # unesc s"
  by (cases s) simp_all

lemma unesc_esc: "unesc (esc s) = s"
  by (induction s) (auto simp: unesc_Cons)

lemma esc_no_stop: "CHR ''.'' \<notin> set (esc s)"
  by (induction s) auto

definition sample_jwt_lib :: JwtLib where
  "sample_jwt_lib = \<lparr>sha256_digest = (\<lambda>s. s), base64_url_no_pad = esc, blake3_keyed = (\<lambda>k s. s),
     hex_encode = (\<lambda>s. s), base64_url_decode = (\<lambda>s. Inr (unesc s)),
     header_to_json = (\<lambda>h. Inr (esc (JwsHeader_alg h) @ ''.'' @ esc (JwsHeader_kid h) @ ''.'' @ esc (JwsHeader_typ h))),
     header_from_json = (\<lambda>s. case split_char CHR ''.'' s of
        [a, k, t] \<Rightarrow> Inr \<lparr>JwsHeader_alg = unesc a, JwsHeader_kid = unesc k, JwsHeader_typ = unesc t\<rparr>
      | _ \<Rightarrow> Inl ''header''),
     rsa_sign = (\<lambda>sk rng m. m), p256_sign = (\<lambda>sk m. m), ed25519_sign = (\<lambda>sk m. m),
     rsa_verify = (\<lambda>pk m s. Inr (s = m)), p256_verify = (\<lambda>pk m s. Inr (s = m)),
     ed25519_verify = (\<lambda>pk m s. Inr (s = m)),
     rsa_public = (\<lambda>s. s), p256_public = (\<lambda>s. s), ed25519_public = (\<lambda>s. s)\<rparr>"

lemma sample_jwt_lib_laws: "jwt_lib_laws sample_jwt_lib"
  by (auto simp: jwt_lib_laws_def sample_jwt_lib_def unesc_esc esc_no_stop split_char_append split_char_no_sep)

lemma sample_jwt:
  "\<exists>token. sign_jwt sample_jwt_lib Inr [] (JwsHeader_new EdDSA ''k'' ''JWT'') ''claims'' (PrivateMaterial_EdDsa ''sk'') = Inr token"
  by (simp add: sign_jwt_def sample_jwt_lib_def sign_input_def JwsHeader_new_def Let_def)

theorem jwt_verify_sound_witness:
  "\<exists>token h p s. verify_jwt sample_jwt_lib Inr token EdDSA ''k'' (PublicMaterial_EdDsa ''sk'') = Inr ''claims'' \<and>
     token = h @ ''.'' @ p @ ''.'' @ s"
proof -
  obtain token where t: "sign_jwt sample_jwt_lib Inr [] (JwsHeader_new EdDSA ''k'' ''JWT'') ''claims''
      (PrivateMaterial_EdDsa ''sk'') = Inr token"
    using sample_jwt by blast
  have "verify_jwt sample_jwt_lib Inr token EdDSA ''k'' (PublicMaterial_EdDsa ''sk'') = Inr ''claims''"
    using jwt_roundtrip(2) [OF sample_jwt_lib_laws _ t, of Inr] by (simp add: sample_jwt_lib_def)
  from jwt_verify_sound [OF this] this show ?thesis by blast
qed

end
