(* ===== verification/Crypto_Kms.thy ===== *)
theory Crypto_Kms
  imports Crypto_Jwt
begin

text \<open>
  The software key management service, \<^verbatim>\<open>crates/geonosis-crypto/src/kms.rs\<close>, with the JSON Web Keys
  of \<open>jwk.rs\<close> and the wrapped secrets of \<open>wrap.rs\<close>. Key generation, AES-GCM and the PKCS\#8
  parsers are third-party code, fields of \<open>KmsLib\<close>; what they draw at random, and the clock, are
  arguments.
\<close>

record WrappedSecret =
  WrappedSecret_nonce :: string
  WrappedSecret_ciphertext :: string

datatype WrapError = WrapError_Encrypt string | WrapError_Decrypt string | WrapError_BadKeyLen nat

datatype MasterKey = MasterKey string

definition MasterKey_from_slice :: "string \<Rightarrow> WrapError + MasterKey" where
  "MasterKey_from_slice b = (if length b = 32 then Inr (MasterKey b) else Inl (WrapError_BadKeyLen (length b)))"

record Jwk =
  Jwk_kid :: string
  Jwk_kty :: string
  Jwk_use :: string
  Jwk_alg :: string
  Jwk_params :: "(string, Value) btree_map"

record JwkSet =
  JwkSet_keys :: "Jwk list"

definition all_algs :: "JwsAlgorithm list" where
  "all_algs = [RS256, RS384, RS512, PS256, PS384, PS512, ES256, ES384, ES512, EdDSA, HS256, HS384, HS512]"

text \<open>\<open>alg_typed\<close>: the algorithm of that name.\<close>

definition Jwk_alg_typed :: "Jwk \<Rightarrow> JwsAlgorithm option" where
  "Jwk_alg_typed j = find (\<lambda>a. JwsAlgorithm_as_str a = Jwk_alg j) all_algs"

datatype KeyUsage = KeyUsage_Sig | KeyUsage_Enc
datatype KeyState = KeyState_Active | KeyState_PreviousActive | KeyState_Disabled

datatype KmsError =
    KmsError_NotFound KeyId
  | KmsError_AlgMismatch JwsAlgorithm JwsAlgorithm
  | KmsError_WrongState KeyState
  | KmsError_Wrap WrapError
  | KmsError_Sign string
  | KmsError_Internal string

datatype PrivateKeyRef = PrivateKeyRef_Local WrappedSecret | PrivateKeyRef_Kms string

record KeyMaterial =
  KeyMaterial_id :: KeyId
  KeyMaterial_realm_id :: RealmId
  KeyMaterial_usage :: KeyUsage
  KeyMaterial_alg :: JwsAlgorithm
  KeyMaterial_state :: KeyState
  KeyMaterial_public_jwk :: Jwk
  KeyMaterial_private_ref :: PrivateKeyRef
  KeyMaterial_created_at :: DateTime
  KeyMaterial_rotated_at :: "DateTime option"

record StoredKey =
  StoredKey_material :: KeyMaterial
  StoredKey_private_pem :: string

text \<open>The master key and the table behind the lock.\<close>

record SoftwareKms =
  SoftwareKms_master :: MasterKey
  SoftwareKms_store :: "(KeyId, StoredKey) hash_map"

record KmsLib = JwtLib +
  aes_gcm_encrypt :: "MasterKey \<Rightarrow> string \<Rightarrow> string \<Rightarrow> string + string"
  aes_gcm_decrypt :: "MasterKey \<Rightarrow> string \<Rightarrow> string \<Rightarrow> string + string"
  rsa_pem_to_private :: "string \<Rightarrow> string + string"
  p256_pem_to_private :: "string \<Rightarrow> string + string"
  ed25519_pem_to_private :: "string \<Rightarrow> string + string"
  rsa_generate :: "string \<Rightarrow> string + string"
  rsa_to_pem :: "string \<Rightarrow> string + string"
  rsa_modulus_be :: "string \<Rightarrow> string"
  rsa_exponent_be :: "string \<Rightarrow> string"
  show_ulid :: "Ulid \<Rightarrow> string"
  parse_ulid :: "string \<Rightarrow> string + Ulid"
  str_from_utf8 :: "string \<Rightarrow> string + string"

fun KeyId_to_string :: "'l KmsLib_scheme \<Rightarrow> KeyId \<Rightarrow> string" where
  "KeyId_to_string lib (KeyId u) = show_ulid lib u"

fun RealmId_to_string :: "'l KmsLib_scheme \<Rightarrow> RealmId \<Rightarrow> string" where
  "RealmId_to_string lib (RealmId u) = show_ulid lib u"

text \<open>The \<open>Debug\<close> names of the enumerations that error texts show.\<close>

fun KeyState_debug :: "KeyState \<Rightarrow> string" where
  "KeyState_debug KeyState_Active = ''Active''"
| "KeyState_debug KeyState_PreviousActive = ''PreviousActive''"
| "KeyState_debug KeyState_Disabled = ''Disabled''"

fun WrapError_to_string :: "WrapError \<Rightarrow> string" where
  "WrapError_to_string (WrapError_Encrypt e) = ''wrap failed: '' @ e"
| "WrapError_to_string (WrapError_Decrypt e) = ''unwrap failed: '' @ e"
| "WrapError_to_string (WrapError_BadKeyLen n) = ''master key must be 32 bytes (got '' @ show_nat n @ '')''"

fun KmsError_to_string :: "'l KmsLib_scheme \<Rightarrow> KmsError \<Rightarrow> string" where
  "KmsError_to_string lib (KmsError_NotFound k) = ''key not found: '' @ KeyId_to_string lib k"
| "KmsError_to_string lib (KmsError_AlgMismatch k r) =
     ''alg mismatch: key='' @ JwsAlgorithm_as_str k @ '' requested='' @ JwsAlgorithm_as_str r"
| "KmsError_to_string lib (KmsError_WrongState s) = ''wrong key state: '' @ KeyState_debug s"
| "KmsError_to_string lib (KmsError_Wrap e) = ''wrap error: '' @ WrapError_to_string e"
| "KmsError_to_string lib (KmsError_Sign e) = ''signing error: '' @ e"
| "KmsError_to_string lib (KmsError_Internal e) = ''internal: '' @ e"

definition MasterKey_wrap :: "'l KmsLib_scheme \<Rightarrow> string \<Rightarrow> MasterKey \<Rightarrow> string \<Rightarrow> WrapError + WrappedSecret" where
  "MasterKey_wrap lib nonce k plaintext =
     (case aes_gcm_encrypt lib k nonce plaintext of
        Inl e \<Rightarrow> Inl (WrapError_Encrypt e)
      | Inr ct \<Rightarrow> Inr \<lparr>WrappedSecret_nonce = nonce, WrappedSecret_ciphertext = ct\<rparr>)"

definition MasterKey_unwrap :: "'l KmsLib_scheme \<Rightarrow> MasterKey \<Rightarrow> WrappedSecret \<Rightarrow> WrapError + string" where
  "MasterKey_unwrap lib k wrapped =
     (case aes_gcm_decrypt lib k (WrappedSecret_nonce wrapped) (WrappedSecret_ciphertext wrapped) of
        Inl e \<Rightarrow> Inl (WrapError_Decrypt e)
      | Inr pt \<Rightarrow> Inr pt)"

section \<open>The service\<close>

definition SoftwareKms_new :: "MasterKey \<Rightarrow> SoftwareKms" where
  "SoftwareKms_new master = \<lparr>SoftwareKms_master = master, SoftwareKms_store = []\<rparr>"

definition register ::
  "'l KmsLib_scheme \<Rightarrow> string \<Rightarrow> KeyMaterial \<Rightarrow> string \<Rightarrow> SoftwareKms \<Rightarrow> (KmsError + unit) \<times> SoftwareKms" where
  "register lib nonce material private_pem kms =
     (case MasterKey_wrap lib nonce (SoftwareKms_master kms) private_pem of
        Inl e \<Rightarrow> (Inl (KmsError_Wrap e), kms)
      | Inr _ \<Rightarrow>
          (Inr (), kms\<lparr>SoftwareKms_store := hm_insert (KeyMaterial_id material)
             \<lparr>StoredKey_material = material, StoredKey_private_pem = private_pem\<rparr> (SoftwareKms_store kms)\<rparr>))"

definition is_active :: "RealmId \<Rightarrow> JwsAlgorithm \<Rightarrow> StoredKey \<Rightarrow> bool" where
  "is_active realm alg s \<longleftrightarrow>
     KeyMaterial_realm_id (StoredKey_material s) = realm \<and> KeyMaterial_alg (StoredKey_material s) = alg \<and>
     KeyMaterial_state (StoredKey_material s) = KeyState_Active"

definition seeded_material :: "'l KmsLib_scheme \<Rightarrow> DateTime \<Rightarrow> KeyId \<Rightarrow> RealmId \<Rightarrow> string \<Rightarrow> KeyMaterial" where
  "seeded_material lib now kid realm_id rsa_key =
     \<lparr>KeyMaterial_id = kid, KeyMaterial_realm_id = realm_id, KeyMaterial_usage = KeyUsage_Sig,
      KeyMaterial_alg = RS256, KeyMaterial_state = KeyState_Active,
      KeyMaterial_public_jwk = \<lparr>Jwk_kid = KeyId_to_string lib kid, Jwk_kty = ''RSA'', Jwk_use = ''sig'',
        Jwk_alg = ''RS256'',
        Jwk_params = bt_insert ''e'' (Value_String (base64_url_no_pad lib (rsa_exponent_be lib (rsa_public lib rsa_key))))
          (bt_insert ''n'' (Value_String (base64_url_no_pad lib (rsa_modulus_be lib (rsa_public lib rsa_key)))) [])\<rparr>,
      KeyMaterial_private_ref = PrivateKeyRef_Local \<lparr>WrappedSecret_nonce = [], WrappedSecret_ciphertext = []\<rparr>,
      KeyMaterial_created_at = now, KeyMaterial_rotated_at = None\<rparr>"

definition seed_realm_keys ::
  "'l KmsLib_scheme \<Rightarrow> DateTime \<Rightarrow> string \<Rightarrow> string \<Rightarrow> KeyId \<Rightarrow> RealmId \<Rightarrow> SoftwareKms \<Rightarrow> (KmsError + unit) \<times> SoftwareKms" where
  "seed_realm_keys lib now rng nonce kid realm_id kms =
     (if list_ex (is_active realm_id RS256) (hm_values (SoftwareKms_store kms)) then (Inr (), kms)
      else (case rsa_generate lib rng of
              Inl e \<Rightarrow> (Inl (KmsError_Internal (''RSA keygen: '' @ e)), kms)
            | Inr rsa_key \<Rightarrow>
                (case rsa_to_pem lib rsa_key of
                   Inl e \<Rightarrow> (Inl (KmsError_Internal (''PEM encode: '' @ e)), kms)
                 | Inr pem \<Rightarrow> register lib nonce (seeded_material lib now kid realm_id rsa_key) pem kms)))"

definition get_stored :: "KeyId \<Rightarrow> SoftwareKms \<Rightarrow> KmsError + StoredKey" where
  "get_stored kid kms = ok_or (map_of (SoftwareKms_store kms) kid) (KmsError_NotFound kid)"

definition pem_to_private :: "'l KmsLib_scheme \<Rightarrow> string \<Rightarrow> JwsAlgorithm \<Rightarrow> KmsError + PrivateMaterial" where
  "pem_to_private lib pem alg =
     (case str_from_utf8 lib pem of
        Inl e \<Rightarrow> Inl (KmsError_Internal e)
      | Inr pem_str \<Rightarrow>
          if alg = EdDSA then map_sum KmsError_Internal PrivateMaterial_EdDsa (ed25519_pem_to_private lib pem_str)
          else if alg = ES256 then map_sum KmsError_Internal PrivateMaterial_Es256 (p256_pem_to_private lib pem_str)
          else if alg = RS256 then map_sum KmsError_Internal PrivateMaterial_Rs256 (rsa_pem_to_private lib pem_str)
          else Inl (KmsError_Internal (''alg not supported in v0.1 soft KMS: '' @ JwsAlgorithm_as_str alg)))"

definition pem_to_public_via_private :: "'l KmsLib_scheme \<Rightarrow> string \<Rightarrow> JwsAlgorithm \<Rightarrow> KmsError + PublicMaterial" where
  "pem_to_public_via_private lib pem alg = map_sum id (public_of lib) (pem_to_private lib pem alg)"

definition kms_sign ::
  "'l KmsLib_scheme \<Rightarrow> string \<Rightarrow> RealmId \<Rightarrow> KeyId \<Rightarrow> JwsAlgorithm \<Rightarrow> string \<Rightarrow> SoftwareKms \<Rightarrow> KmsError + string" where
  "kms_sign lib rng realm kid algo data kms =
     (case get_stored kid kms of
        Inl e \<Rightarrow> Inl e
      | Inr s \<Rightarrow>
          if KeyMaterial_alg (StoredKey_material s) \<noteq> algo
          then Inl (KmsError_AlgMismatch (KeyMaterial_alg (StoredKey_material s)) algo)
          else if KeyMaterial_state (StoredKey_material s) \<noteq> KeyState_Active
          then Inl (KmsError_WrongState (KeyMaterial_state (StoredKey_material s)))
          else (case pem_to_private lib (StoredKey_private_pem s) algo of
                  Inl e \<Rightarrow> Inl e
                | Inr (PrivateMaterial_EdDsa sk) \<Rightarrow>
                    if algo = EdDSA then Inr (ed25519_sign lib sk data) else Inl (KmsError_Sign ''alg/key mismatch'')
                | Inr (PrivateMaterial_Es256 sk) \<Rightarrow>
                    if algo = ES256 then Inr (p256_sign lib sk data) else Inl (KmsError_Sign ''alg/key mismatch'')
                | Inr (PrivateMaterial_Rs256 sk) \<Rightarrow>
                    if algo = RS256 then Inr (rsa_sign lib sk rng data) else Inl (KmsError_Sign ''alg/key mismatch'')))"

definition kms_unwrap :: "'l KmsLib_scheme \<Rightarrow> WrappedSecret \<Rightarrow> SoftwareKms \<Rightarrow> KmsError + string" where
  "kms_unwrap lib wrapped kms = map_sum KmsError_Wrap id (MasterKey_unwrap lib (SoftwareKms_master kms) wrapped)"

definition kms_jwk :: "KeyId \<Rightarrow> SoftwareKms \<Rightarrow> KmsError + Jwk" where
  "kms_jwk kid kms = map_sum id (\<lambda>s. KeyMaterial_public_jwk (StoredKey_material s)) (get_stored kid kms)"

definition kms_jwks :: "RealmId \<Rightarrow> SoftwareKms \<Rightarrow> KmsError + JwkSet" where
  "kms_jwks realm kms =
     Inr \<lparr>JwkSet_keys = map (\<lambda>s. KeyMaterial_public_jwk (StoredKey_material s))
       (filter (\<lambda>s. KeyMaterial_state (StoredKey_material s) \<in> {KeyState_Active, KeyState_PreviousActive})
         (filter (\<lambda>s. KeyMaterial_realm_id (StoredKey_material s) = realm) (hm_values (SoftwareKms_store kms))))\<rparr>"

definition active_signing_kid :: "'l KmsLib_scheme \<Rightarrow> RealmId \<Rightarrow> JwsAlgorithm \<Rightarrow> SoftwareKms \<Rightarrow> KmsError + KeyId" where
  "active_signing_kid lib realm algo kms =
     ok_or (map_option (\<lambda>s. KeyMaterial_id (StoredKey_material s))
              (find (is_active realm algo) (hm_values (SoftwareKms_store kms))))
       (KmsError_Internal (''no active key for '' @ JwsAlgorithm_as_str algo @ '' in '' @ RealmId_to_string lib realm))"

definition load_private :: "'l KmsLib_scheme \<Rightarrow> KeyId \<Rightarrow> SoftwareKms \<Rightarrow> KmsError + PrivateMaterial" where
  "load_private lib kid kms =
     (case get_stored kid kms of
        Inl e \<Rightarrow> Inl e
      | Inr s \<Rightarrow> pem_to_private lib (StoredKey_private_pem s) (KeyMaterial_alg (StoredKey_material s)))"

definition load_public :: "'l KmsLib_scheme \<Rightarrow> KeyId \<Rightarrow> SoftwareKms \<Rightarrow> KmsError + PublicMaterial" where
  "load_public lib kid kms =
     (case get_stored kid kms of
        Inl e \<Rightarrow> Inl e
      | Inr s \<Rightarrow> pem_to_public_via_private lib (StoredKey_private_pem s) (KeyMaterial_alg (StoredKey_material s)))"

section \<open>The key table\<close>

text \<open>Every key is stored under its own id, once.\<close>

definition kms_wf :: "SoftwareKms \<Rightarrow> bool" where
  "kms_wf kms \<longleftrightarrow> hm_wf (SoftwareKms_store kms) \<and>
     (\<forall>k s. map_of (SoftwareKms_store kms) k = Some s \<longrightarrow> KeyMaterial_id (StoredKey_material s) = k)"

lemma kms_wf_new: "kms_wf (SoftwareKms_new master)"
  by (simp add: kms_wf_def SoftwareKms_new_def hm_wf_ops)

lemma kms_wf_register: "kms_wf kms \<Longrightarrow> kms_wf (snd (register lib nonce material pem kms))"
  by (auto simp: kms_wf_def register_def hm_wf_ops split: sum.splits)

lemma kms_wf_seed: "kms_wf kms \<Longrightarrow> kms_wf (snd (seed_realm_keys lib now rng nonce kid realm kms))"
  by (auto simp: seed_realm_keys_def kms_wf_register split: sum.splits)

lemma active_signing_kid_Inr:
  assumes "kms_wf kms" and "active_signing_kid lib realm alg kms = Inr kid"
  obtains s where "map_of (SoftwareKms_store kms) kid = Some s" "is_active realm alg s"
    "KeyMaterial_id (StoredKey_material s) = kid"
proof -
  obtain s where f: "find (is_active realm alg) (hm_values (SoftwareKms_store kms)) = Some s"
    and k: "kid = KeyMaterial_id (StoredKey_material s)"
    using assms(2) by (auto simp: active_signing_kid_def)
  from find_Some_memD [OF f] have s: "s \<in> set (hm_values (SoftwareKms_store kms))" "is_active realm alg s" by auto
  with assms(1) obtain k' where "map_of (SoftwareKms_store kms) k' = Some s"
    by (auto simp: kms_wf_def set_hm_values ran_def)
  with assms(1) k s that show ?thesis by (auto simp: kms_wf_def)
qed

lemma map_sum_InrD:
  assumes "map_sum f g x = Inr y"
  obtains z where "x = Inr z" "y = g z"
  using assms by (cases x) auto

lemma pem_to_private_alg: "pem_to_private lib pem alg = Inr key \<Longrightarrow> key_alg key = alg"
  by (auto simp: pem_to_private_def split: sum.splits if_splits elim!: map_sum_InrD)

text \<open>
  The private and the public half a key id loads belong together, and the private half is of the
  stored algorithm.
\<close>

lemma load_pair:
  assumes "load_private lib kid kms = Inr key"
  shows "load_public lib kid kms = Inr (public_of lib key)"
    and "\<exists>s. map_of (SoftwareKms_store kms) kid = Some s \<and> key_alg key = KeyMaterial_alg (StoredKey_material s)"
  using assms
  by (auto simp: load_private_def load_public_def get_stored_def pem_to_public_via_private_def
      dest: pem_to_private_alg split: sum.splits)

section \<open>Properties\<close>

text \<open>
  Seeding a realm's signing key. If no error is returned, the realm has an active RS256 key
  afterwards; a second seeding changes nothing, so the realm never gets two from seeding; the keys
  of other realms and algorithms stay; an error changes nothing; and well-formed key tables stay
  well-formed.
\<close>

theorem seed_realm_keys_correct:
  assumes "kms_wf kms" and "map_of (SoftwareKms_store kms) kid = None"
    and "seed_realm_keys lib now rng nonce kid realm kms = (r, kms')"
  shows "kms_wf kms' \<and>
    (case r of
       Inl e \<Rightarrow> kms' = kms
     | Inr _ \<Rightarrow>
         (\<exists>k. active_signing_kid lib realm RS256 kms' = Inr k) \<and>
         seed_realm_keys lib now' rng' nonce' kid' realm kms' = (Inr (), kms') \<and>
         (\<forall>k s. map_of (SoftwareKms_store kms) k = Some s \<longrightarrow> map_of (SoftwareKms_store kms') k = Some s) \<and>
         (\<forall>other alg. (other, alg) \<noteq> (realm, RS256) \<longrightarrow>
            active_signing_kid lib other alg kms' = active_signing_kid lib other alg kms))"
proof (cases "list_ex (is_active realm RS256) (hm_values (SoftwareKms_store kms))")
  case True
  then obtain s where "find (is_active realm RS256) (hm_values (SoftwareKms_store kms)) = Some s"
    by (cases "find (is_active realm RS256) (hm_values (SoftwareKms_store kms))")
      (auto simp: list_ex_iff find_None_iff)
  with True assms show ?thesis by (auto simp: seed_realm_keys_def active_signing_kid_def)
next
  case False
  note wf = kms_wf_seed [OF assms(1), of lib now rng nonce kid realm]
  show ?thesis
  proof (cases r)
    case (Inl e)
    with assms(3) False wf assms(1) show ?thesis
      by (auto simp: seed_realm_keys_def register_def split: sum.splits)
  next
    case (Inr u)
    obtain rsa_key pem where new: "kms' = kms\<lparr>SoftwareKms_store := hm_insert kid
        \<lparr>StoredKey_material = seeded_material lib now kid realm rsa_key, StoredKey_private_pem = pem\<rparr>
        (SoftwareKms_store kms)\<rparr>"
      using assms(3) False Inr
      by (auto simp: seed_realm_keys_def register_def seeded_material_def split: sum.splits)
    have ins: "SoftwareKms_store kms' = (kid,
        \<lparr>StoredKey_material = seeded_material lib now kid realm rsa_key, StoredKey_private_pem = pem\<rparr>)
        # SoftwareKms_store kms"
      unfolding new using assms(2) by (auto simp: hm_insert_def map_of_eq_None_iff filter_id_conv)
    have act: "is_active r a \<lparr>StoredKey_material = seeded_material lib now kid realm rsa_key,
        StoredKey_private_pem = pem\<rparr> \<longleftrightarrow> r = realm \<and> a = RS256" for r a
      by (auto simp: is_active_def seeded_material_def)
    have "seed_realm_keys lib now' rng' nonce' kid' realm kms' = (Inr (), kms')"
      by (simp add: seed_realm_keys_def ins hm_values_def act)
    moreover have "active_signing_kid lib other alg kms' = active_signing_kid lib other alg kms"
      if "(other, alg) \<noteq> (realm, RS256)" for other alg
      using that by (auto simp: active_signing_kid_def ins hm_values_def act)
    moreover have "\<exists>k. active_signing_kid lib realm RS256 kms' = Inr k"
      by (simp add: active_signing_kid_def ins hm_values_def act)
    ultimately show ?thesis using Inr wf assms(2,3) by (auto simp: ins)
  qed
qed

text \<open>The witness seeds an empty service with a library that satisfies the laws.\<close>

definition sample_kms_lib :: KmsLib where
  "sample_kms_lib = JwtLib.extend sample_jwt_lib (KmsLib.fields (\<lambda>k n p. Inr p) (\<lambda>k n c. Inr c)
     Inr Inr Inr Inr Inr (\<lambda>k. k) (\<lambda>k. k) (\<lambda>u. replicate u CHR ''i'') (\<lambda>s. Inr (length s)) Inr)"

lemmas sample_kms_simps = sample_kms_lib_def sample_jwt_lib_def JwtLib.defs KmsLib.defs

lemma sample_kms_lib_laws: "jwt_lib_laws sample_kms_lib"
  using sample_jwt_lib_laws by (simp add: jwt_lib_laws_def sample_kms_simps)

definition sample_kms :: SoftwareKms where
  "sample_kms = snd (seed_realm_keys sample_kms_lib 0 ''rsa'' ''n'' (KeyId 5) (RealmId 1) (SoftwareKms_new (MasterKey ''m'')))"

lemma sample_seed:
  "seed_realm_keys sample_kms_lib 0 ''rsa'' ''n'' (KeyId 5) (RealmId 1) (SoftwareKms_new (MasterKey ''m'')) =
     (Inr (), sample_kms)"
  unfolding sample_kms_def
  by (simp add: seed_realm_keys_def register_def MasterKey_wrap_def SoftwareKms_new_def hm_values_def sample_kms_simps)

theorem seed_realm_keys_correct_witness:
  "kms_wf sample_kms \<and> (\<exists>k. active_signing_kid sample_kms_lib (RealmId 1) RS256 sample_kms = Inr k) \<and>
   seed_realm_keys sample_kms_lib 1 ''rsb'' ''o'' (KeyId 6) (RealmId 1) sample_kms = (Inr (), sample_kms)"
proof -
  have "map_of (SoftwareKms_store (SoftwareKms_new (MasterKey ''m''))) (KeyId 5) = None"
    by (simp add: SoftwareKms_new_def)
  from seed_realm_keys_correct [OF kms_wf_new this sample_seed, of 1 "''rsb''" "''o''" "KeyId 6"]
  show ?thesis by simp
qed

end
