(* ===== verification/OAuth_Refresh.thy ===== *)
theory OAuth_Refresh
  imports Store_Grants OAuth_Pkce
begin

text \<open>
  Refresh-token rotation and reuse detection, \<^verbatim>\<open>crates/geonosis-protocol-oauth/src/refresh.rs\<close>, over
  the in-memory store, with the keyed hashes of \<^verbatim>\<open>crates/geonosis-crypto/src/hash.rs\<close> and
  \<open>refresh_token.rs\<close>. The clock is an argument. What the rotation relies on of a store is the
  locale \<open>refresh_rows\<close>.
\<close>

definition token_hash :: "'l CryptoLib_scheme \<Rightarrow> string \<Rightarrow> string \<Rightarrow> string" where
  "token_hash lib key secret = blake3_keyed lib key secret"

text \<open>
  \<open>Hasher::update\<close> appends to the input of the hash, so the derived key hashes the concatenation.
\<close>

definition derive_realm_key :: "'l CryptoLib_scheme \<Rightarrow> string \<Rightarrow> string \<Rightarrow> string \<Rightarrow> string" where
  "derive_realm_key lib base_key realm_id label = blake3_keyed lib base_key (label @ '':'' @ realm_id)"

definition refresh_token_hash :: "'l CryptoLib_scheme \<Rightarrow> string \<Rightarrow> string \<Rightarrow> string" where
  "refresh_token_hash lib secret key = hex_encode lib (token_hash lib key secret)"

fun StorageError_to_string :: "StorageError \<Rightarrow> string" where
  "StorageError_to_string StorageError_NotFound = ''not found''"
| "StorageError_to_string (StorageError_Conflict m) = ''conflict: '' @ m"
| "StorageError_to_string (StorageError_Backend m) = ''backend: '' @ m"
| "StorageError_to_string (StorageError_Invalid m) = ''invalid input: '' @ m"

datatype RefreshRotateError =
    RefreshRotateError_NotFound | RefreshRotateError_Expired | RefreshRotateError_Reuse
  | RefreshRotateError_Storage string

fun RefreshRotateError_to_string :: "RefreshRotateError \<Rightarrow> string" where
  "RefreshRotateError_to_string RefreshRotateError_NotFound = ''token not found''"
| "RefreshRotateError_to_string RefreshRotateError_Expired = ''token expired''"
| "RefreshRotateError_to_string RefreshRotateError_Reuse = ''token reuse '' @ [CHR 0xE2, CHR 0x80, CHR 0x94] @ '' family burned''"
| "RefreshRotateError_to_string (RefreshRotateError_Storage s) = ''storage: '' @ s"

datatype RefreshOutcome = RefreshOutcome_Ok RefreshToken

definition validate_refresh ::
  "'l CryptoLib_scheme \<Rightarrow> DateTime \<Rightarrow> string \<Rightarrow> string \<Rightarrow> 'a GrantTables_scheme \<Rightarrow>
   (RefreshRotateError + RefreshOutcome) \<times> 'a GrantTables_scheme" where
  "validate_refresh lib now presented_secret realm_hash_key t =
     (let i = RefreshTokenId (refresh_token_hash lib presented_secret realm_hash_key) in
      case get_refresh_token i t of
        Inl _ \<Rightarrow> (Inl RefreshRotateError_NotFound, t)
      | Inr tok \<Rightarrow>
          if RefreshToken_expires_at tok < now then (Inl RefreshRotateError_Expired, t)
          else if RefreshToken_used tok then
            (case revoke_token_family (RefreshToken_family_id tok) t of
               (Inl e, t') \<Rightarrow> (Inl (RefreshRotateError_Storage (StorageError_to_string e)), t')
             | (Inr _, t') \<Rightarrow> (Inl RefreshRotateError_Reuse, t'))
          else (Inr (RefreshOutcome_Ok tok), t))"

text \<open>
  The \<open>debug_assert_eq!\<close> on the families is compiled out of a release build; both callers pass a
  replacement of the same family.
\<close>

definition rotate_refresh_token ::
  "RefreshToken \<Rightarrow> RefreshToken \<Rightarrow> 'a GrantTables_scheme \<Rightarrow> (RefreshRotateError + unit) \<times> 'a GrantTables_scheme" where
  "rotate_refresh_token prior replacement t =
     (case mark_refresh_used (RefreshToken_id prior) t of
        (Inl e, t') \<Rightarrow> (Inl (RefreshRotateError_Storage (StorageError_to_string e)), t')
      | (Inr _, t') \<Rightarrow>
          (case save_refresh_token replacement t' of
             (Inl e, t'') \<Rightarrow> (Inl (RefreshRotateError_Storage (StorageError_to_string e)), t'')
           | (Inr _, t'') \<Rightarrow> (Inr (), t'')))"

section \<open>What rotation relies on\<close>

text \<open>
  The contract of a table of refresh tokens: what a lookup returns after each operation. A key is
  spent when it has no row or a used one; a spent key stays spent through every operation but a save
  under that key, and marking spends it.
\<close>

locale refresh_rows =
  fixes get :: "'t \<Rightarrow> 'k \<Rightarrow> 'v option"
    and key_of :: "'v \<Rightarrow> 'k"
    and family_of :: "'v \<Rightarrow> 'f"
    and used :: "'v \<Rightarrow> bool"
    and ok :: "'t \<Rightarrow> bool"
    and save :: "'v \<Rightarrow> 't \<Rightarrow> 't"
    and mark :: "'k \<Rightarrow> 't \<Rightarrow> 't"
    and revoke :: "'f \<Rightarrow> 't \<Rightarrow> 't"
  assumes save_get: "get (save v t) k = (if k = key_of v then Some v else get t k)"
    and mark_get: "k \<noteq> j \<Longrightarrow> get (mark k t) j = get t j"
    and mark_used: "get (mark k t) k = Some v \<Longrightarrow> used v"
    and revoke_get: "get (revoke f t) k = Some v \<Longrightarrow> get t k = Some v"
    and revoke_family: "ok t \<Longrightarrow> get (revoke f t) k = Some v \<Longrightarrow> family_of v \<noteq> f"
    and ok_save: "ok t \<Longrightarrow> ok (save v t)"
    and ok_mark: "ok t \<Longrightarrow> ok (mark k t)"
    and ok_revoke: "ok t \<Longrightarrow> ok (revoke f t)"
begin

definition spent :: "'k \<Rightarrow> 't \<Rightarrow> bool" where
  "spent k t \<longleftrightarrow> (\<forall>v. get t k = Some v \<longrightarrow> used v)"

lemma spent_mark_self: "spent k (mark k t)"
  using mark_used by (simp add: spent_def)

lemma spent_mark: "spent k t \<Longrightarrow> spent k (mark j t)"
  by (cases "k = j") (simp_all add: spent_mark_self, simp add: spent_def mark_get)

lemma spent_save: "spent k t \<Longrightarrow> k \<noteq> key_of v \<Longrightarrow> spent k (save v t)"
  by (simp add: spent_def save_get)

lemma spent_revoke: "spent k t \<Longrightarrow> spent k (revoke f t)"
  by (auto simp: spent_def dest: revoke_get)

lemma spent_rotate: "k \<noteq> key_of v \<Longrightarrow> spent k t \<or> j = k \<Longrightarrow> spent k (save v (mark j t))"
  by (auto intro: spent_save spent_mark spent_mark_self)

end

interpretation refresh_table: refresh_rows
  "\<lambda>t. map_of (refresh_tokens t)" RefreshToken_id RefreshToken_family_id RefreshToken_used families_ok
  "\<lambda>v t. snd (save_refresh_token v t)" "\<lambda>k t. snd (mark_refresh_used k t)"
  "\<lambda>f t. snd (revoke_token_family f t)"
proof unfold_locales
  show "RefreshToken_used v" if "map_of (refresh_tokens (snd (mark_refresh_used k t))) k = Some v" for k t v
    using that by (auto simp: mark_refresh_used_def split: option.splits)
  show "map_of (refresh_tokens t) k = Some v"
    if "map_of (refresh_tokens (snd (revoke_token_family f t))) k = Some v" for f t k v
    using that by (auto simp: revoke_token_family_def get_fold_hm_remove split: option.splits if_splits)
  show "map_of (refresh_tokens (snd (mark_refresh_used k t))) j = map_of (refresh_tokens t) j" if "k \<noteq> j" for k j t
    using that by (auto simp: mark_refresh_used_def split: option.splits)
  show "map_of (refresh_tokens (snd (save_refresh_token v t))) k =
      (if k = RefreshToken_id v then Some v else map_of (refresh_tokens t) k)" for v t k
    by (simp add: save_refresh_token_def Let_def)
qed (simp_all add: families_ok_save families_ok_mark families_ok_revoke)


section \<open>Validation and rotation\<close>

abbreviation token_id :: "'l CryptoLib_scheme \<Rightarrow> string \<Rightarrow> string \<Rightarrow> RefreshTokenId" where
  "token_id lib secret key \<equiv> RefreshTokenId (refresh_token_hash lib secret key)"

lemma revoke_ok: "fst (revoke_token_family f t) = Inr ()"
  by (simp add: revoke_token_family_def split: option.splits)

lemma validate_refresh_eq:
  "validate_refresh lib now secret key t =
     (case map_of (refresh_tokens t) (token_id lib secret key) of
        None \<Rightarrow> (Inl RefreshRotateError_NotFound, t)
      | Some tok \<Rightarrow>
          if RefreshToken_expires_at tok < now then (Inl RefreshRotateError_Expired, t)
          else if RefreshToken_used tok
          then (Inl RefreshRotateError_Reuse, snd (revoke_token_family (RefreshToken_family_id tok) t))
          else (Inr (RefreshOutcome_Ok tok), t))"
proof (cases "map_of (refresh_tokens t) (token_id lib secret key)")
  case (Some tok)
  then show ?thesis
    using revoke_ok [of "RefreshToken_family_id tok" t]
    by (cases "revoke_token_family (RefreshToken_family_id tok) t")
      (simp add: validate_refresh_def get_refresh_token_def)
qed (simp add: validate_refresh_def get_refresh_token_def)

lemma validate_refresh_OkD:
  assumes "validate_refresh lib now secret key t = (Inr (RefreshOutcome_Ok p), t')"
  shows "t' = t" "map_of (refresh_tokens t) (token_id lib secret key) = Some p"
    "now \<le> RefreshToken_expires_at p" "\<not> RefreshToken_used p"
  using assms by (auto simp: validate_refresh_eq split: option.splits if_splits)

lemma rotate_eq:
  assumes "map_of (refresh_tokens t) (RefreshToken_id p) = Some p'"
  shows "rotate_refresh_token p q t =
    (Inr (), snd (save_refresh_token q (snd (mark_refresh_used (RefreshToken_id p) t))))"
  using assms by (simp add: rotate_refresh_token_def mark_refresh_used_def save_refresh_token_def Let_def)

lemma validate_spent:
  assumes "refresh_table.spent (token_id lib secret key) t"
  shows "isl (fst (validate_refresh lib now secret key t))"
  using assms by (auto simp: refresh_table.spent_def validate_refresh_eq split: option.splits)

lemma validate_keeps:
  shows "families_ok t \<Longrightarrow> families_ok (snd (validate_refresh lib now secret key t))"
    and "refresh_table.spent k t \<Longrightarrow> refresh_table.spent k (snd (validate_refresh lib now secret key t))"
  by (auto simp: validate_refresh_eq refresh_table.ok_revoke refresh_table.spent_revoke split: option.splits)

section \<open>Properties\<close>

text \<open>
  C38: Replaying a rotated refresh token burns its family. When a secret was validated and rotated
  to a replacement of the same family under another id, the rotation succeeds. Presenting the old
  secret again up to its expiry is answered \<open>Reuse\<close>; after that, no secret of a token of that
  family, the replacement included, is accepted any more at any time. Expiry is checked first: once
  the old token has expired, the replay is answered \<open>Expired\<close>, the store is left as it is, and the
  replacement stays valid until its own expiry.
\<close>

theorem refresh_replay_burns_family:
  assumes "families_ok t" and "validate_refresh lib now secret key t = (Inr (RefreshOutcome_Ok p), t1)"
    and "RefreshToken_id q \<noteq> RefreshToken_id p" "RefreshToken_family_id q = RefreshToken_family_id p"
  shows "\<exists>t2 t3. rotate_refresh_token p q t1 = (Inr (), t2) \<and>
    get_refresh_token (RefreshToken_id q) t2 = Inr q \<and>
    validate_refresh lib now' secret key t2 =
      (if now' \<le> RefreshToken_expires_at p then (Inl RefreshRotateError_Reuse, t3)
       else (Inl RefreshRotateError_Expired, t2)) \<and>
    (\<forall>secret' tok. map_of (refresh_tokens t2) (token_id lib secret' key) = Some tok \<and>
       RefreshToken_family_id tok = RefreshToken_family_id p \<longrightarrow>
       (\<forall>now''. validate_refresh lib now'' secret' key t3 = (Inl RefreshRotateError_NotFound, t3)))"
proof -
  note v = validate_refresh_OkD [OF assms(2)]
  from v(2) assms(1) have id: "RefreshToken_id p = token_id lib secret key" by (auto simp: families_ok_def)
  define t2 where "t2 = snd (save_refresh_token q (snd (mark_refresh_used (RefreshToken_id p) t)))"
  have rot: "rotate_refresh_token p q t1 = (Inr (), t2)"
    unfolding t2_def v(1) using v(2) id by (intro rotate_eq) simp
  have ok2: "families_ok t2"
    unfolding t2_def by (intro refresh_table.ok_save refresh_table.ok_mark assms(1))
  have old: "map_of (refresh_tokens t2) (token_id lib secret key) = Some (p\<lparr>RefreshToken_used := True\<rparr>)"
    using v(2) assms(3) unfolding t2_def id by (simp add: refresh_table.save_get) (simp add: mark_refresh_used_def)
  define t3 where "t3 = snd (revoke_token_family (RefreshToken_family_id p) t2)"
  have replay: "validate_refresh lib now' secret key t2 =
      (if now' \<le> RefreshToken_expires_at p then (Inl RefreshRotateError_Reuse, t3)
       else (Inl RefreshRotateError_Expired, t2))"
    using old by (simp add: validate_refresh_eq t3_def)
  have "map_of (refresh_tokens t3) (token_id lib secret' key) = None"
    if "map_of (refresh_tokens t2) (token_id lib secret' key) = Some tok"
      "RefreshToken_family_id tok = RefreshToken_family_id p" for secret' tok
    using that refresh_table.revoke_get [of _ t2] refresh_table.revoke_family [OF ok2] unfolding t3_def
    by (metis option.exhaust option.inject)
  then have "\<forall>secret' tok. map_of (refresh_tokens t2) (token_id lib secret' key) = Some tok \<and>
       RefreshToken_family_id tok = RefreshToken_family_id p \<longrightarrow>
       (\<forall>now''. validate_refresh lib now'' secret' key t3 = (Inl RefreshRotateError_NotFound, t3))"
    by (simp add: validate_refresh_eq)
  moreover have "get_refresh_token (RefreshToken_id q) t2 = Inr q"
    unfolding t2_def by (simp add: get_refresh_token_def refresh_table.save_get)
  ultimately show ?thesis using rot replay by blast
qed

text \<open>
  Validation does not spend the token. Two requests that both validate a secret before either
  rotates it both succeed, both rotations succeed, and two unused tokens of the family are then
  stored: the reuse is not detected.
\<close>

theorem refresh_race:
  assumes "families_ok t" and "validate_refresh lib now secret key t = (Inr (RefreshOutcome_Ok p), t1)"
    and "now \<le> now'" "now' \<le> RefreshToken_expires_at p"
    and "distinct [RefreshToken_id p, RefreshToken_id q1, RefreshToken_id q2]"
  shows "\<exists>t2 t3. validate_refresh lib now' secret key t1 = (Inr (RefreshOutcome_Ok p), t1) \<and>
    rotate_refresh_token p q1 t1 = (Inr (), t2) \<and> rotate_refresh_token p q2 t2 = (Inr (), t3) \<and>
    get_refresh_token (RefreshToken_id q1) t3 = Inr q1 \<and> get_refresh_token (RefreshToken_id q2) t3 = Inr q2"
proof -
  note v = validate_refresh_OkD [OF assms(2)]
  from v(2) assms(1) have id: "RefreshToken_id p = token_id lib secret key" by (auto simp: families_ok_def)
  define t2 where "t2 = snd (save_refresh_token q1 (snd (mark_refresh_used (RefreshToken_id p) t)))"
  define t3 where "t3 = snd (save_refresh_token q2 (snd (mark_refresh_used (RefreshToken_id p) t2)))"
  have r1: "rotate_refresh_token p q1 t1 = (Inr (), t2)"
    unfolding t2_def v(1) using v(2) id by (intro rotate_eq) simp
  have "map_of (refresh_tokens t2) (RefreshToken_id p) = Some (p\<lparr>RefreshToken_used := True\<rparr>)"
    using v(2) assms(5) id unfolding t2_def by (simp add: refresh_table.save_get) (simp add: mark_refresh_used_def)
  then have r2: "rotate_refresh_token p q2 t2 = (Inr (), t3)"
    unfolding t3_def by (rule rotate_eq)
  have "get_refresh_token (RefreshToken_id q1) t3 = Inr q1"
    using assms(5) unfolding get_refresh_token_def t3_def t2_def
    by (simp add: refresh_table.save_get refresh_table.mark_get)
  moreover have "get_refresh_token (RefreshToken_id q2) t3 = Inr q2"
    unfolding get_refresh_token_def t3_def by (simp add: refresh_table.save_get)
  moreover have "validate_refresh lib now' secret key t1 = (Inr (RefreshOutcome_Ok p), t1)"
    using v assms(4) by (simp add: validate_refresh_eq)
  ultimately show ?thesis using r1 r2 by blast
qed

text \<open>The witnesses run both on the store with one fresh token, hashed by the identity.\<close>

definition sample_lib :: CryptoLib where
  "sample_lib = \<lparr>sha256_digest = (\<lambda>s. s), base64_url_no_pad = (\<lambda>s. s),
     blake3_keyed = (\<lambda>k s. s), hex_encode = (\<lambda>s. s)\<rparr>"

definition sample_token_store :: GrantTables where
  "sample_token_store = snd (save_refresh_token sample_refresh GrantTables_default)"

lemma sample_token_store_facts:
  "families_ok sample_token_store"
  "validate_refresh sample_lib 5 ''r'' [] sample_token_store = (Inr (RefreshOutcome_Ok sample_refresh), sample_token_store)"
proof -
  have "families_ok GrantTables_default" by (simp add: families_ok_def GrantTables_default_def)
  then show "families_ok sample_token_store"
    unfolding sample_token_store_def by (rule families_ok_save)
  show "validate_refresh sample_lib 5 ''r'' [] sample_token_store =
      (Inr (RefreshOutcome_Ok sample_refresh), sample_token_store)"
    by (simp add: validate_refresh_eq sample_lib_def sample_token_store_def sample_refresh_def
        refresh_token_hash_def token_hash_def save_refresh_token_def Let_def)
qed

theorem refresh_replay_burns_family_witness:
  "\<exists>t2 t3. rotate_refresh_token sample_refresh (sample_refresh\<lparr>RefreshToken_id := RefreshTokenId ''q''\<rparr>)
      sample_token_store = (Inr (), t2) \<and>
    validate_refresh sample_lib 6 ''r'' [] t2 = (Inl RefreshRotateError_Reuse, t3)"
  using refresh_replay_burns_family [OF sample_token_store_facts,
      of "sample_refresh\<lparr>RefreshToken_id := RefreshTokenId ''q''\<rparr>" 6]
  by (auto simp: sample_refresh_def)

theorem refresh_race_witness:
  "let q = sample_refresh\<lparr>RefreshToken_id := RefreshTokenId ''q''\<rparr>;
       p = sample_refresh\<lparr>RefreshToken_id := RefreshTokenId ''p''\<rparr>
   in \<exists>t2 t3. rotate_refresh_token sample_refresh q sample_token_store = (Inr (), t2) \<and>
        rotate_refresh_token sample_refresh p t2 = (Inr (), t3) \<and>
        get_refresh_token (RefreshTokenId ''q'') t3 = Inr q \<and> get_refresh_token (RefreshTokenId ''p'') t3 = Inr p"
  using refresh_race [OF sample_token_store_facts, of 6
      "sample_refresh\<lparr>RefreshToken_id := RefreshTokenId ''q''\<rparr>"
      "sample_refresh\<lparr>RefreshToken_id := RefreshTokenId ''p''\<rparr>"]
  by (simp add: sample_refresh_def Let_def)

end
