(* ===== verification/Samples.thy ===== *)
theory Samples
  imports Core_Entities
begin

text \<open>
  A realm and a client with the settings of the fixtures the crates' tests use. The theorems are
  stated for every realm and client; these are the concrete inputs at which the later theories apply
  them.
\<close>

definition sample_realm :: Realm where
  "sample_realm = \<lparr>Realm_id = RealmId 1, Realm_slug = ''t'', Realm_display_name = ''T'',
     Realm_frontend_url = None, Realm_admin_frontend_url = None, Realm_enabled = True,
     Realm_ssl_required = SslRequirement_ExternalRequests, Realm_login = LoginSettings_default,
     Realm_registration = \<lparr>RegistrationPolicy_enabled = False,
       RegistrationPolicy_email_as_username = False, RegistrationPolicy_require_terms_acceptance = False\<rparr>,
     Realm_session_policy = SessionPolicy_default, Realm_token_policy = TokenPolicy_default,
     Realm_brute_force = BruteForcePolicy_default, Realm_password_policy = PasswordPolicy_default,
     Realm_otp_policy = \<lparr>OtpPolicy_kind = OtpKind_Totp, OtpPolicy_algorithm = OtpAlgorithm_Sha1,
       OtpPolicy_digits = 6, OtpPolicy_look_ahead_window = 1, OtpPolicy_period_seconds = 30,
       OtpPolicy_initial_counter = 0\<rparr>,
     Realm_webauthn_policy = \<lparr>WebauthnPolicy_relying_party_id = None,
       WebauthnPolicy_relying_party_name = [], WebauthnPolicy_signature_algorithms = [],
       WebauthnPolicy_attestation_conveyance_preference = [],
       WebauthnPolicy_authenticator_attachment = None, WebauthnPolicy_require_resident_key = False,
       WebauthnPolicy_user_verification = [], WebauthnPolicy_assertion_as_step = False\<rparr>,
     Realm_acr_policy = \<lparr>AcrPolicy_levels = []\<rparr>,
     Realm_sender_constraint_default = SenderConstraint_None,
     Realm_theme_binding = \<lparr>ThemeBinding_login = None, ThemeBinding_admin = None,
       ThemeBinding_email = None, ThemeBinding_account = None\<rparr>,
     Realm_localization = \<lparr>LocalizationPolicy_default_locale = ''en'',
       LocalizationPolicy_supported_locales = [''en'']\<rparr>,
     Realm_events = \<lparr>EventConfig_enabled = True, EventConfig_admin_enabled = True,
       EventConfig_login_enabled = True, EventConfig_events_listeners = [],
       EventConfig_enabled_events = [], EventConfig_retention_days = 30\<rparr>,
     Realm_default_groups = [],
     Realm_default_roles = \<lparr>DefaultRoles_realm_roles = [], DefaultRoles_client_roles = []\<rparr>,
     Realm_organizations_enabled = True,
     Realm_organization_policy = \<lparr>OrganizationPolicy_default_invitation_ttl_days = 7,
       OrganizationPolicy_default_role_for_self_signup = None,
       OrganizationPolicy_require_domain_verification = True,
       OrganizationPolicy_auto_join_on_domain_match = False\<rparr>,
     Realm_created_at = 0, Realm_updated_at = 0\<rparr>"

definition sample_client :: Client where
  "sample_client = \<lparr>Client_id = ClientId 1, Client_realm_id = RealmId 1, Client_client_id = ''app'',
     Client_display_name = None, Client_kind = ClientKind_Confidential,
     Client_grants = \<lparr>GrantPolicy_authorization_code = True, GrantPolicy_refresh_token = True,
       GrantPolicy_client_credentials = True, GrantPolicy_password = True,
       GrantPolicy_device_code = True, GrantPolicy_token_exchange = True\<rparr>,
     Client_auth_method = ClientAuthMethod_ClientSecretBasic,
     Client_flow_binding = \<lparr>FlowBinding_browser = None, FlowBinding_direct_grant = None,
       FlowBinding_registration = None, FlowBinding_reset_credentials = None,
       FlowBinding_client_authentication = None\<rparr>,
     Client_default_scopes = [], Client_optional_scopes = [], Client_redirect_uris = [],
     Client_post_logout_redirect_uris = [], Client_web_origins = [],
     Client_access_token_type = AccessTokenType_Jwt,
     Client_consent = \<lparr>ConsentPolicy_required = False, ConsentPolicy_display_on_consent_screen = False,
       ConsentPolicy_consent_screen_text = None\<rparr>,
     Client_access_token_lifespan = None, Client_refresh_token_lifespan = None,
     Client_access_token_signing_alg = None, Client_front_channel_logout_enabled = False,
     Client_backchannel_logout_url = None, Client_client_authentication_keys = [],
     Client_pairwise_sub_algorithm = None, Client_saml_sp_config = None, Client_enabled = True,
     Client_created_at = 0, Client_updated_at = 0\<rparr>"

end
