(* ===== verification/OAuth_Grants.thy ===== *)
theory OAuth_Grants
  imports OAuth_Refresh Samples
begin

text \<open>
  The grant engines, \<^verbatim>\<open>crates/geonosis-protocol-oauth/src/grants.rs\<close>. The token issuer is the record
  of the methods of the trait \<open>TokenIssuer\<close>, an argument as it is in the code; what a call reads of
  the clock and draws at random is the record \<open>Fresh\<close>.
\<close>

datatype GrantError =
    GrantError_OAuth OAuthError | GrantError_Storage string
  | GrantError_Pkce PkceError | GrantError_Internal string

datatype TokenType = TokenType_Bearer | TokenType_Dpop

record IssuedTokens =
  IssuedTokens_access_token :: string
  IssuedTokens_access_token_expires_in :: i64
  IssuedTokens_id_token :: "string option"
  IssuedTokens_refresh_token :: "string option"
  IssuedTokens_scope :: string
  IssuedTokens_token_type :: TokenType
  IssuedTokens_session_id :: SessionId

record TokenIssuer =
  mint_access_token :: "Realm \<Rightarrow> Client \<Rightarrow> Subject \<Rightarrow> SessionId \<Rightarrow> ScopeName list \<Rightarrow> GrantError + string \<times> i64"
  mint_id_token :: "Realm \<Rightarrow> Client \<Rightarrow> Subject \<Rightarrow> SessionId \<Rightarrow> ScopeName list \<Rightarrow> string option \<Rightarrow>
    string option \<Rightarrow> GrantError + string"
  refresh_hash_key :: "RealmId \<Rightarrow> string"

record Fresh =
  now_checked :: DateTime
  now_issued :: DateTime
  now_expiry :: DateTime
  fresh_secret :: string
  fresh_family :: TokenFamilyId
  fresh_session :: SessionId

definition oauth :: "OAuthError \<Rightarrow> GrantError + 'a" where
  "oauth e = Inl (GrantError_OAuth e)"

definition scope_has :: "string \<Rightarrow> ScopeName list \<Rightarrow> bool" where
  "scope_has name scope = list_ex (\<lambda>s. ScopeName_as_str s = name) scope"

definition scope_join :: "ScopeName list \<Rightarrow> string" where
  "scope_join scope = join_space (map ScopeName_as_str scope)"

section \<open>The authorization-code grant\<close>

record AuthorizationCodeGrant =
  AuthorizationCodeGrant_code :: CodeId
  AuthorizationCodeGrant_code_verifier :: "string option"
  AuthorizationCodeGrant_redirect_uri :: Url
  AuthorizationCodeGrant_client_id :: string

text \<open>Step 5 of \<open>exchange\<close>.\<close>

definition check_pkce ::
  "'l CryptoLib_scheme \<Rightarrow> AuthorizationCodeGrant \<Rightarrow> Client \<Rightarrow> CodeGrant \<Rightarrow> GrantError + unit" where
  "check_pkce lib self client code =
     (case CodeGrant_code_challenge code of
        Some challenge \<Rightarrow>
          (case AuthorizationCodeGrant_code_verifier self of
             None \<Rightarrow> oauth (invalid_grant ''code_verifier required'')
           | Some v \<Rightarrow>
               (case verify_code_verifier_against_challenge lib
                       (CodeChallengeMethod_as_str (CodeChallenge_method challenge)) v
                       (CodeChallenge_challenge challenge) of
                  Inl e \<Rightarrow> Inl (GrantError_Pkce e)
                | Inr _ \<Rightarrow> Inr ()))
      | None \<Rightarrow>
          if Client_kind client = ClientKind_Public
          then oauth (invalid_grant ''PKCE required for public clients'')
          else Inr ())"

text \<open>\<open>Duration::from_std(d).unwrap_or_default()\<close>.\<close>

definition from_std_or_default :: "Duration \<Rightarrow> ChronoDuration" where
  "from_std_or_default d = unwrap_or (chrono_from_std d) 0"

text \<open>Steps 6 and 7: the minting and the refresh token.\<close>

definition code_refresh_token ::
  "'l CryptoLib_scheme \<Rightarrow> TokenIssuer \<Rightarrow> Fresh \<Rightarrow> Client \<Rightarrow> Realm \<Rightarrow> CodeGrant \<Rightarrow> RefreshToken" where
  "code_refresh_token lib issuer fresh client realm code =
     \<lparr>RefreshToken_id = RefreshTokenId
        (refresh_token_hash lib (fresh_secret fresh) (refresh_hash_key issuer (Realm_id realm))),
      RefreshToken_family_id = fresh_family fresh,
      RefreshToken_realm_id = Realm_id realm,
      RefreshToken_client_id = Client_id client,
      RefreshToken_user_id = CodeGrant_user_id code,
      RefreshToken_session_id = CodeGrant_session_id code,
      RefreshToken_scope = CodeGrant_scope code,
      RefreshToken_issued_at = now_issued fresh,
      RefreshToken_expires_at = now_expiry fresh +
        from_std_or_default (TokenPolicy_refresh_token_lifespan (Realm_token_policy realm)),
      RefreshToken_used = False\<rparr>"

definition mint_code_tokens ::
  "'l CryptoLib_scheme \<Rightarrow> TokenIssuer \<Rightarrow> Fresh \<Rightarrow> Client \<Rightarrow> Realm \<Rightarrow> CodeGrant \<Rightarrow> 'a GrantTables_scheme \<Rightarrow>
   (GrantError + IssuedTokens) \<times> 'a GrantTables_scheme" where
  "mint_code_tokens lib issuer fresh client realm code t =
     (let subject = Subject_Local (CodeGrant_user_id code);
          session = CodeGrant_session_id code; scope = CodeGrant_scope code in
      case mint_access_token issuer realm client subject session scope of
        Inl e \<Rightarrow> (Inl e, t)
      | Inr (access, exp) \<Rightarrow>
          (case (if scope_has ''openid'' scope
                 then map_sum id Some (mint_id_token issuer realm client subject session scope
                        (CodeGrant_nonce code) (CodeGrant_acr code))
                 else Inr None) of
             Inl e \<Rightarrow> (Inl e, t)
           | Inr id_token \<Rightarrow>
               (case (if Client_kind client \<noteq> ClientKind_Public \<or> scope_has ''offline_access'' scope
                      then (case save_refresh_token (code_refresh_token lib issuer fresh client realm code) t of
                              (Inl e, t') \<Rightarrow> (Inl (GrantError_Storage (StorageError_to_string e)), t')
                            | (Inr _, t') \<Rightarrow> (Inr (Some (fresh_secret fresh)), t'))
                      else (Inr None, t)) of
                  (Inl e, t') \<Rightarrow> (Inl e, t')
                | (Inr refresh, t') \<Rightarrow>
                    (Inr \<lparr>IssuedTokens_access_token = access,
                          IssuedTokens_access_token_expires_in = exp,
                          IssuedTokens_id_token = id_token,
                          IssuedTokens_refresh_token = refresh,
                          IssuedTokens_scope = scope_join scope,
                          IssuedTokens_token_type = TokenType_Bearer,
                          IssuedTokens_session_id = session\<rparr>, t'))))"

definition AuthorizationCodeGrant_exchange ::
  "'l CryptoLib_scheme \<Rightarrow> TokenIssuer \<Rightarrow> Fresh \<Rightarrow> AuthorizationCodeGrant \<Rightarrow> Client \<Rightarrow> Realm \<Rightarrow> 'a GrantTables_scheme \<Rightarrow>
   (GrantError + IssuedTokens) \<times> 'a GrantTables_scheme" where
  "AuthorizationCodeGrant_exchange lib issuer fresh self client realm t =
     (case consume_code (AuthorizationCodeGrant_code self) t of
        (Inl _, t') \<Rightarrow> (oauth (invalid_grant ''code unknown or already used''), t')
      | (Inr code, t') \<Rightarrow>
          if CodeGrant_expires_at code < now_checked fresh
          then (oauth (invalid_grant ''code expired''), t')
          else if Client_client_id client \<noteq> AuthorizationCodeGrant_client_id self
          then (oauth (invalid_grant ''client_id mismatch''), t')
          else if CodeGrant_redirect_uri code \<noteq> AuthorizationCodeGrant_redirect_uri self
          then (oauth (invalid_grant ''redirect_uri mismatch''), t')
          else (case check_pkce lib self client code of
                  Inl e \<Rightarrow> (Inl e, t')
                | Inr _ \<Rightarrow> mint_code_tokens lib issuer fresh client realm code t'))"

section \<open>The client-credentials grant, token exchange types, grant policy\<close>

record ClientCredentialsGrant =
  ClientCredentialsGrant_scope :: "ScopeName list"

definition ClientCredentialsGrant_exchange ::
  "TokenIssuer \<Rightarrow> Fresh \<Rightarrow> ClientCredentialsGrant \<Rightarrow> Client \<Rightarrow> Realm \<Rightarrow> GrantError + IssuedTokens" where
  "ClientCredentialsGrant_exchange issuer fresh self client realm =
     (if \<not> GrantPolicy_client_credentials (Client_grants client)
      then oauth (unauthorized_client ''client_credentials disabled'')
      else
        (let scope = ClientCredentialsGrant_scope self; session = fresh_session fresh in
         case mint_access_token issuer realm client (Subject_ServiceAccount (Client_id client)) session scope of
           Inl e \<Rightarrow> Inl e
         | Inr (access, exp) \<Rightarrow>
             Inr \<lparr>IssuedTokens_access_token = access,
                  IssuedTokens_access_token_expires_in = exp,
                  IssuedTokens_id_token = None,
                  IssuedTokens_refresh_token = None,
                  IssuedTokens_scope = scope_join scope,
                  IssuedTokens_token_type = TokenType_Bearer,
                  IssuedTokens_session_id = session\<rparr>))"

datatype TokenExchangeSubjectTokenType =
    TokenExchangeSubjectTokenType_AccessToken | TokenExchangeSubjectTokenType_RefreshToken
  | TokenExchangeSubjectTokenType_IdToken | TokenExchangeSubjectTokenType_SamlAssertion
  | TokenExchangeSubjectTokenType_JwtBearer

record TokenExchangeGrant =
  TokenExchangeGrant_subject_token :: string
  TokenExchangeGrant_subject_token_type :: TokenExchangeSubjectTokenType
  TokenExchangeGrant_actor_token :: "string option"
  TokenExchangeGrant_requested_audience :: "string list"
  TokenExchangeGrant_requested_scope :: "ScopeName list"

fun TokenExchangeSubjectTokenType_as_uri :: "TokenExchangeSubjectTokenType \<Rightarrow> string" where
  "TokenExchangeSubjectTokenType_as_uri TokenExchangeSubjectTokenType_AccessToken =
     ''urn:ietf:params:oauth:token-type:access_token''"
| "TokenExchangeSubjectTokenType_as_uri TokenExchangeSubjectTokenType_RefreshToken =
     ''urn:ietf:params:oauth:token-type:refresh_token''"
| "TokenExchangeSubjectTokenType_as_uri TokenExchangeSubjectTokenType_IdToken =
     ''urn:ietf:params:oauth:token-type:id_token''"
| "TokenExchangeSubjectTokenType_as_uri TokenExchangeSubjectTokenType_SamlAssertion =
     ''urn:ietf:params:oauth:token-type:saml2''"
| "TokenExchangeSubjectTokenType_as_uri TokenExchangeSubjectTokenType_JwtBearer =
     ''urn:ietf:params:oauth:token-type:jwt''"

definition TokenExchangeSubjectTokenType_from_uri :: "string \<Rightarrow> TokenExchangeSubjectTokenType option" where
  "TokenExchangeSubjectTokenType_from_uri s =
     (if s = ''urn:ietf:params:oauth:token-type:access_token''
      then Some TokenExchangeSubjectTokenType_AccessToken
      else if s = ''urn:ietf:params:oauth:token-type:refresh_token''
      then Some TokenExchangeSubjectTokenType_RefreshToken
      else if s = ''urn:ietf:params:oauth:token-type:id_token''
      then Some TokenExchangeSubjectTokenType_IdToken
      else if s = ''urn:ietf:params:oauth:token-type:saml2''
      then Some TokenExchangeSubjectTokenType_SamlAssertion
      else if s = ''urn:ietf:params:oauth:token-type:jwt''
      then Some TokenExchangeSubjectTokenType_JwtBearer
      else None)"

fun grant_enabled :: "GrantPolicy \<Rightarrow> GrantType \<Rightarrow> bool" where
  "grant_enabled p GrantType_AuthorizationCode = GrantPolicy_authorization_code p"
| "grant_enabled p GrantType_RefreshToken = GrantPolicy_refresh_token p"
| "grant_enabled p GrantType_ClientCredentials = GrantPolicy_client_credentials p"
| "grant_enabled p GrantType_Password = GrantPolicy_password p"
| "grant_enabled p GrantType_DeviceCode = GrantPolicy_device_code p"
| "grant_enabled p GrantType_TokenExchange = GrantPolicy_token_exchange p"

definition assert_grant_permitted :: "Client \<Rightarrow> GrantType \<Rightarrow> OAuthError + unit" where
  "assert_grant_permitted client grant =
     (if grant_enabled (Client_grants client) grant then Inr ()
      else Inl (OAuthError_new OAuthErrorCode_UnauthorizedClient
             (''grant_type '' @ GrantType_as_token_param grant @ '' disabled for client'')))"

lemma token_type_from_as_uri:
  "TokenExchangeSubjectTokenType_from_uri (TokenExchangeSubjectTokenType_as_uri ty) = Some ty"
  by (cases ty) (simp_all add: TokenExchangeSubjectTokenType_from_uri_def)

section \<open>What a successful exchange has checked\<close>

text \<open>The conditions of steps 2 to 5, as the caller sees them.\<close>

definition code_acceptable ::
  "'l CryptoLib_scheme \<Rightarrow> Fresh \<Rightarrow> AuthorizationCodeGrant \<Rightarrow> Client \<Rightarrow> CodeGrant \<Rightarrow> bool" where
  "code_acceptable lib fresh self client code \<longleftrightarrow>
     now_checked fresh \<le> CodeGrant_expires_at code \<and>
     AuthorizationCodeGrant_client_id self = Client_client_id client \<and>
     AuthorizationCodeGrant_redirect_uri self = CodeGrant_redirect_uri code \<and>
     (case CodeGrant_code_challenge code of
        None \<Rightarrow> Client_kind client \<noteq> ClientKind_Public
      | Some challenge \<Rightarrow> (\<exists>v. AuthorizationCodeGrant_code_verifier self = Some v \<and>
          43 \<le> length v \<and> length v \<le> 128 \<and> set v \<subseteq> set UNRESERVED \<and>
          base64_url_no_pad lib (sha256_digest lib v) = CodeChallenge_challenge challenge))"

lemma method_s256:
  "eq_ignore_ascii_case (CodeChallengeMethod_as_str m) ''S256''"
  "\<not> eq_ignore_ascii_case (CodeChallengeMethod_as_str m) ''plain''"
  by (cases m; simp add: eq_ignore_ascii_case_def)+

lemma verify_code_verifier_iff:
  "verify_code_verifier_against_challenge lib (CodeChallengeMethod_as_str m) v c = Inr () \<longleftrightarrow>
     43 \<le> length v \<and> length v \<le> 128 \<and> set v \<subseteq> set UNRESERVED \<and>
     base64_url_no_pad lib (sha256_digest lib v) = c"
  by (auto simp: verify_code_verifier_against_challenge_def method_s256 derive_challenge_s256_def
      validate_code_verifier_def constant_time_eq_str_iff list_all_iff split: sum.splits if_splits)

lemma check_pkce_iff:
  "check_pkce lib self client code = Inr () \<longleftrightarrow>
     (case CodeGrant_code_challenge code of
        None \<Rightarrow> Client_kind client \<noteq> ClientKind_Public
      | Some challenge \<Rightarrow> (\<exists>v. AuthorizationCodeGrant_code_verifier self = Some v \<and>
          43 \<le> length v \<and> length v \<le> 128 \<and> set v \<subseteq> set UNRESERVED \<and>
          base64_url_no_pad lib (sha256_digest lib v) = CodeChallenge_challenge challenge))"
proof (cases "CodeGrant_code_challenge code")
  case (Some ch)
  show ?thesis
  proof (cases "AuthorizationCodeGrant_code_verifier self")
    case (Some v)
    have "check_pkce lib self client code = Inr () \<longleftrightarrow>
        verify_code_verifier_against_challenge lib
          (CodeChallengeMethod_as_str (CodeChallenge_method ch)) v (CodeChallenge_challenge ch) = Inr ()"
      using Some \<open>CodeGrant_code_challenge code = Some ch\<close> by (simp add: check_pkce_def split: sum.splits)
    with Some \<open>CodeGrant_code_challenge code = Some ch\<close> show ?thesis
      by (simp add: verify_code_verifier_iff)
  qed (use Some in \<open>simp add: check_pkce_def oauth_def\<close>)
qed (simp add: check_pkce_def oauth_def)

lemma hm_remove_absent: "map_of m k = None \<Longrightarrow> hm_remove k m = m"
  by (auto simp: hm_remove_def map_of_eq_None_iff filter_id_conv)

lemma consume_code_eq:
  "consume_code c t = (case map_of (codes t) c of
     None \<Rightarrow> (Inl StorageError_NotFound, t)
   | Some g \<Rightarrow> (Inr g, t\<lparr>codes := hm_remove c (codes t)\<rparr>))"
  by (simp add: consume_code_def hm_remove_absent split: option.splits)

lemma save_refresh_token_ok: "fst (save_refresh_token tok t) = Inr ()"
  by (simp add: save_refresh_token_def Let_def)

lemma codes_save_refresh [simp]: "codes (snd (save_refresh_token tok t)) = codes t"
  by (simp add: save_refresh_token_def Let_def)

definition wants_refresh :: "Client \<Rightarrow> CodeGrant \<Rightarrow> bool" where
  "wants_refresh client code \<longleftrightarrow>
     Client_kind client \<noteq> ClientKind_Public \<or> scope_has ''offline_access'' (CodeGrant_scope code)"

lemma mint_code_tokens_eq:
  "mint_code_tokens lib issuer fresh client realm code t =
     (case mint_access_token issuer realm client (Subject_Local (CodeGrant_user_id code))
             (CodeGrant_session_id code) (CodeGrant_scope code) of
        Inl e \<Rightarrow> (Inl e, t)
      | Inr (access, exp) \<Rightarrow>
          (case (if scope_has ''openid'' (CodeGrant_scope code)
                 then map_sum id Some (mint_id_token issuer realm client (Subject_Local (CodeGrant_user_id code))
                        (CodeGrant_session_id code) (CodeGrant_scope code) (CodeGrant_nonce code) (CodeGrant_acr code))
                 else Inr None) of
             Inl e \<Rightarrow> (Inl e, t)
           | Inr id_token \<Rightarrow>
               (Inr \<lparr>IssuedTokens_access_token = access,
                     IssuedTokens_access_token_expires_in = exp,
                     IssuedTokens_id_token = id_token,
                     IssuedTokens_refresh_token = (if wants_refresh client code then Some (fresh_secret fresh) else None),
                     IssuedTokens_scope = scope_join (CodeGrant_scope code),
                     IssuedTokens_token_type = TokenType_Bearer,
                     IssuedTokens_session_id = CodeGrant_session_id code\<rparr>,
                if wants_refresh client code
                then snd (save_refresh_token (code_refresh_token lib issuer fresh client realm code) t) else t)))"
proof -
  obtain t' where "save_refresh_token (code_refresh_token lib issuer fresh client realm code) t = (Inr (), t')"
    using save_refresh_token_ok by (metis prod.collapse)
  then show ?thesis
    unfolding mint_code_tokens_def Let_def wants_refresh_def [symmetric]
    by (cases "wants_refresh client code") (simp_all cong: sum.case_cong prod.case_cong)
qed

lemma mint_code_tokens_codes [simp]: "codes (snd (mint_code_tokens lib issuer fresh client realm code t)) = codes t"
  unfolding mint_code_tokens_eq
  by (cases "wants_refresh client code") (simp_all split: sum.split prod.split)

text \<open>The exchange, case by case, without the store calls.\<close>

lemma exchange_eq:
  "AuthorizationCodeGrant_exchange lib issuer fresh self client realm t =
     (case map_of (codes t) (AuthorizationCodeGrant_code self) of
        None \<Rightarrow> (oauth (invalid_grant ''code unknown or already used''), t)
      | Some code \<Rightarrow>
          (let t' = t\<lparr>codes := hm_remove (AuthorizationCodeGrant_code self) (codes t)\<rparr> in
           if CodeGrant_expires_at code < now_checked fresh then (oauth (invalid_grant ''code expired''), t')
           else if Client_client_id client \<noteq> AuthorizationCodeGrant_client_id self
           then (oauth (invalid_grant ''client_id mismatch''), t')
           else if CodeGrant_redirect_uri code \<noteq> AuthorizationCodeGrant_redirect_uri self
           then (oauth (invalid_grant ''redirect_uri mismatch''), t')
           else (case check_pkce lib self client code of
                   Inl e \<Rightarrow> (Inl e, t')
                 | Inr _ \<Rightarrow> mint_code_tokens lib issuer fresh client realm code t')))"
  by (simp add: AuthorizationCodeGrant_exchange_def consume_code_eq Let_def split: option.splits)

lemma exchange_codes:
  "map_of (codes (snd (AuthorizationCodeGrant_exchange lib issuer fresh self client realm t))) =
     (map_of (codes t))(AuthorizationCodeGrant_code self := None)"
  unfolding exchange_eq by (auto simp: Let_def split: option.splits sum.splits)

lemma exchange_Inr:
  assumes "AuthorizationCodeGrant_exchange lib issuer fresh self client realm t = (Inr tokens, t')"
  obtains code where "map_of (codes t) (AuthorizationCodeGrant_code self) = Some code"
    "code_acceptable lib fresh self client code"
    "mint_code_tokens lib issuer fresh client realm code
       (t\<lparr>codes := hm_remove (AuthorizationCodeGrant_code self) (codes t)\<rparr>) = (Inr tokens, t')"
proof (cases "map_of (codes t) (AuthorizationCodeGrant_code self)")
  case None
  with assms show ?thesis by (simp add: exchange_eq oauth_def)
next
  case (Some code)
  have "check_pkce lib self client code = Inr ()"
    using assms Some by (simp add: exchange_eq oauth_def Let_def split: if_splits sum.splits)
  with assms Some have "code_acceptable lib fresh self client code"
    unfolding code_acceptable_def check_pkce_iff [symmetric]
    by (simp add: exchange_eq oauth_def Let_def split: if_splits)
  with that assms Some show ?thesis
    by (simp add: exchange_eq oauth_def Let_def split: if_splits sum.splits)
qed

lemma map_sum_Inr_Some:
  assumes "map_sum id Some x = Inr y"
  obtains z where "y = Some z"
  using assms by (cases x) auto

lemma mint_code_tokens_Inr:
  assumes "mint_code_tokens lib issuer fresh client realm code t = (Inr tokens, t')"
  shows "IssuedTokens_session_id tokens = CodeGrant_session_id code"
    "IssuedTokens_scope tokens = scope_join (CodeGrant_scope code)"
    "(IssuedTokens_id_token tokens \<noteq> None) = scope_has ''openid'' (CodeGrant_scope code)"
    "IssuedTokens_refresh_token tokens = (if wants_refresh client code then Some (fresh_secret fresh) else None)"
    "t' = (if wants_refresh client code
       then snd (save_refresh_token (code_refresh_token lib issuer fresh client realm code) t) else t)"
proof -
  let ?id = "if scope_has ''openid'' (CodeGrant_scope code)
    then map_sum id Some (mint_id_token issuer realm client (Subject_Local (CodeGrant_user_id code))
      (CodeGrant_session_id code) (CodeGrant_scope code) (CodeGrant_nonce code) (CodeGrant_acr code))
    else Inr None"
  obtain access exp where a: "mint_access_token issuer realm client (Subject_Local (CodeGrant_user_id code))
      (CodeGrant_session_id code) (CodeGrant_scope code) = Inr (access, exp)"
    using assms by (auto simp: mint_code_tokens_eq split: sum.splits prod.splits)
  obtain idt where i: "?id = Inr idt"
    using assms unfolding mint_code_tokens_eq a by (cases ?id) simp_all
  have "(idt \<noteq> None) = scope_has ''openid'' (CodeGrant_scope code)"
    using i by (auto split: if_splits elim!: map_sum_Inr_Some)
  with assms show "IssuedTokens_session_id tokens = CodeGrant_session_id code"
    "IssuedTokens_scope tokens = scope_join (CodeGrant_scope code)"
    "(IssuedTokens_id_token tokens \<noteq> None) = scope_has ''openid'' (CodeGrant_scope code)"
    "IssuedTokens_refresh_token tokens = (if wants_refresh client code then Some (fresh_secret fresh) else None)"
    "t' = (if wants_refresh client code
       then snd (save_refresh_token (code_refresh_token lib issuer fresh client realm code) t) else t)"
    unfolding mint_code_tokens_eq a i by auto
qed

section \<open>Properties\<close>

text \<open>
  C36: What a successful code exchange has checked and what it leaves. If tokens are issued, the
  code was stored and not expired, the redirect URI is the one of the authorization request, a code
  with a challenge was presented with a well-formed verifier of that challenge, a code without one
  by a client that is not public; the code is gone from the store; the tokens carry the session and
  scope of the code, an identity token exactly when the scope has \<open>openid\<close>, and a refresh token
  exactly for a non-public client or the scope \<open>offline_access\<close>, in which case it is stored
  under its hash, unused, for the user and session of the code.
\<close>

theorem code_exchange_sound:
  assumes "AuthorizationCodeGrant_exchange lib issuer fresh self client realm t = (Inr tokens, t')"
  shows "\<exists>code. map_of (codes t) (AuthorizationCodeGrant_code self) = Some code \<and>
    code_acceptable lib fresh self client code \<and>
    map_of (codes t') (AuthorizationCodeGrant_code self) = None \<and>
    IssuedTokens_session_id tokens = CodeGrant_session_id code \<and>
    IssuedTokens_scope tokens = scope_join (CodeGrant_scope code) \<and>
    (IssuedTokens_id_token tokens \<noteq> None \<longleftrightarrow> scope_has ''openid'' (CodeGrant_scope code)) \<and>
    (IssuedTokens_refresh_token tokens =
       (if wants_refresh client code then Some (fresh_secret fresh) else None)) \<and>
    (\<forall>secret. IssuedTokens_refresh_token tokens = Some secret \<longrightarrow>
       (\<exists>tok. get_refresh_token (token_id lib secret (refresh_hash_key issuer (Realm_id realm))) t' = Inr tok \<and>
          \<not> RefreshToken_used tok \<and> RefreshToken_user_id tok = CodeGrant_user_id code \<and>
          RefreshToken_session_id tok = CodeGrant_session_id code \<and>
          RefreshToken_scope tok = CodeGrant_scope code \<and> RefreshToken_client_id tok = Client_id client))"
proof -
  obtain code where c: "map_of (codes t) (AuthorizationCodeGrant_code self) = Some code"
    "code_acceptable lib fresh self client code"
    and m: "mint_code_tokens lib issuer fresh client realm code
       (t\<lparr>codes := hm_remove (AuthorizationCodeGrant_code self) (codes t)\<rparr>) = (Inr tokens, t')"
    by (rule exchange_Inr [OF assms])
  have "map_of (codes t') (AuthorizationCodeGrant_code self) = None"
    using exchange_codes [of lib issuer fresh self client realm t] assms by simp
  moreover have "\<exists>tok. get_refresh_token (token_id lib secret (refresh_hash_key issuer (Realm_id realm))) t' = Inr tok \<and>
      \<not> RefreshToken_used tok \<and> RefreshToken_user_id tok = CodeGrant_user_id code \<and>
      RefreshToken_session_id tok = CodeGrant_session_id code \<and>
      RefreshToken_scope tok = CodeGrant_scope code \<and> RefreshToken_client_id tok = Client_id client"
    if "IssuedTokens_refresh_token tokens = Some secret" for secret
    using mint_code_tokens_Inr(4,5) [OF m] that
    by (auto simp: get_refresh_token_def save_refresh_token_def code_refresh_token_def Let_def split: if_splits)
  ultimately show ?thesis using c mint_code_tokens_Inr [OF m] by (auto split: if_splits)
qed

text \<open>
  C37: An exchange burns the code whatever its outcome: every other code stays, this one is gone,
  and each later exchange of it, by any client with any parameters, is an \<open>invalid_grant\<close> error
  that changes nothing.
\<close>

theorem code_exchange_burns:
  assumes "t' = snd (AuthorizationCodeGrant_exchange lib issuer fresh self client realm t)"
    and "AuthorizationCodeGrant_code self' = AuthorizationCodeGrant_code self"
  shows "map_of (codes t') = (map_of (codes t))(AuthorizationCodeGrant_code self := None) \<and>
    AuthorizationCodeGrant_exchange lib' issuer' fresh' self' client' realm' t' =
      (Inl (GrantError_OAuth (invalid_grant ''code unknown or already used'')), t')"
proof -
  have "map_of (codes t') = (map_of (codes t))(AuthorizationCodeGrant_code self := None)"
    unfolding assms(1) by (rule exchange_codes)
  with assms(2) show ?thesis by (simp add: exchange_eq oauth_def)
qed

text \<open>
  The exchange does not look at the client and the realm a code was issued for: replacing both
  in the stored code changes neither the result nor the tokens, so a confidential client that
  learns a code and its redirect URI redeems a code issued to another client.
\<close>

theorem code_exchange_ignores_bound_client:
  "fst (AuthorizationCodeGrant_exchange lib issuer fresh self client realm (snd (save_code_grant g t))) =
   fst (AuthorizationCodeGrant_exchange lib issuer fresh self client realm
     (snd (save_code_grant (g\<lparr>CodeGrant_client_id := other, CodeGrant_realm_id := other_realm\<rparr>) t)))"
proof -
  have c: "check_pkce lib self client (g\<lparr>CodeGrant_client_id := other, CodeGrant_realm_id := other_realm\<rparr>) =
      check_pkce lib self client g"
    by (simp add: check_pkce_def)
  have m: "fst (mint_code_tokens lib issuer fresh client realm
        (g\<lparr>CodeGrant_client_id := other, CodeGrant_realm_id := other_realm\<rparr>) t1) =
      fst (mint_code_tokens lib issuer fresh client realm g t2)" for t1 t2 :: "'a GrantTables_scheme"
    by (auto simp: mint_code_tokens_eq wants_refresh_def split: sum.split prod.split)
  have n: "fst (mint_code_tokens lib issuer fresh client realm code t1) =
      fst (mint_code_tokens lib issuer fresh client realm code t2)" for code and t1 t2 :: "'a GrantTables_scheme"
    by (auto simp: mint_code_tokens_eq split: sum.split prod.split)
  show ?thesis
    by (cases "AuthorizationCodeGrant_code self = CodeGrant_code g")
      (auto simp: exchange_eq save_code_grant_def Let_def c oauth_def split: sum.splits option.splits
        intro: m [symmetric] n)
qed

text \<open>The witnesses redeem the sample code with an issuer that mints fixed tokens.\<close>

definition sample_issuer :: TokenIssuer where
  "sample_issuer = \<lparr>mint_access_token = (\<lambda>_ _ _ _ _. Inr (''access'', 300)),
     mint_id_token = (\<lambda>_ _ _ _ _ _ _. Inr ''id''), refresh_hash_key = (\<lambda>_. ''key'')\<rparr>"

definition sample_fresh :: Fresh where
  "sample_fresh = \<lparr>now_checked = 1, now_issued = 2, now_expiry = 2, fresh_secret = ''s1'',
     fresh_family = TokenFamilyId 7, fresh_session = SessionId ''n''\<rparr>"

definition sample_grant :: AuthorizationCodeGrant where
  "sample_grant = \<lparr>AuthorizationCodeGrant_code = CodeId ''c'', AuthorizationCodeGrant_code_verifier = None,
     AuthorizationCodeGrant_redirect_uri = ''https://app.example/cb'', AuthorizationCodeGrant_client_id = ''app''\<rparr>"

definition sample_code_store :: GrantTables where
  "sample_code_store = snd (save_code_grant sample_code GrantTables_default)"

lemma sample_exchange:
  "\<exists>tokens t'. AuthorizationCodeGrant_exchange sample_lib sample_issuer sample_fresh sample_grant
     sample_client sample_realm sample_code_store = (Inr tokens, t')"
  by (simp add: exchange_eq sample_code_store_def save_code_grant_def sample_code_def sample_grant_def
      sample_fresh_def sample_client_def check_pkce_def mint_code_tokens_eq sample_issuer_def scope_has_def
      Let_def)

theorem code_exchange_sound_witness:
  "\<exists>tokens t'. AuthorizationCodeGrant_exchange sample_lib sample_issuer sample_fresh sample_grant
     sample_client sample_realm sample_code_store = (Inr tokens, t') \<and>
     map_of (codes t') (CodeId ''c'') = None"
proof -
  obtain tokens t' where x: "AuthorizationCodeGrant_exchange sample_lib sample_issuer sample_fresh sample_grant
     sample_client sample_realm sample_code_store = (Inr tokens, t')"
    using sample_exchange by blast
  from code_exchange_sound [OF x] x show ?thesis by (auto simp: sample_grant_def)
qed

theorem code_exchange_burns_witness:
  "let t' = snd (AuthorizationCodeGrant_exchange sample_lib sample_issuer sample_fresh sample_grant
         sample_client sample_realm sample_code_store)
   in AuthorizationCodeGrant_exchange sample_lib sample_issuer sample_fresh sample_grant
         sample_client sample_realm t' =
      (Inl (GrantError_OAuth (invalid_grant ''code unknown or already used'')), t')"
  unfolding Let_def using code_exchange_burns [OF refl refl] by blast

end
