(* ===== verification/Oidc_Issuer.thy ===== *)
theory Oidc_Issuer
  imports Crypto_Kms OAuth_Grants
begin

text \<open>
  Minting and verifying tokens: the claim sets of \<^verbatim>\<open>crates/geonosis-core/src/token.rs\<close>, the issuer of
  \<^verbatim>\<open>crates/geonosis-protocol-oidc/src/issuer.rs\<close> over the software key service, and the bearer-token
  check of \<^verbatim>\<open>crates/geonosis-server/src/token_verify.rs\<close>. Serialization of the claims, HMAC and URL
  editing are third-party code, fields of \<open>OidcLib\<close>; the clock, the token id and the signer's
  randomness of one minting are the record \<open>MintDraw\<close>.
\<close>

section \<open>Claims (\<open>token.rs\<close>)\<close>

record OrgClaim =
  OrgClaim_alias :: string
  OrgClaim_id :: string
  OrgClaim_display_name :: "string option"
  OrgClaim_roles :: "string list"

record RealmAccess =
  RealmAccess_roles :: "string list"

record ResourceAccess =
  ResourceAccess_roles :: "string list"

record IdTokenClaims =
  IdTokenClaims_iss :: string
  IdTokenClaims_sub :: string
  IdTokenClaims_aud :: "string list"
  IdTokenClaims_exp :: i64
  IdTokenClaims_iat :: i64
  IdTokenClaims_auth_time :: i64
  IdTokenClaims_nonce :: "string option"
  IdTokenClaims_azp :: string
  IdTokenClaims_amr :: "Amr list option"
  IdTokenClaims_acr :: "string option"
  IdTokenClaims_sid :: "string option"
  IdTokenClaims_name :: "string option"
  IdTokenClaims_preferred_username :: "string option"
  IdTokenClaims_email :: "string option"
  IdTokenClaims_email_verified :: "bool option"

record AccessTokenClaims =
  AccessTokenClaims_iss :: string
  AccessTokenClaims_sub :: string
  AccessTokenClaims_aud :: "string list"
  AccessTokenClaims_exp :: i64
  AccessTokenClaims_iat :: i64
  AccessTokenClaims_jti :: string
  AccessTokenClaims_scope :: string
  AccessTokenClaims_azp :: string
  AccessTokenClaims_sid :: "string option"
  AccessTokenClaims_realm_access :: "RealmAccess option"
  AccessTokenClaims_resource_access :: "(string, ResourceAccess) btree_map"
  AccessTokenClaims_groups :: "string list option"
  AccessTokenClaims_org :: "OrgClaim option"
  AccessTokenClaims_act :: "Value option"
  AccessTokenClaims_ext_claims :: "(string, Value) btree_map"

record OidcLib = KmsLib +
  access_claims_to_json :: "AccessTokenClaims \<Rightarrow> string + string"
  access_claims_from_json :: "string \<Rightarrow> string + AccessTokenClaims"
  id_claims_to_json :: "IdTokenClaims \<Rightarrow> string + string"
  hmac_sha256 :: "string \<Rightarrow> string \<Rightarrow> string"
  url_path :: "Url \<Rightarrow> string"
  url_with_path :: "Url \<Rightarrow> string \<Rightarrow> Url"

record OidcIssuer =
  OidcIssuer_kms :: SoftwareKms
  OidcIssuer_refresh_hash_key :: string
  OidcIssuer_issuer_base :: Url

record AccessTokenExtras =
  AccessTokenExtras_org :: "OrgClaim option"
  AccessTokenExtras_act :: "Value option"
  AccessTokenExtras_audience :: "string list option"

definition AccessTokenExtras_default :: AccessTokenExtras where
  "AccessTokenExtras_default = \<lparr>AccessTokenExtras_org = None, AccessTokenExtras_act = None,
     AccessTokenExtras_audience = None\<rparr>"

record MintDraw =
  mint_now :: DateTime
  mint_jti :: string
  mint_rng :: string

section \<open>Machine arithmetic on seconds\<close>

text \<open>
  \<open>timestamp()\<close> is the whole seconds, rounded towards minus infinity; \<open>as_secs() as i64\<close> and a
  sum of two \<open>i64\<close> wrap in a release build.
\<close>

definition wrap_i64 :: "int \<Rightarrow> i64" where
  "wrap_i64 x = (x + 2 ^ 63) mod 2 ^ 64 - 2 ^ 63"

definition timestamp :: "DateTime \<Rightarrow> i64" where
  "timestamp t = t div 1000000000"

definition as_secs_i64 :: "Duration \<Rightarrow> i64" where
  "as_secs_i64 d = wrap_i64 (int (d div 1000000000))"

lemma wrap_i64_id: "- (2 ^ 63) \<le> x \<Longrightarrow> x < 2 ^ 63 \<Longrightarrow> wrap_i64 x = x"
  by (simp add: wrap_i64_def)

lemma wrap_i64_bounds: "- (2 ^ 63) \<le> wrap_i64 x \<and> wrap_i64 x < 2 ^ 63"
  using pos_mod_bound [of "2 ^ 64" "x + 2 ^ 63"] pos_mod_sign [of "2 ^ 64" "x + 2 ^ 63"]
  unfolding wrap_i64_def by simp

section \<open>The issuer (\<open>issuer.rs\<close>)\<close>

definition pairwise_subject_hash :: "'l OidcLib_scheme \<Rightarrow> string \<Rightarrow> string \<Rightarrow> string" where
  "pairwise_subject_hash lib sector user_id = base64_url_no_pad lib (hmac_sha256 lib sector user_id)"

definition resolve_sub :: "'l OidcLib_scheme \<Rightarrow> Subject \<Rightarrow> Client \<Rightarrow> string" where
  "resolve_sub lib subject client =
     (let raw = Subject_token_sub (show_ulid lib) subject in
      case Client_pairwise_sub_algorithm client of
        Some alg \<Rightarrow> if alg = ''sha256'' then pairwise_subject_hash lib (Client_client_id client) raw else raw
      | None \<Rightarrow> raw)"

definition issuer_url :: "'l OidcLib_scheme \<Rightarrow> Url \<Rightarrow> string \<Rightarrow> string" where
  "issuer_url lib base slug =
     url_with_path lib base
       (trim_end_char CHR ''/'' (trim_end_matches ''/realms'' (trim_end_char CHR ''/'' (url_path lib base)))
        @ ''/realms/'' @ slug)"

definition signing_alg :: "Realm \<Rightarrow> Client \<Rightarrow> JwsAlgorithm" where
  "signing_alg realm client =
     unwrap_or (Client_access_token_signing_alg client)
       (TokenPolicy_default_signing_alg (Realm_token_policy realm))"

fun JwtError_to_string :: "JwtError \<Rightarrow> string" where
  "JwtError_to_string (JwtError_Unsupported a) = ''unsupported alg for sign: '' @ JwsAlgorithm_as_str a"
| "JwtError_to_string (JwtError_Serialize e) = ''payload not serializable: '' @ e"
| "JwtError_to_string (JwtError_Sign e) = ''signing failed: '' @ e"
| "JwtError_to_string (JwtError_Key e) = ''key length / parse error: '' @ e"

definition sign_jwt_compat ::
  "'l OidcLib_scheme \<Rightarrow> ('c \<Rightarrow> string + string) \<Rightarrow> string \<Rightarrow> JwsHeader \<Rightarrow> 'c \<Rightarrow> PrivateMaterial \<Rightarrow> string + string" where
  "sign_jwt_compat lib to_json rng header claims key = map_sum JwtError_to_string id (sign_jwt lib to_json rng header claims key)"

fun SessionId_to_string :: "SessionId \<Rightarrow> string" where
  "SessionId_to_string (SessionId s) = s"

definition access_claims ::
  "'l OidcLib_scheme \<Rightarrow> MintDraw \<Rightarrow> OidcIssuer \<Rightarrow> Realm \<Rightarrow> Client \<Rightarrow> Subject \<Rightarrow> SessionId \<Rightarrow> ScopeName list \<Rightarrow>
   string list \<Rightarrow> OrgClaim option \<Rightarrow> Value option \<Rightarrow> AccessTokenClaims" where
  "access_claims lib draw self realm client subject session scope aud org act =
     (let exp_secs = as_secs_i64 (TokenPolicy_access_token_lifespan (Realm_token_policy realm)) in
      \<lparr>AccessTokenClaims_iss = issuer_url lib (OidcIssuer_issuer_base self) (Realm_slug realm),
       AccessTokenClaims_sub = resolve_sub lib subject client,
       AccessTokenClaims_aud = aud,
       AccessTokenClaims_exp = wrap_i64 (timestamp (mint_now draw) + exp_secs),
       AccessTokenClaims_iat = timestamp (mint_now draw),
       AccessTokenClaims_jti = mint_jti draw,
       AccessTokenClaims_scope = scope_join scope,
       AccessTokenClaims_azp = Client_client_id client,
       AccessTokenClaims_sid = Some (SessionId_to_string session),
       AccessTokenClaims_realm_access = None,
       AccessTokenClaims_resource_access = [],
       AccessTokenClaims_groups = None,
       AccessTokenClaims_org = org,
       AccessTokenClaims_act = act,
       AccessTokenClaims_ext_claims = []\<rparr>)"

definition OidcIssuer_mint_access_token ::
  "'l OidcLib_scheme \<Rightarrow> MintDraw \<Rightarrow> OidcIssuer \<Rightarrow> Realm \<Rightarrow> Client \<Rightarrow> Subject \<Rightarrow> SessionId \<Rightarrow> ScopeName list \<Rightarrow>
   GrantError + string \<times> i64" where
  "OidcIssuer_mint_access_token lib draw self realm client subject session scope =
     (let alg = signing_alg realm client in
      case active_signing_kid lib (Realm_id realm) alg (OidcIssuer_kms self) of
        Inl e \<Rightarrow> Inl (GrantError_Internal (KmsError_to_string lib e))
      | Inr kid \<Rightarrow>
     (case load_private lib kid (OidcIssuer_kms self) of
        Inl e \<Rightarrow> Inl (GrantError_Internal (KmsError_to_string lib e))
      | Inr private \<Rightarrow>
          (let exp_secs = as_secs_i64 (TokenPolicy_access_token_lifespan (Realm_token_policy realm));
               claims = access_claims lib draw self realm client subject session scope
                 [Client_client_id client] None None;
               header = JwsHeader_new alg (KeyId_to_string lib kid) ''JWT'' in
           case sign_jwt_compat lib (access_claims_to_json lib) (mint_rng draw) header claims private of
             Inl e \<Rightarrow> Inl (GrantError_Internal e)
           | Inr jwt \<Rightarrow> Inr (jwt, exp_secs))))"

definition OidcIssuer_mint_id_token ::
  "'l OidcLib_scheme \<Rightarrow> MintDraw \<Rightarrow> OidcIssuer \<Rightarrow> Realm \<Rightarrow> Client \<Rightarrow> Subject \<Rightarrow> SessionId \<Rightarrow> ScopeName list \<Rightarrow>
   string option \<Rightarrow> string option \<Rightarrow> GrantError + string" where
  "OidcIssuer_mint_id_token lib draw self realm client subject session scope nonce acr =
     (let alg = signing_alg realm client in
      case active_signing_kid lib (Realm_id realm) alg (OidcIssuer_kms self) of
        Inl e \<Rightarrow> Inl (GrantError_Internal (KmsError_to_string lib e))
      | Inr kid \<Rightarrow>
     (case load_private lib kid (OidcIssuer_kms self) of
        Inl e \<Rightarrow> Inl (GrantError_Internal (KmsError_to_string lib e))
      | Inr private \<Rightarrow>
          (let now = timestamp (mint_now draw);
               claims = \<lparr>IdTokenClaims_iss = issuer_url lib (OidcIssuer_issuer_base self) (Realm_slug realm),
                 IdTokenClaims_sub = resolve_sub lib subject client,
                 IdTokenClaims_aud = [Client_client_id client],
                 IdTokenClaims_exp =
                   wrap_i64 (now + as_secs_i64 (TokenPolicy_access_token_lifespan (Realm_token_policy realm))),
                 IdTokenClaims_iat = now,
                 IdTokenClaims_auth_time = now,
                 IdTokenClaims_nonce = nonce,
                 IdTokenClaims_azp = Client_client_id client,
                 IdTokenClaims_amr = None,
                 IdTokenClaims_acr = acr,
                 IdTokenClaims_sid = Some (SessionId_to_string session),
                 IdTokenClaims_name = None,
                 IdTokenClaims_preferred_username = None,
                 IdTokenClaims_email = None,
                 IdTokenClaims_email_verified = None\<rparr>;
               header = JwsHeader_new alg (KeyId_to_string lib kid) ''JWT'' in
           map_sum GrantError_Internal id
             (sign_jwt_compat lib (id_claims_to_json lib) (mint_rng draw) header claims private))))"

definition OidcIssuer_refresh_key :: "'l OidcLib_scheme \<Rightarrow> OidcIssuer \<Rightarrow> RealmId \<Rightarrow> string" where
  "OidcIssuer_refresh_key lib self realm =
     derive_realm_key lib (OidcIssuer_refresh_hash_key self) (RealmId_to_string lib realm) ''refresh''"

definition mint_access_token_with_extras ::
  "'l OidcLib_scheme \<Rightarrow> MintDraw \<Rightarrow> OidcIssuer \<Rightarrow> Realm \<Rightarrow> Client \<Rightarrow> Subject \<Rightarrow> SessionId \<Rightarrow> ScopeName list \<Rightarrow>
   AccessTokenExtras \<Rightarrow> GrantError + string \<times> i64" where
  "mint_access_token_with_extras lib draw self realm client subject session scope extras =
     (let alg = signing_alg realm client in
      case active_signing_kid lib (Realm_id realm) alg (OidcIssuer_kms self) of
        Inl e \<Rightarrow> Inl (GrantError_Internal (KmsError_to_string lib e))
      | Inr kid \<Rightarrow>
     (case load_private lib kid (OidcIssuer_kms self) of
        Inl e \<Rightarrow> Inl (GrantError_Internal (KmsError_to_string lib e))
      | Inr private \<Rightarrow>
          (let exp_secs = as_secs_i64 (TokenPolicy_access_token_lifespan (Realm_token_policy realm));
               aud = unwrap_or (AccessTokenExtras_audience extras) [Client_client_id client];
               claims = access_claims lib draw self realm client subject session scope aud
                 (AccessTokenExtras_org extras) (AccessTokenExtras_act extras);
               header = JwsHeader_new alg (KeyId_to_string lib kid) ''JWT'' in
           case sign_jwt_compat lib (access_claims_to_json lib) (mint_rng draw) header claims private of
             Inl e \<Rightarrow> Inl (GrantError_Internal e)
           | Inr jwt \<Rightarrow> Inr (jwt, exp_secs))))"

text \<open>The trait object the grant engines take: the methods above, for given draws.\<close>

definition oidc_issuer :: "'l OidcLib_scheme \<Rightarrow> MintDraw \<Rightarrow> MintDraw \<Rightarrow> OidcIssuer \<Rightarrow> TokenIssuer" where
  "oidc_issuer lib draw id_draw self =
     \<lparr>mint_access_token = OidcIssuer_mint_access_token lib draw self,
      mint_id_token = OidcIssuer_mint_id_token lib id_draw self,
      refresh_hash_key = OidcIssuer_refresh_key lib self\<rparr>"

section \<open>Verification of a bearer token (\<open>token_verify.rs\<close>)\<close>

datatype VerifyError =
    VerifyError_Malformed string | VerifyError_Signature string | VerifyError_Expired
  | VerifyError_IssuerMismatch string | VerifyError_Kms string

fun VerifyError_to_string :: "VerifyError \<Rightarrow> string" where
  "VerifyError_to_string (VerifyError_Malformed e) = ''malformed jwt: '' @ e"
| "VerifyError_to_string (VerifyError_Signature e) = ''signature invalid: '' @ e"
| "VerifyError_to_string VerifyError_Expired = ''expired''"
| "VerifyError_to_string (VerifyError_IssuerMismatch e) = ''issuer mismatch: token='' @ e"
| "VerifyError_to_string (VerifyError_Kms e) = ''kms: '' @ e"

fun JwtVerifyError_to_string :: "JwtVerifyError \<Rightarrow> string" where
  "JwtVerifyError_to_string (JwtVerifyError_Malformed e) = ''malformed compact JWS: '' @ e"
| "JwtVerifyError_to_string (JwtVerifyError_Base64 e) = ''base64url: '' @ e"
| "JwtVerifyError_to_string (JwtVerifyError_AlgMismatch h x) = ''alg mismatch: header='' @ h @ '' expected='' @ x"
| "JwtVerifyError_to_string (JwtVerifyError_KidMismatch h x) = ''kid mismatch: header='' @ h @ '' expected='' @ x"
| "JwtVerifyError_to_string JwtVerifyError_InvalidSignature = ''invalid signature''"
| "JwtVerifyError_to_string (JwtVerifyError_Key e) = ''verifier key invalid: '' @ e"

definition supported_alg :: "string \<Rightarrow> JwsAlgorithm option" where
  "supported_alg s =
     (if s = ''RS256'' then Some RS256 else if s = ''ES256'' then Some ES256
      else if s = ''EdDSA'' then Some EdDSA else None)"

definition expected_iss :: "Url \<Rightarrow> Realm \<Rightarrow> string" where
  "expected_iss base realm = trim_end_char CHR ''/'' base @ ''/realms/'' @ Realm_slug realm"

definition verify_access_token ::
  "'l OidcLib_scheme \<Rightarrow> DateTime \<Rightarrow> SoftwareKms \<Rightarrow> Url \<Rightarrow> Realm \<Rightarrow> string \<Rightarrow> VerifyError + AccessTokenClaims" where
  "verify_access_token lib now kms base realm token =
     (case split_char CHR ''.'' token of
        [] \<Rightarrow> Inl (VerifyError_Malformed ''no header'')
      | [_] \<Rightarrow> Inl (VerifyError_Malformed ''no payload'')
      | [_, _] \<Rightarrow> Inl (VerifyError_Malformed ''no sig'')
      | h_b64 # _ \<Rightarrow>
     (case base64_url_decode lib h_b64 of
        Inl e \<Rightarrow> Inl (VerifyError_Malformed (''invalid base64url: '' @ e))
      | Inr header_bytes \<Rightarrow>
     (case header_from_json lib header_bytes of
        Inl e \<Rightarrow> Inl (VerifyError_Malformed e)
      | Inr header \<Rightarrow>
     (case parse_ulid lib (JwsHeader_kid header) of
        Inl e \<Rightarrow> Inl (VerifyError_Malformed (''invalid id: '' @ e))
      | Inr u \<Rightarrow>
     (case supported_alg (JwsHeader_alg header) of
        None \<Rightarrow> Inl (VerifyError_Signature (''alg '' @ JwsHeader_alg header @ '' not supported''))
      | Some alg \<Rightarrow>
     (case load_public lib (KeyId u) kms of
        Inl e \<Rightarrow> Inl (VerifyError_Kms (KmsError_to_string lib e))
      | Inr public \<Rightarrow>
     (case verify_jwt lib (access_claims_from_json lib) token alg (JwsHeader_kid header) public of
        Inl e \<Rightarrow> Inl (VerifyError_Signature (JwtVerifyError_to_string e))
      | Inr claims \<Rightarrow>
          if AccessTokenClaims_exp claims < timestamp now then Inl VerifyError_Expired
          else if AccessTokenClaims_iss claims \<noteq> expected_iss base realm
          then Inl (VerifyError_IssuerMismatch (AccessTokenClaims_iss claims))
          else Inr claims)))))))"

section \<open>Issued tokens verify\<close>

text \<open>
  Documented behaviour of the crates: the JSON of a claim set parses back, and so does the text of
  an id.
\<close>

definition oidc_lib_laws :: "'l OidcLib_scheme \<Rightarrow> bool" where
  "oidc_lib_laws lib \<longleftrightarrow> jwt_lib_laws lib \<and>
     (\<forall>c s. access_claims_to_json lib c = Inr s \<longrightarrow> access_claims_from_json lib s = Inr c) \<and>
     (\<forall>u. parse_ulid lib (show_ulid lib u) = Inr u)"

text \<open>
  The documented alphabet of a slug (\<open>realm.rs\<close>): lower-case letters, digits and the hyphen. A path of
  such segments holds nothing that a URL library escapes or normalises.
\<close>

definition slug_char :: "char \<Rightarrow> bool" where
  "slug_char c \<longleftrightarrow> CHR ''a'' \<le> c \<and> c \<le> CHR ''z'' \<or> CHR ''0'' \<le> c \<and> c \<le> CHR ''9'' \<or> c = CHR ''-''"

definition plain_slug :: "string \<Rightarrow> bool" where
  "plain_slug s \<longleftrightarrow> s \<noteq> [] \<and> list_all slug_char s"

definition plain_path :: "string \<Rightarrow> bool" where
  "plain_path p \<longleftrightarrow> (\<exists>segments. segments \<noteq> [] \<and> list_all plain_slug segments \<and> p = concat (map ((#) CHR ''/'') segments))"

text \<open>
  A base URL that is an origin: its path is a slash, and setting a plain path appends it to the origin.
\<close>

definition origin_base :: "'l OidcLib_scheme \<Rightarrow> Url \<Rightarrow> bool" where
  "origin_base lib base \<longleftrightarrow> url_path lib base = ''/'' \<and>
     (\<forall>p. plain_path p \<longrightarrow> url_with_path lib base p = trim_end_char CHR ''/'' base @ p)"

lemma trim_end_matches_Nil: "pat \<noteq> [] \<Longrightarrow> trim_end_matches pat [] = []"
  by (subst trim_end_matches.simps) (simp add: strip_suffix_def)

lemma plain_realm_path: "plain_slug slug \<Longrightarrow> plain_path (''/realms/'' @ slug)"
  unfolding plain_path_def
  by (intro exI [of _ "[''realms'', slug]"]) (simp add: plain_slug_def slug_char_def less_eq_char_def)

lemma issuer_url_origin:
  assumes "origin_base lib base" and "plain_slug (Realm_slug realm)"
  shows "issuer_url lib base (Realm_slug realm) = expected_iss base realm"
  using assms plain_realm_path [OF assms(2)]
  by (simp add: origin_base_def issuer_url_def expected_iss_def trim_end_char_def trim_end_matches_Nil)

lemma mint_default_extras:
  "mint_access_token_with_extras lib draw self realm client subject session scope AccessTokenExtras_default =
     OidcIssuer_mint_access_token lib draw self realm client subject session scope"
  by (simp add: mint_access_token_with_extras_def OidcIssuer_mint_access_token_def AccessTokenExtras_default_def
      Let_def split: sum.split)

lemma mint_with_extras_Inr:
  assumes "mint_access_token_with_extras lib draw self realm client subject session scope extras = Inr (token, ttl)"
  obtains kid sk where
    "active_signing_kid lib (Realm_id realm) (signing_alg realm client) (OidcIssuer_kms self) = Inr kid"
    "load_private lib kid (OidcIssuer_kms self) = Inr sk"
    "sign_jwt lib (access_claims_to_json lib) (mint_rng draw)
       (JwsHeader_new (signing_alg realm client) (KeyId_to_string lib kid) ''JWT'')
       (access_claims lib draw self realm client subject session scope
          (unwrap_or (AccessTokenExtras_audience extras) [Client_client_id client])
          (AccessTokenExtras_org extras) (AccessTokenExtras_act extras)) sk = Inr token"
    "ttl = as_secs_i64 (TokenPolicy_access_token_lifespan (Realm_token_policy realm))"
proof -
  obtain kid sk where k:
    "active_signing_kid lib (Realm_id realm) (signing_alg realm client) (OidcIssuer_kms self) = Inr kid"
    "load_private lib kid (OidcIssuer_kms self) = Inr sk"
    using assms by (auto simp: mint_access_token_with_extras_def Let_def split: sum.splits)
  let ?jwt = "sign_jwt lib (access_claims_to_json lib) (mint_rng draw)
       (JwsHeader_new (signing_alg realm client) (KeyId_to_string lib kid) ''JWT'')
       (access_claims lib draw self realm client subject session scope
          (unwrap_or (AccessTokenExtras_audience extras) [Client_client_id client])
          (AccessTokenExtras_org extras) (AccessTokenExtras_act extras)) sk"
  have "?jwt = Inr token \<and> ttl = as_secs_i64 (TokenPolicy_access_token_lifespan (Realm_token_policy realm))"
    using assms k by (cases ?jwt) (simp_all add: mint_access_token_with_extras_def Let_def sign_jwt_compat_def)
  with k that show ?thesis by blast
qed

lemma supported_alg_key: "supported_alg (JwsAlgorithm_as_str (key_alg key)) = Some (key_alg key)"
  by (cases key) (simp_all add: supported_alg_def)

lemma verify_signed_token:
  assumes laws: "oidc_lib_laws lib"
    and pub: "load_public lib kid kms = Inr (public_of lib sk)"
    and sign: "sign_jwt lib (access_claims_to_json lib) rng
      (JwsHeader_new alg (KeyId_to_string lib kid) typ) claims sk = Inr token"
  shows "verify_access_token lib now kms base realm token =
    (if AccessTokenClaims_exp claims < timestamp now then Inl VerifyError_Expired
     else if AccessTokenClaims_iss claims \<noteq> expected_iss base realm
     then Inl (VerifyError_IssuerMismatch (AccessTokenClaims_iss claims)) else Inr claims)"
proof -
  have jl: "jwt_lib_laws lib" and json: "\<And>c s. access_claims_to_json lib c = Inr s \<Longrightarrow> access_claims_from_json lib s = Inr c"
    and ulid: "\<And>u. parse_ulid lib (show_ulid lib u) = Inr u"
    using laws by (auto simp: oidc_lib_laws_def)
  note rt = jwt_roundtrip [OF jl _ sign, of "access_claims_from_json lib", OF json]
  obtain h p s hb where split: "split_char CHR ''.'' token = [h, p, s]" and h: "base64_url_decode lib h = Inr hb"
    "header_from_json lib hb = Inr (JwsHeader_new alg (KeyId_to_string lib kid) typ)"
    using rt(3) by blast
  have kid: "parse_ulid lib (KeyId_to_string lib kid) = Inr u \<Longrightarrow> KeyId u = kid" for u
    by (cases kid) (simp add: ulid)
  obtain u where u: "parse_ulid lib (KeyId_to_string lib kid) = Inr u" "KeyId u = kid"
    by (cases kid) (simp add: ulid)
  show ?thesis
    using split h u pub rt(1,2) supported_alg_key [of sk]
    by (simp add: verify_access_token_def JwsHeader_new_def)
qed

section \<open>Properties\<close>

text \<open>
  C40: Tokens the issuer mints verify. With a well-formed key service, a base URL that is an origin,
  a realm whose slug is made of lower-case letters, digits and hyphens, and libraries that keep
  their documented laws, a minted access token (with or without extra claims) passes \<open>verify_access_token\<close> in its realm until it expires and yields the claims it was
  minted with: the resolved subject, the audience, the client, the scope and session it was asked
  for, and an expiry the configured lifespan after the minting; after that it is refused as expired.
\<close>

theorem access_token_roundtrip:
  assumes "oidc_lib_laws lib" and "kms_wf (OidcIssuer_kms self)" and "origin_base lib (OidcIssuer_issuer_base self)"
    and "plain_slug (Realm_slug realm)"
    and "mint_access_token_with_extras lib draw self realm client subject session scope extras = Inr (token, ttl)"
    and "claims = access_claims lib draw self realm client subject session scope
      (unwrap_or (AccessTokenExtras_audience extras) [Client_client_id client])
      (AccessTokenExtras_org extras) (AccessTokenExtras_act extras)"
  shows "verify_access_token lib now (OidcIssuer_kms self) (OidcIssuer_issuer_base self) realm token =
      (if AccessTokenClaims_exp claims < timestamp now then Inl VerifyError_Expired else Inr claims) \<and>
    AccessTokenClaims_sub claims = resolve_sub lib subject client \<and>
    AccessTokenClaims_azp claims = Client_client_id client \<and>
    AccessTokenClaims_scope claims = scope_join scope \<and>
    AccessTokenClaims_sid claims = Some (SessionId_to_string session) \<and>
    AccessTokenClaims_exp claims = wrap_i64 (timestamp (mint_now draw) + ttl)"
proof -
  obtain kid sk where k: "active_signing_kid lib (Realm_id realm) (signing_alg realm client) (OidcIssuer_kms self) = Inr kid"
    "load_private lib kid (OidcIssuer_kms self) = Inr sk"
    "sign_jwt lib (access_claims_to_json lib) (mint_rng draw)
       (JwsHeader_new (signing_alg realm client) (KeyId_to_string lib kid) ''JWT'') claims sk = Inr token"
    "ttl = as_secs_i64 (TokenPolicy_access_token_lifespan (Realm_token_policy realm))"
    using mint_with_extras_Inr [OF assms(5)] unfolding assms(6) by metis
  have "AccessTokenClaims_iss claims = expected_iss (OidcIssuer_issuer_base self) realm"
    using issuer_url_origin [OF assms(3,4)] by (simp add: assms(6) access_claims_def Let_def)
  then show ?thesis
    using verify_signed_token [OF assms(1) load_pair(1) [OF k(2)] k(3)] k(4)
    by (simp add: assms(6) access_claims_def Let_def)
qed

text \<open>
  Without those conditions on the slug the two ways in which the code writes the issuer may differ: the
  minting side lets the URL library set the path, the verifying side appends the slug as it is. Where
  they differ, as for a slug with a space, which the library escapes, every token of the realm is
  refused, from the moment it is minted.
\<close>

theorem mismatched_issuer_refused:
  assumes "oidc_lib_laws lib"
    and "issuer_url lib (OidcIssuer_issuer_base self) (Realm_slug realm) \<noteq> expected_iss (OidcIssuer_issuer_base self) realm"
    and "mint_access_token_with_extras lib draw self realm client subject session scope extras = Inr (token, ttl)"
  shows "verify_access_token lib now (OidcIssuer_kms self) (OidcIssuer_issuer_base self) realm token \<noteq> Inr claims"
proof -
  define c where "c = access_claims lib draw self realm client subject session scope
    (unwrap_or (AccessTokenExtras_audience extras) [Client_client_id client])
    (AccessTokenExtras_org extras) (AccessTokenExtras_act extras)"
  have iss: "AccessTokenClaims_iss c = issuer_url lib (OidcIssuer_issuer_base self) (Realm_slug realm)"
    by (simp add: c_def access_claims_def Let_def)
  obtain kid sk where k: "load_private lib kid (OidcIssuer_kms self) = Inr sk"
    "sign_jwt lib (access_claims_to_json lib) (mint_rng draw)
       (JwsHeader_new (signing_alg realm client) (KeyId_to_string lib kid) ''JWT'') c sk = Inr token"
    using mint_with_extras_Inr [OF assms(3)] unfolding c_def by metis
  then show ?thesis
    using verify_signed_token [OF assms(1) load_pair(1) [OF k(1)] k(2)] assms(2) iss by simp
qed

definition with_states :: "(KeyId \<Rightarrow> KeyState) \<Rightarrow> SoftwareKms \<Rightarrow> SoftwareKms" where
  "with_states f kms = kms\<lparr>SoftwareKms_store := map (\<lambda>(k, s).
     (k, s\<lparr>StoredKey_material := (StoredKey_material s)\<lparr>KeyMaterial_state := f k\<rparr>\<rparr>)) (SoftwareKms_store kms)\<rparr>"

lemma map_of_map_keyed: "map_of (map (\<lambda>(k, s). (k, g k s)) m) k = map_option (g k) (map_of m k)"
  by (induction m) auto

lemma map_of_with_states:
  "map_of (SoftwareKms_store (with_states f kms)) k =
     map_option (\<lambda>s. s\<lparr>StoredKey_material := (StoredKey_material s)\<lparr>KeyMaterial_state := f k\<rparr>\<rparr>)
       (map_of (SoftwareKms_store kms) k)"
  by (simp add: with_states_def map_of_map_keyed)

text \<open>
  Verification does not look at the state of a key: whatever states the keys of the service are
  put in, disabled included, every token is answered as before, although a disabled key is left out
  of the published key set and never signs.
\<close>

theorem key_state_ignored_by_verification:
  "verify_access_token lib now (with_states f kms) base realm token = verify_access_token lib now kms base realm token \<and>
   (f kid = KeyState_Disabled \<longrightarrow> kms_sign lib rng realm_id kid alg data (with_states f kms) \<noteq> Inr sig)"
proof -
  have lp: "load_public lib k (with_states f kms) = load_public lib k kms" for k
    by (cases "map_of (SoftwareKms_store kms) k")
      (simp_all add: load_public_def get_stored_def map_of_with_states)
  have "verify_access_token lib now (with_states f kms) base realm token = verify_access_token lib now kms base realm token"
    unfolding verify_access_token_def lp ..
  moreover have "kms_sign lib rng realm_id kid alg data (with_states f kms) \<noteq> Inr sig" if "f kid = KeyState_Disabled"
    using that by (cases "map_of (SoftwareKms_store kms) kid")
      (simp_all add: kms_sign_def get_stored_def map_of_with_states)
  ultimately show ?thesis by blast
qed

text \<open>
  The witnesses mint a token for the sample user with the seeded key and verify it. The library
  serializes the one claim set they need.
\<close>

definition sample_draw :: MintDraw where
  "sample_draw = \<lparr>mint_now = 0, mint_jti = ''j'', mint_rng = []\<rparr>"

definition sample_claims :: AccessTokenClaims where
  "sample_claims = \<lparr>AccessTokenClaims_iss = ''http://g/realms/t'', AccessTokenClaims_sub = ''ii'',
     AccessTokenClaims_aud = [''app''], AccessTokenClaims_exp = 300, AccessTokenClaims_iat = 0,
     AccessTokenClaims_jti = ''j'', AccessTokenClaims_scope = ''openid'', AccessTokenClaims_azp = ''app'',
     AccessTokenClaims_sid = Some ''s'', AccessTokenClaims_realm_access = None,
     AccessTokenClaims_resource_access = [], AccessTokenClaims_groups = None, AccessTokenClaims_org = None,
     AccessTokenClaims_act = None, AccessTokenClaims_ext_claims = []\<rparr>"

definition sample_oidc_lib :: OidcLib where
  "sample_oidc_lib = KmsLib.extend sample_kms_lib (OidcLib.fields
     (\<lambda>c. if c = sample_claims then Inr ''claims'' else Inl ''unsupported'') (\<lambda>s. Inr sample_claims)
     (\<lambda>c. Inr ''id'') (\<lambda>k m. m) (\<lambda>u. ''/'') (\<lambda>u p. trim_end_char CHR ''/'' u @ p))"

lemmas sample_oidc_simps = sample_oidc_lib_def KmsLib.defs OidcLib.defs sample_kms_simps

lemma sample_oidc_lib_laws: "oidc_lib_laws sample_oidc_lib"
  using sample_kms_lib_laws
  by (auto simp: oidc_lib_laws_def jwt_lib_laws_def sample_oidc_simps)

definition sample_oidc :: OidcIssuer where
  "sample_oidc = \<lparr>OidcIssuer_kms = sample_kms, OidcIssuer_refresh_hash_key = ''k'',
     OidcIssuer_issuer_base = ''http://g/''\<rparr>"

lemma sample_origin: "origin_base sample_oidc_lib (OidcIssuer_issuer_base sample_oidc)"
  by (simp add: origin_base_def sample_oidc_simps)

lemma sample_slug: "plain_slug (Realm_slug sample_realm)"
  by (simp add: plain_slug_def slug_char_def sample_realm_def less_eq_char_def)

lemma sample_access_claims:
  "access_claims sample_oidc_lib sample_draw sample_oidc sample_realm sample_client (Subject_Local (UserId 2))
     (SessionId ''s'') [ScopeName ''openid''] [Client_client_id sample_client] None None = sample_claims"
proof -
  have "issuer_url sample_oidc_lib (OidcIssuer_issuer_base sample_oidc) (Realm_slug sample_realm) = ''http://g/realms/t''"
    unfolding issuer_url_origin [OF sample_origin sample_slug]
    by (simp add: expected_iss_def sample_oidc_def sample_realm_def trim_end_char_def)
  then show ?thesis
    by (simp add: access_claims_def sample_claims_def sample_draw_def sample_realm_def sample_client_def
        TokenPolicy_default_def secs_def as_secs_i64_def wrap_i64_def timestamp_def resolve_sub_def scope_join_def
        sample_oidc_simps numeral_2_eq_2 Let_def)
qed

lemma sample_kms_store:
  "SoftwareKms_store sample_kms = [(KeyId 5, \<lparr>StoredKey_material = seeded_material sample_kms_lib 0 (KeyId 5) (RealmId 1) ''rsa'',
     StoredKey_private_pem = ''rsa''\<rparr>)]"
  by (simp add: sample_kms_def seed_realm_keys_def register_def MasterKey_wrap_def SoftwareKms_new_def
      hm_values_def hm_insert_def seeded_material_def sample_kms_simps)

lemma sample_mint:
  "\<exists>token ttl. mint_access_token_with_extras sample_oidc_lib sample_draw sample_oidc sample_realm sample_client
     (Subject_Local (UserId 2)) (SessionId ''s'') [ScopeName ''openid''] AccessTokenExtras_default = Inr (token, ttl)"
proof -
  have alg: "signing_alg sample_realm sample_client = RS256"
    by (simp add: signing_alg_def sample_client_def sample_realm_def TokenPolicy_default_def)
  have "active_signing_kid sample_oidc_lib (Realm_id sample_realm) RS256 (OidcIssuer_kms sample_oidc) = Inr (KeyId 5)"
    by (simp add: active_signing_kid_def sample_oidc_def sample_kms_store hm_values_def is_active_def
        seeded_material_def sample_realm_def)
  moreover have "load_private sample_oidc_lib (KeyId 5) (OidcIssuer_kms sample_oidc) = Inr (PrivateMaterial_Rs256 ''rsa'')"
    by (simp add: load_private_def get_stored_def sample_oidc_def sample_kms_store seeded_material_def
        pem_to_private_def sample_oidc_simps)
  moreover have "\<exists>token. sign_jwt_compat sample_oidc_lib (access_claims_to_json sample_oidc_lib) (mint_rng sample_draw)
      (JwsHeader_new RS256 (KeyId_to_string sample_oidc_lib (KeyId 5)) ''JWT'') sample_claims (PrivateMaterial_Rs256 ''rsa'') = Inr token"
    by (simp add: sign_jwt_compat_def sign_jwt_def sign_input_def JwsHeader_new_def sample_oidc_simps Let_def)
  ultimately show ?thesis
    using alg sample_access_claims
    by (auto simp: mint_access_token_with_extras_def AccessTokenExtras_default_def Let_def)
qed

theorem access_token_roundtrip_witness:
  "\<exists>token. verify_access_token sample_oidc_lib 0 sample_kms ''http://g/'' sample_realm token = Inr sample_claims"
proof -
  obtain token ttl where m: "mint_access_token_with_extras sample_oidc_lib sample_draw sample_oidc sample_realm sample_client
     (Subject_Local (UserId 2)) (SessionId ''s'') [ScopeName ''openid''] AccessTokenExtras_default = Inr (token, ttl)"
    using sample_mint by blast
  have wf: "kms_wf (OidcIssuer_kms sample_oidc)"
    unfolding sample_oidc_def OidcIssuer.simps sample_kms_def by (intro kms_wf_seed kms_wf_new)
  have c: "sample_claims = access_claims sample_oidc_lib sample_draw sample_oidc sample_realm sample_client
      (Subject_Local (UserId 2)) (SessionId ''s'') [ScopeName ''openid'']
      (unwrap_or (AccessTokenExtras_audience AccessTokenExtras_default) [Client_client_id sample_client])
      (AccessTokenExtras_org AccessTokenExtras_default) (AccessTokenExtras_act AccessTokenExtras_default)"
    using sample_access_claims by (simp add: AccessTokenExtras_default_def)
  from access_token_roundtrip [OF sample_oidc_lib_laws wf sample_origin sample_slug m c, of 0]
  have "verify_access_token sample_oidc_lib 0 sample_kms ''http://g/'' sample_realm token = Inr sample_claims"
    by (simp add: sample_oidc_def timestamp_def) (simp add: sample_claims_def)
  then show ?thesis by blast
qed

theorem key_state_ignored_by_verification_witness:
  "kms_sign sample_oidc_lib [] (RealmId 1) (KeyId 5) RS256 ''m'' (with_states (\<lambda>_. KeyState_Disabled) sample_kms) \<noteq> Inr ''m''"
  using key_state_ignored_by_verification [of sample_oidc_lib 0 "\<lambda>_. KeyState_Disabled" sample_kms] by blast

end
