(* ===== verification/Std_Text.thy ===== *)
theory Std_Text
  imports Geo_Prelude
begin

text \<open>
  The text functions of Rust's standard library that the request handlers use, on UTF-8 byte strings:
  validity of UTF-8, Unicode white space (\<open>str::trim\<close>, \<open>str::split_whitespace\<close>), \<open>split_once\<close>,
  \<open>strip_prefix\<close>, replacement of a character by a string, and the parser of \<open>i64\<close>.
\<close>

section \<open>UTF-8\<close>

definition byte_in :: "nat \<Rightarrow> nat \<Rightarrow> char \<Rightarrow> bool" where
  "byte_in lo hi c \<longleftrightarrow> lo \<le> of_char c \<and> of_char c \<le> (hi :: nat)"

text \<open>\<open>std::str::from_utf8\<close>: the well-formed byte sequences of the Unicode standard.\<close>

fun valid_utf8 :: "string \<Rightarrow> bool" where
  "valid_utf8 [] = True"
| "valid_utf8 (a # s) =
     (if byte_in 0 0x7F a then valid_utf8 s
      else if byte_in 0xC2 0xDF a then
        (case s of b # r \<Rightarrow> byte_in 0x80 0xBF b \<and> valid_utf8 r | _ \<Rightarrow> False)
      else if byte_in 0xE0 0xEF a then
        (case s of
           b # c # r \<Rightarrow>
             (if of_char a = (0xE0 :: nat) then byte_in 0xA0 0xBF b
              else if of_char a = (0xED :: nat) then byte_in 0x80 0x9F b else byte_in 0x80 0xBF b) \<and>
             byte_in 0x80 0xBF c \<and> valid_utf8 r
         | _ \<Rightarrow> False)
      else if byte_in 0xF0 0xF4 a then
        (case s of
           b # c # d # r \<Rightarrow>
             (if of_char a = (0xF0 :: nat) then byte_in 0x90 0xBF b
              else if of_char a = (0xF4 :: nat) then byte_in 0x80 0x8F b else byte_in 0x80 0xBF b) \<and>
             byte_in 0x80 0xBF c \<and> byte_in 0x80 0xBF d \<and> valid_utf8 r
         | _ \<Rightarrow> False)
      else False)"

section \<open>White space\<close>

text \<open>
  \<open>char::is_whitespace\<close> on the encoding of one character: the code points with the property
  \<open>White_Space\<close>.
\<close>

definition is_whitespace_char :: "string \<Rightarrow> bool" where
  "is_whitespace_char u =
     (case u of
        [a] \<Rightarrow> byte_in 9 13 a \<or> a = CHR '' ''
      | [a, b] \<Rightarrow> a = CHR 0xC2 \<and> (b = CHR 0x85 \<or> b = CHR 0xA0)
      | [a, b, c] \<Rightarrow>
          a = CHR 0xE1 \<and> b = CHR 0x9A \<and> c = CHR 0x80 \<or>
          a = CHR 0xE2 \<and> b = CHR 0x80 \<and>
            (byte_in 0x80 0x8A c \<or> c = CHR 0xA8 \<or> c = CHR 0xA9 \<or> c = CHR 0xAF) \<or>
          a = CHR 0xE2 \<and> b = CHR 0x81 \<and> c = CHR 0x9F \<or>
          a = CHR 0xE3 \<and> b = CHR 0x80 \<and> c = CHR 0x80
      | _ \<Rightarrow> False)"

definition str_trim :: "string \<Rightarrow> string" where
  "str_trim s =
     concat (rev (dropWhile is_whitespace_char (rev (dropWhile is_whitespace_char (utf8_chars s)))))"

fun split_ws_chars :: "string \<Rightarrow> string list \<Rightarrow> string list" where
  "split_ws_chars acc [] = (if acc = [] then [] else [acc])"
| "split_ws_chars acc (u # us) =
     (if is_whitespace_char u then (if acc = [] then [] else [acc]) @ split_ws_chars [] us
      else split_ws_chars (acc @ u) us)"

definition split_whitespace :: "string \<Rightarrow> string list" where
  "split_whitespace s = split_ws_chars [] (utf8_chars s)"

section \<open>Splitting, stripping, replacing\<close>

definition strip_prefix :: "string \<Rightarrow> string \<Rightarrow> string option" where
  "strip_prefix s p = (if starts_with s p then Some (drop (length p) s) else None)"

lemma strip_prefix_eq_Some: "strip_prefix s p = Some r \<longleftrightarrow> s = p @ r"
  by (auto simp: strip_prefix_def starts_with_iff)

fun split_once :: "char \<Rightarrow> string \<Rightarrow> (string \<times> string) option" where
  "split_once c [] = None"
| "split_once c (x # xs) =
     (if x = c then Some ([], xs) else map_option (\<lambda>(a, b). (x # a, b)) (split_once c xs))"

lemma split_once_eq_Some: "split_once c s = Some (a, b) \<longleftrightarrow> s = a @ c # b \<and> c \<notin> set a"
  by (induction s arbitrary: a) (force simp: Cons_eq_append_conv split: if_splits)+

definition replace_char :: "char \<Rightarrow> string \<Rightarrow> string \<Rightarrow> string" where
  "replace_char c r s = concat (map (\<lambda>x. if x = c then r else [x]) s)"

section \<open>Parsing integers\<close>

definition is_digit_char :: "char \<Rightarrow> bool" where
  "is_digit_char c = byte_in 48 57 c"

definition digit_val :: "char \<Rightarrow> int" where
  "digit_val c = int (of_char c) - 48"

text \<open>
  \<open>str::parse::<i64>\<close>: an optional sign, at least one ASCII digit, and a value that fits. The
  checked arithmetic of the library fails exactly when the value does not fit.
\<close>

definition parse_i64 :: "string \<Rightarrow> i64 option" where
  "parse_i64 s =
     (let (neg, ds) = (case s of
          c # r \<Rightarrow> if c = CHR ''-'' then (True, r) else if c = CHR ''+'' then (False, r) else (False, s)
        | [] \<Rightarrow> (False, s)) in
      if ds = [] \<or> \<not> list_all is_digit_char ds then None
      else (let n = foldl (\<lambda>a c. 10 * a + digit_val c) 0 ds; v = (if neg then - n else n) in
            if - (2 ^ 63) \<le> v \<and> v < 2 ^ 63 then Some v else None))"

lemma parse_i64_bounds: "parse_i64 s = Some v \<Longrightarrow> - (2 ^ 63) \<le> v \<and> v < 2 ^ 63"
  by (auto simp: parse_i64_def Let_def split: list.splits if_splits)

end
