(* ===== verification/Oidc_Protocol.thy ===== *)
theory Oidc_Protocol
  imports Oidc_Issuer Std_Text
begin

text \<open>
  The protocol objects of \<^verbatim>\<open>crates/geonosis-protocol-oidc/src\<close>: the parsed authorize request and its
  policy gate (\<open>authorize.rs\<close>), the discovery document, introspection and userinfo answers, pushed
  authorization requests, device codes and logout tokens. What these and the HTTP handlers use of
  third-party crates (URL parsing and query editing, base64, percent decoding, JSON, Argon2) is the
  record \<open>HttpLib\<close>.
\<close>

record LogoutTokenClaims =
  LogoutTokenClaims_iss :: string
  LogoutTokenClaims_aud :: "string list"
  LogoutTokenClaims_iat :: i64
  LogoutTokenClaims_jti :: string
  LogoutTokenClaims_sub :: "string option"
  LogoutTokenClaims_sid :: "string option"
  LogoutTokenClaims_events :: "(string, Value) btree_map"

record HttpLib = OidcLib +
  url_parse :: "string \<Rightarrow> string + Url"
  url_append_pair :: "Url \<Rightarrow> string \<Rightarrow> string \<Rightarrow> Url"
  base64_std_decode :: "string \<Rightarrow> string option"
  percent_decode_lossy :: "string \<Rightarrow> string"
  json_value_from :: "string \<Rightarrow> string + Value"
  json_params_from :: "string \<Rightarrow> string + (string, Value) btree_map"
  logout_claims_to_json :: "LogoutTokenClaims \<Rightarrow> string + string"
  constant_time_eq :: "string \<Rightarrow> string \<Rightarrow> bool"
  argon2_verify :: "string \<Rightarrow> string \<Rightarrow> string + bool"

type_synonym params = "(string, string) btree_map"

section \<open>Authorize requests (\<open>authorize.rs\<close>)\<close>

datatype ResponseType = ResponseType_Code

record AuthorizeRequest =
  AuthorizeRequest_response_type :: ResponseType
  AuthorizeRequest_client_id :: string
  AuthorizeRequest_redirect_uri :: Url
  AuthorizeRequest_scope :: "ScopeName list"
  AuthorizeRequest_state :: "string option"
  AuthorizeRequest_nonce :: "string option"
  AuthorizeRequest_code_challenge :: "string option"
  AuthorizeRequest_code_challenge_method :: "string option"
  AuthorizeRequest_acr_values :: "string option"
  AuthorizeRequest_prompt :: "string option"
  AuthorizeRequest_max_age :: "i64 option"
  AuthorizeRequest_login_hint :: "string option"
  AuthorizeRequest_id_token_hint :: "string option"
  AuthorizeRequest_extra :: params

datatype AuthorizeRequestError =
    AuthorizeRequestError_Missing string
  | AuthorizeRequestError_Invalid string string
  | AuthorizeRequestError_UnsupportedResponseType
  | AuthorizeRequestError_RedirectMismatch
  | AuthorizeRequestError_PkceRequired
  | AuthorizeRequestError_PkcePlainRejected
  | AuthorizeRequestError_NonceRequired
  | AuthorizeRequestError_UnsupportedScope string

definition QUOTE :: "string \<Rightarrow> string" where
  "QUOTE s = CHR 0x27 # s @ [CHR 0x27]"

fun AuthorizeRequestError_to_string :: "AuthorizeRequestError \<Rightarrow> string" where
  "AuthorizeRequestError_to_string (AuthorizeRequestError_Missing p) = ''missing required parameter: '' @ p"
| "AuthorizeRequestError_to_string (AuthorizeRequestError_Invalid p m) =
     ''invalid parameter: '' @ p @ '': '' @ m"
| "AuthorizeRequestError_to_string AuthorizeRequestError_UnsupportedResponseType =
     ''response_type must be '' @ QUOTE ''code''"
| "AuthorizeRequestError_to_string AuthorizeRequestError_RedirectMismatch =
     ''redirect_uri does not match any registered URI for the client''"
| "AuthorizeRequestError_to_string AuthorizeRequestError_PkceRequired =
     ''PKCE required for this client (public client_id, FAPI Baseline, or admin policy)''"
| "AuthorizeRequestError_to_string AuthorizeRequestError_PkcePlainRejected =
     ''code_challenge_method '' @ QUOTE ''plain'' @ '' is forbidden''"
| "AuthorizeRequestError_to_string AuthorizeRequestError_NonceRequired = ''openid scope requires nonce''"
| "AuthorizeRequestError_to_string (AuthorizeRequestError_UnsupportedScope s) = ''unsupported scope: '' @ s"

definition known_params :: "string list" where
  "known_params = [''response_type'', ''client_id'', ''redirect_uri'', ''scope'', ''state'', ''nonce'',
     ''code_challenge'', ''code_challenge_method'', ''acr_values'', ''prompt'', ''max_age'',
     ''login_hint'', ''id_token_hint'']"

fun scope_error_text :: "ScopeParseError \<Rightarrow> string" where
  "scope_error_text (ScopeParseError s) = s"

definition plain_method :: "string option \<Rightarrow> bool" where
  "plain_method m = (case m of Some m \<Rightarrow> eq_ignore_ascii_case m ''plain'' | None \<Rightarrow> False)"

definition AuthorizeRequest_parse ::
  "'l HttpLib_scheme \<Rightarrow> params \<Rightarrow> AuthorizeRequestError + AuthorizeRequest" where
  "AuthorizeRequest_parse lib params =
     (case map_of params ''response_type'' of
        None \<Rightarrow> Inl (AuthorizeRequestError_Missing ''response_type'')
      | Some rt \<Rightarrow>
      if rt \<noteq> ''code'' then Inl AuthorizeRequestError_UnsupportedResponseType
      else (case map_of params ''client_id'' of
        None \<Rightarrow> Inl (AuthorizeRequestError_Missing ''client_id'')
      | Some client_id \<Rightarrow>
     (case map_of params ''redirect_uri'' of
        None \<Rightarrow> Inl (AuthorizeRequestError_Missing ''redirect_uri'')
      | Some redirect_uri_raw \<Rightarrow>
     (case url_parse lib redirect_uri_raw of
        Inl e \<Rightarrow> Inl (AuthorizeRequestError_Invalid ''redirect_uri'' e)
      | Inr redirect_uri \<Rightarrow>
     (case parse_scope_string (unwrap_or (map_of params ''scope'') []) of
        Inl e \<Rightarrow> Inl (AuthorizeRequestError_Invalid ''scope'' (scope_error_text e))
      | Inr scope \<Rightarrow>
          if plain_method (map_of params ''code_challenge_method'')
          then Inl AuthorizeRequestError_PkcePlainRejected
          else if scope_has ''openid'' scope \<and> map_of params ''nonce'' = None
          then Inl AuthorizeRequestError_NonceRequired
          else Inr
            \<lparr>AuthorizeRequest_response_type = ResponseType_Code,
             AuthorizeRequest_client_id = client_id,
             AuthorizeRequest_redirect_uri = redirect_uri,
             AuthorizeRequest_scope = scope,
             AuthorizeRequest_state = map_of params ''state'',
             AuthorizeRequest_nonce = map_of params ''nonce'',
             AuthorizeRequest_code_challenge = map_of params ''code_challenge'',
             AuthorizeRequest_code_challenge_method = map_of params ''code_challenge_method'',
             AuthorizeRequest_acr_values = map_of params ''acr_values'',
             AuthorizeRequest_prompt = map_of params ''prompt'',
             AuthorizeRequest_max_age = Option.bind (map_of params ''max_age'') parse_i64,
             AuthorizeRequest_login_hint = map_of params ''login_hint'',
             AuthorizeRequest_id_token_hint = map_of params ''id_token_hint'',
             AuthorizeRequest_extra = filter (\<lambda>(k, _). k \<notin> set known_params) params\<rparr>)))))"

definition enforce_client_policy :: "AuthorizeRequest \<Rightarrow> Client \<Rightarrow> AuthorizeRequestError + unit" where
  "enforce_client_policy self client =
     (let candidate = AuthorizeRequest_redirect_uri self in
      if \<not> list_ex (\<lambda>r. RedirectUri_matches r (trim_end_char CHR ''/'' candidate) \<or> RedirectUri_matches r candidate)
             (Client_redirect_uris client)
      then Inl AuthorizeRequestError_RedirectMismatch
      else if Client_kind client = ClientKind_Public \<and> AuthorizeRequest_code_challenge self = None
      then Inl AuthorizeRequestError_PkceRequired
      else Inr ())"

section \<open>Introspection (\<open>introspect.rs\<close>)\<close>

record IntrospectionResponse =
  IntrospectionResponse_active :: bool
  IntrospectionResponse_scope :: "string option"
  IntrospectionResponse_client_id :: "string option"
  IntrospectionResponse_username :: "string option"
  IntrospectionResponse_token_type :: "string option"
  IntrospectionResponse_exp :: "i64 option"
  IntrospectionResponse_iat :: "i64 option"
  IntrospectionResponse_sub :: "string option"
  IntrospectionResponse_aud :: "string list option"
  IntrospectionResponse_iss :: "string option"
  IntrospectionResponse_jti :: "string option"

definition IntrospectionResponse_inactive :: IntrospectionResponse where
  "IntrospectionResponse_inactive =
     \<lparr>IntrospectionResponse_active = False, IntrospectionResponse_scope = None,
      IntrospectionResponse_client_id = None, IntrospectionResponse_username = None,
      IntrospectionResponse_token_type = None, IntrospectionResponse_exp = None,
      IntrospectionResponse_iat = None, IntrospectionResponse_sub = None,
      IntrospectionResponse_aud = None, IntrospectionResponse_iss = None,
      IntrospectionResponse_jti = None\<rparr>"

definition build_introspection :: "AccessTokenClaims \<Rightarrow> string option \<Rightarrow> IntrospectionResponse" where
  "build_introspection claims username =
     \<lparr>IntrospectionResponse_active = True,
      IntrospectionResponse_scope = Some (AccessTokenClaims_scope claims),
      IntrospectionResponse_client_id = Some (AccessTokenClaims_azp claims),
      IntrospectionResponse_username = username,
      IntrospectionResponse_token_type = Some ''Bearer'',
      IntrospectionResponse_exp = Some (AccessTokenClaims_exp claims),
      IntrospectionResponse_iat = Some (AccessTokenClaims_iat claims),
      IntrospectionResponse_sub = Some (AccessTokenClaims_sub claims),
      IntrospectionResponse_aud = Some (AccessTokenClaims_aud claims),
      IntrospectionResponse_iss = Some (AccessTokenClaims_iss claims),
      IntrospectionResponse_jti = Some (AccessTokenClaims_jti claims)\<rparr>"

section \<open>Userinfo (\<open>userinfo.rs\<close>)\<close>

record UserinfoClaims =
  UserinfoClaims_sub :: string
  UserinfoClaims_name :: "string option"
  UserinfoClaims_given_name :: "string option"
  UserinfoClaims_family_name :: "string option"
  UserinfoClaims_preferred_username :: "string option"
  UserinfoClaims_email :: "string option"
  UserinfoClaims_email_verified :: "bool option"

fun UserId_to_string :: "'l KmsLib_scheme \<Rightarrow> UserId \<Rightarrow> string" where
  "UserId_to_string lib (UserId u) = show_ulid lib u"

definition with_profile :: "User \<Rightarrow> UserinfoClaims \<Rightarrow> UserinfoClaims" where
  "with_profile user out =
     (let out = out\<lparr>UserinfoClaims_preferred_username := Some (User_username user)\<rparr> in
      case User_name user of
        None \<Rightarrow> out
      | Some name \<Rightarrow> out\<lparr>UserinfoClaims_given_name := PersonName_given name,
          UserinfoClaims_family_name := PersonName_family name,
          UserinfoClaims_name := PersonName_display_or_concat name\<rparr>)"

definition with_email :: "User \<Rightarrow> UserinfoClaims \<Rightarrow> UserinfoClaims" where
  "with_email user out =
     (let out = out\<lparr>UserinfoClaims_email := User_email user\<rparr> in
      if User_email user \<noteq> None
      then out\<lparr>UserinfoClaims_email_verified := Some (User_email_verified user)\<rparr> else out)"

definition userinfo_for :: "'l KmsLib_scheme \<Rightarrow> User \<Rightarrow> ScopeName list \<Rightarrow> UserinfoClaims" where
  "userinfo_for lib user scopes =
     (let out = \<lparr>UserinfoClaims_sub = UserId_to_string lib (User_id user), UserinfoClaims_name = None,
            UserinfoClaims_given_name = None, UserinfoClaims_family_name = None,
            UserinfoClaims_preferred_username = None, UserinfoClaims_email = None,
            UserinfoClaims_email_verified = None\<rparr>;
          out = (if scope_has ''profile'' scopes then with_profile user out else out) in
      if scope_has ''email'' scopes then with_email user out else out)"

section \<open>Pushed requests and device codes (\<open>par.rs\<close>, \<open>device.rs\<close>)\<close>

definition PAR_DEFAULT_TTL_SECS :: i64 where "PAR_DEFAULT_TTL_SECS = 60"
definition DEVICE_CODE_DEFAULT_TTL_SECS :: i64 where "DEVICE_CODE_DEFAULT_TTL_SECS = 600"
definition DEVICE_CODE_DEFAULT_INTERVAL_SECS :: u32 where "DEVICE_CODE_DEFAULT_INTERVAL_SECS = 5"

record ParResponse =
  ParResponse_request_uri :: string
  ParResponse_expires_in :: i64

text \<open>The random token of 256 bits is an argument, and so are the eight random bytes.\<close>

definition generate_request_uri :: "string \<Rightarrow> string" where
  "generate_request_uri random_token = ''urn:ietf:params:oauth:request_uri:'' @ random_token"

record DeviceAuthorizationResponse =
  DeviceAuthorizationResponse_device_code :: string
  DeviceAuthorizationResponse_user_code :: string
  DeviceAuthorizationResponse_verification_uri :: string
  DeviceAuthorizationResponse_verification_uri_complete :: string
  DeviceAuthorizationResponse_expires_in :: i64
  DeviceAuthorizationResponse_interval :: u32

definition USER_CODE_ALPHA :: string where
  "USER_CODE_ALPHA = ''ABCDEFGHJKMNPQRSTUVWXYZ23456789''"

definition generate_user_code :: "u8 list \<Rightarrow> string" where
  "generate_user_code bytes =
     (let chars = map (\<lambda>b. USER_CODE_ALPHA ! (unat b mod length USER_CODE_ALPHA)) bytes in
      [chars ! 0, chars ! 1, chars ! 2, chars ! 3, CHR ''-'', chars ! 4, chars ! 5, chars ! 6, chars ! 7])"

section \<open>Logout tokens (\<open>backchannel_logout.rs\<close>)\<close>

definition BACKCHANNEL_LOGOUT_EVENT :: string where
  "BACKCHANNEL_LOGOUT_EVENT = ''http://schemas.openid.net/event/backchannel-logout''"

definition LOGOUT_TOKEN_TYP :: string where "LOGOUT_TOKEN_TYP = ''logout+jwt''"

definition LogoutTokenClaims_new ::
  "string \<Rightarrow> string \<Rightarrow> i64 \<Rightarrow> string \<Rightarrow> string option \<Rightarrow> string option \<Rightarrow> LogoutTokenClaims" where
  "LogoutTokenClaims_new iss aud iat jti sub sid =
     \<lparr>LogoutTokenClaims_iss = iss, LogoutTokenClaims_aud = [aud], LogoutTokenClaims_iat = iat,
      LogoutTokenClaims_jti = jti, LogoutTokenClaims_sub = sub, LogoutTokenClaims_sid = sid,
      LogoutTokenClaims_events = [(BACKCHANNEL_LOGOUT_EVENT, Value_Object [])]\<rparr>"

section \<open>Discovery (\<open>discovery.rs\<close>)\<close>

record DiscoveryDocument =
  DiscoveryDocument_issuer :: Url
  DiscoveryDocument_authorization_endpoint :: Url
  DiscoveryDocument_token_endpoint :: Url
  DiscoveryDocument_userinfo_endpoint :: Url
  DiscoveryDocument_jwks_uri :: Url
  DiscoveryDocument_registration_endpoint :: "Url option"
  DiscoveryDocument_end_session_endpoint :: Url
  DiscoveryDocument_revocation_endpoint :: Url
  DiscoveryDocument_introspection_endpoint :: Url
  DiscoveryDocument_pushed_authorization_request_endpoint :: Url
  DiscoveryDocument_device_authorization_endpoint :: Url
  DiscoveryDocument_scopes_supported :: "string list"
  DiscoveryDocument_response_types_supported :: "string list"
  DiscoveryDocument_response_modes_supported :: "string list"
  DiscoveryDocument_grant_types_supported :: "string list"
  DiscoveryDocument_subject_types_supported :: "string list"
  DiscoveryDocument_id_token_signing_alg_values_supported :: "string list"
  DiscoveryDocument_token_endpoint_auth_methods_supported :: "string list"
  DiscoveryDocument_code_challenge_methods_supported :: "string list"
  DiscoveryDocument_claims_supported :: "string list"
  DiscoveryDocument_require_pushed_authorization_requests :: bool
  DiscoveryDocument_require_request_uri_registration :: bool
  DiscoveryDocument_request_parameter_supported :: bool
  DiscoveryDocument_request_uri_parameter_supported :: bool
  DiscoveryDocument_frontchannel_logout_supported :: bool
  DiscoveryDocument_backchannel_logout_supported :: bool
  DiscoveryDocument_end_session_endpoint_supported :: bool

definition discovery_join :: "'l OidcLib_scheme \<Rightarrow> Url \<Rightarrow> string \<Rightarrow> Url" where
  "discovery_join lib base suffix = url_with_path lib base (trim_end_char CHR ''/'' (url_path lib base) @ suffix)"

definition discovery_document :: "'l OidcLib_scheme \<Rightarrow> Url \<Rightarrow> DiscoveryDocument" where
  "discovery_document lib issuer =
     \<lparr>DiscoveryDocument_issuer = issuer,
      DiscoveryDocument_authorization_endpoint = discovery_join lib issuer ''/protocol/openid-connect/auth'',
      DiscoveryDocument_token_endpoint = discovery_join lib issuer ''/protocol/openid-connect/token'',
      DiscoveryDocument_userinfo_endpoint = discovery_join lib issuer ''/protocol/openid-connect/userinfo'',
      DiscoveryDocument_jwks_uri = discovery_join lib issuer ''/protocol/openid-connect/jwks'',
      DiscoveryDocument_registration_endpoint = None,
      DiscoveryDocument_end_session_endpoint = discovery_join lib issuer ''/protocol/openid-connect/logout'',
      DiscoveryDocument_revocation_endpoint = discovery_join lib issuer ''/protocol/openid-connect/revoke'',
      DiscoveryDocument_introspection_endpoint = discovery_join lib issuer ''/protocol/openid-connect/introspect'',
      DiscoveryDocument_pushed_authorization_request_endpoint =
        discovery_join lib issuer ''/protocol/openid-connect/par'',
      DiscoveryDocument_device_authorization_endpoint =
        discovery_join lib issuer ''/protocol/openid-connect/device/authorize'',
      DiscoveryDocument_scopes_supported =
        [''openid'', ''profile'', ''email'', ''offline_access'', ''roles'', ''groups'', ''org''],
      DiscoveryDocument_response_types_supported = [''code''],
      DiscoveryDocument_response_modes_supported = [''query'', ''form_post''],
      DiscoveryDocument_grant_types_supported =
        [''authorization_code'', ''refresh_token'', ''client_credentials'', ''password'',
         ''urn:ietf:params:oauth:grant-type:device_code'',
         ''urn:ietf:params:oauth:grant-type:token-exchange''],
      DiscoveryDocument_subject_types_supported = [''public'', ''pairwise''],
      DiscoveryDocument_id_token_signing_alg_values_supported = [''RS256'', ''ES256'', ''EdDSA''],
      DiscoveryDocument_token_endpoint_auth_methods_supported =
        [''client_secret_basic'', ''client_secret_post'', ''client_secret_jwt'', ''private_key_jwt'', ''none''],
      DiscoveryDocument_code_challenge_methods_supported = [''S256''],
      DiscoveryDocument_claims_supported =
        [''sub'', ''iss'', ''aud'', ''exp'', ''iat'', ''auth_time'', ''nonce'', ''acr'', ''amr'', ''azp'', ''sid'',
         ''email'', ''email_verified'', ''preferred_username'', ''name'', ''groups'', ''org''],
      DiscoveryDocument_require_pushed_authorization_requests = False,
      DiscoveryDocument_require_request_uri_registration = False,
      DiscoveryDocument_request_parameter_supported = True,
      DiscoveryDocument_request_uri_parameter_supported = False,
      DiscoveryDocument_frontchannel_logout_supported = True,
      DiscoveryDocument_backchannel_logout_supported = True,
      DiscoveryDocument_end_session_endpoint_supported = True\<rparr>"

end
