(* ===== verification/Server_Base.thy ===== *)
theory Server_Base
  imports Oidc_Protocol Store_Orgs
begin

text \<open>
  What every HTTP handler of \<^verbatim>\<open>crates/geonosis-server/src\<close> shares: the application state
  (\<open>state.rs\<close>), the labelled counters (\<open>metrics.rs\<close>), audit events
  (\<^verbatim>\<open>crates/geonosis-audit/src/lib.rs\<close>, \<open>audit_emit.rs\<close>), error responses
  (\<open>handlers/error.rs\<close>) and client authentication (\<open>handlers/client_auth.rs\<close>). A handler maps the
  request and the state to the response and the new state; each storage call is one atomic change of
  the tables. Clock readings and random draws are arguments.
\<close>

section \<open>Durations\<close>

text \<open>
  \<open>Duration::seconds\<close> of \<open>chrono\<close>, and \<open>num_seconds\<close>, which rounds towards zero.
\<close>

definition chrono_seconds :: "i64 \<Rightarrow> ChronoDuration" where
  "chrono_seconds n = n * 1000000000"

definition num_seconds :: "ChronoDuration \<Rightarrow> i64" where
  "num_seconds d = (if 0 \<le> d then d div 1000000000 else - ((- d) div 1000000000))"

section \<open>Counters (\<open>metrics.rs\<close>)\<close>

record LabeledCounter =
  LabeledCounter_name :: string
  LabeledCounter_help :: string
  LabeledCounter_label_names :: "string list"
  LabeledCounter_series :: "(string list, u64) hash_map"

definition LabeledCounter_new :: "string \<Rightarrow> string \<Rightarrow> string list \<Rightarrow> LabeledCounter" where
  "LabeledCounter_new name help label_names =
     \<lparr>LabeledCounter_name = name, LabeledCounter_help = help, LabeledCounter_label_names = label_names,
      LabeledCounter_series = []\<rparr>"

definition LabeledCounter_inc :: "string list \<Rightarrow> LabeledCounter \<Rightarrow> LabeledCounter" where
  "LabeledCounter_inc label_values c =
     c\<lparr>LabeledCounter_series :=
        hm_insert label_values (unwrap_or (map_of (LabeledCounter_series c) label_values) 0 + 1)
          (LabeledCounter_series c)\<rparr>"

text \<open>The counters the protocol handlers and the request middleware write.\<close>

record MetricsState =
  MetricsState_http_requests_total :: u64
  MetricsState_http_4xx_total :: u64
  MetricsState_http_5xx_total :: u64
  MetricsState_audit_events_total :: u64
  MetricsState_oidc_authorize :: LabeledCounter
  MetricsState_oidc_token :: LabeledCounter
  MetricsState_oidc_login_failures :: LabeledCounter
  MetricsState_session_created :: LabeledCounter
  MetricsState_session_revoked :: LabeledCounter
  MetricsState_token_reuse_detected :: LabeledCounter

definition MetricsState_new :: MetricsState where
  "MetricsState_new =
     \<lparr>MetricsState_http_requests_total = 0, MetricsState_http_4xx_total = 0, MetricsState_http_5xx_total = 0,
      MetricsState_audit_events_total = 0,
      MetricsState_oidc_authorize = LabeledCounter_new ''geonosis_oidc_authorize_total''
        ''OIDC /authorize attempts bucketed by outcome.'' [''realm'', ''outcome''],
      MetricsState_oidc_token = LabeledCounter_new ''geonosis_oidc_token_total''
        ''OIDC /token attempts bucketed by grant type + outcome.'' [''realm'', ''grant_type'', ''outcome''],
      MetricsState_oidc_login_failures = LabeledCounter_new ''geonosis_oidc_login_failures_total''
        ''OIDC login failures bucketed by reason.'' [''realm'', ''reason''],
      MetricsState_session_created = LabeledCounter_new ''geonosis_session_created_total''
        ''Sessions persisted after a successful interactive login.'' [''realm''],
      MetricsState_session_revoked = LabeledCounter_new ''geonosis_session_revoked_total''
        ''Sessions revoked, bucketed by reason.'' [''realm'', ''reason''],
      MetricsState_token_reuse_detected = LabeledCounter_new ''geonosis_token_reuse_detected_total''
        (''Refresh-token reuse events '' @ [CHR 0xE2, CHR 0x80, CHR 0x94] @ '' burning the entire token family.'')
        [''realm'']\<rparr>"

section \<open>Audit events\<close>

datatype EventId = EventId Ulid

type_synonym IpAddr = string

datatype Actor =
    Actor_User UserId "IpAddr option" | Actor_Client ClientId | Actor_System
  | Actor_AdminApi UserId IpAddr

datatype Target =
    Target_User UserId | Target_Client ClientId | Target_Realm RealmId | Target_Flow FlowId
  | Target_Key KeyId | Target_Session SessionId | Target_Other string string

record AuditEvent =
  AuditEvent_id :: EventId
  AuditEvent_realm_id :: RealmId
  AuditEvent_occurred_at :: DateTime
  AuditEvent_actor :: Actor
  AuditEvent_action :: string
  AuditEvent_target :: "Target option"
  AuditEvent_detail :: Value

definition LOGIN_SUCCESS :: string where "LOGIN_SUCCESS = ''login.success''"
definition LOGIN_FAILURE :: string where "LOGIN_FAILURE = ''login.failure''"
definition LOGOUT_LOCAL :: string where "LOGOUT_LOCAL = ''logout.local''"
definition LOGOUT_BACKCHANNEL :: string where "LOGOUT_BACKCHANNEL = ''logout.backchannel''"
definition TOKEN_ISSUED :: string where "TOKEN_ISSUED = ''token.issued''"
definition TOKEN_REFRESHED :: string where "TOKEN_REFRESHED = ''token.refreshed''"
definition TOKEN_REUSE :: string where "TOKEN_REUSE = ''token.reuse''"
definition TOKEN_REVOKED :: string where "TOKEN_REVOKED = ''token.revoked''"
definition TOKEN_INTROSPECT :: string where "TOKEN_INTROSPECT = ''token.introspect''"

section \<open>Application state (\<open>state.rs\<close>)\<close>

text \<open>
  The publisher is the queue of events handed to it: the channel is unbounded and open while the
  server runs. The id and time of the n-th event are given by \<open>AppState_event_draw\<close>.
\<close>

record AppState =
  AppState_storage :: Tables
  AppState_kms :: SoftwareKms
  AppState_audit :: "AuditEvent list"
  AppState_event_draw :: "nat \<Rightarrow> EventId \<times> DateTime"
  AppState_public_base_url :: Url
  AppState_refresh_hash_key :: string
  AppState_client_secret_hash_key :: string
  AppState_metrics :: MetricsState
  AppState_draining :: bool

definition with_storage :: "(Tables \<Rightarrow> 'r \<times> Tables) \<Rightarrow> AppState \<Rightarrow> 'r \<times> AppState" where
  "with_storage f st = (let (r, t) = f (AppState_storage st) in (r, st\<lparr>AppState_storage := t\<rparr>))"

definition emit :: "RealmId \<Rightarrow> Actor \<Rightarrow> string \<Rightarrow> Target option \<Rightarrow> Value \<Rightarrow> AppState \<Rightarrow> AppState" where
  "emit realm_id actor action target detail st =
     (let (i, now) = AppState_event_draw st (length (AppState_audit st)) in
      st\<lparr>AppState_metrics := (AppState_metrics st)
           \<lparr>MetricsState_audit_events_total := MetricsState_audit_events_total (AppState_metrics st) + 1\<rparr>,
         AppState_audit := AppState_audit st @
           [\<lparr>AuditEvent_id = i, AuditEvent_realm_id = realm_id, AuditEvent_occurred_at = now,
             AuditEvent_actor = actor, AuditEvent_action = action, AuditEvent_target = target,
             AuditEvent_detail = detail\<rparr>]\<rparr>)"

definition emit_user ::
  "RealmId \<Rightarrow> UserId \<Rightarrow> string \<Rightarrow> Target option \<Rightarrow> Value \<Rightarrow> AppState \<Rightarrow> AppState" where
  "emit_user realm_id user_id action target detail st =
     emit realm_id (Actor_User user_id None) action target detail st"

definition emit_system :: "RealmId \<Rightarrow> string \<Rightarrow> Target option \<Rightarrow> Value \<Rightarrow> AppState \<Rightarrow> AppState" where
  "emit_system realm_id action target detail st = emit realm_id Actor_System action target detail st"

definition emit_client ::
  "RealmId \<Rightarrow> ClientId \<Rightarrow> string \<Rightarrow> Target option \<Rightarrow> Value \<Rightarrow> AppState \<Rightarrow> AppState" where
  "emit_client realm_id client_id action target detail st =
     emit realm_id (Actor_Client client_id) action target detail st"

definition count :: "((LabeledCounter \<Rightarrow> LabeledCounter) \<Rightarrow> MetricsState \<Rightarrow> MetricsState) \<Rightarrow> string list \<Rightarrow> AppState \<Rightarrow> AppState" where
  "count counter labels st =
     st\<lparr>AppState_metrics := counter (LabeledCounter_inc labels) (AppState_metrics st)\<rparr>"

lemma emit_keeps [simp]:
  "AppState_storage (emit r a c t d st) = AppState_storage st"
  "AppState_kms (emit r a c t d st) = AppState_kms st"
  "AppState_refresh_hash_key (emit r a c t d st) = AppState_refresh_hash_key st"
  "AppState_client_secret_hash_key (emit r a c t d st) = AppState_client_secret_hash_key st"
  "AppState_public_base_url (emit r a c t d st) = AppState_public_base_url st"
  by (simp_all add: emit_def split: prod.split)

lemma count_keeps [simp]:
  "AppState_storage (count m l st) = AppState_storage st"
  "AppState_kms (count m l st) = AppState_kms st"
  "AppState_refresh_hash_key (count m l st) = AppState_refresh_hash_key st"
  "AppState_client_secret_hash_key (count m l st) = AppState_client_secret_hash_key st"
  "AppState_public_base_url (count m l st) = AppState_public_base_url st"
  "AppState_audit (count m l st) = AppState_audit st"
  by (simp_all add: count_def)

lemma emit_audit [simp]:
  "map AuditEvent_action (AppState_audit (emit r a c t d st)) = map AuditEvent_action (AppState_audit st) @ [c]"
  by (simp add: emit_def split: prod.split)

lemma with_storage_eq: "with_storage f st = (fst (f (AppState_storage st)), st\<lparr>AppState_storage := snd (f (AppState_storage st))\<rparr>)"
  by (simp add: with_storage_def split: prod.split)

lemmas emit_defs = emit_user_def emit_system_def emit_client_def

section \<open>Responses (\<open>handlers/error.rs\<close>)\<close>

record ErrorBody =
  ErrorBody_error :: string
  ErrorBody_error_description :: "string option"
  ErrorBody_error_uri :: "string option"

record TokenResponseBody =
  TokenResponseBody_access_token :: string
  TokenResponseBody_token_type :: string
  TokenResponseBody_expires_in :: i64
  TokenResponseBody_refresh_token :: "string option"
  TokenResponseBody_id_token :: "string option"
  TokenResponseBody_scope :: string

datatype Body =
    Body_Empty
  | Body_Text string
  | Body_Html string
  | Body_Error ErrorBody
  | Body_Tokens TokenResponseBody
  | Body_Introspection IntrospectionResponse
  | Body_Userinfo UserinfoClaims
  | Body_Par ParResponse
  | Body_Device DeviceAuthorizationResponse
  | Body_Discovery DiscoveryDocument
  | Body_Jwks JwkSet

datatype Response =
    Response nat Body
  | Response_Redirect string
  | Response_Unauthorized string

definition ErrorBody_from :: "OAuthError \<Rightarrow> ErrorBody" where
  "ErrorBody_from e =
     \<lparr>ErrorBody_error = OAuthErrorCode_as_str (OAuthError_code e),
      ErrorBody_error_description = Some (OAuthError_description e),
      ErrorBody_error_uri = OAuthError_uri e\<rparr>"

fun error_status :: "OAuthErrorCode \<Rightarrow> nat" where
  "error_status OAuthErrorCode_InvalidClient = 401"
| "error_status OAuthErrorCode_ServerError = 500"
| "error_status OAuthErrorCode_TemporarilyUnavailable = 503"
| "error_status _ = 400"

definition oauth_error_response :: "OAuthError \<Rightarrow> Response" where
  "oauth_error_response err = Response (error_status (OAuthError_code err)) (Body_Error (ErrorBody_from err))"

record JsonProblem =
  JsonProblem_status :: nat
  JsonProblem_error :: string
  JsonProblem_message :: string

definition bad_request :: "string \<Rightarrow> JsonProblem" where
  "bad_request msg = \<lparr>JsonProblem_status = 400, JsonProblem_error = ''invalid_request'', JsonProblem_message = msg\<rparr>"
definition not_found :: "string \<Rightarrow> JsonProblem" where
  "not_found msg = \<lparr>JsonProblem_status = 404, JsonProblem_error = ''not_found'', JsonProblem_message = msg\<rparr>"
definition bad_gateway :: "string \<Rightarrow> JsonProblem" where
  "bad_gateway msg = \<lparr>JsonProblem_status = 502, JsonProblem_error = ''upstream_failure'', JsonProblem_message = msg\<rparr>"
definition internal :: "string \<Rightarrow> JsonProblem" where
  "internal msg = \<lparr>JsonProblem_status = 500, JsonProblem_error = ''internal_error'', JsonProblem_message = msg\<rparr>"

section \<open>Client authentication (\<open>handlers/client_auth.rs\<close>)\<close>

text \<open>
  Of the header map the handlers read the \<open>Authorization\<close> value and the \<open>Cookie\<close> values, those
  that are visible ASCII (\<open>to_str\<close>).
\<close>

record HeaderMap =
  HeaderMap_authorization :: "string option"
  HeaderMap_cookie :: "string list"

record AuthenticatedClient =
  AuthenticatedClient_client :: Client
  AuthenticatedClient_method_used :: ClientAuthMethod

definition parse_basic_auth :: "'l HttpLib_scheme \<Rightarrow> HeaderMap \<Rightarrow> (string \<times> string) option" where
  "parse_basic_auth lib headers =
     (case HeaderMap_authorization headers of
        None \<Rightarrow> None
      | Some h \<Rightarrow>
     (case strip_prefix h ''Basic '' of
        None \<Rightarrow> None
      | Some rest \<Rightarrow>
     (case base64_std_decode lib (str_trim rest) of
        None \<Rightarrow> None
      | Some decoded \<Rightarrow>
          if \<not> valid_utf8 decoded then None
          else (case split_once CHR '':'' decoded of
                  None \<Rightarrow> None
                | Some (i, secret) \<Rightarrow> Some (percent_decode_lossy lib i, percent_decode_lossy lib secret)))))"

definition bearer_from :: "HeaderMap \<Rightarrow> string option" where
  "bearer_from headers =
     Option.bind (HeaderMap_authorization headers) (\<lambda>h. map_option str_trim (strip_prefix h ''Bearer ''))"

definition server_err :: "string \<Rightarrow> OAuthError" where
  "server_err msg = OAuthError_new OAuthErrorCode_ServerError msg"

definition realm_key :: "'l KmsLib_scheme \<Rightarrow> string \<Rightarrow> RealmId \<Rightarrow> string \<Rightarrow> string" where
  "realm_key lib base realm label = derive_realm_key lib base (RealmId_to_string lib realm) label"

definition presented_credentials ::
  "'l HttpLib_scheme \<Rightarrow> HeaderMap \<Rightarrow> params \<Rightarrow> OAuthError + string \<times> string option" where
  "presented_credentials lib headers form =
     (case parse_basic_auth lib headers of
        Some (i, secret) \<Rightarrow> Inr (i, Some secret)
      | None \<Rightarrow>
          (case map_of form ''client_id'' of
             None \<Rightarrow> Inl (invalid_client ''missing client_id'')
           | Some i \<Rightarrow> Inr (i, map_of form ''client_secret'')))"

definition authenticate_client ::
  "'l HttpLib_scheme \<Rightarrow> AppState \<Rightarrow> RealmId \<Rightarrow> HeaderMap \<Rightarrow> params \<Rightarrow> OAuthError + AuthenticatedClient" where
  "authenticate_client lib state realm_id headers form =
     (case presented_credentials lib headers form of
        Inl e \<Rightarrow> Inl e
      | Inr (presented_id, presented_secret) \<Rightarrow>
     (case get_client_by_client_id realm_id presented_id (AppState_storage state) of
        Inl _ \<Rightarrow> Inl (invalid_client ''unknown client'')
      | Inr client \<Rightarrow>
      if \<not> Client_enabled client then Inl (invalid_client ''client disabled'')
      else (let by_secret =
              (case presented_secret of
                 None \<Rightarrow> Inl (invalid_client ''client_secret required'')
               | Some secret \<Rightarrow>
                   (case get_client_secret_hash realm_id (Client_id client) (AppState_storage state) of
                      Inl _ \<Rightarrow> Inl (invalid_client ''client has no secret configured'')
                    | Inr stored_hash \<Rightarrow>
                        (let key = realm_key lib (AppState_client_secret_hash_key state) realm_id ''client-secret'';
                             presented_hash = hex_encode lib (token_hash lib key secret) in
                         if \<not> constant_time_eq lib stored_hash presented_hash
                         then Inl (invalid_client ''client_secret mismatch'')
                         else Inr \<lparr>AuthenticatedClient_client = client,
                                   AuthenticatedClient_method_used = Client_auth_method client\<rparr>))) in
            case Client_auth_method client of
              ClientAuthMethod_None \<Rightarrow>
                (if Client_kind client \<noteq> ClientKind_Public
                 then Inl (invalid_client ''auth_method=none only valid for public clients'')
                 else Inr \<lparr>AuthenticatedClient_client = client,
                           AuthenticatedClient_method_used = ClientAuthMethod_None\<rparr>)
            | ClientAuthMethod_ClientSecretBasic \<Rightarrow> by_secret
            | ClientAuthMethod_ClientSecretPost \<Rightarrow> by_secret
            | ClientAuthMethod_ClientSecretJwt \<Rightarrow> Inl (invalid_client ''JWT-based client auth not yet wired in v0.1'')
            | ClientAuthMethod_PrivateKeyJwt \<Rightarrow> Inl (invalid_client ''JWT-based client auth not yet wired in v0.1'')
            | ClientAuthMethod_TlsClientAuth \<Rightarrow> Inl (invalid_client ''tls_client_auth is v0.2''))))"

end
