(* ===== verification/Server_Token.thy ===== *)
theory Server_Token
  imports Server_Base
begin

text \<open>
  The token endpoint, \<^verbatim>\<open>crates/geonosis-server/src/handlers/token.rs\<close>: client authentication, the
  six grants, the response with its metrics and audit events. The clock readings and random draws of
  one request are the record \<open>TokenDraw\<close>.
\<close>

record TokenDraw =
  td_fresh :: Fresh
  td_mint :: MintDraw
  td_id_mint :: MintDraw

definition EM_DASH :: string where
  "EM_DASH = [CHR 0xE2, CHR 0x80, CHR 0x94]"

section \<open>Helpers\<close>

definition TokenResponseBody_from :: "IssuedTokens \<Rightarrow> TokenResponseBody" where
  "TokenResponseBody_from t =
     \<lparr>TokenResponseBody_access_token = IssuedTokens_access_token t,
      TokenResponseBody_token_type = ''Bearer'',
      TokenResponseBody_expires_in = IssuedTokens_access_token_expires_in t,
      TokenResponseBody_refresh_token = IssuedTokens_refresh_token t,
      TokenResponseBody_id_token = IssuedTokens_id_token t,
      TokenResponseBody_scope = IssuedTokens_scope t\<rparr>"

fun grant_type_label :: "GrantType \<Rightarrow> string" where
  "grant_type_label GrantType_AuthorizationCode = ''authorization_code''"
| "grant_type_label GrantType_RefreshToken = ''refresh_token''"
| "grant_type_label GrantType_ClientCredentials = ''client_credentials''"
| "grant_type_label GrantType_Password = ''password''"
| "grant_type_label GrantType_DeviceCode = ''device_code''"
| "grant_type_label GrantType_TokenExchange = ''token_exchange''"

definition error_reason_label :: "OAuthError \<Rightarrow> string" where
  "error_reason_label e = OAuthErrorCode_as_str (OAuthError_code e)"

fun into_oauth_err :: "GrantError \<Rightarrow> OAuthError" where
  "into_oauth_err (GrantError_OAuth e) = e"
| "into_oauth_err (GrantError_Pkce e) = invalid_grant (PkceError_to_string e)"
| "into_oauth_err (GrantError_Storage s) = server_err s"
| "into_oauth_err (GrantError_Internal s) = server_err s"

definition build_issuer :: "AppState \<Rightarrow> OidcIssuer" where
  "build_issuer state =
     \<lparr>OidcIssuer_kms = AppState_kms state, OidcIssuer_refresh_hash_key = AppState_refresh_hash_key state,
      OidcIssuer_issuer_base = AppState_public_base_url state\<rparr>"

definition build_actor_chain :: "string \<Rightarrow> Value option \<Rightarrow> Value" where
  "build_actor_chain actor_sub inner =
     Value_Object
       (let obj = bt_insert ''sub'' (Value_String actor_sub) [] in
        case inner of None \<Rightarrow> obj | Some prior \<Rightarrow> bt_insert ''act'' prior obj)"

text \<open>An access token and, for the scope \<open>openid\<close>, an id token.\<close>

definition mint_pair ::
  "'l HttpLib_scheme \<Rightarrow> TokenDraw \<Rightarrow> OidcIssuer \<Rightarrow> Client \<Rightarrow> Realm \<Rightarrow> UserId \<Rightarrow> SessionId \<Rightarrow> ScopeName list \<Rightarrow>
   GrantError + string \<times> i64 \<times> string option" where
  "mint_pair lib draw issuer client realm user_id session_id scope =
     (let subject = Subject_Local user_id in
      case OidcIssuer_mint_access_token lib (td_mint draw) issuer realm client subject session_id scope of
        Inl e \<Rightarrow> Inl e
      | Inr (access, exp) \<Rightarrow>
          if scope_has ''openid'' scope
          then (case OidcIssuer_mint_id_token lib (td_id_mint draw) issuer realm client subject session_id
                       scope None None of
                  Inl e \<Rightarrow> Inl e
                | Inr id_token \<Rightarrow> Inr (access, exp, Some id_token))
          else Inr (access, exp, None))"

definition issued ::
  "string \<Rightarrow> i64 \<Rightarrow> string option \<Rightarrow> string option \<Rightarrow> ScopeName list \<Rightarrow> SessionId \<Rightarrow> IssuedTokens" where
  "issued access exp id_token refresh scope session_id =
     \<lparr>IssuedTokens_access_token = access, IssuedTokens_access_token_expires_in = exp,
      IssuedTokens_id_token = id_token, IssuedTokens_refresh_token = refresh,
      IssuedTokens_scope = scope_join scope, IssuedTokens_token_type = TokenType_Bearer,
      IssuedTokens_session_id = session_id\<rparr>"

text \<open>The session that a grant without a browser session starts.\<close>

definition fresh_grant_session :: "TokenDraw \<Rightarrow> Realm \<Rightarrow> UserId \<Rightarrow> Session" where
  "fresh_grant_session draw realm user_id =
     (let now = now_issued (td_fresh draw) in
      \<lparr>Session_id = fresh_session (td_fresh draw), Session_realm_id = Realm_id realm,
       Session_user_id = user_id, Session_authn_level = AuthnLevel_Single, Session_idp_alias = None,
       Session_started_at = now, Session_last_seen_at = now,
       Session_expires_at = now +
         from_std_or_default (SessionPolicy_sso_session_max (Realm_session_policy realm)),
       Session_clients = []\<rparr>)"

section \<open>Sessions and tokens for a user\<close>

definition user_refresh_token ::
  "'l HttpLib_scheme \<Rightarrow> TokenDraw \<Rightarrow> AppState \<Rightarrow> Client \<Rightarrow> Realm \<Rightarrow> UserId \<Rightarrow> ScopeName list \<Rightarrow> RefreshToken" where
  "user_refresh_token lib draw state client realm user_id scope =
     (let now = now_issued (td_fresh draw);
          key = realm_key lib (AppState_refresh_hash_key state) (Realm_id realm) ''refresh'' in
      \<lparr>RefreshToken_id = RefreshTokenId (refresh_token_hash lib (fresh_secret (td_fresh draw)) key),
       RefreshToken_family_id = fresh_family (td_fresh draw),
       RefreshToken_realm_id = Realm_id realm, RefreshToken_client_id = Client_id client,
       RefreshToken_user_id = user_id, RefreshToken_session_id = fresh_session (td_fresh draw),
       RefreshToken_scope = scope, RefreshToken_issued_at = now,
       RefreshToken_expires_at = now +
         from_std_or_default (TokenPolicy_refresh_token_lifespan (Realm_token_policy realm)),
       RefreshToken_used = False\<rparr>)"

definition issue_user_tokens ::
  "'l HttpLib_scheme \<Rightarrow> TokenDraw \<Rightarrow> OidcIssuer \<Rightarrow> Client \<Rightarrow> Realm \<Rightarrow> UserId \<Rightarrow> ScopeName list \<Rightarrow> AppState \<Rightarrow>
   (OAuthError + IssuedTokens) \<times> AppState" where
  "issue_user_tokens lib draw issuer client realm user_id scope state =
     (let session_id = fresh_session (td_fresh draw) in
      case with_storage (create_session (fresh_grant_session draw realm user_id)) state of
        (Inl e, state) \<Rightarrow> (Inl (server_err (StorageError_to_string e)), state)
      | (Inr _, state) \<Rightarrow>
          (let state = count MetricsState_session_created_update [Realm_slug realm] state in
           case mint_pair lib draw issuer client realm user_id session_id scope of
             Inl e \<Rightarrow> (Inl (into_oauth_err e), state)
           | Inr (access, exp, id_token) \<Rightarrow>
               if GrantPolicy_refresh_token (Client_grants client)
               then (case with_storage (save_refresh_token
                              (user_refresh_token lib draw state client realm user_id scope)) state of
                       (Inl e, state) \<Rightarrow> (Inl (server_err (StorageError_to_string e)), state)
                     | (Inr _, state) \<Rightarrow>
                         (Inr (issued access exp id_token (Some (fresh_secret (td_fresh draw))) scope session_id),
                          state))
               else (Inr (issued access exp id_token None scope session_id), state)))"

section \<open>The grants\<close>

definition handle_auth_code ::
  "'l HttpLib_scheme \<Rightarrow> TokenDraw \<Rightarrow> params \<Rightarrow> OidcIssuer \<Rightarrow> Client \<Rightarrow> Realm \<Rightarrow> AppState \<Rightarrow>
   (GrantError + IssuedTokens) \<times> AppState" where
  "handle_auth_code lib draw form issuer client realm state =
     (case map_of form ''code'' of
        None \<Rightarrow> (oauth (invalid_request ''missing code''), state)
      | Some code \<Rightarrow>
     (case map_of form ''redirect_uri'' of
        None \<Rightarrow> (oauth (invalid_request ''missing redirect_uri''), state)
      | Some redirect_uri_s \<Rightarrow>
     (case url_parse lib redirect_uri_s of
        Inl e \<Rightarrow> (oauth (invalid_request (''invalid redirect_uri: '' @ e)), state)
      | Inr redirect_uri \<Rightarrow>
          with_storage
            (AuthorizationCodeGrant_exchange lib (oidc_issuer lib (td_mint draw) (td_id_mint draw) issuer)
               (td_fresh draw)
               \<lparr>AuthorizationCodeGrant_code = CodeId code,
                AuthorizationCodeGrant_code_verifier = map_of form ''code_verifier'',
                AuthorizationCodeGrant_redirect_uri = redirect_uri,
                AuthorizationCodeGrant_client_id =
                  unwrap_or (map_of form ''client_id'') (Client_client_id client)\<rparr>
               client realm) state)))"

definition refresh_failure ::
  "Client \<Rightarrow> Realm \<Rightarrow> RefreshRotateError \<Rightarrow> AppState \<Rightarrow> (GrantError + 'a) \<times> AppState" where
  "refresh_failure client realm e state =
     (case e of
        RefreshRotateError_NotFound \<Rightarrow> (oauth (invalid_grant ''unknown refresh token''), state)
      | RefreshRotateError_Expired \<Rightarrow> (oauth (invalid_grant ''refresh token expired''), state)
      | RefreshRotateError_Reuse \<Rightarrow>
          (oauth (invalid_grant (''refresh token reuse '' @ EM_DASH @ '' family burned'')),
           emit_system (Realm_id realm) TOKEN_REUSE None
             (Value_Object [(''client_id'', Value_String (Client_client_id client))])
             (count MetricsState_token_reuse_detected_update [Realm_slug realm] state))
      | RefreshRotateError_Storage s \<Rightarrow> (oauth (server_err s), state))"

definition rotated_token ::
  "'l HttpLib_scheme \<Rightarrow> TokenDraw \<Rightarrow> string \<Rightarrow> Realm \<Rightarrow> RefreshToken \<Rightarrow> RefreshToken" where
  "rotated_token lib draw key realm prior =
     \<lparr>RefreshToken_id = RefreshTokenId (refresh_token_hash lib (fresh_secret (td_fresh draw)) key),
      RefreshToken_family_id = RefreshToken_family_id prior,
      RefreshToken_realm_id = RefreshToken_realm_id prior,
      RefreshToken_client_id = RefreshToken_client_id prior,
      RefreshToken_user_id = RefreshToken_user_id prior,
      RefreshToken_session_id = RefreshToken_session_id prior,
      RefreshToken_scope = RefreshToken_scope prior,
      RefreshToken_issued_at = now_issued (td_fresh draw),
      RefreshToken_expires_at = now_expiry (td_fresh draw) +
        from_std_or_default (TokenPolicy_refresh_token_lifespan (Realm_token_policy realm)),
      RefreshToken_used = False\<rparr>"

definition handle_refresh ::
  "'l HttpLib_scheme \<Rightarrow> TokenDraw \<Rightarrow> params \<Rightarrow> OidcIssuer \<Rightarrow> Client \<Rightarrow> Realm \<Rightarrow> AppState \<Rightarrow>
   (GrantError + IssuedTokens) \<times> AppState" where
  "handle_refresh lib draw form issuer client realm state =
     (case map_of form ''refresh_token'' of
        None \<Rightarrow> (oauth (invalid_request ''missing refresh_token''), state)
      | Some presented \<Rightarrow>
     (let key = realm_key lib (AppState_refresh_hash_key state) (Realm_id realm) ''refresh'' in
      case with_storage (validate_refresh lib (now_checked (td_fresh draw)) presented key) state of
        (Inl e, state) \<Rightarrow> refresh_failure client realm e state
      | (Inr (RefreshOutcome_Ok prior), state) \<Rightarrow>
     (case mint_pair lib draw issuer client realm (RefreshToken_user_id prior) (RefreshToken_session_id prior)
             (RefreshToken_scope prior) of
        Inl e \<Rightarrow> (Inl e, state)
      | Inr (access, exp, id_token) \<Rightarrow>
     (case with_storage (rotate_refresh_token prior (rotated_token lib draw key realm prior)) state of
        (Inl e, state) \<Rightarrow> (oauth (server_err (RefreshRotateError_to_string e)), state)
      | (Inr _, state) \<Rightarrow>
          (Inr (issued access exp id_token (Some (fresh_secret (td_fresh draw))) (RefreshToken_scope prior)
                 (RefreshToken_session_id prior)),
           emit_user (Realm_id realm) (RefreshToken_user_id prior) TOKEN_REFRESHED
             (Some (Target_Session (RefreshToken_session_id prior)))
             (Value_Object [(''client_id'', Value_String (Client_client_id client))]) state)))))"

text \<open>The engine checks the grant again, draws a session id and mints; the store is not touched.\<close>

definition handle_client_credentials ::
  "'l HttpLib_scheme \<Rightarrow> TokenDraw \<Rightarrow> params \<Rightarrow> OidcIssuer \<Rightarrow> Client \<Rightarrow> Realm \<Rightarrow> GrantError + IssuedTokens" where
  "handle_client_credentials lib draw form issuer client realm =
     (let scope = (case parse_scope_string (unwrap_or (map_of form ''scope'') []) of Inl _ \<Rightarrow> [] | Inr s \<Rightarrow> s) in
      ClientCredentialsGrant_exchange (oidc_issuer lib (td_mint draw) (td_id_mint draw) issuer) (td_fresh draw)
        \<lparr>ClientCredentialsGrant_scope = scope\<rparr> client realm)"

text \<open>
  \<open>verify_password\<close> of \<^verbatim>\<open>crates/geonosis-crypto/src/password.rs\<close>: \<open>argon2_verify\<close> parses the stored
  string and compares, an error is a malformed string. The dummy verification of the other branches
  only takes time.
\<close>

definition verify_password :: "'l HttpLib_scheme \<Rightarrow> string \<Rightarrow> string \<Rightarrow> string + bool" where
  "verify_password lib password stored_hash = argon2_verify lib password stored_hash"

definition handle_password ::
  "'l HttpLib_scheme \<Rightarrow> TokenDraw \<Rightarrow> params \<Rightarrow> OidcIssuer \<Rightarrow> Client \<Rightarrow> Realm \<Rightarrow> AppState \<Rightarrow>
   (OAuthError + IssuedTokens) \<times> AppState" where
  "handle_password lib draw form issuer client realm state =
     (let bad = Inl (invalid_grant ''invalid username or password'') in
      case map_of form ''username'' of
        None \<Rightarrow> (Inl (invalid_request ''missing username''), state)
      | Some username \<Rightarrow>
     (case map_of form ''password'' of
        None \<Rightarrow> (Inl (invalid_request ''missing password''), state)
      | Some password \<Rightarrow>
     (case parse_scope_string (unwrap_or (map_of form ''scope'') ''openid'') of
        Inl e \<Rightarrow> (Inl (invalid_request (scope_error_text e)), state)
      | Inr scope \<Rightarrow>
     (case get_user_by_username (Realm_id realm) username (AppState_storage state) of
        Inl _ \<Rightarrow> (bad, state)
      | Inr user \<Rightarrow>
      if \<not> User_enabled user then (bad, state)
      else (case get_password_hash (Realm_id realm) (User_id user) (AppState_storage state) of
        Inl _ \<Rightarrow> (bad, state)
      | Inr phc \<Rightarrow>
          if \<not> (case verify_password lib password phc of Inl _ \<Rightarrow> False | Inr b \<Rightarrow> b) then (bad, state)
          else issue_user_tokens lib draw issuer client realm (User_id user) scope state)))))"

definition handle_device_code ::
  "'l HttpLib_scheme \<Rightarrow> TokenDraw \<Rightarrow> params \<Rightarrow> OidcIssuer \<Rightarrow> Client \<Rightarrow> Realm \<Rightarrow> AppState \<Rightarrow>
   (OAuthError + IssuedTokens) \<times> AppState" where
  "handle_device_code lib draw form issuer client realm state =
     (case map_of form ''device_code'' of
        None \<Rightarrow> (Inl (invalid_request ''missing device_code''), state)
      | Some device_code \<Rightarrow>
     (case get_device_grant_by_device_code device_code (AppState_storage state) of
        Inl _ \<Rightarrow> (Inl (invalid_grant ''unknown device_code''), state)
      | Inr grant \<Rightarrow>
      if DeviceGrant_realm_id grant \<noteq> Realm_id realm \<or> DeviceGrant_client_id grant \<noteq> Client_id client
      then (Inl (invalid_grant ''device_code mismatch''), state)
      else (let now = now_checked (td_fresh draw) in
      if DeviceGrant_expires_at grant < now
      then (Inl (OAuthError_new OAuthErrorCode_ExpiredToken ''device_code expired''),
            snd (with_storage (delete_device_grant device_code) state))
      else if (case DeviceGrant_last_polled_at grant of
                 None \<Rightarrow> False
               | Some polled \<Rightarrow> num_seconds (now - polled) < int (unat (DeviceGrant_interval_seconds grant)))
      then (Inl (OAuthError_new OAuthErrorCode_SlowDown ''slow down''), state)
      else (let grant = grant\<lparr>DeviceGrant_last_polled_at := Some now\<rparr> in
        case DeviceGrant_status grant of
          DeviceGrantStatus_Pending \<Rightarrow>
            (Inl (OAuthError_new OAuthErrorCode_AuthorizationPending ''authorization pending''),
             snd (with_storage (update_device_grant grant) state))
        | DeviceGrantStatus_Denied \<Rightarrow>
            (Inl (OAuthError_new OAuthErrorCode_AccessDenied ''user denied''),
             snd (with_storage (delete_device_grant device_code) state))
        | DeviceGrantStatus_Expired \<Rightarrow>
            (Inl (OAuthError_new OAuthErrorCode_ExpiredToken ''device_code expired''), state)
        | DeviceGrantStatus_Approved \<Rightarrow>
            (case DeviceGrant_user_id grant of
               None \<Rightarrow> (Inl (server_err ''device grant approved without user_id''), state)
             | Some user_id \<Rightarrow>
                 issue_user_tokens lib draw issuer client realm user_id (DeviceGrant_scope grant)
                   (snd (with_storage (delete_device_grant device_code) state)))))))"

definition requested_audience :: "params \<Rightarrow> string list option" where
  "requested_audience form =
     (case map_of form ''audience'' of
        Some s \<Rightarrow> Some (split_char CHR '' '' s)
      | None \<Rightarrow> map_option (\<lambda>s. [s]) (map_of form ''resource''))"

definition handle_token_exchange ::
  "'l HttpLib_scheme \<Rightarrow> TokenDraw \<Rightarrow> params \<Rightarrow> OidcIssuer \<Rightarrow> Client \<Rightarrow> Realm \<Rightarrow> AppState \<Rightarrow>
   (OAuthError + IssuedTokens) \<times> AppState" where
  "handle_token_exchange lib draw form issuer client realm state =
     (case map_of form ''subject_token'' of
        None \<Rightarrow> (Inl (invalid_request ''missing subject_token''), state)
      | Some subject_token \<Rightarrow>
     (case map_of form ''subject_token_type'' of
        None \<Rightarrow> (Inl (invalid_request ''missing subject_token_type''), state)
      | Some subject_token_type \<Rightarrow>
      if subject_token_type \<noteq> ''urn:ietf:params:oauth:token-type:access_token''
      then (Inl (invalid_request (''subject_token_type '' @ subject_token_type @
                   '' not supported in v0.1; access_token only'')), state)
      else (case verify_access_token lib (now_checked (td_fresh draw)) (AppState_kms state)
                   (AppState_public_base_url state) realm subject_token of
        Inl e \<Rightarrow> (Inl (invalid_grant (''subject_token: '' @ VerifyError_to_string e)), state)
      | Inr claims \<Rightarrow>
     (case parse_ulid lib (AccessTokenClaims_sub claims) of
        Inl _ \<Rightarrow> (Inl (invalid_request ''subject_token sub is not a local user id''), state)
      | Inr u \<Rightarrow>
     (case parse_scope_string (AccessTokenClaims_scope claims) of
        Inl e \<Rightarrow> (Inl (invalid_request (scope_error_text e)), state)
      | Inr original_scope \<Rightarrow>
     (case (case map_of form ''scope'' of
              Some s \<Rightarrow> parse_scope_string s
            | None \<Rightarrow> Inr original_scope) of
        Inl e \<Rightarrow> (Inl (invalid_request (scope_error_text e)), state)
      | Inr requested_scope \<Rightarrow>
      if \<not> list_all (\<lambda>s. s \<in> set original_scope) requested_scope
      then (Inl (OAuthError_new OAuthErrorCode_InvalidScope
                   ''requested scope must be a subset of subject_token scope''), state)
      else (let act = build_actor_chain (Client_client_id client) (AccessTokenClaims_act claims);
                session_id = fresh_session (td_fresh draw) in
            case with_storage (create_session (fresh_grant_session draw realm (UserId u))) state of
              (Inl e, state) \<Rightarrow> (Inl (server_err (StorageError_to_string e)), state)
            | (Inr _, state) \<Rightarrow>
                (case mint_access_token_with_extras lib (td_mint draw) issuer realm client
                        (Subject_Local (UserId u)) session_id requested_scope
                        \<lparr>AccessTokenExtras_org = AccessTokenClaims_org claims,
                         AccessTokenExtras_act = Some act,
                         AccessTokenExtras_audience = requested_audience form\<rparr> of
                   Inl e \<Rightarrow> (Inl (into_oauth_err e), state)
                 | Inr (access, exp) \<Rightarrow>
                     (Inr (issued access exp None None requested_scope session_id), state)))))))))"

section \<open>The endpoint\<close>

definition dispatch_grant ::
  "'l HttpLib_scheme \<Rightarrow> TokenDraw \<Rightarrow> GrantType \<Rightarrow> params \<Rightarrow> OidcIssuer \<Rightarrow> Client \<Rightarrow> Realm \<Rightarrow> AppState \<Rightarrow>
   (OAuthError + IssuedTokens) \<times> AppState" where
  "dispatch_grant lib draw grant form issuer client realm state =
     (case grant of
        GrantType_AuthorizationCode \<Rightarrow>
          map_prod (map_sum into_oauth_err id) id (handle_auth_code lib draw form issuer client realm state)
      | GrantType_RefreshToken \<Rightarrow>
          map_prod (map_sum into_oauth_err id) id (handle_refresh lib draw form issuer client realm state)
      | GrantType_ClientCredentials \<Rightarrow>
          (map_sum into_oauth_err id (handle_client_credentials lib draw form issuer client realm), state)
      | GrantType_Password \<Rightarrow> handle_password lib draw form issuer client realm state
      | GrantType_DeviceCode \<Rightarrow> handle_device_code lib draw form issuer client realm state
      | GrantType_TokenExchange \<Rightarrow> handle_token_exchange lib draw form issuer client realm state)"

definition token_success :: "Realm \<Rightarrow> Client \<Rightarrow> GrantType \<Rightarrow> IssuedTokens \<Rightarrow> AppState \<Rightarrow> Response \<times> AppState" where
  "token_success realm client grant tokens state =
     (Response 200 (Body_Tokens (TokenResponseBody_from tokens)),
      emit_system (Realm_id realm) TOKEN_ISSUED (Some (Target_Session (IssuedTokens_session_id tokens)))
        (Value_Object [(''client_id'', Value_String (Client_client_id client)),
                       (''grant_type'', Value_String (grant_type_label grant))])
        (count MetricsState_oidc_token_update [Realm_slug realm, grant_type_label grant, ''success''] state))"

definition token_failure :: "Realm \<Rightarrow> Client \<Rightarrow> GrantType \<Rightarrow> OAuthError \<Rightarrow> AppState \<Rightarrow> Response \<times> AppState" where
  "token_failure realm client grant e state =
     (let state = count MetricsState_oidc_token_update [Realm_slug realm, grant_type_label grant, ''error''] state in
      (oauth_error_response e,
       if grant = GrantType_Password
       then emit_system (Realm_id realm) LOGIN_FAILURE None
              (Value_Object [(''client_id'', Value_String (Client_client_id client)),
                             (''grant_type'', Value_String ''password''),
                             (''reason'', Value_String (error_reason_label e))])
              (count MetricsState_oidc_login_failures_update [Realm_slug realm, error_reason_label e] state)
       else state))"

definition token ::
  "'l HttpLib_scheme \<Rightarrow> TokenDraw \<Rightarrow> string \<Rightarrow> HeaderMap \<Rightarrow> params \<Rightarrow> AppState \<Rightarrow> Response \<times> AppState" where
  "token lib draw slug headers form state =
     (case get_realm_by_slug slug (AppState_storage state) of
        Inl _ \<Rightarrow> (oauth_error_response (invalid_request ''realm not found''), state)
      | Inr realm \<Rightarrow>
     (case map_of form ''grant_type'' of
        None \<Rightarrow> (oauth_error_response (invalid_request ''missing grant_type''), state)
      | Some grant_str \<Rightarrow>
     (case GrantType_parse grant_str of
        None \<Rightarrow> (oauth_error_response (unsupported_grant_type grant_str), state)
      | Some grant \<Rightarrow>
     (case authenticate_client lib state (Realm_id realm) headers form of
        Inl e \<Rightarrow> (oauth_error_response e, state)
      | Inr auth \<Rightarrow>
     (let client = AuthenticatedClient_client auth in
      case assert_grant_permitted client grant of
        Inl e \<Rightarrow> (oauth_error_response e, state)
      | Inr _ \<Rightarrow>
     (case dispatch_grant lib draw grant form (build_issuer state) client realm state of
        (Inr tokens, state) \<Rightarrow> token_success realm client grant tokens state
      | (Inl e, state) \<Rightarrow> token_failure realm client grant e state))))))"

end
