(* ===== verification/Crypto_Webauthn.thy ===== *)
theory Crypto_Webauthn
  imports Server_Token
begin

text \<open>
  Verification of WebAuthn assertions, \<^verbatim>\<open>crates/geonosis-crypto/src/webauthn.rs\<close>: the checks of the
  ceremony in the order of the code, over the bytes the browser sent. The key and signature parsers
  and the signature primitives of the \<open>p256\<close>, \<open>rsa\<close> and \<open>ed25519-dalek\<close> crates, and the JSON
  decoders, are fields of \<open>WebauthnLib\<close>.
\<close>

unbundle bit_operations_syntax

record StoredCredential =
  StoredCredential_credential_id :: string
  StoredCredential_cose_alg :: i64
  StoredCredential_public_key_b64 :: string
  StoredCredential_sign_count :: u32

record AssertionParams =
  AssertionParams_client_data_json :: string
  AssertionParams_authenticator_data :: string
  AssertionParams_signature :: string
  AssertionParams_expected_challenge :: string
  AssertionParams_expected_origin :: string
  AssertionParams_rp_id :: string
  AssertionParams_credential :: StoredCredential
  AssertionParams_require_user_verification :: bool

record VerifiedAssertion =
  VerifiedAssertion_credential_id :: string
  VerifiedAssertion_new_sign_count :: u32
  VerifiedAssertion_user_present :: bool
  VerifiedAssertion_user_verified :: bool

datatype WebauthnError =
    WebauthnError_Malformed string
  | WebauthnError_WrongType string
  | WebauthnError_ChallengeMismatch
  | WebauthnError_OriginMismatch string string
  | WebauthnError_CrossOrigin
  | WebauthnError_RpIdMismatch
  | WebauthnError_UserNotPresent
  | WebauthnError_UserNotVerified
  | WebauthnError_UnsupportedAlgorithm i64
  | WebauthnError_InvalidSignature
  | WebauthnError_SignCountRegression u32 u32
  | WebauthnError_KeyError string

fun WebauthnError_to_string :: "WebauthnError \<Rightarrow> string" where
  "WebauthnError_to_string (WebauthnError_Malformed m) = ''malformed assertion: '' @ m"
| "WebauthnError_to_string (WebauthnError_WrongType t) = ''client data type must be webauthn.get, got '' @ t"
| "WebauthnError_to_string WebauthnError_ChallengeMismatch = ''challenge mismatch''"
| "WebauthnError_to_string (WebauthnError_OriginMismatch got expected) =
     ''origin mismatch: got '' @ got @ '', expected '' @ expected"
| "WebauthnError_to_string WebauthnError_CrossOrigin = ''cross-origin assertions not permitted''"
| "WebauthnError_to_string WebauthnError_RpIdMismatch = ''rp_id hash mismatch''"
| "WebauthnError_to_string WebauthnError_UserNotPresent = ''user presence flag not set''"
| "WebauthnError_to_string WebauthnError_UserNotVerified = ''user verification required but not performed''"
| "WebauthnError_to_string (WebauthnError_UnsupportedAlgorithm a) = ''unsupported COSE algorithm: '' @ show_int a"
| "WebauthnError_to_string WebauthnError_InvalidSignature = ''invalid signature''"
| "WebauthnError_to_string (WebauthnError_SignCountRegression stored got) =
     ''sign count regression: stored='' @ show_nat (unat stored) @ '', got='' @ show_nat (unat got)"
| "WebauthnError_to_string (WebauthnError_KeyError m) = ''key error: '' @ m"

record CollectedClientData =
  CollectedClientData_type :: string
  CollectedClientData_challenge :: string
  CollectedClientData_origin :: string
  CollectedClientData_cross_origin :: "bool option"

record WebauthnLib = HttpLib +
  client_data_from_json :: "string \<Rightarrow> string + CollectedClientData"
  p256_point :: "string \<Rightarrow> string + string"
  p256_point_key :: "string \<Rightarrow> string + string"
  p256_der_signature :: "string \<Rightarrow> string option"
  p256_check :: "string \<Rightarrow> string \<Rightarrow> string \<Rightarrow> bool"
  rsa_pkcs1_key :: "string \<Rightarrow> string + string"
  rsa_signature :: "string \<Rightarrow> string + string"
  rsa_check :: "string \<Rightarrow> string \<Rightarrow> string \<Rightarrow> bool"
  ed25519_key :: "string \<Rightarrow> string + string"
  ed25519_signature :: "string \<Rightarrow> string option"
  ed25519_check :: "string \<Rightarrow> string \<Rightarrow> string \<Rightarrow> bool"

definition COSE_ES256 :: i64 where "COSE_ES256 = -7"
definition COSE_RS256 :: i64 where "COSE_RS256 = -257"
definition COSE_EDDSA :: i64 where "COSE_EDDSA = -8"

definition webauthn_verify_es256 :: "'l WebauthnLib_scheme \<Rightarrow> string \<Rightarrow> string \<Rightarrow> string \<Rightarrow> WebauthnError + unit" where
  "webauthn_verify_es256 lib pub_key_bytes data sig_bytes =
     (case p256_point lib pub_key_bytes of
        Inl e \<Rightarrow> Inl (WebauthnError_KeyError (''ES256 point: '' @ e))
      | Inr point \<Rightarrow>
     (case p256_point_key lib point of
        Inl e \<Rightarrow> Inl (WebauthnError_KeyError (''ES256 key: '' @ e))
      | Inr vk \<Rightarrow>
     (case p256_der_signature lib sig_bytes of
        None \<Rightarrow> Inl WebauthnError_InvalidSignature
      | Some sig \<Rightarrow> if p256_check lib vk data sig then Inr () else Inl WebauthnError_InvalidSignature)))"

definition webauthn_verify_rs256 :: "'l WebauthnLib_scheme \<Rightarrow> string \<Rightarrow> string \<Rightarrow> string \<Rightarrow> WebauthnError + unit" where
  "webauthn_verify_rs256 lib pub_key_bytes data sig_bytes =
     (case rsa_pkcs1_key lib pub_key_bytes of
        Inl e \<Rightarrow> Inl (WebauthnError_KeyError (''RS256 DER: '' @ e))
      | Inr vk \<Rightarrow>
     (case rsa_signature lib sig_bytes of
        Inl e \<Rightarrow> Inl (WebauthnError_KeyError (''RS256 sig: '' @ e))
      | Inr sig \<Rightarrow> if rsa_check lib vk data sig then Inr () else Inl WebauthnError_InvalidSignature))"

definition webauthn_verify_eddsa :: "'l WebauthnLib_scheme \<Rightarrow> string \<Rightarrow> string \<Rightarrow> string \<Rightarrow> WebauthnError + unit" where
  "webauthn_verify_eddsa lib pub_key_bytes data sig_bytes =
     (if length pub_key_bytes \<noteq> 32
      then Inl (WebauthnError_KeyError (''EdDSA key must be 32 bytes, got '' @ show_nat (length pub_key_bytes)))
      else case ed25519_key lib pub_key_bytes of
        Inl e \<Rightarrow> Inl (WebauthnError_KeyError (''EdDSA key: '' @ e))
      | Inr vk \<Rightarrow>
     (case ed25519_signature lib sig_bytes of
        None \<Rightarrow> Inl WebauthnError_InvalidSignature
      | Some sig \<Rightarrow> if ed25519_check lib vk data sig then Inr () else Inl WebauthnError_InvalidSignature))"

definition webauthn_verify_signature ::
  "'l WebauthnLib_scheme \<Rightarrow> i64 \<Rightarrow> string \<Rightarrow> string \<Rightarrow> string \<Rightarrow> WebauthnError + unit" where
  "webauthn_verify_signature lib cose_alg pub_key_bytes data sig_bytes =
     (if cose_alg = COSE_ES256 then webauthn_verify_es256 lib pub_key_bytes data sig_bytes
      else if cose_alg = COSE_RS256 then webauthn_verify_rs256 lib pub_key_bytes data sig_bytes
      else if cose_alg = COSE_EDDSA then webauthn_verify_eddsa lib pub_key_bytes data sig_bytes
      else Inl (WebauthnError_UnsupportedAlgorithm cose_alg))"

definition u32_from_be_bytes :: "u8 \<Rightarrow> u8 \<Rightarrow> u8 \<Rightarrow> u8 \<Rightarrow> u32" where
  "u32_from_be_bytes a b c d = push_bit 24 (ucast a) OR push_bit 16 (ucast b) OR push_bit 8 (ucast c) OR ucast d"

text \<open>The slices and indices below are in range: they follow the check of the length.\<close>

definition verify_assertion :: "'l WebauthnLib_scheme \<Rightarrow> AssertionParams \<Rightarrow> WebauthnError + VerifiedAssertion" where
  "verify_assertion lib p =
     (case client_data_from_json lib (AssertionParams_client_data_json p) of
        Inl e \<Rightarrow> Inl (WebauthnError_Malformed (''clientDataJSON: '' @ e))
      | Inr client_data \<Rightarrow>
      if CollectedClientData_type client_data \<noteq> ''webauthn.get''
      then Inl (WebauthnError_WrongType (CollectedClientData_type client_data))
      else if CollectedClientData_challenge client_data \<noteq> AssertionParams_expected_challenge p
      then Inl WebauthnError_ChallengeMismatch
      else if CollectedClientData_origin client_data \<noteq> AssertionParams_expected_origin p
      then Inl (WebauthnError_OriginMismatch (CollectedClientData_origin client_data) (AssertionParams_expected_origin p))
      else if unwrap_or (CollectedClientData_cross_origin client_data) False
      then Inl WebauthnError_CrossOrigin
      else (let auth_data = AssertionParams_authenticator_data p in
      if length auth_data < 37
      then Inl (WebauthnError_Malformed (''authenticatorData too short: '' @ show_nat (length auth_data) @ '' bytes''))
      else if take 32 auth_data \<noteq> sha256_digest lib (AssertionParams_rp_id p)
      then Inl WebauthnError_RpIdMismatch
      else (let flags = byte_of (auth_data ! 32);
                user_present = (flags AND 1 \<noteq> 0);
                user_verified = (flags AND 4 \<noteq> 0) in
      if \<not> user_present then Inl WebauthnError_UserNotPresent
      else if AssertionParams_require_user_verification p \<and> \<not> user_verified then Inl WebauthnError_UserNotVerified
      else (let sign_count = u32_from_be_bytes (byte_of (auth_data ! 33)) (byte_of (auth_data ! 34))
                               (byte_of (auth_data ! 35)) (byte_of (auth_data ! 36));
                verification_data = auth_data @ sha256_digest lib (AssertionParams_client_data_json p);
                credential = AssertionParams_credential p in
      case base64_url_decode lib (StoredCredential_public_key_b64 credential) of
        Inl e \<Rightarrow> Inl (WebauthnError_KeyError (''base64: '' @ e))
      | Inr pub_key_bytes \<Rightarrow>
     (case webauthn_verify_signature lib (StoredCredential_cose_alg credential) pub_key_bytes verification_data
             (AssertionParams_signature p) of
        Inl e \<Rightarrow> Inl e
      | Inr _ \<Rightarrow>
      if StoredCredential_sign_count credential > 0 \<and> sign_count \<le> StoredCredential_sign_count credential
      then Inl (WebauthnError_SignCountRegression (StoredCredential_sign_count credential) sign_count)
      else Inr \<lparr>VerifiedAssertion_credential_id = StoredCredential_credential_id credential,
                VerifiedAssertion_new_sign_count = sign_count,
                VerifiedAssertion_user_present = user_present,
                VerifiedAssertion_user_verified = user_verified\<rparr>)))))"

section \<open>What an accepted assertion shows\<close>

definition assertion_signed :: "'l WebauthnLib_scheme \<Rightarrow> AssertionParams \<Rightarrow> bool" where
  "assertion_signed lib p \<longleftrightarrow> (\<exists>key. base64_url_decode lib (StoredCredential_public_key_b64 (AssertionParams_credential p)) = Inr key \<and>
     webauthn_verify_signature lib (StoredCredential_cose_alg (AssertionParams_credential p)) key
       (AssertionParams_authenticator_data p @ sha256_digest lib (AssertionParams_client_data_json p))
       (AssertionParams_signature p) = Inr ())"

definition client_data_bound :: "'l WebauthnLib_scheme \<Rightarrow> AssertionParams \<Rightarrow> bool" where
  "client_data_bound lib p \<longleftrightarrow> (\<exists>cd. client_data_from_json lib (AssertionParams_client_data_json p) = Inr cd \<and>
     CollectedClientData_type cd = ''webauthn.get'' \<and>
     CollectedClientData_challenge cd = AssertionParams_expected_challenge p \<and>
     CollectedClientData_origin cd = AssertionParams_expected_origin p \<and>
     CollectedClientData_cross_origin cd \<noteq> Some True)"

definition assertion_count :: "AssertionParams \<Rightarrow> u32" where
  "assertion_count p = (let d = AssertionParams_authenticator_data p in
     u32_from_be_bytes (byte_of (d ! 33)) (byte_of (d ! 34)) (byte_of (d ! 35)) (byte_of (d ! 36)))"

lemma verify_assertion_iff:
  "verify_assertion lib p = Inr v \<longleftrightarrow>
     client_data_bound lib p \<and> assertion_signed lib p \<and>
     37 \<le> length (AssertionParams_authenticator_data p) \<and>
     take 32 (AssertionParams_authenticator_data p) = sha256_digest lib (AssertionParams_rp_id p) \<and>
     byte_of (AssertionParams_authenticator_data p ! 32) AND 1 \<noteq> 0 \<and>
     (AssertionParams_require_user_verification p \<longrightarrow> byte_of (AssertionParams_authenticator_data p ! 32) AND 4 \<noteq> 0) \<and>
     (StoredCredential_sign_count (AssertionParams_credential p) = 0 \<or>
        StoredCredential_sign_count (AssertionParams_credential p) < assertion_count p) \<and>
     v = \<lparr>VerifiedAssertion_credential_id = StoredCredential_credential_id (AssertionParams_credential p),
          VerifiedAssertion_new_sign_count = assertion_count p, VerifiedAssertion_user_present = True,
          VerifiedAssertion_user_verified = (byte_of (AssertionParams_authenticator_data p ! 32) AND 4 \<noteq> 0)\<rparr>"
  unfolding verify_assertion_def client_data_bound_def assertion_signed_def assertion_count_def Let_def
  by (auto simp: not_less not_le word_gt_0 unwrap_or_def split: sum.splits option.splits if_splits)

end
