(* ===== verification/Authn_Base.thy ===== *)
theory Authn_Base
  imports Crypto_Webauthn
begin

text \<open>
  The interface of the built-in authenticators (\<open>traits.rs\<close>, \<open>context.rs\<close> of
  \<^verbatim>\<open>crates/geonosis-authenticators/src\<close>) and the brute-force lockout (\<open>brute_force.rs\<close>). The
  storage handle of the context is the explicit store of the operations; what an authenticator draws
  at random or reads from the clock beside \<open>ctx.now\<close> is an \<open>AuthnDraw\<close>. Calendar arithmetic is
  exact: instants outside the range of chrono, where the code panics, are not modelled.
\<close>

datatype AuthnError =
    AuthnError_Invalid string | AuthnError_Internal string | AuthnError_Storage string | AuthnError_Crypto string

fun AuthnError_to_string :: "AuthnError \<Rightarrow> string" where
  "AuthnError_to_string (AuthnError_Invalid m) = ''invalid input: '' @ m"
| "AuthnError_to_string (AuthnError_Internal m) = ''internal: '' @ m"
| "AuthnError_to_string (AuthnError_Storage m) = ''storage: '' @ m"
| "AuthnError_to_string (AuthnError_Crypto m) = ''crypto: '' @ m"

datatype AuthnInput = AuthnInput_Init | AuthnInput_Submit params | AuthnInput_Resume

record AuthnRenderInstruction =
  AuthnRenderInstruction_template :: string
  AuthnRenderInstruction_locals :: "(string, Value) btree_map"

definition AuthnRenderInstruction_new :: "string \<Rightarrow> AuthnRenderInstruction" where
  "AuthnRenderInstruction_new template =
     \<lparr>AuthnRenderInstruction_template = template, AuthnRenderInstruction_locals = []\<rparr>"

definition AuthnRenderInstruction_with ::
  "string \<Rightarrow> Value \<Rightarrow> AuthnRenderInstruction \<Rightarrow> AuthnRenderInstruction" where
  "AuthnRenderInstruction_with k v r =
     r\<lparr>AuthnRenderInstruction_locals := bt_insert k v (AuthnRenderInstruction_locals r)\<rparr>"

datatype FailureKind =
    FailureKind_InvalidCredential | FailureKind_UserDisabled | FailureKind_UserNotFound
  | FailureKind_ConsentDenied | FailureKind_Locked | FailureKind_BrokerError string
  | FailureKind_RequiresEnrollment | FailureKind_HighRisk | FailureKind_Other string

datatype AuthnOutput =
    AuthnOutput_Success "CredentialKind list" "Amr list"
  | AuthnOutput_Continue AuthnRenderInstruction
  | AuthnOutput_Skip
  | AuthnOutput_Failure FailureKind

record AuthnContext =
  AuthnContext_realm_id :: RealmId
  AuthnContext_client :: Client
  AuthnContext_realm_hash_key :: string
  AuthnContext_user_id :: "UserId option"
  AuthnContext_session_id :: "SessionId option"
  AuthnContext_amr :: "Amr list"
  AuthnContext_locals :: "(string, Value) btree_map"
  AuthnContext_now :: DateTime
  AuthnContext_brute_force :: BruteForcePolicy

definition record_amr :: "Amr \<Rightarrow> AuthnContext \<Rightarrow> AuthnContext" where
  "record_amr amr ctx = ctx\<lparr>AuthnContext_amr := push_new amr (AuthnContext_amr ctx)\<rparr>"

record AuthnDraw =
  ad_now :: DateTime
  ad_consent_id :: ConsentGrantId
  ad_token :: string
  ad_random :: u64

text \<open>What one call of \<open>Authenticator::process\<close> answers, with the context and the store after it.\<close>

type_synonym authn_result = "(AuthnError + AuthnOutput) \<times> AuthnContext \<times> Tables"

section \<open>Brute-force lockout (\<open>brute_force.rs\<close>)\<close>

datatype BruteForceError = BruteForceError_Storage string | BruteForceError_Locked DateTime

definition check_locked :: "RealmId \<Rightarrow> UserId \<Rightarrow> DateTime \<Rightarrow> Tables \<Rightarrow> BruteForceError + unit" where
  "check_locked realm user_id now t =
     (case get_user realm user_id t of
        Inl e \<Rightarrow> Inl (BruteForceError_Storage (StorageError_to_string e))
      | Inr user \<Rightarrow>
          (case User_locked_until user of
             Some until \<Rightarrow> if until > now then Inl (BruteForceError_Locked until) else Inr ()
           | None \<Rightarrow> Inr ()))"

definition record_success :: "RealmId \<Rightarrow> UserId \<Rightarrow> Tables \<Rightarrow> (BruteForceError + unit) \<times> Tables" where
  "record_success realm user_id t =
     (case get_user realm user_id t of
        Inl e \<Rightarrow> (Inl (BruteForceError_Storage (StorageError_to_string e)), t)
      | Inr user \<Rightarrow>
          if User_failed_attempts user = 0 \<and> User_locked_until user = None \<and> User_last_failed_at user = None
          then (Inr (), t)
          else (case update_user (user\<lparr>User_failed_attempts := 0, User_locked_until := None,
                                        User_last_failed_at := None\<rparr>) t of
                  (Inl e, t') \<Rightarrow> (Inl (BruteForceError_Storage (StorageError_to_string e)), t')
                | (Inr _, t') \<Rightarrow> (Inr (), t')))"

definition lockout_wait :: "BruteForcePolicy \<Rightarrow> u32 \<Rightarrow> ChronoDuration" where
  "lockout_wait policy attempts =
     (let increment = unwrap_or (chrono_from_std (BruteForcePolicy_wait_increment policy)) (chrono_seconds 60);
          max_wait = unwrap_or (chrono_from_std (BruteForcePolicy_max_wait policy)) (chrono_seconds (15 * 60));
          attempts_over = saturating_sub attempts (BruteForcePolicy_max_login_failures policy) + 1;
          raw = increment * sint attempts_over
      in if raw > max_wait then max_wait else raw)"

definition failed_user :: "BruteForcePolicy \<Rightarrow> DateTime \<Rightarrow> User \<Rightarrow> User" where
  "failed_user policy now user =
     (let reset_after = unwrap_or (chrono_from_std (BruteForcePolicy_failure_reset policy)) (chrono_seconds 0);
          user = (case User_last_failed_at user of
                    Some last_failed \<Rightarrow> if now - last_failed > reset_after then user\<lparr>User_failed_attempts := 0\<rparr> else user
                  | None \<Rightarrow> user);
          user = user\<lparr>User_failed_attempts := saturating_add (User_failed_attempts user) 1,
                      User_last_failed_at := Some now\<rparr>
      in if BruteForcePolicy_enabled policy \<and>
            User_failed_attempts user \<ge> BruteForcePolicy_max_login_failures policy
         then user\<lparr>User_locked_until := Some (if BruteForcePolicy_permanent_lockout policy
                then now + chrono_seconds (365 * 100 * 86400)
                else now + lockout_wait policy (User_failed_attempts user))\<rparr>
         else user)"

definition record_failure ::
  "RealmId \<Rightarrow> UserId \<Rightarrow> BruteForcePolicy \<Rightarrow> DateTime \<Rightarrow> Tables \<Rightarrow> (BruteForceError + User) \<times> Tables" where
  "record_failure realm user_id policy now t =
     (case get_user realm user_id t of
        Inl e \<Rightarrow> (Inl (BruteForceError_Storage (StorageError_to_string e)), t)
      | Inr user \<Rightarrow>
          (let user = failed_user policy now user in
           case update_user user t of
             (Inl e, t') \<Rightarrow> (Inl (BruteForceError_Storage (StorageError_to_string e)), t')
           | (Inr _, t') \<Rightarrow> (Inr user, t')))"

section \<open>Counting failures\<close>

text \<open>A user row stored under its own key.\<close>

definition stored_user :: "RealmId \<Rightarrow> UserId \<Rightarrow> User \<Rightarrow> 'a IdentityTables_scheme \<Rightarrow> bool" where
  "stored_user realm u user t \<longleftrightarrow> map_of (users t) (realm, u) = Some user \<and> User_realm_id user = realm \<and> User_id user = u"

lemma stored_user_get: "stored_user realm u user t \<Longrightarrow> get_user realm u t = Inr user"
  by (simp add: stored_user_def get_user_def)

lemma stored_user_update:
  assumes "stored_user realm u user t" and "User_realm_id user' = realm" "User_id user' = u"
  shows "update_user user' t = (Inr (), t\<lparr>users := hm_insert (realm, u) user' (users t)\<rparr>)"
  using assms by (auto simp: stored_user_def update_user_def hm_contains_key_iff)

lemma failed_user_ids [simp]:
  "User_realm_id (failed_user policy now user) = User_realm_id user"
  "User_id (failed_user policy now user) = User_id user"
  by (simp_all add: failed_user_def Let_def split: option.split)

lemma failed_user_last [simp]: "User_last_failed_at (failed_user policy now user) = Some now"
  by (simp add: failed_user_def Let_def split: option.split)

lemma record_failure_stored:
  assumes "stored_user realm u user t"
  shows "record_failure realm u policy now t =
    (Inr (failed_user policy now user),
     t\<lparr>users := hm_insert (realm, u) (failed_user policy now user) (users t)\<rparr>)"
    "stored_user realm u (failed_user policy now user) (snd (record_failure realm u policy now t))"
proof -
  have ids: "User_realm_id user = realm" "User_id user = u" using assms by (simp_all add: stored_user_def)
  show e: "record_failure realm u policy now t =
    (Inr (failed_user policy now user),
     t\<lparr>users := hm_insert (realm, u) (failed_user policy now user) (users t)\<rparr>)"
    using assms stored_user_update [OF assms, of "failed_user policy now user"] ids
    by (simp add: record_failure_def stored_user_get Let_def)
  show "stored_user realm u (failed_user policy now user) (snd (record_failure realm u policy now t))"
    using ids by (simp add: e stored_user_def)
qed

lemma unat_of_nat_u32: "n < 2 ^ 32 \<Longrightarrow> unat (of_nat n :: u32) = n"
  by (simp add: unat_of_nat)

lemma saturating_add_1: "Suc k < 2 ^ 32 \<Longrightarrow> saturating_add (of_nat k) 1 = (of_nat (Suc k) :: u32)"
  unfolding word_unat_eq_iff unat_saturating_add by (simp only: unat_of_nat_u32) (simp add: unat_of_nat)

lemma sint_of_nat_small: "n < 2 ^ 31 \<Longrightarrow> sint (of_nat n :: u32) = int n"
  by (simp add: signed_of_nat signed_take_bit_int_eq_self)

lemma u32_le_of_nat: "n < 2 ^ 32 \<Longrightarrow> m \<le> (of_nat n :: u32) \<longleftrightarrow> unat m \<le> n"
  by (simp only: word_le_nat_alt unat_of_nat_u32)

text \<open>A policy whose durations fit chrono.\<close>

definition policy_fits :: "BruteForcePolicy \<Rightarrow> bool" where
  "policy_fits p \<longleftrightarrow> chrono_from_std (BruteForcePolicy_wait_increment p) \<noteq> None \<and>
     chrono_from_std (BruteForcePolicy_max_wait p) \<noteq> None \<and>
     chrono_from_std (BruteForcePolicy_failure_reset p) \<noteq> None"

lemma policy_fits_durations:
  assumes "policy_fits p"
  shows "chrono_from_std (BruteForcePolicy_wait_increment p) = Some (int (BruteForcePolicy_wait_increment p))"
    "chrono_from_std (BruteForcePolicy_max_wait p) = Some (int (BruteForcePolicy_max_wait p))"
    "chrono_from_std (BruteForcePolicy_failure_reset p) = Some (int (BruteForcePolicy_failure_reset p))"
proof -
  have "chrono_from_std d \<noteq> None \<Longrightarrow> chrono_from_std d = Some (int d)" for d
    by (simp add: chrono_from_std_def split: if_splits)
  then show "chrono_from_std (BruteForcePolicy_wait_increment p) = Some (int (BruteForcePolicy_wait_increment p))"
    "chrono_from_std (BruteForcePolicy_max_wait p) = Some (int (BruteForcePolicy_max_wait p))"
    "chrono_from_std (BruteForcePolicy_failure_reset p) = Some (int (BruteForcePolicy_failure_reset p))"
    using assms unfolding policy_fits_def by blast+
qed

text \<open>
  The lockout, on the instants of the failures that count, the latest first: from the threshold on an
  account is locked, for a hundred years or for one increment more with every failure above the
  threshold, up to the maximal wait. A lock is over when its time has passed.
\<close>

definition lock_time :: "BruteForcePolicy \<Rightarrow> nat \<Rightarrow> int" where
  "lock_time p n =
     (if BruteForcePolicy_permanent_lockout p then 100 * 365 * 86400 * 1000000000
      else min (int (BruteForcePolicy_wait_increment p) * int (n - unat (BruteForcePolicy_max_login_failures p) + 1))
             (int (BruteForcePolicy_max_wait p)))"

definition locked_at :: "BruteForcePolicy \<Rightarrow> DateTime list \<Rightarrow> DateTime \<Rightarrow> bool" where
  "locked_at p fs now \<longleftrightarrow> fs \<noteq> [] \<and> BruteForcePolicy_enabled p \<and>
     unat (BruteForcePolicy_max_login_failures p) \<le> length fs \<and> now < hd fs + lock_time p (length fs)"

text \<open>
  Which failures count: an attempt on a locked account changes nothing, the right password clears them,
  and a wrong one counts alone when the last failure is longer ago than the reset time.
\<close>

definition after_failure :: "BruteForcePolicy \<Rightarrow> DateTime \<Rightarrow> DateTime list \<Rightarrow> DateTime list" where
  "after_failure p now fs =
     (if fs \<noteq> [] \<and> int (BruteForcePolicy_failure_reset p) < now - hd fs then [now] else now # fs)"

definition after_attempt :: "BruteForcePolicy \<Rightarrow> DateTime \<times> bool \<Rightarrow> DateTime list \<Rightarrow> DateTime list" where
  "after_attempt p a fs =
     (if locked_at p fs (fst a) then fs else if snd a then [] else after_failure p (fst a) fs)"

definition counted_failures :: "BruteForcePolicy \<Rightarrow> (DateTime \<times> bool) list \<Rightarrow> DateTime list" where
  "counted_failures p attempts = fold (after_attempt p) attempts []"

lemma length_counted_failures: "length (counted_failures p attempts) \<le> length attempts"
  by (induction attempts rule: rev_induct)
    (auto simp: counted_failures_def after_attempt_def after_failure_def)

lemma lockout_wait_eq:
  assumes "policy_fits p" "\<not> BruteForcePolicy_permanent_lockout p" "n + 1 < 2 ^ 31"
  shows "lockout_wait p (of_nat n) = lock_time p n"
proof -
  let ?m = "BruteForcePolicy_max_login_failures p"
  have n: "unat (of_nat n :: u32) = n" using assms(3) by (simp add: unat_of_nat)
  then have "saturating_sub (of_nat n) ?m + 1 = (of_nat (n - unat ?m + 1) :: u32)"
    by (simp add: word_unat_eq_iff unat_saturating_sub unat_word_ariths unat_of_nat)
  moreover have "n - unat ?m + 1 < 2 ^ 31" using assms(3) by simp
  ultimately have "sint (saturating_sub (of_nat n) ?m + 1) = int (n - unat ?m + 1)"
    by (simp only: sint_of_nat_small)
  then show ?thesis
    using assms(2) unfolding lockout_wait_def lock_time_def Let_def policy_fits_durations [OF assms(1)] by simp
qed

text \<open>How a row records the failures; an older lock may still stand in it, but it is over.\<close>

definition lockout_state :: "BruteForcePolicy \<Rightarrow> DateTime list \<Rightarrow> DateTime \<Rightarrow> User \<Rightarrow> bool" where
  "lockout_state p fs clock user \<longleftrightarrow>
     User_failed_attempts user = of_nat (length fs) \<and>
     User_last_failed_at user = (if fs = [] then None else Some (hd fs)) \<and>
     (if fs \<noteq> [] \<and> BruteForcePolicy_enabled p \<and> unat (BruteForcePolicy_max_login_failures p) \<le> length fs
      then User_locked_until user = Some (hd fs + lock_time p (length fs))
      else (\<forall>x. User_locked_until user = Some x \<longrightarrow> x \<le> clock))"

lemma lockout_state_mono: "lockout_state p fs c user \<Longrightarrow> c \<le> c' \<Longrightarrow> lockout_state p fs c' user"
  by (auto simp: lockout_state_def split: if_splits)

lemma failed_user_state:
  assumes "policy_fits p" "lockout_state p fs now user" "\<not> locked_at p fs now" "length fs + 2 < 2 ^ 31"
  shows "lockout_state p (after_failure p now fs) now (failed_user p now user)"
proof -
  let ?fs = "after_failure p now fs" and ?m = "BruteForcePolicy_max_login_failures p"
  have len: "length ?fs + 1 < 2 ^ 31" "length ?fs < 2 ^ 32" "0 < length ?fs" and hd: "hd ?fs = now" "?fs \<noteq> []"
    using assms(4) by (auto simp: after_failure_def)
  have old: "x \<le> now" if "User_locked_until user = Some x" for x
    using that assms(2,3) by (auto simp: lockout_state_def locked_at_def split: if_splits)
  define user1 where "user1 = (case User_last_failed_at user of
      Some last_failed \<Rightarrow> if now - last_failed > int (BruteForcePolicy_failure_reset p)
        then user\<lparr>User_failed_attempts := 0\<rparr> else user
    | None \<Rightarrow> user)"
  have "User_failed_attempts user1 = of_nat (length ?fs - 1)"
    using assms(2) by (auto simp: user1_def lockout_state_def after_failure_def split: if_splits option.splits)
  moreover have "saturating_add (of_nat (length ?fs - 1)) 1 = (of_nat (Suc (length ?fs - 1)) :: u32)"
    using len by (intro saturating_add_1) simp
  ultimately have add: "saturating_add (User_failed_attempts user1) 1 = (of_nat (length ?fs) :: u32)"
    using len(3) by simp
  have until: "User_locked_until user1 = User_locked_until user"
    by (simp add: user1_def split: option.split)
  have wait: "(if BruteForcePolicy_permanent_lockout p then now + chrono_seconds (365 * 100 * 86400)
      else now + lockout_wait p (of_nat (length ?fs))) = now + lock_time p (length ?fs)"
  proof (cases "BruteForcePolicy_permanent_lockout p")
    case False
    then show ?thesis using lockout_wait_eq [OF assms(1) False len(1)] by (simp only: if_False)
  qed (simp add: lock_time_def chrono_seconds_def)
  have attempts: "User_failed_attempts (user1\<lparr>User_failed_attempts := x, User_last_failed_at := y\<rparr>) = x" for x y
    by simp
  have "failed_user p now user =
    (let user = user1\<lparr>User_failed_attempts := of_nat (length ?fs), User_last_failed_at := Some now\<rparr> in
     if BruteForcePolicy_enabled p \<and> unat ?m \<le> length ?fs
     then user\<lparr>User_locked_until := Some (now + lock_time p (length ?fs))\<rparr> else user)"
    unfolding failed_user_def policy_fits_durations(3) [OF assms(1)] unwrap_or_simps user1_def [symmetric] Let_def
    by (simp only: add attempts u32_le_of_nat [OF len(2)] wait)
  then show ?thesis using hd old until by (auto simp: lockout_state_def Let_def)
qed

definition cleared_user :: "User \<Rightarrow> User" where
  "cleared_user user = user\<lparr>User_failed_attempts := 0, User_locked_until := None, User_last_failed_at := None\<rparr>"

lemma record_success_stored:
  assumes "stored_user realm u user t"
  shows "stored_user realm u (cleared_user user) (snd (record_success realm u t))"
    "\<exists>us. snd (record_success realm u t) = t\<lparr>users := us\<rparr>"
proof -
  have ids: "User_realm_id user = realm" "User_id user = u" using assms by (simp_all add: stored_user_def)
  have same: "cleared_user user = user"
    if "User_failed_attempts user = 0 \<and> User_locked_until user = None \<and> User_last_failed_at user = None"
    using that by (simp add: cleared_user_def)
  have upd: "update_user (cleared_user user) t = (Inr (), t\<lparr>users := hm_insert (realm, u) (cleared_user user) (users t)\<rparr>)"
    by (rule stored_user_update [OF assms]) (simp_all add: cleared_user_def ids)
  show "stored_user realm u (cleared_user user) (snd (record_success realm u t))"
    using assms ids same upd
    by (auto simp: record_success_def stored_user_get cleared_user_def [symmetric]) (simp_all add: stored_user_def cleared_user_def)
  show "\<exists>us. snd (record_success realm u t) = t\<lparr>users := us\<rparr>"
    using upd by (auto simp: record_success_def stored_user_get [OF assms] cleared_user_def [symmetric] intro: exI [of _ "users t"])
qed

lemma check_locked_stored:
  assumes "stored_user realm u user t"
  shows "check_locked realm u now t = (case User_locked_until user of
    Some until \<Rightarrow> if now < until then Inl (BruteForceError_Locked until) else Inr () | None \<Rightarrow> Inr ())"
  by (simp add: check_locked_def stored_user_get [OF assms])

end
