(* ===== verification/Server_Endpoints.thy ===== *)
theory Server_Endpoints
  imports Server_Base
begin

text \<open>
  The endpoints beside \<open>/token\<close> and \<open>/authorize\<close>, \<^verbatim>\<open>crates/geonosis-server/src/handlers\<close>: revocation,
  introspection, userinfo, pushed authorization requests, device authorization, logout, metadata and
  the probes. Clock readings and random draws are arguments.
\<close>

section \<open>JSON access\<close>

text \<open>\<open>Value::as_str\<close>, and a string claim of a JSON object.\<close>

fun Value_as_str :: "Value \<Rightarrow> string option" where
  "Value_as_str (Value_String s) = Some s"
| "Value_as_str _ = None"

definition claim_str :: "string \<Rightarrow> Value \<Rightarrow> string option" where
  "claim_str k v = Option.bind (Value_get v k) Value_as_str"

section \<open>Revocation (\<open>revoke.rs\<close>)\<close>

fun ClientId_to_string :: "'l KmsLib_scheme \<Rightarrow> ClientId \<Rightarrow> string" where
  "ClientId_to_string lib (ClientId u) = show_ulid lib u"

definition revoke :: "'l HttpLib_scheme \<Rightarrow> string \<Rightarrow> HeaderMap \<Rightarrow> params \<Rightarrow> AppState \<Rightarrow> Response \<times> AppState" where
  "revoke lib slug headers form state =
     (case get_realm_by_slug slug (AppState_storage state) of
        Inl _ \<Rightarrow> (Response 404 (Body_Text ''realm not found''), state)
      | Inr realm \<Rightarrow>
     (case authenticate_client lib state (Realm_id realm) headers form of
        Inl e \<Rightarrow> (oauth_error_response e, state)
      | Inr _ \<Rightarrow>
     (case map_of form ''token'' of
        None \<Rightarrow> (Response 200 Body_Empty, state)
      | Some token \<Rightarrow>
          (let key = realm_key lib (AppState_refresh_hash_key state) (Realm_id realm) ''refresh'' in
           case get_refresh_token (RefreshTokenId (refresh_token_hash lib token key)) (AppState_storage state) of
             Inl _ \<Rightarrow> (Response 200 Body_Empty, state)
           | Inr rt \<Rightarrow>
               (Response 200 Body_Empty,
                emit_user (Realm_id realm) (RefreshToken_user_id rt) TOKEN_REVOKED
                  (Some (Target_Session (RefreshToken_session_id rt)))
                  (Value_Object [(''client_id'', Value_String (ClientId_to_string lib (RefreshToken_client_id rt)))])
                  (snd (with_storage (revoke_token_family (RefreshToken_family_id rt)) state)))))))"

section \<open>Introspection and userinfo (\<open>introspect.rs\<close>, \<open>userinfo.rs\<close>)\<close>

definition username_of_sub :: "'l HttpLib_scheme \<Rightarrow> AppState \<Rightarrow> RealmId \<Rightarrow> string \<Rightarrow> string option" where
  "username_of_sub lib state realm_id sub =
     (case parse_ulid lib sub of
        Inl _ \<Rightarrow> None
      | Inr u \<Rightarrow> (case get_user realm_id (UserId u) (AppState_storage state) of
                    Inl _ \<Rightarrow> None
                  | Inr user \<Rightarrow> Some (User_username user)))"

definition introspect ::
  "'l HttpLib_scheme \<Rightarrow> DateTime \<Rightarrow> string \<Rightarrow> HeaderMap \<Rightarrow> params \<Rightarrow> AppState \<Rightarrow> Response \<times> AppState" where
  "introspect lib now slug headers form state =
     (let inactive = (Response 200 (Body_Introspection IntrospectionResponse_inactive), state) in
      case get_realm_by_slug slug (AppState_storage state) of
        Inl _ \<Rightarrow> inactive
      | Inr realm \<Rightarrow>
     (case authenticate_client lib state (Realm_id realm) headers form of
        Inl e \<Rightarrow> (oauth_error_response e, state)
      | Inr _ \<Rightarrow>
     (case map_of form ''token'' of
        None \<Rightarrow> inactive
      | Some token \<Rightarrow>
     (case verify_access_token lib now (AppState_kms state) (AppState_public_base_url state) realm token of
        Inl _ \<Rightarrow> inactive
      | Inr claims \<Rightarrow>
          (Response 200 (Body_Introspection (build_introspection claims
             (username_of_sub lib state (Realm_id realm) (AccessTokenClaims_sub claims)))),
           emit_system (Realm_id realm) TOKEN_INTROSPECT None
             (Value_Object [(''active'', Value_Bool True), (''sub'', Value_String (AccessTokenClaims_sub claims))])
             state)))))"

definition userinfo_handle ::
  "'l HttpLib_scheme \<Rightarrow> DateTime \<Rightarrow> string \<Rightarrow> HeaderMap \<Rightarrow> AppState \<Rightarrow> Response" where
  "userinfo_handle lib now slug headers state =
     (case bearer_from headers of
        None \<Rightarrow> Response_Unauthorized ''Bearer realm=\"geonosis\", error=\"invalid_token\"''
      | Some bearer \<Rightarrow>
     (case get_realm_by_slug slug (AppState_storage state) of
        Inl _ \<Rightarrow> Response 404 (Body_Text ''realm not found'')
      | Inr realm \<Rightarrow>
     (case verify_access_token lib now (AppState_kms state) (AppState_public_base_url state) realm bearer of
        Inl _ \<Rightarrow> Response_Unauthorized ''Bearer error=\"invalid_token\"''
      | Inr claims \<Rightarrow>
          (let scopes = (case parse_scope_string (AccessTokenClaims_scope claims) of Inl _ \<Rightarrow> [] | Inr s \<Rightarrow> s) in
           case parse_ulid lib (AccessTokenClaims_sub claims) of
             Inl _ \<Rightarrow> Response 400 (Body_Text ''userinfo only valid for user subjects'')
           | Inr u \<Rightarrow>
               (case get_user (Realm_id realm) (UserId u) (AppState_storage state) of
                  Inl _ \<Rightarrow> Response 404 (Body_Text ''user not found'')
                | Inr user \<Rightarrow> Response 200 (Body_Userinfo (userinfo_for lib user scopes)))))))"

section \<open>Pushed authorization requests (\<open>par.rs\<close>)\<close>

record ParDraw =
  par_token :: string
  par_created :: DateTime
  par_expiry :: DateTime

definition par ::
  "'l HttpLib_scheme \<Rightarrow> ParDraw \<Rightarrow> string \<Rightarrow> HeaderMap \<Rightarrow> params \<Rightarrow> AppState \<Rightarrow> Response \<times> AppState" where
  "par lib draw slug headers form state =
     (case get_realm_by_slug slug (AppState_storage state) of
        Inl _ \<Rightarrow> (Response 404 (Body_Text ''realm not found''), state)
      | Inr realm \<Rightarrow>
     (case authenticate_client lib state (Realm_id realm) headers form of
        Inl e \<Rightarrow> (oauth_error_response e, state)
      | Inr authed \<Rightarrow>
     (let params = bt_remove ''client_secret'' form in
      case AuthorizeRequest_parse lib params of
        Inl e \<Rightarrow> (oauth_error_response (invalid_request (AuthorizeRequestError_to_string e)), state)
      | Inr req \<Rightarrow>
      if AuthorizeRequest_client_id req \<noteq> Client_client_id (AuthenticatedClient_client authed)
      then (oauth_error_response (invalid_request ''client_id mismatch between auth and request body''), state)
      else (let uri = generate_request_uri (par_token draw);
                row = \<lparr>ParRequest_request_uri = uri, ParRequest_realm_id = Realm_id realm,
                  ParRequest_client_id = Client_id (AuthenticatedClient_client authed),
                  ParRequest_params = params, ParRequest_created_at = par_created draw,
                  ParRequest_expires_at = par_expiry draw + chrono_seconds PAR_DEFAULT_TTL_SECS\<rparr> in
            case with_storage (save_par_request row) state of
              (Inl e, state) \<Rightarrow> (Response 500 (Body_Text (StorageError_to_string e)), state)
            | (Inr _, state) \<Rightarrow>
                (Response 201 (Body_Par \<lparr>ParResponse_request_uri = uri,
                   ParResponse_expires_in = PAR_DEFAULT_TTL_SECS\<rparr>), state)))))"

section \<open>Metadata (\<open>oidc_meta.rs\<close>)\<close>

definition realm_issuer_url :: "'l OidcLib_scheme \<Rightarrow> Url \<Rightarrow> string \<Rightarrow> Url" where
  "realm_issuer_url lib base slug = url_with_path lib base (''/realms/'' @ slug)"

definition openid_configuration :: "'l HttpLib_scheme \<Rightarrow> string \<Rightarrow> AppState \<Rightarrow> Response" where
  "openid_configuration lib slug state =
     (case get_realm_by_slug slug (AppState_storage state) of
        Inl _ \<Rightarrow> Response 404 (Body_Text ''realm not found'')
      | Inr realm \<Rightarrow>
          Response 200 (Body_Discovery (discovery_document lib
            (realm_issuer_url lib (AppState_public_base_url state) (Realm_slug realm)))))"

definition jwks :: "'l HttpLib_scheme \<Rightarrow> string \<Rightarrow> AppState \<Rightarrow> Response" where
  "jwks lib slug state =
     (case get_realm_by_slug slug (AppState_storage state) of
        Inl _ \<Rightarrow> Response 404 (Body_Text ''realm not found'')
      | Inr realm \<Rightarrow>
          (case kms_jwks (Realm_id realm) (AppState_kms state) of
             Inl e \<Rightarrow> Response 500 (Body_Text (KmsError_to_string lib e))
           | Inr keys \<Rightarrow> Response 200 (Body_Jwks keys)))"

section \<open>Device authorization (\<open>device.rs\<close>)\<close>

record DeviceDraw =
  device_token :: string
  device_bytes :: "u8 list"
  device_now :: DateTime

definition device_authorize ::
  "'l HttpLib_scheme \<Rightarrow> DeviceDraw \<Rightarrow> string \<Rightarrow> HeaderMap \<Rightarrow> params \<Rightarrow> AppState \<Rightarrow> Response \<times> AppState" where
  "device_authorize lib draw slug headers form state =
     (case get_realm_by_slug slug (AppState_storage state) of
        Inl _ \<Rightarrow> (Response 404 (Body_Text ''realm not found''), state)
      | Inr realm \<Rightarrow>
     (case authenticate_client lib state (Realm_id realm) headers form of
        Inl e \<Rightarrow> (oauth_error_response e, state)
      | Inr authed \<Rightarrow>
     (let client = AuthenticatedClient_client authed in
      if \<not> GrantPolicy_device_code (Client_grants client)
      then (oauth_error_response (unauthorized_client ''device_code grant disabled for client''), state)
      else (let scope = (case parse_scope_string (unwrap_or (map_of form ''scope'') ''openid'') of
                  Inl _ \<Rightarrow> [] | Inr s \<Rightarrow> s);
                user_code = generate_user_code (device_bytes draw);
                grant = \<lparr>DeviceGrant_device_code = device_token draw, DeviceGrant_user_code = user_code,
                  DeviceGrant_realm_id = Realm_id realm, DeviceGrant_client_id = Client_id client,
                  DeviceGrant_scope = scope, DeviceGrant_interval_seconds = DEVICE_CODE_DEFAULT_INTERVAL_SECS,
                  DeviceGrant_status = DeviceGrantStatus_Pending, DeviceGrant_user_id = None,
                  DeviceGrant_session_id = None, DeviceGrant_created_at = device_now draw,
                  DeviceGrant_expires_at = device_now draw + chrono_seconds DEVICE_CODE_DEFAULT_TTL_SECS,
                  DeviceGrant_last_polled_at = None\<rparr> in
            case with_storage (save_device_grant grant) state of
              (Inl e, state) \<Rightarrow> (Response 500 (Body_Text (StorageError_to_string e)), state)
            | (Inr _, state) \<Rightarrow>
                (let verification_uri = url_with_path lib
                       (realm_issuer_url lib (AppState_public_base_url state) (Realm_slug realm))
                       (''/realms/'' @ Realm_slug realm @ ''/device'') in
                 (Response 200 (Body_Device
                    \<lparr>DeviceAuthorizationResponse_device_code = device_token draw,
                     DeviceAuthorizationResponse_user_code = user_code,
                     DeviceAuthorizationResponse_verification_uri = verification_uri,
                     DeviceAuthorizationResponse_verification_uri_complete =
                       url_append_pair lib verification_uri ''user_code'' user_code,
                     DeviceAuthorizationResponse_expires_in = DEVICE_CODE_DEFAULT_TTL_SECS,
                     DeviceAuthorizationResponse_interval = DEVICE_CODE_DEFAULT_INTERVAL_SECS\<rparr>), state))))))"

section \<open>Logout (\<open>logout.rs\<close>)\<close>

record LogoutQuery =
  LogoutQuery_id_token_hint :: "string option"
  LogoutQuery_post_logout_redirect_uri :: "string option"
  LogoutQuery_state :: "string option"
  LogoutQuery_client_id :: "string option"

definition jwt_payload_unsafe :: "'l HttpLib_scheme \<Rightarrow> string \<Rightarrow> Value option" where
  "jwt_payload_unsafe lib jwt =
     (case split_char CHR ''.'' jwt of
        _ # payload_b64 # _ \<Rightarrow>
          (case base64_url_decode lib payload_b64 of
             Inl _ \<Rightarrow> None
           | Inr bytes \<Rightarrow> (case json_value_from lib bytes of Inl _ \<Rightarrow> None | Inr v \<Rightarrow> Some v))
      | _ \<Rightarrow> None)"

definition sid_from_jwt_unsafe :: "'l HttpLib_scheme \<Rightarrow> string \<Rightarrow> string option" where
  "sid_from_jwt_unsafe lib jwt = Option.bind (jwt_payload_unsafe lib jwt) (claim_str ''sid'')"

record IdTokenHintParts =
  IdTokenHintParts_sid :: "string option"
  IdTokenHintParts_sub :: "string option"
  IdTokenHintParts_aud :: "string option"
  IdTokenHintParts_azp :: "string option"

definition id_token_hint_parts_unsafe :: "'l HttpLib_scheme \<Rightarrow> string \<Rightarrow> IdTokenHintParts" where
  "id_token_hint_parts_unsafe lib jwt =
     (case jwt_payload_unsafe lib jwt of
        None \<Rightarrow> \<lparr>IdTokenHintParts_sid = None, IdTokenHintParts_sub = None, IdTokenHintParts_aud = None,
                 IdTokenHintParts_azp = None\<rparr>
      | Some v \<Rightarrow>
          \<lparr>IdTokenHintParts_sid = claim_str ''sid'' v, IdTokenHintParts_sub = claim_str ''sub'' v,
           IdTokenHintParts_aud =
             (case Value_get v ''aud'' of
                Some (Value_String s) \<Rightarrow> Some s
              | Some (Value_Array (x # _)) \<Rightarrow> Value_as_str x
              | _ \<Rightarrow> None),
           IdTokenHintParts_azp = claim_str ''azp'' v\<rparr>)"

text \<open>Ending a session: the row is deleted, counted and audited, whether or not it existed.\<close>

definition end_session :: "Realm \<Rightarrow> string \<Rightarrow> string \<Rightarrow> AppState \<Rightarrow> AppState" where
  "end_session realm reason sid state =
     emit_system (Realm_id realm) LOGOUT_LOCAL (Some (Target_Session (SessionId sid))) (Value_Object [])
       (count MetricsState_session_revoked_update [Realm_slug realm, reason]
          (snd (with_storage (delete_session (SessionId sid)) state)))"

definition logout_get :: "'l HttpLib_scheme \<Rightarrow> string \<Rightarrow> LogoutQuery \<Rightarrow> AppState \<Rightarrow> Response \<times> AppState" where
  "logout_get lib slug q state =
     (case get_realm_by_slug slug (AppState_storage state) of
        Inl _ \<Rightarrow> (Response 404 (Body_Text ''realm not found''), state)
      | Inr realm \<Rightarrow>
          (let state = (case Option.bind (LogoutQuery_id_token_hint q) (sid_from_jwt_unsafe lib) of
                 None \<Rightarrow> state
               | Some sid \<Rightarrow> end_session realm ''frontchannel'' sid state);
               target = (case Option.bind (LogoutQuery_post_logout_redirect_uri q)
                           (\<lambda>s. case url_parse lib s of Inl _ \<Rightarrow> None | Inr u \<Rightarrow> Some u) of
                 Some u \<Rightarrow> u
               | None \<Rightarrow> url_with_path lib (AppState_public_base_url state) (''/realms/'' @ Realm_slug realm @ ''/''));
               target = (case LogoutQuery_state q of None \<Rightarrow> target | Some s \<Rightarrow> url_append_pair lib target ''state'' s) in
           (Response_Redirect target, state)))"

text \<open>
  The task that \<open>logout_post\<close> spawns mints a logout token and posts it; its inputs are the third
  component of the result.
\<close>

type_synonym backchannel = "(Realm \<times> Client \<times> string option \<times> string option) option"

definition refresh_hints ::
  "'l HttpLib_scheme \<Rightarrow> Realm \<Rightarrow> params \<Rightarrow> AppState \<Rightarrow> (string option \<times> string option) \<times> AppState" where
  "refresh_hints lib realm form state =
     (case map_of form ''refresh_token'' of
        None \<Rightarrow> ((None, None), state)
      | Some rt \<Rightarrow>
          (let key = realm_key lib (AppState_refresh_hash_key state) (Realm_id realm) ''refresh'' in
           case get_refresh_token (RefreshTokenId (refresh_token_hash lib rt key)) (AppState_storage state) of
             Inl _ \<Rightarrow> ((None, None), state)
           | Inr t \<Rightarrow>
               ((Some (UserId_to_string lib (RefreshToken_user_id t)),
                 Some (ClientId_to_string lib (RefreshToken_client_id t))),
                snd (with_storage (revoke_token_family (RefreshToken_family_id t)) state))))"

definition or_else :: "'a option \<Rightarrow> 'a option \<Rightarrow> 'a option" where
  "or_else a b = (case a of None \<Rightarrow> b | Some x \<Rightarrow> Some x)"

definition logout_post ::
  "'l HttpLib_scheme \<Rightarrow> string \<Rightarrow> params \<Rightarrow> AppState \<Rightarrow> Response \<times> AppState \<times> backchannel" where
  "logout_post lib slug form state =
     (case get_realm_by_slug slug (AppState_storage state) of
        Inl _ \<Rightarrow> (Response 404 (Body_Text ''realm not found''), state, None)
      | Inr realm \<Rightarrow>
          (let ((sub_hint, client_hint), state) = refresh_hints lib realm form state;
               (sid_hint, sub_hint, client_hint, state) =
                 (case map_of form ''id_token_hint'' of
                    None \<Rightarrow> (None, sub_hint, client_hint, state)
                  | Some hint \<Rightarrow>
                      (let parts = id_token_hint_parts_unsafe lib hint in
                       (IdTokenHintParts_sid parts, or_else sub_hint (IdTokenHintParts_sub parts),
                        or_else client_hint (or_else (IdTokenHintParts_azp parts) (IdTokenHintParts_aud parts)),
                        case IdTokenHintParts_sid parts of
                          None \<Rightarrow> state
                        | Some sid \<Rightarrow> end_session realm ''backchannel'' sid state)));
               client_hint = or_else client_hint (map_of form ''client_id'') in
           case (client_hint, or_else sid_hint sub_hint) of
             (Some cid, Some _) \<Rightarrow>
               (case get_client_by_client_id (Realm_id realm) cid (AppState_storage state) of
                  Inl _ \<Rightarrow> (Response 204 Body_Empty, state, None)
                | Inr client \<Rightarrow>
                    if Client_backchannel_logout_url client \<noteq> None
                    then (Response 204 Body_Empty,
                          emit_system (Realm_id realm) LOGOUT_BACKCHANNEL
                            (map_option (\<lambda>s. Target_Session (SessionId s)) sid_hint)
                            (Value_Object [(''client_id'', Value_String (Client_client_id client))]) state,
                          Some (realm, client, sub_hint, sid_hint))
                    else (Response 204 Body_Empty, state, None))
           | _ \<Rightarrow> (Response 204 Body_Empty, state, None)))"

definition build_logout_token ::
  "'l HttpLib_scheme \<Rightarrow> MintDraw \<Rightarrow> AppState \<Rightarrow> Realm \<Rightarrow> Client \<Rightarrow> string option \<Rightarrow> string option \<Rightarrow> string + string" where
  "build_logout_token lib draw state realm client sub sid =
     (if sub = None \<and> sid = None
      then Inl (''logout token MUST carry sub or sid (spec '' @ [CHR 0xC2, CHR 0xA7] @ ''2.4)'')
      else (let alg = signing_alg realm client in
      case active_signing_kid lib (Realm_id realm) alg (AppState_kms state) of
        Inl e \<Rightarrow> Inl (KmsError_to_string lib e)
      | Inr kid \<Rightarrow>
     (case load_private lib kid (AppState_kms state) of
        Inl e \<Rightarrow> Inl (KmsError_to_string lib e)
      | Inr private \<Rightarrow>
          (let issuer = url_with_path lib (AppState_public_base_url state) (''/realms/'' @ Realm_slug realm);
               claims = LogoutTokenClaims_new issuer (Client_client_id client) (timestamp (mint_now draw))
                 (mint_jti draw) sub sid;
               header = JwsHeader_new alg (KeyId_to_string lib kid) LOGOUT_TOKEN_TYP in
           map_sum JwtError_to_string id
             (sign_jwt lib (logout_claims_to_json lib) (mint_rng draw) header claims private)))))"

section \<open>Probes (\<open>health.rs\<close>)\<close>

datatype ProbeOutcome =
    ProbeOutcome_Ok | ProbeOutcome_StorageDown string | ProbeOutcome_Timeout | ProbeOutcome_Draining

fun ProbeOutcome_into_response :: "ProbeOutcome \<Rightarrow> Response" where
  "ProbeOutcome_into_response ProbeOutcome_Ok = Response 200 (Body_Text (''ok'' @ [CHR 0x0A]))"
| "ProbeOutcome_into_response (ProbeOutcome_StorageDown msg) =
     Response 503 (Body_Text (''storage=down detail='' @ msg @ [CHR 0x0A]))"
| "ProbeOutcome_into_response ProbeOutcome_Timeout = Response 503 (Body_Text (''storage=timeout'' @ [CHR 0x0A]))"
| "ProbeOutcome_into_response ProbeOutcome_Draining = Response 503 (Body_Text (''draining'' @ [CHR 0x0A]))"

text \<open>The timer of the dependency check is an argument: whether the ping was too slow.\<close>

definition check_dependencies :: "bool \<Rightarrow> AppState \<Rightarrow> ProbeOutcome" where
  "check_dependencies elapsed state =
     (if elapsed then ProbeOutcome_Timeout
      else (case ping (AppState_storage state) of
              Inr _ \<Rightarrow> ProbeOutcome_Ok
            | Inl e \<Rightarrow> ProbeOutcome_StorageDown (StorageError_to_string e)))"

definition started :: "bool \<Rightarrow> AppState \<Rightarrow> Response" where
  "started elapsed state = ProbeOutcome_into_response (check_dependencies elapsed state)"

definition ready :: "bool \<Rightarrow> AppState \<Rightarrow> Response" where
  "ready elapsed state =
     (if AppState_draining state then ProbeOutcome_into_response ProbeOutcome_Draining
      else ProbeOutcome_into_response (check_dependencies elapsed state))"

definition healthy :: Response where
  "healthy = Response 200 (Body_Text (''ok'' @ [CHR 0x0A]))"

definition drain :: "AppState \<Rightarrow> Response \<times> AppState" where
  "drain state = (Response 200 (Body_Text (''draining'' @ [CHR 0x0A])), state\<lparr>AppState_draining := True\<rparr>)"

end
