(* ===== verification/Server_Samples.thy ===== *)
theory Server_Samples
  imports Server_Token
begin

text \<open>
  A server with one realm, one confidential client with the secret \<open>sec\<close> and one user with the
  password \<open>pw\<close>, and a library in which hashing is the identity. The theorems about the handlers
  hold for every state and library; these are the concrete inputs at which the later theories apply
  them.
\<close>

definition sample_http_lib :: HttpLib where
  "sample_http_lib = OidcLib.extend (sample_oidc_lib\<lparr>access_claims_to_json := (\<lambda>c. Inr ''claims'')\<rparr>)
     (HttpLib.fields Inr (\<lambda>u k v. u @ ''?'' @ k @ ''='' @ v) (\<lambda>s. None) (\<lambda>s. s) (\<lambda>s. Inr Value_Null)
        (\<lambda>s. Inr []) (\<lambda>c. Inr ''logout'') (=) (\<lambda>p h. Inr (p = h)))"

definition sample_tables :: Tables where
  "sample_tables = Tables_default\<lparr>realms := [(RealmId 1, sample_realm)], realm_by_slug := [(''t'', RealmId 1)],
     users := [((RealmId 1, UserId 1), sample_user)], users_by_username := [((RealmId 1, ''padme''), UserId 1)],
     password_hashes := [((RealmId 1, UserId 1), ''pw'')],
     clients := [((RealmId 1, ClientId 1), sample_client)], clients_by_client_id := [((RealmId 1, ''app''), ClientId 1)],
     client_secret_hashes := [((RealmId 1, ClientId 1), ''sec'')]\<rparr>"

definition sample_app :: AppState where
  "sample_app = \<lparr>AppState_storage = sample_tables, AppState_kms = sample_kms, AppState_audit = [],
     AppState_event_draw = (\<lambda>n. (EventId n, 0)), AppState_public_base_url = ''http://g/'',
     AppState_refresh_hash_key = ''k'', AppState_client_secret_hash_key = ''k'',
     AppState_metrics = MetricsState_new, AppState_draining = False\<rparr>"

definition sample_token_draw :: TokenDraw where
  "sample_token_draw = \<lparr>td_fresh = sample_fresh, td_mint = sample_draw, td_id_mint = sample_draw\<rparr>"

definition no_headers :: HeaderMap where
  "no_headers = \<lparr>HeaderMap_authorization = None, HeaderMap_cookie = []\<rparr>"

lemmas sample_http_simps = sample_http_lib_def OidcLib.defs HttpLib.defs sample_oidc_simps

lemmas sample_tables_simps = sample_tables_def Tables_default_def IntegrationTables_default_def AccessTables_default_def
  GrantTables_default_def Tables.defs IntegrationTables.defs AccessTables.defs GrantTables.defs

lemma sample_realm_lookup: "get_realm_by_slug ''t'' (AppState_storage sample_app) = Inr sample_realm"
  by (simp add: get_realm_by_slug_def sample_app_def sample_tables_simps)

lemma sample_client_lookup:
  "get_client_by_client_id (RealmId 1) ''app'' (AppState_storage sample_app) = Inr sample_client"
  by (simp add: get_client_by_client_id_def sample_app_def sample_tables_simps)

lemma sample_authenticated:
  assumes "map_of form ''client_id'' = Some ''app''" "map_of form ''client_secret'' = Some ''sec''"
  shows "authenticate_client sample_http_lib sample_app (RealmId 1) no_headers form =
    Inr \<lparr>AuthenticatedClient_client = sample_client, AuthenticatedClient_method_used = ClientAuthMethod_ClientSecretBasic\<rparr>"
proof -
  have "presented_credentials sample_http_lib no_headers form = Inr (''app'', Some ''sec'')"
    using assms by (simp add: presented_credentials_def parse_basic_auth_def no_headers_def)
  moreover have "get_client_secret_hash (RealmId 1) (Client_id sample_client) (AppState_storage sample_app) = Inr ''sec''"
    by (simp add: get_client_secret_hash_def sample_app_def sample_tables_simps sample_client_def)
  moreover have "constant_time_eq sample_http_lib ''sec'' (hex_encode sample_http_lib (token_hash sample_http_lib k ''sec''))" for k
    by (simp add: token_hash_def sample_http_simps)
  ultimately show ?thesis
    by (simp add: authenticate_client_def sample_client_lookup Let_def del: One_nat_def)
      (simp add: sample_client_def)
qed

lemma sample_signing:
  "signing_alg sample_realm sample_client = RS256"
  "active_signing_kid sample_http_lib (RealmId 1) RS256 sample_kms = Inr (KeyId 5)"
  "load_private sample_http_lib (KeyId 5) sample_kms = Inr (PrivateMaterial_Rs256 ''rsa'')"
  "\<exists>tok. sign_jwt_compat sample_http_lib (access_claims_to_json sample_http_lib) rng
     (JwsHeader_new RS256 (KeyId_to_string sample_http_lib (KeyId 5)) ''JWT'') claims (PrivateMaterial_Rs256 ''rsa'') = Inr tok"
  "\<exists>tok. sign_jwt_compat sample_http_lib (id_claims_to_json sample_http_lib) rng
     (JwsHeader_new RS256 (KeyId_to_string sample_http_lib (KeyId 5)) ''JWT'') id_claims (PrivateMaterial_Rs256 ''rsa'') = Inr tok"
proof -
  show "signing_alg sample_realm sample_client = RS256"
    by (simp add: signing_alg_def sample_client_def sample_realm_def TokenPolicy_default_def)
  show "active_signing_kid sample_http_lib (RealmId 1) RS256 sample_kms = Inr (KeyId 5)"
    by (simp add: active_signing_kid_def sample_kms_store hm_values_def is_active_def seeded_material_def)
  show "load_private sample_http_lib (KeyId 5) sample_kms = Inr (PrivateMaterial_Rs256 ''rsa'')"
    by (simp add: load_private_def get_stored_def sample_kms_store seeded_material_def
        pem_to_private_def sample_http_simps)
qed (simp_all add: sign_jwt_compat_def sign_jwt_def sign_input_def JwsHeader_new_def sample_http_simps Let_def)

lemma sample_realm_id: "Realm_id sample_realm = RealmId 1" "Realm_slug sample_realm = ''t''"
  by (simp_all add: sample_realm_def)

lemma sample_build_issuer: "OidcIssuer_kms (build_issuer sample_app) = sample_kms"
  by (simp add: build_issuer_def sample_app_def)

lemma sample_mint_access:
  assumes "OidcIssuer_kms issuer = sample_kms"
  shows "\<exists>tok. OidcIssuer_mint_access_token sample_http_lib draw issuer sample_realm sample_client subject session scope =
    Inr (tok, as_secs_i64 (TokenPolicy_access_token_lifespan (Realm_token_policy sample_realm)))"
proof -
  obtain tok where "sign_jwt_compat sample_http_lib (access_claims_to_json sample_http_lib) (mint_rng draw)
     (JwsHeader_new RS256 (KeyId_to_string sample_http_lib (KeyId 5)) ''JWT'')
     (access_claims sample_http_lib draw issuer sample_realm sample_client subject session scope
       [Client_client_id sample_client] None None) (PrivateMaterial_Rs256 ''rsa'') = Inr tok"
    using sample_signing(4) by blast
  then show ?thesis
    by (simp add: OidcIssuer_mint_access_token_def sample_signing(1-3) assms sample_realm_id Let_def del: One_nat_def)
qed

lemma sample_mint_id:
  assumes "OidcIssuer_kms issuer = sample_kms"
  shows "\<exists>tok. OidcIssuer_mint_id_token sample_http_lib draw issuer sample_realm sample_client subject session scope nonce acr =
    Inr tok"
proof -
  have "\<exists>tok. map_sum GrantError_Internal id (sign_jwt_compat sample_http_lib (id_claims_to_json sample_http_lib) rng
     (JwsHeader_new RS256 (KeyId_to_string sample_http_lib (KeyId 5)) ''JWT'') c (PrivateMaterial_Rs256 ''rsa'')) = Inr tok"
    for rng c
    using sample_signing(5) [of rng c] by auto
  then show ?thesis
    by (simp only: OidcIssuer_mint_id_token_def sample_signing(1-3) assms sample_realm_id Let_def sum.case)
qed

lemma sample_mint_pair:
  assumes "OidcIssuer_kms issuer = sample_kms"
  shows "\<exists>access exp id_token. mint_pair sample_http_lib draw issuer sample_client sample_realm user session scope =
    Inr (access, exp, id_token)"
proof -
  obtain a e where a: "OidcIssuer_mint_access_token sample_http_lib (td_mint draw) issuer sample_realm sample_client
      (Subject_Local user) session scope = Inr (a, e)"
    using sample_mint_access [OF assms] by blast
  obtain i where i: "OidcIssuer_mint_id_token sample_http_lib (td_id_mint draw) issuer sample_realm sample_client
      (Subject_Local user) session scope None None = Inr i"
    using sample_mint_id [OF assms] by blast
  from a i show ?thesis by (auto simp: mint_pair_def Let_def)
qed

end
