(* ===== verification/Authn_Otp.thy ===== *)
theory Authn_Otp
  imports Authn_Base Server_Endpoints Server_Samples
begin

text \<open>
  One-time passwords, \<^verbatim>\<open>crates/geonosis-authenticators/src/otp.rs\<close>: the HOTP truncation over the bytes of
  the MAC, the window of accepted time steps, and the authenticator. HMAC and the hexadecimal decoder
  are fields of \<open>AuthnLib\<close>, with what the other authenticators use of third-party code. The value
  \<open>None\<close> of \<open>hotp\<close>, \<open>generate_totp_at\<close> and \<open>verify_totp\<close> is a panic: an index outside the MAC
  or a period of zero.
\<close>

record AssertionBlob =
  AssertionBlob_client_data_json :: string
  AssertionBlob_authenticator_data :: string
  AssertionBlob_signature :: string
  AssertionBlob_credential_id :: "string option"

record AuthnLib = WebauthnLib +
  otp_hmac :: "OtpAlgorithm \<Rightarrow> string \<Rightarrow> string \<Rightarrow> string + string"
  hex_decode :: "string \<Rightarrow> string + string"
  credentials_from_json :: "string \<Rightarrow> string + StoredCredential list"
  credentials_to_json :: "StoredCredential list \<Rightarrow> string + string"
  assertion_from_json :: "string \<Rightarrow> string + AssertionBlob"
  send_link :: "string \<Rightarrow> string \<Rightarrow> string + unit"
  send_sms :: "string \<Rightarrow> string \<Rightarrow> string + unit"

datatype OtpError = OtpError_BadDigits u32 | OtpError_BadKey string

fun OtpError_to_string :: "OtpError \<Rightarrow> string" where
  "OtpError_to_string (OtpError_BadDigits d) = ''digits must be in 6..=10, got '' @ show_nat (unat d)"
| "OtpError_to_string (OtpError_BadKey m) = ''hmac key length: '' @ m"

record OtpConfig =
  OtpConfig_kind :: OtpKind
  OtpConfig_algorithm :: OtpAlgorithm
  OtpConfig_digits :: u32
  OtpConfig_period_seconds :: u32
  OtpConfig_look_ahead_window :: u32

definition OtpPolicy_default :: OtpPolicy where
  "OtpPolicy_default = \<lparr>OtpPolicy_kind = OtpKind_Totp, OtpPolicy_algorithm = OtpAlgorithm_Sha1,
     OtpPolicy_digits = 6, OtpPolicy_look_ahead_window = 1, OtpPolicy_period_seconds = 30,
     OtpPolicy_initial_counter = 0\<rparr>"

definition OtpConfig_from_policy :: "OtpPolicy \<Rightarrow> OtpConfig" where
  "OtpConfig_from_policy p = \<lparr>OtpConfig_kind = OtpPolicy_kind p, OtpConfig_algorithm = OtpPolicy_algorithm p,
     OtpConfig_digits = OtpPolicy_digits p, OtpConfig_period_seconds = OtpPolicy_period_seconds p,
     OtpConfig_look_ahead_window = OtpPolicy_look_ahead_window p\<rparr>"

definition OtpConfig_default :: OtpConfig where
  "OtpConfig_default = OtpConfig_from_policy OtpPolicy_default"

definition u64_to_be_bytes :: "u64 \<Rightarrow> string" where
  "u64_to_be_bytes n = map (\<lambda>i. char_of (unat (drop_bit (8 * i) n) mod 256)) (rev [0..<8])"

definition hotp :: "'l AuthnLib_scheme \<Rightarrow> OtpAlgorithm \<Rightarrow> string \<Rightarrow> u64 \<Rightarrow> (OtpError + u32) option" where
  "hotp lib alg secret counter =
     (case otp_hmac lib alg secret (u64_to_be_bytes counter) of
        Inl e \<Rightarrow> Some (Inl (OtpError_BadKey e))
      | Inr mac_bytes \<Rightarrow>
          if mac_bytes = [] then None
          else (let offset = unat (byte_of (List.last mac_bytes) AND 0x0f) in
            if length mac_bytes \<le> offset + 3 then None
            else (let byte = (\<lambda>i. ucast (byte_of (mac_bytes ! (offset + i))) :: u32) in
              Some (Inr (push_bit 24 (byte 0 AND 0x7f) OR push_bit 16 (byte 1 AND 0xff) OR
                         push_bit 8 (byte 2 AND 0xff) OR (byte 3 AND 0xff))))))"

text \<open>\<open>format!("{:0width$}", n)\<close>; \<open>10u32.pow(digits)\<close> wraps in the release profile.\<close>

definition zero_padded :: "nat \<Rightarrow> nat \<Rightarrow> string" where
  "zero_padded width n = (let s = show_nat n in replicate (width - length s) CHR ''0'' @ s)"

definition otp_code :: "OtpConfig \<Rightarrow> u32 \<Rightarrow> string" where
  "otp_code config n = zero_padded (unat (OtpConfig_digits config)) (unat (n mod 10 ^ unat (OtpConfig_digits config)))"

definition generate_totp_at :: "'l AuthnLib_scheme \<Rightarrow> OtpConfig \<Rightarrow> string \<Rightarrow> u64 \<Rightarrow> (OtpError + string) option" where
  "generate_totp_at lib config secret now_unix_secs =
     (if OtpConfig_period_seconds config = 0 then None
      else map_option (map_sum id (otp_code config))
             (hotp lib (OtpConfig_algorithm config) secret
                (now_unix_secs div ucast (OtpConfig_period_seconds config))))"

text \<open>The body of the loop over the window; \<open>tick as i64 + delta\<close> wraps in the release profile.\<close>

definition totp_step :: "u64 \<Rightarrow> int \<Rightarrow> u64" where
  "totp_step tick delta = of_int (max 0 (sint (tick + of_int delta)))"

fun verify_totp_loop ::
  "'l AuthnLib_scheme \<Rightarrow> OtpConfig \<Rightarrow> string \<Rightarrow> string \<Rightarrow> u64 \<Rightarrow> int list \<Rightarrow> bool \<Rightarrow> (OtpError + bool) option" where
  "verify_totp_loop lib config secret candidate tick [] accepted = Some (Inr accepted)"
| "verify_totp_loop lib config secret candidate tick (delta # deltas) accepted =
     (case hotp lib (OtpConfig_algorithm config) secret (totp_step tick delta) of
        None \<Rightarrow> None
      | Some (Inl e) \<Rightarrow> Some (Inl e)
      | Some (Inr n) \<Rightarrow> verify_totp_loop lib config secret candidate tick deltas
          (accepted \<or> otp_code config n = candidate))"

definition verify_totp :: "'l AuthnLib_scheme \<Rightarrow> OtpConfig \<Rightarrow> string \<Rightarrow> string \<Rightarrow> u64 \<Rightarrow> (OtpError + bool) option" where
  "verify_totp lib config secret candidate now_unix_secs =
     (if \<not> (6 \<le> OtpConfig_digits config \<and> OtpConfig_digits config \<le> 10)
      then Some (Inl (OtpError_BadDigits (OtpConfig_digits config)))
      else if OtpConfig_period_seconds config = 0 then None
      else (let tick = now_unix_secs div ucast (OtpConfig_period_seconds config);
                window = uint (OtpConfig_look_ahead_window config)
            in verify_totp_loop lib config secret candidate tick [- window..window] False))"

fun OtpAlgorithm_debug :: "OtpAlgorithm \<Rightarrow> string" where
  "OtpAlgorithm_debug OtpAlgorithm_Sha1 = ''Sha1''"
| "OtpAlgorithm_debug OtpAlgorithm_Sha256 = ''Sha256''"
| "OtpAlgorithm_debug OtpAlgorithm_Sha512 = ''Sha512''"

fun min_key_len :: "OtpAlgorithm \<Rightarrow> nat" where
  "min_key_len OtpAlgorithm_Sha1 = 20"
| "min_key_len OtpAlgorithm_Sha256 = 32"
| "min_key_len OtpAlgorithm_Sha512 = 64"

definition unix_seconds :: "DateTime \<Rightarrow> u64" where
  "unix_seconds t = of_int (t div 1000000000)"

text \<open>The comparison of the candidate is made on the code text; a panic ends the request with an error.\<close>

definition OtpAuthenticator_process ::
  "'l AuthnLib_scheme \<Rightarrow> OtpConfig \<Rightarrow> AuthnContext \<Rightarrow> AuthnInput \<Rightarrow> Tables \<Rightarrow> authn_result" where
  "OtpAuthenticator_process lib config ctx input t =
     (case input of
        AuthnInput_Submit form \<Rightarrow>
     (case AuthnContext_user_id ctx of
        None \<Rightarrow> (Inl (AuthnError_Invalid ''otp requires resolved user''), ctx, t)
      | Some user_id \<Rightarrow>
     (case map_of form ''code'' of
        None \<Rightarrow> (Inl (AuthnError_Invalid ''missing code''), ctx, t)
      | Some code \<Rightarrow>
     (case get_user (AuthnContext_realm_id ctx) user_id t of
        Inl e \<Rightarrow> (Inl (AuthnError_Storage (StorageError_to_string e)), ctx, t)
      | Inr user \<Rightarrow>
     (case Option.bind (map_of (User_attributes user) ''otp:secret'') AttributeValue_as_str of
        None \<Rightarrow> (Inl (AuthnError_Invalid ''user has no OTP secret enrolled''), ctx, t)
      | Some secret_hex \<Rightarrow>
     (case hex_decode lib secret_hex of
        Inl e \<Rightarrow> (Inl (AuthnError_Invalid (''invalid OTP secret hex: '' @ e)), ctx, t)
      | Inr secret \<Rightarrow>
      if length secret < min_key_len (OtpConfig_algorithm config)
      then (Inr (AuthnOutput_Failure (FailureKind_Other (''enrolled OTP secret too short for '' @
              OtpAlgorithm_debug (OtpConfig_algorithm config) @ '' (got '' @ show_nat (length secret) @
              '' bytes, need '' @ show_nat (min_key_len (OtpConfig_algorithm config)) @ '')''))), ctx, t)
      else (let candidate = str_trim code in
      if \<not> list_all is_digit_char candidate \<or> of_nat (length candidate) \<noteq> OtpConfig_digits config
      then (Inr (AuthnOutput_Failure FailureKind_InvalidCredential), ctx, t)
      else (case verify_totp lib config secret candidate (unix_seconds (AuthnContext_now ctx)) of
              None \<Rightarrow> (Inl (AuthnError_Internal ''panic''), ctx, t)
            | Some (Inl e) \<Rightarrow> (Inl (AuthnError_Crypto (OtpError_to_string e)), ctx, t)
            | Some (Inr ok) \<Rightarrow>
                if \<not> ok then (Inr (AuthnOutput_Failure FailureKind_InvalidCredential), ctx, t)
                else (Inr (AuthnOutput_Success [CredentialKind_Otp] [Amr_Otp]), record_amr Amr_Otp ctx, t))))))))
      | _ \<Rightarrow> (Inr (AuthnOutput_Continue (AuthnRenderInstruction_new ''login/otp.html'')), ctx, t))"

section \<open>The window of accepted codes\<close>

text \<open>HMAC accepts every key length and its output has 20 bytes or more.\<close>

definition hmac_law :: "'l AuthnLib_scheme \<Rightarrow> OtpAlgorithm \<Rightarrow> string \<Rightarrow> bool" where
  "hmac_law lib alg secret \<longleftrightarrow> (\<forall>m. \<exists>mac. otp_hmac lib alg secret m = Inr mac \<and> 20 \<le> length mac)"

lemma nibble_le_15: "unat ((b :: u8) AND 0x0f) \<le> 15"
proof -
  have "b AND 0x0f \<le> 0x0f" by (rule word_and_le1)
  then show ?thesis by (simp add: word_le_nat_alt)
qed

lemma hotp_returns:
  assumes "hmac_law lib alg secret"
  obtains n where "hotp lib alg secret c = Some (Inr n)"
proof -
  obtain mac where m: "otp_hmac lib alg secret (u64_to_be_bytes c) = Inr mac" "20 \<le> length mac"
    using assms unfolding hmac_law_def by blast
  have "mac \<noteq> []" using m(2) by auto
  moreover have "\<not> length mac \<le> unat (byte_of (List.last mac) AND 0x0f) + 3"
    using nibble_le_15 [of "byte_of (List.last mac)"] m(2) by linarith
  ultimately show thesis using m(1) that by (auto simp: hotp_def Let_def)
qed

definition code_at :: "'l AuthnLib_scheme \<Rightarrow> OtpConfig \<Rightarrow> string \<Rightarrow> nat \<Rightarrow> string" where
  "code_at lib config secret tick = (case hotp lib (OtpConfig_algorithm config) secret (of_nat tick) of
     Some (Inr n) \<Rightarrow> otp_code config n | _ \<Rightarrow> [])"

lemma verify_totp_loop_eq:
  assumes "hmac_law lib (OtpConfig_algorithm config) secret"
  shows "verify_totp_loop lib config secret c tick deltas accepted =
    Some (Inr (accepted \<or> (\<exists>d\<in>set deltas. code_at lib config secret (unat (totp_step tick d)) = c)))"
proof (induction deltas arbitrary: accepted)
  case (Cons d ds)
  obtain n where "hotp lib (OtpConfig_algorithm config) secret (totp_step tick d) = Some (Inr n)"
    by (rule hotp_returns [OF assms])
  with Cons show ?case by (auto simp: code_at_def)
qed simp

lemma unat_ucast_u64: "unat (ucast (x :: u32) :: u64) = unat x"
  by (simp add: unsigned_ucast_eq take_bit_nat_eq_self_iff less_trans [OF unsigned_less])

lemma totp_step_nat:
  assumes "unat tick < 2 ^ 62" "\<bar>d\<bar> < 2 ^ 62"
  shows "unat (totp_step tick d) = nat (int (unat tick) + d)"
proof -
  have "tick + of_int d = of_int (int (unat tick) + d)" by simp
  moreover have "- (2 ^ 63) \<le> int (unat tick) + d" "int (unat tick) + d < 2 ^ 63"
  proof -
    define k where "k = int (unat tick)"
    have "int (unat tick) < int (2 ^ 62)" using assms(1) by (simp only: of_nat_less_iff)
    then have "0 \<le> k" "k < 2 ^ 62" by (simp_all add: k_def)
    then have "- (2 ^ 63) \<le> k + d" "k + d < 2 ^ 63" using assms(2) by auto
    then show "- (2 ^ 63) \<le> int (unat tick) + d" "int (unat tick) + d < 2 ^ 63" by (simp_all only: k_def)
  qed
  ultimately have "sint (tick + of_int d) = int (unat tick) + d"
    using signed_take_bit_int_eq_self [of 63 "int (unat tick) + d"]
    by (simp only: signed_of_int) simp
  moreover have "unat (of_int (max 0 x) :: u64) = nat x" if "x < 2 ^ 63" for x :: int
    using that by (auto simp: unat_eq_nat_uint uint_word_of_int_eq take_bit_int_eq_self max_def)
  ultimately show ?thesis
    using \<open>int (unat tick) + d < 2 ^ 63\<close> by (simp only: totp_step_def)
qed

lemma generate_totp_at_eq:
  assumes "hmac_law lib (OtpConfig_algorithm config) secret" "OtpConfig_period_seconds config \<noteq> 0"
  shows "generate_totp_at lib config secret t =
    Some (Inr (code_at lib config secret (unat t div unat (OtpConfig_period_seconds config))))"
proof -
  let ?tick = "t div ucast (OtpConfig_period_seconds config)"
  obtain n where n: "hotp lib (OtpConfig_algorithm config) secret ?tick = Some (Inr n)"
    by (rule hotp_returns [OF assms(1)])
  have "?tick = of_nat (unat t div unat (OtpConfig_period_seconds config))"
    by (simp only: word_arith_nat_div unat_ucast_u64)
  with n assms(2) show ?thesis by (simp add: generate_totp_at_def code_at_def)
qed

lemma near_ticks:
  assumes "W * P < 2 ^ 62" "0 < P" "n < 2 ^ 62" "k = n div P"
  shows "(\<exists>d\<in>{- int W..int W}. Q (nat (int k + d))) \<longleftrightarrow>
    (\<exists>t::u64. Q (unat t div P) \<and> \<bar>int (unat t div P) - int k\<bar> \<le> int W)"
proof
  assume "\<exists>d\<in>{- int W..int W}. Q (nat (int k + d))"
  then obtain d where d: "- int W \<le> d" "d \<le> int W" "Q (nat (int k + d))" by auto
  define s where "s = nat (int k + d)"
  have near: "\<bar>int s - int k\<bar> \<le> int W" using d(1,2) by (auto simp: s_def)
  then have "s \<le> k + W" by linarith
  then have "s * P \<le> k * P + W * P" using mult_le_mono1 [of s "k + W" P] by (simp add: add_mult_distrib)
  moreover have "k * P \<le> n" using assms(4) by simp
  ultimately have "s * P < 2 ^ 64" using assms(1,3) by simp
  then have "unat (of_nat (s * P) :: u64) = s * P" by (simp only: unat_of_nat) simp
  then have s: "unat (of_nat (s * P) :: u64) div P = s" using assms(2) by simp
  show "\<exists>t::u64. Q (unat t div P) \<and> \<bar>int (unat t div P) - int k\<bar> \<le> int W"
    using near d(3) by (intro exI [of _ "of_nat (s * P)"]) (simp only: s s_def [symmetric])
next
  assume "\<exists>t::u64. Q (unat t div P) \<and> \<bar>int (unat t div P) - int k\<bar> \<le> int W"
  then obtain s where s: "Q s" "\<bar>int s - int k\<bar> \<le> int W" by blast
  have "nat (int k + (int s - int k)) = s" by simp
  with s show "\<exists>d\<in>{- int W..int W}. Q (nat (int k + d))"
    by (intro bexI [of _ "int s - int k"]) (simp only:, simp add: abs_le_iff)
qed

lemma accepts_window:
  assumes "hmac_law lib (OtpConfig_algorithm config) secret"
    and "6 \<le> OtpConfig_digits config" "OtpConfig_digits config \<le> 10" "0 < unat (OtpConfig_period_seconds config)"
    and "unat now < 2 ^ 62" "unat (OtpConfig_look_ahead_window config) * unat (OtpConfig_period_seconds config) < 2 ^ 62"
  shows "verify_totp lib config secret candidate now = Some (Inr
    (\<exists>t. generate_totp_at lib config secret t = Some (Inr candidate) \<and>
       \<bar>int (unat t div unat (OtpConfig_period_seconds config)) -
        int (unat now div unat (OtpConfig_period_seconds config))\<bar> \<le> uint (OtpConfig_look_ahead_window config)))"
proof -
  let ?p = "OtpConfig_period_seconds config" and ?w = "OtpConfig_look_ahead_window config"
  let ?tick = "now div ucast ?p :: u64"
  have tick: "unat ?tick = unat now div unat ?p" by (simp add: unat_div unat_ucast_u64)
  have small: "unat ?tick < 2 ^ 62" using assms(5) by (simp add: tick) (meson div_le_dividend le_less_trans)
  have "?p \<noteq> 0" using assms(4) by (auto simp: unat_gt_0)
  then have "verify_totp lib config secret candidate now =
      Some (Inr (\<exists>d\<in>{- uint ?w..uint ?w}. code_at lib config secret (unat (totp_step ?tick d)) = candidate))"
    using assms(2,3) by (simp add: verify_totp_def Let_def verify_totp_loop_eq [OF assms(1)])
  also have "(\<exists>d\<in>{- uint ?w..uint ?w}. code_at lib config secret (unat (totp_step ?tick d)) = candidate) \<longleftrightarrow>
      (\<exists>d\<in>{- uint ?w..uint ?w}. code_at lib config secret (nat (int (unat ?tick) + d)) = candidate)"
  proof (rule bex_cong [OF refl])
    fix d assume "d \<in> {- uint ?w..uint ?w}"
    moreover have "uint ?w < 2 ^ 32" using uint_lt2p [of ?w] by simp
    ultimately have "\<bar>d\<bar> < 2 ^ 62" by auto
    from totp_step_nat [OF small this]
    show "code_at lib config secret (unat (totp_step ?tick d)) = candidate \<longleftrightarrow>
      code_at lib config secret (nat (int (unat ?tick) + d)) = candidate" by simp
  qed
  also have "\<dots> \<longleftrightarrow> (\<exists>t::u64. code_at lib config secret (unat t div unat ?p) = candidate \<and>
      \<bar>int (unat t div unat ?p) - int (unat ?tick)\<bar> \<le> uint ?w)"
    using near_ticks [OF assms(6,4,5) tick, of "\<lambda>k. code_at lib config secret k = candidate"] by simp
  finally show ?thesis
    unfolding generate_totp_at_eq [OF assms(1) \<open>?p \<noteq> 0\<close>] tick by simp
qed

section \<open>Properties\<close>

text \<open>
  C33: What the one-time-password check answers, for every configuration. Fewer than 6 or more than 10
  digits are refused as such; a period of zero seconds makes the check panic; otherwise it returns, and
  accepts a candidate if and only if it is the code that the generator gives at an instant whose time
  step is at most \<open>look_ahead_window\<close> steps from the current one; in particular every code generated
  within the window is accepted. Arithmetic is that of the release profile, in which the modulus of ten
  digits wraps. The clock and the width of the window in seconds are below \<open>2 ^ 62\<close>.
\<close>

theorem totp_window:
  assumes "hmac_law lib (OtpConfig_algorithm config) secret"
    and "unat now < 2 ^ 62" "unat (OtpConfig_look_ahead_window config) * unat (OtpConfig_period_seconds config) < 2 ^ 62"
  shows "verify_totp lib config secret candidate now =
    (if unat (OtpConfig_digits config) \<notin> {6..10} then Some (Inl (OtpError_BadDigits (OtpConfig_digits config)))
     else if OtpConfig_period_seconds config = 0 then None
     else Some (Inr (\<exists>t. generate_totp_at lib config secret t = Some (Inr candidate) \<and>
       \<bar>int (unat t div unat (OtpConfig_period_seconds config)) -
        int (unat now div unat (OtpConfig_period_seconds config))\<bar> \<le> uint (OtpConfig_look_ahead_window config))))"
proof -
  have "unat (OtpConfig_digits config) \<in> {6..10} \<longleftrightarrow> 6 \<le> OtpConfig_digits config \<and> OtpConfig_digits config \<le> 10"
    by (simp add: word_le_nat_alt)
  moreover have "0 < unat (OtpConfig_period_seconds config)" if "OtpConfig_period_seconds config \<noteq> 0"
    using that by (simp add: unat_gt_0)
  ultimately show ?thesis
    using accepts_window [OF assms(1) _ _ _ assms(2,3), of candidate] by (auto simp: verify_totp_def)
qed

text \<open>A library in which every MAC is twenty zero bytes, so that every code is \<open>000000\<close>.\<close>

definition sample_authn_lib :: AuthnLib where
  "sample_authn_lib = WebauthnLib.extend (HttpLib.extend sample_http_lib
       (WebauthnLib.fields (\<lambda>s. Inl ''json'') Inr Inr Some (\<lambda>k d s. True) Inr Inr (\<lambda>k d s. True) Inr Some (\<lambda>k d s. True)))
     (AuthnLib.fields (\<lambda>a k m. Inr (replicate 20 (CHR 0x00))) Inr (\<lambda>s. Inl ''json'') (\<lambda>c. Inl ''json'')
        (\<lambda>s. Inl ''json'') (\<lambda>e l. Inr ()) (\<lambda>n b. Inr ()))"

lemmas sample_authn_simps = sample_authn_lib_def WebauthnLib.defs AuthnLib.defs HttpLib.defs

lemma sample_hotp: "hotp sample_authn_lib a key c = Some (Inr 0)"
  by (simp add: hotp_def Let_def sample_authn_simps byte_of_def nth_Cons' numeral_nat)

lemma six_zeros: "zero_padded 6 0 = ''000000''"
proof -
  have "show_nat 0 = ''0''" by (simp add: show_nat.simps char_of_eq_iff)
  then show ?thesis by (simp add: zero_padded_def numeral_eq_Suc)
qed

lemma sample_code: "generate_totp_at sample_authn_lib OtpConfig_default ''s'' t = Some (Inr ''000000'')"
  by (simp add: generate_totp_at_def sample_hotp otp_code_def six_zeros
      OtpConfig_default_def OtpConfig_from_policy_def OtpPolicy_default_def)

theorem totp_window_witness: "verify_totp sample_authn_lib OtpConfig_default ''s'' ''000000'' 59 = Some (Inr True)"
proof -
  have "hmac_law sample_authn_lib (OtpConfig_algorithm OtpConfig_default) ''s''"
    by (simp add: hmac_law_def sample_authn_simps)
  then have "verify_totp sample_authn_lib OtpConfig_default ''s'' ''000000'' 59 = Some (Inr
    (\<exists>t. generate_totp_at sample_authn_lib OtpConfig_default ''s'' t = Some (Inr ''000000'') \<and>
       \<bar>int (unat t div unat (OtpConfig_period_seconds OtpConfig_default)) -
        int (unat (59 :: u64) div unat (OtpConfig_period_seconds OtpConfig_default))\<bar>
          \<le> uint (OtpConfig_look_ahead_window OtpConfig_default)))"
    by (subst totp_window) (simp_all add: OtpConfig_default_def OtpConfig_from_policy_def OtpPolicy_default_def)
  moreover have "\<exists>t. generate_totp_at sample_authn_lib OtpConfig_default ''s'' t = Some (Inr ''000000'') \<and>
       \<bar>int (unat t div unat (OtpConfig_period_seconds OtpConfig_default)) -
        int (unat (59 :: u64) div unat (OtpConfig_period_seconds OtpConfig_default))\<bar>
          \<le> uint (OtpConfig_look_ahead_window OtpConfig_default)"
    by (rule exI [of _ 59]) (simp add: sample_code)
  ultimately show ?thesis by simp
qed

end
