(* ===== verification/Spi_Registry.thy ===== *)
theory Spi_Registry
  imports Authn_Otp "HOL-Library.Multiset"
begin

text \<open>
  The provider registry and the dispatch modes of \<^verbatim>\<open>crates/geonosis-spi-host/src\<close>
  (\<open>dispatch.rs\<close>, \<open>registry.rs\<close>, \<open>router.rs\<close>) and the signed plugin manifest (\<open>manifest.rs\<close>).
  The write lock makes each registry operation atomic: the registry is an explicit value. The
  asynchronous closure of a router is a function that passes the state of the world along. The stable
  \<open>sort_by_key\<close> of the standard library is \<open>sort_key\<close>. TOML and the base64 decoder with its error
  text are fields of \<open>SpiLib\<close>.
\<close>

section \<open>Interfaces and dispatch modes (\<open>dispatch.rs\<close>)\<close>

datatype WitInterfaceName = WitInterfaceName string

definition wit_AUTHN :: string where "wit_AUTHN = ''geonosis:authn@0.1.0''"
definition wit_MAPPER :: string where "wit_MAPPER = ''geonosis:mapper@0.1.0''"
definition wit_EVENT :: string where "wit_EVENT = ''geonosis:event@0.1.0''"
definition wit_POLICY :: string where "wit_POLICY = ''geonosis:policy@0.1.0''"
definition wit_USER_STORAGE :: string where "wit_USER_STORAGE = ''geonosis:user-storage@0.1.0''"
definition wit_BROKER_ADAPTER :: string where "wit_BROKER_ADAPTER = ''geonosis:broker-adapter@0.1.0''"
definition wit_USER_PROFILE_VALIDATOR :: string where
  "wit_USER_PROFILE_VALIDATOR = ''geonosis:user-profile-validator@0.1.0''"
definition wit_UI_COMPONENT :: string where "wit_UI_COMPONENT = ''geonosis:ui-component@0.1.0''"
definition wit_HOST :: string where "wit_HOST = ''geonosis:host@0.1.0''"

datatype DispatchMode =
    DispatchMode_FirstMatch | DispatchMode_NamedSelect | DispatchMode_Chain
  | DispatchMode_FireForget | DispatchMode_FirstDecision | DispatchMode_NamedAttach

fun dispatch_mode :: "WitInterfaceName \<Rightarrow> DispatchMode" where
  "dispatch_mode (WitInterfaceName s) =
     (if s = wit_USER_STORAGE then DispatchMode_FirstMatch
      else if s = wit_AUTHN then DispatchMode_NamedSelect
      else if s = wit_MAPPER then DispatchMode_Chain
      else if s = wit_EVENT then DispatchMode_FireForget
      else if s = wit_POLICY then DispatchMode_FirstDecision
      else if s = wit_BROKER_ADAPTER then DispatchMode_NamedSelect
      else if s = wit_USER_PROFILE_VALIDATOR then DispatchMode_NamedAttach
      else if s = wit_UI_COMPONENT then DispatchMode_NamedSelect
      else if s = wit_HOST then DispatchMode_NamedSelect
      else DispatchMode_NamedSelect)"

section \<open>The registry (\<open>registry.rs\<close>)\<close>

record ProviderCapabilities =
  ProviderCapabilities_lookup :: bool
  ProviderCapabilities_validate_credential :: bool
  ProviderCapabilities_write_users :: bool
  ProviderCapabilities_group_membership :: bool
  ProviderCapabilities_federated_groups :: bool
  ProviderCapabilities_passwordless :: bool

definition ProviderCapabilities_default :: ProviderCapabilities where
  "ProviderCapabilities_default = \<lparr>ProviderCapabilities_lookup = False,
     ProviderCapabilities_validate_credential = False, ProviderCapabilities_write_users = False,
     ProviderCapabilities_group_membership = False, ProviderCapabilities_federated_groups = False,
     ProviderCapabilities_passwordless = False\<rparr>"

datatype ProviderOrigin = ProviderOrigin_Builtin | ProviderOrigin_Wasm WasmModuleId string

record ProviderBinding =
  ProviderBinding_id :: SpiBindingId
  ProviderBinding_realm_id :: RealmId
  ProviderBinding_interface :: WitInterfaceName
  ProviderBinding_provider_urn :: string
  ProviderBinding_priority :: i32
  ProviderBinding_enabled :: bool
  ProviderBinding_config :: Value
  ProviderBinding_replaces :: "string option"
  ProviderBinding_capabilities :: ProviderCapabilities
  ProviderBinding_origin :: ProviderOrigin

datatype 'a LookupOutcome = LookupOutcome_NotFound | LookupOutcome_Found 'a

definition BUILTIN_MAPPER_URNS :: "string list" where
  "BUILTIN_MAPPER_URNS = [''builtin:mapper:claim-from-attribute'', ''builtin:mapper:realm-role'',
     ''builtin:mapper:client-role'', ''builtin:mapper:groups'', ''builtin:mapper:audience-resolve'']"

definition BUILTIN_EVENT_URNS :: "string list" where
  "BUILTIN_EVENT_URNS = [''builtin:event:postgres-audit'', ''builtin:event:webhook'']"

definition BUILTIN_POLICY_URNS :: "string list" where
  "BUILTIN_POLICY_URNS = [''builtin:policy:default-scope-policy'']"

definition builtin_binding :: "SpiBindingId \<Rightarrow> RealmId \<Rightarrow> string \<Rightarrow> string \<Rightarrow> ProviderBinding" where
  "builtin_binding new_id realm interface urn =
     \<lparr>ProviderBinding_id = new_id, ProviderBinding_realm_id = realm,
      ProviderBinding_interface = WitInterfaceName interface, ProviderBinding_provider_urn = urn,
      ProviderBinding_priority = 0, ProviderBinding_enabled = True, ProviderBinding_config = Value_Object [],
      ProviderBinding_replaces = None, ProviderBinding_capabilities = ProviderCapabilities_default,
      ProviderBinding_origin = ProviderOrigin_Builtin\<rparr>"

type_synonym ProviderRegistry = "(RealmId \<times> WitInterfaceName, ProviderBinding list) hash_map"

definition ProviderRegistry_new :: ProviderRegistry where "ProviderRegistry_new = []"

definition by_priority :: "ProviderBinding list \<Rightarrow> ProviderBinding list" where
  "by_priority v = sort_key (\<lambda>x. - ProviderBinding_priority x) v"

definition binding_key :: "ProviderBinding \<Rightarrow> RealmId \<times> WitInterfaceName" where
  "binding_key b = (ProviderBinding_realm_id b, ProviderBinding_interface b)"

definition register_binding :: "ProviderBinding \<Rightarrow> ProviderRegistry \<Rightarrow> ProviderRegistry" where
  "register_binding binding reg =
     (let v = unwrap_or (map_of reg (binding_key binding)) [] in
      hm_insert (binding_key binding) (by_priority (v @ [binding])) reg)"

definition register_if_absent :: "ProviderBinding \<Rightarrow> ProviderRegistry \<Rightarrow> ProviderRegistry" where
  "register_if_absent binding reg =
     (let v = unwrap_or (map_of reg (binding_key binding)) [] in
      if list_ex (\<lambda>b. ProviderBinding_provider_urn b = ProviderBinding_provider_urn binding) v then reg
      else hm_insert (binding_key binding) (by_priority (v @ [binding])) reg)"

definition seed_v0_1_builtins :: "(nat \<Rightarrow> SpiBindingId) \<Rightarrow> RealmId \<Rightarrow> ProviderRegistry \<Rightarrow> ProviderRegistry" where
  "seed_v0_1_builtins ids realm reg =
     (let urns = map (Pair wit_MAPPER) BUILTIN_MAPPER_URNS @ map (Pair wit_EVENT) BUILTIN_EVENT_URNS @
            map (Pair wit_POLICY) BUILTIN_POLICY_URNS in
      fold (\<lambda>(i, interface, urn). register_if_absent (builtin_binding (ids i) realm interface urn))
        (enumerate 0 urns) reg)"

definition list_bindings :: "RealmId \<Rightarrow> WitInterfaceName \<Rightarrow> ProviderRegistry \<Rightarrow> ProviderBinding list" where
  "list_bindings realm interface reg = unwrap_or (map_of reg (realm, interface)) []"

definition replaced_urns :: "ProviderBinding list \<Rightarrow> string set" where
  "replaced_urns bindings = set (List.map_filter ProviderBinding_replaces bindings)"

definition first_enabled :: "RealmId \<Rightarrow> WitInterfaceName \<Rightarrow> ProviderRegistry \<Rightarrow> ProviderBinding option" where
  "first_enabled realm interface reg =
     (let bindings = list_bindings realm interface reg; replaced = replaced_urns bindings in
      find (\<lambda>b. ProviderBinding_enabled b \<and> ProviderBinding_provider_urn b \<notin> replaced) bindings)"

section \<open>Dispatch (\<open>router.rs\<close>)\<close>

datatype DispatchError =
    DispatchError_NoProvider | DispatchError_NamedNotFound string | DispatchError_ProviderFailed string

fun first_match ::
  "(ProviderBinding \<Rightarrow> 's \<Rightarrow> (DispatchError + 'a LookupOutcome) \<times> 's) \<Rightarrow> ProviderBinding list \<Rightarrow> 's \<Rightarrow>
   (DispatchError + 'a option) \<times> 's" where
  "first_match call [] s = (Inr None, s)"
| "first_match call (b # bs) s =
     (case call b s of
        (Inl e, s') \<Rightarrow> (Inl e, s')
      | (Inr (LookupOutcome_Found v), s') \<Rightarrow> (Inr (Some v), s')
      | (Inr LookupOutcome_NotFound, s') \<Rightarrow> first_match call bs s')"

definition named_select ::
  "(ProviderBinding \<Rightarrow> 's \<Rightarrow> (DispatchError + 'a) \<times> 's) \<Rightarrow> ProviderBinding list \<Rightarrow> string \<Rightarrow> 's \<Rightarrow>
   (DispatchError + 'a) \<times> 's" where
  "named_select call bindings urn s =
     (case find (\<lambda>b. ProviderBinding_provider_urn b = urn) bindings of
        None \<Rightarrow> (Inl (DispatchError_NamedNotFound urn), s)
      | Some binding \<Rightarrow> call binding s)"

fun chain ::
  "(ProviderBinding \<Rightarrow> 'a \<Rightarrow> 's \<Rightarrow> (DispatchError + 'a) \<times> 's) \<Rightarrow> ProviderBinding list \<Rightarrow> 'a \<Rightarrow> 's \<Rightarrow>
   (DispatchError + 'a) \<times> 's" where
  "chain call [] acc s = (Inr acc, s)"
| "chain call (b # bs) acc s =
     (case call b acc s of (Inl e, s') \<Rightarrow> (Inl e, s') | (Inr acc', s') \<Rightarrow> chain call bs acc' s')"

fun named_attach ::
  "(ProviderBinding \<Rightarrow> 's \<Rightarrow> (DispatchError + 'a) \<times> 's) \<Rightarrow> ProviderBinding list \<Rightarrow> (string \<times> 'a) list \<Rightarrow> 's \<Rightarrow>
   (DispatchError + (string \<times> 'a) list) \<times> 's" where
  "named_attach call [] out s = (Inr out, s)"
| "named_attach call (b # bs) out s =
     (case call b s of
        (Inl e, s') \<Rightarrow> (Inl e, s')
      | (Inr v, s') \<Rightarrow> named_attach call bs (out @ [(ProviderBinding_provider_urn b, v)]) s')"

fun fire_forget ::
  "(ProviderBinding \<Rightarrow> 's \<Rightarrow> (DispatchError + unit) \<times> 's) \<Rightarrow> ProviderBinding list \<Rightarrow> 's \<Rightarrow> 's" where
  "fire_forget call [] s = s"
| "fire_forget call (b # bs) s = fire_forget call bs (snd (call b s))"

datatype PolicyDecision = Decision_Permit | Decision_Deny | Decision_Skip

fun first_decision ::
  "(ProviderBinding \<Rightarrow> 's \<Rightarrow> (DispatchError + PolicyDecision) \<times> 's) \<Rightarrow> ProviderBinding list \<Rightarrow> 's \<Rightarrow>
   (DispatchError + PolicyDecision option) \<times> 's" where
  "first_decision call [] s = (Inr None, s)"
| "first_decision call (b # bs) s =
     (case call b s of
        (Inl e, s') \<Rightarrow> (Inl e, s')
      | (Inr Decision_Skip, s') \<Rightarrow> first_decision call bs s'
      | (Inr d, s') \<Rightarrow> (Inr (Some d), s'))"

definition active_bindings :: "ProviderBinding list \<Rightarrow> ProviderBinding list" where
  "active_bindings bindings =
     (let replaced = replaced_urns bindings in
      filter (\<lambda>b. ProviderBinding_enabled b \<and> ProviderBinding_provider_urn b \<notin> replaced) bindings)"

section \<open>Signed manifests (\<open>manifest.rs\<close>)\<close>

record PluginManifest =
  PluginManifest_schema_version :: u32
  PluginManifest_alias :: string
  PluginManifest_interface :: string
  PluginManifest_sha256 :: string
  PluginManifest_version :: string
  PluginManifest_signer_pubkey_b64 :: string
  PluginManifest_description :: "string option"

datatype ManifestError =
    ManifestError_Toml string | ManifestError_BadSignature string | ManifestError_BadPubkey string
  | ManifestError_SignatureMismatch | ManifestError_Sha256Mismatch string string
  | ManifestError_UntrustedSigner string

record SpiLib = AuthnLib +
  manifest_from_toml :: "string \<Rightarrow> string + PluginManifest"
  manifest_to_toml :: "PluginManifest \<Rightarrow> string + string"
  base64_std_bytes :: "string \<Rightarrow> string + string"

definition PluginManifest_from_toml :: "'l SpiLib_scheme \<Rightarrow> string \<Rightarrow> ManifestError + PluginManifest" where
  "PluginManifest_from_toml lib bytes =
     (case str_from_utf8 lib bytes of
        Inl e \<Rightarrow> Inl (ManifestError_Toml (''utf-8: '' @ e))
      | Inr s \<Rightarrow> map_sum ManifestError_Toml id (manifest_from_toml lib s))"

definition PluginManifest_to_toml :: "'l SpiLib_scheme \<Rightarrow> PluginManifest \<Rightarrow> ManifestError + string" where
  "PluginManifest_to_toml lib m = map_sum ManifestError_Toml id (manifest_to_toml lib m)"

definition verify_manifest_signature ::
  "'l SpiLib_scheme \<Rightarrow> string \<Rightarrow> string \<Rightarrow> ManifestError + PluginManifest" where
  "verify_manifest_signature lib manifest_bytes signature_b64 =
     (case PluginManifest_from_toml lib manifest_bytes of
        Inl e \<Rightarrow> Inl e
      | Inr manifest \<Rightarrow>
     (case base64_std_bytes lib (PluginManifest_signer_pubkey_b64 manifest) of
        Inl e \<Rightarrow> Inl (ManifestError_BadPubkey e)
      | Inr pubkey_bytes \<Rightarrow>
      if length pubkey_bytes \<noteq> 32
      then Inl (ManifestError_BadPubkey (''expected 32 bytes, got '' @ show_nat (length pubkey_bytes)))
      else (case ed25519_key lib pubkey_bytes of
        Inl e \<Rightarrow> Inl (ManifestError_BadPubkey e)
      | Inr verifying_key \<Rightarrow>
     (case base64_std_bytes lib (str_trim signature_b64) of
        Inl e \<Rightarrow> Inl (ManifestError_BadSignature e)
      | Inr sig_bytes \<Rightarrow>
      if length sig_bytes \<noteq> 64
      then Inl (ManifestError_BadSignature (''expected 64 bytes, got '' @ show_nat (length sig_bytes)))
      else if \<not> ed25519_check lib verifying_key manifest_bytes sig_bytes
      then Inl ManifestError_SignatureMismatch
      else Inr manifest))))"

definition verify_bytecode_sha256 :: "'l SpiLib_scheme \<Rightarrow> PluginManifest \<Rightarrow> string \<Rightarrow> ManifestError + unit" where
  "verify_bytecode_sha256 lib manifest bytecode =
     (let actual = hex_encode lib (sha256_digest lib bytecode) in
      if actual \<noteq> PluginManifest_sha256 manifest
      then Inl (ManifestError_Sha256Mismatch (PluginManifest_sha256 manifest) actual) else Inr ())"

definition check_trusted :: "PluginManifest \<Rightarrow> string list \<Rightarrow> ManifestError + unit" where
  "check_trusted manifest trusted =
     (if trusted = [] then Inr ()
      else if list_ex (\<lambda>p. p = PluginManifest_signer_pubkey_b64 manifest) trusted then Inr ()
      else Inl (ManifestError_UntrustedSigner (PluginManifest_signer_pubkey_b64 manifest)))"

section \<open>Order and choice of providers\<close>

lemma set_by_priority [simp]: "set (by_priority v) = set v"
  by (simp add: by_priority_def)

lemma by_priority_sorted: "sorted_wrt (\<lambda>a b. ProviderBinding_priority b \<le> ProviderBinding_priority a) (by_priority v)"
proof -
  have "sorted (map (\<lambda>x. - ProviderBinding_priority x) (by_priority v))" by (simp add: by_priority_def)
  then show ?thesis by (simp add: sorted_wrt_map)
qed

text \<open>Sorting again after each insertion gives the stable sort of the order of registration.\<close>

lemma by_priority_snoc: "by_priority (by_priority v @ [b]) = by_priority (v @ [b])"
proof -
  let ?f = "\<lambda>x. - ProviderBinding_priority x"
  show ?thesis
    unfolding by_priority_def
  proof (rule properties_for_sort_key)
    show "filter (\<lambda>x. ?f k = ?f x) (sort_key ?f (v @ [b])) = filter (\<lambda>x. ?f k = ?f x) (sort_key ?f v @ [b])" for k
      using sort_key_stable [of ?f "?f k" "v @ [b]"] sort_key_stable [of ?f "?f k" v] by (simp add: eq_commute)
  qed simp_all
qed

lemma by_priority_single [simp]: "by_priority [] = []" "by_priority [b] = [b]"
  by (simp_all add: by_priority_def)

lemma list_bindings_register:
  "list_bindings realm interface (register_binding b reg) =
     (if binding_key b = (realm, interface) then by_priority (list_bindings realm interface reg @ [b])
      else list_bindings realm interface reg)"
  by (auto simp: list_bindings_def register_binding_def Let_def)

lemma list_bindings_registered:
  "list_bindings realm interface (fold register_binding bs ProviderRegistry_new) =
     by_priority (filter (\<lambda>b. binding_key b = (realm, interface)) bs)"
proof (induction bs rule: rev_induct)
  case Nil
  then show ?case by (simp add: list_bindings_def ProviderRegistry_new_def)
next
  case (snoc b bs)
  then show ?case by (simp add: list_bindings_register by_priority_snoc)
qed

lemma first_enabled_active: "first_enabled realm interface reg =
    (case active_bindings (list_bindings realm interface reg) of [] \<Rightarrow> None | b # _ \<Rightarrow> Some b)"
proof -
  have "find P xs = (case filter P xs of [] \<Rightarrow> None | x # _ \<Rightarrow> Some x)" for P and xs :: "ProviderBinding list"
    by (induction xs) simp_all
  then show ?thesis by (simp add: first_enabled_def active_bindings_def Let_def)
qed

definition replaced_by :: "ProviderBinding list \<Rightarrow> ProviderBinding \<Rightarrow> bool" where
  "replaced_by bindings b \<longleftrightarrow> (\<exists>c\<in>set bindings. ProviderBinding_replaces c = Some (ProviderBinding_provider_urn b))"

lemma replaced_urns_iff: "ProviderBinding_provider_urn b \<in> replaced_urns bindings \<longleftrightarrow> replaced_by bindings b"
  by (auto simp: replaced_urns_def replaced_by_def List.map_filter_def image_iff)

text \<open>
  The registry answers with the active provider of the highest priority. After any sequence of
  registrations, the provider chosen for an interface of a realm is enabled, is not replaced by another
  provider of that interface, and no such provider has a higher priority; none is chosen only when there
  is no such provider.
\<close>

theorem registry_chooses_highest:
  "case first_enabled realm interface (fold register_binding bs ProviderRegistry_new) of
     None \<Rightarrow> {b \<in> set bs. binding_key b = (realm, interface) \<and> ProviderBinding_enabled b \<and>
       \<not> replaced_by (filter (\<lambda>b. binding_key b = (realm, interface)) bs) b} = {}
   | Some b \<Rightarrow> b \<in> set bs \<and> binding_key b = (realm, interface) \<and> ProviderBinding_enabled b \<and>
       \<not> replaced_by (filter (\<lambda>b. binding_key b = (realm, interface)) bs) b \<and>
       ProviderBinding_priority b = Max (ProviderBinding_priority ` {b \<in> set bs. binding_key b = (realm, interface) \<and>
         ProviderBinding_enabled b \<and> \<not> replaced_by (filter (\<lambda>b. binding_key b = (realm, interface)) bs) b})"
proof -
  let ?mine = "filter (\<lambda>b. binding_key b = (realm, interface)) bs"
  let ?reg = "fold register_binding bs ProviderRegistry_new"
  define act where "act = active_bindings (by_priority ?mine)"
  define A where "A = {b \<in> set bs. binding_key b = (realm, interface) \<and> ProviderBinding_enabled b \<and>
    \<not> replaced_by ?mine b}"
  have "replaced_by (by_priority ?mine) = replaced_by ?mine" by (rule ext) (simp add: replaced_by_def)
  then have A: "set act = A"
    by (auto simp: act_def A_def active_bindings_def Let_def replaced_urns_iff)
  have sorted: "sorted_wrt (\<lambda>a b. ProviderBinding_priority b \<le> ProviderBinding_priority a) act"
    unfolding act_def active_bindings_def Let_def by (intro sorted_wrt_filter by_priority_sorted)
  have first: "first_enabled realm interface ?reg = (case act of [] \<Rightarrow> None | b # _ \<Rightarrow> Some b)"
    by (simp add: first_enabled_active list_bindings_registered act_def)
  show ?thesis
  proof (cases act)
    case Nil
    then show ?thesis using first A by (simp add: A_def)
  next
    case (Cons b bs')
    have fin: "finite A" using A by (metis List.finite_set)
    have "b \<in> A" using Cons A by auto
    moreover have "ProviderBinding_priority b = Max (ProviderBinding_priority ` A)"
      using Cons sorted fin A by (intro Max_eqI [symmetric]) auto
    ultimately show ?thesis using first Cons by (simp add: A_def)
  qed
qed

section \<open>Seeding\<close>

lemma register_if_absent_present:
  assumes "\<exists>b'\<in>set (unwrap_or (map_of reg (binding_key b)) []). ProviderBinding_provider_urn b' = ProviderBinding_provider_urn b"
  shows "register_if_absent b reg = reg"
  using assms by (auto simp: register_if_absent_def list_ex_iff)

definition bound :: "ProviderBinding \<Rightarrow> ProviderRegistry \<Rightarrow> bool" where
  "bound b reg \<longleftrightarrow> (\<exists>b'\<in>set (unwrap_or (map_of reg (binding_key b)) []).
     ProviderBinding_provider_urn b' = ProviderBinding_provider_urn b)"

lemma bound_register: "bound b (register_if_absent b reg)" "bound b reg \<Longrightarrow> bound b (register_if_absent c reg)"
  by (auto simp: bound_def register_if_absent_def list_ex_iff Let_def)

lemma fold_register_bound:
  "(\<forall>b\<in>set bs. bound b (fold register_if_absent bs reg)) \<and> (\<forall>b. bound b reg \<longrightarrow> bound b (fold register_if_absent bs reg))"
  by (induction bs arbitrary: reg) (auto intro: bound_register)

lemma fold_register_idem:
  assumes "\<forall>b\<in>set bs. bound b reg"
  shows "fold register_if_absent bs reg = reg"
  using assms by (induction bs) (simp_all add: bound_def register_if_absent_present)

text \<open>Seeding a realm again, even with other identifiers, changes nothing.\<close>

lemma seed_idempotent:
  "seed_v0_1_builtins ids' realm (seed_v0_1_builtins ids realm reg) = seed_v0_1_builtins ids realm reg"
proof -
  let ?urns = "map (Pair wit_MAPPER) BUILTIN_MAPPER_URNS @ map (Pair wit_EVENT) BUILTIN_EVENT_URNS @
    map (Pair wit_POLICY) BUILTIN_POLICY_URNS"
  let ?bs = "\<lambda>ids. map (\<lambda>(i, interface, urn). builtin_binding (ids i) realm interface urn) (enumerate 0 ?urns)"
  have seed: "seed_v0_1_builtins ids realm reg = fold register_if_absent (?bs ids) reg" for ids reg
    unfolding seed_v0_1_builtins_def Let_def fold_map by (rule fold_cong) (auto simp: fun_eq_iff)
  have same: "bound (builtin_binding i realm a u) = bound (builtin_binding j realm a u)" for i j a u
    by (rule ext) (simp add: bound_def builtin_binding_def binding_key_def)
  have "bound b (fold register_if_absent (?bs ids) reg)" if "b \<in> set (?bs ids')" for b
  proof -
    from that obtain i a u where "(i, a, u) \<in> set (enumerate 0 ?urns)" "b = builtin_binding (ids' i) realm a u"
      by (auto simp del: enumerate_append_eq map_append)
    moreover from this have "builtin_binding (ids i) realm a u \<in> set (?bs ids)"
      by (auto intro!: image_eqI [of _ _ "(i, a, u)"] simp del: enumerate_append_eq map_append)
    ultimately show ?thesis using fold_register_bound same by metis
  qed
  then show ?thesis unfolding seed by (intro fold_register_idem) blast
qed

section \<open>Manifests\<close>

text \<open>What the three checks of an installation establish together.\<close>

lemma manifest_checked:
  assumes "verify_manifest_signature lib bytes sig = Inr m" "verify_bytecode_sha256 lib m bytecode = Inr ()"
    "check_trusted m trusted = Inr ()" "trusted \<noteq> []"
  obtains key vk s where "PluginManifest_signer_pubkey_b64 m \<in> set trusted"
    "base64_std_bytes lib (PluginManifest_signer_pubkey_b64 m) = Inr key" "ed25519_key lib key = Inr vk"
    "base64_std_bytes lib (str_trim sig) = Inr s" "ed25519_check lib vk bytes s"
    "PluginManifest_from_toml lib bytes = Inr m" "PluginManifest_sha256 m = hex_encode lib (sha256_digest lib bytecode)"
  using assms
  by (auto simp: verify_manifest_signature_def verify_bytecode_sha256_def check_trusted_def Let_def list_ex_iff
      split: sum.splits if_splits)

end
