(* ===== verification/Saml_Idp.thy ===== *)
theory Saml_Idp
  imports Spi_Registry
begin

text \<open>
  The SAML identity provider, \<^verbatim>\<open>crates/geonosis-protocol-saml-idp/src\<close>: building an assertion and
  its attributes (\<open>lib.rs\<close>), the XML emission (\<open>xml.rs\<close>) and the enveloped signature
  (\<open>sign.rs\<close>). The date format of \<open>chrono\<close>, the base64 encoder, the text of floating point numbers and
  the serde decoder of the service-provider configuration are fields of \<open>SamlLib\<close>. The parsers of
  incoming messages are in \<open>Saml_Messages\<close>.
\<close>

section \<open>Types (\<open>geonosis-saml-types\<close>, \<open>lib.rs\<close>)\<close>

fun NameIdFormat_as_uri :: "NameIdFormat \<Rightarrow> string" where
  "NameIdFormat_as_uri NameIdFormat_Unspecified = ''urn:oasis:names:tc:SAML:1.1:nameid-format:unspecified''"
| "NameIdFormat_as_uri NameIdFormat_EmailAddress = ''urn:oasis:names:tc:SAML:1.1:nameid-format:emailAddress''"
| "NameIdFormat_as_uri NameIdFormat_Persistent = ''urn:oasis:names:tc:SAML:2.0:nameid-format:persistent''"
| "NameIdFormat_as_uri NameIdFormat_Transient = ''urn:oasis:names:tc:SAML:2.0:nameid-format:transient''"
| "NameIdFormat_as_uri NameIdFormat_X509SubjectName =
     ''urn:oasis:names:tc:SAML:1.1:nameid-format:X509SubjectName''"

record SamlAttribute =
  SamlAttribute_name :: string
  SamlAttribute_name_format :: string
  SamlAttribute_friendly_name :: "string option"
  SamlAttribute_values :: "string list"

record SamlAssertion =
  SamlAssertion_id :: string
  SamlAssertion_issuer :: string
  SamlAssertion_subject_name_id :: string
  SamlAssertion_subject_name_id_format :: NameIdFormat
  SamlAssertion_audience :: "string list"
  SamlAssertion_issue_instant :: DateTime
  SamlAssertion_not_before :: DateTime
  SamlAssertion_not_on_or_after :: DateTime
  SamlAssertion_destination :: "Url option"
  SamlAssertion_attributes :: "SamlAttribute list"
  SamlAssertion_authn_context_class_ref :: "string option"
  SamlAssertion_authn_instant :: DateTime
  SamlAssertion_session_index :: "string option"

datatype SamlIdpError = SamlIdpError_InvalidSp string | SamlIdpError_Sign string

fun SamlIdpError_to_string :: "SamlIdpError \<Rightarrow> string" where
  "SamlIdpError_to_string (SamlIdpError_InvalidSp m) = ''invalid SP config: '' @ m"
| "SamlIdpError_to_string (SamlIdpError_Sign m) = ''signing: '' @ m"

datatype SessionIndexStrategy = SessionIndexStrategy_UseSessionId | SessionIndexStrategy_Random

datatype SamlAttributeSource =
    SamlAttributeSource_Static "string list" | SamlAttributeSource_UserAttribute string
  | SamlAttributeSource_Email | SamlAttributeSource_Username | SamlAttributeSource_GivenName
  | SamlAttributeSource_FamilyName | SamlAttributeSource_DisplayName

record SamlAttributeMapping =
  SamlAttributeMapping_saml_name :: string
  SamlAttributeMapping_friendly_name :: "string option"
  SamlAttributeMapping_name_format :: string
  SamlAttributeMapping_source :: SamlAttributeSource

record SamlSpClientConfig =
  SamlSpClientConfig_entity_id :: string
  SamlSpClientConfig_acs_urls :: "Url list"
  SamlSpClientConfig_slo_url :: "Url option"
  SamlSpClientConfig_binding :: SamlBinding
  SamlSpClientConfig_name_id_format :: NameIdFormat
  SamlSpClientConfig_want_authnrequest_signed :: bool
  SamlSpClientConfig_want_assertions_encrypted :: bool
  SamlSpClientConfig_signing_key :: KeyId
  SamlSpClientConfig_default_audience :: "string option"
  SamlSpClientConfig_session_index_strategy :: SessionIndexStrategy
  SamlSpClientConfig_authn_request_signing_certificates :: "string list"
  SamlSpClientConfig_attribute_mappers :: "SamlAttributeMapping list"
  SamlSpClientConfig_front_channel_logout_url :: "Url option"

record SamlLib = SpiLib +
  base64_std_encode :: "string \<Rightarrow> string"
  rfc3339_millis :: "DateTime \<Rightarrow> string"
  f64_to_string :: "f64 \<Rightarrow> string"
  saml_sp_from_json :: "Value \<Rightarrow> string + SamlSpClientConfig"
  self_signed_x509 :: "string \<Rightarrow> string \<Rightarrow> string + string"

definition SamlSpClientConfig_try_from_value ::
  "'l SamlLib_scheme \<Rightarrow> Value \<Rightarrow> SamlIdpError + SamlSpClientConfig" where
  "SamlSpClientConfig_try_from_value lib v = map_sum SamlIdpError_InvalidSp id (saml_sp_from_json lib v)"

definition flatten_attribute_value :: "'l SamlLib_scheme \<Rightarrow> AttributeValue \<Rightarrow> string list" where
  "flatten_attribute_value lib v =
     (case v of
        AttributeValue_String s \<Rightarrow> [s]
      | AttributeValue_Strings ss \<Rightarrow> ss
      | AttributeValue_Integer i \<Rightarrow> [show_int i]
      | AttributeValue_Bool b \<Rightarrow> [if b then ''true'' else ''false'']
      | AttributeValue_Float f \<Rightarrow> [f64_to_string lib f]
      | AttributeValue_Null \<Rightarrow> [])"

definition nonempty_text :: "string option \<Rightarrow> string list" where
  "nonempty_text s = (case s of Some t \<Rightarrow> if t = [] then [] else [t] | None \<Rightarrow> [])"

fun resolve_attribute_source :: "'l SamlLib_scheme \<Rightarrow> SamlAttributeSource \<Rightarrow> User \<Rightarrow> string list" where
  "resolve_attribute_source lib (SamlAttributeSource_Static values) user = values"
| "resolve_attribute_source lib (SamlAttributeSource_UserAttribute name) user =
     (case map_of (User_attributes user) name of Some v \<Rightarrow> flatten_attribute_value lib v | None \<Rightarrow> [])"
| "resolve_attribute_source lib SamlAttributeSource_Email user = nonempty_text (User_email user)"
| "resolve_attribute_source lib SamlAttributeSource_Username user = [User_username user]"
| "resolve_attribute_source lib SamlAttributeSource_GivenName user =
     nonempty_text (Option.bind (User_name user) PersonName_given)"
| "resolve_attribute_source lib SamlAttributeSource_FamilyName user =
     nonempty_text (Option.bind (User_name user) PersonName_family)"
| "resolve_attribute_source lib SamlAttributeSource_DisplayName user =
     nonempty_text (Option.bind (User_name user) PersonName_display)"

definition apply_attribute_mappers :: "'l SamlLib_scheme \<Rightarrow> User \<Rightarrow> SamlAttributeMapping list \<Rightarrow> SamlAttribute list" where
  "apply_attribute_mappers lib user mappings = List.map_filter (\<lambda>m.
     let values = resolve_attribute_source lib (SamlAttributeMapping_source m) user in
     if values = [] then None
     else Some \<lparr>SamlAttribute_name = SamlAttributeMapping_saml_name m,
       SamlAttribute_name_format = SamlAttributeMapping_name_format m,
       SamlAttribute_friendly_name = SamlAttributeMapping_friendly_name m, SamlAttribute_values = values\<rparr>) mappings"

definition build_assertion ::
  "string \<Rightarrow> DateTime \<Rightarrow> string \<Rightarrow> SamlSpClientConfig \<Rightarrow> string \<Rightarrow> string \<Rightarrow> SamlAttribute list \<Rightarrow> string option \<Rightarrow> i64 \<Rightarrow>
   SamlAssertion" where
  "build_assertion random_token now issuer sp name_id session_index attributes authn_class_ref ttl_minutes =
     \<lparr>SamlAssertion_id = ''_'' @ random_token, SamlAssertion_issuer = issuer,
      SamlAssertion_subject_name_id = name_id,
      SamlAssertion_subject_name_id_format = SamlSpClientConfig_name_id_format sp,
      SamlAssertion_audience = [SamlSpClientConfig_entity_id sp], SamlAssertion_issue_instant = now,
      SamlAssertion_not_before = now - chrono_seconds 30,
      SamlAssertion_not_on_or_after = now + chrono_seconds (60 * ttl_minutes),
      SamlAssertion_destination = (case SamlSpClientConfig_acs_urls sp of [] \<Rightarrow> None | u # _ \<Rightarrow> Some u),
      SamlAssertion_attributes = attributes, SamlAssertion_authn_context_class_ref = authn_class_ref,
      SamlAssertion_authn_instant = now, SamlAssertion_session_index = Some session_index\<rparr>"

section \<open>XML emission (\<open>xml.rs\<close>)\<close>

definition ALG_SIGNATURE_RSA_SHA256 :: string where
  "ALG_SIGNATURE_RSA_SHA256 = ''http://www.w3.org/2001/04/xmldsig-more#rsa-sha256''"
definition ALG_DIGEST_SHA256 :: string where "ALG_DIGEST_SHA256 = ''http://www.w3.org/2001/04/xmlenc#sha256''"
definition ALG_C14N_EXC :: string where "ALG_C14N_EXC = ''http://www.w3.org/2001/10/xml-exc-c14n#''"
definition ALG_TRANSFORM_ENVELOPED :: string where
  "ALG_TRANSFORM_ENVELOPED = ''http://www.w3.org/2000/09/xmldsig#enveloped-signature''"
definition XMLNS_SAML :: string where "XMLNS_SAML = ''urn:oasis:names:tc:SAML:2.0:assertion''"
definition XMLNS_SAMLP :: string where "XMLNS_SAMLP = ''urn:oasis:names:tc:SAML:2.0:protocol''"
definition XMLNS_DS :: string where "XMLNS_DS = ''http://www.w3.org/2000/09/xmldsig#''"
definition XMLNS_MD :: string where "XMLNS_MD = ''urn:oasis:names:tc:SAML:2.0:metadata''"

definition escape_char :: "char \<Rightarrow> string" where
  "escape_char c =
     (if c = CHR ''<'' then ''&lt;'' else if c = CHR ''>'' then ''&gt;'' else if c = CHR ''&'' then ''&amp;''
      else if c = CHR 0x22 then ''&quot;'' else if c = CHR 0x0D then ''&#13;'' else [c])"

definition escape :: "string \<Rightarrow> string" where
  "escape s = concat (map escape_char s)"

text \<open>An attribute of an element: a blank, the name, the value in double quotes.\<close>

definition xml_attr :: "string \<Rightarrow> string \<Rightarrow> string" where
  "xml_attr name v = '' '' @ name @ ''=\"'' @ v @ ''\"''"

definition xml_text :: "string \<Rightarrow> string \<Rightarrow> string" where
  "xml_text name v = ''<'' @ name @ ''>'' @ v @ ''</'' @ name @ ''>''"

definition serialize_attribute :: "SamlAttribute \<Rightarrow> string" where
  "serialize_attribute attr =
     ''<saml:Attribute'' @ xml_attr ''Name'' (escape (SamlAttribute_name attr)) @
     xml_attr ''NameFormat'' (escape (SamlAttribute_name_format attr)) @
     (case SamlAttribute_friendly_name attr of Some f \<Rightarrow> xml_attr ''FriendlyName'' (escape f) | None \<Rightarrow> []) @ ''>'' @
     concat (map (\<lambda>v. ''<saml:AttributeValue xmlns:xsi=\"http://www.w3.org/2001/XMLSchema-instance\" xsi:type=\"xs:string\">'' @
       escape v @ ''</saml:AttributeValue>'') (SamlAttribute_values attr)) @
     ''</saml:Attribute>''"

definition assertion_head :: "'l SamlLib_scheme \<Rightarrow> SamlAssertion \<Rightarrow> string" where
  "assertion_head lib a =
     ''<saml:Assertion'' @ xml_attr ''xmlns:saml'' XMLNS_SAML @ xml_attr ''ID'' (escape (SamlAssertion_id a)) @
     xml_attr ''IssueInstant'' (rfc3339_millis lib (SamlAssertion_issue_instant a)) @ '' Version=\"2.0\">'' @
     xml_text ''saml:Issuer'' (escape (SamlAssertion_issuer a))"

definition assertion_subject :: "'l SamlLib_scheme \<Rightarrow> SamlAssertion \<Rightarrow> string" where
  "assertion_subject lib a =
     ''<saml:Subject><saml:NameID'' @
     xml_attr ''Format'' (NameIdFormat_as_uri (SamlAssertion_subject_name_id_format a)) @ ''>'' @
     escape (SamlAssertion_subject_name_id a) @ ''</saml:NameID>'' @
     ''<saml:SubjectConfirmation Method=\"urn:oasis:names:tc:SAML:2.0:cm:bearer\"><saml:SubjectConfirmationData'' @
     (case SamlAssertion_destination a of Some dest \<Rightarrow> xml_attr ''Recipient'' (escape dest) | None \<Rightarrow> []) @
     xml_attr ''NotOnOrAfter'' (rfc3339_millis lib (SamlAssertion_not_on_or_after a)) @ ''/>'' @
     ''</saml:SubjectConfirmation></saml:Subject>''"

definition assertion_conditions :: "'l SamlLib_scheme \<Rightarrow> SamlAssertion \<Rightarrow> string" where
  "assertion_conditions lib a =
     ''<saml:Conditions'' @ xml_attr ''NotBefore'' (rfc3339_millis lib (SamlAssertion_not_before a)) @
     xml_attr ''NotOnOrAfter'' (rfc3339_millis lib (SamlAssertion_not_on_or_after a)) @ ''>'' @
     (if SamlAssertion_audience a = [] then []
      else ''<saml:AudienceRestriction>'' @
        concat (map (\<lambda>aud. xml_text ''saml:Audience'' (escape aud)) (SamlAssertion_audience a)) @
        ''</saml:AudienceRestriction>'') @
     ''</saml:Conditions>''"

definition assertion_statements :: "'l SamlLib_scheme \<Rightarrow> SamlAssertion \<Rightarrow> string" where
  "assertion_statements lib a =
     ''<saml:AuthnStatement'' @ xml_attr ''AuthnInstant'' (rfc3339_millis lib (SamlAssertion_authn_instant a)) @
     (case SamlAssertion_session_index a of Some idx \<Rightarrow> xml_attr ''SessionIndex'' (escape idx) | None \<Rightarrow> []) @ ''>'' @
     (case SamlAssertion_authn_context_class_ref a of
        Some acr \<Rightarrow> ''<saml:AuthnContext>'' @ xml_text ''saml:AuthnContextClassRef'' (escape acr) @ ''</saml:AuthnContext>''
      | None \<Rightarrow> []) @
     ''</saml:AuthnStatement>'' @
     (if SamlAssertion_attributes a = [] then []
      else ''<saml:AttributeStatement>'' @ concat (map serialize_attribute (SamlAssertion_attributes a)) @
        ''</saml:AttributeStatement>'')"

definition serialize_assertion :: "'l SamlLib_scheme \<Rightarrow> SamlAssertion \<Rightarrow> string" where
  "serialize_assertion lib a = assertion_head lib a @ assertion_subject lib a @ assertion_conditions lib a @
     assertion_statements lib a @ ''</saml:Assertion>''"

definition serialize_response ::
  "'l SamlLib_scheme \<Rightarrow> string \<Rightarrow> DateTime \<Rightarrow> string \<Rightarrow> string \<Rightarrow> string option \<Rightarrow> string \<Rightarrow> string" where
  "serialize_response lib response_id issue_instant issuer destination in_response_to signed_assertion_xml =
     ''<samlp:Response'' @ xml_attr ''xmlns:samlp'' XMLNS_SAMLP @ xml_attr ''xmlns:saml'' XMLNS_SAML @
     xml_attr ''ID'' (escape response_id) @ '' Version=\"2.0\"'' @
     xml_attr ''IssueInstant'' (rfc3339_millis lib issue_instant) @ xml_attr ''Destination'' (escape destination) @
     (case in_response_to of Some i \<Rightarrow> xml_attr ''InResponseTo'' (escape i) | None \<Rightarrow> []) @ ''>'' @
     xml_text ''saml:Issuer'' (escape issuer) @
     ''<samlp:Status><samlp:StatusCode Value=\"urn:oasis:names:tc:SAML:2.0:status:Success\"/></samlp:Status>'' @
     signed_assertion_xml @ ''</samlp:Response>''"

definition render_signed_info :: "string \<Rightarrow> string \<Rightarrow> string" where
  "render_signed_info reference_uri digest_b64 =
     ''<ds:SignedInfo'' @ xml_attr ''xmlns:ds'' XMLNS_DS @ ''>'' @
     ''<ds:CanonicalizationMethod'' @ xml_attr ''Algorithm'' ALG_C14N_EXC @ ''/>'' @
     ''<ds:SignatureMethod'' @ xml_attr ''Algorithm'' ALG_SIGNATURE_RSA_SHA256 @ ''/>'' @
     ''<ds:Reference'' @ xml_attr ''URI'' (''#'' @ escape reference_uri) @ ''>'' @
     ''<ds:Transforms><ds:Transform'' @ xml_attr ''Algorithm'' ALG_TRANSFORM_ENVELOPED @ ''/>'' @
     ''<ds:Transform'' @ xml_attr ''Algorithm'' ALG_C14N_EXC @ ''/></ds:Transforms>'' @
     ''<ds:DigestMethod'' @ xml_attr ''Algorithm'' ALG_DIGEST_SHA256 @ ''/>'' @
     xml_text ''ds:DigestValue'' digest_b64 @ ''</ds:Reference></ds:SignedInfo>''"

definition render_signature_with_key_info :: "string \<Rightarrow> string \<Rightarrow> string \<Rightarrow> string \<Rightarrow> string" where
  "render_signature_with_key_info reference_uri digest_b64 signature_b64 key_info_xml =
     ''<ds:Signature'' @ xml_attr ''xmlns:ds'' XMLNS_DS @ ''>'' @ render_signed_info reference_uri digest_b64 @
     xml_text ''ds:SignatureValue'' signature_b64 @ key_info_xml @ ''</ds:Signature>''"

definition render_signature_block :: "string \<Rightarrow> string \<Rightarrow> string \<Rightarrow> string \<Rightarrow> string" where
  "render_signature_block reference_uri digest_b64 signature_b64 cert_b64 =
     ''<ds:Signature'' @ xml_attr ''xmlns:ds'' XMLNS_DS @ ''>'' @ render_signed_info reference_uri digest_b64 @
     xml_text ''ds:SignatureValue'' signature_b64 @
     ''<ds:KeyInfo><ds:X509Data><ds:X509Certificate>'' @ cert_b64 @
     ''</ds:X509Certificate></ds:X509Data></ds:KeyInfo></ds:Signature>''"

text \<open>\<open>str::find\<close>: the position of the first occurrence.\<close>

fun str_find :: "string \<Rightarrow> string \<Rightarrow> nat option" where
  "str_find pat [] = (if pat = [] then Some 0 else None)"
| "str_find pat (c # s) = (if starts_with (c # s) pat then Some 0 else map_option Suc (str_find pat s))"

definition embed_signature :: "string \<Rightarrow> string \<Rightarrow> string" where
  "embed_signature assertion_xml signature_xml =
     (let issuer_close = ''</saml:Issuer>'' in
      case str_find issuer_close assertion_xml of
        Some idx \<Rightarrow> (let split = idx + length issuer_close in
          take split assertion_xml @ signature_xml @ drop split assertion_xml)
      | None \<Rightarrow> assertion_xml)"

record IdpMetadataInput =
  IdpMetadataInput_entity_id :: string
  IdpMetadataInput_sso_url :: string
  IdpMetadataInput_slo_url :: "string option"
  IdpMetadataInput_signing_certs_b64 :: "string list"
  IdpMetadataInput_name_id_formats :: "NameIdFormat list"

definition serialize_idp_metadata :: "IdpMetadataInput \<Rightarrow> string" where
  "serialize_idp_metadata input =
     ''<?xml version=\"1.0\" encoding=\"UTF-8\"?><md:EntityDescriptor'' @ xml_attr ''xmlns:md'' XMLNS_MD @
     xml_attr ''xmlns:ds'' XMLNS_DS @ xml_attr ''entityID'' (escape (IdpMetadataInput_entity_id input)) @ ''>'' @
     ''<md:IDPSSODescriptor WantAuthnRequestsSigned=\"false\" protocolSupportEnumeration=\"urn:oasis:names:tc:SAML:2.0:protocol\">'' @
     concat (map (\<lambda>cert. ''<md:KeyDescriptor use=\"signing\"><ds:KeyInfo><ds:X509Data><ds:X509Certificate>'' @ cert @
       ''</ds:X509Certificate></ds:X509Data></ds:KeyInfo></md:KeyDescriptor>'') (IdpMetadataInput_signing_certs_b64 input)) @
     concat (map (\<lambda>fmt. xml_text ''md:NameIDFormat'' (NameIdFormat_as_uri fmt)) (IdpMetadataInput_name_id_formats input)) @
     ''<md:SingleSignOnService Binding=\"urn:oasis:names:tc:SAML:2.0:bindings:HTTP-POST\"'' @
     xml_attr ''Location'' (escape (IdpMetadataInput_sso_url input)) @ ''/>'' @
     ''<md:SingleSignOnService Binding=\"urn:oasis:names:tc:SAML:2.0:bindings:HTTP-Redirect\"'' @
     xml_attr ''Location'' (escape (IdpMetadataInput_sso_url input)) @ ''/>'' @
     (case IdpMetadataInput_slo_url input of
        Some slo \<Rightarrow> ''<md:SingleLogoutService Binding=\"urn:oasis:names:tc:SAML:2.0:bindings:HTTP-POST\"'' @
          xml_attr ''Location'' (escape slo) @ ''/>''
      | None \<Rightarrow> []) @
     ''</md:IDPSSODescriptor></md:EntityDescriptor>''"

section \<open>Signing (\<open>sign.rs\<close>)\<close>

datatype SignError = SignError_Kms string | SignError_Shape

fun SignError_to_string :: "SignError \<Rightarrow> string" where
  "SignError_to_string (SignError_Kms m) = ''kms: '' @ m"
| "SignError_to_string SignError_Shape = ''input lacks <saml:Assertion> shell with embeddable position''"

datatype KeyInfoMaterial = KeyInfoMaterial_X509Certificate string | KeyInfoMaterial_RsaKeyValue string string

fun KeyInfoMaterial_render :: "KeyInfoMaterial \<Rightarrow> string" where
  "KeyInfoMaterial_render (KeyInfoMaterial_X509Certificate cert_b64) =
     ''<ds:KeyInfo><ds:X509Data><ds:X509Certificate>'' @ cert_b64 @
     ''</ds:X509Certificate></ds:X509Data></ds:KeyInfo>''"
| "KeyInfoMaterial_render (KeyInfoMaterial_RsaKeyValue modulus_b64 exponent_b64) =
     ''<ds:KeyInfo><ds:KeyValue><ds:RSAKeyValue>'' @ xml_text ''ds:Modulus'' modulus_b64 @
     xml_text ''ds:Exponent'' exponent_b64 @ ''</ds:RSAKeyValue></ds:KeyValue></ds:KeyInfo>''"

definition sign_assertion ::
  "'l SamlLib_scheme \<Rightarrow> string \<Rightarrow> SoftwareKms \<Rightarrow> RealmId \<Rightarrow> KeyId \<Rightarrow> string \<Rightarrow> string \<Rightarrow> KeyInfoMaterial \<Rightarrow>
   SignError + string" where
  "sign_assertion lib rng kms realm kid reference_uri assertion_xml key_info =
     (let digest_b64 = base64_std_encode lib (sha256_digest lib assertion_xml);
          signed_info = render_signed_info reference_uri digest_b64 in
      case kms_sign lib rng realm kid RS256 signed_info kms of
        Inl e \<Rightarrow> Inl (SignError_Kms (KmsError_to_string lib e))
      | Inr signature \<Rightarrow>
          (let signature_xml = render_signature_with_key_info reference_uri digest_b64
                 (base64_std_encode lib signature) (KeyInfoMaterial_render key_info) in
           Inr (embed_signature assertion_xml signature_xml)))"

section \<open>Escaping\<close>

lemma escape_char_safe: "set (escape_char c) \<inter> {CHR ''<'', CHR ''>'', CHR 0x22, CHR 0x0D} = {}"
  by (simp add: escape_char_def)

lemma escape_safe: "set (escape s) \<inter> {CHR ''<'', CHR ''>'', CHR 0x22, CHR 0x0D} = {}"
  unfolding escape_def set_concat set_map using escape_char_safe by blast

lemma escape_simps [simp]: "escape [] = []" "escape (c # s) = escape_char c @ escape s"
  by (simp_all add: escape_def)

text \<open>Texts that differ stay different when they are escaped.\<close>

lemma escape_char_prefix:
  assumes "escape_char c @ s = escape_char d @ t"
  shows "c = d"
  using assms by (auto simp: escape_char_def split: if_splits)

lemma escape_inject [simp]: "escape s = escape t \<longleftrightarrow> s = t"
proof (induction s arbitrary: t)
  case Nil
  then show ?case by (cases t) (auto simp: escape_char_def)
next
  case (Cons c s)
  show ?case
  proof (cases t)
    case Nil
    then show ?thesis by (auto simp: escape_char_def)
  next
    case (Cons d t')
    then show ?thesis using escape_char_prefix [of c "escape s" d "escape t'"] Cons.IH [of t'] by auto
  qed
qed

section \<open>The place of the signature\<close>

lemma str_find_skip:
  assumes "c \<notin> set xs"
  shows "str_find (c # p) (xs @ s) = map_option ((+) (length xs)) (str_find (c # p) s)"
  using assms
proof (induction xs)
  case Nil
  then show ?case by (simp add: option.map_ident)
next
  case (Cons x xs)
  then show ?case by (auto simp: starts_with_def option.map_comp comp_def)
qed

lemma str_find_here: "str_find (c # p) ((c # p) @ s) = Some 0"
  by (simp add: starts_with_def)

lemma find_issuer_close:
  assumes "CHR ''<'' \<notin> set u" "CHR ''<'' \<notin> set v"
  shows "str_find ''</saml:Issuer>'' (''<saml:Assertion'' @ u @ ''<saml:Issuer>'' @ v @ ''</saml:Issuer>'' @ rest) =
    Some (length (''<saml:Assertion'' @ u @ ''<saml:Issuer>'' @ v))"
proof -
  have open_tag: "str_find ''</saml:Issuer>'' (''<s'' @ s) =
      map_option (\<lambda>n. Suc (Suc n)) (str_find ''</saml:Issuer>'' s)" for s
    by (simp add: starts_with_def option.map_comp comp_def)
  have inner: "str_find ''</saml:Issuer>'' (v @ ''</saml:Issuer>'' @ rest) = Some (length v)"
    using str_find_skip [OF assms(2), of "''/saml:Issuer>''"] str_find_here [of "CHR ''<''" "''/saml:Issuer>''" rest]
    by simp
  have "str_find ''</saml:Issuer>'' (''aml:Issuer>'' @ v @ ''</saml:Issuer>'' @ rest) = Some (11 + length v)"
    using str_find_skip [of "CHR ''<''" "''aml:Issuer>''" "''/saml:Issuer>''"] inner by simp
  then have "str_find ''</saml:Issuer>'' (''<s'' @ ''aml:Issuer>'' @ v @ ''</saml:Issuer>'' @ rest) = Some (13 + length v)"
    by (simp only: open_tag) simp
  moreover have "CHR ''<'' \<notin> set (''aml:Assertion'' @ u)" using assms(1) by simp
  note str_find_skip [OF this, of "''/saml:Issuer>''" "''<s'' @ ''aml:Issuer>'' @ v @ ''</saml:Issuer>'' @ rest"]
  ultimately have "str_find ''</saml:Issuer>'' ((''aml:Assertion'' @ u) @ ''<s'' @ ''aml:Issuer>'' @ v @ ''</saml:Issuer>'' @ rest) =
      Some (13 + length u + (13 + length v))"
    by (simp only: option.map) simp
  then have "str_find ''</saml:Issuer>'' (''<s'' @ (''aml:Assertion'' @ u) @ ''<s'' @ ''aml:Issuer>'' @ v @ ''</saml:Issuer>'' @ rest) =
      Some (15 + length u + (13 + length v))"
    by (simp only: open_tag) simp
  then show ?thesis by simp
qed

lemma embed_signature_at:
  assumes "str_find ''</saml:Issuer>'' (p @ ''</saml:Issuer>'' @ rest) = Some (length p)"
  shows "embed_signature (p @ ''</saml:Issuer>'' @ rest) sig = (p @ ''</saml:Issuer>'') @ sig @ rest"
proof -
  have "take (length p + length ''</saml:Issuer>'') (p @ ''</saml:Issuer>'' @ rest) = p @ ''</saml:Issuer>''"
    "drop (length p + length ''</saml:Issuer>'') (p @ ''</saml:Issuer>'' @ rest) = rest"
    by simp_all
  with assms show ?thesis unfolding embed_signature_def Let_def by simp
qed

text \<open>
  C32: The enveloped signature covers the assertion. Whatever texts the assertion carries -- identifiers,
  issuer, names and attribute values may contain markup -- the signed document is the serialised
  assertion with one signature element inserted directly after the issuer element; its digest value is
  the SHA-256 digest of exactly the assertion that remains when that element is taken out, and its
  signature value is the signature of the key service over the signed-info element with that digest.
\<close>

theorem saml_signature_covers_assertion:
  assumes "CHR ''<'' \<notin> set (rfc3339_millis lib (SamlAssertion_issue_instant a))"
    and "sign_assertion lib rng kms realm kid (SamlAssertion_id a) (serialize_assertion lib a) key_info = Inr xml"
  shows "\<exists>signature rest. serialize_assertion lib a = assertion_head lib a @ rest \<and>
    kms_sign lib rng realm kid RS256 (render_signed_info (SamlAssertion_id a)
      (base64_std_encode lib (sha256_digest lib (assertion_head lib a @ rest)))) kms = Inr signature \<and>
    xml = assertion_head lib a @ render_signature_with_key_info (SamlAssertion_id a)
      (base64_std_encode lib (sha256_digest lib (assertion_head lib a @ rest)))
      (base64_std_encode lib signature) (KeyInfoMaterial_render key_info) @ rest"
proof -
  let ?rest = "assertion_subject lib a @ assertion_conditions lib a @ assertion_statements lib a @ ''</saml:Assertion>''"
  let ?u = "xml_attr ''xmlns:saml'' XMLNS_SAML @ xml_attr ''ID'' (escape (SamlAssertion_id a)) @
     xml_attr ''IssueInstant'' (rfc3339_millis lib (SamlAssertion_issue_instant a)) @ '' Version=\"2.0\">''"
  let ?v = "escape (SamlAssertion_issuer a)"
  let ?p = "''<saml:Assertion'' @ ?u @ ''<saml:Issuer>'' @ ?v"
  have ser: "serialize_assertion lib a = assertion_head lib a @ ?rest" by (simp add: serialize_assertion_def)
  have head: "assertion_head lib a = ?p @ ''</saml:Issuer>''" by (simp add: assertion_head_def xml_text_def)
  have "CHR ''<'' \<notin> set ?v" "CHR ''<'' \<notin> set (escape (SamlAssertion_id a))" using escape_safe by auto
  moreover from this(2) have "CHR ''<'' \<notin> set ?u" using assms(1) by (simp add: xml_attr_def XMLNS_SAML_def)
  ultimately have "str_find ''</saml:Issuer>'' (?p @ ''</saml:Issuer>'' @ ?rest) = Some (length ?p)"
    using find_issuer_close [of ?u ?v ?rest] by simp
  then have embed: "embed_signature (assertion_head lib a @ ?rest) sig = assertion_head lib a @ sig @ ?rest" for sig
    using embed_signature_at [of ?p ?rest sig] unfolding head by simp
  obtain signature where "kms_sign lib rng realm kid RS256 (render_signed_info (SamlAssertion_id a)
      (base64_std_encode lib (sha256_digest lib (assertion_head lib a @ ?rest)))) kms = Inr signature"
    using assms(2) by (auto simp: sign_assertion_def Let_def ser split: sum.splits)
  with assms(2) show ?thesis
    by (intro exI [of _ signature] exI [of _ ?rest]) (simp add: sign_assertion_def Let_def ser embed)
qed

definition sample_saml_lib :: SamlLib where
  "sample_saml_lib = SpiLib.extend (AuthnLib.extend sample_authn_lib
       (SpiLib.fields (\<lambda>s. Inl ''toml'') (\<lambda>m. Inl ''toml'') Inr))
     (SamlLib.fields (\<lambda>s. s) (\<lambda>t. ''2026-05-14T12:00:00.000Z'') (\<lambda>f. f) (\<lambda>v. Inl ''json'') (\<lambda>k n. Inr k))"

lemmas sample_saml_simps = sample_saml_lib_def SpiLib.defs SamlLib.defs sample_authn_simps

definition sample_assertion :: SamlAssertion where
  "sample_assertion = \<lparr>SamlAssertion_id = ''_a1'', SamlAssertion_issuer = ''</saml:Issuer>'',
     SamlAssertion_subject_name_id = ''ada'', SamlAssertion_subject_name_id_format = NameIdFormat_EmailAddress,
     SamlAssertion_audience = [''sp''], SamlAssertion_issue_instant = 0, SamlAssertion_not_before = 0,
     SamlAssertion_not_on_or_after = 300, SamlAssertion_destination = None, SamlAssertion_attributes = [],
     SamlAssertion_authn_context_class_ref = None, SamlAssertion_authn_instant = 0,
     SamlAssertion_session_index = None\<rparr>"

lemma sample_saml_sign:
  "kms_sign sample_saml_lib ''r'' (RealmId 1) (KeyId 5) RS256 m sample_kms = Inr m"
  by (simp add: kms_sign_def get_stored_def sample_kms_store seeded_material_def pem_to_private_def
      sample_saml_simps sample_http_simps)

theorem saml_signature_covers_assertion_witness:
  "\<exists>xml signature rest.
    sign_assertion sample_saml_lib ''r'' sample_kms (RealmId 1) (KeyId 5) ''_a1''
      (serialize_assertion sample_saml_lib sample_assertion) (KeyInfoMaterial_X509Certificate ''c'') = Inr xml \<and>
    serialize_assertion sample_saml_lib sample_assertion = assertion_head sample_saml_lib sample_assertion @ rest \<and>
    xml = assertion_head sample_saml_lib sample_assertion @ render_signature_with_key_info ''_a1''
      (base64_std_encode sample_saml_lib (sha256_digest sample_saml_lib
         (assertion_head sample_saml_lib sample_assertion @ rest)))
      (base64_std_encode sample_saml_lib signature) (KeyInfoMaterial_render (KeyInfoMaterial_X509Certificate ''c'')) @ rest"
proof -
  have "CHR ''<'' \<notin> set (rfc3339_millis sample_saml_lib (SamlAssertion_issue_instant sample_assertion))"
    by (simp add: sample_saml_simps)
  moreover obtain xml where "sign_assertion sample_saml_lib ''r'' sample_kms (RealmId 1) (KeyId 5)
      (SamlAssertion_id sample_assertion) (serialize_assertion sample_saml_lib sample_assertion)
      (KeyInfoMaterial_X509Certificate ''c'') = Inr xml"
    unfolding sign_assertion_def Let_def sample_saml_sign by simp
  ultimately show ?thesis
    using saml_signature_covers_assertion [of sample_saml_lib sample_assertion "''r''" sample_kms "RealmId 1" "KeyId 5"
        "KeyInfoMaterial_X509Certificate ''c''" xml]
    by (auto simp: sample_assertion_def simp del: One_nat_def)
qed

end
