(* ===== verification/Authn_Factors.thy ===== *)
theory Authn_Factors
  imports Authn_Otp
begin

text \<open>
  The other built-in authenticators of \<^verbatim>\<open>crates/geonosis-authenticators/src\<close>, one definition per
  \<open>Authenticator::process\<close>, and the registry of \<^verbatim>\<open>crates/geonosis-server/src/authenticators.rs\<close>. The
  delivery of mails and text messages is a field of the library whose answer the code checks; the
  dummy verifications that equalise timing have no other effect and are not modelled.
\<close>

section \<open>Password (\<open>password.rs\<close>)\<close>

definition PasswordAuthenticator_process ::
  "'l AuthnLib_scheme \<Rightarrow> AuthnContext \<Rightarrow> AuthnInput \<Rightarrow> Tables \<Rightarrow> authn_result" where
  "PasswordAuthenticator_process lib ctx input t =
     (case input of
        AuthnInput_Submit form \<Rightarrow>
     (case map_of form ''username'' of
        None \<Rightarrow> (Inl (AuthnError_Invalid ''missing username''), ctx, t)
      | Some username \<Rightarrow>
     (case map_of form ''password'' of
        None \<Rightarrow> (Inl (AuthnError_Invalid ''missing password''), ctx, t)
      | Some password \<Rightarrow>
     (case get_user_by_username (AuthnContext_realm_id ctx) username t of
        Inl _ \<Rightarrow> (Inr (AuthnOutput_Failure FailureKind_InvalidCredential), ctx, t)
      | Inr user \<Rightarrow>
      if \<not> User_enabled user then (Inr (AuthnOutput_Failure FailureKind_UserDisabled), ctx, t)
      else if (case check_locked (AuthnContext_realm_id ctx) (User_id user) (AuthnContext_now ctx) t of
                 Inl (BruteForceError_Locked _) \<Rightarrow> True | _ \<Rightarrow> False)
      then (Inr (AuthnOutput_Failure FailureKind_Locked), ctx, t)
      else (case get_password_hash (AuthnContext_realm_id ctx) (User_id user) t of
        Inl _ \<Rightarrow> (Inr (AuthnOutput_Failure FailureKind_InvalidCredential), ctx, t)
      | Inr phc \<Rightarrow>
     (case verify_password lib password phc of
        Inr True \<Rightarrow>
          (Inr (AuthnOutput_Success [CredentialKind_Password] [Amr_Pwd]),
           record_amr Amr_Pwd (ctx\<lparr>AuthnContext_user_id := Some (User_id user)\<rparr>),
           snd (record_success (AuthnContext_realm_id ctx) (User_id user) t))
      | Inr False \<Rightarrow>
          (Inr (AuthnOutput_Failure FailureKind_InvalidCredential), ctx,
           snd (record_failure (AuthnContext_realm_id ctx) (User_id user) (AuthnContext_brute_force ctx)
                  (AuthnContext_now ctx) t))
      | Inl e \<Rightarrow> (Inl (AuthnError_Crypto e), ctx, t))))))
      | _ \<Rightarrow> (Inr (AuthnOutput_Continue (AuthnRenderInstruction_new ''login/password.html'')), ctx, t))"

section \<open>Session cookie (\<open>cookie.rs\<close>)\<close>

definition CookieAuthenticator_process :: "AuthnContext \<Rightarrow> AuthnInput \<Rightarrow> Tables \<Rightarrow> authn_result" where
  "CookieAuthenticator_process ctx input t =
     (case AuthnContext_session_id ctx of
        None \<Rightarrow> (Inr AuthnOutput_Skip, ctx, t)
      | Some sid \<Rightarrow>
     (case get_session sid t of
        Inl _ \<Rightarrow> (Inr AuthnOutput_Skip, ctx, t)
      | Inr session \<Rightarrow>
      if Session_realm_id session \<noteq> AuthnContext_realm_id ctx then (Inr AuthnOutput_Skip, ctx, t)
      else if Session_expires_at session < AuthnContext_now ctx then (Inr AuthnOutput_Skip, ctx, t)
      else (Inr (AuthnOutput_Success [CredentialKind_Password] [Amr_Pwd]),
            record_amr Amr_Pwd (ctx\<lparr>AuthnContext_user_id := Some (Session_user_id session)\<rparr>), t)))"

section \<open>Recovery codes (\<open>recovery_code.rs\<close>)\<close>

definition code_hash :: "'l CryptoLib_scheme \<Rightarrow> string \<Rightarrow> string \<Rightarrow> string" where
  "code_hash lib code key = hex_encode lib (token_hash lib key code)"

definition stored_hashes :: "User \<Rightarrow> string list" where
  "stored_hashes user = (case map_of (User_attributes user) ''recovery-codes:hashes'' of
     Some (AttributeValue_Strings s) \<Rightarrow> s | _ \<Rightarrow> [])"

text \<open>The first index whose hash matches, and \<open>Vec::remove\<close> at it.\<close>

fun find_index :: "('a \<Rightarrow> bool) \<Rightarrow> 'a list \<Rightarrow> nat option" where
  "find_index P [] = None"
| "find_index P (x # xs) = (if P x then Some 0 else map_option Suc (find_index P xs))"

definition vec_remove :: "nat \<Rightarrow> 'a list \<Rightarrow> 'a list" where
  "vec_remove i xs = take i xs @ drop (Suc i) xs"

definition RecoveryCodeAuthenticator_process ::
  "'l AuthnLib_scheme \<Rightarrow> AuthnContext \<Rightarrow> AuthnInput \<Rightarrow> Tables \<Rightarrow> authn_result" where
  "RecoveryCodeAuthenticator_process lib ctx input t =
     (case input of
        AuthnInput_Submit form \<Rightarrow>
     (case AuthnContext_user_id ctx of
        None \<Rightarrow> (Inl (AuthnError_Invalid ''recovery-code requires resolved user''), ctx, t)
      | Some user_id \<Rightarrow>
     (case map_of form ''code'' of
        None \<Rightarrow> (Inl (AuthnError_Invalid ''missing code''), ctx, t)
      | Some presented \<Rightarrow>
     (case get_user (AuthnContext_realm_id ctx) user_id t of
        Inl e \<Rightarrow> (Inl (AuthnError_Storage (StorageError_to_string e)), ctx, t)
      | Inr user \<Rightarrow>
      if stored_hashes user = [] then (Inr (AuthnOutput_Failure FailureKind_RequiresEnrollment), ctx, t)
      else (case find_index (\<lambda>h. constant_time_eq lib h (code_hash lib presented (AuthnContext_realm_hash_key ctx)))
                   (stored_hashes user) of
        None \<Rightarrow> (Inr (AuthnOutput_Failure FailureKind_InvalidCredential), ctx, t)
      | Some ix \<Rightarrow>
     (case update_user (user\<lparr>User_attributes := bt_insert ''recovery-codes:hashes''
              (AttributeValue_Strings (vec_remove ix (stored_hashes user))) (User_attributes user)\<rparr>) t of
        (Inl e, t') \<Rightarrow> (Inl (AuthnError_Storage (StorageError_to_string e)), ctx, t')
      | (Inr _, t') \<Rightarrow>
          (Inr (AuthnOutput_Success [CredentialKind_RecoveryCode] [Amr_Otp]), record_amr Amr_Otp ctx, t'))))))
      | _ \<Rightarrow> (Inr (AuthnOutput_Continue (AuthnRenderInstruction_new ''login/recovery-code.html'')), ctx, t))"

definition generate_one :: "u8 list \<Rightarrow> string" where
  "generate_one bytes =
     (let chars = map (\<lambda>b. USER_CODE_ALPHA ! (unat b mod length USER_CODE_ALPHA)) bytes in
      take 4 chars @ ''-'' @ take 4 (drop 4 chars) @ ''-'' @ take 4 (drop 8 chars))"

definition generate_recovery_codes :: "u8 list list \<Rightarrow> string list" where
  "generate_recovery_codes draws = map generate_one draws"

section \<open>Consent (\<open>consent.rs\<close>)\<close>

text \<open>A \<open>BTreeSet\<close> of strings is a set, and its iteration order is that of \<open>sorted_list_of_set\<close>.\<close>

definition ConsentAuthenticator_process ::
  "AuthnDraw \<Rightarrow> AuthnContext \<Rightarrow> AuthnInput \<Rightarrow> Tables \<Rightarrow> authn_result" where
  "ConsentAuthenticator_process draw ctx input t =
     (case AuthnContext_user_id ctx of
        None \<Rightarrow> (Inl (AuthnError_Invalid ''consent requires resolved user''), ctx, t)
      | Some user_id \<Rightarrow>
     (let requested = (case map_of (AuthnContext_locals ctx) ''requested_scopes'' of
            Some (Value_String s) \<Rightarrow> s | _ \<Rightarrow> []);
          requested_set = set (map ScopeName_as_str (case parse_scope_string requested of Inl _ \<Rightarrow> [] | Inr s \<Rightarrow> s));
          existing = (case get_consent_grant (AuthnContext_realm_id ctx) user_id
              (Client_id (AuthnContext_client ctx)) t of Inl _ \<Rightarrow> None | Inr g \<Rightarrow> Some g);
          already = (case existing of Some g \<Rightarrow> set (map ScopeName_as_str (ConsentGrant_scopes g)) | None \<Rightarrow> {}) in
      if requested_set \<subseteq> already \<and> requested_set \<noteq> {} then (Inr AuthnOutput_Skip, ctx, t)
      else (let missing = sorted_list_of_set (requested_set - already) in
      case input of
        AuthnInput_Submit form \<Rightarrow>
          if unwrap_or (map_of form ''action'') ''deny'' \<noteq> ''approve''
          then (Inr (AuthnOutput_Failure FailureKind_ConsentDenied), ctx, t)
          else (let scopes = List.map_filter (\<lambda>s. case ScopeName_new s of Inl _ \<Rightarrow> None | Inr n \<Rightarrow> Some n)
                       (sorted_list_of_set (already \<union> requested_set));
                    grant = \<lparr>ConsentGrant_id = (case existing of Some g \<Rightarrow> ConsentGrant_id g | None \<Rightarrow> ad_consent_id draw),
                      ConsentGrant_realm_id = AuthnContext_realm_id ctx, ConsentGrant_user_id = user_id,
                      ConsentGrant_client_id = Client_id (AuthnContext_client ctx), ConsentGrant_scopes = scopes,
                      ConsentGrant_granted_at = (case existing of Some g \<Rightarrow> ConsentGrant_granted_at g
                        | None \<Rightarrow> AuthnContext_now ctx),
                      ConsentGrant_updated_at = ad_now draw\<rparr> in
                case save_consent_grant grant t of
                  (Inl e, t') \<Rightarrow> (Inl (AuthnError_Storage (StorageError_to_string e)), ctx, t')
                | (Inr _, t') \<Rightarrow> (Inr (AuthnOutput_Success [CredentialKind_Password] []), ctx, t'))
      | _ \<Rightarrow> (Inr (AuthnOutput_Continue
               (AuthnRenderInstruction_with ''scopes_to_grant'' (Value_Array (map Value_String missing))
               (AuthnRenderInstruction_with ''client_name''
                  (Value_String (unwrap_or (Client_display_name (AuthnContext_client ctx))
                     (Client_client_id (AuthnContext_client ctx))))
               (AuthnRenderInstruction_new ''login/consent.html'')))), ctx, t))))"

section \<open>Required actions (\<open>require_action.rs\<close>)\<close>

fun action_key :: "RequiredAction \<Rightarrow> string" where
  "action_key RequiredAction_UpdatePassword = ''update-password''"
| "action_key RequiredAction_ConfigureOtp = ''configure-otp''"
| "action_key RequiredAction_ConfigureWebauthn = ''configure-webauthn''"
| "action_key RequiredAction_VerifyEmail = ''verify-email''"
| "action_key RequiredAction_UpdateProfile = ''update-profile''"
| "action_key RequiredAction_AcceptTerms = ''accept-terms''"
| "action_key RequiredAction_DeleteAccount = ''delete-account''"
| "action_key (RequiredAction_Custom s) = s"

definition RequireActionAuthenticator_process :: "AuthnContext \<Rightarrow> AuthnInput \<Rightarrow> Tables \<Rightarrow> authn_result" where
  "RequireActionAuthenticator_process ctx input t =
     (case AuthnContext_user_id ctx of
        None \<Rightarrow> (Inr AuthnOutput_Skip, ctx, t)
      | Some user_id \<Rightarrow>
     (case get_user (AuthnContext_realm_id ctx) user_id t of
        Inl e \<Rightarrow> (Inl (AuthnError_Storage (StorageError_to_string e)), ctx, t)
      | Inr user \<Rightarrow>
     (case User_required_actions user of
        [] \<Rightarrow> (Inr AuthnOutput_Skip, ctx, t)
      | pending # _ \<Rightarrow>
     (case input of
        AuthnInput_Submit form \<Rightarrow>
          if map_of form ''action'' \<noteq> Some ''ack''
          then (Inr (AuthnOutput_Failure (FailureKind_Other ''required action not acknowledged'')), ctx, t)
          else (case update_user (user\<lparr>User_required_actions :=
                        filter (\<lambda>a. a \<noteq> pending) (User_required_actions user)\<rparr>) t of
                  (Inl e, t') \<Rightarrow> (Inl (AuthnError_Storage (StorageError_to_string e)), ctx, t')
                | (Inr _, t') \<Rightarrow> (Inr (AuthnOutput_Success [] []), ctx, t'))
      | _ \<Rightarrow> (Inr (AuthnOutput_Continue
               (AuthnRenderInstruction_with ''action'' (Value_String (action_key pending))
                 (AuthnRenderInstruction_new (''login/required-action/'' @ action_key pending @ ''.html'')))), ctx, t)))))"

section \<open>Risk score (\<open>risk_score.rs\<close>)\<close>

datatype RiskDecision = RiskDecision_Low | RiskDecision_Medium | RiskDecision_High

fun RiskDecision_as_str :: "RiskDecision \<Rightarrow> string" where
  "RiskDecision_as_str RiskDecision_Low = ''low''"
| "RiskDecision_as_str RiskDecision_Medium = ''medium''"
| "RiskDecision_as_str RiskDecision_High = ''high''"

definition RiskDecision_parse :: "string \<Rightarrow> RiskDecision option" where
  "RiskDecision_parse s =
     (if s = ''low'' then Some RiskDecision_Low else if s = ''medium'' then Some RiskDecision_Medium
      else if s = ''high'' then Some RiskDecision_High else None)"

record RiskScoreAuthenticator =
  RiskScoreAuthenticator_force :: "RiskDecision option"
  RiskScoreAuthenticator_block_high :: bool

definition RiskScoreAuthenticator_new :: RiskScoreAuthenticator where
  "RiskScoreAuthenticator_new = \<lparr>RiskScoreAuthenticator_force = None, RiskScoreAuthenticator_block_high = False\<rparr>"

definition RiskScoreAuthenticator_process ::
  "RiskScoreAuthenticator \<Rightarrow> AuthnContext \<Rightarrow> AuthnInput \<Rightarrow> Tables \<Rightarrow> authn_result" where
  "RiskScoreAuthenticator_process self ctx input t =
     (let decision = (case RiskScoreAuthenticator_force self of
            Some d \<Rightarrow> Inr d
          | None \<Rightarrow>
         (case AuthnContext_user_id ctx of
            None \<Rightarrow> Inr RiskDecision_Low
          | Some uid \<Rightarrow>
              map_sum id (\<lambda>user. case map_of (User_attributes user) ''risk:level'' of
                  Some (AttributeValue_String s) \<Rightarrow> unwrap_or (RiskDecision_parse s) RiskDecision_Low
                | _ \<Rightarrow> RiskDecision_Low) (get_user (AuthnContext_realm_id ctx) uid t))) in
      case decision of
        Inl e \<Rightarrow> (Inl (AuthnError_Storage (StorageError_to_string e)), ctx, t)
      | Inr d \<Rightarrow>
          (let ctx = ctx\<lparr>AuthnContext_locals := bt_insert ''risk:decision'' (Value_String (RiskDecision_as_str d))
                 (AuthnContext_locals ctx)\<rparr> in
           if RiskScoreAuthenticator_block_high self \<and> d = RiskDecision_High
           then (Inr (AuthnOutput_Failure FailureKind_HighRisk), ctx, t)
           else (Inr (AuthnOutput_Success [] []), ctx, t)))"

section \<open>Magic links (\<open>magic_link.rs\<close>)\<close>

definition MAGIC_LINK_TTL_MINUTES :: i64 where "MAGIC_LINK_TTL_MINUTES = 15"

definition unix_timestamp :: "DateTime \<Rightarrow> i64" where
  "unix_timestamp t = t div 1000000000"

definition MagicLink_issue ::
  "'l AuthnLib_scheme \<Rightarrow> AuthnDraw \<Rightarrow> Url \<Rightarrow> AuthnContext \<Rightarrow> string \<Rightarrow> Tables \<Rightarrow> authn_result" where
  "MagicLink_issue lib draw callback_base ctx email t =
     (let sent = AuthnRenderInstruction_new ''login/magic-link-sent.html'' in
      case get_user_by_email (AuthnContext_realm_id ctx) email t of
        Inl _ \<Rightarrow> (Inr (AuthnOutput_Continue sent), ctx, t)
      | Inr user \<Rightarrow>
      if \<not> User_enabled user then (Inr (AuthnOutput_Continue sent), ctx, t)
      else (let tok = ad_token draw;
                h = hex_encode lib (token_hash lib (AuthnContext_realm_hash_key ctx) tok);
                expires = AuthnContext_now ctx + chrono_seconds (60 * MAGIC_LINK_TTL_MINUTES);
                attributes = bt_insert ''magic-link:expires-unix'' (AttributeValue_Integer (unix_timestamp expires))
                  (bt_insert ''magic-link:hash'' (AttributeValue_String h) (User_attributes user)) in
      case update_user (user\<lparr>User_attributes := attributes\<rparr>) t of
        (Inl e, t') \<Rightarrow> (Inl (AuthnError_Storage (StorageError_to_string e)), ctx, t')
      | (Inr _, t') \<Rightarrow>
          (let link = url_append_pair lib (url_with_path lib callback_base
                 (trim_end_char CHR ''/'' (url_path lib callback_base) @ ''/login-actions/magic-link'')) ''token'' tok in
           case send_link lib email link of
             Inl e \<Rightarrow> (Inl (AuthnError_Internal e), ctx, t')
           | Inr _ \<Rightarrow> (Inr (AuthnOutput_Continue (AuthnRenderInstruction_with ''expires_at_unix''
                 (json_int (unix_timestamp expires)) sent)), ctx, t'))))"

text \<open>
  Verification of a stored one-time hash with an expiry, shared by magic links and SMS codes: the user
  whose attributes carry it, or the failure of the code.
\<close>

definition stored_hash_live :: "string \<Rightarrow> string \<Rightarrow> DateTime \<Rightarrow> User \<Rightarrow> string option" where
  "stored_hash_live hash_key expiry_key now user =
     (case map_of (User_attributes user) hash_key of
        Some (AttributeValue_String stored) \<Rightarrow>
          (let expires = (case map_of (User_attributes user) expiry_key of
               Some (AttributeValue_Integer x) \<Rightarrow> x | _ \<Rightarrow> 0) in
           if expires < unix_timestamp now then None else Some stored)
      | _ \<Rightarrow> None)"

definition burn_hash :: "string \<Rightarrow> string \<Rightarrow> User \<Rightarrow> User" where
  "burn_hash hash_key expiry_key user =
     user\<lparr>User_attributes := bt_remove expiry_key (bt_remove hash_key (User_attributes user))\<rparr>"

definition MagicLink_verify :: "'l AuthnLib_scheme \<Rightarrow> AuthnContext \<Rightarrow> string \<Rightarrow> Tables \<Rightarrow> authn_result" where
  "MagicLink_verify lib ctx tok t =
     (case AuthnContext_user_id ctx of
        None \<Rightarrow> (Inl (AuthnError_Invalid ''magic-link verify needs resolved user''), ctx, t)
      | Some user_id \<Rightarrow>
     (case get_user (AuthnContext_realm_id ctx) user_id t of
        Inl e \<Rightarrow> (Inl (AuthnError_Storage (StorageError_to_string e)), ctx, t)
      | Inr user \<Rightarrow>
     (case stored_hash_live ''magic-link:hash'' ''magic-link:expires-unix'' (AuthnContext_now ctx) user of
        None \<Rightarrow> (Inr (AuthnOutput_Failure FailureKind_InvalidCredential), ctx, t)
      | Some stored \<Rightarrow>
      if \<not> constant_time_eq lib stored (hex_encode lib (token_hash lib (AuthnContext_realm_hash_key ctx) tok))
      then (Inr (AuthnOutput_Failure FailureKind_InvalidCredential), ctx, t)
      else (case update_user (burn_hash ''magic-link:hash'' ''magic-link:expires-unix'' user) t of
        (Inl e, t') \<Rightarrow> (Inl (AuthnError_Storage (StorageError_to_string e)), ctx, t')
      | (Inr _, t') \<Rightarrow>
          (Inr (AuthnOutput_Success [CredentialKind_MagicLink] [Amr_Email]), record_amr Amr_Email ctx, t')))))"

definition MagicLinkAuthenticator_process ::
  "'l AuthnLib_scheme \<Rightarrow> AuthnDraw \<Rightarrow> Url \<Rightarrow> AuthnContext \<Rightarrow> AuthnInput \<Rightarrow> Tables \<Rightarrow> authn_result" where
  "MagicLinkAuthenticator_process lib draw callback_base ctx input t =
     (case input of
        AuthnInput_Init \<Rightarrow>
          (Inr (AuthnOutput_Continue (AuthnRenderInstruction_new ''login/magic-link-request.html'')), ctx, t)
      | AuthnInput_Submit form \<Rightarrow>
          (case map_of form ''token'' of
             Some tok \<Rightarrow> MagicLink_verify lib ctx tok t
           | None \<Rightarrow> (case map_of form ''email'' of
                         Some email \<Rightarrow> MagicLink_issue lib draw callback_base ctx email t
                       | None \<Rightarrow> (Inl (AuthnError_Invalid ''magic-link submit needs token= or email=''), ctx, t)))
      | AuthnInput_Resume \<Rightarrow>
          (Inr (AuthnOutput_Continue (AuthnRenderInstruction_new ''login/magic-link-sent.html'')), ctx, t))"

section \<open>SMS codes (\<open>phone_otp.rs\<close>)\<close>

definition PHONE_OTP_TTL_MINUTES :: i64 where "PHONE_OTP_TTL_MINUTES = 5"

primrec random_digits :: "nat \<Rightarrow> u64 \<Rightarrow> string" where
  "random_digits 0 v = []"
| "random_digits (Suc n) v = char_of (48 + unat (v mod 10)) # random_digits n (v div 10)"

definition PhoneOtp_issue ::
  "'l AuthnLib_scheme \<Rightarrow> AuthnDraw \<Rightarrow> u32 \<Rightarrow> AuthnContext \<Rightarrow> Tables \<Rightarrow> authn_result" where
  "PhoneOtp_issue lib draw digits ctx t =
     (case AuthnContext_user_id ctx of
        None \<Rightarrow> (Inl (AuthnError_Invalid ''phone-otp requires resolved user''), ctx, t)
      | Some user_id \<Rightarrow>
     (case get_user (AuthnContext_realm_id ctx) user_id t of
        Inl e \<Rightarrow> (Inl (AuthnError_Storage (StorageError_to_string e)), ctx, t)
      | Inr user \<Rightarrow>
     (case Option.bind (map_of (User_attributes user) ''phone:msisdn'') AttributeValue_as_str of
        None \<Rightarrow> (Inl (AuthnError_Invalid ''user has no phone number enrolled''), ctx, t)
      | Some msisdn \<Rightarrow>
     (let code = random_digits (unat digits) (ad_random draw);
          h = hex_encode lib (token_hash lib (AuthnContext_realm_hash_key ctx) code);
          expires = AuthnContext_now ctx + chrono_seconds (60 * PHONE_OTP_TTL_MINUTES);
          attributes = bt_insert ''phone-otp:expires-unix'' (AttributeValue_Integer (unix_timestamp expires))
            (bt_insert ''phone-otp:hash'' (AttributeValue_String h) (User_attributes user)) in
      case update_user (user\<lparr>User_attributes := attributes\<rparr>) t of
        (Inl e, t') \<Rightarrow> (Inl (AuthnError_Storage (StorageError_to_string e)), ctx, t')
      | (Inr _, t') \<Rightarrow>
          (case send_sms lib msisdn (''Your verification code: '' @ code) of
             Inl e \<Rightarrow> (Inl (AuthnError_Internal e), ctx, t')
           | Inr _ \<Rightarrow> (Inr (AuthnOutput_Continue (AuthnRenderInstruction_new ''login/phone-otp-sent.html'')), ctx, t'))))))"

definition PhoneOtp_verify :: "'l AuthnLib_scheme \<Rightarrow> AuthnContext \<Rightarrow> string \<Rightarrow> Tables \<Rightarrow> authn_result" where
  "PhoneOtp_verify lib ctx code t =
     (case AuthnContext_user_id ctx of
        None \<Rightarrow> (Inl (AuthnError_Invalid ''phone-otp verify requires resolved user''), ctx, t)
      | Some user_id \<Rightarrow>
     (case get_user (AuthnContext_realm_id ctx) user_id t of
        Inl e \<Rightarrow> (Inl (AuthnError_Storage (StorageError_to_string e)), ctx, t)
      | Inr user \<Rightarrow>
     (case stored_hash_live ''phone-otp:hash'' ''phone-otp:expires-unix'' (AuthnContext_now ctx) user of
        None \<Rightarrow> (Inr (AuthnOutput_Failure FailureKind_InvalidCredential), ctx, t)
      | Some stored \<Rightarrow>
      if \<not> constant_time_eq lib stored
            (hex_encode lib (token_hash lib (AuthnContext_realm_hash_key ctx) (str_trim code)))
      then (Inr (AuthnOutput_Failure FailureKind_InvalidCredential), ctx, t)
      else (case update_user (burn_hash ''phone-otp:hash'' ''phone-otp:expires-unix'' user) t of
        (Inl e, t') \<Rightarrow> (Inl (AuthnError_Storage (StorageError_to_string e)), ctx, t')
      | (Inr _, t') \<Rightarrow> (Inr (AuthnOutput_Success [CredentialKind_Otp] [Amr_Sms]), record_amr Amr_Sms ctx, t')))))"

definition PhoneOtpAuthenticator_process ::
  "'l AuthnLib_scheme \<Rightarrow> AuthnDraw \<Rightarrow> u32 \<Rightarrow> AuthnContext \<Rightarrow> AuthnInput \<Rightarrow> Tables \<Rightarrow> authn_result" where
  "PhoneOtpAuthenticator_process lib draw digits ctx input t =
     (case input of
        AuthnInput_Submit form \<Rightarrow>
          (case map_of form ''code'' of
             Some code \<Rightarrow> PhoneOtp_verify lib ctx code t
           | None \<Rightarrow> PhoneOtp_issue lib draw digits ctx t)
      | _ \<Rightarrow> (Inr (AuthnOutput_Continue (AuthnRenderInstruction_new ''login/phone-otp.html'')), ctx, t))"

section \<open>Redirect to an identity provider (\<open>idp_redirect.rs\<close>)\<close>

definition IdpRedirectAuthenticator_process :: "string \<Rightarrow> AuthnContext \<Rightarrow> AuthnInput \<Rightarrow> Tables \<Rightarrow> authn_result" where
  "IdpRedirectAuthenticator_process idp_alias ctx input t =
     (if idp_alias = []
      then (Inr (AuthnOutput_Failure (FailureKind_BrokerError ''idp alias unconfigured'')), ctx, t)
      else (Inr (AuthnOutput_Continue (AuthnRenderInstruction_with ''idp_alias'' (Value_String idp_alias)
              (AuthnRenderInstruction_new ''login/idp-redirect.html''))),
            ctx\<lparr>AuthnContext_locals := bt_insert ''idp_alias'' (Value_String idp_alias) (AuthnContext_locals ctx)\<rparr>, t))"

section \<open>WebAuthn (\<open>webauthn.rs\<close>)\<close>

definition rp_id_of :: "Realm \<Rightarrow> string" where
  "rp_id_of realm = unwrap_or (WebauthnPolicy_relying_party_id (Realm_webauthn_policy realm)) (Realm_slug realm)"

definition origin_of :: "Realm \<Rightarrow> string" where
  "origin_of realm = (case Realm_frontend_url realm of
     Some u \<Rightarrow> trim_end_char CHR ''/'' u | None \<Rightarrow> ''https://'' @ rp_id_of realm)"

definition assertion_params ::
  "Realm \<Rightarrow> string \<Rightarrow> string \<Rightarrow> string \<Rightarrow> string \<Rightarrow> StoredCredential \<Rightarrow> AssertionParams" where
  "assertion_params realm cdj auth_data sig expected_challenge cred =
     \<lparr>AssertionParams_client_data_json = cdj, AssertionParams_authenticator_data = auth_data,
      AssertionParams_signature = sig, AssertionParams_expected_challenge = expected_challenge,
      AssertionParams_expected_origin = origin_of realm, AssertionParams_rp_id = rp_id_of realm,
      AssertionParams_credential = cred,
      AssertionParams_require_user_verification =
        (WebauthnPolicy_user_verification (Realm_webauthn_policy realm) = ''required'')\<rparr>"

text \<open>The loop that tries each enrolled credential and keeps the last error.\<close>

fun try_credentials ::
  "(StoredCredential \<Rightarrow> WebauthnError + VerifiedAssertion) \<Rightarrow> StoredCredential list \<Rightarrow> WebauthnError \<Rightarrow>
   WebauthnError + VerifiedAssertion" where
  "try_credentials verify [] last_err = Inl last_err"
| "try_credentials verify (cred # creds) last_err =
     (case verify cred of Inr v \<Rightarrow> Inr v | Inl e \<Rightarrow> try_credentials verify creds e)"

fun set_sign_count :: "string \<Rightarrow> u32 \<Rightarrow> StoredCredential list \<Rightarrow> StoredCredential list" where
  "set_sign_count i n [] = []"
| "set_sign_count i n (c # cs) =
     (if StoredCredential_credential_id c = i then c\<lparr>StoredCredential_sign_count := n\<rparr> # cs
      else c # set_sign_count i n cs)"

definition assertion_result ::
  "'l AuthnLib_scheme \<Rightarrow> Realm \<Rightarrow> string \<Rightarrow> string \<Rightarrow> string \<Rightarrow> string \<Rightarrow> string option \<Rightarrow> StoredCredential list \<Rightarrow>
   WebauthnError + VerifiedAssertion" where
  "assertion_result lib realm cdj auth_data sig expected_challenge credential_id credentials =
     (let verify = (\<lambda>cred. verify_assertion lib (assertion_params realm cdj auth_data sig expected_challenge cred));
          matching = (case credential_id of
            Some cid \<Rightarrow> find (\<lambda>c. StoredCredential_credential_id c = cid) credentials | None \<Rightarrow> None) in
      case matching of
        Some cred \<Rightarrow> verify cred
      | None \<Rightarrow> try_credentials verify credentials (WebauthnError_Malformed ''no credentials''))"

definition webauthn_finish ::
  "'l AuthnLib_scheme \<Rightarrow> StoredCredential list \<Rightarrow> User \<Rightarrow> WebauthnError + VerifiedAssertion \<Rightarrow> AuthnContext \<Rightarrow> Tables \<Rightarrow>
   authn_result" where
  "webauthn_finish lib credentials user result ctx t =
     (case result of
        Inr verified \<Rightarrow>
          (let updated_creds = set_sign_count (VerifiedAssertion_credential_id verified)
                 (VerifiedAssertion_new_sign_count verified) credentials;
               t' = (case credentials_to_json lib updated_creds of
                  Inl _ \<Rightarrow> t
                | Inr json_str \<Rightarrow> snd (update_user (user\<lparr>User_attributes :=
                    bt_insert ''webauthn:credentials'' (AttributeValue_String json_str) (User_attributes user)\<rparr>) t)) in
           (Inr (AuthnOutput_Success [CredentialKind_Webauthn] [Amr_Wbn]), record_amr Amr_Wbn ctx, t'))
      | Inl e \<Rightarrow>
          (Inr (AuthnOutput_Failure FailureKind_InvalidCredential),
           ctx\<lparr>AuthnContext_locals := bt_insert ''webauthn:error'' (Value_String (WebauthnError_to_string e))
             (AuthnContext_locals ctx)\<rparr>, t))"

definition webauthn_assert ::
  "'l AuthnLib_scheme \<Rightarrow> StoredCredential list \<Rightarrow> User \<Rightarrow> Realm \<Rightarrow> string \<Rightarrow> AuthnContext \<Rightarrow> Tables \<Rightarrow> authn_result" where
  "webauthn_assert lib credentials user realm assertion_json ctx t =
     (case assertion_from_json lib assertion_json of
        Inl e \<Rightarrow> (Inl (AuthnError_Invalid (''bad assertion: '' @ e)), ctx, t)
      | Inr blob \<Rightarrow>
     (case base64_url_decode lib (AssertionBlob_client_data_json blob) of
        Inl e \<Rightarrow> (Inl (AuthnError_Invalid (''clientDataJSON b64: '' @ e)), ctx, t)
      | Inr cdj \<Rightarrow>
     (case base64_url_decode lib (AssertionBlob_authenticator_data blob) of
        Inl e \<Rightarrow> (Inl (AuthnError_Invalid (''authenticatorData b64: '' @ e)), ctx, t)
      | Inr auth_data \<Rightarrow>
     (case base64_url_decode lib (AssertionBlob_signature blob) of
        Inl e \<Rightarrow> (Inl (AuthnError_Invalid (''signature b64: '' @ e)), ctx, t)
      | Inr sig \<Rightarrow>
     (let ctx' = ctx\<lparr>AuthnContext_locals := bt_remove ''webauthn:challenge'' (AuthnContext_locals ctx)\<rparr> in
      case Option.bind (map_of (AuthnContext_locals ctx) ''webauthn:challenge'') Value_as_str of
        None \<Rightarrow> (Inl (AuthnError_Invalid ''no webauthn challenge in session''), ctx', t)
      | Some expected_challenge \<Rightarrow>
          webauthn_finish lib credentials user
            (assertion_result lib realm cdj auth_data sig expected_challenge (AssertionBlob_credential_id blob) credentials)
            ctx' t)))))"

definition WebauthnAuthenticator_process ::
  "'l AuthnLib_scheme \<Rightarrow> AuthnDraw \<Rightarrow> AuthnContext \<Rightarrow> AuthnInput \<Rightarrow> Tables \<Rightarrow> authn_result" where
  "WebauthnAuthenticator_process lib draw ctx input t =
     (case input of
        AuthnInput_Submit form \<Rightarrow>
     (case AuthnContext_user_id ctx of
        None \<Rightarrow> (Inl (AuthnError_Invalid ''webauthn requires resolved user''), ctx, t)
      | Some user_id \<Rightarrow>
     (case map_of form ''assertion'' of
        None \<Rightarrow> (Inl (AuthnError_Invalid ''missing assertion''), ctx, t)
      | Some assertion_json \<Rightarrow>
     (case get_user (AuthnContext_realm_id ctx) user_id t of
        Inl e \<Rightarrow> (Inl (AuthnError_Storage (StorageError_to_string e)), ctx, t)
      | Inr user \<Rightarrow>
     (case Option.bind (map_of (User_attributes user) ''webauthn:credentials'') AttributeValue_as_str of
        None \<Rightarrow> (Inr (AuthnOutput_Failure FailureKind_RequiresEnrollment), ctx, t)
      | Some creds_json \<Rightarrow>
     (case credentials_from_json lib creds_json of
        Inl e \<Rightarrow> (Inl (AuthnError_Invalid (''bad stored credentials: '' @ e)), ctx, t)
      | Inr credentials \<Rightarrow>
      if credentials = [] then (Inr (AuthnOutput_Failure FailureKind_RequiresEnrollment), ctx, t)
      else (case get_realm (AuthnContext_realm_id ctx) t of
        Inl e \<Rightarrow> (Inl (AuthnError_Storage (StorageError_to_string e)), ctx, t)
      | Inr realm \<Rightarrow> webauthn_assert lib credentials user realm assertion_json ctx t))))))
      | _ \<Rightarrow>
          (Inr (AuthnOutput_Continue (AuthnRenderInstruction_new ''login/webauthn-assert.html'')),
           ctx\<lparr>AuthnContext_locals := bt_insert ''webauthn:challenge'' (Value_String (ad_token draw))
             (AuthnContext_locals ctx)\<rparr>, t))"

section \<open>The registry (\<open>registry.rs\<close>, the server's \<open>authenticators.rs\<close>)\<close>

definition BuiltinUrn_ALL :: "string list" where
  "BuiltinUrn_ALL = [''builtin:authn:password'', ''builtin:authn:otp'', ''builtin:authn:recovery-code'',
     ''builtin:authn:webauthn'', ''builtin:authn:magic-link'', ''builtin:authn:phone-otp'',
     ''builtin:authn:consent'', ''builtin:authn:cookie'', ''builtin:authn:idp-redirect'',
     ''builtin:authn:require-action'', ''builtin:authn:risk-score'']"

text \<open>
  \<open>BuiltinAuthenticators::dispatch\<close>: the eight singletons of the table. Magic links, SMS codes and the
  redirect to a provider are not in it.
\<close>

definition BuiltinAuthenticators_dispatch ::
  "'l AuthnLib_scheme \<Rightarrow> AuthnDraw \<Rightarrow> string \<Rightarrow> AuthnContext \<Rightarrow> AuthnInput \<Rightarrow> Tables \<Rightarrow> authn_result" where
  "BuiltinAuthenticators_dispatch lib draw urn ctx input t =
     (if urn = ''builtin:authn:password'' then PasswordAuthenticator_process lib ctx input t
      else if urn = ''builtin:authn:otp'' then OtpAuthenticator_process lib OtpConfig_default ctx input t
      else if urn = ''builtin:authn:recovery-code'' then RecoveryCodeAuthenticator_process lib ctx input t
      else if urn = ''builtin:authn:consent'' then ConsentAuthenticator_process draw ctx input t
      else if urn = ''builtin:authn:cookie'' then CookieAuthenticator_process ctx input t
      else if urn = ''builtin:authn:require-action'' then RequireActionAuthenticator_process ctx input t
      else if urn = ''builtin:authn:risk-score''
      then RiskScoreAuthenticator_process RiskScoreAuthenticator_new ctx input t
      else if urn = ''builtin:authn:webauthn'' then WebauthnAuthenticator_process lib draw ctx input t
      else (Inl (AuthnError_Internal (''unknown authenticator urn: '' @ urn)), ctx, t))"

end
