(* ===== verification/Authn_Sound.thy ===== *)
theory Authn_Sound
  imports Authn_Factors
begin

text \<open>
  What the built-in authenticators guarantee: a password login succeeds only with the password of an
  enabled, unlocked account; over every sequence of attempts an account is locked exactly for the time of the policy; a
  recovery code works once; a WebAuthn login needs an assertion that verifies.
\<close>

section \<open>Passwords\<close>

text \<open>An enabled account that can be found by its name and has a password hash.\<close>

definition password_account :: "RealmId \<Rightarrow> string \<Rightarrow> UserId \<Rightarrow> string \<Rightarrow> User \<Rightarrow> Tables \<Rightarrow> bool" where
  "password_account realm name u phc user t \<longleftrightarrow> stored_user realm u user t \<and> User_enabled user \<and>
     map_of (users_by_username t) (realm, name) = Some u \<and> map_of (password_hashes t) (realm, u) = Some phc"

definition user_locked :: "DateTime \<Rightarrow> User \<Rightarrow> bool" where
  "user_locked now user \<longleftrightarrow> (case User_locked_until user of Some until \<Rightarrow> now < until | None \<Rightarrow> False)"

definition password_try ::
  "'l AuthnLib_scheme \<Rightarrow> AuthnContext \<Rightarrow> string \<Rightarrow> DateTime \<times> string \<Rightarrow> Tables \<Rightarrow> authn_result" where
  "password_try lib ctx name attempt t =
     PasswordAuthenticator_process lib (ctx\<lparr>AuthnContext_now := fst attempt\<rparr>)
       (AuthnInput_Submit [(''username'', name), (''password'', snd attempt)]) t"

definition password_tries ::
  "'l AuthnLib_scheme \<Rightarrow> AuthnContext \<Rightarrow> string \<Rightarrow> (DateTime \<times> string) list \<Rightarrow> Tables \<Rightarrow> Tables" where
  "password_tries lib ctx name attempts t = fold (\<lambda>a t. snd (snd (password_try lib ctx name a t))) attempts t"

lemma password_try_account:
  assumes "password_account (AuthnContext_realm_id ctx) name u phc user t"
  shows "password_try lib ctx name attempt t =
    (let realm = AuthnContext_realm_id ctx; ctx = ctx\<lparr>AuthnContext_now := fst attempt\<rparr> in
     if user_locked (fst attempt) user then (Inr (AuthnOutput_Failure FailureKind_Locked), ctx, t)
     else case verify_password lib (snd attempt) phc of
        Inr True \<Rightarrow> (Inr (AuthnOutput_Success [CredentialKind_Password] [Amr_Pwd]),
           record_amr Amr_Pwd (ctx\<lparr>AuthnContext_user_id := Some u\<rparr>), snd (record_success realm u t))
      | Inr False \<Rightarrow> (Inr (AuthnOutput_Failure FailureKind_InvalidCredential), ctx,
           snd (record_failure realm u (AuthnContext_brute_force ctx) (fst attempt) t))
      | Inl e \<Rightarrow> (Inl (AuthnError_Crypto e), ctx, t))"
proof -
  let ?r = "AuthnContext_realm_id ctx"
  have su: "stored_user ?r u user t" and "User_enabled user" "get_password_hash ?r u t = Inr phc" "User_id user = u"
    "get_user_by_username ?r name t = Inr user"
    using assms by (simp_all add: password_account_def stored_user_def get_password_hash_def get_user_by_username_def)
  moreover have "(case check_locked ?r u now t of Inl (BruteForceError_Locked _) \<Rightarrow> True | _ \<Rightarrow> False) =
      user_locked now user" for now
    by (simp add: check_locked_stored [OF su] user_locked_def split: option.split)
  ultimately show ?thesis
    by (simp add: password_try_def PasswordAuthenticator_process_def Let_def split: sum.split bool.split)
qed

lemma password_account_failure:
  assumes "password_account realm name u phc user t"
  shows "password_account realm name u phc (failed_user p now user) (snd (record_failure realm u p now t))"
proof -
  have su: "stored_user realm u user t" using assms by (simp add: password_account_def)
  have "User_enabled (failed_user p now user) = User_enabled user"
    by (simp add: failed_user_def Let_def split: option.split)
  with assms record_failure_stored [OF su, of p now] show ?thesis
    by (simp add: password_account_def)
qed

lemma password_account_success:
  assumes "password_account realm name u phc user t"
  shows "password_account realm name u phc (cleared_user user) (snd (record_success realm u t))"
proof -
  have su: "stored_user realm u user t" using assms by (simp add: password_account_def)
  obtain us where "snd (record_success realm u t) = t\<lparr>users := us\<rparr>" using record_success_stored(2) [OF su] by blast
  with assms record_success_stored(1) [OF su] show ?thesis
    by (simp add: password_account_def cleared_user_def)
qed

text \<open>Attempts as the lockout sees them: when, and whether with the right password.\<close>

definition judged :: "'l AuthnLib_scheme \<Rightarrow> string \<Rightarrow> (DateTime \<times> string) list \<Rightarrow> (DateTime \<times> bool) list" where
  "judged lib phc attempts = map (\<lambda>(now, pw). (now, verify_password lib pw phc = Inr True)) attempts"

lemma user_locked_iff:
  assumes "lockout_state p fs now user"
  shows "user_locked now user \<longleftrightarrow> locked_at p fs now"
proof (cases "User_locked_until user")
  case None
  then show ?thesis using assms by (auto simp: user_locked_def locked_at_def lockout_state_def split: if_splits)
next
  case (Some x)
  then show ?thesis using assms
    by (auto simp: user_locked_def locked_at_def lockout_state_def split: if_splits)
qed

text \<open>One attempt: the answer, and what it leaves.\<close>

lemma password_try_state:
  assumes "policy_fits p" "p = AuthnContext_brute_force ctx"
    and "password_account (AuthnContext_realm_id ctx) name u phc user t" "lockout_state p fs now user"
    and "verify_password lib pw phc = Inr right" "length fs + 2 < 2 ^ 31"
  shows "fst (password_try lib ctx name (now, pw) t) =
      (if locked_at p fs now then Inr (AuthnOutput_Failure FailureKind_Locked)
       else if right then Inr (AuthnOutput_Success [CredentialKind_Password] [Amr_Pwd])
       else Inr (AuthnOutput_Failure FailureKind_InvalidCredential))"
    and "\<exists>user'. password_account (AuthnContext_realm_id ctx) name u phc user'
        (snd (snd (password_try lib ctx name (now, pw) t))) \<and> lockout_state p (after_attempt p (now, right) fs) now user'"
proof -
  note answer = password_try_account [OF assms(3), of lib "(now, pw)", simplified, folded assms(2)]
  have locked: "user_locked now user \<longleftrightarrow> locked_at p fs now" by (rule user_locked_iff [OF assms(4)])
  show "fst (password_try lib ctx name (now, pw) t) =
      (if locked_at p fs now then Inr (AuthnOutput_Failure FailureKind_Locked)
       else if right then Inr (AuthnOutput_Success [CredentialKind_Password] [Amr_Pwd])
       else Inr (AuthnOutput_Failure FailureKind_InvalidCredential))"
    using assms(5) by (cases right) (simp_all add: answer locked Let_def)
  have cleared: "lockout_state p [] now (cleared_user user)" by (simp add: lockout_state_def cleared_user_def)
  note kept = password_account_failure [OF assms(3), of p now] password_account_success [OF assms(3)]
  show "\<exists>user'. password_account (AuthnContext_realm_id ctx) name u phc user'
        (snd (snd (password_try lib ctx name (now, pw) t))) \<and> lockout_state p (after_attempt p (now, right) fs) now user'"
  proof (cases "locked_at p fs now")
    case True
    then show ?thesis using assms(3,4) by (auto simp: answer locked Let_def after_attempt_def)
  next
    case False
    then show ?thesis
      using assms(5) kept cleared failed_user_state [OF assms(1,4) False assms(6)]
      by (cases right) (auto simp: answer locked Let_def after_attempt_def assms(2) [symmetric])
  qed
qed

lemma password_tries_state:
  assumes "policy_fits p" "p = AuthnContext_brute_force ctx"
    and "password_account (AuthnContext_realm_id ctx) name u phc user t" "\<And>c. lockout_state p [] c user"
    and "list_all (\<lambda>(now, pw). \<not> isl (verify_password lib pw phc)) attempts" "sorted (map fst attempts)"
    and "length attempts + 2 < 2 ^ 31" "list_all (\<lambda>(now, pw). now \<le> c) attempts"
  shows "\<exists>user'. password_account (AuthnContext_realm_id ctx) name u phc user' (password_tries lib ctx name attempts t) \<and>
    lockout_state p (counted_failures p (judged lib phc attempts)) c user'"
  using assms(5-8)
proof (induction attempts arbitrary: c rule: rev_induct)
  case Nil
  then show ?case using assms(3,4) by (auto simp: password_tries_def counted_failures_def judged_def)
next
  case (snoc a attempts)
  obtain now pw where a: "a = (now, pw)" by force
  obtain right where right: "verify_password lib pw phc = Inr right"
    using snoc.prems(1) by (cases "verify_password lib pw phc") (auto simp: a)
  let ?fs = "counted_failures p (judged lib phc attempts)"
  from snoc.IH [of now] snoc.prems obtain user' where
    u: "password_account (AuthnContext_realm_id ctx) name u phc user' (password_tries lib ctx name attempts t)"
      "lockout_state p ?fs now user'"
    by (auto simp: a sorted_append list_all_iff case_prod_beta)
  have "length ?fs + 2 < 2 ^ 31"
    using length_counted_failures [of p "judged lib phc attempts"] snoc.prems(3) by (simp add: judged_def)
  from password_try_state(2) [OF assms(1,2) u right this] snoc.prems(4) lockout_state_mono [of p _ now _ c]
  show ?case by (auto simp: password_tries_def a judged_def counted_failures_def right)
qed

text \<open>
  C30: The lockout of the login form, for every policy whose durations fit and every sequence of attempts
  on an account with no failures on record, at times that do not go back, with a stored hash that can be
  checked. An attempt is answered "locked", whatever its password, exactly while the account is locked:
  at least \<open>max_login_failures\<close> wrong passwords count, and less than the lock time has passed since the
  last of them -- a hundred years if the policy locks permanently, else one increment more for every
  failure above the threshold, up to the maximal wait. Otherwise the right password succeeds and a wrong
  one fails. What counts are the wrong passwords since the last success that met no lock, each within
  the reset time of the one before.
\<close>

theorem brute_force_lockout:
  assumes "policy_fits (AuthnContext_brute_force ctx)"
    and "password_account (AuthnContext_realm_id ctx) name u phc user t"
    and "User_failed_attempts user = 0" "User_locked_until user = None" "User_last_failed_at user = None"
    and "list_all (\<lambda>(now, pw). \<not> isl (verify_password lib pw phc)) (attempts @ [(now, pw)])"
    and "sorted (map fst (attempts @ [(now, pw)]))" "length attempts + 2 < 2 ^ 31"
  shows "fst (password_try lib ctx name (now, pw) (password_tries lib ctx name attempts t)) =
    (if locked_at (AuthnContext_brute_force ctx)
          (counted_failures (AuthnContext_brute_force ctx) (judged lib phc attempts)) now
     then Inr (AuthnOutput_Failure FailureKind_Locked)
     else if verify_password lib pw phc = Inr True
     then Inr (AuthnOutput_Success [CredentialKind_Password] [Amr_Pwd])
     else Inr (AuthnOutput_Failure FailureKind_InvalidCredential))"
proof -
  let ?p = "AuthnContext_brute_force ctx" and ?fs = "counted_failures (AuthnContext_brute_force ctx) (judged lib phc attempts)"
  obtain right where right: "verify_password lib pw phc = Inr right"
    using assms(6) by (cases "verify_password lib pw phc") auto
  have fresh: "lockout_state ?p [] c user" for c using assms(3-5) by (simp add: lockout_state_def)
  have "list_all (\<lambda>(now, pw). \<not> isl (verify_password lib pw phc)) attempts" "sorted (map fst attempts)"
    "list_all (\<lambda>(x, pw). x \<le> now) attempts"
    using assms(6,7) by (auto simp: sorted_append list_all_iff)
  from password_tries_state [OF assms(1) refl assms(2) fresh this(1,2) assms(8) this(3)] obtain user' where
    u: "password_account (AuthnContext_realm_id ctx) name u phc user' (password_tries lib ctx name attempts t)"
      "lockout_state ?p ?fs now user'" by blast
  have "length ?fs + 2 < 2 ^ 31"
    using length_counted_failures [of ?p "judged lib phc attempts"] assms(8) by (simp add: judged_def)
  from password_try_state(1) [OF assms(1) refl u right this] right show ?thesis by simp
qed

definition sample_lockout_policy :: BruteForcePolicy where
  "sample_lockout_policy = BruteForcePolicy_default\<lparr>BruteForcePolicy_max_login_failures := 2\<rparr>"

definition sample_authn_context :: AuthnContext where
  "sample_authn_context = \<lparr>AuthnContext_realm_id = RealmId 1, AuthnContext_client = sample_client,
     AuthnContext_realm_hash_key = ''k'', AuthnContext_user_id = None, AuthnContext_session_id = None,
     AuthnContext_amr = [], AuthnContext_locals = [], AuthnContext_now = 0,
     AuthnContext_brute_force = sample_lockout_policy\<rparr>"

lemma sample_account: "password_account (RealmId 1) ''padme'' (UserId 1) ''pw'' sample_user sample_tables"
  by (simp add: password_account_def stored_user_def sample_user_def User_default_def sample_tables_simps)

lemma sample_verify_password: "verify_password sample_authn_lib pw phc = Inr (pw = phc)"
  by (simp add: verify_password_def sample_authn_simps sample_http_simps)

text \<open>
  Two wrong passwords lock the sample account: the right one is refused a moment later, and accepted
  when a minute has passed.
\<close>

lemma sample_lockout:
  "policy_fits (AuthnContext_brute_force sample_authn_context)"
  "locked_at (AuthnContext_brute_force sample_authn_context) [2, 1] now \<longleftrightarrow> now < 2 + 60000000000"
  "counted_failures (AuthnContext_brute_force sample_authn_context) (judged sample_authn_lib ''pw'' [(1, ''a''), (2, ''b'')]) = [2, 1]"
  by (simp_all add: policy_fits_def sample_authn_context_def sample_lockout_policy_def BruteForcePolicy_default_def
      chrono_from_std_def secs_def locked_at_def lock_time_def judged_def sample_verify_password
      counted_failures_def after_attempt_def after_failure_def)

theorem brute_force_lockout_witness:
  "fst (password_try sample_authn_lib sample_authn_context ''padme'' (1000, ''pw'')
     (password_tries sample_authn_lib sample_authn_context ''padme'' [(1, ''a''), (2, ''b'')] sample_tables)) =
    Inr (AuthnOutput_Failure FailureKind_Locked) \<and>
   fst (password_try sample_authn_lib sample_authn_context ''padme'' (70000000000, ''pw'')
     (password_tries sample_authn_lib sample_authn_context ''padme'' [(1, ''a''), (2, ''b'')] sample_tables)) =
    Inr (AuthnOutput_Success [CredentialKind_Password] [Amr_Pwd])"
proof -
  have account: "password_account (AuthnContext_realm_id sample_authn_context) ''padme'' (UserId 1) ''pw'' sample_user sample_tables"
    using sample_account by (simp add: sample_authn_context_def)
  have fresh: "User_failed_attempts sample_user = 0" "User_locked_until sample_user = None" "User_last_failed_at sample_user = None"
    by (simp_all add: sample_user_def User_default_def)
  note lockout = brute_force_lockout [OF sample_lockout(1) account fresh, of sample_authn_lib "[(1, ''a''), (2, ''b'')]" _ "''pw''"]
  show ?thesis
    using lockout [of 1000] lockout [of 70000000000] by (simp add: sample_lockout sample_verify_password)
qed

section \<open>Recovery codes\<close>

lemma find_index_Some:
  "find_index P xs = Some i \<longleftrightarrow> i < length xs \<and> P (xs ! i) \<and> (\<forall>j<i. \<not> P (xs ! j))"
proof (induction xs arbitrary: i)
  case (Cons x xs)
  show ?case by (cases i) (auto simp: Cons.IH less_Suc_eq_0_disj)
qed simp

lemma find_index_None: "find_index P xs = None \<longleftrightarrow> (\<forall>x\<in>set xs. \<not> P x)"
  by (induction xs) auto

definition recovery_attempt :: "'l AuthnLib_scheme \<Rightarrow> AuthnContext \<Rightarrow> UserId \<Rightarrow> string \<Rightarrow> Tables \<Rightarrow> authn_result" where
  "recovery_attempt lib ctx u code t =
     RecoveryCodeAuthenticator_process lib (ctx\<lparr>AuthnContext_user_id := Some u\<rparr>)
       (AuthnInput_Submit [(''code'', code)]) t"

definition recovery_succeeds :: "authn_result \<Rightarrow> bool" where
  "recovery_succeeds r \<longleftrightarrow> fst r = Inr (AuthnOutput_Success [CredentialKind_RecoveryCode] [Amr_Otp])"

definition use_code :: "'l CryptoLib_scheme \<Rightarrow> string \<Rightarrow> string \<Rightarrow> User \<Rightarrow> User" where
  "use_code lib key code user = user\<lparr>User_attributes := bt_insert ''recovery-codes:hashes''
     (AttributeValue_Strings (filter (\<lambda>h. h \<noteq> code_hash lib code key) (stored_hashes user))) (User_attributes user)\<rparr>"

lemma vec_remove_distinct:
  assumes "distinct xs" "i < length xs"
  shows "vec_remove i xs = filter (\<lambda>x. x \<noteq> xs ! i) xs"
proof -
  have xs: "xs = take i xs @ xs ! i # drop (Suc i) xs" using assms(2) by (rule id_take_nth_drop)
  then have "distinct (take i xs @ xs ! i # drop (Suc i) xs)" using assms(1) by simp
  then have "filter (\<lambda>x. x \<noteq> xs ! i) (take i xs) = take i xs"
    "filter (\<lambda>x. x \<noteq> xs ! i) (drop (Suc i) xs) = drop (Suc i) xs"
    by (auto simp: filter_id_conv)
  then have "filter (\<lambda>x. x \<noteq> xs ! i) (take i xs @ xs ! i # drop (Suc i) xs) = vec_remove i xs"
    by (simp add: vec_remove_def)
  with xs show ?thesis by simp
qed

lemma recovery_attempt_stored:
  assumes ct: "\<And>a b. constant_time_eq lib a b \<longleftrightarrow> a = b"
    and "stored_user (AuthnContext_realm_id ctx) u user t" "distinct (stored_hashes user)"
  shows "recovery_succeeds (recovery_attempt lib ctx u code t) \<longleftrightarrow>
      code_hash lib code (AuthnContext_realm_hash_key ctx) \<in> set (stored_hashes user)"
    and "recovery_succeeds (recovery_attempt lib ctx u code t) \<Longrightarrow>
      snd (snd (recovery_attempt lib ctx u code t)) =
        t\<lparr>users := hm_insert (AuthnContext_realm_id ctx, u) (use_code lib (AuthnContext_realm_hash_key ctx) code user) (users t)\<rparr>"
proof -
  let ?h = "code_hash lib code (AuthnContext_realm_hash_key ctx)" and ?r = "AuthnContext_realm_id ctx"
  have ids: "User_realm_id user = ?r" "User_id user = u" using assms(2) by (simp_all add: stored_user_def)
  have "recovery_attempt lib ctx u code t =
    (let ctx = ctx\<lparr>AuthnContext_user_id := Some u\<rparr> in
     if stored_hashes user = [] then (Inr (AuthnOutput_Failure FailureKind_RequiresEnrollment), ctx, t)
     else if ?h \<notin> set (stored_hashes user) then (Inr (AuthnOutput_Failure FailureKind_InvalidCredential), ctx, t)
     else (Inr (AuthnOutput_Success [CredentialKind_RecoveryCode] [Amr_Otp]), record_amr Amr_Otp ctx,
           t\<lparr>users := hm_insert (?r, u) (use_code lib (AuthnContext_realm_hash_key ctx) code user) (users t)\<rparr>))"
  proof (cases "find_index (\<lambda>h. h = ?h) (stored_hashes user)")
    case None
    then have "?h \<notin> set (stored_hashes user)" by (auto simp: find_index_None)
    with None show ?thesis
      by (simp add: recovery_attempt_def RecoveryCodeAuthenticator_process_def ct stored_user_get [OF assms(2)]
          Let_def)
  next
    case (Some i)
    then have i: "i < length (stored_hashes user)" "stored_hashes user ! i = ?h" by (simp_all add: find_index_Some)
    then have "?h \<in> set (stored_hashes user)" by (metis nth_mem)
    moreover have "user\<lparr>User_attributes := bt_insert ''recovery-codes:hashes''
        (AttributeValue_Strings (vec_remove i (stored_hashes user))) (User_attributes user)\<rparr> =
        use_code lib (AuthnContext_realm_hash_key ctx) code user"
      using vec_remove_distinct [OF assms(3) i(1)] i(2) by (simp add: use_code_def)
    moreover have "update_user (use_code lib (AuthnContext_realm_hash_key ctx) code user) t =
        (Inr (), t\<lparr>users := hm_insert (?r, u) (use_code lib (AuthnContext_realm_hash_key ctx) code user) (users t)\<rparr>)"
      by (rule stored_user_update [OF assms(2)]) (simp_all add: use_code_def ids)
    ultimately show ?thesis
      using Some by (auto simp: recovery_attempt_def RecoveryCodeAuthenticator_process_def ct
          stored_user_get [OF assms(2)] Let_def)
  qed
  then show "recovery_succeeds (recovery_attempt lib ctx u code t) \<longleftrightarrow> ?h \<in> set (stored_hashes user)"
    "recovery_succeeds (recovery_attempt lib ctx u code t) \<Longrightarrow>
      snd (snd (recovery_attempt lib ctx u code t)) =
        t\<lparr>users := hm_insert (?r, u) (use_code lib (AuthnContext_realm_hash_key ctx) code user) (users t)\<rparr>"
    by (auto simp: recovery_succeeds_def Let_def split: if_splits)
qed

lemma map_of_bt_insert_self [simp]: "map_of (bt_insert k v m) k = Some v"
  by (induction k v m rule: bt_insert.induct) auto

lemma stored_hashes_use_code [simp]:
  "stored_hashes (use_code lib key code user) = filter (\<lambda>h. h \<noteq> code_hash lib code key) (stored_hashes user)"
  by (simp add: use_code_def stored_hashes_def del: filter.simps)

text \<open>
  C31: A recovery code works exactly once and using it costs no other code: after a login with a code,
  a second code is accepted if and only if it was acceptable before and does not have the hash of the
  code just used, so the same code is refused from then on.
\<close>

theorem recovery_code_single_use:
  assumes "\<And>a b. constant_time_eq lib a b \<longleftrightarrow> a = b"
    and "stored_user (AuthnContext_realm_id ctx) u user t" "distinct (stored_hashes user)"
    and "recovery_succeeds (recovery_attempt lib ctx u code t)"
  shows "recovery_succeeds (recovery_attempt lib ctx u code' (snd (snd (recovery_attempt lib ctx u code t)))) \<longleftrightarrow>
    recovery_succeeds (recovery_attempt lib ctx u code' t) \<and>
    code_hash lib code' (AuthnContext_realm_hash_key ctx) \<noteq> code_hash lib code (AuthnContext_realm_hash_key ctx)"
proof -
  let ?key = "AuthnContext_realm_hash_key ctx" and ?t = "snd (snd (recovery_attempt lib ctx u code t))"
  have "stored_user (AuthnContext_realm_id ctx) u (use_code lib ?key code user) ?t"
    using assms(2) recovery_attempt_stored(2) [OF assms] by (simp add: stored_user_def use_code_def)
  moreover have "distinct (stored_hashes (use_code lib ?key code user))" using assms(3) by simp
  ultimately show ?thesis
    by (auto simp: recovery_attempt_stored(1) [OF assms(1-3)] recovery_attempt_stored(1) [OF assms(1)])
qed

definition sample_recovery_user :: User where
  "sample_recovery_user = sample_user\<lparr>User_attributes :=
     [(''recovery-codes:hashes'', AttributeValue_Strings [''one'', ''two''])]\<rparr>"

definition sample_recovery_tables :: Tables where
  "sample_recovery_tables = sample_tables\<lparr>users := [((RealmId 1, UserId 1), sample_recovery_user)]\<rparr>"

lemma sample_recovery_user:
  "stored_user (AuthnContext_realm_id sample_authn_context) (UserId 1) sample_recovery_user sample_recovery_tables"
  "stored_hashes sample_recovery_user = [''one'', ''two'']"
  by (simp_all add: stored_user_def sample_authn_context_def sample_recovery_tables_def sample_recovery_user_def
      sample_user_def User_default_def stored_hashes_def)

lemma sample_code_hash: "constant_time_eq sample_authn_lib a b \<longleftrightarrow> a = b" "code_hash sample_authn_lib c k = c"
  by (simp_all add: code_hash_def token_hash_def sample_authn_simps sample_http_simps)

theorem recovery_code_single_use_witness:
  "recovery_succeeds (recovery_attempt sample_authn_lib sample_authn_context (UserId 1) ''one'' sample_recovery_tables) \<and>
   \<not> recovery_succeeds (recovery_attempt sample_authn_lib sample_authn_context (UserId 1) ''one''
     (snd (snd (recovery_attempt sample_authn_lib sample_authn_context (UserId 1) ''one'' sample_recovery_tables)))) \<and>
   recovery_succeeds (recovery_attempt sample_authn_lib sample_authn_context (UserId 1) ''two''
     (snd (snd (recovery_attempt sample_authn_lib sample_authn_context (UserId 1) ''one'' sample_recovery_tables))))"
proof -
  let ?attempt = "recovery_attempt sample_authn_lib sample_authn_context (UserId 1)"
  have first: "recovery_succeeds (?attempt c sample_recovery_tables) \<longleftrightarrow> c \<in> {''one'', ''two''}" for c
    by (simp add: recovery_attempt_stored(1) [OF sample_code_hash(1) sample_recovery_user(1)] sample_recovery_user(2)
        sample_code_hash(2) del: One_nat_def)
  then have one: "recovery_succeeds (?attempt ''one'' sample_recovery_tables)" by blast
  have "recovery_succeeds (?attempt c (snd (snd (?attempt ''one'' sample_recovery_tables)))) \<longleftrightarrow>
      recovery_succeeds (?attempt c sample_recovery_tables) \<and>
      code_hash sample_authn_lib c (AuthnContext_realm_hash_key sample_authn_context) \<noteq>
      code_hash sample_authn_lib ''one'' (AuthnContext_realm_hash_key sample_authn_context)" for c
    by (rule recovery_code_single_use [OF sample_code_hash(1) sample_recovery_user(1) _ one])
      (simp add: sample_recovery_user(2))
  then show ?thesis using first by (simp add: sample_code_hash(2) del: One_nat_def)
qed

end
