(* ===== verification/Server_Authorize.thy ===== *)
theory Server_Authorize
  imports Server_Endpoints
begin

text \<open>
  The authorize endpoint, \<^verbatim>\<open>crates/geonosis-server/src/handlers/authorize\<close>: signed request objects
  (\<open>jar.rs\<close>), session reuse and the prompt rules (\<open>sso.rs\<close>), and the handler (\<open>mod.rs\<close>). The clock
  readings and random draws of one request are the record \<open>AuthorizeDraw\<close>.
\<close>

record AuthorizeDraw =
  az_session_now :: DateTime
  az_prompt_now :: DateTime
  az_seen_now :: DateTime
  az_ref_now :: DateTime
  az_code :: CodeId
  az_code_now :: DateTime
  az_flow_id :: FlowId
  az_node_id :: NodeId
  az_flow_state_id :: FlowStateId
  az_csrf :: CsrfToken
  az_flow_now :: DateTime

section \<open>Request objects (\<open>jar.rs\<close>)\<close>

definition decode_jwt_header :: "'l HttpLib_scheme \<Rightarrow> string \<Rightarrow> string + JwsHeader" where
  "decode_jwt_header lib jwt =
     (case split_char CHR ''.'' jwt of
        [] \<Rightarrow> Inl ''no header segment''
      | header_b64 # _ \<Rightarrow>
          (case base64_url_decode lib header_b64 of
             Inl e \<Rightarrow> Inl (''base64: invalid base64url: '' @ e)
           | Inr bytes \<Rightarrow> map_sum (\<lambda>e. ''json: '' @ e) id (header_from_json lib bytes)))"

definition parse_alg :: "string \<Rightarrow> string + JwsAlgorithm" where
  "parse_alg alg =
     (if alg = ''RS256'' then Inr RS256 else if alg = ''ES256'' then Inr ES256
      else if alg = ''EdDSA'' then Inr EdDSA else Inl (''unsupported: '' @ alg))"

fun Value_as_i64 :: "Value \<Rightarrow> i64 option" where
  "Value_as_i64 (Value_Number (Number_PosInt n)) = (if int n < 2 ^ 63 then Some (int n) else None)"
| "Value_as_i64 (Value_Number (Number_NegInt i)) = Some i"
| "Value_as_i64 _ = None"

definition aud_matches :: "string \<Rightarrow> Value \<Rightarrow> bool" where
  "aud_matches issuer aud =
     (case aud of
        Value_String s \<Rightarrow> s = issuer
      | Value_Array arr \<Rightarrow> list_ex (\<lambda>v. Value_as_str v = Some issuer) arr
      | _ \<Rightarrow> False)"

definition merge_claim :: "string \<times> Value \<Rightarrow> params \<Rightarrow> params" where
  "merge_claim kv params =
     (case Value_as_str (snd kv) of
        Some s \<Rightarrow> bt_insert (fst kv) s params
      | None \<Rightarrow> (case Value_as_i64 (snd kv) of
                   Some n \<Rightarrow> bt_insert (fst kv) (show_int n) params
                 | None \<Rightarrow> params))"

definition resolve_request_object ::
  "'l HttpLib_scheme \<Rightarrow> AppState \<Rightarrow> Client \<Rightarrow> string \<Rightarrow> params \<Rightarrow> string \<Rightarrow> (string \<times> string) + params" where
  "resolve_request_object lib state client request_jwt query_params realm_slug =
     (let bad = (\<lambda>msg. Inl (''invalid_request_object'', msg)) in
      case decode_jwt_header lib request_jwt of
        Inl e \<Rightarrow> bad (''malformed request JWT: '' @ e)
      | Inr header \<Rightarrow>
     (let kid = JwsHeader_kid header in
      if kid = [] then bad ''request JWT missing kid''
      else (case parse_alg (JwsHeader_alg header) of
        Inl e \<Rightarrow> bad (''unsupported alg: '' @ e)
      | Inr alg \<Rightarrow>
      if Client_client_authentication_keys client \<noteq> [] \<and> kid \<notin> set (Client_client_authentication_keys client)
      then bad ''request JWT kid not registered on client''
      else (case parse_ulid lib kid of
        Inl _ \<Rightarrow> bad (''invalid kid: '' @ kid)
      | Inr u \<Rightarrow>
     (case load_public lib (KeyId u) (AppState_kms state) of
        Inl e \<Rightarrow> bad (''key lookup failed: '' @ KmsError_to_string lib e)
      | Inr public_key \<Rightarrow>
     (case verify_jwt lib (json_params_from lib) request_jwt alg kid public_key of
        Inl e \<Rightarrow> bad (''verification failed: '' @ JwtVerifyError_to_string e)
      | Inr claims \<Rightarrow>
          (let str_claim = (\<lambda>k. Option.bind (map_of claims k) Value_as_str);
               issuer = trim_end_char CHR ''/'' (AppState_public_base_url state) @ ''/realms/'' @ realm_slug in
           if (case str_claim ''iss'' of Some iss \<Rightarrow> iss \<noteq> Client_client_id client | None \<Rightarrow> False)
           then bad (''iss mismatch: expected '' @ Client_client_id client @ '', got '' @ unwrap_or (str_claim ''iss'') [])
           else if (case map_of claims ''aud'' of Some aud \<Rightarrow> \<not> aud_matches issuer aud | None \<Rightarrow> False)
           then bad ''aud does not match authorization server issuer''
           else if (case (str_claim ''client_id'', map_of query_params ''client_id'') of
                      (Some a, Some b) \<Rightarrow> a \<noteq> b | _ \<Rightarrow> False)
           then bad ''client_id mismatch between query and request object''
           else Inr (bt_remove ''request'' (fold merge_claim claims query_params)))))))))"

section \<open>Session reuse and prompt rules (\<open>sso.rs\<close>)\<close>

fun find_map :: "('a \<Rightarrow> 'b option) \<Rightarrow> 'a list \<Rightarrow> 'b option" where
  "find_map f [] = None"
| "find_map f (x # xs) = (case f x of None \<Rightarrow> find_map f xs | Some y \<Rightarrow> Some y)"

definition cookie_sid :: "string \<Rightarrow> string option" where
  "cookie_sid pair =
     (case strip_prefix (str_trim pair) ''geonosis_sid='' of
        None \<Rightarrow> None
      | Some v \<Rightarrow> (let val = str_trim v in if val \<noteq> [] then Some val else None))"

definition extract_session_cookie :: "HeaderMap \<Rightarrow> string option" where
  "extract_session_cookie headers =
     find_map cookie_sid (concat (map (split_char CHR '';'') (HeaderMap_cookie headers)))"

definition resolve_session :: "AppState \<Rightarrow> DateTime \<Rightarrow> string \<Rightarrow> RealmId \<Rightarrow> Session option" where
  "resolve_session state now sid_value realm_id =
     (case get_session (SessionId sid_value) (AppState_storage state) of
        Inl _ \<Rightarrow> None
      | Inr session \<Rightarrow>
          if Session_realm_id session \<noteq> realm_id then None
          else if Session_expires_at session < now then None
          else Some session)"

datatype PromptDecision =
    PromptDecision_Shortcircuit Session
  | PromptDecision_StartFlow "Session option"
  | PromptDecision_Error string string

definition extract_sub_from_id_token_hint :: "'l HttpLib_scheme \<Rightarrow> string \<Rightarrow> string option" where
  "extract_sub_from_id_token_hint lib hint =
     (case split_char CHR ''.'' hint of
        [_, p, _] \<Rightarrow>
          (case base64_url_decode lib p of
             Inl _ \<Rightarrow> None
           | Inr payload \<Rightarrow>
               (case json_value_from lib payload of
                  Inl _ \<Rightarrow> None
                | Inr claims \<Rightarrow> claim_str ''sub'' claims))
      | _ \<Rightarrow> None)"

definition PROMPT_VALUES :: "string list" where
  "PROMPT_VALUES = [''none'', ''login'', ''consent'', ''select_account'']"

definition enforce_prompt_policy ::
  "'l HttpLib_scheme \<Rightarrow> DateTime \<Rightarrow> AuthorizeRequest \<Rightarrow> Session option \<Rightarrow> PromptDecision" where
  "enforce_prompt_policy lib now req sso_session =
     (let prompt_values = (case AuthorizeRequest_prompt req of None \<Rightarrow> [] | Some p \<Rightarrow> split_whitespace p);
          prompt_none = ''none'' \<in> set prompt_values;
          prompt_login = ''login'' \<in> set prompt_values;
          prompt_consent = ''consent'' \<in> set prompt_values in
      if \<not> list_all (\<lambda>tok. tok \<in> set PROMPT_VALUES) prompt_values
      then PromptDecision_Error ''invalid_request'' ''unknown prompt value''
      else if prompt_none \<and> 1 < length prompt_values
      then PromptDecision_Error ''invalid_request'' ''prompt=none must not be combined with other values''
      else if (case AuthorizeRequest_max_age req of Some max_age \<Rightarrow> max_age < 0 | None \<Rightarrow> False)
      then PromptDecision_Error ''invalid_request'' ''max_age must be non-negative''
      else (let session_fresh_enough =
                  (case (AuthorizeRequest_max_age req, sso_session) of
                     (Some max_age, Some session) \<Rightarrow> num_seconds (now - Session_started_at session) \<le> max_age
                   | (Some _, None) \<Rightarrow> False
                   | (None, _) \<Rightarrow> True);
                hint_matches =
                  (case (AuthorizeRequest_id_token_hint req, sso_session) of
                     (Some hint, Some session) \<Rightarrow>
                       (case extract_sub_from_id_token_hint lib hint of
                          Some sub \<Rightarrow> sub = UserId_to_string lib (Session_user_id session)
                        | None \<Rightarrow> False)
                   | (Some _, None) \<Rightarrow> False
                   | (None, _) \<Rightarrow> True) in
            if prompt_none then
              (case sso_session of
                 None \<Rightarrow> PromptDecision_Error ''login_required'' ''user is not authenticated''
               | Some session \<Rightarrow>
                   if \<not> hint_matches then PromptDecision_Error ''login_required'' ''user is not authenticated''
                   else if \<not> session_fresh_enough
                   then PromptDecision_Error ''login_required'' ''session exceeded max_age''
                   else PromptDecision_Shortcircuit session)
            else if prompt_login then PromptDecision_StartFlow sso_session
            else (case sso_session of
                    Some session \<Rightarrow>
                      if session_fresh_enough \<and> hint_matches \<and> \<not> prompt_consent
                      then PromptDecision_Shortcircuit session else PromptDecision_StartFlow sso_session
                  | None \<Rightarrow> PromptDecision_StartFlow sso_session)))"

definition update_session_participation :: "AuthorizeDraw \<Rightarrow> Session \<Rightarrow> Client \<Rightarrow> AppState \<Rightarrow> AppState" where
  "update_session_participation draw session client state =
     (let updated = session\<lparr>Session_last_seen_at := az_seen_now draw\<rparr>;
          updated =
            (if list_ex (\<lambda>c. ClientSessionRef_client_id c = Client_id client) (Session_clients updated) then updated
             else updated\<lparr>Session_clients := Session_clients updated @
               [\<lparr>ClientSessionRef_client_id = Client_id client, ClientSessionRef_last_seen_at = az_ref_now draw,
                 ClientSessionRef_frontchannel_logout = Client_front_channel_logout_enabled client,
                 ClientSessionRef_backchannel_logout = (Client_backchannel_logout_url client \<noteq> None)\<rparr>]\<rparr>) in
      snd (with_storage (update_session updated) state))"

definition acr_of_level :: "AuthnLevel \<Rightarrow> string option" where
  "acr_of_level level =
     (case level of
        AuthnLevel_Single \<Rightarrow> Some ''urn:geonosis:acr:password''
      | AuthnLevel_Mfa \<Rightarrow> Some ''urn:geonosis:acr:mfa''
      | AuthnLevel_HardwareBound \<Rightarrow> Some ''urn:geonosis:acr:mfa''
      | AuthnLevel_Anonymous \<Rightarrow> None)"

definition shortcircuit_grant ::
  "AuthorizeDraw \<Rightarrow> Realm \<Rightarrow> Client \<Rightarrow> Session \<Rightarrow> params \<Rightarrow> Url \<Rightarrow> CodeGrant" where
  "shortcircuit_grant draw realm client session params redirect_uri =
     \<lparr>CodeGrant_code = az_code draw, CodeGrant_realm_id = Realm_id realm, CodeGrant_client_id = Client_id client,
      CodeGrant_user_id = Session_user_id session, CodeGrant_session_id = Session_id session,
      CodeGrant_scope = (case parse_scope_string (unwrap_or (map_of params ''scope'') []) of Inl _ \<Rightarrow> [] | Inr s \<Rightarrow> s),
      CodeGrant_redirect_uri = redirect_uri,
      CodeGrant_code_challenge = map_option (\<lambda>c. \<lparr>CodeChallenge_method = CodeChallengeMethod_S256,
        CodeChallenge_challenge = c\<rparr>) (map_of params ''code_challenge''),
      CodeGrant_nonce = map_of params ''nonce'', CodeGrant_state = map_of params ''state'', CodeGrant_amr = [],
      CodeGrant_acr = acr_of_level (Session_authn_level session),
      CodeGrant_auth_time = Session_started_at session, CodeGrant_created_at = az_code_now draw,
      CodeGrant_expires_at = az_code_now draw +
        unwrap_or (chrono_from_std (TokenPolicy_auth_code_lifespan (Realm_token_policy realm))) (chrono_seconds 60)\<rparr>"

fun CodeId_text :: "CodeId \<Rightarrow> string" where
  "CodeId_text (CodeId s) = s"

definition shortcircuit ::
  "'l HttpLib_scheme \<Rightarrow> AuthorizeDraw \<Rightarrow> Realm \<Rightarrow> Client \<Rightarrow> Session \<Rightarrow> params \<Rightarrow> AppState \<Rightarrow> Response \<times> AppState" where
  "shortcircuit lib draw realm client session params state =
     (let state = update_session_participation draw session client state in
      case Option.bind (map_of params ''redirect_uri'') (\<lambda>s. case url_parse lib s of Inl _ \<Rightarrow> None | Inr u \<Rightarrow> Some u) of
        None \<Rightarrow> (Response 400 (Body_Text ''missing/invalid redirect_uri''), state)
      | Some redirect_uri \<Rightarrow>
          (let grant = shortcircuit_grant draw realm client session params redirect_uri in
           case with_storage (save_code_grant grant) state of
             (Inl e, state) \<Rightarrow> (Response 500 (Body_Text (''code save failed: '' @ StorageError_to_string e)), state)
           | (Inr _, state) \<Rightarrow>
               (let url = url_append_pair lib redirect_uri ''code'' (CodeId_text (az_code draw));
                    url = (case map_of params ''state'' of
                             Some s \<Rightarrow> url_append_pair lib url ''state'' s | None \<Rightarrow> url) in
                (Response_Redirect url,
                 emit_user (Realm_id realm) (Session_user_id session) LOGIN_SUCCESS
                   (Some (Target_Session (Session_id session)))
                   (Value_Object [(''flow'', Value_String ''sso_shortcircuit'')]) state))))"

section \<open>The handler (\<open>mod.rs\<close>)\<close>

definition html_escape :: "string \<Rightarrow> string" where
  "html_escape s =
     replace_char CHR 0x27 ''&#39;'' (replace_char CHR 0x22 ''&quot;'' (replace_char CHR ''>'' ''&gt;''
       (replace_char CHR ''<'' ''&lt;'' (replace_char CHR ''&'' ''&amp;'' s))))"

definition render_login_form :: "string \<Rightarrow> string \<Rightarrow> Client \<Rightarrow> string" where
  "render_login_form slug flow_state_id client =
     (let client_name = html_escape (unwrap_or (Client_display_name client) (Client_client_id client)) in
      ''<!doctype html><html lang=\"en\"><head><meta charset=\"utf-8\"><title>Sign in '' @
      [CHR 0xE2, CHR 0x80, CHR 0x94] @ '' '' @ client_name @
      ''</title><meta name=\"viewport\" content=\"width=device-width,initial-scale=1\"><style>body{font-family:system-ui,sans-serif;max-width:24rem;margin:4rem auto;padding:0 1rem}input,button{width:100%;padding:.6rem;margin:.4rem 0;font-size:1rem;box-sizing:border-box}button{background:#1f2937;color:#fff;border:0;border-radius:.25rem;cursor:pointer}h1{font-size:1.25rem;margin-bottom:1rem}</style></head><body><h1>Sign in to '' @
      client_name @ ''</h1><form method=\"post\" action=\"/realms/'' @ html_escape slug @
      ''/login-actions/authenticate\"><input type=\"hidden\" name=\"flow_state_id\" value=\"'' @
      html_escape flow_state_id @
      ''\"><input type=\"text\" name=\"username\" placeholder=\"Username\" autocomplete=\"username\" required autofocus><input type=\"password\" name=\"password\" placeholder=\"Password\" autocomplete=\"current-password\" required><button type=\"submit\">Sign in</button></form></body></html>'')"

definition error_redirect :: "'l HttpLib_scheme \<Rightarrow> params \<Rightarrow> string \<Rightarrow> string \<Rightarrow> Response" where
  "error_redirect lib params code desc =
     (case Option.bind (map_of params ''redirect_uri'') (\<lambda>r. case url_parse lib r of Inl _ \<Rightarrow> None | Inr u \<Rightarrow> Some u) of
        Some url \<Rightarrow>
          (let url = url_append_pair lib (url_append_pair lib url ''error'' code) ''error_description'' desc in
           Response_Redirect
             (case map_of params ''state'' of Some s \<Rightarrow> url_append_pair lib url ''state'' s | None \<Rightarrow> url))
      | None \<Rightarrow> Response 400 (Body_Text (code @ '': '' @ desc)))"

definition authorize_error_to_response :: "'l HttpLib_scheme \<Rightarrow> params \<Rightarrow> AuthorizeRequestError \<Rightarrow> Response" where
  "authorize_error_to_response lib params err =
     (let text = AuthorizeRequestError_to_string err in
      case err of
        AuthorizeRequestError_Missing f \<Rightarrow>
          error_redirect lib params ''invalid_request'' (''missing parameter: '' @ f)
      | AuthorizeRequestError_Invalid f m \<Rightarrow>
          error_redirect lib params ''invalid_request'' (''invalid parameter '' @ f @ '': '' @ m)
      | AuthorizeRequestError_UnsupportedResponseType \<Rightarrow>
          error_redirect lib params ''unsupported_response_type'' text
      | AuthorizeRequestError_RedirectMismatch \<Rightarrow> Response 400 (Body_Text text)
      | AuthorizeRequestError_PkceRequired \<Rightarrow> error_redirect lib params ''invalid_request'' text
      | AuthorizeRequestError_PkcePlainRejected \<Rightarrow> error_redirect lib params ''invalid_request'' text
      | AuthorizeRequestError_NonceRequired \<Rightarrow> error_redirect lib params ''invalid_request'' text
      | AuthorizeRequestError_UnsupportedScope _ \<Rightarrow> error_redirect lib params ''invalid_scope'' text)"

fun FlowStateId_to_string :: "'l KmsLib_scheme \<Rightarrow> FlowStateId \<Rightarrow> string" where
  "FlowStateId_to_string lib (FlowStateId u) = show_ulid lib u"

fun SessionId_text :: "SessionId \<Rightarrow> string" where
  "SessionId_text (SessionId s) = s"

definition start_flow ::
  "'l HttpLib_scheme \<Rightarrow> AuthorizeDraw \<Rightarrow> Realm \<Rightarrow> Client \<Rightarrow> AuthorizeRequest \<Rightarrow> params \<Rightarrow> Session option \<Rightarrow> AppState \<Rightarrow>
   Response \<times> AppState" where
  "start_flow lib draw realm client req params sso_session state =
     (let params = (case AuthorizeRequest_acr_values req of
            Some acr \<Rightarrow> bt_insert ''__geonosis_acr_values'' acr params | None \<Rightarrow> params);
          (flow_id, flow_version, start_node) =
            (case get_auth_flow_by_alias (Realm_id realm) alias_BROWSER (AppState_storage state) of
               Inr f \<Rightarrow> (FlowDefinition_id f, FlowDefinition_version f, FlowDefinition_start f)
             | Inl _ \<Rightarrow> (az_flow_id draw, 1, az_node_id draw));
          ttl = secs (min (SessionPolicy_sso_session_idle (Realm_session_policy realm) div 1000000000) 900);
          flow_state = FlowState_fresh (az_flow_state_id draw) (az_csrf draw) (az_flow_now draw) (Realm_id realm)
            flow_id flow_version start_node ttl;
          flow_state = flow_state\<lparr>FlowState_context := (FlowState_context flow_state)
            \<lparr>FlowContext_requested_acr := map_of params ''__geonosis_acr_values'',
             FlowContext_session_id := (case sso_session of
               Some session \<Rightarrow> Some (SessionId_text (Session_id session))
             | None \<Rightarrow> FlowContext_session_id (FlowState_context flow_state))\<rparr>\<rparr>;
          row = \<lparr>FlowStateRow_state = flow_state, FlowStateRow_authorize_params = params\<rparr> in
      case with_storage (save_flow_state row) state of
        (Inl e, state) \<Rightarrow> (Response 500 (Body_Text (''failed to save flow state: '' @ StorageError_to_string e)), state)
      | (Inr _, state) \<Rightarrow>
          (Response 200 (Body_Html (render_login_form (Realm_slug realm)
             (FlowStateId_to_string lib (FlowState_id flow_state)) client)), state))"

text \<open>The part of the handler after both kinds of request objects have been resolved.\<close>

definition authorize_params ::
  "'l HttpLib_scheme \<Rightarrow> AuthorizeDraw \<Rightarrow> Realm \<Rightarrow> HeaderMap \<Rightarrow> params \<Rightarrow> AppState \<Rightarrow> Response \<times> AppState" where
  "authorize_params lib draw realm headers params state =
     (case AuthorizeRequest_parse lib params of
        Inl e \<Rightarrow> (authorize_error_to_response lib params e, state)
      | Inr req \<Rightarrow>
     (case get_client_by_client_id (Realm_id realm) (AuthorizeRequest_client_id req) (AppState_storage state) of
        Inl _ \<Rightarrow> (Response 400 (Body_Text ''invalid_request: unknown client''), state)
      | Inr client \<Rightarrow>
      if \<not> Client_enabled client
      then (Response 400 (Body_Text ''unauthorized_client: client disabled''), state)
      else (case enforce_client_policy req client of
        Inl e \<Rightarrow> (authorize_error_to_response lib params e, state)
      | Inr _ \<Rightarrow>
          (let sso_session = (case extract_session_cookie headers of
                 Some sid \<Rightarrow> resolve_session state (az_session_now draw) sid (Realm_id realm)
               | None \<Rightarrow> None) in
           case enforce_prompt_policy lib (az_prompt_now draw) req sso_session of
             PromptDecision_Shortcircuit session \<Rightarrow> shortcircuit lib draw realm client session params state
           | PromptDecision_StartFlow maybe_session \<Rightarrow>
               start_flow lib draw realm client req params maybe_session state
           | PromptDecision_Error code description \<Rightarrow>
               (error_redirect lib params code description, state)))))"

definition resolve_par ::
  "'l HttpLib_scheme \<Rightarrow> AuthorizeDraw \<Rightarrow> Realm \<Rightarrow> HeaderMap \<Rightarrow> params \<Rightarrow> AppState \<Rightarrow> Response \<times> AppState" where
  "resolve_par lib draw realm headers params state =
     (case map_of params ''request_uri'' of
        None \<Rightarrow> authorize_params lib draw realm headers params state
      | Some request_uri \<Rightarrow>
          (case with_storage (consume_par_request request_uri) state of
             (Inl _, state) \<Rightarrow>
               (Response 400 (Body_Text ''invalid_request_uri: unknown / expired request_uri''), state)
           | (Inr pushed, state) \<Rightarrow>
               if ParRequest_realm_id pushed \<noteq> Realm_id realm
               then (Response 400 (Body_Text ''invalid_request_uri: realm mismatch''), state)
               else authorize_params lib draw realm headers (ParRequest_params pushed) state))"

definition handle_authorize ::
  "'l HttpLib_scheme \<Rightarrow> AuthorizeDraw \<Rightarrow> string \<Rightarrow> params \<Rightarrow> HeaderMap \<Rightarrow> AppState \<Rightarrow> Response \<times> AppState" where
  "handle_authorize lib draw slug params headers state =
     (case get_realm_by_slug slug (AppState_storage state) of
        Inl _ \<Rightarrow> (Response 404 (Body_Text ''realm not found''),
                  count MetricsState_oidc_authorize_update [slug, ''unknown_realm''] state)
      | Inr realm \<Rightarrow>
     (let state = count MetricsState_oidc_authorize_update [Realm_slug realm, ''started''] state in
      case map_of params ''request'' of
        None \<Rightarrow> resolve_par lib draw realm headers params state
      | Some request_jwt \<Rightarrow>
     (let params = bt_remove ''request'' params in
      case map_of params ''client_id'' of
        None \<Rightarrow> (Response 400 (Body_Text ''invalid_request: client_id required alongside request parameter''), state)
      | Some client_id \<Rightarrow>
     (case get_client_by_client_id (Realm_id realm) client_id (AppState_storage state) of
        Inl _ \<Rightarrow> (Response 400 (Body_Text ''invalid_request: unknown client''), state)
      | Inr client \<Rightarrow>
     (case resolve_request_object lib state client request_jwt params (Realm_slug realm) of
        Inl (code, desc) \<Rightarrow> (Response 400 (Body_Text (code @ '': '' @ desc)), state)
      | Inr merged \<Rightarrow> resolve_par lib draw realm headers merged state)))))"

end
