(* ===== verification/Server_Authorize_Sound.thy ===== *)
theory Server_Authorize_Sound
  imports Server_Authorize Server_Samples
begin

text \<open>
  What the authorize endpoint has checked when it stores a code, what the code carries, where it is handed over, and that the
  login page it renders cannot be broken out of.
\<close>

section \<open>Escaping\<close>

lemma set_replace_char: "set (replace_char c r s) = (set s - {c}) \<union> (if c \<in> set s then set r else {})"
  by (auto simp: replace_char_def split: if_splits)

lemma html_escape_safe: "set (html_escape s) \<inter> {CHR ''<'', CHR ''>'', CHR 0x22, CHR 0x27} = {}"
  by (auto simp: html_escape_def set_replace_char split: if_splits)

section \<open>The branches that store a code\<close>

lemma start_flow_codes [simp]:
  "codes (AppState_storage (snd (start_flow lib draw realm client req params ses st))) = codes (AppState_storage st)"
  by (simp add: start_flow_def with_storage_eq save_flow_state_def Let_def split: prod.split)

lemma participation_codes [simp]:
  "codes (AppState_storage (update_session_participation draw session client st)) = codes (AppState_storage st)"
  by (simp add: update_session_participation_def with_storage_eq update_session_def Let_def)

text \<open>Where a code is handed over: the redirect URI with the code and the state of the request.\<close>

definition code_url :: "'l HttpLib_scheme \<Rightarrow> params \<Rightarrow> Url \<Rightarrow> CodeId \<Rightarrow> Url" where
  "code_url lib params uri code =
     (let url = url_append_pair lib uri ''code'' (CodeId_text code) in
      case map_of params ''state'' of None \<Rightarrow> url | Some s \<Rightarrow> url_append_pair lib url ''state'' s)"

lemma shortcircuit_code:
  assumes "shortcircuit lib draw realm client session params st = (resp, st')"
    and "map_of (codes (AppState_storage st')) c = Some g" "map_of (codes (AppState_storage st)) c \<noteq> Some g"
  obtains raw uri where "map_of params ''redirect_uri'' = Some raw" "url_parse lib raw = Inr uri"
    "g = shortcircuit_grant draw realm client session params uri" "c = az_code draw"
    "resp = Response_Redirect (code_url lib params uri (az_code draw))"
proof -
  obtain raw uri where r: "map_of params ''redirect_uri'' = Some raw" "url_parse lib raw = Inr uri"
    using assms by (cases "map_of params ''redirect_uri''") (auto simp: shortcircuit_def Let_def split: sum.splits)
  have g: "g = shortcircuit_grant draw realm client session params uri \<and> c = az_code draw"
    using assms r
    by (auto simp: shortcircuit_def with_storage_eq save_code_grant_def emit_user_def Let_def shortcircuit_grant_def
        split: if_splits)
  moreover have "resp = Response_Redirect (code_url lib params uri (az_code draw))"
    using r assms(1) by (auto simp: shortcircuit_def with_storage_eq save_code_grant_def code_url_def Let_def split: option.splits)
  ultimately show ?thesis using r that by blast
qed

definition reusable_session :: "AuthorizeDraw \<Rightarrow> AppState \<Rightarrow> HeaderMap \<Rightarrow> Realm \<Rightarrow> Session \<Rightarrow> bool" where
  "reusable_session draw st headers realm session \<longleftrightarrow>
     (\<exists>sid. extract_session_cookie headers = Some sid \<and>
        map_of (sessions (AppState_storage st)) (SessionId sid) = Some session \<and>
        Session_realm_id session = Realm_id realm \<and> az_session_now draw \<le> Session_expires_at session)"

lemma prompt_shortcircuit:
  "enforce_prompt_policy lib now req ses = PromptDecision_Shortcircuit session \<Longrightarrow> ses = Some session"
  by (auto simp: enforce_prompt_policy_def Let_def split: if_splits option.splits)

text \<open>
  When a request lets a session be reused without a login: it does not prompt for one, nor for consent;
  the session is not older than the age it allows; and its hint, if it gives one, names the user.
\<close>

definition reuse_allowed :: "'l HttpLib_scheme \<Rightarrow> DateTime \<Rightarrow> params \<Rightarrow> Session \<Rightarrow> bool" where
  "reuse_allowed lib now params session \<longleftrightarrow>
     (\<forall>p. map_of params ''prompt'' = Some p \<longrightarrow> ''login'' \<notin> set (split_whitespace p) \<and> ''consent'' \<notin> set (split_whitespace p)) \<and>
     (\<forall>age. Option.bind (map_of params ''max_age'') parse_i64 = Some age \<longrightarrow>
        num_seconds (now - Session_started_at session) \<le> age) \<and>
     (\<forall>hint. map_of params ''id_token_hint'' = Some hint \<longrightarrow>
        extract_sub_from_id_token_hint lib hint = Some (UserId_to_string lib (Session_user_id session)))"

lemma prompt_policy_allows:
  assumes "AuthorizeRequest_parse lib params = Inr req"
    and "enforce_prompt_policy lib now req (Some session) = PromptDecision_Shortcircuit session"
  shows "reuse_allowed lib now params session"
proof -
  have req: "AuthorizeRequest_prompt req = map_of params ''prompt''"
    "AuthorizeRequest_max_age req = Option.bind (map_of params ''max_age'') parse_i64"
    "AuthorizeRequest_id_token_hint req = map_of params ''id_token_hint''"
    using assms(1) by (auto simp: AuthorizeRequest_parse_def split: option.splits sum.splits if_splits)
  have none: "''none'' \<in> set xs \<Longrightarrow> \<not> 1 < length xs \<Longrightarrow> ''login'' \<notin> set xs \<and> ''consent'' \<notin> set xs" for xs
    by (cases xs; cases "tl xs") auto
  show ?thesis
    using assms(2) none unfolding reuse_allowed_def req [symmetric] enforce_prompt_policy_def Let_def
    by (auto split: if_splits option.splits)
qed

lemma resolve_session_reusable:
  assumes "(case extract_session_cookie headers of
      Some sid \<Rightarrow> resolve_session st (az_session_now draw) sid (Realm_id realm) | None \<Rightarrow> None) = Some session"
  shows "reusable_session draw st headers realm session"
  using assms
  by (auto simp: reusable_session_def resolve_session_def get_session_def split: option.splits sum.splits if_splits)

text \<open>What a code stands for: the client, the session and the parameters of the request, as they were sent.\<close>

definition code_bound :: "'l HttpLib_scheme \<Rightarrow> params \<Rightarrow> Realm \<Rightarrow> Client \<Rightarrow> Session \<Rightarrow> CodeGrant \<Rightarrow> bool" where
  "code_bound lib params realm client session g \<longleftrightarrow>
     CodeGrant_realm_id g = Realm_id realm \<and> CodeGrant_client_id g = Client_id client \<and>
     CodeGrant_user_id g = Session_user_id session \<and> CodeGrant_session_id g = Session_id session \<and>
     CodeGrant_auth_time g = Session_started_at session \<and>
     (\<exists>raw. map_of params ''redirect_uri'' = Some raw \<and> url_parse lib raw = Inr (CodeGrant_redirect_uri g)) \<and>
     (\<exists>r\<in>set (Client_redirect_uris client). RedirectUri_matches r (trim_end_char CHR ''/'' (CodeGrant_redirect_uri g)) \<or>
        RedirectUri_matches r (CodeGrant_redirect_uri g)) \<and>
     CodeGrant_code_challenge g = map_option (\<lambda>c. \<lparr>CodeChallenge_method = CodeChallengeMethod_S256,
        CodeChallenge_challenge = c\<rparr>) (map_of params ''code_challenge'') \<and>
     \<not> plain_method (map_of params ''code_challenge_method'') \<and>
     (Client_kind client = ClientKind_Public \<longrightarrow> map_of params ''code_challenge'' \<noteq> None) \<and>
     parse_scope_string (unwrap_or (map_of params ''scope'') []) = Inr (CodeGrant_scope g) \<and>
     CodeGrant_nonce g = map_of params ''nonce'' \<and>
     (scope_has ''openid'' (CodeGrant_scope g) \<longrightarrow> map_of params ''nonce'' \<noteq> None) \<and>
     CodeGrant_expires_at g = CodeGrant_created_at g +
        unwrap_or (chrono_from_std (TokenPolicy_auth_code_lifespan (Realm_token_policy realm))) (chrono_seconds 60)"

lemma parse_policy_bound:
  assumes "AuthorizeRequest_parse lib params = Inr req" "enforce_client_policy req client = Inr u"
    and "map_of params ''redirect_uri'' = Some raw" "url_parse lib raw = Inr uri"
  shows "code_bound lib params realm client session (shortcircuit_grant draw realm client session params uri)"
proof -
  have f: "AuthorizeRequest_redirect_uri req = uri"
    "AuthorizeRequest_code_challenge req = map_of params ''code_challenge''"
    "parse_scope_string (unwrap_or (map_of params ''scope'') []) = Inr (AuthorizeRequest_scope req)"
    "scope_has ''openid'' (AuthorizeRequest_scope req) \<longrightarrow> map_of params ''nonce'' \<noteq> None"
    "\<not> plain_method (map_of params ''code_challenge_method'')"
    using assms by (auto simp: AuthorizeRequest_parse_def split: option.splits sum.splits if_splits)
  from assms(2-4) f show ?thesis
    by (auto simp: code_bound_def shortcircuit_grant_def enforce_client_policy_def list_ex_iff Let_def
        split: if_splits)
qed

text \<open>
  What a request for the parameters \<open>params\<close> has shown when a code is stored: an enabled client of the
  realm with the client id of the request, a live session of the browser in the realm, whose reuse the
  request allows, and a code bound to all of them, handed over at the redirect URI.
\<close>

definition code_earned ::
  "'l HttpLib_scheme \<Rightarrow> AuthorizeDraw \<Rightarrow> AppState \<Rightarrow> HeaderMap \<Rightarrow> Realm \<Rightarrow> params \<Rightarrow> CodeId \<Rightarrow> CodeGrant \<Rightarrow> Response \<Rightarrow> bool" where
  "code_earned lib draw st headers realm params c g resp \<longleftrightarrow>
     (\<exists>cid client session. map_of params ''client_id'' = Some cid \<and>
        get_client_by_client_id (Realm_id realm) cid (AppState_storage st) = Inr client \<and> Client_enabled client \<and>
        reusable_session draw st headers realm session \<and> reuse_allowed lib (az_prompt_now draw) params session \<and>
        code_bound lib params realm client session g \<and>
        resp = Response_Redirect (code_url lib params (CodeGrant_redirect_uri g) c))"

lemma authorize_params_code:
  assumes "authorize_params lib draw realm headers params st = (resp, st')"
    and "map_of (codes (AppState_storage st')) c = Some g" "map_of (codes (AppState_storage st)) c \<noteq> Some g"
  shows "code_earned lib draw st headers realm params c g resp"
proof -
  obtain req where req: "AuthorizeRequest_parse lib params = Inr req"
    using assms by (cases "AuthorizeRequest_parse lib params") (auto simp: authorize_params_def)
  obtain client where cl: "get_client_by_client_id (Realm_id realm) (AuthorizeRequest_client_id req) (AppState_storage st) = Inr client"
    using assms req
    by (cases "get_client_by_client_id (Realm_id realm) (AuthorizeRequest_client_id req) (AppState_storage st)")
      (auto simp: authorize_params_def)
  have en: "Client_enabled client" using assms req cl by (auto simp: authorize_params_def split: if_splits)
  obtain u where pol: "enforce_client_policy req client = Inr u"
    using assms req cl en by (cases "enforce_client_policy req client") (auto simp: authorize_params_def)
  let ?ses = "case extract_session_cookie headers of
      Some sid \<Rightarrow> resolve_session st (az_session_now draw) sid (Realm_id realm) | None \<Rightarrow> None"
  have eq: "(resp, st') = (case enforce_prompt_policy lib (az_prompt_now draw) req ?ses of
       PromptDecision_Shortcircuit session \<Rightarrow> shortcircuit lib draw realm client session params st
     | PromptDecision_StartFlow m \<Rightarrow> start_flow lib draw realm client req params m st
     | PromptDecision_Error code d \<Rightarrow> (error_redirect lib params code d, st))"
    using assms(1) req cl en pol by (simp add: authorize_params_def Let_def)
  obtain session where sc: "enforce_prompt_policy lib (az_prompt_now draw) req ?ses = PromptDecision_Shortcircuit session"
  proof (cases "enforce_prompt_policy lib (az_prompt_now draw) req ?ses")
    case (PromptDecision_StartFlow m)
    with eq have "codes (AppState_storage st') = codes (AppState_storage st)"
      using start_flow_codes [of lib draw realm client req params m st] by (metis PromptDecision.case(2) snd_conv)
    with assms(2,3) show ?thesis by simp
  next
    case PromptDecision_Error
    with eq assms(2,3) show ?thesis by simp
  qed (use that in simp)
  from eq sc have "shortcircuit lib draw realm client session params st = (resp, st')" by simp
  from shortcircuit_code [OF this assms(2,3)] parse_policy_bound [OF req pol]
  have bound: "code_bound lib params realm client session g \<and> (\<exists>uri. CodeGrant_redirect_uri g = uri \<and>
      resp = Response_Redirect (code_url lib params uri c))"
    by (metis CodeGrant.select_convs(7) shortcircuit_grant_def)
  have cid: "map_of params ''client_id'' = Some (AuthorizeRequest_client_id req)"
    using req by (auto simp: AuthorizeRequest_parse_def split: option.splits sum.splits if_splits)
  note ses = prompt_shortcircuit [OF sc]
  show ?thesis
    using cid cl en resolve_session_reusable [OF ses] prompt_policy_allows [OF req sc [unfolded ses]] bound
    unfolding code_earned_def by blast
qed

lemma reusable_session_cong:
  "sessions (AppState_storage st') = sessions (AppState_storage st) \<Longrightarrow>
   reusable_session draw st' headers realm session = reusable_session draw st headers realm session"
  by (simp add: reusable_session_def)

lemma client_lookup_cong:
  "clients t' = clients t \<Longrightarrow> clients_by_client_id t' = clients_by_client_id t \<Longrightarrow>
   get_client_by_client_id r c t' = get_client_by_client_id r c t"
  by (simp add: get_client_by_client_id_def split: option.split)

lemma code_earned_cong:
  assumes "sessions (AppState_storage st') = sessions (AppState_storage st)"
    and "clients (AppState_storage st') = clients (AppState_storage st)"
    and "clients_by_client_id (AppState_storage st') = clients_by_client_id (AppState_storage st)"
  shows "code_earned lib draw st' headers realm params c g resp = code_earned lib draw st headers realm params c g resp"
  unfolding code_earned_def reusable_session_cong [OF assms(1)] client_lookup_cong [OF assms(2,3)] ..

text \<open>
  The parameters a request stands for: those of the query, into which the claims of a verified request
  object have been merged if it has one, or the pushed ones, if these name a request pushed to the realm.
\<close>

definition merged_params :: "'l HttpLib_scheme \<Rightarrow> AppState \<Rightarrow> Realm \<Rightarrow> params \<Rightarrow> params \<Rightarrow> bool" where
  "merged_params lib st realm params m \<longleftrightarrow>
     (case map_of params ''request'' of
        None \<Rightarrow> m = params
      | Some jwt \<Rightarrow> \<exists>cid client. map_of (bt_remove ''request'' params) ''client_id'' = Some cid \<and>
          get_client_by_client_id (Realm_id realm) cid (AppState_storage st) = Inr client \<and>
          resolve_request_object lib st client jwt (bt_remove ''request'' params) (Realm_slug realm) = Inr m)"

definition pushed_params :: "AppState \<Rightarrow> Realm \<Rightarrow> params \<Rightarrow> params \<Rightarrow> bool" where
  "pushed_params st realm m params \<longleftrightarrow>
     (case map_of m ''request_uri'' of
        None \<Rightarrow> params = m
      | Some uri \<Rightarrow> \<exists>pushed. map_of (par_requests (AppState_storage st)) uri = Some pushed \<and>
          ParRequest_realm_id pushed = Realm_id realm \<and> params = ParRequest_params pushed)"

lemma resolve_par_code:
  assumes "resolve_par lib draw realm headers m st = (resp, st')"
    and "map_of (codes (AppState_storage st')) c = Some g" "map_of (codes (AppState_storage st)) c \<noteq> Some g"
  shows "\<exists>params. pushed_params st realm m params \<and> code_earned lib draw st headers realm params c g resp"
proof (cases "map_of m ''request_uri''")
  case None
  then show ?thesis using assms authorize_params_code by (simp add: resolve_par_def pushed_params_def)
next
  case (Some r)
  define st1 where "st1 = st\<lparr>AppState_storage := snd (consume_par_request r (AppState_storage st))\<rparr>"
  have fr: "codes (AppState_storage st1) = codes (AppState_storage st)"
    "sessions (AppState_storage st1) = sessions (AppState_storage st)"
    "clients (AppState_storage st1) = clients (AppState_storage st)"
    "clients_by_client_id (AppState_storage st1) = clients_by_client_id (AppState_storage st)"
    by (simp_all add: st1_def consume_par_request_def split: option.split)
  have ne: "st' \<noteq> st1" using assms(2,3) fr(1) by auto
  have "\<exists>pushed. map_of (par_requests (AppState_storage st)) r = Some pushed \<and> ParRequest_realm_id pushed = Realm_id realm \<and>
      authorize_params lib draw realm headers (ParRequest_params pushed) st1 = (resp, st')"
    using assms(1) Some ne
    by (cases "map_of (par_requests (AppState_storage st)) r")
      (auto simp: resolve_par_def with_storage_eq st1_def consume_par_request_def split: if_splits)
  then obtain pushed where p: "map_of (par_requests (AppState_storage st)) r = Some pushed"
    "ParRequest_realm_id pushed = Realm_id realm"
    "authorize_params lib draw realm headers (ParRequest_params pushed) st1 = (resp, st')" by blast
  from authorize_params_code [OF p(3) assms(2)] assms(3)
  have "code_earned lib draw st headers realm (ParRequest_params pushed) c g resp"
    unfolding fr(1) code_earned_cong [OF fr(2-4)] by blast
  with Some p(1,2) show ?thesis by (auto simp: pushed_params_def)
qed

lemma resolve_request_object_cong:
  assumes "AppState_kms st' = AppState_kms st" "AppState_public_base_url st' = AppState_public_base_url st"
  shows "resolve_request_object lib st' client jwt params slug = resolve_request_object lib st client jwt params slug"
  unfolding resolve_request_object_def assms ..

section \<open>Properties\<close>

text \<open>
  C2: An authorization code appears in the store only for a valid request. Whatever parameters a request
  to the authorize endpoint stands for, given directly, pushed before or in a verified request object, a
  code it adds belongs to the enabled client of the realm that they name, and to the user and session of a
  live session of that realm named by the browser's cookie, whose reuse they allow: they prompt for no
  login and no consent, the session is not older than their maximal age, and their hint names its user.
  The code carries the redirect URI of the request, which is registered for the client (up to trailing
  slashes), its PKCE challenge, which a public client must give and which is not of the plain method, its
  scope and its nonce, which \<open>openid\<close> demands, and it expires after the lifespan of the realm. The answer
  hands the code over at that URI, with the state of the request.
\<close>

theorem authorize_code_sound:
  assumes "handle_authorize lib draw slug params headers st = (resp, st')"
    and "map_of (codes (AppState_storage st')) c = Some g" "map_of (codes (AppState_storage st)) c \<noteq> Some g"
  shows "\<exists>realm m ps cid client session. get_realm_by_slug slug (AppState_storage st) = Inr realm \<and>
    merged_params lib st realm params m \<and> pushed_params st realm m ps \<and>
    map_of ps ''client_id'' = Some cid \<and>
    get_client_by_client_id (Realm_id realm) cid (AppState_storage st) = Inr client \<and> Client_enabled client \<and>
    reusable_session draw st headers realm session \<and> reuse_allowed lib (az_prompt_now draw) ps session \<and>
    code_bound lib ps realm client session g \<and>
    resp = Response_Redirect (code_url lib ps (CodeGrant_redirect_uri g) c)"
proof -
  obtain realm where realm: "get_realm_by_slug slug (AppState_storage st) = Inr realm"
    using assms by (cases "get_realm_by_slug slug (AppState_storage st)") (auto simp: handle_authorize_def)
  define st1 where "st1 = count MetricsState_oidc_authorize_update [Realm_slug realm, ''started''] st"
  have st1: "AppState_storage st1 = AppState_storage st" "AppState_kms st1 = AppState_kms st"
    "AppState_public_base_url st1 = AppState_public_base_url st" by (simp_all add: st1_def)
  have ne: "st' \<noteq> st1" using assms(2,3) st1 by auto
  have "\<exists>m. merged_params lib st realm params m \<and> resolve_par lib draw realm headers m st1 = (resp, st')"
    using assms(1) realm ne
    by (cases "map_of params ''request''")
      (auto simp: handle_authorize_def merged_params_def st1_def [symmetric] st1 Let_def
        resolve_request_object_cong [OF st1(2,3)] split: option.splits sum.splits)
  then obtain m where m: "merged_params lib st realm params m" "resolve_par lib draw realm headers m st1 = (resp, st')" by blast
  have "pushed_params st1 realm m ps = pushed_params st realm m ps"
    "code_earned lib draw st1 headers realm ps c g resp = code_earned lib draw st headers realm ps c g resp" for ps
    by (simp only: pushed_params_def st1(1)) (rule code_earned_cong; simp only: st1(1))
  with resolve_par_code [OF m(2) assms(2)] assms(3) obtain ps where
    "pushed_params st realm m ps" "code_earned lib draw st headers realm ps c g resp"
    unfolding st1(1) by blast
  with realm m(1) show ?thesis unfolding code_earned_def by blast
qed

text \<open>The witness reuses a session of the sample user for a client with a registered redirect URI.\<close>

definition sample_web_client :: Client where
  "sample_web_client = sample_client\<lparr>Client_redirect_uris :=
     [\<lparr>RedirectUri_uri = ''https://app.example/cb'', RedirectUri_wildcard_path = False\<rparr>]\<rparr>"

definition sample_session :: Session where
  "sample_session = fresh_grant_session sample_token_draw sample_realm (UserId 1)"

definition sample_web_app :: AppState where
  "sample_web_app = sample_app\<lparr>AppState_storage := sample_tables
     \<lparr>clients := [((RealmId 1, ClientId 1), sample_web_client)], sessions := [(SessionId ''n'', sample_session)]\<rparr>\<rparr>"

definition sample_az_draw :: AuthorizeDraw where
  "sample_az_draw = \<lparr>az_session_now = 3, az_prompt_now = 3, az_seen_now = 3, az_ref_now = 3, az_code = CodeId ''c'',
     az_code_now = 3, az_flow_id = FlowId 1, az_node_id = NodeId 1, az_flow_state_id = FlowStateId 1,
     az_csrf = CsrfToken ''x'', az_flow_now = 3\<rparr>"

abbreviation sample_az_params :: params where
  "sample_az_params \<equiv> [(''client_id'', ''app''), (''redirect_uri'', ''https://app.example/cb''), (''response_type'', ''code'')]"

definition sample_cookie :: HeaderMap where
  "sample_cookie = \<lparr>HeaderMap_authorization = None, HeaderMap_cookie = [''geonosis_sid=n'']\<rparr>"

lemma sample_cookie_sid: "extract_session_cookie sample_cookie = Some ''n''"
  by (simp add: extract_session_cookie_def sample_cookie_def cookie_sid_def strip_prefix_def starts_with_def
      str_trim_def is_whitespace_char_def byte_in_def is_utf8_continuation_def)

lemma sample_parse:
  "AuthorizeRequest_parse sample_http_lib sample_az_params = Inr
     \<lparr>AuthorizeRequest_response_type = ResponseType_Code, AuthorizeRequest_client_id = ''app'',
      AuthorizeRequest_redirect_uri = ''https://app.example/cb'', AuthorizeRequest_scope = [],
      AuthorizeRequest_state = None, AuthorizeRequest_nonce = None, AuthorizeRequest_code_challenge = None,
      AuthorizeRequest_code_challenge_method = None, AuthorizeRequest_acr_values = None,
      AuthorizeRequest_prompt = None, AuthorizeRequest_max_age = None, AuthorizeRequest_login_hint = None,
      AuthorizeRequest_id_token_hint = None, AuthorizeRequest_extra = []\<rparr>"
  by (simp add: AuthorizeRequest_parse_def sample_http_simps parse_scope_string_def split_ascii_whitespace_def
      plain_method_def scope_has_def known_params_def)

lemma sample_web_lookups:
  "get_realm_by_slug ''t'' (AppState_storage sample_web_app) = Inr sample_realm"
  "get_client_by_client_id (RealmId 1) ''app'' (AppState_storage sample_web_app) = Inr sample_web_client"
  "get_session (SessionId ''n'') (AppState_storage sample_web_app) = Inr sample_session"
  "codes (AppState_storage sample_web_app) = []"
  by (simp_all add: get_realm_by_slug_def get_client_by_client_id_def get_session_def sample_web_app_def
      sample_tables_simps)

lemma sample_resolve_session:
  "resolve_session (count m l sample_web_app) 3 ''n'' (RealmId 1) = Some sample_session"
proof -
  have "Session_expires_at sample_session = 2 + 36000000000000" "Session_realm_id sample_session = RealmId 1"
    by (simp_all add: sample_session_def fresh_grant_session_def sample_token_draw_def sample_fresh_def Let_def
        from_std_or_default_def chrono_from_std_def sample_realm_def SessionPolicy_default_def secs_def)
  then show ?thesis by (simp add: resolve_session_def sample_web_lookups)
qed

lemma sample_authorize:
  "\<exists>resp st' g. handle_authorize sample_http_lib sample_az_draw ''t'' sample_az_params sample_cookie sample_web_app = (resp, st') \<and>
     map_of (codes (AppState_storage st')) (CodeId ''c'') = Some g \<and>
     map_of (codes (AppState_storage sample_web_app)) (CodeId ''c'') \<noteq> Some g"
proof -
  have url: "url_parse sample_http_lib s = Inr s" for s by (simp add: sample_http_simps)
  have w: "Client_enabled sample_web_client" by (simp add: sample_web_client_def sample_client_def)
  have "enforce_client_policy req sample_web_client = Inr ()"
    if "AuthorizeRequest_redirect_uri req = ''https://app.example/cb''" for req
    using that by (simp add: enforce_client_policy_def sample_web_client_def sample_client_def Let_def
        RedirectUri_matches_def trim_end_char_def)
  moreover have "enforce_prompt_policy lib now req (Some s) = PromptDecision_Shortcircuit s"
    if "AuthorizeRequest_prompt req = None" "AuthorizeRequest_max_age req = None"
      "AuthorizeRequest_id_token_hint req = None" for lib :: HttpLib and now req s
    using that by (simp add: enforce_prompt_policy_def Let_def)
  ultimately show ?thesis
    using w
    by (simp add: handle_authorize_def resolve_par_def authorize_params_def sample_parse sample_web_lookups
        sample_realm_id sample_cookie_sid sample_resolve_session sample_az_draw_def shortcircuit_def with_storage_eq
        save_code_grant_def shortcircuit_grant_def emit_user_def Let_def url del: One_nat_def)
qed

theorem authorize_code_sound_witness:
  "\<exists>st' g url. handle_authorize sample_http_lib sample_az_draw ''t'' sample_az_params sample_cookie sample_web_app =
     (Response_Redirect url, st') \<and> map_of (codes (AppState_storage st')) (CodeId ''c'') = Some g"
proof -
  obtain resp st' g where h:
    "handle_authorize sample_http_lib sample_az_draw ''t'' sample_az_params sample_cookie sample_web_app = (resp, st')"
    "map_of (codes (AppState_storage st')) (CodeId ''c'') = Some g"
    "map_of (codes (AppState_storage sample_web_app)) (CodeId ''c'') \<noteq> Some g"
    using sample_authorize by blast
  from authorize_code_sound [OF h] h(1,2) show ?thesis by blast
qed

section \<open>Parse errors and redirects\<close>

text \<open>
  A request that does not parse is answered with a redirect to the URI it names, which has not been
  compared with any client's registrations.
\<close>

lemma parse_error_redirects_anywhere:
  assumes "url_parse lib uri = Inr u" "AuthorizeRequest_parse lib params = Inl AuthorizeRequestError_UnsupportedResponseType"
    and "map_of params ''redirect_uri'' = Some uri" "map_of params ''state'' = None"
  shows "fst (authorize_params lib draw realm headers params st) =
    Response_Redirect (url_append_pair lib (url_append_pair lib u ''error'' ''unsupported_response_type'')
      ''error_description'' (AuthorizeRequestError_to_string AuthorizeRequestError_UnsupportedResponseType))"
  using assms by (simp add: authorize_params_def authorize_error_to_response_def error_redirect_def Let_def)

end
