(* ===== verification/Server_Login.thy ===== *)
theory Server_Login
  imports Saml_Idp Authn_Sound Server_Authorize_Sound
begin

text \<open>
  The interactive login of \<^verbatim>\<open>crates/geonosis-server/src\<close>: the bridge from the flow executor to
  the authenticators (\<open>flow_runtime.rs\<close>) and the login form handler with the completion of the OpenID
  and SAML requests (\<open>handlers/login_actions.rs\<close>). The WASM engine and the JSON encoders are fields of
  \<open>LoginLib\<close>; a plugin gets no host imports, so its answer is a function of its input. During one
  request the executor runs over a \<open>FlowWorld\<close>: the tables, the clock, and what the authenticators draw.
\<close>

section \<open>Texts of errors\<close>

fun NodeId_to_string :: "'l KmsLib_scheme \<Rightarrow> NodeId \<Rightarrow> string" where
  "NodeId_to_string lib (NodeId u) = show_ulid lib u"

fun FlowError_to_string :: "FlowError \<Rightarrow> string" where
  "FlowError_to_string (FlowError_Invalid m) = ''invalid input: '' @ m"
| "FlowError_to_string (FlowError_DeadEnd m) = ''graph has no outgoing edge from '' @ m"
| "FlowError_to_string FlowError_Expired = ''expired''"
| "FlowError_to_string (FlowError_Internal m) = ''internal: '' @ m"

fun CompileError_to_string :: "'l KmsLib_scheme \<Rightarrow> CompileError \<Rightarrow> string" where
  "CompileError_to_string lib (CompileError_StartMissing n) = ''start node '' @ NodeId_to_string lib n @ '' not in graph''"
| "CompileError_to_string lib (CompileError_DuplicateNode n) = ''duplicate node id '' @ NodeId_to_string lib n"
| "CompileError_to_string lib (CompileError_EdgeFromUnknown n) = ''edge from unknown node '' @ NodeId_to_string lib n"
| "CompileError_to_string lib (CompileError_EdgeToUnknown n) = ''edge to unknown node '' @ NodeId_to_string lib n"
| "CompileError_to_string lib (CompileError_TerminalWithOutbound n) =
     ''terminal node '' @ NodeId_to_string lib n @ '' has outbound edges''"
| "CompileError_to_string lib CompileError_NoSuccessReachable = ''no success terminal reachable from start''"
| "CompileError_to_string lib (CompileError_BadSubflow s) = ''invalid sub-flow reference: '' @ s"

section \<open>The dispatcher (\<open>flow_runtime.rs\<close>)\<close>

text \<open>What a plugin answers (\<open>runtime/authn.rs\<close>, module \<open>wire\<close>).\<close>

record SuccessPayload =
  SuccessPayload_amr :: "string list"
  SuccessPayload_attributes :: string

record ChallengePayload =
  ChallengePayload_template :: string
  ChallengePayload_locals :: string

datatype WireStepOutput =
    WireStepOutput_Success SuccessPayload | WireStepOutput_Challenge ChallengePayload
  | WireStepOutput_Failure string | WireStepOutput_Skip

record LoginLib = SamlLib +
  wasm_compile :: "u8 list \<Rightarrow> string + string"
  wasm_process :: "string \<Rightarrow> string \<Rightarrow> string \<Rightarrow> string \<Rightarrow> string \<Rightarrow> string \<Rightarrow> string + WireStepOutput"
  flow_context_to_json :: "FlowContext \<Rightarrow> string + string"
  form_to_json :: "(string, string) btree_map \<Rightarrow> string + string"
  value_to_json :: "Value \<Rightarrow> string + string"
  locals_from_json :: "string \<Rightarrow> string + (string, Value) btree_map"

record FlowWorld =
  fw_tables :: Tables
  fw_now :: "nat \<Rightarrow> DateTime"
  fw_draw :: "nat \<Rightarrow> AuthnDraw"
  fw_user_id :: "nat \<Rightarrow> UserId"
  fw_tick :: nat

definition parse_user :: "'l KmsLib_scheme \<Rightarrow> string \<Rightarrow> UserId option" where
  "parse_user lib s = (case parse_ulid lib s of Inl _ \<Rightarrow> None | Inr u \<Rightarrow> Some (UserId u))"

text \<open>\<open>serde_json::from_value\<close> on the name of a method: the untagged variant takes any other text.\<close>

definition Amr_from_token_value :: "string \<Rightarrow> Amr" where
  "Amr_from_token_value s =
     (if s = ''pwd'' then Amr_Pwd else if s = ''otp'' then Amr_Otp else if s = ''wbn'' then Amr_Wbn
      else if s = ''sms'' then Amr_Sms else if s = ''email'' then Amr_Email else if s = ''mfa'' then Amr_Mfa
      else if s = ''pop'' then Amr_Pop else Amr_Custom s)"

definition build_context ::
  "'l LoginLib_scheme \<Rightarrow> string \<Rightarrow> DateTime \<Rightarrow> FlowState \<Rightarrow> Tables \<Rightarrow> FlowError + AuthnContext" where
  "build_context lib realm_hash_key now state t =
     (case get_realm (FlowState_realm_id state) t of
        Inl e \<Rightarrow> Inl (FlowError_Internal (''get_realm: '' @ StorageError_to_string e))
      | Inr realm \<Rightarrow>
     (case FlowContext_client_id (FlowState_context state) of
        None \<Rightarrow> Inl (FlowError_Internal (''FlowContext.client_id missing '' @ [CHR 0xE2, CHR 0x80, CHR 0x94] @
          '' OAuth /authorize must populate it''))
      | Some client_id_str \<Rightarrow>
     (case get_client_by_client_id (FlowState_realm_id state) client_id_str t of
        Inl e \<Rightarrow> Inl (FlowError_Internal (''get_client: '' @ StorageError_to_string e))
      | Inr client \<Rightarrow>
          Inr \<lparr>AuthnContext_realm_id = FlowState_realm_id state, AuthnContext_client = client,
               AuthnContext_realm_hash_key = realm_hash_key,
               AuthnContext_user_id = Option.bind (FlowContext_user_id (FlowState_context state)) (parse_user lib),
               AuthnContext_session_id = map_option SessionId (FlowContext_session_id (FlowState_context state)),
               AuthnContext_amr = map Amr_from_token_value (FlowContext_amr (FlowState_context state)),
               AuthnContext_locals = FlowContext_locals (FlowState_context state), AuthnContext_now = now,
               AuthnContext_brute_force = Realm_brute_force realm\<rparr>)))"

definition wasm_binding :: "ProviderRegistry \<Rightarrow> RealmId \<Rightarrow> string \<Rightarrow> ProviderBinding option" where
  "wasm_binding providers realm urn =
     find (\<lambda>b. ProviderBinding_provider_urn b = urn \<and> ProviderBinding_enabled b \<and>
             (case ProviderBinding_origin b of ProviderOrigin_Wasm _ _ \<Rightarrow> True | ProviderOrigin_Builtin \<Rightarrow> False))
       (list_bindings realm (WitInterfaceName wit_AUTHN) providers)"

text \<open>The query of a callback overlaid with its body.\<close>

definition callback_form :: "(string, string) btree_map \<Rightarrow> (string, string) btree_map \<Rightarrow> (string, string) btree_map" where
  "callback_form query body = bt_extend query body"

definition dispatch_wasm ::
  "'l LoginLib_scheme \<Rightarrow> ProviderBinding \<Rightarrow> FlowState \<Rightarrow> StepInput \<Rightarrow> Tables \<Rightarrow> FlowError + AuthnStepOutcome" where
  "dispatch_wasm lib binding state input t =
     (case ProviderBinding_origin binding of
        ProviderOrigin_Builtin \<Rightarrow> Inl (FlowError_Internal ''non-wasm binding in wasm dispatch'')
      | ProviderOrigin_Wasm module_id alias \<Rightarrow>
     (case get_wasm_module (FlowState_realm_id state) alias t of
        Inl e \<Rightarrow> Inl (FlowError_Internal (''get_wasm_module: '' @ StorageError_to_string e))
      | Inr module \<Rightarrow>
     (case wasm_compile lib (WasmModule_bytecode module) of
        Inl e \<Rightarrow> Inl (FlowError_Internal (''wasm compile: '' @ e))
      | Inr runtime \<Rightarrow>
     (case flow_context_to_json lib (FlowState_context state) of
        Inl e \<Rightarrow> Inl (FlowError_Internal (''ctx json: '' @ e))
      | Inr ctx_json \<Rightarrow>
     (case (case input of
              StepInput_Submit m \<Rightarrow> form_to_json lib m
            | StepInput_IdpCallback query body \<Rightarrow> form_to_json lib (callback_form query body)
            | StepInput_Start \<Rightarrow> Inr ''{}'' | StepInput_Resume \<Rightarrow> Inr ''{}'') of
        Inl e \<Rightarrow> Inl (FlowError_Internal (''form json: '' @ e))
      | Inr form_json \<Rightarrow>
     (case value_to_json lib (ProviderBinding_config binding) of
        Inl e \<Rightarrow> Inl (FlowError_Internal (''config json: '' @ e))
      | Inr config_bytes \<Rightarrow>
     (case wasm_process lib runtime (ProviderBinding_provider_urn binding)
             (RealmId_to_string lib (FlowState_realm_id state)) ctx_json form_json config_bytes of
        Inl e \<Rightarrow> Inl (FlowError_Internal (''wasm process: '' @ e))
      | Inr (WireStepOutput_Success payload) \<Rightarrow>
          Inr (AuthnStepOutcome_Success (SuccessPayload_amr payload) 1
            (FlowContext_user_id (FlowState_context state)) (FlowContext_locals (FlowState_context state)))
      | Inr (WireStepOutput_Challenge payload) \<Rightarrow>
          Inr (AuthnStepOutcome_Render \<lparr>RenderInstruction_template = ChallengePayload_template payload,
            RenderInstruction_locals =
              (case locals_from_json lib (ChallengePayload_locals payload) of Inl _ \<Rightarrow> [] | Inr l \<Rightarrow> l)\<rparr>)
      | Inr (WireStepOutput_Failure msg) \<Rightarrow> Inr (AuthnStepOutcome_Failure (FlowFailure_Other msg))
      | Inr WireStepOutput_Skip \<Rightarrow> Inr AuthnStepOutcome_Skip)))))))"

fun map_failure :: "FailureKind \<Rightarrow> FlowFailure" where
  "map_failure FailureKind_InvalidCredential = FlowFailure_InvalidCredential"
| "map_failure FailureKind_UserDisabled = FlowFailure_UserDisabled"
| "map_failure FailureKind_UserNotFound = FlowFailure_UserNotFound"
| "map_failure FailureKind_ConsentDenied = FlowFailure_ConsentDenied"
| "map_failure FailureKind_Locked = FlowFailure_Other ''locked''"
| "map_failure (FailureKind_BrokerError m) = FlowFailure_BrokerError m"
| "map_failure FailureKind_RequiresEnrollment = FlowFailure_Other ''requires-enrollment''"
| "map_failure FailureKind_HighRisk = FlowFailure_Other ''high-risk''"
| "map_failure (FailureKind_Other m) = FlowFailure_Other m"

fun authn_input :: "StepInput \<Rightarrow> AuthnInput" where
  "authn_input StepInput_Start = AuthnInput_Init"
| "authn_input StepInput_Resume = AuthnInput_Resume"
| "authn_input (StepInput_Submit form) = AuthnInput_Submit form"
| "authn_input (StepInput_IdpCallback query body) = AuthnInput_Submit (callback_form query body)"

definition step_outcome ::
  "'l LoginLib_scheme \<Rightarrow> string \<Rightarrow> AuthnError + AuthnOutput \<Rightarrow> AuthnContext \<Rightarrow> FlowError + AuthnStepOutcome" where
  "step_outcome lib urn result ctx =
     (case result of
        Inr (AuthnOutput_Success credentials_satisfied amr) \<Rightarrow>
          Inr (AuthnStepOutcome_Success (map Amr_as_token_value amr) 1
            (map_option (UserId_to_string lib) (AuthnContext_user_id ctx)) (AuthnContext_locals ctx))
      | Inr (AuthnOutput_Continue render) \<Rightarrow>
          Inr (AuthnStepOutcome_Render \<lparr>RenderInstruction_template = AuthnRenderInstruction_template render,
            RenderInstruction_locals = AuthnRenderInstruction_locals render\<rparr>)
      | Inr AuthnOutput_Skip \<Rightarrow> Inr AuthnStepOutcome_Skip
      | Inr (AuthnOutput_Failure kind) \<Rightarrow> Inr (AuthnStepOutcome_Failure (map_failure kind))
      | Inl e \<Rightarrow> Inl (FlowError_Internal (''authenticator '' @ urn @ '' failed: '' @ AuthnError_to_string e)))"

definition dispatcher_dispatch ::
  "'l LoginLib_scheme \<Rightarrow> string \<Rightarrow> ProviderRegistry \<Rightarrow> string \<Rightarrow> FlowState \<Rightarrow> StepInput \<Rightarrow> FlowWorld \<Rightarrow>
   (FlowError + AuthnStepOutcome) \<times> FlowWorld" where
  "dispatcher_dispatch lib realm_hash_key providers urn state input w =
     (case wasm_binding providers (FlowState_realm_id state) urn of
        Some binding \<Rightarrow> (dispatch_wasm lib binding state input (fw_tables w), w)
      | None \<Rightarrow>
     (case build_context lib realm_hash_key (fw_now w (fw_tick w)) state (fw_tables w) of
        Inl e \<Rightarrow> (Inl e, w)
      | Inr ctx \<Rightarrow>
          (let (result, ctx', t') = BuiltinAuthenticators_dispatch lib (fw_draw w (fw_tick w)) urn ctx
                 (authn_input input) (fw_tables w) in
           (step_outcome lib urn result ctx', w\<lparr>fw_tables := t', fw_tick := Suc (fw_tick w)\<rparr>))))"

definition flow_env :: "'l LoginLib_scheme \<Rightarrow> string \<Rightarrow> ProviderRegistry \<Rightarrow> FlowWorld FlowEnv" where
  "flow_env lib realm_hash_key providers =
     \<lparr>utc_now = (\<lambda>w. (fw_now w (fw_tick w), w\<lparr>fw_tick := Suc (fw_tick w)\<rparr>)),
      dispatch = dispatcher_dispatch lib realm_hash_key providers, show_node_id = NodeId_to_string lib,
      parse_user_id = parse_user lib,
      fresh_user_id = (\<lambda>w. (fw_user_id w (fw_tick w), w\<lparr>fw_tick := Suc (fw_tick w)\<rparr>))\<rparr>"

section \<open>Completing a login (\<open>handlers/login_actions.rs\<close>)\<close>

record LoginDraw =
  ld_now :: DateTime
  ld_join_now :: DateTime
  ld_session_now :: DateTime
  ld_session_id :: SessionId
  ld_code :: CodeId
  ld_ref_now :: DateTime
  ld_seen_now :: DateTime
  ld_name_id :: UserId
  ld_name_now :: DateTime
  ld_index_token :: string
  ld_assertion_token :: string
  ld_assertion_now :: DateTime
  ld_rng :: string
  ld_response_token :: string
  ld_response_now :: DateTime

text \<open>A response with its \<open>Set-Cookie\<close> values.\<close>

type_synonym login_response = "Response \<times> string list"

definition rsplit_once :: "char \<Rightarrow> string \<Rightarrow> (string \<times> string) option" where
  "rsplit_once c s = map_option (\<lambda>(a, b). (rev b, rev a)) (split_once c (rev s))"

definition auto_join_org_by_domain ::
  "DateTime \<Rightarrow> Realm \<Rightarrow> UserId \<Rightarrow> Tables \<Rightarrow> (StorageError + string option) \<times> Tables" where
  "auto_join_org_by_domain now realm user_id t =
     (if \<not> OrganizationPolicy_auto_join_on_domain_match (Realm_organization_policy realm) then (Inr None, t)
      else (case get_user (Realm_id realm) user_id t of
        Inl e \<Rightarrow> (Inl e, t)
      | Inr user \<Rightarrow>
      if \<not> User_email_verified user then (Inr None, t)
      else (case User_email user of
        None \<Rightarrow> (Inr None, t)
      | Some email \<Rightarrow>
     (case rsplit_once CHR ''@'' email of
        None \<Rightarrow> (Inr None, t)
      | Some (_, domain) \<Rightarrow>
     (case find_org_by_verified_domain (Realm_id realm) domain t of
        Inl e \<Rightarrow> (Inl e, t)
      | Inr None \<Rightarrow> (Inr None, t)
      | Inr (Some org) \<Rightarrow>
     (case get_org_membership (Realm_id realm) (Organization_id org) user_id t of
        Inr _ \<Rightarrow> (Inr None, t)
      | Inl _ \<Rightarrow>
     (case upsert_org_membership
             \<lparr>OrgMembership_organization_id = Organization_id org, OrgMembership_realm_id = Realm_id realm,
              OrgMembership_user_id = user_id, OrgMembership_roles = [], OrgMembership_joined_at = now,
              OrgMembership_invited_by = None, OrgMembership_state = MembershipState_Active\<rparr> t of
        (Inl e, t') \<Rightarrow> (Inl e, t')
      | (Inr _, t') \<Rightarrow> (Inr (Some (Organization_alias org)), t'))))))))"

definition maybe_auto_join_org_by_domain :: "DateTime \<Rightarrow> Realm \<Rightarrow> UserId \<Rightarrow> AppState \<Rightarrow> AppState" where
  "maybe_auto_join_org_by_domain now realm user_id state =
     snd (with_storage (auto_join_org_by_domain now realm user_id) state)"

definition saml_html_escape :: "string \<Rightarrow> string" where
  "saml_html_escape s = concat (map (\<lambda>c.
     if c = CHR ''&'' then ''&amp;'' else if c = CHR ''<'' then ''&lt;'' else if c = CHR ''>'' then ''&gt;''
     else if c = CHR 0x22 then ''&quot;'' else if c = CHR 0x27 then ''&#39;'' else [c]) s)"

definition acs_auto_post_form :: "string \<Rightarrow> string \<Rightarrow> string option \<Rightarrow> string" where
  "acs_auto_post_form acs_url saml_response_b64 relay_state =
     (let nl = [CHR 0x0A];
          relay_input = (case relay_state of
            Some rs \<Rightarrow> ''<input type=\"hidden\" name=\"RelayState\" value=\"'' @ saml_html_escape rs @ ''\"/>''
          | None \<Rightarrow> []) in
      ''<!DOCTYPE html>'' @ nl @
      ''<html lang=\"en\"><head><meta charset=\"utf-8\"><title>Completing sign-in</title></head>'' @ nl @
      ''<body onload=\"document.forms[0].submit()\">'' @ nl @
      ''<form method=\"POST\" action=\"'' @ saml_html_escape acs_url @ ''\">'' @ nl @
      ''  <input type=\"hidden\" name=\"SAMLResponse\" value=\"'' @ saml_html_escape saml_response_b64 @ ''\"/>'' @ nl @
      ''  '' @ relay_input @ nl @
      ''  <noscript><button type=\"submit\">Continue</button></noscript>'' @ nl @
      ''</form>'' @ nl @ ''</body></html>'')"

definition build_key_info_for_realm :: "'l SamlLib_scheme \<Rightarrow> AppState \<Rightarrow> Realm \<Rightarrow> string + KeyInfoMaterial" where
  "build_key_info_for_realm lib state realm =
     (case active_signing_kid lib (Realm_id realm) RS256 (AppState_kms state) of
        Inl e \<Rightarrow> Inl (KmsError_to_string lib e)
      | Inr kid \<Rightarrow>
     (case load_private lib kid (AppState_kms state) of
        Inl e \<Rightarrow> Inl (KmsError_to_string lib e)
      | Inr (PrivateMaterial_Rs256 rsa) \<Rightarrow>
          (case self_signed_x509 lib rsa (Realm_slug realm) of
             Inl e \<Rightarrow> Inl e
           | Inr der \<Rightarrow> Inr (KeyInfoMaterial_X509Certificate (base64_std_encode lib der)))
      | Inr _ \<Rightarrow> Inl ''active key is not RS256''))"

definition resolve_persistent_name_id ::
  "'l KmsLib_scheme \<Rightarrow> LoginDraw \<Rightarrow> Realm \<Rightarrow> User \<Rightarrow> string \<Rightarrow> AppState \<Rightarrow> (string + string) \<times> AppState" where
  "resolve_persistent_name_id lib draw realm user sp_entity_id state =
     (case get_saml_persistent_id (Realm_id realm) (User_id user) sp_entity_id (AppState_storage state) of
        Inl e \<Rightarrow> (Inl (StorageError_to_string e), state)
      | Inr (Some row) \<Rightarrow> (Inr (SamlPersistentIdRow_name_id row), state)
      | Inr None \<Rightarrow>
          (let name_id = ''g_'' @ UserId_to_string lib (ld_name_id draw);
               row = \<lparr>SamlPersistentIdRow_realm_id = Realm_id realm, SamlPersistentIdRow_user_id = User_id user,
                      SamlPersistentIdRow_sp_entity_id = sp_entity_id, SamlPersistentIdRow_name_id = name_id,
                      SamlPersistentIdRow_created_at = ld_name_now draw\<rparr> in
           case with_storage (save_saml_persistent_id row) state of
             (Inl e, state) \<Rightarrow> (Inl (StorageError_to_string e), state)
           | (Inr _, state) \<Rightarrow> (Inr name_id, state)))"

definition user_attribute :: "string \<Rightarrow> string \<Rightarrow> string \<Rightarrow> SamlAttribute" where
  "user_attribute claim friendly v =
     \<lparr>SamlAttribute_name = ''http://schemas.xmlsoap.org/ws/2005/05/identity/claims/'' @ claim,
      SamlAttribute_name_format = ''urn:oasis:names:tc:SAML:2.0:attrname-format:uri'',
      SamlAttribute_friendly_name = Some friendly, SamlAttribute_values = [v]\<rparr>"

definition default_user_attributes :: "User \<Rightarrow> SamlAttribute list" where
  "default_user_attributes user =
     user_attribute ''name'' ''username'' (User_username user) #
     (case User_email user of Some email \<Rightarrow> [user_attribute ''emailaddress'' ''email'' email] | None \<Rightarrow> []) @
     (case User_name user of
        Some person \<Rightarrow>
          map (user_attribute ''givenname'' ''given_name'') (nonempty_text (PersonName_given person)) @
          map (user_attribute ''surname'' ''family_name'') (nonempty_text (PersonName_family person))
      | None \<Rightarrow> [])"

text \<open>
  The common end of both SAML paths: the subject's name, the assertion, its signature, the response and
  the self-posting form (\<open>try_complete_saml\<close> here, \<open>unsolicited\<close> in \<open>handlers/saml.rs\<close>).
\<close>

definition saml_name_id ::
  "'l KmsLib_scheme \<Rightarrow> LoginDraw \<Rightarrow> Realm \<Rightarrow> User \<Rightarrow> SamlSpClientConfig \<Rightarrow> SessionId \<Rightarrow> AppState \<Rightarrow>
   (string + string) \<times> AppState" where
  "saml_name_id lib draw realm user sp_config session_id state =
     (case SamlSpClientConfig_name_id_format sp_config of
        NameIdFormat_EmailAddress \<Rightarrow> (Inr (unwrap_or (User_email user) (User_username user)), state)
      | NameIdFormat_Unspecified \<Rightarrow> (Inr (User_username user), state)
      | NameIdFormat_Transient \<Rightarrow> (Inr (SessionId_text session_id), state)
      | NameIdFormat_Persistent \<Rightarrow>
          resolve_persistent_name_id lib draw realm user (SamlSpClientConfig_entity_id sp_config) state
      | NameIdFormat_X509SubjectName \<Rightarrow>
          resolve_persistent_name_id lib draw realm user (SamlSpClientConfig_entity_id sp_config) state)"

definition saml_session_index :: "LoginDraw \<Rightarrow> SamlSpClientConfig \<Rightarrow> SessionId \<Rightarrow> string" where
  "saml_session_index draw sp_config session_id =
     (case SamlSpClientConfig_session_index_strategy sp_config of
        SessionIndexStrategy_UseSessionId \<Rightarrow> SessionId_text session_id
      | SessionIndexStrategy_Random \<Rightarrow> ld_index_token draw)"

definition realm_issuer :: "AppState \<Rightarrow> Realm \<Rightarrow> string" where
  "realm_issuer state realm = trim_end_char CHR ''/'' (AppState_public_base_url state) @ ''/realms/'' @ Realm_slug realm"

definition saml_assertion_for ::
  "'l SamlLib_scheme \<Rightarrow> LoginDraw \<Rightarrow> AppState \<Rightarrow> Realm \<Rightarrow> User \<Rightarrow> SamlSpClientConfig \<Rightarrow> string \<Rightarrow> SessionId \<Rightarrow>
   SamlAssertion" where
  "saml_assertion_for lib draw state realm user sp_config name_id session_id =
     (let attrs = (if SamlSpClientConfig_attribute_mappers sp_config = [] then default_user_attributes user
            else apply_attribute_mappers lib user (SamlSpClientConfig_attribute_mappers sp_config)) in
      build_assertion (ld_assertion_token draw) (ld_assertion_now draw) (realm_issuer state realm) sp_config name_id
        (saml_session_index draw sp_config session_id) attrs
        (Some ''urn:oasis:names:tc:SAML:2.0:ac:classes:Password'') 5)"

definition saml_form_response ::
  "'l SamlLib_scheme \<Rightarrow> LoginDraw \<Rightarrow> Realm \<Rightarrow> User \<Rightarrow> SamlSpClientConfig \<Rightarrow> SessionId \<Rightarrow> string \<Rightarrow> string option \<Rightarrow>
   string option \<Rightarrow> AppState \<Rightarrow> Response \<times> AppState" where
  "saml_form_response lib draw realm user sp_config session_id acs_url in_response_to relay_state state =
     (case saml_name_id lib draw realm user sp_config session_id state of
        (Inl e, state) \<Rightarrow> (Response 500 (Body_Text (''persistent NameID resolve failed: '' @ e)), state)
      | (Inr name_id, state) \<Rightarrow>
     (let assertion = saml_assertion_for lib draw state realm user sp_config name_id session_id;
          assertion_xml = serialize_assertion lib assertion in
      case active_signing_kid lib (Realm_id realm) RS256 (AppState_kms state) of
        Inl e \<Rightarrow> (Response 500 (Body_Text (''no active RS256 key: '' @ KmsError_to_string lib e)), state)
      | Inr kid \<Rightarrow>
     (let key_info = (case build_key_info_for_realm lib state realm of
            Inr k \<Rightarrow> k | Inl _ \<Rightarrow> KeyInfoMaterial_RsaKeyValue [] ''AQAB'') in
      case sign_assertion lib (ld_rng draw) (AppState_kms state) (Realm_id realm) kid (SamlAssertion_id assertion)
             assertion_xml key_info of
        Inl e \<Rightarrow> (Response 500 (Body_Text (''assertion sign failed: '' @ SignError_to_string e)), state)
      | Inr signed_xml \<Rightarrow>
          (let response_xml = serialize_response lib (''_resp_'' @ ld_response_token draw) (ld_response_now draw)
                 (realm_issuer state realm) acs_url in_response_to signed_xml in
           (Response 200 (Body_Html (acs_auto_post_form acs_url (base64_std_encode lib response_xml) relay_state)),
            state)))))"

definition try_complete_saml ::
  "'l SamlLib_scheme \<Rightarrow> LoginDraw \<Rightarrow> Realm \<Rightarrow> Client \<Rightarrow> User \<Rightarrow> params \<Rightarrow> SessionId \<Rightarrow> AppState \<Rightarrow>
   Response option \<times> AppState" where
  "try_complete_saml lib draw realm client user p session_id state =
     (case map_of p ''__geonosis_saml_request_id'' of
        None \<Rightarrow> (None, state)
      | Some saml_request_id \<Rightarrow>
     (case map_of p ''__geonosis_saml_acs_url'' of
        None \<Rightarrow> (None, state)
      | Some acs_url \<Rightarrow>
     (case Client_saml_sp_config client of
        None \<Rightarrow> (None, state)
      | Some raw_config \<Rightarrow>
     (case SamlSpClientConfig_try_from_value lib raw_config of
        Inl e \<Rightarrow> (Some (Response 500 (Body_Text (''SAML SP config decode failed: '' @ SamlIdpError_to_string e))), state)
      | Inr sp_config \<Rightarrow>
          (let (resp, state) = saml_form_response lib draw realm user sp_config session_id acs_url
                 (Some saml_request_id) (map_of p ''__geonosis_saml_relay_state'') state in
           (Some resp, state))))))"

definition login_session :: "LoginDraw \<Rightarrow> Realm \<Rightarrow> UserId \<Rightarrow> Session" where
  "login_session draw realm user_id =
     \<lparr>Session_id = ld_session_id draw, Session_realm_id = Realm_id realm, Session_user_id = user_id,
      Session_authn_level = AuthnLevel_Single, Session_idp_alias = None, Session_started_at = ld_session_now draw,
      Session_last_seen_at = ld_session_now draw,
      Session_expires_at = ld_session_now draw +
        unwrap_or (chrono_from_std (SessionPolicy_sso_session_max (Realm_session_policy realm))) 0,
      Session_clients = []\<rparr>"

definition acr_of_count :: "i32 \<Rightarrow> string option" where
  "acr_of_count n =
     (if n = 0 then None else if n = 1 then Some ''urn:geonosis:acr:password''
      else if n \<ge> 2 then Some ''urn:geonosis:acr:mfa'' else None)"

definition login_grant :: "LoginDraw \<Rightarrow> Realm \<Rightarrow> Client \<Rightarrow> UserId \<Rightarrow> FlowStateRow \<Rightarrow> Url \<Rightarrow> CodeGrant" where
  "login_grant draw realm client user_id row redirect_uri =
     (let p = FlowStateRow_authorize_params row; ctx = FlowState_context (FlowStateRow_state row) in
      \<lparr>CodeGrant_code = ld_code draw, CodeGrant_realm_id = Realm_id realm, CodeGrant_client_id = Client_id client,
       CodeGrant_user_id = user_id, CodeGrant_session_id = ld_session_id draw,
       CodeGrant_scope = (case parse_scope_string (unwrap_or (map_of p ''scope'') []) of Inl _ \<Rightarrow> [] | Inr s \<Rightarrow> s),
       CodeGrant_redirect_uri = redirect_uri,
       CodeGrant_code_challenge = map_option (\<lambda>c. \<lparr>CodeChallenge_method = CodeChallengeMethod_S256,
         CodeChallenge_challenge = c\<rparr>) (map_of p ''code_challenge''),
       CodeGrant_nonce = map_of p ''nonce'', CodeGrant_state = map_of p ''state'',
       CodeGrant_amr = map Amr_from_token_value (FlowContext_amr ctx),
       CodeGrant_acr = acr_of_count (FlowContext_authn_level ctx), CodeGrant_auth_time = ld_session_now draw,
       CodeGrant_created_at = ld_session_now draw,
       CodeGrant_expires_at = ld_session_now draw +
         unwrap_or (chrono_from_std (TokenPolicy_auth_code_lifespan (Realm_token_policy realm))) (chrono_seconds 60)\<rparr>)"

definition session_cookie :: "SessionId \<Rightarrow> Realm \<Rightarrow> string" where
  "session_cookie session_id realm =
     ''geonosis_sid='' @ SessionId_text session_id @ ''; Path=/realms/'' @ Realm_slug realm @ ''; HttpOnly; SameSite=Lax''"

text \<open>A header value takes every byte but the control characters other than tab.\<close>

definition is_header_char :: "char \<Rightarrow> bool" where
  "is_header_char c = (let n = of_char c :: nat in n = 9 \<or> (32 \<le> n \<and> n \<noteq> 127))"

definition complete_oidc ::
  "'l HttpLib_scheme \<Rightarrow> LoginDraw \<Rightarrow> Realm \<Rightarrow> Client \<Rightarrow> UserId \<Rightarrow> FlowStateRow \<Rightarrow> AppState \<Rightarrow> login_response \<times> AppState" where
  "complete_oidc lib draw realm client user_id row state =
     (let p = FlowStateRow_authorize_params row in
      case Option.bind (map_of p ''redirect_uri'') (\<lambda>s. case url_parse lib s of Inl _ \<Rightarrow> None | Inr u \<Rightarrow> Some u) of
        None \<Rightarrow> ((Response 400 (Body_Text ''missing/invalid redirect_uri in flow state''), []), state)
      | Some redirect_uri \<Rightarrow>
     (case with_storage (save_code_grant (login_grant draw realm client user_id row redirect_uri)) state of
        (Inl e, state) \<Rightarrow> ((Response 500 (Body_Text (''code save failed: '' @ StorageError_to_string e)), []), state)
      | (Inr _, state) \<Rightarrow>
          (let state = snd (with_storage (delete_flow_state (FlowState_id (FlowStateRow_state row))) state);
               url = url_append_pair lib redirect_uri ''code'' (CodeId_text (ld_code draw));
               url = (case map_of p ''state'' of Some s \<Rightarrow> url_append_pair lib url ''state'' s | None \<Rightarrow> url);
               cookie = session_cookie (ld_session_id draw) realm in
           ((Response_Redirect url, if list_all is_header_char cookie then [cookie] else []), state))))"

definition track_participation :: "'l SamlLib_scheme \<Rightarrow> LoginDraw \<Rightarrow> Client \<Rightarrow> AppState \<Rightarrow> AppState" where
  "track_participation lib draw client state =
     (case get_session (ld_session_id draw) (AppState_storage state) of
        Inl _ \<Rightarrow> state
      | Inr session \<Rightarrow>
          (let backchannel = (case Option.bind (Client_saml_sp_config client)
                   (\<lambda>v. case SamlSpClientConfig_try_from_value lib v of Inl _ \<Rightarrow> None | Inr c \<Rightarrow> Some c) of
                 Some c \<Rightarrow> SamlSpClientConfig_slo_url c \<noteq> None | None \<Rightarrow> False) in
           snd (with_storage (update_session (session\<lparr>Session_clients := Session_clients session @
             [\<lparr>ClientSessionRef_client_id = Client_id client, ClientSessionRef_last_seen_at = ld_ref_now draw,
               ClientSessionRef_frontchannel_logout = False, ClientSessionRef_backchannel_logout = backchannel\<rparr>],
             Session_last_seen_at := ld_seen_now draw\<rparr>)) state)))"

text \<open>The part after the session has been created and announced.\<close>

definition complete_login ::
  "'l SamlLib_scheme \<Rightarrow> LoginDraw \<Rightarrow> Realm \<Rightarrow> FlowStateRow \<Rightarrow> UserId \<Rightarrow> AppState \<Rightarrow> login_response \<times> AppState" where
  "complete_login lib draw realm row user_id state =
     (let p = FlowStateRow_authorize_params row in
      case map_of p ''client_id'' of
        None \<Rightarrow> ((Response 400 (Body_Text ''missing client_id in flow state''), []), state)
      | Some client_id \<Rightarrow>
     (case get_client_by_client_id (Realm_id realm) client_id (AppState_storage state) of
        Inl _ \<Rightarrow> ((Response 400 (Body_Text ''unknown client''), []), state)
      | Inr client \<Rightarrow>
      if map_of p ''__geonosis_saml_request_id'' = None
      then complete_oidc lib draw realm client user_id row state
      else (case get_user (Realm_id realm) user_id (AppState_storage state) of
        Inl _ \<Rightarrow> ((Response 500 (Body_Text ''SAML completion: user lookup failed''), []), state)
      | Inr user \<Rightarrow>
     (case try_complete_saml lib draw realm client user p (ld_session_id draw) state of
        (Some resp, state) \<Rightarrow>
          (let state = track_participation lib draw client state;
               state = snd (with_storage (delete_flow_state (FlowState_id (FlowStateRow_state row))) state) in
           ((resp, []), state))
      | (None, state) \<Rightarrow> complete_oidc lib draw realm client user_id row state))))"

definition mint_code_and_redirect ::
  "'l SamlLib_scheme \<Rightarrow> LoginDraw \<Rightarrow> Realm \<Rightarrow> FlowStateRow \<Rightarrow> AppState \<Rightarrow> login_response \<times> AppState" where
  "mint_code_and_redirect lib draw realm row state =
     (case Option.bind (FlowContext_user_id (FlowState_context (FlowStateRow_state row))) (parse_user lib) of
        None \<Rightarrow> ((Response 500 (Body_Text ''flow completed without resolving user_id''), []), state)
      | Some user_id \<Rightarrow>
     (let state = maybe_auto_join_org_by_domain (ld_join_now draw) realm user_id state in
      case with_storage (create_session (login_session draw realm user_id)) state of
        (Inl e, state) \<Rightarrow> ((Response 500 (Body_Text (''session create failed: '' @ StorageError_to_string e)), []), state)
      | (Inr _, state) \<Rightarrow>
          (let state = Server_Base.count MetricsState_session_created_update [Realm_slug realm] state;
               state = emit_user (Realm_id realm) user_id LOGIN_SUCCESS (Some (Target_Session (ld_session_id draw)))
                 (Value_Object [(''flow'', Value_String ''browser'')]) state in
           complete_login lib draw realm row user_id state)))"

section \<open>The login form handler\<close>

record AuthForm =
  AuthForm_flow_state_id :: string
  AuthForm_username :: string
  AuthForm_password :: string

definition browser_definition :: "Realm \<Rightarrow> FlowState \<Rightarrow> Tables \<Rightarrow> StorageError + FlowDefinition" where
  "browser_definition realm flow_state t =
     (let versioned =
            (if FlowState_flow_version flow_state > 0
             then (case get_auth_flow_by_alias_and_version (Realm_id realm) alias_BROWSER
                          (FlowState_flow_version flow_state) t of Inl _ \<Rightarrow> None | Inr d \<Rightarrow> Some d)
             else None) in
      case versioned of Some d \<Rightarrow> Inr d | None \<Rightarrow> get_auth_flow_by_alias (Realm_id realm) alias_BROWSER t)"

definition anchored :: "CompiledFlow \<Rightarrow> FlowState \<Rightarrow> FlowState" where
  "anchored compiled state =
     (if hm_contains_key (CompiledFlow_by_id compiled) (FlowState_current_node state) then state
      else state\<lparr>FlowState_current_node := FlowDefinition_start (CompiledFlow_definition compiled),
                 FlowState_flow_id := FlowDefinition_id (CompiledFlow_definition compiled)\<rparr>)"

definition login_form :: "AuthForm \<Rightarrow> FormBody" where
  "login_form form = bt_insert ''password'' (AuthForm_password form) (bt_insert ''username'' (AuthForm_username form) [])"

text \<open>
  What the handler does with the outcome of the executor. A run that does not return, and a panic,
  give no response.
\<close>

definition finish_login ::
  "'l LoginLib_scheme \<Rightarrow> LoginDraw \<Rightarrow> Realm \<Rightarrow> FlowStateId \<Rightarrow> AuthForm \<Rightarrow> FlowStateRow \<Rightarrow>
   StepResult \<times> FlowState \<times> FlowWorld \<Rightarrow> AppState \<Rightarrow> (login_response \<times> AppState) option" where
  "finish_login lib draw realm flow_state_id form row result state =
     (let (outcome, flow_state, w) = result;
          row = row\<lparr>FlowStateRow_state := flow_state\<rparr>;
          state = state\<lparr>AppState_storage := fw_tables w\<rparr> in
      case outcome of
        StepResult_Panic \<Rightarrow> None
      | StepResult_Err FlowError_Expired \<Rightarrow>
          Some ((Response 400 (Body_Text ''flow state expired''), []),
            snd (with_storage (delete_flow_state flow_state_id) state))
      | StepResult_Err e \<Rightarrow>
          Some ((Response 500 (Body_Text (''flow step failed: '' @ FlowError_to_string e)), []), state)
      | StepResult_Ok (StepOutput_Done _) \<Rightarrow> Some (mint_code_and_redirect lib draw realm row state)
      | StepResult_Ok (StepOutput_Failed _) \<Rightarrow>
          Some ((Response 401 (Body_Text ''invalid username or password''), []),
            emit_system (Realm_id realm) LOGIN_FAILURE None
              (Value_Object [(''flow'', Value_String ''browser''),
                (''username'', Value_String (AuthForm_username form))]) state)
      | StepResult_Ok _ \<Rightarrow>
          Some (case with_storage (save_flow_state row) state of
             (Inl e, state) \<Rightarrow>
               ((Response 500 (Body_Text (''flow_state save failed: '' @ StorageError_to_string e)), []), state)
           | (Inr _, state) \<Rightarrow> ((Response 200 (Body_Text ''flow step accepted; resume''), []), state)))"

definition authenticate_post ::
  "'l LoginLib_scheme \<Rightarrow> LoginDraw \<Rightarrow> ProviderRegistry \<Rightarrow> FlowWorld \<Rightarrow> string \<Rightarrow> AuthForm \<Rightarrow> AppState \<Rightarrow>
   (login_response \<times> AppState) option" where
  "authenticate_post lib draw providers w slug form state =
     (case get_realm_by_slug slug (AppState_storage state) of
        Inl _ \<Rightarrow> Some ((Response 404 (Body_Text ''realm not found''), []), state)
      | Inr realm \<Rightarrow>
     (case parse_ulid lib (AuthForm_flow_state_id form) of
        Inl _ \<Rightarrow> Some ((Response 400 (Body_Text ''invalid flow_state_id''), []), state)
      | Inr ulid \<Rightarrow>
     (let flow_state_id = FlowStateId ulid in
      case get_flow_state flow_state_id (AppState_storage state) of
        Inl _ \<Rightarrow> Some ((Response 400 (Body_Text ''unknown / expired flow state''), []), state)
      | Inr row \<Rightarrow>
      if FlowState_expires_at (FlowStateRow_state row) < ld_now draw
      then Some ((Response 400 (Body_Text ''flow state expired''), []),
             snd (with_storage (delete_flow_state flow_state_id) state))
      else if FlowState_realm_id (FlowStateRow_state row) \<noteq> Realm_id realm
      then Some ((Response 400 (Body_Text ''realm mismatch''), []), state)
      else (case browser_definition realm (FlowStateRow_state row) (AppState_storage state) of
        Inl _ \<Rightarrow> Some ((Response 500 (Body_Text ''realm has no `browser` flow installed''), []), state)
      | Inr def \<Rightarrow>
     (case compile def of
        Inl e \<Rightarrow> Some ((Response 500 (Body_Text (''flow compile failed: '' @ CompileError_to_string lib e)), []), state)
      | Inr compiled \<Rightarrow>
     (case map_of (FlowStateRow_authorize_params row) ''client_id'' of
        None \<Rightarrow> Some ((Response 400 (Body_Text ''missing client_id in flow state''), []), state)
      | Some client_id \<Rightarrow>
          (let flow_state = anchored compiled (FlowStateRow_state row);
               flow_state = flow_state\<lparr>FlowState_context := (FlowState_context flow_state)
                 \<lparr>FlowContext_client_id := Some client_id, FlowContext_username := Some (AuthForm_username form)\<rparr>\<rparr> in
           Option.bind (step (flow_env lib (AppState_refresh_hash_key state) providers) compiled flow_state
               (StepInput_Submit (login_form form)) (w\<lparr>fw_tables := AppState_storage state\<rparr>))
             (\<lambda>result. finish_login lib draw realm flow_state_id form row result state))))))))"

end
