(* ===== verification/Login_Sound.thy ===== *)
theory Login_Sound
  imports Server_Login
begin

text \<open>
  What an interactive login guarantees. The built-in browser flow is executed node by node over the real
  dispatcher: the executor, the bridge, the cookie, password and required-action authenticators and the
  handler that issues the code are composed as the server composes them.
\<close>

section \<open>What the authenticators of the browser flow establish\<close>

text \<open>The account a submitted form proves the password of.\<close>

definition password_verified :: "'l HttpLib_scheme \<Rightarrow> RealmId \<Rightarrow> DateTime \<Rightarrow> params \<Rightarrow> User \<Rightarrow> Tables \<Rightarrow> bool" where
  "password_verified lib realm now form user t \<longleftrightarrow>
     (\<exists>name pw phc. map_of form ''username'' = Some name \<and> map_of form ''password'' = Some pw \<and>
        get_user_by_username realm name t = Inr user \<and> User_enabled user \<and>
        \<not> (\<exists>until. check_locked realm (User_id user) now t = Inl (BruteForceError_Locked until)) \<and>
        get_password_hash realm (User_id user) t = Inr phc \<and> verify_password lib pw phc = Inr True)"

lemma password_success:
  assumes "PasswordAuthenticator_process lib ctx (AuthnInput_Submit form) t = (Inr (AuthnOutput_Success ks ms), ctx', t')"
  obtains user where "password_verified lib (AuthnContext_realm_id ctx) (AuthnContext_now ctx) form user t"
    "AuthnContext_user_id ctx' = Some (User_id user)" "AuthnContext_locals ctx' = AuthnContext_locals ctx"
    "ms = [Amr_Pwd]" "t' = snd (record_success (AuthnContext_realm_id ctx) (User_id user) t)"
  using assms
  by (auto simp: PasswordAuthenticator_process_def password_verified_def record_amr_def
      split: option.splits sum.splits bool.splits if_splits BruteForceError.splits)

lemma cookie_success:
  assumes "CookieAuthenticator_process ctx input t = (Inr (AuthnOutput_Success ks ms), ctx', t')"
  obtains sid session where "AuthnContext_session_id ctx = Some sid" "get_session sid t = Inr session"
    "Session_realm_id session = AuthnContext_realm_id ctx" "AuthnContext_now ctx \<le> Session_expires_at session"
    "AuthnContext_user_id ctx' = Some (Session_user_id session)" "t' = t"
proof -
  from assms obtain sid where sid: "AuthnContext_session_id ctx = Some sid"
    by (auto simp: CookieAuthenticator_process_def split: option.splits)
  with assms obtain session where session: "get_session sid t = Inr session"
    by (auto simp: CookieAuthenticator_process_def split: sum.splits)
  show thesis
  proof (rule that [OF sid session])
    show "Session_realm_id session = AuthnContext_realm_id ctx" "AuthnContext_now ctx \<le> Session_expires_at session"
      "AuthnContext_user_id ctx' = Some (Session_user_id session)" "t' = t"
      using assms by (auto simp: CookieAuthenticator_process_def sid session record_amr_def split: if_splits)
  qed
qed

lemma cookie_never_fails:
  "fst (CookieAuthenticator_process ctx input t) \<noteq> Inl e"
  "fst (CookieAuthenticator_process ctx input t) \<noteq> Inr (AuthnOutput_Failure k)"
  "fst (CookieAuthenticator_process ctx input t) \<noteq> Inr (AuthnOutput_Continue r)"
  by (auto simp: CookieAuthenticator_process_def split: option.splits sum.splits)

lemma cookie_store: "snd (snd (CookieAuthenticator_process ctx input t)) = t"
  by (auto simp: CookieAuthenticator_process_def split: option.splits sum.splits)

section \<open>The nodes of the browser flow\<close>

lemma browser_node:
  assumes "compile (browser fid ids realm) = Inr flow" "inj ids"
  shows "CompiledFlow_node flow (ids 0) = Some (node_start (ids 0))"
    "CompiledFlow_node flow (ids 1) = Some (node_authn (ids 1) ''cookie SSO'' urn_COOKIE Requirement_Optional)"
    "CompiledFlow_node flow (ids 2) = Some (node_render (ids 2) ''login form'' ''login'')"
    "CompiledFlow_node flow (ids 3) = Some (node_authn (ids 3) ''password'' urn_PASSWORD Requirement_Required)"
    "CompiledFlow_node flow (ids 4) = Some (node_authn (ids 4) ''required actions'' urn_REQUIRE_ACTION Requirement_Optional)"
    "CompiledFlow_node flow (ids 5) = Some (node_success (ids 5))"
    "CompiledFlow_node flow (ids 6) = Some (node_failure (ids 6) ''authentication failed'')"
  using assms(2)
  by (simp_all add: compile_Inr(3) [OF assms(1)] browser_def flow_defs inj_eq)

lemma browser_next:
  assumes "compile (browser fid ids realm) = Inr flow" "inj ids"
  shows "next_with_guard flow (ids 0) EdgeCondition_Otherwise ctx = Some (ids 1)"
    "next_with_guard flow (ids 1) EdgeCondition_Success ctx = Some (ids 5)"
    "next_with_guard flow (ids 1) EdgeCondition_Otherwise ctx = Some (ids 2)"
    "next_with_guard flow (ids 2) EdgeCondition_Success ctx = Some (ids 3)"
    "next_with_guard flow (ids 3) EdgeCondition_Success ctx = Some (ids 4)"
    "next_with_guard flow (ids 3) EdgeCondition_Failure ctx = Some (ids 6)"
    "next_with_guard flow (ids 3) EdgeCondition_Otherwise ctx = None"
    "next_with_guard flow (ids 4) EdgeCondition_Success ctx = Some (ids 5)"
    "next_with_guard flow (ids 4) EdgeCondition_Otherwise ctx = Some (ids 5)"
    "next_with_guard flow (ids 4) EdgeCondition_Failure ctx = Some (ids 5)"
  using assms(2)
  by (simp_all add: next_with_guard_compiled [OF assms(1)] edges_from_def browser_def flow_defs inj_eq eval_guard_def)

section \<open>One run of the browser flow\<close>

text \<open>
  A user whom a submitted form, or the session that the flow carries, identifies at some reading of the
  clock of the request.
\<close>

definition identified ::
  "'l HttpLib_scheme \<Rightarrow> (nat \<Rightarrow> DateTime) \<Rightarrow> RealmId \<Rightarrow> params \<Rightarrow> FlowContext \<Rightarrow> Tables \<Rightarrow> UserId \<Rightarrow> bool" where
  "identified lib clock realm form ctx t u \<longleftrightarrow>
     (\<exists>user k. password_verified lib realm (clock k) form user t \<and> u = User_id user) \<or>
     (\<exists>sid session k. FlowContext_session_id ctx = Some sid \<and> get_session (SessionId sid) t = Inr session \<and>
        Session_realm_id session = realm \<and> clock k \<le> Session_expires_at session \<and> u = Session_user_id session)"

definition login_inv ::
  "'l LoginLib_scheme \<Rightarrow> (nat \<Rightarrow> DateTime) \<Rightarrow> (nat \<Rightarrow> NodeId) \<Rightarrow> RealmId \<Rightarrow> params \<Rightarrow> FlowContext \<Rightarrow> Tables \<Rightarrow>
   FlowState \<Rightarrow> FlowWorld \<Rightarrow> bool" where
  "login_inv lib clock ids realm form ctx t s w \<longleftrightarrow>
     FlowState_realm_id s = realm \<and> codes (fw_tables w) = codes t \<and> fw_now w = clock \<and>
     ((\<exists>k\<in>{0, 1, 2, 3}. FlowState_current_node s = ids k) \<and> FlowState_context s = ctx \<and> fw_tables w = t \<or>
      (\<exists>k\<in>{4, 5}. FlowState_current_node s = ids k) \<and>
        (\<exists>u. FlowContext_user_id (FlowState_context s) = Some (UserId_to_string lib u) \<and> identified lib clock realm form ctx t u) \<or>
      FlowState_current_node s = ids 6)"

lemma flow_env_simps [simp]:
  "utc_now (flow_env lib key providers) w = (fw_now w (fw_tick w), w\<lparr>fw_tick := Suc (fw_tick w)\<rparr>)"
  "dispatch (flow_env lib key providers) = dispatcher_dispatch lib key providers"
  "parse_user_id (flow_env lib key providers) = parse_user lib"
  by (simp_all add: flow_env_def)

lemma push_history_env:
  "push_history (flow_env lib key providers) i out s w =
     (s\<lparr>FlowState_history := FlowState_history s @
        [\<lparr>FlowHistoryEntry_node = i, FlowHistoryEntry_at = fw_now w (fw_tick w), FlowHistoryEntry_outcome = out\<rparr>]\<rparr>,
      w\<lparr>fw_tick := Suc (fw_tick w)\<rparr>)"
  by (simp add: push_history_def)

lemma record_success_codes: "codes (snd (record_success realm u t)) = codes t"
  by (auto simp: record_success_def update_user_def split: sum.split if_splits)

lemma record_failure_codes: "codes (snd (record_failure realm u p now t)) = codes t"
  by (auto simp: record_failure_def update_user_def Let_def split: sum.split)

lemma password_codes: "codes (snd (snd (PasswordAuthenticator_process lib ctx input t))) = codes t"
  by (auto simp: PasswordAuthenticator_process_def record_success_codes record_failure_codes
      split: AuthnInput.split option.split sum.split bool.split)

lemma require_action_codes: "codes (snd (snd (RequireActionAuthenticator_process ctx input t))) = codes t"
  by (auto simp: RequireActionAuthenticator_process_def update_user_def
      split: AuthnInput.split option.split sum.split list.split)

lemma require_action_user:
  assumes "RequireActionAuthenticator_process ctx input t = (r, ctx', t')"
  shows "ctx' = ctx"
  using assms
  by (auto simp: RequireActionAuthenticator_process_def
      split: AuthnInput.splits option.splits sum.splits list.splits if_splits prod.splits)

text \<open>The built-in branch of the dispatcher.\<close>

lemma dispatch_builtin:
  assumes "wasm_binding providers (FlowState_realm_id s) urn = None"
    and "dispatcher_dispatch lib key providers urn s input w = (Inr out, w')"
  obtains ctx result ctx' where
    "build_context lib key (fw_now w (fw_tick w)) s (fw_tables w) = Inr ctx"
    "BuiltinAuthenticators_dispatch lib (fw_draw w (fw_tick w)) urn ctx (authn_input input) (fw_tables w) =
       (result, ctx', fw_tables w')" "fw_now w' = fw_now w"
    "step_outcome lib urn result ctx' = Inr out"
  using assms by (auto simp: dispatcher_dispatch_def split: sum.splits prod.splits)

lemma build_context_fields:
  assumes "build_context lib key now s t = Inr ctx"
  shows "AuthnContext_realm_id ctx = FlowState_realm_id s" "AuthnContext_now ctx = now"
    "AuthnContext_user_id ctx = Option.bind (FlowContext_user_id (FlowState_context s)) (parse_user lib)"
    "AuthnContext_session_id ctx = map_option SessionId (FlowContext_session_id (FlowState_context s))"
  using assms by (auto simp: build_context_def split: sum.splits option.splits)

lemma step_outcome_Success:
  assumes "step_outcome lib urn result ctx = Inr (AuthnStepOutcome_Success amr delta uid locals)"
  obtains ks ms where "result = Inr (AuthnOutput_Success ks ms)" "amr = map Amr_as_token_value ms" "delta = 1"
    "uid = map_option (UserId_to_string lib) (AuthnContext_user_id ctx)" "locals = AuthnContext_locals ctx"
  using assms by (auto simp: step_outcome_def split: sum.splits AuthnOutput.splits)

text \<open>Where an authenticator node of the flow leads, and what it leaves in the context.\<close>

lemma exec_authn:
  assumes "exec_authenticator (flow_env lib key providers) flow input i urn s w = Control_Continue s' w'"
    and "wasm_binding providers (FlowState_realm_id s) urn = None"
  obtains (success) ctx ks ms ctx' where
      "build_context lib key (fw_now w (fw_tick w)) s (fw_tables w) = Inr ctx"
      "BuiltinAuthenticators_dispatch lib (fw_draw w (fw_tick w)) urn ctx (authn_input input) (fw_tables w) =
         (Inr (AuthnOutput_Success ks ms), ctx', fw_tables w')"
      "FlowContext_user_id (FlowState_context s') = (case AuthnContext_user_id ctx' of
         Some u \<Rightarrow> Some (UserId_to_string lib u) | None \<Rightarrow> FlowContext_user_id (FlowState_context s))"
      "\<exists>c. next_or_otherwise flow i EdgeCondition_Success c = Some (FlowState_current_node s')"
      "FlowState_realm_id s' = FlowState_realm_id s" "fw_now w' = fw_now w"
  | (skip) ctx ctx' where
      "build_context lib key (fw_now w (fw_tick w)) s (fw_tables w) = Inr ctx"
      "BuiltinAuthenticators_dispatch lib (fw_draw w (fw_tick w)) urn ctx (authn_input input) (fw_tables w) =
         (Inr AuthnOutput_Skip, ctx', fw_tables w')"
      "FlowState_context s' = FlowState_context s"
      "\<exists>c. next_with_guard flow i EdgeCondition_Otherwise c = Some (FlowState_current_node s')"
      "FlowState_realm_id s' = FlowState_realm_id s" "fw_now w' = fw_now w"
  | (failure) ctx ctx' k where
      "build_context lib key (fw_now w (fw_tick w)) s (fw_tables w) = Inr ctx"
      "BuiltinAuthenticators_dispatch lib (fw_draw w (fw_tick w)) urn ctx (authn_input input) (fw_tables w) =
         (Inr (AuthnOutput_Failure k), ctx', fw_tables w')"
      "FlowState_context s' = FlowState_context s"
      "\<exists>c. next_with_guard flow i EdgeCondition_Failure c = Some (FlowState_current_node s')"
      "FlowState_realm_id s' = FlowState_realm_id s" "fw_now w' = fw_now w"
proof -
  let ?env = "flow_env lib key providers"
  obtain r w1 where d: "dispatch ?env urn s input w = (r, w1)" by fastforce
  from assms(1) d obtain out where out: "r = Inr out"
    by (cases r) (auto simp: exec_authenticator_def)
  from d out have d': "dispatcher_dispatch lib key providers urn s input w = (Inr out, w1)" by simp
  from assms(2) d' obtain ctx result ctx' where c:
      "build_context lib key (fw_now w (fw_tick w)) s (fw_tables w) = Inr ctx"
      "BuiltinAuthenticators_dispatch lib (fw_draw w (fw_tick w)) urn ctx (authn_input input) (fw_tables w) =
         (result, ctx', fw_tables w1)" "fw_now w1 = fw_now w" "step_outcome lib urn result ctx' = Inr out"
    by (rule dispatch_builtin)
  have ex: "exec_authenticator ?env flow input i urn s w = Control_Continue s' w'" by (rule assms(1))
  show thesis
  proof (cases out)
    case (AuthnStepOutcome_Render x)
    with ex d out show ?thesis by (simp add: exec_authenticator_def)
  next
    case (AuthnStepOutcome_Success amr delta uid locals)
    with c(4) obtain ks ms where "result = Inr (AuthnOutput_Success ks ms)"
        "uid = map_option (UserId_to_string lib) (AuthnContext_user_id ctx')"
      by (auto elim: step_outcome_Success)
    with ex d out AuthnStepOutcome_Success c show ?thesis
      by (intro success [of ctx ks ms ctx'])
        (auto simp: exec_authenticator_def push_history_env goto_Continue merge_success_def Let_def split: option.splits)
  next
    case AuthnStepOutcome_Skip
    with c(4) have "result = Inr AuthnOutput_Skip" by (auto simp: step_outcome_def split: sum.splits AuthnOutput.splits)
    with ex d out AuthnStepOutcome_Skip c show ?thesis
      by (intro skip [of ctx ctx']) (auto simp: exec_authenticator_def push_history_env goto_Continue)
  next
    case (AuthnStepOutcome_Failure reason)
    with c(4) obtain k where "result = Inr (AuthnOutput_Failure k)"
      by (auto simp: step_outcome_def split: sum.splits AuthnOutput.splits)
    with ex d out AuthnStepOutcome_Failure c show ?thesis
      by (intro failure [of ctx k ctx']) (auto simp: exec_authenticator_def push_history_env split: option.splits)
  qed
qed

lemma dispatch_urns:
  "BuiltinAuthenticators_dispatch lib draw urn_COOKIE ctx input t = CookieAuthenticator_process ctx input t"
  "BuiltinAuthenticators_dispatch lib draw urn_PASSWORD ctx input t = PasswordAuthenticator_process lib ctx input t"
  "BuiltinAuthenticators_dispatch lib draw urn_REQUIRE_ACTION ctx input t = RequireActionAuthenticator_process ctx input t"
  by (simp_all add: BuiltinAuthenticators_dispatch_def builtin_names)

text \<open>The texts of identifiers read back.\<close>

definition ulid_law :: "'l KmsLib_scheme \<Rightarrow> bool" where
  "ulid_law lib \<longleftrightarrow> (\<forall>u. parse_ulid lib (show_ulid lib u) = Inr u)"

lemma parse_user_text: "ulid_law lib \<Longrightarrow> parse_user lib (UserId_to_string lib u) = Some u"
  by (cases u) (simp add: ulid_law_def parse_user_def)

lemma ids_distinct:
  assumes "inj ids"
  shows "ids (j :: nat) = ids k \<longleftrightarrow> j = k"
  using assms by (simp add: inj_eq)

lemma login_inv_entry:
  assumes "FlowState_realm_id s = realm" "FlowState_current_node s = ids 0" "FlowState_context s = ctx"
    "fw_tables w = t" "fw_now w = clock"
  shows "login_inv lib clock ids realm form ctx t s w"
  using assms by (auto simp: login_inv_def)

lemma login_inv_cookie:
  assumes "compile (browser fid ids realm) = Inr flow" "inj ids" "wasm_binding providers realm urn_COOKIE = None"
    and "FlowState_realm_id s = realm" "FlowState_context s = ctx" "fw_tables w = t" "fw_now w = clock"
    and "exec_authenticator (flow_env lib key providers) flow input (ids 1) urn_COOKIE s w = Control_Continue s' w'"
  shows "login_inv lib clock ids realm form ctx t s' w'"
proof -
  have w: "wasm_binding providers (FlowState_realm_id s) urn_COOKIE = None" using assms(3,4) by simp
  note nxt = browser_next [OF assms(1,2)]
  from assms(8) w show ?thesis
  proof (cases rule: exec_authn)
    case (success actx ks ms actx')
    from success(2) obtain sid session where c: "AuthnContext_session_id actx = Some sid" "get_session sid t = Inr session"
        "Session_realm_id session = AuthnContext_realm_id actx" "AuthnContext_now actx \<le> Session_expires_at session"
        "AuthnContext_user_id actx' = Some (Session_user_id session)" "fw_tables w' = t"
      unfolding dispatch_urns assms(6) by (rule cookie_success)
    note b = build_context_fields [OF success(1)]
    from c(1) b(4) assms(5) obtain sid' where "FlowContext_session_id ctx = Some sid'" "sid = SessionId sid'" by auto
    with c b assms(4,7) have "identified lib clock realm form ctx t (Session_user_id session)"
      unfolding identified_def by metis
    moreover have "FlowState_current_node s' = ids 5"
      using success(4) by (simp add: next_or_otherwise_def nxt del: One_nat_def)
    ultimately show ?thesis
      using success(3,5,6) c(5,6) assms(4,7) unfolding login_inv_def by auto
  next
    case (skip actx actx')
    then have "FlowState_current_node s' = ids 2" "fw_tables w' = t"
      using cookie_store [of actx "authn_input input" t] by (simp_all add: nxt dispatch_urns assms(6) del: One_nat_def)
    then show ?thesis using skip assms(4-7) by (auto simp: login_inv_def)
  next
    case (failure actx actx' k)
    then show ?thesis using cookie_never_fails(2) [of actx "authn_input input" t k] by (simp add: dispatch_urns assms(6))
  qed
qed

lemma login_inv_password:
  assumes "compile (browser fid ids realm) = Inr flow" "inj ids" "wasm_binding providers realm urn_PASSWORD = None"
    and "FlowState_realm_id s = realm" "fw_tables w = t" "fw_now w = clock"
    and "exec_authenticator (flow_env lib key providers) flow (StepInput_Submit form) (ids 3) urn_PASSWORD s w =
      Control_Continue s' w'"
  shows "login_inv lib clock ids realm form ctx t s' w'"
proof -
  have w: "wasm_binding providers (FlowState_realm_id s) urn_PASSWORD = None" using assms(3,4) by simp
  note nxt = browser_next [OF assms(1,2)]
  from assms(7) w show ?thesis
  proof (cases rule: exec_authn)
    case (success actx ks ms actx')
    from success(2) have "PasswordAuthenticator_process lib actx (AuthnInput_Submit form) t =
        (Inr (AuthnOutput_Success ks ms), actx', fw_tables w')" by (simp add: dispatch_urns assms(5))
    then obtain user where "password_verified lib (AuthnContext_realm_id actx) (AuthnContext_now actx) form user t"
        "AuthnContext_user_id actx' = Some (User_id user)"
        "fw_tables w' = snd (record_success (AuthnContext_realm_id actx) (User_id user) t)"
      by (rule password_success)
    moreover note build_context_fields [OF success(1)]
    moreover have "FlowState_current_node s' = ids 4" using success(4) by (simp add: next_or_otherwise_def nxt)
    ultimately show ?thesis
      using success assms(4-6) unfolding login_inv_def identified_def by (auto simp: record_success_codes)
  next
    case (skip actx actx')
    then show ?thesis by (simp add: nxt)
  next
    case (failure actx actx' k)
    then have "FlowState_current_node s' = ids 6" "codes (fw_tables w') = codes t"
      using password_codes [of lib actx "AuthnInput_Submit form" t] by (simp_all add: nxt dispatch_urns assms(5))
    then show ?thesis using failure assms(4,6) by (simp add: login_inv_def)
  qed
qed

lemma login_inv_require_action:
  assumes "compile (browser fid ids realm) = Inr flow" "inj ids" "wasm_binding providers realm urn_REQUIRE_ACTION = None"
    and "ulid_law lib" "login_inv lib clock ids realm form ctx t s w" "FlowState_current_node s = ids 4"
    and "exec_authenticator (flow_env lib key providers) flow input (ids 4) urn_REQUIRE_ACTION s w = Control_Continue s' w'"
  shows "login_inv lib clock ids realm form ctx t s' w'"
proof -
  note nxt = browser_next [OF assms(1,2)]
  from assms(5,6) obtain u where u: "FlowContext_user_id (FlowState_context s) = Some (UserId_to_string lib u)"
      "identified lib clock realm form ctx t u" and s: "FlowState_realm_id s = realm" "codes (fw_tables w) = codes t" "fw_now w = clock"
    by (auto simp: login_inv_def ids_distinct [OF assms(2)])
  have w: "wasm_binding providers (FlowState_realm_id s) urn_REQUIRE_ACTION = None" using assms(3) s by simp
  have goal: ?thesis if "FlowState_current_node s' = ids 5"
      "FlowContext_user_id (FlowState_context s') = Some (UserId_to_string lib u)" "codes (fw_tables w') = codes t"
      "FlowState_realm_id s' = FlowState_realm_id s" "fw_now w' = fw_now w"
    using that u(2) s unfolding login_inv_def by auto
  have codes: "codes (fw_tables w') = codes t"
    if "RequireActionAuthenticator_process actx i (fw_tables w) = (r, actx', fw_tables w')" for actx i r actx'
    using require_action_codes [of actx i "fw_tables w"] that s(2) by simp
  from assms(7) w show ?thesis
  proof (cases rule: exec_authn)
    case (success actx ks ms actx')
    have "actx' = actx" using require_action_user success(2) unfolding dispatch_urns by blast
    then have "FlowContext_user_id (FlowState_context s') = Some (UserId_to_string lib u)"
      using success(3) build_context_fields(3) [OF success(1)] u(1) by (simp add: parse_user_text [OF assms(4)])
    then show ?thesis using success by (intro goal) (auto simp: next_or_otherwise_def nxt dispatch_urns intro: codes)
  next
    case (skip actx actx')
    then show ?thesis using u(1) by (intro goal) (auto simp: nxt dispatch_urns intro: codes)
  next
    case (failure actx actx' k)
    then show ?thesis using u(1) by (intro goal) (auto simp: nxt dispatch_urns intro: codes)
  qed
qed

definition no_plugins :: "ProviderRegistry \<Rightarrow> RealmId \<Rightarrow> bool" where
  "no_plugins providers realm \<longleftrightarrow> (\<forall>urn. wasm_binding providers realm urn = None)"

lemma login_inv_turn:
  assumes flow: "compile (browser fid ids realm) = Inr flow" "inj ids"
    and "no_plugins providers realm" "ulid_law lib" "login_inv lib clock ids realm form ctx t s w"
    and ex: "exec_node (flow_env lib key providers) flow (StepInput_Submit form) s w = Control_Continue s' w'"
  shows "login_inv lib clock ids realm form ctx t s' w'"
proof -
  note node = browser_node [OF flow] and nxt = browser_next [OF flow]
  have wasm: "wasm_binding providers realm urn = None" for urn using assms(3) by (simp add: no_plugins_def)
  from assms(5) consider (early) k where "k \<in> {0, 1, 2, 3}" "FlowState_current_node s = ids k"
      "FlowState_realm_id s = realm" "FlowState_context s = ctx" "fw_tables w = t" "fw_now w = clock"
    | (late) k where "k \<in> {4, 5}" "FlowState_current_node s = ids k" | (failed) "FlowState_current_node s = ids 6"
    by (auto simp: login_inv_def)
  then show ?thesis
  proof cases
    case (early k)
    then consider "k = 0" | "k = 1" | "k = 2" | "k = 3" by blast
    then show ?thesis
    proof cases
      case 1
      with early ex show ?thesis
        by (auto simp: exec_node_def node nxt node_start_def push_history_env goto_Continue Let_def login_inv_def)
    next
      case 2
      with early ex have "exec_authenticator (flow_env lib key providers) flow (StepInput_Submit form) (ids 1) urn_COOKIE s w =
          Control_Continue s' w'"
        by (simp add: exec_node_def node node_authn_def Let_def del: One_nat_def)
      with early show ?thesis by (intro login_inv_cookie [OF flow wasm])
    next
      case 3
      with early ex show ?thesis
        by (auto simp: exec_node_def node nxt node_render_def push_history_env goto_Continue Let_def login_inv_def
            is_posted_def next_or_otherwise_def)
    next
      case 4
      with early ex have "exec_authenticator (flow_env lib key providers) flow (StepInput_Submit form) (ids 3) urn_PASSWORD s w =
          Control_Continue s' w'"
        by (simp add: exec_node_def node node_authn_def Let_def)
      with early show ?thesis by (intro login_inv_password [OF flow wasm])
    qed
  next
    case (late k)
    show ?thesis
    proof (cases "k = 4")
      case True
      then have at: "FlowState_current_node s = ids 4" using late(2) by simp
      then have "exec_authenticator (flow_env lib key providers) flow (StepInput_Submit form) (ids 4)
          urn_REQUIRE_ACTION s w = Control_Continue s' w'"
        using ex by (simp add: exec_node_def node node_authn_def Let_def)
      then show ?thesis by (rule login_inv_require_action [OF flow wasm assms(4,5) at])
    next
      case False
      with late ex show ?thesis by (simp add: exec_node_def node node_success_def Let_def split: prod.splits)
    qed
  next
    case failed
    with ex show ?thesis by (simp add: exec_node_def node node_failure_def Let_def split: prod.splits)
  qed
qed

lemma exec_steps_login_inv:
  assumes "exec_steps (flow_env lib key providers) flow (StepInput_Submit form) s w s' w'"
    and "compile (browser fid ids realm) = Inr flow" "inj ids" "no_plugins providers realm" "ulid_law lib"
    and "login_inv lib clock ids realm form ctx t s w"
  shows "login_inv lib clock ids realm form ctx t s' w'"
  using assms
proof induction
  case (move s w s1 w1 s2 w2)
  from login_inv_turn [OF move.prems(1-5) move.hyps(1)] show ?case by (rule move.IH [OF move.prems(1-4)])
qed

lemma dispatch_codes:
  assumes "no_plugins providers (FlowState_realm_id s)" "urn \<in> {urn_COOKIE, urn_PASSWORD, urn_REQUIRE_ACTION}"
    and "dispatcher_dispatch lib key providers urn s input w = (r, w')"
  shows "codes (fw_tables w') = codes (fw_tables w)"
proof -
  have keep: "codes (snd (snd (BuiltinAuthenticators_dispatch lib d urn ctx i t))) = codes t" for d ctx i t
    using assms(2) by (auto simp: dispatch_urns cookie_store password_codes require_action_codes)
  have "dispatcher_dispatch lib key providers urn s input w =
      (case build_context lib key (fw_now w (fw_tick w)) s (fw_tables w) of
         Inl e \<Rightarrow> (Inl e, w)
       | Inr ctx \<Rightarrow> (let d = BuiltinAuthenticators_dispatch lib (fw_draw w (fw_tick w)) urn ctx (authn_input input) (fw_tables w) in
           (step_outcome lib urn (fst d) (fst (snd d)), w\<lparr>fw_tables := snd (snd d), fw_tick := Suc (fw_tick w)\<rparr>)))"
    using assms(1) by (simp add: dispatcher_dispatch_def no_plugins_def Let_def case_prod_beta split: sum.split)
  with assms(3) keep show ?thesis by (auto simp: Let_def split: sum.splits)
qed

lemma exec_authenticator_codes:
  assumes "no_plugins providers (FlowState_realm_id s)" "urn \<in> {urn_COOKIE, urn_PASSWORD, urn_REQUIRE_ACTION}"
    and "exec_authenticator (flow_env lib key providers) flow input i urn s w = Control_Return r s' w'"
  shows "codes (fw_tables w') = codes (fw_tables w)"
proof -
  obtain out w1 where d: "dispatcher_dispatch lib key providers urn s input w = (out, w1)" by fastforce
  from dispatch_codes [OF assms(1,2) d] assms(3) d show ?thesis
    by (auto simp: exec_authenticator_def push_history_env goto_Return split: sum.splits AuthnStepOutcome.splits option.splits)
qed

lemma exec_return_codes:
  assumes "compile (browser fid ids realm) = Inr flow" "no_plugins providers (FlowState_realm_id s)"
    and "exec_node (flow_env lib key providers) flow input s w = Control_Return r s' w'"
  shows "codes (fw_tables w') = codes (fw_tables w)"
proof (cases "CompiledFlow_node flow (FlowState_current_node s)")
  case None
  then show ?thesis using assms(3) by (simp add: exec_node_def)
next
  case (Some node)
  then have "node \<in> set (FlowDefinition_nodes (browser fid ids realm))" using node_SomeD(1) [OF assms(1)] by blast
  then have kind: "FlowNode_kind node \<in> {NodeKind_Authenticator urn_COOKIE, NodeKind_Authenticator urn_PASSWORD,
      NodeKind_Authenticator urn_REQUIRE_ACTION} \<or>
    (\<exists>x. FlowNode_kind node = NodeKind_Start x) \<or> (\<exists>x. FlowNode_kind node = NodeKind_Render x) \<or>
    (\<exists>x. FlowNode_kind node = NodeKind_Success x) \<or> (\<exists>x. FlowNode_kind node = NodeKind_Failure x)"
    by (auto simp: browser_def flow_defs)
  have fresh: "fw_tables (snd (fresh_user_id (flow_env lib key providers) w)) = fw_tables w" for w
    by (simp add: flow_env_def)
  from kind show ?thesis
  proof (elim disjE exE)
    assume "FlowNode_kind node \<in> {NodeKind_Authenticator urn_COOKIE, NodeKind_Authenticator urn_PASSWORD,
      NodeKind_Authenticator urn_REQUIRE_ACTION}"
    then obtain urn where "urn \<in> {urn_COOKIE, urn_PASSWORD, urn_REQUIRE_ACTION}" "FlowNode_kind node = NodeKind_Authenticator urn"
      by blast
    with Some assms(3) show ?thesis by (intro exec_authenticator_codes [OF assms(2)]) (simp_all add: exec_node_def Let_def)
  next
    fix x assume "FlowNode_kind node = NodeKind_Success x"
    with Some assms(3) show ?thesis
      by (cases "Option.bind (FlowContext_user_id (FlowState_context s)) (parse_user lib)")
        (auto simp: exec_node_def Let_def push_history_env case_prod_beta fresh)
  qed (use Some assms(3) in \<open>auto simp: exec_node_def Let_def push_history_env goto_Return split: if_splits\<close>)
qed

text \<open>A run that ends with \<open>Done\<close> has identified the user in its context; no run touches the codes.\<close>

lemma browser_run:
  assumes "compile (browser fid ids realm) = Inr flow" "inj ids" "no_plugins providers realm" "ulid_law lib"
    and "FlowState_realm_id s = realm" "FlowState_current_node s = ids 0"
    and "step (flow_env lib key providers) flow s (StepInput_Submit form) w = Some (r, s', w')"
  shows "codes (fw_tables w') = codes (fw_tables w)"
    and "r = StepResult_Ok (StepOutput_Done x) \<Longrightarrow>
      \<exists>u. FlowContext_user_id (FlowState_context s') = Some (UserId_to_string lib u) \<and>
          identified lib (fw_now w) realm form (FlowState_context s) (fw_tables w) u"
proof -
  let ?env = "flow_env lib key providers" and ?input = "StepInput_Submit form"
  let ?inv = "login_inv lib (fw_now w) ids realm form (FlowState_context s) (fw_tables w)"
  have "codes (fw_tables w') = codes (fw_tables w) \<and> (r = StepResult_Ok (StepOutput_Done x) \<longrightarrow>
      (\<exists>u. FlowContext_user_id (FlowState_context s') = Some (UserId_to_string lib u) \<and>
          identified lib (fw_now w) realm form (FlowState_context s) (fw_tables w) u))"
  proof (cases "FlowState_expires_at s < fw_now w (fw_tick w)")
    case True
    then show ?thesis using assms(7) by (auto simp: step_def Let_def)
  next
    case False
    define s0 w0 where "s0 = s\<lparr>FlowState_last_activity_at := fw_now w (Suc (fw_tick w))\<rparr>"
      and "w0 = w\<lparr>fw_tick := Suc (Suc (fw_tick w))\<rparr>"
    have loop: "step_loop ?env flow ?input s0 w0 = Some (r, s', w')"
      using assms(7) False by (simp add: step_def Let_def s0_def w0_def)
    have "?inv s0 w0" using assms(5,6) by (intro login_inv_entry) (simp_all add: s0_def w0_def)
    from loop obtain s1 w1 where run: "exec_steps ?env flow ?input s0 w0 s1 w1"
        and ret: "exec_node ?env flow ?input s1 w1 = Control_Return r s' w'"
      by (rule step_loop_relation)
    have inv: "?inv s1 w1" by (rule exec_steps_login_inv [OF run assms(1-4) \<open>?inv s0 w0\<close>])
    then have realm: "no_plugins providers (FlowState_realm_id s1)" and "codes (fw_tables w1) = codes (fw_tables w)"
      using assms(3) by (simp_all add: login_inv_def)
    then have "codes (fw_tables w') = codes (fw_tables w)" using exec_return_codes [OF assms(1) realm ret] by simp
    moreover have "\<exists>u. FlowContext_user_id (FlowState_context s') = Some (UserId_to_string lib u) \<and>
        identified lib (fw_now w) realm form (FlowState_context s) (fw_tables w) u" if "r = StepResult_Ok (StepOutput_Done x)"
    proof -
      from exec_node_Return(4) [OF ret that] obtain node where node: "CompiledFlow_node flow (FlowState_current_node s1) = Some node"
          "is_Success_kind (FlowNode_kind node)" by blast
      from node_SomeD [OF assms(1) node(1)] node(2) have at: "FlowState_current_node s1 = ids 5"
        by (auto simp: browser_def flow_defs)
      with inv obtain u where "FlowContext_user_id (FlowState_context s1) = Some (UserId_to_string lib u)"
          "identified lib (fw_now w) realm form (FlowState_context s) (fw_tables w) u"
        by (auto simp: login_inv_def ids_distinct [OF assms(2)])
      moreover have "FlowState_context s' = FlowState_context s1"
        using ret at by (auto simp: exec_node_def browser_node [OF assms(1,2)] node_success_def Let_def push_history_env
            case_prod_beta)
      ultimately show ?thesis by auto
    qed
    ultimately show ?thesis by blast
  qed
  then show "codes (fw_tables w') = codes (fw_tables w)"
    and "r = StepResult_Ok (StepOutput_Done x) \<Longrightarrow>
      \<exists>u. FlowContext_user_id (FlowState_context s') = Some (UserId_to_string lib u) \<and>
          identified lib (fw_now w) realm form (FlowState_context s) (fw_tables w) u"
    by blast+
qed

section \<open>Which codes a login creates\<close>

lemma auto_join_codes: "codes (snd (auto_join_org_by_domain now realm u t)) = codes t"
  by (simp add: auto_join_org_by_domain_def upsert_org_membership_def split: sum.split option.split)

lemma maybe_join_codes [simp]:
  "codes (AppState_storage (maybe_auto_join_org_by_domain now realm u state)) = codes (AppState_storage state)"
  by (simp add: maybe_auto_join_org_by_domain_def with_storage_eq auto_join_codes)

lemma delete_flow_state_codes [simp]: "codes (snd (delete_flow_state i t)) = codes t"
  by (simp add: delete_flow_state_def split: option.split)

lemma resolve_name_codes: "codes (AppState_storage (snd (resolve_persistent_name_id lib draw realm user sp state))) =
    codes (AppState_storage state)"
  by (simp add: resolve_persistent_name_id_def get_saml_persistent_id_def save_saml_persistent_id_def with_storage_eq
      Let_def split: option.split)

lemma saml_name_codes: "codes (AppState_storage (snd (saml_name_id lib draw realm user sp sid state))) =
    codes (AppState_storage state)"
  by (simp add: saml_name_id_def resolve_name_codes split: NameIdFormat.split)

lemma saml_form_codes:
  "codes (AppState_storage (snd (saml_form_response lib draw realm user sp sid acs irt rs state))) =
    codes (AppState_storage state)"
  using saml_name_codes [of lib draw realm user sp sid state]
  by (auto simp: saml_form_response_def Let_def split: sum.split prod.split)

lemma try_saml_codes:
  "codes (AppState_storage (snd (try_complete_saml lib draw realm client user p sid state))) = codes (AppState_storage state)"
  using saml_form_codes
  by (auto simp: try_complete_saml_def case_prod_beta split: option.split sum.split)

lemma track_codes [simp]: "codes (AppState_storage (track_participation lib draw client state)) = codes (AppState_storage state)"
  by (simp add: track_participation_def Let_def with_storage_eq update_session_def split: sum.split)

lemma complete_oidc_codes:
  assumes "complete_oidc lib draw realm client u row state = (resp, state')"
  shows "codes (AppState_storage state') = codes (AppState_storage state) \<or>
    (\<exists>uri. codes (AppState_storage state') =
       hm_insert (ld_code draw) (login_grant draw realm client u row uri) (codes (AppState_storage state)))"
proof -
  have "CodeGrant_code (login_grant draw realm client u row uri) = ld_code draw" for uri
    by (simp add: login_grant_def Let_def)
  with assms show ?thesis
    by (auto simp: complete_oidc_def Let_def with_storage_eq save_code_grant_def split: option.splits)
qed

lemma complete_login_codes:
  assumes "complete_login lib draw realm row u state = (resp, state')"
  shows "codes (AppState_storage state') = codes (AppState_storage state) \<or> (\<exists>client uri. codes (AppState_storage state') =
         hm_insert (ld_code draw) (login_grant draw realm client u row uri) (codes (AppState_storage state)))"
proof -
  let ?p = "FlowStateRow_authorize_params row"
  have "state' = state \<or> (\<exists>client. complete_oidc lib draw realm client u row state = (resp, state')) \<or>
    (\<exists>client user r st2. try_complete_saml lib draw realm client user ?p (ld_session_id draw) state = (r, st2) \<and>
      (complete_oidc lib draw realm client u row st2 = (resp, state') \<or>
       codes (AppState_storage state') = codes (AppState_storage st2)))"
  proof (cases "map_of ?p ''client_id''")
    case (Some cid)
    show ?thesis
    proof (cases "get_client_by_client_id (Realm_id realm) cid (AppState_storage state)")
      case (Inr client)
      show ?thesis
      proof (cases "map_of ?p ''__geonosis_saml_request_id'' = None")
        case False
        then show ?thesis
          using assms Some Inr
          by (simp add: complete_login_def Let_def with_storage_eq split: sum.splits prod.splits option.splits) fastforce+
      qed (use assms Some Inr in \<open>auto simp: complete_login_def Let_def\<close>)
    qed (use assms Some in \<open>auto simp: complete_login_def Let_def\<close>)
  qed (use assms in \<open>auto simp: complete_login_def Let_def\<close>)
  moreover have "codes (AppState_storage st2) = codes (AppState_storage state)"
    if "try_complete_saml lib draw realm client user ?p (ld_session_id draw) state = (r, st2)" for client user r st2
    using try_saml_codes [of lib draw realm client user ?p "ld_session_id draw" state] that by simp
  ultimately show ?thesis using complete_oidc_codes by (metis (no_types))
qed

lemma mint_codes:
  assumes "mint_code_and_redirect lib draw realm row state = (resp, state')"
  shows "codes (AppState_storage state') = codes (AppState_storage state) \<or>
    (\<exists>u client uri. Option.bind (FlowContext_user_id (FlowState_context (FlowStateRow_state row))) (parse_user lib) = Some u \<and>
       codes (AppState_storage state') =
         hm_insert (ld_code draw) (login_grant draw realm client u row uri) (codes (AppState_storage state)))"
proof (cases "Option.bind (FlowContext_user_id (FlowState_context (FlowStateRow_state row))) (parse_user lib)")
  case None
  then show ?thesis using assms by (auto simp: mint_code_and_redirect_def)
next
  case (Some u)
  then show ?thesis
    using assms
    by (auto simp: mint_code_and_redirect_def Let_def with_storage_eq create_session_def emit_defs
        dest!: complete_login_codes) blast
qed

section \<open>Properties\<close>

lemma compile_by_id:
  assumes "compile def = Inr flow"
  shows "hm_contains_key (CompiledFlow_by_id flow) n \<longleftrightarrow> n \<in> set (node_ids def)"
proof -
  obtain by_id where "index_nodes 0 [] (FlowDefinition_nodes def) = Inr by_id" "CompiledFlow_by_id flow = by_id"
    using assms by (auto simp: compile_def Let_def split: sum.splits if_splits option.splits prod.splits)
  then show ?thesis using index_nodes_sound [of 0 "[]" "FlowDefinition_nodes def" by_id]
    by (auto simp: hm_contains_key_iff node_ids_def)
qed

lemma browser_anchored:
  assumes "compile (browser fid ids realm) = Inr flow" "FlowState_current_node s \<notin> ids ` {1..6}"
  shows "FlowState_current_node (anchored flow s) = ids 0" "FlowState_realm_id (anchored flow s) = FlowState_realm_id s"
    "FlowState_context (anchored flow s) = FlowState_context s"
proof -
  have "set (node_ids (browser fid ids realm)) = ids ` {0, 1, 2, 3, 4, 5, 6}"
    by (simp add: node_ids_def browser_def flow_defs)
  moreover have "{0, 1, 2, 3, 4, 5, 6} = insert 0 {1..6::nat}" by auto
  ultimately have "hm_contains_key (CompiledFlow_by_id flow) (FlowState_current_node s) \<Longrightarrow> FlowState_current_node s = ids 0"
    using assms(2) by (auto simp: compile_by_id [OF assms(1)])
  then show "FlowState_current_node (anchored flow s) = ids 0"
    using compile_Inr(2) [OF assms(1)] by (auto simp: anchored_def browser_def flow_defs)
  show "FlowState_realm_id (anchored flow s) = FlowState_realm_id s"
    "FlowState_context (anchored flow s) = FlowState_context s" by (simp_all add: anchored_def)
qed

text \<open>
  C3: A login creates an authorization code only for a user it has identified. With the built-in browser
  flow and no plugin bound to the authenticators, every code that exists after the login form was posted
  and not before is the one code of this request, and its user is one whose password the form proves --
  an enabled account of the realm that is not locked, found by the submitted name, with a password hash
  that verifies -- or the user of an unexpired session of the realm that the flow carries.
\<close>

theorem login_identifies_user:
  assumes "authenticate_post lib draw providers w slug form state = Some (resp, state')"
    and "get_realm_by_slug slug (AppState_storage state) = Inr realm"
    and "parse_ulid lib (AuthForm_flow_state_id form) = Inr i"
    and "get_flow_state (FlowStateId i) (AppState_storage state) = Inr row"
    and "browser_definition realm (FlowStateRow_state row) (AppState_storage state) = Inr (browser fid ids (Realm_id realm))"
    and "inj ids" "FlowState_current_node (FlowStateRow_state row) \<notin> ids ` {1..6}"
    and "no_plugins providers (Realm_id realm)" "ulid_law lib"
    and "map_of (codes (AppState_storage state')) c = Some g" "map_of (codes (AppState_storage state)) c = None"
  shows "c = ld_code draw \<and> CodeGrant_realm_id g = Realm_id realm \<and>
    identified lib (fw_now w) (Realm_id realm) (login_form form) (FlowState_context (FlowStateRow_state row))
      (AppState_storage state) (CodeGrant_user_id g)"
proof -
  let ?t = "AppState_storage state" and ?def = "browser fid ids (Realm_id realm)"
  from assms(1-5) have live: "\<not> FlowState_expires_at (FlowStateRow_state row) < ld_now draw"
      "FlowState_realm_id (FlowStateRow_state row) = Realm_id realm"
    and "\<exists>flow. compile ?def = Inr flow" and "\<exists>cid. map_of (FlowStateRow_authorize_params row) ''client_id'' = Some cid"
    using assms(10,11)
    by (auto simp: authenticate_post_def Let_def with_storage_eq split: if_splits sum.splits option.splits)
  then obtain flow cid where flow: "compile ?def = Inr flow"
    and cid: "map_of (FlowStateRow_authorize_params row) ''client_id'' = Some cid" by blast
  define s0 where "s0 = (let s = anchored flow (FlowStateRow_state row) in s\<lparr>FlowState_context := (FlowState_context s)
    \<lparr>FlowContext_client_id := Some cid, FlowContext_username := Some (AuthForm_username form)\<rparr>\<rparr>)"
  let ?step = "step (flow_env lib (AppState_refresh_hash_key state) providers) flow s0 (StepInput_Submit (login_form form))
    (w\<lparr>fw_tables := ?t\<rparr>)"
  have post: "authenticate_post lib draw providers w slug form state =
      Option.bind ?step (\<lambda>result. finish_login lib draw realm (FlowStateId i) form row result state)"
    using live flow cid assms(2-5) by (simp add: authenticate_post_def Let_def s0_def)
  with assms(1) obtain r s' w' where run: "?step = Some (r, s', w')"
    and fin: "finish_login lib draw realm (FlowStateId i) form row (r, s', w') state = Some (resp, state')"
    by (auto simp: bind_eq_Some_conv)
  have at: "FlowState_current_node s0 = ids 0" "FlowState_realm_id s0 = Realm_id realm"
    "FlowContext_session_id (FlowState_context s0) = FlowContext_session_id (FlowState_context (FlowStateRow_state row))"
    using browser_anchored [OF flow assms(7)] live(2) by (simp_all add: s0_def Let_def)
  note run = browser_run [OF flow assms(6,8,9) at(2,1) run]
  have same: "codes (fw_tables w') = codes ?t" using run(1) by simp
  have "\<exists>x. r = StepResult_Ok (StepOutput_Done x)"
  proof (rule ccontr)
    assume "\<nexists>x. r = StepResult_Ok (StepOutput_Done x)"
    then have "codes (AppState_storage state') = codes (fw_tables w')"
      using fin by (auto simp: finish_login_def Let_def with_storage_eq emit_defs save_flow_state_def
          split: StepResult.splits StepOutput.splits FlowError.splits)
    then show False using same assms(10,11) by simp
  qed
  then obtain x where ok: "r = StepResult_Ok (StepOutput_Done x)" ..
  from run(2) [OF ok] obtain u where u: "FlowContext_user_id (FlowState_context s') = Some (UserId_to_string lib u)"
      "identified lib (fw_now w) (Realm_id realm) (login_form form) (FlowState_context s0) ?t u" by auto
  let ?row = "row\<lparr>FlowStateRow_state := s'\<rparr>"
  from fin ok have "mint_code_and_redirect lib draw realm ?row (state\<lparr>AppState_storage := fw_tables w'\<rparr>) = (resp, state')"
    by (simp add: finish_login_def Let_def)
  from mint_codes [OF this] same obtain client uri where
      "codes (AppState_storage state') = codes ?t \<or>
       codes (AppState_storage state') = hm_insert (ld_code draw) (login_grant draw realm client u ?row uri) (codes ?t)"
    using u(1) by (auto simp: parse_user_text [OF assms(9)])
  with assms(10,11) have "c = ld_code draw" "g = login_grant draw realm client u ?row uri"
    by (auto split: if_splits)
  then show ?thesis using u(2) at(3) by (simp add: login_grant_def Let_def identified_def)
qed

section \<open>A flow that carries a session\<close>

lemma cookie_dispatch:
  assumes "no_plugins providers (FlowState_realm_id s)"
    and "get_realm (FlowState_realm_id s) (fw_tables w) = Inr realm"
    and "FlowContext_client_id (FlowState_context s) = Some cid"
    and "get_client_by_client_id (FlowState_realm_id s) cid (fw_tables w) = Inr client"
    and "FlowContext_session_id (FlowState_context s) = Some sid"
    and "get_session (SessionId sid) (fw_tables w) = Inr session" "Session_realm_id session = FlowState_realm_id s"
    and "fw_now w (fw_tick w) \<le> Session_expires_at session"
  shows "dispatcher_dispatch lib key providers urn_COOKIE s input w =
    (Inr (AuthnStepOutcome_Success [''pwd''] 1 (Some (UserId_to_string lib (Session_user_id session)))
       (FlowContext_locals (FlowState_context s))), w\<lparr>fw_tick := Suc (fw_tick w)\<rparr>)"
  using assms
  by (simp add: dispatcher_dispatch_def no_plugins_def build_context_def dispatch_urns CookieAuthenticator_process_def
      step_outcome_def record_amr_def)

lemma browser_cookie_run:
  assumes flow: "compile (browser fid ids r) = Inr flow" "inj ids"
    and "no_plugins providers (FlowState_realm_id s)" "ulid_law lib" "FlowState_current_node s = ids 0"
    and "get_realm (FlowState_realm_id s) (fw_tables w) = Inr realm"
    and "FlowContext_client_id (FlowState_context s) = Some cid"
    and "get_client_by_client_id (FlowState_realm_id s) cid (fw_tables w) = Inr client"
    and "FlowContext_session_id (FlowState_context s) = Some sid"
    and "get_session (SessionId sid) (fw_tables w) = Inr session" "Session_realm_id session = FlowState_realm_id s"
    and live: "\<And>k. fw_now w k \<le> Session_expires_at session" "\<And>k. fw_now w k \<le> FlowState_expires_at s"
  shows "\<exists>s' w'. step (flow_env lib key providers) flow s input w =
      Some (StepResult_Ok (StepOutput_Done (Subject_Local (Session_user_id session))), s', w') \<and>
    FlowContext_user_id (FlowState_context s') = Some (UserId_to_string lib (Session_user_id session)) \<and>
    fw_tables w' = fw_tables w \<and> FlowState_id s' = FlowState_id s"
proof -
  let ?env = "flow_env lib key providers"
  note node = browser_node [OF flow] and nxt = browser_next [OF flow]
  define s0 w0 where "s0 = s\<lparr>FlowState_last_activity_at := fw_now w (Suc (fw_tick w))\<rparr>"
    and "w0 = w\<lparr>fw_tick := Suc (Suc (fw_tick w))\<rparr>"
  have step: "step ?env flow s input w = step_loop ?env flow input s0 w0"
    using live(2) [of "fw_tick w"] by (simp add: step_def s0_def w0_def)
  define s1 w1 where "s1 = (fst (push_history ?env (ids 0) ''advance'' s0 w0))\<lparr>FlowState_current_node := ids 1\<rparr>"
    and "w1 = snd (push_history ?env (ids 0) ''advance'' s0 w0)"
  have c0: "exec_node ?env flow input s0 w0 = Control_Continue s1 w1"
    using assms(5) by (simp add: exec_node_def node nxt node_start_def goto_def Let_def s0_def s1_def w1_def push_history_env
        del: One_nat_def)
  have disp: "dispatcher_dispatch lib key providers urn_COOKIE s1 input w1 =
    (Inr (AuthnStepOutcome_Success [''pwd''] 1 (Some (UserId_to_string lib (Session_user_id session)))
       (FlowContext_locals (FlowState_context s1))), w1\<lparr>fw_tick := Suc (fw_tick w1)\<rparr>)"
    by (rule cookie_dispatch) (use assms(3,6-13) in \<open>simp_all add: s1_def w1_def s0_def w0_def push_history_env\<close>)
  have "exec_node ?env flow input s1 w1 = exec_authenticator ?env flow input (ids 1) urn_COOKIE s1 w1"
    by (simp add: exec_node_def node node_authn_def s1_def Let_def del: One_nat_def)
  moreover have "FlowState_id s1 = FlowState_id s" "fw_tables w1 = fw_tables w"
    by (simp_all add: s1_def w1_def s0_def w0_def push_history_env)
  ultimately obtain s2 w2 where c1: "exec_node ?env flow input s1 w1 = Control_Continue s2 w2"
    and s2: "FlowState_current_node s2 = ids 5" "fw_tables w2 = fw_tables w" "FlowState_id s2 = FlowState_id s"
      "FlowContext_user_id (FlowState_context s2) = Some (UserId_to_string lib (Session_user_id session))"
    by (simp add: exec_authenticator_def disp push_history_env next_or_otherwise_def nxt goto_def merge_success_def Let_def
        del: One_nat_def)
  obtain s3 w3 where c2: "exec_node ?env flow input s2 w2 =
      Control_Return (StepResult_Ok (StepOutput_Done (Subject_Local (Session_user_id session)))) s3 w3"
    and s3: "FlowState_context s3 = FlowState_context s2" "fw_tables w3 = fw_tables w2" "FlowState_id s3 = FlowState_id s2"
    using s2(1,4) by (simp add: exec_node_def node node_success_def Let_def push_history_env parse_user_text [OF assms(4)])
  have "step_loop ?env flow input s0 w0 =
      Some (StepResult_Ok (StepOutput_Done (Subject_Local (Session_user_id session))), s3, w3)"
    by (rule step_loop_returns [OF _ c2]) (intro exec_steps.move [OF c0] exec_steps.move [OF c1] exec_steps.stay)
  then show ?thesis using step s2 s3 by auto
qed

lemma browser_compiles:
  assumes "inj ids"
  obtains flow where "compile (browser fid ids realm) = Inr flow"
proof -
  have "browser fid ids realm \<in> set (v0_1_flows (\<lambda>_. fid) (\<lambda>_. ids) realm)" by (simp add: v0_1_flows_def)
  moreover have "\<forall>k::nat. inj ((\<lambda>_. ids) k)" using assms by simp
  ultimately show thesis using builtin_valid_forward that compile_iff_valid by (metis (no_types, lifting))
qed

lemma complete_oidc_redirects:
  assumes "map_of (FlowStateRow_authorize_params row) ''redirect_uri'' = Some uri" "url_parse lib uri = Inr redirect_uri"
  shows "\<exists>url cookies state'. complete_oidc lib draw realm client u row state = ((Response_Redirect url, cookies), state') \<and>
    map_of (codes (AppState_storage state')) (ld_code draw) = Some (login_grant draw realm client u row redirect_uri)"
proof -
  have "CodeGrant_code (login_grant draw realm client u row redirect_uri) = ld_code draw" by (simp add: login_grant_def Let_def)
  then show ?thesis using assms by (simp add: complete_oidc_def Let_def with_storage_eq save_code_grant_def)
qed

lemma maybe_join_clients [simp]:
  "clients (AppState_storage (maybe_auto_join_org_by_domain now realm u state)) = clients (AppState_storage state)"
  "clients_by_client_id (AppState_storage (maybe_auto_join_org_by_domain now realm u state)) =
     clients_by_client_id (AppState_storage state)"
  by (simp_all add: maybe_auto_join_org_by_domain_def with_storage_eq auto_join_org_by_domain_def
      upsert_org_membership_def split: sum.split option.split)

lemma mint_redirects:
  assumes "FlowContext_user_id (FlowState_context (FlowStateRow_state row)) = Some (UserId_to_string lib u)" "ulid_law lib"
    and "map_of (FlowStateRow_authorize_params row) ''client_id'' = Some cid"
    and "get_client_by_client_id (Realm_id realm) cid (AppState_storage state) = Inr client"
    and "map_of (FlowStateRow_authorize_params row) ''__geonosis_saml_request_id'' = None"
    and "map_of (FlowStateRow_authorize_params row) ''redirect_uri'' = Some uri" "url_parse lib uri = Inr redirect_uri"
  shows "\<exists>url cookies state'. mint_code_and_redirect lib draw realm row state = ((Response_Redirect url, cookies), state') \<and>
    map_of (codes (AppState_storage state')) (ld_code draw) = Some (login_grant draw realm client u row redirect_uri)"
proof -
  define st where "st = emit_user (Realm_id realm) u LOGIN_SUCCESS (Some (Target_Session (ld_session_id draw)))
    (Value_Object [(''flow'', Value_String ''browser'')]) (Server_Base.count MetricsState_session_created_update [Realm_slug realm]
    (snd (with_storage (create_session (login_session draw realm u)) (maybe_auto_join_org_by_domain (ld_join_now draw) realm u state))))"
  have "mint_code_and_redirect lib draw realm row state = complete_login lib draw realm row u st"
    using assms(1) by (simp add: mint_code_and_redirect_def parse_user_text [OF assms(2)] st_def with_storage_eq
        create_session_def Let_def)
  moreover have "get_client_by_client_id (Realm_id realm) cid (AppState_storage st) = Inr client"
    using assms(4) by (simp add: st_def emit_defs with_storage_eq create_session_def get_client_by_client_id_def
        split: option.splits)
  ultimately show ?thesis
    using complete_oidc_redirects [OF assms(6,7)] assms(3,5) by (simp add: complete_login_def)
qed

lemma session_login:
  assumes "get_realm_by_slug slug (AppState_storage state) = Inr realm"
    and "parse_ulid lib (AuthForm_flow_state_id form) = Inr i"
    and "get_flow_state (FlowStateId i) (AppState_storage state) = Inr row"
    and "ld_now draw \<le> FlowState_expires_at (FlowStateRow_state row)" "\<And>k. fw_now w k \<le> FlowState_expires_at (FlowStateRow_state row)"
    and "FlowState_realm_id (FlowStateRow_state row) = Realm_id realm"
    and "browser_definition realm (FlowStateRow_state row) (AppState_storage state) = Inr (browser fid ids (Realm_id realm))"
    and "inj ids" "FlowState_current_node (FlowStateRow_state row) \<notin> ids ` {1..6}"
    and "no_plugins providers (Realm_id realm)" "ulid_law lib"
    and "get_realm (Realm_id realm) (AppState_storage state) = Inr realm"
    and "map_of (FlowStateRow_authorize_params row) ''client_id'' = Some cid"
    and "get_client_by_client_id (Realm_id realm) cid (AppState_storage state) = Inr client"
    and "map_of (FlowStateRow_authorize_params row) ''__geonosis_saml_request_id'' = None"
    and "map_of (FlowStateRow_authorize_params row) ''redirect_uri'' = Some uri" "url_parse lib uri = Inr redirect_uri"
    and "FlowContext_session_id (FlowState_context (FlowStateRow_state row)) = Some sid"
    and "get_session (SessionId sid) (AppState_storage state) = Inr session" "Session_realm_id session = Realm_id realm"
    and "\<And>k. fw_now w k \<le> Session_expires_at session"
  shows "\<exists>url cookies state' g. authenticate_post lib draw providers w slug form state =
      Some ((Response_Redirect url, cookies), state') \<and>
    map_of (codes (AppState_storage state')) (ld_code draw) = Some g \<and>
    CodeGrant_user_id g = Session_user_id session \<and> CodeGrant_client_id g = Client_id client"
proof -
  let ?t = "AppState_storage state"
  obtain flow where flow: "compile (browser fid ids (Realm_id realm)) = Inr flow" using browser_compiles [OF assms(8)] .
  define s0 where "s0 = (let s = anchored flow (FlowStateRow_state row) in s\<lparr>FlowState_context := (FlowState_context s)
    \<lparr>FlowContext_client_id := Some cid, FlowContext_username := Some (AuthForm_username form)\<rparr>\<rparr>)"
  let ?step = "step (flow_env lib (AppState_refresh_hash_key state) providers) flow s0 (StepInput_Submit (login_form form))
    (w\<lparr>fw_tables := ?t\<rparr>)"
  have post: "authenticate_post lib draw providers w slug form state =
      Option.bind ?step (\<lambda>result. finish_login lib draw realm (FlowStateId i) form row result state)"
    using flow assms(1-4,6,7,13) by (simp add: authenticate_post_def Let_def s0_def)
  note at = browser_anchored [OF flow assms(9)]
  have "FlowState_expires_at s0 = FlowState_expires_at (FlowStateRow_state row)" by (simp add: s0_def anchored_def Let_def)
  then obtain s' w' where run: "?step = Some (StepResult_Ok (StepOutput_Done (Subject_Local (Session_user_id session))), s', w')"
    and s': "FlowContext_user_id (FlowState_context s') = Some (UserId_to_string lib (Session_user_id session))"
      "fw_tables w' = ?t"
    using browser_cookie_run [OF flow assms(8), of providers s0 lib "w\<lparr>fw_tables := ?t\<rparr>" realm cid client sid session
        "AppState_refresh_hash_key state" "StepInput_Submit (login_form form)"] at assms(5,6,10-12,14,18-21)
    by (auto simp: s0_def Let_def)
  let ?row = "row\<lparr>FlowStateRow_state := s'\<rparr>"
  have "finish_login lib draw realm (FlowStateId i) form row
      (StepResult_Ok (StepOutput_Done (Subject_Local (Session_user_id session))), s', w') state =
    Some (mint_code_and_redirect lib draw realm ?row state)"
    using s'(2) by (simp add: finish_login_def)
  moreover have "\<exists>url cookies state'. mint_code_and_redirect lib draw realm ?row state = ((Response_Redirect url, cookies), state') \<and>
      map_of (codes (AppState_storage state')) (ld_code draw) =
        Some (login_grant draw realm client (Session_user_id session) ?row redirect_uri)"
    by (rule mint_redirects [OF _ assms(11)]) (use s'(1) assms(13-17) in simp_all)
  ultimately show ?thesis
    using post run by (auto simp: login_grant_def Let_def)
qed

lemma map_of_bt_insert_other: "k \<noteq> j \<Longrightarrow> map_of (bt_insert j v m) k = map_of m k"
  by (induction j v m rule: bt_insert.induct) auto

text \<open>Where the authorization request leaves the flow.\<close>

definition started_state :: "AuthorizeDraw \<Rightarrow> Realm \<Rightarrow> FlowDefinition \<Rightarrow> FlowState" where
  "started_state az realm def = FlowState_fresh (az_flow_state_id az) (az_csrf az) (az_flow_now az) (Realm_id realm)
     (FlowDefinition_id def) (FlowDefinition_version def) (FlowDefinition_start def)
     (secs (min (SessionPolicy_sso_session_idle (Realm_session_policy realm) div 1000000000) 900))"

lemma start_flow_row:
  assumes "get_auth_flow_by_alias (Realm_id realm) alias_BROWSER (AppState_storage st) = Inr def"
    and "start_flow lib az realm client req params (Some session) st = (page, st')"
  obtains row where "AppState_storage st' = (AppState_storage st)
      \<lparr>flow_states := hm_insert (az_flow_state_id az) row (flow_states (AppState_storage st))\<rparr>"
    "FlowState_realm_id (FlowStateRow_state row) = Realm_id realm"
    "FlowState_expires_at (FlowStateRow_state row) = FlowState_expires_at (started_state az realm def)"
    "FlowState_current_node (FlowStateRow_state row) = FlowDefinition_start def"
    "FlowState_flow_version (FlowStateRow_state row) = FlowDefinition_version def"
    "FlowContext_session_id (FlowState_context (FlowStateRow_state row)) = Some (SessionId_text (Session_id session))"
    "\<And>k. k \<noteq> ''__geonosis_acr_values'' \<Longrightarrow> map_of (FlowStateRow_authorize_params row) k = map_of params k"
proof (rule that)
  let ?params = "case AuthorizeRequest_acr_values req of
    Some acr \<Rightarrow> bt_insert ''__geonosis_acr_values'' acr params | None \<Rightarrow> params"
  let ?row = "\<lparr>FlowStateRow_state = (started_state az realm def)\<lparr>FlowState_context := FlowContext_default
      \<lparr>FlowContext_requested_acr := map_of ?params ''__geonosis_acr_values'',
       FlowContext_session_id := Some (SessionId_text (Session_id session))\<rparr>\<rparr>, FlowStateRow_authorize_params = ?params\<rparr>"
  show "AppState_storage st' = (AppState_storage st)
      \<lparr>flow_states := hm_insert (az_flow_state_id az) ?row (flow_states (AppState_storage st))\<rparr>"
    using assms by (auto simp: start_flow_def Let_def with_storage_eq save_flow_state_def started_state_def FlowState_fresh_def)
  show "map_of (FlowStateRow_authorize_params ?row) k = map_of params k" if "k \<noteq> ''__geonosis_acr_values''" for k
    using that by (simp add: map_of_bt_insert_other split: option.split)
qed (simp_all add: started_state_def FlowState_fresh_def)

lemma parse_request_params:
  assumes "AuthorizeRequest_parse lib params = Inr req"
  obtains uri where "map_of params ''client_id'' = Some (AuthorizeRequest_client_id req)"
    "map_of params ''redirect_uri'' = Some uri" "url_parse lib uri = Inr (AuthorizeRequest_redirect_uri req)"
  using assms by (auto simp: AuthorizeRequest_parse_def Let_def split: option.splits sum.splits if_splits)

lemma handle_authorize_starts:
  assumes "get_realm_by_slug slug (AppState_storage st) = Inr realm"
    and "map_of params ''request'' = None" "map_of params ''request_uri'' = None"
    and "AuthorizeRequest_parse lib params = Inr req"
    and "get_client_by_client_id (Realm_id realm) (AuthorizeRequest_client_id req) (AppState_storage st) = Inr client"
    and "Client_enabled client" "enforce_client_policy req client = Inr ()"
    and "extract_session_cookie headers = Some sid"
    and "resolve_session st (az_session_now az) sid (Realm_id realm) = Some session"
    and "enforce_prompt_policy lib (az_prompt_now az) req (Some session) = PromptDecision_StartFlow (Some session)"
  shows "handle_authorize lib az slug params headers st = start_flow lib az realm client req params (Some session)
    (Server_Base.count MetricsState_oidc_authorize_update [Realm_slug realm, ''started''] st)"
proof -
  have "resolve_session (Server_Base.count m l st) (az_session_now az) sid (Realm_id realm) = Some session" for m l
    using assms(9) by (simp add: resolve_session_def split: sum.splits)
  then show ?thesis using assms(1-8,10)
    by (simp add: handle_authorize_def resolve_par_def authorize_params_def Let_def)
qed

text \<open>
  C4: A request for a new login is satisfied by the old one. When the authorization endpoint decides that
  the login page has to be shown although the browser has a session -- \<open>prompt=login\<close>, a session
  older than \<open>max_age\<close>, a hint at another user -- it puts that session into the flow, and the
  built-in browser flow begins with the cookie authenticator. Whatever name and password are then posted
  to the login page, before the flow and the session expire, the answer is a redirect with a fresh code
  for the user of the old session.
\<close>

theorem reauthentication_needs_no_password:
  assumes "get_realm_by_slug slug (AppState_storage st) = Inr realm" "get_realm (Realm_id realm) (AppState_storage st) = Inr realm"
    and "map_of params ''request'' = None" "map_of params ''request_uri'' = None"
    and "map_of params ''__geonosis_saml_request_id'' = None"
    and "AuthorizeRequest_parse lib params = Inr req"
    and "get_client_by_client_id (Realm_id realm) (AuthorizeRequest_client_id req) (AppState_storage st) = Inr client"
    and "Client_enabled client" "enforce_client_policy req client = Inr ()"
    and "extract_session_cookie headers = Some sid"
    and "resolve_session st (az_session_now az) sid (Realm_id realm) = Some session" "Session_id session = SessionId sid"
    and "enforce_prompt_policy lib (az_prompt_now az) req (Some session) = PromptDecision_StartFlow (Some session)"
    and "get_auth_flow_by_alias (Realm_id realm) alias_BROWSER (AppState_storage st) = Inr (browser fid ids (Realm_id realm))"
    and "get_auth_flow_by_alias_and_version (Realm_id realm) alias_BROWSER 1 (AppState_storage st) =
      Inr (browser fid ids (Realm_id realm))"
    and "inj ids" "no_plugins providers (Realm_id realm)" "ulid_law lib"
    and "handle_authorize lib az slug params headers st = (page, st')"
    and "AuthForm_flow_state_id form = FlowStateId_to_string lib (az_flow_state_id az)"
    and "ld_now draw \<le> FlowState_expires_at (started_state az realm (browser fid ids (Realm_id realm)))"
    and "\<And>k. fw_now w k \<le> FlowState_expires_at (started_state az realm (browser fid ids (Realm_id realm)))"
    and "\<And>k. fw_now w k \<le> Session_expires_at session"
  shows "\<exists>url cookies st'' g. authenticate_post lib draw providers w slug form st' =
      Some ((Response_Redirect url, cookies), st'') \<and>
    map_of (codes (AppState_storage st'')) (ld_code draw) = Some g \<and>
    CodeGrant_user_id g = Session_user_id session \<and> CodeGrant_client_id g = Client_id client"
proof -
  let ?st = "Server_Base.count MetricsState_oidc_authorize_update [Realm_slug realm, ''started''] st"
  have flow: "get_auth_flow_by_alias (Realm_id realm) alias_BROWSER (AppState_storage ?st) = Inr (browser fid ids (Realm_id realm))"
    using assms(14) by simp
  have start: "start_flow lib az realm client req params (Some session) ?st = (page, st')"
    using handle_authorize_starts [OF assms(1,3,4,6-11,13)] assms(19) by simp
  obtain row where st': "AppState_storage st' = (AppState_storage st)
        \<lparr>flow_states := hm_insert (az_flow_state_id az) row (flow_states (AppState_storage st))\<rparr>"
    and row: "FlowState_realm_id (FlowStateRow_state row) = Realm_id realm"
      "FlowState_expires_at (FlowStateRow_state row) = FlowState_expires_at (started_state az realm (browser fid ids (Realm_id realm)))"
      "FlowState_current_node (FlowStateRow_state row) = ids 0" "FlowState_flow_version (FlowStateRow_state row) = 1"
      "FlowContext_session_id (FlowState_context (FlowStateRow_state row)) = Some sid"
    and ps: "\<And>k. k \<noteq> ''__geonosis_acr_values'' \<Longrightarrow> map_of (FlowStateRow_authorize_params row) k = map_of params k"
    using start_flow_row [OF flow start] assms(12) by (auto simp: browser_def flow_defs Let_def)
  obtain uri where uri: "map_of params ''client_id'' = Some (AuthorizeRequest_client_id req)"
      "map_of params ''redirect_uri'' = Some uri" "url_parse lib uri = Inr (AuthorizeRequest_redirect_uri req)"
    using parse_request_params [OF assms(6)] .
  obtain i where i: "az_flow_state_id az = FlowStateId i" by (cases "az_flow_state_id az")
  have reads: "get_realm_by_slug s (AppState_storage st') = get_realm_by_slug s (AppState_storage st)"
    "get_realm r (AppState_storage st') = get_realm r (AppState_storage st)"
    "get_client_by_client_id r c (AppState_storage st') = get_client_by_client_id r c (AppState_storage st)"
    "get_session x (AppState_storage st') = get_session x (AppState_storage st)"
    "get_auth_flow_by_alias_and_version r a v (AppState_storage st') = get_auth_flow_by_alias_and_version r a v (AppState_storage st)"
    for s r c x a v by (simp_all add: st' store_defs split: option.split)
  have session: "get_session (SessionId sid) (AppState_storage st) = Inr session" "Session_realm_id session = Realm_id realm"
    using assms(11) by (simp_all add: resolve_session_def split: sum.splits if_splits)
  show ?thesis
  proof (rule session_login [where realm = realm and row = row and i = i and uri = uri and sid = sid and client = client])
    show "parse_ulid lib (AuthForm_flow_state_id form) = Inr i" using assms(18,20) by (simp add: ulid_law_def i)
    show "get_flow_state (FlowStateId i) (AppState_storage st') = Inr row" by (simp add: st' i get_flow_state_def)
    show "browser_definition realm (FlowStateRow_state row) (AppState_storage st') = Inr (browser fid ids (Realm_id realm))"
      by (simp add: browser_definition_def row reads assms(15))
    show "FlowState_current_node (FlowStateRow_state row) \<notin> ids ` {1..6}"
      using assms(16) by (simp add: row inj_image_mem_iff)
  qed (use assms row ps uri session in \<open>simp_all add: reads\<close>)
qed

section \<open>A login at the sample server\<close>

text \<open>
  The sample server with the built-in browser flow installed, a session of the sample user, and a library
  that writes identifiers in unary.
\<close>

definition sample_login_lib :: LoginLib where
  "sample_login_lib = SamlLib.extend (sample_saml_lib\<lparr>show_ulid := (\<lambda>n. replicate n CHR ''u''), parse_ulid := (\<lambda>s. Inr (length s))\<rparr>)
     (LoginLib.fields (\<lambda>b. Inl ''wasm'') (\<lambda>a b c d e f. Inl ''wasm'') (\<lambda>c. Inl ''json'') (\<lambda>f. Inl ''json'') (\<lambda>v. Inl ''json'')
        (\<lambda>s. Inl ''json''))"

lemmas sample_login_simps = sample_login_lib_def SamlLib.defs LoginLib.defs sample_saml_lib_def SpiLib.defs sample_authn_simps
  sample_http_simps

definition sample_login_tables :: Tables where
  "sample_login_tables = (AppState_storage sample_web_app)
     \<lparr>auth_flows := [((RealmId 1, FlowId 1), browser (FlowId 1) NodeId (RealmId 1))]\<rparr>"

definition sample_login_app :: AppState where
  "sample_login_app = sample_web_app\<lparr>AppState_storage := sample_login_tables\<rparr>"

definition sample_login_world :: FlowWorld where
  "sample_login_world = \<lparr>fw_tables = sample_login_tables, fw_now = (\<lambda>k. 4),
     fw_draw = (\<lambda>k. \<lparr>ad_now = 4, ad_consent_id = ConsentGrantId 1, ad_token = [], ad_random = 0\<rparr>), fw_user_id = (\<lambda>k. UserId k), fw_tick = 0\<rparr>"

definition sample_login_draw :: LoginDraw where
  "sample_login_draw = \<lparr>ld_now = 4, ld_join_now = 4, ld_session_now = 5, ld_session_id = SessionId ''m'',
     ld_code = CodeId ''d'', ld_ref_now = 6, ld_seen_now = 6, ld_name_id = UserId 9, ld_name_now = 6,
     ld_index_token = ''i'', ld_assertion_token = ''a'', ld_assertion_now = 6, ld_rng = ''r'', ld_response_token = ''p'',
     ld_response_now = 6\<rparr>"

abbreviation sample_relogin_params :: params where
  "sample_relogin_params \<equiv> sample_az_params @ [(''prompt'', ''login'')]"

definition sample_wrong_form :: AuthForm where
  "sample_wrong_form = \<lparr>AuthForm_flow_state_id = ''u'', AuthForm_username = ''nobody'', AuthForm_password = ''guess''\<rparr>"

lemma sample_login_laws: "ulid_law sample_login_lib" "no_plugins ProviderRegistry_new realm" "inj NodeId"
  by (simp_all add: ulid_law_def sample_login_simps no_plugins_def wasm_binding_def list_bindings_def ProviderRegistry_new_def
      inj_def)

lemma browser_fields:
  "FlowDefinition_realm_id (browser fid ids r) = r" "FlowDefinition_alias (browser fid ids r) = alias_BROWSER"
  "FlowDefinition_version (browser fid ids r) = 1" "FlowDefinition_start (browser fid ids r) = ids 0"
  by (simp_all add: browser_def flow_defs)

lemma sample_login_lookups:
  "get_realm_by_slug ''t'' (AppState_storage sample_login_app) = Inr sample_realm"
  "get_realm (RealmId 1) (AppState_storage sample_login_app) = Inr sample_realm"
  "get_client_by_client_id (RealmId 1) ''app'' (AppState_storage sample_login_app) = Inr sample_web_client"
  "get_session (SessionId ''n'') (AppState_storage sample_login_app) = Inr sample_session"
  "codes (AppState_storage sample_login_app) = []"
  "get_auth_flow_by_alias (RealmId 1) alias_BROWSER (AppState_storage sample_login_app) = Inr (browser (FlowId 1) NodeId (RealmId 1))"
  "get_auth_flow_by_alias_and_version (RealmId 1) alias_BROWSER 1 (AppState_storage sample_login_app) =
     Inr (browser (FlowId 1) NodeId (RealmId 1))"
  using sample_web_lookups
  by (simp_all add: get_realm_by_slug_def get_realm_def get_client_by_client_id_def get_session_def
      sample_login_app_def sample_login_tables_def get_auth_flow_by_alias_def get_auth_flow_by_alias_and_version_def
      browser_fields hm_values_def sample_web_app_def sample_tables_simps del: One_nat_def)

lemma sample_session_times:
  "Session_expires_at sample_session = 2 + 36000000000000" "Session_realm_id sample_session = RealmId 1"
  "Session_id sample_session = SessionId ''n''" "Session_user_id sample_session = UserId 1"
  by (simp_all add: sample_session_def fresh_grant_session_def sample_token_draw_def sample_fresh_def Let_def
      from_std_or_default_def chrono_from_std_def sample_realm_def SessionPolicy_default_def secs_def)

lemma sample_started_expiry:
  "FlowState_expires_at (started_state sample_az_draw sample_realm def) = 3 + 900000000000"
  by (simp add: started_state_def FlowState_fresh_def sample_az_draw_def sample_realm_def SessionPolicy_default_def secs_def
      chrono_from_std_def)

lemma sample_flow_text: "FlowStateId_to_string sample_login_lib (az_flow_state_id sample_az_draw) = ''u''"
  by (simp add: sample_az_draw_def sample_login_simps)

lemma sample_relogin_parse:
  "AuthorizeRequest_parse sample_login_lib sample_relogin_params = Inr
     \<lparr>AuthorizeRequest_response_type = ResponseType_Code, AuthorizeRequest_client_id = ''app'',
      AuthorizeRequest_redirect_uri = ''https://app.example/cb'', AuthorizeRequest_scope = [],
      AuthorizeRequest_state = None, AuthorizeRequest_nonce = None, AuthorizeRequest_code_challenge = None,
      AuthorizeRequest_code_challenge_method = None, AuthorizeRequest_acr_values = None,
      AuthorizeRequest_prompt = Some ''login'', AuthorizeRequest_max_age = None, AuthorizeRequest_login_hint = None,
      AuthorizeRequest_id_token_hint = None, AuthorizeRequest_extra = []\<rparr>"
  by (simp add: AuthorizeRequest_parse_def sample_login_simps parse_scope_string_def split_ascii_whitespace_def
      plain_method_def scope_has_def known_params_def)

lemma prompt_login_starts:
  assumes "AuthorizeRequest_prompt req = Some ''login''" "AuthorizeRequest_max_age req = None"
  shows "enforce_prompt_policy lib now req sso = PromptDecision_StartFlow sso"
proof -
  have "split_whitespace ''login'' = [''login'']" by code_simp
  then show ?thesis using assms by (simp add: enforce_prompt_policy_def Let_def PROMPT_VALUES_def)
qed

theorem reauthentication_needs_no_password_witness:
  "\<exists>page st' url cookies st'' g.
     handle_authorize sample_login_lib sample_az_draw ''t'' sample_relogin_params sample_cookie sample_login_app = (page, st') \<and>
     authenticate_post sample_login_lib sample_login_draw ProviderRegistry_new sample_login_world ''t'' sample_wrong_form st' =
       Some ((Response_Redirect url, cookies), st'') \<and>
     map_of (codes (AppState_storage st'')) (CodeId ''d'') = Some g \<and> CodeGrant_user_id g = UserId 1"
proof -
  obtain page st' where st': "handle_authorize sample_login_lib sample_az_draw ''t'' sample_relogin_params sample_cookie
      sample_login_app = (page, st')" by fastforce
  have client: "Client_enabled sample_web_client" by (simp add: sample_web_client_def sample_client_def)
  have policy: "enforce_client_policy req sample_web_client = Inr ()"
    if "AuthorizeRequest_redirect_uri req = ''https://app.example/cb''" for req
    using that by (simp add: enforce_client_policy_def sample_web_client_def sample_client_def Let_def
        RedirectUri_matches_def trim_end_char_def)
  have session: "resolve_session sample_login_app (az_session_now sample_az_draw) ''n'' (Realm_id sample_realm) = Some sample_session"
    using sample_session_times by (simp add: resolve_session_def sample_login_lookups sample_realm_id sample_az_draw_def del: One_nat_def)
  have "\<exists>url cookies st'' g. authenticate_post sample_login_lib sample_login_draw ProviderRegistry_new sample_login_world ''t''
      sample_wrong_form st' = Some ((Response_Redirect url, cookies), st'') \<and>
    map_of (codes (AppState_storage st'')) (ld_code sample_login_draw) = Some g \<and>
    CodeGrant_user_id g = Session_user_id sample_session \<and> CodeGrant_client_id g = Client_id sample_web_client"
    by (rule reauthentication_needs_no_password [OF _ _ _ _ _ sample_relogin_parse _ client policy sample_cookie_sid session _
          prompt_login_starts _ _ sample_login_laws(3) sample_login_laws(2,1) st', where fid = "FlowId 1"])
      (simp_all add: sample_login_lookups sample_realm_id sample_session_times sample_started_expiry sample_wrong_form_def
        sample_login_world_def sample_login_draw_def sample_flow_text del: One_nat_def)
  then show ?thesis using st' by (auto simp: sample_session_times sample_login_draw_def)
qed

definition sample_flow_row :: FlowStateRow where
  "sample_flow_row = \<lparr>FlowStateRow_state = (started_state sample_az_draw sample_realm (browser (FlowId 1) NodeId (RealmId 1)))
     \<lparr>FlowState_context := FlowContext_default\<lparr>FlowContext_session_id := Some ''n''\<rparr>\<rparr>,
     FlowStateRow_authorize_params = sample_az_params\<rparr>"

definition sample_flow_app :: AppState where
  "sample_flow_app = sample_login_app\<lparr>AppState_storage := sample_login_tables\<lparr>flow_states := [(FlowStateId 1, sample_flow_row)]\<rparr>\<rparr>"

lemma sample_flow_lookups:
  "get_realm_by_slug ''t'' (AppState_storage sample_flow_app) = Inr sample_realm"
  "get_realm (RealmId 1) (AppState_storage sample_flow_app) = Inr sample_realm"
  "get_client_by_client_id (RealmId 1) ''app'' (AppState_storage sample_flow_app) = Inr sample_web_client"
  "get_session (SessionId ''n'') (AppState_storage sample_flow_app) = Inr sample_session"
  "codes (AppState_storage sample_flow_app) = []"
  "get_flow_state (FlowStateId 1) (AppState_storage sample_flow_app) = Inr sample_flow_row"
  "browser_definition sample_realm (FlowStateRow_state sample_flow_row) (AppState_storage sample_flow_app) =
     Inr (browser (FlowId 1) NodeId (RealmId 1))"
  using sample_login_lookups sample_realm_id
  by (simp_all add: get_realm_by_slug_def get_realm_def get_client_by_client_id_def get_session_def get_flow_state_def
      sample_login_app_def sample_flow_app_def get_auth_flow_by_alias_def get_auth_flow_by_alias_and_version_def
      browser_definition_def sample_flow_row_def started_state_def FlowState_fresh_def browser_fields
      split: option.splits del: One_nat_def)

lemma sample_flow_row_fields:
  "FlowState_expires_at (FlowStateRow_state sample_flow_row) = 3 + 900000000000"
  "FlowState_realm_id (FlowStateRow_state sample_flow_row) = RealmId 1"
  "FlowState_current_node (FlowStateRow_state sample_flow_row) = NodeId 0"
  "FlowContext_session_id (FlowState_context (FlowStateRow_state sample_flow_row)) = Some ''n''"
  "FlowStateRow_authorize_params sample_flow_row = sample_az_params"
  using sample_started_expiry sample_realm_id
  by (simp_all add: sample_flow_row_def started_state_def FlowState_fresh_def browser_fields)

theorem login_identifies_user_witness:
  "\<exists>resp st' g. authenticate_post sample_login_lib sample_login_draw ProviderRegistry_new sample_login_world ''t''
       sample_wrong_form sample_flow_app = Some (resp, st') \<and>
     map_of (codes (AppState_storage st')) (CodeId ''d'') = Some g \<and> CodeGrant_realm_id g = RealmId 1 \<and>
     identified sample_login_lib (fw_now sample_login_world) (RealmId 1) (login_form sample_wrong_form)
       (FlowState_context (FlowStateRow_state sample_flow_row)) (AppState_storage sample_flow_app) (CodeGrant_user_id g)"
proof -
  have id: "parse_ulid sample_login_lib (AuthForm_flow_state_id sample_wrong_form) = Inr 1"
    by (simp add: sample_wrong_form_def sample_login_simps)
  have start: "FlowState_current_node (FlowStateRow_state sample_flow_row) \<notin> NodeId ` {1..6}"
    by (auto simp: sample_flow_row_fields)
  have "\<exists>url cookies st' g. authenticate_post sample_login_lib sample_login_draw ProviderRegistry_new sample_login_world ''t''
      sample_wrong_form sample_flow_app = Some ((Response_Redirect url, cookies), st') \<and>
    map_of (codes (AppState_storage st')) (ld_code sample_login_draw) = Some g \<and>
    CodeGrant_user_id g = Session_user_id sample_session \<and> CodeGrant_client_id g = Client_id sample_web_client"
    by (rule session_login [OF _ id _ _ _ _ _ sample_login_laws(3) start sample_login_laws(2,1), where realm = sample_realm and
          fid = "FlowId 1" and cid = "''app''" and uri = "''https://app.example/cb''" and redirect_uri = "''https://app.example/cb''"
          and sid = "''n''"])
      (simp_all add: sample_flow_lookups sample_flow_row_fields sample_realm_id sample_session_times
        sample_login_world_def sample_login_draw_def sample_login_simps del: One_nat_def)
  then obtain resp st' g where run: "authenticate_post sample_login_lib sample_login_draw ProviderRegistry_new sample_login_world
      ''t'' sample_wrong_form sample_flow_app = Some (resp, st')" "map_of (codes (AppState_storage st')) (CodeId ''d'') = Some g"
    by (auto simp: sample_login_draw_def)
  have def: "browser_definition sample_realm (FlowStateRow_state sample_flow_row) (AppState_storage sample_flow_app) =
      Inr (browser (FlowId 1) NodeId (Realm_id sample_realm))" by (simp only: sample_flow_lookups sample_realm_id)
  from login_identifies_user [OF run(1) sample_flow_lookups(1) id sample_flow_lookups(6) def sample_login_laws(3) start
      sample_login_laws(2,1) run(2)] run show ?thesis
    by (simp add: sample_flow_lookups(5) sample_realm_id del: One_nat_def)
qed

end
