(* ===== verification/Admin_Base.thy ===== *)
theory Admin_Base
  imports Server_Login Flow_DryRun
begin

text \<open>
  The frame of the administration API (\<^verbatim>\<open>geonosis-admin-ui\<close>: \<^verbatim>\<open>state.rs\<close>, \<^verbatim>\<open>auth.rs\<close>, \<^verbatim>\<open>audit_emit.rs\<close>,
  \<^verbatim>\<open>org_flow.rs\<close>, the login and logout of \<^verbatim>\<open>handlers.rs\<close>): its state and errors, who is let in, and the
  helpers for organizations. A handler is a function of the state to a result and the state after it;
  \<open>admin_bind\<close> is the question mark of the source. Clock readings, fresh identifiers and secrets are
  arguments; page markup is left out.
\<close>

section \<open>State and errors (\<open>state.rs\<close>)\<close>

record AdminLib = SamlLib +
  url_scheme_host :: "string \<Rightarrow> string + string \<times> string option"
  argon2_hash :: "string \<Rightarrow> string \<Rightarrow> string + string"
  saml_sp_to_json :: "SamlSpClientConfig \<Rightarrow> Value"
  char_classes :: Unicode
  debug_char :: "string \<Rightarrow> string"

record AdminState =
  AdminState_storage :: Tables
  AdminState_audit :: "AuditEvent list"
  AdminState_event_draw :: "nat \<Rightarrow> EventId \<times> DateTime"
  AdminState_kms :: SoftwareKms
  AdminState_public_base_url :: Url
  AdminState_client_secret_hash_key :: string
  AdminState_admin_api_key :: "string option"

text \<open>
  The server hands the administration its own store, publisher and key service (\<open>app.rs\<close>), so what
  a handler leaves in them the server goes on with.
\<close>

definition admin_of_app :: "string option \<Rightarrow> AppState \<Rightarrow> AdminState" where
  "admin_of_app admin_api_key state =
     \<lparr>AdminState_storage = AppState_storage state, AdminState_audit = AppState_audit state,
      AdminState_event_draw = AppState_event_draw state, AdminState_kms = AppState_kms state,
      AdminState_public_base_url = AppState_public_base_url state,
      AdminState_client_secret_hash_key = AppState_client_secret_hash_key state,
      AdminState_admin_api_key = admin_api_key\<rparr>"

definition app_after_admin :: "AdminState \<Rightarrow> AppState \<Rightarrow> AppState" where
  "app_after_admin admin state =
     state\<lparr>AppState_storage := AdminState_storage admin, AppState_kms := AdminState_kms admin,
           AppState_audit := AdminState_audit admin\<rparr>"

datatype AdminError =
    AdminError_Storage string
  | AdminError_I18n string
  | AdminError_NotFound
  | AdminError_PasswordPolicy "string list"
  | AdminError_InvalidInput string

definition AdminError_from :: "StorageError \<Rightarrow> AdminError" where
  "AdminError_from e =
     (case e of StorageError_NotFound \<Rightarrow> AdminError_NotFound
      | _ \<Rightarrow> AdminError_Storage (StorageError_to_string e))"

datatype AdminBody = AdminBody_Text string | AdminBody_Json Value

fun AdminError_into_response :: "AdminError \<Rightarrow> nat \<times> AdminBody" where
  "AdminError_into_response AdminError_NotFound = (404, AdminBody_Text ''not found'')"
| "AdminError_into_response (AdminError_PasswordPolicy violations) =
     (400, AdminBody_Json (Value_Object [(''error'', Value_String ''password_policy_violation''),
       (''violations'', Value_Array (map Value_String violations))]))"
| "AdminError_into_response (AdminError_InvalidInput msg) =
     (400, AdminBody_Json (Value_Object [(''error'', Value_String ''invalid_input''),
       (''message'', Value_String msg)]))"
| "AdminError_into_response (AdminError_Storage e) = (500, AdminBody_Text (''storage: '' @ e))"
| "AdminError_into_response (AdminError_I18n e) = (500, AdminBody_Text (''i18n: '' @ e))"

section \<open>Handlers\<close>

type_synonym 'r admin = "AdminState \<Rightarrow> (AdminError + 'r) \<times> AdminState"

definition admin_ok :: "'r \<Rightarrow> 'r admin" where "admin_ok r st = (Inr r, st)"

definition admin_err :: "AdminError \<Rightarrow> 'r admin" where "admin_err e st = (Inl e, st)"

definition admin_bind :: "'a admin \<Rightarrow> ('a \<Rightarrow> 'b admin) \<Rightarrow> 'b admin" where
  "admin_bind m k st = (case m st of (Inl e, st) \<Rightarrow> (Inl e, st) | (Inr r, st) \<Rightarrow> k r st)"

definition admin_read :: "(Tables \<Rightarrow> StorageError + 'a) \<Rightarrow> 'a admin" where
  "admin_read f st = (map_sum AdminError_from id (f (AdminState_storage st)), st)"

definition admin_write :: "(Tables \<Rightarrow> (StorageError + 'a) \<times> Tables) \<Rightarrow> 'a admin" where
  "admin_write f st =
     (let (r, t) = f (AdminState_storage st) in (map_sum AdminError_from id r, st\<lparr>AdminState_storage := t\<rparr>))"

section \<open>Audit events (\<open>audit_emit.rs\<close>)\<close>

definition publish_as :: "Actor \<Rightarrow> RealmId \<Rightarrow> string \<Rightarrow> Target option \<Rightarrow> Value \<Rightarrow> AdminState \<Rightarrow> AdminState" where
  "publish_as actor realm_id action target detail st =
     (let (i, now) = AdminState_event_draw st (length (AdminState_audit st)) in
      st\<lparr>AdminState_audit := AdminState_audit st @
           [\<lparr>AuditEvent_id = i, AuditEvent_realm_id = realm_id, AuditEvent_occurred_at = now,
             AuditEvent_actor = actor, AuditEvent_action = action, AuditEvent_target = target,
             AuditEvent_detail = detail\<rparr>]\<rparr>)"

definition admin_publish :: "RealmId \<Rightarrow> string \<Rightarrow> Target option \<Rightarrow> Value \<Rightarrow> AdminState \<Rightarrow> AdminState" where
  "admin_publish = publish_as Actor_System"

definition admin_emit :: "RealmId \<Rightarrow> string \<Rightarrow> Target option \<Rightarrow> Value \<Rightarrow> unit admin" where
  "admin_emit realm_id action target detail st = (Inr (), admin_publish realm_id action target detail st)"

section \<open>Who is let in (\<open>auth.rs\<close>)\<close>

text \<open>The headers the middleware reads, those that are visible ASCII; of several, the first.\<close>

record AdminHeaders =
  AdminHeaders_x_admin_key :: "string option"
  AdminHeaders_authorization :: "string option"
  AdminHeaders_cookie :: "string option"
  AdminHeaders_accept :: "string option"

record AdminPrincipal =
  AdminPrincipal_user_id :: UserId
  AdminPrincipal_username :: string
  AdminPrincipal_realm_id :: RealmId

definition emit_with_principal ::
  "AdminPrincipal \<Rightarrow> RealmId \<Rightarrow> string \<Rightarrow> Target option \<Rightarrow> Value \<Rightarrow> AdminState \<Rightarrow> AdminState" where
  "emit_with_principal p = publish_as (Actor_AdminApi (AdminPrincipal_user_id p) ''0.0.0.0'')"

definition COOKIE_NAME :: string where "COOKIE_NAME = ''geonosis_admin_sid''"

definition admin_bearer_from :: "AdminHeaders \<Rightarrow> string option" where
  "admin_bearer_from headers =
     (case Option.bind (AdminHeaders_authorization headers) (\<lambda>val. strip_prefix val ''Bearer '') of
        None \<Rightarrow> None
      | Some tok \<Rightarrow> if tok = [] then None else Some tok)"

text \<open>The loop returns at the first pair that begins with the name, whether or not it is the cookie.\<close>

fun cookie_pair :: "string \<Rightarrow> string list \<Rightarrow> string option" where
  "cookie_pair name [] = None"
| "cookie_pair name (pair # pairs) =
     (case strip_prefix (str_trim pair) name of
        Some val \<Rightarrow> strip_prefix val ''=''
      | None \<Rightarrow> cookie_pair name pairs)"

definition cookie_value :: "AdminHeaders \<Rightarrow> string \<Rightarrow> string option" where
  "cookie_value headers name =
     Option.bind (AdminHeaders_cookie headers) (\<lambda>cookies. cookie_pair name (split_char CHR '';'' cookies))"

definition cookie_value_from :: "AdminHeaders \<Rightarrow> string option" where
  "cookie_value_from headers = cookie_value headers COOKIE_NAME"

definition wants_html :: "AdminHeaders \<Rightarrow> bool" where
  "wants_html headers =
     unwrap_or (map_option (\<lambda>v. str_find ''text/html'' v \<noteq> None) (AdminHeaders_accept headers)) True"

definition has_admin_role :: "AccessTokenClaims \<Rightarrow> bool" where
  "has_admin_role claims =
     (case AccessTokenClaims_realm_access claims of
        Some ra \<Rightarrow> ''admin'' \<in> set (RealmAccess_roles ra) | None \<Rightarrow> False)"

definition verify_bearer :: "'l OidcLib_scheme \<Rightarrow> DateTime \<Rightarrow> string \<Rightarrow> AdminState \<Rightarrow> string + AdminPrincipal" where
  "verify_bearer lib now tok state =
     (case split_char CHR ''.'' tok of
        [] \<Rightarrow> Inl ''malformed jwt''
      | [_] \<Rightarrow> Inl ''malformed jwt''
      | [_, _] \<Rightarrow> Inl ''malformed jwt''
      | h_b64 # _ \<Rightarrow>
     (case base64_url_decode lib h_b64 of
        Inl e \<Rightarrow> Inl (''invalid base64url: '' @ e)
      | Inr header_bytes \<Rightarrow>
     (case header_from_json lib header_bytes of
        Inl e \<Rightarrow> Inl e
      | Inr header \<Rightarrow>
     (case parse_ulid lib (JwsHeader_kid header) of
        Inl _ \<Rightarrow> Inl ''bad kid''
      | Inr kid \<Rightarrow>
     (case supported_alg (JwsHeader_alg header) of
        None \<Rightarrow> Inl (''unsupported alg: '' @ JwsHeader_alg header)
      | Some alg \<Rightarrow>
     (case load_public lib (KeyId kid) (AdminState_kms state) of
        Inl e \<Rightarrow> Inl (KmsError_to_string lib e)
      | Inr public \<Rightarrow>
     (case verify_jwt lib (access_claims_from_json lib) tok alg (JwsHeader_kid header) public of
        Inl e \<Rightarrow> Inl (JwtVerifyError_to_string e)
      | Inr claims \<Rightarrow>
      if AccessTokenClaims_exp claims < timestamp now then Inl ''token expired''
      else if \<not> has_admin_role claims then Inl ''admin role required''
      else (case parse_ulid lib (AccessTokenClaims_sub claims) of
        Inl _ \<Rightarrow> Inl ''bad sub''
      | Inr sub \<Rightarrow>
     (case get_realm_by_slug (last (split_char CHR ''/'' (AccessTokenClaims_iss claims))) (AdminState_storage state) of
        Inl _ \<Rightarrow> Inl ''unknown realm''
      | Inr realm \<Rightarrow>
     (case get_user (Realm_id realm) (UserId sub) (AdminState_storage state) of
        Inl _ \<Rightarrow> Inl ''user not found''
      | Inr user \<Rightarrow>
          Inr \<lparr>AdminPrincipal_user_id = UserId sub, AdminPrincipal_username = User_username user,
               AdminPrincipal_realm_id = Realm_id realm\<rparr>))))))))))"

definition is_admin_user :: "User \<Rightarrow> bool" where
  "is_admin_user user = (map_of (User_attributes user) ''admin'' = Some (AttributeValue_Bool True))"

definition verify_session :: "DateTime \<Rightarrow> string \<Rightarrow> AdminState \<Rightarrow> (string + AdminPrincipal) \<times> AdminState" where
  "verify_session now sid state =
     (case get_session (SessionId sid) (AdminState_storage state) of
        Inl _ \<Rightarrow> (Inl ''session not found'', state)
      | Inr session \<Rightarrow>
      if Session_expires_at session < now
      then (Inl ''session expired'', snd (admin_write (delete_session (SessionId sid)) state))
      else (case get_user (Session_realm_id session) (Session_user_id session) (AdminState_storage state) of
        Inl _ \<Rightarrow> (Inl ''user not found'', state)
      | Inr user \<Rightarrow>
          if \<not> is_admin_user user then (Inl ''admin role required'', state)
          else (Inr \<lparr>AdminPrincipal_user_id = Session_user_id session, AdminPrincipal_username = User_username user,
                     AdminPrincipal_realm_id = Session_realm_id session\<rparr>, state)))"

datatype AdminGate =
    AdminGate_Pass "AdminPrincipal option"
  | AdminGate_Redirect string
  | AdminGate_Unauthorized string string

definition api_key_matches :: "'l HttpLib_scheme \<Rightarrow> AdminHeaders \<Rightarrow> AdminState \<Rightarrow> bool" where
  "api_key_matches lib headers state =
     (case (AdminState_admin_api_key state, AdminHeaders_x_admin_key headers) of
        (Some expected, Some provided) \<Rightarrow>
          length provided = length expected \<and> constant_time_eq lib provided expected
      | _ \<Rightarrow> False)"

definition gate_refused :: "AdminHeaders \<Rightarrow> string \<Rightarrow> string \<Rightarrow> AdminGate" where
  "gate_refused headers challenge msg =
     (if wants_html headers then AdminGate_Redirect ''/admin/login'' else AdminGate_Unauthorized challenge msg)"

definition require_admin :: "'l HttpLib_scheme \<Rightarrow> DateTime \<Rightarrow> AdminHeaders \<Rightarrow> AdminState \<Rightarrow> AdminGate \<times> AdminState" where
  "require_admin lib now headers state =
     (if api_key_matches lib headers state then (AdminGate_Pass None, state)
      else case admin_bearer_from headers of
        Some tok \<Rightarrow>
          ((case verify_bearer lib now tok state of
              Inr p \<Rightarrow> AdminGate_Pass (Some p)
            | Inl msg \<Rightarrow> gate_refused headers ''Bearer error=\"invalid_token\"'' msg), state)
      | None \<Rightarrow>
     (case cookie_value headers COOKIE_NAME of
        None \<Rightarrow> (gate_refused headers ''Bearer'' ''authentication required'', state)
      | Some sid \<Rightarrow>
     (case verify_session now sid state of
        (Inr p, state) \<Rightarrow> (AdminGate_Pass (Some p), state)
      | (Inl _, state) \<Rightarrow> (gate_refused headers ''Bearer'' ''authentication required'', state))))"

section \<open>Login and logout (\<open>handlers.rs\<close>)\<close>

datatype AdminLogin = AdminLogin_Redirect string string | AdminLogin_Page string

definition admin_session :: "DateTime \<Rightarrow> SessionId \<Rightarrow> Realm \<Rightarrow> User \<Rightarrow> Session" where
  "admin_session now session_id realm user =
     \<lparr>Session_id = session_id, Session_realm_id = Realm_id realm, Session_user_id = User_id user,
      Session_authn_level = AuthnLevel_Single, Session_idp_alias = None, Session_started_at = now,
      Session_last_seen_at = now, Session_expires_at = now + chrono_seconds (24 * 3600), Session_clients = []\<rparr>"

definition try_login ::
  "'l HttpLib_scheme \<Rightarrow> DateTime \<Rightarrow> SessionId \<Rightarrow> string \<Rightarrow> string \<Rightarrow> AdminState \<Rightarrow>
   (string + string \<times> RealmId) \<times> AdminState" where
  "try_login lib now session_id username password state =
     (let t = AdminState_storage state in
      case list_realms t of
        Inl _ \<Rightarrow> (Inl ''internal error'', state)
      | Inr [] \<Rightarrow> (Inl ''no realm configured'', state)
      | Inr (realm # _) \<Rightarrow>
     (case (case get_user_by_username (Realm_id realm) username t of
              Inr u \<Rightarrow> Inr u | Inl _ \<Rightarrow> get_user_by_email (Realm_id realm) username t) of
        Inl _ \<Rightarrow> (Inl ''Invalid username or password'', state)
      | Inr user \<Rightarrow>
      if \<not> User_enabled user then (Inl ''Account is disabled'', state)
      else if \<not> is_admin_user user then (Inl ''Admin access required'', state)
      else (case get_password_hash (Realm_id realm) (User_id user) t of
        Inl _ \<Rightarrow> (Inl ''Invalid username or password'', state)
      | Inr hash \<Rightarrow>
     (case verify_password lib password hash of
        Inl _ \<Rightarrow> (Inl ''Invalid username or password'', state)
      | Inr valid \<Rightarrow>
      if \<not> valid then (Inl ''Invalid username or password'', state)
      else (case admin_write (create_session (admin_session now session_id realm user)) state of
        (Inl _, state) \<Rightarrow> (Inl ''internal error'', state)
      | (Inr _, state) \<Rightarrow> (Inr (SessionId_text session_id, Realm_id realm), state))))))"

definition login_submit ::
  "'l HttpLib_scheme \<Rightarrow> DateTime \<Rightarrow> SessionId \<Rightarrow> string \<Rightarrow> string \<Rightarrow> AdminState \<Rightarrow> AdminLogin \<times> AdminState" where
  "login_submit lib now session_id username password state =
     (case try_login lib now session_id username password state of
        (Inr (sid, _), state) \<Rightarrow>
          (AdminLogin_Redirect ''/admin/realms''
             (COOKIE_NAME @ ''='' @ sid @ ''; Path=/admin; HttpOnly; SameSite=Lax; Max-Age=86400''), state)
      | (Inl msg, state) \<Rightarrow> (AdminLogin_Page msg, state))"

definition admin_logout :: "AdminHeaders \<Rightarrow> AdminState \<Rightarrow> AdminLogin \<times> AdminState" where
  "admin_logout headers state =
     (AdminLogin_Redirect ''/admin/login''
        (COOKIE_NAME @ ''=; Path=/admin; HttpOnly; SameSite=Lax; Max-Age=0''),
      case cookie_value_from headers of
        Some sid \<Rightarrow> snd (admin_write (delete_session (SessionId sid)) state)
      | None \<Rightarrow> state)"

section \<open>Organizations of a user (\<open>org_flow.rs\<close>)\<close>

definition email_domain :: "string \<Rightarrow> string option" where
  "email_domain email =
     (case split_once CHR ''@'' (str_trim email) of
        None \<Rightarrow> None
      | Some (_, d) \<Rightarrow> if d = [] \<or> CHR ''@'' \<in> set d then None else Some d)"

definition auto_join_verified_domain ::
  "DateTime \<Rightarrow> RealmId \<Rightarrow> UserId \<Rightarrow> string \<Rightarrow> (OrganizationId option, Tables) store_op" where
  "auto_join_verified_domain now realm user_id email t =
     (case email_domain email of
        None \<Rightarrow> (Inr None, t)
      | Some domain \<Rightarrow>
     (case find_org_by_verified_domain realm (map to_ascii_lowercase domain) t of
        Inl e \<Rightarrow> (Inl e, t)
      | Inr None \<Rightarrow> (Inr None, t)
      | Inr (Some org) \<Rightarrow>
     (case upsert_org_membership
             \<lparr>OrgMembership_organization_id = Organization_id org, OrgMembership_realm_id = realm,
              OrgMembership_user_id = user_id, OrgMembership_roles = [], OrgMembership_joined_at = now,
              OrgMembership_invited_by = None, OrgMembership_state = MembershipState_Active\<rparr> t of
        (Inl e, t) \<Rightarrow> (Inl e, t)
      | (Inr _, t) \<Rightarrow> (Inr (Some (Organization_id org)), t))))"

text \<open>\<open>Iterator::min_by\<close>: the first of the least elements.\<close>

fun min_by_key :: "('a \<Rightarrow> int) \<Rightarrow> 'a list \<Rightarrow> 'a option" where
  "min_by_key f [] = None"
| "min_by_key f (x # xs) =
     (case min_by_key f xs of None \<Rightarrow> Some x | Some y \<Rightarrow> if f y < f x then Some y else Some x)"

fun OrganizationId_to_string :: "'l KmsLib_scheme \<Rightarrow> OrganizationId \<Rightarrow> string" where
  "OrganizationId_to_string lib (OrganizationId u) = show_ulid lib u"

definition build_org_claim_for ::
  "'l KmsLib_scheme \<Rightarrow> RealmId \<Rightarrow> UserId \<Rightarrow> OrganizationId \<Rightarrow> (OrgClaim option, Tables) store_read" where
  "build_org_claim_for lib realm user_id organization_id t =
     (case get_org_membership realm organization_id user_id t of
        Inl StorageError_NotFound \<Rightarrow> Inr None
      | Inl e \<Rightarrow> Inl e
      | Inr membership \<Rightarrow>
     (case get_organization realm organization_id t of
        Inl e \<Rightarrow> Inl e
      | Inr org \<Rightarrow>
          (let all_roles = (case list_org_roles realm organization_id t of Inl _ \<Rightarrow> [] | Inr rs \<Rightarrow> rs);
               role_names = List.map_filter (\<lambda>rid. map_option OrgRole_name (find (\<lambda>r. OrgRole_id r = rid) all_roles))
                 (OrgMembership_roles membership) in
           Inr (Some \<lparr>OrgClaim_alias = Organization_alias org, OrgClaim_id = OrganizationId_to_string lib (Organization_id org),
             OrgClaim_display_name = Some (Organization_display_name org), OrgClaim_roles = role_names\<rparr>))))"

definition build_org_claim_default ::
  "'l KmsLib_scheme \<Rightarrow> RealmId \<Rightarrow> UserId \<Rightarrow> (OrgClaim option, Tables) store_read" where
  "build_org_claim_default lib realm user_id t =
     (case list_user_orgs realm user_id t of
        Inl e \<Rightarrow> Inl e
      | Inr memberships \<Rightarrow>
     (case min_by_key OrgMembership_joined_at
             (filter (\<lambda>m. OrgMembership_state m = MembershipState_Active) memberships) of
        None \<Rightarrow> Inr None
      | Some m \<Rightarrow> build_org_claim_for lib realm user_id (OrgMembership_organization_id m) t))"

end
