(* ===== verification/Admin_Api.thy ===== *)
theory Admin_Api
  imports Admin_Base
begin

text \<open>
  The JSON endpoints of the administration for realms, clients, users, profile schemas, sessions, keys,
  events and flows (\<^verbatim>\<open>handlers_v1\<close>). The extractors of the web framework have parsed path and body. A
  handler that answers \<open>204 No Content\<close> has the result \<open>()\<close>. \<open>now\<close> is the clock reading, \<open>new_id\<close>
  the identifier drawn; \<open>usize\<close> is a natural number.
\<close>

definition admin_realm_by_slug :: "string \<Rightarrow> Realm admin" where
  "admin_realm_by_slug slug = admin_read (get_realm_by_slug slug)"

section \<open>Realms (\<open>realms.rs\<close>)\<close>

definition MASTER_REALM_SLUG :: string where "MASTER_REALM_SLUG = ''master''"

record CreateRealmRequest =
  CreateRealmRequest_slug :: string
  CreateRealmRequest_display_name :: string
  CreateRealmRequest_enabled :: bool

definition WebauthnPolicy_default :: WebauthnPolicy where
  "WebauthnPolicy_default =
     \<lparr>WebauthnPolicy_relying_party_id = None, WebauthnPolicy_relying_party_name = ''Geonosis'',
      WebauthnPolicy_signature_algorithms = [''ES256'', ''RS256'', ''EdDSA''],
      WebauthnPolicy_attestation_conveyance_preference = ''none'', WebauthnPolicy_authenticator_attachment = None,
      WebauthnPolicy_require_resident_key = False, WebauthnPolicy_user_verification = ''preferred'',
      WebauthnPolicy_assertion_as_step = True\<rparr>"

definition LocalizationPolicy_default :: LocalizationPolicy where
  "LocalizationPolicy_default =
     \<lparr>LocalizationPolicy_default_locale = ''en-US'', LocalizationPolicy_supported_locales = [''en-US'']\<rparr>"

definition EventConfig_default :: EventConfig where
  "EventConfig_default =
     \<lparr>EventConfig_enabled = False, EventConfig_admin_enabled = False, EventConfig_login_enabled = False,
      EventConfig_events_listeners = [], EventConfig_enabled_events = [], EventConfig_retention_days = 0\<rparr>"

definition OrganizationPolicy_default :: OrganizationPolicy where
  "OrganizationPolicy_default =
     \<lparr>OrganizationPolicy_default_invitation_ttl_days = 0, OrganizationPolicy_default_role_for_self_signup = None,
      OrganizationPolicy_require_domain_verification = False, OrganizationPolicy_auto_join_on_domain_match = False\<rparr>"

definition created_realm :: "DateTime \<Rightarrow> RealmId \<Rightarrow> CreateRealmRequest \<Rightarrow> Realm" where
  "created_realm now new_id req =
     \<lparr>Realm_id = new_id, Realm_slug = CreateRealmRequest_slug req,
      Realm_display_name = CreateRealmRequest_display_name req, Realm_frontend_url = None,
      Realm_admin_frontend_url = None, Realm_enabled = CreateRealmRequest_enabled req,
      Realm_ssl_required = SslRequirement_ExternalRequests, Realm_login = LoginSettings_default,
      Realm_registration = \<lparr>RegistrationPolicy_enabled = False, RegistrationPolicy_email_as_username = False,
        RegistrationPolicy_require_terms_acceptance = False\<rparr>,
      Realm_session_policy = SessionPolicy_default, Realm_token_policy = TokenPolicy_default,
      Realm_brute_force = BruteForcePolicy_default, Realm_password_policy = PasswordPolicy_default,
      Realm_otp_policy = OtpPolicy_default, Realm_webauthn_policy = WebauthnPolicy_default,
      Realm_acr_policy = \<lparr>AcrPolicy_levels = []\<rparr>, Realm_sender_constraint_default = SenderConstraint_None,
      Realm_theme_binding = \<lparr>ThemeBinding_login = None, ThemeBinding_admin = None, ThemeBinding_email = None,
        ThemeBinding_account = None\<rparr>,
      Realm_localization = LocalizationPolicy_default, Realm_events = EventConfig_default,
      Realm_default_groups = [], Realm_default_roles = \<lparr>DefaultRoles_realm_roles = [], DefaultRoles_client_roles = []\<rparr>,
      Realm_organizations_enabled = True, Realm_organization_policy = OrganizationPolicy_default,
      Realm_created_at = now, Realm_updated_at = now\<rparr>"

text \<open>What creating a realm draws: its id, the ids of the seeded flows, and the signing key.\<close>

record RealmDraw =
  rd_now :: DateTime
  rd_id :: RealmId
  rd_flow_ids :: "nat \<Rightarrow> FlowId"
  rd_node_ids :: "nat \<Rightarrow> nat \<Rightarrow> NodeId"
  rd_key_now :: DateTime
  rd_key_rng :: string
  rd_key_nonce :: string
  rd_key_id :: KeyId

definition admin_seed_keys :: "'l KmsLib_scheme \<Rightarrow> RealmDraw \<Rightarrow> unit admin" where
  "admin_seed_keys lib draw st =
     (let (r, kms) = seed_realm_keys lib (rd_key_now draw) (rd_key_rng draw) (rd_key_nonce draw) (rd_key_id draw)
            (rd_id draw) (AdminState_kms st) in
      (map_sum (\<lambda>e. AdminError_Storage (''key seed: '' @ KmsError_to_string lib e)) id r, st\<lparr>AdminState_kms := kms\<rparr>))"

definition realms_list :: "Realm list admin" where
  "realms_list = admin_read list_realms"

definition realms_create :: "'l KmsLib_scheme \<Rightarrow> RealmDraw \<Rightarrow> CreateRealmRequest \<Rightarrow> Realm admin" where
  "realms_create lib draw req =
     (let realm = created_realm (rd_now draw) (rd_id draw) req in
      admin_bind (admin_write (create_realm realm)) (\<lambda>_.
      admin_bind (admin_write (seed_default_flows (RealmId_to_string lib) (rd_flow_ids draw) (rd_node_ids draw) (Realm_id realm))) (\<lambda>_.
      admin_bind (admin_seed_keys lib draw) (\<lambda>_.
      admin_bind (admin_emit (Realm_id realm) ''realm.created'' (Some (Target_Realm (Realm_id realm)))
        (Value_Object [(''slug'', Value_String (Realm_slug realm))])) (\<lambda>_.
      admin_ok realm)))))"

definition realms_get :: "string \<Rightarrow> Realm admin" where
  "realms_get slug = admin_read (get_realm_by_slug slug)"

definition api_realms_update :: "DateTime \<Rightarrow> string \<Rightarrow> Realm \<Rightarrow> Realm admin" where
  "api_realms_update now slug realm =
     admin_bind (admin_read (get_realm_by_slug slug)) (\<lambda>existing.
     let realm = realm\<lparr>Realm_id := Realm_id existing, Realm_slug := Realm_slug existing,
           Realm_created_at := Realm_created_at existing, Realm_updated_at := now\<rparr> in
     admin_bind (admin_write (update_realm realm)) (\<lambda>_.
     admin_bind (admin_emit (Realm_id realm) ''realm.updated'' (Some (Target_Realm (Realm_id realm)))
       (Value_Object [(''slug'', Value_String (Realm_slug realm))])) (\<lambda>_.
     admin_ok realm)))"

definition realms_delete :: "string \<Rightarrow> unit admin" where
  "realms_delete slug =
     (if slug = MASTER_REALM_SLUG
      then admin_err (AdminError_InvalidInput ''The master realm cannot be deleted.'')
      else
     admin_bind (admin_read (get_realm_by_slug slug)) (\<lambda>existing.
     admin_bind (admin_write (delete_realm (Realm_id existing))) (\<lambda>_.
     admin_emit (Realm_id existing) ''realm.deleted'' (Some (Target_Realm (Realm_id existing)))
       (Value_Object [(''slug'', Value_String (Realm_slug existing))]))))"

section \<open>Clients (\<open>clients.rs\<close>)\<close>

record CreateClientRequest =
  CreateClientRequest_client_id :: string
  CreateClientRequest_display_name :: "string option"
  CreateClientRequest_kind :: ClientKind
  CreateClientRequest_redirect_uris :: "string list"
  CreateClientRequest_auth_method :: "ClientAuthMethod option"
  CreateClientRequest_grants :: "GrantPolicy option"
  CreateClientRequest_default_scopes :: "ScopeName list"
  CreateClientRequest_optional_scopes :: "ScopeName list"
  CreateClientRequest_saml_sp_config :: "Value option"

record CreateClientResponse =
  CreateClientResponse_client :: Client
  CreateClientResponse_client_secret :: "string option"

fun ClientKind_debug :: "ClientKind \<Rightarrow> string" where
  "ClientKind_debug ClientKind_Confidential = ''Confidential''"
| "ClientKind_debug ClientKind_Public = ''Public''"
| "ClientKind_debug ClientKind_BearerOnly = ''BearerOnly''"
| "ClientKind_debug ClientKind_ServiceAccount = ''ServiceAccount''"
| "ClientKind_debug ClientKind_SamlServiceProvider = ''SamlServiceProvider''"
| "ClientKind_debug ClientKind_ScimClient = ''ScimClient''"

fun default_grants :: "ClientKind \<Rightarrow> GrantPolicy" where
  "default_grants ClientKind_Public = GrantPolicy_public_app"
| "default_grants ClientKind_SamlServiceProvider = GrantPolicy_public_app"
| "default_grants ClientKind_Confidential = GrantPolicy_web_app"
| "default_grants ClientKind_ScimClient = GrantPolicy_web_app"
| "default_grants ClientKind_BearerOnly = GrantPolicy_default"
| "default_grants ClientKind_ServiceAccount = GrantPolicy_service_account"

definition keeps_secret :: "ClientKind \<Rightarrow> bool" where
  "keeps_secret kind = (kind \<in> {ClientKind_Confidential, ClientKind_ServiceAccount, ClientKind_ScimClient})"

definition default_auth_method :: "ClientKind \<Rightarrow> ClientAuthMethod" where
  "default_auth_method kind = (if keeps_secret kind then ClientAuthMethod_ClientSecretBasic else ClientAuthMethod_None)"

fun RedirectUriError_to_string :: "RedirectUriError \<Rightarrow> string" where
  "RedirectUriError_to_string (RedirectUriError_Unparseable e) = ''redirect_uri unparseable as URL: '' @ e"
| "RedirectUriError_to_string (RedirectUriError_HttpRequiresLoopback host) =
     ''http:// redirect_uri only allowed for loopback hosts (got `'' @ host @ ''`); use https://''"
| "RedirectUriError_to_string (RedirectUriError_UnsupportedScheme s) =
     ''unsupported redirect_uri scheme `'' @ s @
     ''`; expected https://, http:// loopback, or a reverse-DNS custom scheme''"

definition redirect_uri_error :: "string \<Rightarrow> RedirectUriError \<Rightarrow> AdminError" where
  "redirect_uri_error uri e =
     (case e of
        RedirectUriError_HttpRequiresLoopback host \<Rightarrow>
          AdminError_InvalidInput (''redirect_uri `'' @ uri @ ''`: http:// only allowed for loopback (got `'' @ host @
            ''`); use https://'')
      | _ \<Rightarrow> AdminError_InvalidInput (''redirect_uri `'' @ uri @ ''`: '' @ RedirectUriError_to_string e))"

fun validate_redirect_uris :: "(string \<Rightarrow> string + string \<times> string option) \<Rightarrow> string list \<Rightarrow> AdminError + RedirectUri list" where
  "validate_redirect_uris parse_url [] = Inr []"
| "validate_redirect_uris parse_url (uri # uris) =
     (case RedirectUri_validate_scheme parse_url uri of
        Inl e \<Rightarrow> Inl (redirect_uri_error uri e)
      | Inr _ \<Rightarrow>
          map_sum id (Cons \<lparr>RedirectUri_uri = uri, RedirectUri_wildcard_path = False\<rparr>) (validate_redirect_uris parse_url uris))"

definition validate_saml_sp_config :: "'l AdminLib_scheme \<Rightarrow> ClientKind \<Rightarrow> Value option \<Rightarrow> AdminError + Value option" where
  "validate_saml_sp_config lib kind raw =
     (case raw of
        None \<Rightarrow> Inr None
      | Some raw \<Rightarrow>
          if kind \<noteq> ClientKind_SamlServiceProvider
          then Inl (AdminError_Storage ''saml_sp_config supplied for a non-SAML client kind'')
          else (case SamlSpClientConfig_try_from_value lib raw of
                  Inl e \<Rightarrow> Inl (AdminError_Storage (''invalid saml_sp_config: '' @ SamlIdpError_to_string e))
                | Inr typed \<Rightarrow> Inr (Some (saml_sp_to_json lib typed))))"

definition created_client ::
  "DateTime \<Rightarrow> ClientId \<Rightarrow> Realm \<Rightarrow> CreateClientRequest \<Rightarrow> RedirectUri list \<Rightarrow> Value option \<Rightarrow> Client" where
  "created_client now new_id realm req redirect_uris saml =
     (let kind = CreateClientRequest_kind req in
      \<lparr>Client_id = new_id, Client_realm_id = Realm_id realm, Client_client_id = CreateClientRequest_client_id req,
       Client_display_name = CreateClientRequest_display_name req, Client_kind = kind,
       Client_grants = unwrap_or (CreateClientRequest_grants req) (default_grants kind),
       Client_auth_method = unwrap_or (CreateClientRequest_auth_method req) (default_auth_method kind),
       Client_flow_binding = \<lparr>FlowBinding_browser = None, FlowBinding_direct_grant = None, FlowBinding_registration = None,
         FlowBinding_reset_credentials = None, FlowBinding_client_authentication = None\<rparr>,
       Client_default_scopes = CreateClientRequest_default_scopes req,
       Client_optional_scopes = CreateClientRequest_optional_scopes req, Client_redirect_uris = redirect_uris,
       Client_post_logout_redirect_uris = [], Client_web_origins = [], Client_access_token_type = AccessTokenType_Jwt,
       Client_consent = \<lparr>ConsentPolicy_required = False, ConsentPolicy_display_on_consent_screen = False,
         ConsentPolicy_consent_screen_text = None\<rparr>,
       Client_access_token_lifespan = None, Client_refresh_token_lifespan = None, Client_access_token_signing_alg = None,
       Client_front_channel_logout_enabled = False, Client_backchannel_logout_url = None,
       Client_client_authentication_keys = [], Client_pairwise_sub_algorithm = None, Client_saml_sp_config = saml,
       Client_enabled = True, Client_created_at = now, Client_updated_at = now\<rparr>)"

definition admin_lift :: "AdminError + 'a \<Rightarrow> 'a admin" where
  "admin_lift r st = (r, st)"

definition clients_list :: "string \<Rightarrow> Client list admin" where
  "clients_list slug = admin_bind (admin_realm_by_slug slug) (\<lambda>realm. admin_read (list_clients (Realm_id realm)))"

definition store_new_secret :: "'l CryptoLib_scheme \<Rightarrow> string \<Rightarrow> Realm \<Rightarrow> Client \<Rightarrow> string option admin" where
  "store_new_secret lib secret realm client st =
     (if keeps_secret (Client_kind client)
      then admin_bind (admin_write (store_client_secret_hash (Realm_id realm) (Client_id client)
             (hex_encode lib (token_hash lib (AdminState_client_secret_hash_key st) secret))))
             (\<lambda>_. admin_ok (Some secret)) st
      else admin_ok None st)"

definition clients_create ::
  "'l AdminLib_scheme \<Rightarrow> DateTime \<Rightarrow> ClientId \<Rightarrow> string \<Rightarrow> string \<Rightarrow> CreateClientRequest \<Rightarrow> CreateClientResponse admin" where
  "clients_create lib now new_id secret slug req =
     admin_bind (admin_realm_by_slug slug) (\<lambda>realm.
     admin_bind (admin_lift (validate_redirect_uris (url_scheme_host lib) (CreateClientRequest_redirect_uris req))) (\<lambda>uris.
     admin_bind (admin_lift (validate_saml_sp_config lib (CreateClientRequest_kind req) (CreateClientRequest_saml_sp_config req))) (\<lambda>saml.
     let client = created_client now new_id realm req uris saml in
     admin_bind (admin_write (create_client client)) (\<lambda>_.
     admin_bind (store_new_secret lib secret realm client) (\<lambda>client_secret.
     admin_bind (admin_emit (Client_realm_id client) ''client.created'' (Some (Target_Client (Client_id client)))
       (Value_Object [(''client_id'', Value_String (Client_client_id client)),
         (''kind'', Value_String (ClientKind_debug (Client_kind client)))])) (\<lambda>_.
     admin_ok \<lparr>CreateClientResponse_client = client, CreateClientResponse_client_secret = client_secret\<rparr>))))))"

definition clients_get :: "string \<Rightarrow> string \<Rightarrow> Client admin" where
  "clients_get slug client_id =
     admin_bind (admin_realm_by_slug slug) (\<lambda>realm. admin_read (get_client_by_client_id (Realm_id realm) client_id))"

definition api_clients_update :: "DateTime \<Rightarrow> string \<Rightarrow> string \<Rightarrow> Client \<Rightarrow> Client admin" where
  "api_clients_update now slug client_id client =
     admin_bind (admin_realm_by_slug slug) (\<lambda>realm.
     admin_bind (admin_read (get_client_by_client_id (Realm_id realm) client_id)) (\<lambda>existing.
     let client = client\<lparr>Client_id := Client_id existing, Client_realm_id := Realm_id realm,
           Client_client_id := Client_client_id existing, Client_created_at := Client_created_at existing,
           Client_updated_at := now\<rparr> in
     admin_bind (admin_write (update_client client)) (\<lambda>_.
     admin_bind (admin_emit (Client_realm_id client) ''client.updated'' (Some (Target_Client (Client_id client)))
       (Value_Object [(''client_id'', Value_String (Client_client_id client))])) (\<lambda>_.
     admin_ok client))))"

definition clients_delete :: "string \<Rightarrow> string \<Rightarrow> unit admin" where
  "clients_delete slug client_id =
     admin_bind (admin_realm_by_slug slug) (\<lambda>realm.
     admin_bind (admin_read (get_client_by_client_id (Realm_id realm) client_id)) (\<lambda>existing.
     admin_bind (admin_write (delete_client (Realm_id realm) (Client_id existing))) (\<lambda>_.
     admin_emit (Realm_id realm) ''client.deleted'' (Some (Target_Client (Client_id existing)))
       (Value_Object [(''client_id'', Value_String (Client_client_id existing))]))))"

section \<open>Users (\<open>users.rs\<close>)\<close>

record CreateUserRequest =
  CreateUserRequest_username :: string
  CreateUserRequest_email :: "string option"
  CreateUserRequest_email_verified :: bool
  CreateUserRequest_name :: "PersonName option"
  CreateUserRequest_enabled :: bool

definition created_user :: "DateTime \<Rightarrow> UserId \<Rightarrow> Realm \<Rightarrow> CreateUserRequest \<Rightarrow> User" where
  "created_user now new_id realm req =
     \<lparr>User_id = new_id, User_realm_id = Realm_id realm, User_username = CreateUserRequest_username req,
      User_email = CreateUserRequest_email req, User_email_verified = CreateUserRequest_email_verified req,
      User_name = CreateUserRequest_name req, User_credentials = [], User_federation = None, User_attributes = [],
      User_required_actions = [], User_required_flow = None, User_organizations = [],
      User_enabled = CreateUserRequest_enabled req, User_failed_attempts = 0, User_locked_until = None,
      User_last_failed_at = None, User_created_at = now, User_updated_at = now\<rparr>"

fun join_with :: "string \<Rightarrow> string list \<Rightarrow> string" where
  "join_with sep [] = []"
| "join_with sep [x] = x"
| "join_with sep (x # xs) = x @ sep @ join_with sep xs"

text \<open>A realm without a schema is not validated; \<open>default_now\<close> stamps the schema a realm has by default.\<close>

definition validate_profile :: "DateTime \<Rightarrow> Realm \<Rightarrow> User \<Rightarrow> unit admin" where
  "validate_profile default_now realm user st =
     (case get_user_profile_schema default_now (Realm_id realm) (AdminState_storage st) of
        Inl _ \<Rightarrow> (Inr (), st)
      | Inr profile \<Rightarrow>
          (let violations = UserProfile_validate_attributes profile (User_attributes user) in
           if violations = [] then (Inr (), st)
           else (Inl (AdminError_Storage (''profile validation failed: '' @
                   join_with '', '' (map (\<lambda>(k, v). k @ '': '' @ v) violations))), st)))"

definition users_list :: "string \<Rightarrow> nat \<Rightarrow> User list admin" where
  "users_list slug limit = admin_bind (admin_realm_by_slug slug) (\<lambda>realm. admin_read (list_users (Realm_id realm) limit))"

definition user_event :: "RealmId \<Rightarrow> string \<Rightarrow> User \<Rightarrow> unit admin" where
  "user_event realm_id action user =
     admin_emit realm_id action (Some (Target_User (User_id user)))
       (Value_Object [(''username'', Value_String (User_username user))])"

definition users_create :: "DateTime \<Rightarrow> UserId \<Rightarrow> DateTime \<Rightarrow> string \<Rightarrow> CreateUserRequest \<Rightarrow> User admin" where
  "users_create now new_id default_now slug req =
     admin_bind (admin_realm_by_slug slug) (\<lambda>realm.
     let user = created_user now new_id realm req in
     admin_bind (validate_profile default_now realm user) (\<lambda>_.
     admin_bind (admin_write (create_user user)) (\<lambda>_.
     admin_bind (user_event (User_realm_id user) ''user.created'' user) (\<lambda>_.
     admin_ok user))))"

definition users_get :: "string \<Rightarrow> string \<Rightarrow> User admin" where
  "users_get slug username =
     admin_bind (admin_realm_by_slug slug) (\<lambda>realm. admin_read (get_user_by_username (Realm_id realm) username))"

definition api_users_update :: "DateTime \<Rightarrow> DateTime \<Rightarrow> string \<Rightarrow> string \<Rightarrow> User \<Rightarrow> User admin" where
  "api_users_update now default_now slug username user =
     admin_bind (admin_realm_by_slug slug) (\<lambda>realm.
     admin_bind (admin_read (get_user_by_username (Realm_id realm) username)) (\<lambda>existing.
     let user = user\<lparr>User_id := User_id existing, User_realm_id := Realm_id realm, User_username := User_username existing,
           User_created_at := User_created_at existing, User_updated_at := now\<rparr> in
     admin_bind (validate_profile default_now realm user) (\<lambda>_.
     admin_bind (admin_write (update_user user)) (\<lambda>_.
     admin_bind (user_event (User_realm_id user) ''user.updated'' user) (\<lambda>_.
     admin_ok user)))))"

definition users_delete :: "string \<Rightarrow> string \<Rightarrow> unit admin" where
  "users_delete slug username =
     admin_bind (admin_realm_by_slug slug) (\<lambda>realm.
     admin_bind (admin_read (get_user_by_username (Realm_id realm) username)) (\<lambda>existing.
     admin_bind (admin_write (delete_user (Realm_id realm) (User_id existing))) (\<lambda>_.
     user_event (Realm_id realm) ''user.deleted'' existing)))"

definition users_verify_email :: "DateTime \<Rightarrow> string \<Rightarrow> string \<Rightarrow> User admin" where
  "users_verify_email now slug username =
     admin_bind (admin_realm_by_slug slug) (\<lambda>realm.
     admin_bind (admin_read (get_user_by_username (Realm_id realm) username)) (\<lambda>user.
     let user = user\<lparr>User_email_verified := True, User_updated_at := now\<rparr> in
     admin_bind (admin_write (update_user user)) (\<lambda>_.
     admin_bind (user_event (User_realm_id user) ''user.email_verified'' user) (\<lambda>_.
     admin_ok user))))"

text \<open>\<open>hash_password\<close> of \<^verbatim>\<open>geonosis-crypto/src/password.rs\<close>, with the salt drawn.\<close>

definition hash_password :: "'l AdminLib_scheme \<Rightarrow> string \<Rightarrow> string \<Rightarrow> string + string" where
  "hash_password lib salt password = map_sum (\<lambda>e. ''hashing failed: '' @ e) id (argon2_hash lib salt password)"

definition users_set_password :: "'l AdminLib_scheme \<Rightarrow> string \<Rightarrow> string \<Rightarrow> string \<Rightarrow> string \<Rightarrow> unit admin" where
  "users_set_password lib salt slug username password =
     admin_bind (admin_realm_by_slug slug) (\<lambda>realm.
     admin_bind (admin_read (get_user_by_username (Realm_id realm) username)) (\<lambda>user.
     let report = PasswordPolicy_validate (char_classes lib) (Realm_password_policy realm) password (User_username user) (User_email user) in
     if \<not> PasswordPolicyReport_is_ok report then admin_err (AdminError_PasswordPolicy report)
     else
     admin_bind (admin_lift (map_sum (\<lambda>e. AdminError_Storage (''hash_password: '' @ e)) id (hash_password lib salt password))) (\<lambda>phc.
     admin_bind (admin_write (store_password_hash (Realm_id realm) (User_id user) phc)) (\<lambda>_.
     user_event (Realm_id realm) ''user.password_set'' user))))"

section \<open>Profile schema, sessions, keys, events (\<open>user_profile.rs\<close>, \<open>sessions.rs\<close>, \<open>keys.rs\<close>, \<open>events.rs\<close>)\<close>

definition profile_get_schema :: "DateTime \<Rightarrow> string \<Rightarrow> UserProfile admin" where
  "profile_get_schema default_now slug =
     admin_bind (admin_realm_by_slug slug) (\<lambda>realm. admin_read (get_user_profile_schema default_now (Realm_id realm)))"

definition profile_put_schema :: "DateTime \<Rightarrow> string \<Rightarrow> UserProfile \<Rightarrow> UserProfile admin" where
  "profile_put_schema now slug profile =
     admin_bind (admin_realm_by_slug slug) (\<lambda>realm.
     let profile = profile\<lparr>UserProfile_realm_id := Realm_id realm, UserProfile_updated_at := now\<rparr> in
     admin_bind (admin_write (save_user_profile_schema profile)) (\<lambda>_. admin_ok profile))"

definition MAX_LIMIT :: nat where "MAX_LIMIT = 500"

record SessionRow =
  SessionRow_id :: string
  SessionRow_user_id :: string
  SessionRow_authn_level :: string
  SessionRow_idp_alias :: "string option"
  SessionRow_started_at :: DateTime
  SessionRow_last_seen_at :: DateTime
  SessionRow_expires_at :: DateTime
  SessionRow_client_count :: nat

fun authn_level_name :: "AuthnLevel \<Rightarrow> string" where
  "authn_level_name AuthnLevel_Anonymous = ''anonymous''"
| "authn_level_name AuthnLevel_Single = ''single''"
| "authn_level_name AuthnLevel_Mfa = ''mfa''"
| "authn_level_name AuthnLevel_HardwareBound = ''hardwarebound''"

definition session_row :: "'l KmsLib_scheme \<Rightarrow> Session \<Rightarrow> SessionRow" where
  "session_row lib s =
     \<lparr>SessionRow_id = SessionId_text (Session_id s), SessionRow_user_id = UserId_to_string lib (Session_user_id s),
      SessionRow_authn_level = authn_level_name (Session_authn_level s), SessionRow_idp_alias = Session_idp_alias s,
      SessionRow_started_at = Session_started_at s, SessionRow_last_seen_at = Session_last_seen_at s,
      SessionRow_expires_at = Session_expires_at s, SessionRow_client_count = length (Session_clients s)\<rparr>"

definition sessions_list :: "'l KmsLib_scheme \<Rightarrow> string \<Rightarrow> nat \<Rightarrow> SessionRow list admin" where
  "sessions_list lib slug limit =
     admin_bind (admin_realm_by_slug slug) (\<lambda>realm.
     admin_bind (admin_read (list_sessions (Realm_id realm) (min limit MAX_LIMIT))) (\<lambda>rows.
     admin_ok (map (session_row lib) rows)))"

definition sessions_revoke :: "string \<Rightarrow> string \<Rightarrow> unit admin" where
  "sessions_revoke slug session_id =
     admin_bind (admin_realm_by_slug slug) (\<lambda>realm.
     let sid = SessionId session_id in
     admin_bind (admin_write (delete_session sid)) (\<lambda>_.
     admin_emit (Realm_id realm) ''session.revoked'' (Some (Target_Session sid))
       (Value_Object [(''reason'', Value_String ''admin'')])))"

record KeyView =
  KeyView_kid :: string
  KeyView_alg :: string
  KeyView_state :: string
  KeyView_created_at :: DateTime

definition keys_list :: "string \<Rightarrow> KeyView list admin" where
  "keys_list slug = admin_bind (admin_realm_by_slug slug) (\<lambda>_. admin_ok [])"

record EventQuery =
  EventQuery_action :: "string option"
  EventQuery_actor :: "string option"
  EventQuery_from :: "DateTime option"
  EventQuery_until :: "DateTime option"
  EventQuery_limit :: nat

record EventRow =
  EventRow_id :: string
  EventRow_realm_id :: string
  EventRow_occurred_at :: DateTime
  EventRow_actor :: Value
  EventRow_action :: string
  EventRow_target :: "Value option"
  EventRow_detail :: Value

definition event_row :: "AuditEventRow \<Rightarrow> EventRow" where
  "event_row r =
     \<lparr>EventRow_id = AuditEventRow_id r, EventRow_realm_id = AuditEventRow_realm_id r,
      EventRow_occurred_at = AuditEventRow_occurred_at r, EventRow_actor = AuditEventRow_actor r,
      EventRow_action = AuditEventRow_action r, EventRow_target = AuditEventRow_target r,
      EventRow_detail = AuditEventRow_detail r\<rparr>"

definition events_list :: "string \<Rightarrow> EventQuery \<Rightarrow> EventRow list admin" where
  "events_list slug q =
     admin_bind (admin_realm_by_slug slug) (\<lambda>realm.
     admin_bind (admin_read (list_audit_events (Realm_id realm)
       \<lparr>AuditEventFilter_action = EventQuery_action q, AuditEventFilter_actor = EventQuery_actor q,
        AuditEventFilter_from = EventQuery_from q, AuditEventFilter_until = EventQuery_until q\<rparr>
       (min (EventQuery_limit q) MAX_LIMIT))) (\<lambda>rows.
     admin_ok (map event_row rows)))"

end
