(* ===== verification/Admin_Access.thy ===== *)
theory Admin_Access
  imports Admin_Api
begin

text \<open>
  The JSON endpoints of the administration for roles, groups, agents, identity providers, flow dry runs
  and organizations (\<^verbatim>\<open>handlers_v1\<close>).
\<close>

section \<open>Roles (\<open>roles.rs\<close>)\<close>

record CreateRoleRequest =
  CreateRoleRequest_name :: string
  CreateRoleRequest_description :: "string option"
  CreateRoleRequest_client_id :: "ClientId option"

fun RoleId_to_string :: "'l KmsLib_scheme \<Rightarrow> RoleId \<Rightarrow> string" where
  "RoleId_to_string lib (RoleId u) = show_ulid lib u"

definition roles_list :: "string \<Rightarrow> Role list admin" where
  "roles_list slug = admin_bind (admin_realm_by_slug slug) (\<lambda>realm. admin_read (list_roles (Realm_id realm) None))"

definition created_role :: "DateTime \<Rightarrow> RoleId \<Rightarrow> Realm \<Rightarrow> CreateRoleRequest \<Rightarrow> Role" where
  "created_role now new_id realm req =
     \<lparr>Role_id = new_id, Role_realm_id = Realm_id realm, Role_client_id = CreateRoleRequest_client_id req,
      Role_name = CreateRoleRequest_name req, Role_description = CreateRoleRequest_description req,
      Role_composites = \<lparr>CompositeRoles_realm_roles = [], CompositeRoles_client_roles = []\<rparr>, Role_attributes = [],
      Role_created_at = now, Role_updated_at = now\<rparr>"

definition roles_create :: "DateTime \<Rightarrow> RoleId \<Rightarrow> string \<Rightarrow> CreateRoleRequest \<Rightarrow> Role admin" where
  "roles_create now new_id slug req =
     admin_bind (admin_realm_by_slug slug) (\<lambda>realm.
     let role = created_role now new_id realm req in
     admin_bind (admin_write (create_role role)) (\<lambda>_. admin_ok role))"

definition roles_get :: "string \<Rightarrow> string \<Rightarrow> Role admin" where
  "roles_get slug name = admin_bind (admin_realm_by_slug slug) (\<lambda>realm. admin_read (get_role_by_name (Realm_id realm) None name))"

definition api_roles_update :: "DateTime \<Rightarrow> string \<Rightarrow> string \<Rightarrow> Role \<Rightarrow> Role admin" where
  "api_roles_update now slug name role =
     admin_bind (admin_realm_by_slug slug) (\<lambda>realm.
     admin_bind (admin_read (get_role_by_name (Realm_id realm) None name)) (\<lambda>existing.
     let role = role\<lparr>Role_id := Role_id existing, Role_realm_id := Realm_id realm, Role_updated_at := now\<rparr> in
     admin_bind (admin_write (update_role role)) (\<lambda>_. admin_ok role)))"

definition roles_delete :: "string \<Rightarrow> string \<Rightarrow> unit admin" where
  "roles_delete slug name =
     admin_bind (admin_realm_by_slug slug) (\<lambda>realm.
     admin_bind (admin_read (get_role_by_name (Realm_id realm) None name)) (\<lambda>role.
     admin_write (delete_role (Realm_id realm) (Role_id role))))"

definition roles_list_user :: "string \<Rightarrow> UserId \<Rightarrow> Role list admin" where
  "roles_list_user slug user_id = admin_bind (admin_realm_by_slug slug) (\<lambda>realm. admin_read (list_user_roles (Realm_id realm) user_id))"

definition roles_assign_user :: "'l KmsLib_scheme \<Rightarrow> string \<Rightarrow> UserId \<Rightarrow> RoleId \<Rightarrow> unit admin" where
  "roles_assign_user lib slug user_id role_id =
     admin_bind (admin_realm_by_slug slug) (\<lambda>realm.
     admin_bind (admin_write (assign_user_role (Realm_id realm) user_id role_id)) (\<lambda>_.
     admin_emit (Realm_id realm) ''role.assigned_to_user'' (Some (Target_User user_id))
       (Value_Object [(''role_id'', Value_String (RoleId_to_string lib role_id))])))"

definition roles_unassign_user :: "'l KmsLib_scheme \<Rightarrow> string \<Rightarrow> UserId \<Rightarrow> RoleId \<Rightarrow> unit admin" where
  "roles_unassign_user lib slug user_id role_id =
     admin_bind (admin_realm_by_slug slug) (\<lambda>realm.
     admin_bind (admin_write (unassign_user_role (Realm_id realm) user_id role_id)) (\<lambda>_.
     admin_emit (Realm_id realm) ''role.unassigned_from_user'' (Some (Target_User user_id))
       (Value_Object [(''role_id'', Value_String (RoleId_to_string lib role_id))])))"

section \<open>Groups (\<open>groups.rs\<close>)\<close>

record CreateGroupRequest =
  CreateGroupRequest_name :: string
  CreateGroupRequest_parent_id :: "GroupId option"

definition group_path :: "string option \<Rightarrow> string \<Rightarrow> string" where
  "group_path parent_path name = (case parent_path of Some p \<Rightarrow> p @ ''/'' @ name | None \<Rightarrow> ''/'' @ name)"

definition groups_list :: "string \<Rightarrow> Group list admin" where
  "groups_list slug = admin_bind (admin_realm_by_slug slug) (\<lambda>realm. admin_read (list_groups (Realm_id realm)))"

definition created_group :: "DateTime \<Rightarrow> GroupId \<Rightarrow> Realm \<Rightarrow> CreateGroupRequest \<Rightarrow> string option \<Rightarrow> Group" where
  "created_group now new_id realm req parent_path =
     \<lparr>Group_id = new_id, Group_realm_id = Realm_id realm, Group_parent_id = CreateGroupRequest_parent_id req,
      Group_name = CreateGroupRequest_name req, Group_path = group_path parent_path (CreateGroupRequest_name req),
      Group_attributes = [], Group_realm_role_ids = [], Group_client_role_ids = [], Group_created_at = now,
      Group_updated_at = now\<rparr>"

definition groups_create :: "DateTime \<Rightarrow> GroupId \<Rightarrow> string \<Rightarrow> CreateGroupRequest \<Rightarrow> Group admin" where
  "groups_create now new_id slug req =
     admin_bind (admin_realm_by_slug slug) (\<lambda>realm.
     admin_bind (case CreateGroupRequest_parent_id req of
         Some p \<Rightarrow> admin_bind (admin_read (get_group (Realm_id realm) p)) (\<lambda>g. admin_ok (Some (Group_path g)))
       | None \<Rightarrow> admin_ok None) (\<lambda>parent_path.
     let g = created_group now new_id realm req parent_path in
     admin_bind (admin_write (create_group g)) (\<lambda>_. admin_ok g)))"

definition groups_get :: "string \<Rightarrow> GroupId \<Rightarrow> Group admin" where
  "groups_get slug i = admin_bind (admin_realm_by_slug slug) (\<lambda>realm. admin_read (get_group (Realm_id realm) i))"

definition api_groups_update :: "DateTime \<Rightarrow> string \<Rightarrow> GroupId \<Rightarrow> Group \<Rightarrow> Group admin" where
  "api_groups_update now slug i g =
     admin_bind (admin_realm_by_slug slug) (\<lambda>realm.
     admin_bind (admin_read (get_group (Realm_id realm) i)) (\<lambda>existing.
     let g = g\<lparr>Group_id := Group_id existing, Group_realm_id := Realm_id realm, Group_path := Group_path existing,
           Group_updated_at := now\<rparr> in
     admin_bind (admin_write (update_group g)) (\<lambda>_. admin_ok g)))"

definition groups_delete :: "string \<Rightarrow> GroupId \<Rightarrow> unit admin" where
  "groups_delete slug i = admin_bind (admin_realm_by_slug slug) (\<lambda>realm. admin_write (delete_group (Realm_id realm) i))"

definition groups_list_user :: "string \<Rightarrow> UserId \<Rightarrow> Group list admin" where
  "groups_list_user slug user_id = admin_bind (admin_realm_by_slug slug) (\<lambda>realm. admin_read (list_user_groups (Realm_id realm) user_id))"

definition groups_assign_user :: "string \<Rightarrow> UserId \<Rightarrow> GroupId \<Rightarrow> unit admin" where
  "groups_assign_user slug user_id group_id =
     admin_bind (admin_realm_by_slug slug) (\<lambda>realm. admin_write (assign_user_group (Realm_id realm) user_id group_id))"

definition groups_unassign_user :: "string \<Rightarrow> UserId \<Rightarrow> GroupId \<Rightarrow> unit admin" where
  "groups_unassign_user slug user_id group_id =
     admin_bind (admin_realm_by_slug slug) (\<lambda>realm. admin_write (unassign_user_group (Realm_id realm) user_id group_id))"

definition groups_list_roles :: "string \<Rightarrow> GroupId \<Rightarrow> Role list admin" where
  "groups_list_roles slug i = admin_bind (admin_realm_by_slug slug) (\<lambda>realm. admin_read (list_group_roles (Realm_id realm) i))"

definition groups_assign_role :: "string \<Rightarrow> GroupId \<Rightarrow> RoleId \<Rightarrow> unit admin" where
  "groups_assign_role slug i role_id =
     admin_bind (admin_realm_by_slug slug) (\<lambda>realm. admin_write (assign_group_role (Realm_id realm) i role_id))"

definition groups_unassign_role :: "string \<Rightarrow> GroupId \<Rightarrow> RoleId \<Rightarrow> unit admin" where
  "groups_unassign_role slug i role_id =
     admin_bind (admin_realm_by_slug slug) (\<lambda>realm. admin_write (unassign_group_role (Realm_id realm) i role_id))"

section \<open>Agents (\<open>agents.rs\<close>)\<close>

record CreateAgentRequest =
  CreateAgentRequest_alias :: string
  CreateAgentRequest_display_name :: string
  CreateAgentRequest_kind :: AgentKind
  CreateAgentRequest_parent_subject :: ParentSubject
  CreateAgentRequest_model_hint :: "string option"
  CreateAgentRequest_vendor :: "string option"
  CreateAgentRequest_version :: "string option"
  CreateAgentRequest_capabilities :: "AgentCapability list"
  CreateAgentRequest_allowed_scopes :: "ScopeName list"
  CreateAgentRequest_allowed_audiences :: "string list"
  CreateAgentRequest_rate_limit :: AgentRateLimit
  CreateAgentRequest_auth_method :: AgentAuthMethod
  CreateAgentRequest_public_jwk :: "Value option"
  CreateAgentRequest_expires_at :: "DateTime option"

fun AgentKind_debug :: "(string \<Rightarrow> string) \<Rightarrow> AgentKind \<Rightarrow> string" where
  "AgentKind_debug dc AgentKind_Assistant = ''Assistant''"
| "AgentKind_debug dc AgentKind_Scraper = ''Scraper''"
| "AgentKind_debug dc AgentKind_Webhook = ''Webhook''"
| "AgentKind_debug dc AgentKind_Batch = ''Batch''"
| "AgentKind_debug dc (AgentKind_Custom s) = ''Custom('' @ debug_str dc s @ '')''"

fun AgentId_to_string :: "'l KmsLib_scheme \<Rightarrow> AgentId \<Rightarrow> string" where
  "AgentId_to_string lib (AgentId u) = show_ulid lib u"

definition created_agent :: "DateTime \<Rightarrow> AgentId \<Rightarrow> Realm \<Rightarrow> CreateAgentRequest \<Rightarrow> Agent" where
  "created_agent now new_id realm req =
     \<lparr>Agent_id = new_id, Agent_realm_id = Realm_id realm, Agent_alias = CreateAgentRequest_alias req,
      Agent_display_name = CreateAgentRequest_display_name req, Agent_kind = CreateAgentRequest_kind req,
      Agent_model_hint = CreateAgentRequest_model_hint req, Agent_vendor = CreateAgentRequest_vendor req,
      Agent_version = CreateAgentRequest_version req, Agent_parent_subject = CreateAgentRequest_parent_subject req,
      Agent_capabilities = CreateAgentRequest_capabilities req, Agent_allowed_scopes = CreateAgentRequest_allowed_scopes req,
      Agent_allowed_audiences = CreateAgentRequest_allowed_audiences req, Agent_rate_limit = CreateAgentRequest_rate_limit req,
      Agent_auth_method = CreateAgentRequest_auth_method req, Agent_public_jwk = CreateAgentRequest_public_jwk req,
      Agent_created_at = now, Agent_expires_at = CreateAgentRequest_expires_at req, Agent_revoked_at = None,
      Agent_enabled = True\<rparr>"

definition agent_event :: "'l KmsLib_scheme \<Rightarrow> RealmId \<Rightarrow> string \<Rightarrow> Agent \<Rightarrow> (string \<times> Value) list \<Rightarrow> unit admin" where
  "agent_event lib realm_id action agent extra =
     admin_emit realm_id action (Some (Target_Other ''agent'' (AgentId_to_string lib (Agent_id agent))))
       (Value_Object ((''alias'', Value_String (Agent_alias agent)) # extra))"

definition agents_list :: "string \<Rightarrow> Agent list admin" where
  "agents_list slug = admin_bind (admin_realm_by_slug slug) (\<lambda>realm. admin_read (list_agents (Realm_id realm)))"

definition agents_create :: "'l AdminLib_scheme \<Rightarrow> DateTime \<Rightarrow> AgentId \<Rightarrow> string \<Rightarrow> CreateAgentRequest \<Rightarrow> Agent admin" where
  "agents_create lib now new_id slug req =
     admin_bind (admin_realm_by_slug slug) (\<lambda>realm.
     let agent = created_agent now new_id realm req in
     admin_bind (admin_write (create_agent agent)) (\<lambda>_.
     admin_bind (agent_event lib (Agent_realm_id agent) ''agent.created'' agent
       [(''kind'', Value_String (AgentKind_debug (debug_char lib) (Agent_kind agent)))]) (\<lambda>_.
     admin_ok agent)))"

definition agents_get :: "string \<Rightarrow> string \<Rightarrow> Agent admin" where
  "agents_get slug alias = admin_bind (admin_realm_by_slug slug) (\<lambda>realm. admin_read (get_agent_by_alias (Realm_id realm) alias))"

definition api_agents_update :: "'l KmsLib_scheme \<Rightarrow> string \<Rightarrow> string \<Rightarrow> Agent \<Rightarrow> Agent admin" where
  "api_agents_update lib slug alias agent =
     admin_bind (admin_realm_by_slug slug) (\<lambda>realm.
     admin_bind (admin_read (get_agent_by_alias (Realm_id realm) alias)) (\<lambda>existing.
     let agent = agent\<lparr>Agent_id := Agent_id existing, Agent_realm_id := Realm_id realm,
           Agent_parent_subject := Agent_parent_subject existing, Agent_created_at := Agent_created_at existing\<rparr> in
     admin_bind (admin_write (update_agent agent)) (\<lambda>_.
     admin_bind (agent_event lib (Agent_realm_id agent) ''agent.updated'' agent []) (\<lambda>_.
     admin_ok agent))))"

definition agents_revoke :: "'l KmsLib_scheme \<Rightarrow> DateTime \<Rightarrow> string \<Rightarrow> string \<Rightarrow> unit admin" where
  "agents_revoke lib now slug alias =
     admin_bind (admin_realm_by_slug slug) (\<lambda>realm.
     admin_bind (admin_read (get_agent_by_alias (Realm_id realm) alias)) (\<lambda>existing.
     admin_bind (admin_write (revoke_agent now (Realm_id realm) (Agent_id existing))) (\<lambda>_.
     agent_event lib (Realm_id realm) ''agent.revoked'' existing [])))"

section \<open>Identity providers (\<open>idps.rs\<close>)\<close>

record CreateIdpRequest =
  CreateIdpRequest_alias :: string
  CreateIdpRequest_display_name :: string
  CreateIdpRequest_kind :: IdpKind
  CreateIdpRequest_config :: IdpConfig
  CreateIdpRequest_first_login_flow_alias :: string
  CreateIdpRequest_post_login_flow_alias :: "string option"
  CreateIdpRequest_link_only :: bool
  CreateIdpRequest_adapter_urn :: "string option"

definition created_idp :: "IdpId \<Rightarrow> Realm \<Rightarrow> CreateIdpRequest \<Rightarrow> IdentityProvider" where
  "created_idp new_id realm req =
     \<lparr>IdentityProvider_id = new_id, IdentityProvider_realm_id = Realm_id realm,
      IdentityProvider_alias = CreateIdpRequest_alias req, IdentityProvider_display_name = CreateIdpRequest_display_name req,
      IdentityProvider_kind = CreateIdpRequest_kind req, IdentityProvider_config = CreateIdpRequest_config req,
      IdentityProvider_first_login_flow_alias = CreateIdpRequest_first_login_flow_alias req,
      IdentityProvider_post_login_flow_alias = CreateIdpRequest_post_login_flow_alias req,
      IdentityProvider_link_only = CreateIdpRequest_link_only req,
      IdentityProvider_adapter_urn = CreateIdpRequest_adapter_urn req, IdentityProvider_enabled = True\<rparr>"

definition idps_list :: "string \<Rightarrow> IdentityProvider list admin" where
  "idps_list slug = admin_bind (admin_realm_by_slug slug) (\<lambda>realm. admin_read (list_idps (Realm_id realm)))"

definition idps_create :: "IdpId \<Rightarrow> string \<Rightarrow> CreateIdpRequest \<Rightarrow> IdentityProvider admin" where
  "idps_create new_id slug req =
     admin_bind (admin_realm_by_slug slug) (\<lambda>realm.
     let idp = created_idp new_id realm req in
     admin_bind (admin_write (create_idp idp)) (\<lambda>_. admin_ok idp))"

definition idps_get :: "string \<Rightarrow> string \<Rightarrow> IdentityProvider admin" where
  "idps_get slug alias = admin_bind (admin_realm_by_slug slug) (\<lambda>realm. admin_read (get_idp_by_alias (Realm_id realm) alias))"

definition api_idps_update :: "string \<Rightarrow> string \<Rightarrow> IdentityProvider \<Rightarrow> IdentityProvider admin" where
  "api_idps_update slug alias idp =
     admin_bind (admin_realm_by_slug slug) (\<lambda>realm.
     admin_bind (admin_read (get_idp_by_alias (Realm_id realm) alias)) (\<lambda>existing.
     let idp = idp\<lparr>IdentityProvider_id := IdentityProvider_id existing, IdentityProvider_realm_id := Realm_id realm,
           IdentityProvider_alias := IdentityProvider_alias existing\<rparr> in
     admin_bind (admin_write (create_idp idp)) (\<lambda>_. admin_ok idp)))"

definition idps_delete :: "string \<Rightarrow> string \<Rightarrow> unit admin" where
  "idps_delete slug alias = admin_bind (admin_realm_by_slug slug) (\<lambda>realm. admin_write (delete_idp (Realm_id realm) alias))"

end
