(* ===== verification/Admin_Orgs.thy ===== *)
theory Admin_Orgs
  imports Admin_Access
begin

text \<open>
  The JSON endpoints of the administration for flow dry runs and for organizations, their domains,
  members, invitations, roles, consent policies and identity-provider bindings (\<^verbatim>\<open>handlers_v1/flows.rs\<close>,
  \<^verbatim>\<open>handlers_v1/orgs.rs\<close>).
\<close>

section \<open>Dry runs (\<open>flows.rs\<close>)\<close>

record SyntheticContext =
  SyntheticContext_username :: "string option"
  SyntheticContext_user_id :: "string option"
  SyntheticContext_client_id :: "string option"
  SyntheticContext_amr :: "string list"
  SyntheticContext_authn_level :: i32
  SyntheticContext_locals :: "(string, Value) btree_map"

definition FlowContext_from :: "SyntheticContext \<Rightarrow> FlowContext" where
  "FlowContext_from s =
     \<lparr>FlowContext_username = SyntheticContext_username s, FlowContext_user_id = SyntheticContext_user_id s,
      FlowContext_client_id = SyntheticContext_client_id s, FlowContext_amr = SyntheticContext_amr s,
      FlowContext_authn_level = SyntheticContext_authn_level s, FlowContext_requested_acr = None,
      FlowContext_session_id = None, FlowContext_locals = SyntheticContext_locals s\<rparr>"

record DryRunRequest =
  DryRunRequest_context :: SyntheticContext
  DryRunRequest_expected_outcomes :: "(string, ExpectedOutcome) hash_map"

text \<open>Of two texts of the same identifier the one visited later stays.\<close>

fun expected_nodes :: "'l KmsLib_scheme \<Rightarrow> (string, ExpectedOutcome) hash_map \<Rightarrow> (NodeId, ExpectedOutcome) hash_map \<Rightarrow>
  (NodeId, ExpectedOutcome) hash_map" where
  "expected_nodes lib [] acc = acc"
| "expected_nodes lib ((k, v) # m) acc =
     expected_nodes lib m (case parse_ulid lib k of Inl _ \<Rightarrow> acc | Inr u \<Rightarrow> hm_insert (NodeId u) v acc)"

fun DryRunError_to_string :: "'l KmsLib_scheme \<Rightarrow> DryRunError \<Rightarrow> string" where
  "DryRunError_to_string lib (DryRunError_Compile e) = ''flow failed to compile: '' @ CompileError_to_string lib e"

text \<open>\<open>None\<close> is a panic of the walker.\<close>

definition flows_dry_run ::
  "'l AdminLib_scheme \<Rightarrow> string \<Rightarrow> string \<Rightarrow> DryRunRequest \<Rightarrow> DryRunReport option admin" where
  "flows_dry_run lib slug alias req =
     admin_bind (admin_realm_by_slug slug) (\<lambda>realm.
     admin_bind (admin_read (get_auth_flow_by_alias (Realm_id realm) alias)) (\<lambda>flow.
     case dry_run (NodeId_to_string lib) (debug_char lib) flow (FlowContext_from (DryRunRequest_context req))
            (expected_nodes lib (DryRunRequest_expected_outcomes req) []) of
       None \<Rightarrow> admin_ok None
     | Some (Inl e) \<Rightarrow> admin_err (AdminError_InvalidInput (''flow `'' @ alias @ ''` failed to compile: '' @ DryRunError_to_string lib e))
     | Some (Inr report) \<Rightarrow> admin_ok (Some report)))"

section \<open>Organizations (\<open>orgs.rs\<close>)\<close>

record CreateOrgRequest =
  CreateOrgRequest_alias :: string
  CreateOrgRequest_display_name :: string
  CreateOrgRequest_description :: "string option"
  CreateOrgRequest_branding :: OrganizationBranding
  CreateOrgRequest_default_idp_alias :: "string option"
  CreateOrgRequest_redirect_url :: "Url option"

text \<open>Every endpoint below an organization resolves the realm and then the alias in it.\<close>

definition with_org :: "string \<Rightarrow> string \<Rightarrow> (Realm \<Rightarrow> Organization \<Rightarrow> 'r admin) \<Rightarrow> 'r admin" where
  "with_org slug alias k =
     admin_bind (admin_realm_by_slug slug) (\<lambda>realm.
     admin_bind (admin_read (get_organization_by_alias (Realm_id realm) alias)) (\<lambda>org. k realm org))"

definition created_org :: "DateTime \<Rightarrow> OrganizationId \<Rightarrow> Realm \<Rightarrow> CreateOrgRequest \<Rightarrow> Organization" where
  "created_org now new_id realm req =
     \<lparr>Organization_id = new_id, Organization_realm_id = Realm_id realm, Organization_alias = CreateOrgRequest_alias req,
      Organization_display_name = CreateOrgRequest_display_name req,
      Organization_description = CreateOrgRequest_description req, Organization_attributes = [],
      Organization_branding = CreateOrgRequest_branding req,
      Organization_default_idp_alias = CreateOrgRequest_default_idp_alias req,
      Organization_redirect_url = CreateOrgRequest_redirect_url req, Organization_enabled = True,
      Organization_created_at = now, Organization_updated_at = now\<rparr>"

definition orgs_list :: "string \<Rightarrow> Organization list admin" where
  "orgs_list slug = admin_bind (admin_realm_by_slug slug) (\<lambda>realm. admin_read (list_organizations (Realm_id realm)))"

definition orgs_create :: "DateTime \<Rightarrow> OrganizationId \<Rightarrow> string \<Rightarrow> CreateOrgRequest \<Rightarrow> Organization admin" where
  "orgs_create now new_id slug req =
     admin_bind (admin_realm_by_slug slug) (\<lambda>realm.
     let org = created_org now new_id realm req in
     admin_bind (admin_write (create_organization org)) (\<lambda>_. admin_ok org))"

definition orgs_get :: "string \<Rightarrow> string \<Rightarrow> Organization admin" where
  "orgs_get slug alias = with_org slug alias (\<lambda>realm org. admin_ok org)"

definition orgs_update :: "DateTime \<Rightarrow> string \<Rightarrow> string \<Rightarrow> Organization \<Rightarrow> Organization admin" where
  "orgs_update now slug alias org =
     with_org slug alias (\<lambda>realm existing.
     let org = org\<lparr>Organization_id := Organization_id existing, Organization_realm_id := Realm_id realm,
           Organization_created_at := Organization_created_at existing, Organization_updated_at := now\<rparr> in
     admin_bind (admin_write (update_organization org)) (\<lambda>_. admin_ok org))"

definition orgs_delete :: "string \<Rightarrow> string \<Rightarrow> unit admin" where
  "orgs_delete slug alias =
     with_org slug alias (\<lambda>realm existing. admin_write (delete_organization (Realm_id realm) (Organization_id existing)))"

subsection \<open>Domains\<close>

definition orgs_list_domains :: "string \<Rightarrow> string \<Rightarrow> OrgDomain list admin" where
  "orgs_list_domains slug alias =
     with_org slug alias (\<lambda>realm org. admin_read (list_org_domains (Realm_id realm) (Organization_id org)))"

definition orgs_add_domain :: "string \<Rightarrow> OrgDomainId \<Rightarrow> string \<Rightarrow> string \<Rightarrow> string \<Rightarrow> OrgDomain admin" where
  "orgs_add_domain new_token new_id slug alias req_domain =
     with_org slug alias (\<lambda>realm org.
     let domain = \<lparr>OrgDomain_id = new_id, OrgDomain_organization_id = Organization_id org,
           OrgDomain_realm_id = Realm_id realm, OrgDomain_domain = map to_ascii_lowercase req_domain,
           OrgDomain_verified = False, OrgDomain_verification_token = Some new_token, OrgDomain_verified_at = None\<rparr> in
     admin_bind (admin_write (upsert_org_domain domain)) (\<lambda>_. admin_ok domain))"

definition orgs_remove_domain :: "string \<Rightarrow> string \<Rightarrow> string \<Rightarrow> unit admin" where
  "orgs_remove_domain slug alias domain =
     with_org slug alias (\<lambda>realm org.
     admin_write (delete_org_domain (Realm_id realm) (Organization_id org) (map to_ascii_lowercase domain)))"

definition orgs_mark_domain_verified :: "DateTime \<Rightarrow> string \<Rightarrow> string \<Rightarrow> string \<Rightarrow> OrgDomain admin" where
  "orgs_mark_domain_verified now slug alias domain =
     with_org slug alias (\<lambda>realm org.
     admin_bind (admin_read (list_org_domains (Realm_id realm) (Organization_id org))) (\<lambda>domains.
     case find (\<lambda>d. OrgDomain_domain d = map to_ascii_lowercase domain) domains of
       None \<Rightarrow> admin_err AdminError_NotFound
     | Some d \<Rightarrow>
         (let d = d\<lparr>OrgDomain_verified := True, OrgDomain_verified_at := Some now, OrgDomain_verification_token := None\<rparr> in
          admin_bind (admin_write (upsert_org_domain d)) (\<lambda>_. admin_ok d))))"

subsection \<open>Members\<close>

definition orgs_list_memberships :: "string \<Rightarrow> string \<Rightarrow> OrgMembership list admin" where
  "orgs_list_memberships slug alias =
     with_org slug alias (\<lambda>realm org. admin_read (list_org_memberships (Realm_id realm) (Organization_id org)))"

definition orgs_add_member :: "DateTime \<Rightarrow> string \<Rightarrow> string \<Rightarrow> UserId \<Rightarrow> OrgRoleId list \<Rightarrow> OrgMembership admin" where
  "orgs_add_member now slug alias user_id req_roles =
     with_org slug alias (\<lambda>realm org.
     let membership = \<lparr>OrgMembership_organization_id = Organization_id org, OrgMembership_realm_id = Realm_id realm,
           OrgMembership_user_id = user_id, OrgMembership_roles = req_roles, OrgMembership_joined_at = now,
           OrgMembership_invited_by = None, OrgMembership_state = MembershipState_Active\<rparr> in
     admin_bind (admin_write (upsert_org_membership membership)) (\<lambda>_. admin_ok membership))"

definition orgs_remove_member :: "string \<Rightarrow> string \<Rightarrow> UserId \<Rightarrow> unit admin" where
  "orgs_remove_member slug alias user_id =
     with_org slug alias (\<lambda>realm org. admin_write (delete_org_membership (Realm_id realm) (Organization_id org) user_id))"

subsection \<open>Invitations\<close>

record CreateInvitationRequest =
  CreateInvitationRequest_email :: string
  CreateInvitationRequest_roles :: "OrgRoleId list"
  CreateInvitationRequest_invited_by :: UserId
  CreateInvitationRequest_expires_in_days :: i64

definition orgs_list_invitations :: "string \<Rightarrow> string \<Rightarrow> OrgInvitation list admin" where
  "orgs_list_invitations slug alias =
     with_org slug alias (\<lambda>realm org. admin_read (list_org_invitations (Realm_id realm) (Organization_id org)))"

definition created_invitation ::
  "DateTime \<Rightarrow> OrgInvitationId \<Rightarrow> string \<Rightarrow> Realm \<Rightarrow> Organization \<Rightarrow> CreateInvitationRequest \<Rightarrow> OrgInvitation" where
  "created_invitation now new_id new_token realm org req =
     \<lparr>OrgInvitation_id = new_id, OrgInvitation_organization_id = Organization_id org,
      OrgInvitation_realm_id = Realm_id realm, OrgInvitation_email = CreateInvitationRequest_email req,
      OrgInvitation_roles = CreateInvitationRequest_roles req,
      OrgInvitation_invited_by = CreateInvitationRequest_invited_by req, OrgInvitation_token = Secret new_token,
      OrgInvitation_expires_at = now + chrono_seconds (86400 * CreateInvitationRequest_expires_in_days req),
      OrgInvitation_accepted_at = None\<rparr>"

definition orgs_create_invitation ::
  "DateTime \<Rightarrow> OrgInvitationId \<Rightarrow> string \<Rightarrow> string \<Rightarrow> string \<Rightarrow> CreateInvitationRequest \<Rightarrow> OrgInvitation admin" where
  "orgs_create_invitation now new_id new_token slug alias req =
     with_org slug alias (\<lambda>realm org.
     let invitation = created_invitation now new_id new_token realm org req in
     admin_bind (admin_write (create_org_invitation invitation)) (\<lambda>_. admin_ok invitation))"

definition orgs_accept_invitation :: "DateTime \<Rightarrow> DateTime \<Rightarrow> string \<Rightarrow> OrgInvitation admin" where
  "orgs_accept_invitation now accepted_now req_token =
     admin_bind (admin_read (get_org_invitation_by_token req_token)) (\<lambda>invitation.
     if OrgInvitation_expires_at invitation < now then admin_err (AdminError_Storage ''invitation expired'')
     else
     admin_bind (admin_write (mark_org_invitation_accepted accepted_now (OrgInvitation_id invitation))) (\<lambda>_.
     admin_ok invitation))"

subsection \<open>Roles\<close>

record CreateOrgRoleRequest =
  CreateOrgRoleRequest_name :: string
  CreateOrgRoleRequest_description :: "string option"
  CreateOrgRoleRequest_permissions :: "OrgPermission list"

definition orgs_list_roles :: "string \<Rightarrow> string \<Rightarrow> OrgRole list admin" where
  "orgs_list_roles slug alias =
     with_org slug alias (\<lambda>realm org. admin_read (list_org_roles (Realm_id realm) (Organization_id org)))"

definition orgs_create_role :: "OrgRoleId \<Rightarrow> string \<Rightarrow> string \<Rightarrow> CreateOrgRoleRequest \<Rightarrow> OrgRole admin" where
  "orgs_create_role new_id slug alias req =
     with_org slug alias (\<lambda>realm org.
     let role = \<lparr>OrgRole_id = new_id, OrgRole_organization_id = Organization_id org, OrgRole_realm_id = Realm_id realm,
           OrgRole_name = CreateOrgRoleRequest_name req, OrgRole_description = CreateOrgRoleRequest_description req,
           OrgRole_permissions = CreateOrgRoleRequest_permissions req, OrgRole_built_in = False\<rparr> in
     admin_bind (admin_write (create_org_role role)) (\<lambda>_. admin_ok role))"

definition orgs_update_role :: "string \<Rightarrow> OrgRoleId \<Rightarrow> OrgRole \<Rightarrow> OrgRole admin" where
  "orgs_update_role slug role_id role =
     admin_bind (admin_realm_by_slug slug) (\<lambda>realm.
     admin_bind (admin_read (get_org_role (Realm_id realm) role_id)) (\<lambda>existing.
     let role = role\<lparr>OrgRole_id := OrgRole_id existing, OrgRole_realm_id := Realm_id realm,
           OrgRole_organization_id := OrgRole_organization_id existing, OrgRole_built_in := OrgRole_built_in existing\<rparr> in
     admin_bind (admin_write (update_org_role role)) (\<lambda>_. admin_ok role)))"

definition orgs_delete_role :: "string \<Rightarrow> OrgRoleId \<Rightarrow> unit admin" where
  "orgs_delete_role slug role_id =
     admin_bind (admin_realm_by_slug slug) (\<lambda>realm.
     admin_bind (admin_read (get_org_role (Realm_id realm) role_id)) (\<lambda>existing.
     if OrgRole_built_in existing then admin_err (AdminError_Storage ''built-in org roles cannot be deleted'')
     else admin_write (delete_org_role (Realm_id realm) role_id)))"

subsection \<open>Consent policies and identity-provider bindings\<close>

record UpsertConsentPolicyRequest =
  UpsertConsentPolicyRequest_client_id :: ClientId
  UpsertConsentPolicyRequest_mode :: OrgConsentMode
  UpsertConsentPolicyRequest_pre_approved_scopes :: "ScopeName list"
  UpsertConsentPolicyRequest_blocked_scopes :: "ScopeName list"
  UpsertConsentPolicyRequest_require_admin_approval :: bool
  UpsertConsentPolicyRequest_created_by :: UserId

definition orgs_list_consent_policies :: "string \<Rightarrow> string \<Rightarrow> OrgConsentPolicy list admin" where
  "orgs_list_consent_policies slug alias =
     with_org slug alias (\<lambda>realm org. admin_read (list_org_consent_policies (Realm_id realm) (Organization_id org)))"

definition orgs_upsert_consent_policy ::
  "DateTime \<Rightarrow> ConsentGrantId \<Rightarrow> string \<Rightarrow> string \<Rightarrow> UpsertConsentPolicyRequest \<Rightarrow> OrgConsentPolicy admin" where
  "orgs_upsert_consent_policy now new_id slug alias req =
     with_org slug alias (\<lambda>realm org.
     let policy = \<lparr>OrgConsentPolicy_id = new_id, OrgConsentPolicy_organization_id = Organization_id org,
           OrgConsentPolicy_realm_id = Realm_id realm, OrgConsentPolicy_client_id = UpsertConsentPolicyRequest_client_id req,
           OrgConsentPolicy_mode = UpsertConsentPolicyRequest_mode req,
           OrgConsentPolicy_pre_approved_scopes = UpsertConsentPolicyRequest_pre_approved_scopes req,
           OrgConsentPolicy_blocked_scopes = UpsertConsentPolicyRequest_blocked_scopes req,
           OrgConsentPolicy_require_admin_approval = UpsertConsentPolicyRequest_require_admin_approval req,
           OrgConsentPolicy_created_by = UpsertConsentPolicyRequest_created_by req,
           OrgConsentPolicy_created_at = now, OrgConsentPolicy_updated_at = now\<rparr> in
     admin_bind (admin_write (upsert_org_consent_policy policy)) (\<lambda>_. admin_ok policy))"

definition orgs_delete_consent_policy :: "string \<Rightarrow> string \<Rightarrow> ClientId \<Rightarrow> unit admin" where
  "orgs_delete_consent_policy slug alias client_id =
     with_org slug alias (\<lambda>realm org.
     admin_write (delete_org_consent_policy (Realm_id realm) (Organization_id org) client_id))"

record UpsertIdpBindingRequest =
  UpsertIdpBindingRequest_idp_alias :: string
  UpsertIdpBindingRequest_priority :: i32
  UpsertIdpBindingRequest_enabled :: bool

record IdpBindingView =
  IdpBindingView_idp_alias :: string
  IdpBindingView_priority :: i32
  IdpBindingView_enabled :: bool

definition IdpBindingView_from :: "OrgIdpBinding \<Rightarrow> IdpBindingView" where
  "IdpBindingView_from b =
     \<lparr>IdpBindingView_idp_alias = OrgIdpBinding_idp_alias b, IdpBindingView_priority = OrgIdpBinding_priority b,
      IdpBindingView_enabled = OrgIdpBinding_enabled b\<rparr>"

definition orgs_list_idp_bindings :: "string \<Rightarrow> string \<Rightarrow> IdpBindingView list admin" where
  "orgs_list_idp_bindings slug alias =
     with_org slug alias (\<lambda>realm org.
     admin_bind (admin_read (list_org_idp_bindings (Realm_id realm) (Organization_id org))) (\<lambda>bindings.
     admin_ok (map IdpBindingView_from bindings)))"

definition orgs_upsert_idp_binding :: "string \<Rightarrow> string \<Rightarrow> UpsertIdpBindingRequest \<Rightarrow> IdpBindingView admin" where
  "orgs_upsert_idp_binding slug alias req =
     with_org slug alias (\<lambda>realm org.
     let binding = \<lparr>OrgIdpBinding_organization_id = Organization_id org, OrgIdpBinding_realm_id = Realm_id realm,
           OrgIdpBinding_idp_alias = UpsertIdpBindingRequest_idp_alias req,
           OrgIdpBinding_priority = UpsertIdpBindingRequest_priority req,
           OrgIdpBinding_enabled = UpsertIdpBindingRequest_enabled req\<rparr> in
     admin_bind (admin_write (upsert_org_idp_binding binding)) (\<lambda>_. admin_ok (IdpBindingView_from binding)))"

definition orgs_remove_idp_binding :: "string \<Rightarrow> string \<Rightarrow> string \<Rightarrow> unit admin" where
  "orgs_remove_idp_binding slug alias idp_alias =
     with_org slug alias (\<lambda>realm org.
     admin_write (delete_org_idp_binding (Realm_id realm) (Organization_id org) idp_alias))"

end
