(* ===== verification/Admin_Store.thy ===== *)
theory Admin_Store
  imports Admin_Orgs
begin

text \<open>
  What the administration does to the store. \<open>conf_step\<close> lists the storage calls of its handlers with
  what each handler has established before the call; \<open>runs\<close> says that a handler is a sequence of such
  steps, with one rule per way of composing handlers. \<open>directories_ok\<close> is what every sequence keeps:
  the lookup tables agree with the rows, assignments name existing roles and groups, and the rows of
  organizations stand under their own keys.
\<close>

section \<open>The store steps\<close>

inductive conf_step :: "Tables \<Rightarrow> Tables \<Rightarrow> bool" where
  conf_create_realm: "map_of (realms t) (Realm_id r) = None \<Longrightarrow> conf_step t (snd (create_realm r t))"
| conf_update_realm: "get_realm_by_slug slug t = Inr old \<Longrightarrow> Realm_id r = Realm_id old \<Longrightarrow> Realm_slug r = Realm_slug old \<Longrightarrow>
    conf_step t (snd (update_realm r t))"
| conf_delete_realm: "get_realm_by_slug slug t = Inr r \<Longrightarrow> slug \<noteq> MASTER_REALM_SLUG \<Longrightarrow>
    conf_step t (snd (delete_realm (Realm_id r) t))"
| conf_seed: "conf_step t (snd (seed_default_flows show_realm fids ids realm t))"
| conf_create_user: "map_of (users t) (User_realm_id u, User_id u) = None \<Longrightarrow> conf_step t (snd (create_user u t))"
| conf_update_user: "get_user_by_username realm name t = Inr old \<Longrightarrow> User_id u = User_id old \<Longrightarrow>
    User_username u = User_username old \<Longrightarrow> User_realm_id u = realm \<or> User_realm_id u = User_realm_id old \<Longrightarrow>
    conf_step t (snd (update_user u t))"
| conf_delete_user: "conf_step t (snd (delete_user realm i t))"
| conf_password: "conf_step t (snd (store_password_hash realm i phc t))"
| conf_create_client: "map_of (clients t) (Client_realm_id c, Client_id c) = None \<Longrightarrow> conf_step t (snd (create_client c t))"
| conf_update_client: "get_client_by_client_id (Client_realm_id c) name t = Inr old' \<Longrightarrow> Client_id c = Client_id old' \<Longrightarrow>
    Client_client_id c = Client_client_id old' \<Longrightarrow> conf_step t (snd (update_client c t))"
| conf_delete_client: "conf_step t (snd (delete_client realm j t))"
| conf_secret: "conf_step t (snd (store_client_secret_hash realm j h t))"
| conf_create_session: "conf_step t (snd (create_session s t))"
| conf_delete_session: "conf_step t (snd (delete_session sid t))"
| conf_access: "conf_step t (access_op a t)"
| conf_profile: "conf_step t (snd (save_user_profile_schema p t))"
| conf_create_agent: "conf_step t (snd (create_agent ag t))"
| conf_update_agent: "conf_step t (snd (update_agent ag t))"
| conf_revoke_agent: "conf_step t (snd (revoke_agent now realm k t))"
| conf_create_idp: "conf_step t (snd (create_idp idp t))"
| conf_delete_idp: "conf_step t (snd (delete_idp realm alias t))"
| conf_org: "(\<And>v. b = Op_create_org_invitation v \<Longrightarrow> map_of (org_invitations t) (OrgInvitation_id v) = None) \<Longrightarrow>
    conf_step t (org_op b t)"

inductive_cases conf_stepE: "conf_step t t'"

abbreviation conf_run :: "Tables \<Rightarrow> Tables \<Rightarrow> bool" where
  "conf_run \<equiv> conf_step\<^sup>*\<^sup>*"

text \<open>Steps named by the storage call, as the handlers make them.\<close>

lemmas conf_access_calls = conf_access [of _ "Op_create_role r" for r, simplified] conf_access [of _ "Op_update_role r" for r, simplified]
  conf_access [of _ "Op_delete_role m i" for m i, simplified] conf_access [of _ "Op_assign_user_role m u i" for m u i, simplified]
  conf_access [of _ "Op_unassign_user_role m u i" for m u i, simplified] conf_access [of _ "Op_create_group g" for g, simplified]
  conf_access [of _ "Op_update_group g" for g, simplified] conf_access [of _ "Op_delete_group m i" for m i, simplified]
  conf_access [of _ "Op_assign_user_group m u i" for m u i, simplified]
  conf_access [of _ "Op_unassign_user_group m u i" for m u i, simplified]
  conf_access [of _ "Op_assign_group_role m g i" for m g i, simplified]
  conf_access [of _ "Op_unassign_group_role m g i" for m g i, simplified]

lemmas conf_org_calls = conf_org [of "Op_create_organization v" for v, simplified] conf_org [of "Op_update_organization v" for v, simplified]
  conf_org [of "Op_delete_organization m i" for m i, simplified] conf_org [of "Op_upsert_org_domain v" for v, simplified]
  conf_org [of "Op_delete_org_domain m i d" for m i d, simplified] conf_org [of "Op_upsert_org_membership v" for v, simplified]
  conf_org [of "Op_delete_org_membership m i u" for m i u, simplified] conf_org [of "Op_create_org_role v" for v, simplified]
  conf_org [of "Op_update_org_role v" for v, simplified] conf_org [of "Op_delete_org_role m i" for m i, simplified]
  conf_org [of "Op_create_org_invitation v" for v, simplified]
  conf_org [of "Op_mark_org_invitation_accepted now i" for now i, simplified]
  conf_org [of "Op_upsert_org_consent_policy v" for v, simplified]
  conf_org [of "Op_delete_org_consent_policy m i c" for m i c, simplified]
  conf_org [of "Op_upsert_org_idp_binding v" for v, simplified] conf_org [of "Op_delete_org_idp_binding m i a" for m i a, simplified]

lemmas conf_calls = conf_seed conf_delete_user conf_password conf_delete_client conf_secret conf_create_session
  conf_delete_session conf_profile conf_create_agent conf_update_agent conf_revoke_agent conf_create_idp conf_delete_idp
  conf_access_calls conf_org_calls

section \<open>What the steps leave alone\<close>

lemma save_auth_flow_frame: "(snd (save_auth_flow show_realm f t))\<lparr>auth_flows := []\<rparr> = t\<lparr>auth_flows := []\<rparr>"
  by (simp add: save_auth_flow_def)

lemma seed_loop_frame: "(snd (seed_loop show_realm realm n fs t))\<lparr>auth_flows := []\<rparr> = t\<lparr>auth_flows := []\<rparr>"
proof (induction fs arbitrary: n t)
  case (Cons f fs)
  obtain r t1 where "save_auth_flow show_realm f t = (r, t1)" "t1\<lparr>auth_flows := []\<rparr> = t\<lparr>auth_flows := []\<rparr>"
    by (metis prod.collapse save_auth_flow_frame)
  with Cons.IH show ?case by (simp split: sum.split StorageError.split)
qed simp

lemma seed_frame:
  fixes t :: Tables
  obtains fl where "snd (seed_default_flows show_realm fids ids realm t) = t\<lparr>auth_flows := fl\<rparr>"
proof
  let ?t = "snd (seed_default_flows show_realm fids ids realm t)"
  have "?t = (?t\<lparr>auth_flows := []\<rparr>)\<lparr>auth_flows := auth_flows ?t\<rparr>" by simp
  also have "\<dots> = t\<lparr>auth_flows := auth_flows ?t\<rparr>" by (simp only: seed_default_flows_def seed_loop_frame) simp
  finally show "?t = t\<lparr>auth_flows := auth_flows ?t\<rparr>" .
qed

definition realms_consistent :: "Tables \<Rightarrow> bool" where
  "realms_consistent t \<longleftrightarrow>
     (\<forall>i r. map_of (realms t) i = Some r \<longrightarrow> Realm_id r = i \<and> map_of (realm_by_slug t) (Realm_slug r) = Some i) \<and>
     (\<forall>slug i. map_of (realm_by_slug t) slug = Some i \<longrightarrow> (\<exists>r. map_of (realms t) i = Some r \<and> Realm_slug r = slug))"

lemma realms_consistent_iff: "realm_index.consistent t = realms_consistent t"
  unfolding realm_index.consistent_def realms_consistent_def by simp

lemma orgs_cong:
  fixes t t' :: Tables
  assumes "IntegrationTables.more t' = IntegrationTables.more t"
  shows "org_rows_ok t' = org_rows_ok t" and "invitations_consistent t' = invitations_consistent t"
  using assms by (cases t; cases t'; simp add: org_rows_ok_def invitations_consistent_def)+

lemma access_op_frame:
  "realms (access_op a t) = realms t" "realm_by_slug (access_op a t) = realm_by_slug t"
  "users (access_op a t) = users t" "users_by_username (access_op a t) = users_by_username t"
  "clients (access_op a t) = clients t" "clients_by_client_id (access_op a t) = clients_by_client_id t"
  "idps (access_op a t) = idps t" "sessions (access_op a t) = sessions t" "codes (access_op a t) = codes t" "refresh_tokens (access_op a t) = refresh_tokens t" "families (access_op a t) = families t"
  "par_requests (access_op a t) = par_requests t" "device_by_device_code (access_op a t) = device_by_device_code t" "flow_states (access_op a t) = flow_states t"
  "IntegrationTables.more (access_op a (t :: Tables)) = IntegrationTables.more t"
  by (cases a; simp add: store_defs Let_def split: option.split)+

lemma org_op_frame:
  "realms (org_op b t) = realms t" "realm_by_slug (org_op b t) = realm_by_slug t"
  "users (org_op b t) = users t" "users_by_username (org_op b t) = users_by_username t"
  "clients (org_op b t) = clients t" "clients_by_client_id (org_op b t) = clients_by_client_id t"
  "roles (org_op b t) = roles t" "groups (org_op b t) = groups t" "user_roles (org_op b t) = user_roles t"
  "user_groups (org_op b t) = user_groups t" "group_roles (org_op b t) = group_roles t"
  "idps (org_op b t) = idps t" "sessions (org_op b t) = sessions t" "codes (org_op b t) = codes t" "refresh_tokens (org_op b t) = refresh_tokens t" "families (org_op b t) = families t"
  "par_requests (org_op b t) = par_requests t" "device_by_device_code (org_op b t) = device_by_device_code t" "flow_states (org_op b t) = flow_states t"
  by (cases b; simp add: store_defs Let_def split: option.split)+

lemma seed_op_frame:
  fixes t :: Tables and show_realm fids ids realm
  defines "t' \<equiv> snd (seed_default_flows show_realm fids ids realm t)"
  shows "realms t' = realms t" "realm_by_slug t' = realm_by_slug t" "users t' = users t"
    "users_by_username t' = users_by_username t" "clients t' = clients t" "clients_by_client_id t' = clients_by_client_id t"
    "roles t' = roles t" "groups t' = groups t" "user_roles t' = user_roles t" "user_groups t' = user_groups t"
    "idps t' = idps t" "sessions t' = sessions t" "codes t' = codes t" "refresh_tokens t' = refresh_tokens t" "families t' = families t"
    "par_requests t' = par_requests t" "device_by_device_code t' = device_by_device_code t" "flow_states t' = flow_states t"
    "group_roles t' = group_roles t" "IntegrationTables.more t' = IntegrationTables.more t"
proof -
  obtain fl where t': "t' = t\<lparr>auth_flows := fl\<rparr>" unfolding t'_def by (rule seed_frame)
  show "realms t' = realms t" "realm_by_slug t' = realm_by_slug t" "users t' = users t"
    "users_by_username t' = users_by_username t" "clients t' = clients t" "clients_by_client_id t' = clients_by_client_id t"
    "roles t' = roles t" "groups t' = groups t" "user_roles t' = user_roles t" "user_groups t' = user_groups t"
    "idps t' = idps t" "sessions t' = sessions t" "codes t' = codes t" "refresh_tokens t' = refresh_tokens t" "families t' = families t"
    "par_requests t' = par_requests t" "device_by_device_code t' = device_by_device_code t" "flow_states t' = flow_states t"
    "group_roles t' = group_roles t" "IntegrationTables.more t' = IntegrationTables.more t"
    by (simp_all add: t')
qed

lemmas op_frames = access_op_frame org_op_frame seed_op_frame

section \<open>The invariant of the directories\<close>

definition idps_keyed :: "Tables \<Rightarrow> bool" where
  "idps_keyed t \<longleftrightarrow> keyed (\<lambda>p. (IdentityProvider_realm_id p, IdentityProvider_alias p)) (idps t)"

definition directories_ok :: "Tables \<Rightarrow> bool" where
  "directories_ok t \<longleftrightarrow> realms_consistent t \<and> users_consistent t \<and> clients_consistent t \<and> access_ok t \<and>
     idps_keyed t \<and> org_rows_ok t \<and> invitations_consistent t"

lemma update_realm_consistent:
  assumes "realms_consistent t" "get_realm_by_slug slug t = Inr old" "Realm_id r = Realm_id old" "Realm_slug r = Realm_slug old"
  shows "realms_consistent (snd (update_realm r t))"
proof -
  obtain i where i: "map_of (realms t) i = Some old" "Realm_id old = i"
    using assms(1,2) by (auto simp: get_realm_by_slug_def realms_consistent_def ok_or_def split: option.splits)
  then show ?thesis
    using assms(1,3,4) by (auto simp: update_realm_def realms_consistent_def hm_contains_key_def split: if_splits) (metis option.inject)
qed

lemma update_user_consistent:
  assumes "users_consistent t" "get_user_by_username realm name t = Inr old" "User_id u = User_id old"
    "User_username u = User_username old" "User_realm_id u = realm \<or> User_realm_id u = User_realm_id old"
  shows "users_consistent (snd (update_user u t))"
proof (rule update_user_keeps_consistent [OF assms(1)])
  have "map_of (users t) (realm, User_id old) = Some old" "User_realm_id old = realm"
    using assms(1,2) unfolding users_consistent_def
    by (auto simp: get_user_by_username_def ok_or_def split: option.splits)
  then show "User_username old' = User_username u" if "map_of (users t) (User_realm_id u, User_id u) = Some old'" for old'
    using that assms(3-5) by auto
qed

lemma update_client_consistent:
  assumes "clients_consistent t" "get_client_by_client_id (Client_realm_id c) name t = Inr old" "Client_id c = Client_id old"
    "Client_client_id c = Client_client_id old"
  shows "clients_consistent (snd (update_client c t))"
proof -
  have "map_of (clients t) (Client_realm_id c, Client_id c) = Some old"
    using assms(1-3) unfolding clients_consistent_def
    by (auto simp: get_client_by_client_id_def ok_or_def split: option.splits)
  with assms(1,4) show ?thesis
    unfolding update_client_def clients_consistent_def
    by (auto simp: hm_contains_key_def split: if_splits) (metis option.inject)+
qed

lemma conf_realms:
  assumes "conf_step t t'" "realms_consistent t"
  shows "realms_consistent t'"
  using assms(1)
proof cases
  case (conf_create_realm r)
  then show ?thesis using realm_index.create_keeps_consistent [of t r] assms(2) by (simp add: realms_consistent_iff)
next
  case (conf_update_realm slug old r)
  then show ?thesis using update_realm_consistent assms(2) by blast
next
  case (conf_delete_realm slug r)
  then show ?thesis
    using realm_index.delete_keeps_consistent [of t "Realm_id r"] assms(2) by (simp add: realms_consistent_iff)
qed (use assms(2) in \<open>simp_all add: realms_consistent_def op_frames store_defs Let_def
    split: option.split\<close>)

lemma conf_users:
  assumes "conf_step t t'" "users_consistent t"
  shows "users_consistent t'"
  using assms(1)
proof cases
  case (conf_create_user u)
  then show ?thesis using user_directory_laws(3) [OF assms(2), of u] by simp
next
  case (conf_update_user realm name old u)
  then show ?thesis using update_user_consistent assms(2) by blast
next
  case (conf_delete_user realm i)
  then show ?thesis using user_directory_laws(4) [OF assms(2), of realm i] by simp
qed (use assms(2) in \<open>simp_all add: users_consistent_def op_frames store_defs Let_def
    split: option.split\<close>)

lemma conf_clients:
  assumes "conf_step t t'" "clients_consistent t"
  shows "clients_consistent t'"
  using assms(1)
proof cases
  case (conf_create_client c)
  then show ?thesis using client_index.create_keeps_consistent [of t c] assms(2) by (simp add: clients_consistent_iff)
next
  case (conf_update_client c name old)
  then show ?thesis using update_client_consistent assms(2) by blast
next
  case (conf_delete_client realm i)
  then show ?thesis
    using client_index.delete_keeps_consistent [of t "(realm, i)"] assms(2) by (simp add: clients_consistent_iff)
qed (use assms(2) in \<open>simp_all add: clients_consistent_def op_frames store_defs Let_def
    split: option.split\<close>)

lemma conf_assignments:
  assumes "conf_step t t'" "access_ok t"
  shows "access_ok t'"
  using assms(1)
proof cases
  case (conf_access a)
  then show ?thesis using access_ok_op assms(2) by blast
qed (use assms(2) in \<open>simp_all add: access_ok_def op_frames store_defs Let_def split: option.split\<close>)

lemma conf_idps: "conf_step t t' \<Longrightarrow> idps_keyed t \<Longrightarrow> idps_keyed t'"
  by (induction rule: conf_step.induct) (simp_all add: idps_keyed_def op_frames store_defs Let_def split: option.split)

lemma org_op_invitations:
  assumes "invitations_consistent t"
    and "\<And>v. b = Op_create_org_invitation v \<Longrightarrow> map_of (org_invitations t) (OrgInvitation_id v) = None"
  shows "invitations_consistent (org_op b t)"
proof (cases b)
  case (Op_create_org_invitation v)
  then show ?thesis
    using assms invitation_index.create_keeps_consistent [of t v] by (simp add: invitations_consistent_iff)
next
  case (Op_delete_org_invitation i)
  then show ?thesis
    using assms(1) invitation_index.delete_keeps_consistent [of t i] by (simp add: invitations_consistent_iff)
next
  case (Op_mark_org_invitation_accepted now i)
  then show ?thesis using mark_accepted_consistent assms(1) by simp
qed (use assms(1) in \<open>simp_all add: invitations_consistent_def store_defs Let_def split: option.split\<close>)

lemma conf_org_frame:
  assumes "conf_step t t'"
  shows "IntegrationTables.more t' = IntegrationTables.more t \<or>
    (\<exists>b. t' = org_op b t \<and> (\<forall>v. b = Op_create_org_invitation v \<longrightarrow> map_of (org_invitations t) (OrgInvitation_id v) = None))"
  using assms
proof cases
  case (conf_org b)
  then show ?thesis by blast
qed (simp_all add: op_frames store_defs Let_def split: option.split)

lemma conf_orgs:
  assumes "conf_step t t'" "org_rows_ok t" "invitations_consistent t"
  shows "org_rows_ok t' \<and> invitations_consistent t'"
  using conf_org_frame [OF assms(1)]
proof (elim disjE exE conjE)
  assume "IntegrationTables.more t' = IntegrationTables.more t"
  with assms(2,3) show ?thesis using orgs_cong [of t' t] by blast
next
  fix b assume "t' = org_op b t"
    "\<forall>v. b = Op_create_org_invitation v \<longrightarrow> map_of (org_invitations t) (OrgInvitation_id v) = None"
  with assms(2,3) show ?thesis using org_rows_ok_op [of t b] org_op_invitations [of t b] by blast
qed

lemma conf_directories: "conf_step t t' \<Longrightarrow> directories_ok t \<Longrightarrow> directories_ok t'"
  unfolding directories_ok_def using conf_realms conf_users conf_clients conf_assignments conf_idps conf_orgs by blast

text \<open>The master realm cannot be deleted, and no step gives its slug away.\<close>

definition master_is :: "RealmId \<Rightarrow> Tables \<Rightarrow> bool" where
  "master_is i t \<longleftrightarrow> (\<exists>r. get_realm_by_slug MASTER_REALM_SLUG t = Inr r \<and> Realm_id r = i)"

lemma slug_index:
  assumes "realms_consistent t"
  shows "map_of (realm_by_slug t) slug = Some i \<longleftrightarrow> (\<exists>r. map_of (realms t) i = Some r \<and> Realm_slug r = slug)"
    and "get_realm_by_slug slug t = Inr r \<longleftrightarrow> map_of (realms t) (Realm_id r) = Some r \<and> Realm_slug r = slug"
proof -
  show 1: "map_of (realm_by_slug t) slug = Some i \<longleftrightarrow> (\<exists>r. map_of (realms t) i = Some r \<and> Realm_slug r = slug)" for i
    using assms unfolding realms_consistent_def by blast
  have key: "Realm_id r = i" if "map_of (realms t) i = Some r" for i
    using assms that unfolding realms_consistent_def by blast
  have "get_realm_by_slug slug t = ok_or (realm_index.by_name t slug) NotFound"
    by (auto simp: realm_index.by_name_def get_realm_by_slug_def split: option.split bind_split)
  then have "get_realm_by_slug slug t = Inr r \<longleftrightarrow> realm_index.by_name t slug = Some r"
    by (simp add: ok_or_def split: option.split)
  also have "\<dots> \<longleftrightarrow> map_of (realms t) (Realm_id r) = Some r \<and> Realm_slug r = slug"
    using key realm_index.by_name_iff [OF assms [folded realms_consistent_iff], of slug r] by metis
  finally show "get_realm_by_slug slug t = Inr r \<longleftrightarrow> map_of (realms t) (Realm_id r) = Some r \<and> Realm_slug r = slug" .
qed

lemma master_is_iff:
  assumes "realms_consistent t"
  shows "master_is i t \<longleftrightarrow> map_of (realm_by_slug t) MASTER_REALM_SLUG = Some i"
proof -
  have "\<And>i r. map_of (realms t) i = Some r \<Longrightarrow> Realm_id r = i"
    using assms unfolding realms_consistent_def by blast
  then show ?thesis unfolding master_is_def slug_index(1) [OF assms] slug_index(2) [OF assms] by metis
qed

lemma conf_slug_kept:
  assumes "conf_step t t'" "realms_consistent t" "map_of (realm_by_slug t) MASTER_REALM_SLUG = Some i"
  shows "map_of (realm_by_slug t') MASTER_REALM_SLUG = Some i"
  using assms(1)
proof cases
  case (conf_create_realm r)
  then show ?thesis using assms(3) by (auto simp: create_realm_def hm_contains_key_def)
next
  case (conf_delete_realm slug r)
  then have "map_of (realms t) (Realm_id r) = Some r \<and> Realm_slug r = slug"
    by (simp add: slug_index(2) [OF assms(2)])
  then show ?thesis using conf_delete_realm assms(3) by (simp add: delete_realm_def)
qed (use assms(3) in \<open>simp_all add: op_frames store_defs Let_def split: option.split\<close>)

section \<open>Handlers as sequences of steps\<close>

definition runs :: "AdminState \<Rightarrow> 'r admin \<Rightarrow> bool" where
  "runs st m \<longleftrightarrow> conf_run (AdminState_storage st) (AdminState_storage (snd (m st)))"

lemma publish_storage [simp]: "AdminState_storage (publish_as actor r a tg d st) = AdminState_storage st"
  by (simp add: publish_as_def split: prod.split)

lemma runs_pure:
  "runs st (admin_ok r)" "runs st (admin_err e)" "runs st (admin_read f)" "runs st (admin_lift x)"
  "runs st (admin_emit realm a tg d)" "runs st (user_event realm a u)" "runs st (agent_event lib realm a ag extra)"
  "runs st (admin_seed_keys lib draw)"
  by (simp_all add: runs_def admin_ok_def admin_err_def admin_read_def admin_lift_def admin_emit_def admin_publish_def
      user_event_def agent_event_def admin_seed_keys_def Let_def split: prod.split)

lemma runs_write: "conf_step (AdminState_storage st) (snd (f (AdminState_storage st))) \<Longrightarrow> runs st (admin_write f)"
  by (simp add: runs_def admin_write_def split: prod.split) (metis r_into_rtranclp snd_conv)

lemma runs_bind:
  assumes "runs st m" and "\<And>r st'. m st = (Inr r, st') \<Longrightarrow> runs st' (k r)"
  shows "runs st (admin_bind m k)"
proof (cases "m st")
  case (Pair a st')
  with assms show ?thesis
    by (cases a) (auto simp: runs_def admin_bind_def)
qed

lemma runs_read_bind:
  "(\<And>r. f (AdminState_storage st) = Inr r \<Longrightarrow> runs st (k r)) \<Longrightarrow> runs st (admin_bind (admin_read f) k)"
  by (rule runs_bind) (auto simp: runs_pure admin_read_def map_sum_def split: sum.splits)

lemma runs_lift_bind: "(\<And>r. x = Inr r \<Longrightarrow> runs st (k r)) \<Longrightarrow> runs st (admin_bind (admin_lift x) k)"
  by (rule runs_bind) (auto simp: runs_pure admin_lift_def)

lemma runs_write_bind:
  "conf_step (AdminState_storage st) (snd (f (AdminState_storage st))) \<Longrightarrow> (\<And>r st'. runs st' (k r)) \<Longrightarrow>
   runs st (admin_bind (admin_write f) k)"
  by (rule runs_bind) (auto simp: runs_write)

lemma runs_profile_bind: "runs st (k ()) \<Longrightarrow> runs st (admin_bind (validate_profile now realm user) k)"
  by (rule runs_bind) (auto simp: validate_profile_def runs_def Let_def split: sum.splits if_splits)

lemma runs_event_bind:
  "(\<And>st'. runs st' (k ())) \<Longrightarrow> runs st (admin_bind (admin_emit realm a tg d) k)"
  "(\<And>st'. runs st' (k ())) \<Longrightarrow> runs st (admin_bind (user_event realm a u) k)"
  "(\<And>st'. runs st' (k ())) \<Longrightarrow> runs st (admin_bind (agent_event lib realm a ag extra) k)"
  "(\<And>st'. runs st' (k ())) \<Longrightarrow> runs st (admin_bind (admin_seed_keys lib draw) k)"
  by (rule runs_bind; simp add: runs_pure)+

lemma runs_secret_bind: "(\<And>r st'. runs st' (k r)) \<Longrightarrow> runs st (admin_bind (store_new_secret lib secret realm client) k)"
proof (rule runs_bind)
  show "runs st (store_new_secret lib secret realm client)"
  proof (cases "keeps_secret (Client_kind client)")
    case True
    then have "runs st (store_new_secret lib secret realm client) \<longleftrightarrow>
        runs st (admin_bind (admin_write (store_client_secret_hash (Realm_id realm) (Client_id client)
          (hex_encode lib (token_hash lib (AdminState_client_secret_hash_key st) secret)))) (\<lambda>_. admin_ok (Some secret)))"
      by (simp add: runs_def store_new_secret_def)
    then show ?thesis by (simp add: runs_write_bind conf_secret runs_pure)
  next
    case False
    then show ?thesis by (simp add: runs_def store_new_secret_def admin_ok_def)
  qed
qed

lemma runs_with_org:
  assumes "\<And>realm org. get_organization_by_alias (Realm_id realm) alias (AdminState_storage st) = Inr org \<Longrightarrow> runs st (k realm org)"
  shows "runs st (with_org slug alias k)"
  unfolding with_org_def admin_realm_by_slug_def using assms by (intro runs_read_bind)

lemmas runs_rules = runs_pure runs_write runs_read_bind runs_lift_bind runs_write_bind runs_profile_bind runs_event_bind
  runs_secret_bind runs_with_org

section \<open>The handlers\<close>

text \<open>Of the handlers that write, those that create a row assume that the identifier they draw is new.\<close>

definition fresh_realm :: "RealmId \<Rightarrow> Tables \<Rightarrow> bool" where
  "fresh_realm i t \<longleftrightarrow> map_of (realms t) i = None"

definition fresh_user :: "UserId \<Rightarrow> Tables \<Rightarrow> bool" where
  "fresh_user i t \<longleftrightarrow> (\<forall>realm. map_of (users t) (realm, i) = None)"

definition fresh_client :: "ClientId \<Rightarrow> Tables \<Rightarrow> bool" where
  "fresh_client i t \<longleftrightarrow> (\<forall>realm. map_of (clients t) (realm, i) = None)"

definition fresh_invitation :: "OrgInvitationId \<Rightarrow> Tables \<Rightarrow> bool" where
  "fresh_invitation i t \<longleftrightarrow> map_of (org_invitations t) i = None"

lemma runs_realms:
  "fresh_realm (rd_id draw) (AdminState_storage st) \<Longrightarrow> runs st (realms_create lib draw req)"
  "runs st (api_realms_update now slug realm)" "runs st (realms_delete slug)"
  by (auto simp: realms_create_def api_realms_update_def realms_delete_def Let_def created_realm_def fresh_realm_def
      intro!: runs_rules conf_calls conf_create_realm conf_update_realm intro: conf_delete_realm)

lemma runs_clients:
  "fresh_client i (AdminState_storage st) \<Longrightarrow> runs st (clients_create lib now i secret slug req)"
  "runs st (api_clients_update now slug name c)" "runs st (clients_delete slug name)"
  by (auto simp: clients_create_def api_clients_update_def clients_delete_def admin_realm_by_slug_def Let_def created_client_def
      fresh_client_def intro!: runs_rules conf_calls conf_create_client conf_update_client)

lemma runs_users:
  "fresh_user i (AdminState_storage st) \<Longrightarrow> runs st (users_create now i now' slug req)"
  "runs st (api_users_update now now' slug name u)" "runs st (users_delete slug name)"
  "runs st (users_verify_email now slug name)" "runs st (users_set_password lib' salt slug name password)"
  by (auto simp: users_create_def api_users_update_def users_delete_def users_verify_email_def users_set_password_def
      admin_realm_by_slug_def Let_def created_user_def fresh_user_def
      intro!: runs_rules conf_calls conf_create_user conf_update_user)

lemma runs_settings:
  "runs st (profile_put_schema now slug profile)" "runs st (sessions_revoke slug sid)"
  "runs st (agents_create lib now i slug areq)" "runs st (api_agents_update lib' slug alias ag)" "runs st (agents_revoke lib' now slug alias)"
  "runs st (idps_create j slug ireq)" "runs st (api_idps_update slug alias idp)" "runs st (idps_delete slug alias)"
  by (auto simp: profile_put_schema_def sessions_revoke_def agents_create_def api_agents_update_def agents_revoke_def
      idps_create_def api_idps_update_def idps_delete_def admin_realm_by_slug_def Let_def intro!: runs_rules conf_calls)

lemma runs_roles:
  "runs st (roles_create now i slug req)" "runs st (api_roles_update now slug name role)" "runs st (roles_delete slug name)"
  "runs st (roles_assign_user lib slug u i)" "runs st (roles_unassign_user lib slug u i)"
  by (auto simp: roles_create_def api_roles_update_def roles_delete_def roles_assign_user_def roles_unassign_user_def
      admin_realm_by_slug_def Let_def intro!: runs_rules conf_calls)

lemma runs_groups:
  "runs st (groups_create now g slug req)" "runs st (api_groups_update now slug g grp)" "runs st (groups_delete slug g)"
  "runs st (groups_assign_user slug u g)" "runs st (groups_unassign_user slug u g)"
  "runs st (groups_assign_role slug g i)" "runs st (groups_unassign_role slug g i)"
proof -
  have parent: "runs st (admin_bind (case p of Some p \<Rightarrow> admin_bind (admin_read (get_group realm p)) (\<lambda>g. admin_ok (Some (Group_path g)))
      | None \<Rightarrow> admin_ok None) k)" if "\<And>r st'. runs st' (k r)" for realm p k
    using that by (intro runs_bind) (auto simp: runs_pure runs_read_bind split: option.split)
  show "runs st (groups_create now g slug req)"
    by (auto simp: groups_create_def admin_realm_by_slug_def Let_def intro!: parent runs_rules conf_calls)
qed (auto simp: api_groups_update_def groups_delete_def groups_assign_user_def groups_unassign_user_def groups_assign_role_def
    groups_unassign_role_def admin_realm_by_slug_def Let_def intro!: runs_rules conf_calls)

lemma runs_orgs:
  "runs st (orgs_create now i slug req)" "runs st (orgs_update now slug alias org)" "runs st (orgs_delete slug alias)"
  "runs st (orgs_add_domain tok d slug alias dom')" "runs st (orgs_remove_domain slug alias dom')"
  "runs st (orgs_mark_domain_verified now slug alias dom')"
  "runs st (orgs_add_member now slug alias u rs)" "runs st (orgs_remove_member slug alias u)"
  by (auto simp: orgs_create_def orgs_update_def orgs_delete_def orgs_add_domain_def orgs_remove_domain_def
      orgs_mark_domain_verified_def orgs_add_member_def orgs_remove_member_def admin_realm_by_slug_def Let_def
      intro!: runs_rules conf_calls split: option.split)

lemma runs_org_settings:
  "fresh_invitation i (AdminState_storage st) \<Longrightarrow> runs st (orgs_create_invitation now i tok slug alias req)"
  "runs st (orgs_accept_invitation now now' tok)"
  "runs st (orgs_create_role ri slug alias rreq)" "runs st (orgs_update_role slug ri role)" "runs st (orgs_delete_role slug ri)"
  "runs st (orgs_upsert_consent_policy now ci slug alias creq)" "runs st (orgs_delete_consent_policy slug alias cid)"
  "runs st (orgs_upsert_idp_binding slug alias breq)" "runs st (orgs_remove_idp_binding slug alias ia)"
  by (auto simp: orgs_create_invitation_def orgs_accept_invitation_def orgs_create_role_def orgs_update_role_def
      orgs_delete_role_def orgs_upsert_consent_policy_def orgs_delete_consent_policy_def orgs_upsert_idp_binding_def
      orgs_remove_idp_binding_def admin_realm_by_slug_def Let_def created_invitation_def fresh_invitation_def
      intro!: runs_rules conf_calls)

lemma admin_write_storage: "AdminState_storage (snd (admin_write f st)) = snd (f (AdminState_storage st))"
  by (simp add: admin_write_def split: prod.split)

lemma runs_gate:
  "conf_run (AdminState_storage st) (AdminState_storage (snd (require_admin lib now headers st)))"
  "conf_run (AdminState_storage st) (AdminState_storage (snd (login_submit lib now sid name password st)))"
  "conf_run (AdminState_storage st) (AdminState_storage (snd (admin_logout headers st)))"
proof -
  have "conf_run (AdminState_storage st) (AdminState_storage (snd (verify_session now s st)))" for s
    by (auto simp: verify_session_def admin_write_storage conf_delete_session split: sum.split)
  then show "conf_run (AdminState_storage st) (AdminState_storage (snd (require_admin lib now headers st)))"
    by (auto simp: require_admin_def split: option.split prod.split sum.split) (metis snd_conv)+
  have "conf_run (AdminState_storage st) (AdminState_storage (snd (try_login lib now sid name password st)))"
    by (auto simp: try_login_def Let_def admin_write_def conf_create_session split: sum.split list.split prod.split)
      (metis conf_create_session r_into_rtranclp snd_conv)+
  then show "conf_run (AdminState_storage st) (AdminState_storage (snd (login_submit lib now sid name password st)))"
    by (auto simp: login_submit_def split: prod.split sum.split)
  show "conf_run (AdminState_storage st) (AdminState_storage (snd (admin_logout headers st)))"
    by (auto simp: admin_logout_def admin_write_storage conf_delete_session split: option.split)
qed

end
