(* ===== verification/Refresh_Live.thy ===== *)
theory Refresh_Live
  imports OAuth_Refresh
begin

text \<open>
  At most one live refresh token per family: the invariant that rotation is meant to keep, derived
  from the contract of a table of refresh tokens and instantiated to the store.
\<close>

context refresh_rows
begin

definition one_live :: "'t \<Rightarrow> bool" where
  "one_live t \<longleftrightarrow> ok t \<and> (\<forall>i j a b. get t i = Some a \<and> get t j = Some b \<and> \<not> used a \<and> \<not> used b \<and>
     family_of a = family_of b \<longrightarrow> i = j)"

definition family_fresh :: "'f \<Rightarrow> 't \<Rightarrow> bool" where
  "family_fresh f t \<longleftrightarrow> (\<forall>k v. get t k = Some v \<longrightarrow> family_of v \<noteq> f)"

lemma one_liveD:
  "one_live t \<Longrightarrow> get t i = Some a \<Longrightarrow> get t j = Some b \<Longrightarrow> \<not> used a \<Longrightarrow> \<not> used b \<Longrightarrow>
   family_of a = family_of b \<Longrightarrow> i = j"
  by (auto simp: one_live_def)

lemma one_live_save_fresh:
  assumes "one_live t" "family_fresh (family_of v) t"
  shows "one_live (save v t)"
  unfolding one_live_def
proof (intro conjI allI impI)
  show "ok (save v t)" using assms(1) by (simp add: one_live_def ok_save)
  fix i j a b
  assume *: "get (save v t) i = Some a \<and> get (save v t) j = Some b \<and> \<not> used a \<and> \<not> used b \<and> family_of a = family_of b"
  show "i = j"
  proof (cases "i = key_of v \<or> j = key_of v")
    case True
    have new: "get (save v t) k = Some c \<Longrightarrow> family_of c = family_of v \<Longrightarrow> k = key_of v" for k c
      using assms(2) by (simp add: save_get family_fresh_def split: if_splits)
    from True have "family_of a = family_of v" using * by (elim disjE) (simp_all add: save_get)
    with * new [of i a] new [of j b] show ?thesis by simp
  next
    case False
    with * have "get t i = Some a" "get t j = Some b" by (simp_all add: save_get)
    with * one_liveD [OF assms(1)] show ?thesis by blast
  qed
qed

lemma one_live_revoke:
  assumes "one_live t"
  shows "one_live (revoke f t)"
  unfolding one_live_def
proof (intro conjI allI impI)
  show "ok (revoke f t)" using assms by (simp add: one_live_def ok_revoke)
qed (use one_liveD [OF assms revoke_get revoke_get] in blast)

lemma mark_live:
  assumes "get (mark k t) j = Some v" "\<not> used v"
  shows "get t j = Some v" "j \<noteq> k"
proof -
  show "j \<noteq> k" using assms mark_used by blast
  then show "get t j = Some v" using assms(1) mark_get [of k j t] by simp
qed

lemma one_live_rotate:
  assumes "one_live t" "get t k = Some p" "\<not> used p" "family_of q = family_of p"
  shows "one_live (save q (mark k t))"
  unfolding one_live_def
proof (intro conjI allI impI)
  show "ok (save q (mark k t))" using assms(1) by (simp add: one_live_def ok_save ok_mark)
  have none: False if "get (mark k t) j = Some b" "\<not> used b" "family_of b = family_of q" for j b
    using one_liveD [OF assms(1) mark_live(1) [OF that(1,2)] assms(2) that(2) assms(3)] mark_live(2) [OF that(1,2)]
      that(3) assms(4) by simp
  fix i j a b
  assume *: "get (save q (mark k t)) i = Some a \<and> get (save q (mark k t)) j = Some b \<and> \<not> used a \<and> \<not> used b \<and>
    family_of a = family_of b"
  show "i = j"
  proof (cases "i = key_of q \<or> j = key_of q")
    case True
    have new: "get (save q (mark k t)) l = Some c \<Longrightarrow> \<not> used c \<Longrightarrow> family_of c = family_of q \<Longrightarrow> l = key_of q" for l c
      using none [of l c] by (simp add: save_get split: if_splits)
    from True have "family_of a = family_of q" using * by (elim disjE) (simp_all add: save_get)
    with * new [of i a] new [of j b] show ?thesis by simp
  next
    case False
    with * have "get t i = Some a" "get t j = Some b"
      using mark_live(1) [of k t i a] mark_live(1) [of k t j b] by (simp_all add: save_get)
    with * one_liveD [OF assms(1)] show ?thesis by blast
  qed
qed

end

lemma one_live_cong:
  "refresh_tokens t' = refresh_tokens t \<Longrightarrow> families t' = families t \<Longrightarrow>
   refresh_table.one_live t' = refresh_table.one_live t"
  by (simp add: refresh_table.one_live_def families_ok_def)

lemma one_live_validate:
  "refresh_table.one_live t \<Longrightarrow> refresh_table.one_live (snd (validate_refresh lib now secret key t))"
  by (auto simp: validate_refresh_eq refresh_table.one_live_revoke split: option.splits)

end
