(* ===== verification/Server_Db.thy ===== *)
theory Server_Db
  imports Server_Base Refresh_Live
begin

text \<open>
  The protocol handlers change the store only through a few operations. \<open>db_step\<close> is one of them;
  the handlers are shown to be sequences of such steps, and what holds of every step (rows stay under
  their own keys, at most one live refresh token per family, the configuration is untouched) then
  holds of every request.
\<close>

inductive db_step :: "Tables \<Rightarrow> Tables \<Rightarrow> bool" where
  db_create_session: "db_step t (snd (create_session s t))"
| db_update_session: "db_step t (snd (update_session s t))"
| db_delete_session: "db_step t (snd (delete_session i t))"
| db_save_code: "db_step t (snd (save_code_grant g t))"
| db_consume_code: "db_step t (snd (consume_code c t))"
| db_issue: "refresh_table.family_fresh (RefreshToken_family_id q) t \<Longrightarrow> db_step t (snd (save_refresh_token q t))"
| db_rotate: "map_of (refresh_tokens t) (RefreshToken_id p) = Some p \<Longrightarrow> \<not> RefreshToken_used p \<Longrightarrow>
    RefreshToken_family_id q = RefreshToken_family_id p \<Longrightarrow>
    db_step t (snd (save_refresh_token q (snd (mark_refresh_used (RefreshToken_id p) t))))"
| db_revoke: "db_step t (snd (revoke_token_family f t))"
| db_save_par: "db_step t (snd (save_par_request r t))"
| db_consume_par: "db_step t (snd (consume_par_request u t))"
| db_save_device: "db_step t (snd (save_device_grant g t))"
| db_update_device: "db_step t (snd (update_device_grant g t))"
| db_delete_device: "db_step t (snd (delete_device_grant c t))"
| db_save_flow: "db_step t (snd (save_flow_state r t))"

abbreviation db_run :: "Tables \<Rightarrow> Tables \<Rightarrow> bool" where
  "db_run \<equiv> db_step\<^sup>*\<^sup>*"

lemma db_run_invariant:
  assumes "db_run t t'" "P t" "\<And>u u'. db_step u u' \<Longrightarrow> P u \<Longrightarrow> P u'"
  shows "P t'"
  using assms by (induction rule: rtranclp_induct) auto

section \<open>Families\<close>

lemma refresh_untouched:
  "refresh_tokens (snd (create_session s t)) = refresh_tokens t" "families (snd (create_session s t)) = families t"
  "refresh_tokens (snd (update_session s t)) = refresh_tokens t" "families (snd (update_session s t)) = families t"
  "refresh_tokens (snd (delete_session i t)) = refresh_tokens t" "families (snd (delete_session i t)) = families t"
  "refresh_tokens (snd (save_code_grant cg t)) = refresh_tokens t" "families (snd (save_code_grant cg t)) = families t"
  "refresh_tokens (snd (consume_code c t)) = refresh_tokens t" "families (snd (consume_code c t)) = families t"
  "refresh_tokens (snd (save_par_request pr t)) = refresh_tokens t" "families (snd (save_par_request pr t)) = families t"
  "refresh_tokens (snd (consume_par_request u t)) = refresh_tokens t" "families (snd (consume_par_request u t)) = families t"
  "refresh_tokens (snd (save_device_grant g t)) = refresh_tokens t" "families (snd (save_device_grant g t)) = families t"
  "refresh_tokens (snd (update_device_grant g t)) = refresh_tokens t" "families (snd (update_device_grant g t)) = families t"
  "refresh_tokens (snd (delete_device_grant dc t)) = refresh_tokens t" "families (snd (delete_device_grant dc t)) = families t"
  "refresh_tokens (snd (save_flow_state fs t)) = refresh_tokens t" "families (snd (save_flow_state fs t)) = families t"
  by (simp_all add: store_defs split: option.split)

lemma db_step_one_live: "db_step t t' \<Longrightarrow> refresh_table.one_live t \<Longrightarrow> refresh_table.one_live t'"
proof (induction rule: db_step.induct)
  case (db_issue q t)
  then show ?case by (intro refresh_table.one_live_save_fresh)
next
  case (db_rotate t p q)
  then show ?case by (intro refresh_table.one_live_rotate)
next
  case (db_revoke t f)
  then show ?case by (rule refresh_table.one_live_revoke)
qed (simp_all only: one_live_cong [OF refresh_untouched(1,2)] one_live_cong [OF refresh_untouched(3,4)]
    one_live_cong [OF refresh_untouched(5,6)] one_live_cong [OF refresh_untouched(7,8)]
    one_live_cong [OF refresh_untouched(9,10)] one_live_cong [OF refresh_untouched(11,12)]
    one_live_cong [OF refresh_untouched(13,14)] one_live_cong [OF refresh_untouched(15,16)]
    one_live_cong [OF refresh_untouched(17,18)] one_live_cong [OF refresh_untouched(19,20)]
    one_live_cong [OF refresh_untouched(21,22)])

lemma families_ok_cong:
  "refresh_tokens t' = refresh_tokens t \<Longrightarrow> families t' = families t \<Longrightarrow> families_ok t' = families_ok t"
  by (simp add: families_ok_def)

section \<open>Rows under their own keys\<close>

definition rows_keyed :: "Tables \<Rightarrow> bool" where
  "rows_keyed t \<longleftrightarrow>
     (\<forall>i s. map_of (sessions t) i = Some s \<longrightarrow> Session_id s = i) \<and>
     (\<forall>i g. map_of (codes t) i = Some g \<longrightarrow> CodeGrant_code g = i) \<and>
     (\<forall>i k. map_of (refresh_tokens t) i = Some k \<longrightarrow> RefreshToken_id k = i) \<and>
     (\<forall>i r. map_of (par_requests t) i = Some r \<longrightarrow> ParRequest_request_uri r = i) \<and>
     (\<forall>i d. map_of (device_by_device_code t) i = Some d \<longrightarrow> DeviceGrant_device_code d = i) \<and>
     (\<forall>i f. map_of (flow_states t) i = Some f \<longrightarrow> FlowState_id (FlowStateRow_state f) = i)"

lemma rows_keyed_mark: "rows_keyed t \<Longrightarrow> rows_keyed (snd (mark_refresh_used i t))"
  by (auto simp: rows_keyed_def mark_refresh_used_def split: option.splits if_splits)

lemma rows_keyed_save: "rows_keyed t \<Longrightarrow> rows_keyed (snd (save_refresh_token q t))"
  by (auto simp: rows_keyed_def save_refresh_token_def Let_def split: if_splits)

lemma rows_keyed_revoke: "rows_keyed t \<Longrightarrow> rows_keyed (snd (revoke_token_family f t))"
  by (auto simp: rows_keyed_def revoke_token_family_def get_fold_hm_remove split: option.splits if_splits)

lemma db_step_keyed: "db_step t t' \<Longrightarrow> rows_keyed t \<Longrightarrow> rows_keyed t'"
proof (induction rule: db_step.induct)
  case (db_issue q t)
  then show ?case by (intro rows_keyed_save)
next
  case (db_rotate t p q)
  then show ?case by (intro rows_keyed_save rows_keyed_mark)
next
  case (db_revoke t f)
  then show ?case by (intro rows_keyed_revoke)
qed (auto simp: rows_keyed_def store_defs split: option.splits if_splits)

section \<open>Configuration\<close>

definition same_config :: "Tables \<Rightarrow> Tables \<Rightarrow> bool" where
  "same_config t t' \<longleftrightarrow> realms t' = realms t \<and> realm_by_slug t' = realm_by_slug t \<and> users t' = users t \<and>
     users_by_username t' = users_by_username t \<and> users_by_email t' = users_by_email t \<and>
     password_hashes t' = password_hashes t \<and> clients t' = clients t \<and>
     clients_by_client_id t' = clients_by_client_id t \<and> client_secret_hashes t' = client_secret_hashes t \<and>
     auth_flows t' = auth_flows t \<and> IntegrationTables.more t' = IntegrationTables.more t \<and>
     GrantTables.more t' = GrantTables.more t"

lemma db_step_config: "db_step t t' \<Longrightarrow> same_config t t'"
  by (induction rule: db_step.induct) (simp_all add: same_config_def store_defs Let_def split: option.splits)

section \<open>Handlers as sequences of steps\<close>

text \<open>
  A handler serves a request when it turns the store by steps, given that the families of the store
  are consistent and the family it would open is new.
\<close>

definition serves :: "TokenFamilyId \<Rightarrow> AppState \<Rightarrow> AppState \<Rightarrow> bool" where
  "serves f st st' \<longleftrightarrow> (families_ok (AppState_storage st) \<longrightarrow> refresh_table.family_fresh f (AppState_storage st) \<longrightarrow>
     db_run (AppState_storage st) (AppState_storage st'))"

lemma serves_refl: "AppState_storage st' = AppState_storage st \<Longrightarrow> serves f st st'"
  by (simp add: serves_def)

lemma serves_step: "db_step (AppState_storage st) (AppState_storage st') \<Longrightarrow> serves f st st'"
  by (auto simp: serves_def)

lemma serves_after:
  assumes "db_step (AppState_storage st) (AppState_storage st1)"
    and "refresh_tokens (AppState_storage st1) = refresh_tokens (AppState_storage st)"
    and "families (AppState_storage st1) = families (AppState_storage st)" "serves f st1 st2"
  shows "serves f st st2"
  using assms families_ok_cong [OF assms(2,3)]
  by (auto simp: serves_def refresh_table.family_fresh_def intro: converse_rtranclp_into_rtranclp)

lemma serves_run:
  assumes "serves f st st'" "families_ok (AppState_storage st)" "refresh_table.family_fresh f (AppState_storage st)"
  shows "db_run (AppState_storage st) (AppState_storage st')"
  using assms by (simp add: serves_def)

lemma emit_system_storage [simp]: "AppState_storage (emit_system r a t d st) = AppState_storage st"
  by (simp add: emit_system_def)

lemma emit_user_storage [simp]: "AppState_storage (emit_user r u a t d st) = AppState_storage st"
  by (simp add: emit_user_def)

end
