(* ===== verification/Server_Token_Sound.thy ===== *)
theory Server_Token_Sound
  imports Server_Samples Server_Db
begin

text \<open>
  What the token endpoint has checked when it answers with tokens, and what a request does to the
  refresh tokens of the store.
\<close>

section \<open>What a client and a grant must show\<close>

definition secret_matches :: "'l HttpLib_scheme \<Rightarrow> AppState \<Rightarrow> RealmId \<Rightarrow> Client \<Rightarrow> string option \<Rightarrow> bool" where
  "secret_matches lib st realm_id client presented \<longleftrightarrow>
     (\<exists>secret stored. presented = Some secret \<and>
        map_of (client_secret_hashes (AppState_storage st)) (realm_id, Client_id client) = Some stored \<and>
        constant_time_eq lib stored (hex_encode lib (token_hash lib
          (realm_key lib (AppState_client_secret_hash_key st) realm_id ''client-secret'') secret)))"

text \<open>
  The client of the presented id, enabled, and either public without a secret or confidential with
  the secret whose keyed hash is stored.
\<close>

definition client_proven :: "'l HttpLib_scheme \<Rightarrow> AppState \<Rightarrow> RealmId \<Rightarrow> HeaderMap \<Rightarrow> params \<Rightarrow> Client \<Rightarrow> bool" where
  "client_proven lib st realm_id headers form client \<longleftrightarrow>
     (\<exists>i presented. presented_credentials lib headers form = Inr (i, presented) \<and>
        get_client_by_client_id realm_id i (AppState_storage st) = Inr client \<and> Client_enabled client \<and>
        (if Client_auth_method client = ClientAuthMethod_None then Client_kind client = ClientKind_Public
         else Client_auth_method client \<in> {ClientAuthMethod_ClientSecretBasic, ClientAuthMethod_ClientSecretPost} \<and>
           secret_matches lib st realm_id client presented))"

lemma authenticate_client_Inr:
  assumes "authenticate_client lib st realm_id headers form = Inr auth"
  shows "client_proven lib st realm_id headers form (AuthenticatedClient_client auth)"
proof -
  obtain i presented where p: "presented_credentials lib headers form = Inr (i, presented)"
    using assms by (cases "presented_credentials lib headers form") (auto simp: authenticate_client_def)
  obtain client where c: "get_client_by_client_id realm_id i (AppState_storage st) = Inr client"
    using assms p by (cases "get_client_by_client_id realm_id i (AppState_storage st)")
      (auto simp: authenticate_client_def)
  show ?thesis
    using assms p c
    by (cases "Client_auth_method client")
      (auto simp: authenticate_client_def client_proven_def secret_matches_def get_client_secret_hash_def Let_def
        split: if_splits option.splits sum.splits)
qed

fun grant_evidence ::
  "'l HttpLib_scheme \<Rightarrow> TokenDraw \<Rightarrow> GrantType \<Rightarrow> params \<Rightarrow> Client \<Rightarrow> Realm \<Rightarrow> AppState \<Rightarrow> bool" where
  "grant_evidence lib draw GrantType_AuthorizationCode form client realm st \<longleftrightarrow>
     (\<exists>c code uri grant. map_of form ''code'' = Some c \<and>
        map_of (codes (AppState_storage st)) (CodeId c) = Some code \<and>
        map_of form ''redirect_uri'' = Some uri \<and> url_parse lib uri = Inr (CodeGrant_redirect_uri code) \<and>
        AuthorizationCodeGrant_code_verifier grant = map_of form ''code_verifier'' \<and>
        code_acceptable lib (td_fresh draw) grant client code)"
| "grant_evidence lib draw GrantType_RefreshToken form client realm st \<longleftrightarrow>
     (\<exists>secret tok. map_of form ''refresh_token'' = Some secret \<and>
        map_of (refresh_tokens (AppState_storage st)) (token_id lib secret
          (realm_key lib (AppState_refresh_hash_key st) (Realm_id realm) ''refresh'')) = Some tok \<and>
        \<not> RefreshToken_used tok \<and> now_checked (td_fresh draw) \<le> RefreshToken_expires_at tok)"
| "grant_evidence lib draw GrantType_ClientCredentials form client realm st \<longleftrightarrow> True"
| "grant_evidence lib draw GrantType_Password form client realm st \<longleftrightarrow>
     (\<exists>name password user phc. map_of form ''username'' = Some name \<and> map_of form ''password'' = Some password \<and>
        get_user_by_username (Realm_id realm) name (AppState_storage st) = Inr user \<and> User_enabled user \<and>
        get_password_hash (Realm_id realm) (User_id user) (AppState_storage st) = Inr phc \<and>
        argon2_verify lib password phc = Inr True)"
| "grant_evidence lib draw GrantType_DeviceCode form client realm st \<longleftrightarrow>
     (\<exists>dc g. map_of form ''device_code'' = Some dc \<and>
        map_of (device_by_device_code (AppState_storage st)) dc = Some g \<and>
        DeviceGrant_status g = DeviceGrantStatus_Approved \<and> DeviceGrant_user_id g \<noteq> None \<and>
        DeviceGrant_realm_id g = Realm_id realm \<and> DeviceGrant_client_id g = Client_id client \<and>
        now_checked (td_fresh draw) \<le> DeviceGrant_expires_at g)"
| "grant_evidence lib draw GrantType_TokenExchange form client realm st \<longleftrightarrow>
     (\<exists>tok claims u. map_of form ''subject_token'' = Some tok \<and>
        verify_access_token lib (now_checked (td_fresh draw)) (AppState_kms st) (AppState_public_base_url st)
          realm tok = Inr claims \<and>
        parse_ulid lib (AccessTokenClaims_sub claims) = Inr u)"

lemma with_storage_InrD:
  assumes "with_storage f st = (Inr x, st')"
  shows "\<exists>t'. f (AppState_storage st) = (Inr x, t') \<and> st' = st\<lparr>AppState_storage := t'\<rparr>"
  using assms by (cases "f (AppState_storage st)") (auto simp: with_storage_eq)

lemma handle_auth_code_Inr:
  assumes "handle_auth_code lib draw form issuer client realm st = (Inr tokens, st')"
  shows "grant_evidence lib draw GrantType_AuthorizationCode form client realm st"
proof -
  obtain c uri u where f: "map_of form ''code'' = Some c" "map_of form ''redirect_uri'' = Some uri"
    "url_parse lib uri = Inr u"
    using assms by (auto simp: handle_auth_code_def oauth_def split: option.splits sum.splits)
  let ?g = "\<lparr>AuthorizationCodeGrant_code = CodeId c,
    AuthorizationCodeGrant_code_verifier = map_of form ''code_verifier'', AuthorizationCodeGrant_redirect_uri = u,
    AuthorizationCodeGrant_client_id = unwrap_or (map_of form ''client_id'') (Client_client_id client)\<rparr>"
  obtain t' where "AuthorizationCodeGrant_exchange lib (oidc_issuer lib (td_mint draw) (td_id_mint draw) issuer)
      (td_fresh draw) ?g client realm (AppState_storage st) = (Inr tokens, t')"
    using assms f by (auto simp: handle_auth_code_def dest: with_storage_InrD)
  then obtain code where code: "map_of (codes (AppState_storage st)) (CodeId c) = Some code"
    "code_acceptable lib (td_fresh draw) ?g client code"
    by (rule exchange_Inr) simp
  then have "u = CodeGrant_redirect_uri code" by (simp add: code_acceptable_def)
  with f code show ?thesis by (auto intro!: exI [of _ ?g])
qed

lemma handle_refresh_Inr:
  assumes "handle_refresh lib draw form issuer client realm st = (Inr tokens, st')"
  shows "grant_evidence lib draw GrantType_RefreshToken form client realm st"
proof -
  obtain secret where s: "map_of form ''refresh_token'' = Some secret"
    using assms by (cases "map_of form ''refresh_token''") (simp_all add: handle_refresh_def oauth_def)
  let ?v = "validate_refresh lib (now_checked (td_fresh draw)) secret
    (realm_key lib (AppState_refresh_hash_key st) (Realm_id realm) ''refresh'') (AppState_storage st)"
  obtain p t1 where v: "?v = (Inr (RefreshOutcome_Ok p), t1)"
  proof (cases ?v)
    case (Pair r t1)
    have "\<not> isl r"
      using assms s Pair by (cases r)
        (auto simp: handle_refresh_def with_storage_eq refresh_failure_def oauth_def Let_def
          split: RefreshRotateError.splits)
    then obtain p where "r = Inr (RefreshOutcome_Ok p)"
      by (cases r) (auto intro: RefreshOutcome.exhaust)
    with Pair that show ?thesis by simp
  qed
  from validate_refresh_OkD(2,3,4) [OF v] s show ?thesis by auto
qed

lemma handle_password_Inr:
  assumes "handle_password lib draw form issuer client realm st = (Inr tokens, st')"
  shows "grant_evidence lib draw GrantType_Password form client realm st"
  using assms by (auto simp: handle_password_def verify_password_def Let_def split: option.splits sum.splits if_splits)

lemma handle_device_code_Inr:
  assumes "handle_device_code lib draw form issuer client realm st = (Inr tokens, st')"
  shows "grant_evidence lib draw GrantType_DeviceCode form client realm st"
  using assms
  by (auto simp: handle_device_code_def get_device_grant_by_device_code_def Let_def
      split: option.splits if_splits sum.splits DeviceGrantStatus.splits)

lemma handle_token_exchange_Inr:
  assumes "handle_token_exchange lib draw form issuer client realm st = (Inr tokens, st')"
  shows "grant_evidence lib draw GrantType_TokenExchange form client realm st"
  using assms
  by (auto simp: handle_token_exchange_def Let_def split: option.splits if_splits sum.splits)

lemma map_prod_Inr:
  assumes "map_prod (map_sum f id) id r = (Inr x, s)"
  shows "r = (Inr x, s)"
  using assms by (cases r; cases "fst r") auto

lemma dispatch_grant_Inr:
  assumes "dispatch_grant lib draw grant form issuer client realm st = (Inr tokens, st')"
  shows "grant_evidence lib draw grant form client realm st"
  using assms
  by (cases grant)
    (auto simp only: dispatch_grant_def GrantType.case grant_evidence.simps(3)
      dest!: map_prod_Inr dest: handle_auth_code_Inr handle_refresh_Inr handle_password_Inr
        handle_device_code_Inr handle_token_exchange_Inr)

lemma token_tokensE:
  assumes "token lib draw slug headers form st = (Response 200 (Body_Tokens body), st')"
  obtains realm grant auth tokens st1 where
    "get_realm_by_slug slug (AppState_storage st) = Inr realm"
    "map_of form ''grant_type'' = Some (GrantType_as_token_param grant)"
    "authenticate_client lib st (Realm_id realm) headers form = Inr auth"
    "grant_enabled (Client_grants (AuthenticatedClient_client auth)) grant"
    "dispatch_grant lib draw grant form (build_issuer st) (AuthenticatedClient_client auth) realm st = (Inr tokens, st1)"
    "token_success realm (AuthenticatedClient_client auth) grant tokens st1 = (Response 200 (Body_Tokens body), st')"
proof -
  obtain realm g grant auth where r: "get_realm_by_slug slug (AppState_storage st) = Inr realm"
    "map_of form ''grant_type'' = Some g" "GrantType_parse g = Some grant"
    "authenticate_client lib st (Realm_id realm) headers form = Inr auth"
    using assms by (auto simp: token_def oauth_error_response_def split: sum.splits option.splits)
  have e: "grant_enabled (Client_grants (AuthenticatedClient_client auth)) grant"
    using assms r by (auto simp: token_def oauth_error_response_def assert_grant_permitted_def Let_def split: if_splits)
  obtain res st1 where d:
    "dispatch_grant lib draw grant form (build_issuer st) (AuthenticatedClient_client auth) realm st = (res, st1)"
    by fastforce
  then obtain tokens where "res = Inr tokens"
    using assms r e by (cases res)
      (auto simp: token_def assert_grant_permitted_def token_failure_def oauth_error_response_def Let_def)
  with assms r e d that GrantType_parse_Some [OF r(3)] show ?thesis
    by (auto simp: token_def assert_grant_permitted_def Let_def)
qed

section \<open>Properties\<close>

text \<open>
  C1: The token endpoint hands out tokens only on evidence. A 200 answer with tokens means that the
  realm exists, the client it names in that realm is enabled and proved itself (by the secret whose
  keyed hash is stored, or it is a public client), the client may use the grant, and the grant's own
  evidence held in the store at that moment: a stored unexpired code with its redirect URI and PKCE
  verifier, a stored unused unexpired refresh token, the right password of an enabled user, an
  approved device grant of this client and realm, or a valid access token of a local user. The
  issue is recorded as the last audit event.
\<close>

theorem token_requires_evidence:
  assumes "token lib draw slug headers form st = (Response 200 (Body_Tokens body), st')"
  shows "\<exists>realm grant client. get_realm_by_slug slug (AppState_storage st) = Inr realm \<and>
    map_of form ''grant_type'' = Some (GrantType_as_token_param grant) \<and>
    client_proven lib st (Realm_id realm) headers form client \<and>
    grant_enabled (Client_grants client) grant \<and>
    grant_evidence lib draw grant form client realm st \<and>
    AppState_audit st' \<noteq> [] \<and> AuditEvent_action (last (AppState_audit st')) = TOKEN_ISSUED"
proof -
  obtain realm grant auth tokens st1 where t:
    "get_realm_by_slug slug (AppState_storage st) = Inr realm"
    "map_of form ''grant_type'' = Some (GrantType_as_token_param grant)"
    "authenticate_client lib st (Realm_id realm) headers form = Inr auth"
    "grant_enabled (Client_grants (AuthenticatedClient_client auth)) grant"
    "dispatch_grant lib draw grant form (build_issuer st) (AuthenticatedClient_client auth) realm st = (Inr tokens, st1)"
    "token_success realm (AuthenticatedClient_client auth) grant tokens st1 = (Response 200 (Body_Tokens body), st')"
    by (rule token_tokensE [OF assms])
  have "AppState_audit st' \<noteq> [] \<and> AuditEvent_action (last (AppState_audit st')) = TOKEN_ISSUED"
    using t(6) by (auto simp: token_success_def emit_system_def emit_def split: prod.splits)
  with t authenticate_client_Inr [OF t(3)] dispatch_grant_Inr [OF t(5)] show ?thesis by blast
qed

text \<open>The witness logs the sample user in with the password grant.\<close>

abbreviation sample_password_form :: params where
  "sample_password_form \<equiv> [(''client_id'', ''app''), (''client_secret'', ''sec''), (''grant_type'', ''password''),
     (''password'', ''pw''), (''scope'', ''email''), (''username'', ''padme'')]"

lemma sample_issue:
  assumes "OidcIssuer_kms issuer = sample_kms"
  shows "\<exists>tokens st'. issue_user_tokens sample_http_lib draw issuer sample_client sample_realm user scope st = (Inr tokens, st')"
proof -
  obtain a e i where "mint_pair sample_http_lib draw issuer sample_client sample_realm user
      (fresh_session (td_fresh draw)) scope = Inr (a, e, i)"
    using sample_mint_pair [OF assms] by blast
  then show ?thesis
    by (simp add: issue_user_tokens_def with_storage_eq Let_def create_session_def save_refresh_token_def)
qed

lemma sample_email_scope: "parse_scope_string ''email'' = Inr [ScopeName ''email'']"
  by (simp add: parse_scope_string_def split_ascii_whitespace_def is_ascii_whitespace_def ScopeName_new_def scope_char_def
      is_ascii_alphanumeric_def)

lemma sample_password_dispatch:
  "\<exists>tokens st'. dispatch_grant sample_http_lib sample_token_draw GrantType_Password sample_password_form
     (build_issuer sample_app) sample_client sample_realm sample_app = (Inr tokens, st')"
proof -
  have u: "get_user_by_username (RealmId 1) ''padme'' (AppState_storage sample_app) = Inr sample_user"
    "get_password_hash (RealmId 1) (UserId 1) (AppState_storage sample_app) = Inr ''pw''"
    by (simp_all add: get_user_by_username_def get_password_hash_def sample_app_def sample_tables_simps)
  have e: "User_enabled sample_user" "User_id sample_user = UserId 1"
    by (simp_all add: sample_user_def User_default_def)
  have p: "verify_password sample_http_lib ''pw'' ''pw'' = Inr True"
    by (simp add: verify_password_def sample_http_simps)
  show ?thesis
    using sample_issue [OF sample_build_issuer, of sample_token_draw "UserId 1" "[ScopeName ''email'']" sample_app]
    by (simp add: dispatch_grant_def handle_password_def sample_email_scope sample_realm_id u e p Let_def del: One_nat_def)
qed

lemma sample_password_token:
  "\<exists>body st'. token sample_http_lib sample_token_draw ''t'' no_headers sample_password_form sample_app =
     (Response 200 (Body_Tokens body), st')"
proof -
  obtain tokens st' where d: "dispatch_grant sample_http_lib sample_token_draw GrantType_Password sample_password_form
     (build_issuer sample_app) sample_client sample_realm sample_app = (Inr tokens, st')"
    using sample_password_dispatch by blast
  have g: "GrantType_parse ''password'' = Some GrantType_Password"
    by (simp add: GrantType_parse_def)
  have "assert_grant_permitted sample_client GrantType_Password = Inr ()"
    by (simp add: assert_grant_permitted_def sample_client_def)
  with d g sample_authenticated [of sample_password_form] show ?thesis
    by (simp add: token_def sample_realm_lookup sample_realm_id token_success_def del: One_nat_def)
qed

theorem token_requires_evidence_witness:
  "\<exists>body st'. token sample_http_lib sample_token_draw ''t'' no_headers sample_password_form sample_app =
     (Response 200 (Body_Tokens body), st') \<and> AuditEvent_action (last (AppState_audit st')) = TOKEN_ISSUED"
proof -
  obtain body st' where t: "token sample_http_lib sample_token_draw ''t'' no_headers sample_password_form sample_app =
     (Response 200 (Body_Tokens body), st')"
    using sample_password_token by blast
  from token_requires_evidence [OF t] t show ?thesis by blast
qed

section \<open>A request as a sequence of store steps\<close>

lemma serves_issue:
  "serves (fresh_family (td_fresh draw)) st (snd (issue_user_tokens lib draw issuer client realm user scope st))"
proof -
  define st1 where "st1 = count MetricsState_session_created_update [Realm_slug realm]
    (st\<lparr>AppState_storage := snd (create_session (fresh_grant_session draw realm user) (AppState_storage st))\<rparr>)"
  let ?q = "user_refresh_token lib draw st1 client realm user scope"
  let ?st2 = "st1\<lparr>AppState_storage := snd (save_refresh_token ?q (AppState_storage st1))\<rparr>"
  have first: "db_step (AppState_storage st) (AppState_storage st1)"
    by (simp add: st1_def db_create_session)
  have "RefreshToken_family_id ?q = fresh_family (td_fresh draw)"
    by (simp add: user_refresh_token_def Let_def)
  then have "serves (fresh_family (td_fresh draw)) st1 ?st2"
    using db_issue [of ?q "AppState_storage st1"] by (auto simp: serves_def)
  then have two: "serves (fresh_family (td_fresh draw)) st ?st2"
    by (rule serves_after [OF first, rotated 2]) (simp_all add: st1_def refresh_untouched)
  have "snd (issue_user_tokens lib draw issuer client realm user scope st) \<in> {st1, ?st2}"
    by (cases "mint_pair lib draw issuer client realm user (fresh_session (td_fresh draw)) scope")
      (auto simp: issue_user_tokens_def with_storage_eq Let_def create_session_def save_refresh_token_def st1_def)
  with two serves_step [OF first] show ?thesis by auto
qed

lemma exchange_runs:
  assumes "refresh_table.family_fresh (fresh_family fresh) t"
  shows "db_run t (snd (AuthorizationCodeGrant_exchange lib iss fresh self client realm t))"
proof -
  let ?t = "t\<lparr>codes := hm_remove (AuthorizationCodeGrant_code self) (codes t)\<rparr>"
  have c: "db_step t ?t"
    using db_consume_code [of t "AuthorizationCodeGrant_code self"] by (simp add: consume_code_def)
  have "refresh_table.family_fresh (fresh_family fresh) ?t"
    using assms by (simp add: refresh_table.family_fresh_def)
  then have i: "db_step ?t (snd (save_refresh_token (code_refresh_token lib iss fresh client realm code) ?t))" for code
    by (intro db_issue) (simp add: code_refresh_token_def)
  have "snd (mint_code_tokens lib iss fresh client realm code ?t) \<in>
      {?t, snd (save_refresh_token (code_refresh_token lib iss fresh client realm code) ?t)}" for code
    unfolding mint_code_tokens_eq by (auto split: sum.split prod.split)
  then have "db_run t (snd (mint_code_tokens lib iss fresh client realm code ?t))" for code
    using r_into_rtranclp [where r = db_step, OF c]
      rtranclp.rtrancl_into_rtrancl [OF r_into_rtranclp [where r = db_step, OF c] i [of code]]
    by (metis insertE singletonD)
  then show ?thesis
    using c by (auto simp: exchange_eq Let_def split: option.split sum.split)
qed

lemma serves_code:
  "serves (fresh_family (td_fresh draw)) st (snd (handle_auth_code lib draw form issuer client realm st))"
  by (auto simp: handle_auth_code_def serves_def with_storage_eq exchange_runs split: option.split sum.split)

lemma refresh_failure_storage [simp]: "AppState_storage (snd (refresh_failure client realm e st)) = AppState_storage st"
  by (simp add: refresh_failure_def split: RefreshRotateError.split)

lemma validate_runs: "db_run t (snd (validate_refresh lib now secret key t))"
  by (auto simp: validate_refresh_eq db_revoke split: option.split)

lemma serves_refresh: "serves f st (snd (handle_refresh lib draw form issuer client realm st))"
proof (cases "map_of form ''refresh_token''")
  case (Some secret)
  let ?key = "realm_key lib (AppState_refresh_hash_key st) (Realm_id realm) ''refresh''"
  obtain r t1 where v: "validate_refresh lib (now_checked (td_fresh draw)) secret ?key (AppState_storage st) = (r, t1)"
    by fastforce
  have t1: "db_run (AppState_storage st) t1"
    using validate_runs [of "AppState_storage st"] v by (metis snd_conv)
  show ?thesis
  proof (cases r)
    case (Inl e)
    with v Some t1 show ?thesis by (simp add: handle_refresh_def with_storage_eq serves_def Let_def)
  next
    case (Inr b)
    then obtain p where "r = Inr (RefreshOutcome_Ok p)" by (cases b) simp
    with v have v: "validate_refresh lib (now_checked (td_fresh draw)) secret ?key (AppState_storage st) =
      (Inr (RefreshOutcome_Ok p), t1)" by simp
    note ok = validate_refresh_OkD [OF v]
    have rot: "db_run (AppState_storage st) (snd (rotate_refresh_token p (rotated_token lib draw ?key realm p) t1))"
      if "families_ok (AppState_storage st)"
    proof -
      from that have "RefreshToken_id p = token_id lib secret ?key"
        using ok(2) by (auto simp: families_ok_def)
      with ok have p: "map_of (refresh_tokens (AppState_storage st)) (RefreshToken_id p) = Some p" by simp
      show ?thesis
        unfolding ok(1) rotate_eq [OF p] snd_conv
        by (rule r_into_rtranclp, rule db_rotate [OF p ok(4)]) (simp add: rotated_token_def)
    qed
    show ?thesis
      using v Some t1 rot
      by (cases "mint_pair lib draw issuer client realm (RefreshToken_user_id p) (RefreshToken_session_id p) (RefreshToken_scope p)")
        (auto simp: handle_refresh_def with_storage_eq serves_def Let_def split: prod.split sum.split)
  qed
qed (simp add: handle_refresh_def serves_refl)

lemma serves_device:
  "serves (fresh_family (td_fresh draw)) st (snd (handle_device_code lib draw form issuer client realm st))"
proof -
  have d: "serves f st (st\<lparr>AppState_storage := snd (delete_device_grant c (AppState_storage st))\<rparr>)"
    "serves f st (st\<lparr>AppState_storage := snd (update_device_grant g (AppState_storage st))\<rparr>)" "serves f st st"
    for f c g
    by (simp_all add: serves_step serves_refl db_delete_device db_update_device)
  have i: "serves (fresh_family (td_fresh draw)) st (snd (issue_user_tokens lib draw issuer client realm user scope
      (st\<lparr>AppState_storage := snd (delete_device_grant c (AppState_storage st))\<rparr>)))" for user scope c
    by (rule serves_after [OF _ _ _ serves_issue]) (simp_all add: refresh_untouched db_delete_device)
  show ?thesis
    by (auto simp: handle_device_code_def with_storage_eq Let_def d i
        split: option.split sum.split DeviceGrantStatus.split)
qed

lemma serves_exchange: "serves f st (snd (handle_token_exchange lib draw form issuer client realm st))"
proof -
  have s: "serves f st (st\<lparr>AppState_storage := snd (create_session s (AppState_storage st))\<rparr>)" "serves f st st" for s
    by (simp_all add: serves_step serves_refl db_create_session)
  have c: "fst (create_session x t) = Inr ()" for x and t :: Tables
    by (simp add: create_session_def)
  show ?thesis
    by (auto simp: handle_token_exchange_def Let_def with_storage_eq c s split: option.split sum.split prod.split)
qed

lemma serves_password:
  "serves (fresh_family (td_fresh draw)) st (snd (handle_password lib draw form issuer client realm st))"
  by (auto simp: handle_password_def Let_def serves_issue serves_refl split: option.split sum.split)

lemma serves_dispatch:
  "serves (fresh_family (td_fresh draw)) st (snd (dispatch_grant lib draw grant form issuer client realm st))"
  by (cases grant)
    (simp_all add: dispatch_grant_def serves_code serves_refresh serves_refl serves_password
      serves_device serves_exchange snd_map_prod)

lemma token_end_storage [simp]:
  "AppState_storage (snd (token_success realm client grant x st)) = AppState_storage st"
  "AppState_storage (snd (token_failure realm client grant e st)) = AppState_storage st"
  by (simp_all add: token_success_def token_failure_def Let_def)

lemma serves_token: "serves (fresh_family (td_fresh draw)) st (snd (token lib draw slug headers form st))"
proof -
  have "serves (fresh_family (td_fresh draw)) st
      (snd (case dispatch_grant lib draw grant form issuer client realm st of
         (Inr tokens, st) \<Rightarrow> token_success realm client grant tokens st
       | (Inl e, st) \<Rightarrow> token_failure realm client grant e st))" for grant issuer client realm
  proof -
    obtain r st1 where d: "dispatch_grant lib draw grant form issuer client realm st = (r, st1)" by fastforce
    have "serves (fresh_family (td_fresh draw)) st st1"
      using serves_dispatch [of draw st lib grant form issuer client realm] d by simp
    then show ?thesis using d by (cases r) (simp_all add: serves_def)
  qed
  then show ?thesis
    by (auto simp: token_def Let_def serves_refl split: sum.split option.split)
qed

end
