(* ===== verification/Server_System.thy ===== *)
theory Server_System
  imports Server_Token_Sound Server_Authorize_Sound
begin

text \<open>
  The protocol server as a transition system: one step is one request to one of its endpoints, with
  arbitrary parameters, headers, clock readings and draws, of which only a new token family is
  assumed to be new. Requests are served one at a time. The invariants are those of the store steps
  that every handler is made of.
\<close>

section \<open>The other handlers as sequences of store steps\<close>

lemma serves_revoke: "serves f st (snd (revoke lib slug headers form st))"
  by (auto simp: revoke_def with_storage_eq Let_def serves_step serves_refl db_revoke split: sum.split option.split)

lemma serves_introspect: "serves f st (snd (introspect lib now slug headers form st))"
  by (auto simp: introspect_def Let_def serves_refl split: sum.split option.split)

lemma serves_par: "serves f st (snd (par lib draw slug headers form st))"
proof -
  have ok: "fst (save_par_request row t) = Inr ()" for row and t :: Tables
    by (simp add: save_par_request_def)
  show ?thesis
    by (auto simp: par_def with_storage_eq Let_def ok serves_step serves_refl db_save_par split: sum.split)
qed

lemma serves_device_authorize: "serves f st (snd (device_authorize lib draw slug headers form st))"
proof -
  have ok: "fst (save_device_grant g t) = Inr ()" for g and t :: Tables
    by (simp add: save_device_grant_def)
  show ?thesis
    by (auto simp: device_authorize_def with_storage_eq Let_def ok serves_step serves_refl db_save_device split: sum.split)
qed

lemma end_session_storage: "AppState_storage (end_session realm reason sid st) = snd (delete_session (SessionId sid) (AppState_storage st))"
  by (simp add: end_session_def with_storage_eq)

lemma serves_logout_get: "serves f st (snd (logout_get lib slug q st))"
  by (auto simp: logout_get_def Let_def serves_step serves_refl end_session_storage db_delete_session split: sum.split option.split)

lemma refresh_hints_runs: "db_run (AppState_storage st) (AppState_storage (snd (refresh_hints lib realm form st)))"
  by (auto simp: refresh_hints_def with_storage_eq Let_def db_revoke split: option.split sum.split)

lemma serves_logout_post: "serves f st (fst (snd (logout_post lib slug form st)))"
proof (cases "get_realm_by_slug slug (AppState_storage st)")
  case (Inr realm)
  obtain sub cl st1 where rh: "refresh_hints lib realm form st = ((sub, cl), st1)"
    by (metis surj_pair)
  let ?t = "AppState_storage (fst (snd (logout_post lib slug form st)))"
  have "?t = AppState_storage st1 \<or> (\<exists>sid. ?t = snd (delete_session sid (AppState_storage st1)))"
  proof (cases "map_of form ''id_token_hint''")
    case None
    then show ?thesis using Inr rh by (simp add: logout_post_def Let_def split: option.split sum.split)
  next
    case (Some hint)
    then show ?thesis
      using Inr rh by (cases "IdTokenHintParts_sid (id_token_hint_parts_unsafe lib hint)")
        (auto simp: logout_post_def Let_def end_session_storage split: option.split sum.split)
  qed
  then have "db_run (AppState_storage st1) ?t" using db_delete_session by auto
  then have "db_run (AppState_storage st) ?t"
    using refresh_hints_runs [of st lib realm form] rh by (metis rtranclp_trans snd_conv)
  then show ?thesis by (simp add: serves_def)
qed (simp add: logout_post_def serves_refl)

lemma participation_runs:
  "db_step (AppState_storage st) (AppState_storage (update_session_participation draw session client st))"
  by (auto simp: update_session_participation_def with_storage_eq Let_def db_update_session)

lemma shortcircuit_runs: "db_run (AppState_storage st) (AppState_storage (snd (shortcircuit lib draw realm client session params st)))"
proof -
  let ?st = "update_session_participation draw session client st"
  have "AppState_storage (snd (shortcircuit lib draw realm client session params st)) = AppState_storage ?st \<or>
      (\<exists>g. AppState_storage (snd (shortcircuit lib draw realm client session params st)) = snd (save_code_grant g (AppState_storage ?st)))"
    by (auto simp: shortcircuit_def with_storage_eq save_code_grant_def Let_def split: option.split)
  with participation_runs [of st draw session client] db_save_code show ?thesis
    by (metis r_into_rtranclp rtranclp.rtrancl_into_rtrancl)
qed

lemma start_flow_runs: "db_step (AppState_storage st) (AppState_storage (snd (start_flow lib draw realm client req params ses st)))"
proof -
  have ok: "fst (save_flow_state row t) = Inr ()" for row and t :: Tables
    by (simp add: save_flow_state_def)
  show ?thesis
    by (auto simp: start_flow_def with_storage_eq Let_def ok db_save_flow split: prod.split)
qed

lemma authorize_params_runs: "db_run (AppState_storage st) (AppState_storage (snd (authorize_params lib draw realm headers params st)))"
  by (auto simp: authorize_params_def Let_def shortcircuit_runs start_flow_runs
      split: sum.split option.split PromptDecision.split)

lemma resolve_par_runs: "db_run (AppState_storage st) (AppState_storage (snd (resolve_par lib draw realm headers params st)))"
proof (cases "map_of params ''request_uri''")
  case (Some r)
  let ?st = "st\<lparr>AppState_storage := snd (consume_par_request r (AppState_storage st))\<rparr>"
  have c: "db_step (AppState_storage st) (AppState_storage ?st)" by (simp add: db_consume_par)
  have "AppState_storage (snd (resolve_par lib draw realm headers params st)) = AppState_storage ?st \<or>
      (\<exists>ps. snd (resolve_par lib draw realm headers params st) = snd (authorize_params lib draw realm headers ps ?st))"
    using Some by (auto simp: resolve_par_def with_storage_eq split: sum.split)
  with c authorize_params_runs [of ?st lib draw realm headers] show ?thesis
    by (metis converse_rtranclp_into_rtranclp rtranclp.rtrancl_refl)
qed (simp add: resolve_par_def authorize_params_runs)

lemma serves_authorize: "serves f st (snd (handle_authorize lib draw slug params headers st))"
proof -
  have r: "serves f st (snd (resolve_par lib draw realm headers ps (count m l st)))" for realm ps m l
    using resolve_par_runs [of "count m l st" lib draw realm headers ps] by (simp add: serves_def)
  show ?thesis
    by (auto simp: handle_authorize_def Let_def serves_refl r split: sum.split option.split)
qed

section \<open>The system\<close>

inductive server_step :: "'l HttpLib_scheme \<Rightarrow> AppState \<Rightarrow> AppState \<Rightarrow> bool" for lib where
  step_token: "refresh_table.family_fresh (fresh_family (td_fresh draw)) (AppState_storage st) \<Longrightarrow>
    server_step lib st (snd (token lib draw slug headers form st))"
| step_revoke: "server_step lib st (snd (revoke lib slug headers form st))"
| step_introspect: "server_step lib st (snd (introspect lib now slug headers form st))"
| step_par: "server_step lib st (snd (par lib par_draw slug headers form st))"
| step_device: "server_step lib st (snd (device_authorize lib dev_draw slug headers form st))"
| step_logout_get: "server_step lib st (snd (logout_get lib slug q st))"
| step_logout_post: "server_step lib st (fst (snd (logout_post lib slug form st)))"
| step_authorize: "server_step lib st (snd (handle_authorize lib az_draw slug params headers st))"
| step_drain: "server_step lib st (snd (drain st))"

inductive_cases server_stepE: "server_step lib st st'"

abbreviation server_run :: "'l HttpLib_scheme \<Rightarrow> AppState \<Rightarrow> AppState \<Rightarrow> bool" where
  "server_run lib \<equiv> (server_step lib)\<^sup>*\<^sup>*"

lemma server_step_db:
  assumes "server_step lib st st'" "families_ok (AppState_storage st)"
  shows "db_run (AppState_storage st) (AppState_storage st')"
proof -
  have free: "\<exists>f. refresh_table.family_fresh f (AppState_storage st)"
  proof -
    let ?used = "RefreshToken_family_id ` snd ` set (refresh_tokens (AppState_storage st))"
    have "infinite (range TokenFamilyId)" using finite_imageD [of TokenFamilyId UNIV] by (auto simp: inj_def)
    then have "infinite (UNIV :: TokenFamilyId set)" by (rule infinite_super [OF subset_UNIV])
    then obtain f where "f \<notin> ?used" using ex_new_if_finite [of ?used] by auto
    then have "refresh_table.family_fresh f (AppState_storage st)"
      unfolding refresh_table.family_fresh_def by (metis image_eqI map_of_SomeD snd_conv)
    then show ?thesis ..
  qed
  have run: "(\<And>f. serves f st st') \<Longrightarrow> ?thesis"
    using free assms(2) serves_run by blast
  from assms(1) show ?thesis
  proof cases
    case step_token
    then show ?thesis using serves_run [OF serves_token assms(2)] by blast
  next
    case step_drain
    then show ?thesis by (simp add: drain_def)
  qed (rule run; simp only: serves_revoke serves_introspect serves_par serves_device_authorize serves_logout_get
      serves_logout_post serves_authorize)+
qed

lemma server_run_db:
  assumes "server_run lib st st'" "refresh_table.one_live (AppState_storage st)"
  shows "db_run (AppState_storage st) (AppState_storage st') \<and> refresh_table.one_live (AppState_storage st')"
  using assms
proof (induction rule: rtranclp_induct)
  case (step st1 st2)
  then have "db_run (AppState_storage st1) (AppState_storage st2)"
    by (intro server_step_db) (auto simp: refresh_table.one_live_def)
  moreover from this have "refresh_table.one_live (AppState_storage st2)"
    using db_run_invariant [of _ _ refresh_table.one_live] step db_step_one_live by blast
  ultimately show ?case using step by auto
qed simp

lemma no_tokens_one_live: "refresh_tokens t = [] \<Longrightarrow> refresh_table.one_live t"
  by (simp add: refresh_table.one_live_def families_ok_def)

section \<open>Properties\<close>

text \<open>
  C5: At most one live refresh token per family, over every history of the server. Whatever requests
  are made to whatever endpoints of a server that starts without refresh tokens, served one at a
  time, two unused refresh tokens of the same family are the same token, and every stored token is
  registered under its family, so that burning the family removes it.
\<close>

theorem server_one_live_token:
  assumes "server_run lib st st'" and "refresh_tokens (AppState_storage st) = []"
  shows "(\<forall>i j a b. map_of (refresh_tokens (AppState_storage st')) i = Some a \<and>
      map_of (refresh_tokens (AppState_storage st')) j = Some b \<and>
      \<not> RefreshToken_used a \<and> \<not> RefreshToken_used b \<and> RefreshToken_family_id a = RefreshToken_family_id b \<longrightarrow> i = j) \<and>
    (\<forall>i a. map_of (refresh_tokens (AppState_storage st')) i = Some a \<longrightarrow>
      (\<exists>ids. map_of (families (AppState_storage st')) (RefreshToken_family_id a) = Some ids \<and> i \<in> set ids))"
proof -
  have "refresh_table.one_live (AppState_storage st')"
    using server_run_db [OF assms(1) no_tokens_one_live [OF assms(2)]] by blast
  then show ?thesis
    unfolding refresh_table.one_live_def families_ok_def by blast
qed

text \<open>The witness follows one request, the password login of the sample user.\<close>

abbreviation sample_after_login :: AppState where
  "sample_after_login \<equiv> snd (token sample_http_lib sample_token_draw ''t'' no_headers sample_password_form sample_app)"

lemma sample_login_run: "server_run sample_http_lib sample_app sample_after_login"
proof -
  have "refresh_table.family_fresh (fresh_family (td_fresh sample_token_draw)) (AppState_storage sample_app)"
    by (simp add: refresh_table.family_fresh_def sample_app_def sample_tables_simps)
  then show ?thesis by (intro r_into_rtranclp step_token)
qed

lemma sample_no_tokens: "refresh_tokens (AppState_storage sample_app) = []"
  by (simp add: sample_app_def sample_tables_simps)

theorem server_one_live_token_witness:
  "card {i. \<exists>a. map_of (refresh_tokens (AppState_storage sample_after_login)) i = Some a \<and>
      \<not> RefreshToken_used a \<and> RefreshToken_family_id a = fresh_family (td_fresh sample_token_draw)} \<le> 1"
  (is "card ?live \<le> 1")
proof -
  have "finite ?live"
    by (rule finite_subset [OF _ finite_dom_map_of [of "refresh_tokens (AppState_storage sample_after_login)"]]) auto
  moreover have "i = j" if "i \<in> ?live" "j \<in> ?live" for i j
    using that server_one_live_token [OF sample_login_run sample_no_tokens] by fastforce
  ultimately show ?thesis by (simp add: card_le_Suc0_iff_eq)
qed

end
