(* ===== verification/Admin_System.thy ===== *)
theory Admin_System
  imports Admin_Store Server_System
begin

text \<open>
  The administration as a transition system, and the whole service: protocol requests and
  administration requests on one store, one at a time, in any order. An invariant of the store steps
  (\<open>conf_step\<close>) is an invariant of every history; the locale below states that once.
\<close>

section \<open>Administration requests\<close>

text \<open>
  One step is one request with arbitrary parameters, clock readings and draws, of which only the
  identifiers of new realms, users, clients and invitations are assumed to be new. Endpoints that
  only read are left out: they return the state they are given.
\<close>

inductive admin_step :: "'l AdminLib_scheme \<Rightarrow> AdminState \<Rightarrow> AdminState \<Rightarrow> bool" for lib where
  ad_gate: "admin_step lib st (snd (require_admin lib now headers st))"
| ad_login: "admin_step lib st (snd (login_submit lib now sid name password st))"
| ad_logout: "admin_step lib st (snd (admin_logout headers st))"
| ad_realm_create: "fresh_realm (rd_id draw) (AdminState_storage st) \<Longrightarrow> admin_step lib st (snd (realms_create lib draw r_req st))"
| ad_realm_update: "admin_step lib st (snd (api_realms_update now slug realm st))"
| ad_realm_delete: "admin_step lib st (snd (realms_delete slug st))"
| ad_client_create: "fresh_client ci (AdminState_storage st) \<Longrightarrow>
    admin_step lib st (snd (clients_create lib now ci secret slug c_req st))"
| ad_client_update: "admin_step lib st (snd (api_clients_update now slug name client st))"
| ad_client_delete: "admin_step lib st (snd (clients_delete slug name st))"
| ad_user_create: "fresh_user ui (AdminState_storage st) \<Longrightarrow> admin_step lib st (snd (users_create now ui now' slug u_req st))"
| ad_user_update: "admin_step lib st (snd (api_users_update now now' slug name user st))"
| ad_user_delete: "admin_step lib st (snd (users_delete slug name st))"
| ad_user_verify: "admin_step lib st (snd (users_verify_email now slug name st))"
| ad_user_password: "admin_step lib st (snd (users_set_password lib salt slug name password st))"
| ad_profile: "admin_step lib st (snd (profile_put_schema now slug profile st))"
| ad_session_revoke: "admin_step lib st (snd (sessions_revoke slug session st))"
| ad_role_create: "admin_step lib st (snd (roles_create now ri slug ro_req st))"
| ad_role_update: "admin_step lib st (snd (api_roles_update now slug name role st))"
| ad_role_delete: "admin_step lib st (snd (roles_delete slug name st))"
| ad_role_assign: "admin_step lib st (snd (roles_assign_user lib slug ui ri st))"
| ad_role_unassign: "admin_step lib st (snd (roles_unassign_user lib slug ui ri st))"
| ad_group_create: "admin_step lib st (snd (groups_create now gi slug g_req st))"
| ad_group_update: "admin_step lib st (snd (api_groups_update now slug gi grp st))"
| ad_group_delete: "admin_step lib st (snd (groups_delete slug gi st))"
| ad_group_assign: "admin_step lib st (snd (groups_assign_user slug ui gi st))"
| ad_group_unassign: "admin_step lib st (snd (groups_unassign_user slug ui gi st))"
| ad_group_role: "admin_step lib st (snd (groups_assign_role slug gi ri st))"
| ad_group_unrole: "admin_step lib st (snd (groups_unassign_role slug gi ri st))"
| ad_agent_create: "admin_step lib st (snd (agents_create lib now ai slug a_req st))"
| ad_agent_update: "admin_step lib st (snd (api_agents_update lib slug name agent st))"
| ad_agent_revoke: "admin_step lib st (snd (agents_revoke lib now slug name st))"
| ad_idp_create: "admin_step lib st (snd (idps_create ii slug i_req st))"
| ad_idp_update: "admin_step lib st (snd (api_idps_update slug name idp st))"
| ad_idp_delete: "admin_step lib st (snd (idps_delete slug name st))"
| ad_org_create: "admin_step lib st (snd (orgs_create now oi slug o_req st))"
| ad_org_update: "admin_step lib st (snd (orgs_update now slug name org st))"
| ad_org_delete: "admin_step lib st (snd (orgs_delete slug name st))"
| ad_domain_add: "admin_step lib st (snd (orgs_add_domain tok di slug name domain st))"
| ad_domain_remove: "admin_step lib st (snd (orgs_remove_domain slug name domain st))"
| ad_domain_verify: "admin_step lib st (snd (orgs_mark_domain_verified now slug name domain st))"
| ad_member_add: "admin_step lib st (snd (orgs_add_member now slug name ui org_roles' st))"
| ad_member_remove: "admin_step lib st (snd (orgs_remove_member slug name ui st))"
| ad_invite: "fresh_invitation vi (AdminState_storage st) \<Longrightarrow>
    admin_step lib st (snd (orgs_create_invitation now vi tok slug name v_req st))"
| ad_accept: "admin_step lib st (snd (orgs_accept_invitation now now' tok st))"
| ad_org_role_create: "admin_step lib st (snd (orgs_create_role ori slug name or_req st))"
| ad_org_role_update: "admin_step lib st (snd (orgs_update_role slug ori org_role st))"
| ad_org_role_delete: "admin_step lib st (snd (orgs_delete_role slug ori st))"
| ad_consent_set: "admin_step lib st (snd (orgs_upsert_consent_policy now cgi slug name cp_req st))"
| ad_consent_delete: "admin_step lib st (snd (orgs_delete_consent_policy slug name ci st))"
| ad_binding_set: "admin_step lib st (snd (orgs_upsert_idp_binding slug name b_req st))"
| ad_binding_remove: "admin_step lib st (snd (orgs_remove_idp_binding slug name alias st))"

lemmas runs_handlers = runs_realms runs_clients runs_users runs_settings runs_roles runs_groups runs_orgs runs_org_settings

lemma admin_step_runs:
  "admin_step lib st st' \<Longrightarrow> conf_run (AdminState_storage st) (AdminState_storage st')"
  by (induction rule: admin_step.induct) (simp_all add: runs_gate runs_handlers [unfolded runs_def])

section \<open>Invariants of every history\<close>

locale admin_invariant =
  fixes I :: "Tables \<Rightarrow> bool"
  assumes conf: "conf_step t t' \<Longrightarrow> I t \<Longrightarrow> I t'"
begin

lemma conf_run_keeps: "conf_run t t' \<Longrightarrow> I t \<Longrightarrow> I t'"
  by (induction rule: rtranclp_induct) (auto intro: conf)

lemma admin_keeps: "admin_step lib st st' \<Longrightarrow> I (AdminState_storage st) \<Longrightarrow> I (AdminState_storage st')"
  using admin_step_runs conf_run_keeps by blast

end

locale service_invariant = admin_invariant +
  assumes db: "db_step t t' \<Longrightarrow> I t \<Longrightarrow> I t'"
begin

lemma db_run_keeps: "db_run t t' \<Longrightarrow> I t \<Longrightarrow> I t'"
  by (induction rule: rtranclp_induct) (auto intro: db)

end

lemma conf_step_refresh: "conf_step t t' \<Longrightarrow> refresh_tokens t' = refresh_tokens t \<and> families t' = families t"
  by (induction rule: conf_step.induct) (simp_all add: op_frames store_defs Let_def split: option.split)

interpretation directories: service_invariant directories_ok
proof
  show "directories_ok t'" if "conf_step t t'" "directories_ok t" for t t'
    using conf_directories that .
  show "directories_ok t'" if "db_step t t'" "directories_ok t" for t t'
    using db_step_config [OF that(1)] that(2) orgs_cong [of t' t]
    by (cases t; cases t') (auto simp: same_config_def directories_ok_def realms_consistent_def users_consistent_def
        clients_consistent_def access_ok_def idps_keyed_def)
qed

interpretation live: service_invariant refresh_table.one_live
  by unfold_locales (use conf_step_refresh one_live_cong db_step_one_live in blast)+

interpretation keyed_rows: service_invariant rows_keyed
proof
  show "rows_keyed t'" if "conf_step t t'" "rows_keyed t" for t t'
    using that by (induction rule: conf_step.induct)
      (auto simp: rows_keyed_def op_frames store_defs Let_def split: option.splits if_splits)
qed (rule db_step_keyed)

interpretation master: service_invariant "\<lambda>t. realms_consistent t \<and> map_of (realm_by_slug t) MASTER_REALM_SLUG = Some i" for i
proof
  show "realms_consistent t' \<and> map_of (realm_by_slug t') MASTER_REALM_SLUG = Some i"
    if "conf_step t t'" "realms_consistent t \<and> map_of (realm_by_slug t) MASTER_REALM_SLUG = Some i" for t t'
    using that conf_realms conf_slug_kept by blast
  show "realms_consistent t' \<and> map_of (realm_by_slug t') MASTER_REALM_SLUG = Some i"
    if "db_step t t'" "realms_consistent t \<and> map_of (realm_by_slug t) MASTER_REALM_SLUG = Some i" for t t'
    using db_step_config [OF that(1)] that(2) by (simp add: same_config_def realms_consistent_def)
qed

section \<open>The service\<close>

inductive service_step :: "'l AdminLib_scheme \<Rightarrow> string option \<Rightarrow> AppState \<Rightarrow> AppState \<Rightarrow> bool" for lib admin_api_key where
  service_protocol: "server_step lib st st' \<Longrightarrow> service_step lib admin_api_key st st'"
| service_admin: "admin_step lib (admin_of_app admin_api_key st) adm \<Longrightarrow>
    service_step lib admin_api_key st (app_after_admin adm st)"

inductive_cases service_stepE: "service_step lib admin_api_key st st'"

abbreviation service_run :: "'l AdminLib_scheme \<Rightarrow> string option \<Rightarrow> AppState \<Rightarrow> AppState \<Rightarrow> bool" where
  "service_run lib admin_api_key \<equiv> (service_step lib admin_api_key)\<^sup>*\<^sup>*"

lemma admin_of_app_storage [simp]: "AdminState_storage (admin_of_app key st) = AppState_storage st"
  by (simp add: admin_of_app_def)

lemma app_after_admin_storage [simp]: "AppState_storage (app_after_admin adm st) = AdminState_storage adm"
  by (simp add: app_after_admin_def)

context service_invariant
begin

lemma step_keeps:
  assumes "service_step lib key st st'" "refresh_table.one_live (AppState_storage st)" "I (AppState_storage st)"
  shows "I (AppState_storage st')"
  using assms(1)
proof cases
  case service_protocol
  with assms(2) have "db_run (AppState_storage st) (AppState_storage st')"
    by (intro server_step_db) (auto simp: refresh_table.one_live_def)
  with assms(3) show ?thesis using db_run_keeps by blast
next
  case (service_admin adm)
  with assms(3) show ?thesis using admin_keeps by fastforce
qed

end

lemma service_run_live:
  "service_run lib key st st' \<Longrightarrow> refresh_table.one_live (AppState_storage st) \<Longrightarrow> refresh_table.one_live (AppState_storage st')"
  by (induction rule: rtranclp_induct) (auto intro: live.step_keeps)

context service_invariant
begin

lemma run_keeps:
  assumes "service_run lib key st st'" "refresh_table.one_live (AppState_storage st)" "I (AppState_storage st)"
  shows "I (AppState_storage st')"
  using assms
  by (induction rule: rtranclp_induct) (auto intro: step_keeps dest: service_run_live)

end

end
