(* ===== verification/Admin_Sound.thy ===== *)
theory Admin_Sound
  imports Admin_System
begin

text \<open>
  The properties of the administration: who is let in and how, what its endpoints keep of the store
  together with the protocol endpoints, and what becomes of the credentials it hands out.
\<close>

section \<open>Composition of handlers\<close>

lemma admin_bind_Inr:
  assumes "admin_bind m k st = (Inr r, st')"
  obtains a st1 where "m st = (Inr a, st1)" "k a st1 = (Inr r, st')"
  using assms by (auto simp: admin_bind_def split: prod.splits sum.splits)

lemma admin_simple_Inr:
  "admin_read f st = (Inr a, st1) \<longleftrightarrow> f (AdminState_storage st) = Inr a \<and> st1 = st"
  "admin_lift x st = (Inr a, st1) \<longleftrightarrow> x = Inr a \<and> st1 = st"
  "admin_ok b st = (Inr a, st1) \<longleftrightarrow> a = b \<and> st1 = st"
  "admin_emit realm ac tg d st = (Inr u, st1) \<longleftrightarrow> st1 = admin_publish realm ac tg d st"
  by (auto simp: admin_read_def admin_lift_def admin_ok_def admin_emit_def map_sum_def split: sum.splits)

lemma admin_write_Inr:
  "admin_write f st = (Inr a, st1) \<longleftrightarrow>
     (\<exists>t. f (AdminState_storage st) = (Inr a, t) \<and> st1 = st\<lparr>AdminState_storage := t\<rparr>)"
  by (auto simp: admin_write_def map_sum_def split: sum.splits prod.splits)

section \<open>The store of the service\<close>


text \<open>The witnesses follow requests to the sample server, whose user is an administrator here.\<close>

definition sample_admin_lib :: AdminLib where
  "sample_admin_lib = SamlLib.extend (sample_saml_lib\<lparr>blake3_keyed := (\<lambda>k s. k @ s)\<rparr>)
     (AdminLib.fields (\<lambda>u. Inl ''url'') (\<lambda>salt p. Inr p) (\<lambda>c. Value_Null)
        \<lparr>is_alphanumeric = (\<lambda>u. True), is_whitespace = (\<lambda>u. False), is_uppercase = (\<lambda>u. False), is_lowercase = (\<lambda>u. True)\<rparr>
        (\<lambda>u. u))"

definition sample_admin_user :: User where
  "sample_admin_user = sample_user\<lparr>User_attributes := [(''admin'', AttributeValue_Bool True)]\<rparr>"

definition sample_admin_app :: AppState where
  "sample_admin_app = sample_app\<lparr>AppState_storage := sample_tables\<lparr>users := [((RealmId 1, UserId 1), sample_admin_user)]\<rparr>\<rparr>"

definition sample_admin :: AdminState where
  "sample_admin = admin_of_app (Some ''key'') sample_admin_app"

lemmas sample_admin_simps = sample_admin_lib_def SamlLib.defs AdminLib.defs sample_saml_simps sample_http_simps

lemma sample_admin_state [simp]:
  "AdminState_storage sample_admin = sample_tables\<lparr>users := [((RealmId 1, UserId 1), sample_admin_user)]\<rparr>"
  "AppState_storage sample_admin_app = sample_tables\<lparr>users := [((RealmId 1, UserId 1), sample_admin_user)]\<rparr>"
  "AdminState_admin_api_key sample_admin = Some ''key''"
  by (simp_all add: sample_admin_def admin_of_app_def sample_admin_app_def)

lemma sample_directories: "directories_ok (AppState_storage sample_admin_app)"
  by (simp add: directories_ok_def realms_consistent_def users_consistent_def clients_consistent_def access_ok_def
      idps_keyed_def org_rows_ok_def invitations_consistent_def keyed_def sample_tables_simps sample_admin_user_def
      sample_user_def User_default_def sample_realm_def sample_client_def)



section \<open>Who is let in\<close>

lemma verify_bearer_Inr:
  assumes "verify_bearer lib now tok st = Inr q"
  shows "\<exists>kid alg text public claims realm user.
    load_public lib kid (AdminState_kms st) = Inr public \<and>
    verify_jwt lib (access_claims_from_json lib) tok alg text public = Inr claims \<and>
    timestamp now \<le> AccessTokenClaims_exp claims \<and> has_admin_role claims \<and>
    get_realm_by_slug (last (split_char CHR ''/'' (AccessTokenClaims_iss claims))) (AdminState_storage st) = Inr realm \<and>
    get_user (Realm_id realm) (AdminPrincipal_user_id q) (AdminState_storage st) = Inr user \<and>
    AdminPrincipal_realm_id q = Realm_id realm \<and> AdminPrincipal_username q = User_username user"
proof -
  obtain h_b64 rest where "split_char CHR ''.'' tok = h_b64 # rest" by (cases "split_char CHR ''.'' tok") simp_all
  then show ?thesis
    using assms unfolding verify_bearer_def by (auto split: list.splits sum.splits option.splits if_splits) (metis not_less)
qed

lemma verify_session_Inr:
  assumes "verify_session now sid st = (Inr q, st')"
  shows "st' = st \<and> (\<exists>s user. get_session (SessionId sid) (AdminState_storage st) = Inr s \<and> now \<le> Session_expires_at s \<and>
    get_user (Session_realm_id s) (Session_user_id s) (AdminState_storage st) = Inr user \<and> is_admin_user user \<and>
    q = \<lparr>AdminPrincipal_user_id = Session_user_id s, AdminPrincipal_username = User_username user,
         AdminPrincipal_realm_id = Session_realm_id s\<rparr>)"
  using assms by (auto simp: verify_session_def split: sum.splits if_splits)

lemma admin_bearer_iff: "admin_bearer_from headers = Some tok \<longleftrightarrow> AdminHeaders_authorization headers = Some (''Bearer '' @ tok) \<and> tok \<noteq> []"
proof (cases "AdminHeaders_authorization headers")
  case (Some val)
  have "strip_prefix val ''Bearer '' = Some tok \<longleftrightarrow> val = ''Bearer '' @ tok" by (rule strip_prefix_eq_Some)
  then show ?thesis
    by (cases "strip_prefix val ''Bearer ''") (auto simp: admin_bearer_from_def Some)
qed (simp add: admin_bearer_from_def)

lemma api_key_matches_iff:
  assumes "\<And>a b. constant_time_eq lib a b \<longleftrightarrow> a = b"
  shows "api_key_matches lib headers st \<longleftrightarrow>
    (\<exists>key. AdminState_admin_api_key st = Some key \<and> AdminHeaders_x_admin_key headers = Some key)"
  by (auto simp: api_key_matches_def assms split: option.split)

lemma has_admin_roleD:
  "has_admin_role claims \<Longrightarrow> \<exists>ra. AccessTokenClaims_realm_access claims = Some ra \<and> ''admin'' \<in> set (RealmAccess_roles ra)"
  by (simp add: has_admin_role_def split: option.splits)

definition presents_api_key :: "AdminHeaders \<Rightarrow> AdminState \<Rightarrow> bool" where
  "presents_api_key headers st \<longleftrightarrow>
     (\<exists>key. AdminState_admin_api_key st = Some key \<and> AdminHeaders_x_admin_key headers = Some key)"

definition presents_admin_token :: "'l HttpLib_scheme \<Rightarrow> DateTime \<Rightarrow> AdminHeaders \<Rightarrow> AdminState \<Rightarrow> AdminPrincipal \<Rightarrow> bool" where
  "presents_admin_token lib now headers st q \<longleftrightarrow>
     (\<exists>tok kid alg text public claims realm user ra.
        AdminHeaders_authorization headers = Some (''Bearer '' @ tok) \<and>
        load_public lib kid (AdminState_kms st) = Inr public \<and>
        verify_jwt lib (access_claims_from_json lib) tok alg text public = Inr claims \<and>
        timestamp now \<le> AccessTokenClaims_exp claims \<and>
        AccessTokenClaims_realm_access claims = Some ra \<and> ''admin'' \<in> set (RealmAccess_roles ra) \<and>
        get_realm_by_slug (last (split_char CHR ''/'' (AccessTokenClaims_iss claims))) (AdminState_storage st) = Inr realm \<and>
        get_user (Realm_id realm) (AdminPrincipal_user_id q) (AdminState_storage st) = Inr user \<and>
        AdminPrincipal_realm_id q = Realm_id realm)"

definition presents_admin_session :: "DateTime \<Rightarrow> AdminHeaders \<Rightarrow> AdminState \<Rightarrow> AdminPrincipal \<Rightarrow> bool" where
  "presents_admin_session now headers st q \<longleftrightarrow>
     (\<exists>sid s user.
        cookie_value headers COOKIE_NAME = Some sid \<and>
        get_session (SessionId sid) (AdminState_storage st) = Inr s \<and> now \<le> Session_expires_at s \<and>
        get_user (Session_realm_id s) (Session_user_id s) (AdminState_storage st) = Inr user \<and>
        map_of (User_attributes user) ''admin'' = Some (AttributeValue_Bool True) \<and>
        AdminPrincipal_user_id q = Session_user_id s \<and> AdminPrincipal_realm_id q = Session_realm_id s)"

text \<open>
  C8: Who is let into the administration. Given that the constant-time comparison decides equality,
  a request that passes \<open>require_admin\<close> changes nothing and presents either exactly the configured
  key, or a bearer token that verifies under a key of the key service, has not expired, carries the
  realm role \<open>admin\<close> and names an existing user of the realm at the end of its issuer, or the cookie
  of a stored session that has not expired and belongs to an existing user whose attribute \<open>admin\<close>
  is true; with a bearer token present the cookie is not looked at, and without a configured key no
  header value is accepted as one.
\<close>

theorem admin_access_sound:
  assumes "\<And>a b. constant_time_eq lib a b \<longleftrightarrow> a = b"
    and "require_admin lib now headers st = (AdminGate_Pass p, st')"
  shows "st' = st \<and>
    (case p of None \<Rightarrow> presents_api_key headers st
     | Some q \<Rightarrow> presents_admin_token lib now headers st q \<or>
         admin_bearer_from headers = None \<and> presents_admin_session now headers st q)"
proof (cases "api_key_matches lib headers st")
  case True
  then show ?thesis
    using assms(2) api_key_matches_iff [OF assms(1)] by (auto simp: require_admin_def presents_api_key_def)
next
  case no_key: False
  show ?thesis
  proof (cases "admin_bearer_from headers")
    case (Some tok)
    have "require_admin lib now headers st =
        ((case verify_bearer lib now tok st of Inr p \<Rightarrow> AdminGate_Pass (Some p)
          | Inl msg \<Rightarrow> gate_refused headers ''Bearer error=\"invalid_token\"'' msg), st)"
      using no_key Some by (simp add: require_admin_def)
    then obtain q where q: "verify_bearer lib now tok st = Inr q" "p = Some q" "st' = st"
      using assms(2) by (cases "verify_bearer lib now tok st") (auto simp: gate_refused_def split: if_splits)
    have "presents_admin_token lib now headers st q"
      using verify_bearer_Inr [OF q(1)] Some [unfolded admin_bearer_iff] has_admin_roleD
      unfolding presents_admin_token_def by metis
    with q show ?thesis by simp
  next
    case None
    then obtain sid where sid: "cookie_value headers COOKIE_NAME = Some sid"
      using assms(2) no_key
      by (cases "cookie_value headers COOKIE_NAME") (auto simp: require_admin_def gate_refused_def split: if_splits)
    obtain r st1 where r: "verify_session now sid st = (r, st1)" by fastforce
    obtain q where q: "verify_session now sid st = (Inr q, st')" "p = Some q"
      using assms(2) no_key None sid r
      by (cases r) (auto simp: require_admin_def gate_refused_def split: if_splits)
    have "presents_admin_session now headers st q"
      using verify_session_Inr [OF q(1)] sid unfolding presents_admin_session_def is_admin_user_def by auto
    with verify_session_Inr [OF q(1)] q(2) None show ?thesis by simp
  qed
qed

section \<open>Logging in\<close>

text \<open>The characters of the session identifiers the code draws (base 32) are among these.\<close>

definition cookie_char :: "char \<Rightarrow> bool" where
  "cookie_char c \<longleftrightarrow> 32 < (of_char c :: nat) \<and> (of_char c :: nat) < 127 \<and> c \<noteq> CHR '';''"

lemma str_trim_visible:
  assumes "\<forall>c\<in>set s. cookie_char c"
  shows "str_trim s = s"
proof -
  have w: "\<not> is_whitespace_char [c]" if "cookie_char c" for c
    using that by (auto simp: is_whitespace_char_def byte_in_def cookie_char_def)
  have "(of_char c :: nat) < 128" if "cookie_char c" for c
    using that unfolding cookie_char_def by linarith
  with assms have "\<forall>c\<in>set s. (of_char c :: nat) < 128" by blast
  then have u: "utf8_chars s = map (\<lambda>c. [c]) s" by (rule length_utf8_chars_ascii)
  have keep: "dropWhile is_whitespace_char (map (\<lambda>c. [c]) r) = map (\<lambda>c. [c]) r" if "\<forall>c\<in>set r. cookie_char c" for r
    using that w by (cases r) auto
  have "rev (map (\<lambda>c. [c]) s) = map (\<lambda>c. [c]) (rev s)" by (simp add: rev_map)
  then have "dropWhile is_whitespace_char (rev (map (\<lambda>c. [c]) s)) = map (\<lambda>c. [c]) (rev s)"
    using keep [of "rev s"] assms by simp
  then have "str_trim s = concat (rev (map (\<lambda>c. [c]) (rev s)))"
    using keep [of s] assms by (simp add: str_trim_def u)
  then show ?thesis by (simp add: rev_map)
qed

lemma cookie_value_login:
  assumes "AdminHeaders_cookie headers = Some (COOKIE_NAME @ ''='' @ v)" "\<forall>c\<in>set v. cookie_char c"
  shows "cookie_value headers COOKIE_NAME = Some v"
proof -
  let ?c = "COOKIE_NAME @ ''='' @ v"
  have "\<forall>c\<in>set (COOKIE_NAME @ ''=''). cookie_char c" by (simp add: COOKIE_NAME_def cookie_char_def)
  then have vis: "\<forall>c\<in>set ?c. cookie_char c" using assms(2) by auto
  then have "split_char CHR '';'' ?c = [?c]" by (intro split_char_no_sep) (auto simp: cookie_char_def)
  moreover have "strip_prefix ?c COOKIE_NAME = Some (''='' @ v)" "strip_prefix (''='' @ v) ''='' = Some v"
    by (simp_all only: strip_prefix_eq_Some)
  ultimately show ?thesis
    using assms(1) str_trim_visible [OF vis] by (simp add: cookie_value_def)
qed

lemma try_login_Inr:
  assumes "try_login lib now sid name password st = (Inr r, st')"
  shows "\<exists>realm user hash. realm \<in> set (hm_values (realms (AdminState_storage st))) \<and>
    (get_user_by_username (Realm_id realm) name (AdminState_storage st) = Inr user \<or>
     get_user_by_email (Realm_id realm) name (AdminState_storage st) = Inr user) \<and>
    User_enabled user \<and> is_admin_user user \<and>
    get_password_hash (Realm_id realm) (User_id user) (AdminState_storage st) = Inr hash \<and>
    verify_password lib password hash = Inr True \<and>
    st' = st\<lparr>AdminState_storage := snd (create_session (admin_session now sid realm user) (AdminState_storage st))\<rparr>"
proof -
  let ?t = "AdminState_storage st"
  obtain realm rest where realms: "list_realms ?t = Inr (realm # rest)"
    using assms by (auto simp: try_login_def Let_def split: sum.splits list.splits)
  let ?found = "case get_user_by_username (Realm_id realm) name ?t of Inr u \<Rightarrow> Inr u
    | Inl _ \<Rightarrow> get_user_by_email (Realm_id realm) name ?t"
  obtain user where user: "?found = Inr user" "User_enabled user" "is_admin_user user"
    using assms realms by (auto simp: try_login_def Let_def split: sum.splits if_splits)
  obtain hash where hash: "get_password_hash (Realm_id realm) (User_id user) ?t = Inr hash" "verify_password lib password hash = Inr True"
    using assms realms user by (auto simp: try_login_def Let_def split: sum.splits if_splits)
  have "st' = st\<lparr>AdminState_storage := snd (create_session (admin_session now sid realm user) ?t)\<rparr>"
    using assms realms user hash by (simp add: try_login_def Let_def admin_write_def create_session_def)
  moreover have "realm \<in> set (hm_values (realms ?t))" using realms by (simp add: list_realms_def)
  moreover have "get_user_by_username (Realm_id realm) name ?t = Inr user \<or> get_user_by_email (Realm_id realm) name ?t = Inr user"
    using user(1) by (auto split: sum.splits)
  ultimately show ?thesis using user hash by blast
qed

text \<open>
  C9: An administrator who logs in gets in, for a day. When the login form sets a cookie, the
  password verified against the stored hash of an enabled user, found by name or by e-mail in the
  realm, whose attribute \<open>admin\<close> is true; and a request with that cookie (and no key and no bearer
  token) passes as that user until 24 hours later, after which it is refused and the session is gone.
\<close>

theorem admin_login_admits:
  assumes "login_submit lib now sid name password st = (AdminLogin_Redirect url cookie, st')"
    and "users_consistent (AdminState_storage st)" and "\<forall>c\<in>set (SessionId_text sid). cookie_char c"
    and "AdminHeaders_x_admin_key headers = None" and "admin_bearer_from headers = None"
    and "AdminHeaders_cookie headers = Some (COOKIE_NAME @ ''='' @ SessionId_text sid)"
  shows "\<exists>realm user hash. realm \<in> set (hm_values (realms (AdminState_storage st))) \<and>
    get_user (Realm_id realm) (User_id user) (AdminState_storage st) = Inr user \<and>
    User_enabled user \<and> map_of (User_attributes user) ''admin'' = Some (AttributeValue_Bool True) \<and>
    get_password_hash (Realm_id realm) (User_id user) (AdminState_storage st) = Inr hash \<and>
    verify_password lib password hash = Inr True \<and>
    (later \<le> now + chrono_seconds (24 * 3600) \<longrightarrow> require_admin lib later headers st' =
       (AdminGate_Pass (Some \<lparr>AdminPrincipal_user_id = User_id user, AdminPrincipal_username = User_username user,
          AdminPrincipal_realm_id = Realm_id realm\<rparr>), st')) \<and>
    (now + chrono_seconds (24 * 3600) < later \<longrightarrow>
       (\<forall>p. fst (require_admin lib later headers st') \<noteq> AdminGate_Pass p) \<and>
       get_session sid (AdminState_storage (snd (require_admin lib later headers st'))) = Inl NotFound)"
proof -
  obtain r where run: "try_login lib now sid name password st = (Inr r, st')"
    using assms(1) by (auto simp: login_submit_def split: prod.splits sum.splits)
  obtain realm user hash where ok: "realm \<in> set (hm_values (realms (AdminState_storage st)))"
    "get_user_by_username (Realm_id realm) name (AdminState_storage st) = Inr user \<or>
     get_user_by_email (Realm_id realm) name (AdminState_storage st) = Inr user"
    "User_enabled user" "is_admin_user user"
    "get_password_hash (Realm_id realm) (User_id user) (AdminState_storage st) = Inr hash"
    "verify_password lib password hash = Inr True"
    and st': "st' = st\<lparr>AdminState_storage := snd (create_session (admin_session now sid realm user) (AdminState_storage st))\<rparr>"
    using try_login_Inr [OF run] by blast
  from ok(2) obtain i where "map_of (users (AdminState_storage st)) (Realm_id realm, i) = Some user"
    by (auto simp: get_user_by_username_def get_user_by_email_def ok_or_def split: option.splits)
  then have user: "map_of (users (AdminState_storage st)) (Realm_id realm, User_id user) = Some user"
    using assms(2) unfolding users_consistent_def by metis
  have cookie: "cookie_value headers COOKIE_NAME = Some (SessionId_text sid)"
    using cookie_value_login assms(3,6) by blast
  have key: "\<not> api_key_matches lib headers st'" by (simp add: api_key_matches_def assms(4) split: option.split)
  have sid: "SessionId (SessionId_text sid) = sid" by (cases sid) simp
  have session: "map_of (sessions (AdminState_storage st')) sid = Some (admin_session now sid realm user)"
    by (simp add: st' create_session_def admin_session_def)
  have gate: "require_admin lib later headers st' = (case verify_session later (SessionId_text sid) st' of
        (Inr p, s) \<Rightarrow> (AdminGate_Pass (Some p), s)
      | (Inl _, s) \<Rightarrow> (gate_refused headers ''Bearer'' ''authentication required'', s))"
    by (simp add: require_admin_def key assms(5) cookie)
  have "(later \<le> now + chrono_seconds (24 * 3600) \<longrightarrow> require_admin lib later headers st' =
       (AdminGate_Pass (Some \<lparr>AdminPrincipal_user_id = User_id user, AdminPrincipal_username = User_username user,
          AdminPrincipal_realm_id = Realm_id realm\<rparr>), st'))"
    using session user ok(4) unfolding gate verify_session_def sid
    by (simp add: get_session_def get_user_def admin_session_def st' create_session_def)
  moreover have "(now + chrono_seconds (24 * 3600) < later \<longrightarrow>
       (\<forall>p. fst (require_admin lib later headers st') \<noteq> AdminGate_Pass p) \<and>
       get_session sid (AdminState_storage (snd (require_admin lib later headers st'))) = Inl NotFound)"
    using session unfolding gate verify_session_def sid
    by (simp add: get_session_def admin_session_def admin_write_storage delete_session_def gate_refused_def)
  moreover have "get_user (Realm_id realm) (User_id user) (AdminState_storage st) = Inr user"
    using user by (simp add: get_user_def)
  ultimately show ?thesis using ok unfolding is_admin_user_def by blast
qed

section \<open>Credentials handed out\<close>

lemma created_client_stored:
  assumes "clients_create lib now cid secret slug req st = (Inr resp, st')"
    and "CreateClientResponse_client_secret resp = Some s"
    and "client = CreateClientResponse_client resp"
  shows "s = secret \<and> Client_enabled client \<and> Client_client_id client = CreateClientRequest_client_id req \<and>
    get_client_by_client_id (Client_realm_id client) (CreateClientRequest_client_id req) (AdminState_storage st') = Inr client \<and>
    get_client_secret_hash (Client_realm_id client) (Client_id client) (AdminState_storage st') =
      Inr (hex_encode lib (token_hash lib (AdminState_client_secret_hash_key st) secret))"
proof -
  obtain realm uris saml t sec st2 where t: "create_client (created_client now cid realm req uris saml) (AdminState_storage st) = (Inr (), t)"
    and sec: "store_new_secret lib secret realm (created_client now cid realm req uris saml) (st\<lparr>AdminState_storage := t\<rparr>) = (Inr sec, st2)"
    and resp: "resp = \<lparr>CreateClientResponse_client = created_client now cid realm req uris saml, CreateClientResponse_client_secret = sec\<rparr>"
    and st': "AdminState_storage st' = AdminState_storage st2"
    using assms(1) unfolding clients_create_def admin_realm_by_slug_def Let_def
    by (elim admin_bind_Inr) (auto simp: admin_simple_Inr admin_write_Inr admin_publish_def)
  have client_def: "client = created_client now cid realm req uris saml" by (simp add: assms(3) resp)
  note t = t [folded client_def] and sec = sec [folded client_def] and resp = resp [folded client_def]
  have fields: "Client_realm_id client = Realm_id realm" "Client_client_id client = CreateClientRequest_client_id req"
    "Client_enabled client"
    by (simp_all add: client_def created_client_def Let_def)
  have "sec = Some secret \<and> AdminState_storage st2 = snd (store_client_secret_hash (Realm_id realm) (Client_id client)
      (hex_encode lib (token_hash lib (AdminState_client_secret_hash_key st) secret)) t)"
    using sec assms(2) resp
    by (auto simp: store_new_secret_def admin_bind_def admin_write_def admin_ok_def store_client_secret_hash_def split: if_splits)
  moreover have "get_client_by_client_id (Realm_id realm) (CreateClientRequest_client_id req) t = Inr client"
    using t fields by (auto simp: create_client_def get_client_by_client_id_def Let_def split: if_splits)
  ultimately show ?thesis
    using resp fields st' assms(2)
    by (auto simp: get_client_by_client_id_def get_client_secret_hash_def store_client_secret_hash_def split: option.splits)
qed

text \<open>
  C10: The secret of a created client. Given that the constant-time comparison decides equality: when
  creating a client returns a secret and the client is to authenticate with it, presenting that secret
  to the protocol server authenticates the client exactly when hashing it under the configured key and
  under the key derived for the realm gives the same text, since the one is stored and the other is
  compared; otherwise the answer is that the secret does not match.
\<close>

theorem created_secret_authenticates:
  assumes "\<And>a b. constant_time_eq lib a b \<longleftrightarrow> a = b"
    and "clients_create lib now cid secret slug req (admin_of_app key app) = (Inr resp, adm)"
    and "CreateClientResponse_client_secret resp = Some s" and "client = CreateClientResponse_client resp"
    and "Client_auth_method client \<in> {ClientAuthMethod_ClientSecretBasic, ClientAuthMethod_ClientSecretPost}"
    and "presented_credentials lib headers form = Inr (CreateClientRequest_client_id req, Some s)"
  shows "authenticate_client lib (app_after_admin adm app) (Client_realm_id client) headers form =
    (if hex_encode lib (token_hash lib (AppState_client_secret_hash_key app) s) =
        hex_encode lib (token_hash lib (realm_key lib (AppState_client_secret_hash_key app) (Client_realm_id client) ''client-secret'') s)
     then Inr \<lparr>AuthenticatedClient_client = client, AuthenticatedClient_method_used = Client_auth_method client\<rparr>
     else Inl (invalid_client ''client_secret mismatch''))"
proof -
  have stored: "s = secret" "Client_enabled client"
    "get_client_by_client_id (Client_realm_id client) (CreateClientRequest_client_id req) (AdminState_storage adm) = Inr client"
    "get_client_secret_hash (Client_realm_id client) (Client_id client) (AdminState_storage adm) =
      Inr (hex_encode lib (token_hash lib (AppState_client_secret_hash_key app) secret))"
    using created_client_stored [OF assms(2-4)] by (simp_all add: admin_of_app_def)
  have storage: "AppState_client_secret_hash_key (app_after_admin adm app) = AppState_client_secret_hash_key app"
    by (simp add: app_after_admin_def)
  show ?thesis
    using assms(5) by (auto simp: authenticate_client_def assms(1,6) stored storage Let_def)
qed

text \<open>
  The administration cannot change an identity provider. On a store whose providers stand under
  their own realm and alias (which every history keeps), the update endpoint ends with an error and
  changes nothing, whatever provider it names and whatever it is given: it stores the changed row
  with the call that refuses a taken alias.
\<close>

theorem idps_update_refused:
  assumes "directories_ok (AdminState_storage st)"
  shows "\<exists>e. api_idps_update slug alias idp st = (Inl e, st)"
proof -
  have "create_idp (idp\<lparr>IdentityProvider_id := i, IdentityProvider_realm_id := realm,
      IdentityProvider_alias := IdentityProvider_alias old\<rparr>) (AdminState_storage st) =
      (Inl (StorageError_Conflict (''idp alias '' @ IdentityProvider_alias old @ '' taken'')), AdminState_storage st)"
    if "map_of (idps (AdminState_storage st)) (realm, alias) = Some old" for i realm old
  proof -
    have "IdentityProvider_alias old = alias"
      using assms map_of_SomeD [OF that] by (auto simp: directories_ok_def idps_keyed_def keyed_def list_all_iff)
    with that show ?thesis by (simp add: create_idp_def hm_contains_key_def)
  qed
  then show ?thesis
    by (auto simp: api_idps_update_def admin_realm_by_slug_def admin_bind_def admin_read_def admin_write_def get_idp_by_alias_def
        ok_or_def Let_def split: sum.split option.split)
qed

text \<open>
  C11: Tokens of this server do not open the administration. With libraries that keep their laws and a
  key service that has the signing key, an access token minted for any user, client and scope is
  refused as a bearer token, as expired after its expiry and before it for want of the role: minting
  leaves the realm roles out of the token.
\<close>

theorem issued_tokens_not_admin:
  assumes "oidc_lib_laws lib"
    and "mint_access_token_with_extras lib draw self realm client subject session scope extras = Inr (tok, ttl)"
    and "AdminState_kms st = OidcIssuer_kms self"
  shows "verify_bearer lib now tok st =
    Inl (if wrap_i64 (timestamp (mint_now draw) + ttl) < timestamp now then ''token expired'' else ''admin role required'')"
proof -
  obtain kid sk where k: "load_private lib kid (OidcIssuer_kms self) = Inr sk"
    and sign: "sign_jwt lib (access_claims_to_json lib) (mint_rng draw)
       (JwsHeader_new (signing_alg realm client) (KeyId_to_string lib kid) ''JWT'')
       (access_claims lib draw self realm client subject session scope
          (unwrap_or (AccessTokenExtras_audience extras) [Client_client_id client])
          (AccessTokenExtras_org extras) (AccessTokenExtras_act extras)) sk = Inr tok"
    and ttl: "ttl = as_secs_i64 (TokenPolicy_access_token_lifespan (Realm_token_policy realm))"
    using mint_with_extras_Inr [OF assms(2)] by metis
  define claims where "claims = access_claims lib draw self realm client subject session scope
          (unwrap_or (AccessTokenExtras_audience extras) [Client_client_id client])
          (AccessTokenExtras_org extras) (AccessTokenExtras_act extras)"
  have claims: "\<not> has_admin_role claims" "AccessTokenClaims_exp claims = wrap_i64 (timestamp (mint_now draw) + ttl)"
    by (simp_all add: claims_def access_claims_def has_admin_role_def Let_def ttl)
  have jl: "jwt_lib_laws lib" and json: "\<And>c s. access_claims_to_json lib c = Inr s \<Longrightarrow> access_claims_from_json lib s = Inr c"
    and ulid: "\<And>u. parse_ulid lib (show_ulid lib u) = Inr u"
    using assms(1) by (auto simp: oidc_lib_laws_def)
  note rt = jwt_roundtrip [OF jl _ sign [folded claims_def], of "access_claims_from_json lib", OF json]
  obtain h p s hb where split: "split_char CHR ''.'' tok = [h, p, s]" and h: "base64_url_decode lib h = Inr hb"
    "header_from_json lib hb = Inr (JwsHeader_new (signing_alg realm client) (KeyId_to_string lib kid) ''JWT'')"
    using rt(3) by blast
  obtain u where u: "parse_ulid lib (KeyId_to_string lib kid) = Inr u" "KeyId u = kid"
    by (cases kid) (simp add: ulid)
  show ?thesis
    using split h u load_pair(1) [OF k] rt(1,2) supported_alg_key [of sk] claims
    by (simp add: verify_bearer_def JwsHeader_new_def assms(3))
qed

section \<open>Witnesses\<close>

lemma sample_admin_ct: "constant_time_eq sample_admin_lib a b \<longleftrightarrow> a = b"
  by (simp add: sample_admin_simps)

definition sample_key_headers :: AdminHeaders where
  "sample_key_headers = \<lparr>AdminHeaders_x_admin_key = Some ''key'', AdminHeaders_authorization = None,
     AdminHeaders_cookie = None, AdminHeaders_accept = None\<rparr>"

definition sample_cookie_headers :: AdminHeaders where
  "sample_cookie_headers = \<lparr>AdminHeaders_x_admin_key = None, AdminHeaders_authorization = None,
     AdminHeaders_cookie = Some (COOKIE_NAME @ ''='' @ ''abc''), AdminHeaders_accept = None\<rparr>"

theorem admin_access_sound_witness: "presents_api_key sample_key_headers sample_admin"
proof -
  have "require_admin sample_admin_lib 0 sample_key_headers sample_admin = (AdminGate_Pass None, sample_admin)"
    by (simp add: require_admin_def api_key_matches_def sample_key_headers_def sample_admin_ct)
  from admin_access_sound [OF sample_admin_ct this] show ?thesis by simp
qed

lemma sample_admin_login:
  "\<exists>cookie st'. login_submit sample_admin_lib 0 (SessionId ''abc'') ''padme'' ''pw'' sample_admin =
     (AdminLogin_Redirect ''/admin/realms'' cookie, st')"
proof -
  have "get_user_by_username (RealmId 1) ''padme'' (AdminState_storage sample_admin) = Inr sample_admin_user"
    by (simp add: get_user_by_username_def sample_tables_simps)
  moreover have "list_realms (AdminState_storage sample_admin) = Inr [sample_realm]"
    by (simp add: list_realms_def hm_values_def sample_tables_simps)
  moreover have "get_password_hash (RealmId 1) (UserId 1) (AdminState_storage sample_admin) = Inr ''pw''"
    by (simp add: get_password_hash_def sample_tables_simps)
  moreover have "User_enabled sample_admin_user" "is_admin_user sample_admin_user" "User_id sample_admin_user = UserId 1"
    by (simp_all add: sample_admin_user_def sample_user_def User_default_def is_admin_user_def)
  moreover have "verify_password sample_admin_lib ''pw'' ''pw'' = Inr True"
    by (simp add: verify_password_def sample_admin_simps)
  ultimately show ?thesis
    by (simp add: login_submit_def try_login_def Let_def sample_realm_id admin_write_def create_session_def del: One_nat_def)
qed

theorem admin_login_admits_witness:
  "\<exists>st' q. require_admin sample_admin_lib 86400 sample_cookie_headers st' = (AdminGate_Pass (Some q), st')"
proof -
  obtain cookie st' where login: "login_submit sample_admin_lib 0 (SessionId ''abc'') ''padme'' ''pw'' sample_admin =
     (AdminLogin_Redirect ''/admin/realms'' cookie, st')" using sample_admin_login by blast
  have c: "users_consistent (AdminState_storage sample_admin)" using sample_directories by (simp add: directories_ok_def)
  have "\<forall>c\<in>set (SessionId_text (SessionId ''abc'')). cookie_char c" by (simp add: cookie_char_def)
  from admin_login_admits [OF login c this, of sample_cookie_headers 86400]
  show ?thesis by (auto simp: sample_cookie_headers_def admin_bearer_from_def chrono_seconds_def)
qed

theorem idps_update_refused_witness: "\<forall>idp. \<exists>e. api_idps_update ''t'' ''corp'' idp sample_admin = (Inl e, sample_admin)"
  using idps_update_refused [of sample_admin] sample_directories by simp

theorem issued_tokens_not_admin_witness:
  "\<exists>tok. verify_bearer sample_oidc_lib 0 tok (sample_admin\<lparr>AdminState_kms := sample_kms\<rparr>) = Inl ''admin role required''"
proof -
  obtain tok ttl where m: "mint_access_token_with_extras sample_oidc_lib sample_draw sample_oidc sample_realm sample_client
     (Subject_Local (UserId 2)) (SessionId ''s'') [ScopeName ''openid''] AccessTokenExtras_default = Inr (tok, ttl)"
    using sample_mint by blast
  have ttl: "ttl = as_secs_i64 (TokenPolicy_access_token_lifespan (Realm_token_policy sample_realm))"
    using mint_with_extras_Inr [OF m] by metis
  have "verify_bearer sample_oidc_lib 0 tok (sample_admin\<lparr>AdminState_kms := sample_kms\<rparr>) = Inl ''admin role required''"
    using issued_tokens_not_admin [OF sample_oidc_lib_laws m, of "sample_admin\<lparr>AdminState_kms := sample_kms\<rparr>" 0]
    by (simp add: sample_oidc_def sample_draw_def timestamp_def ttl wrap_i64_def sample_realm_def TokenPolicy_default_def as_secs_i64_def secs_def)
  then show ?thesis by blast
qed

definition sample_client_req :: CreateClientRequest where
  "sample_client_req = \<lparr>CreateClientRequest_client_id = ''web'', CreateClientRequest_display_name = None,
     CreateClientRequest_kind = ClientKind_Confidential, CreateClientRequest_redirect_uris = [],
     CreateClientRequest_auth_method = None, CreateClientRequest_grants = None, CreateClientRequest_default_scopes = [],
     CreateClientRequest_optional_scopes = [], CreateClientRequest_saml_sp_config = None\<rparr>"

abbreviation sample_new_client :: Client where
  "sample_new_client \<equiv> created_client 0 (ClientId 2) sample_realm sample_client_req [] None"

lemma sample_create_client:
  "\<exists>adm. clients_create sample_admin_lib 0 (ClientId 2) ''s3'' ''t'' sample_client_req (admin_of_app None sample_admin_app) =
     (Inr \<lparr>CreateClientResponse_client = sample_new_client, CreateClientResponse_client_secret = Some ''s3''\<rparr>, adm)"
proof -
  have "get_realm_by_slug ''t'' (AdminState_storage (admin_of_app None sample_admin_app)) = Inr sample_realm"
    by (simp add: get_realm_by_slug_def sample_tables_simps)
  moreover have "\<exists>t. create_client sample_new_client (AdminState_storage (admin_of_app None sample_admin_app)) = (Inr (), t)"
    by (simp add: create_client_def created_client_def sample_client_req_def sample_tables_simps hm_contains_key_def Let_def
        sample_realm_def)
  moreover have "keeps_secret (Client_kind sample_new_client)"
    by (simp add: keeps_secret_def created_client_def sample_client_req_def Let_def)
  ultimately show ?thesis
    by (auto simp: clients_create_def admin_realm_by_slug_def admin_bind_def admin_read_def admin_lift_def admin_write_def
        validate_saml_sp_config_def store_new_secret_def admin_ok_def admin_emit_def store_client_secret_hash_def Let_def
        sample_client_req_def)
qed

theorem created_secret_authenticates_witness:
  "\<exists>adm. fst (clients_create sample_admin_lib 0 (ClientId 2) ''s3'' ''t'' sample_client_req (admin_of_app None sample_admin_app)) =
       Inr \<lparr>CreateClientResponse_client = sample_new_client, CreateClientResponse_client_secret = Some ''s3''\<rparr> \<and>
     authenticate_client sample_admin_lib (app_after_admin adm sample_admin_app) (RealmId 1) no_headers
       [(''client_id'', ''web''), (''client_secret'', ''s3'')] = Inl (invalid_client ''client_secret mismatch'')"
proof -
  obtain adm where run: "clients_create sample_admin_lib 0 (ClientId 2) ''s3'' ''t'' sample_client_req
      (admin_of_app None sample_admin_app) =
     (Inr \<lparr>CreateClientResponse_client = sample_new_client, CreateClientResponse_client_secret = Some ''s3''\<rparr>, adm)"
    using sample_create_client by blast
  have cred: "presented_credentials sample_admin_lib no_headers [(''client_id'', ''web''), (''client_secret'', ''s3'')] =
      Inr (CreateClientRequest_client_id sample_client_req, Some ''s3'')"
    by (simp add: presented_credentials_def parse_basic_auth_def no_headers_def sample_client_req_def)
  have mth: "Client_auth_method sample_new_client \<in> {ClientAuthMethod_ClientSecretBasic, ClientAuthMethod_ClientSecretPost}"
    by (simp add: created_client_def default_auth_method_def keeps_secret_def sample_client_req_def Let_def)
  have realm: "Client_realm_id sample_new_client = RealmId 1" by (simp add: created_client_def sample_realm_id Let_def)
  from created_secret_authenticates [OF sample_admin_ct run _ _ mth cred]
  have "authenticate_client sample_admin_lib (app_after_admin adm sample_admin_app) (RealmId 1) no_headers
       [(''client_id'', ''web''), (''client_secret'', ''s3'')] = Inl (invalid_client ''client_secret mismatch'')"
    unfolding realm by (simp add: token_hash_def realm_key_def derive_realm_key_def sample_admin_simps)
  with run show ?thesis by auto
qed

end
