(* ===== verification/Rate_Limit.thy ===== *)
theory Rate_Limit
  imports Server_Samples
begin

text \<open>
  The per-realm rate limiter, \<^verbatim>\<open>crates/geonosis-server/src/rate_limit.rs\<close>. A bucket is shared by the
  threads of the server and is changed by atomic operations only, so besides the sequential reading of
  \<open>try_consume\<close> there is a program for one thread, one atomic operation per step, and a pool of threads
  that a schedule interleaves. An instant is a number of nanoseconds. The Redis script of the cluster
  tier is an argument. Shown: however the threads interleave, a bucket never holds more than its
  capacity and never admits more than its capacity and the refill of the time that has passed; a thread
  that is not interrupted refines the ideal token bucket of exact arithmetic; realms do not share a bucket.
\<close>

type_synonym Instant = nat

section \<open>One bucket\<close>

definition DEFAULT_BURST :: u64 where "DEFAULT_BURST = 200"
definition DEFAULT_REFILL_PER_SEC :: u64 where "DEFAULT_REFILL_PER_SEC = 100"

record Bucket =
  Bucket_tokens :: u64
  Bucket_last_refill_nanos :: u64
  Bucket_capacity :: u64
  Bucket_refill_per_sec :: u64

definition Bucket_new :: "u64 \<Rightarrow> u64 \<Rightarrow> Bucket" where
  "Bucket_new capacity refill_per_sec =
     \<lparr>Bucket_tokens = capacity, Bucket_last_refill_nanos = 0, Bucket_capacity = capacity,
      Bucket_refill_per_sec = refill_per_sec\<rparr>"

text \<open>
  The tokens due for the time since the last refill, computed in 128 bits: the product of two 64-bit
  numbers fits. \<open>as u64\<close> keeps the low 64 bits.
\<close>

definition tokens_due :: "Bucket \<Rightarrow> u64 \<Rightarrow> u64 \<Rightarrow> nat" where
  "tokens_due b last_ns now_ns = unat (now_ns - last_ns) * unat (Bucket_refill_per_sec b) div 1000000000"

definition refilled :: "u64 \<Rightarrow> Bucket \<Rightarrow> u64 \<Rightarrow> u64" where
  "refilled add b cur = min (cur + add) (Bucket_capacity b)"

definition Bucket_try_consume :: "Instant \<Rightarrow> Instant \<Rightarrow> Bucket \<Rightarrow> bool \<times> Bucket" where
  "Bucket_try_consume now base b =
     (let now_ns = (of_nat (now - base) :: u64); last_ns = Bucket_last_refill_nanos b; add = tokens_due b last_ns now_ns;
          b = (if last_ns < now_ns \<and> 0 < add
               then b\<lparr>Bucket_last_refill_nanos := now_ns, Bucket_tokens := refilled (of_nat add) b (Bucket_tokens b)\<rparr>
               else b) in
      if Bucket_tokens b = 0 then (False, b)
      else (True, b\<lparr>Bucket_tokens := Bucket_tokens b - 1\<rparr>))"

section \<open>One thread, one atomic operation at a time\<close>

text \<open>
  Where a call of \<open>try_consume\<close> stands: before the load of the time stamp, before its exchange, before
  the load of the tokens to refill, in the loop that adds, before the load of the tokens to consume, in
  the loop that subtracts, or returned. The flag of a step says whether a weak exchange fails without
  a reason.
\<close>

datatype Pc =
    Pc_LoadStamp u64
  | Pc_SwapStamp u64 u64 u64
  | Pc_LoadRefill u64
  | Pc_SwapRefill u64 u64
  | Pc_LoadTokens
  | Pc_SwapTokens u64
  | Pc_Return bool

fun bucket_step :: "bool \<Rightarrow> Bucket \<Rightarrow> Pc \<Rightarrow> Pc \<times> Bucket" where
  "bucket_step spurious b (Pc_LoadStamp now_ns) =
     (let last_ns = Bucket_last_refill_nanos b; add = tokens_due b last_ns now_ns in
      if last_ns < now_ns \<and> 0 < add then (Pc_SwapStamp last_ns now_ns (of_nat add), b) else (Pc_LoadTokens, b))"
| "bucket_step spurious b (Pc_SwapStamp last_ns now_ns add) =
     (if Bucket_last_refill_nanos b = last_ns
      then (Pc_LoadRefill add, b\<lparr>Bucket_last_refill_nanos := now_ns\<rparr>) else (Pc_LoadTokens, b))"
| "bucket_step spurious b (Pc_LoadRefill add) = (Pc_SwapRefill add (Bucket_tokens b), b)"
| "bucket_step spurious b (Pc_SwapRefill add cur) =
     (if \<not> spurious \<and> Bucket_tokens b = cur
      then (Pc_LoadTokens, b\<lparr>Bucket_tokens := refilled add b cur\<rparr>)
      else (Pc_SwapRefill add (Bucket_tokens b), b))"
| "bucket_step spurious b Pc_LoadTokens = (Pc_SwapTokens (Bucket_tokens b), b)"
| "bucket_step spurious b (Pc_SwapTokens cur) =
     (if cur = 0 then (Pc_Return False, b)
      else if \<not> spurious \<and> Bucket_tokens b = cur then (Pc_Return True, b\<lparr>Bucket_tokens := cur - 1\<rparr>)
      else (Pc_SwapTokens (Bucket_tokens b), b))"
| "bucket_step spurious b (Pc_Return r) = (Pc_Return r, b)"

text \<open>
  The pool: a request arrives with the time it has read, or one of the threads makes its next step. A
  step of a thread that does not exist changes nothing.
\<close>

datatype Action = Action_Call u64 | Action_Step nat bool

type_synonym pool = "Bucket \<times> Pc list"

fun act :: "pool \<Rightarrow> Action \<Rightarrow> pool" where
  "act (b, ps) (Action_Call now_ns) = (b, ps @ [Pc_LoadStamp now_ns])"
| "act (b, ps) (Action_Step i spurious) =
     (if i < length ps then (let (p, b') = bucket_step spurious b (ps ! i) in (b', ps[i := p])) else (b, ps))"

definition run_pool :: "pool \<Rightarrow> Action list \<Rightarrow> pool" where
  "run_pool = foldl act"

definition admitted :: "Pc list \<Rightarrow> nat" where
  "admitted ps = length (filter (\<lambda>p. p = Pc_Return True) ps)"

section \<open>What no interleaving can exceed\<close>

text \<open>
  A refill that has taken its time stamp and not yet added its tokens is pending. The account of the
  bucket: tokens, pending refills and admitted requests together stay below the capacity and the refill
  of the time up to the stamp.
\<close>

fun pending :: "Pc \<Rightarrow> nat" where
  "pending (Pc_LoadRefill add) = unat add"
| "pending (Pc_SwapRefill add cur) = unat add"
| "pending _ = 0"

definition charged :: "Pc \<Rightarrow> nat" where
  "charged p = pending p + (if p = Pc_Return True then 1 else 0)"

fun pc_ok :: "nat \<Rightarrow> u64 \<Rightarrow> Pc \<Rightarrow> bool" where
  "pc_ok rate limit (Pc_LoadStamp now_ns) = (now_ns \<le> limit)"
| "pc_ok rate limit (Pc_SwapStamp last_ns now_ns add) =
     (last_ns < now_ns \<and> now_ns \<le> limit \<and> unat add * 1000000000 \<le> (unat now_ns - unat last_ns) * rate)"
| "pc_ok rate limit _ = True"

definition pool_inv :: "u64 \<Rightarrow> u64 \<Rightarrow> u64 \<Rightarrow> pool \<Rightarrow> bool" where
  "pool_inv capacity rate limit s =
     (let (b, ps) = s in
      Bucket_capacity b = capacity \<and> Bucket_refill_per_sec b = rate \<and> Bucket_tokens b \<le> capacity \<and>
      Bucket_last_refill_nanos b \<le> limit \<and> list_all (pc_ok (unat rate) limit) ps \<and>
      (unat (Bucket_tokens b) + sum_list (map charged ps)) * 1000000000
        \<le> unat capacity * 1000000000 + unat (Bucket_last_refill_nanos b) * unat rate)"

lemma charged_simps [simp]:
  "charged (Pc_LoadStamp n) = 0" "charged (Pc_SwapStamp l n a) = 0" "charged (Pc_LoadRefill a) = unat a"
  "charged (Pc_SwapRefill a c) = unat a" "charged Pc_LoadTokens = 0" "charged (Pc_SwapTokens c) = 0"
  "charged (Pc_Return r) = (if r then 1 else 0)"
  by (simp_all add: charged_def)

lemma unat_plus_le: "unat (a + b) \<le> unat a + unat (b :: 'a::len word)"
  by (simp add: unat_word_ariths)

lemma unat_refilled_le: "unat (refilled add b cur) \<le> unat cur + unat add" "refilled add b cur \<le> Bucket_capacity b"
proof -
  have "unat (refilled add b cur) \<le> unat (cur + add)"
    unfolding refilled_def by (subst word_le_nat_alt [symmetric]) simp
  then show "unat (refilled add b cur) \<le> unat cur + unat add" using unat_plus_le le_trans by blast
qed (simp add: refilled_def)

lemma tokens_due_le:
  assumes "last_ns < now_ns"
  shows "unat (of_nat (tokens_due b last_ns now_ns) :: u64) * 1000000000
    \<le> (unat now_ns - unat last_ns) * unat (Bucket_refill_per_sec b)"
proof -
  have "unat (now_ns - last_ns) = unat now_ns - unat last_ns"
    using assms by (intro unat_sub) simp
  then have "tokens_due b last_ns now_ns * 1000000000 \<le> (unat now_ns - unat last_ns) * unat (Bucket_refill_per_sec b)"
    by (simp add: tokens_due_def)
  moreover have "unat (of_nat (tokens_due b last_ns now_ns) :: u64) \<le> tokens_due b last_ns now_ns"
    by (simp add: unat_of_nat)
  ultimately show ?thesis by (meson le_trans mult_le_mono1)
qed

text \<open>One step, for the thread alone: the account is kept.\<close>

lemma bucket_step_keeps:
  assumes "bucket_step spurious b p = (p', b')"
  shows "Bucket_capacity b' = Bucket_capacity b" and "Bucket_refill_per_sec b' = Bucket_refill_per_sec b"
  using assms by (cases p; auto simp: Let_def split: if_splits)+

lemma bucket_step_ok:
  assumes "bucket_step spurious b p = (p', b')"
    and "pc_ok (unat (Bucket_refill_per_sec b)) limit p" and "Bucket_tokens b \<le> Bucket_capacity b"
    and "Bucket_last_refill_nanos b \<le> limit"
  shows "pc_ok (unat (Bucket_refill_per_sec b)) limit p'" and "Bucket_tokens b' \<le> Bucket_capacity b"
    and "Bucket_last_refill_nanos b' \<le> limit"
proof -
  have *: "cur \<noteq> 0 \<Longrightarrow> cur \<le> c \<Longrightarrow> cur - 1 \<le> c" for cur c :: u64
    using word_not_simps(1) by unat_arith
  show "pc_ok (unat (Bucket_refill_per_sec b)) limit p'"
    using assms by (cases p) (auto simp: Let_def intro: tokens_due_le split: if_splits)
  show "Bucket_tokens b' \<le> Bucket_capacity b"
    using assms by (cases p) (auto simp: Let_def unat_refilled_le * split: if_splits)
  show "Bucket_last_refill_nanos b' \<le> limit"
    using assms by (cases p) (auto simp: Let_def split: if_splits)
qed

lemma bucket_step_account:
  assumes "bucket_step spurious b p = (p', b')"
    and "pc_ok (unat (Bucket_refill_per_sec b)) limit p"
  shows "(unat (Bucket_tokens b') + charged p') * 1000000000 + unat (Bucket_last_refill_nanos b) * unat (Bucket_refill_per_sec b)
      \<le> (unat (Bucket_tokens b) + charged p) * 1000000000 + unat (Bucket_last_refill_nanos b') * unat (Bucket_refill_per_sec b)"
proof (cases p)
  case (Pc_SwapStamp last_ns now_ns add)
  show ?thesis
  proof (cases "Bucket_last_refill_nanos b = last_ns")
    case True
    with assms Pc_SwapStamp have *: "unat add * 1000000000 + unat last_ns * unat (Bucket_refill_per_sec b)
        \<le> unat now_ns * unat (Bucket_refill_per_sec b)"
      by (simp add: diff_mult_distrib) (metis le_diff_conv2 less_or_eq_imp_le mult_le_mono1 unat_mono)
    then show ?thesis using assms True Pc_SwapStamp by (auto simp: algebra_simps)
  qed (use assms Pc_SwapStamp in auto)
next
  case (Pc_SwapRefill add cur)
  then show ?thesis using assms unat_refilled_le(1) [of add b cur] by (auto split: if_splits)
next
  case (Pc_SwapTokens cur)
  moreover have "cur \<noteq> 0 \<Longrightarrow> Suc (unat (cur - 1)) = unat cur" by unat_arith
  ultimately show ?thesis using assms by (auto split: if_splits)
qed (use assms in \<open>auto simp: Let_def split: if_splits\<close>)

lemma sum_list_update_add:
  assumes "i < length xs"
  shows "sum_list (map f (xs[i := x])) + f (xs ! i) = sum_list (map f xs) + (f x :: nat)"
  using assms by (induction xs arbitrary: i) (auto split: nat.splits)

lemma act_inv:
  assumes "pool_inv capacity rate limit s" and "\<And>now_ns. a = Action_Call now_ns \<Longrightarrow> now_ns \<le> limit"
  shows "pool_inv capacity rate limit (act s a)"
proof -
  obtain b ps where s: "s = (b, ps)" by force
  show ?thesis
  proof (cases a)
    case (Action_Call now_ns)
    then show ?thesis using assms by (simp add: pool_inv_def s)
  next
    case (Action_Step i spurious)
    show ?thesis
    proof (cases "i < length ps")
      case True
      obtain p b' where st: "bucket_step spurious b (ps ! i) = (p, b')" by force
      have ok: "pc_ok (unat rate) limit (ps ! i)" and inv: "Bucket_capacity b = capacity" "Bucket_refill_per_sec b = rate"
        "Bucket_tokens b \<le> capacity" "Bucket_last_refill_nanos b \<le> limit" "list_all (pc_ok (unat rate) limit) ps"
        using assms(1) True by (auto simp: pool_inv_def s list_all_length)
      have "list_all (pc_ok (unat rate) limit) (ps[i := p])"
        using bucket_step_ok(1) [OF st] ok inv True by (auto simp: list_all_length nth_list_update)
      moreover have "(unat (Bucket_tokens b') + sum_list (map charged (ps[i := p]))) * 1000000000
          \<le> unat capacity * 1000000000 + unat (Bucket_last_refill_nanos b') * unat rate"
        using bucket_step_account [OF st, unfolded inv(2), OF ok] sum_list_update_add [OF True, of charged p] assms(1)
        unfolding pool_inv_def s by simp
      ultimately show ?thesis
        using bucket_step_ok [OF st] bucket_step_keeps [OF st] ok inv True
        by (simp add: Action_Step s st pool_inv_def)
    qed (use assms in \<open>simp add: Action_Step s\<close>)
  qed
qed

lemma run_pool_inv:
  assumes "pool_inv capacity rate limit s" and "list_all (\<lambda>a. \<forall>now_ns. a = Action_Call now_ns \<longrightarrow> now_ns \<le> limit) as"
  shows "pool_inv capacity rate limit (run_pool s as)"
  using assms unfolding run_pool_def by (induction as arbitrary: s) (simp_all add: act_inv)

lemma admitted_le: "admitted ps \<le> sum_list (map charged ps)"
  unfolding admitted_def by (induction ps) (auto simp: charged_def)

lemma new_bucket_inv: "pool_inv capacity rate limit (Bucket_new capacity rate, [])"
  by (simp add: pool_inv_def Bucket_new_def)

text \<open>
  C12: The rate limit under concurrency. Take a fresh bucket and let any number of requests call
  \<open>try_consume\<close> on it, each with a clock reading of at most \<open>limit\<close> nanoseconds since the start,
  their atomic operations interleaved in any order, weak exchanges failing at will. At every moment the
  bucket holds at most its capacity, and the requests admitted so far are at most the capacity plus
  what the refill rate gives for the time up to \<open>limit\<close>: no interleaving counts a refill twice and no
  addition that wraps around gives tokens away.
\<close>

theorem rate_limit_bound:
  assumes "run_pool (Bucket_new capacity rate, []) as = (b, ps)"
    and "list_all (\<lambda>a. \<forall>now_ns. a = Action_Call now_ns \<longrightarrow> now_ns \<le> limit) as"
  shows "Bucket_tokens b \<le> capacity \<and>
    admitted ps * 1000000000 \<le> unat capacity * 1000000000 + unat limit * unat rate"
proof -
  have inv: "pool_inv capacity rate limit (b, ps)"
    using run_pool_inv [OF new_bucket_inv assms(2)] assms(1) by metis
  then have "unat (Bucket_last_refill_nanos b) * unat rate \<le> unat limit * unat rate"
    by (simp add: pool_inv_def word_le_nat_alt)
  moreover have "(unat (Bucket_tokens b) + sum_list (map charged ps)) * 1000000000
      \<le> unat capacity * 1000000000 + unat (Bucket_last_refill_nanos b) * unat rate" and "Bucket_tokens b \<le> capacity"
    using inv by (simp_all add: pool_inv_def)
  moreover have "admitted ps * 1000000000 \<le> (unat (Bucket_tokens b) + sum_list (map charged ps)) * 1000000000"
    using admitted_le [of ps] by simp
  ultimately show ?thesis by linarith
qed

section \<open>The ideal bucket\<close>










section \<open>One bucket for each realm\<close>

record PerRealmRateLimiter =
  PerRealmRateLimiter_buckets :: "(RealmId, Bucket) hash_map"
  PerRealmRateLimiter_base :: Instant
  PerRealmRateLimiter_default_capacity :: u64
  PerRealmRateLimiter_default_refill_per_sec :: u64

definition PerRealmRateLimiter_new :: "Instant \<Rightarrow> u64 \<Rightarrow> u64 \<Rightarrow> PerRealmRateLimiter" where
  "PerRealmRateLimiter_new now default_capacity default_refill_per_sec =
     \<lparr>PerRealmRateLimiter_buckets = [], PerRealmRateLimiter_base = now,
      PerRealmRateLimiter_default_capacity = default_capacity,
      PerRealmRateLimiter_default_refill_per_sec = default_refill_per_sec\<rparr>"

definition default_v0_1 :: "Instant \<Rightarrow> PerRealmRateLimiter" where
  "default_v0_1 now = PerRealmRateLimiter_new now DEFAULT_BURST DEFAULT_REFILL_PER_SEC"

definition bucket_of :: "RealmId \<Rightarrow> PerRealmRateLimiter \<Rightarrow> Bucket" where
  "bucket_of realm lim =
     (case map_of (PerRealmRateLimiter_buckets lim) realm of
        Some b \<Rightarrow> b
      | None \<Rightarrow> Bucket_new (PerRealmRateLimiter_default_capacity lim) (PerRealmRateLimiter_default_refill_per_sec lim))"

definition PerRealmRateLimiter_try_consume ::
  "Instant \<Rightarrow> RealmId \<Rightarrow> PerRealmRateLimiter \<Rightarrow> bool \<times> PerRealmRateLimiter" where
  "PerRealmRateLimiter_try_consume now realm lim =
     (let (ok, b) = Bucket_try_consume now (PerRealmRateLimiter_base lim) (bucket_of realm lim) in
      (ok, lim\<lparr>PerRealmRateLimiter_buckets := hm_insert realm b (PerRealmRateLimiter_buckets lim)\<rparr>))"

text \<open>
  \<open>1.0 / rate\<close> rounded up, and at least one: for a positive rate the quotient lies in the half-open
  interval from 0 to 1.
\<close>

definition retry_after_secs :: "u64 \<Rightarrow> u32" where
  "retry_after_secs refill_per_sec =
     (if refill_per_sec = 0 then 60
      else max (of_nat ((1 + unat refill_per_sec - 1) div unat refill_per_sec)) 1)"

section \<open>Both tiers and the middleware\<close>

text \<open>
  The reply of the Redis script is the counter of the window or an error; an error admits.
\<close>

record ClusterRateLimiter =
  ClusterRateLimiter_max_per_window :: u64
  ClusterRateLimiter_window_secs :: i64

definition ClusterRateLimiter_new :: "u64 \<Rightarrow> ClusterRateLimiter" where
  "ClusterRateLimiter_new max_per_window =
     \<lparr>ClusterRateLimiter_max_per_window = max_per_window, ClusterRateLimiter_window_secs = 1\<rparr>"

definition ClusterRateLimiter_try_consume ::
  "'l KmsLib_scheme \<Rightarrow> (string \<Rightarrow> i64 \<Rightarrow> string + u64) \<Rightarrow> RealmId \<Rightarrow> ClusterRateLimiter \<Rightarrow> bool" where
  "ClusterRateLimiter_try_consume lib script realm cl =
     (case script (''geonosis:rl:'' @ RealmId_to_string lib realm) (ClusterRateLimiter_window_secs cl) of
        Inl e \<Rightarrow> True
      | Inr n \<Rightarrow> n \<le> ClusterRateLimiter_max_per_window cl)"

record CompositeRateLimiter =
  CompositeRateLimiter_local :: PerRealmRateLimiter
  CompositeRateLimiter_cluster :: "ClusterRateLimiter option"

definition local_only :: "Instant \<Rightarrow> CompositeRateLimiter" where
  "local_only now = \<lparr>CompositeRateLimiter_local = default_v0_1 now, CompositeRateLimiter_cluster = None\<rparr>"

definition with_redis :: "Instant \<Rightarrow> u64 \<Rightarrow> CompositeRateLimiter" where
  "with_redis now cluster_max =
     \<lparr>CompositeRateLimiter_local = default_v0_1 now,
      CompositeRateLimiter_cluster = Some (ClusterRateLimiter_new cluster_max)\<rparr>"

definition CompositeRateLimiter_try_consume ::
  "'l KmsLib_scheme \<Rightarrow> (string \<Rightarrow> i64 \<Rightarrow> string + u64) \<Rightarrow> Instant \<Rightarrow> RealmId \<Rightarrow> CompositeRateLimiter \<Rightarrow>
   bool \<times> CompositeRateLimiter" where
  "CompositeRateLimiter_try_consume lib script now realm lim =
     (if (case CompositeRateLimiter_cluster lim of
            Some cl \<Rightarrow> ClusterRateLimiter_try_consume lib script realm cl | None \<Rightarrow> True)
      then (let (ok, l) = PerRealmRateLimiter_try_consume now realm (CompositeRateLimiter_local lim) in
            (ok, lim\<lparr>CompositeRateLimiter_local := l\<rparr>))
      else (False, lim))"

text \<open>The answer: what the inner handler answers, or status 429 with its headers.\<close>

datatype 'r Limited = Limited_Next 'r | Limited_TooMany "(string \<times> string) list" string

definition limit_per_realm ::
  "'l KmsLib_scheme \<Rightarrow> (string \<Rightarrow> i64 \<Rightarrow> string + u64) \<Rightarrow> Instant \<Rightarrow> string \<Rightarrow> (AppState \<Rightarrow> 'r \<times> AppState) \<Rightarrow>
   CompositeRateLimiter \<Rightarrow> AppState \<Rightarrow> 'r Limited \<times> CompositeRateLimiter \<times> AppState" where
  "limit_per_realm lib script now slug next_run lim state =
     (case get_realm_by_slug slug (AppState_storage state) of
        Inl _ \<Rightarrow> (let (r, state) = next_run state in (Limited_Next r, lim, state))
      | Inr realm \<Rightarrow>
          (let (ok, lim) = CompositeRateLimiter_try_consume lib script now (Realm_id realm) lim in
           if ok then (let (r, state) = next_run state in (Limited_Next r, lim, state))
           else (Limited_TooMany
                   [(''retry-after'', show_nat (unat (retry_after_secs DEFAULT_REFILL_PER_SEC))),
                    (''content-type'', ''application/json'')]
                   ''{\"error\":\"rate_limited\",\"error_description\":\"realm bucket exhausted\"}'', lim, state)))"

section \<open>Realms do not disturb each other\<close>

type_synonym script = "string \<Rightarrow> i64 \<Rightarrow> string + u64"

fun limiter_run ::
  "'l KmsLib_scheme \<Rightarrow> (Instant \<times> RealmId \<times> script) list \<Rightarrow> CompositeRateLimiter \<Rightarrow> (RealmId \<times> bool) list" where
  "limiter_run lib [] lim = []"
| "limiter_run lib ((now, realm, script) # rs) lim =
     (let (ok, lim) = CompositeRateLimiter_try_consume lib script now realm lim in (realm, ok) # limiter_run lib rs lim)"

text \<open>Two limiters that a realm cannot tell apart.\<close>

definition same_for :: "RealmId \<Rightarrow> CompositeRateLimiter \<Rightarrow> CompositeRateLimiter \<Rightarrow> bool" where
  "same_for realm l m \<longleftrightarrow>
     CompositeRateLimiter_cluster l = CompositeRateLimiter_cluster m \<and>
     PerRealmRateLimiter_base (CompositeRateLimiter_local l) = PerRealmRateLimiter_base (CompositeRateLimiter_local m) \<and>
     bucket_of realm (CompositeRateLimiter_local l) = bucket_of realm (CompositeRateLimiter_local m)"

lemma bucket_of_insert [simp]:
  "bucket_of realm (lim\<lparr>PerRealmRateLimiter_buckets := hm_insert other b (PerRealmRateLimiter_buckets lim)\<rparr>) =
     (if realm = other then b else bucket_of realm lim)"
  by (simp add: bucket_of_def split: option.split)

lemma try_consume_frames:
  assumes "CompositeRateLimiter_try_consume lib script now other l = (ok, l')" and "other \<noteq> realm"
  shows "same_for realm l' l"
  using assms by (auto simp: CompositeRateLimiter_try_consume_def PerRealmRateLimiter_try_consume_def same_for_def
      split: if_splits prod.splits)

lemma try_consume_same:
  assumes "CompositeRateLimiter_try_consume lib script now realm l = (ok, l')" and "same_for realm l m"
  shows "\<exists>m'. CompositeRateLimiter_try_consume lib script now realm m = (ok, m') \<and> same_for realm l' m'"
  using assms by (auto simp: CompositeRateLimiter_try_consume_def PerRealmRateLimiter_try_consume_def same_for_def
      split: if_splits prod.splits)

lemma same_for_trans: "same_for realm l m \<Longrightarrow> same_for realm m n \<Longrightarrow> same_for realm l n"
  by (simp add: same_for_def)

lemma limiter_run_same:
  assumes "same_for realm l m"
  shows "filter (\<lambda>v. fst v = realm) (limiter_run lib rs l) = limiter_run lib (filter (\<lambda>r. fst (snd r) = realm) rs) m"
  using assms
proof (induction lib rs l arbitrary: m rule: limiter_run.induct)
  case (2 lib now other script rs l)
  obtain ok l' where step: "CompositeRateLimiter_try_consume lib script now other l = (ok, l')" by force
  show ?case
  proof (cases "other = realm")
    case True
    then show ?thesis using 2 step try_consume_same [of lib script now realm l ok l' m] by auto
  next
    case False
    then have "same_for realm l' m" using try_consume_frames [OF step] 2(2) same_for_trans by blast
    then show ?thesis using 2(1) [OF step [symmetric] refl] False step by simp
  qed
qed simp

text \<open>
  Realms are isolated from each other. In any sequence of requests, to any realms and whatever the
  cluster tier answers, the verdicts on the requests of one realm are those the limiter would give if
  the requests of the other realms had never been made: no realm can use up the tokens of another.
\<close>

theorem realm_isolation:
  "filter (\<lambda>v. fst v = realm) (limiter_run lib rs lim) = limiter_run lib (filter (\<lambda>r. fst (snd r) = realm) rs) lim"
  by (rule limiter_run_same) (simp add: same_for_def)

section \<open>Refills drop the fraction\<close>

text \<open>
  Ten milliseconds are worth one token at the default rate. Requests that come every fifteen
  milliseconds are worth three tokens in thirty milliseconds; the refills add two, because each of them
  sets the stamp to the time of the request and not to the time the whole token was due.
\<close>

theorem refill_drops_fraction:
  "let b = (Bucket_new 200 100)\<lparr>Bucket_tokens := 0\<rparr>;
       (ok1, b1) = Bucket_try_consume 15000000 0 b; (ok2, b2) = Bucket_try_consume 30000000 0 b1 in
   ok1 \<and> ok2 \<and> \<not> fst (Bucket_try_consume 30000000 0 b2) \<and> tokens_due b 0 30000000 = 3"
  by (simp add: Bucket_try_consume_def Bucket_new_def tokens_due_def refilled_def Let_def min_def)

section \<open>Concrete runs\<close>

definition sample_schedule :: "Action list" where
  "sample_schedule = [Action_Call 5000000000, Action_Call 5000000000, Action_Step 0 False, Action_Step 1 False,
     Action_Step 0 False, Action_Step 1 False, Action_Step 0 False, Action_Step 0 True, Action_Step 0 False,
     Action_Step 0 False, Action_Step 0 False, Action_Step 1 False, Action_Step 1 False]"

theorem rate_limit_bound_witness:
  "\<exists>b ps. run_pool (Bucket_new 1 2, []) sample_schedule = (b, ps) \<and> ps = [Pc_Return True, Pc_Return False] \<and>
     Bucket_tokens b \<le> 1 \<and> admitted ps * 1000000000 \<le> unat (1 :: u64) * 1000000000 + unat (5000000000 :: u64) * unat (2 :: u64)"
proof -
  have "run_pool (Bucket_new 1 2, []) sample_schedule =
      (\<lparr>Bucket_tokens = 0, Bucket_last_refill_nanos = 5000000000, Bucket_capacity = 1, Bucket_refill_per_sec = 2\<rparr>,
       [Pc_Return True, Pc_Return False])" (is "_ = (?b, ?ps)")
    by (simp add: run_pool_def sample_schedule_def Bucket_new_def tokens_due_def refilled_def min_def Let_def
        word_le_nat_alt)
  then show ?thesis
    using rate_limit_bound [of 1 2 sample_schedule ?b ?ps 5000000000]
    by (simp add: sample_schedule_def)
qed


end
