(* ===== verification/Std_Xml.thy ===== *)
theory Std_Xml
  imports Saml_Idp
begin

text \<open>
  What the SAML parsers see of an XML document: the events of the pull reader \<open>quick-xml\<close>, which is
  third-party code and hence an argument, and the searches in text with which they cut out elements.
  An event carries names as written, attributes with the result of unescaping them (\<open>None\<close> when that
  fails) and text with it (or the error); attributes the reader cannot parse are not delivered. Comments, declarations,
  processing instructions and CDATA sections are \<open>XmlEvent_Other\<close>.
\<close>

type_synonym xml_attrs = "(string \<times> string option) list"

datatype XmlEvent =
    XmlEvent_Start string xml_attrs
  | XmlEvent_Empty string xml_attrs
  | XmlEvent_Text "string + string"
  | XmlEvent_End string
  | XmlEvent_Other

text \<open>
  A reader gives the events up to the end of the document, or up to an error with its message and
  position.
\<close>

type_synonym xml_reader = "string \<Rightarrow> XmlEvent list \<times> (string \<times> nat) option"

text \<open>\<open>qn.rsplit(':').next()\<close>: the name after the last colon.\<close>

definition local_name :: "string \<Rightarrow> string" where
  "local_name qn = last (split_char CHR '':'' qn)"

text \<open>\<open>unwrap_or_default\<close> on a text.\<close>

definition text_or_empty :: "string + string \<Rightarrow> string" where
  "text_or_empty t = (case t of Inr s \<Rightarrow> s | Inl _ \<Rightarrow> [])"

section \<open>Searching in text\<close>

definition str_contains :: "string \<Rightarrow> string \<Rightarrow> bool" where
  "str_contains s pat = (str_find pat s \<noteq> None)"

definition char_rfind :: "char \<Rightarrow> string \<Rightarrow> nat option" where
  "char_rfind c s = (if c \<in> set s then Some (length s - 1 - length (takeWhile (\<lambda>x. x \<noteq> c) (rev s))) else None)"

fun find_char :: "(char \<Rightarrow> bool) \<Rightarrow> string \<Rightarrow> nat option" where
  "find_char P [] = None"
| "find_char P (x # xs) = (if P x then Some 0 else map_option Suc (find_char P xs))"

lemma str_find_length: "str_find pat s = Some n \<Longrightarrow> n + length pat \<le> length s"
  by (induction pat s arbitrary: n rule: str_find.induct)
    (auto simp: starts_with_iff dest: arg_cong [of _ _ length] split: if_splits)

text \<open>The first position at which one of several texts occurs: \<open>filter_map(find).min()\<close>.\<close>

definition first_of :: "string list \<Rightarrow> string \<Rightarrow> nat option" where
  "first_of pats s = (case List.map_filter (\<lambda>p. str_find p s) pats of [] \<Rightarrow> None | ns \<Rightarrow> Some (Min (set ns)))"

text \<open>The end of the first occurrence of the first of several texts that occurs.\<close>

fun end_of :: "string list \<Rightarrow> string \<Rightarrow> nat option" where
  "end_of [] s = None"
| "end_of (p # ps) s = (case str_find p s of Some n \<Rightarrow> Some (n + length p) | None \<Rightarrow> end_of ps s)"

lemma end_of_pos: "end_of pats s = Some n \<Longrightarrow> list_all (\<lambda>p. p \<noteq> []) pats \<Longrightarrow> 0 < n \<and> n \<le> length s"
  by (induction pats) (auto dest: str_find_length split: option.splits)

end
