(* ===== verification/Broker_Mapper.thy ===== *)
theory Broker_Mapper
  imports Std_Xml
begin

text \<open>
  What an identity provider's assertion contributes to a local account,
  \<^verbatim>\<open>crates/geonosis-broker/src\<close> \<open>mapper.rs\<close> (with the assertion of \<open>types.rs\<close> and the verifier pair
  of \<open>pkce.rs\<close>): the mappers of an identity provider run in the order of their priority over a draft
  of the user. Shown: the roles and organizations a draft ends with are those it had and those whose
  predicate the assertion meets, each once; a template is expanded placeholder by placeholder.
\<close>

section \<open>Assertions, bindings, drafts\<close>

record BrokerAssertion =
  BrokerAssertion_idp_alias :: string
  BrokerAssertion_external_id :: string
  BrokerAssertion_issuer :: string
  BrokerAssertion_claims :: "(string, AttributeValue) btree_map"
  BrokerAssertion_received_at :: DateTime
  BrokerAssertion_expires_at :: "DateTime option"

datatype MapperKind =
    MapperKind_ClaimToAttribute string string bool
  | MapperKind_ClaimToRole string "string list" bool string
  | MapperKind_ClaimToOrg string "string list" bool string "string option"
  | MapperKind_UsernameTemplate string
  | MapperKind_EmailVerifiedPassthrough

record MapperBinding =
  MapperBinding_name :: string
  MapperBinding_priority :: i32
  MapperBinding_kind :: MapperKind

record DraftOrgAssignment =
  DraftOrgAssignment_org_alias :: string
  DraftOrgAssignment_role :: "string option"

record DraftUser =
  DraftUser_username :: "string option"
  DraftUser_email :: "string option"
  DraftUser_email_verified :: bool
  DraftUser_attributes :: "(string, AttributeValue) btree_map"
  DraftUser_roles :: "string list"
  DraftUser_org_assignments :: "DraftOrgAssignment list"

definition DraftUser_default :: DraftUser where
  "DraftUser_default = \<lparr>DraftUser_username = None, DraftUser_email = None, DraftUser_email_verified = False,
     DraftUser_attributes = [], DraftUser_roles = [], DraftUser_org_assignments = []\<rparr>"

section \<open>The mappers\<close>

definition bool_to_string :: "bool \<Rightarrow> string" where
  "bool_to_string b = (if b then ''true'' else ''false'')"

fun render_attribute_value :: "'l SamlLib_scheme \<Rightarrow> AttributeValue \<Rightarrow> string" where
  "render_attribute_value lib (AttributeValue_String s) = s"
| "render_attribute_value lib (AttributeValue_Strings arr) = (case arr of [] \<Rightarrow> [] | s # _ \<Rightarrow> s)"
| "render_attribute_value lib (AttributeValue_Integer i) = show_int i"
| "render_attribute_value lib (AttributeValue_Bool b) = bool_to_string b"
| "render_attribute_value lib (AttributeValue_Float f) = f64_to_string lib f"
| "render_attribute_value lib AttributeValue_Null = []"

text \<open>
  The loop of \<open>expand_template\<close>. When a placeholder is not closed, the code pushes the text from the
  placeholder on, leaves the loop and then pushes the whole remaining text once more.
\<close>

function expand_template :: "'l SamlLib_scheme \<Rightarrow> string \<Rightarrow> BrokerAssertion \<Rightarrow> string" where
  "expand_template lib rest assertion =
     (case str_find ''${'' rest of
        None \<Rightarrow> rest
      | Some start \<Rightarrow>
          (let after = drop (start + 2) rest in
           case str_find ''}'' after of
             Some n \<Rightarrow> take start rest @
               (case map_of (BrokerAssertion_claims assertion) (take n after) of
                  Some v \<Rightarrow> render_attribute_value lib v | None \<Rightarrow> []) @
               expand_template lib (drop (n + 1) after) assertion
           | None \<Rightarrow> take start rest @ drop start rest @ rest))"
  by pat_completeness auto
termination
  by (relation "measure (\<lambda>(lib, rest, assertion). length rest)") (auto dest!: str_find_length)

declare expand_template.simps [simp del]

definition claim_matches :: "BrokerAssertion \<Rightarrow> string \<Rightarrow> string list \<Rightarrow> bool \<Rightarrow> bool" where
  "claim_matches assertion claim values match_any =
     (case map_of (BrokerAssertion_claims assertion) claim of
        Some (AttributeValue_String s) \<Rightarrow> s \<in> set values
      | Some (AttributeValue_Strings arr) \<Rightarrow>
          if match_any then list_ex (\<lambda>item. item \<in> set values) arr else list_all (\<lambda>item. item \<in> set values) arr
      | Some (AttributeValue_Bool b) \<Rightarrow> bool_to_string b \<in> set values
      | _ \<Rightarrow> False)"

fun apply_one :: "'l SamlLib_scheme \<Rightarrow> MapperKind \<Rightarrow> BrokerAssertion \<Rightarrow> DraftUser \<Rightarrow> DraftUser" where
  "apply_one lib (MapperKind_ClaimToAttribute claim attribute overwrite) assertion draft =
     (case map_of (BrokerAssertion_claims assertion) claim of
        Some v \<Rightarrow>
          if overwrite \<or> map_of (DraftUser_attributes draft) attribute = None
          then draft\<lparr>DraftUser_attributes := bt_insert attribute v (DraftUser_attributes draft)\<rparr> else draft
      | None \<Rightarrow> draft)"
| "apply_one lib (MapperKind_ClaimToRole claim values match_any role) assertion draft =
     (if claim_matches assertion claim values match_any \<and> role \<notin> set (DraftUser_roles draft)
      then draft\<lparr>DraftUser_roles := DraftUser_roles draft @ [role]\<rparr> else draft)"
| "apply_one lib (MapperKind_ClaimToOrg claim values match_any org_alias role) assertion draft =
     (if claim_matches assertion claim values match_any \<and>
         \<not> list_ex (\<lambda>a. DraftOrgAssignment_org_alias a = org_alias) (DraftUser_org_assignments draft)
      then draft\<lparr>DraftUser_org_assignments := DraftUser_org_assignments draft @
             [\<lparr>DraftOrgAssignment_org_alias = org_alias, DraftOrgAssignment_role = role\<rparr>]\<rparr>
      else draft)"
| "apply_one lib (MapperKind_UsernameTemplate template) assertion draft =
     (let resolved = expand_template lib template assertion in
      if resolved \<noteq> [] then draft\<lparr>DraftUser_username := Some resolved\<rparr> else draft)"
| "apply_one lib MapperKind_EmailVerifiedPassthrough assertion draft =
     (case map_of (BrokerAssertion_claims assertion) ''email_verified'' of
        Some (AttributeValue_Bool v) \<Rightarrow> draft\<lparr>DraftUser_email_verified := v\<rparr>
      | _ \<Rightarrow> draft)"

text \<open>\<open>sort_by_key\<close> is stable, as \<open>sort_key\<close> is.\<close>

definition apply_all :: "'l SamlLib_scheme \<Rightarrow> MapperBinding list \<Rightarrow> BrokerAssertion \<Rightarrow> DraftUser \<Rightarrow> DraftUser" where
  "apply_all lib bindings assertion draft =
     fold (\<lambda>b d. apply_one lib (MapperBinding_kind b) assertion d) (sort_key MapperBinding_priority bindings) draft"

section \<open>The PKCE pair (\<open>pkce.rs\<close>)\<close>

record PkcePair =
  PkcePair_verifier :: string
  PkcePair_challenge :: string

definition PkcePair_challenge_for :: "'l CryptoLib_scheme \<Rightarrow> string \<Rightarrow> string" where
  "PkcePair_challenge_for lib verifier = base64_url_no_pad lib (sha256_digest lib verifier)"

definition PkcePair_generate :: "'l CryptoLib_scheme \<Rightarrow> string \<Rightarrow> PkcePair" where
  "PkcePair_generate lib buf =
     (let verifier = base64_url_no_pad lib buf in
      \<lparr>PkcePair_verifier = verifier, PkcePair_challenge = PkcePair_challenge_for lib verifier\<rparr>)"

section \<open>What the mappers grant\<close>

text \<open>
  When a claim meets a predicate, independently of how the code decides it: the claim is present and
  reads as a set of texts (numbers and null do not), and that set meets the configured values, with
  \<open>match_any\<close>, or lies within them, without. A claim that is one text makes no difference between the
  two; an empty list lies within every set of values.
\<close>

fun claim_texts :: "AttributeValue \<Rightarrow> string set option" where
  "claim_texts (AttributeValue_String s) = Some {s}"
| "claim_texts (AttributeValue_Strings arr) = Some (set arr)"
| "claim_texts (AttributeValue_Bool True) = Some {''true''}"
| "claim_texts (AttributeValue_Bool False) = Some {''false''}"
| "claim_texts _ = None"

definition claim_met :: "BrokerAssertion \<Rightarrow> string \<Rightarrow> string set \<Rightarrow> bool \<Rightarrow> bool" where
  "claim_met a claim values match_any \<longleftrightarrow>
     (\<exists>v texts. map_of (BrokerAssertion_claims a) claim = Some v \<and> claim_texts v = Some texts \<and>
        (if match_any then texts \<inter> values \<noteq> {} else texts \<subseteq> values))"

lemma claim_matches_iff: "claim_matches a claim values match_any \<longleftrightarrow> claim_met a claim (set values) match_any"
proof (cases "map_of (BrokerAssertion_claims a) claim")
  case (Some v)
  then show ?thesis
    by (cases v rule: claim_texts.cases)
      (auto simp: claim_matches_def claim_met_def bool_to_string_def list_ex_iff list_all_iff)
qed (simp add: claim_matches_def claim_met_def)

text \<open>The role and the organization a mapper grants.\<close>

fun granted_role :: "BrokerAssertion \<Rightarrow> MapperKind \<Rightarrow> string option" where
  "granted_role assertion (MapperKind_ClaimToRole claim values match_any role) =
     (if claim_matches assertion claim values match_any then Some role else None)"
| "granted_role assertion _ = None"

fun granted_org :: "BrokerAssertion \<Rightarrow> MapperKind \<Rightarrow> string option" where
  "granted_org assertion (MapperKind_ClaimToOrg claim values match_any org_alias role) =
     (if claim_matches assertion claim values match_any then Some org_alias else None)"
| "granted_org assertion _ = None"

lemma granted_iff:
  "granted_role a k = Some role \<longleftrightarrow>
     (\<exists>claim values any. k = MapperKind_ClaimToRole claim values any role \<and> claim_met a claim (set values) any)"
  "granted_org a k = Some org \<longleftrightarrow>
     (\<exists>claim values any r. k = MapperKind_ClaimToOrg claim values any org r \<and> claim_met a claim (set values) any)"
  by (cases k; simp add: claim_matches_iff; blast)+

definition draft_orgs :: "DraftUser \<Rightarrow> string list" where
  "draft_orgs d = map DraftOrgAssignment_org_alias (DraftUser_org_assignments d)"

lemma apply_one_roles:
  "set (DraftUser_roles (apply_one lib k a d)) = set (DraftUser_roles d) \<union> set_option (granted_role a k)"
  "distinct (DraftUser_roles d) \<Longrightarrow> distinct (DraftUser_roles (apply_one lib k a d))"
  by (cases k; auto simp: Let_def split: option.splits AttributeValue.splits)+

lemma apply_one_orgs:
  "set (draft_orgs (apply_one lib k a d)) = set (draft_orgs d) \<union> set_option (granted_org a k)"
  "distinct (draft_orgs d) \<Longrightarrow> distinct (draft_orgs (apply_one lib k a d))"
  by (cases k; auto simp: draft_orgs_def list_ex_iff Let_def split: option.splits AttributeValue.splits)+

lemma fold_apply_roles:
  "set (DraftUser_roles (fold (\<lambda>b d. apply_one lib (f b) a d) bs d)) =
     set (DraftUser_roles d) \<union> (\<Union>b \<in> set bs. set_option (granted_role a (f b)))"
  "distinct (DraftUser_roles d) \<Longrightarrow> distinct (DraftUser_roles (fold (\<lambda>b d. apply_one lib (f b) a d) bs d))"
  by (induction bs arbitrary: d) (auto simp: apply_one_roles)

lemma fold_apply_orgs:
  "set (draft_orgs (fold (\<lambda>b d. apply_one lib (f b) a d) bs d)) =
     set (draft_orgs d) \<union> (\<Union>b \<in> set bs. set_option (granted_org a (f b)))"
  "distinct (draft_orgs d) \<Longrightarrow> distinct (draft_orgs (fold (\<lambda>b d. apply_one lib (f b) a d) bs d))"
  by (induction bs arbitrary: d) (auto simp: apply_one_orgs)

lemma default_draft: "DraftUser_roles DraftUser_default = []" "draft_orgs DraftUser_default = []"
  by (simp_all add: DraftUser_default_def draft_orgs_def)

text \<open>
  C21: What the mappers of an identity provider grant. After all bindings have run over a fresh draft,
  in the order of their priorities, the draft names exactly the roles, and proposes exactly the
  organizations, of the bindings whose claim is present as text, as a list of texts or as a truth value
  and meets the values of the binding: with \<open>match_any\<close> one of its texts is among them, without it all
  are -- so that a list of several texts may grant and the empty list always does. Each is named once.
\<close>

theorem mapped_grants_exact:
  "set (DraftUser_roles (apply_all lib bindings a DraftUser_default)) =
     {role. \<exists>b claim values any. b \<in> set bindings \<and>
        MapperBinding_kind b = MapperKind_ClaimToRole claim values any role \<and> claim_met a claim (set values) any} \<and>
   set (draft_orgs (apply_all lib bindings a DraftUser_default)) =
     {org. \<exists>b claim values any r. b \<in> set bindings \<and>
        MapperBinding_kind b = MapperKind_ClaimToOrg claim values any org r \<and> claim_met a claim (set values) any} \<and>
   distinct (DraftUser_roles (apply_all lib bindings a DraftUser_default)) \<and>
   distinct (draft_orgs (apply_all lib bindings a DraftUser_default))"
proof -
  have "set_option x = {y. x = Some y}" for x :: "string option" by (cases x) auto
  then show ?thesis
    by (auto simp: apply_all_def fold_apply_roles fold_apply_orgs default_draft granted_iff)
qed

section \<open>Templates\<close>

text \<open>
  A template read as a list of segments, literal text and placeholders, and what it stands for.
\<close>

datatype Segment = Literal string | Placeholder string

fun segment_text :: "Segment \<Rightarrow> string" where
  "segment_text (Literal s) = s"
| "segment_text (Placeholder key) = ''${'' @ key @ ''}''"

fun segment_ok :: "Segment \<Rightarrow> bool" where
  "segment_ok (Literal s) = (CHR ''$'' \<notin> set s)"
| "segment_ok (Placeholder key) = (CHR ''}'' \<notin> set key)"

fun segment_value :: "'l SamlLib_scheme \<Rightarrow> BrokerAssertion \<Rightarrow> Segment \<Rightarrow> string" where
  "segment_value lib a (Literal s) = s"
| "segment_value lib a (Placeholder key) =
     (case map_of (BrokerAssertion_claims a) key of Some v \<Rightarrow> render_attribute_value lib v | None \<Rightarrow> [])"

lemma expand_literal:
  assumes "CHR ''$'' \<notin> set s"
  shows "expand_template lib (s @ rest) a =
    (case str_find ''${'' rest of
       None \<Rightarrow> s @ rest | Some n \<Rightarrow> (case str_find ''}'' (drop (n + 2) rest) of
         Some _ \<Rightarrow> s @ expand_template lib rest a | None \<Rightarrow> s @ rest @ s @ rest))"
  using assms by (subst (1 2) expand_template.simps) (auto simp: str_find_skip Let_def split: option.split)

lemma expand_placeholder:
  assumes "CHR ''}'' \<notin> set key"
  shows "expand_template lib (''${'' @ key @ ''}'' @ rest) a =
    segment_value lib a (Placeholder key) @ expand_template lib rest a"
proof -
  have "str_find ''${'' (''${'' @ key @ ''}'' @ rest) = Some 0" by (rule str_find_here)
  moreover have "str_find ''}'' (key @ ''}'' @ rest) = Some (length key)"
    using assms by (subst str_find_skip) (simp_all add: starts_with_iff)
  ultimately show ?thesis by (subst expand_template.simps) (simp add: Let_def)
qed

lemma closed_segments:
  assumes "list_all segment_ok segs"
  shows "str_find ''${'' (concat (map segment_text segs)) = None \<and> expand_template lib (concat (map segment_text segs)) a =
      concat (map segment_text segs) \<and> concat (map (segment_value lib a) segs) = concat (map segment_text segs) \<or>
    (\<exists>n m. str_find ''${'' (concat (map segment_text segs)) = Some n \<and>
      str_find ''}'' (drop (n + 2) (concat (map segment_text segs))) = Some m)"
  using assms
proof (induction segs)
  case Nil
  then show ?case by (simp add: expand_template.simps)
next
  case (Cons x segs)
  show ?case
  proof (cases x)
    case (Placeholder key)
    have "str_find ''${'' (concat (map segment_text (x # segs))) = Some 0"
      using str_find_here [of "CHR ''$''" "''{''"] Placeholder by simp
    moreover have "str_find ''}'' (key @ ''}'' @ concat (map segment_text segs)) = Some (length key)"
      using Cons.prems Placeholder by (subst str_find_skip) (simp_all add: starts_with_iff)
    ultimately show ?thesis using Placeholder by auto
  next
    case (Literal s)
    then have "str_find ''${'' (concat (map segment_text (x # segs))) =
        map_option ((+) (length s)) (str_find ''${'' (concat (map segment_text segs)))"
      using Cons.prems by (simp add: str_find_skip)
    then show ?thesis using Cons Literal by (auto simp: expand_literal)
  qed
qed

text \<open>
  C22: Template expansion. A template made of literal text without dollar signs and of closed
  placeholders, in any order and number, expands to the literal texts and the rendered values of the
  claims, in that order; a placeholder whose claim is missing gives nothing.
\<close>

theorem expand_template_spec:
  assumes "list_all segment_ok segs"
  shows "expand_template lib (concat (map segment_text segs)) a = concat (map (segment_value lib a) segs)"
  using assms
proof (induction segs)
  case Nil
  then show ?case by (simp add: expand_template.simps)
next
  case (Cons x segs)
  show ?case
  proof (cases x)
    case (Literal s)
    then show ?thesis using Cons closed_segments [of segs lib a] by (auto simp: expand_literal)
  next
    case (Placeholder key)
    then show ?thesis using Cons expand_placeholder [of key lib "concat (map segment_text segs)" a] by simp
  qed
qed

text \<open>An unclosed placeholder repeats the text before it.\<close>

theorem unclosed_template_repeats:
  assumes "CHR ''$'' \<notin> set s" and "CHR ''}'' \<notin> set key"
  shows "expand_template lib (s @ ''${'' @ key) a = (s @ ''${'' @ key) @ (s @ ''${'' @ key)"
proof -
  have "str_find ''}'' key = None"
    using str_find_skip [of "CHR ''}''" key "[]" "[]"] assms(2) by simp
  then show ?thesis using assms(1) str_find_here [of "CHR ''$''" "''{''" key] by (simp add: expand_literal)
qed

definition sample_claims_assertion :: BrokerAssertion where
  "sample_claims_assertion = \<lparr>BrokerAssertion_idp_alias = ''g'', BrokerAssertion_external_id = ''x'',
     BrokerAssertion_issuer = ''i'', BrokerAssertion_claims = [(''u'', AttributeValue_String ''padme'')],
     BrokerAssertion_received_at = 0, BrokerAssertion_expires_at = None\<rparr>"

theorem expand_template_spec_witness:
  "expand_template sample_saml_lib ''${u}@g'' sample_claims_assertion = ''padme@g''"
  using expand_template_spec [of "[Placeholder ''u'', Literal ''@g'']" sample_saml_lib sample_claims_assertion]
  by (simp add: sample_claims_assertion_def)

end
