(* ===== verification/Broker_Oidc.thy ===== *)
theory Broker_Oidc
  imports Broker_Mapper
begin

text \<open>
  The OpenID Connect side of the identity broker, \<^verbatim>\<open>crates/geonosis-broker/src\<close> \<open>oidc.rs\<close> and
  \<open>adapter.rs\<close>: discovery documents and key sets with their caches, the authorization URL, the code
  exchange, the verification of an id token, the projection of its claims, and the vendor adapters.
  The HTTP client, the JSON decoders, the percent encoder and the key constructors are third-party
  code, fields of \<open>BrokerLib\<close>. Shown: an accepted id token carries a signature of a key of the key
  set under the algorithm its header names, and the issuer, audience, nonce and times the broker asked
  for; the discovery cache serves one document to every realm that uses the same alias.
\<close>

definition CLOCK_SKEW_SECS :: i64 where "CLOCK_SKEW_SECS = 300"
definition DISCOVERY_TTL :: Duration where "DISCOVERY_TTL = secs 600"
definition JWKS_TTL :: Duration where "JWKS_TTL = secs 300"

record OidcDiscovery =
  OidcDiscovery_issuer :: string
  OidcDiscovery_authorization_endpoint :: string
  OidcDiscovery_token_endpoint :: string
  OidcDiscovery_userinfo_endpoint :: "string option"
  OidcDiscovery_jwks_uri :: string
  OidcDiscovery_end_session_endpoint :: "string option"
  OidcDiscovery_code_challenge_methods_supported :: "string list"
  OidcDiscovery_id_token_signing_alg_values_supported :: "string list"

record TokenResponse =
  TokenResponse_access_token :: string
  TokenResponse_id_token :: "string option"
  TokenResponse_refresh_token :: "string option"
  TokenResponse_token_type :: "string option"
  TokenResponse_expires_in :: "i64 option"
  TokenResponse_scope :: "string option"

text \<open>The broker's \<open>IdTokenClaims\<close>, distinct from those the issuer mints.\<close>

record BrokerIdTokenClaims =
  BrokerIdTokenClaims_iss :: string
  BrokerIdTokenClaims_sub :: string
  BrokerIdTokenClaims_aud :: Value
  BrokerIdTokenClaims_exp :: i64
  BrokerIdTokenClaims_iat :: i64
  BrokerIdTokenClaims_nbf :: "i64 option"
  BrokerIdTokenClaims_nonce :: "string option"
  BrokerIdTokenClaims_azp :: "string option"
  BrokerIdTokenClaims_email :: "string option"
  BrokerIdTokenClaims_email_verified :: "bool option"
  BrokerIdTokenClaims_preferred_username :: "string option"
  BrokerIdTokenClaims_name :: "string option"
  BrokerIdTokenClaims_given_name :: "string option"
  BrokerIdTokenClaims_family_name :: "string option"
  BrokerIdTokenClaims_extra :: "(string, Value) btree_map"

record GhUser =
  GhUser_id :: u64
  GhUser_login :: string
  GhUser_name :: "string option"
  GhUser_avatar_url :: "string option"

record GhEmail =
  GhEmail_email :: string
  GhEmail_primary :: bool
  GhEmail_verified :: bool

text \<open>
  A request gives an error text, or a status and a body; reading the body as text may fail too.
  \<open>github_get\<close> is a GET with a bearer token, GitHub's media type and the broker's user agent, that
  fails on an error status. \<open>cache_evicts\<close> says which entries the bounded caches have dropped early.
\<close>

record BrokerLib = SamlLib +
  percent_encode :: "string \<Rightarrow> string"
  http_get :: "string \<Rightarrow> string + nat \<times> string"
  http_post_form :: "string \<Rightarrow> (string \<times> string) list \<Rightarrow> (string \<times> string) option \<Rightarrow> string + nat \<times> (string + string)"
  github_get :: "string \<Rightarrow> string \<Rightarrow> string + string"
  status_text :: "nat \<Rightarrow> string"
  discovery_from_json :: "string \<Rightarrow> string + OidcDiscovery"
  jwks_from_json :: "string \<Rightarrow> string + JwkSet"
  token_response_from_json :: "string \<Rightarrow> string + TokenResponse"
  id_token_claims_from_json :: "string \<Rightarrow> string + BrokerIdTokenClaims"
  gh_user_from_json :: "string \<Rightarrow> string + GhUser"
  gh_emails_from_json :: "string \<Rightarrow> string + GhEmail list"
  rsa_public_new :: "string \<Rightarrow> string \<Rightarrow> string + string"
  p256_from_sec1 :: "string \<Rightarrow> string + string"
  ed25519_from_bytes :: "string \<Rightarrow> string + string"
  cache_evicts :: "string \<Rightarrow> bool"

definition is_success :: "nat \<Rightarrow> bool" where
  "is_success status = (200 \<le> status \<and> status < 300)"

section \<open>Discovery and key sets\<close>

definition fetch_discovery :: "'l BrokerLib_scheme \<Rightarrow> OidcIdpConfig \<Rightarrow> BrokerError + OidcDiscovery" where
  "fetch_discovery lib cfg =
     (let url = (case OidcIdpConfig_discovery_url cfg of
                   Some u \<Rightarrow> u
                 | None \<Rightarrow> trim_end_char CHR ''/'' (OidcIdpConfig_issuer cfg) @ ''/.well-known/openid-configuration'') in
      case http_get lib url of
        Inl e \<Rightarrow> Inl (BrokerError_Discovery e)
      | Inr (status, body) \<Rightarrow>
          if \<not> is_success status then Inl (BrokerError_Discovery (url @ '' returned '' @ status_text lib status))
          else (case discovery_from_json lib body of
                  Inl e \<Rightarrow> Inl (BrokerError_Discovery e)
                | Inr d \<Rightarrow>
                    if OidcDiscovery_issuer d \<noteq> OidcIdpConfig_issuer cfg
                    then Inl (BrokerError_Discovery
                      (''issuer mismatch: doc '' @ OidcDiscovery_issuer d @ '' cfg '' @ OidcIdpConfig_issuer cfg))
                    else Inr d))"

definition fetch_jwks :: "'l BrokerLib_scheme \<Rightarrow> string \<Rightarrow> BrokerError + Jwk list" where
  "fetch_jwks lib jwks_uri =
     (case http_get lib jwks_uri of
        Inl e \<Rightarrow> Inl (BrokerError_Discovery e)
      | Inr (status, body) \<Rightarrow>
          if \<not> is_success status then Inl (BrokerError_Discovery (jwks_uri @ '' returned '' @ status_text lib status))
          else (case jwks_from_json lib body of
                  Inl e \<Rightarrow> Inl (BrokerError_Discovery e)
                | Inr j \<Rightarrow> Inr (JwkSet_keys j)))"

text \<open>
  The two caches hold what was inserted and when; an entry is served until its time to live has passed
  or the cache has evicted it. \<open>fixtures\<close> bypasses the network in tests.
\<close>

record DiscoveryCache =
  DiscoveryCache_discovery :: "(string, OidcDiscovery \<times> DateTime) hash_map"
  DiscoveryCache_jwks :: "(string, Jwk list \<times> DateTime) hash_map"
  DiscoveryCache_fixtures :: "(string, OidcDiscovery \<times> Jwk list) btree_map"

definition DiscoveryCache_new :: DiscoveryCache where
  "DiscoveryCache_new =
     \<lparr>DiscoveryCache_discovery = [], DiscoveryCache_jwks = [], DiscoveryCache_fixtures = []\<rparr>"

definition install_fixture :: "string \<Rightarrow> OidcDiscovery \<Rightarrow> Jwk list \<Rightarrow> DiscoveryCache \<Rightarrow> DiscoveryCache" where
  "install_fixture alias discovery keys c =
     c\<lparr>DiscoveryCache_fixtures := bt_insert alias (discovery, keys) (DiscoveryCache_fixtures c)\<rparr>"

definition cache_get ::
  "'l BrokerLib_scheme \<Rightarrow> Duration \<Rightarrow> DateTime \<Rightarrow> string \<Rightarrow> (string, 'v \<times> DateTime) hash_map \<Rightarrow> 'v option" where
  "cache_get lib ttl now key m =
     (case map_of m key of
        Some (v, inserted) \<Rightarrow> if now < inserted + int ttl \<and> \<not> cache_evicts lib key then Some v else None
      | None \<Rightarrow> None)"

definition DiscoveryCache_get_discovery ::
  "'l BrokerLib_scheme \<Rightarrow> DateTime \<Rightarrow> string \<Rightarrow> OidcIdpConfig \<Rightarrow> DiscoveryCache \<Rightarrow>
   (BrokerError + OidcDiscovery) \<times> DiscoveryCache" where
  "DiscoveryCache_get_discovery lib now alias cfg c =
     (case map_of (DiscoveryCache_fixtures c) alias of
        Some (d, _) \<Rightarrow> (Inr d, c)
      | None \<Rightarrow>
     (case cache_get lib DISCOVERY_TTL now alias (DiscoveryCache_discovery c) of
        Some d \<Rightarrow> (Inr d, c)
      | None \<Rightarrow>
     (case fetch_discovery lib cfg of
        Inl e \<Rightarrow> (Inl e, c)
      | Inr d \<Rightarrow> (Inr d, c\<lparr>DiscoveryCache_discovery := hm_insert alias (d, now) (DiscoveryCache_discovery c)\<rparr>))))"

definition DiscoveryCache_get_jwks ::
  "'l BrokerLib_scheme \<Rightarrow> DateTime \<Rightarrow> string \<Rightarrow> string \<Rightarrow> DiscoveryCache \<Rightarrow> (BrokerError + Jwk list) \<times> DiscoveryCache" where
  "DiscoveryCache_get_jwks lib now alias jwks_uri c =
     (case map_of (DiscoveryCache_fixtures c) alias of
        Some (_, j) \<Rightarrow> (Inr j, c)
      | None \<Rightarrow>
     (let key = alias @ ''|'' @ jwks_uri in
      case cache_get lib JWKS_TTL now key (DiscoveryCache_jwks c) of
        Some v \<Rightarrow> (Inr v, c)
      | None \<Rightarrow>
     (case fetch_jwks lib jwks_uri of
        Inl e \<Rightarrow> (Inl e, c)
      | Inr v \<Rightarrow> (Inr v, c\<lparr>DiscoveryCache_jwks := hm_insert key (v, now) (DiscoveryCache_jwks c)\<rparr>))))"

section \<open>The authorization URL and the code exchange\<close>

fun query_join :: "string \<Rightarrow> string list \<Rightarrow> string" where
  "query_join sep [] = []"
| "query_join sep [s] = s"
| "query_join sep (s # ss) = s @ sep @ query_join sep ss"

definition authorization_params ::
  "OidcIdpConfig \<Rightarrow> string \<Rightarrow> string \<Rightarrow> string \<Rightarrow> string option \<Rightarrow> (string \<times> string) list \<Rightarrow> (string \<times> string) list" where
  "authorization_params cfg redirect_uri state nonce pkce_challenge extra =
     [(''response_type'', ''code''), (''client_id'', OidcIdpConfig_client_id cfg), (''redirect_uri'', redirect_uri),
      (''scope'', query_join '' '' (OidcIdpConfig_scopes cfg)), (''state'', state), (''nonce'', nonce)] @
     (case pkce_challenge of
        Some c \<Rightarrow> [(''code_challenge'', c), (''code_challenge_method'', ''S256'')] | None \<Rightarrow> []) @ extra"

definition authorization_url ::
  "'l BrokerLib_scheme \<Rightarrow> OidcDiscovery \<Rightarrow> OidcIdpConfig \<Rightarrow> string \<Rightarrow> string \<Rightarrow> string \<Rightarrow> string option \<Rightarrow>
   (string \<times> string) list \<Rightarrow> string" where
  "authorization_url lib discovery cfg redirect_uri state nonce pkce_challenge extra =
     (let url = OidcDiscovery_authorization_endpoint discovery;
          q = authorization_params cfg redirect_uri state nonce pkce_challenge extra;
          qs = query_join ''&'' (map (\<lambda>(k, v). k @ ''='' @ percent_encode lib v) q) in
      url @ (if CHR ''?'' \<in> set url then ''&'' else ''?'') @ qs)"

definition exchange_code ::
  "'l BrokerLib_scheme \<Rightarrow> OidcDiscovery \<Rightarrow> OidcIdpConfig \<Rightarrow> string \<Rightarrow> string \<Rightarrow> string option \<Rightarrow>
   BrokerError + TokenResponse" where
  "exchange_code lib discovery cfg code redirect_uri pkce_verifier =
     (let form = [(''grant_type'', ''authorization_code''), (''code'', code), (''redirect_uri'', redirect_uri),
                  (''client_id'', OidcIdpConfig_client_id cfg)] @
                 (case pkce_verifier of Some v \<Rightarrow> [(''code_verifier'', v)] | None \<Rightarrow> []);
          basic = map_option (\<lambda>secret. (OidcIdpConfig_client_id cfg, expose secret)) (OidcIdpConfig_client_secret cfg) in
      case http_post_form lib (OidcDiscovery_token_endpoint discovery) form basic of
        Inl e \<Rightarrow> Inl (BrokerError_TokenExchange e)
      | Inr (status, Inl e) \<Rightarrow> Inl (BrokerError_TokenExchange e)
      | Inr (status, Inr body) \<Rightarrow>
          if \<not> is_success status then Inl (BrokerError_TokenExchange (status_text lib status @ '': '' @ body))
          else (case token_response_from_json lib body of
                  Inl e \<Rightarrow> Inl (BrokerError_TokenExchange (''decode: '' @ e @ ''; body='' @ body))
                | Inr t \<Rightarrow> Inr t))"

section \<open>Verifying an id token\<close>

fun audience_matches :: "Value \<Rightarrow> string \<Rightarrow> bool" where
  "audience_matches (Value_String s) expected = (s = expected)"
| "audience_matches (Value_Array arr) expected = list_ex (\<lambda>v. Value_as_str v = Some expected) arr"
| "audience_matches _ expected = False"

definition jwk_param :: "'l BrokerLib_scheme \<Rightarrow> Jwk \<Rightarrow> string \<Rightarrow> string \<Rightarrow> BrokerError + string" where
  "jwk_param lib j kind name =
     (case Option.bind (map_of (Jwk_params j) name) Value_as_str of
        None \<Rightarrow> Inl (BrokerError_Signature (kind @ '': missing '' @ name))
      | Some v \<Rightarrow> Inr v)"

definition jwk_bytes :: "'l BrokerLib_scheme \<Rightarrow> string \<Rightarrow> string \<Rightarrow> BrokerError + string" where
  "jwk_bytes lib name v = map_sum (\<lambda>e. BrokerError_Signature (name @ '' decode: '' @ e)) id (base64_url_decode lib v)"

definition jwk_to_public :: "'l BrokerLib_scheme \<Rightarrow> Jwk \<Rightarrow> BrokerError + PublicMaterial" where
  "jwk_to_public lib j =
     (if Jwk_kty j = ''RSA'' \<and> Jwk_alg j = ''RS256'' then
        (case jwk_param lib j ''rsa'' ''n'' of
           Inl e \<Rightarrow> Inl e
         | Inr n \<Rightarrow>
        (case jwk_param lib j ''rsa'' ''e'' of
           Inl e \<Rightarrow> Inl e
         | Inr e \<Rightarrow>
        (case jwk_bytes lib ''n'' n of
           Inl e \<Rightarrow> Inl e
         | Inr n_bytes \<Rightarrow>
        (case jwk_bytes lib ''e'' e of
           Inl e \<Rightarrow> Inl e
         | Inr e_bytes \<Rightarrow>
             map_sum (\<lambda>e. BrokerError_Signature (''rsa: '' @ e)) PublicMaterial_Rs256 (rsa_public_new lib n_bytes e_bytes)))))
      else if Jwk_kty j = ''EC'' \<and> Jwk_alg j = ''ES256'' then
        (case jwk_param lib j ''ec'' ''x'' of
           Inl e \<Rightarrow> Inl e
         | Inr x \<Rightarrow>
        (case jwk_param lib j ''ec'' ''y'' of
           Inl e \<Rightarrow> Inl e
         | Inr y \<Rightarrow>
        (case jwk_bytes lib ''x'' x of
           Inl e \<Rightarrow> Inl e
         | Inr x_b \<Rightarrow>
        (case jwk_bytes lib ''y'' y of
           Inl e \<Rightarrow> Inl e
         | Inr y_b \<Rightarrow>
             if length x_b \<noteq> 32 \<or> length y_b \<noteq> 32 then Inl (BrokerError_Signature ''ec: bad coord length'')
             else map_sum (\<lambda>e. BrokerError_Signature (''ec: '' @ e)) PublicMaterial_Es256
                    (p256_from_sec1 lib (CHR 0x04 # x_b @ y_b))))))
      else if Jwk_kty j = ''OKP'' \<and> Jwk_alg j = ''EdDSA'' then
        (case jwk_param lib j ''okp'' ''x'' of
           Inl e \<Rightarrow> Inl e
         | Inr x \<Rightarrow>
        (case jwk_bytes lib ''x'' x of
           Inl e \<Rightarrow> Inl e
         | Inr bytes \<Rightarrow>
             if length bytes \<noteq> 32 then Inl (BrokerError_Signature ''okp: bad length'')
             else map_sum (\<lambda>e. BrokerError_Signature (''okp: '' @ e)) PublicMaterial_EdDsa (ed25519_from_bytes lib bytes)))
      else Inl (BrokerError_Signature (''unsupported jwk: kty='' @ Jwk_kty j @ '' alg='' @ Jwk_alg j)))"

definition id_token_alg :: "string \<Rightarrow> JwsAlgorithm option" where
  "id_token_alg alg =
     (if alg = ''RS256'' then Some RS256 else if alg = ''ES256'' then Some ES256
      else if alg = ''EdDSA'' then Some EdDSA else None)"

text \<open>The checks on the claims, after the signature; the sums of \<open>i64\<close> wrap around.\<close>

definition check_id_claims ::
  "string \<Rightarrow> string \<Rightarrow> string option \<Rightarrow> i64 \<Rightarrow> BrokerIdTokenClaims \<Rightarrow> BrokerError + BrokerIdTokenClaims" where
  "check_id_claims expected_issuer expected_aud expected_nonce now_unix claims =
     (if BrokerIdTokenClaims_iss claims \<noteq> expected_issuer
      then Inl (BrokerError_InvalidAssertion (''iss mismatch: '' @ BrokerIdTokenClaims_iss claims @ '' vs '' @ expected_issuer))
      else if \<not> audience_matches (BrokerIdTokenClaims_aud claims) expected_aud
      then Inl (BrokerError_InvalidAssertion ''aud mismatch'')
      else if wrap_i64 (BrokerIdTokenClaims_exp claims + CLOCK_SKEW_SECS) < now_unix
      then Inl (BrokerError_InvalidAssertion ''expired id_token'')
      else if BrokerIdTokenClaims_iat claims > wrap_i64 (now_unix + CLOCK_SKEW_SECS)
      then Inl (BrokerError_ClockSkew (wrap_i64 (BrokerIdTokenClaims_iat claims - now_unix)))
      else if (case BrokerIdTokenClaims_nbf claims of Some nbf \<Rightarrow> nbf > wrap_i64 (now_unix + CLOCK_SKEW_SECS) | None \<Rightarrow> False)
      then Inl (BrokerError_InvalidAssertion ''nbf in future'')
      else if expected_nonce \<noteq> None \<and> BrokerIdTokenClaims_nonce claims \<noteq> expected_nonce
      then Inl BrokerError_NonceMismatch
      else Inr claims)"

definition verify_id_token ::
  "'l BrokerLib_scheme \<Rightarrow> string \<Rightarrow> string \<Rightarrow> string \<Rightarrow> string option \<Rightarrow> Jwk list \<Rightarrow> i64 \<Rightarrow> BrokerError + BrokerIdTokenClaims" where
  "verify_id_token lib id_token expected_issuer expected_aud expected_nonce keys now_unix =
     (case split_char CHR ''.'' id_token of
        [] \<Rightarrow> Inl (BrokerError_Signature ''no header'')
      | [_] \<Rightarrow> Inl (BrokerError_Signature ''no payload'')
      | [_, _] \<Rightarrow> Inl (BrokerError_Signature ''no signature'')
      | h_b64 # _ \<Rightarrow>
     (case base64_url_decode lib h_b64 of
        Inl e \<Rightarrow> Inl (BrokerError_Signature e)
      | Inr header_bytes \<Rightarrow>
     (case header_from_json lib header_bytes of
        Inl e \<Rightarrow> Inl (BrokerError_Signature e)
      | Inr header \<Rightarrow>
     (case id_token_alg (JwsHeader_alg header) of
        None \<Rightarrow> Inl (BrokerError_Signature (''unsupported alg: '' @ JwsHeader_alg header))
      | Some alg \<Rightarrow>
     (case find (\<lambda>j. Jwk_kid j = JwsHeader_kid header) keys of
        None \<Rightarrow> Inl (BrokerError_Signature (''no jwk for kid '' @ JwsHeader_kid header))
      | Some jwk \<Rightarrow>
     (case jwk_to_public lib jwk of
        Inl e \<Rightarrow> Inl e
      | Inr public \<Rightarrow>
     (case verify_jwt lib (id_token_claims_from_json lib) id_token alg (JwsHeader_kid header) public of
        Inl e \<Rightarrow> Inl (BrokerError_Signature (JwtVerifyError_to_string e))
      | Inr claims \<Rightarrow> check_id_claims expected_issuer expected_aud expected_nonce now_unix claims)))))))"

section \<open>From claims to an assertion\<close>

definition insert_some :: "string \<Rightarrow> AttributeValue option \<Rightarrow> (string, AttributeValue) btree_map \<Rightarrow>
    (string, AttributeValue) btree_map" where
  "insert_some k v m = (case v of Some x \<Rightarrow> bt_insert k x m | None \<Rightarrow> m)"

definition assertion_from_claims ::
  "DateTime \<Rightarrow> string \<Rightarrow> BrokerIdTokenClaims \<Rightarrow> DateTime option \<Rightarrow> BrokerAssertion" where
  "assertion_from_claims now alias claims expires_at =
     (let m = insert_some ''preferred_username'' (map_option AttributeValue_String (BrokerIdTokenClaims_preferred_username claims)) [];
          m = insert_some ''email'' (map_option AttributeValue_String (BrokerIdTokenClaims_email claims)) m;
          m = insert_some ''email_verified'' (map_option AttributeValue_Bool (BrokerIdTokenClaims_email_verified claims)) m;
          m = insert_some ''given_name'' (map_option AttributeValue_String (BrokerIdTokenClaims_given_name claims)) m;
          m = insert_some ''family_name'' (map_option AttributeValue_String (BrokerIdTokenClaims_family_name claims)) m;
          m = insert_some ''name'' (map_option AttributeValue_String (BrokerIdTokenClaims_name claims)) m in
      \<lparr>BrokerAssertion_idp_alias = alias, BrokerAssertion_external_id = BrokerIdTokenClaims_sub claims,
       BrokerAssertion_issuer = BrokerIdTokenClaims_iss claims, BrokerAssertion_claims = m,
       BrokerAssertion_received_at = now, BrokerAssertion_expires_at = expires_at\<rparr>)"

definition use_for_nonce_check :: "BrokerAuthnState \<Rightarrow> string option" where
  "use_for_nonce_check state = BrokerAuthnState_nonce state"

section \<open>Vendor adapters (\<open>adapter.rs\<close>)\<close>

definition GENERIC_OIDC :: string where "GENERIC_OIDC = ''builtin:broker-adapter:generic-oidc''"
definition GOOGLE :: string where "GOOGLE = ''builtin:broker-adapter:google''"
definition GITHUB :: string where "GITHUB = ''builtin:broker-adapter:github''"
definition APPLE :: string where "APPLE = ''builtin:broker-adapter:apple''"
definition MICROSOFT :: string where "MICROSOFT = ''builtin:broker-adapter:microsoft''"

datatype BrokerAdapter = GenericOidcAdapter | GoogleAdapter | GitHubAdapter | AppleAdapter | MicrosoftAdapter

fun BrokerAdapter_urn :: "BrokerAdapter \<Rightarrow> string" where
  "BrokerAdapter_urn GenericOidcAdapter = GENERIC_OIDC"
| "BrokerAdapter_urn GoogleAdapter = GOOGLE"
| "BrokerAdapter_urn GitHubAdapter = GITHUB"
| "BrokerAdapter_urn AppleAdapter = APPLE"
| "BrokerAdapter_urn MicrosoftAdapter = MICROSOFT"

definition BuiltinAdapters_default :: "(string, BrokerAdapter) btree_map" where
  "BuiltinAdapters_default =
     bt_insert MICROSOFT MicrosoftAdapter (bt_insert APPLE AppleAdapter (bt_insert GITHUB GitHubAdapter
       (bt_insert GOOGLE GoogleAdapter (bt_insert GENERIC_OIDC GenericOidcAdapter []))))"

text \<open>\<open>None\<close> is the panic of the \<open>expect\<close> when the generic adapter is not registered.\<close>

definition BuiltinAdapters_get :: "string \<Rightarrow> (string, BrokerAdapter) btree_map \<Rightarrow> BrokerAdapter option" where
  "BuiltinAdapters_get u by_urn =
     (case map_of by_urn u of Some a \<Rightarrow> Some a | None \<Rightarrow> map_of by_urn GENERIC_OIDC)"

definition BuiltinAdapters_list :: "(string, BrokerAdapter) btree_map \<Rightarrow> string list" where
  "BuiltinAdapters_list by_urn = map fst by_urn"

fun extra_authorization_params :: "BrokerAdapter \<Rightarrow> (string \<times> string) list" where
  "extra_authorization_params GoogleAdapter = [(''prompt'', ''select_account'')]"
| "extra_authorization_params AppleAdapter = [(''response_mode'', ''form_post''), (''scope'', ''openid email name'')]"
| "extra_authorization_params MicrosoftAdapter = [(''prompt'', ''select_account'')]"
| "extra_authorization_params _ = []"

definition github_claims :: "GhUser \<Rightarrow> GhEmail list \<Rightarrow> (string, AttributeValue) btree_map" where
  "github_claims user emails =
     (let out = bt_insert ''sub'' (AttributeValue_String (show_nat (unat (GhUser_id user)))) [];
          out = bt_insert ''preferred_username'' (AttributeValue_String (GhUser_login user)) out;
          out = insert_some ''name'' (map_option AttributeValue_String (GhUser_name user)) out;
          out = (case find (\<lambda>e. GhEmail_primary e \<and> GhEmail_verified e) emails of
                   Some p \<Rightarrow> bt_insert ''email_verified'' (AttributeValue_Bool True)
                     (bt_insert ''email'' (AttributeValue_String (GhEmail_email p)) out)
                 | None \<Rightarrow> out) in
      insert_some ''picture'' (map_option AttributeValue_String (GhUser_avatar_url user)) out)"

definition github_fetch :: "'l BrokerLib_scheme \<Rightarrow> (string \<Rightarrow> string + 'a) \<Rightarrow> string \<Rightarrow> string \<Rightarrow> BrokerError + 'a" where
  "github_fetch lib decode url access_token =
     (case github_get lib url access_token of
        Inl e \<Rightarrow> Inl (BrokerError_Transport e)
      | Inr body \<Rightarrow> map_sum BrokerError_Transport id (decode body))"

fun userinfo_override ::
  "'l BrokerLib_scheme \<Rightarrow> BrokerAdapter \<Rightarrow> string \<Rightarrow> BrokerError + (string, AttributeValue) btree_map option" where
  "userinfo_override lib GitHubAdapter access_token =
     (case github_fetch lib (gh_user_from_json lib) ''https://api.github.com/user'' access_token of
        Inl e \<Rightarrow> Inl e
      | Inr user \<Rightarrow>
     (case github_fetch lib (gh_emails_from_json lib) ''https://api.github.com/user/emails'' access_token of
        Inl e \<Rightarrow> Inl e
      | Inr emails \<Rightarrow> Inr (Some (github_claims user emails))))"
| "userinfo_override lib _ access_token = Inr None"

definition ends_with :: "string \<Rightarrow> string \<Rightarrow> bool" where
  "ends_with s suffix = (strip_suffix s suffix \<noteq> None)"

definition extra_text :: "BrokerIdTokenClaims \<Rightarrow> string \<Rightarrow> AttributeValue option" where
  "extra_text claims k = map_option AttributeValue_String (Option.bind (map_of (BrokerIdTokenClaims_extra claims) k) Value_as_str)"

fun enrich_assertion :: "BrokerAdapter \<Rightarrow> BrokerIdTokenClaims \<Rightarrow> BrokerAssertion \<Rightarrow> BrokerAssertion" where
  "enrich_assertion AppleAdapter claims assertion =
     (case BrokerIdTokenClaims_email claims of
        Some email \<Rightarrow>
          if ends_with email ''@privaterelay.appleid.com''
          then assertion\<lparr>BrokerAssertion_claims :=
                 bt_insert ''email_relay'' (AttributeValue_Bool True) (BrokerAssertion_claims assertion)\<rparr>
          else assertion
      | None \<Rightarrow> assertion)"
| "enrich_assertion MicrosoftAdapter claims assertion =
     assertion\<lparr>BrokerAssertion_claims := insert_some ''oid'' (extra_text claims ''oid'')
       (insert_some ''tid'' (extra_text claims ''tid'') (BrokerAssertion_claims assertion))\<rparr>"
| "enrich_assertion _ claims assertion = assertion"

lemma get_default_adapter: "\<exists>a. BuiltinAdapters_get u BuiltinAdapters_default = Some a"
proof -
  have "map_of BuiltinAdapters_default GENERIC_OIDC = Some GenericOidcAdapter"
    by code_simp
  then show ?thesis by (simp add: BuiltinAdapters_get_def split: option.split)
qed

section \<open>What an accepted id token proves\<close>

lemma check_id_claims_sound:
  assumes "check_id_claims iss aud nonce now claims = Inr c"
  shows "c = claims \<and> BrokerIdTokenClaims_iss claims = iss \<and> audience_matches (BrokerIdTokenClaims_aud claims) aud \<and>
    now \<le> wrap_i64 (BrokerIdTokenClaims_exp claims + CLOCK_SKEW_SECS) \<and>
    BrokerIdTokenClaims_iat claims \<le> wrap_i64 (now + CLOCK_SKEW_SECS) \<and>
    (case BrokerIdTokenClaims_nbf claims of Some nbf \<Rightarrow> nbf \<le> wrap_i64 (now + CLOCK_SKEW_SECS) | None \<Rightarrow> True) \<and>
    (case nonce of Some n \<Rightarrow> BrokerIdTokenClaims_nonce claims = Some n | None \<Rightarrow> True)"
  using assms by (auto simp: check_id_claims_def split: if_splits option.splits)

lemma wrap_i64_plus_skew:
  assumes "- (2 ^ 63) \<le> x" and "x < 2 ^ 63" and "now \<le> wrap_i64 (x + CLOCK_SKEW_SECS)"
  shows "now \<le> x + CLOCK_SKEW_SECS"
proof -
  have "wrap_i64 (x + CLOCK_SKEW_SECS) \<le> x + CLOCK_SKEW_SECS"
    using assms(1) zmod_le_nonneg_dividend [of "x + CLOCK_SKEW_SECS + 2 ^ 63" "2 ^ 64"]
    by (simp add: wrap_i64_def CLOCK_SKEW_SECS_def)
  with assms(3) show ?thesis by simp
qed

lemma verify_jwt_signed:
  assumes "verify_jwt lib dec t alg kid key = Inr c"
  shows "\<exists>h p s sig payload. split_char CHR ''.'' t = [h, p, s] \<and> base64_url_decode lib s = Inr sig \<and>
    verify_signature lib alg key (h @ ''.'' @ p) sig = Inr True \<and>
    base64_url_decode lib p = Inr payload \<and> dec payload = Inr c"
  using assms by (auto simp: verify_jwt_def verify_segments_def split: list.splits sum.splits if_splits)

text \<open>
  C18: What an accepted id token proves. Let the decoded expiry be a 64-bit number, and the clock be 300
  seconds away from the end of that range. When \<open>verify_id_token\<close> accepts, there is a key in the given
  key set, found under the key id of the token's header, under which the signature of the header and
  payload verifies for the algorithm the header names (one of the three asymmetric ones); the returned
  claims are those of that payload; they name the expected issuer, the expected audience and, when one
  is expected, the nonce; and they have not expired, were not issued and do not begin in the future,
  each up to the tolerance.
\<close>

theorem verify_id_token_sound:
  assumes "verify_id_token lib t iss aud nonce keys now = Inr claims"
    and "- (2 ^ 63) \<le> BrokerIdTokenClaims_exp claims" and "BrokerIdTokenClaims_exp claims < 2 ^ 63"
    and "- (2 ^ 63) \<le> now" and "now < 2 ^ 63 - 300"
  shows "\<exists>h p s hb header alg jwk key sig payload. split_char CHR ''.'' t = [h, p, s] \<and>
    base64_url_decode lib h = Inr hb \<and> header_from_json lib hb = Inr header \<and>
    id_token_alg (JwsHeader_alg header) = Some alg \<and> jwk \<in> set keys \<and> Jwk_kid jwk = JwsHeader_kid header \<and>
    jwk_to_public lib jwk = Inr key \<and> base64_url_decode lib s = Inr sig \<and>
    verify_signature lib alg key (h @ ''.'' @ p) sig = Inr True \<and>
    base64_url_decode lib p = Inr payload \<and> id_token_claims_from_json lib payload = Inr claims \<and>
    BrokerIdTokenClaims_iss claims = iss \<and> audience_matches (BrokerIdTokenClaims_aud claims) aud \<and>
    now \<le> BrokerIdTokenClaims_exp claims + 300 \<and> BrokerIdTokenClaims_iat claims \<le> now + 300 \<and>
    (case BrokerIdTokenClaims_nbf claims of Some nbf \<Rightarrow> nbf \<le> now + 300 | None \<Rightarrow> True) \<and>
    (case nonce of Some n \<Rightarrow> BrokerIdTokenClaims_nonce claims = Some n | None \<Rightarrow> True)"
proof -
  obtain h r hb header alg jwk key c where split: "split_char CHR ''.'' t = h # r"
    and hb: "base64_url_decode lib h = Inr hb" "header_from_json lib hb = Inr header"
    and alg: "id_token_alg (JwsHeader_alg header) = Some alg"
    and jwk: "find (\<lambda>j. Jwk_kid j = JwsHeader_kid header) keys = Some jwk" "jwk_to_public lib jwk = Inr key"
    and c: "verify_jwt lib (id_token_claims_from_json lib) t alg (JwsHeader_kid header) key = Inr c"
    and chk: "check_id_claims iss aud nonce now c = Inr claims"
    using assms(1) by (auto simp: verify_id_token_def split: list.splits sum.splits option.splits)
  have skew: "wrap_i64 (now + CLOCK_SKEW_SECS) = now + 300"
    using assms(4,5) by (simp add: wrap_i64_id CLOCK_SKEW_SECS_def)
  note checks = check_id_claims_sound [OF chk, unfolded skew]
  moreover have "now \<le> BrokerIdTokenClaims_exp claims + 300"
    using wrap_i64_plus_skew [OF assms(2,3), of now] checks by (simp add: CLOCK_SKEW_SECS_def)
  moreover have "jwk \<in> set keys \<and> Jwk_kid jwk = JwsHeader_kid header"
    using jwk(1) by (auto simp: find_Some_iff)
  ultimately show ?thesis
    using verify_jwt_signed [OF c] split hb alg jwk(2) by (auto intro!: exI [of _ jwk])
qed

section \<open>The cache is keyed by the alias alone\<close>

text \<open>
  Two realms may each have an identity provider of the same alias with different issuers. What one of
  them has fetched is served to the other while the entry lives, without any comparison with its
  configuration: neither the issuer nor the endpoints need be the configured ones.
\<close>

theorem discovery_shared_by_alias:
  assumes "DiscoveryCache_get_discovery lib now alias cfg DiscoveryCache_new = (Inr d, c)"
    and "now' < now + int DISCOVERY_TTL" and "\<not> cache_evicts lib alias"
  shows "DiscoveryCache_get_discovery lib now' alias cfg' c = (Inr d, c) \<and>
    OidcDiscovery_issuer d = OidcIdpConfig_issuer cfg"
  using assms
  by (auto simp: DiscoveryCache_get_discovery_def DiscoveryCache_new_def cache_get_def fetch_discovery_def Let_def
      split: sum.splits if_splits prod.splits)

section \<open>A concrete provider\<close>

definition sample_id_claims :: BrokerIdTokenClaims where
  "sample_id_claims = \<lparr>BrokerIdTokenClaims_iss = ''https://idp'', BrokerIdTokenClaims_sub = ''u1'',
     BrokerIdTokenClaims_aud = Value_Array [Value_String ''other'', Value_String ''app''], BrokerIdTokenClaims_exp = 1000,
     BrokerIdTokenClaims_iat = 700, BrokerIdTokenClaims_nbf = None, BrokerIdTokenClaims_nonce = Some ''n'',
     BrokerIdTokenClaims_azp = None, BrokerIdTokenClaims_email = None, BrokerIdTokenClaims_email_verified = None,
     BrokerIdTokenClaims_preferred_username = None, BrokerIdTokenClaims_name = None, BrokerIdTokenClaims_given_name = None,
     BrokerIdTokenClaims_family_name = None, BrokerIdTokenClaims_extra = []\<rparr>"

definition sample_discovery :: OidcDiscovery where
  "sample_discovery = \<lparr>OidcDiscovery_issuer = ''https://idp'', OidcDiscovery_authorization_endpoint = ''https://idp/a'',
     OidcDiscovery_token_endpoint = ''https://idp/t'', OidcDiscovery_userinfo_endpoint = None,
     OidcDiscovery_jwks_uri = ''https://idp/k'', OidcDiscovery_end_session_endpoint = None,
     OidcDiscovery_code_challenge_methods_supported = [], OidcDiscovery_id_token_signing_alg_values_supported = []\<rparr>"

definition sample_jwk :: Jwk where
  "sample_jwk = \<lparr>Jwk_kid = ''k'', Jwk_kty = ''RSA'', Jwk_use = ''sig'', Jwk_alg = ''RS256'',
     Jwk_params = [(''e'', Value_String ''e''), (''n'', Value_String ''n'')]\<rparr>"

definition sample_broker_lib :: BrokerLib where
  "sample_broker_lib = SamlLib.extend sample_saml_lib
     (BrokerLib.fields (\<lambda>s. s) (\<lambda>url. Inr (200, [])) (\<lambda>url form basic. Inr (200, Inr [])) (\<lambda>url t. Inl ''net'')
        show_nat (\<lambda>s. Inr sample_discovery) (\<lambda>s. Inr \<lparr>JwkSet_keys = [sample_jwk]\<rparr>) (\<lambda>s. Inl ''json'')
        (\<lambda>s. Inr sample_id_claims) (\<lambda>s. Inl ''json'') (\<lambda>s. Inl ''json'') (\<lambda>n e. Inr n) Inr Inr (\<lambda>k. False))"

lemmas sample_broker_simps = sample_broker_lib_def SamlLib.defs BrokerLib.defs sample_saml_simps sample_http_simps

definition sample_id_token :: string where
  "sample_id_token = ''RS256abkabJWT.p.RS256aabkaabJWTabp''"

lemma sample_id_token_accepted:
  "verify_id_token sample_broker_lib sample_id_token ''https://idp'' ''app'' (Some ''n'') [sample_jwk] 1200 =
     Inr sample_id_claims"
  by (simp add: verify_id_token_def sample_id_token_def sample_broker_simps id_token_alg_def sample_jwk_def
      jwk_to_public_def jwk_param_def jwk_bytes_def verify_jwt_def verify_segments_def verify_signature_def
      check_id_claims_def sample_id_claims_def CLOCK_SKEW_SECS_def wrap_i64_def)

theorem verify_id_token_sound_witness:
  "verify_id_token sample_broker_lib sample_id_token ''https://idp'' ''app'' (Some ''n'') [sample_jwk] 1200 =
     Inr sample_id_claims \<and>
   (\<exists>h p s sig. sample_id_token = h @ ''.'' @ p @ ''.'' @ s \<and> base64_url_decode sample_broker_lib s = Inr sig \<and>
     verify_signature sample_broker_lib RS256 (PublicMaterial_Rs256 ''n'') (h @ ''.'' @ p) sig = Inr True)"
proof -
  have split: "split_char CHR ''.'' sample_id_token = [''RS256abkabJWT'', ''p'', ''RS256aabkaabJWTabp'']"
    by (simp add: sample_id_token_def)
  have key: "jwk_to_public sample_broker_lib sample_jwk = Inr (PublicMaterial_Rs256 ''n'')"
    by (simp add: jwk_to_public_def sample_jwk_def jwk_param_def jwk_bytes_def sample_broker_simps)
  have header: "base64_url_decode sample_broker_lib ''RS256abkabJWT'' = Inr ''RS256.k.JWT''"
    "header_from_json sample_broker_lib ''RS256.k.JWT'' =
       Inr \<lparr>JwsHeader_alg = ''RS256'', JwsHeader_kid = ''k'', JwsHeader_typ = ''JWT''\<rparr>"
    by (simp_all add: sample_broker_simps)
  have range: "- (2 ^ 63) \<le> BrokerIdTokenClaims_exp sample_id_claims" "BrokerIdTokenClaims_exp sample_id_claims < 2 ^ 63"
    by (simp_all add: sample_id_claims_def)
  from verify_id_token_sound [OF sample_id_token_accepted range]
  obtain sig where "base64_url_decode sample_broker_lib ''RS256aabkaabJWTabp'' = Inr sig"
    "verify_signature sample_broker_lib RS256 (PublicMaterial_Rs256 ''n'') (''RS256abkabJWT'' @ ''.'' @ ''p'') sig = Inr True"
    by (auto simp: split key header id_token_alg_def)
  then show ?thesis
    using sample_id_token_accepted
    by (intro conjI exI [of _ "''RS256abkabJWT''"] exI [of _ "''p''"] exI [of _ "''RS256aabkaabJWTabp''"] exI [of _ sig])
      (simp_all add: sample_id_token_def)
qed

end
