(* ===== verification/Broker_Saml.thy ===== *)
theory Broker_Saml
  imports Broker_Oidc
begin

text \<open>
  The SAML side of the identity broker, \<^verbatim>\<open>crates/geonosis-broker/src/saml.rs\<close>: the authentication
  request, the parser of a response as a loop over the events of the reader, the check of the
  signature, and the projection of the assertion. Compression, base64, the X.509 and RSA libraries and
  the reader are fields of \<open>BrokerSamlLib\<close>.
\<close>

definition CLOCK_SKEW :: ChronoDuration where "CLOCK_SKEW = chrono_seconds 300"

record OutboundSamlPostForm =
  SamlPostForm_sso_url :: string
  SamlPostForm_saml_request :: string
  SamlPostForm_relay_state :: string

record OutboundRequest =
  OutboundRequest_request_id :: string
  OutboundRequest_redirect :: "string option"
  OutboundRequest_post_form :: "OutboundSamlPostForm option"

record SignatureBlock =
  SignatureBlock_signed_info_c14n :: string
  SignatureBlock_signature_value :: string
  SignatureBlock_reference_digest :: string
  SignatureBlock_reference_uri :: "string option"
  SignatureBlock_signature_method :: string
  SignatureBlock_digest_method :: string

record SamlAssertionParsed =
  SamlAssertionParsed_id :: string
  SamlAssertionParsed_issuer :: string
  SamlAssertionParsed_subject_name_id :: string
  SamlAssertionParsed_subject_name_id_format :: NameIdFormat
  SamlAssertionParsed_audiences :: "string list"
  SamlAssertionParsed_recipient :: "string option"
  SamlAssertionParsed_in_response_to :: "string option"
  SamlAssertionParsed_not_before :: "DateTime option"
  SamlAssertionParsed_not_on_or_after :: "DateTime option"
  SamlAssertionParsed_attributes :: "(string, string list) btree_map"
  SamlAssertionParsed_authn_instant :: "DateTime option"
  SamlAssertionParsed_session_index :: "string option"
  SamlAssertionParsed_signature :: "SignatureBlock option"

record SamlResponse =
  SamlResponse_raw_xml :: string
  SamlResponse_response_id :: string
  SamlResponse_issuer :: string
  SamlResponse_in_response_to :: "string option"
  SamlResponse_destination :: "string option"
  SamlResponse_status_code :: string
  SamlResponse_assertion :: "SamlAssertionParsed option"
  SamlResponse_signature :: "SignatureBlock option"

text \<open>
  \<open>x509_keys\<close> gives the encoded public key information and the bare key bits of a certificate;
  \<open>rsa_verify_pkcs1\<close> is the verifier of the \<open>rsa\<close> crate.
\<close>

record BrokerSamlLib = BrokerLib +
  xml_events :: xml_reader
  base64_std_no_pad_bytes :: "string \<Rightarrow> string + string"
  parse_rfc3339 :: "string \<Rightarrow> DateTime option"
  xml_instant :: "DateTime \<Rightarrow> string"
  deflate :: "string \<Rightarrow> string + string"
  x509_keys :: "string \<Rightarrow> string + string \<times> string"
  rsa_from_spki :: "string \<Rightarrow> string + string"
  rsa_from_pkcs1 :: "string \<Rightarrow> string + string"
  rsa_signature_parse :: "string \<Rightarrow> string + string"
  rsa_verify_pkcs1 :: "string \<Rightarrow> string \<Rightarrow> string \<Rightarrow> string + unit"

section \<open>Helpers\<close>

text \<open>Successive replacements of single characters, the ampersand first: one pass over the text.\<close>

definition xml_escape :: "string \<Rightarrow> string" where
  "xml_escape s = replace_char CHR 0x27 ''&apos;'' (replace_char CHR 0x22 ''&quot;'' (replace_char CHR ''>'' ''&gt;''
     (replace_char CHR ''<'' ''&lt;'' (replace_char CHR ''&'' ''&amp;'' s))))"

definition parse_nameid_format :: "string \<Rightarrow> NameIdFormat" where
  "parse_nameid_format s =
     (if s = ''urn:oasis:names:tc:SAML:1.1:nameid-format:emailAddress'' then NameIdFormat_EmailAddress
      else if s = ''urn:oasis:names:tc:SAML:2.0:nameid-format:persistent'' then NameIdFormat_Persistent
      else if s = ''urn:oasis:names:tc:SAML:2.0:nameid-format:transient'' then NameIdFormat_Transient
      else if s = ''urn:oasis:names:tc:SAML:1.1:nameid-format:X509SubjectName'' then NameIdFormat_X509SubjectName
      else NameIdFormat_Unspecified)"

definition parse_xs_dt :: "'l BrokerSamlLib_scheme \<Rightarrow> string \<Rightarrow> DateTime option" where
  "parse_xs_dt lib s = parse_rfc3339 lib s"

definition slice_element_with_id :: "string \<Rightarrow> string \<Rightarrow> string option" where
  "slice_element_with_id xml eid =
     (let dq = ''ID=\"'' @ eid @ ''\"''; sq = ''ID='' @ [CHR 0x27] @ eid @ [CHR 0x27] in
      case (case str_find dq xml of Some p \<Rightarrow> Some p | None \<Rightarrow> str_find sq xml) of
        None \<Rightarrow> None
      | Some id_pos \<Rightarrow>
     (case char_rfind CHR ''<'' (take id_pos xml) of
        None \<Rightarrow> None
      | Some start \<Rightarrow>
     (let after_lt = drop (start + 1) xml in
      case find_char (\<lambda>c. is_ascii_whitespace c \<or> c = CHR ''>'' \<or> c = CHR ''/'') after_lt of
        None \<Rightarrow> None
      | Some name_end \<Rightarrow>
     (let close_needle = ''</'' @ take name_end after_lt @ ''>'' in
      case str_find close_needle (drop start xml) of
        None \<Rightarrow> None
      | Some end_rel \<Rightarrow> Some (take (end_rel + length close_needle) (drop start xml))))))"

definition find_signature_open :: "string \<Rightarrow> nat option" where
  "find_signature_open xml = first_of [''<Signature '', ''<Signature>'', ''<ds:Signature '', ''<ds:Signature>''] xml"

definition find_signature_close :: "string \<Rightarrow> nat option" where
  "find_signature_close xml = end_of [''</Signature>'', ''</ds:Signature>''] xml"

lemma find_signature_close_pos: "find_signature_close s = Some n \<Longrightarrow> 0 < n \<and> n \<le> length s"
  unfolding find_signature_close_def by (drule end_of_pos) simp_all

function strip_signature :: "string \<Rightarrow> string" where
  "strip_signature out =
     (case find_signature_open out of
        None \<Rightarrow> out
      | Some start \<Rightarrow>
          (case find_signature_close (drop start out) of
             Some n \<Rightarrow> strip_signature (take start out @ drop (start + n) out)
           | None \<Rightarrow> out))"
  by pat_completeness auto
termination
  by (relation "measure length") (auto dest!: find_signature_close_pos)

declare strip_signature.simps [simp del]

definition signed_info_bytes :: "string \<Rightarrow> string option" where
  "signed_info_bytes xml =
     (case first_of [''<SignedInfo '', ''<SignedInfo>'', ''<ds:SignedInfo '', ''<ds:SignedInfo>''] xml of
        None \<Rightarrow> None
      | Some start \<Rightarrow>
          map_option (\<lambda>n. take n (drop start xml)) (end_of [''</SignedInfo>'', ''</ds:SignedInfo>''] (drop start xml)))"

definition load_rsa_public_from_cert_pem :: "'l BrokerSamlLib_scheme \<Rightarrow> string \<Rightarrow> string + string" where
  "load_rsa_public_from_cert_pem lib pem =
     (let trimmed = str_trim pem;
          body = filter (\<lambda>c. \<not> is_ascii_whitespace c)
                   (concat (filter (\<lambda>l. \<not> starts_with l ''-----'') (split_char CHR 0x0A trimmed))) in
      case base64_std_bytes lib body of
        Inl e \<Rightarrow> Inl (''base64: '' @ e)
      | Inr bytes \<Rightarrow>
          if str_contains trimmed ''BEGIN CERTIFICATE''
          then (case x509_keys lib bytes of
                  Inl e \<Rightarrow> Inl (''x509: '' @ e)
                | Inr (spki_der, key_bits) \<Rightarrow>
                    (case rsa_from_spki lib spki_der of
                       Inr k \<Rightarrow> Inr k
                     | Inl _ \<Rightarrow> map_sum (\<lambda>e. ''rsa public: '' @ e) id (rsa_from_pkcs1 lib key_bits)))
          else map_sum (\<lambda>e. ''spki: '' @ e) id (rsa_from_spki lib bytes))"

section \<open>The authentication request\<close>

definition authn_request_xml :: "'l BrokerSamlLib_scheme \<Rightarrow> DateTime \<Rightarrow> string \<Rightarrow> SamlIdpConfig \<Rightarrow> string \<Rightarrow> string \<Rightarrow> string" where
  "authn_request_xml lib now rid cfg sp_entity_id acs_url =
     ''<samlp:AuthnRequest xmlns:samlp=\"urn:oasis:names:tc:SAML:2.0:protocol\" xmlns:saml=\"urn:oasis:names:tc:SAML:2.0:assertion\" ID=\"''
     @ rid @ ''\" Version=\"2.0\" IssueInstant=\"'' @ xml_instant lib now @ ''\" Destination=\"'' @
     xml_escape (SamlIdpConfig_sso_url cfg) @ ''\" AssertionConsumerServiceURL=\"'' @ xml_escape acs_url @
     ''\" ProtocolBinding=\"urn:oasis:names:tc:SAML:2.0:bindings:HTTP-POST\"><saml:Issuer>'' @ xml_escape sp_entity_id @
     ''</saml:Issuer><samlp:NameIDPolicy Format=\"'' @ NameIdFormat_as_uri (SamlIdpConfig_name_id_format cfg) @
     ''\" AllowCreate=\"true\"/></samlp:AuthnRequest>''"

definition build_authn_request ::
  "'l BrokerSamlLib_scheme \<Rightarrow> string \<Rightarrow> DateTime \<Rightarrow> SamlIdpConfig \<Rightarrow> string \<Rightarrow> string \<Rightarrow> string \<Rightarrow> BrokerError + OutboundRequest" where
  "build_authn_request lib random_token now cfg sp_entity_id acs_url relay_state =
     (let rid = ''_'' @ random_token; xml = authn_request_xml lib now rid cfg sp_entity_id acs_url in
      case SamlIdpConfig_binding_outbound cfg of
        SamlBinding_HttpRedirect \<Rightarrow>
          (case deflate lib xml of
             Inl e \<Rightarrow> Inl (BrokerError_Transport e)
           | Inr compressed \<Rightarrow>
               (let b64 = base64_std_encode lib compressed; url = SamlIdpConfig_sso_url cfg in
                Inr \<lparr>OutboundRequest_request_id = rid,
                  OutboundRequest_redirect = Some (url @ (if CHR ''?'' \<in> set url then ''&'' else ''?'') @
                    ''SAMLRequest='' @ percent_encode lib b64 @ ''&RelayState='' @ percent_encode lib relay_state),
                  OutboundRequest_post_form = None\<rparr>))
      | SamlBinding_HttpPost \<Rightarrow>
          Inr \<lparr>OutboundRequest_request_id = rid, OutboundRequest_redirect = None,
            OutboundRequest_post_form = Some \<lparr>SamlPostForm_sso_url = SamlIdpConfig_sso_url cfg,
              SamlPostForm_saml_request = base64_std_encode lib xml, SamlPostForm_relay_state = relay_state\<rparr>\<rparr>
      | SamlBinding_Artifact \<Rightarrow> Inl (BrokerError_Transport ''Artifact binding not supported in v0.1''))"

section \<open>Parsing a response\<close>

text \<open>
  The local variables of \<open>parse_response\<close>; the path is kept innermost first. What the accumulator of
  signed text collects is never read.
\<close>

record SamlParse =
  sp_out :: SamlResponse
  sp_path :: "string list"
  sp_attrib :: "string option"
  sp_assertion :: "SamlAssertionParsed option"
  sp_sig :: "SignatureBlock option"

definition SamlResponse_blank :: "string \<Rightarrow> SamlResponse" where
  "SamlResponse_blank xml = \<lparr>SamlResponse_raw_xml = xml, SamlResponse_response_id = [], SamlResponse_issuer = [],
     SamlResponse_in_response_to = None, SamlResponse_destination = None, SamlResponse_status_code = [],
     SamlResponse_assertion = None, SamlResponse_signature = None\<rparr>"

definition SamlAssertionParsed_blank :: SamlAssertionParsed where
  "SamlAssertionParsed_blank = \<lparr>SamlAssertionParsed_id = [], SamlAssertionParsed_issuer = [],
     SamlAssertionParsed_subject_name_id = [], SamlAssertionParsed_subject_name_id_format = NameIdFormat_Unspecified,
     SamlAssertionParsed_audiences = [], SamlAssertionParsed_recipient = None, SamlAssertionParsed_in_response_to = None,
     SamlAssertionParsed_not_before = None, SamlAssertionParsed_not_on_or_after = None,
     SamlAssertionParsed_attributes = [], SamlAssertionParsed_authn_instant = None,
     SamlAssertionParsed_session_index = None, SamlAssertionParsed_signature = None\<rparr>"

definition SignatureBlock_blank :: SignatureBlock where
  "SignatureBlock_blank = \<lparr>SignatureBlock_signed_info_c14n = [], SignatureBlock_signature_value = [],
     SignatureBlock_reference_digest = [], SignatureBlock_reference_uri = None,
     SignatureBlock_signature_method = [], SignatureBlock_digest_method = []\<rparr>"

text \<open>An attribute whose text cannot be unescaped is read as empty, or is skipped (\<open>if let Ok\<close>).\<close>

definition response_attr :: "string \<times> string option \<Rightarrow> SamlResponse \<Rightarrow> SamlResponse" where
  "response_attr at out =
     (let v = unwrap_or (snd at) [] in
      if fst at = ''ID'' then out\<lparr>SamlResponse_response_id := v\<rparr>
      else if fst at = ''InResponseTo'' then out\<lparr>SamlResponse_in_response_to := Some v\<rparr>
      else if fst at = ''Destination'' then out\<lparr>SamlResponse_destination := Some v\<rparr>
      else out)"

definition assertion_attr :: "string \<times> string option \<Rightarrow> SamlAssertionParsed \<Rightarrow> SamlAssertionParsed" where
  "assertion_attr at a = (if fst at = ''ID'' then a\<lparr>SamlAssertionParsed_id := unwrap_or (snd at) []\<rparr> else a)"

definition nameid_attr :: "string \<times> string option \<Rightarrow> SamlAssertionParsed \<Rightarrow> SamlAssertionParsed" where
  "nameid_attr at a =
     (case (fst at = ''Format'', snd at) of
        (True, Some v) \<Rightarrow> a\<lparr>SamlAssertionParsed_subject_name_id_format := parse_nameid_format v\<rparr>
      | _ \<Rightarrow> a)"

definition confirmation_attr ::
  "'l BrokerSamlLib_scheme \<Rightarrow> string \<times> string option \<Rightarrow> SamlAssertionParsed \<Rightarrow> SamlAssertionParsed" where
  "confirmation_attr lib at a =
     (let v = unwrap_or (snd at) [] in
      if fst at = ''Recipient'' then a\<lparr>SamlAssertionParsed_recipient := Some v\<rparr>
      else if fst at = ''InResponseTo'' then a\<lparr>SamlAssertionParsed_in_response_to := Some v\<rparr>
      else if fst at = ''NotOnOrAfter'' then a\<lparr>SamlAssertionParsed_not_on_or_after := parse_xs_dt lib v\<rparr>
      else if fst at = ''NotBefore'' then a\<lparr>SamlAssertionParsed_not_before := parse_xs_dt lib v\<rparr>
      else a)"

definition conditions_attr ::
  "'l BrokerSamlLib_scheme \<Rightarrow> string \<times> string option \<Rightarrow> SamlAssertionParsed \<Rightarrow> SamlAssertionParsed" where
  "conditions_attr lib at a =
     (let v = unwrap_or (snd at) [] in
      if fst at = ''NotBefore'' then a\<lparr>SamlAssertionParsed_not_before := parse_xs_dt lib v\<rparr>
      else if fst at = ''NotOnOrAfter'' then a\<lparr>SamlAssertionParsed_not_on_or_after := parse_xs_dt lib v\<rparr>
      else a)"

definition authn_attr ::
  "'l BrokerSamlLib_scheme \<Rightarrow> string \<times> string option \<Rightarrow> SamlAssertionParsed \<Rightarrow> SamlAssertionParsed" where
  "authn_attr lib at a =
     (let v = unwrap_or (snd at) [] in
      if fst at = ''AuthnInstant'' then a\<lparr>SamlAssertionParsed_authn_instant := parse_xs_dt lib v\<rparr>
      else if fst at = ''SessionIndex'' then a\<lparr>SamlAssertionParsed_session_index := Some v\<rparr>
      else a)"

text \<open>The last attribute of a name whose text can be unescaped.\<close>

definition attr_value :: "string \<Rightarrow> xml_attrs \<Rightarrow> string option" where
  "attr_value k ats = fold (\<lambda>at acc. case (fst at = k, snd at) of (True, Some v) \<Rightarrow> Some v | _ \<Rightarrow> acc) ats None"

definition start_element :: "'l BrokerSamlLib_scheme \<Rightarrow> string \<Rightarrow> xml_attrs \<Rightarrow> SamlParse \<Rightarrow> SamlParse" where
  "start_element lib qn ats st =
     (let loc = local_name qn; st = st\<lparr>sp_path := loc # sp_path st\<rparr>;
          on_assertion = (\<lambda>f. st\<lparr>sp_assertion := map_option (fold f ats) (sp_assertion st)\<rparr>);
          on_sig = (\<lambda>k f. case attr_value k ats of
                      Some v \<Rightarrow> st\<lparr>sp_sig := map_option (f v) (sp_sig st)\<rparr> | None \<Rightarrow> st) in
      if loc = ''Response'' then st\<lparr>sp_out := fold response_attr ats (sp_out st)\<rparr>
      else if loc = ''Assertion'' then st\<lparr>sp_assertion := Some (fold assertion_attr ats SamlAssertionParsed_blank)\<rparr>
      else if loc = ''NameID'' then on_assertion nameid_attr
      else if loc = ''SubjectConfirmationData'' then on_assertion (confirmation_attr lib)
      else if loc = ''Conditions'' then on_assertion (conditions_attr lib)
      else if loc = ''AuthnStatement'' then on_assertion (authn_attr lib)
      else if loc = ''Attribute'' then
        (case attr_value ''Name'' ats of Some v \<Rightarrow> st\<lparr>sp_attrib := Some v\<rparr> | None \<Rightarrow> st)
      else if loc = ''Signature'' then st\<lparr>sp_sig := Some SignatureBlock_blank\<rparr>
      else if loc = ''SignatureMethod'' then on_sig ''Algorithm'' (\<lambda>v sb. sb\<lparr>SignatureBlock_signature_method := v\<rparr>)
      else if loc = ''DigestMethod'' then on_sig ''Algorithm'' (\<lambda>v sb. sb\<lparr>SignatureBlock_digest_method := v\<rparr>)
      else if loc = ''Reference'' then on_sig ''URI'' (\<lambda>v sb. sb\<lparr>SignatureBlock_reference_uri := Some v\<rparr>)
      else st)"

definition push_value :: "string \<Rightarrow> string \<Rightarrow> (string, string list) btree_map \<Rightarrow> (string, string list) btree_map" where
  "push_value name v m = bt_insert name (unwrap_or (map_of m name) [] @ [v]) m"

definition decode_text ::
  "'l BrokerSamlLib_scheme \<Rightarrow> string \<Rightarrow> string \<Rightarrow> (string \<Rightarrow> SignatureBlock \<Rightarrow> SignatureBlock) \<Rightarrow> SamlParse \<Rightarrow> BrokerError + SamlParse" where
  "decode_text lib what txt f st =
     (case sp_sig st of
        None \<Rightarrow> Inr st
      | Some sb \<Rightarrow>
          (case base64_std_bytes lib (filter (\<lambda>c. \<not> is_ascii_whitespace c) txt) of
             Inl e \<Rightarrow> Inl (BrokerError_InvalidAssertion (what @ '' b64: '' @ e))
           | Inr bytes \<Rightarrow> Inr (st\<lparr>sp_sig := Some (f bytes sb)\<rparr>)))"

definition text_node :: "'l BrokerSamlLib_scheme \<Rightarrow> string \<Rightarrow> SamlParse \<Rightarrow> BrokerError + SamlParse" where
  "text_node lib txt st =
     (let in_path = (\<lambda>p. case sp_path st of q # _ \<Rightarrow> q = p | [] \<Rightarrow> False);
          on_assertion = (\<lambda>f. st\<lparr>sp_assertion := map_option f (sp_assertion st)\<rparr>) in
      if in_path ''Issuer'' then
        (if ''Assertion'' \<in> set (sp_path st)
         then Inr (on_assertion (\<lambda>a. a\<lparr>SamlAssertionParsed_issuer := txt\<rparr>))
         else Inr (st\<lparr>sp_out := (sp_out st)\<lparr>SamlResponse_issuer := txt\<rparr>\<rparr>))
      else if in_path ''NameID'' then Inr (on_assertion (\<lambda>a. a\<lparr>SamlAssertionParsed_subject_name_id := txt\<rparr>))
      else if in_path ''Audience'' then
        Inr (on_assertion (\<lambda>a. a\<lparr>SamlAssertionParsed_audiences := SamlAssertionParsed_audiences a @ [txt]\<rparr>))
      else if in_path ''StatusCode'' then Inr (st\<lparr>sp_out := (sp_out st)\<lparr>SamlResponse_status_code := txt\<rparr>\<rparr>)
      else if in_path ''AttributeValue'' then
        (case sp_attrib st of
           Some name \<Rightarrow> Inr (on_assertion (\<lambda>a. a\<lparr>SamlAssertionParsed_attributes :=
             push_value name txt (SamlAssertionParsed_attributes a)\<rparr>))
         | None \<Rightarrow> Inr st)
      else if in_path ''SignatureValue'' then
        decode_text lib ''sig'' txt (\<lambda>b sb. sb\<lparr>SignatureBlock_signature_value := b\<rparr>) st
      else if in_path ''DigestValue'' then
        decode_text lib ''digest'' txt (\<lambda>b sb. sb\<lparr>SignatureBlock_reference_digest := b\<rparr>) st
      else Inr st)"

text \<open>\<open>None\<close> is the panic of \<open>current_assertion.take().unwrap()\<close>.\<close>

definition end_element :: "string \<Rightarrow> SamlParse \<Rightarrow> SamlParse option" where
  "end_element qn st =
     (let loc = local_name qn; pop = (\<lambda>st. st\<lparr>sp_path := drop 1 (sp_path st)\<rparr>) in
      if loc = ''Attribute'' then Some (pop (st\<lparr>sp_attrib := None\<rparr>))
      else if loc = ''Assertion'' then
        map_option (\<lambda>a. pop (st\<lparr>sp_assertion := None, sp_sig := None,
          sp_out := (sp_out st)\<lparr>SamlResponse_assertion := Some (a\<lparr>SamlAssertionParsed_signature := sp_sig st\<rparr>)\<rparr>\<rparr>))
          (sp_assertion st)
      else if loc = ''SignedInfo'' then
        Some (pop (st\<lparr>sp_sig := map_option (\<lambda>sb. sb\<lparr>SignatureBlock_signed_info_c14n :=
          unwrap_or (signed_info_bytes (SamlResponse_raw_xml (sp_out st))) []\<rparr>) (sp_sig st)\<rparr>))
      else if loc = ''Response'' then
        Some (pop (st\<lparr>sp_out := (sp_out st)\<lparr>SamlResponse_signature :=
          (case sp_sig st of Some sb \<Rightarrow> Some sb | None \<Rightarrow> SamlResponse_signature (sp_out st))\<rparr>\<rparr>))
      else Some (pop st))"

fun response_event :: "'l BrokerSamlLib_scheme \<Rightarrow> XmlEvent \<Rightarrow> SamlParse \<Rightarrow> (BrokerError + SamlParse) option" where
  "response_event lib (XmlEvent_Start qn ats) st = Some (Inr (start_element lib qn ats st))"
| "response_event lib (XmlEvent_Empty qn ats) st = Some (Inr (start_element lib qn ats st))"
| "response_event lib (XmlEvent_Text t) st = Some (text_node lib (text_or_empty t) st)"
| "response_event lib (XmlEvent_End qn) st = map_option Inr (end_element qn st)"
| "response_event lib XmlEvent_Other st = Some (Inr st)"

fun response_events ::
  "'l BrokerSamlLib_scheme \<Rightarrow> XmlEvent list \<Rightarrow> (string \<times> nat) option \<Rightarrow> SamlParse \<Rightarrow> (BrokerError + SamlResponse) option" where
  "response_events lib [] err st =
     Some (case err of
             Some (e, pos) \<Rightarrow> Inl (BrokerError_InvalidAssertion (''xml parse: '' @ e @ '' at '' @ show_nat pos))
           | None \<Rightarrow> Inr (sp_out st))"
| "response_events lib (ev # evs) err st =
     (case response_event lib ev st of
        None \<Rightarrow> None
      | Some (Inl e) \<Rightarrow> Some (Inl e)
      | Some (Inr st) \<Rightarrow> response_events lib evs err st)"

definition decode_base64_std :: "'l BrokerSamlLib_scheme \<Rightarrow> string \<Rightarrow> string + string" where
  "decode_base64_std lib b64 =
     (case base64_std_bytes lib b64 of Inr raw \<Rightarrow> Inr raw | Inl _ \<Rightarrow> base64_std_no_pad_bytes lib b64)"

definition parse_response :: "'l BrokerSamlLib_scheme \<Rightarrow> string \<Rightarrow> (BrokerError + SamlResponse) option" where
  "parse_response lib b64 =
     (case decode_base64_std lib b64 of
        Inl e \<Rightarrow> Some (Inl (BrokerError_InvalidAssertion (''base64: '' @ e)))
      | Inr raw \<Rightarrow>
     (case str_from_utf8 lib raw of
        Inl e \<Rightarrow> Some (Inl (BrokerError_InvalidAssertion (''utf8: '' @ e)))
      | Inr xml \<Rightarrow>
          (let (evs, err) = xml_events lib xml in
           response_events lib evs err \<lparr>sp_out = SamlResponse_blank xml, sp_path = [], sp_attrib = None,
             sp_assertion = None, sp_sig = None\<rparr>)))"

section \<open>The signature\<close>

fun verify_with_certs :: "'l BrokerSamlLib_scheme \<Rightarrow> SignatureBlock \<Rightarrow> string option \<Rightarrow> string list \<Rightarrow> BrokerError + unit" where
  "verify_with_certs lib sig last_err [] = Inl (BrokerError_Signature (unwrap_or last_err ''no matching cert''))"
| "verify_with_certs lib sig last_err (pem # pems) =
     (case load_rsa_public_from_cert_pem lib pem of
        Inl e \<Rightarrow> Inl (BrokerError_Signature (''cert load: '' @ e))
      | Inr pk \<Rightarrow>
     (case rsa_signature_parse lib (SignatureBlock_signature_value sig) of
        Inl e \<Rightarrow> Inl (BrokerError_Signature (''sig parse: '' @ e))
      | Inr s \<Rightarrow>
     (case rsa_verify_pkcs1 lib pk (SignatureBlock_signed_info_c14n sig) s of
        Inr _ \<Rightarrow> Inr ()
      | Inl e \<Rightarrow> verify_with_certs lib sig (Some e) pems)))"

definition response_signature_block :: "SamlResponse \<Rightarrow> SignatureBlock option" where
  "response_signature_block response =
     (case SamlResponse_signature response of
        Some s \<Rightarrow> Some s
      | None \<Rightarrow> Option.bind (SamlResponse_assertion response) SamlAssertionParsed_signature)"

definition verify_response_signature ::
  "'l BrokerSamlLib_scheme \<Rightarrow> SamlResponse \<Rightarrow> string list \<Rightarrow> BrokerError + unit" where
  "verify_response_signature lib response cert_pems =
     (case response_signature_block response of
        None \<Rightarrow> Inl (BrokerError_Signature ''no signature'')
      | Some sig \<Rightarrow>
          if \<not> str_contains (SignatureBlock_signature_method sig) ''rsa-sha256''
          then Inl (BrokerError_Signature (''unsupported sigalg: '' @ SignatureBlock_signature_method sig))
          else if \<not> str_contains (SignatureBlock_digest_method sig) ''sha256''
          then Inl (BrokerError_Signature (''unsupported digestalg: '' @ SignatureBlock_digest_method sig))
          else
     (case SignatureBlock_reference_uri sig of
        None \<Rightarrow> Inl (BrokerError_Signature ''ref uri missing'')
      | Some uri \<Rightarrow>
     (case strip_prefix uri ''#'' of
        None \<Rightarrow> Inl (BrokerError_Signature (''bad ref uri: '' @ uri))
      | Some rid \<Rightarrow>
     (case slice_element_with_id (SamlResponse_raw_xml response) rid of
        None \<Rightarrow> Inl (BrokerError_Signature (''ref id '' @ rid @ '' not found''))
      | Some referenced \<Rightarrow>
          if sha256_digest lib (strip_signature referenced) \<noteq> SignatureBlock_reference_digest sig
          then Inl (BrokerError_Signature ''digest mismatch'')
          else verify_with_certs lib sig None cert_pems))))"

section \<open>From a response to an assertion\<close>

definition STATUS_SUCCESS :: string where
  "STATUS_SUCCESS = ''urn:oasis:names:tc:SAML:2.0:status:Success''"

definition saml_claims :: "(string, string list) btree_map \<Rightarrow> (string, AttributeValue) btree_map" where
  "saml_claims attributes =
     fold (\<lambda>(k, vs) m. case vs of
             [] \<Rightarrow> m
           | [single] \<Rightarrow> bt_insert k (AttributeValue_String single) m
           | many \<Rightarrow> bt_insert k (AttributeValue_Strings many) m) attributes []"

definition assertion_to_broker ::
  "DateTime \<Rightarrow> DateTime \<Rightarrow> string \<Rightarrow> string \<Rightarrow> string option \<Rightarrow> SamlResponse \<Rightarrow> BrokerError + BrokerAssertion" where
  "assertion_to_broker now received alias sp_entity_id expected_request_id response =
     (if SamlResponse_status_code response \<noteq> STATUS_SUCCESS
      then Inl (BrokerError_InvalidAssertion (''non-success status: '' @ SamlResponse_status_code response))
      else
     (case SamlResponse_assertion response of
        None \<Rightarrow> Inl (BrokerError_InvalidAssertion ''no assertion'')
      | Some a \<Rightarrow>
          if sp_entity_id \<notin> set (SamlAssertionParsed_audiences a)
          then Inl (BrokerError_InvalidAssertion ''audience mismatch'')
          else if expected_request_id \<noteq> None \<and>
            (case SamlAssertionParsed_in_response_to a of
               Some x \<Rightarrow> Some x | None \<Rightarrow> SamlResponse_in_response_to response) \<noteq> expected_request_id
          then Inl (BrokerError_InvalidAssertion ''InResponseTo mismatch'')
          else if (case SamlAssertionParsed_not_before a of Some nb \<Rightarrow> now + CLOCK_SKEW < nb | None \<Rightarrow> False)
          then Inl (BrokerError_InvalidAssertion ''nbf in future'')
          else if (case SamlAssertionParsed_not_on_or_after a of Some noa \<Rightarrow> now > noa + CLOCK_SKEW | None \<Rightarrow> False)
          then Inl (BrokerError_InvalidAssertion ''expired'')
          else Inr \<lparr>BrokerAssertion_idp_alias = alias,
                 BrokerAssertion_external_id = SamlAssertionParsed_subject_name_id a,
                 BrokerAssertion_issuer = SamlAssertionParsed_issuer a,
                 BrokerAssertion_claims = saml_claims (SamlAssertionParsed_attributes a),
                 BrokerAssertion_received_at = received,
                 BrokerAssertion_expires_at = SamlAssertionParsed_not_on_or_after a\<rparr>))"

section \<open>Where the parsed status and the signed bytes come from\<close>

lemma fold_response_attr [simp]:
  "SamlResponse_status_code (fold response_attr ats out) = SamlResponse_status_code out"
  "SamlResponse_raw_xml (fold response_attr ats out) = SamlResponse_raw_xml out"
  by (induction ats arbitrary: out) (simp_all add: response_attr_def Let_def)

lemma start_element_keeps [simp]:
  "SamlResponse_status_code (sp_out (start_element lib qn ats st)) = SamlResponse_status_code (sp_out st)"
  "SamlResponse_raw_xml (sp_out (start_element lib qn ats st)) = SamlResponse_raw_xml (sp_out st)"
  by (simp_all add: start_element_def Let_def split: option.split)

lemma end_element_keeps:
  assumes "end_element qn st = Some st'"
  shows "SamlResponse_status_code (sp_out st') = SamlResponse_status_code (sp_out st) \<and>
    SamlResponse_raw_xml (sp_out st') = SamlResponse_raw_xml (sp_out st)"
  using assms by (auto simp: end_element_def Let_def split: if_splits)

lemma text_node_keeps:
  assumes "text_node lib txt st = Inr st'"
  shows "SamlResponse_status_code (sp_out st') \<in> {SamlResponse_status_code (sp_out st), txt} \<and>
    SamlResponse_raw_xml (sp_out st') = SamlResponse_raw_xml (sp_out st)"
  using assms by (auto simp: text_node_def decode_text_def Let_def split: if_splits option.splits sum.splits)

definition text_nodes :: "XmlEvent list \<Rightarrow> string set" where
  "text_nodes evs = {text_or_empty t | t. XmlEvent_Text t \<in> set evs}"

lemma text_nodes_simps [simp]:
  "text_nodes [] = {}"
  "text_nodes (ev # evs) = (case ev of XmlEvent_Text t \<Rightarrow> {text_or_empty t} | _ \<Rightarrow> {}) \<union> text_nodes evs"
  by (auto simp: text_nodes_def split: XmlEvent.splits)

lemma response_events_status:
  assumes "response_events lib evs err st = Some (Inr r)"
  shows "(SamlResponse_status_code r = SamlResponse_status_code (sp_out st) \<or> SamlResponse_status_code r \<in> text_nodes evs) \<and>
    SamlResponse_raw_xml r = SamlResponse_raw_xml (sp_out st)"
  using assms
proof (induction lib evs err st rule: response_events.induct)
  case (2 lib ev evs err st)
  then obtain st' where st': "response_event lib ev st = Some (Inr st')"
    and rest: "response_events lib evs err st' = Some (Inr r)"
    by (auto split: option.splits sum.splits)
  have "(SamlResponse_status_code (sp_out st') = SamlResponse_status_code (sp_out st) \<or>
      SamlResponse_status_code (sp_out st') \<in> text_nodes [ev]) \<and>
    SamlResponse_raw_xml (sp_out st') = SamlResponse_raw_xml (sp_out st)"
    using st' by (cases ev) (auto dest!: text_node_keeps end_element_keeps)
  then show ?case using "2.IH" [OF st' _ rest] by (auto split: XmlEvent.splits)
qed (auto split: option.splits)

lemma parse_response_status:
  assumes "parse_response lib b64 = Some (Inr r)"
  shows "\<exists>raw xml evs. decode_base64_std lib b64 = Inr raw \<and> str_from_utf8 lib raw = Inr xml \<and> xml_events lib xml = (evs, None) \<and>
    SamlResponse_raw_xml r = xml \<and> SamlResponse_status_code r \<in> insert [] (text_nodes evs)"
proof -
  obtain raw xml where xml: "decode_base64_std lib b64 = Inr raw" "str_from_utf8 lib raw = Inr xml"
    using assms by (auto simp: parse_response_def split: sum.splits)
  obtain evs err where evs: "xml_events lib xml = (evs, err)" by force
  have run: "response_events lib evs err \<lparr>sp_out = SamlResponse_blank xml, sp_path = [], sp_attrib = None,
      sp_assertion = None, sp_sig = None\<rparr> = Some (Inr r)"
    using assms by (simp add: parse_response_def xml evs)
  have "err = None" if "response_events lib evs err st = Some (Inr r)" for st
    using that by (induction lib evs err st rule: response_events.induct) (auto split: option.splits sum.splits)
  then show ?thesis
    using response_events_status [OF run] xml evs run by (auto simp: SamlResponse_blank_def)
qed

lemma verify_with_certs_sound:
  assumes "verify_with_certs lib sig last_err pems = Inr u"
  shows "\<exists>pem pk s. pem \<in> set pems \<and> load_rsa_public_from_cert_pem lib pem = Inr pk \<and>
    rsa_signature_parse lib (SignatureBlock_signature_value sig) = Inr s \<and>
    rsa_verify_pkcs1 lib pk (SignatureBlock_signed_info_c14n sig) s = Inr ()"
  using assms
proof (induction pems arbitrary: last_err)
  case (Cons pem pems)
  show ?case
  proof (cases "\<exists>pk s. load_rsa_public_from_cert_pem lib pem = Inr pk \<and>
      rsa_signature_parse lib (SignatureBlock_signature_value sig) = Inr s \<and>
      rsa_verify_pkcs1 lib pk (SignatureBlock_signed_info_c14n sig) s = Inr ()")
    case False
    then obtain e where "verify_with_certs lib sig (Some e) pems = Inr u"
      using Cons.prems by (auto split: sum.splits)
    then show ?thesis using Cons.IH by fastforce
  qed auto
qed simp

lemma verify_response_signature_sound:
  assumes "verify_response_signature lib r pems = Inr u"
  shows "\<exists>sig rid referenced. response_signature_block r = Some sig \<and> SignatureBlock_reference_uri sig = Some (''#'' @ rid) \<and>
    slice_element_with_id (SamlResponse_raw_xml r) rid = Some referenced \<and>
    sha256_digest lib (strip_signature referenced) = SignatureBlock_reference_digest sig \<and>
    (\<exists>pem pk s. pem \<in> set pems \<and> load_rsa_public_from_cert_pem lib pem = Inr pk \<and>
      rsa_signature_parse lib (SignatureBlock_signature_value sig) = Inr s \<and>
      rsa_verify_pkcs1 lib pk (SignatureBlock_signed_info_c14n sig) s = Inr ())"
  using assms
  by (auto simp: verify_response_signature_def strip_prefix_eq_Some split: option.splits if_splits
      dest!: verify_with_certs_sound)

section \<open>A nested assertion ends the request with a panic\<close>

theorem nested_assertion_panics:
  "response_events lib [XmlEvent_Start ''Assertion'' [], XmlEvent_Start ''Assertion'' [],
     XmlEvent_End ''Assertion'', XmlEvent_End ''Assertion''] err st = None"
  by (simp add: start_element_def end_element_def local_name_def Let_def)

end
