(* ===== verification/Broker_Server.thy ===== *)
theory Broker_Server
  imports Broker_Saml
begin

text \<open>
  The broker endpoints of the server, \<^verbatim>\<open>crates/geonosis-server/src\<close> \<open>handlers/broker.rs\<close> and
  \<open>broker.rs\<close>: the start of a login at an identity provider, the callbacks of both protocols, and the
  link between an external identity and a local account. A handler maps the broker's runtime (its
  caches) and the server state to an answer and their new values; clock readings, ids and random
  tokens are arguments. Shown: a login leaves exactly the row its callback will look for, with the
  verifier whose challenge is sent; a SAML callback links an identity only against a consumed row and
  an assertion for this server within its time window; an OpenID Connect callback never succeeds.
\<close>

section \<open>Requests, errors, draws\<close>

record BrokerRuntime =
  BrokerRuntime_discovery :: DiscoveryCache

definition BrokerRuntime_new :: BrokerRuntime where
  "BrokerRuntime_new = \<lparr>BrokerRuntime_discovery = DiscoveryCache_new\<rparr>"

definition broker_redirect_uri :: "Url \<Rightarrow> Realm \<Rightarrow> string \<Rightarrow> string" where
  "broker_redirect_uri public_base realm alias =
     trim_end_char CHR ''/'' public_base @ ''/realms/'' @ Realm_slug realm @ ''/broker/'' @ alias @ ''/endpoint''"

record LoginQuery =
  LoginQuery_flow :: "string option"

record OidcCallbackQuery =
  OidcCallbackQuery_code :: "string option"
  OidcCallbackQuery_state :: string
  OidcCallbackQuery_error :: "string option"
  OidcCallbackQuery_error_description :: "string option"

record SamlCallbackForm =
  SamlCallbackForm_saml_response :: string
  SamlCallbackForm_relay_state :: "string option"

record SamlMetadata =
  SamlMetadata_entity_id :: string
  SamlMetadata_acs_url :: string
  SamlMetadata_slo_url :: string

fun BrokerError_to_string :: "BrokerError \<Rightarrow> string" where
  "BrokerError_to_string (BrokerError_UnknownIdp s) = ''unknown idp alias: '' @ s"
| "BrokerError_to_string BrokerError_StateMismatch = ''callback state mismatch''"
| "BrokerError_to_string BrokerError_ExpiredState = ''expired state''"
| "BrokerError_to_string BrokerError_NonceMismatch = ''nonce mismatch''"
| "BrokerError_to_string (BrokerError_InvalidAssertion s) = ''assertion validation: '' @ s"
| "BrokerError_to_string (BrokerError_Discovery s) = ''discovery: '' @ s"
| "BrokerError_to_string (BrokerError_TokenExchange s) = ''token exchange: '' @ s"
| "BrokerError_to_string (BrokerError_Signature s) = ''signature: '' @ s"
| "BrokerError_to_string (BrokerError_ClockSkew age) = ''clock skew: token age '' @ show_int age @ ''s exceeds tolerance''"
| "BrokerError_to_string (BrokerError_Transport s) = ''transport: '' @ s"

definition broker_err_to_problem :: "BrokerError \<Rightarrow> JsonProblem" where
  "broker_err_to_problem e =
     (case e of
        BrokerError_UnknownIdp _ \<Rightarrow> not_found (BrokerError_to_string e)
      | BrokerError_Transport _ \<Rightarrow> bad_gateway (BrokerError_to_string e)
      | BrokerError_Discovery _ \<Rightarrow> bad_gateway (BrokerError_to_string e)
      | BrokerError_TokenExchange _ \<Rightarrow> bad_gateway (BrokerError_to_string e)
      | _ \<Rightarrow> bad_request (BrokerError_to_string e))"

text \<open>
  What a request draws: its clock readings, the id, state, nonce and random bytes of a new row, the id a
  missing flow gets, the id of a new link and the placeholder of its user. A handler reads the clock
  several times; \<open>bd_received\<close> is the reading when an assertion is received, \<open>bd_now\<close> the others.
\<close>

record BrokerDraw =
  bd_now :: DateTime
  bd_received :: DateTime
  bd_state_id :: BrokerAuthnStateId
  bd_state :: string
  bd_nonce :: string
  bd_verifier_bytes :: string
  bd_request_id :: string
  bd_flow :: FlowStateId
  bd_link :: BrokerLinkId
  bd_user :: UserId

definition broker_html_escape :: "string \<Rightarrow> string" where
  "broker_html_escape s =
     replace_char CHR 0x27 ''&#39;'' (replace_char CHR 0x22 ''&quot;'' (replace_char CHR ''>'' ''&gt;''
       (replace_char CHR ''<'' ''&lt;'' (replace_char CHR ''&'' ''&amp;'' s))))"

text \<open>The generic adapter is always registered (\<open>get_default_adapter\<close>), so the lookup never panics.\<close>

definition builtin_adapter :: "string option \<Rightarrow> BrokerAdapter" where
  "builtin_adapter u =
     (case BuiltinAdapters_get (unwrap_or u GENERIC_OIDC) BuiltinAdapters_default of
        Some a \<Rightarrow> a | None \<Rightarrow> GenericOidcAdapter)"

section \<open>Starting a login\<close>

definition broker_login_oidc ::
  "'l BrokerSamlLib_scheme \<Rightarrow> BrokerDraw \<Rightarrow> Realm \<Rightarrow> IdentityProvider \<Rightarrow> string \<Rightarrow> OidcIdpConfig \<Rightarrow> FlowStateId \<Rightarrow>
   BrokerRuntime \<times> AppState \<Rightarrow> (JsonProblem + Response) \<times> BrokerRuntime \<times> AppState" where
  "broker_login_oidc lib draw realm idp alias cfg flow_state_id = (\<lambda>(rt, state).
     let (found, cache) = DiscoveryCache_get_discovery lib (bd_now draw) alias cfg (BrokerRuntime_discovery rt);
         rt = rt\<lparr>BrokerRuntime_discovery := cache\<rparr> in
     case found of
       Inl e \<Rightarrow> (Inl (broker_err_to_problem e), rt, state)
     | Inr discovery \<Rightarrow>
         (let redirect_uri = broker_redirect_uri (AppState_public_base_url state) realm alias;
              pkce = (if OidcIdpConfig_pkce cfg then Some (PkcePair_generate lib (bd_verifier_bytes draw)) else None);
              br_state = BrokerAuthnState_new (bd_state_id draw) (bd_now draw) (bd_state draw) (bd_nonce draw)
                (Realm_id realm) alias flow_state_id;
              br_state = (case pkce of
                            Some p \<Rightarrow> BrokerAuthnState_with_pkce (PkcePair_verifier p) br_state | None \<Rightarrow> br_state);
              (saved, state) = with_storage (save_broker_state br_state) state in
          case saved of
            Inl e \<Rightarrow> (Inl (internal (StorageError_to_string e)), rt, state)
          | Inr _ \<Rightarrow>
              (let extra = extra_authorization_params (builtin_adapter (IdentityProvider_adapter_urn idp)) @
                     (case OidcIdpConfig_prompt cfg of Some p \<Rightarrow> [(''prompt'', p)] | None \<Rightarrow> []) @
                     (case OidcIdpConfig_response_mode cfg of Some m \<Rightarrow> [(''response_mode'', m)] | None \<Rightarrow> []) in
               (Inr (Response_Redirect (authorization_url lib discovery cfg redirect_uri
                  (BrokerAuthnState_state br_state) (unwrap_or (BrokerAuthnState_nonce br_state) [])
                  (map_option PkcePair_challenge pkce) extra)), rt, state))))"

definition sp_entity_id :: "AppState \<Rightarrow> Realm \<Rightarrow> string" where
  "sp_entity_id state realm = trim_end_char CHR ''/'' (AppState_public_base_url state) @ ''/realms/'' @ Realm_slug realm"

definition auto_post_form :: "OutboundSamlPostForm \<Rightarrow> string" where
  "auto_post_form form =
     ''<!doctype html><html><body onload=\"document.forms[0].submit()\"><form method=\"POST\" action=\"'' @
     broker_html_escape (SamlPostForm_sso_url form) @ ''\"><input type=\"hidden\" name=\"SAMLRequest\" value=\"'' @
     broker_html_escape (SamlPostForm_saml_request form) @ ''\"/><input type=\"hidden\" name=\"RelayState\" value=\"'' @
     broker_html_escape (SamlPostForm_relay_state form) @
     ''\"/><noscript><button type=\"submit\">Continue</button></noscript></form></body></html>''"

definition broker_login_saml ::
  "'l BrokerSamlLib_scheme \<Rightarrow> BrokerDraw \<Rightarrow> Realm \<Rightarrow> string \<Rightarrow> SamlIdpConfig \<Rightarrow> FlowStateId \<Rightarrow> AppState \<Rightarrow>
   (JsonProblem + Response) \<times> AppState" where
  "broker_login_saml lib draw realm alias cfg flow_state_id state =
     (let acs = broker_redirect_uri (AppState_public_base_url state) realm alias;
          br_state = BrokerAuthnState_new (bd_state_id draw) (bd_now draw) (bd_state draw) (bd_nonce draw)
            (Realm_id realm) alias flow_state_id;
          (saved, state) = with_storage (save_broker_state br_state) state in
      case saved of
        Inl e \<Rightarrow> (Inl (internal (StorageError_to_string e)), state)
      | Inr _ \<Rightarrow>
          (case build_authn_request lib (bd_request_id draw) (bd_now draw) cfg (sp_entity_id state realm) acs
                  (BrokerAuthnState_state br_state) of
             Inl e \<Rightarrow> (Inl (broker_err_to_problem e), state)
           | Inr out \<Rightarrow>
               (case OutboundRequest_redirect out of
                  Some url \<Rightarrow> (Inr (Response_Redirect url), state)
                | None \<Rightarrow>
                    (case OutboundRequest_post_form out of
                       Some form \<Rightarrow> (Inr (Response 200 (Body_Html (auto_post_form form))), state)
                     | None \<Rightarrow> (Inl (internal ''saml binding produced no output''), state)))))"

definition broker_login ::
  "'l BrokerSamlLib_scheme \<Rightarrow> BrokerDraw \<Rightarrow> string \<Rightarrow> string \<Rightarrow> LoginQuery \<Rightarrow> BrokerRuntime \<times> AppState \<Rightarrow>
   (JsonProblem + Response) \<times> BrokerRuntime \<times> AppState" where
  "broker_login lib draw slug alias q = (\<lambda>(rt, state).
     case get_realm_by_slug slug (AppState_storage state) of
       Inl _ \<Rightarrow> (Inl (not_found ''unknown realm''), rt, state)
     | Inr realm \<Rightarrow>
     (case get_idp_by_alias (Realm_id realm) alias (AppState_storage state) of
        Inl _ \<Rightarrow> (Inl (not_found ''unknown idp''), rt, state)
      | Inr idp \<Rightarrow>
          if \<not> IdentityProvider_enabled idp then (Inl (bad_request ''idp disabled''), rt, state)
          else (let flow_state_id = unwrap_or (Option.bind (LoginQuery_flow q)
                      (\<lambda>s. case parse_ulid lib s of Inr u \<Rightarrow> Some (FlowStateId u) | Inl _ \<Rightarrow> None)) (bd_flow draw) in
                case IdentityProvider_config idp of
                  IdpConfig_Oidc cfg \<Rightarrow> broker_login_oidc lib draw realm idp alias cfg flow_state_id (rt, state)
                | IdpConfig_Saml cfg \<Rightarrow>
                    (let (r, state) = broker_login_saml lib draw realm alias cfg flow_state_id state in (r, rt, state)))))"

section \<open>The link\<close>

definition persist_or_link ::
  "BrokerDraw \<Rightarrow> RealmId \<Rightarrow> BrokerAssertion \<Rightarrow> AppState \<Rightarrow> (JsonProblem + unit) \<times> AppState" where
  "persist_or_link draw realm_id assertion state =
     (case find_broker_link realm_id (BrokerAssertion_idp_alias assertion) (BrokerAssertion_external_id assertion)
             (AppState_storage state) of
        Inl e \<Rightarrow> (Inl (internal (StorageError_to_string e)), state)
      | Inr found \<Rightarrow>
          (let link = (case found of
                 Some existing \<Rightarrow> existing\<lparr>BrokerLink_last_login_at := Some (bd_now draw)\<rparr>
               | None \<Rightarrow>
                   \<lparr>BrokerLink_id = bd_link draw, BrokerLink_realm_id = realm_id, BrokerLink_user_id = bd_user draw,
                    BrokerLink_idp_alias = BrokerAssertion_idp_alias assertion,
                    BrokerLink_external_id = BrokerAssertion_external_id assertion,
                    BrokerLink_external_username =
                      Option.bind (map_of (BrokerAssertion_claims assertion) ''preferred_username'') AttributeValue_as_str,
                    BrokerLink_created_at = bd_now draw, BrokerLink_last_login_at = Some (bd_now draw)\<rparr>);
               (saved, state) = with_storage (upsert_broker_link link) state in
           case saved of
             Inl e \<Rightarrow> (Inl (internal (StorageError_to_string e)), state)
           | Inr _ \<Rightarrow> (Inr (), state)))"

section \<open>The OpenID Connect callback\<close>

definition fake_realm_for :: "string \<Rightarrow> BrokerError + Realm" where
  "fake_realm_for alias = Inl (BrokerError_Transport ''internal'')"

definition exchange_for_claims ::
  "'l BrokerSamlLib_scheme \<Rightarrow> BrokerDraw \<Rightarrow> string \<Rightarrow> OidcIdpConfig \<Rightarrow> BrokerAuthnState \<Rightarrow> string \<Rightarrow> string option \<Rightarrow>
   OidcDiscovery \<Rightarrow> BrokerRuntime \<times> AppState \<Rightarrow> (BrokerError + BrokerAssertion) \<times> BrokerRuntime" where
  "exchange_for_claims lib draw alias cfg br_state code adapter_urn discovery = (\<lambda>(rt, state).
     case get_realm (BrokerAuthnState_realm_id br_state) (AppState_storage state) of
       Inl e \<Rightarrow> (Inl (BrokerError_Transport (StorageError_to_string e)), rt)
     | Inr realm \<Rightarrow>
     (case exchange_code lib discovery cfg code (broker_redirect_uri (AppState_public_base_url state) realm alias)
             (map_option expose (BrokerAuthnState_pkce_verifier br_state)) of
        Inl e \<Rightarrow> (Inl e, rt)
      | Inr tok \<Rightarrow>
     (let (keys, cache) = DiscoveryCache_get_jwks lib (bd_now draw) alias (OidcDiscovery_jwks_uri discovery)
            (BrokerRuntime_discovery rt);
          rt = rt\<lparr>BrokerRuntime_discovery := cache\<rparr> in
      case keys of
        Inl e \<Rightarrow> (Inl e, rt)
      | Inr keys \<Rightarrow>
     (case TokenResponse_id_token tok of
        None \<Rightarrow> (Inl (BrokerError_InvalidAssertion ''no id_token''), rt)
      | Some id_token \<Rightarrow>
     (case verify_id_token lib id_token (OidcIdpConfig_issuer cfg) (OidcIdpConfig_client_id cfg)
             (BrokerAuthnState_nonce br_state) keys (timestamp (bd_now draw)) of
        Inl e \<Rightarrow> (Inl e, rt)
      | Inr claims \<Rightarrow>
     (let adapter = builtin_adapter adapter_urn;
          assertion = enrich_assertion adapter claims (assertion_from_claims (bd_received draw) alias claims
            (map_option (\<lambda>s. bd_received draw + chrono_seconds s) (TokenResponse_expires_in tok))) in
      case userinfo_override lib adapter (TokenResponse_access_token tok) of
        Inl e \<Rightarrow> (Inl e, rt)
      | Inr None \<Rightarrow> (Inr assertion, rt)
      | Inr (Some extra) \<Rightarrow>
          (Inr (assertion\<lparr>BrokerAssertion_claims := bt_extend (BrokerAssertion_claims assertion) extra\<rparr>), rt)))))))"

definition exchange_and_verify ::
  "'l BrokerSamlLib_scheme \<Rightarrow> BrokerDraw \<Rightarrow> string \<Rightarrow> OidcIdpConfig \<Rightarrow> BrokerAuthnState \<Rightarrow> string \<Rightarrow> string option \<Rightarrow>
   BrokerRuntime \<times> AppState \<Rightarrow> (BrokerError + BrokerAssertion) \<times> BrokerRuntime" where
  "exchange_and_verify lib draw alias cfg br_state code adapter_urn = (\<lambda>(rt, state).
     let (found, cache) = DiscoveryCache_get_discovery lib (bd_now draw) alias cfg (BrokerRuntime_discovery rt);
         rt = rt\<lparr>BrokerRuntime_discovery := cache\<rparr> in
     case found of
       Inl e \<Rightarrow> (Inl e, rt)
     | Inr discovery \<Rightarrow>
         (case fake_realm_for alias of
            Inl e \<Rightarrow> (Inl e, rt)
          | Inr _ \<Rightarrow> exchange_for_claims lib draw alias cfg br_state code adapter_urn discovery (rt, state)))"

definition broker_endpoint_get ::
  "'l BrokerSamlLib_scheme \<Rightarrow> BrokerDraw \<Rightarrow> string \<Rightarrow> string \<Rightarrow> OidcCallbackQuery \<Rightarrow> BrokerRuntime \<times> AppState \<Rightarrow>
   (JsonProblem + BrokerAssertion) \<times> BrokerRuntime \<times> AppState" where
  "broker_endpoint_get lib draw slug alias q = (\<lambda>(rt, state).
     case OidcCallbackQuery_error q of
       Some err \<Rightarrow> (Inl (bad_request (''idp error: '' @ err @ '' '' @
         unwrap_or (OidcCallbackQuery_error_description q) [])), rt, state)
     | None \<Rightarrow>
     (case get_realm_by_slug slug (AppState_storage state) of
        Inl _ \<Rightarrow> (Inl (not_found ''unknown realm''), rt, state)
      | Inr realm \<Rightarrow>
     (case get_idp_by_alias (Realm_id realm) alias (AppState_storage state) of
        Inl _ \<Rightarrow> (Inl (not_found ''unknown idp''), rt, state)
      | Inr idp \<Rightarrow>
     (case IdentityProvider_config idp of
        IdpConfig_Saml _ \<Rightarrow> (Inl (bad_request ''GET callback is OIDC-only''), rt, state)
      | IdpConfig_Oidc cfg \<Rightarrow>
     (let (consumed, state) = with_storage (consume_broker_state (Realm_id realm) (OidcCallbackQuery_state q)) state in
      case consumed of
        Inl _ \<Rightarrow> (Inl (bad_request ''state not found''), rt, state)
      | Inr br_state \<Rightarrow>
          if BrokerAuthnState_is_expired br_state (bd_now draw) then (Inl (bad_request ''state expired''), rt, state)
          else
     (case OidcCallbackQuery_code q of
        None \<Rightarrow> (Inl (bad_request ''missing code''), rt, state)
      | Some code \<Rightarrow>
     (let (verified, rt) = exchange_and_verify lib draw alias cfg br_state code (IdentityProvider_adapter_urn idp) (rt, state) in
      case verified of
        Inl e \<Rightarrow> (Inl (broker_err_to_problem e), rt, state)
      | Inr assertion \<Rightarrow>
     (let (linked, state) = persist_or_link draw (Realm_id realm) assertion state in
      case linked of
        Inl p \<Rightarrow> (Inl p, rt, state)
      | Inr _ \<Rightarrow> (Inr assertion, rt, state)))))))))"

section \<open>The SAML callback\<close>

text \<open>\<open>None\<close> is the panic of the parser.\<close>

definition broker_endpoint_post ::
  "'l BrokerSamlLib_scheme \<Rightarrow> BrokerDraw \<Rightarrow> string \<Rightarrow> string \<Rightarrow> SamlCallbackForm \<Rightarrow> AppState \<Rightarrow>
   (JsonProblem + BrokerAssertion) option \<times> AppState" where
  "broker_endpoint_post lib draw slug alias form state =
     (case get_realm_by_slug slug (AppState_storage state) of
        Inl _ \<Rightarrow> (Some (Inl (not_found ''unknown realm'')), state)
      | Inr realm \<Rightarrow>
     (case get_idp_by_alias (Realm_id realm) alias (AppState_storage state) of
        Inl _ \<Rightarrow> (Some (Inl (not_found ''unknown idp'')), state)
      | Inr idp \<Rightarrow>
     (case IdentityProvider_config idp of
        IdpConfig_Oidc _ \<Rightarrow> (Some (Inl (bad_request ''POST callback is SAML-only'')), state)
      | IdpConfig_Saml cfg \<Rightarrow>
     (case parse_response lib (SamlCallbackForm_saml_response form) of
        None \<Rightarrow> (None, state)
      | Some (Inl e) \<Rightarrow> (Some (Inl (broker_err_to_problem e)), state)
      | Some (Inr response) \<Rightarrow>
     (case (if SamlIdpConfig_want_responses_signed cfg \<or> SamlIdpConfig_want_assertions_signed cfg
            then verify_response_signature lib response (SamlIdpConfig_signing_cert_pems cfg) else Inr ()) of
        Inl e \<Rightarrow> (Some (Inl (broker_err_to_problem e)), state)
      | Inr _ \<Rightarrow>
     (case SamlCallbackForm_relay_state form of
        None \<Rightarrow> (Some (Inl (bad_request ''missing RelayState'')), state)
      | Some relay \<Rightarrow>
     (let (consumed, state) = with_storage (consume_broker_state (Realm_id realm) relay) state in
      case consumed of
        Inl _ \<Rightarrow> (Some (Inl (bad_request ''RelayState not found'')), state)
      | Inr br_state \<Rightarrow>
     (case assertion_to_broker (bd_now draw) (bd_received draw) alias (sp_entity_id state realm) None response of
        Inl e \<Rightarrow> (Some (Inl (broker_err_to_problem e)), state)
      | Inr assertion \<Rightarrow>
     (let (linked, state) = persist_or_link draw (Realm_id realm) assertion state in
      case linked of
        Inl p \<Rightarrow> (Some (Inl p), state)
      | Inr _ \<Rightarrow> (Some (Inr assertion), state))))))))))"

definition broker_metadata :: "string \<Rightarrow> string \<Rightarrow> AppState \<Rightarrow> JsonProblem + SamlMetadata" where
  "broker_metadata slug alias state =
     (case get_realm_by_slug slug (AppState_storage state) of
        Inl _ \<Rightarrow> Inl (not_found ''unknown realm'')
      | Inr realm \<Rightarrow>
     (case get_idp_by_alias (Realm_id realm) alias (AppState_storage state) of
        Inl _ \<Rightarrow> Inl (not_found ''unknown idp'')
      | Inr _ \<Rightarrow>
          (let base = trim_end_char CHR ''/'' (AppState_public_base_url state) in
           Inr \<lparr>SamlMetadata_entity_id = base @ ''/realms/'' @ Realm_slug realm,
             SamlMetadata_acs_url = base @ ''/realms/'' @ Realm_slug realm @ ''/broker/'' @ alias @ ''/endpoint'',
             SamlMetadata_slo_url = base @ ''/realms/'' @ Realm_slug realm @ ''/protocol/openid-connect/logout''\<rparr>)))"

section \<open>An OpenID Connect callback never succeeds\<close>

lemma exchange_never: "exchange_and_verify lib draw alias cfg row code u app \<noteq> (Inr a, rt')"
  by (cases app) (auto simp: exchange_and_verify_def fake_realm_for_def Let_def split: prod.splits sum.splits)

text \<open>
  C19: The OpenID Connect callback fails for every request and in every state: after the lookups, the
  state row and the code have been checked, the placeholder \<open>fake_realm_for\<close> ends the exchange with an
  error before the token endpoint is called. Whatever was found is answered with a problem, no link is
  written, and all the callback may change in the store is that the presented state row is gone.
\<close>

theorem oidc_callback_never_succeeds:
  "case broker_endpoint_get lib draw slug alias q (rt, state) of (answer, rt', state') \<Rightarrow>
     (\<exists>problem. answer = Inl problem) \<and>
     (state' = state \<or>
      (\<exists>realm. get_realm_by_slug slug (AppState_storage state) = Inr realm \<and>
        state' = state\<lparr>AppState_storage := (AppState_storage state)\<lparr>broker_states :=
          hm_remove (Realm_id realm, OidcCallbackQuery_state q) (broker_states (AppState_storage state))\<rparr>\<rparr>))"
  by (auto simp: broker_endpoint_get_def with_storage_eq consume_broker_state_def exchange_never Let_def
      split: option.splits sum.splits IdpConfig.splits prod.splits)

end
