(* ===== verification/Broker_Sound.thy ===== *)
theory Broker_Sound
  imports Broker_Server
begin

text \<open>
  What the broker endpoints guarantee, over the definitions of \<open>Broker_Server\<close>: what a login leaves for
  its callback, what a SAML callback must have been presented, what it does not look at, and a response
  in which the signed element and the accepted assertion are different ones.
\<close>

section \<open>What a login leaves for its callback\<close>

lemma saved_state: "AppState_storage (snd (with_storage (save_broker_state row) state)) =
    (AppState_storage state)\<lparr>broker_states := hm_insert (BrokerAuthnState_realm_id row, BrokerAuthnState_state row) row
       (broker_states (AppState_storage state))\<rparr>"
  by (simp add: with_storage_eq save_broker_state_def)

text \<open>
  C17: The round trip of a brokered login. When \<open>broker_login\<close> redirects the browser to an OpenID
  Connect provider, the store holds a row of the realm under the fresh state value, for this alias,
  with the fresh nonce and a life of ten minutes; the URL is the authorization URL for exactly that
  state and nonce, and with PKCE switched on the row keeps the verifier whose SHA-256 challenge the
  URL carries. Consuming the row under that state gives it back, and a second time finds nothing.
\<close>

theorem broker_login_roundtrip:
  assumes "broker_login lib draw slug alias q (rt, state) = (Inr (Response_Redirect url), rt', state')"
    and "get_realm_by_slug slug (AppState_storage state) = Inr realm"
    and "get_idp_by_alias (Realm_id realm) alias (AppState_storage state) = Inr idp"
    and "IdentityProvider_config idp = IdpConfig_Oidc cfg"
  shows "\<exists>row discovery extra. IdentityProvider_enabled idp \<and>
    fst (consume_broker_state (Realm_id realm) (bd_state draw) (AppState_storage state')) = Inr row \<and>
    fst (consume_broker_state (Realm_id realm) (bd_state draw)
      (snd (consume_broker_state (Realm_id realm) (bd_state draw) (AppState_storage state')))) = Inl NotFound \<and>
    BrokerAuthnState_idp_alias row = alias \<and> BrokerAuthnState_nonce row = Some (bd_nonce draw) \<and>
    BrokerAuthnState_expires_at row = bd_now draw + int (secs 600) \<and>
    map_option expose (BrokerAuthnState_pkce_verifier row) =
      (if OidcIdpConfig_pkce cfg then Some (base64_url_no_pad lib (bd_verifier_bytes draw)) else None) \<and>
    url = authorization_url lib discovery cfg (broker_redirect_uri (AppState_public_base_url state) realm alias)
      (bd_state draw) (bd_nonce draw)
      (map_option (PkcePair_challenge_for lib \<circ> expose) (BrokerAuthnState_pkce_verifier row)) extra"
proof -
  define flow where "flow = unwrap_or (Option.bind (LoginQuery_flow q)
    (\<lambda>s. case parse_ulid lib s of Inr u \<Rightarrow> Some (FlowStateId u) | Inl _ \<Rightarrow> None)) (bd_flow draw)"
  define row0 where "row0 = BrokerAuthnState_new (bd_state_id draw) (bd_now draw) (bd_state draw) (bd_nonce draw)
    (Realm_id realm) alias flow"
  define row where "row = (if OidcIdpConfig_pkce cfg
    then BrokerAuthnState_with_pkce (base64_url_no_pad lib (bd_verifier_bytes draw)) row0 else row0)"
  have enabled: "IdentityProvider_enabled idp"
    and run: "broker_login_oidc lib draw realm idp alias cfg flow (rt, state) = (Inr (Response_Redirect url), rt', state')"
    using assms by (auto simp: broker_login_def flow_def split: if_splits)
  then obtain discovery extra where
    url: "url = authorization_url lib discovery cfg (broker_redirect_uri (AppState_public_base_url state) realm alias)
      (BrokerAuthnState_state row) (unwrap_or (BrokerAuthnState_nonce row) [])
      (if OidcIdpConfig_pkce cfg then Some (PkcePair_challenge_for lib (base64_url_no_pad lib (bd_verifier_bytes draw))) else None) extra"
    and st: "AppState_storage state' = (AppState_storage state)\<lparr>broker_states :=
      hm_insert (BrokerAuthnState_realm_id row, BrokerAuthnState_state row) row (broker_states (AppState_storage state))\<rparr>"
    by (auto simp: broker_login_oidc_def PkcePair_generate_def row_def row0_def with_storage_eq save_broker_state_def
        Let_def BrokerAuthnState_with_pkce_def split: prod.splits sum.splits if_splits)
  have row: "BrokerAuthnState_realm_id row = Realm_id realm" "BrokerAuthnState_state row = bd_state draw"
    "BrokerAuthnState_nonce row = Some (bd_nonce draw)" "BrokerAuthnState_idp_alias row = alias"
    "BrokerAuthnState_expires_at row = bd_now draw + int (secs 600)"
    "map_option expose (BrokerAuthnState_pkce_verifier row) =
      (if OidcIdpConfig_pkce cfg then Some (base64_url_no_pad lib (bd_verifier_bytes draw)) else None)"
    by (simp_all add: row_def row0_def BrokerAuthnState_new_def BrokerAuthnState_with_pkce_def)
  then have challenge: "map_option (PkcePair_challenge_for lib \<circ> expose) (BrokerAuthnState_pkce_verifier row) =
      (if OidcIdpConfig_pkce cfg then Some (PkcePair_challenge_for lib (base64_url_no_pad lib (bd_verifier_bytes draw))) else None)"
    unfolding option.map_comp [symmetric] by simp
  show ?thesis
    using enabled url row st challenge
    by (intro exI [of _ row] exI [of _ discovery] exI [of _ extra]) (auto simp: consume_broker_state_def)
qed

section \<open>What a SAML callback must have been presented\<close>

lemma assertion_to_broker_sound:
  assumes "assertion_to_broker now received alias sp None r = Inr b"
  shows "\<exists>a. SamlResponse_status_code r = STATUS_SUCCESS \<and> SamlResponse_assertion r = Some a \<and>
    sp \<in> set (SamlAssertionParsed_audiences a) \<and>
    (case SamlAssertionParsed_not_before a of Some nb \<Rightarrow> nb \<le> now + CLOCK_SKEW | None \<Rightarrow> True) \<and>
    (case SamlAssertionParsed_not_on_or_after a of Some noa \<Rightarrow> now \<le> noa + CLOCK_SKEW | None \<Rightarrow> True) \<and>
    BrokerAssertion_idp_alias b = alias \<and> BrokerAssertion_external_id b = SamlAssertionParsed_subject_name_id a \<and>
    BrokerAssertion_claims b = saml_claims (SamlAssertionParsed_attributes a)"
  using assms by (auto simp: assertion_to_broker_def split: if_splits option.splits)

lemma persist_or_link_ok:
  assumes "persist_or_link draw rid b state = (Inr u, state')"
    and "\<And>k l. map_of (broker_links (AppState_storage state)) k = Some l \<Longrightarrow>
      (BrokerLink_realm_id l, BrokerLink_idp_alias l, BrokerLink_external_id l) = k"
  shows "\<exists>link. map_of (broker_links (AppState_storage state')) (rid, BrokerAssertion_idp_alias b, BrokerAssertion_external_id b) = Some link \<and>
    BrokerLink_last_login_at link = Some (bd_now draw) \<and>
    broker_states (AppState_storage state') = broker_states (AppState_storage state)"
proof (cases "map_of (broker_links (AppState_storage state)) (rid, BrokerAssertion_idp_alias b, BrokerAssertion_external_id b)")
  case None
  then show ?thesis using assms(1)
    by (auto simp: persist_or_link_def find_broker_link_def with_storage_eq upsert_broker_link_def Let_def)
next
  case (Some l)
  then show ?thesis using assms(1) assms(2) [OF Some]
    by (auto simp: persist_or_link_def find_broker_link_def with_storage_eq upsert_broker_link_def Let_def)
qed

text \<open>
  C16: What a SAML callback must have been presented. Let every link be stored under its own realm, alias
  and external id. When the callback accepts, the alias names a SAML provider of the realm, the posted
  response parses, and its signature verifies under a pinned certificate when the provider wants one;
  the relay state named a row of this realm, and the row is gone; some text node of the document is the
  success status; the assertion the parser returned names this server's realm as an audience and is
  within its time window, up to five minutes; and the link of that subject at that alias now carries
  this login.
\<close>

theorem saml_callback_sound:
  assumes "broker_endpoint_post lib draw slug alias form state = (Some (Inr b), state')"
    and "\<And>k l. map_of (broker_links (AppState_storage state)) k = Some l \<Longrightarrow>
      (BrokerLink_realm_id l, BrokerLink_idp_alias l, BrokerLink_external_id l) = k"
  shows "\<exists>realm idp cfg xml evs r a relay row link.
    get_realm_by_slug slug (AppState_storage state) = Inr realm \<and>
    get_idp_by_alias (Realm_id realm) alias (AppState_storage state) = Inr idp \<and>
    IdentityProvider_config idp = IdpConfig_Saml cfg \<and>
    parse_response lib (SamlCallbackForm_saml_response form) = Some (Inr r) \<and>
    SamlResponse_raw_xml r = xml \<and> xml_events lib xml = (evs, None) \<and> STATUS_SUCCESS \<in> text_nodes evs \<and>
    (SamlIdpConfig_want_responses_signed cfg \<or> SamlIdpConfig_want_assertions_signed cfg \<longrightarrow>
      verify_response_signature lib r (SamlIdpConfig_signing_cert_pems cfg) = Inr ()) \<and>
    SamlCallbackForm_relay_state form = Some relay \<and>
    map_of (broker_states (AppState_storage state)) (Realm_id realm, relay) = Some row \<and>
    map_of (broker_states (AppState_storage state')) (Realm_id realm, relay) = None \<and>
    SamlResponse_assertion r = Some a \<and> sp_entity_id state realm \<in> set (SamlAssertionParsed_audiences a) \<and>
    (case SamlAssertionParsed_not_before a of Some nb \<Rightarrow> nb \<le> bd_now draw + CLOCK_SKEW | None \<Rightarrow> True) \<and>
    (case SamlAssertionParsed_not_on_or_after a of Some noa \<Rightarrow> bd_now draw \<le> noa + CLOCK_SKEW | None \<Rightarrow> True) \<and>
    map_of (broker_links (AppState_storage state')) (Realm_id realm, alias, SamlAssertionParsed_subject_name_id a) = Some link \<and>
    BrokerLink_last_login_at link = Some (bd_now draw)"
proof -
  obtain realm idp cfg r relay row st where
    lookups: "get_realm_by_slug slug (AppState_storage state) = Inr realm"
      "get_idp_by_alias (Realm_id realm) alias (AppState_storage state) = Inr idp"
      "IdentityProvider_config idp = IdpConfig_Saml cfg"
    and parsed: "parse_response lib (SamlCallbackForm_saml_response form) = Some (Inr r)"
    and signed: "(if SamlIdpConfig_want_responses_signed cfg \<or> SamlIdpConfig_want_assertions_signed cfg
            then verify_response_signature lib r (SamlIdpConfig_signing_cert_pems cfg) else Inr ()) = Inr ()"
    and relay: "SamlCallbackForm_relay_state form = Some relay"
      "with_storage (consume_broker_state (Realm_id realm) relay) state = (Inr row, st)"
    and b: "assertion_to_broker (bd_now draw) (bd_received draw) alias (sp_entity_id st realm) None r = Inr b"
    and linked: "persist_or_link draw (Realm_id realm) b st = (Inr (), state')"
    using assms(1) unfolding broker_endpoint_post_def
    by (auto split: sum.splits option.splits IdpConfig.splits prod.splits)
  have row: "map_of (broker_states (AppState_storage state)) (Realm_id realm, relay) = Some row"
    and st: "st = state\<lparr>AppState_storage := (AppState_storage state)\<lparr>broker_states :=
      hm_remove (Realm_id realm, relay) (broker_states (AppState_storage state))\<rparr>\<rparr>"
    using relay(2) by (auto simp: with_storage_eq consume_broker_state_def ok_or_eq_Inr)
  obtain a where a: "SamlResponse_status_code r = STATUS_SUCCESS" "SamlResponse_assertion r = Some a"
    "sp_entity_id st realm \<in> set (SamlAssertionParsed_audiences a)"
    "case SamlAssertionParsed_not_before a of Some nb \<Rightarrow> nb \<le> bd_now draw + CLOCK_SKEW | None \<Rightarrow> True"
    "case SamlAssertionParsed_not_on_or_after a of Some noa \<Rightarrow> bd_now draw \<le> noa + CLOCK_SKEW | None \<Rightarrow> True"
    "BrokerAssertion_idp_alias b = alias" "BrokerAssertion_external_id b = SamlAssertionParsed_subject_name_id a"
    using assertion_to_broker_sound [OF b] by blast
  have links: "broker_links (AppState_storage st) = broker_links (AppState_storage state)" by (simp add: st)
  obtain link where link: "map_of (broker_links (AppState_storage state'))
      (Realm_id realm, alias, SamlAssertionParsed_subject_name_id a) = Some link"
      "BrokerLink_last_login_at link = Some (bd_now draw)"
      "broker_states (AppState_storage state') = broker_states (AppState_storage st)"
    using persist_or_link_ok [OF linked] assms(2) a(6,7) unfolding links by auto
  obtain evs where evs: "xml_events lib (SamlResponse_raw_xml r) = (evs, None)" "STATUS_SUCCESS \<in> text_nodes evs"
    using parse_response_status [OF parsed] a(1) by (auto simp: STATUS_SUCCESS_def)
  have gone: "map_of (broker_states (AppState_storage state')) (Realm_id realm, relay) = None"
    by (simp add: link(3) st)
  have entity: "sp_entity_id state realm \<in> set (SamlAssertionParsed_audiences a)"
    using a(3) by (simp add: sp_entity_id_def st)
  have sig: "SamlIdpConfig_want_responses_signed cfg \<or> SamlIdpConfig_want_assertions_signed cfg \<longrightarrow>
      verify_response_signature lib r (SamlIdpConfig_signing_cert_pems cfg) = Inr ()"
    using signed by (auto split: if_splits)
  show ?thesis
    using lookups parsed evs sig relay(1) row gone a(2,4,5) entity link(1,2) by blast
qed

section \<open>The signed element need not be the accepted one\<close>

text \<open>
  An honest response, signed over the assertion of \<open>alice\<close>, and a response in which that assertion
  stands unsigned before another one, which carries the old signature. The library below accepts one
  signature over one text under the pinned key and no other: nobody has signed anything new.
\<close>

definition good_element :: string where
  "good_element = ''<Assertion ID=\"g\">alice</Assertion>''"

definition signed_info_element :: string where
  "signed_info_element = ''<SignedInfo>i</SignedInfo>''"

definition honest_xml :: string where
  "honest_xml = ''<Response><Assertion ID=\"g\"><Signature><SignedInfo>i</SignedInfo></Signature>alice</Assertion></Response>''"

definition wrapped_xml :: string where
  "wrapped_xml = ''<Response><Assertion ID=\"g\">alice</Assertion><Assertion ID=\"e\"><Signature><SignedInfo>i</SignedInfo></Signature>mallory</Assertion></Response>''"

definition tag :: "string \<Rightarrow> xml_attrs \<Rightarrow> XmlEvent list \<Rightarrow> XmlEvent list" where
  "tag name ats inner = XmlEvent_Start name ats # inner @ [XmlEvent_End name]"

definition text_event :: "string \<Rightarrow> XmlEvent list" where
  "text_event s = [XmlEvent_Text (Inr s)]"

definition signature_events :: "XmlEvent list" where
  "signature_events = tag ''Signature'' [] (tag ''SignedInfo'' []
     (tag ''SignatureMethod'' [(''Algorithm'', Some ''rsa-sha256'')] [] @
      tag ''Reference'' [(''URI'', Some ''#g'')]
        (tag ''DigestMethod'' [(''Algorithm'', Some ''sha256'')] [] @ tag ''DigestValue'' [] (text_event good_element))) @
     tag ''SignatureValue'' [] (text_event ''sig''))"

definition body_events :: "string \<Rightarrow> XmlEvent list" where
  "body_events who = tag ''NameID'' [] (text_event who) @ tag ''Audience'' [] (text_event ''http://g/realms/t'')"

definition status_events :: "XmlEvent list" where
  "status_events = tag ''StatusCode'' [] (text_event STATUS_SUCCESS)"

definition honest_events :: "XmlEvent list" where
  "honest_events = tag ''Response'' [] (status_events @
     tag ''Assertion'' [(''ID'', Some ''g'')] (signature_events @ body_events ''alice''))"

definition wrapped_events :: "XmlEvent list" where
  "wrapped_events = tag ''Response'' [] (status_events @ tag ''Assertion'' [(''ID'', Some ''g'')] (body_events ''alice'') @
     tag ''Assertion'' [(''ID'', Some ''e'')] (signature_events @ body_events ''mallory''))"

definition wrap_lib :: BrokerSamlLib where
  "wrap_lib = BrokerLib.extend (sample_broker_lib\<lparr>sha256_digest := filter (\<lambda>c. \<not> is_ascii_whitespace c)\<rparr>)
     (BrokerSamlLib.fields (\<lambda>xml. (if xml = honest_xml then honest_events else wrapped_events, None)) Inr
        (\<lambda>s. None) (\<lambda>t. ''now'') Inr (\<lambda>s. Inl ''x509'') Inr Inr Inr
        (\<lambda>pk m s. if pk = ''cert'' \<and> m = signed_info_element \<and> s = ''sig'' then Inr () else Inl ''invalid''))"

lemma wrap_lib_simps [simp]:
  "xml_events wrap_lib = (\<lambda>xml. (if xml = honest_xml then honest_events else wrapped_events, None))"
  "base64_std_bytes wrap_lib = Inr" "str_from_utf8 wrap_lib = Inr" "rsa_from_spki wrap_lib = Inr"
  "rsa_signature_parse wrap_lib = Inr" "sha256_digest wrap_lib = filter (\<lambda>c. \<not> is_ascii_whitespace c)"
  "rsa_verify_pkcs1 wrap_lib = (\<lambda>pk m s. if pk = ''cert'' \<and> m = signed_info_element \<and> s = ''sig'' then Inr () else Inl ''invalid'')"
  by (simp_all add: wrap_lib_def BrokerLib.defs BrokerSamlLib.defs sample_broker_lib_def SamlLib.defs sample_saml_simps
      sample_http_simps)

lemma cuts:
  "(slice_element_with_id honest_xml ''g'' =
     Some ''<Assertion ID=\"g\"><Signature><SignedInfo>i</SignedInfo></Signature>alice</Assertion>'') \<and>
   (strip_signature ''<Assertion ID=\"g\"><Signature><SignedInfo>i</SignedInfo></Signature>alice</Assertion>'' = good_element) \<and>
   (slice_element_with_id wrapped_xml ''g'' = Some good_element) \<and>
   (strip_signature good_element = good_element) \<and>
   (signed_info_bytes honest_xml = Some signed_info_element) \<and>
   (signed_info_bytes wrapped_xml = Some signed_info_element) \<and>
   (honest_xml \<noteq> wrapped_xml)"
  by code_simp

lemmas cut_elements =
  cuts [THEN conjunct1]
  cuts [THEN conjunct2, THEN conjunct1]
  cuts [THEN conjunct2, THEN conjunct2, THEN conjunct1]
  cuts [THEN conjunct2, THEN conjunct2, THEN conjunct2, THEN conjunct1]
  cuts [THEN conjunct2, THEN conjunct2, THEN conjunct2, THEN conjunct2, THEN conjunct1]
  cuts [THEN conjunct2, THEN conjunct2, THEN conjunct2, THEN conjunct2, THEN conjunct2, THEN conjunct1]
  cuts [THEN conjunct2, THEN conjunct2, THEN conjunct2, THEN conjunct2, THEN conjunct2, THEN conjunct2]

definition wrap_signature :: SignatureBlock where
  "wrap_signature = \<lparr>SignatureBlock_signed_info_c14n = signed_info_element, SignatureBlock_signature_value = ''sig'',
     SignatureBlock_reference_digest = filter (\<lambda>c. \<not> is_ascii_whitespace c) good_element,
     SignatureBlock_reference_uri = Some ''#g'', SignatureBlock_signature_method = ''rsa-sha256'',
     SignatureBlock_digest_method = ''sha256''\<rparr>"

definition wrap_response :: "string \<Rightarrow> string \<Rightarrow> string \<Rightarrow> SamlResponse" where
  "wrap_response xml aid who = (SamlResponse_blank xml)\<lparr>SamlResponse_status_code := STATUS_SUCCESS,
     SamlResponse_assertion := Some (SamlAssertionParsed_blank\<lparr>SamlAssertionParsed_id := aid,
       SamlAssertionParsed_subject_name_id := who, SamlAssertionParsed_audiences := [''http://g/realms/t''],
       SamlAssertionParsed_signature := Some wrap_signature\<rparr>)\<rparr>"

lemmas event_simps = text_or_empty_def tag_def text_event_def signature_events_def body_events_def status_events_def
  start_element_def end_element_def text_node_def decode_text_def local_name_def attr_value_def
  assertion_attr_def Let_def

lemma texts:
  "(filter (\<lambda>c. \<not> is_ascii_whitespace c) ''sig'' = ''sig'') \<and>
   (str_trim ''cert'' = ''cert'') \<and>
   (filter (\<lambda>c. \<not> is_ascii_whitespace c) (concat (filter (\<lambda>l. \<not> starts_with l ''-----'') (split_char CHR 0x0A ''cert''))) = ''cert'') \<and>
   (str_contains ''cert'' ''BEGIN CERTIFICATE'' \<longleftrightarrow> False) \<and>
   (str_contains ''rsa-sha256'' ''rsa-sha256'' \<longleftrightarrow> True) \<and>
   (str_contains ''sha256'' ''sha256'' \<longleftrightarrow> True) \<and>
   (strip_prefix ''#g'' ''#'' = Some ''g'')"
  by code_simp

lemmas small_texts =
  texts [THEN conjunct1]
  texts [THEN conjunct2, THEN conjunct1]
  texts [THEN conjunct2, THEN conjunct2, THEN conjunct1]
  texts [THEN conjunct2, THEN conjunct2, THEN conjunct2, THEN conjunct1]
  texts [THEN conjunct2, THEN conjunct2, THEN conjunct2, THEN conjunct2, THEN conjunct1]
  texts [THEN conjunct2, THEN conjunct2, THEN conjunct2, THEN conjunct2, THEN conjunct2, THEN conjunct1]
  texts [THEN conjunct2, THEN conjunct2, THEN conjunct2, THEN conjunct2, THEN conjunct2, THEN conjunct2]

lemma wrap_cert: "load_rsa_public_from_cert_pem wrap_lib ''cert'' = Inr ''cert''"
  unfolding load_rsa_public_from_cert_pem_def Let_def small_texts wrap_lib_simps by simp

lemmas parse_simps = parse_response_def decode_base64_std_def cut_elements(7) not_sym event_simps wrap_response_def
  SamlResponse_blank_def SamlAssertionParsed_blank_def SignatureBlock_blank_def wrap_signature_def cut_elements(5,6)
  small_texts(1)

lemma honest_parses: "parse_response wrap_lib honest_xml = Some (Inr (wrap_response honest_xml ''g'' ''alice''))"
  by (simp add: honest_events_def parse_simps del: filter.simps)

lemma wrapped_parses: "parse_response wrap_lib wrapped_xml = Some (Inr (wrap_response wrapped_xml ''e'' ''mallory''))"
  by (simp add: wrapped_events_def parse_simps del: filter.simps)

lemmas wrap_parses = honest_parses wrapped_parses

lemma wrap_verifies:
  assumes "slice_element_with_id xml ''g'' = Some e" and "strip_signature e = good_element"
  shows "verify_response_signature wrap_lib (wrap_response xml aid who) [''cert''] = Inr ()"
proof -
  have "response_signature_block (wrap_response xml aid who) = Some wrap_signature"
    by (simp add: response_signature_block_def wrap_response_def SamlResponse_blank_def)
  moreover have "SamlResponse_raw_xml (wrap_response xml aid who) = xml"
    by (simp add: wrap_response_def SamlResponse_blank_def)
  moreover have "verify_with_certs wrap_lib wrap_signature None [''cert''] = Inr ()"
    by (simp add: wrap_cert) (simp add: wrap_signature_def)
  ultimately show ?thesis
    using assms unfolding verify_response_signature_def
    by (simp add: wrap_signature_def small_texts)
qed

text \<open>
  Both responses are accepted under the one signature; the first says \<open>alice\<close>, the second \<open>mallory\<close>.
\<close>

lemma wrap_accepts:
  "assertion_to_broker 0 0 ''corp'' ''http://g/realms/t'' None (wrap_response xml aid who) =
     Inr \<lparr>BrokerAssertion_idp_alias = ''corp'', BrokerAssertion_external_id = who, BrokerAssertion_issuer = [],
       BrokerAssertion_claims = [], BrokerAssertion_received_at = 0, BrokerAssertion_expires_at = None\<rparr>"
  by (simp add: assertion_to_broker_def wrap_response_def SamlResponse_blank_def SamlAssertionParsed_blank_def
      saml_claims_def)

theorem signature_wrapping:
  "\<exists>honest wrapped a b.
     parse_response wrap_lib honest_xml = Some (Inr honest) \<and> verify_response_signature wrap_lib honest [''cert''] = Inr () \<and>
     parse_response wrap_lib wrapped_xml = Some (Inr wrapped) \<and> verify_response_signature wrap_lib wrapped [''cert''] = Inr () \<and>
     assertion_to_broker 0 0 ''corp'' ''http://g/realms/t'' None honest = Inr a \<and> BrokerAssertion_external_id a = ''alice'' \<and>
     assertion_to_broker 0 0 ''corp'' ''http://g/realms/t'' None wrapped = Inr b \<and> BrokerAssertion_external_id b = ''mallory''"
  using wrap_parses wrap_verifies [OF cut_elements(1,2)] wrap_verifies [OF cut_elements(3,4)]
  by (intro exI conjI) (assumption | rule wrap_accepts | simp)+

section \<open>What a SAML callback does not look at\<close>

text \<open>
  The row the relay state names is consumed and not inspected: it may have expired, belong to another
  provider of the realm or have been made for another kind of login, the answer is the same.
\<close>

theorem relay_row_not_inspected:
  assumes "get_realm_by_slug slug (AppState_storage state) = Inr realm"
    and "SamlCallbackForm_relay_state form = Some relay"
    and "map_of (broker_states (AppState_storage state)) (Realm_id realm, relay) = Some row"
    and "state2 = state\<lparr>AppState_storage := (AppState_storage state)\<lparr>broker_states :=
      hm_insert (Realm_id realm, relay) row2 (broker_states (AppState_storage state))\<rparr>\<rparr>"
  shows "fst (broker_endpoint_post lib draw slug alias form state2) = fst (broker_endpoint_post lib draw slug alias form state)"
proof -
  have "get_realm_by_slug slug (AppState_storage state2) = Inr realm"
    using assms(1) by (simp add: assms(4) get_realm_by_slug_def split: option.splits)
  moreover have "get_idp_by_alias r alias (AppState_storage state2) = get_idp_by_alias r alias (AppState_storage state)" for r
    by (simp add: assms(4) get_idp_by_alias_def)
  moreover have "with_storage (consume_broker_state (Realm_id realm) relay) state2 =
      (Inr row2, state\<lparr>AppState_storage := (AppState_storage state)\<lparr>broker_states :=
        hm_remove (Realm_id realm, relay) (broker_states (AppState_storage state))\<rparr>\<rparr>)"
    by (simp add: assms(4) with_storage_eq consume_broker_state_def hm_remove_def hm_insert_def)
  moreover have "with_storage (consume_broker_state (Realm_id realm) relay) state =
      (Inr row, state\<lparr>AppState_storage := (AppState_storage state)\<lparr>broker_states :=
        hm_remove (Realm_id realm, relay) (broker_states (AppState_storage state))\<rparr>\<rparr>)"
    by (simp add: with_storage_eq consume_broker_state_def assms(3))
  ultimately show ?thesis
    using assms(1,2)
    by (simp add: broker_endpoint_post_def split: option.split sum.split IdpConfig.split prod.split)
qed

section \<open>Concrete logins\<close>

definition sample_oidc_idp_config :: OidcIdpConfig where
  "sample_oidc_idp_config = \<lparr>OidcIdpConfig_issuer = ''https://idp'', OidcIdpConfig_discovery_url = None,
     OidcIdpConfig_authorization_endpoint = None, OidcIdpConfig_token_endpoint = None, OidcIdpConfig_userinfo_endpoint = None,
     OidcIdpConfig_jwks_uri = None, OidcIdpConfig_client_id = ''app'', OidcIdpConfig_client_auth = BrokerClientAuthMethod_Basic,
     OidcIdpConfig_client_secret = None, OidcIdpConfig_client_assertion_key = None, OidcIdpConfig_scopes = [''openid''],
     OidcIdpConfig_pkce = True, OidcIdpConfig_accept_unsigned_userinfo = False, OidcIdpConfig_prompt = None,
     OidcIdpConfig_response_mode = None\<rparr>"

definition sample_saml_idp_config :: SamlIdpConfig where
  "sample_saml_idp_config = \<lparr>SamlIdpConfig_entity_id = ''idp'', SamlIdpConfig_sso_url = ''https://idp/sso'',
     SamlIdpConfig_slo_url = None, SamlIdpConfig_signing_cert_pems = [''cert''],
     SamlIdpConfig_binding_outbound = SamlBinding_HttpPost, SamlIdpConfig_binding_inbound = SamlBinding_HttpPost,
     SamlIdpConfig_name_id_format = NameIdFormat_Persistent, SamlIdpConfig_want_assertions_signed = True,
     SamlIdpConfig_want_responses_signed = False\<rparr>"

definition sample_idp :: "IdpConfig \<Rightarrow> IdentityProvider" where
  "sample_idp cfg = \<lparr>IdentityProvider_id = IdpId 1, IdentityProvider_realm_id = RealmId 1, IdentityProvider_alias = ''corp'',
     IdentityProvider_display_name = ''Corp'', IdentityProvider_kind = IdpKind_Oidc, IdentityProvider_config = cfg,
     IdentityProvider_first_login_flow_alias = ''f'', IdentityProvider_post_login_flow_alias = None,
     IdentityProvider_link_only = False, IdentityProvider_adapter_urn = None, IdentityProvider_enabled = True\<rparr>"

definition sample_broker_draw :: BrokerDraw where
  "sample_broker_draw = \<lparr>bd_now = 0, bd_received = 0, bd_state_id = BrokerAuthnStateId 1, bd_state = ''st'', bd_nonce = ''n'',
     bd_verifier_bytes = ''v'', bd_request_id = ''r'', bd_flow = FlowStateId 1, bd_link = BrokerLinkId 1, bd_user = UserId 9\<rparr>"

definition sample_broker_app :: "IdpConfig \<Rightarrow> AppState" where
  "sample_broker_app cfg = sample_app\<lparr>AppState_storage := sample_tables\<lparr>idps := [((RealmId 1, ''corp''), sample_idp cfg)],
     broker_states := [((RealmId 1, ''rs''), BrokerAuthnState_new (BrokerAuthnStateId 2) 0 ''rs'' ''m'' (RealmId 1) ''corp'' (FlowStateId 2))]\<rparr>\<rparr>"

lemma sample_realm_fields: "Realm_id sample_realm = RealmId 1" "Realm_slug sample_realm = ''t''"
  by (simp_all add: sample_realm_def)

lemma sample_saml_idp_fields:
  "SamlIdpConfig_want_responses_signed sample_saml_idp_config \<or> SamlIdpConfig_want_assertions_signed sample_saml_idp_config"
  "SamlIdpConfig_signing_cert_pems sample_saml_idp_config = [''cert'']"
  by (simp_all add: sample_saml_idp_config_def)

lemma sample_broker_lookups:
  "get_realm_by_slug ''t'' (AppState_storage (sample_broker_app cfg)) = Inr sample_realm"
  "get_idp_by_alias (RealmId 1) ''corp'' (AppState_storage (sample_broker_app cfg)) = Inr (sample_idp cfg)"
  "broker_links (AppState_storage (sample_broker_app cfg)) = []"
  by (simp_all add: sample_broker_app_def sample_app_def get_realm_by_slug_def get_idp_by_alias_def sample_tables_simps)

theorem broker_login_roundtrip_witness:
  "\<exists>url rt' state' row. broker_login wrap_lib sample_broker_draw ''t'' ''corp'' \<lparr>LoginQuery_flow = None\<rparr>
     (BrokerRuntime_new, sample_broker_app (IdpConfig_Oidc sample_oidc_idp_config)) = (Inr (Response_Redirect url), rt', state') \<and>
   fst (consume_broker_state (RealmId 1) ''st'' (AppState_storage state')) = Inr row \<and>
   BrokerAuthnState_pkce_verifier row \<noteq> None"
proof -
  let ?app = "sample_broker_app (IdpConfig_Oidc sample_oidc_idp_config)"
  have disc: "\<exists>c. DiscoveryCache_get_discovery wrap_lib 0 ''corp'' sample_oidc_idp_config DiscoveryCache_new = (Inr sample_discovery, c)"
    by (simp add: DiscoveryCache_get_discovery_def DiscoveryCache_new_def cache_get_def fetch_discovery_def
        sample_oidc_idp_config_def is_success_def wrap_lib_def BrokerLib.defs BrokerSamlLib.defs sample_broker_lib_def
        SamlLib.defs sample_discovery_def Let_def)
  then obtain url rt' state' where run: "broker_login wrap_lib sample_broker_draw ''t'' ''corp'' \<lparr>LoginQuery_flow = None\<rparr>
      (BrokerRuntime_new, ?app) = (Inr (Response_Redirect url), rt', state')"
    by (auto simp: broker_login_def broker_login_oidc_def sample_broker_lookups sample_realm_fields sample_idp_def
        sample_broker_draw_def BrokerRuntime_new_def with_storage_eq save_broker_state_def Let_def
        simp del: One_nat_def)
  have cfg: "IdentityProvider_config (sample_idp (IdpConfig_Oidc sample_oidc_idp_config)) = IdpConfig_Oidc sample_oidc_idp_config"
    by (simp add: sample_idp_def)
  from broker_login_roundtrip [OF run sample_broker_lookups(1) _ cfg] obtain row where
    "fst (consume_broker_state (RealmId 1) ''st'' (AppState_storage state')) = Inr row"
    "map_option expose (BrokerAuthnState_pkce_verifier row) \<noteq> None"
    by (auto simp: sample_realm_fields sample_broker_lookups sample_broker_draw_def sample_oidc_idp_config_def
        simp del: One_nat_def)
  with run show ?thesis by blast
qed

theorem saml_callback_sound_witness:
  "\<exists>b state' link. broker_endpoint_post wrap_lib sample_broker_draw ''t'' ''corp''
     \<lparr>SamlCallbackForm_saml_response = honest_xml, SamlCallbackForm_relay_state = Some ''rs''\<rparr>
     (sample_broker_app (IdpConfig_Saml sample_saml_idp_config)) = (Some (Inr b), state') \<and>
   map_of (broker_states (AppState_storage state')) (RealmId 1, ''rs'') = None \<and>
   map_of (broker_links (AppState_storage state')) (RealmId 1, ''corp'', ''alice'') = Some link"
proof -
  let ?app = "sample_broker_app (IdpConfig_Saml sample_saml_idp_config)"
  let ?form = "\<lparr>SamlCallbackForm_saml_response = honest_xml, SamlCallbackForm_relay_state = Some ''rs''\<rparr>"
  have entity: "sp_entity_id (?app\<lparr>AppState_storage := t\<rparr>) sample_realm = ''http://g/realms/t''" for t
    by (simp add: sp_entity_id_def sample_broker_app_def sample_app_def sample_realm_fields trim_end_char_def)
  have row: "map_of (broker_states (AppState_storage ?app)) (RealmId 1, ''rs'') \<noteq> None"
    by (simp add: sample_broker_app_def sample_app_def)
  have now: "bd_now sample_broker_draw = 0" "bd_received sample_broker_draw = 0" by (simp_all add: sample_broker_draw_def)
  obtain b state' where run: "broker_endpoint_post wrap_lib sample_broker_draw ''t'' ''corp'' ?form ?app = (Some (Inr b), state')"
    using row wrap_verifies [OF cut_elements(1,2)]
    by (auto simp: broker_endpoint_post_def sample_broker_lookups sample_realm_fields sample_idp_def sample_saml_idp_fields
        wrap_parses(1) with_storage_eq consume_broker_state_def now entity wrap_accepts persist_or_link_def
        find_broker_link_def upsert_broker_link_def Let_def simp del: One_nat_def)
  from saml_callback_sound [OF run] show ?thesis
    using run wrap_parses(1)
    by (auto simp: sample_broker_lookups sample_realm_fields wrap_response_def SamlResponse_blank_def simp del: One_nat_def)
qed

end
