(* ===== verification/Saml_Messages.thy ===== *)
theory Saml_Messages
  imports Server_Login Std_Xml
begin

text \<open>
  The messages a SAML service provider sends to the identity provider,
  \<^verbatim>\<open>crates/geonosis-protocol-saml-idp/src\<close> \<open>request.rs\<close>, \<open>logout.rs\<close>, \<open>redirect.rs\<close>,
  \<open>post_signature.rs\<close> and \<open>front_channel_logout.rs\<close>: the parsers as loops over the events of the reader,
  the decoder of the redirect binding with its size cap, both signature checks, the logout response and
  the logout page. Reader, inflater and certificate library are fields of \<open>SamlServerLib\<close>.
\<close>

text \<open>
  \<open>request_events\<close> is the reader with trimmed text; its attributes carry their values as written, not
  unescaped. \<open>signature_spans\<close> gives each event with the positions before and after it, text as written.
  \<open>inflate_reads\<close> are the successive reads of the inflater, up to the end or an error.
\<close>

record SamlServerLib = LoginLib +
  request_events :: xml_reader
  signature_spans :: "string \<Rightarrow> (XmlEvent \<times> nat \<times> nat) list \<times> string option"
  rfc3339_instant :: "string \<Rightarrow> string + DateTime"
  inflate_reads :: "string \<Rightarrow> string list \<times> string option"
  cert_keys :: "string \<Rightarrow> string + string \<times> string"
  spki_rsa :: "string \<Rightarrow> string + string"
  pkcs1_rsa :: "string \<Rightarrow> string + string"
  rsa_signature :: "string \<Rightarrow> string + string"
  rsa_sha256_verify :: "string \<Rightarrow> string \<Rightarrow> string \<Rightarrow> bool"
  percent_decode_lossy :: "string \<Rightarrow> string"

section \<open>Authentication requests (\<open>request.rs\<close>)\<close>

datatype ParseError =
    ParseError_Xml string | ParseError_MissingAttr string | ParseError_MissingElement string
  | ParseError_InvalidInstant string | ParseError_NotAuthnRequest

fun ParseError_to_string :: "ParseError \<Rightarrow> string" where
  "ParseError_to_string (ParseError_Xml e) = ''xml: '' @ e"
| "ParseError_to_string (ParseError_MissingAttr a) = ''missing required attribute: '' @ a"
| "ParseError_to_string (ParseError_MissingElement e) = ''missing required element: '' @ e"
| "ParseError_to_string (ParseError_InvalidInstant e) = ''invalid IssueInstant: '' @ e"
| "ParseError_to_string ParseError_NotAuthnRequest = ''not an AuthnRequest''"

record ParsedAuthnRequest =
  ParsedAuthnRequest_id :: string
  ParsedAuthnRequest_issue_instant :: DateTime
  ParsedAuthnRequest_issuer :: string
  ParsedAuthnRequest_destination :: "string option"
  ParsedAuthnRequest_assertion_consumer_service_url :: "string option"
  ParsedAuthnRequest_protocol_binding :: "string option"
  ParsedAuthnRequest_force_authn :: bool
  ParsedAuthnRequest_is_passive :: bool
  ParsedAuthnRequest_name_id_policy_format :: "string option"

text \<open>The name after the first colon.\<close>

definition unprefixed :: "string \<Rightarrow> string" where
  "unprefixed name = (case split_once CHR '':'' name of Some (_, rest) \<Rightarrow> rest | None \<Rightarrow> name)"

text \<open>The last value an attribute is given.\<close>

definition last_attr :: "string \<Rightarrow> xml_attrs \<Rightarrow> string option" where
  "last_attr k ats = map_option (\<lambda>v. unwrap_or v []) (map_of (rev ats) k)"

text \<open>The first \<open>IssueInstant\<close> that does not parse ends the loop over the attributes.\<close>

fun parse_instants :: "(string \<Rightarrow> string + DateTime) \<Rightarrow> xml_attrs \<Rightarrow> DateTime option \<Rightarrow> string + DateTime option" where
  "parse_instants parse [] acc = Inr acc"
| "parse_instants parse ((k, v) # ats) acc =
     (if k = ''IssueInstant''
      then (case parse (unwrap_or v []) of Inl e \<Rightarrow> Inl e | Inr t \<Rightarrow> parse_instants parse ats (Some t))
      else parse_instants parse ats acc)"

definition truthy :: "string option \<Rightarrow> bool" where
  "truthy v = (case v of Some s \<Rightarrow> s = ''true'' \<or> s = ''1'' | None \<Rightarrow> False)"

definition start_authn_request :: "'l SamlServerLib_scheme \<Rightarrow> xml_attrs \<Rightarrow> ParseError + ParsedAuthnRequest" where
  "start_authn_request lib ats =
     (case parse_instants (rfc3339_instant lib) ats None of
        Inl e \<Rightarrow> Inl (ParseError_InvalidInstant e)
      | Inr issue_instant \<Rightarrow>
     (case last_attr ''ID'' ats of
        None \<Rightarrow> Inl (ParseError_MissingAttr ''ID'')
      | Some rid \<Rightarrow>
     (case issue_instant of
        None \<Rightarrow> Inl (ParseError_MissingAttr ''IssueInstant'')
      | Some instant \<Rightarrow>
          Inr \<lparr>ParsedAuthnRequest_id = rid, ParsedAuthnRequest_issue_instant = instant, ParsedAuthnRequest_issuer = [],
            ParsedAuthnRequest_destination = last_attr ''Destination'' ats,
            ParsedAuthnRequest_assertion_consumer_service_url = last_attr ''AssertionConsumerServiceURL'' ats,
            ParsedAuthnRequest_protocol_binding = last_attr ''ProtocolBinding'' ats,
            ParsedAuthnRequest_force_authn = truthy (last_attr ''ForceAuthn'' ats),
            ParsedAuthnRequest_is_passive = truthy (last_attr ''IsPassive'' ats),
            ParsedAuthnRequest_name_id_policy_format = None\<rparr>)))"

record AuthnParse =
  ap_out :: "ParsedAuthnRequest option"
  ap_text :: "string option"
  ap_in_issuer :: bool

definition authn_start :: "'l SamlServerLib_scheme \<Rightarrow> string \<Rightarrow> xml_attrs \<Rightarrow> AuthnParse \<Rightarrow> ParseError + AuthnParse" where
  "authn_start lib qn ats st =
     (let loc = unprefixed qn in
      if loc = ''AuthnRequest'' then map_sum id (\<lambda>r. st\<lparr>ap_out := Some r\<rparr>) (start_authn_request lib ats)
      else if loc = ''Issuer'' then Inr (st\<lparr>ap_in_issuer := True, ap_text := Some []\<rparr>)
      else if loc = ''NameIDPolicy'' then
        (case last_attr ''Format'' ats of
           Some v \<Rightarrow> Inr (st\<lparr>ap_out := map_option
             (\<lambda>r. r\<lparr>ParsedAuthnRequest_name_id_policy_format := Some v\<rparr>) (ap_out st)\<rparr>)
         | None \<Rightarrow> Inr st)
      else Inr st)"

fun authn_event :: "'l SamlServerLib_scheme \<Rightarrow> XmlEvent \<Rightarrow> AuthnParse \<Rightarrow> ParseError + AuthnParse" where
  "authn_event lib (XmlEvent_Start qn ats) st = authn_start lib qn ats st"
| "authn_event lib (XmlEvent_Empty qn ats) st = authn_start lib qn ats st"
| "authn_event lib (XmlEvent_Text t) st =
     (if \<not> ap_in_issuer st then Inr st
      else (case ap_text st of
              None \<Rightarrow> Inr st
            | Some s \<Rightarrow>
                (case t of
                   Inl e \<Rightarrow> Inl (ParseError_Xml (''text decode: '' @ e))
                 | Inr v \<Rightarrow> Inr (st\<lparr>ap_text := Some (s @ v)\<rparr>))))"
| "authn_event lib (XmlEvent_End qn) st =
     (if unprefixed qn = ''Issuer''
      then (case (ap_out st, ap_text st) of
              (Some r, Some text) \<Rightarrow> Inr (st\<lparr>ap_in_issuer := False, ap_text := None,
                ap_out := Some (r\<lparr>ParsedAuthnRequest_issuer := text\<rparr>)\<rparr>)
            | _ \<Rightarrow> Inr (st\<lparr>ap_in_issuer := False, ap_text := None\<rparr>))
      else Inr st)"
| "authn_event lib XmlEvent_Other st = Inr st"

text \<open>The reader loop of both parsers: the first error of an event or of the reader ends it.\<close>

fun fold_events :: "(XmlEvent \<Rightarrow> 's \<Rightarrow> 'e + 's) \<Rightarrow> XmlEvent list \<Rightarrow> 's \<Rightarrow> 'e + 's" where
  "fold_events f [] st = Inr st"
| "fold_events f (ev # evs) st = (case f ev st of Inl e \<Rightarrow> Inl e | Inr st \<Rightarrow> fold_events f evs st)"

definition reader_error :: "string \<times> nat \<Rightarrow> string" where
  "reader_error e = ''at pos '' @ show_nat (snd e) @ '': '' @ fst e"

definition parse_authn_request :: "'l SamlServerLib_scheme \<Rightarrow> string \<Rightarrow> ParseError + ParsedAuthnRequest" where
  "parse_authn_request lib xml_bytes =
     (let (evs, err) = request_events lib xml_bytes in
      case fold_events (authn_event lib) evs \<lparr>ap_out = None, ap_text = None, ap_in_issuer = False\<rparr> of
        Inl e \<Rightarrow> Inl e
      | Inr st \<Rightarrow>
     (case err of
        Some e \<Rightarrow> Inl (ParseError_Xml (reader_error e))
      | None \<Rightarrow>
     (case ap_out st of
        None \<Rightarrow> Inl ParseError_NotAuthnRequest
      | Some req \<Rightarrow>
          if ParsedAuthnRequest_issuer req = [] then Inl (ParseError_MissingElement ''Issuer'') else Inr req)))"

section \<open>Logout requests and responses (\<open>logout.rs\<close>)\<close>

datatype LogoutParseError =
    LogoutParseError_Xml string | LogoutParseError_MissingAttr string | LogoutParseError_MissingElement string
  | LogoutParseError_NotLogoutRequest

fun LogoutParseError_to_string :: "LogoutParseError \<Rightarrow> string" where
  "LogoutParseError_to_string (LogoutParseError_Xml e) = ''xml: '' @ e"
| "LogoutParseError_to_string (LogoutParseError_MissingAttr a) = ''missing required attribute: '' @ a"
| "LogoutParseError_to_string (LogoutParseError_MissingElement e) = ''missing required element: '' @ e"
| "LogoutParseError_to_string LogoutParseError_NotLogoutRequest = ''not a LogoutRequest''"

record ParsedLogoutRequest =
  ParsedLogoutRequest_id :: string
  ParsedLogoutRequest_issue_instant :: DateTime
  ParsedLogoutRequest_issuer :: string
  ParsedLogoutRequest_destination :: "string option"
  ParsedLogoutRequest_name_id :: "string option"
  ParsedLogoutRequest_session_index :: "string option"

definition start_logout_request :: "'l SamlServerLib_scheme \<Rightarrow> xml_attrs \<Rightarrow> LogoutParseError + ParsedLogoutRequest" where
  "start_logout_request lib ats =
     (case parse_instants (rfc3339_instant lib) ats None of
        Inl e \<Rightarrow> Inl (LogoutParseError_Xml (''IssueInstant: '' @ e))
      | Inr issue_instant \<Rightarrow>
     (case last_attr ''ID'' ats of
        None \<Rightarrow> Inl (LogoutParseError_MissingAttr ''ID'')
      | Some rid \<Rightarrow>
     (case issue_instant of
        None \<Rightarrow> Inl (LogoutParseError_MissingAttr ''IssueInstant'')
      | Some instant \<Rightarrow>
          Inr \<lparr>ParsedLogoutRequest_id = rid, ParsedLogoutRequest_issue_instant = instant, ParsedLogoutRequest_issuer = [],
            ParsedLogoutRequest_destination = last_attr ''Destination'' ats, ParsedLogoutRequest_name_id = None,
            ParsedLogoutRequest_session_index = None\<rparr>)))"

record LogoutParse =
  lp_out :: "ParsedLogoutRequest option"
  lp_text :: "string option"
  lp_in_issuer :: bool
  lp_in_name_id :: bool
  lp_in_session_index :: bool

definition take_text :: "(string \<Rightarrow> ParsedLogoutRequest \<Rightarrow> ParsedLogoutRequest) \<Rightarrow> LogoutParse \<Rightarrow> LogoutParse" where
  "take_text f st =
     (case (lp_out st, lp_text st) of
        (Some r, Some t) \<Rightarrow> st\<lparr>lp_text := None, lp_out := Some (f t r)\<rparr>
      | _ \<Rightarrow> st\<lparr>lp_text := None\<rparr>)"

definition logout_start :: "'l SamlServerLib_scheme \<Rightarrow> string \<Rightarrow> xml_attrs \<Rightarrow> LogoutParse \<Rightarrow> LogoutParseError + LogoutParse" where
  "logout_start lib qn ats st =
     (let loc = unprefixed qn in
      if loc = ''LogoutRequest'' then map_sum id (\<lambda>r. st\<lparr>lp_out := Some r\<rparr>) (start_logout_request lib ats)
      else if loc = ''Issuer'' then Inr (st\<lparr>lp_in_issuer := True, lp_text := Some []\<rparr>)
      else if loc = ''NameID'' then Inr (st\<lparr>lp_in_name_id := True, lp_text := Some []\<rparr>)
      else if loc = ''SessionIndex'' then Inr (st\<lparr>lp_in_session_index := True, lp_text := Some []\<rparr>)
      else Inr st)"

fun logout_event :: "'l SamlServerLib_scheme \<Rightarrow> XmlEvent \<Rightarrow> LogoutParse \<Rightarrow> LogoutParseError + LogoutParse" where
  "logout_event lib (XmlEvent_Start qn ats) st = logout_start lib qn ats st"
| "logout_event lib (XmlEvent_Empty qn ats) st = logout_start lib qn ats st"
| "logout_event lib (XmlEvent_Text t) st =
     (if \<not> (lp_in_issuer st \<or> lp_in_name_id st \<or> lp_in_session_index st) then Inr st
      else (case lp_text st of
              None \<Rightarrow> Inr st
            | Some s \<Rightarrow>
                (case t of
                   Inl e \<Rightarrow> Inl (LogoutParseError_Xml (''text decode: '' @ e))
                 | Inr v \<Rightarrow> Inr (st\<lparr>lp_text := Some (s @ v)\<rparr>))))"
| "logout_event lib (XmlEvent_End qn) st =
     (let loc = unprefixed qn in
      if loc = ''Issuer'' then Inr (take_text (\<lambda>t r. r\<lparr>ParsedLogoutRequest_issuer := t\<rparr>) (st\<lparr>lp_in_issuer := False\<rparr>))
      else if loc = ''NameID'' then
        Inr (take_text (\<lambda>t r. r\<lparr>ParsedLogoutRequest_name_id := Some t\<rparr>) (st\<lparr>lp_in_name_id := False\<rparr>))
      else if loc = ''SessionIndex'' then
        Inr (take_text (\<lambda>t r. r\<lparr>ParsedLogoutRequest_session_index := Some t\<rparr>) (st\<lparr>lp_in_session_index := False\<rparr>))
      else Inr st)"
| "logout_event lib XmlEvent_Other st = Inr st"

definition parse_logout_request :: "'l SamlServerLib_scheme \<Rightarrow> string \<Rightarrow> LogoutParseError + ParsedLogoutRequest" where
  "parse_logout_request lib xml_bytes =
     (let (evs, err) = request_events lib xml_bytes in
      case fold_events (logout_event lib) evs \<lparr>lp_out = None, lp_text = None, lp_in_issuer = False, lp_in_name_id = False,
             lp_in_session_index = False\<rparr> of
        Inl e \<Rightarrow> Inl e
      | Inr st \<Rightarrow>
     (case err of
        Some e \<Rightarrow> Inl (LogoutParseError_Xml (reader_error e))
      | None \<Rightarrow>
     (case lp_out st of
        None \<Rightarrow> Inl LogoutParseError_NotLogoutRequest
      | Some req \<Rightarrow>
          if ParsedLogoutRequest_issuer req = [] then Inl (LogoutParseError_MissingElement ''Issuer'') else Inr req)))"

definition logout_xml_escape :: "string \<Rightarrow> string" where
  "logout_xml_escape s = concat (map (\<lambda>c.
     if c = CHR ''<'' then ''&lt;'' else if c = CHR ''>'' then ''&gt;'' else if c = CHR ''&'' then ''&amp;''
     else if c = CHR 0x22 then ''&quot;'' else if c = CHR 0x0D then ''&#13;'' else [c]) s)"

definition serialize_logout_response ::
  "'l SamlServerLib_scheme \<Rightarrow> string \<Rightarrow> DateTime \<Rightarrow> string \<Rightarrow> string \<Rightarrow> string \<Rightarrow> string" where
  "serialize_logout_response lib response_id issue_instant issuer destination in_response_to =
     ''<samlp:LogoutResponse xmlns:samlp=\"urn:oasis:names:tc:SAML:2.0:protocol\" xmlns:saml=\"urn:oasis:names:tc:SAML:2.0:assertion\"'' @
     xml_attr ''ID'' (logout_xml_escape response_id) @ xml_attr ''Version'' ''2.0'' @
     xml_attr ''IssueInstant'' (rfc3339_millis lib issue_instant) @ xml_attr ''Destination'' (logout_xml_escape destination) @
     xml_attr ''InResponseTo'' (logout_xml_escape in_response_to) @ ''>'' @
     xml_text ''saml:Issuer'' (logout_xml_escape issuer) @
     ''<samlp:Status><samlp:StatusCode Value=\"urn:oasis:names:tc:SAML:2.0:status:Success\"/></samlp:Status></samlp:LogoutResponse>''"

section \<open>The redirect binding (\<open>redirect.rs\<close>)\<close>

datatype RedirectDecodeError =
  RedirectDecodeError_Base64 string | RedirectDecodeError_Deflate string | RedirectDecodeError_TooLarge nat

fun RedirectDecodeError_to_string :: "RedirectDecodeError \<Rightarrow> string" where
  "RedirectDecodeError_to_string (RedirectDecodeError_Base64 e) = ''base64: '' @ e"
| "RedirectDecodeError_to_string (RedirectDecodeError_Deflate e) = ''deflate: '' @ e"
| "RedirectDecodeError_to_string (RedirectDecodeError_TooLarge limit) =
     ''decoded XML exceeded the '' @ show_nat limit @ ''-byte cap''"

fun inflate_loop :: "nat \<Rightarrow> string list \<Rightarrow> string option \<Rightarrow> string \<Rightarrow> RedirectDecodeError + string" where
  "inflate_loop cap [] err out = (case err of Some e \<Rightarrow> Inl (RedirectDecodeError_Deflate e) | None \<Rightarrow> Inr out)"
| "inflate_loop cap (chunk # chunks) err out =
     (if chunk = [] then Inr out
      else if length out + length chunk > cap then Inl (RedirectDecodeError_TooLarge cap)
      else inflate_loop cap chunks err (out @ chunk))"

definition decode_redirect_payload :: "'l SamlServerLib_scheme \<Rightarrow> string \<Rightarrow> nat \<Rightarrow> RedirectDecodeError + string" where
  "decode_redirect_payload lib b64 decompressed_cap =
     (case base64_std_bytes lib b64 of
        Inl e \<Rightarrow> Inl (RedirectDecodeError_Base64 e)
      | Inr compressed \<Rightarrow>
          (let (chunks, err) = inflate_reads lib compressed in inflate_loop decompressed_cap chunks err []))"

text \<open>However much a compressed request inflates to, no more than the cap is kept.\<close>

lemma inflate_loop_bound: "inflate_loop cap chunks err out = Inr xml \<Longrightarrow> length out \<le> cap \<Longrightarrow> length xml \<le> cap"
  by (induction cap chunks err out rule: inflate_loop.induct) (auto split: if_splits option.splits)

lemma decode_redirect_bound: "decode_redirect_payload lib b64 cap = Inr xml \<Longrightarrow> length xml \<le> cap"
  by (auto simp: decode_redirect_payload_def dest: inflate_loop_bound split: sum.splits prod.splits)

definition REDIRECT_SIG_ALG_RSA_SHA256 :: string where
  "REDIRECT_SIG_ALG_RSA_SHA256 = ''http://www.w3.org/2001/04/xmldsig-more#rsa-sha256''"

datatype RedirectSigError =
    RedirectSigError_MissingSignature | RedirectSigError_MissingSigAlg | RedirectSigError_UnsupportedAlg string
  | RedirectSigError_DecodeSignature string | RedirectSigError_NoMatch | RedirectSigError_CertLoad string

fun RedirectSigError_to_string :: "RedirectSigError \<Rightarrow> string" where
  "RedirectSigError_to_string RedirectSigError_MissingSignature = ''missing Signature query parameter''"
| "RedirectSigError_to_string RedirectSigError_MissingSigAlg = ''missing SigAlg query parameter''"
| "RedirectSigError_to_string (RedirectSigError_UnsupportedAlg a) = ''unsupported SigAlg: '' @ a"
| "RedirectSigError_to_string (RedirectSigError_DecodeSignature e) = ''signature decode: '' @ e"
| "RedirectSigError_to_string RedirectSigError_NoMatch = ''no SP cert verified the signature''"
| "RedirectSigError_to_string (RedirectSigError_CertLoad e) = ''cert load: '' @ e"

record RedirectSignatureCheck =
  RedirectSignatureCheck_saml_request_pair :: string
  RedirectSignatureCheck_relay_state_pair :: "string option"
  RedirectSignatureCheck_sig_alg_pair :: string
  RedirectSignatureCheck_signature_b64 :: string
  RedirectSignatureCheck_sig_alg :: string

text \<open>The key of a certificate, from its public key information or from the bare key bits.\<close>

definition cert_public_key :: "'l SamlServerLib_scheme \<Rightarrow> string \<Rightarrow> string + string" where
  "cert_public_key lib der =
     (case cert_keys lib der of
        Inl e \<Rightarrow> Inl (''x509: '' @ e)
      | Inr (spki_der, key_bits) \<Rightarrow>
          (case spki_rsa lib spki_der of
             Inr k \<Rightarrow> Inr k
           | Inl _ \<Rightarrow> map_sum (\<lambda>e. ''rsa public: '' @ e) id (pkcs1_rsa lib key_bits)))"

definition pem_body :: "string \<Rightarrow> string" where
  "pem_body pem = filter (\<lambda>c. \<not> is_ascii_whitespace c)
     (concat (filter (\<lambda>l. \<not> starts_with l ''-----'') (split_char CHR 0x0A pem)))"

definition sp_rsa_public_from_cert_pem :: "'l SamlServerLib_scheme \<Rightarrow> string \<Rightarrow> string + string" where
  "sp_rsa_public_from_cert_pem lib pem =
     (let trimmed = str_trim pem in
      case base64_std_bytes lib (pem_body trimmed) of
        Inl e \<Rightarrow> Inl (''base64: '' @ e)
      | Inr bytes \<Rightarrow>
          if str_contains trimmed ''BEGIN CERTIFICATE'' then cert_public_key lib bytes
          else map_sum (\<lambda>e. ''spki: '' @ e) id (spki_rsa lib bytes))"

definition redirect_signed_text :: "RedirectSignatureCheck \<Rightarrow> string" where
  "redirect_signed_text check =
     RedirectSignatureCheck_saml_request_pair check @
     (case RedirectSignatureCheck_relay_state_pair check of Some rs \<Rightarrow> ''&'' @ rs | None \<Rightarrow> []) @
     ''&'' @ RedirectSignatureCheck_sig_alg_pair check"

fun redirect_certs :: "'l SamlServerLib_scheme \<Rightarrow> string \<Rightarrow> string \<Rightarrow> string list \<Rightarrow> RedirectSigError + unit" where
  "redirect_certs lib msg sig_bytes [] = Inl RedirectSigError_NoMatch"
| "redirect_certs lib msg sig_bytes (pem # pems) =
     (case sp_rsa_public_from_cert_pem lib pem of
        Inl e \<Rightarrow> Inl (RedirectSigError_CertLoad e)
      | Inr pk \<Rightarrow>
     (case rsa_signature lib sig_bytes of
        Inl _ \<Rightarrow> redirect_certs lib msg sig_bytes pems
      | Inr sig \<Rightarrow>
          if rsa_sha256_verify lib pk msg sig then Inr () else redirect_certs lib msg sig_bytes pems))"

definition verify_redirect_signature ::
  "'l SamlServerLib_scheme \<Rightarrow> RedirectSignatureCheck \<Rightarrow> string list \<Rightarrow> RedirectSigError + unit" where
  "verify_redirect_signature lib check cert_pems =
     (if RedirectSignatureCheck_signature_b64 check = [] then Inl RedirectSigError_MissingSignature
      else if RedirectSignatureCheck_sig_alg check = [] then Inl RedirectSigError_MissingSigAlg
      else if RedirectSignatureCheck_sig_alg check \<noteq> REDIRECT_SIG_ALG_RSA_SHA256
      then Inl (RedirectSigError_UnsupportedAlg (RedirectSignatureCheck_sig_alg check))
      else (case base64_std_bytes lib (RedirectSignatureCheck_signature_b64 check) of
              Inl e \<Rightarrow> Inl (RedirectSigError_DecodeSignature e)
            | Inr sig_bytes \<Rightarrow> redirect_certs lib (redirect_signed_text check) sig_bytes cert_pems))"

section \<open>Signatures inside a posted request (\<open>post_signature.rs\<close>)\<close>

datatype PostSigError =
    PostSigError_NoSignature | PostSigError_Malformed string | PostSigError_UnsupportedAlg string
  | PostSigError_DecodeSignature string | PostSigError_NoCert | PostSigError_UntrustedCert
  | PostSigError_CertLoad string | PostSigError_BadSignature | PostSigError_Xml string

fun PostSigError_to_string :: "PostSigError \<Rightarrow> string" where
  "PostSigError_to_string PostSigError_NoSignature = ''AuthnRequest XML carried no <Signature> element''"
| "PostSigError_to_string (PostSigError_Malformed e) = ''Signature block malformed: '' @ e"
| "PostSigError_to_string (PostSigError_UnsupportedAlg e) = ''unsupported SignatureMethod alg: '' @ e"
| "PostSigError_to_string (PostSigError_DecodeSignature e) = ''SignatureValue base64 decode: '' @ e"
| "PostSigError_to_string PostSigError_NoCert = ''KeyInfo carried no X509Certificate''"
| "PostSigError_to_string PostSigError_UntrustedCert =
     ''embedded cert is not on the SP'' @ [CHR 0x27] @ ''s pinned trust list''"
| "PostSigError_to_string (PostSigError_CertLoad e) = ''cert load: '' @ e"
| "PostSigError_to_string PostSigError_BadSignature = ''RSA-SHA256 verification failed''"
| "PostSigError_to_string (PostSigError_Xml e) = ''xml parse: '' @ e"

record SigPieces =
  SigPieces_signed_info_range :: "nat \<times> nat"
  SigPieces_signature_value_b64 :: string
  SigPieces_signature_method_alg :: string
  SigPieces_x509_cert_b64 :: "string option"

record SigScan =
  ss_saw_signature :: bool
  ss_start :: "nat option"
  ss_end :: "nat option"
  ss_alg :: "string option"
  ss_value :: "string option"
  ss_cert :: "string option"
  ss_current :: "string list"

definition scan_alg :: "string \<Rightarrow> xml_attrs \<Rightarrow> SigScan \<Rightarrow> SigScan" where
  "scan_alg loc ats st =
     (if loc = ''SignatureMethod''
      then (case last_attr ''Algorithm'' ats of Some v \<Rightarrow> st\<lparr>ss_alg := Some v\<rparr> | None \<Rightarrow> st) else st)"

definition strip_xml_whitespace :: "string \<Rightarrow> string" where
  "strip_xml_whitespace s = filter (\<lambda>c. \<not> is_ascii_whitespace c) s"

fun scan_event :: "XmlEvent \<times> nat \<times> nat \<Rightarrow> SigScan \<Rightarrow> SigScan" where
  "scan_event (XmlEvent_Start qn ats, before, after) st =
     (let loc = local_name qn;
          st = (if loc = ''Signature'' then st\<lparr>ss_saw_signature := True\<rparr> else st);
          st = scan_alg loc ats st;
          st = (if loc = ''SignedInfo'' then st\<lparr>ss_start := Some before\<rparr> else st) in
      st\<lparr>ss_current := loc # ss_current st\<rparr>)"
| "scan_event (XmlEvent_Empty qn ats, before, after) st = scan_alg (local_name qn) ats st"
| "scan_event (XmlEvent_End qn, before, after) st =
     (let st = (if local_name qn = ''SignedInfo'' then st\<lparr>ss_end := Some after\<rparr> else st) in
      st\<lparr>ss_current := drop 1 (ss_current st)\<rparr>)"
| "scan_event (XmlEvent_Text t, before, after) st =
     (let inside = (case ss_current st of q # _ \<Rightarrow> q | [] \<Rightarrow> []); s = text_or_empty t in
      if inside = ''SignatureValue'' then st\<lparr>ss_value := Some (strip_xml_whitespace s)\<rparr>
      else if inside = ''X509Certificate'' then st\<lparr>ss_cert := Some (strip_xml_whitespace s)\<rparr>
      else st)"
| "scan_event (XmlEvent_Other, before, after) st = st"

definition SigScan_start :: SigScan where
  "SigScan_start = \<lparr>ss_saw_signature = False, ss_start = None, ss_end = None, ss_alg = None, ss_value = None,
     ss_cert = None, ss_current = []\<rparr>"

definition extract_signature_pieces :: "'l SamlServerLib_scheme \<Rightarrow> string \<Rightarrow> PostSigError + SigPieces" where
  "extract_signature_pieces lib xml =
     (let (evs, err) = signature_spans lib xml; st = fold scan_event evs SigScan_start in
      case err of
        Some e \<Rightarrow> Inl (PostSigError_Xml e)
      | None \<Rightarrow>
          if \<not> ss_saw_signature st then Inl PostSigError_NoSignature
          else
     (case (ss_start st, ss_end st) of
        (Some s, Some e) \<Rightarrow>
          if \<not> s < e then Inl (PostSigError_Malformed ''SignedInfo bounds'')
          else
     (case ss_value st of
        None \<Rightarrow> Inl (PostSigError_Malformed ''SignatureValue'')
      | Some v \<Rightarrow>
     (case ss_alg st of
        None \<Rightarrow> Inl (PostSigError_Malformed ''SignatureMethod alg'')
      | Some alg \<Rightarrow> Inr \<lparr>SigPieces_signed_info_range = (s, e), SigPieces_signature_value_b64 = v,
          SigPieces_signature_method_alg = alg, SigPieces_x509_cert_b64 = ss_cert st\<rparr>))
      | _ \<Rightarrow> Inl (PostSigError_Malformed ''SignedInfo bounds'')))"

definition cert_pem_matches_b64 :: "string \<Rightarrow> string \<Rightarrow> bool" where
  "cert_pem_matches_b64 pem embedded_b64 =
     (pem_body pem \<noteq> [] \<and> pem_body pem = filter (\<lambda>c. \<not> is_ascii_whitespace c) embedded_b64)"

definition load_rsa_public_from_cert_b64 :: "'l SamlServerLib_scheme \<Rightarrow> string \<Rightarrow> string + string" where
  "load_rsa_public_from_cert_b64 lib b64 =
     (case base64_std_bytes lib (filter (\<lambda>c. \<not> is_ascii_whitespace c) b64) of
        Inl e \<Rightarrow> Inl (''base64: '' @ e)
      | Inr bytes \<Rightarrow> cert_public_key lib bytes)"

definition verify_post_authn_request_signature ::
  "'l SamlServerLib_scheme \<Rightarrow> string \<Rightarrow> string list \<Rightarrow> PostSigError + unit" where
  "verify_post_authn_request_signature lib xml trusted_cert_pems =
     (case extract_signature_pieces lib xml of
        Inl e \<Rightarrow> Inl e
      | Inr ex \<Rightarrow>
          if SigPieces_signature_method_alg ex \<noteq> REDIRECT_SIG_ALG_RSA_SHA256
          then Inl (PostSigError_UnsupportedAlg (SigPieces_signature_method_alg ex))
          else
     (case SigPieces_x509_cert_b64 ex of
        None \<Rightarrow> Inl PostSigError_NoCert
      | Some cert \<Rightarrow>
          if \<not> list_ex (\<lambda>p. cert_pem_matches_b64 p cert) trusted_cert_pems then Inl PostSigError_UntrustedCert
          else
     (case base64_std_bytes lib (str_trim (SigPieces_signature_value_b64 ex)) of
        Inl e \<Rightarrow> Inl (PostSigError_DecodeSignature e)
      | Inr sig_bytes \<Rightarrow>
     (let (s, e) = SigPieces_signed_info_range ex; signed_info = take (e - s) (drop s xml) in
      case load_rsa_public_from_cert_b64 lib cert of
        Inl err \<Rightarrow> Inl (PostSigError_CertLoad err)
      | Inr pk \<Rightarrow>
     (case rsa_signature lib sig_bytes of
        Inl _ \<Rightarrow> Inl PostSigError_BadSignature
      | Inr sig \<Rightarrow>
          if rsa_sha256_verify lib pk signed_info sig then Inr () else Inl PostSigError_BadSignature)))))"

section \<open>The logout page (\<open>front_channel_logout.rs\<close>)\<close>

record FrontChannelLogoutPeer =
  FrontChannelLogoutPeer_sp_label :: string
  FrontChannelLogoutPeer_front_channel_url :: Url

definition logout_html_escape :: "string \<Rightarrow> string" where
  "logout_html_escape s = concat (map (\<lambda>c.
     if c = CHR ''<'' then ''&lt;'' else if c = CHR ''>'' then ''&gt;'' else if c = CHR ''&'' then ''&amp;''
     else if c = CHR 0x22 then ''&quot;'' else if c = CHR 0x27 then ''&#x27;'' else [c]) s)"

definition render_front_channel_logout_html :: "string \<Rightarrow> string \<Rightarrow> FrontChannelLogoutPeer list \<Rightarrow> string" where
  "render_front_channel_logout_html realm_slug final_redirect_url peers =
     ''<!doctype html><html lang=\"en\"><head><meta charset=\"utf-8\"><title>'' @ logout_html_escape realm_slug @ '' '' @ EM_DASH @
     '' logging out</title><meta http-equiv=\"refresh\" content=\"3;url='' @ logout_html_escape final_redirect_url @
     ''\"><style>body{font:14px sans-serif;padding:1em;}iframe{display:none;}</style></head><body><p>Signing out of '' @
     show_nat (length peers) @ '' session(s)&hellip;</p>'' @
     concat (map (\<lambda>p. ''<iframe src=\"'' @ logout_html_escape (FrontChannelLogoutPeer_front_channel_url p) @ ''\" title=\"'' @
       logout_html_escape (FrontChannelLogoutPeer_sp_label p) @ ''\"></iframe>'') peers) @
     ''<p><a href=\"'' @ logout_html_escape final_redirect_url @ ''\">Continue</a></p></body></html>''"

section \<open>What the signature checks establish\<close>

lemma redirect_certs_sound:
  assumes "redirect_certs lib msg sig_bytes pems = Inr u"
  shows "\<exists>pem pk sig. pem \<in> set pems \<and> sp_rsa_public_from_cert_pem lib pem = Inr pk \<and>
    rsa_signature lib sig_bytes = Inr sig \<and> rsa_sha256_verify lib pk msg sig"
  using assms
proof (induction pems)
  case (Cons pem pems)
  show ?case
  proof (cases "redirect_certs lib msg sig_bytes pems = Inr u")
    case True
    then show ?thesis using Cons.IH by fastforce
  next
    case False
    then show ?thesis using Cons.prems by (fastforce split: sum.splits if_splits)
  qed
qed simp

lemma post_signature_sound:
  assumes "verify_post_authn_request_signature lib xml pems = Inr u"
  shows "\<exists>pieces cert pem pk sig_bytes sig s e. extract_signature_pieces lib xml = Inr pieces \<and>
    SigPieces_x509_cert_b64 pieces = Some cert \<and> pem \<in> set pems \<and> cert_pem_matches_b64 pem cert \<and>
    load_rsa_public_from_cert_b64 lib cert = Inr pk \<and> SigPieces_signed_info_range pieces = (s, e) \<and>
    rsa_signature lib sig_bytes = Inr sig \<and> rsa_sha256_verify lib pk (take (e - s) (drop s xml)) sig"
  using assms
  by (auto simp: verify_post_authn_request_signature_def list_ex_iff Let_def split: sum.splits if_splits option.splits
      prod.splits)

end
