(* ===== verification/Saml_Server.thy ===== *)
theory Saml_Server
  imports Saml_Messages
begin

text \<open>
  The SAML endpoints of the server, \<^verbatim>\<open>crates/geonosis-server/src/handlers/saml.rs\<close>: the metadata
  document, single sign-on over both bindings, single logout with its messages to the other service
  providers, and the login started by the identity provider. Clock readings, ids and random tokens are
  fields of the draws; the logout messages, which the server sends in tasks of their own, are a list.
  Shown: what stands behind a login form, and where the signed response of that login goes; what a logout
  removes and whom it tells; that a request signed as the redirect binding prescribes is refused.
\<close>

section \<open>Requests, draws\<close>

record SamlSloForm =
  SamlSloForm_saml_request :: string
  SamlSloForm_relay_state :: "string option"

record SamlSsoForm =
  SamlSsoForm_saml_request :: string
  SamlSsoForm_relay_state :: "string option"

record SamlSsoQuery =
  SamlSsoQuery_saml_request :: string
  SamlSsoQuery_relay_state :: "string option"
  SamlSsoQuery_sig_alg :: "string option"
  SamlSsoQuery_signature :: "string option"

definition SamlSsoQuery_signature_b64 :: "SamlSsoQuery \<Rightarrow> string" where
  "SamlSsoQuery_signature_b64 q = unwrap_or (SamlSsoQuery_signature q) []"

record SsoDraw =
  so_now :: DateTime
  so_flow_state_id :: FlowStateId
  so_csrf :: CsrfToken
  so_flow_id :: FlowId
  so_node_id :: NodeId

text \<open>\<open>sl_peer\<close> gives the token and the clock reading of the message to the peer at a position.\<close>

record SloDraw =
  sl_token :: string
  sl_now :: DateTime
  sl_peer :: "nat \<Rightarrow> string \<times> DateTime"

definition saml_reject :: "string \<Rightarrow> nat \<Rightarrow> Response" where
  "saml_reject reason status = Response status (Body_Text reason)"

section \<open>Metadata\<close>

definition build_signing_certs :: "'l SamlServerLib_scheme \<Rightarrow> AppState \<Rightarrow> Realm \<Rightarrow> string + string list" where
  "build_signing_certs lib state realm =
     (case active_signing_kid lib (Realm_id realm) RS256 (AppState_kms state) of
        Inl e \<Rightarrow> Inl (''no active RS256 key: '' @ KmsError_to_string lib e)
      | Inr kid \<Rightarrow>
     (case load_private lib kid (AppState_kms state) of
        Inl e \<Rightarrow> Inl (''load_private: '' @ KmsError_to_string lib e)
      | Inr (PrivateMaterial_Rs256 rsa) \<Rightarrow>
          (case self_signed_x509 lib rsa (Realm_slug realm) of
             Inl e \<Rightarrow> Inl (''cert mint: '' @ e)
           | Inr der \<Rightarrow> Inr [base64_std_encode lib der])
      | Inr _ \<Rightarrow> Inl ''active signing key is not RS256''))"

text \<open>The answer is a plain response, or a status, a content type and the document.\<close>

definition saml_metadata :: "'l SamlServerLib_scheme \<Rightarrow> string \<Rightarrow> AppState \<Rightarrow> Response + nat \<times> string \<times> string" where
  "saml_metadata lib slug state =
     (case get_realm_by_slug slug (AppState_storage state) of
        Inl _ \<Rightarrow> Inl (Response 404 (Body_Text ''realm not found''))
      | Inr realm \<Rightarrow>
          (let entity_id = realm_issuer state realm in
           Inr (200, ''application/samlmetadata+xml; charset=utf-8'', serialize_idp_metadata
             \<lparr>IdpMetadataInput_entity_id = entity_id, IdpMetadataInput_sso_url = entity_id @ ''/protocol/saml/sso'',
              IdpMetadataInput_slo_url = Some (entity_id @ ''/protocol/saml/slo''),
              IdpMetadataInput_signing_certs_b64 = (case build_signing_certs lib state realm of Inr certs \<Rightarrow> certs | Inl _ \<Rightarrow> []),
              IdpMetadataInput_name_id_formats = [NameIdFormat_EmailAddress, NameIdFormat_Persistent,
                NameIdFormat_Transient, NameIdFormat_Unspecified]\<rparr>)))"

section \<open>Single logout\<close>

definition build_idp_logout_request :: "'l SamlServerLib_scheme \<Rightarrow> string \<Rightarrow> DateTime \<Rightarrow> string \<Rightarrow> string \<Rightarrow> string" where
  "build_idp_logout_request lib rid instant issuer destination =
     ''<samlp:LogoutRequest xmlns:samlp=\"urn:oasis:names:tc:SAML:2.0:protocol\" xmlns:saml=\"urn:oasis:names:tc:SAML:2.0:assertion\"'' @
     xml_attr ''ID'' rid @ xml_attr ''Version'' ''2.0'' @ xml_attr ''IssueInstant'' (rfc3339_millis lib instant) @
     xml_attr ''Destination'' destination @ ''>'' @ xml_text ''saml:Issuer'' issuer @ ''</samlp:LogoutRequest>''"

text \<open>A message to a peer: the URL it is posted to and its \<open>SAMLRequest\<close>.\<close>

definition peer_logout ::
  "'l SamlServerLib_scheme \<Rightarrow> SloDraw \<Rightarrow> RealmId \<Rightarrow> string \<Rightarrow> AppState \<Rightarrow> nat \<times> ClientId \<times> bool \<Rightarrow> (Url \<times> string) option" where
  "peer_logout lib draw realm_id idp_issuer state = (\<lambda>(i, client_id, want_backchannel).
     if \<not> want_backchannel then None
     else (case get_client realm_id client_id (AppState_storage state) of
        Inl _ \<Rightarrow> None
      | Inr client \<Rightarrow>
     (case Client_saml_sp_config client of
        None \<Rightarrow> None
      | Some raw_config \<Rightarrow>
     (case SamlSpClientConfig_try_from_value lib raw_config of
        Inl _ \<Rightarrow> None
      | Inr sp_config \<Rightarrow>
     (case SamlSpClientConfig_slo_url sp_config of
        None \<Rightarrow> None
      | Some slo_url \<Rightarrow>
          Some (slo_url, base64_std_encode lib (build_idp_logout_request lib (''_idplo_'' @ fst (sl_peer draw i))
            (snd (sl_peer draw i)) idp_issuer slo_url)))))))"

definition propagate_saml_logout ::
  "'l SamlServerLib_scheme \<Rightarrow> SloDraw \<Rightarrow> RealmId \<Rightarrow> (ClientId \<times> bool) list \<Rightarrow> AppState \<Rightarrow> (Url \<times> string) list" where
  "propagate_saml_logout lib draw realm_id peers state =
     (case get_realm realm_id (AppState_storage state) of
        Inl _ \<Rightarrow> []
      | Inr r \<Rightarrow> List.map_filter (peer_logout lib draw realm_id (realm_issuer state r) state) (enumerate 0 peers))"

definition peer_logouts_of :: "Client \<Rightarrow> Session \<Rightarrow> (ClientId \<times> bool) list" where
  "peer_logouts_of client session =
     map (\<lambda>c. (ClientSessionRef_client_id c, ClientSessionRef_backchannel_logout c))
       (filter (\<lambda>c. ClientSessionRef_client_id c \<noteq> Client_id client) (Session_clients session))"

text \<open>The session the request names is read for its peers and deleted; both may fail unnoticed.\<close>

definition slo_revoke :: "Client \<Rightarrow> string option \<Rightarrow> AppState \<Rightarrow> (ClientId \<times> bool) list \<times> AppState" where
  "slo_revoke client session_index state =
     (case session_index of
        None \<Rightarrow> ([], state)
      | Some si \<Rightarrow>
          (let session_id = SessionId si;
               peers = (case get_session session_id (AppState_storage state) of
                          Inr session \<Rightarrow> peer_logouts_of client session | Inl _ \<Rightarrow> []) in
           (peers, snd (with_storage (delete_session session_id) state))))"

definition slo_answer ::
  "'l SamlServerLib_scheme \<Rightarrow> SloDraw \<Rightarrow> Realm \<Rightarrow> SamlSpClientConfig \<Rightarrow> ParsedLogoutRequest \<Rightarrow> string option \<Rightarrow> AppState \<Rightarrow>
   Response" where
  "slo_answer lib draw realm sp_config parsed relay_state state =
     (let slo_destination = (case SamlSpClientConfig_slo_url sp_config of
            Some u \<Rightarrow> u | None \<Rightarrow> SamlSpClientConfig_entity_id sp_config @ ''/slo'');
          response_xml = serialize_logout_response lib (''_slo_'' @ sl_token draw) (sl_now draw) (realm_issuer state realm)
            slo_destination (ParsedLogoutRequest_id parsed) in
      Response 200 (Body_Html (acs_auto_post_form slo_destination (base64_std_encode lib response_xml) relay_state)))"

definition slo_post ::
  "'l SamlServerLib_scheme \<Rightarrow> SloDraw \<Rightarrow> string \<Rightarrow> SamlSloForm \<Rightarrow> AppState \<Rightarrow> Response \<times> (Url \<times> string) list \<times> AppState" where
  "slo_post lib draw slug form state =
     (case get_realm_by_slug slug (AppState_storage state) of
        Inl _ \<Rightarrow> (saml_reject ''realm not found'' 404, [], state)
      | Inr realm \<Rightarrow>
          if SamlSloForm_saml_request form = [] then (saml_reject ''missing SAMLRequest'' 400, [], state)
          else
     (case base64_std_bytes lib (SamlSloForm_saml_request form) of
        Inl e \<Rightarrow> (saml_reject (''SAMLRequest base64 decode failed: '' @ e) 400, [], state)
      | Inr xml_bytes \<Rightarrow>
     (case parse_logout_request lib xml_bytes of
        Inl e \<Rightarrow> (saml_reject (''LogoutRequest parse failed: '' @ LogoutParseError_to_string e) 400, [], state)
      | Inr parsed \<Rightarrow>
     (case get_client_by_client_id (Realm_id realm) (ParsedLogoutRequest_issuer parsed) (AppState_storage state) of
        Inl _ \<Rightarrow> (saml_reject (''unknown SP Issuer '' @ ParsedLogoutRequest_issuer parsed) 400, [], state)
      | Inr client \<Rightarrow>
          if Client_kind client \<noteq> ClientKind_SamlServiceProvider
          then (saml_reject ''client is not registered as a SAML SP'' 400, [], state)
          else
     (case Client_saml_sp_config client of
        None \<Rightarrow> (saml_reject ''SP has no saml_sp_config'' 400, [], state)
      | Some raw_config \<Rightarrow>
     (case SamlSpClientConfig_try_from_value lib raw_config of
        Inl e \<Rightarrow> (saml_reject (''invalid SP config: '' @ SamlIdpError_to_string e) 500, [], state)
      | Inr sp_config \<Rightarrow>
          (let (peers, state) = slo_revoke client (ParsedLogoutRequest_session_index parsed) state;
               sent = (if peers \<noteq> [] then propagate_saml_logout lib draw (Realm_id realm) peers state else []) in
           (slo_answer lib draw realm sp_config parsed (SamlSloForm_relay_state form) state, sent, state))))))))"

definition REDIRECT_BINDING_DECOMPRESS_CAP :: nat where
  "REDIRECT_BINDING_DECOMPRESS_CAP = 64 * 1024"

definition slo_get ::
  "'l SamlServerLib_scheme \<Rightarrow> SloDraw \<Rightarrow> string \<Rightarrow> SamlSsoQuery \<Rightarrow> AppState \<Rightarrow> Response \<times> (Url \<times> string) list \<times> AppState" where
  "slo_get lib draw slug q state =
     (if SamlSsoQuery_saml_request q = [] then (saml_reject ''missing SAMLRequest'' 400, [], state)
      else (case decode_redirect_payload lib (SamlSsoQuery_saml_request q) REDIRECT_BINDING_DECOMPRESS_CAP of
        Inl e \<Rightarrow> (saml_reject (''Redirect-binding decode failed: '' @ RedirectDecodeError_to_string e) 400, [], state)
      | Inr xml \<Rightarrow>
          slo_post lib draw slug \<lparr>SamlSloForm_saml_request = base64_std_encode lib xml,
            SamlSloForm_relay_state = SamlSsoQuery_relay_state q\<rparr> state))"

section \<open>Single sign-on\<close>

definition saml_render_login_form :: "string \<Rightarrow> string \<Rightarrow> string" where
  "saml_render_login_form realm_slug flow_state_id =
     (let nl = [CHR 0x0A] in
      ''<!DOCTYPE html>'' @ nl @
      ''<html lang=\"en\"><head><meta charset=\"utf-8\"><title>Sign in</title></head>'' @ nl @
      ''<body>'' @ nl @
      ''<h1>Sign in to '' @ realm_slug @ ''</h1>'' @ nl @
      ''<form method=\"POST\" action=\"/realms/'' @ realm_slug @ ''/login-actions/authenticate\">'' @ nl @
      ''  <input type=\"hidden\" name=\"flow_state_id\" value=\"'' @ flow_state_id @ ''\"/>'' @ nl @
      ''  <label>Username <input type=\"text\" name=\"username\" required autofocus/></label><br/>'' @ nl @
      ''  <label>Password <input type=\"password\" name=\"password\" required/></label><br/>'' @ nl @
      ''  <button type=\"submit\">Sign in</button>'' @ nl @
      ''</form>'' @ nl @ ''</body></html>'')"

definition sso_acs_url :: "SamlSpClientConfig \<Rightarrow> ParsedAuthnRequest \<Rightarrow> Response + string" where
  "sso_acs_url sp_config parsed =
     (case ParsedAuthnRequest_assertion_consumer_service_url parsed of
        Some req_acs \<Rightarrow>
          if req_acs \<notin> set (SamlSpClientConfig_acs_urls sp_config)
          then Inl (saml_reject ''AssertionConsumerServiceURL not in SP whitelist'' 400) else Inr req_acs
      | None \<Rightarrow>
          (case SamlSpClientConfig_acs_urls sp_config of
             u # _ \<Rightarrow> Inr u
           | [] \<Rightarrow> Inl (saml_reject ''SP has no registered ACS URL'' 500)))"

definition sso_flow_row ::
  "SsoDraw \<Rightarrow> Realm \<Rightarrow> Client \<Rightarrow> ParsedAuthnRequest \<Rightarrow> string \<Rightarrow> string option \<Rightarrow> FlowStateRow" where
  "sso_flow_row draw realm client parsed acs_url relay_state =
     (let params = bt_insert ''__geonosis_saml_acs_url'' acs_url
            (bt_insert ''__geonosis_saml_request_id'' (ParsedAuthnRequest_id parsed)
              (bt_insert ''__geonosis_saml_sp_entity_id'' (ParsedAuthnRequest_issuer parsed)
                (bt_insert ''client_id'' (Client_client_id client) [])));
          params = (case relay_state of Some rs \<Rightarrow> bt_insert ''__geonosis_saml_relay_state'' rs params | None \<Rightarrow> params) in
      \<lparr>FlowStateRow_state = FlowState_fresh (so_flow_state_id draw) (so_csrf draw) (so_now draw) (Realm_id realm)
         (so_flow_id draw) 1 (so_node_id draw)
         (secs (min (SessionPolicy_sso_session_idle (Realm_session_policy realm) div 1000000000) 900)),
       FlowStateRow_authorize_params = params\<rparr>)"

text \<open>The signature inside the request: none is fine unless the service provider has asked for one.\<close>

definition sso_signature_check :: "'l SamlServerLib_scheme \<Rightarrow> SamlSpClientConfig \<Rightarrow> string \<Rightarrow> Response + unit" where
  "sso_signature_check lib sp_config xml_bytes =
     (let xml_str = (case str_from_utf8 lib xml_bytes of Inr s \<Rightarrow> s | Inl _ \<Rightarrow> []) in
      case verify_post_authn_request_signature lib xml_str (SamlSpClientConfig_authn_request_signing_certificates sp_config) of
        Inr _ \<Rightarrow> Inr ()
      | Inl PostSigError_NoSignature \<Rightarrow>
          if SamlSpClientConfig_want_authnrequest_signed sp_config
          then Inl (saml_reject ''AuthnRequest must be signed for this SP but no <Signature> element found'' 400) else Inr ()
      | Inl e \<Rightarrow> Inl (saml_reject (''AuthnRequest signature verification failed: '' @ PostSigError_to_string e) 400))"

definition handle_sso ::
  "'l SamlServerLib_scheme \<Rightarrow> SsoDraw \<Rightarrow> string \<Rightarrow> SamlSsoForm \<Rightarrow> AppState \<Rightarrow> Response \<times> AppState" where
  "handle_sso lib draw slug form state =
     (case get_realm_by_slug slug (AppState_storage state) of
        Inl _ \<Rightarrow> (saml_reject ''realm not found'' 404, state)
      | Inr realm \<Rightarrow>
          if SamlSsoForm_saml_request form = [] then (saml_reject ''missing SAMLRequest'' 400, state)
          else
     (case base64_std_bytes lib (SamlSsoForm_saml_request form) of
        Inl e \<Rightarrow> (saml_reject (''SAMLRequest is not valid base64: '' @ e) 400, state)
      | Inr xml_bytes \<Rightarrow>
     (case parse_authn_request lib xml_bytes of
        Inl e \<Rightarrow> (saml_reject (''AuthnRequest parse failed: '' @ ParseError_to_string e) 400, state)
      | Inr parsed \<Rightarrow>
     (case get_client_by_client_id (Realm_id realm) (ParsedAuthnRequest_issuer parsed) (AppState_storage state) of
        Inl _ \<Rightarrow> (saml_reject (''unknown SP Issuer '' @ ParsedAuthnRequest_issuer parsed) 400, state)
      | Inr client \<Rightarrow>
          if Client_kind client \<noteq> ClientKind_SamlServiceProvider
          then (saml_reject ''client is not registered as a SAML service provider'' 400, state)
          else
     (case Client_saml_sp_config client of
        None \<Rightarrow> (saml_reject ''SAML SP client has no saml_sp_config'' 400, state)
      | Some raw_config \<Rightarrow>
     (case SamlSpClientConfig_try_from_value lib raw_config of
        Inl e \<Rightarrow> (saml_reject (''invalid SP config: '' @ SamlIdpError_to_string e) 500, state)
      | Inr sp_config \<Rightarrow>
     (case sso_signature_check lib sp_config xml_bytes of
        Inl resp \<Rightarrow> (resp, state)
      | Inr _ \<Rightarrow>
     (case sso_acs_url sp_config parsed of
        Inl resp \<Rightarrow> (resp, state)
      | Inr acs_url \<Rightarrow>
          (let row = sso_flow_row draw realm client parsed acs_url (SamlSsoForm_relay_state form);
               (saved, state) = with_storage (save_flow_state row) state in
           case saved of
             Inl e \<Rightarrow> (saml_reject (''failed to save SAML flow state: '' @ StorageError_to_string e) 500, state)
           | Inr _ \<Rightarrow> (Response 200 (Body_Html (saml_render_login_form (Realm_slug realm)
               (FlowStateId_to_string lib (FlowState_id (FlowStateRow_state row))))), state))))))))))"

definition sso_post ::
  "'l SamlServerLib_scheme \<Rightarrow> SsoDraw \<Rightarrow> string \<Rightarrow> SamlSsoForm \<Rightarrow> AppState \<Rightarrow> Response \<times> AppState" where
  "sso_post lib draw slug form state = handle_sso lib draw slug form state"

definition find_pair :: "string \<Rightarrow> string \<Rightarrow> string option" where
  "find_pair raw key = find (\<lambda>segment. starts_with segment key \<and> length key < length segment \<and>
       segment ! length key = CHR ''='')
     (split_char CHR ''&'' raw)"

definition query_value :: "string \<Rightarrow> string \<Rightarrow> string option" where
  "query_value raw key = map_option (drop (length key + 1)) (find_pair raw key)"

definition verify_inbound_redirect_signature ::
  "'l SamlServerLib_scheme \<Rightarrow> AppState \<Rightarrow> string \<Rightarrow> string \<Rightarrow> string \<Rightarrow> string + unit" where
  "verify_inbound_redirect_signature lib state slug decoded_xml raw_query =
     (case parse_authn_request lib decoded_xml of
        Inl e \<Rightarrow> Inl (''authn parse: '' @ ParseError_to_string e)
      | Inr parsed \<Rightarrow>
     (case get_realm_by_slug slug (AppState_storage state) of
        Inl _ \<Rightarrow> Inl ''realm not found''
      | Inr realm \<Rightarrow>
     (case get_client_by_client_id (Realm_id realm) (ParsedAuthnRequest_issuer parsed) (AppState_storage state) of
        Inl _ \<Rightarrow> Inl (''unknown SP Issuer '' @ ParsedAuthnRequest_issuer parsed)
      | Inr client \<Rightarrow>
     (case Client_saml_sp_config client of
        None \<Rightarrow> Inl ''SP has no saml_sp_config''
      | Some raw_config \<Rightarrow>
     (case SamlSpClientConfig_try_from_value lib raw_config of
        Inl e \<Rightarrow> Inl (''invalid SP config: '' @ SamlIdpError_to_string e)
      | Inr sp_config \<Rightarrow>
          if SamlSpClientConfig_authn_request_signing_certificates sp_config = [] then Inr ()
          else
     (case find_pair raw_query ''SAMLRequest'' of
        None \<Rightarrow> Inl ''SAMLRequest segment not in query''
      | Some saml_pair \<Rightarrow>
     (case find_pair raw_query ''SigAlg'' of
        None \<Rightarrow> Inl ''SigAlg segment not in query''
      | Some sig_alg_pair \<Rightarrow>
     (case query_value raw_query ''Signature'' of
        None \<Rightarrow> Inl ''Signature segment not in query''
      | Some signature_b64 \<Rightarrow>
     (case query_value raw_query ''SigAlg'' of
        None \<Rightarrow> Inl ''SigAlg value not in query''
      | Some sig_alg \<Rightarrow>
          map_sum (\<lambda>e. ''signature verification failed: '' @ RedirectSigError_to_string e) id
            (verify_redirect_signature lib
              \<lparr>RedirectSignatureCheck_saml_request_pair = saml_pair,
               RedirectSignatureCheck_relay_state_pair = find_pair raw_query ''RelayState'',
               RedirectSignatureCheck_sig_alg_pair = sig_alg_pair,
               RedirectSignatureCheck_signature_b64 = percent_decode_lossy lib signature_b64,
               RedirectSignatureCheck_sig_alg = percent_decode_lossy lib sig_alg\<rparr>
              (SamlSpClientConfig_authn_request_signing_certificates sp_config)))))))))))"

text \<open>The raw query is the one of the original URI, empty when it has none.\<close>

definition sso_get ::
  "'l SamlServerLib_scheme \<Rightarrow> SsoDraw \<Rightarrow> string \<Rightarrow> string option \<Rightarrow> SamlSsoQuery \<Rightarrow> AppState \<Rightarrow> Response \<times> AppState" where
  "sso_get lib draw slug orig_query q state =
     (if SamlSsoQuery_saml_request q = [] then (saml_reject ''missing SAMLRequest'' 400, state)
      else (case decode_redirect_payload lib (SamlSsoQuery_saml_request q) REDIRECT_BINDING_DECOMPRESS_CAP of
        Inl e \<Rightarrow> (saml_reject (''Redirect-binding decode failed: '' @ RedirectDecodeError_to_string e) 400, state)
      | Inr xml \<Rightarrow>
     (case (if SamlSsoQuery_signature_b64 q \<noteq> []
            then verify_inbound_redirect_signature lib state slug xml (unwrap_or orig_query []) else Inr ()) of
        Inl e \<Rightarrow> (saml_reject e 400, state)
      | Inr _ \<Rightarrow>
          handle_sso lib draw slug \<lparr>SamlSsoForm_saml_request = base64_std_encode lib xml,
            SamlSsoForm_relay_state = SamlSsoQuery_relay_state q\<rparr> state)))"

section \<open>The login the identity provider starts\<close>

text \<open>The first \<open>Cookie\<close> header, when it is visible ASCII.\<close>

definition read_session_cookie :: "string option \<Rightarrow> string option" where
  "read_session_cookie cookie =
     Option.bind cookie (\<lambda>raw. find_map (\<lambda>segment. strip_prefix (str_trim segment) ''geonosis_sid='') (split_char CHR '';'' raw))"

definition unsolicited ::
  "'l SamlServerLib_scheme \<Rightarrow> LoginDraw \<Rightarrow> string \<Rightarrow> string \<Rightarrow> string option \<Rightarrow> AppState \<Rightarrow> Response \<times> AppState" where
  "unsolicited lib draw slug alias cookie state =
     (case get_realm_by_slug slug (AppState_storage state) of
        Inl _ \<Rightarrow> (Response 404 (Body_Text ''realm not found''), state)
      | Inr realm \<Rightarrow>
     (case read_session_cookie cookie of
        None \<Rightarrow> (Response 401 (Body_Text (''no SSO session '' @ EM_DASH @ '' sign in first via /authorize'')), state)
      | Some sid \<Rightarrow>
     (case (case get_session (SessionId sid) (AppState_storage state) of
              Inr s \<Rightarrow> if Session_realm_id s = Realm_id realm then Some s else None | Inl _ \<Rightarrow> None) of
        None \<Rightarrow> (Response 401 (Body_Text ''session not found or realm mismatch''), state)
      | Some session \<Rightarrow>
     (case get_user (Realm_id realm) (Session_user_id session) (AppState_storage state) of
        Inl _ \<Rightarrow> (Response 500 (Body_Text ''user lookup failed''), state)
      | Inr user \<Rightarrow>
     (case get_client_by_client_id (Realm_id realm) alias (AppState_storage state) of
        Inl _ \<Rightarrow> (Response 404 (Body_Text ''unknown SP alias''), state)
      | Inr client \<Rightarrow>
          if Client_kind client \<noteq> ClientKind_SamlServiceProvider
          then (Response 400 (Body_Text ''client is not a SAML service provider''), state)
          else
     (case Client_saml_sp_config client of
        None \<Rightarrow> (Response 400 (Body_Text ''SP has no saml_sp_config''), state)
      | Some raw_config \<Rightarrow>
     (case SamlSpClientConfig_try_from_value lib raw_config of
        Inl e \<Rightarrow> (Response 500 (Body_Text (''invalid SP config: '' @ SamlIdpError_to_string e)), state)
      | Inr sp_config \<Rightarrow>
     (case SamlSpClientConfig_acs_urls sp_config of
        [] \<Rightarrow> (Response 400 (Body_Text ''SP has no registered ACS URL''), state)
      | acs_url # _ \<Rightarrow>
          saml_form_response lib draw realm user sp_config (Session_id session) acs_url None None state))))))))"

end
