(* ===== verification/Saml_Sound.thy ===== *)
theory Saml_Sound
  imports Saml_Server Login_Sound
begin

text \<open>
  What the SAML endpoints guarantee, over the definitions of \<open>Saml_Server\<close>: what stands behind a login
  form and where the answer of that login is posted, what a logout removes and whom it tells, and the
  refusal of requests that are signed as the redirect binding prescribes.
\<close>

section \<open>Single sign-on\<close>

text \<open>The answer is a reason in plain text, and not a success.\<close>

fun rejected :: "Response \<Rightarrow> bool" where
  "rejected (Response status (Body_Text reason)) = (status \<noteq> 200)"
| "rejected _ = False"

lemma rejected_reject [simp]: "rejected (saml_reject reason status) \<longleftrightarrow> status \<noteq> 200"
  by (simp add: saml_reject_def)

lemma sso_signature_check_ok:
  assumes "sso_signature_check lib sp xml = Inr u" and "SamlSpClientConfig_want_authnrequest_signed sp"
  shows "verify_post_authn_request_signature lib (case str_from_utf8 lib xml of Inr s \<Rightarrow> s | Inl _ \<Rightarrow> [])
    (SamlSpClientConfig_authn_request_signing_certificates sp) = Inr ()"
  using assms unfolding sso_signature_check_def Let_def
  by (cases "verify_post_authn_request_signature lib (case str_from_utf8 lib xml of Inr s \<Rightarrow> s | Inl _ \<Rightarrow> [])
    (SamlSpClientConfig_authn_request_signing_certificates sp)") (auto split: PostSigError.splits)

lemma sso_acs_url_ok:
  assumes "sso_acs_url sp parsed = Inr acs"
  shows "acs \<in> set (SamlSpClientConfig_acs_urls sp)"
    and "ParsedAuthnRequest_assertion_consumer_service_url parsed \<in> {None, Some acs}"
  using assms by (auto simp: sso_acs_url_def split: option.splits list.splits if_splits)

lemma sso_row_params:
  "map_of (FlowStateRow_authorize_params (sso_flow_row draw realm client parsed acs relay)) ''__geonosis_saml_acs_url'' = Some acs"
  "map_of (FlowStateRow_authorize_params (sso_flow_row draw realm client parsed acs relay)) ''__geonosis_saml_request_id'' =
     Some (ParsedAuthnRequest_id parsed)"
  "map_of (FlowStateRow_authorize_params (sso_flow_row draw realm client parsed acs relay)) ''client_id'' =
     Some (Client_client_id client)"
  "map_of (FlowStateRow_authorize_params (sso_flow_row draw realm client parsed acs relay)) ''__geonosis_saml_relay_state'' = relay"
  by (cases relay; simp add: sso_flow_row_def Let_def)+

lemma saml_form_posts_to:
  assumes "saml_form_response lib draw realm user sp sid acs irt relay st = (Response 200 body, st')"
  shows "\<exists>signed_xml. body = Body_Html (acs_auto_post_form acs (base64_std_encode lib
    (serialize_response lib (''_resp_'' @ ld_response_token draw) (ld_response_now draw) (realm_issuer st' realm) acs irt
      signed_xml)) relay)"
  using assms by (auto simp: saml_form_response_def Let_def split: sum.splits prod.splits)

lemma sso_row_id: "FlowState_id (FlowStateRow_state (sso_flow_row draw realm client parsed acs relay)) = so_flow_state_id draw"
  by (simp add: sso_flow_row_def FlowState_fresh_def Let_def)

lemma sso_checks_reject:
  "sso_signature_check lib sp xml = Inl resp \<Longrightarrow> rejected resp"
  "sso_acs_url sp parsed = Inl resp \<Longrightarrow> rejected resp"
  by (auto simp: sso_signature_check_def sso_acs_url_def Let_def split: sum.splits PostSigError.splits option.splits
      list.splits if_splits)

lemma sso_row_life: "FlowState_expires_at (FlowStateRow_state (sso_flow_row draw realm client parsed acs relay)) \<le>
    so_now draw + int (secs 900)"
  by (simp add: sso_flow_row_def FlowState_fresh_def Let_def secs_def chrono_from_std_def min_def)

lemma handle_sso_cases:
  assumes "handle_sso lib draw slug form state = (resp, state')"
  shows "state' = state \<and> rejected resp \<or>
    (\<exists>realm xml parsed client raw sp acs. get_realm_by_slug slug (AppState_storage state) = Inr realm \<and>
      base64_std_bytes lib (SamlSsoForm_saml_request form) = Inr xml \<and> parse_authn_request lib xml = Inr parsed \<and>
      get_client_by_client_id (Realm_id realm) (ParsedAuthnRequest_issuer parsed) (AppState_storage state) = Inr client \<and>
      Client_kind client = ClientKind_SamlServiceProvider \<and> Client_saml_sp_config client = Some raw \<and>
      SamlSpClientConfig_try_from_value lib raw = Inr sp \<and> sso_signature_check lib sp xml = Inr () \<and>
      sso_acs_url sp parsed = Inr acs \<and>
      state' = state\<lparr>AppState_storage := (AppState_storage state)\<lparr>flow_states := hm_insert (so_flow_state_id draw)
        (sso_flow_row draw realm client parsed acs (SamlSsoForm_relay_state form)) (flow_states (AppState_storage state))\<rparr>\<rparr> \<and>
      resp = Response 200 (Body_Html (saml_render_login_form (Realm_slug realm)
        (FlowStateId_to_string lib (so_flow_state_id draw)))))"
  using assms unfolding handle_sso_def
  by (auto simp: sso_row_id with_storage_eq save_flow_state_def Let_def dest: sso_checks_reject
      split: sum.splits option.splits if_splits)

text \<open>
  C15: What stands behind a SAML login form. When single sign-on answers with the form, the request parses
  and its issuer is the \<open>client_id\<close> of a SAML service provider of the realm; if that provider wants signed
  requests, the signature inside the request verifies under one of its certificates. The only change is one
  flow state of the realm, living at most fifteen minutes, and the form carries its id. When that flow ends
  and the response is built from the stored parameters, it goes to a URL on the provider's list, the
  requested one if any was, answers the id of the request and carries the relay state.
\<close>

theorem saml_sso_sound:
  assumes "handle_sso lib draw slug form state = (Response 200 body, state')"
  shows "\<exists>realm xml parsed client raw sp acs row.
    get_realm_by_slug slug (AppState_storage state) = Inr realm \<and>
    base64_std_bytes lib (SamlSsoForm_saml_request form) = Inr xml \<and> parse_authn_request lib xml = Inr parsed \<and>
    get_client_by_client_id (Realm_id realm) (ParsedAuthnRequest_issuer parsed) (AppState_storage state) = Inr client \<and>
    Client_kind client = ClientKind_SamlServiceProvider \<and> Client_saml_sp_config client = Some raw \<and>
    SamlSpClientConfig_try_from_value lib raw = Inr sp \<and>
    (SamlSpClientConfig_want_authnrequest_signed sp \<longrightarrow>
      verify_post_authn_request_signature lib (case str_from_utf8 lib xml of Inr s \<Rightarrow> s | Inl _ \<Rightarrow> [])
        (SamlSpClientConfig_authn_request_signing_certificates sp) = Inr ()) \<and>
    state' = state\<lparr>AppState_storage := (AppState_storage state)\<lparr>flow_states :=
      hm_insert (so_flow_state_id draw) row (flow_states (AppState_storage state))\<rparr>\<rparr> \<and>
    FlowState_realm_id (FlowStateRow_state row) = Realm_id realm \<and>
    FlowState_expires_at (FlowStateRow_state row) \<le> so_now draw + int (secs 900) \<and>
    body = Body_Html (saml_render_login_form (Realm_slug realm) (FlowStateId_to_string lib (so_flow_state_id draw))) \<and>
    acs \<in> set (SamlSpClientConfig_acs_urls sp) \<and>
    ParsedAuthnRequest_assertion_consumer_service_url parsed \<in> {None, Some acs} \<and>
    (\<forall>draw2 user sid st page st2.
      try_complete_saml lib draw2 realm client user (FlowStateRow_authorize_params row) sid st = (Some (Response 200 page), st2) \<longrightarrow>
      (\<exists>signed_xml. page = Body_Html (acs_auto_post_form acs (base64_std_encode lib (serialize_response lib
        (''_resp_'' @ ld_response_token draw2) (ld_response_now draw2) (realm_issuer st2 realm) acs
        (Some (ParsedAuthnRequest_id parsed)) signed_xml)) (SamlSsoForm_relay_state form))))"
proof -
  have not_rejected: "\<not> rejected (Response 200 body)" by (cases body) simp_all
  obtain realm xml parsed client raw sp acs where
    found: "get_realm_by_slug slug (AppState_storage state) = Inr realm"
      "base64_std_bytes lib (SamlSsoForm_saml_request form) = Inr xml" "parse_authn_request lib xml = Inr parsed"
      "get_client_by_client_id (Realm_id realm) (ParsedAuthnRequest_issuer parsed) (AppState_storage state) = Inr client"
      "Client_kind client = ClientKind_SamlServiceProvider" and sp: "Client_saml_sp_config client = Some raw"
      "SamlSpClientConfig_try_from_value lib raw = Inr sp"
    and ok: "sso_signature_check lib sp xml = Inr ()" "sso_acs_url sp parsed = Inr acs"
    and st: "state' = state\<lparr>AppState_storage := (AppState_storage state)\<lparr>flow_states := hm_insert (so_flow_state_id draw)
        (sso_flow_row draw realm client parsed acs (SamlSsoForm_relay_state form)) (flow_states (AppState_storage state))\<rparr>\<rparr>"
    and form: "Response 200 body = Response 200 (Body_Html (saml_render_login_form (Realm_slug realm)
        (FlowStateId_to_string lib (so_flow_state_id draw))))"
    using handle_sso_cases [OF assms] not_rejected by blast
  let ?row = "sso_flow_row draw realm client parsed acs (SamlSsoForm_relay_state form)"
  have completes: "\<exists>signed_xml. page = Body_Html (acs_auto_post_form acs (base64_std_encode lib (serialize_response lib
        (''_resp_'' @ ld_response_token draw2) (ld_response_now draw2) (realm_issuer st2 realm) acs
        (Some (ParsedAuthnRequest_id parsed)) signed_xml)) (SamlSsoForm_relay_state form))"
    if "try_complete_saml lib draw2 realm client user (FlowStateRow_authorize_params ?row) sid s = (Some (Response 200 page), st2)"
    for draw2 user sid s page st2
  proof -
    have "saml_form_response lib draw2 realm user sp sid acs (Some (ParsedAuthnRequest_id parsed)) (SamlSsoForm_relay_state form) s =
        (Response 200 page, st2)"
      using that by (simp add: try_complete_saml_def sso_row_params sp split: prod.splits)
    then show ?thesis by (rule saml_form_posts_to)
  qed
  have row: "FlowState_realm_id (FlowStateRow_state ?row) = Realm_id realm"
    "FlowState_expires_at (FlowStateRow_state ?row) \<le> so_now draw + int (secs 900)"
    by (simp_all add: sso_row_life) (simp add: sso_flow_row_def FlowState_fresh_def Let_def)
  have body: "body = Body_Html (saml_render_login_form (Realm_slug realm) (FlowStateId_to_string lib (so_flow_state_id draw)))"
    using form by simp
  have sig: "SamlSpClientConfig_want_authnrequest_signed sp \<longrightarrow>
      verify_post_authn_request_signature lib (case str_from_utf8 lib xml of Inr s \<Rightarrow> s | Inl _ \<Rightarrow> [])
        (SamlSpClientConfig_authn_request_signing_certificates sp) = Inr ()"
    using sso_signature_check_ok [OF ok(1)] by blast
  show ?thesis
    by (intro exI [of _ realm] exI [of _ xml] exI [of _ parsed] exI [of _ client] exI [of _ raw] exI [of _ sp] exI [of _ acs]
        exI [of _ ?row] conjI allI)
      (rule found sp sig st row body sso_acs_url_ok [OF ok(2)] | rule impI, rule completes, assumption)+
qed

section \<open>Single logout\<close>

lemma slo_revoke_state: "snd (slo_revoke client si state) = (case si of
    Some i \<Rightarrow> state\<lparr>AppState_storage := (AppState_storage state)\<lparr>sessions :=
      hm_remove (SessionId i) (sessions (AppState_storage state))\<rparr>\<rparr>
  | None \<Rightarrow> state)"
  by (simp add: slo_revoke_def with_storage_eq delete_session_def Let_def hm_remove_absent split: option.split)

lemma slo_revoke_peer:
  assumes "(cid, b) \<in> set (fst (slo_revoke client si state))"
  shows "\<exists>i session c. si = Some i \<and> get_session (SessionId i) (AppState_storage state) = Inr session \<and>
    c \<in> set (Session_clients session) \<and> ClientSessionRef_client_id c = cid \<and> cid \<noteq> Client_id client \<and>
    ClientSessionRef_backchannel_logout c = b"
  using assms by (force simp: slo_revoke_def Let_def peer_logouts_of_def split: option.splits sum.splits)

lemma propagate_peer:
  assumes "(url, msg) \<in> set (propagate_saml_logout lib draw rid peers state)"
  shows "\<exists>cid peer raw sp. (cid, True) \<in> set peers \<and> get_client rid cid (AppState_storage state) = Inr peer \<and>
    Client_saml_sp_config peer = Some raw \<and> SamlSpClientConfig_try_from_value lib raw = Inr sp \<and>
    SamlSpClientConfig_slo_url sp = Some url"
proof -
  obtain r where "(url, msg) \<in> set (List.map_filter (peer_logout lib draw rid (realm_issuer state r) state) (enumerate 0 peers))"
    using assms by (auto simp: propagate_saml_logout_def split: sum.splits)
  then obtain i cid b where p: "(i, cid, b) \<in> set (enumerate 0 peers)"
      "peer_logout lib draw rid (realm_issuer state r) state (i, cid, b) = Some (url, msg)"
    unfolding map_filter_def by force
  then have "(cid, b) \<in> set peers" by (auto simp: in_set_enumerate_eq dest: nth_mem)
  with p(2) show ?thesis
    by (auto simp: peer_logout_def split: if_splits sum.splits option.splits)
qed

lemma slo_post_ok:
  assumes "slo_post lib draw slug form state = (Response 200 body, sent, state')"
  shows "\<exists>realm xml parsed client raw sp. get_realm_by_slug slug (AppState_storage state) = Inr realm \<and>
    base64_std_bytes lib (SamlSloForm_saml_request form) = Inr xml \<and> parse_logout_request lib xml = Inr parsed \<and>
    get_client_by_client_id (Realm_id realm) (ParsedLogoutRequest_issuer parsed) (AppState_storage state) = Inr client \<and>
    Client_kind client = ClientKind_SamlServiceProvider \<and> Client_saml_sp_config client = Some raw \<and>
    SamlSpClientConfig_try_from_value lib raw = Inr sp \<and>
    state' = snd (slo_revoke client (ParsedLogoutRequest_session_index parsed) state) \<and>
    set sent \<subseteq> set (propagate_saml_logout lib draw (Realm_id realm)
      (fst (slo_revoke client (ParsedLogoutRequest_session_index parsed) state)) state') \<and>
    Response 200 body = slo_answer lib draw realm sp parsed (SamlSloForm_relay_state form) state'"
  using assms unfolding slo_post_def saml_reject_def
  by (auto simp: Let_def split: sum.splits option.splits if_splits prod.splits)

text \<open>
  C20: What a logout request does. When single logout succeeds, the request parses and its issuer is the
  \<open>client_id\<close> of a SAML service provider of the realm; the session the request names, if any, is gone,
  every other session and everything else is as before, and the answer is posted to the provider's logout
  URL with the id of the request. Each message to somebody else goes to the logout URL of a service provider
  of the realm that shared that session, with back-channel logout switched on, and is not the requester. The
  session may belong to any realm, and nothing is said of a signature: neither is looked at.
\<close>

theorem slo_post_revokes:
  assumes "slo_post lib draw slug form state = (Response 200 body, sent, state')"
  shows "\<exists>realm xml parsed client raw sp destination.
    get_realm_by_slug slug (AppState_storage state) = Inr realm \<and>
    base64_std_bytes lib (SamlSloForm_saml_request form) = Inr xml \<and> parse_logout_request lib xml = Inr parsed \<and>
    get_client_by_client_id (Realm_id realm) (ParsedLogoutRequest_issuer parsed) (AppState_storage state) = Inr client \<and>
    Client_kind client = ClientKind_SamlServiceProvider \<and> Client_saml_sp_config client = Some raw \<and>
    SamlSpClientConfig_try_from_value lib raw = Inr sp \<and>
    state' = (case ParsedLogoutRequest_session_index parsed of
      Some i \<Rightarrow> state\<lparr>AppState_storage := (AppState_storage state)\<lparr>sessions :=
        hm_remove (SessionId i) (sessions (AppState_storage state))\<rparr>\<rparr>
    | None \<Rightarrow> state) \<and>
    SamlSpClientConfig_slo_url sp \<in> {None, Some destination} \<and>
    body = Body_Html (acs_auto_post_form destination (base64_std_encode lib (serialize_logout_response lib
      (''_slo_'' @ sl_token draw) (sl_now draw) (realm_issuer state realm) destination (ParsedLogoutRequest_id parsed)))
      (SamlSloForm_relay_state form)) \<and>
    (\<forall>url msg. (url, msg) \<in> set sent \<longrightarrow>
      (\<exists>i session c peer raw2 sp2. ParsedLogoutRequest_session_index parsed = Some i \<and>
        get_session (SessionId i) (AppState_storage state) = Inr session \<and> c \<in> set (Session_clients session) \<and>
        ClientSessionRef_backchannel_logout c \<and> ClientSessionRef_client_id c \<noteq> Client_id client \<and>
        get_client (Realm_id realm) (ClientSessionRef_client_id c) (AppState_storage state) = Inr peer \<and>
        Client_saml_sp_config peer = Some raw2 \<and> SamlSpClientConfig_try_from_value lib raw2 = Inr sp2 \<and>
        SamlSpClientConfig_slo_url sp2 = Some url))"
proof -
  obtain realm xml parsed client raw sp where
    found: "get_realm_by_slug slug (AppState_storage state) = Inr realm"
      "base64_std_bytes lib (SamlSloForm_saml_request form) = Inr xml" "parse_logout_request lib xml = Inr parsed"
      "get_client_by_client_id (Realm_id realm) (ParsedLogoutRequest_issuer parsed) (AppState_storage state) = Inr client"
      "Client_kind client = ClientKind_SamlServiceProvider" "Client_saml_sp_config client = Some raw"
      "SamlSpClientConfig_try_from_value lib raw = Inr sp"
    and st: "state' = snd (slo_revoke client (ParsedLogoutRequest_session_index parsed) state)"
    and sent: "set sent \<subseteq> set (propagate_saml_logout lib draw (Realm_id realm)
      (fst (slo_revoke client (ParsedLogoutRequest_session_index parsed) state)) state')"
    and answer: "Response 200 body = slo_answer lib draw realm sp parsed (SamlSloForm_relay_state form) state'"
    using slo_post_ok [OF assms] by blast
  let ?dest = "case SamlSpClientConfig_slo_url sp of Some u \<Rightarrow> u | None \<Rightarrow> SamlSpClientConfig_entity_id sp @ ''/slo''"
  have same: "get_client r c (AppState_storage state') = get_client r c (AppState_storage state)"
    "AppState_public_base_url state' = AppState_public_base_url state" for r c
    by (simp_all add: st slo_revoke_state get_client_def split: option.split)
  have dest: "SamlSpClientConfig_slo_url sp \<in> {None, Some ?dest}" by (simp split: option.split)
  have body: "body = Body_Html (acs_auto_post_form ?dest (base64_std_encode lib (serialize_logout_response lib
      (''_slo_'' @ sl_token draw) (sl_now draw) (realm_issuer state realm) ?dest (ParsedLogoutRequest_id parsed)))
      (SamlSloForm_relay_state form))"
    using answer by (simp add: slo_answer_def Let_def realm_issuer_def same(2))
  have peers: "\<exists>i session c peer raw2 sp2. ParsedLogoutRequest_session_index parsed = Some i \<and>
        get_session (SessionId i) (AppState_storage state) = Inr session \<and> c \<in> set (Session_clients session) \<and>
        ClientSessionRef_backchannel_logout c \<and> ClientSessionRef_client_id c \<noteq> Client_id client \<and>
        get_client (Realm_id realm) (ClientSessionRef_client_id c) (AppState_storage state) = Inr peer \<and>
        Client_saml_sp_config peer = Some raw2 \<and> SamlSpClientConfig_try_from_value lib raw2 = Inr sp2 \<and>
        SamlSpClientConfig_slo_url sp2 = Some url" if "(url, msg) \<in> set sent" for url msg
    using propagate_peer [OF subsetD [OF sent that], unfolded same] slo_revoke_peer by blast
  show ?thesis
    by (intro exI [of _ realm] exI [of _ xml] exI [of _ parsed] exI [of _ client] exI [of _ raw] exI [of _ sp]
        exI [of _ ?dest] conjI allI)
      (rule found st [unfolded slo_revoke_state] dest body | rule impI, rule peers, assumption)+
qed

section \<open>Requests signed over the redirect binding\<close>

lemma scan_without_signature:
  assumes "\<And>qn ats a b. (XmlEvent_Start qn ats, a, b) \<in> set evs \<Longrightarrow> local_name qn \<noteq> ''Signature''"
    and "\<not> ss_saw_signature st"
  shows "\<not> ss_saw_signature (fold scan_event evs st)"
  using assms
proof (induction evs arbitrary: st)
  case (Cons e evs)
  obtain ev a b where e: "e = (ev, a, b)" by (cases e)
  have "\<not> ss_saw_signature (scan_event e st)"
    using Cons.prems by (cases ev) (auto simp: e Let_def scan_alg_def split: option.split)
  with Cons.IH Cons.prems(1) show ?case by (metis fold_simps(2) list.set_intros(2))
qed simp

text \<open>
  The redirect binding signs the query and forbids a signature inside the request. A service provider that
  wants signed requests is refused all the same when its query signature has been verified: the check of the
  posted form runs on the decoded request too and finds no \<open>Signature\<close> element.
\<close>

theorem redirect_signed_requests_refused:
  assumes "decode_redirect_payload lib (SamlSsoQuery_saml_request q) REDIRECT_BINDING_DECOMPRESS_CAP = Inr xml"
    and "base64_std_bytes lib (base64_std_encode lib xml) = Inr xml" and "base64_std_encode lib xml \<noteq> []"
    and "str_from_utf8 lib xml = Inr xml" and "parse_authn_request lib xml = Inr parsed"
    and "signature_spans lib xml = (evs, None)"
    and "\<And>qn ats a b. (XmlEvent_Start qn ats, a, b) \<in> set evs \<Longrightarrow> local_name qn \<noteq> ''Signature''"
    and "get_realm_by_slug slug (AppState_storage state) = Inr realm"
    and "get_client_by_client_id (Realm_id realm) (ParsedAuthnRequest_issuer parsed) (AppState_storage state) = Inr client"
    and "Client_kind client = ClientKind_SamlServiceProvider" and "Client_saml_sp_config client = Some raw"
    and "SamlSpClientConfig_try_from_value lib raw = Inr sp" and "SamlSpClientConfig_want_authnrequest_signed sp"
    and "SamlSsoQuery_saml_request q \<noteq> []"
    and "verify_inbound_redirect_signature lib state slug xml (unwrap_or query []) = Inr ()"
  shows "sso_get lib draw slug query q state =
    (Response 400 (Body_Text ''AuthnRequest must be signed for this SP but no <Signature> element found''), state)"
proof -
  have "extract_signature_pieces lib xml = Inl PostSigError_NoSignature"
    using scan_without_signature [of evs SigScan_start] assms(7)
    by (simp add: extract_signature_pieces_def assms(6) Let_def SigScan_start_def)
  then have "sso_signature_check lib sp xml =
      Inl (saml_reject ''AuthnRequest must be signed for this SP but no <Signature> element found'' 400)"
    by (simp add: sso_signature_check_def verify_post_authn_request_signature_def assms Let_def)
  then show ?thesis
    using assms by (simp add: sso_get_def handle_sso_def saml_reject_def)
qed

section \<open>A concrete login and a concrete logout\<close>

text \<open>
  A service provider \<open>app\<close> of the sample realm, a request without a signature, and a session of another
  realm that a second provider shares.
\<close>

definition sample_sp :: SamlSpClientConfig where
  "sample_sp = \<lparr>SamlSpClientConfig_entity_id = ''app'', SamlSpClientConfig_acs_urls = [''https://sp/acs''],
     SamlSpClientConfig_slo_url = Some ''https://sp/slo'', SamlSpClientConfig_binding = SamlBinding_HttpPost,
     SamlSpClientConfig_name_id_format = NameIdFormat_Unspecified, SamlSpClientConfig_want_authnrequest_signed = False,
     SamlSpClientConfig_want_assertions_encrypted = False, SamlSpClientConfig_signing_key = KeyId 5,
     SamlSpClientConfig_default_audience = None, SamlSpClientConfig_session_index_strategy = SessionIndexStrategy_UseSessionId,
     SamlSpClientConfig_authn_request_signing_certificates = [], SamlSpClientConfig_attribute_mappers = [],
     SamlSpClientConfig_front_channel_logout_url = None\<rparr>"

definition request_head :: xml_attrs where
  "request_head = [(''ID'', Some ''r1''), (''IssueInstant'', Some ''t'')]"

definition sample_request_events :: "string \<Rightarrow> XmlEvent list" where
  "sample_request_events xml =
     (if xml = ''sso'' then [XmlEvent_Start ''samlp:AuthnRequest'' request_head, XmlEvent_Start ''saml:Issuer'' [],
        XmlEvent_Text (Inr ''app''), XmlEvent_End ''saml:Issuer'', XmlEvent_End ''samlp:AuthnRequest'']
      else [XmlEvent_Start ''samlp:LogoutRequest'' request_head, XmlEvent_Start ''saml:Issuer'' [], XmlEvent_Text (Inr ''app''),
        XmlEvent_End ''saml:Issuer'', XmlEvent_Start ''samlp:SessionIndex'' [], XmlEvent_Text (Inr ''s9''),
        XmlEvent_End ''samlp:SessionIndex'', XmlEvent_End ''samlp:LogoutRequest''])"

definition sample_saml_server_lib :: SamlServerLib where
  "sample_saml_server_lib = LoginLib.extend (sample_login_lib\<lparr>saml_sp_from_json := (\<lambda>v. Inr sample_sp), base64_std_bytes := Inr\<rparr>)
     (SamlServerLib.fields (\<lambda>s. (sample_request_events s, None)) (\<lambda>s. ([], None)) (\<lambda>s. Inr 0) (\<lambda>s. ([s], None))
        (\<lambda>s. Inl ''x509'') (\<lambda>s. Inl ''rsa'') (\<lambda>s. Inl ''rsa'') Inr (\<lambda>k m s. False) (\<lambda>s. s))"

definition sample_sp_client :: "nat \<Rightarrow> Client" where
  "sample_sp_client n = sample_client\<lparr>Client_id := ClientId n, Client_kind := ClientKind_SamlServiceProvider,
     Client_saml_sp_config := Some Value_Null\<rparr>"

definition sample_foreign_session :: Session where
  "sample_foreign_session = \<lparr>Session_id = SessionId ''s9'', Session_realm_id = RealmId 2, Session_user_id = UserId 7,
     Session_authn_level = AuthnLevel_Single, Session_idp_alias = None, Session_started_at = 0, Session_last_seen_at = 0,
     Session_expires_at = 9, Session_clients = [\<lparr>ClientSessionRef_client_id = ClientId 2, ClientSessionRef_last_seen_at = 0,
       ClientSessionRef_frontchannel_logout = False, ClientSessionRef_backchannel_logout = True\<rparr>]\<rparr>"

definition sample_saml_app :: AppState where
  "sample_saml_app = sample_app\<lparr>AppState_storage := sample_tables\<lparr>
     clients := [((RealmId 1, ClientId 1), sample_sp_client 1), ((RealmId 1, ClientId 2), sample_sp_client 2)],
     sessions := [(SessionId ''s9'', sample_foreign_session)]\<rparr>\<rparr>"

lemma sample_saml_lookups:
  "get_realm_by_slug ''t'' (AppState_storage sample_saml_app) = Inr sample_realm"
  "get_client_by_client_id (RealmId 1) ''app'' (AppState_storage sample_saml_app) = Inr (sample_sp_client 1)"
  "get_client (RealmId 1) (ClientId 2) (AppState_storage sample_saml_app) = Inr (sample_sp_client 2)"
  "get_session (SessionId ''s9'') (AppState_storage sample_saml_app) = Inr sample_foreign_session"
  "sessions (AppState_storage sample_saml_app) = [(SessionId ''s9'', sample_foreign_session)]"
  by (simp_all add: sample_saml_app_def sample_app_def get_realm_by_slug_def get_client_by_client_id_def get_client_def
      get_session_def sample_tables_simps)

lemma sample_saml_server_simps:
  "request_events sample_saml_server_lib = (\<lambda>s. (sample_request_events s, None))"
  "rfc3339_instant sample_saml_server_lib = (\<lambda>s. Inr 0)" "base64_std_bytes sample_saml_server_lib = Inr"
  "signature_spans sample_saml_server_lib = (\<lambda>s. ([], None))" "saml_sp_from_json sample_saml_server_lib = (\<lambda>v. Inr sample_sp)"
  by (simp_all add: sample_saml_server_lib_def LoginLib.defs SamlServerLib.defs sample_login_lib_def SamlLib.defs)

lemma sample_names:
  "unprefixed ''samlp:AuthnRequest'' = ''AuthnRequest''" "unprefixed ''samlp:LogoutRequest'' = ''LogoutRequest''"
  "unprefixed ''saml:Issuer'' = ''Issuer''" "unprefixed ''samlp:SessionIndex'' = ''SessionIndex''"
  by code_simp+

lemma sample_requests:
  "parse_authn_request sample_saml_server_lib ''sso'' = Inr \<lparr>ParsedAuthnRequest_id = ''r1'', ParsedAuthnRequest_issue_instant = 0,
     ParsedAuthnRequest_issuer = ''app'', ParsedAuthnRequest_destination = None,
     ParsedAuthnRequest_assertion_consumer_service_url = None, ParsedAuthnRequest_protocol_binding = None,
     ParsedAuthnRequest_force_authn = False, ParsedAuthnRequest_is_passive = False, ParsedAuthnRequest_name_id_policy_format = None\<rparr>"
  "parse_logout_request sample_saml_server_lib ''slo'' = Inr \<lparr>ParsedLogoutRequest_id = ''r1'', ParsedLogoutRequest_issue_instant = 0,
     ParsedLogoutRequest_issuer = ''app'', ParsedLogoutRequest_destination = None, ParsedLogoutRequest_name_id = None,
     ParsedLogoutRequest_session_index = Some ''s9''\<rparr>"
  by (simp_all add: parse_authn_request_def parse_logout_request_def sample_saml_server_simps sample_request_events_def
      authn_start_def logout_start_def start_authn_request_def start_logout_request_def request_head_def last_attr_def
      truthy_def take_text_def sample_names Let_def unwrap_or_def)

lemma sample_sp_fields:
  "Client_kind (sample_sp_client n) = ClientKind_SamlServiceProvider" "Client_saml_sp_config (sample_sp_client n) = Some Value_Null"
  "Client_id (sample_sp_client n) = ClientId n" "SamlSpClientConfig_try_from_value sample_saml_server_lib v = Inr sample_sp"
  by (simp_all add: sample_sp_client_def SamlSpClientConfig_try_from_value_def sample_saml_server_simps)

definition sample_sso_draw :: SsoDraw where
  "sample_sso_draw = \<lparr>so_now = 0, so_flow_state_id = FlowStateId 1, so_csrf = CsrfToken ''c'', so_flow_id = FlowId 1,
     so_node_id = NodeId 1\<rparr>"

theorem saml_sso_sound_witness:
  "\<exists>page state' row acs. handle_sso sample_saml_server_lib sample_sso_draw ''t''
     \<lparr>SamlSsoForm_saml_request = ''sso'', SamlSsoForm_relay_state = Some ''rs''\<rparr> sample_saml_app = (Response 200 page, state') \<and>
   map_of (flow_states (AppState_storage state')) (FlowStateId 1) = Some row \<and>
   FlowState_realm_id (FlowStateRow_state row) = RealmId 1 \<and> acs \<in> set (SamlSpClientConfig_acs_urls sample_sp)"
proof -
  have check: "sso_signature_check sample_saml_server_lib sample_sp xml = Inr ()" for xml
    by (simp add: sso_signature_check_def verify_post_authn_request_signature_def extract_signature_pieces_def
        sample_saml_server_simps SigScan_start_def sample_sp_def Let_def)
  have acs: "sso_acs_url sample_sp p = Inr ''https://sp/acs''" if "ParsedAuthnRequest_assertion_consumer_service_url p = None" for p
    by (simp add: sso_acs_url_def sample_sp_def that)
  obtain page state' where run: "handle_sso sample_saml_server_lib sample_sso_draw ''t''
      \<lparr>SamlSsoForm_saml_request = ''sso'', SamlSsoForm_relay_state = Some ''rs''\<rparr> sample_saml_app = (Response 200 page, state')"
    by (simp add: handle_sso_def sample_saml_lookups sample_realm_id sample_requests sample_saml_server_simps sample_sp_fields
        check acs with_storage_eq save_flow_state_def Let_def del: One_nat_def)
  from saml_sso_sound [OF run] show ?thesis
    using run by (auto simp: sample_saml_lookups sample_realm_id sample_sp_fields sample_saml_server_simps sample_requests
      sample_sso_draw_def simp del: One_nat_def)
qed

definition sample_slo_draw :: SloDraw where
  "sample_slo_draw = \<lparr>sl_token = ''k'', sl_now = 0, sl_peer = (\<lambda>i. (''k'', 0))\<rparr>"

theorem slo_post_revokes_witness:
  "\<exists>page msg state'. slo_post sample_saml_server_lib sample_slo_draw ''t''
     \<lparr>SamlSloForm_saml_request = ''slo'', SamlSloForm_relay_state = None\<rparr> sample_saml_app =
       (Response 200 page, [(''https://sp/slo'', msg)], state') \<and>
   Session_realm_id sample_foreign_session \<noteq> RealmId 1 \<and>
   map_of (sessions (AppState_storage sample_saml_app)) (SessionId ''s9'') = Some sample_foreign_session \<and>
   map_of (sessions (AppState_storage state')) (SessionId ''s9'') = None"
proof -
  have peers: "fst (slo_revoke (sample_sp_client 1) (Some ''s9'') sample_saml_app) = [(ClientId 2, True)]"
    by (simp add: slo_revoke_def sample_saml_lookups peer_logouts_of_def sample_foreign_session_def sample_sp_fields Let_def)
  have after: "get_realm (RealmId 1) (AppState_storage (snd (slo_revoke (sample_sp_client 1) (Some ''s9'') sample_saml_app))) = Inr sample_realm"
    "get_client (RealmId 1) (ClientId 2) (AppState_storage (snd (slo_revoke (sample_sp_client 1) (Some ''s9'') sample_saml_app))) = Inr (sample_sp_client 2)"
    by (simp_all add: slo_revoke_state sample_saml_app_def sample_app_def get_realm_def get_client_def sample_tables_simps)
  obtain page msg state' where run: "slo_post sample_saml_server_lib sample_slo_draw ''t''
      \<lparr>SamlSloForm_saml_request = ''slo'', SamlSloForm_relay_state = None\<rparr> sample_saml_app =
        (Response 200 page, [(''https://sp/slo'', msg)], state')"
    using peers after
    by (cases "slo_revoke (sample_sp_client 1) (Some ''s9'') sample_saml_app")
      (auto simp: slo_post_def sample_saml_lookups sample_realm_id sample_requests sample_saml_server_simps sample_sp_fields
        propagate_saml_logout_def peer_logout_def map_filter_def slo_answer_def Let_def sample_sp_def simp del: One_nat_def)
  from slo_post_revokes [OF run] show ?thesis
    using run by (auto simp: sample_saml_lookups sample_realm_id sample_saml_server_simps sample_requests
        sample_foreign_session_def simp del: One_nat_def)
qed

end
