(* ===== verification/Ldap_Runtime.thy ===== *)
theory Ldap_Runtime
  imports Store_Integration Std_Xml
begin

text \<open>
  The LDAP client, \<^verbatim>\<open>crates/geonosis-federation-ldap/src\<close> \<open>mapper.rs\<close>, \<open>error.rs\<close>, \<open>pool.rs\<close>,
  \<open>bind.rs\<close>, \<open>search.rs\<close>, \<open>sync.rs\<close>, and the registry of pools of \<^verbatim>\<open>crates/geonosis-server/src/ldap.rs\<close>.
  The directory is a parameter: what it answers to a connection attempt, a bind and a search is a
  function of the connection, and a connection may depend on the number of the dial that made it. An
  instant is a number of nanoseconds. \<open>None\<close> is a panic. Shown: the circuit breaker is a function of the
  history of outcomes, whatever callers interleave; a password check succeeds only when the directory has
  accepted the password for the entry it returned first; an incremental run asks for a user named \<open>*\<close>.
\<close>

section \<open>Entries (\<open>mapper.rs\<close>)\<close>

definition AD_ACCOUNT_DISABLED :: u32 where "AD_ACCOUNT_DISABLED = 0x0002"

record EntryAttributes =
  EntryAttributes_dn :: string
  EntryAttributes_values :: "(string, string list) btree_map"

definition EntryAttributes_lookup :: "EntryAttributes \<Rightarrow> string \<Rightarrow> string list option" where
  "EntryAttributes_lookup e attr =
     map_option snd (find (\<lambda>(k, _). eq_ignore_ascii_case k attr) (EntryAttributes_values e))"

definition EntryAttributes_first :: "EntryAttributes \<Rightarrow> string \<Rightarrow> string option" where
  "EntryAttributes_first e attr = Option.bind (EntryAttributes_lookup e attr) (find (\<lambda>s. s \<noteq> []))"

definition EntryAttributes_all :: "EntryAttributes \<Rightarrow> string \<Rightarrow> string list" where
  "EntryAttributes_all e attr = unwrap_or (EntryAttributes_lookup e attr) []"

text \<open>\<open>str::parse::<u32>\<close>: an optional plus sign, at least one digit, a value that fits.\<close>

definition parse_u32 :: "string \<Rightarrow> u32 option" where
  "parse_u32 s =
     (let ds = (case s of c # r \<Rightarrow> if c = CHR ''+'' then r else s | [] \<Rightarrow> s) in
      if ds = [] \<or> \<not> list_all is_digit_char ds then None
      else (let n = foldl (\<lambda>a c. 10 * a + digit_val c) 0 ds in if n < 2 ^ 32 then Some (of_int n) else None))"

definition account_enabled :: "string option \<Rightarrow> bool" where
  "account_enabled v =
     (case v of
        Some s \<Rightarrow> (case parse_u32 s of Some n \<Rightarrow> n AND AD_ACCOUNT_DISABLED = 0 | None \<Rightarrow> True)
      | None \<Rightarrow> True)"

definition entry_to_user ::
  "UserId \<Rightarrow> DateTime \<Rightarrow> RealmId \<Rightarrow> string \<Rightarrow> AttributeMap \<Rightarrow> EntryAttributes \<Rightarrow> User option" where
  "entry_to_user new_id now realm_id alias m entry =
     (case EntryAttributes_first entry (AttributeMap_username m) of
        None \<Rightarrow> None
      | Some username \<Rightarrow>
     (case EntryAttributes_first entry (AttributeMap_uid m) of
        None \<Rightarrow> None
      | Some external_id \<Rightarrow>
          (let named = (\<lambda>a. Option.bind a (EntryAttributes_first entry)) in
           Some ((User_default new_id realm_id now)\<lparr>
             User_username := username, User_email := named (AttributeMap_email m), User_email_verified := False,
             User_name := Some \<lparr>PersonName_given = named (AttributeMap_first_name m),
               PersonName_family = named (AttributeMap_last_name m), PersonName_middle = None, PersonName_display = None\<rparr>,
             User_attributes := [],
             User_federation := Some \<lparr>FederationLink_source_urn = provider_urn alias, FederationLink_external_id = external_id,
               FederationLink_external_dn = Some (EntryAttributes_dn entry), FederationLink_last_synced_at = Some now\<rparr>,
             User_enabled := account_enabled (named (AttributeMap_user_account_control m)),
             User_created_at := now, User_updated_at := now\<rparr>))))"

section \<open>Errors (\<open>error.rs\<close>)\<close>

datatype LdapError =
    LdapError_Connect string | LdapError_Tls string | LdapError_Bind string | LdapError_Search string
  | LdapError_Timeout u64 | LdapError_CircuitOpen | LdapError_NotFound | LdapError_PoolExhausted | LdapError_Other string

definition LdapError_from :: "string \<Rightarrow> LdapError" where
  "LdapError_from msg =
     (let low = map to_ascii_lowercase msg in
      if str_contains low ''timeout'' then LdapError_Timeout 0
      else if str_contains low ''invalid credentials'' \<or> str_contains low ''invalidcredentials'' then LdapError_Bind msg
      else LdapError_Connect msg)"

section \<open>The directory\<close>

datatype Scope = Scope_Base | Scope_Subtree

datatype BindReply = BindReply_Timeout | BindReply_Error string | BindReply_Done nat string

record SearchEntry =
  SearchEntry_dn :: string
  SearchEntry_attrs :: "(string, string list) hash_map"

datatype SearchReply =
    SearchReply_Timeout | SearchReply_Error string | SearchReply_Refused string | SearchReply_Entries "SearchEntry list"

type_synonym ldap_conn = string

record LdapLib =
  ldap_connect :: "u64 \<Rightarrow> bool \<Rightarrow> Duration \<Rightarrow> string \<Rightarrow> string + ldap_conn"
  ldap_simple_bind :: "ldap_conn \<Rightarrow> string \<Rightarrow> string \<Rightarrow> BindReply"
  ldap_search :: "ldap_conn \<Rightarrow> string \<Rightarrow> Scope \<Rightarrow> string \<Rightarrow> string list \<Rightarrow> SearchReply"
  generalized_time :: "DateTime \<Rightarrow> string"

definition LdapFederationConfig_bind_timeout :: "LdapFederationConfig \<Rightarrow> Duration" where
  "LdapFederationConfig_bind_timeout cfg = unat (max (LdapFederationConfig_bind_timeout_ms cfg) 100) * 1000000"

section \<open>The circuit breaker (\<open>pool.rs\<close>)\<close>

definition MAX_BACKOFF :: Duration where "MAX_BACKOFF = secs 60"
definition PROBE_INTERVAL :: Duration where "PROBE_INTERVAL = secs 30"
definition CIRCUIT_OPEN_THRESHOLD :: nat where "CIRCUIT_OPEN_THRESHOLD = 5"

datatype CircuitState = CircuitState_Closed | CircuitState_Open | CircuitState_HalfOpen

record Breaker =
  Breaker_state :: CircuitState
  Breaker_consecutive_failures :: nat
  Breaker_opened_at :: "nat option"
  Breaker_backoff :: Duration

definition Breaker_closed :: Breaker where
  "Breaker_closed = \<lparr>Breaker_state = CircuitState_Closed, Breaker_consecutive_failures = 0, Breaker_opened_at = None,
     Breaker_backoff = 500000000\<rparr>"

definition Breaker_record_failure :: "nat \<Rightarrow> Breaker \<Rightarrow> Breaker" where
  "Breaker_record_failure now b =
     (let n = Breaker_consecutive_failures b + 1; b = b\<lparr>Breaker_consecutive_failures := n\<rparr> in
      if n \<ge> CIRCUIT_OPEN_THRESHOLD
      then b\<lparr>Breaker_state := CircuitState_Open, Breaker_opened_at := Some now,
             Breaker_backoff := min (Breaker_backoff b * 2) MAX_BACKOFF\<rparr>
      else b)"

definition Breaker_record_success :: "Breaker \<Rightarrow> Breaker" where
  "Breaker_record_success b = b\<lparr>Breaker_consecutive_failures := 0, Breaker_state := CircuitState_Closed, Breaker_opened_at := None,
     Breaker_backoff := 500000000\<rparr>"

definition Breaker_try_half_open :: "nat \<Rightarrow> Breaker \<Rightarrow> bool \<times> Breaker" where
  "Breaker_try_half_open now b =
     (if Breaker_state b \<noteq> CircuitState_Open then (True, b)
      else (case Breaker_opened_at b of
              Some t \<Rightarrow> if now - t \<ge> PROBE_INTERVAL then (True, b\<lparr>Breaker_state := CircuitState_HalfOpen\<rparr>) else (False, b)
            | None \<Rightarrow> (False, b)))"

section \<open>The pool (\<open>pool.rs\<close>)\<close>

text \<open>\<open>LdapPool_permits\<close> counts the free permits; a caller that finds none waits two seconds for one in vain.\<close>

record LdapPool =
  LdapPool_cfg :: LdapFederationConfig
  LdapPool_permits :: nat
  LdapPool_cursor :: u64
  LdapPool_breaker :: Breaker

definition LdapPool_new :: "LdapFederationConfig \<Rightarrow> LdapPool" where
  "LdapPool_new cfg = \<lparr>LdapPool_cfg = cfg, LdapPool_permits = unat (max (LdapFederationConfig_pool_size cfg) 1),
     LdapPool_cursor = 0, LdapPool_breaker = Breaker_closed\<rparr>"

definition circuit_state :: "LdapPool \<Rightarrow> CircuitState" where
  "circuit_state pool = Breaker_state (LdapPool_breaker pool)"

definition dial_one :: "'l LdapLib_scheme \<Rightarrow> u64 \<Rightarrow> LdapFederationConfig \<Rightarrow> string \<Rightarrow> LdapError + ldap_conn" where
  "dial_one lib tick cfg url =
     (case ldap_connect lib tick (LdapFederationConfig_tls cfg = TlsPolicy_StartTls) (LdapFederationConfig_bind_timeout cfg) url of
        Inl e \<Rightarrow> Inl (LdapError_from e)
      | Inr conn \<Rightarrow>
     (case LdapFederationConfig_bind_dn cfg of
        None \<Rightarrow> Inr conn
      | Some bind_dn \<Rightarrow>
     (case ldap_simple_bind lib conn bind_dn (case LdapFederationConfig_bind_password cfg of Some s \<Rightarrow> expose s | None \<Rightarrow> []) of
        BindReply_Timeout \<Rightarrow> Inl (LdapError_Timeout (LdapFederationConfig_bind_timeout_ms cfg))
      | BindReply_Error e \<Rightarrow> Inl (LdapError_from e)
      | BindReply_Done rc text \<Rightarrow>
          if rc \<noteq> 0 then Inl (LdapError_Bind (''rc='' @ show_nat rc @ '' '' @ text)) else Inr conn)))"

fun dial_urls ::
  "'l LdapLib_scheme \<Rightarrow> u64 \<Rightarrow> LdapFederationConfig \<Rightarrow> string list \<Rightarrow> LdapError option \<Rightarrow> LdapError + ldap_conn" where
  "dial_urls lib tick cfg [] last_err = Inl (unwrap_or last_err (LdapError_Connect ''no urls configured''))"
| "dial_urls lib tick cfg (url # urls) last_err =
     (case dial_one lib tick cfg url of Inr l \<Rightarrow> Inr l | Inl e \<Rightarrow> dial_urls lib tick cfg urls (Some e))"

text \<open>With no URL the first index is out of bounds.\<close>

definition dial :: "'l LdapLib_scheme \<Rightarrow> LdapPool \<Rightarrow> (LdapError + ldap_conn) option \<times> LdapPool" where
  "dial lib pool =
     (let urls = LdapFederationConfig_urls (LdapPool_cfg pool); total = max (length urls) 1;
          tick = LdapPool_cursor pool; start = unat tick mod total; pool = pool\<lparr>LdapPool_cursor := tick + 1\<rparr> in
      if urls = [] then (None, pool)
      else (Some (dial_urls lib tick (LdapPool_cfg pool)
             (map (\<lambda>offset. urls ! ((start + offset) mod total)) [0..<total]) None), pool))"

text \<open>The clock is read when the caller arrives and when a failed dial is recorded.\<close>

definition acquire :: "'l LdapLib_scheme \<Rightarrow> nat \<times> nat \<Rightarrow> LdapPool \<Rightarrow> (LdapError + ldap_conn) option \<times> LdapPool" where
  "acquire lib now pool =
     (let (admitted, br) = Breaker_try_half_open (fst now) (LdapPool_breaker pool); pool = pool\<lparr>LdapPool_breaker := br\<rparr> in
      if \<not> admitted then (Some (Inl LdapError_CircuitOpen), pool)
      else if LdapPool_permits pool = 0 then (Some (Inl LdapError_PoolExhausted), pool)
      else (case dial lib pool of
              (None, pool) \<Rightarrow> (None, pool)
            | (Some (Inr l), pool) \<Rightarrow>
                (Some (Inr l), pool\<lparr>LdapPool_breaker := Breaker_record_success (LdapPool_breaker pool),
                   LdapPool_permits := LdapPool_permits pool - 1\<rparr>)
            | (Some (Inl e), pool) \<Rightarrow>
                (Some (Inl e), pool\<lparr>LdapPool_breaker := Breaker_record_failure (snd now) (LdapPool_breaker pool)\<rparr>)))"

definition release :: "LdapPool \<Rightarrow> LdapPool" where
  "release pool = pool\<lparr>LdapPool_permits := LdapPool_permits pool + 1\<rparr>"

text \<open>A connection is held while a function uses it and given back at its end, on errors too.\<close>

definition with_conn ::
  "'l LdapLib_scheme \<Rightarrow> nat \<times> nat \<Rightarrow> (ldap_conn \<Rightarrow> LdapError + 'a) \<Rightarrow> LdapPool \<Rightarrow> (LdapError + 'a) option \<times> LdapPool" where
  "with_conn lib now f pool =
     (case acquire lib now pool of
        (None, pool) \<Rightarrow> (None, pool)
      | (Some (Inl e), pool) \<Rightarrow> (Some (Inl e), pool)
      | (Some (Inr conn), pool) \<Rightarrow> (Some (f conn), release pool))"

definition search_on ::
  "'l LdapLib_scheme \<Rightarrow> LdapFederationConfig \<Rightarrow> ldap_conn \<Rightarrow> string \<Rightarrow> Scope \<Rightarrow> string \<Rightarrow> string list \<Rightarrow>
   LdapError + SearchEntry list" where
  "search_on lib cfg conn base scope filt attrs =
     (case ldap_search lib conn base scope filt attrs of
        SearchReply_Timeout \<Rightarrow> Inl (LdapError_Timeout (LdapFederationConfig_search_timeout_ms cfg))
      | SearchReply_Error e \<Rightarrow> Inl (LdapError_from e)
      | SearchReply_Refused e \<Rightarrow> Inl (LdapError_from e)
      | SearchReply_Entries es \<Rightarrow> Inr es)"

section \<open>Binding as a user (\<open>bind.rs\<close>)\<close>

datatype BindOutcome = BindOutcome_Success | BindOutcome_InvalidCredential | BindOutcome_NotFound

definition bind_on :: "'l LdapLib_scheme \<Rightarrow> LdapFederationConfig \<Rightarrow> string \<Rightarrow> string \<Rightarrow> ldap_conn \<Rightarrow> LdapError + BindOutcome" where
  "bind_on lib cfg dn password conn =
     (case ldap_simple_bind lib conn dn password of
        BindReply_Timeout \<Rightarrow> Inl (LdapError_Timeout (LdapFederationConfig_bind_timeout_ms cfg))
      | BindReply_Error e \<Rightarrow> Inl (LdapError_from e)
      | BindReply_Done rc text \<Rightarrow>
          if rc = 0 then Inr BindOutcome_Success else if rc = 49 then Inr BindOutcome_InvalidCredential
          else Inl (LdapError_Bind (''rc='' @ show_nat rc @ '' '' @ text)))"

definition bind_as_user ::
  "'l LdapLib_scheme \<Rightarrow> nat \<times> nat \<Rightarrow> nat \<times> nat \<Rightarrow> string \<Rightarrow> string \<Rightarrow> LdapPool \<Rightarrow> (LdapError + BindOutcome) option \<times> LdapPool" where
  "bind_as_user lib now1 now2 username password pool =
     (let cfg = LdapPool_cfg pool in
      case with_conn lib now1 (\<lambda>conn. search_on lib cfg conn (LdapFederationConfig_base_dn cfg) Scope_Subtree
             (render_user_filter cfg username) [''dn'']) pool of
        (None, pool) \<Rightarrow> (None, pool)
      | (Some (Inl e), pool) \<Rightarrow> (Some (Inl e), pool)
      | (Some (Inr []), pool) \<Rightarrow> (Some (Inr BindOutcome_NotFound), pool)
      | (Some (Inr (e # _)), pool) \<Rightarrow> with_conn lib now2 (bind_on lib cfg (SearchEntry_dn e) password) pool)"

section \<open>Searching (\<open>search.rs\<close>)\<close>

record SearchedUser =
  SearchedUser_user :: User
  SearchedUser_dn :: string
  SearchedUser_groups :: "string list"

definition with_membership :: "LdapFederationConfig \<Rightarrow> string list" where
  "with_membership cfg = AttributeMap_request_attrs (LdapFederationConfig_attribute_map cfg) @
     (case LdapFederationConfig_group_sync cfg of Some gs \<Rightarrow> [GroupSyncConfig_membership_attribute gs] | None \<Rightarrow> [])"

definition entry_groups :: "LdapFederationConfig \<Rightarrow> SearchEntry \<Rightarrow> string list" where
  "entry_groups cfg e =
     (case LdapFederationConfig_group_sync cfg of
        Some gs \<Rightarrow> unwrap_or (map_of (SearchEntry_attrs e) (GroupSyncConfig_membership_attribute gs)) []
      | None \<Rightarrow> [])"

definition typed_entry :: "SearchEntry \<Rightarrow> EntryAttributes" where
  "typed_entry e = \<lparr>EntryAttributes_dn = SearchEntry_dn e, EntryAttributes_values = bt_extend [] (SearchEntry_attrs e)\<rparr>"

definition find_user ::
  "'l LdapLib_scheme \<Rightarrow> nat \<times> nat \<Rightarrow> UserId \<times> DateTime \<Rightarrow> RealmId \<Rightarrow> string \<Rightarrow> LdapPool \<Rightarrow>
   (LdapError + SearchedUser option) option \<times> LdapPool" where
  "find_user lib now draw realm_id username pool =
     (let cfg = LdapPool_cfg pool in
      with_conn lib now (\<lambda>conn.
        case search_on lib cfg conn (LdapFederationConfig_base_dn cfg) Scope_Subtree (render_user_filter cfg username)
               (with_membership cfg) of
          Inl e \<Rightarrow> Inl e
        | Inr [] \<Rightarrow> Inr None
        | Inr (e # _) \<Rightarrow>
            (case entry_to_user (fst draw) (snd draw) realm_id (LdapFederationConfig_alias cfg)
                    (LdapFederationConfig_attribute_map cfg) (typed_entry e) of
               None \<Rightarrow> Inl LdapError_NotFound
             | Some user \<Rightarrow> Inr (Some \<lparr>SearchedUser_user = user, SearchedUser_dn = SearchEntry_dn e,
                 SearchedUser_groups = entry_groups cfg e\<rparr>))) pool)"

fun group_names ::
  "'l LdapLib_scheme \<Rightarrow> LdapFederationConfig \<Rightarrow> GroupSyncConfig \<Rightarrow> ldap_conn \<Rightarrow> string list \<Rightarrow> string list \<Rightarrow> LdapError + string list" where
  "group_names lib cfg gs conn [] names = Inr names"
| "group_names lib cfg gs conn (dn # dns) names =
     (case search_on lib cfg conn dn Scope_Base (GroupSyncConfig_group_filter gs) [GroupSyncConfig_group_name_attribute gs] of
        Inl e \<Rightarrow> Inl e
      | Inr es \<Rightarrow> group_names lib cfg gs conn dns (names @
          (case es of
             e # _ \<Rightarrow> (case map_of (SearchEntry_attrs e) (GroupSyncConfig_group_name_attribute gs) of
                 Some (n # _) \<Rightarrow> [n] | _ \<Rightarrow> [])
           | [] \<Rightarrow> [])))"

definition search_groups ::
  "'l LdapLib_scheme \<Rightarrow> nat \<times> nat \<Rightarrow> string list \<Rightarrow> LdapPool \<Rightarrow> (LdapError + string list) option \<times> LdapPool" where
  "search_groups lib now group_dns pool =
     (case LdapFederationConfig_group_sync (LdapPool_cfg pool) of
        None \<Rightarrow> (Some (Inr []), pool)
      | Some gs \<Rightarrow>
          if group_dns = [] then (Some (Inr []), pool)
          else with_conn lib now (\<lambda>conn. group_names lib (LdapPool_cfg pool) gs conn group_dns []) pool)"

section \<open>Synchronisation (\<open>sync.rs\<close>)\<close>

record SyncReport =
  SyncReport_scanned :: nat
  SyncReport_mapped :: nat
  SyncReport_started_at :: DateTime
  SyncReport_finished_at :: DateTime

record SyncOutcome =
  SyncOutcome_user :: User
  SyncOutcome_dn :: string
  SyncOutcome_groups :: "string list"

record TombstonedEntry =
  TombstonedEntry_external_id :: string
  TombstonedEntry_external_dn :: string

text \<open>What a run draws: the id and the time of the user made from the entry at a position, start and end.\<close>

record SyncDraw =
  sy_user :: "nat \<Rightarrow> UserId \<times> DateTime"
  sy_started :: DateTime
  sy_finished :: DateTime

definition sync_outcomes :: "SyncDraw \<Rightarrow> LdapFederationConfig \<Rightarrow> RealmId \<Rightarrow> SearchEntry list \<Rightarrow> SyncOutcome list" where
  "sync_outcomes draw cfg realm_id es = List.map_filter (\<lambda>(i, e).
     map_option (\<lambda>user. \<lparr>SyncOutcome_user = user, SyncOutcome_dn = SearchEntry_dn e, SyncOutcome_groups = entry_groups cfg e\<rparr>)
       (entry_to_user (fst (sy_user draw i)) (snd (sy_user draw i)) realm_id (LdapFederationConfig_alias cfg)
         (LdapFederationConfig_attribute_map cfg) (typed_entry e))) (enumerate 0 es)"

definition paged_search ::
  "'l LdapLib_scheme \<Rightarrow> nat \<times> nat \<Rightarrow> SyncDraw \<Rightarrow> string \<Rightarrow> string list \<Rightarrow> RealmId \<Rightarrow> LdapPool \<Rightarrow>
   (LdapError + SyncOutcome list) option \<times> LdapPool" where
  "paged_search lib now draw filt attrs realm_id pool =
     (let cfg = LdapPool_cfg pool in
      with_conn lib now (\<lambda>conn. map_sum id (sync_outcomes draw cfg realm_id)
        (search_on lib cfg conn (LdapFederationConfig_base_dn cfg) Scope_Subtree filt attrs)) pool)"

definition sync_report :: "SyncDraw \<Rightarrow> SyncOutcome list \<Rightarrow> SyncReport \<times> SyncOutcome list" where
  "sync_report draw outcomes =
     (\<lparr>SyncReport_scanned = length outcomes, SyncReport_mapped = length outcomes, SyncReport_started_at = sy_started draw,
       SyncReport_finished_at = sy_finished draw\<rparr>, outcomes)"

definition full_filter :: "LdapFederationConfig \<Rightarrow> string" where
  "full_filter cfg = str_replace ''{username}'' ''*'' (LdapFederationConfig_user_filter cfg)"

definition run_full_sync ::
  "'l LdapLib_scheme \<Rightarrow> nat \<times> nat \<Rightarrow> SyncDraw \<Rightarrow> RealmId \<Rightarrow> LdapPool \<Rightarrow>
   (LdapError + SyncReport \<times> SyncOutcome list) option \<times> LdapPool" where
  "run_full_sync lib now draw realm_id pool =
     (let (r, pool) = paged_search lib now draw (full_filter (LdapPool_cfg pool)) (with_membership (LdapPool_cfg pool)) realm_id pool in
      (map_option (map_sum id (sync_report draw)) r, pool))"

definition incremental_filter :: "'l LdapLib_scheme \<Rightarrow> LdapFederationConfig \<Rightarrow> string \<Rightarrow> DateTime \<Rightarrow> string" where
  "incremental_filter lib cfg attr since =
     ''(&'' @ render_user_filter cfg ''*'' @ ''('' @ attr @ ''>='' @ generalized_time lib since @ ''))''"

definition run_incremental_sync ::
  "'l LdapLib_scheme \<Rightarrow> nat \<times> nat \<Rightarrow> SyncDraw \<Rightarrow> RealmId \<Rightarrow> DateTime \<Rightarrow> LdapPool \<Rightarrow>
   (LdapError + SyncReport \<times> SyncOutcome list) option \<times> LdapPool" where
  "run_incremental_sync lib now draw realm_id since pool =
     (case LdapFederationConfig_sync_policy (LdapPool_cfg pool) of
        SyncPolicy_OnDemand \<Rightarrow> (Some (Inl (LdapError_Other ''incremental sync requires SyncPolicy::Periodic'')), pool)
      | SyncPolicy_Periodic _ _ attr \<Rightarrow>
          (let (r, pool) = paged_search lib now draw (incremental_filter lib (LdapPool_cfg pool) attr since)
                 (with_membership (LdapPool_cfg pool)) realm_id pool in
           (map_option (map_sum id (sync_report draw)) r, pool)))"

definition detect_tombstones ::
  "'l LdapLib_scheme \<Rightarrow> nat \<times> nat \<Rightarrow> DateTime \<Rightarrow> LdapPool \<Rightarrow> (LdapError + TombstonedEntry list) option \<times> LdapPool" where
  "detect_tombstones lib now since pool =
     (let cfg = LdapPool_cfg pool; uid = AttributeMap_uid (LdapFederationConfig_attribute_map cfg) in
      with_conn lib now (\<lambda>conn.
        case ldap_search lib conn (''CN=Deleted Objects,'' @ LdapFederationConfig_base_dn cfg) Scope_Subtree
               (''(&(isDeleted=TRUE)(whenChanged>='' @ generalized_time lib since @ ''))'') [uid, ''distinguishedName''] of
          SearchReply_Timeout \<Rightarrow> Inl (LdapError_Timeout (LdapFederationConfig_search_timeout_ms cfg))
        | SearchReply_Error _ \<Rightarrow> Inr []
        | SearchReply_Refused _ \<Rightarrow> Inr []
        | SearchReply_Entries es \<Rightarrow> Inr (List.map_filter (\<lambda>e.
            case map_of (SearchEntry_attrs e) uid of
              Some (v # _) \<Rightarrow> Some \<lparr>TombstonedEntry_external_id = v, TombstonedEntry_external_dn = SearchEntry_dn e\<rparr>
            | _ \<Rightarrow> None) es)) pool)"

section \<open>The registry of pools (\<open>ldap.rs\<close>)\<close>

type_synonym LdapRuntime = "(RealmId \<times> string, LdapPool) hash_map"

definition LdapRuntime_pool :: "RealmId \<Rightarrow> string \<Rightarrow> LdapRuntime \<Rightarrow> LdapPool option" where
  "LdapRuntime_pool realm alias rt = map_of rt (realm, alias)"

definition register_or_replace :: "LdapFederationConfig \<Rightarrow> LdapRuntime \<Rightarrow> LdapPool \<times> LdapRuntime" where
  "register_or_replace cfg rt =
     (let pool = LdapPool_new cfg in
      (pool, hm_insert (LdapFederationConfig_realm_id cfg, LdapFederationConfig_alias cfg) pool rt))"

definition LdapRuntime_remove :: "RealmId \<Rightarrow> string \<Rightarrow> LdapRuntime \<Rightarrow> LdapRuntime" where
  "LdapRuntime_remove realm alias rt = hm_remove (realm, alias) rt"

definition LdapRuntime_aliases :: "RealmId \<Rightarrow> LdapRuntime \<Rightarrow> string list" where
  "LdapRuntime_aliases realm rt = map snd (filter (\<lambda>(r, _). r = realm) (map fst rt))"

section \<open>The breaker is a function of its history\<close>

text \<open>
  Callers of \<open>acquire\<close> interleave, but each touches the breaker only under its lock: on arrival, and once
  its dial has ended. A history is the sequence of these critical sections, the latest first.
\<close>

datatype breaker_event = Arrive nat | Failed nat | Succeeded

fun breaker_step :: "breaker_event \<Rightarrow> Breaker \<Rightarrow> Breaker" where
  "breaker_step (Arrive t) b = snd (Breaker_try_half_open t b)"
| "breaker_step (Failed t) b = Breaker_record_failure t b"
| "breaker_step Succeeded b = Breaker_record_success b"

definition breaker_run :: "breaker_event list \<Rightarrow> Breaker" where
  "breaker_run h = foldr breaker_step h Breaker_closed"

text \<open>The failures since the last success, the time of the last one, and the arrivals after it.\<close>

fun failed_dials :: "breaker_event list \<Rightarrow> nat" where
  "failed_dials [] = 0"
| "failed_dials (Arrive t # h) = failed_dials h"
| "failed_dials (Failed t # h) = failed_dials h + 1"
| "failed_dials (Succeeded # h) = 0"

fun last_failure :: "breaker_event list \<Rightarrow> nat" where
  "last_failure [] = 0"
| "last_failure (Arrive t # h) = last_failure h"
| "last_failure (Failed t # h) = t"
| "last_failure (Succeeded # h) = 0"

fun arrivals :: "breaker_event list \<Rightarrow> nat list" where
  "arrivals [] = []"
| "arrivals (Arrive t # h) = t # arrivals h"
| "arrivals (Failed t # h) = []"
| "arrivals (Succeeded # h) = []"

definition probed :: "nat \<Rightarrow> nat list \<Rightarrow> bool" where
  "probed failed ts = (\<exists>t \<in> set ts. failed + PROBE_INTERVAL \<le> t)"

definition breaker_of :: "breaker_event list \<Rightarrow> Breaker" where
  "breaker_of h = \<lparr>
     Breaker_state = (if failed_dials h < 5 then CircuitState_Closed
       else if probed (last_failure h) (arrivals h) then CircuitState_HalfOpen else CircuitState_Open),
     Breaker_consecutive_failures = failed_dials h,
     Breaker_opened_at = (if failed_dials h < 5 then None else Some (last_failure h)),
     Breaker_backoff = min (500000000 * 2 ^ (failed_dials h - 4)) MAX_BACKOFF\<rparr>"

lemma breaker_of_arrive: "snd (Breaker_try_half_open t (breaker_of h)) = breaker_of (Arrive t # h)"
  by (auto simp: Breaker_try_half_open_def breaker_of_def probed_def PROBE_INTERVAL_def secs_def)

lemma min_double: "min (min a m * 2) m = min (a * 2) (m::nat)"
  by (auto simp: min_def)

lemma breaker_of_failed: "Breaker_record_failure t (breaker_of h) = breaker_of (Failed t # h)"
proof (cases "failed_dials h < 4")
  case True
  then show ?thesis by (simp add: Breaker_record_failure_def breaker_of_def CIRCUIT_OPEN_THRESHOLD_def Let_def)
next
  case False
  then have "Suc (failed_dials h) - 4 = Suc (failed_dials h - 4)" by simp
  then show ?thesis using False
    by (simp add: Breaker_record_failure_def breaker_of_def CIRCUIT_OPEN_THRESHOLD_def Let_def probed_def min_double mult.assoc mult.commute)
qed

lemma breaker_of_succeeded: "Breaker_record_success (breaker_of h) = breaker_of (Succeeded # h)"
  by (simp add: Breaker_record_success_def breaker_of_def MAX_BACKOFF_def secs_def)

lemma breaker_run_eq: "breaker_run h = breaker_of h"
proof (induction h)
  case Nil
  show ?case by (simp add: breaker_run_def breaker_of_def Breaker_closed_def MAX_BACKOFF_def secs_def)
next
  case (Cons e h)
  then have "breaker_run (e # h) = breaker_step e (breaker_of h)" by (simp add: breaker_run_def)
  then show ?case
    by (cases e) (simp_all add: breaker_of_arrive breaker_of_failed breaker_of_succeeded)
qed

text \<open>
  C13: The circuit breaker, whatever callers interleave. After any history of arrivals, failed dials and
  successful dials, a caller that arrives at time \<open>t\<close> is refused exactly when at least five dials have
  failed since the last success and neither it nor an earlier caller has arrived thirty seconds or more
  after the last failure; the breaker reads closed exactly below five failures and half open exactly when
  such a caller has been let through; the stored backoff doubles from one second at the fifth failure and
  never passes sixty seconds.
\<close>

theorem circuit_breaker_spec:
  "(fst (Breaker_try_half_open t (breaker_run h)) \<longleftrightarrow>
      failed_dials h < 5 \<or> (\<exists>t' \<in> set (t # arrivals h). last_failure h + PROBE_INTERVAL \<le> t')) \<and>
   (Breaker_state (breaker_run h) = CircuitState_Closed \<longleftrightarrow> failed_dials h < 5) \<and>
   (Breaker_state (breaker_run h) = CircuitState_HalfOpen \<longleftrightarrow>
      5 \<le> failed_dials h \<and> (\<exists>t' \<in> set (arrivals h). last_failure h + PROBE_INTERVAL \<le> t')) \<and>
   Breaker_backoff (breaker_run h) = min (500000000 * 2 ^ (failed_dials h - 4)) (60 * 1000000000)"
  by (auto simp: breaker_run_eq breaker_of_def Breaker_try_half_open_def probed_def PROBE_INTERVAL_def MAX_BACKOFF_def secs_def)

section \<open>Connections\<close>

text \<open>A connection of a source: made and, where the source has a service account, bound by \<open>dial_one\<close>.\<close>

definition dialled :: "'l LdapLib_scheme \<Rightarrow> LdapFederationConfig \<Rightarrow> ldap_conn \<Rightarrow> bool" where
  "dialled lib cfg conn = (\<exists>tick. \<exists>url \<in> set (LdapFederationConfig_urls cfg). dial_one lib tick cfg url = Inr conn)"

lemma dial_urls_Inr:
  "dial_urls lib tick cfg urls last_err = Inr conn \<Longrightarrow> \<exists>url \<in> set urls. dial_one lib tick cfg url = Inr conn"
  by (induction urls arbitrary: last_err) (auto split: sum.splits)

lemma dial_keeps: "snd (dial lib pool) = pool\<lparr>LdapPool_cursor := LdapPool_cursor pool + 1\<rparr>"
  by (simp add: dial_def Let_def)

lemma dial_Inr:
  assumes "fst (dial lib pool) = Some (Inr conn)"
  shows "dialled lib (LdapPool_cfg pool) conn"
proof -
  let ?urls = "LdapFederationConfig_urls (LdapPool_cfg pool)"
  let ?n = "max (length ?urls) 1"
  let ?start = "unat (LdapPool_cursor pool) mod ?n"
  have some: "?urls \<noteq> []" and d: "dial_urls lib (LdapPool_cursor pool) (LdapPool_cfg pool)
      (map (\<lambda>offset. ?urls ! ((?start + offset) mod ?n)) [0..<?n]) None = Inr conn"
    using assms by (auto simp: dial_def Let_def split: if_splits)
  then have n: "?n = length ?urls" by (cases ?urls) simp_all
  have "?urls ! ((?start + offset) mod ?n) \<in> set ?urls" for offset
    using some unfolding n by (intro nth_mem) simp
  then show ?thesis using dial_urls_Inr [OF d] unfolding dialled_def by auto
qed

lemma acquire_cases:
  assumes "acquire lib now pool = (r, pool')"
  shows "LdapPool_cfg pool' = LdapPool_cfg pool"
    and "r = Some (Inr conn) \<Longrightarrow> dialled lib (LdapPool_cfg pool) conn \<and> LdapPool_permits pool = LdapPool_permits pool' + 1"
    and "(\<And>conn. r \<noteq> Some (Inr conn)) \<Longrightarrow> LdapPool_permits pool' = LdapPool_permits pool"
proof -
  obtain ok br where br: "Breaker_try_half_open (fst now) (LdapPool_breaker pool) = (ok, br)" by fastforce
  obtain d p where d: "dial lib (pool\<lparr>LdapPool_breaker := br\<rparr>) = (d, p)" by fastforce
  have p: "LdapPool_cfg p = LdapPool_cfg pool" "LdapPool_permits p = LdapPool_permits pool"
    using dial_keeps [of lib "pool\<lparr>LdapPool_breaker := br\<rparr>"] d by simp_all
  have conn: "d = Some (Inr c) \<Longrightarrow> dialled lib (LdapPool_cfg pool) c" for c
    using dial_Inr [of lib "pool\<lparr>LdapPool_breaker := br\<rparr>" c] d by simp
  note unfolded = assms [unfolded acquire_def br Let_def prod.case d]
  show "LdapPool_cfg pool' = LdapPool_cfg pool"
    using unfolded p by (auto split: if_splits option.splits sum.splits)
  show "r = Some (Inr conn) \<Longrightarrow> dialled lib (LdapPool_cfg pool) conn \<and> LdapPool_permits pool = LdapPool_permits pool' + 1"
    using unfolded p conn by (auto split: if_splits option.splits sum.splits)
  show "(\<And>conn. r \<noteq> Some (Inr conn)) \<Longrightarrow> LdapPool_permits pool' = LdapPool_permits pool"
    using unfolded p by (auto split: if_splits option.splits sum.splits)
qed

lemma with_conn_keeps:
  assumes "with_conn lib now f pool = (r, pool')"
  shows "LdapPool_cfg pool' = LdapPool_cfg pool \<and> LdapPool_permits pool' = LdapPool_permits pool"
    and "r = Some (Inr x) \<Longrightarrow> \<exists>conn. dialled lib (LdapPool_cfg pool) conn \<and> f conn = Inr x"
proof -
  obtain a p where acq: "acquire lib now pool = (a, p)" by fastforce
  note facts = acquire_cases [OF acq]
  show "LdapPool_cfg pool' = LdapPool_cfg pool \<and> LdapPool_permits pool' = LdapPool_permits pool"
    using assms facts by (auto simp: with_conn_def acq release_def split: option.splits sum.splits)
  show "\<exists>conn. dialled lib (LdapPool_cfg pool) conn \<and> f conn = Inr x" if "r = Some (Inr x)"
    using assms that facts(2) by (auto simp: with_conn_def acq split: option.splits sum.splits)
qed

lemma search_on_Inr: "search_on lib cfg conn base scope filt attrs = Inr es \<longleftrightarrow>
    ldap_search lib conn base scope filt attrs = SearchReply_Entries es"
  by (auto simp: search_on_def split: SearchReply.splits)

lemma bind_on_Success: "bind_on lib cfg dn password conn = Inr BindOutcome_Success \<longleftrightarrow>
    (\<exists>text. ldap_simple_bind lib conn dn password = BindReply_Done 0 text)"
  by (auto simp: bind_on_def split: BindReply.splits)

text \<open>
  C14: A directory password check tells the truth. \<open>bind_as_user\<close> reports success only if the directory,
  asked over a connection of this source with the rendered user filter, returned an entry first, and then,
  over another connection of this source, accepted a simple bind with that entry's name and the password
  that was given. Whatever it reports, every permit of the pool is back when it returns.
\<close>

theorem bind_as_user_sound:
  "LdapPool_permits (snd (bind_as_user lib now1 now2 username password pool)) = LdapPool_permits pool \<and>
   (fst (bind_as_user lib now1 now2 username password pool) = Some (Inr BindOutcome_Success) \<longrightarrow>
    (\<exists>probe user_conn e es text.
       dialled lib (LdapPool_cfg pool) probe \<and> dialled lib (LdapPool_cfg pool) user_conn \<and>
       ldap_search lib probe (LdapFederationConfig_base_dn (LdapPool_cfg pool)) Scope_Subtree
         (render_user_filter (LdapPool_cfg pool) username) [''dn''] = SearchReply_Entries (e # es) \<and>
       ldap_simple_bind lib user_conn (SearchEntry_dn e) password = BindReply_Done 0 text))"
proof -
  let ?cfg = "LdapPool_cfg pool"
  let ?search = "\<lambda>conn. search_on lib ?cfg conn (LdapFederationConfig_base_dn ?cfg) Scope_Subtree
    (render_user_filter ?cfg username) [''dn'']"
  obtain r p where first: "with_conn lib now1 ?search pool = (r, p)" by fastforce
  note probe = with_conn_keeps [OF first]
  show ?thesis
  proof (cases "\<exists>e es. r = Some (Inr (e # es))")
    case True
    then obtain e es where r: "r = Some (Inr (e # es))" by blast
    obtain r' p' where second: "with_conn lib now2 (bind_on lib ?cfg (SearchEntry_dn e) password) p = (r', p')" by fastforce
    have eq: "bind_as_user lib now1 now2 username password pool = (r', p')"
      by (simp add: bind_as_user_def first r second)
    obtain conn where conn: "dialled lib ?cfg conn" "?search conn = Inr (e # es)" using probe(2) [OF r] by blast
    have "\<exists>c text. dialled lib ?cfg c \<and> ldap_simple_bind lib c (SearchEntry_dn e) password = BindReply_Done 0 text"
      if "r' = Some (Inr BindOutcome_Success)"
      using with_conn_keeps(2) [OF second that] probe(1) by (simp add: bind_on_Success)
    then show ?thesis
      using conn probe(1) with_conn_keeps(1) [OF second] unfolding eq search_on_Inr fst_conv snd_conv by metis
  next
    case False
    then show ?thesis using first probe(1)
      by (auto simp: bind_as_user_def split: option.splits sum.splits list.splits)
  qed
qed

section \<open>Behaviours to know about\<close>

text \<open>
  The incremental run hands the wildcard to the function that makes user names harmless. For every source
  whose filter is one assertion on the name, it asks for the one user whose name is a star, while the full
  run asks for all.
\<close>

lemma replace_placeholder:
  "str_replace ''{username}'' new ''(uid={username})'' = ''(uid='' @ new @ '')''"
  by (simp add: str_replace.simps starts_with_def)

theorem incremental_filter_is_literal:
  assumes "LdapFederationConfig_user_filter cfg = ''(uid={username})''"
  shows "full_filter cfg = ''(uid=*)'' \<and>
    incremental_filter lib cfg attr since =
      ''(&(uid='' @ escape_filter ''*'' @ '')('' @ attr @ ''>='' @ generalized_time lib since @ ''))'' \<and>
    value_decode (escape_filter ''*'') = Some ''*'' \<and> CHR ''*'' \<notin> set (escape_filter ''*'')"
  using assms escape_byte_plain [of "CHR ''*''"] decode_escape_filter [of "''*''" "[]"]
  by (simp add: full_filter_def incremental_filter_def render_user_filter_def replace_placeholder) (simp add: escape_filter_def)

text \<open>
  An empty password is handed to the directory as it is. A simple bind with a name and no password is the
  unauthenticated bind of RFC 4513, which a directory may answer with success; the check then reports success.
\<close>

theorem empty_password_binds:
  assumes "ldap_simple_bind lib conn dn [] = BindReply_Done 0 text"
  shows "bind_on lib cfg dn [] conn = Inr BindOutcome_Success"
  using assms by (simp add: bind_on_def)

text \<open>A source without URLs panics on its first use; the message for this case is never returned.\<close>

theorem acquire_panics_without_urls:
  assumes "LdapFederationConfig_urls cfg = []"
  shows "fst (acquire lib now (LdapPool_new cfg)) = None"
proof -
  have "LdapPool_permits (LdapPool_new cfg) \<noteq> 0"
    by (auto simp: LdapPool_new_def unat_eq_0 max_def)
  then show ?thesis
    using assms by (simp add: acquire_def LdapPool_new_def Breaker_closed_def Breaker_try_half_open_def dial_def Let_def)
qed

section \<open>Witness\<close>

definition sample_ldap_config :: LdapFederationConfig where
  "sample_ldap_config = \<lparr>LdapFederationConfig_id = FederationId 1, LdapFederationConfig_realm_id = RealmId 2,
     LdapFederationConfig_alias = ''corp'', LdapFederationConfig_urls = [''ldaps://a'', ''ldaps://b''],
     LdapFederationConfig_bind_dn = None, LdapFederationConfig_bind_password = None,
     LdapFederationConfig_base_dn = ''DC=example'', LdapFederationConfig_user_object_classes = [],
     LdapFederationConfig_user_filter = ''(uid={username})'', LdapFederationConfig_page_size = 100,
     LdapFederationConfig_referrals = ReferralPolicy_Ignore, LdapFederationConfig_tls = TlsPolicy_Ldaps,
     LdapFederationConfig_attribute_map = \<lparr>AttributeMap_username = ''uid'', AttributeMap_email = None,
       AttributeMap_first_name = None, AttributeMap_last_name = None, AttributeMap_uid = ''uid'',
       AttributeMap_user_account_control = None, AttributeMap_extras = []\<rparr>,
     LdapFederationConfig_write_policy = WritePolicy_ReadOnly, LdapFederationConfig_sync_policy = SyncPolicy_OnDemand,
     LdapFederationConfig_group_sync = None, LdapFederationConfig_priority = 100,
     LdapFederationConfig_bind_timeout_ms = 50, LdapFederationConfig_search_timeout_ms = 50,
     LdapFederationConfig_pool_size = 2, LdapFederationConfig_enabled = True\<rparr>"

definition sample_ldap_lib :: LdapLib where
  "sample_ldap_lib = \<lparr>
     ldap_connect = (\<lambda>tick tls timeout url. if url = ''ldaps://a'' then Inl ''refused'' else Inr url),
     ldap_simple_bind = (\<lambda>conn dn pw. if dn = ''UID=padme'' \<and> pw = ''naboo'' then BindReply_Done 0 [] else BindReply_Done 49 []),
     ldap_search = (\<lambda>conn base scope filt attrs. SearchReply_Entries
       (if filt = ''(uid=padme)'' then [\<lparr>SearchEntry_dn = ''UID=padme'', SearchEntry_attrs = []\<rparr>] else [])),
     generalized_time = (\<lambda>_. [])\<rparr>"

lemma sample_ldap_dial:
  "dial_one sample_ldap_lib tick sample_ldap_config ''ldaps://a'' = Inl (LdapError_from ''refused'')"
  "dial_one sample_ldap_lib tick sample_ldap_config ''ldaps://b'' = Inr ''ldaps://b''"
  by (simp_all add: dial_one_def sample_ldap_lib_def sample_ldap_config_def)

lemma sample_ldap_dials:
  "dial sample_ldap_lib pool = (Some (Inr ''ldaps://b''), pool\<lparr>LdapPool_cursor := LdapPool_cursor pool + 1\<rparr>)"
  if "LdapPool_cfg pool = sample_ldap_config"
proof -
  have urls: "LdapFederationConfig_urls sample_ldap_config = [''ldaps://a'', ''ldaps://b'']"
    by (simp add: sample_ldap_config_def)
  have upto: "[0..<2] = [0, 1::nat]" by (simp add: upt_rec)
  consider "unat (LdapPool_cursor pool) mod 2 = 0" | "unat (LdapPool_cursor pool) mod 2 = 1" by linarith
  then show ?thesis
    by cases (simp_all add: dial_def that urls upto sample_ldap_dial numeral_2_eq_2 [symmetric] del: One_nat_def)
qed

lemma sample_ldap_acquire:
  "acquire sample_ldap_lib (0, 0) \<lparr>LdapPool_cfg = sample_ldap_config, LdapPool_permits = 2, LdapPool_cursor = c,
     LdapPool_breaker = Breaker_closed\<rparr> = (Some (Inr ''ldaps://b''),
   \<lparr>LdapPool_cfg = sample_ldap_config, LdapPool_permits = 1, LdapPool_cursor = c + 1, LdapPool_breaker = Breaker_closed\<rparr>)"
  by (simp add: acquire_def Breaker_try_half_open_def Breaker_closed_def Breaker_record_success_def sample_ldap_dials)

theorem bind_as_user_sound_witness:
  "fst (bind_as_user sample_ldap_lib (0, 0) (0, 0) ''padme'' ''naboo'' (LdapPool_new sample_ldap_config)) =
     Some (Inr BindOutcome_Success) \<and>
   (\<exists>probe user_conn e es text.
      dialled sample_ldap_lib sample_ldap_config probe \<and> dialled sample_ldap_lib sample_ldap_config user_conn \<and>
      ldap_search sample_ldap_lib probe ''DC=example'' Scope_Subtree
        (render_user_filter sample_ldap_config ''padme'') [''dn''] = SearchReply_Entries (e # es) \<and>
      ldap_simple_bind sample_ldap_lib user_conn (SearchEntry_dn e) ''naboo'' = BindReply_Done 0 text)"
proof -
  let ?pool = "LdapPool_new sample_ldap_config"
  have cfg: "LdapPool_cfg ?pool = sample_ldap_config" "LdapFederationConfig_base_dn sample_ldap_config = ''DC=example''"
    by (simp_all add: LdapPool_new_def sample_ldap_config_def)
  have rendered: "render_user_filter sample_ldap_config ''padme'' = ''(uid=padme)''"
    by (simp add: render_user_filter_def sample_ldap_config_def replace_placeholder escape_filter_def escape_byte_def)
  have pool: "?pool = \<lparr>LdapPool_cfg = sample_ldap_config, LdapPool_permits = 2, LdapPool_cursor = 0, LdapPool_breaker = Breaker_closed\<rparr>"
    by (simp add: LdapPool_new_def sample_ldap_config_def)
  have "fst (bind_as_user sample_ldap_lib (0, 0) (0, 0) ''padme'' ''naboo'' ?pool) = Some (Inr BindOutcome_Success)"
    unfolding pool by (simp del: One_nat_def add: bind_as_user_def with_conn_def sample_ldap_acquire release_def one_add_one rendered search_on_def bind_on_def
      sample_ldap_lib_def [THEN arg_cong [of _ _ ldap_search]] sample_ldap_lib_def [THEN arg_cong [of _ _ ldap_simple_bind]])
  then show ?thesis using bind_as_user_sound [of sample_ldap_lib "(0, 0)" "(0, 0)" "''padme''" "''naboo''" ?pool]
    unfolding cfg by blast
qed

end
