(* ===== verification/Spec2Isabelle.thy ===== *)
theory Spec2Isabelle
  imports Core_Rules Flow_DryRun Store_Orgs Access_Refine Login_Sound Admin_Sound Rate_Limit Broker_Sound Saml_Sound Ldap_Runtime
begin

text \<open>
  \<^bold>\<open>The geonosis identity provider.\<close> A verification development of the Rust workspace under
  \<^verbatim>\<open>src/crates\<close>: an OpenID Connect / OAuth 2.0 server with a graph of login steps per realm, an
  in-memory storage backend, local keys, federation with other providers and LDAP, and an
  administration API. The theories model the parts that decide who gets which token; the sections
  below say which theory models which files and what is proved there.

  \<^bold>\<open>Parts and how they interact.\<close> A browser arrives at the authorization endpoint, which reads the
  client and the session from storage and either hands out a code (single sign-on) or starts a
  login flow. The flow executor walks the compiled graph and calls authenticators through a
  dispatcher; each authenticator reads and writes storage. A finished flow leads to a session and an
  authorization code. The token endpoint redeems codes, refresh tokens, passwords, device codes and
  other tokens; the issuer signs what it hands out with a key of the key store; userinfo,
  introspection and token exchange verify it again. Storage is the only shared state: every handler
  is a function from the whole server state (\<open>AppState\<close>) to an answer and a new state.

  \<^bold>\<open>Prelude.\<close> \<^verbatim>\<open>Geo_Prelude\<close>: machine integers as words, instants and durations in nanoseconds, \<open>Result\<close>
  as a sum, \<open>HashMap\<close> and \<open>BTreeMap\<close> as association lists behind the locale \<open>table\<close>, strings as
  byte lists. \<^verbatim>\<open>Std_Text\<close>: what the handlers use of \<open>str\<close>. \<^verbatim>\<open>Samples\<close>, \<^verbatim>\<open>Server_Samples\<close>: the realm, client,
  user and library at which the witnesses apply the theorems.

  \<^bold>\<open>Core\<close> (\<^verbatim>\<open>geonosis-core\<close>). \<^verbatim>\<open>Core_Ids\<close> and \<^verbatim>\<open>Core_Entities\<close> have one record or datatype per struct or enum;
  \<^verbatim>\<open>Core_Rules\<close> the scope, redirect-URI, password-policy and profile rules.

  \<^bold>\<open>Login flows\<close> (\<^verbatim>\<open>geonosis-flow\<close>). \<^verbatim>\<open>Flow_DSL\<close>: definitions and running state; \<^verbatim>\<open>Flow_Guard\<close>: edge guards;
  \<^verbatim>\<open>Flow_Compile\<close>: the compiler, which accepts exactly the well-formed graphs with a reachable success,
  and whose errors name real defects; \<^verbatim>\<open>Flow_Exec\<close>: the step loop as a partial function (\<open>None\<close> is a loop
  that never returns) over an environment with clock and dispatcher. A run never indexes outside the
  graph; it returns when the automatically followed edges are acyclic; a run that ends with Done has
  passed a success edge of every guarding set. \<^verbatim>\<open>Flow_Builtin\<close>: the seven built-in flows, which compile,
  return and demand their factors, and a compiled flow that loops forever. \<^verbatim>\<open>Flow_DryRun\<close>: the bounded
  walk (256 steps, as in the code), which foretells a whole call of the executor when it is told the outcomes.

  \<^bold>\<open>Storage\<close> (\<^verbatim>\<open>geonosis-storage\<close>, \<^verbatim>\<open>memory.rs\<close>). \<^verbatim>\<open>Store_Identity\<close>, \<^verbatim>\<open>Store_Grants\<close>, \<^verbatim>\<open>Store_Access\<close>, \<^verbatim>\<open>Store_Integration\<close>
  and \<^verbatim>\<open>Store_Orgs\<close> extend one record of tables; every trait method is one definition and takes the write
  lock once, so it is one atomic step. Shown: codes are single-use, families revoke completely, indexes
  are exact, assignments are referentially sound, seeding is idempotent, listings give the latest
  version. \<^verbatim>\<open>Access_Refine\<close> states the role and group tables as relations and proves that the store refines
  them call by call.

  \<^bold>\<open>Protocol engines.\<close> \<^verbatim>\<open>OAuth_Pkce\<close>, \<^verbatim>\<open>OAuth_Refresh\<close>, \<^verbatim>\<open>OAuth_Grants\<close> (\<^verbatim>\<open>geonosis-protocol-oauth\<close>): PKCE, refresh
  rotation with replay detection, the code exchange. \<^verbatim>\<open>Crypto_Jwt\<close>, \<^verbatim>\<open>Crypto_Kms\<close>, \<^verbatim>\<open>Crypto_Webauthn\<close>
  (\<^verbatim>\<open>geonosis-crypto\<close>): signed tokens, the key store, WebAuthn assertions. \<^verbatim>\<open>Oidc_Issuer\<close>, \<^verbatim>\<open>Oidc_Protocol\<close>
  (\<^verbatim>\<open>geonosis-protocol-oidc\<close>): minting, and the protocol messages. The round trip from minting to
  verification is proved for every realm and claim set under the laws of the library.

  \<^bold>\<open>Authenticators\<close> (\<^verbatim>\<open>geonosis-authenticators\<close>). \<^verbatim>\<open>Authn_Base\<close>: the interface and the lockout; \<^verbatim>\<open>Authn_Otp\<close>:
  one-time passwords, whose check accepts exactly the codes of the window; \<^verbatim>\<open>Authn_Factors\<close>: the other
  factors and the registry of the server; \<^verbatim>\<open>Authn_Sound\<close>: the lockout over whole sequences of attempts and
  the single use of recovery codes.

  \<^bold>\<open>Plugins and SAML.\<close> \<^verbatim>\<open>Spi_Registry\<close> (\<^verbatim>\<open>geonosis-spi-host\<close>): bindings, their priority order, the dispatch modes
  and plugin manifests. \<^verbatim>\<open>Saml_Idp\<close> (\<^verbatim>\<open>geonosis-protocol-saml-idp\<close>): attribute mapping, the XML writers and the
  enveloped signature, which is inserted right after the issuer whatever the fields hold. \<^verbatim>\<open>Std_Xml\<close>: the events
  of an XML reader; both parsers of SAML messages are loops over them. \<^verbatim>\<open>Saml_Messages\<close>: authentication and logout
  requests, the redirect binding with its cap on inflated requests, both signature checks. \<^verbatim>\<open>Saml_Server\<close>: the
  endpoints of \<^verbatim>\<open>handlers/saml.rs\<close>. \<^verbatim>\<open>Saml_Sound\<close>: what stands behind a SAML login form and where the response of
  that login goes, what a logout removes and whom it tells.

  \<^bold>\<open>Identity broker\<close> (\<^verbatim>\<open>geonosis-broker\<close>, \<^verbatim>\<open>handlers/broker.rs\<close>). \<^verbatim>\<open>Broker_Mapper\<close>: claim mappers, which grant exactly
  what their claims say, username templates against a reference, PKCE. \<^verbatim>\<open>Broker_Oidc\<close>: discovery and its
  caches, the authorization URL, the code exchange, the checks on an id token, the adapters.
  \<^verbatim>\<open>Broker_Saml\<close>: the request, the response parser (\<open>None\<close> is its panic), the enveloped signature and the checks on
  an assertion. \<^verbatim>\<open>Broker_Server\<close>: login, callbacks, links. \<^verbatim>\<open>Broker_Sound\<close>: what a login leaves for its callback
  and what a SAML callback must have been presented; a wrapped signature that is accepted; and the
  OpenID Connect callback, which never succeeds.

  \<^bold>\<open>Rate limiter\<close> (\<^verbatim>\<open>rate_limit.rs\<close>). \<^verbatim>\<open>Rate_Limit\<close>: the bucket as a sequential function and as a program of atomic
  operations for a pool of threads. No interleaving exceeds the capacity and the refill of the time; a
  thread that runs alone refines an ideal bucket of exact arithmetic; realms do not share buckets.

  \<^bold>\<open>Server\<close> (\<^verbatim>\<open>geonosis-server\<close>). \<^verbatim>\<open>Server_Base\<close>: state, audit, counters, client authentication; \<^verbatim>\<open>Server_Token\<close>: the
  six grants; \<^verbatim>\<open>Server_Endpoints\<close>: revocation, introspection, userinfo, pushed requests, device, logout,
  metadata, health; \<^verbatim>\<open>Server_Authorize\<close>: the authorization endpoint. \<^verbatim>\<open>Server_Token_Sound\<close> and
  \<^verbatim>\<open>Server_Authorize_Sound\<close> show what must have been presented for tokens and codes to come out.
  \<^verbatim>\<open>Server_Login\<close>: the dispatcher behind the executor and the login form, from the posted form through a run
  of the browser flow to the session, the code or the signed SAML response. \<^verbatim>\<open>Login_Sound\<close>: a login names only
  a user it has identified, by an invariant along the turns of the executor; and a request for a new
  login is satisfied by the session it was meant to replace.
  \<^verbatim>\<open>Refresh_Live\<close>, \<^verbatim>\<open>Server_Db\<close> and \<^verbatim>\<open>Server_System\<close> build the transition system of all endpoints (one request at
  a time) and its invariants.

  \<^bold>\<open>Administration\<close> (\<^verbatim>\<open>geonosis-admin-ui\<close>). \<^verbatim>\<open>Admin_Base\<close>: state, errors, the middleware that lets requests in, login
  and logout, audit, organization claims; \<^verbatim>\<open>Admin_Api\<close>, \<^verbatim>\<open>Admin_Access\<close>, \<^verbatim>\<open>Admin_Orgs\<close>: the JSON endpoints of
  \<^verbatim>\<open>handlers_v1\<close>. A handler maps the state to a result and a state; \<open>admin_bind\<close> is the question mark.
  \<^verbatim>\<open>Admin_Store\<close> lists the storage calls with what the handlers establish before them (\<open>conf_step\<close>), shows that
  every handler is a sequence of such steps (\<open>runs\<close>, one rule per way of composing) and that the steps keep
  the directories. \<^verbatim>\<open>Admin_System\<close>: the service, requests to the OAuth and OpenID endpoints and to the administration on one store in any
  order; the locale \<open>service_invariant\<close> lifts an invariant of the steps to every history. \<^verbatim>\<open>Admin_Sound\<close>: who
  is let in, that a login admits for a day, and what becomes of created secrets, provider updates and
  bearer tokens.

  \<^bold>\<open>LDAP federation.\<close> \<^verbatim>\<open>Ldap_Runtime\<close> (\<open>geonosis-federation-ldap\<close>, \<open>ldap.rs\<close> of the server): mapping of entries,
  circuit breaker, pool, password check, lookups, synchronisation, registry of pools. The breaker is given in
  closed form over every history of its critical sections; a password check succeeds only when the directory
  has accepted the password for the entry the filter found; an incremental run is shown to ask for a user
  whose name is a star.

  \<^bold>\<open>Parameters.\<close> Third-party code is a record of functions (\<open>CryptoLib\<close>, \<open>JwtLib\<close>, \<open>KmsLib\<close>, \<open>OidcLib\<close>,
  \<open>HttpLib\<close>, \<open>WebauthnLib\<close>, \<open>AuthnLib\<close>, \<open>SpiLib\<close>, \<open>SamlLib\<close>, \<open>LoginLib\<close>, \<open>AdminLib\<close>,
  \<open>BrokerLib\<close>, \<open>BrokerSamlLib\<close>, \<open>SamlServerLib\<close>, \<open>LdapLib\<close>): hashes, signatures, base64, JSON coders, URL and XML parsing, HTTP, Argon2.
  Laws about them are named hypotheses (\<open>jwt_lib_laws\<close>, \<open>oidc_lib_laws\<close>, \<open>hmac_law\<close>, \<open>ulid_law\<close>), each satisfied by a
  concrete library in a witness. Clock readings and random draws are arguments.

  \<^bold>\<open>Bounds and fuel.\<close> Loops are structural recursion, or have a measure, except the step loop of the executor,
  which is a partial function; \<open>step_fuel\<close> gives its first turns for evaluation and is only used for
  witnesses. Arithmetic on \<open>u32\<close> and \<open>u64\<close> is on words; \<open>i32\<close> additions wrap explicitly as in the release
  profile; calendar arithmetic is exact, so instants outside the range of chrono are not covered.

  \<^bold>\<open>Not modelled.\<close> Concurrency of requests inside one handler (requests are served one at a time; the one
  theorem that needs an interleaving, on refresh rotation, models it by separate steps), the rate limiter
  excepted, whose threads interleave. Login-form, SAML and broker requests are modelled and have theorems of
  their own, but are not steps of the transition systems of \<^verbatim>\<open>Server_System\<close> and \<^verbatim>\<open>Admin_System\<close>. The PostgreSQL
  backend (SQL text), the administration pages, the command line, telemetry,
  the WebAssembly host, the delivery of audit events, mails, messages and logout tokens:
  they are I/O, presentation, or code around
  third-party runtimes; their components are listed in the manifest with the reason.
\<close>

end
